(* ===== verification/Prelude.thy ===== *)
theory Prelude
  imports Main "HOL-Library.Char_ord" "HOL-Library.List_Lexorder"
begin

text \<open>
  Shared vocabulary of the MCPace development: the collections of simplification rules, the
  saturating arithmetic of Rust's unsigned integers, ordered maps (\<open>BTreeMap\<close>) and ordered sets.

  Strings are the bytes of the UTF-8 text. Rust's \<open>str\<close> order is the order of the bytes, which
  is what \<^verbatim>\<open>List_Lexorder\<close> over \<^verbatim>\<open>Char_ord\<close> gives. The Unicode classes (white
  space, control characters) are modelled on ASCII: a byte above 127 belongs to none of them.
\<close>

named_theorems map_laws \<open>lookup and size laws of ordered and hash maps\<close>
named_theorems text_defs \<open>definitions of Rust's string operations\<close>
named_theorems json_path \<open>reading a JSON value by path\<close>

section \<open>Unsigned integers\<close>

text \<open>Unsigned integers are \<open>nat\<close>; the saturating operations of a \<open>w\<close>-bit type clip at its maximum.\<close>

definition uint_max :: "nat \<Rightarrow> nat" where
  "uint_max w = 2 ^ w - 1"

definition sat_add :: "nat \<Rightarrow> nat \<Rightarrow> nat \<Rightarrow> nat" where
  "sat_add w a b = min (a + b) (uint_max w)"

lemma sat_add_bound: "sat_add w a b \<le> uint_max w"
  by (simp add: sat_add_def)

lemma sat_add_exact: "a + b \<le> uint_max w \<Longrightarrow> sat_add w a b = a + b"
  by (simp add: sat_add_def)

lemma sat_add_ge: "a \<le> uint_max w \<Longrightarrow> a \<le> sat_add w a b"
  by (simp add: sat_add_def)

lemma sat_add_le: "sat_add w a b \<le> a + b"
  by (simp add: sat_add_def)

text \<open>Saturating subtraction is the truncated subtraction of \<open>nat\<close>; \<open>checked_sub\<close> is partial.\<close>

definition checked_sub :: "nat \<Rightarrow> nat \<Rightarrow> nat option" where
  "checked_sub a b = (if b \<le> a then Some (a - b) else None)"

text \<open>\<open>Option::or\<close>, \<open>Option::unwrap_or\<close> and an option as an iterator.\<close>

definition or_else :: "'a option \<Rightarrow> 'a option \<Rightarrow> 'a option" where
  "or_else a b = (case a of None \<Rightarrow> b | Some x \<Rightarrow> Some x)"

definition unwrap_or :: "'a option \<Rightarrow> 'a \<Rightarrow> 'a" where
  "unwrap_or v d = (case v of None \<Rightarrow> d | Some x \<Rightarrow> x)"

definition opt_list :: "'a option \<Rightarrow> 'a list" where
  "opt_list v = (case v of None \<Rightarrow> [] | Some x \<Rightarrow> [x])"

lemma or_else_simps [simp]: "or_else None b = b" "or_else (Some x) b = Some x"
  by (simp_all add: or_else_def)

lemma unwrap_or_simps [simp]: "unwrap_or None d = d" "unwrap_or (Some x) d = x"
  by (simp_all add: unwrap_or_def)

lemma opt_list_simps [simp]: "opt_list None = []" "opt_list (Some x) = [x]"
  by (simp_all add: opt_list_def)

section \<open>Ordered maps\<close>

text \<open>
  A \<open>BTreeMap\<close> is the association list of its entries in ascending key order. Its well-formedness
  (\<open>bt_ok\<close>) is the type invariant that every operation keeps.
\<close>

fun bt_insert :: "'k::linorder \<Rightarrow> 'v \<Rightarrow> ('k \<times> 'v) list \<Rightarrow> ('k \<times> 'v) list" where
  "bt_insert k v [] = [(k, v)]"
| "bt_insert k v ((a, b) # m) =
     (if k < a then (k, v) # (a, b) # m
      else if k = a then (k, v) # m
      else (a, b) # bt_insert k v m)"

definition bt_remove :: "'k \<Rightarrow> ('k \<times> 'v) list \<Rightarrow> ('k \<times> 'v) list" where
  "bt_remove k m = filter (\<lambda>e. fst e \<noteq> k) m"

definition bt_retain :: "('k \<Rightarrow> 'v \<Rightarrow> bool) \<Rightarrow> ('k \<times> 'v) list \<Rightarrow> ('k \<times> 'v) list" where
  "bt_retain p m = filter (\<lambda>e. p (fst e) (snd e)) m"

definition bt_ok :: "('k::linorder \<times> 'v) list \<Rightarrow> bool" where
  "bt_ok m \<longleftrightarrow> sorted_wrt (<) (map fst m)"

lemma bt_ok_Nil [simp]: "bt_ok []"
  by (simp add: bt_ok_def)

lemma bt_ok_Cons [simp]: "bt_ok (e # m) \<longleftrightarrow> (\<forall>x \<in> set m. fst e < fst x) \<and> bt_ok m"
  by (auto simp: bt_ok_def)

lemma map_of_bt_insert [simp, map_laws]: "map_of (bt_insert k v m) = (map_of m)(k \<mapsto> v)"
  by (induction m rule: bt_insert.induct) (auto simp: fun_eq_iff)

lemma fst_set_bt_insert: "fst ` set (bt_insert k v m) = insert k (fst ` set m)"
  by (simp flip: dom_map_of_conv_image_fst)

lemma bt_ok_insert [simp, intro]: "bt_ok m \<Longrightarrow> bt_ok (bt_insert k v m)"
proof (induction m)
  case (Cons e m)
  obtain a b where e: "e = (a, b)" by force
  have "\<forall>x \<in> set (bt_insert k v m). a < fst x" if "a < k"
    using Cons.prems that fst_set_bt_insert [of k v m] by (force simp: e)
  with Cons show ?case by (auto simp: e)
qed simp

lemma bt_ok_filter [simp, intro]: "bt_ok m \<Longrightarrow> bt_ok (filter p m)"
  by (induction m) auto

lemma bt_ok_remove [simp, intro]: "bt_ok m \<Longrightarrow> bt_ok (bt_remove k m)"
  by (simp add: bt_remove_def)

lemma bt_ok_retain [simp, intro]: "bt_ok m \<Longrightarrow> bt_ok (bt_retain p m)"
  by (simp add: bt_retain_def)

lemma bt_ok_distinct: "bt_ok m \<Longrightarrow> distinct (map fst m)"
  by (induction m) auto

lemma bt_in_set: "bt_ok m \<Longrightarrow> (k, v) \<in> set m \<longleftrightarrow> map_of m k = Some v"
  by (simp add: bt_ok_distinct)

lemma set_bt_insert: "bt_ok m \<Longrightarrow> set (bt_insert k v m) = insert (k, v) {e \<in> set m. fst e \<noteq> k}"
  by (auto simp: bt_in_set split: if_splits)

lemma map_of_bt_remove [simp, map_laws]: "map_of (bt_remove k m) = (map_of m)(k := None)"
  by (induction m) (auto simp: bt_remove_def fun_eq_iff)

lemma map_of_bt_retain [map_laws]:
  "bt_ok m \<Longrightarrow> map_of (bt_retain p m) k =
     (case map_of m k of None \<Rightarrow> None | Some v \<Rightarrow> if p k v then Some v else None)"
proof (induction m)
  case (Cons e m)
  obtain a b where e: "e = (a, b)" by force
  have "map_of m a = None" using Cons.prems by (force simp: e map_of_eq_None_iff)
  with Cons show ?case by (auto simp: e bt_retain_def split: option.splits)
qed (simp add: bt_retain_def)

lemma length_bt_insert [map_laws]:
  "bt_ok m \<Longrightarrow> length (bt_insert k v m) = (if map_of m k = None then Suc (length m) else length m)"
proof (induction m)
  case (Cons e m)
  obtain a b where e: "e = (a, b)" by force
  have "k < a \<Longrightarrow> map_of m k = None"
    using Cons.prems by (force simp: e map_of_eq_None_iff)
  with Cons show ?case by (auto simp: e)
qed simp

lemma length_bt_remove [map_laws]:
  "bt_ok m \<Longrightarrow> length (bt_remove k m) = (if map_of m k = None then length m else length m - 1)"
proof (induction m)
  case (Cons e m)
  obtain a b where e: "e = (a, b)" by force
  have "k = a \<Longrightarrow> map_of m k = None"
    using Cons.prems by (force simp: e map_of_eq_None_iff)
  moreover have "map_of m k \<noteq> None \<Longrightarrow> length m > 0" by (cases m) auto
  ultimately show ?case using Cons by (auto simp: e bt_remove_def)
qed (simp add: bt_remove_def)

lemma length_bt_remove_le: "length (bt_remove k m) \<le> length m"
  by (simp add: bt_remove_def)

lemma map_of_values: "bt_ok m \<Longrightarrow> v \<in> snd ` set m \<longleftrightarrow> (\<exists>k. map_of m k = Some v)"
  by (force dest: bt_ok_distinct map_of_is_SomeI map_of_SomeD)

text \<open>Two well-formed maps with the same lookups are the same list.\<close>

lemma bt_ext: "bt_ok m \<Longrightarrow> bt_ok n \<Longrightarrow> map_of m = map_of n \<Longrightarrow> m = n"
proof (induction m arbitrary: n)
  case Nil
  then show ?case by (metis map_of_eq_empty_iff)
next
  case (Cons e m)
  obtain a b where e: "e = (a, b)" by force
  have "map_of n a = Some b" using fun_cong [OF Cons.prems(3), of a] by (simp add: e)
  then obtain f n' where n: "n = f # n'" by (cases n) auto
  obtain c d where f: "f = (c, d)" by force
  have get_c: "map_of (e # m) c = Some d" using fun_cong [OF Cons.prems(3), of c] by (simp add: n f)
  have "a = c"
  proof (rule ccontr)
    assume "a \<noteq> c"
    then have "map_of m c = Some d" and "map_of n' a = Some b"
      using get_c \<open>map_of n a = Some b\<close> by (auto simp: e n f)
    then have "(c, d) \<in> set m" and "(a, b) \<in> set n'" by (auto dest: map_of_SomeD)
    then have "a < c" and "c < a" using Cons.prems(1,2) by (force simp: e n f)+
    then show False by simp
  qed
  have none: "map_of m a = None" "map_of n' a = None"
    using Cons.prems(1,2) by (force simp: e n f map_of_eq_None_iff \<open>a = c\<close>)+
  have "map_of m x = map_of n' x" for x
    using fun_cong [OF Cons.prems(3), of x] none by (cases "x = a") (simp_all add: e n f \<open>a = c\<close>)
  then have "map_of m = map_of n'" by (rule ext)
  moreover have "b = d" using get_c by (simp add: e \<open>a = c\<close>)
  ultimately show ?case using Cons by (simp add: e n f \<open>a = c\<close>)
qed

section \<open>Ordered sets\<close>

text \<open>A \<open>BTreeSet\<close> is the ascending list of its elements; \<open>insort_insert\<close> is its insertion.\<close>

lemma set_insort_insert: "set (insort_insert x xs) = insert x (set xs)"
  by (auto simp: insort_insert_key_def set_insort_key)

end
