(* ===== verification/Rust_Text.thy ===== *)
theory Rust_Text
  imports Prelude
begin

text \<open>
  Rust's string operations on byte strings, decimal numerals with their round trip, and the
  validators of \<^verbatim>\<open>src/text_utils.rs\<close> (header names and values, shell composition, trimmed
  optional strings, sorted unique lists).
\<close>

section \<open>Characters and trimming\<close>

definition code :: "char \<Rightarrow> nat" where
  "code c = of_char c"

definition is_ws :: "char \<Rightarrow> bool" where
  "is_ws c \<longleftrightarrow> code c \<in> {9, 10, 11, 12, 13, 32}"

definition is_control :: "char \<Rightarrow> bool" where
  "is_control c \<longleftrightarrow> code c < 32 \<or> code c = 127"

definition is_digit :: "char \<Rightarrow> bool" where
  "is_digit c \<longleftrightarrow> 48 \<le> code c \<and> code c \<le> 57"

definition is_upper :: "char \<Rightarrow> bool" where
  "is_upper c \<longleftrightarrow> 65 \<le> code c \<and> code c \<le> 90"

definition is_lower :: "char \<Rightarrow> bool" where
  "is_lower c \<longleftrightarrow> 97 \<le> code c \<and> code c \<le> 122"

definition is_alnum :: "char \<Rightarrow> bool" where
  "is_alnum c \<longleftrightarrow> is_digit c \<or> is_upper c \<or> is_lower c"

definition lower_char :: "char \<Rightarrow> char" where
  "lower_char c = (if is_upper c then char_of (code c + 32) else c)"

definition to_ascii_lowercase :: "string \<Rightarrow> string" where
  "to_ascii_lowercase s = map lower_char s"

definition trim_matches :: "(char \<Rightarrow> bool) \<Rightarrow> string \<Rightarrow> string" where
  "trim_matches p s = rev (dropWhile p (rev (dropWhile p s)))"

definition trim :: "string \<Rightarrow> string" where
  "trim s = trim_matches is_ws s"

definition starts_with :: "string \<Rightarrow> string \<Rightarrow> bool" where
  "starts_with s p \<longleftrightarrow> take (length p) s = p"

fun contains :: "string \<Rightarrow> string \<Rightarrow> bool" where
  "contains [] p = (p = [])"
| "contains (c # s) p = (starts_with (c # s) p \<or> contains s p)"

fun join :: "string \<Rightarrow> string list \<Rightarrow> string" where
  "join sep [] = []"
| "join sep [x] = x"
| "join sep (x # y # xs) = x @ sep @ join sep (y # xs)"

lemmas [text_defs] = code_def is_ws_def is_control_def is_digit_def is_upper_def is_lower_def
  is_alnum_def lower_char_def to_ascii_lowercase_def trim_matches_def trim_def starts_with_def

lemma trim_matches_ends:
  assumes "trim_matches p s = c # r"
  shows "\<not> p c" "\<not> p (last (c # r))"
proof -
  let ?d = "dropWhile p s"
  obtain z where z: "?d = trim_matches p s @ z"
    by (metis takeWhile_dropWhile_id rev_append rev_rev_ident trim_matches_def)
  then have "hd ?d = c" "?d \<noteq> []" using assms by auto
  then show "\<not> p c" using hd_dropWhile by blast
  have "dropWhile p (rev ?d) = rev (c # r)"
    using assms by (metis rev_rev_ident trim_matches_def)
  moreover have "hd (rev (c # r)) = last (c # r)" by (metis hd_rev)
  ultimately show "\<not> p (last (c # r))" by (metis hd_dropWhile list.simps(3) rev_is_Nil_conv)
qed

lemma dropWhile_id: "s = [] \<or> \<not> p (hd s) \<Longrightarrow> dropWhile p s = s"
  by (cases s) auto

lemma trim_matches_idem: "trim_matches p (trim_matches p s) = trim_matches p s"
proof (cases "trim_matches p s")
  case (Cons c r)
  note ends = trim_matches_ends [OF Cons]
  have "dropWhile p (c # r) = c # r" using ends(1) by simp
  moreover have "dropWhile p (rev (c # r)) = rev (c # r)"
    using ends(2) by (intro dropWhile_id disjI2) (simp add: hd_rev del: rev.simps)
  ultimately show ?thesis unfolding Cons unfolding trim_matches_def by (simp only: rev_rev_ident)
next
  case Nil
  show ?thesis unfolding Nil by (simp add: trim_matches_def)
qed

lemma trim_idem [simp]: "trim (trim s) = trim s"
  by (simp add: trim_def trim_matches_idem)

lemma set_trim_matches: "set (trim_matches p s) \<subseteq> set s"
  unfolding trim_matches_def by (metis order_trans set_dropWhileD set_rev subsetI)

lemma trim_matches_none: "\<forall>c \<in> set s. \<not> p c \<Longrightarrow> trim_matches p s = s"
  unfolding trim_matches_def
  by (metis dropWhile_id hd_in_set rev_rev_ident set_rev)

section \<open>Decimal numerals\<close>

definition digit_char :: "nat \<Rightarrow> char" where
  "digit_char d = char_of (48 + d)"

fun show_nat :: "nat \<Rightarrow> string" where
  "show_nat n = (if n < 10 then [digit_char n] else show_nat (n div 10) @ [digit_char (n mod 10)])"

declare show_nat.simps [simp del]

definition digits_val :: "string \<Rightarrow> nat" where
  "digits_val s = foldl (\<lambda>n c. 10 * n + (code c - 48)) 0 s"

text \<open>\<open>str::parse\<close> for an unsigned type with the given maximum: an optional plus sign, at least one
  digit, nothing else, and no overflow.\<close>

definition strip_plus :: "string \<Rightarrow> string" where
  "strip_plus s = (case s of [] \<Rightarrow> [] | c # r \<Rightarrow> if c = CHR ''+'' then r else s)"

definition parse_uint :: "nat \<Rightarrow> string \<Rightarrow> nat option" where
  "parse_uint maximum s =
     (let ds = strip_plus s
      in if ds = [] \<or> \<not> list_all is_digit ds then None
         else if digits_val ds \<le> maximum then Some (digits_val ds) else None)"

definition parse_i64 :: "string \<Rightarrow> int option" where
  "parse_i64 s =
     (case s of
        [] \<Rightarrow> None
      | c # r \<Rightarrow>
          if c = CHR ''-''
          then (if r = [] \<or> \<not> list_all is_digit r \<or> digits_val r > 2 ^ 63 then None
                else Some (- int (digits_val r)))
          else map_option int (parse_uint (2 ^ 63 - 1) s))"

abbreviation parse_u128 :: "string \<Rightarrow> nat option" where
  "parse_u128 \<equiv> parse_uint (uint_max 128)"

lemma code_digit_char [simp]: "d < 10 \<Longrightarrow> code (digit_char d) = 48 + d"
  by (simp add: code_def digit_char_def of_char_of)

lemma is_digit_digit_char: "d < 10 \<Longrightarrow> is_digit (digit_char d)"
  by (simp add: is_digit_def)

lemma show_nat_digits: "list_all is_digit (show_nat n)"
proof (induction n rule: show_nat.induct)
  case (1 n)
  then show ?case by (subst show_nat.simps) (simp add: is_digit_digit_char)
qed

lemma show_nat_nonempty [simp]: "show_nat n \<noteq> []"
  by (subst show_nat.simps) simp

lemma digits_val_show_nat [simp]: "digits_val (show_nat n) = n"
proof (induction n rule: show_nat.induct)
  case (1 n)
  show ?case
  proof (cases "n < 10")
    case True
    then show ?thesis by (subst show_nat.simps) (simp add: digits_val_def)
  next
    case False
    with 1 have "foldl (\<lambda>n c. 10 * n + (code c - 48)) 0 (show_nat (n div 10)) = n div 10"
      by (simp add: digits_val_def)
    with False show ?thesis by (subst show_nat.simps) (simp add: digits_val_def)
  qed
qed

lemma strip_plus_show_nat [simp]: "strip_plus (show_nat n) = show_nat n"
  using show_nat_digits [of n] by (auto simp: strip_plus_def is_digit_def code_def split: list.splits)

lemma parse_uint_show_nat [simp]:
  "parse_uint maximum (show_nat n) = (if n \<le> maximum then Some n else None)"
  by (simp add: parse_uint_def show_nat_digits)

lemma parse_i64_show_nat [simp]:
  "parse_i64 (show_nat n) = (if n < 2 ^ 63 then Some (int n) else None)"
proof (cases "show_nat n")
  case (Cons c r)
  then have "c \<noteq> CHR ''-''" using show_nat_digits [of n] by (auto simp: is_digit_def code_def)
  then have "parse_i64 (show_nat n) = map_option int (parse_uint (2 ^ 63 - 1) (show_nat n))"
    by (simp add: parse_i64_def Cons)
  then show ?thesis by auto
qed simp

lemma show_nat_inject [simp]: "show_nat m = show_nat n \<longleftrightarrow> m = n"
  by (metis digits_val_show_nat)

section \<open>The validators of \<^verbatim>\<open>text_utils.rs\<close>\<close>

definition yes_no :: "bool \<Rightarrow> string" where
  "yes_no value = (if value then ''yes'' else ''no'')"

definition normalize_flag :: "string \<Rightarrow> string" where
  "normalize_flag value = to_ascii_lowercase (trim value)"

definition join_or_none :: "string list \<Rightarrow> string" where
  "join_or_none values = (if values = [] then ''none'' else join '', '' values)"

definition ascii_alnum_dash_underscore :: "string \<Rightarrow> bool" where
  "ascii_alnum_dash_underscore value \<longleftrightarrow>
     value \<noteq> [] \<and> list_all (\<lambda>ch. is_alnum ch \<or> ch \<in> {CHR ''-'', CHR ''_''}) value"

definition valid_http_header_name :: "string \<Rightarrow> bool" where
  "valid_http_header_name value \<longleftrightarrow>
     value \<noteq> [] \<and>
     list_all (\<lambda>byte. is_alnum byte \<or> byte \<in> {CHR ''-'', CHR ''_'', CHR ''.'', CHR ''~''}) value"

definition reserved_mcp_http_header_name :: "string \<Rightarrow> bool" where
  "reserved_mcp_http_header_name value \<longleftrightarrow>
     to_ascii_lowercase (trim value) \<in>
       {''host'', ''content-length'', ''transfer-encoding'', ''connection'', ''accept'',
        ''content-type'', ''mcp-protocol-version'', ''mcp-session-id''}"

definition visible_ascii :: "char \<Rightarrow> bool" where
  "visible_ascii byte \<longleftrightarrow> 33 \<le> code byte \<and> code byte \<le> 126"

definition valid_http_field_value :: "string \<Rightarrow> bool" where
  "valid_http_field_value value \<longleftrightarrow>
     value \<noteq> [] \<and> list_all (\<lambda>byte. byte = CHR '' '' \<or> visible_ascii byte) value"

definition valid_http_header_value :: "string \<Rightarrow> bool" where
  "valid_http_header_value value \<longleftrightarrow> value \<noteq> [] \<and> list_all visible_ascii value"

text \<open>The scanner of \<open>uses_shell_composition\<close>: the three flags of the loop and the rest of the text.\<close>

fun shell_scan :: "bool \<Rightarrow> bool \<Rightarrow> bool \<Rightarrow> string \<Rightarrow> bool" where
  "shell_scan single_quoted double_quoted escaped [] = False"
| "shell_scan single_quoted double_quoted escaped (ch # rest) =
     (if escaped then shell_scan single_quoted double_quoted False rest
      else if ch = CHR 0x5C \<and> \<not> single_quoted then shell_scan single_quoted double_quoted True rest
      else if ch = CHR 0x27 \<and> \<not> double_quoted
        then shell_scan (\<not> single_quoted) double_quoted False rest
      else if ch = CHR 0x22 \<and> \<not> single_quoted
        then shell_scan single_quoted (\<not> double_quoted) False rest
      else if single_quoted \<or> double_quoted then shell_scan single_quoted double_quoted False rest
      else if ch \<in> {CHR 0x60, CHR '';'', CHR ''|'', CHR ''<'', CHR ''>'', CHR ''&''} then True
      else if ch = CHR ''$'' \<and> rest \<noteq> [] \<and> hd rest = CHR ''('' then True
      else shell_scan single_quoted double_quoted False rest)"

definition uses_shell_composition :: "string \<Rightarrow> bool" where
  "uses_shell_composition value = shell_scan False False False value"

definition trimmed_non_empty_owned :: "string option \<Rightarrow> string option" where
  "trimmed_non_empty_owned value =
     Option.bind value (\<lambda>v. if trim v = [] then None else Some (trim v))"

definition sorted_unique :: "string list \<Rightarrow> string list" where
  "sorted_unique values = remdups_adj (sort values)"

lemma distinct_remdups_adj_sorted: "sorted xs \<Longrightarrow> distinct (remdups_adj (xs::'a::linorder list))"
  by (induction xs rule: remdups_adj.induct) auto

lemma sorted_unique_spec:
  "sorted (sorted_unique xs)" "distinct (sorted_unique xs)" "set (sorted_unique xs) = set xs"
  by (auto simp: sorted_unique_def sorted_remdups_adj distinct_remdups_adj_sorted)

lemma trimmed_non_empty_owned_Some:
  "trimmed_non_empty_owned v = Some t \<Longrightarrow> t \<noteq> [] \<and> trim t = t"
  by (auto simp: trimmed_non_empty_owned_def bind_eq_Some_conv split: if_splits)

end
