(* ===== verification/Json.thy ===== *)
theory Json
  imports Rust_Text
begin

text \<open>
  \<open>JsonValue\<close> of \<^verbatim>\<open>src/json.rs\<close> and the accessors of \<^verbatim>\<open>src/json_helpers.rs\<close>.
  An object is the ordered map of its members (\<^verbatim>\<open>BTreeMap\<close>); \<open>json_ok\<close> says that every
  object inside a value is well-formed, which is the Rust type's own invariant. Parsing and
  printing are done by the \<^verbatim>\<open>serde_json\<close> crate: they are parameters wherever they are used.
\<close>

datatype json =
    JNull
  | JBool bool
  | JNumber string
  | JString string
  | JArray "json list"
  | JObject "(string \<times> json) list"

type_synonym json_map = "(string \<times> json) list"

fun json_ok :: "json \<Rightarrow> bool" where
  "json_ok (JArray items) = (\<forall>v \<in> set items. json_ok v)"
| "json_ok (JObject m) = (bt_ok m \<and> (\<forall>e \<in> set m. json_ok (snd e)))"
| "json_ok _ = True"

definition map_ok :: "json_map \<Rightarrow> bool" where
  "map_ok m \<longleftrightarrow> bt_ok m \<and> (\<forall>e \<in> set m. json_ok (snd e))"

section \<open>Constructors and accessors\<close>

definition json_object :: "(string \<times> json) list \<Rightarrow> json" where
  "json_object entries = JObject (fold (\<lambda>(key, value) m. bt_insert key value m) entries [])"

definition json_number :: "nat \<Rightarrow> json" where
  "json_number n = JNumber (show_nat n)"

definition json_strings :: "string list \<Rightarrow> json" where
  "json_strings xs = JArray (map JString xs)"

fun json_get :: "json \<Rightarrow> string \<Rightarrow> json option" where
  "json_get (JObject m) key = map_of m key"
| "json_get _ key = None"

fun as_object :: "json \<Rightarrow> json_map option" where
  "as_object (JObject m) = Some m"
| "as_object _ = None"

fun as_array :: "json \<Rightarrow> json list option" where
  "as_array (JArray items) = Some items"
| "as_array _ = None"

fun as_str :: "json \<Rightarrow> string option" where
  "as_str (JString s) = Some s"
| "as_str _ = None"

fun as_bool :: "json \<Rightarrow> bool option" where
  "as_bool (JBool b) = Some b"
| "as_bool _ = None"

fun as_i64 :: "json \<Rightarrow> int option" where
  "as_i64 (JNumber s) = parse_i64 s"
| "as_i64 _ = None"

section \<open>Access by path\<close>

fun value_at_path :: "json \<Rightarrow> string list \<Rightarrow> json option" where
  "value_at_path v [] = Some v"
| "value_at_path v (key # path) = Option.bind (json_get v key) (\<lambda>w. value_at_path w path)"

definition object_at_path :: "json \<Rightarrow> string list \<Rightarrow> json_map option" where
  "object_at_path v path = Option.bind (value_at_path v path) as_object"

definition array_at_path :: "json \<Rightarrow> string list \<Rightarrow> json list option" where
  "array_at_path v path = Option.bind (value_at_path v path) as_array"

definition string_at_path :: "json \<Rightarrow> string list \<Rightarrow> string option" where
  "string_at_path v path = Option.bind (value_at_path v path) as_str"

definition bool_at_path :: "json \<Rightarrow> string list \<Rightarrow> bool option" where
  "bool_at_path v path = Option.bind (value_at_path v path) as_bool"

definition mcp_servers_object_with_key :: "json \<Rightarrow> (string \<times> json_map) option" where
  "mcp_servers_object_with_key v =
     (case object_at_path v [''mcpServers''] of
        Some servers \<Rightarrow> Some (''mcpServers'', servers)
      | None \<Rightarrow> map_option (Pair ''servers'') (object_at_path v [''servers'']))"

definition mcp_servers_object :: "json \<Rightarrow> json_map option" where
  "mcp_servers_object v = map_option snd (mcp_servers_object_with_key v)"

definition strings_from_array :: "json list option \<Rightarrow> string list" where
  "strings_from_array value =
     filter (\<lambda>item. item \<noteq> [])
       (List.map_filter (\<lambda>item. map_option trim (as_str item)) (case value of None \<Rightarrow> [] | Some xs \<Rightarrow> xs))"

fun json_string_or_null :: "string option \<Rightarrow> json" where
  "json_string_or_null (Some s) = JString s"
| "json_string_or_null None = JNull"

definition empty_object :: json where
  "empty_object = JObject []"

definition optional_number :: "nat option \<Rightarrow> json" where
  "optional_number value = (case value of None \<Rightarrow> JNull | Some n \<Rightarrow> json_number n)"

datatype json_file_error = ReadError string | ParseError string

definition MAX_JSON_FILE_BYTES :: nat where
  "MAX_JSON_FILE_BYTES = 64 * 1024 * 1024"

text \<open>\<open>read_json_file\<close>: the bytes the file system returned (an error text, or the file's contents, of
  which at most the limit plus one byte is read) and the parser of \<^verbatim>\<open>serde_json\<close> are arguments.\<close>

definition read_json_file ::
  "(string \<Rightarrow> string + json) \<Rightarrow> string + string \<Rightarrow> json_file_error + json" where
  "read_json_file parse_str contents =
     (case contents of
        Inl error \<Rightarrow> Inl (ReadError error)
      | Inr bytes \<Rightarrow>
          let raw = take (MAX_JSON_FILE_BYTES + 1) bytes
          in if length raw > MAX_JSON_FILE_BYTES
             then Inl (ReadError (''JSON file exceeds the '' @ show_nat MAX_JSON_FILE_BYTES
                                  @ ''-byte safety limit''))
             else (case parse_str raw of Inl error \<Rightarrow> Inl (ParseError error) | Inr v \<Rightarrow> Inr v))"

lemmas [json_path] = object_at_path_def array_at_path_def string_at_path_def bool_at_path_def

section \<open>Well-formedness and lookup laws\<close>

lemma map_ok_Nil [simp]: "map_ok []"
  by (simp add: map_ok_def)

lemma map_ok_insert [simp, intro]: "map_ok m \<Longrightarrow> json_ok v \<Longrightarrow> map_ok (bt_insert k v m)"
  by (auto simp: map_ok_def set_bt_insert)

lemma map_ok_remove [simp, intro]: "map_ok m \<Longrightarrow> map_ok (bt_remove k m)"
  by (auto simp: map_ok_def bt_remove_def)

lemma map_ok_retain [simp, intro]: "map_ok m \<Longrightarrow> map_ok (bt_retain p m)"
  by (auto simp: map_ok_def bt_retain_def)

lemma map_ok_bt_ok [simp]: "map_ok m \<Longrightarrow> bt_ok m"
  by (simp add: map_ok_def)

lemma map_ok_lookup: "map_ok m \<Longrightarrow> map_of m k = Some v \<Longrightarrow> json_ok v"
  by (force simp: map_ok_def dest: map_of_SomeD)

lemma json_ok_JObject [simp]: "json_ok (JObject m) \<longleftrightarrow> map_ok m"
  by (simp add: map_ok_def)

declare json_ok.simps(2) [simp del]

lemma map_ok_fold_insert:
  "map_ok m \<Longrightarrow> \<forall>e \<in> set es. json_ok (snd e) \<Longrightarrow>
   map_ok (fold (\<lambda>(k, v) m. bt_insert k v m) es m)"
  by (induction es arbitrary: m) auto

lemma json_ok_object: "\<forall>e \<in> set es. json_ok (snd e) \<Longrightarrow> json_ok (json_object es)"
  by (simp add: json_object_def map_ok_fold_insert)

lemma json_ok_number [simp]: "json_ok (json_number n)"
  by (simp add: json_number_def)

lemma json_ok_string_or_null [simp]: "json_ok (json_string_or_null s)"
  by (cases s) auto

lemma json_ok_strings [simp]: "json_ok (json_strings xs)"
  by (simp add: json_strings_def)

text \<open>Reading a member of a freshly built object: the last entry with the key wins.\<close>

lemma map_of_fold_insert:
  "map_of (fold (\<lambda>(k, v) m. bt_insert k v m) es m) = map_of m ++ map_of (rev es)"
  by (induction es arbitrary: m) (auto simp: fun_eq_iff map_add_def split: option.splits)

lemma json_get_object [json_path]: "json_get (json_object es) k = map_of (rev es) k"
  by (simp add: json_object_def map_of_fold_insert)

definition json_entries :: "(string \<times> json) list \<Rightarrow> json_map" where
  "json_entries es = fold (\<lambda>(key, value) m. bt_insert key value m) es []"

lemma as_object_object [json_path]: "as_object (json_object es) = Some (json_entries es)"
  by (simp add: json_object_def json_entries_def)

lemma map_of_entries [json_path]: "map_of (json_entries es) k = map_of (rev es) k"
  by (simp add: json_entries_def map_of_fold_insert)

lemma value_at_path_append:
  "value_at_path v (p @ q) = Option.bind (value_at_path v p) (\<lambda>w. value_at_path w q)"
  by (induction p arbitrary: v) (auto split: bind_splits)

lemma value_at_path_ok: "json_ok v \<Longrightarrow> value_at_path v p = Some w \<Longrightarrow> json_ok w"
proof (induction p arbitrary: v)
  case (Cons k p)
  then obtain u where u: "json_get v k = Some u" "value_at_path u p = Some w"
    by (auto simp: bind_eq_Some_conv)
  from u(1) Cons.prems(1) have "json_ok u" by (cases v) (auto intro: map_ok_lookup)
  with Cons.IH u(2) show ?case by blast
qed simp

end
