(* ===== verification/Lease_Route.thy ===== *)
theory Lease_Route
  imports Json
begin

text \<open>
  Routes of the hub's lease manager (\<^verbatim>\<open>src/hub/leases.rs\<close>): the planned route of a server, how
  it is read from the client routing plan or made up conservatively for a server that is only in
  the MCP settings, what blocks it, and its JSON form.
\<close>

section \<open>Reading lease JSON\<close>

definition quoted :: "string \<Rightarrow> string" where
  "quoted s = [CHR 0x27] @ s @ [CHR 0x27]"

definition number_u128_at :: "json \<Rightarrow> string list \<Rightarrow> nat option" where
  "number_u128_at v path =
     Option.bind (value_at_path v path) (\<lambda>w. case w of JNumber text \<Rightarrow> parse_u128 text | _ \<Rightarrow> None)"

definition optional_string :: "json \<Rightarrow> string list \<Rightarrow> string option" where
  "optional_string v path =
     Option.bind (value_at_path v path) (\<lambda>w. case w of JString text \<Rightarrow> Some text | _ \<Rightarrow> None)"

definition required_string :: "json \<Rightarrow> string list \<Rightarrow> string" where
  "required_string v path = (case optional_string v path of None \<Rightarrow> [] | Some s \<Rightarrow> s)"

definition required_usize :: "json \<Rightarrow> string list \<Rightarrow> nat" where
  "required_usize v path =
     (case Option.bind (value_at_path v path) as_i64 of
        Some i \<Rightarrow> if 0 \<le> i then nat i else 1
      | None \<Rightarrow> 1)"

definition strings_at :: "json \<Rightarrow> string list \<Rightarrow> string list" where
  "strings_at v path =
     List.map_filter as_str (case array_at_path v path of None \<Rightarrow> [] | Some items \<Rightarrow> items)"

definition expires_at_ms :: "json \<Rightarrow> nat option" where
  "expires_at_ms v =
     Option.bind (value_at_path v [''expiresAtMs''])
       (\<lambda>w. case w of JNumber text \<Rightarrow> parse_u128 text | _ \<Rightarrow> None)"

section \<open>Tokens, time to live, server names\<close>

definition sanitize_push :: "string \<Rightarrow> char \<Rightarrow> string" where
  "sanitize_push output ch =
     (if is_alnum ch then output @ [lower_char ch]
      else if ch \<in> {CHR ''-'', CHR ''_'', CHR ''.''} then output @ [ch]
      else if output \<noteq> [] \<and> last output = CHR ''-'' then output
      else output @ [CHR ''-''])"

definition sanitize_token :: "string \<Rightarrow> string" where
  "sanitize_token value = trim_matches (\<lambda>c. c = CHR ''-'') (foldl sanitize_push [] value)"

definition non_empty_token :: "string \<Rightarrow> string \<Rightarrow> string" where
  "non_empty_token value fallback =
     (let token = sanitize_token value in if token = [] then fallback else token)"

definition DEFAULT_LEASE_TTL_MS :: nat where
  "DEFAULT_LEASE_TTL_MS = 120000"

definition MAX_LEASE_TTL_MS :: nat where
  "MAX_LEASE_TTL_MS = 3600000"

definition normalize_ttl :: "nat option \<Rightarrow> nat" where
  "normalize_ttl ttl_ms =
     (case ttl_ms of
        Some value \<Rightarrow> if value > 0 then min value MAX_LEASE_TTL_MS else DEFAULT_LEASE_TTL_MS
      | None \<Rightarrow> DEFAULT_LEASE_TTL_MS)"

definition clean_required_server_name :: "string \<Rightarrow> string + string" where
  "clean_required_server_name server_name =
     (let name = trim server_name
      in if name = [] then Inl ''hub lease acquire requires --server <name>''
         else if list_ex is_control name
           then Inl ''hub lease server name must not contain control characters''
         else Inr name)"

section \<open>Planned routes\<close>

record planned_route =
  r_server_name :: string
  r_admission_state :: string
  r_request_strategy :: string
  r_request_mutex_key :: "string option"
  r_session_affinity_key :: "string option"
  r_process_scope_key :: string
  r_process_partition :: string
  r_project_binding_key :: "string option"
  r_worktree_binding_key :: "string option"
  r_conflict_domain :: string
  r_host_lock_key :: "string option"
  r_state_profile_key :: "string option"
  r_scheduler_lane :: string
  r_startup_strategy :: string
  r_upstream_transport :: string
  r_parallelism_limit :: nat
  r_warnings :: "string list"
  r_client_id :: string
  r_session_lease_id :: string
  r_session_id :: "string option"
  r_project_root :: "string option"

record runtime_lease_request =
  q_server_name :: string
  q_client_id :: "string option"
  q_session_id :: "string option"
  q_project_root :: "string option"
  q_transport :: "string option"
  q_metadata_json :: "string option"
  q_ttl_ms :: "nat option"
  q_takeover :: bool

definition find_server_plan :: "json \<Rightarrow> string \<Rightarrow> json option" where
  "find_server_plan plan server_name =
     (let wanted = to_ascii_lowercase (trim server_name)
      in Option.bind (array_at_path plan [''servers''])
           (List.find (\<lambda>server.
              case string_at_path server [''name''] of
                Some name \<Rightarrow> to_ascii_lowercase (trim name) = to_ascii_lowercase wanted
              | None \<Rightarrow> False)))"

definition planned_route_from_plan :: "json \<Rightarrow> string \<Rightarrow> string + planned_route" where
  "planned_route_from_plan plan server_name =
     (case find_server_plan plan server_name of
        None \<Rightarrow> Inl (''server '' @ quoted server_name @ '' was not found in the client routing plan'')
      | Some server \<Rightarrow>
          (case value_at_path plan [''context''] of
             None \<Rightarrow> Inl ''client routing plan is missing context''
           | Some context \<Rightarrow> Inr
               \<lparr>r_server_name = required_string server [''name''],
                r_admission_state = required_string server [''admissionState''],
                r_request_strategy = required_string server [''requestStrategy''],
                r_request_mutex_key = optional_string server [''requestMutexKey''],
                r_session_affinity_key = optional_string server [''sessionAffinityKey''],
                r_process_scope_key = required_string server [''processScopeKey''],
                r_process_partition = required_string server [''processPartition''],
                r_project_binding_key = optional_string server [''projectBindingKey''],
                r_worktree_binding_key = optional_string server [''worktreeBindingKey''],
                r_conflict_domain = required_string server [''conflictDomain''],
                r_host_lock_key = optional_string server [''hostLockKey''],
                r_state_profile_key = optional_string server [''stateProfileKey''],
                r_scheduler_lane = required_string server [''schedulerLane''],
                r_startup_strategy = required_string server [''startupStrategy''],
                r_upstream_transport = required_string server [''upstreamTransport''],
                r_parallelism_limit = required_usize server [''parallelismLimit''],
                r_warnings = strings_at server [''warnings''],
                r_client_id = required_string context [''clientId''],
                r_session_lease_id = required_string context [''sessionLeaseId''],
                r_session_id = optional_string context [''sessionId''],
                r_project_root = optional_string context [''projectRoot'']\<rparr>))"

definition conservative_settings_only_route ::
  "runtime_lease_request \<Rightarrow> string \<Rightarrow> planned_route" where
  "conservative_settings_only_route request server_name =
     (let server_token = non_empty_token server_name ''server'';
          client_id = (case trimmed_non_empty_owned (q_client_id request) of
                         Some c \<Rightarrow> c | None \<Rightarrow> ''mcpace-upstream-bridge'');
          session_id = trimmed_non_empty_owned (q_session_id request);
          project_root = trimmed_non_empty_owned (q_project_root request);
          project_token = (case project_root of
                             Some v \<Rightarrow> non_empty_token v ''global'' | None \<Rightarrow> ''global'');
          session_token = (case session_id of
                             Some v \<Rightarrow> non_empty_token v ''adhoc''
                           | None \<Rightarrow> ''settings-only-'' @ server_token);
          upstream_transport = (case trimmed_non_empty_owned (q_transport request) of
                                  Some t \<Rightarrow> t | None \<Rightarrow> ''stdio'')
      in \<lparr>r_server_name = server_name,
          r_admission_state = ''configured-source'',
          r_request_strategy = ''single-writer'',
          r_request_mutex_key = Some (''settings-only:'' @ server_token @ '':'' @ project_token),
          r_session_affinity_key =
            map_option (\<lambda>_. ''settings-only:'' @ server_token @ '':'' @ session_token) session_id,
          r_process_scope_key = ''settings-only:'' @ server_token @ '':'' @ project_token,
          r_process_partition = project_token,
          r_project_binding_key =
            map_option (\<lambda>_. ''project:settings-only:'' @ server_token) project_root,
          r_worktree_binding_key = None,
          r_conflict_domain = ''settings-only:'' @ server_token,
          r_host_lock_key = None,
          r_state_profile_key = None,
          r_scheduler_lane = ''settings-only-conservative'',
          r_startup_strategy = ''per-request'',
          r_upstream_transport = upstream_transport,
          r_parallelism_limit = 1,
          r_warnings = [''server '' @ quoted server_name @
            '' exists in the merged MCP settings registry but is not declared in mcpace.config.json; MCPace assigned a conservative single-writer request lease instead of bypassing scheduling''],
          r_client_id = client_id,
          r_session_lease_id =
            ''session:'' @ non_empty_token client_id ''client'' @ '':'' @ session_token,
          r_session_id = session_id,
          r_project_root = project_root\<rparr>)"

definition route_for_request :: "string + json \<Rightarrow> string \<Rightarrow> string + planned_route option" where
  "route_for_request plan_json server_name =
     (case plan_json of
        Inl error \<Rightarrow> Inl error
      | Inr plan \<Rightarrow>
          if find_server_plan plan server_name = None then Inr None
          else (case planned_route_from_plan plan server_name of
                  Inl error \<Rightarrow> Inl error | Inr route \<Rightarrow> Inr (Some route)))"

definition route_blockers :: "planned_route \<Rightarrow> string list" where
  "route_blockers route =
     sorted_unique (
       (if r_admission_state route \<noteq> ''configured-source''
        then [''server '' @ quoted (r_server_name route)
              @ '' is not routable because admissionState is '' @ quoted (r_admission_state route)]
        else []) @
       (if r_request_strategy route = ''disabled-no-route''
           \<or> r_request_strategy route = ''legacy-compat-disabled''
           \<or> r_scheduler_lane route = ''disabled''
           \<or> r_scheduler_lane route = ''legacy-disabled''
           \<or> r_startup_strategy route = ''disabled''
           \<or> r_parallelism_limit route = 0
        then [''server '' @ quoted (r_server_name route)
              @ '' is not routable because strategy='' @ quoted (r_request_strategy route)
              @ '' lane='' @ quoted (r_scheduler_lane route)
              @ '' startup='' @ quoted (r_startup_strategy route)
              @ '' parallelismLimit='' @ show_nat (r_parallelism_limit route)]
        else []) @
       (if (case r_project_binding_key route of
              Some v \<Rightarrow> starts_with v ''project:pending:'' | None \<Rightarrow> False)
        then [''server '' @ quoted (r_server_name route)
              @ '' needs an explicit project root before a runtime lease can be granted'']
        else []) @
       filter (\<lambda>warning.
           contains warning ''requires a project root but no project root was resolved''
           \<or> contains warning ''no project root was resolved''
           \<or> contains warning ''not declared for the current platform'')
         (r_warnings route))"

definition route_capacity_key :: "planned_route \<Rightarrow> string" where
  "route_capacity_key route =
     (case r_request_mutex_key route of Some k \<Rightarrow> k | None \<Rightarrow> r_process_scope_key route)"

definition route_json :: "planned_route \<Rightarrow> json" where
  "route_json route = json_object
     [(''server'', JString (r_server_name route)),
      (''admissionState'', JString (r_admission_state route)),
      (''requestStrategy'', JString (r_request_strategy route)),
      (''requestMutexKey'', json_string_or_null (r_request_mutex_key route)),
      (''sessionAffinityKey'', json_string_or_null (r_session_affinity_key route)),
      (''capacityKey'', JString (route_capacity_key route)),
      (''processScopeKey'', JString (r_process_scope_key route)),
      (''processPartition'', JString (r_process_partition route)),
      (''projectBindingKey'', json_string_or_null (r_project_binding_key route)),
      (''worktreeBindingKey'', json_string_or_null (r_worktree_binding_key route)),
      (''conflictDomain'', JString (r_conflict_domain route)),
      (''hostLockKey'', json_string_or_null (r_host_lock_key route)),
      (''stateProfileKey'', json_string_or_null (r_state_profile_key route)),
      (''schedulerLane'', JString (r_scheduler_lane route)),
      (''startupStrategy'', JString (r_startup_strategy route)),
      (''upstreamTransport'', JString (r_upstream_transport route)),
      (''parallelismLimit'', json_number (r_parallelism_limit route))]"

section \<open>Laws of routes\<close>

lemma sorted_unique_empty [simp]: "sorted_unique xs = [] \<longleftrightarrow> xs = []"
  using sorted_unique_spec(3) [of xs] by (metis set_empty)

lemma normalize_ttl_bounds: "0 < normalize_ttl t" "normalize_ttl t \<le> MAX_LEASE_TTL_MS"
  by (auto simp: normalize_ttl_def DEFAULT_LEASE_TTL_MS_def MAX_LEASE_TTL_MS_def split: option.splits)

lemma unblocked_limit: "route_blockers route = [] \<Longrightarrow> 0 < r_parallelism_limit route"
  by (simp add: route_blockers_def split: if_splits)

lemma json_ok_route [simp]: "json_ok (route_json route)"
  unfolding route_json_def by (rule json_ok_object) simp

lemma route_json_get:
  "json_get (route_json route) ''requestMutexKey'' = Some (json_string_or_null (r_request_mutex_key route))"
  "json_get (route_json route) ''capacityKey'' = Some (JString (route_capacity_key route))"
  by (simp_all add: route_json_def json_path)

text \<open>Every token the hub derives from a name is made of lower-case letters, digits and the three
  separators, and neither starts nor ends with a dash.\<close>

definition token_char :: "char \<Rightarrow> bool" where
  "token_char c \<longleftrightarrow> is_digit c \<or> is_lower c \<or> c \<in> {CHR ''-'', CHR ''_'', CHR ''.''}"

lemma lower_char_token: "is_alnum c \<Longrightarrow> token_char (lower_char c)"
  by (auto simp: token_char_def is_alnum_def lower_char_def is_upper_def is_lower_def code_def of_char_of)

lemma token_char_sep [simp]:
  "token_char CHR ''-''" "token_char CHR ''_''" "token_char CHR ''.''"
  by (simp_all add: token_char_def)

lemma sanitize_push_token: "list_all token_char out \<Longrightarrow> list_all token_char (sanitize_push out c)"
  by (auto simp: sanitize_push_def lower_char_token)

lemma sanitize_fold_token:
  "list_all token_char out \<Longrightarrow> list_all token_char (foldl sanitize_push out s)"
  by (induction s arbitrary: out) (auto simp: sanitize_push_token)

lemma sanitize_token_chars: "list_all token_char (sanitize_token s)"
  using sanitize_fold_token [of "[]" s] set_trim_matches
  unfolding sanitize_token_def list_all_iff by fastforce

lemma sanitize_token_ends:
  "sanitize_token s = c # r \<Longrightarrow> c \<noteq> CHR ''-'' \<and> last (c # r) \<noteq> CHR ''-''"
  using trim_matches_ends unfolding sanitize_token_def by blast

end
