(* ===== verification/Lease_Store.thy ===== *)
theory Lease_Store
  imports Lease_Route
begin

text \<open>
  The lease store of the hub (\<^verbatim>\<open>src/hub/leases.rs\<close>): the JSON document that records every active
  lease and the sessions derived from them, and the four operations on it (list, acquire, renew,
  release) with purging of expired leases. The store is the decoded JSON object; reading and
  writing the file, and the lock around it, are in \<^verbatim>\<open>Lease_Commands\<close>.
\<close>

definition LEASE_STORE_VERSION :: nat where
  "LEASE_STORE_VERSION = 2"

type_synonym log_event = "string \<times> string \<times> (string \<times> json) list"

record lease_command_result =
  lc_json :: json
  lc_exit_code :: int

section \<open>Sessions derived from leases\<close>

record session_accumulator =
  sa_session_lease_id :: string
  sa_client_id :: string
  sa_session_id :: "string option"
  sa_project_root :: "string option"
  sa_started_at_ms :: nat
  sa_last_lease_seen_at_ms :: nat
  sa_active_lease_ids :: "string list"
  sa_servers :: "string list"

definition lease_started_at :: "json \<Rightarrow> nat \<Rightarrow> nat" where
  "lease_started_at lease refreshed_at_ms = unwrap_or (number_u128_at lease [''acquiredAtMs'']) refreshed_at_ms"

definition lease_last_seen :: "json \<Rightarrow> nat \<Rightarrow> nat" where
  "lease_last_seen lease refreshed_at_ms =
     unwrap_or (or_else (number_u128_at lease [''renewedAtMs'']) (number_u128_at lease [''acquiredAtMs'']))
       refreshed_at_ms"

definition from_lease :: "json \<Rightarrow> nat \<Rightarrow> session_accumulator option" where
  "from_lease lease refreshed_at_ms =
     (let lease_id = required_string lease [''leaseId'']
      in if lease_id = [] then None
         else
           let client_id = unwrap_or (optional_string lease [''clientId'']) ''unknown'';
               session_id = optional_string lease [''sessionId''];
               session_token = (case session_id of
                                  Some value \<Rightarrow> non_empty_token value ''adhoc''
                                | None \<Rightarrow> non_empty_token lease_id ''adhoc'');
               session_lease_id = unwrap_or (optional_string lease [''sessionLeaseId''])
                 (''session:'' @ non_empty_token client_id ''unknown'' @ '':'' @ session_token)
           in Some \<lparr>sa_session_lease_id = session_lease_id,
                    sa_client_id = client_id,
                    sa_session_id = session_id,
                    sa_project_root = optional_string lease [''projectRoot''],
                    sa_started_at_ms = lease_started_at lease refreshed_at_ms,
                    sa_last_lease_seen_at_ms = lease_last_seen lease refreshed_at_ms,
                    sa_active_lease_ids = [lease_id],
                    sa_servers = (case optional_string lease [''server''] of
                                    Some server \<Rightarrow> [server] | None \<Rightarrow> [])\<rparr>)"

definition add_lease :: "session_accumulator \<Rightarrow> json \<Rightarrow> nat \<Rightarrow> session_accumulator" where
  "add_lease self lease refreshed_at_ms =
     (let lease_id = required_string lease [''leaseId'']
      in if lease_id = [] then self
         else self
           \<lparr>sa_active_lease_ids := sa_active_lease_ids self @ [lease_id],
            sa_servers := sa_servers self @
              (case optional_string lease [''server''] of Some server \<Rightarrow> [server] | None \<Rightarrow> []),
            sa_project_root := or_else (sa_project_root self) (optional_string lease [''projectRoot'']),
            sa_started_at_ms := min (sa_started_at_ms self) (lease_started_at lease refreshed_at_ms),
            sa_last_lease_seen_at_ms :=
              max (sa_last_lease_seen_at_ms self) (lease_last_seen lease refreshed_at_ms)\<rparr>)"

definition into_json :: "session_accumulator \<Rightarrow> nat \<Rightarrow> json" where
  "into_json self refreshed_at_ms =
     (let active_lease_ids = sorted_unique (sa_active_lease_ids self);
          servers = sorted_unique (sa_servers self)
      in json_object
        [(''sessionLeaseId'', JString (sa_session_lease_id self)),
         (''clientId'', JString (sa_client_id self)),
         (''sessionId'', json_string_or_null (sa_session_id self)),
         (''projectRoot'', json_string_or_null (sa_project_root self)),
         (''startedAtMs'', json_number (sa_started_at_ms self)),
         (''lastLeaseSeenAtMs'', json_number (sa_last_lease_seen_at_ms self)),
         (''refreshedAtMs'', json_number refreshed_at_ms),
         (''activeLeaseCount'', json_number (length active_lease_ids)),
         (''activeLeaseIds'', json_strings active_lease_ids),
         (''servers'', json_strings servers)])"

section \<open>The store map\<close>

definition leases_map :: "json_map \<Rightarrow> json_map option" where
  "leases_map store = (case map_of store ''leases'' of Some (JObject m) \<Rightarrow> Some m | _ \<Rightarrow> None)"

definition sessions_map :: "json_map \<Rightarrow> json_map option" where
  "sessions_map store = (case map_of store ''sessions'' of Some (JObject m) \<Rightarrow> Some m | _ \<Rightarrow> None)"

text \<open>\<open>leases_map_mut\<close>: the update of the leases object through the mutable reference, which first
  replaces a missing or ill-typed member by an empty object.\<close>

definition leases_map_mut :: "(json_map \<Rightarrow> json_map) \<Rightarrow> json_map \<Rightarrow> json_map" where
  "leases_map_mut f store =
     bt_insert ''leases'' (JObject (f (unwrap_or (leases_map store) []))) store"

definition default_store_map :: "nat \<Rightarrow> json_map" where
  "default_store_map now_ms =
     bt_insert ''updatedAtMs'' (json_number now_ms)
       (bt_insert ''sessions'' (JObject [])
         (bt_insert ''leases'' (JObject [])
           (bt_insert ''version'' (json_number LEASE_STORE_VERSION) [])))"

definition normalize_store_shape :: "json_map \<Rightarrow> json_map" where
  "normalize_store_shape store =
     (let s1 = (case leases_map store of
                  Some _ \<Rightarrow> store | None \<Rightarrow> bt_insert ''leases'' (JObject []) store)
      in case sessions_map s1 of
           Some _ \<Rightarrow> s1 | None \<Rightarrow> bt_insert ''sessions'' (JObject []) s1)"

definition lease_live :: "nat \<Rightarrow> json \<Rightarrow> bool" where
  "lease_live now_ms value =
     (case expires_at_ms value of Some expires_at \<Rightarrow> expires_at > now_ms | None \<Rightarrow> True)"

definition purge_expired :: "json_map \<Rightarrow> nat \<Rightarrow> json_map \<times> nat" where
  "purge_expired store now_ms =
     (let leases = unwrap_or (leases_map store) [];
          kept = bt_retain (\<lambda>_ value. lease_live now_ms value) leases
      in (leases_map_mut (\<lambda>_. kept) store, length leases - length kept))"

definition active_lease_count :: "json_map \<Rightarrow> nat" where
  "active_lease_count store = (case leases_map store of Some leases \<Rightarrow> length leases | None \<Rightarrow> 0)"

definition active_session_count :: "json_map \<Rightarrow> nat" where
  "active_session_count store = (case sessions_map store of Some m \<Rightarrow> length m | None \<Rightarrow> 0)"

definition sorted_leases :: "json_map \<Rightarrow> json list" where
  "sorted_leases store = (case leases_map store of Some leases \<Rightarrow> map snd leases | None \<Rightarrow> [])"

definition sorted_sessions :: "json_map \<Rightarrow> json list" where
  "sorted_sessions store = (case sessions_map store of Some m \<Rightarrow> map snd m | None \<Rightarrow> [])"

definition session_step ::
  "nat \<Rightarrow> (string \<times> session_accumulator) list \<Rightarrow> json \<Rightarrow> (string \<times> session_accumulator) list" where
  "session_step refreshed_at_ms sessions lease =
     (case from_lease lease refreshed_at_ms of
        None \<Rightarrow> sessions
      | Some accumulator \<Rightarrow>
          (case map_of sessions (sa_session_lease_id accumulator) of
             Some existing \<Rightarrow>
               bt_insert (sa_session_lease_id accumulator)
                 (add_lease existing lease refreshed_at_ms) sessions
           | None \<Rightarrow> bt_insert (sa_session_lease_id accumulator) accumulator sessions))"

definition rebuild_sessions :: "json_map \<Rightarrow> nat \<Rightarrow> json_map" where
  "rebuild_sessions store refreshed_at_ms =
     bt_insert ''sessions''
       (JObject (map (\<lambda>(key, session). (key, into_json session refreshed_at_ms))
          (foldl (session_step refreshed_at_ms) [] (sorted_leases store))))
       store"

section \<open>Conflicts and lease records\<close>

definition lease_mutex_key :: "json \<Rightarrow> string option" where
  "lease_mutex_key lease = optional_string lease [''route'', ''requestMutexKey'']"

definition lease_capacity_key :: "json \<Rightarrow> string option" where
  "lease_capacity_key lease = optional_string lease [''route'', ''capacityKey'']"

text \<open>A conflict is the reason text and the conflicting lease (\<open>LeaseConflict\<close>).\<close>

definition find_conflict :: "json_map \<Rightarrow> planned_route \<Rightarrow> (string \<times> json) option" where
  "find_conflict store route =
     (case leases_map store of
        None \<Rightarrow> None
      | Some leases \<Rightarrow>
          let candidate_capacity_key = route_capacity_key route
          in case r_request_mutex_key route of
               Some mutex_key \<Rightarrow>
                 map_option
                   (\<lambda>lease. (''mutex '' @ quoted mutex_key @ '' is already held by lease ''
                             @ quoted (required_string lease [''leaseId'']), lease))
                   (List.find (\<lambda>lease. lease_mutex_key lease = Some mutex_key) (map snd leases))
             | None \<Rightarrow>
                 if r_parallelism_limit route > 0 then
                   let matching = filter (\<lambda>lease. lease_capacity_key lease = Some candidate_capacity_key)
                                    (map snd leases)
                   in if length matching \<ge> r_parallelism_limit route
                      then Some (''parallelism limit '' @ show_nat (r_parallelism_limit route) @ '' for ''
                                 @ quoted candidate_capacity_key @ '' is already exhausted'',
                                 case matching of [] \<Rightarrow> JNull | lease # _ \<Rightarrow> lease)
                      else None
                 else None)"

definition takeover_allowed :: "bool \<Rightarrow> json \<Rightarrow> planned_route \<Rightarrow> bool" where
  "takeover_allowed takeover conflicting_lease route \<longleftrightarrow>
     takeover \<and>
     (case string_at_path conflicting_lease [''sessionLeaseId''] of
        Some value \<Rightarrow> value = r_session_lease_id route | None \<Rightarrow> False)"

definition lease_record_json :: "string \<Rightarrow> planned_route \<Rightarrow> nat \<Rightarrow> nat \<Rightarrow> nat \<Rightarrow> json" where
  "lease_record_json lease_id route acquired_ms expires_ms ttl_ms = json_object
     [(''leaseId'', JString lease_id),
      (''server'', JString (r_server_name route)),
      (''clientId'', JString (r_client_id route)),
      (''sessionLeaseId'', JString (r_session_lease_id route)),
      (''sessionId'', json_string_or_null (r_session_id route)),
      (''projectRoot'', json_string_or_null (r_project_root route)),
      (''acquiredAtMs'', json_number acquired_ms),
      (''expiresAtMs'', json_number expires_ms),
      (''ttlMs'', json_number ttl_ms),
      (''route'', route_json route)]"

definition acquire_blocked_json ::
  "planned_route \<Rightarrow> nat \<Rightarrow> nat \<Rightarrow> string \<Rightarrow> json option \<Rightarrow> nat \<Rightarrow> json" where
  "acquire_blocked_json route now_ms expired_purged_count reason conflicting_lease lease_count =
     json_object
       [(''status'', JString ''blocked''),
        (''reason'', JString reason),
        (''server'', JString (r_server_name route)),
        (''clientId'', JString (r_client_id route)),
        (''sessionLeaseId'', JString (r_session_lease_id route)),
        (''nowMs'', json_number now_ms),
        (''activeLeaseCount'', json_number lease_count),
        (''expiredPurgedCount'', json_number expired_purged_count),
        (''route'', route_json route),
        (''conflictingLease'', unwrap_or conflicting_lease JNull),
        (''warnings'', json_strings (r_warnings route))]"

definition generate_lease_id :: "planned_route \<Rightarrow> nat \<Rightarrow> nat \<Rightarrow> nat option \<Rightarrow> string" where
  "generate_lease_id route now_ms pid nanos =
     ''lease:'' @ sanitize_token (r_server_name route) @ '':'' @ show_nat now_ms @ '':''
       @ show_nat pid @ '':'' @ show_nat (unwrap_or nanos now_ms)"

section \<open>The four operations\<close>

text \<open>Each operation is the closure that \<open>mutate_store\<close> runs: from the store, the time and the number of
  leases purged to the new store, the log events it appends, and its result.\<close>

type_synonym mutator =
  "json_map \<Rightarrow> nat \<Rightarrow> nat \<Rightarrow> json_map \<times> log_event list \<times> lease_command_result"

definition list_mutator :: mutator where
  "list_mutator store now_ms expired_purged_count =
     (let leases = sorted_leases store; sessions = sorted_sessions store
      in (store, [],
          \<lparr>lc_json = json_object
             [(''status'', JString ''listed''),
              (''version'', json_number LEASE_STORE_VERSION),
              (''nowMs'', json_number now_ms),
              (''activeLeaseCount'', json_number (length leases)),
              (''activeSessionCount'', json_number (length sessions)),
              (''expiredPurgedCount'', json_number expired_purged_count),
              (''leases'', JArray leases),
              (''sessions'', JArray sessions)],
           lc_exit_code = 0\<rparr>))"

definition acquire_blocked ::
  "planned_route \<Rightarrow> string \<Rightarrow> json option \<Rightarrow> mutator" where
  "acquire_blocked route reason conflicting store now_ms expired_purged_count =
     (store, [],
      \<lparr>lc_json = acquire_blocked_json route now_ms expired_purged_count reason conflicting
                   (active_lease_count store),
       lc_exit_code = 1\<rparr>)"

text \<open>The grant: the store after a possible takeover, the event it logged, and the lease taken over.\<close>

definition acquire_grant ::
  "planned_route \<Rightarrow> nat \<Rightarrow> string \<Rightarrow> json option \<Rightarrow> log_event list \<Rightarrow> mutator" where
  "acquire_grant route ttl_ms lease_id taken_over log store now_ms expired_purged_count =
     (let expires_at_ms = sat_add 128 now_ms ttl_ms;
          lease_json = lease_record_json lease_id route now_ms expires_at_ms ttl_ms;
          store1 = leases_map_mut (bt_insert lease_id lease_json) store;
          store2 = rebuild_sessions store1 now_ms
      in (store2,
          log @ [(''info'', ''lease_acquired'',
                  [(''leaseId'', JString lease_id),
                   (''server'', JString (r_server_name route)),
                   (''schedulerLane'', JString (r_scheduler_lane route)),
                   (''ttlMs'', json_number ttl_ms)])],
          \<lparr>lc_json = json_object
             [(''status'', JString ''acquired''),
              (''leaseId'', JString lease_id),
              (''server'', JString (r_server_name route)),
              (''clientId'', JString (r_client_id route)),
              (''sessionLeaseId'', JString (r_session_lease_id route)),
              (''ttlMs'', json_number ttl_ms),
              (''acquiredAtMs'', json_number now_ms),
              (''expiresAtMs'', json_number expires_at_ms),
              (''activeLeaseCount'', json_number (active_lease_count store2)),
              (''activeSessionCount'', json_number (active_session_count store2)),
              (''expiredPurgedCount'', json_number expired_purged_count),
              (''route'', route_json route),
              (''lease'', lease_json),
              (''takeover'', JBool (taken_over \<noteq> None)),
              (''takenOverLease'', unwrap_or taken_over JNull),
              (''warnings'', json_strings (r_warnings route))],
           lc_exit_code = 0\<rparr>))"

definition acquire_mutator ::
  "planned_route \<Rightarrow> nat \<Rightarrow> bool \<Rightarrow> nat \<Rightarrow> nat option \<Rightarrow> mutator" where
  "acquire_mutator route ttl_ms takeover pid nanos store now_ms expired_purged_count =
     (let blockers = route_blockers route;
          lease_id = generate_lease_id route now_ms pid nanos
      in if blockers \<noteq> []
         then acquire_blocked route (join '' | '' blockers) None store now_ms expired_purged_count
         else case find_conflict store route of
                Some (reason, conflict) \<Rightarrow>
                  if takeover_allowed takeover conflict route then
                    let conflict_id = required_string conflict [''leaseId''];
                        removed = map_of (unwrap_or (leases_map store) []) conflict_id;
                        store1 = leases_map_mut (bt_remove conflict_id) store
                    in (case removed of
                          Some removed_lease \<Rightarrow>
                            acquire_grant route ttl_ms lease_id (Some removed_lease)
                              [(''warn'', ''lease_taken_over'',
                                [(''leaseId'', JString conflict_id),
                                 (''server'', JString (r_server_name route)),
                                 (''sessionLeaseId'', JString (r_session_lease_id route))])]
                              store1 now_ms expired_purged_count
                        | None \<Rightarrow>
                            acquire_grant route ttl_ms lease_id (Some conflict) []
                              store1 now_ms expired_purged_count)
                  else acquire_blocked route reason (Some conflict) store now_ms expired_purged_count
              | None \<Rightarrow> acquire_grant route ttl_ms lease_id None [] store now_ms expired_purged_count)"

definition renew_lease :: "nat \<Rightarrow> nat \<Rightarrow> json \<Rightarrow> json" where
  "renew_lease now_ms ttl_ms lease =
     (case lease of
        JObject m \<Rightarrow> JObject (bt_insert ''ttlMs'' (json_number ttl_ms)
                       (bt_insert ''expiresAtMs'' (json_number (sat_add 128 now_ms ttl_ms))
                         (bt_insert ''renewedAtMs'' (json_number now_ms) m)))
      | _ \<Rightarrow> lease)"

definition renew_mutator :: "string \<Rightarrow> nat \<Rightarrow> mutator" where
  "renew_mutator lease_id ttl_ms store now_ms expired_purged_count =
     (let renewed = map_option (renew_lease now_ms ttl_ms)
                      (map_of (unwrap_or (leases_map store) []) lease_id);
          store1 = leases_map_mut
                     (\<lambda>leases. case renewed of Some lease \<Rightarrow> bt_insert lease_id lease leases | None \<Rightarrow> leases)
                     store;
          store2 = rebuild_sessions store1 now_ms
      in (store2,
          (if renewed \<noteq> None
           then [(''info'', ''lease_renewed'',
                  [(''leaseId'', JString lease_id), (''ttlMs'', json_number ttl_ms)])]
           else []),
          \<lparr>lc_json = json_object
             [(''status'', JString (if renewed \<noteq> None then ''renewed'' else ''not-found'')),
              (''leaseId'', JString lease_id),
              (''nowMs'', json_number now_ms),
              (''ttlMs'', json_number ttl_ms),
              (''expiresAtMs'', json_number (sat_add 128 now_ms ttl_ms)),
              (''activeLeaseCount'', json_number (active_lease_count store2)),
              (''activeSessionCount'', json_number (active_session_count store2)),
              (''expiredPurgedCount'', json_number expired_purged_count),
              (''renewedLease'', unwrap_or renewed JNull)],
           lc_exit_code = (if renewed \<noteq> None then 0 else 1)\<rparr>))"

definition release_mutator :: "string \<Rightarrow> mutator" where
  "release_mutator lease_id store now_ms expired_purged_count =
     (let removed = map_of (unwrap_or (leases_map store) []) lease_id;
          store1 = leases_map_mut (bt_remove lease_id) store;
          store2 = rebuild_sessions store1 now_ms
      in (store2,
          (if removed \<noteq> None then [(''info'', ''lease_released'', [(''leaseId'', JString lease_id)])] else []),
          \<lparr>lc_json = json_object
             [(''status'', JString (if removed \<noteq> None then ''released'' else ''not-found'')),
              (''leaseId'', JString lease_id),
              (''nowMs'', json_number now_ms),
              (''activeLeaseCount'', json_number (active_lease_count store2)),
              (''activeSessionCount'', json_number (active_session_count store2)),
              (''expiredPurgedCount'', json_number expired_purged_count),
              (''releasedLease'', unwrap_or removed JNull)],
           lc_exit_code = (if removed \<noteq> None then 0 else 1)\<rparr>))"

text \<open>The middle of \<open>mutate_store\<close>, between reading and writing the file: \<open>now_ms\<close> is read once
  before the closure, \<open>now2_ms\<close> and \<open>now3_ms\<close> after it.\<close>

definition store_update ::
  "mutator \<Rightarrow> json_map \<Rightarrow> nat \<Rightarrow> nat \<Rightarrow> nat \<Rightarrow> json_map \<times> log_event list \<times> lease_command_result" where
  "store_update mutator store now_ms now2_ms now3_ms =
     (let (store1, expired_purged_count) = purge_expired (normalize_store_shape store) now_ms;
          store2 = rebuild_sessions store1 now_ms;
          (store3, log, result) = mutator store2 now_ms expired_purged_count;
          store4 = rebuild_sessions store3 now2_ms
      in (bt_insert ''updatedAtMs'' (json_number now3_ms)
            (bt_insert ''version'' (json_number LEASE_STORE_VERSION) store4), log, result))"

end
