(* ===== verification/Lease_Spec.thy ===== *)
theory Lease_Spec
  imports Lease_Route
begin

text \<open>
  What the lease manager promises, independently of its JSON representation: a table of leases, the
  atomic steps it may take, and the two safety properties every table keeps (one holder per mutex
  key, at most the allowed number of users per capacity key). The interface is the locale
  \<open>lease_manager\<close>; the store of \<^verbatim>\<open>Lease_Store\<close> is shown to implement it in
  \<^verbatim>\<open>Lease_Refinement\<close>.
\<close>

record lease_view =
  lv_mutex :: "string option"
  lv_capacity :: "string option"
  lv_session :: "string option"
  lv_expires :: "nat option"

type_synonym lease_table = "string \<rightharpoonup> lease_view"

datatype lease_op =
    ListOp
  | AcquireOp planned_route nat bool
  | RenewOp string nat
  | ReleaseOp string

definition view_live :: "nat \<Rightarrow> lease_view \<Rightarrow> bool" where
  "view_live now v \<longleftrightarrow> (case lv_expires v of Some t \<Rightarrow> t > now | None \<Rightarrow> True)"

definition purge_table :: "nat \<Rightarrow> lease_table \<Rightarrow> lease_table" where
  "purge_table now T =
     (\<lambda>lid. case T lid of None \<Rightarrow> None | Some v \<Rightarrow> if view_live now v then Some v else None)"

definition mutex_holders :: "lease_table \<Rightarrow> string \<Rightarrow> string set" where
  "mutex_holders T k = {lid. \<exists>v. T lid = Some v \<and> lv_mutex v = Some k}"

definition capacity_users :: "lease_table \<Rightarrow> string \<Rightarrow> string set" where
  "capacity_users T c = {lid. \<exists>v. T lid = Some v \<and> lv_capacity v = Some c}"

text \<open>The leases that stand in the way of a route: the holder of its mutex key, or, for a route without
  one, the users of its capacity key once the parallelism limit is reached.\<close>

definition conflict_set :: "lease_table \<Rightarrow> planned_route \<Rightarrow> string set" where
  "conflict_set T r =
     (case r_request_mutex_key r of
        Some k \<Rightarrow> mutex_holders T k
      | None \<Rightarrow> if r_parallelism_limit r \<le> card (capacity_users T (route_capacity_key r))
                then capacity_users T (route_capacity_key r) else {})"

definition new_view :: "planned_route \<Rightarrow> nat \<Rightarrow> nat \<Rightarrow> lease_view" where
  "new_view r now ttl =
     \<lparr>lv_mutex = r_request_mutex_key r, lv_capacity = Some (route_capacity_key r),
      lv_session = Some (r_session_lease_id r), lv_expires = Some (sat_add 128 now ttl)\<rparr>"

inductive lease_spec :: "nat \<Rightarrow> lease_table \<Rightarrow> lease_op \<Rightarrow> lease_table \<Rightarrow> bool" for now where
  spec_list: "lease_spec now T ListOp T"
| spec_refuse_route: "route_blockers r \<noteq> [] \<Longrightarrow> lease_spec now T (AcquireOp r ttl tk) T"
| spec_refuse_conflict:
    "cid \<in> conflict_set T r \<Longrightarrow> T cid = Some v \<Longrightarrow> \<not> tk \<or> lv_session v \<noteq> Some (r_session_lease_id r) \<Longrightarrow>
     lease_spec now T (AcquireOp r ttl tk) T"
| spec_grant:
    "route_blockers r = [] \<Longrightarrow> conflict_set T r = {} \<Longrightarrow>
     lease_spec now T (AcquireOp r ttl tk) (T(lid \<mapsto> new_view r now ttl))"
| spec_take_over:
    "route_blockers r = [] \<Longrightarrow> cid \<in> conflict_set T r \<Longrightarrow> T cid = Some v \<Longrightarrow>
     lv_session v = Some (r_session_lease_id r) \<Longrightarrow>
     lease_spec now T (AcquireOp r ttl True) ((T(cid := None))(lid \<mapsto> new_view r now ttl))"
| spec_renew:
    "T lid = Some v \<Longrightarrow>
     lease_spec now T (RenewOp lid ttl) (T(lid \<mapsto> v\<lparr>lv_expires := Some (sat_add 128 now ttl)\<rparr>))"
| spec_renew_missing: "T lid = None \<Longrightarrow> lease_spec now T (RenewOp lid ttl) T"
| spec_release: "lease_spec now T (ReleaseOp lid) (T(lid := None))"

inductive_cases acquire_cases: "lease_spec now T (AcquireOp r ttl tk) T'"
inductive_cases renew_cases: "lease_spec now T (RenewOp lid ttl) T'"

section \<open>Safety of one step\<close>

definition exclusive :: "lease_table \<Rightarrow> bool" where
  "exclusive T \<longleftrightarrow> (\<forall>k id1 id2. id1 \<in> mutex_holders T k \<and> id2 \<in> mutex_holders T k \<longrightarrow> id1 = id2)"

definition within_capacity :: "string \<Rightarrow> nat \<Rightarrow> lease_table \<Rightarrow> bool" where
  "within_capacity c L T \<longleftrightarrow> finite (dom T) \<and> card (capacity_users T c) \<le> L"

text \<open>An operation respects a capacity bound when a route it acquires on that key has no mutex key and a
  parallelism limit within the bound.\<close>

fun respects_capacity :: "string \<Rightarrow> nat \<Rightarrow> lease_op \<Rightarrow> bool" where
  "respects_capacity c L (AcquireOp r ttl tk) =
     (route_capacity_key r = c \<longrightarrow> r_request_mutex_key r = None \<and> r_parallelism_limit r \<le> L)"
| "respects_capacity c L _ = True"

lemma mutex_holders_upd:
  "mutex_holders (T(lid \<mapsto> v)) k =
     (if lv_mutex v = Some k then insert lid (mutex_holders T k) else mutex_holders T k - {lid})"
  by (auto simp: mutex_holders_def)

lemma mutex_holders_del: "mutex_holders (T(lid := None)) k = mutex_holders T k - {lid}"
  by (auto simp: mutex_holders_def)

lemma capacity_users_upd:
  "capacity_users (T(lid \<mapsto> v)) c =
     (if lv_capacity v = Some c then insert lid (capacity_users T c) else capacity_users T c - {lid})"
  by (auto simp: capacity_users_def)

lemma capacity_users_del: "capacity_users (T(lid := None)) c = capacity_users T c - {lid}"
  by (auto simp: capacity_users_def)

lemma capacity_users_dom: "capacity_users T c \<subseteq> dom T"
  by (auto simp: capacity_users_def)

lemma finite_capacity_users: "finite (dom T) \<Longrightarrow> finite (capacity_users T c)"
  by (rule finite_subset [OF capacity_users_dom])

lemma exclusive_purge: "exclusive T \<Longrightarrow> exclusive (purge_table now T)"
  by (fastforce simp: exclusive_def mutex_holders_def purge_table_def split: option.splits if_splits)

lemma within_capacity_purge: "within_capacity c L T \<Longrightarrow> within_capacity c L (purge_table now T)"
proof -
  assume T: "within_capacity c L T"
  have "dom (purge_table now T) \<subseteq> dom T"
    by (auto simp: purge_table_def split: option.splits if_splits)
  moreover have "capacity_users (purge_table now T) c \<subseteq> capacity_users T c"
    by (auto simp: capacity_users_def purge_table_def split: option.splits if_splits)
  ultimately show ?thesis using T finite_capacity_users [of T c]
    by (auto simp: within_capacity_def intro: finite_subset card_mono [THEN order_trans])
qed

lemma exclusive_upd:
  "exclusive T \<Longrightarrow> (\<And>k. lv_mutex v = Some k \<Longrightarrow> mutex_holders T k \<subseteq> {lid}) \<Longrightarrow> exclusive (T(lid \<mapsto> v))"
  by (fastforce simp: exclusive_def mutex_holders_upd)

lemma exclusive_del: "exclusive T \<Longrightarrow> exclusive (T(lid := None))"
  by (auto simp: exclusive_def mutex_holders_del)

lemma exclusive_conflict:
  "exclusive T \<Longrightarrow> cid \<in> conflict_set T r \<Longrightarrow> r_request_mutex_key r = Some k \<Longrightarrow>
   mutex_holders (T(cid := None)) k = {}"
  by (auto simp: conflict_set_def mutex_holders_del exclusive_def)

lemma spec_exclusive: "lease_spec now T op T' \<Longrightarrow> exclusive T \<Longrightarrow> exclusive T'"
proof (induction rule: lease_spec.induct)
  case (spec_grant r T ttl tk lid)
  then show ?case by (intro exclusive_upd) (auto simp: new_view_def conflict_set_def)
next
  case (spec_take_over r cid T v ttl lid)
  then show ?case
    by (intro exclusive_upd exclusive_del) (auto simp: new_view_def exclusive_conflict)
next
  case (spec_renew T lid v ttl)
  then show ?case by (intro exclusive_upd) (auto simp: exclusive_def mutex_holders_def)
qed (auto intro: exclusive_del)

text \<open>Storing a lease keeps a capacity bound when it uses another key, when it replaces a user of the key,
  or when there is room for one more.\<close>

lemma within_capacity_upd:
  assumes "within_capacity c L T"
    and "lv_capacity v = Some c \<Longrightarrow> lid \<in> capacity_users T c \<or> card (capacity_users T c) < L"
  shows "within_capacity c L (T(lid \<mapsto> v))"
  using assms finite_capacity_users [of T c] card_Diff1_le [of "capacity_users T c" lid]
  by (auto simp: within_capacity_def capacity_users_upd card_insert_if)

lemma within_capacity_del: "within_capacity c L T \<Longrightarrow> within_capacity c L (T(lid := None))"
  using finite_capacity_users [of T c] card_Diff1_le [of "capacity_users T c" lid]
  by (auto simp: within_capacity_def capacity_users_del)

lemma spec_within_capacity:
  "lease_spec now T op T' \<Longrightarrow> respects_capacity c L op \<Longrightarrow> within_capacity c L T \<Longrightarrow> within_capacity c L T'"
proof (induction rule: lease_spec.induct)
  case (spec_grant r T ttl tk lid)
  have "card (capacity_users T c) < L" if "route_capacity_key r = c"
  proof -
    from spec_grant that have lim: "r_request_mutex_key r = None" "r_parallelism_limit r \<le> L" by auto
    have "0 < r_parallelism_limit r" using spec_grant.hyps(1) by (rule unblocked_limit)
    then show ?thesis using spec_grant.hyps(2) lim that
      by (auto simp: conflict_set_def split: if_splits)
  qed
  then show ?case using spec_grant.prems by (intro within_capacity_upd) (auto simp: new_view_def)
next
  case (spec_take_over r cid T v ttl lid)
  have "card (capacity_users (T(cid := None)) c) < L" if "route_capacity_key r = c"
  proof -
    have "cid \<in> capacity_users T c" using spec_take_over that by (auto simp: conflict_set_def split: if_splits)
    then show ?thesis using spec_take_over.prems finite_capacity_users [of T c] card_Diff1_less [of _ cid]
      by (force simp: within_capacity_def capacity_users_del)
  qed
  then show ?case using spec_take_over.prems
    by (intro within_capacity_upd within_capacity_del) (auto simp: new_view_def)
next
  case (spec_renew T lid v ttl)
  then show ?case by (intro within_capacity_upd) (auto simp: capacity_users_def)
qed (auto intro: within_capacity_del)

section \<open>The interface\<close>

locale lease_manager =
  fixes abs :: "'s \<Rightarrow> lease_table"
    and ok :: "'s \<Rightarrow> bool"
    and now_of :: "'env \<Rightarrow> nat"
    and exec :: "'env \<Rightarrow> lease_op \<Rightarrow> 's \<Rightarrow> 's"
  assumes exec_ok: "ok s \<Longrightarrow> ok (exec e op s)"
    and exec_refines:
      "ok s \<Longrightarrow> lease_spec (now_of e) (purge_table (now_of e) (abs s)) op (abs (exec e op s))"
begin

lemma exec_exclusive: "ok s \<Longrightarrow> exclusive (abs s) \<Longrightarrow> exclusive (abs (exec e op s))"
  using exec_refines exclusive_purge spec_exclusive by blast

lemma exec_within_capacity:
  "ok s \<Longrightarrow> respects_capacity c L op \<Longrightarrow> within_capacity c L (abs s) \<Longrightarrow>
   within_capacity c L (abs (exec e op s))"
  using exec_refines within_capacity_purge spec_within_capacity by blast

lemma run_ok: "ok s \<Longrightarrow> ok (fold (\<lambda>(e, op). exec e op) ops s)"
  by (induction ops arbitrary: s) (auto simp: exec_ok)

lemma run_exclusive:
  "ok s \<Longrightarrow> exclusive (abs s) \<Longrightarrow> exclusive (abs (fold (\<lambda>(e, op). exec e op) ops s))"
  by (induction ops arbitrary: s) (auto simp: exec_ok exec_exclusive)

lemma run_within_capacity:
  "ok s \<Longrightarrow> \<forall>(e, op) \<in> set ops. respects_capacity c L op \<Longrightarrow> within_capacity c L (abs s) \<Longrightarrow>
   within_capacity c L (abs (fold (\<lambda>(e, op). exec e op) ops s))"
  by (induction ops arbitrary: s) (auto simp: exec_ok exec_within_capacity)

end

end
