(* ===== verification/Lease_Refinement.thy ===== *)
theory Lease_Refinement
  imports Lease_Store Lease_Spec
begin

text \<open>
  The JSON lease store implements the lease table of \<^verbatim>\<open>Lease_Spec\<close>: its well-formedness, the
  table it stands for, the simulation of every operation, and the interpretation of the interface.
\<close>

section \<open>Executing an operation on the store\<close>

record lease_env =
  le_now :: nat
  le_now2 :: nat
  le_now3 :: nat
  le_pid :: nat
  le_nanos :: "nat option"

fun op_mutator :: "lease_env \<Rightarrow> lease_op \<Rightarrow> mutator" where
  "op_mutator e ListOp = list_mutator"
| "op_mutator e (AcquireOp route ttl_ms takeover) = acquire_mutator route ttl_ms takeover (le_pid e) (le_nanos e)"
| "op_mutator e (RenewOp lease_id ttl_ms) = renew_mutator lease_id ttl_ms"
| "op_mutator e (ReleaseOp lease_id) = release_mutator lease_id"

definition lease_outcome ::
  "lease_env \<Rightarrow> lease_op \<Rightarrow> json_map \<Rightarrow> json_map \<times> log_event list \<times> lease_command_result" where
  "lease_outcome e op store = store_update (op_mutator e op) store (le_now e) (le_now2 e) (le_now3 e)"

definition lease_exec :: "lease_env \<Rightarrow> lease_op \<Rightarrow> json_map \<Rightarrow> json_map" where
  "lease_exec e op store = fst (lease_outcome e op store)"

definition lease_result :: "lease_env \<Rightarrow> lease_op \<Rightarrow> json_map \<Rightarrow> lease_command_result" where
  "lease_result e op store = snd (snd (lease_outcome e op store))"

definition lease_run :: "(lease_env \<times> lease_op) list \<Rightarrow> json_map \<Rightarrow> json_map" where
  "lease_run ops store = fold (\<lambda>(e, op). lease_exec e op) ops store"

definition leases_of :: "json_map \<Rightarrow> json_map" where
  "leases_of store = unwrap_or (leases_map store) []"

definition view_of :: "json \<Rightarrow> lease_view" where
  "view_of lease = \<lparr>lv_mutex = lease_mutex_key lease, lv_capacity = lease_capacity_key lease,
     lv_session = string_at_path lease [''sessionLeaseId''], lv_expires = expires_at_ms lease\<rparr>"

definition abs_leases :: "json_map \<Rightarrow> lease_table" where
  "abs_leases store = (\<lambda>lid. map_option view_of (map_of (leases_of store) lid))"

definition lease_ok :: "string \<Rightarrow> json \<Rightarrow> bool" where
  "lease_ok lid lease \<longleftrightarrow> json_ok lease \<and> as_object lease \<noteq> None \<and> required_string lease [''leaseId''] = lid"

definition store_ok :: "json_map \<Rightarrow> bool" where
  "store_ok store \<longleftrightarrow> map_ok store \<and> (\<forall>(lid, lease) \<in> set (leases_of store). lease_ok lid lease)"

section \<open>Reading the leases back\<close>

lemma leases_of_mut [simp]: "leases_of (leases_map_mut f store) = f (leases_of store)"
  by (simp add: leases_of_def leases_map_mut_def leases_map_def)

lemma leases_of_insert [simp]: "k \<noteq> ''leases'' \<Longrightarrow> leases_of (bt_insert k v store) = leases_of store"
  by (simp add: leases_of_def leases_map_def)

lemma leases_of_rebuild [simp]: "leases_of (rebuild_sessions store t) = leases_of store"
  by (simp add: rebuild_sessions_def)

lemma leases_map_leases_of: "leases_map store = None \<Longrightarrow> leases_of store = []"
  "leases_map store = Some m \<Longrightarrow> leases_of store = m"
  by (simp_all add: leases_of_def)

lemma leases_of_normalize [simp]: "leases_of (normalize_store_shape store) = leases_of store"
proof -
  have "leases_of (bt_insert ''leases'' (JObject []) store) = []"
    by (simp add: leases_of_def leases_map_def)
  then show ?thesis
    by (simp add: normalize_store_shape_def Let_def leases_map_leases_of split: option.splits)
qed

lemma leases_of_purge [simp]:
  "leases_of (fst (purge_expired store now)) = bt_retain (\<lambda>_. lease_live now) (leases_of store)"
  by (simp add: purge_expired_def Let_def flip: leases_of_def)

lemma leases_of_update:
  "leases_of (fst (store_update m store now now2 now3)) =
     leases_of (fst (m (rebuild_sessions (fst (purge_expired (normalize_store_shape store) now)) now)
                      now (snd (purge_expired (normalize_store_shape store) now))))"
  by (simp add: store_update_def Let_def split: prod.splits)

lemma leases_of_grant [simp]:
  "leases_of (fst (acquire_grant route ttl lid tk log store now n)) =
     bt_insert lid (lease_record_json lid route now (sat_add 128 now ttl) ttl) (leases_of store)"
  by (simp add: acquire_grant_def Let_def)

lemma leases_of_blocked [simp]: "leases_of (fst (acquire_blocked route reason c store now n)) = leases_of store"
  by (simp add: acquire_blocked_def)

lemma leases_of_list [simp]: "leases_of (fst (list_mutator store now n)) = leases_of store"
  by (simp add: list_mutator_def Let_def)

lemma leases_of_renew [simp]:
  "leases_of (fst (renew_mutator lid ttl store now n)) =
     (case map_of (leases_of store) lid of
        None \<Rightarrow> leases_of store
      | Some lease \<Rightarrow> bt_insert lid (renew_lease now ttl lease) (leases_of store))"
  by (simp add: renew_mutator_def Let_def flip: leases_of_def split: option.splits)

lemma leases_of_release [simp]:
  "leases_of (fst (release_mutator lid store now n)) = bt_remove lid (leases_of store)"
  by (simp add: release_mutator_def Let_def)

section \<open>Lease records\<close>

lemma lease_record_get:
  "json_get (lease_record_json lid route acq expi ttl) ''leaseId'' = Some (JString lid)"
  "json_get (lease_record_json lid route acq expi ttl) ''route'' = Some (route_json route)"
  "json_get (lease_record_json lid route acq expi ttl) ''expiresAtMs'' = Some (json_number expi)"
  "json_get (lease_record_json lid route acq expi ttl) ''sessionLeaseId'' = Some (JString (r_session_lease_id route))"
  by (simp_all add: lease_record_json_def json_path)

lemma json_string_or_null_inv: "(case json_string_or_null s of JString t \<Rightarrow> Some t | _ \<Rightarrow> None) = s"
  by (cases s) auto

lemma view_of_record:
  "view_of (lease_record_json lid route now (sat_add 128 now ttl) ttl) = new_view route now ttl"
  using sat_add_bound [of 128 now ttl]
  by (simp add: view_of_def new_view_def lease_mutex_key_def lease_capacity_key_def optional_string_def
      expires_at_ms_def string_at_path_def lease_record_get route_json_get json_string_or_null_inv
      json_number_def)

lemma lease_ok_record: "lease_ok lid (lease_record_json lid route acq expi ttl)"
proof -
  have "json_ok (lease_record_json lid route acq expi ttl)"
    unfolding lease_record_json_def by (rule json_ok_object) simp
  then show ?thesis
    by (simp add: lease_ok_def required_string_def optional_string_def lease_record_get)
      (simp add: lease_record_json_def json_object_def)
qed

lemma renew_lease_get:
  "json_get (renew_lease now ttl (JObject m)) k =
     (if k = ''ttlMs'' then Some (json_number ttl)
      else if k = ''expiresAtMs'' then Some (json_number (sat_add 128 now ttl))
      else if k = ''renewedAtMs'' then Some (json_number now)
      else map_of m k)"
  by (simp add: renew_lease_def)

lemma view_of_renew:
  assumes "as_object lease \<noteq> None"
  shows "view_of (renew_lease now ttl lease) = (view_of lease)\<lparr>lv_expires := Some (sat_add 128 now ttl)\<rparr>"
proof -
  from assms obtain m where m: "lease = JObject m" by (cases lease) auto
  show ?thesis using sat_add_bound [of 128 now ttl]
    by (simp add: m view_of_def lease_mutex_key_def lease_capacity_key_def optional_string_def
        expires_at_ms_def string_at_path_def renew_lease_get json_number_def)
qed

lemma lease_ok_renew: "lease_ok lid lease \<Longrightarrow> lease_ok lid (renew_lease now ttl lease)"
proof -
  assume ok: "lease_ok lid lease"
  then obtain m where m: "lease = JObject m" by (cases lease) (auto simp: lease_ok_def)
  have "map_ok m" using ok by (simp add: lease_ok_def m)
  then have "json_ok (renew_lease now ttl lease)" by (simp add: m renew_lease_def)
  with ok show ?thesis
    by (simp add: lease_ok_def m required_string_def optional_string_def renew_lease_get)
      (simp add: renew_lease_def)
qed

section \<open>Well-formedness\<close>

lemma store_ok_lookup: "store_ok store \<Longrightarrow> map_of (leases_of store) lid = Some lease \<Longrightarrow> lease_ok lid lease"
  by (auto simp: store_ok_def dest: map_of_SomeD)

lemma store_ok_map_ok: "store_ok store \<Longrightarrow> map_ok store"
  by (simp add: store_ok_def)

lemma map_ok_leases_of: "map_ok store \<Longrightarrow> map_ok (leases_of store)"
  by (auto simp: leases_of_def leases_map_def split: option.splits json.splits dest: map_ok_lookup)

lemma store_ok_leases: "store_ok store \<Longrightarrow> bt_ok (leases_of store)"
  by (simp add: store_ok_def map_ok_leases_of)

lemma json_ok_into_json [simp]: "json_ok (into_json session t)"
  unfolding into_json_def Let_def by (rule json_ok_object) simp

lemma bt_ok_session_fold: "bt_ok sessions \<Longrightarrow> bt_ok (foldl (session_step t) sessions leases)"
  by (induction leases arbitrary: sessions) (auto simp: session_step_def split: option.splits)

lemma bt_ok_map_values: "bt_ok (map (\<lambda>(k, v). (k, f v)) m) = bt_ok m"
  by (simp add: bt_ok_def case_prod_beta comp_def)

lemma map_ok_sessions: "bt_ok m \<Longrightarrow> map_ok (map (\<lambda>(k, session). (k, into_json session t)) m)"
  by (auto simp: map_ok_def bt_ok_map_values)

lemma map_ok_rebuild [simp, intro]: "map_ok store \<Longrightarrow> map_ok (rebuild_sessions store t)"
  by (simp add: rebuild_sessions_def map_ok_sessions bt_ok_session_fold)

lemma map_ok_mut: "map_ok store \<Longrightarrow> map_ok (f (leases_of store)) \<Longrightarrow> map_ok (leases_map_mut f store)"
  by (simp add: leases_map_mut_def leases_of_def)

lemma map_ok_normalize [simp, intro]: "map_ok store \<Longrightarrow> map_ok (normalize_store_shape store)"
  by (auto simp: normalize_store_shape_def Let_def split: option.splits)

lemma map_ok_purge [simp, intro]: "map_ok store \<Longrightarrow> map_ok (fst (purge_expired store now))"
  by (simp add: purge_expired_def Let_def map_ok_mut map_ok_leases_of flip: leases_of_def)

lemma map_ok_grant [simp]:
  "map_ok store \<Longrightarrow> map_ok (fst (acquire_grant route ttl lid tk log store now n))"
  using lease_ok_record [of lid route now "sat_add 128 now ttl" ttl]
  by (auto simp: acquire_grant_def Let_def lease_ok_def map_ok_leases_of intro!: map_ok_rebuild map_ok_mut)

lemma renew_lease_ok: "json_ok lease \<Longrightarrow> json_ok (renew_lease now ttl lease)"
  by (cases lease) (auto simp: renew_lease_def)

lemma map_ok_mutator:
  assumes "map_ok store"
  shows "map_ok (fst (op_mutator e op store now n))"
proof (cases op)
  case ListOp
  with assms show ?thesis by (simp add: list_mutator_def Let_def)
next
  case (AcquireOp route ttl tk)
  with assms show ?thesis
    by (auto simp: acquire_mutator_def Let_def acquire_blocked_def map_ok_mut map_ok_leases_of
        split: option.splits prod.splits)
next
  case (RenewOp lid ttl)
  have "map_ok (leases_of store)" using assms by (rule map_ok_leases_of)
  with assms RenewOp show ?thesis
    by (auto simp: renew_mutator_def Let_def map_ok_lookup renew_lease_ok
        simp flip: leases_of_def intro!: map_ok_rebuild map_ok_mut split: option.splits)
next
  case (ReleaseOp lid)
  with assms show ?thesis
    by (auto simp: release_mutator_def Let_def map_ok_leases_of intro!: map_ok_rebuild map_ok_mut)
qed

lemma map_ok_exec: "map_ok store \<Longrightarrow> map_ok (lease_exec e op store)"
  by (auto simp: lease_exec_def lease_outcome_def store_update_def Let_def split: prod.splits)
    (metis fst_conv map_ok_insert json_ok_number map_ok_mutator map_ok_normalize map_ok_purge map_ok_rebuild)

section \<open>Conflicts\<close>

lemma card_lookup_filter:
  "bt_ok m \<Longrightarrow> card {k. \<exists>v. map_of m k = Some v \<and> P v} = length (filter P (map snd m))"
proof (induction m)
  case (Cons e m)
  obtain a b where e: "e = (a, b)" by force
  have none: "map_of m a = None" using Cons.prems by (force simp: e map_of_eq_None_iff)
  have "{k. \<exists>v. map_of (e # m) k = Some v \<and> P v} =
        (if P b then insert a {k. \<exists>v. map_of m k = Some v \<and> P v} else {k. \<exists>v. map_of m k = Some v \<and> P v})"
    using none by (auto simp: e split: if_splits)
  moreover have "finite {k. \<exists>v. map_of m k = Some v \<and> P v}"
    by (rule finite_subset [OF _ finite_dom_map_of [of m]]) auto
  ultimately show ?case using Cons none by (auto simp: e)
qed simp

lemma abs_capacity_users:
  "capacity_users (abs_leases store) c =
     {lid. \<exists>l. map_of (leases_of store) lid = Some l \<and> lease_capacity_key l = Some c}"
  by (auto simp: capacity_users_def abs_leases_def view_of_def)

lemma abs_mutex_holders:
  "mutex_holders (abs_leases store) k =
     {lid. \<exists>l. map_of (leases_of store) lid = Some l \<and> lease_mutex_key l = Some k}"
  by (auto simp: mutex_holders_def abs_leases_def view_of_def)

lemma card_abs_capacity_users:
  "bt_ok (leases_of store) \<Longrightarrow>
   card (capacity_users (abs_leases store) c) =
     length (filter (\<lambda>l. lease_capacity_key l = Some c) (map snd (leases_of store)))"
  by (simp add: abs_capacity_users card_lookup_filter)

lemma conflict_None:
  assumes "bt_ok (leases_of store)" "0 < r_parallelism_limit route" "find_conflict store route = None"
  shows "conflict_set (abs_leases store) route = {}"
proof (cases "leases_map store")
  case None
  then show ?thesis using assms
    by (auto simp: conflict_set_def abs_mutex_holders abs_capacity_users leases_map_leases_of
        split: option.splits)
next
  case (Some m)
  then have m: "leases_of store = m" by (rule leases_map_leases_of)
  show ?thesis
  proof (cases "r_request_mutex_key route")
    case None
    with assms Some show ?thesis
      by (auto simp: find_conflict_def conflict_set_def Let_def m card_abs_capacity_users [OF assms(1)]
          split: if_splits)
  next
    case (Some k)
    with assms(3) \<open>leases_map store = Some m\<close> have "\<forall>x \<in> set m. lease_mutex_key (snd x) \<noteq> Some k"
      by (simp add: find_conflict_def Let_def find_None_iff)
    with Some show ?thesis by (force simp: conflict_set_def abs_mutex_holders m dest: map_of_SomeD)
  qed
qed

lemma conflict_Some:
  assumes "bt_ok (leases_of store)" "find_conflict store route = Some (reason, lease)"
  shows "\<exists>lid \<in> conflict_set (abs_leases store) route. map_of (leases_of store) lid = Some lease"
proof -
  let ?m = "leases_of store"
  obtain m where "leases_map store = Some m" using assms(2) by (auto simp: find_conflict_def split: option.splits)
  then have map: "leases_map store = Some ?m" by (simp add: leases_of_def)
  have key: "\<exists>lid. map_of ?m lid = Some l" if "l \<in> set (map snd ?m)" for l
    using that map_of_values [OF assms(1), of l] by simp
  show ?thesis
  proof (cases "r_request_mutex_key route")
    case (Some k)
    with assms(2) map have "lease_mutex_key lease = Some k" "lease \<in> set (map snd ?m)"
      by (auto simp: find_conflict_def find_Some_iff)
    with key Some show ?thesis by (fastforce simp: conflict_set_def abs_mutex_holders)
  next
    case None
    let ?match = "filter (\<lambda>l. lease_capacity_key l = Some (route_capacity_key route)) (map snd ?m)"
    from assms(2) map None have lim: "0 < r_parallelism_limit route" "r_parallelism_limit route \<le> length ?match"
      and lease: "lease = (case ?match of [] \<Rightarrow> JNull | l # _ \<Rightarrow> l)"
      by (auto simp: find_conflict_def Let_def split: if_splits)
    then have match: "lease \<in> set ?match" by (cases ?match) auto
    then have "lease \<in> set (map snd ?m)" by simp
    then obtain lid where lid: "map_of ?m lid = Some lease" using key by blast
    have "lid \<in> conflict_set (abs_leases store) route"
      using None lim match lid
      by (simp add: conflict_set_def card_abs_capacity_users [OF assms(1)]) (simp add: abs_capacity_users)
    with lid show ?thesis by blast
  qed
qed

lemma conflict_free:
  assumes "bt_ok (leases_of store)" "conflict_set (abs_leases store) route = {}"
  shows "find_conflict store route = None"
proof (rule ccontr)
  assume "find_conflict store route \<noteq> None"
  then obtain reason lease where "find_conflict store route = Some (reason, lease)" by auto
  then show False using conflict_Some [OF assms(1)] assms(2) by blast
qed

section \<open>The simulation\<close>

lemma abs_insert:
  "leases_of s' = bt_insert k l (leases_of s) \<Longrightarrow> abs_leases s' = (abs_leases s)(k \<mapsto> view_of l)"
  by (auto simp: abs_leases_def)

lemma abs_remove: "leases_of s' = bt_remove k (leases_of s) \<Longrightarrow> abs_leases s' = (abs_leases s)(k := None)"
  by (auto simp: abs_leases_def)

lemma abs_same: "leases_of s' = leases_of s \<Longrightarrow> abs_leases s' = abs_leases s"
  by (simp add: abs_leases_def)

lemma view_live_of [simp]: "view_live now (view_of lease) = lease_live now lease"
  by (simp add: view_live_def view_of_def lease_live_def)

lemma abs_purge:
  "bt_ok (leases_of store) \<Longrightarrow> leases_of s' = bt_retain (\<lambda>_. lease_live now) (leases_of store) \<Longrightarrow>
   abs_leases s' = purge_table now (abs_leases store)"
  by (auto simp: abs_leases_def purge_table_def map_of_bt_retain fun_eq_iff split: option.splits)

text \<open>The four outcomes of an acquisition, as facts about the leases.\<close>

lemma acquire_outcomes:
  assumes ok: "store_ok s"
    and t_def: "t = fst (acquire_mutator route ttl takeover pid nanos s now n)"
    and new_def: "new = generate_lease_id route now pid nanos"
  obtains
    (no_route) "route_blockers route \<noteq> []" "leases_of t = leases_of s"
  | (refused) lid lease where "route_blockers route = []" "lid \<in> conflict_set (abs_leases s) route"
      "map_of (leases_of s) lid = Some lease" "\<not> takeover_allowed takeover lease route"
      "leases_of t = leases_of s"
  | (granted) "route_blockers route = []" "conflict_set (abs_leases s) route = {}"
      "leases_of t = bt_insert new (lease_record_json new route now (sat_add 128 now ttl) ttl) (leases_of s)"
  | (taken) lid lease where "route_blockers route = []" "lid \<in> conflict_set (abs_leases s) route"
      "map_of (leases_of s) lid = Some lease" "takeover_allowed takeover lease route"
      "leases_of t = bt_insert new (lease_record_json new route now (sat_add 128 now ttl) ttl)
                       (bt_remove lid (leases_of s))"
proof -
  note bt = store_ok_leases [OF ok]
  show thesis
  proof (cases "route_blockers route = []")
    case False
    then show ?thesis by (intro no_route) (simp_all add: t_def acquire_mutator_def Let_def)
  next
    case True
    show ?thesis
    proof (cases "find_conflict s route")
      case None
      then show ?thesis using True conflict_None [OF bt unblocked_limit [OF True]]
        by (intro granted) (simp_all add: t_def new_def acquire_mutator_def Let_def)
    next
      case (Some rc)
      obtain reason lease where rc: "rc = (reason, lease)" by force
      obtain lid where lid: "lid \<in> conflict_set (abs_leases s) route" "map_of (leases_of s) lid = Some lease"
        using conflict_Some [OF bt Some [unfolded rc]] by blast
      have key: "required_string lease [''leaseId''] = lid"
        using store_ok_lookup [OF ok lid(2)] by (simp add: lease_ok_def)
      show ?thesis
      proof (cases "takeover_allowed takeover lease route")
        case True
        with lid key Some \<open>route_blockers route = []\<close> show ?thesis
          by (intro taken [of lid lease])
            (simp_all add: rc t_def new_def acquire_mutator_def Let_def flip: leases_of_def)
      next
        case False
        with lid Some \<open>route_blockers route = []\<close> show ?thesis
          by (intro refused [of lid lease]) (simp_all add: rc t_def acquire_mutator_def Let_def)
      qed
    qed
  qed
qed

lemma takeover_session:
  "takeover_allowed takeover lease route \<longleftrightarrow>
     takeover \<and> lv_session (view_of lease) = Some (r_session_lease_id route)"
  by (auto simp: takeover_allowed_def view_of_def split: option.splits)

lemma mutator_refines:
  assumes ok: "store_ok s"
  shows "lease_spec now (abs_leases s) op (abs_leases (fst (op_mutator e op s now n)))"
proof (cases op)
  case ListOp
  have "abs_leases (fst (op_mutator e op s now n)) = abs_leases s" by (rule abs_same) (simp add: ListOp)
  then show ?thesis by (simp only: ListOp spec_list)
next
  case (AcquireOp route ttl tk)
  define t where "t = fst (acquire_mutator route ttl tk (le_pid e) (le_nanos e) s now n)"
  have "lease_spec now (abs_leases s) (AcquireOp route ttl tk) (abs_leases t)"
    using ok t_def refl
  proof (cases rule: acquire_outcomes)
    case no_route
    then show ?thesis by (simp only: abs_same [OF no_route(2)] spec_refuse_route [OF no_route(1)])
  next
    case (refused lid lease)
    have "abs_leases s lid = Some (view_of lease)" using refused(3) by (simp add: abs_leases_def)
    moreover have "\<not> tk \<or> lv_session (view_of lease) \<noteq> Some (r_session_lease_id route)"
      using refused(4) by (simp add: takeover_session)
    ultimately show ?thesis unfolding abs_same [OF refused(5)] by (rule spec_refuse_conflict [OF refused(2)])
  next
    case granted
    then show ?thesis by (simp add: abs_insert [OF granted(3)] view_of_record spec_grant)
  next
    case (taken lid lease)
    have "abs_leases (leases_map_mut (bt_remove lid) s) = (abs_leases s)(lid := None)"
      by (rule abs_remove) simp
    with taken(5) have "abs_leases t = ((abs_leases s)(lid := None))
        (generate_lease_id route now (le_pid e) (le_nanos e) \<mapsto> new_view route now ttl)"
      by (metis abs_insert leases_of_mut view_of_record)
    moreover have "abs_leases s lid = Some (view_of lease)" using taken(3) by (simp add: abs_leases_def)
    moreover have "tk" "lv_session (view_of lease) = Some (r_session_lease_id route)"
      using taken(4) by (simp_all add: takeover_session)
    ultimately show ?thesis using spec_take_over [OF taken(1,2)] by simp
  qed
  then show ?thesis by (simp add: AcquireOp t_def)
next
  case (RenewOp lid ttl)
  show ?thesis
  proof (cases "map_of (leases_of s) lid")
    case None
    then have "abs_leases (fst (op_mutator e op s now n)) = abs_leases s"
      by (intro abs_same) (simp add: RenewOp)
    with None show ?thesis by (simp add: RenewOp) (rule spec_renew_missing, simp add: abs_leases_def)
  next
    case (Some lease)
    have obj: "as_object lease \<noteq> None" using store_ok_lookup [OF ok Some] by (simp add: lease_ok_def)
    have "abs_leases (fst (op_mutator e op s now n)) = (abs_leases s)(lid \<mapsto> view_of (renew_lease now ttl lease))"
      by (rule abs_insert) (simp add: RenewOp Some)
    moreover have "abs_leases s lid = Some (view_of lease)" by (simp add: abs_leases_def Some)
    ultimately show ?thesis using spec_renew [of "abs_leases s" lid "view_of lease" now ttl]
      by (simp add: RenewOp view_of_renew [OF obj])
  qed
next
  case (ReleaseOp lid)
  have "abs_leases (fst (op_mutator e op s now n)) = (abs_leases s)(lid := None)"
    by (rule abs_remove) (simp add: ReleaseOp)
  then show ?thesis by (simp only: ReleaseOp spec_release)
qed

section \<open>The store implements the interface\<close>

lemma store_okI:
  "map_ok s \<Longrightarrow> (\<And>lid lease. map_of (leases_of s) lid = Some lease \<Longrightarrow> lease_ok lid lease) \<Longrightarrow> store_ok s"
  using bt_in_set [OF map_ok_bt_ok [OF map_ok_leases_of], of s] by (auto simp: store_ok_def)

lemma mutator_store_ok:
  assumes ok: "store_ok s"
  shows "store_ok (fst (op_mutator e op s now n))"
proof (rule store_okI)
  show "map_ok (fst (op_mutator e op s now n))" using ok by (simp add: map_ok_mutator store_ok_map_ok)
  fix lid lease
  assume look: "map_of (leases_of (fst (op_mutator e op s now n))) lid = Some lease"
  note old = store_ok_lookup [OF ok]
  show "lease_ok lid lease"
  proof (cases op)
    case (AcquireOp route ttl tk)
    define t where "t = fst (acquire_mutator route ttl tk (le_pid e) (le_nanos e) s now n)"
    have look': "map_of (leases_of t) lid = Some lease" using look by (simp add: AcquireOp t_def)
    from ok t_def refl show ?thesis
      by (cases rule: acquire_outcomes) (use look' old in \<open>auto simp: lease_ok_record split: if_splits\<close>)
  qed (use look old in \<open>auto simp: lease_ok_renew split: option.splits if_splits\<close>)
qed

text \<open>The store a mutator runs on, and the store written back around its result.\<close>

definition purged_store :: "nat \<Rightarrow> json_map \<Rightarrow> json_map" where
  "purged_store now s = rebuild_sessions (fst (purge_expired (normalize_store_shape s) now)) now"

lemma purged_leases [simp]: "leases_of (purged_store now s) = bt_retain (\<lambda>_. lease_live now) (leases_of s)"
  by (simp add: purged_store_def)

lemma purged_ok: "store_ok s \<Longrightarrow> store_ok (purged_store now s)"
  by (rule store_okI)
    (auto simp: purged_store_def store_ok_map_ok store_ok_leases map_of_bt_retain
      dest: store_ok_lookup split: option.splits if_splits)

lemma abs_purged: "store_ok s \<Longrightarrow> abs_leases (purged_store now s) = purge_table now (abs_leases s)"
  by (rule abs_purge) (simp_all add: store_ok_leases)

lemma exec_leases:
  "\<exists>n. leases_of (lease_exec e op s) = leases_of (fst (op_mutator e op (purged_store (le_now e) s) (le_now e) n))"
  unfolding lease_exec_def lease_outcome_def leases_of_update purged_store_def by blast

lemma exec_store_ok: "store_ok s \<Longrightarrow> store_ok (lease_exec e op s)"
  by (rule store_okI)
    (metis map_ok_exec store_ok_map_ok, metis exec_leases mutator_store_ok purged_ok store_ok_lookup)

lemma exec_lease_spec:
  "store_ok s \<Longrightarrow>
   lease_spec (le_now e) (purge_table (le_now e) (abs_leases s)) op (abs_leases (lease_exec e op s))"
  by (metis abs_purged abs_same exec_leases mutator_refines purged_ok)

interpretation hub: lease_manager abs_leases store_ok le_now lease_exec
  by unfold_locales (simp_all add: exec_store_ok exec_lease_spec)

lemma default_store_ok: "store_ok (default_store_map now)"
proof (rule store_okI)
  show "map_ok (default_store_map now)"
    unfolding default_store_map_def by (intro map_ok_insert) simp_all
qed (auto simp: default_store_map_def leases_of_def leases_map_def)

lemma abs_default: "abs_leases (default_store_map now) = Map.empty"
  by (auto simp: abs_leases_def default_store_map_def leases_of_def leases_map_def)

end
