(* ===== verification/Lease_Properties.thy ===== *)
theory Lease_Properties
  imports Lease_Refinement
begin

text \<open>
  The correctness properties of the hub's lease store, over every sequence of operations that starts
  from an empty store: mutual exclusion, the capacity bound, the refinement of the lease table, the
  outcome of an acquisition, takeover, expiry and renewal.
\<close>

section \<open>A sample route and environment\<close>

definition sample_route :: planned_route where
  "sample_route = \<lparr>r_server_name = ''git'', r_admission_state = ''configured-source'',
     r_request_strategy = ''serialized'', r_request_mutex_key = Some ''git:repo'',
     r_session_affinity_key = None, r_process_scope_key = ''git'', r_process_partition = ''global'',
     r_project_binding_key = None, r_worktree_binding_key = None, r_conflict_domain = ''git'',
     r_host_lock_key = None, r_state_profile_key = None, r_scheduler_lane = ''serialized'',
     r_startup_strategy = ''on-demand'', r_upstream_transport = ''stdio'', r_parallelism_limit = 1,
     r_warnings = [], r_client_id = ''c1'', r_session_lease_id = ''external:s1'',
     r_session_id = Some ''s1'', r_project_root = None\<rparr>"

definition sample_env :: "nat \<Rightarrow> lease_env" where
  "sample_env t = \<lparr>le_now = t, le_now2 = t, le_now3 = t, le_pid = 7, le_nanos = Some t\<rparr>"

lemma sample_unblocked [simp]: "route_blockers sample_route = []"
  by (simp add: route_blockers_def sample_route_def)

lemma sample_keys [simp]:
  "r_request_mutex_key sample_route = Some ''git:repo''" "r_session_lease_id sample_route = ''external:s1''"
  "le_now (sample_env t) = t"
  by (simp_all add: sample_route_def sample_env_def)

section \<open>Safety of every run\<close>

text \<open>C1: mutual exclusion. However list, acquire, renew and release commands follow one another on a
  store that started empty, at whatever times, every mutex key is held by at most one lease.\<close>

theorem lease_mutex_exclusive:
  "\<exists>lid. mutex_holders (abs_leases (lease_run ops (default_store_map t0))) k \<subseteq> {lid}"
proof -
  have "exclusive (abs_leases (lease_run ops (default_store_map t0)))"
    unfolding lease_run_def
    by (rule hub.run_exclusive [OF default_store_ok]) (simp add: abs_default exclusive_def mutex_holders_def)
  then show ?thesis unfolding exclusive_def by blast
qed

text \<open>C2: the capacity bound. If every acquisition on a capacity key comes from a route without a mutex
  key and with a parallelism limit of at most \<open>L\<close>, then the store never lists more than \<open>L\<close> leases
  with that key.\<close>

theorem lease_capacity_bound:
  assumes "\<forall>(e, op) \<in> set ops. respects_capacity c L op"
  shows "length (filter (\<lambda>l. lease_capacity_key l = Some c)
           (sorted_leases (lease_run ops (default_store_map t0)))) \<le> L"
proof -
  let ?s = "lease_run ops (default_store_map t0)"
  have "within_capacity c L (abs_leases ?s)" unfolding lease_run_def
    by (rule hub.run_within_capacity [OF default_store_ok assms])
      (simp add: abs_default within_capacity_def capacity_users_def)
  moreover have "bt_ok (leases_of ?s)" unfolding lease_run_def
    by (rule store_ok_leases) (rule hub.run_ok [OF default_store_ok])
  moreover have "sorted_leases ?s = map snd (leases_of ?s)"
    by (simp add: sorted_leases_def leases_of_def split: option.splits)
  ultimately show ?thesis by (simp add: within_capacity_def card_abs_capacity_users)
qed

definition sample_shared :: planned_route where
  "sample_shared = sample_route\<lparr>r_request_mutex_key := None, r_parallelism_limit := 2\<rparr>"

theorem lease_capacity_bound_witness:
  "length (filter (\<lambda>l. lease_capacity_key l = Some ''git'')
     (sorted_leases (lease_run (map (\<lambda>t. (sample_env t, AcquireOp sample_shared 1000 False)) [1, 2, 3])
        (default_store_map 0)))) \<le> 2"
proof -
  have "\<forall>(e, op) \<in> set (map (\<lambda>t. (sample_env t, AcquireOp sample_shared 1000 False)) [1, 2, 3]).
          respects_capacity ''git'' 2 op"
    by (simp add: sample_shared_def sample_route_def)
  then show ?thesis by (rule lease_capacity_bound)
qed

text \<open>C3: refinement. On every well-formed store, each operation first drops the expired leases and then
  takes one step of the abstract lease table, and leaves a well-formed store.\<close>

theorem lease_store_refines:
  assumes "store_ok s"
  shows "store_ok (lease_exec e op s) \<and>
    lease_spec (le_now e) (purge_table (le_now e) (abs_leases s)) op (abs_leases (lease_exec e op s))"
  using assms hub.exec_ok hub.exec_refines by blast

theorem lease_store_refines_witness:
  "store_ok (lease_exec (sample_env 5) (AcquireOp sample_route 1000 True) (default_store_map 0)) \<and>
   lease_spec (le_now (sample_env 5)) (purge_table (le_now (sample_env 5)) (abs_leases (default_store_map 0)))
     (AcquireOp sample_route 1000 True)
     (abs_leases (lease_exec (sample_env 5) (AcquireOp sample_route 1000 True) (default_store_map 0)))"
  by (rule lease_store_refines [OF default_store_ok])

text \<open>The stored document is always well-formed JSON: every object in it, at any depth, has its
  members in strictly ascending key order.\<close>

lemma lease_store_well_formed: "json_ok (JObject (lease_run ops (default_store_map t0)))"
  unfolding lease_run_def using hub.run_ok [OF default_store_ok] by (simp add: store_ok_map_ok)

section \<open>Outcome of an acquisition\<close>

lemma grant_exit [simp]: "lc_exit_code (snd (snd (acquire_grant route ttl lid tk log store now n))) = 0"
  by (simp add: acquire_grant_def Let_def)

lemma blocked_exit [simp]: "lc_exit_code (snd (snd (acquire_blocked route reason c store now n))) = 1"
  by (simp add: acquire_blocked_def)

lemma exec_result:
  "\<exists>n. leases_of (lease_exec e op s) = leases_of (fst (op_mutator e op (purged_store (le_now e) s) (le_now e) n)) \<and>
       lease_result e op s = snd (snd (op_mutator e op (purged_store (le_now e) s) (le_now e) n))"
proof -
  let ?n = "snd (purge_expired (normalize_store_shape s) (le_now e))"
  have "lease_result e op s = snd (snd (op_mutator e op (purged_store (le_now e) s) (le_now e) ?n))"
    by (simp add: lease_result_def lease_outcome_def store_update_def purged_store_def Let_def split: prod.splits)
  moreover have "leases_of (lease_exec e op s) =
      leases_of (fst (op_mutator e op (purged_store (le_now e) s) (le_now e) ?n))"
    by (simp add: lease_exec_def lease_outcome_def leases_of_update purged_store_def)
  ultimately show ?thesis by blast
qed

lemma acquire_exit_code:
  "lc_exit_code (snd (snd (acquire_mutator route ttl takeover pid nanos s now n))) =
     (if route_blockers route \<noteq> [] then 1
      else case find_conflict s route of
             None \<Rightarrow> 0
           | Some (reason, lease) \<Rightarrow> if takeover_allowed takeover lease route then 0 else 1)"
  by (simp add: acquire_mutator_def Let_def split: option.splits prod.splits)

lemma acquire_leases:
  assumes "store_ok s"
  shows "if lc_exit_code (snd (snd (acquire_mutator route ttl takeover pid nanos s now n))) = 0
         then abs_leases (fst (acquire_mutator route ttl takeover pid nanos s now n))
                (generate_lease_id route now pid nanos) = Some (new_view route now ttl)
         else leases_of (fst (acquire_mutator route ttl takeover pid nanos s now n)) = leases_of s"
proof -
  have "abs_leases t lid = Some (new_view route now ttl)"
    if "leases_of t = bt_insert lid (lease_record_json lid route now (sat_add 128 now ttl) ttl) m" for t lid m
    using that by (simp add: abs_leases_def view_of_record)
  then show ?thesis
    by (auto simp: acquire_mutator_def Let_def split: option.splits prod.splits)
qed

lemma acquire_result:
  assumes "store_ok s"
  shows "if lc_exit_code (lease_result e (AcquireOp route ttl takeover) s) = 0
         then abs_leases (lease_exec e (AcquireOp route ttl takeover) s)
                (generate_lease_id route (le_now e) (le_pid e) (le_nanos e)) = Some (new_view route (le_now e) ttl)
         else abs_leases (lease_exec e (AcquireOp route ttl takeover) s) = purge_table (le_now e) (abs_leases s)"
proof -
  let ?op = "AcquireOp route ttl takeover" and ?p = "purged_store (le_now e) s"
  obtain n where n: "leases_of (lease_exec e ?op s) = leases_of (fst (op_mutator e ?op ?p (le_now e) n))"
      "lease_result e ?op s = snd (snd (op_mutator e ?op ?p (le_now e) n))"
    using exec_result by blast
  note acquired = acquire_leases [OF purged_ok [OF assms], where route = route and ttl = ttl and takeover = takeover and
      pid = "le_pid e" and nanos = "le_nanos e" and now = "le_now e" and n = n]
  show ?thesis
  proof (cases "lc_exit_code (lease_result e ?op s) = 0")
    case True
    with acquired n show ?thesis by (simp add: abs_same [OF n(1)])
  next
    case False
    with acquired n have "leases_of (lease_exec e ?op s) = leases_of ?p" by simp
    then have "abs_leases (lease_exec e ?op s) = purge_table (le_now e) (abs_leases s)"
      using abs_same abs_purged [OF assms] by metis
    with False show ?thesis by simp
  qed
qed

text \<open>The result of an acquisition is truthful. Exit code 0 means that the store holds the new lease
  under its generated id, with the route's keys and the expiry now plus the time to live; any other exit
  code means that the live leases are exactly what they were.\<close>

lemma acquire_result_truthful:
  assumes "store_ok s"
  shows "if lc_exit_code (lease_result e (AcquireOp route ttl takeover) s) = 0
         then abs_leases (lease_exec e (AcquireOp route ttl takeover) s)
                (generate_lease_id route (le_now e) (le_pid e) (le_nanos e)) = Some (new_view route (le_now e) ttl)
         else abs_leases (lease_exec e (AcquireOp route ttl takeover) s) = purge_table (le_now e) (abs_leases s)"
  using assms by (rule acquire_result)

text \<open>An acquisition is granted exactly when the route is routable and either nothing live conflicts
  with it, or takeover was asked for and the lease it conflicts with belongs to the same session. The right
  side is over the leases that are live at the time of the call.\<close>

lemma acquire_granted_iff:
  "lc_exit_code (lease_result e (AcquireOp route ttl takeover) s) = 0 \<longleftrightarrow>
     route_blockers route = [] \<and>
     (case find_conflict (purged_store (le_now e) s) route of
        None \<Rightarrow> True
      | Some (reason, lease) \<Rightarrow>
          takeover \<and> string_at_path lease [''sessionLeaseId''] = Some (r_session_lease_id route))"
proof -
  let ?op = "AcquireOp route ttl takeover" and ?p = "purged_store (le_now e) s"
  obtain n where n: "lease_result e ?op s = snd (snd (op_mutator e ?op ?p (le_now e) n))"
    using exec_result by blast
  show ?thesis
    by (auto simp: n acquire_exit_code takeover_allowed_def split: option.splits if_splits)
qed

text \<open>With takeover, the live holder of the mutex key in the same session is replaced by the new lease.\<close>

lemma exec_take_over:
  assumes ok: "store_ok s" and route: "route_blockers route = []" "r_request_mutex_key route = Some k"
    and ex: "exclusive (abs_leases s)"
    and held: "purge_table (le_now e) (abs_leases s) lid = Some v" "lv_mutex v = Some k"
      "lv_session v = Some (r_session_lease_id route)"
  shows "abs_leases (lease_exec e (AcquireOp route ttl True) s) =
    ((purge_table (le_now e) (abs_leases s))(lid := None))
      (generate_lease_id route (le_now e) (le_pid e) (le_nanos e) \<mapsto> new_view route (le_now e) ttl)"
proof -
  let ?p = "purged_store (le_now e) s" and ?T = "purge_table (le_now e) (abs_leases s)"
    and ?new = "generate_lease_id route (le_now e) (le_pid e) (le_nanos e)"
  have okp: "store_ok ?p" using ok by (rule purged_ok)
  have T: "abs_leases ?p = ?T" using ok by (rule abs_purged)
  obtain n t where t: "t = fst (acquire_mutator route ttl True (le_pid e) (le_nanos e) ?p (le_now e) n)"
      and lt: "leases_of (lease_exec e (AcquireOp route ttl True) s) = leases_of t"
    using exec_result [of e "AcquireOp route ttl True" s] by auto
  have in_set: "lid \<in> conflict_set (abs_leases ?p) route"
    using held by (simp add: T conflict_set_def route mutex_holders_def)
  have one: "i = lid" if "i \<in> conflict_set (abs_leases ?p) route" for i
    using that in_set exclusive_purge [OF ex, of "le_now e"] unfolding T exclusive_def
    by (simp add: conflict_set_def route)
  have same: "lv_session (view_of lease) = lv_session v" if "map_of (leases_of ?p) lid = Some lease" for lease
    using that held(1) unfolding T [symmetric] by (simp add: abs_leases_def del: purged_leases)
  from okp t refl have "leases_of t = bt_insert ?new (lease_record_json ?new route (le_now e)
      (sat_add 128 (le_now e) ttl) ttl) (bt_remove lid (leases_of ?p))"
  proof (cases rule: acquire_outcomes)
    case no_route
    with route(1) show ?thesis by simp
  next
    case (refused i lease)
    then show ?thesis using one [OF refused(2)] same [of lease] held(3) by (simp add: takeover_session)
  next
    case granted
    with in_set show ?thesis by blast
  next
    case (taken i lease)
    then show ?thesis using one [OF taken(2)] by (simp del: purged_leases)
  qed
  then have "abs_leases t = (abs_leases (leases_map_mut (bt_remove lid) ?p))(?new \<mapsto> new_view route (le_now e) ttl)"
    using abs_insert [of t ?new _ "leases_map_mut (bt_remove lid) ?p"] view_of_record by simp
  moreover have "abs_leases (leases_map_mut (bt_remove lid) ?p) = ?T(lid := None)"
    using abs_remove [of _ lid ?p] by (simp add: T)
  ultimately show ?thesis using abs_same [OF lt] by simp
qed

text \<open>Takeover never reaches across sessions. If a live lease is gone after an acquisition, then takeover
  was requested, the lease conflicted with the route, and it belonged to the requesting session.\<close>

lemma takeover_same_session:
  assumes "store_ok s"
    and "purge_table (le_now e) (abs_leases s) lid = Some v"
    and "abs_leases (lease_exec e (AcquireOp route ttl takeover) s) lid = None"
  shows "takeover \<and> lv_session v = Some (r_session_lease_id route) \<and>
         lid \<in> conflict_set (purge_table (le_now e) (abs_leases s)) route"
  using hub.exec_refines [OF assms(1), of e "AcquireOp route ttl takeover"] assms(2,3)
  by (auto elim!: acquire_cases split: if_splits)

definition sample_held :: json_map where
  "sample_held = lease_exec (sample_env 5) (AcquireOp sample_route 1000 False) (default_store_map 0)"

definition sample_lid :: string where
  "sample_lid = generate_lease_id sample_route 5 7 (Some 5)"

lemma sample_held_ok: "store_ok sample_held"
  unfolding sample_held_def by (rule exec_store_ok [OF default_store_ok])

lemma purged_default: "find_conflict (purged_store now (default_store_map t)) sample_route = None"
  by (rule conflict_free [OF store_ok_leases [OF purged_ok [OF default_store_ok]]])
    (simp add: abs_purged default_store_ok abs_default conflict_set_def mutex_holders_def purge_table_def)

lemma sample_held_abs: "abs_leases sample_held sample_lid = Some (new_view sample_route 5 1000)"
  using acquire_result [OF default_store_ok, of "sample_env 5" sample_route 1000 False 0]
    exec_result [of "sample_env 5" "AcquireOp sample_route 1000 False" "default_store_map 0"]
  by (auto simp: acquire_exit_code purged_default sample_held_def sample_lid_def sample_env_def)

lemma sample_held_lookup:
  "purge_table 6 (abs_leases sample_held) sample_lid = Some (new_view sample_route 5 1000)"
  by (simp add: purge_table_def sample_held_abs view_live_def new_view_def sat_add_def uint_max_def)

lemma sample_held_exclusive: "exclusive (abs_leases sample_held)"
  unfolding sample_held_def
  by (rule hub.exec_exclusive [OF default_store_ok]) (simp add: abs_default exclusive_def mutex_holders_def)

lemma sample_lid_fresh: "generate_lease_id sample_route 6 7 (Some 6) \<noteq> sample_lid"
  by code_simp

lemma sample_taken:
  "abs_leases (lease_exec (sample_env 6) (AcquireOp sample_route 1000 True) sample_held) sample_lid = None"
  using exec_take_over [OF sample_held_ok sample_unblocked sample_keys(1) sample_held_exclusive,
      of "sample_env 6" sample_lid _ 1000] sample_held_lookup sample_lid_fresh
  by (simp add: new_view_def sample_env_def)

text \<open>C30: releasing the holder of a mutex key frees it: the next acquisition of a routable route with that
  key is granted, whatever the times of the two calls.\<close>

theorem release_enables_acquire:
  assumes "store_ok s" and "r_request_mutex_key route = Some k" and "route_blockers route = []"
    and "mutex_holders (abs_leases s) k \<subseteq> {lid}"
  shows "lc_exit_code (lease_result e (AcquireOp route ttl takeover) (lease_exec e' (ReleaseOp lid) s)) = 0"
proof -
  let ?s = "lease_exec e' (ReleaseOp lid) s"
  let ?p = "purged_store (le_now e) ?s"
  have ok: "store_ok ?s" using assms(1) by (rule exec_store_ok)
  have "lease_spec (le_now e') (purge_table (le_now e') (abs_leases s)) (ReleaseOp lid) (abs_leases ?s)"
    using assms(1) by (rule hub.exec_refines)
  then have "abs_leases ?s = (purge_table (le_now e') (abs_leases s))(lid := None)"
    by (cases rule: lease_spec.cases) auto
  then have "mutex_holders (purge_table (le_now e) (abs_leases ?s)) k = {}"
    using assms(4) by (auto simp: mutex_holders_def purge_table_def split: option.splits if_splits)
  then have "conflict_set (abs_leases ?p) route = {}"
    by (simp add: abs_purged [OF ok] conflict_set_def assms(2))
  then have "find_conflict ?p route = None" by (rule conflict_free [OF store_ok_leases [OF purged_ok [OF ok]]])
  then show ?thesis by (simp add: acquire_granted_iff assms(3))
qed

theorem release_enables_acquire_witness:
  "lc_exit_code (lease_result (sample_env 7) (AcquireOp sample_route 1000 False)
     (lease_exec (sample_env 6) (ReleaseOp sample_lid) sample_held)) = 0"
proof (rule release_enables_acquire [OF sample_held_ok sample_keys(1) sample_unblocked])
  show "mutex_holders (abs_leases sample_held) ''git:repo'' \<subseteq> {sample_lid}"
    using sample_held_exclusive sample_held_abs by (auto simp: exclusive_def mutex_holders_def new_view_def)
qed

end
