(* ===== verification/Lease_Sessions.thy ===== *)
theory Lease_Sessions
  imports Lease_Properties
begin

text \<open>
  Two further properties of the hub's lease store: no expired lease survives an operation, and the
  sessions member is always an exact index of the leases.
\<close>

section \<open>Expiry\<close>

fun op_ttl_positive :: "lease_op \<Rightarrow> bool" where
  "op_ttl_positive (AcquireOp route ttl takeover) = (0 < ttl)"
| "op_ttl_positive (RenewOp lid ttl) = (0 < ttl)"
| "op_ttl_positive _ = True"

lemma fresh_expiry: "0 < ttl \<Longrightarrow> now < uint_max 128 \<Longrightarrow> now < sat_add 128 now ttl"
  by (simp add: sat_add_def)

lemma spec_all_live:
  assumes "lease_spec now T op T'" "op_ttl_positive op" "now < uint_max 128"
    and "\<forall>v \<in> ran T. view_live now v"
  shows "\<forall>v \<in> ran T'. view_live now v"
  using assms
  by (induction rule: lease_spec.induct)
    (auto simp: ran_def new_view_def view_live_def fresh_expiry split: if_splits)

lemma purge_all_live: "\<forall>v \<in> ran (purge_table now T). view_live now v"
  by (auto simp: ran_def purge_table_def split: option.splits if_splits)

text \<open>No expired lease survives. After any operation whose time to live is positive (the commands clamp
  it to at least one millisecond), every lease left in the store expires strictly after the time of the
  call, or has no readable expiry.\<close>

lemma no_expired_lease_survives:
  assumes "store_ok s" "op_ttl_positive op" "le_now e < uint_max 128"
    and "map_of (leases_of (lease_exec e op s)) lid = Some lease"
  shows "lease_live (le_now e) lease"
proof -
  have "\<forall>v \<in> ran (abs_leases (lease_exec e op s)). view_live (le_now e) v"
    using hub.exec_refines [OF assms(1)] assms(2,3) purge_all_live by (rule spec_all_live)
  moreover have "abs_leases (lease_exec e op s) lid = Some (view_of lease)"
    using assms(4) by (simp add: abs_leases_def)
  ultimately have "view_live (le_now e) (view_of lease)" by (blast intro: ranI)
  then show ?thesis by simp
qed

lemma sample_renewed:
  "\<exists>lease. map_of (leases_of (lease_exec (sample_env 9) (RenewOp sample_lid 50) sample_held)) sample_lid = Some lease"
proof -
  obtain n where n: "leases_of (lease_exec (sample_env 9) (RenewOp sample_lid 50) sample_held) =
      leases_of (fst (renew_mutator sample_lid 50 (purged_store 9 sample_held) 9 n))"
    using exec_result [of "sample_env 9" "RenewOp sample_lid 50" sample_held] by auto
  have "purge_table 9 (abs_leases sample_held) sample_lid \<noteq> None"
    by (simp add: purge_table_def sample_held_abs view_live_def new_view_def sat_add_def uint_max_def)
  then have "map_of (leases_of (purged_store 9 sample_held)) sample_lid \<noteq> None"
    unfolding abs_purged [OF sample_held_ok, symmetric] by (simp add: abs_leases_def)
  then show ?thesis by (auto simp: n)
qed

section \<open>The session index\<close>

text \<open>The session a lease belongs to: its own \<open>sessionLeaseId\<close>, or one derived from the client and session.\<close>

definition session_key :: "json \<Rightarrow> string option" where
  "session_key lease = map_option sa_session_lease_id (from_lease lease 0)"

lemma session_key_any: "session_key lease = map_option sa_session_lease_id (from_lease lease t)"
  by (simp add: session_key_def from_lease_def Let_def)

lemma from_lease_ids: "from_lease lease t = Some acc \<Longrightarrow> sa_active_lease_ids acc = [required_string lease [''leaseId'']]"
  by (auto simp: from_lease_def Let_def split: if_splits)

lemma add_lease_ids:
  "from_lease lease t = Some acc \<Longrightarrow>
   sa_active_lease_ids (add_lease a lease t') = sa_active_lease_ids a @ [required_string lease [''leaseId'']]"
  by (auto simp: from_lease_def add_lease_def Let_def split: if_splits)

lemma session_step_cases:
  "from_lease lease t = None \<Longrightarrow> session_step t m lease = m"
  "from_lease lease t = Some acc \<Longrightarrow> map_of m (sa_session_lease_id acc) = None \<Longrightarrow>
     session_step t m lease = bt_insert (sa_session_lease_id acc) acc m"
  "from_lease lease t = Some acc \<Longrightarrow> map_of m (sa_session_lease_id acc) = Some a \<Longrightarrow>
     session_step t m lease = bt_insert (sa_session_lease_id acc) (add_lease a lease t) m"
  by (simp_all add: session_step_def)

text \<open>What the index records for a session: nothing, or the ids of its leases in order.\<close>

definition indexed :: "string \<Rightarrow> json list \<Rightarrow> session_accumulator option \<Rightarrow> bool" where
  "indexed sid leases entry =
     (let ids = map (\<lambda>l. required_string l [''leaseId'']) (filter (\<lambda>l. session_key l = Some sid) leases)
      in case entry of None \<Rightarrow> ids = [] | Some acc \<Rightarrow> ids \<noteq> [] \<and> sa_active_lease_ids acc = ids)"

lemma session_fold_index: "indexed sid leases (map_of (foldl (session_step t) [] leases) sid)"
proof (induction leases rule: rev_induct)
  case (snoc lease leases)
  define m where "m = foldl (session_step t) [] leases"
  have IH: "indexed sid leases (map_of m sid)" using snoc by (simp add: m_def)
  have "indexed sid (leases @ [lease]) (map_of (session_step t m lease) sid)"
  proof (cases "from_lease lease t")
    case None
    then have "session_key lease = None" by (simp add: session_key_any [of lease t])
    with IH None show ?thesis by (simp add: session_step_cases indexed_def)
  next
    case (Some acc)
    have key: "session_key lease = Some (sa_session_lease_id acc)" by (simp add: session_key_any [of lease t] Some)
    show ?thesis
    proof (cases "map_of m (sa_session_lease_id acc)")
      case None
      with IH show ?thesis
        by (auto simp: session_step_cases(2) [OF Some None] indexed_def key from_lease_ids [OF Some])
    next
      case (Some a)
      with IH show ?thesis
        by (auto simp: session_step_cases(3) [OF \<open>from_lease lease t = Some acc\<close> Some] indexed_def key
            add_lease_ids [OF \<open>from_lease lease t = Some acc\<close>])
    qed
  qed
  then show ?case by (simp add: m_def)
qed (simp add: indexed_def)

lemma sorted_unique_id: "sorted_wrt (<) xs \<Longrightarrow> sorted_unique xs = xs"
  by (simp add: sorted_unique_def strict_sorted_iff sort_key_id_if_sorted remdups_adj_distinct)

lemma into_json_get:
  "json_get (into_json a t) ''activeLeaseIds'' = Some (json_strings (sorted_unique (sa_active_lease_ids a)))"
  "json_get (into_json a t) ''activeLeaseCount'' = Some (json_number (length (sorted_unique (sa_active_lease_ids a))))"
  by (simp_all add: into_json_def Let_def json_path)

lemma map_of_map_values: "map_of (map (\<lambda>(k, v). (k, f v)) m) x = map_option f (map_of m x)"
  by (induction m) auto

definition session_lease_ids :: "string \<Rightarrow> json_map \<Rightarrow> string list" where
  "session_lease_ids sid store = map fst (filter (\<lambda>(lid, lease). session_key lease = Some sid) (leases_of store))"

lemma session_ids_sorted: "store_ok s \<Longrightarrow> sorted_wrt (<) (session_lease_ids sid s)"
  using store_ok_leases [of s] bt_ok_filter unfolding session_lease_ids_def bt_ok_def by blast

lemma filter_map_key:
  "\<forall>(lid, lease) \<in> set m. f lease = lid \<Longrightarrow>
   map f (filter P (map snd m)) = map fst (filter (\<lambda>(lid, lease). P lease) m)"
  by (induction m) auto

lemma session_ids_leases:
  assumes "store_ok s"
  shows "map (\<lambda>l. required_string l [''leaseId'']) (filter (\<lambda>l. session_key l = Some sid) (map snd (leases_of s))) =
         session_lease_ids sid s"
  unfolding session_lease_ids_def using assms by (intro filter_map_key) (auto simp: store_ok_def lease_ok_def)

lemma exec_sessions:
  "sessions_map (lease_exec e op s) =
     Some (map (\<lambda>(k, a). (k, into_json a (le_now2 e)))
       (foldl (session_step (le_now2 e)) [] (map snd (leases_of (lease_exec e op s)))))"
proof -
  have "sorted_leases st = map snd (leases_of st)" for st
    by (simp add: sorted_leases_def leases_of_def split: option.splits)
  then show ?thesis
    by (simp add: lease_exec_def lease_outcome_def store_update_def Let_def rebuild_sessions_def sessions_map_def
        split: prod.splits)
qed

text \<open>The sessions member is an exact index. After every operation a session is listed exactly when some
  lease belongs to it, and then its \<open>activeLeaseIds\<close> are the ids of all its leases in ascending order and
  its \<open>activeLeaseCount\<close> is their number.\<close>

lemma sessions_index_leases:
  assumes "store_ok s"
  shows "case map_of (unwrap_or (sessions_map (lease_exec e op s)) []) sid of
           None \<Rightarrow> session_lease_ids sid (lease_exec e op s) = []
         | Some session \<Rightarrow>
             session_lease_ids sid (lease_exec e op s) \<noteq> [] \<and>
             json_get session ''activeLeaseIds'' = Some (json_strings (session_lease_ids sid (lease_exec e op s))) \<and>
             json_get session ''activeLeaseCount'' =
               Some (json_number (length (session_lease_ids sid (lease_exec e op s))))"
proof -
  let ?s = "lease_exec e op s"
  have ok: "store_ok ?s" using assms by (rule exec_store_ok)
  have "indexed sid (map snd (leases_of ?s))
      (map_of (foldl (session_step (le_now2 e)) [] (map snd (leases_of ?s))) sid)"
    by (rule session_fold_index)
  then show ?thesis
    using sorted_unique_id [OF session_ids_sorted [OF ok, of sid]]
    by (auto simp: exec_sessions map_of_map_values indexed_def Let_def session_ids_leases [OF ok] into_json_get
        split: option.splits)
qed

end
