(* ===== verification/Lease_Commands.thy ===== *)
theory Lease_Commands
  imports Lease_Sessions
begin

text \<open>
  The hub lease commands around the store (\<^verbatim>\<open>src/hub/leases.rs\<close>): the lock file with its retry
  loop and stale-lock removal, \<open>mutate_store\<close> with the file it reads and writes, and the commands built
  on it. What the operating system and the \<^verbatim>\<open>serde_json\<close> crate answer is an argument.
\<close>

section \<open>The lock file\<close>

definition LEASE_LOCK_ATTEMPTS :: nat where
  "LEASE_LOCK_ATTEMPTS = 100"

definition LEASE_LOCK_STALE_MS :: nat where
  "LEASE_LOCK_STALE_MS = 30000"

text \<open>An answer of the file system, classified the way the code matches on the error kind: the file is
  missing, a transient Windows sharing violation, or any other error.\<close>

datatype 'a fs_answer = FsOk 'a | FsNotFound | FsRetryable string | FsError string

definition remove_stale_lease_store_lock ::
  "(string \<Rightarrow> string + json) \<Rightarrow> string \<Rightarrow> nat \<Rightarrow> string fs_answer \<Rightarrow> unit fs_answer \<Rightarrow> string + bool" where
  "remove_stale_lease_store_lock parse_str lock_path now_ms read_answer remove_answer =
     (case read_answer of
        FsNotFound \<Rightarrow> Inr True
      | FsRetryable _ \<Rightarrow> Inr False
      | FsError error \<Rightarrow>
          Inl (''failed to inspect lease store lock at '' @ lock_path @ '': '' @ error)
      | FsOk raw \<Rightarrow>
          (case (case parse_str raw of Inl _ \<Rightarrow> None | Inr v \<Rightarrow> number_u128_at v [''createdAtMs'']) of
             None \<Rightarrow> Inr False
           | Some created_at_ms \<Rightarrow>
               if now_ms - created_at_ms \<le> LEASE_LOCK_STALE_MS then Inr False
               else (case remove_answer of
                       FsOk _ \<Rightarrow> Inr True
                     | FsNotFound \<Rightarrow> Inr True
                     | FsRetryable error \<Rightarrow>
                         Inl (''failed to remove stale lease store lock at '' @ lock_path @ '': '' @ error)
                     | FsError error \<Rightarrow>
                         Inl (''failed to remove stale lease store lock at '' @ lock_path @ '': '' @ error))))"

text \<open>One attempt to create the lock file: it was created and its payload written (or not), it already
  exists and the stale check answered, or the creation failed.\<close>

datatype lock_attempt =
    LockCreated "string + unit"
  | LockExists "string + bool"
  | LockRetryable string
  | LockFailed string

fun lock_loop :: "string \<Rightarrow> (nat \<Rightarrow> lock_attempt) \<Rightarrow> nat \<Rightarrow> nat \<Rightarrow> string option \<Rightarrow> string + unit" where
  "lock_loop lock_path attempt i 0 final_retryable_error =
     (case final_retryable_error of
        Some error \<Rightarrow> Inl (''failed to acquire lease store lock at '' @ lock_path @ '': '' @ error)
      | None \<Rightarrow> Inl (''lease store lock is busy at '' @ lock_path
                   @ ''; another MCPace runtime worker may be updating leases''))"
| "lock_loop lock_path attempt i (Suc n) final_retryable_error =
     (case attempt i of
        LockCreated (Inr _) \<Rightarrow> Inr ()
      | LockCreated (Inl error) \<Rightarrow> Inl (''failed to write '' @ lock_path @ '': '' @ error)
      | LockExists (Inl error) \<Rightarrow> Inl error
      | LockExists (Inr _) \<Rightarrow> lock_loop lock_path attempt (Suc i) n None
      | LockRetryable error \<Rightarrow> lock_loop lock_path attempt (Suc i) n (Some error)
      | LockFailed error \<Rightarrow>
          Inl (''failed to acquire lease store lock at '' @ lock_path @ '': '' @ error))"

definition acquire_lease_store_lock :: "string \<Rightarrow> (nat \<Rightarrow> lock_attempt) \<Rightarrow> string + unit" where
  "acquire_lease_store_lock lock_path attempt = lock_loop lock_path attempt 0 LEASE_LOCK_ATTEMPTS None"

section \<open>Reading, updating and writing the store\<close>

text \<open>The lease file as the program sees it: absent, unreadable, or with the given contents.\<close>

type_synonym lease_file = "(string + string) option"

definition read_store_map ::
  "(string \<Rightarrow> string + json) \<Rightarrow> string \<Rightarrow> nat \<Rightarrow> lease_file \<Rightarrow> string + json_map" where
  "read_store_map parse_str path now_ms file =
     (case file of
        None \<Rightarrow> Inr (default_store_map now_ms)
      | Some (Inl error) \<Rightarrow> Inl (''failed to read '' @ path @ '': '' @ error)
      | Some (Inr raw) \<Rightarrow>
          (case parse_str raw of
             Inl error \<Rightarrow> Inl (''failed to parse '' @ path @ '': '' @ error)
           | Inr (JObject m) \<Rightarrow> Inr m
           | Inr _ \<Rightarrow> Inl (''lease store '' @ path @ '' must be a JSON object'')))"

record hub_env =
  he_parse :: "string \<Rightarrow> string + json"
  he_pretty :: "json \<Rightarrow> string"
  he_compact :: "json \<Rightarrow> string"
  he_layout :: "string + unit"
  he_lease_path :: string
  he_lock_path :: string
  he_lock :: "nat \<Rightarrow> lock_attempt"
  he_write :: "string + unit"
  he_now0 :: nat
  he_clock :: lease_env
  he_plan :: "string + json"

definition mutate_store ::
  "hub_env \<Rightarrow> mutator \<Rightarrow> lease_file \<Rightarrow> (string + lease_command_result) \<times> lease_file \<times> log_event list" where
  "mutate_store h mutator file =
     (case he_layout h of
        Inl error \<Rightarrow> (Inl error, file, [])
      | Inr _ \<Rightarrow>
     (case acquire_lease_store_lock (he_lock_path h) (he_lock h) of
        Inl error \<Rightarrow> (Inl error, file, [])
      | Inr _ \<Rightarrow>
     (case read_store_map (he_parse h) (he_lease_path h) (he_now0 h) file of
        Inl error \<Rightarrow> (Inl error, file, [])
      | Inr store \<Rightarrow>
          let (store', log, result) = store_update mutator store
                 (le_now (he_clock h)) (le_now2 (he_clock h)) (le_now3 (he_clock h))
          in (case he_write h of
                Inl error \<Rightarrow> (Inl error, file, log)
              | Inr _ \<Rightarrow> (Inr result, Some (Inr (he_pretty h (JObject store'))), log)))))"

section \<open>The commands\<close>

record lease_args =
  la_action :: "string option"
  la_server_name :: "string option"
  la_client_id :: "string option"
  la_session_id :: "string option"
  la_project_root :: "string option"
  la_transport :: "string option"
  la_metadata_json :: "string option"
  la_ttl_ms :: "nat option"
  la_takeover :: bool
  la_lease_id :: "string option"
  la_json_output :: bool

type_synonym command_outcome = "(string + lease_command_result) \<times> lease_file \<times> log_event list"

definition run_list :: "hub_env \<Rightarrow> lease_file \<Rightarrow> command_outcome" where
  "run_list h file = mutate_store h list_mutator file"

definition acquire_lease_for_route ::
  "hub_env \<Rightarrow> planned_route \<Rightarrow> nat \<Rightarrow> bool \<Rightarrow> lease_file \<Rightarrow> command_outcome" where
  "acquire_lease_for_route h route ttl_ms takeover file =
     mutate_store h (acquire_mutator route ttl_ms takeover (le_pid (he_clock h)) (le_nanos (he_clock h))) file"

definition acquire_runtime_lease_command ::
  "hub_env \<Rightarrow> runtime_lease_request \<Rightarrow> lease_file \<Rightarrow> command_outcome" where
  "acquire_runtime_lease_command h request file =
     (case clean_required_server_name (q_server_name request) of
        Inl error \<Rightarrow> (Inl error, file, [])
      | Inr server_name \<Rightarrow>
          (case route_for_request (he_plan h) server_name of
             Inl error \<Rightarrow> (Inl error, file, [])
           | Inr None \<Rightarrow> (Inl (''server '' @ quoted server_name
                               @ '' was not found in the client routing plan''), file, [])
           | Inr (Some route) \<Rightarrow>
               acquire_lease_for_route h route (normalize_ttl (q_ttl_ms request)) (q_takeover request) file))"

definition run_acquire :: "hub_env \<Rightarrow> lease_args \<Rightarrow> lease_file \<Rightarrow> command_outcome" where
  "run_acquire h parsed file =
     (case trimmed_non_empty_owned (la_server_name parsed) of
        None \<Rightarrow> (Inl ''hub lease acquire requires --server <name>'', file, [])
      | Some server_name \<Rightarrow>
          acquire_runtime_lease_command h
            \<lparr>q_server_name = server_name, q_client_id = la_client_id parsed,
             q_session_id = la_session_id parsed, q_project_root = la_project_root parsed,
             q_transport = la_transport parsed, q_metadata_json = la_metadata_json parsed,
             q_ttl_ms = la_ttl_ms parsed, q_takeover = la_takeover parsed\<rparr> file)"

datatype runtime_lease_acquire_result = Acquired string json | Blocked json

definition acquire_runtime_lease ::
  "hub_env \<Rightarrow> runtime_lease_request \<Rightarrow> lease_file \<Rightarrow>
     (string + runtime_lease_acquire_result) \<times> lease_file \<times> log_event list" where
  "acquire_runtime_lease h request file =
     (case clean_required_server_name (q_server_name request) of
        Inl error \<Rightarrow> (Inl error, file, [])
      | Inr server_name \<Rightarrow>
          (case route_for_request (he_plan h) server_name of
             Inl error \<Rightarrow> (Inl error, file, [])
           | Inr planned \<Rightarrow>
               let route = unwrap_or planned (conservative_settings_only_route request server_name)
               in (case acquire_lease_for_route h route (normalize_ttl (q_ttl_ms request))
                          (q_takeover request) file of
                     (Inl error, file', log) \<Rightarrow> (Inl error, file', log)
                   | (Inr result, file', log) \<Rightarrow>
                       (Inr (if lc_exit_code result = 0
                             then Acquired (unwrap_or (string_at_path (lc_json result) [''leaseId'']) [])
                                    (lc_json result)
                             else Blocked (lc_json result)), file', log))))"

definition renew_runtime_lease_command ::
  "hub_env \<Rightarrow> string \<Rightarrow> nat option \<Rightarrow> lease_file \<Rightarrow> command_outcome" where
  "renew_runtime_lease_command h lease_id ttl_ms file =
     (let lid = trim lease_id
      in if lid = [] then (Inl ''hub lease renew requires --lease-id <id>'', file, [])
         else mutate_store h (renew_mutator lid (normalize_ttl ttl_ms)) file)"

definition run_renew :: "hub_env \<Rightarrow> lease_args \<Rightarrow> lease_file \<Rightarrow> command_outcome" where
  "run_renew h parsed file =
     (case trimmed_non_empty_owned (la_lease_id parsed) of
        None \<Rightarrow> (Inl ''hub lease renew requires --lease-id <id>'', file, [])
      | Some lease_id \<Rightarrow> renew_runtime_lease_command h lease_id (la_ttl_ms parsed) file)"

definition renew_runtime_lease ::
  "hub_env \<Rightarrow> string \<Rightarrow> nat option \<Rightarrow> lease_file \<Rightarrow> (string + json) \<times> lease_file \<times> log_event list" where
  "renew_runtime_lease h lease_id ttl_ms file =
     (case renew_runtime_lease_command h lease_id ttl_ms file of
        (Inl error, file', log) \<Rightarrow> (Inl error, file', log)
      | (Inr result, file', log) \<Rightarrow>
          (if lc_exit_code result = 0 then Inr (lc_json result)
           else Inl (he_compact h (lc_json result)), file', log))"

definition release_runtime_lease_command :: "hub_env \<Rightarrow> string \<Rightarrow> lease_file \<Rightarrow> command_outcome" where
  "release_runtime_lease_command h lease_id file =
     (let lid = trim lease_id
      in if lid = [] then (Inl ''hub lease release requires --lease-id <id>'', file, [])
         else mutate_store h (release_mutator lid) file)"

definition run_release :: "hub_env \<Rightarrow> lease_args \<Rightarrow> lease_file \<Rightarrow> command_outcome" where
  "run_release h parsed file =
     (case trimmed_non_empty_owned (la_lease_id parsed) of
        None \<Rightarrow> (Inl ''hub lease release requires --lease-id <id>'', file, [])
      | Some lease_id \<Rightarrow> release_runtime_lease_command h lease_id file)"

definition release_runtime_lease ::
  "hub_env \<Rightarrow> string \<Rightarrow> lease_file \<Rightarrow> (string + json) \<times> lease_file \<times> log_event list" where
  "release_runtime_lease h lease_id file =
     (case release_runtime_lease_command h lease_id file of
        (Inl error, file', log) \<Rightarrow> (Inl error, file', log)
      | (Inr result, file', log) \<Rightarrow> (Inr (lc_json result), file', log))"

text \<open>The lines \<open>write_text_result\<close> prints.\<close>

definition write_text_result :: "json \<Rightarrow> string list" where
  "write_text_result value =
     [''Lease status: '' @ unwrap_or (string_at_path value [''status'']) ''unknown''] @
     (case string_at_path value [''leaseId''] of Some v \<Rightarrow> [''Lease id: '' @ v] | None \<Rightarrow> []) @
     (case string_at_path value [''server''] of Some v \<Rightarrow> [''Server: '' @ v] | None \<Rightarrow> []) @
     (case string_at_path value [''reason''] of Some v \<Rightarrow> [''Reason: '' @ v] | None \<Rightarrow> []) @
     (case Option.bind (value_at_path value [''activeLeaseCount'']) as_i64 of
        Some number \<Rightarrow>
          [''Active leases: '' @ (if number < 0 then ''-'' else []) @ show_nat (nat (abs number))]
      | None \<Rightarrow> []) @
     (case array_at_path value [''leases''] of
        Some leases \<Rightarrow>
          map (\<lambda>lease. ''- '' @ unwrap_or (string_at_path lease [''leaseId'']) ''unknown''
                 @ '' :: '' @ unwrap_or (string_at_path lease [''server'']) ''unknown''
                 @ '' :: '' @ unwrap_or (string_at_path lease [''route'', ''requestStrategy'']) ''unknown'')
            leases
      | None \<Rightarrow> [])"

text \<open>\<open>run\<close>: the action, the standard output lines, the standard error lines and the exit code.\<close>

definition hub_lease_run ::
  "hub_env \<Rightarrow> lease_args \<Rightarrow> lease_file \<Rightarrow> int \<times> string list \<times> string list \<times> lease_file" where
  "hub_lease_run h parsed file =
     (let action = unwrap_or (la_action parsed) ''list'';
          (result, file', log) =
            (if action = ''list'' then run_list h file
             else if action = ''acquire'' then run_acquire h parsed file
             else if action = ''renew'' then run_renew h parsed file
             else if action = ''release'' then run_release h parsed file
             else (Inl (''unsupported hub lease action: '' @ action), file, []))
      in case result of
           Inr r \<Rightarrow> (lc_exit_code r,
                    if la_json_output parsed then [he_pretty h (lc_json r)] else write_text_result (lc_json r),
                    [], file')
         | Inl error \<Rightarrow> (1, [], [error], file'))"

section \<open>Properties\<close>

text \<open>An attempt after which the loop goes on.\<close>

definition lock_retries :: "lock_attempt \<Rightarrow> bool" where
  "lock_retries a \<longleftrightarrow> (\<exists>b. a = LockExists (Inr b)) \<or> (\<exists>e. a = LockRetryable e)"

lemma lock_loop_iff:
  "lock_loop path attempt i n final = Inr () \<longleftrightarrow>
     (\<exists>k < n. attempt (i + k) = LockCreated (Inr ()) \<and> (\<forall>j < k. lock_retries (attempt (i + j))))"
proof (induction path attempt i n final rule: lock_loop.induct)
  case (1 path attempt i final)
  then show ?case by (cases final) auto
next
  case (2 path attempt i n final)
  have step: "(\<exists>k < Suc n. attempt (i + k) = LockCreated (Inr ()) \<and> (\<forall>j < k. lock_retries (attempt (i + j)))) \<longleftrightarrow>
      attempt i = LockCreated (Inr ()) \<or>
      lock_retries (attempt i) \<and>
        (\<exists>k < n. attempt (Suc i + k) = LockCreated (Inr ()) \<and> (\<forall>j < k. lock_retries (attempt (Suc i + j))))"
    by (auto simp: Ex_less_Suc2 All_less_Suc2)
  show ?case unfolding step using 2
    by (auto simp: lock_retries_def split: lock_attempt.splits sum.splits)
qed

text \<open>The lock loop: the lease store lock is taken exactly when, within the first 100 attempts, one
  creates the lock file and writes its payload and every earlier attempt found a lock or a transient
  sharing violation; in every other case the call returns an error.\<close>

lemma lease_lock_acquired_iff:
  "acquire_lease_store_lock path attempt = Inr () \<longleftrightarrow>
     (\<exists>k < 100. attempt k = LockCreated (Inr ()) \<and> (\<forall>j < k. lock_retries (attempt j)))"
  by (simp add: acquire_lease_store_lock_def LEASE_LOCK_ATTEMPTS_def lock_loop_iff)

lemma lock_loop_all_exist:
  "\<forall>k < n. \<exists>b. attempt (i + k) = LockExists (Inr b) \<Longrightarrow> (n = 0 \<Longrightarrow> final = None) \<Longrightarrow>
   lock_loop path attempt i n final = lock_loop path attempt i 0 None"
proof (induction n arbitrary: i final)
  case (Suc n)
  then obtain b where b: "attempt i = LockExists (Inr b)" by (metis add_0_right zero_less_Suc)
  have "\<forall>k < n. \<exists>b. attempt (Suc i + k) = LockExists (Inr b)"
    using Suc.prems(1) by (metis Suc_mono add_Suc_shift)
  then have "lock_loop path attempt (Suc i) n None = lock_loop path attempt (Suc i) 0 None"
    by (intro Suc.IH) auto
  then show ?case by (simp add: b)
qed auto

text \<open>A lock file whose payload is not readable JSON with a creation time is never treated as stale,
  however old it is. If each attempt finds such a file (one left by a process that stopped between creating
  the file and writing its payload, or whose payload write failed), the lock is reported busy; no call
  removes it.\<close>

lemma unreadable_lock_never_reclaimed:
  assumes "\<forall>v. parse_str raw = Inr v \<longrightarrow> number_u128_at v [''createdAtMs''] = None"
    and "\<forall>i. attempt i = LockExists (remove_stale_lease_store_lock parse_str path (now i) (FsOk raw) (rm i))"
  shows "acquire_lease_store_lock path attempt =
    Inl (''lease store lock is busy at '' @ path @ ''; another MCPace runtime worker may be updating leases'')"
proof -
  have "attempt i = LockExists (Inr False)" for i
    using assms by (auto simp: remove_stale_lease_store_lock_def split: sum.splits option.splits)
  then show ?thesis
    unfolding acquire_lease_store_lock_def by (subst lock_loop_all_exist) auto
qed

text \<open>The store a lease file stands for, when it can be read.\<close>

definition file_store :: "hub_env \<Rightarrow> lease_file \<Rightarrow> json_map option" where
  "file_store h file =
     (case read_store_map (he_parse h) (he_lease_path h) (he_now0 h) file of Inl _ \<Rightarrow> None | Inr m \<Rightarrow> Some m)"


end
