(* ===== verification/Lease_Lock.thy ===== *)
theory Lease_Lock
  imports Lease_Commands
begin

text \<open>
  Several processes competing for the lease store lock (\<^verbatim>\<open>src/hub/leases.rs\<close>): the interleavings
  of \<open>acquire_lease_store_lock\<close>, \<open>remove_stale_lease_store_lock\<close> and the guard's drop. Each rule is one
  file system call: exclusive creation of the lock file, writing its payload (or failing to), reading the
  file and judging it stale, removing it by name, and the removal when the guard is dropped; a process may
  also stop anywhere. The flag says whether a lock may be judged stale.
\<close>

datatype lock_pc = LIdle | LWriting | LRemoving | LHolding

text \<open>The lock file: its creator, and the creation time of its payload once that is written.\<close>

datatype lock_file = NoLock | LockFile (owner: nat) (payload: "nat option")

record lock_state =
  ls_file :: lock_file
  ls_pc :: "nat \<Rightarrow> lock_pc"
  ls_now :: nat

definition lock_init :: lock_state where
  "lock_init = \<lparr>ls_file = NoLock, ls_pc = (\<lambda>_. LIdle), ls_now = 0\<rparr>"

definition set_pc :: "nat \<Rightarrow> lock_pc \<Rightarrow> lock_state \<Rightarrow> lock_state" where
  "set_pc p v s = s\<lparr>ls_pc := (ls_pc s)(p := v)\<rparr>"

inductive lock_step :: "bool \<Rightarrow> lock_state \<Rightarrow> lock_state \<Rightarrow> bool" for stale where
  lock_tick: "lock_step stale s (s\<lparr>ls_now := ls_now s + d\<rparr>)"
| lock_create:
    "ls_pc s p = LIdle \<Longrightarrow> ls_file s = NoLock \<Longrightarrow>
     lock_step stale s (set_pc p LWriting (s\<lparr>ls_file := LockFile p None\<rparr>))"
| lock_write:
    "ls_pc s p = LWriting \<Longrightarrow> created \<le> ls_now s \<Longrightarrow>
     lock_step stale s (set_pc p LHolding
       (if ls_file s = LockFile p None then s\<lparr>ls_file := LockFile p (Some created)\<rparr> else s))"
| lock_write_failed: "ls_pc s p = LWriting \<Longrightarrow> lock_step stale s (set_pc p LIdle s)"
| lock_judge:
    "stale \<Longrightarrow> ls_pc s p = LIdle \<Longrightarrow> ls_file s = LockFile q (Some created) \<Longrightarrow>
     ls_now s - created > LEASE_LOCK_STALE_MS \<Longrightarrow> lock_step stale s (set_pc p LRemoving s)"
| lock_remove: "ls_pc s p = LRemoving \<Longrightarrow> lock_step stale s (set_pc p LIdle (s\<lparr>ls_file := NoLock\<rparr>))"
| lock_drop: "ls_pc s p = LHolding \<Longrightarrow> lock_step stale s (set_pc p LIdle (s\<lparr>ls_file := NoLock\<rparr>))"
| lock_crash: "lock_step stale s (set_pc p LIdle s)"

definition lock_reach :: "bool \<Rightarrow> lock_state \<Rightarrow> bool" where
  "lock_reach stale = (lock_step stale)\<^sup>*\<^sup>* lock_init"

text \<open>What every reachable state satisfies while nothing is judged stale: nobody is about to remove a lock,
  and whoever writes or holds the lock is the creator of the file that is there.\<close>

definition lock_inv :: "lock_state \<Rightarrow> bool" where
  "lock_inv s \<longleftrightarrow>
     (\<forall>p. ls_pc s p \<noteq> LRemoving) \<and>
     (\<forall>p. ls_pc s p \<in> {LWriting, LHolding} \<longrightarrow> ls_file s \<noteq> NoLock \<and> p = owner (ls_file s))"

lemma set_pc_simps [simp]:
  "ls_pc (set_pc p v s) = (ls_pc s)(p := v)" "ls_file (set_pc p v s) = ls_file s" "ls_now (set_pc p v s) = ls_now s"
  by (simp_all add: set_pc_def)

lemma lock_inv_step: "lock_step False s t \<Longrightarrow> lock_inv s \<Longrightarrow> lock_inv t"
  by (induction rule: lock_step.induct) (auto simp: lock_inv_def split: if_splits)

lemma lock_reach_inv:
  assumes "lock_reach False s"
  shows "lock_inv s"
  using assms unfolding lock_reach_def
proof (induction rule: rtranclp_induct)
  case base
  show ?case by (simp add: lock_inv_def lock_init_def)
next
  case (step s t)
  then show ?case by (blast intro: lock_inv_step)
qed

lemma lock_reach_init: "lock_reach stale lock_init"
  by (simp add: lock_reach_def)

lemma lock_reach_step: "lock_reach stale s \<Longrightarrow> lock_step stale s t \<Longrightarrow> lock_reach stale t"
  by (simp add: lock_reach_def rtranclp.rtrancl_into_rtrancl)

text \<open>An uncontended acquisition, from the free lock to the holder.\<close>

lemma lock_reach_take:
  assumes "lock_reach stale s" "ls_pc s p = LIdle" "ls_file s = NoLock" "created \<le> ls_now s"
  shows "lock_reach stale (s\<lparr>ls_file := LockFile p (Some created), ls_pc := (ls_pc s)(p := LHolding)\<rparr>)"
  using lock_reach_step [OF lock_reach_step [OF assms(1) lock_create [where p = p]] lock_write [where p = p]]
    assms(2-4)
  by (fastforce simp: set_pc_def)

definition held_state :: lock_state where
  "held_state = \<lparr>ls_file = LockFile 1 (Some 0), ls_pc = (\<lambda>_. LIdle)(1 := LHolding), ls_now = 0\<rparr>"

lemma lock_reach_hold: "lock_reach stale held_state"
  using lock_reach_take [OF lock_reach_init, of 1 0] by (simp add: lock_init_def held_state_def)

text \<open>C32: while no lock is judged stale, the lock file excludes: at most one process is between taking the
  lock and dropping it, whatever the interleaving, also when writes of the payload fail and when processes stop
  without dropping the guard.\<close>

theorem lease_lock_exclusive:
  assumes "lock_reach False s" "ls_pc s p = LHolding" "ls_pc s q = LHolding"
  shows "p = q"
  using lock_reach_inv [OF assms(1)] assms(2,3) unfolding lock_inv_def by (metis insertI1 insertI2)

theorem lease_lock_exclusive_witness:
  "lock_reach False held_state \<and> {q. ls_pc held_state q = LHolding} = {1}"
proof -
  have one: "ls_pc held_state 1 = LHolding" by (simp add: held_state_def)
  have "q = 1" if "ls_pc held_state q = LHolding" for q
    using lease_lock_exclusive [OF lock_reach_hold that one] .
  then show ?thesis using lock_reach_hold one by blast
qed

text \<open>The removal of a stale lock is not atomic with the judgement. The states of the race: a holder stopped
  and left its lock; two processes read it and judge it stale; the first removes it and takes the lock.\<close>

definition race_judged :: lock_state where
  "race_judged = \<lparr>ls_file = LockFile 1 (Some 0), ls_pc = (\<lambda>_. LIdle)(2 := LRemoving, 3 := LRemoving), ls_now = 30001\<rparr>"

lemma race_judged_reachable: "lock_reach True race_judged"
proof -
  define s where "s = \<lparr>ls_file = LockFile 1 (Some 0), ls_pc = (\<lambda>_. LIdle), ls_now = 30001\<rparr>"
  have "lock_reach True (set_pc 1 LIdle held_state)"
    using lock_reach_step [OF lock_reach_hold lock_crash] .
  then have "lock_reach True (set_pc 1 LIdle held_state \<lparr>ls_now := 30001\<rparr>)"
    using lock_reach_step [OF _ lock_tick [where d = 30001]] by (fastforce simp: held_state_def set_pc_def)
  then have "lock_reach True s" by (simp add: s_def held_state_def set_pc_def fun_upd_idem)
  then have "lock_reach True (set_pc 2 LRemoving s)"
    by (rule lock_reach_step) (rule lock_judge, auto simp: s_def LEASE_LOCK_STALE_MS_def)
  then have "lock_reach True (set_pc 3 LRemoving (set_pc 2 LRemoving s))"
    by (rule lock_reach_step) (rule lock_judge, auto simp: s_def LEASE_LOCK_STALE_MS_def)
  then show ?thesis by (simp add: s_def race_judged_def set_pc_def)
qed

text \<open>With stale locks the exclusion fails. After a holder stopped without dropping its guard, two
  processes can judge its lock stale; the first removes the file and takes the lock, the second then removes
  the first one's new lock file by name and takes the lock too, so both update the lease store at once.\<close>

lemma stale_lock_race:
  "\<exists>s. lock_reach True s \<and> ls_pc s 2 = LHolding \<and> ls_pc s 3 = LHolding"
proof -
  define a where "a = \<lparr>ls_file = NoLock, ls_pc = (\<lambda>_. LIdle)(3 := LRemoving), ls_now = 30001\<rparr>"
  define b where "b = \<lparr>ls_file = LockFile 2 (Some 30001), ls_pc = (\<lambda>_. LIdle)(2 := LHolding, 3 := LRemoving), ls_now = 30001\<rparr>"
  define c where "c = \<lparr>ls_file = NoLock, ls_pc = (\<lambda>_. LIdle)(2 := LHolding), ls_now = 30001\<rparr>"
  have "lock_reach True (set_pc 2 LIdle (race_judged\<lparr>ls_file := NoLock\<rparr>))"
    by (rule lock_reach_step [OF race_judged_reachable]) (rule lock_remove, simp add: race_judged_def)
  then have "lock_reach True a"
    by (simp add: a_def race_judged_def set_pc_def fun_upd_twist fun_upd_idem)
  from lock_reach_take [OF this, of 2 30001] have "lock_reach True b"
    by (simp add: a_def b_def fun_upd_twist)
  then have "lock_reach True (set_pc 3 LIdle (b\<lparr>ls_file := NoLock\<rparr>))"
    by (rule lock_reach_step) (rule lock_remove, simp add: b_def)
  then have "lock_reach True c" by (simp add: b_def c_def set_pc_def fun_upd_twist fun_upd_idem)
  from lock_reach_take [OF this, of 3 30001] show ?thesis by (force simp: c_def)
qed

end
