(* ===== verification/Lease_Queue.thy ===== *)
theory Lease_Queue
  imports Prelude Rust_Text
begin

text \<open>
  The process-local admission queue in front of the lease store (\<^verbatim>\<open>src/upstream/lease_queue.rs\<close>): the
  lane state with its tickets and cancellations, the registry of lanes, enqueueing, waiting for the head,
  finishing and cancelling a ticket, recovery from a poisoned lock and pruning of idle lanes. A lane promises
  a FIFO queue of the outstanding tickets; that contract is the locale \<open>fifo_lane\<close>, interpreted at the end.
\<close>

section \<open>Lane state\<close>

definition MAX_QUEUE_LANES :: nat where
  "MAX_QUEUE_LANES = 4096"

datatype lease_queue_error = Poisoned | LaneLimit nat | Full string nat | Timeout string nat

definition lease_queue_error_display :: "lease_queue_error \<Rightarrow> string" where
  "lease_queue_error_display e =
     (case e of
        Poisoned \<Rightarrow> ''upstream lease queue lock was poisoned''
      | LaneLimit maximum \<Rightarrow>
          ''upstream lease queue exceeded its '' @ show_nat maximum @ ''-lane safety limit''
      | Full lane maximum \<Rightarrow>
          ''upstream lease queue '' @ [CHR 0x27] @ lane @ [CHR 0x27] @ '' is full (maximum depth ''
          @ show_nat maximum @ '')''
      | Timeout lane ticket \<Rightarrow>
          ''upstream lease queue '' @ [CHR 0x27] @ lane @ [CHR 0x27]
          @ '' timed out while waiting for ticket '' @ show_nat ticket)"

text \<open>The ordered set of cancelled tickets is its ascending list.\<close>

record queue_lane_state =
  next_ticket :: nat
  serving_ticket :: nat
  waiting :: nat
  cancelled :: "nat list"

definition lane_default :: queue_lane_state where
  "lane_default = \<lparr>next_ticket = 0, serving_ticket = 0, waiting = 0, cancelled = []\<rparr>"

record lease_queue_position =
  ticket :: nat
  depth_at_enqueue :: nat
  ahead_at_enqueue :: nat

function advance_cancelled :: "queue_lane_state \<Rightarrow> queue_lane_state" where
  "advance_cancelled state =
     (if serving_ticket state \<in> set (cancelled state)
      then advance_cancelled
             (state\<lparr>cancelled := removeAll (serving_ticket state) (cancelled state),
                    serving_ticket := sat_add 64 (serving_ticket state) 1\<rparr>)
      else state)"
  by auto
termination
  by (relation "measure (\<lambda>s. length (cancelled s))") (auto simp: length_removeAll_less)

declare advance_cancelled.simps [simp del]

definition enqueue_position ::
  "string \<Rightarrow> nat \<Rightarrow> queue_lane_state \<Rightarrow> (lease_queue_error + lease_queue_position) \<times> queue_lane_state" where
  "enqueue_position lane_key max_depth state =
     (if max_depth \<le> waiting state then (Inl (Full lane_key max_depth), state)
      else
        let state = advance_cancelled state;
            tick = next_ticket state;
            state = state\<lparr>next_ticket := sat_add 64 (next_ticket state) 1\<rparr>;
            ahead = tick - serving_ticket state;
            state = state\<lparr>waiting := sat_add 64 (waiting state) 1\<rparr>
        in (Inr \<lparr>ticket = tick, depth_at_enqueue = waiting state, ahead_at_enqueue = ahead\<rparr>, state))"

definition repair_lane_state :: "queue_lane_state \<Rightarrow> queue_lane_state" where
  "repair_lane_state state =
     (let state = state\<lparr>next_ticket := max (next_ticket state) (serving_ticket state)\<rparr>;
          state = state\<lparr>cancelled :=
             filter (\<lambda>t. serving_ticket state \<le> t \<and> t < next_ticket state) (cancelled state)\<rparr>;
          state = advance_cancelled state;
          outstanding = next_ticket state - serving_ticket state
      in state\<lparr>waiting := min outstanding (uint_max 64) - length (cancelled state)\<rparr>)"

text \<open>\<open>finish\<close> on a lane whose lock is not poisoned; \<open>finish\<close> on the lane with its poison flag.\<close>

definition finish_state :: "nat \<Rightarrow> bool \<Rightarrow> queue_lane_state \<Rightarrow> queue_lane_state" where
  "finish_state tick is_cancelled state =
     (let state = state\<lparr>waiting := waiting state - 1\<rparr>
      in if tick = serving_ticket state
         then advance_cancelled (state\<lparr>serving_ticket := sat_add 64 (serving_ticket state) 1\<rparr>)
         else if is_cancelled \<and> serving_ticket state < tick
         then state\<lparr>cancelled := insort_insert tick (cancelled state)\<rparr>
         else state)"

record queue_lane =
  ql_state :: queue_lane_state
  ql_poisoned :: bool
  ql_handles :: nat

definition recover_lane :: "queue_lane \<Rightarrow> queue_lane" where
  "recover_lane lane =
     (if ql_poisoned lane then lane\<lparr>ql_state := repair_lane_state (ql_state lane), ql_poisoned := False\<rparr> else lane)"

definition finish :: "nat \<Rightarrow> bool \<Rightarrow> queue_lane \<Rightarrow> queue_lane" where
  "finish tick is_cancelled lane =
     (let lane = recover_lane lane
      in lane\<lparr>ql_state := finish_state tick is_cancelled (ql_state lane)\<rparr>)"

text \<open>The ticket is consumed by \<open>complete\<close> and by its drop: its share of the lane goes away after \<open>finish\<close>.\<close>

definition complete :: "nat \<Rightarrow> queue_lane \<Rightarrow> queue_lane" where
  "complete tick lane = (finish tick False lane)\<lparr>ql_handles := ql_handles lane - 1\<rparr>"

definition drop_ticket :: "nat \<Rightarrow> queue_lane \<Rightarrow> queue_lane" where
  "drop_ticket tick lane = (finish tick True lane)\<lparr>ql_handles := ql_handles lane - 1\<rparr>"

section \<open>Waiting for the head\<close>

text \<open>
  A wake-up of the condition variable: the lane state found then, whether the wait timed out, the time
  read for the deadline check, and the time read by the next round. \<open>None\<close> as a result means that the
  caller still waits after the given wake-ups.
\<close>

record wake_up =
  wk_state :: queue_lane_state
  wk_timed_out :: bool
  wk_now :: nat
  wk_next_now :: nat

fun wait_until_head ::
  "string \<Rightarrow> nat \<Rightarrow> nat \<Rightarrow> nat \<Rightarrow> queue_lane_state \<Rightarrow> wake_up list \<Rightarrow> (lease_queue_error + unit) option \<times> queue_lane_state" where
  "wait_until_head lane_key tick deadline now state wakes =
     (let state = advance_cancelled state
      in if serving_ticket state = tick then (Some (Inr ()), state)
         else if deadline \<le> now then (Some (Inl (Timeout lane_key tick)), state)
         else (case wakes of
                 [] \<Rightarrow> (None, state)
               | w # ws \<Rightarrow>
                   if wk_timed_out w \<and> deadline \<le> wk_now w
                   then (Some (Inl (Timeout lane_key tick)), wk_state w)
                   else wait_until_head lane_key tick deadline (wk_next_now w) (wk_state w) ws))"

declare wait_until_head.simps [simp del]

definition wait_for_retry :: "string \<Rightarrow> nat \<Rightarrow> nat \<Rightarrow> nat \<Rightarrow> bool \<Rightarrow> nat \<Rightarrow> lease_queue_error + unit" where
  "wait_for_retry lane_key tick deadline now timed_out now_after =
     (if deadline \<le> now then Inl (Timeout lane_key tick)
      else if timed_out \<and> deadline \<le> now_after then Inl (Timeout lane_key tick)
      else Inr ())"

section \<open>The registry of lanes\<close>

record queue_registry =
  lanes :: "(string \<times> queue_lane) list"
  qr_poisoned :: bool

definition idle_lane :: "queue_lane \<Rightarrow> bool" where
  "idle_lane lane \<longleftrightarrow> waiting (ql_state lane) = 0 \<and> ql_handles lane = 0"

definition prune_empty_lanes :: "queue_registry \<Rightarrow> queue_registry" where
  "prune_empty_lanes r =
     r\<lparr>lanes := bt_retain (\<lambda>_ lane. \<not> idle_lane lane) (map (\<lambda>(k, lane). (k, recover_lane lane)) (lanes r))\<rparr>"

text \<open>The first half of \<open>enqueue\<close>, under the registry lock: find or add the lane and take a share of it.\<close>

definition enqueue_lane :: "string \<Rightarrow> queue_registry \<Rightarrow> (lease_queue_error + unit) \<times> queue_registry" where
  "enqueue_lane lane_key r =
     (if qr_poisoned r then (Inl Poisoned, r)
      else
        let r = prune_empty_lanes r
        in case map_of (lanes r) lane_key of
             Some lane \<Rightarrow>
               (Inr (), r\<lparr>lanes := bt_insert lane_key (lane\<lparr>ql_handles := ql_handles lane + 1\<rparr>) (lanes r)\<rparr>)
           | None \<Rightarrow>
               if MAX_QUEUE_LANES \<le> length (lanes r) then (Inl (LaneLimit MAX_QUEUE_LANES), r)
               else (Inr (), r\<lparr>lanes := bt_insert lane_key
                       \<lparr>ql_state = lane_default, ql_poisoned = False, ql_handles = 1\<rparr> (lanes r)\<rparr>))"

text \<open>The second half, under the lane lock; a failure gives the share of the lane back.\<close>

definition enqueue_in_lane ::
  "string \<Rightarrow> nat \<Rightarrow> queue_lane \<Rightarrow> (lease_queue_error + lease_queue_position) \<times> queue_lane" where
  "enqueue_in_lane lane_key max_depth lane =
     (if ql_poisoned lane then (Inl Poisoned, lane\<lparr>ql_handles := ql_handles lane - 1\<rparr>)
      else case enqueue_position lane_key (max max_depth 1) (ql_state lane) of
             (Inl e, s) \<Rightarrow> (Inl e, lane\<lparr>ql_handles := ql_handles lane - 1\<rparr>)
           | (Inr p, s) \<Rightarrow> (Inr p, lane\<lparr>ql_state := s\<rparr>))"

definition enqueue ::
  "string \<Rightarrow> nat \<Rightarrow> queue_registry \<Rightarrow> (lease_queue_error + lease_queue_position) \<times> queue_registry" where
  "enqueue lane_key max_depth r =
     (case enqueue_lane lane_key r of
        (Inl e, r') \<Rightarrow> (Inl e, r')
      | (Inr _, r') \<Rightarrow>
          (case map_of (lanes r') lane_key of
             None \<Rightarrow> (Inl Poisoned, r')
           | Some lane \<Rightarrow>
               let (res, lane') = enqueue_in_lane lane_key max_depth lane
               in (res, r'\<lparr>lanes := bt_insert lane_key lane' (lanes r')\<rparr>)))"

definition notify_all_lanes :: "queue_registry \<Rightarrow> queue_registry" where
  "notify_all_lanes r = r\<lparr>qr_poisoned := False\<rparr>"

section \<open>The invariant and the queue a lane stands for\<close>

definition lane_ok :: "queue_lane_state \<Rightarrow> bool" where
  "lane_ok s \<longleftrightarrow>
     sorted_wrt (<) (cancelled s) \<and> set (cancelled s) \<subseteq> {serving_ticket s <..< next_ticket s} \<and>
     serving_ticket s \<le> next_ticket s \<and> next_ticket s \<le> uint_max 64 \<and>
     waiting s + length (cancelled s) = next_ticket s - serving_ticket s"

definition lane_queue :: "queue_lane_state \<Rightarrow> nat list" where
  "lane_queue s = filter (\<lambda>t. t \<notin> set (cancelled s)) [serving_ticket s ..< next_ticket s]"

text \<open>What \<open>advance_cancelled\<close> may be given: the serving ticket itself may be cancelled.\<close>

definition lane_pre :: "queue_lane_state \<Rightarrow> bool" where
  "lane_pre s \<longleftrightarrow>
     sorted_wrt (<) (cancelled s) \<and> set (cancelled s) \<subseteq> {serving_ticket s ..< next_ticket s} \<and>
     serving_ticket s \<le> next_ticket s \<and> next_ticket s \<le> uint_max 64"

lemma lane_ok_pre: "lane_ok s \<Longrightarrow> lane_pre s"
  by (force simp: lane_ok_def lane_pre_def)

lemma upt_filter_head:
  "a \<in> C \<Longrightarrow> a < b \<Longrightarrow> C' = C - {a} \<Longrightarrow> filter (\<lambda>t. t \<notin> C) [a..<b] = filter (\<lambda>t. t \<notin> C') [Suc a..<b]"
  by (auto simp: upt_conv_Cons intro!: filter_cong)

lemma advance_cancelled_stop [simp]:
  "serving_ticket s \<notin> set (cancelled s) \<Longrightarrow> advance_cancelled s = s"
  by (subst advance_cancelled.simps) simp

lemma advance_cancelled_ok: "lane_ok s \<Longrightarrow> advance_cancelled s = s"
  by (rule advance_cancelled_stop) (auto simp: lane_ok_def)

lemma removeAll_sorted_wrt: "sorted_wrt r xs \<Longrightarrow> sorted_wrt r (removeAll x xs)"
  by (induction xs) auto

lemma length_removeAll_distinct:
  "distinct xs \<Longrightarrow> x \<in> set xs \<Longrightarrow> Suc (length (removeAll x xs)) = length xs"
  by (induction xs) (auto simp: removeAll_id)

lemma sorted_wrt_less_distinct: "sorted_wrt (<) (xs :: nat list) \<Longrightarrow> distinct xs"
  by (simp add: strict_sorted_iff)

text \<open>Skipping cancelled tickets keeps the queue, the next ticket, the waiting count and the number of
  outstanding tickets, and stops at a ticket that is not cancelled.\<close>

lemma advance_cancelled_props:
  "lane_pre s \<Longrightarrow>
     lane_pre (advance_cancelled s) \<and> serving_ticket (advance_cancelled s) \<notin> set (cancelled (advance_cancelled s)) \<and>
     lane_queue (advance_cancelled s) = lane_queue s \<and> next_ticket (advance_cancelled s) = next_ticket s \<and>
     waiting (advance_cancelled s) = waiting s \<and>
     next_ticket (advance_cancelled s) - serving_ticket (advance_cancelled s) - length (cancelled (advance_cancelled s)) =
     next_ticket s - serving_ticket s - length (cancelled s)"
proof (induction s rule: advance_cancelled.induct)
  case (1 s)
  show ?case
  proof (cases "serving_ticket s \<in> set (cancelled s)")
    case True
    let ?t = "s\<lparr>cancelled := removeAll (serving_ticket s) (cancelled s),
                serving_ticket := sat_add 64 (serving_ticket s) 1\<rparr>"
    have lt: "serving_ticket s < next_ticket s" "next_ticket s \<le> uint_max 64"
      using "1.prems" True by (auto simp: lane_pre_def)
    then have suc: "sat_add 64 (serving_ticket s) 1 = Suc (serving_ticket s)"
      by (simp add: sat_add_exact)
    have len: "Suc (length (removeAll (serving_ticket s) (cancelled s))) = length (cancelled s)"
      using "1.prems" True by (simp add: lane_pre_def length_removeAll_distinct sorted_wrt_less_distinct)
    have pre: "lane_pre ?t"
      using "1.prems" lt suc by (auto simp: lane_pre_def removeAll_sorted_wrt Suc_le_eq nat_less_le)
    have q: "lane_queue ?t = lane_queue s"
      using upt_filter_head [OF True lt(1) refl] suc by (simp add: lane_queue_def)
    have eq: "advance_cancelled s = advance_cancelled ?t"
      using True by (subst advance_cancelled.simps) simp
    have num: "next_ticket ?t - serving_ticket ?t - length (cancelled ?t) =
        next_ticket s - serving_ticket s - length (cancelled s)"
      using len suc by simp
    have same: "next_ticket ?t = next_ticket s" "waiting ?t = waiting s" by simp_all
    show ?thesis
      using "1.IH" [OF True pre] unfolding eq [symmetric] q by (metis num same)
  qed (use "1.prems" in simp)
qed

lemma length_lane_queue:
  assumes "lane_pre s"
  shows "length (lane_queue s) = next_ticket s - serving_ticket s - length (cancelled s)"
proof -
  have "length (lane_queue s) = card ({serving_ticket s ..< next_ticket s} - set (cancelled s))"
    unfolding lane_queue_def
    by (subst distinct_card [symmetric]) (auto intro: arg_cong [where f = card])
  also have "\<dots> = next_ticket s - serving_ticket s - card (set (cancelled s))"
    using assms by (subst card_Diff_subset) (auto simp: lane_pre_def)
  finally show ?thesis
    using assms by (simp add: lane_pre_def distinct_card sorted_wrt_less_distinct)
qed

lemma lane_ok_waiting: "lane_ok s \<Longrightarrow> waiting s = length (lane_queue s)"
  using length_lane_queue [OF lane_ok_pre, of s] by (auto simp: lane_ok_def)

lemma lane_ok_iff:
  "lane_ok s \<longleftrightarrow> lane_pre s \<and> serving_ticket s \<notin> set (cancelled s) \<and> waiting s = length (lane_queue s)"
proof
  assume "lane_ok s"
  then show "lane_pre s \<and> serving_ticket s \<notin> set (cancelled s) \<and> waiting s = length (lane_queue s)"
    using lane_ok_pre lane_ok_waiting by (auto simp: lane_ok_def)
next
  assume a: "lane_pre s \<and> serving_ticket s \<notin> set (cancelled s) \<and> waiting s = length (lane_queue s)"
  have "card (set (cancelled s)) \<le> card {serving_ticket s ..< next_ticket s}"
    using a by (intro card_mono) (auto simp: lane_pre_def)
  then have "length (cancelled s) \<le> next_ticket s - serving_ticket s"
    using a by (simp add: lane_pre_def distinct_card sorted_wrt_less_distinct)
  moreover have "set (cancelled s) \<subseteq> {serving_ticket s <..< next_ticket s}"
    using a by (force simp: lane_pre_def order_le_less)
  ultimately show "lane_ok s"
    using a length_lane_queue [of s] by (simp add: lane_pre_def lane_ok_def)
qed

lemma lane_queue_sorted: "sorted_wrt (<) (lane_queue s)"
  unfolding lane_queue_def by (rule sorted_wrt_filter) simp

lemma lane_queue_bounds: "t \<in> set (lane_queue s) \<Longrightarrow> serving_ticket s \<le> t \<and> t < next_ticket s"
  by (auto simp: lane_queue_def)

lemma lane_queue_Cons:
  "serving_ticket s \<notin> set (cancelled s) \<Longrightarrow> serving_ticket s < next_ticket s \<Longrightarrow>
   lane_queue s = serving_ticket s # filter (\<lambda>t. t \<notin> set (cancelled s)) [Suc (serving_ticket s) ..< next_ticket s]"
  by (simp add: lane_queue_def upt_conv_Cons)

lemma lane_queue_hd: "lane_ok s \<Longrightarrow> lane_queue s \<noteq> [] \<Longrightarrow> hd (lane_queue s) = serving_ticket s"
proof -
  assume ok: "lane_ok s" and "lane_queue s \<noteq> []"
  then have "serving_ticket s < next_ticket s" by (metis filter.simps(1) lane_queue_def linorder_not_less upt_conv_Nil)
  then show ?thesis using ok by (simp add: lane_queue_Cons lane_ok_iff)
qed

section \<open>The operations on the queue\<close>

lemma enqueue_position_full:
  "lane_ok s \<Longrightarrow> d \<le> length (lane_queue s) \<Longrightarrow> enqueue_position k d s = (Inl (Full k d), s)"
  by (simp add: enqueue_position_def lane_ok_waiting)

lemma enqueue_position_ok:
  assumes "lane_ok s" "length (lane_queue s) < d" "next_ticket s < uint_max 64"
  shows "\<exists>p s'. enqueue_position k d s = (Inr p, s') \<and> lane_ok s' \<and> ticket p = next_ticket s \<and>
    lane_queue s' = lane_queue s @ [ticket p] \<and> next_ticket s' = Suc (next_ticket s) \<and>
    depth_at_enqueue p = length (lane_queue s')"
proof -
  have len: "waiting s = length (lane_queue s)" using assms(1) by (rule lane_ok_waiting)
  have bnd: "waiting s \<le> next_ticket s" using assms(1) by (auto simp: lane_ok_def)
  define s' where "s' = s\<lparr>next_ticket := Suc (next_ticket s), waiting := Suc (waiting s)\<rparr>"
  have q: "lane_queue s' = lane_queue s @ [next_ticket s]"
    using assms(1) by (auto simp: lane_queue_def s'_def lane_ok_def)
  have ok: "lane_ok s'" using assms(1,3) by (auto simp: lane_ok_def s'_def)
  have "enqueue_position k d s =
      (Inr \<lparr>ticket = next_ticket s, depth_at_enqueue = Suc (waiting s),
            ahead_at_enqueue = next_ticket s - serving_ticket s\<rparr>, s')"
    using assms len bnd
    by (simp add: enqueue_position_def advance_cancelled_ok sat_add_exact s'_def Let_def)
  then show ?thesis using q ok len by (simp add: s'_def)
qed

lemma sorted_insort_insert_nat: "sorted_wrt (<) (xs :: nat list) \<Longrightarrow> sorted_wrt (<) (insort_insert x xs)"
  by (auto simp: strict_sorted_iff insort_insert_key_def sorted_insort distinct_insort)

lemma removeAll_filter: "removeAll x (filter P xs) = filter (\<lambda>y. P y \<and> y \<noteq> x) xs"
  by (induction xs) auto

lemma finish_head:
  assumes "lane_ok s" "lane_queue s = t # r"
  shows "lane_ok (finish_state t c s) \<and> lane_queue (finish_state t c s) = r \<and>
    next_ticket (finish_state t c s) = next_ticket s"
proof -
  have t: "t = serving_ticket s" using lane_queue_hd [OF assms(1)] assms(2) by simp
  have lt: "serving_ticket s < next_ticket s" using assms(2) lane_queue_bounds [of t s] t by simp
  define u where "u = s\<lparr>waiting := waiting s - 1, serving_ticket := Suc (serving_ticket s)\<rparr>"
  have fin: "finish_state t c s = advance_cancelled u"
    using assms(1) lt by (simp add: finish_state_def t sat_add_exact u_def lane_ok_def Let_def)
  have pre: "lane_pre u" using assms(1) lt by (force simp: lane_pre_def lane_ok_def u_def)
  have q: "lane_queue u = r"
    using assms lane_queue_Cons [of s] lt t by (auto simp: lane_ok_iff lane_queue_def u_def)
  have w: "waiting u = length r" using lane_ok_waiting [OF assms(1)] assms(2) by (simp add: u_def)
  show ?thesis
    unfolding fin lane_ok_iff using advance_cancelled_props [OF pre] q w by (simp add: u_def)
qed

lemma finish_cancel:
  assumes "lane_ok s" "t \<in> set (lane_queue s)" "t \<noteq> serving_ticket s"
  shows "lane_ok (finish_state t True s) \<and> lane_queue (finish_state t True s) = removeAll t (lane_queue s) \<and>
    next_ticket (finish_state t True s) = next_ticket s"
proof -
  have b: "serving_ticket s < t" "t < next_ticket s" "t \<notin> set (cancelled s)"
    using lane_queue_bounds [OF assms(2)] assms(2,3) by (auto simp: lane_queue_def)
  define u where "u = s\<lparr>waiting := waiting s - 1, cancelled := insort_insert t (cancelled s)\<rparr>"
  have fin: "finish_state t True s = u" using b by (simp add: finish_state_def u_def Let_def)
  have q: "lane_queue u = removeAll t (lane_queue s)"
    by (auto simp: lane_queue_def u_def removeAll_filter set_insort_insert intro!: filter_cong)
  have "Suc (length (removeAll t (lane_queue s))) = length (lane_queue s)"
    using assms(2) lane_queue_sorted [of s] by (simp add: length_removeAll_distinct sorted_wrt_less_distinct)
  then have w: "waiting u = length (lane_queue u)"
    using lane_ok_waiting [OF assms(1)] q by (simp add: u_def)
  have "lane_pre u" "serving_ticket u \<notin> set (cancelled u)"
    using assms(1) b by (auto simp: lane_pre_def lane_ok_def u_def set_insort_insert sorted_insort_insert_nat)
  then show ?thesis unfolding fin lane_ok_iff using q w by (simp add: u_def)
qed

lemma finish_drop:
  assumes "lane_ok s" "t \<in> set (lane_queue s)"
  shows "lane_ok (finish_state t True s) \<and> lane_queue (finish_state t True s) = removeAll t (lane_queue s) \<and>
    next_ticket (finish_state t True s) = next_ticket s"
proof (cases "t = serving_ticket s")
  case True
  obtain h r where hr: "lane_queue s = h # r" using assms(2) by (cases "lane_queue s") auto
  have h: "h = t" using lane_queue_hd [OF assms(1)] hr True by simp
  then have "removeAll t (lane_queue s) = r"
    using lane_queue_sorted [of s] hr by (auto intro!: removeAll_id)
  then show ?thesis using finish_head [OF assms(1), of t r] hr h by simp
qed (use assms finish_cancel in blast)

lemma lane_ok_recount:
  "lane_pre s \<Longrightarrow> serving_ticket s \<notin> set (cancelled s) \<Longrightarrow> lane_ok (s\<lparr>waiting := length (lane_queue s)\<rparr>)"
  by (simp add: lane_ok_iff lane_pre_def lane_queue_def)

lemma repair_lane_state_ok:
  assumes "sorted_wrt (<) (cancelled s)" "next_ticket s \<le> uint_max 64" "serving_ticket s \<le> uint_max 64"
  shows "lane_ok (repair_lane_state s)"
proof -
  define u where "u = s\<lparr>next_ticket := max (next_ticket s) (serving_ticket s),
    cancelled := filter (\<lambda>t. serving_ticket s \<le> t \<and> t < max (next_ticket s) (serving_ticket s)) (cancelled s)\<rparr>"
  have pre: "lane_pre u" using assms by (auto simp: lane_pre_def u_def sorted_wrt_filter)
  note adv = advance_cancelled_props [OF pre]
  have w: "length (lane_queue (advance_cancelled u)) =
      next_ticket (advance_cancelled u) - serving_ticket (advance_cancelled u) - length (cancelled (advance_cancelled u))"
    using length_lane_queue adv by blast
  have "next_ticket (advance_cancelled u) \<le> uint_max 64" using adv by (simp add: lane_pre_def)
  then have "repair_lane_state s = (advance_cancelled u)\<lparr>waiting := length (lane_queue (advance_cancelled u))\<rparr>"
    using w by (auto simp add: repair_lane_state_def Let_def u_def [symmetric])
  then show ?thesis using adv lane_ok_recount by metis
qed

lemma repair_lane_state_id: "lane_ok s \<Longrightarrow> repair_lane_state s = s"
proof -
  assume ok: "lane_ok s"
  then have keep: "filter (\<lambda>t. serving_ticket s \<le> t \<and> t < next_ticket s) (cancelled s) = cancelled s"
    by (force simp: lane_ok_def intro!: filter_True)
  have nums: "max (next_ticket s) (serving_ticket s) = next_ticket s"
    "min (next_ticket s - serving_ticket s) (uint_max 64) = next_ticket s - serving_ticket s"
    using ok by (auto simp: lane_ok_def)
  then have "repair_lane_state s = s\<lparr>waiting := next_ticket s - serving_ticket s - length (cancelled s)\<rparr>"
    using advance_cancelled_ok [OF ok] keep by (simp add: repair_lane_state_def Let_def nums)
  moreover have "next_ticket s - serving_ticket s - length (cancelled s) = waiting s"
    using ok by (auto simp: lane_ok_def)
  ultimately show ?thesis by simp
qed

section \<open>The contract of a lane\<close>

text \<open>
  What callers do with a lane over time: the state, the tickets handed out and not yet finished, and the
  tickets completed so far, in completion order. A caller completes its ticket only while it is the head
  (\<open>acquire_upstream_lease\<close> waits for that), and may drop it at any time.
\<close>

inductive fifo_history ::
  "(nat \<Rightarrow> 's \<Rightarrow> nat option \<times> 's) \<Rightarrow> (nat \<Rightarrow> bool \<Rightarrow> 's \<Rightarrow> 's) \<Rightarrow> ('s \<Rightarrow> 's) \<Rightarrow> (nat \<Rightarrow> 's \<Rightarrow> bool) \<Rightarrow> ('s \<Rightarrow> bool) \<Rightarrow>
   's \<Rightarrow> nat \<Rightarrow> 's \<Rightarrow> nat list \<Rightarrow> nat list \<Rightarrow> bool"
  for enq fin repair ready room start depth where
  h_start: "fifo_history enq fin repair ready room start depth start [] []"
| h_enqueue: "fifo_history enq fin repair ready room start depth s live served \<Longrightarrow> room s \<Longrightarrow>
     d \<le> depth \<Longrightarrow> enq d s = (Some t, s') \<Longrightarrow>
     fifo_history enq fin repair ready room start depth s' (live @ [t]) served"
| h_full: "fifo_history enq fin repair ready room start depth s live served \<Longrightarrow> room s \<Longrightarrow>
     enq d s = (None, s') \<Longrightarrow> fifo_history enq fin repair ready room start depth s' live served"
| h_complete: "fifo_history enq fin repair ready room start depth s live served \<Longrightarrow>
     t \<in> set live \<Longrightarrow> ready t s \<Longrightarrow>
     fifo_history enq fin repair ready room start depth (fin t False s) (removeAll t live) (served @ [t])"
| h_drop: "fifo_history enq fin repair ready room start depth s live served \<Longrightarrow> t \<in> set live \<Longrightarrow>
     fifo_history enq fin repair ready room start depth (fin t True s) (removeAll t live) served"
| h_repair: "fifo_history enq fin repair ready room start depth s live served \<Longrightarrow>
     fifo_history enq fin repair ready room start depth (repair s) live served"

locale fifo_lane =
  fixes inv :: "'s \<Rightarrow> bool" and queue :: "'s \<Rightarrow> nat list" and fresh :: "'s \<Rightarrow> nat"
    and start :: 's and room :: "'s \<Rightarrow> bool"
    and enq :: "nat \<Rightarrow> 's \<Rightarrow> nat option \<times> 's"
    and fin :: "nat \<Rightarrow> bool \<Rightarrow> 's \<Rightarrow> 's"
    and repair :: "'s \<Rightarrow> 's"
    and ready :: "nat \<Rightarrow> 's \<Rightarrow> bool"
  assumes start_ok: "inv start" "queue start = []"
    and enq_room: "inv s \<Longrightarrow> room s \<Longrightarrow> length (queue s) < max d 1 \<Longrightarrow>
      \<exists>s'. enq d s = (Some (fresh s), s') \<and> inv s' \<and> queue s' = queue s @ [fresh s] \<and> fresh s' = Suc (fresh s)"
    and enq_full: "inv s \<Longrightarrow> max d 1 \<le> length (queue s) \<Longrightarrow> enq d s = (None, s)"
    and fin_head: "inv s \<Longrightarrow> queue s = t # r \<Longrightarrow>
      inv (fin t c s) \<and> queue (fin t c s) = r \<and> fresh (fin t c s) = fresh s"
    and fin_drop: "inv s \<Longrightarrow> t \<in> set (queue s) \<Longrightarrow>
      inv (fin t True s) \<and> queue (fin t True s) = removeAll t (queue s) \<and> fresh (fin t True s) = fresh s"
    and repair_id: "inv s \<Longrightarrow> repair s = s"
    and ready_head: "inv s \<Longrightarrow> t \<in> set (queue s) \<Longrightarrow> ready t s \<longleftrightarrow> t = hd (queue s)"
    and queue_fresh: "inv s \<Longrightarrow> t \<in> set (queue s) \<Longrightarrow> t < fresh s"
    and queue_sorted: "inv s \<Longrightarrow> sorted_wrt (<) (queue s)"
begin

lemma head_complete:
  assumes "inv s" "t \<in> set (queue s)" "ready t s"
  shows "\<exists>r. queue s = t # r \<and> removeAll t (queue s) = r"
proof -
  obtain h r where q: "queue s = h # r" using assms(2) by (cases "queue s") auto
  then have "h = t" using ready_head [OF assms(1,2)] assms(3) by simp
  then show ?thesis using q queue_sorted [OF assms(1)] by (auto intro!: removeAll_id)
qed

lemma history_inv:
  "fifo_history enq fin repair ready room start depth s live served \<Longrightarrow>
   inv s \<and> queue s = live \<and> sorted_wrt (<) (served @ live) \<and> (\<forall>t \<in> set served. t < fresh s) \<and>
   length live \<le> max depth 1"
proof (induction rule: fifo_history.induct)
  case (h_enqueue s live served d t s')
  have "length (queue s) < max d 1"
    using h_enqueue.IH h_enqueue.hyps(4) enq_full [of s d] by fastforce
  then show ?case
    using enq_room [of s d] h_enqueue queue_fresh [of s] by (auto simp: sorted_wrt_append)
next
  case (h_full s live served d s')
  have "max d 1 \<le> length (queue s)"
    using h_full enq_room [of s d] by fastforce
  then show ?case using h_full enq_full by force
next
  case (h_complete s live served t)
  from head_complete [of s t] h_complete obtain r where "live = t # r" "removeAll t live = r" by auto
  then show ?case using h_complete fin_head [of s t r False] queue_fresh [of s t] by (auto simp: sorted_wrt_append)
next
  case (h_drop s live served t)
  then show ?case using fin_drop [of s t] order_trans [OF length_removeAll_less_eq [of t "queue s"]]
    by (auto simp: sorted_wrt_append removeAll_sorted_wrt)
qed (use start_ok repair_id in auto)

lemma fifo_order:
  assumes "fifo_history enq fin repair ready room start depth s live served"
  shows "sorted_wrt (<) (served @ live) \<and> length live \<le> max depth 1 \<and> (\<forall>t \<in> set live. ready t s \<longleftrightarrow> t = hd live)"
  using history_inv [OF assms] ready_head by auto

lemma next_is_ready:
  assumes "fifo_history enq fin repair ready room start depth s (t # u # r) served"
  shows "inv (fin t c s) \<and> queue (fin t c s) = u # r \<and> ready u (fin t c s)"
  using history_inv [OF assms] fin_head [of s t "u # r" c] ready_head [of "fin t c s" u] by auto

end

text \<open>The operations of a lane in the form of the contract.\<close>

definition lane_enqueue :: "string \<Rightarrow> nat \<Rightarrow> queue_lane_state \<Rightarrow> nat option \<times> queue_lane_state" where
  "lane_enqueue k d s =
     (case enqueue_position k (max d 1) s of (Inl _, s') \<Rightarrow> (None, s') | (Inr p, s') \<Rightarrow> (Some (ticket p), s'))"

definition is_head :: "nat \<Rightarrow> queue_lane_state \<Rightarrow> bool" where
  "is_head t s \<longleftrightarrow> serving_ticket (advance_cancelled s) = t"

definition ticket_room :: "queue_lane_state \<Rightarrow> bool" where
  "ticket_room s \<longleftrightarrow> next_ticket s < uint_max 64"

interpretation lane: fifo_lane lane_ok lane_queue next_ticket lane_default ticket_room "lane_enqueue k"
  finish_state repair_lane_state is_head for k
proof unfold_locales
  show "lane_ok lane_default" "lane_queue lane_default = []"
    by (simp_all add: lane_ok_def lane_default_def lane_queue_def)
next
  fix s d assume "lane_ok s" "ticket_room s" "length (lane_queue s) < max d 1"
  then show "\<exists>s'. lane_enqueue k d s = (Some (next_ticket s), s') \<and> lane_ok s' \<and>
      lane_queue s' = lane_queue s @ [next_ticket s] \<and> next_ticket s' = Suc (next_ticket s)"
    using enqueue_position_ok [of s "max d 1" k] by (auto simp: lane_enqueue_def ticket_room_def)
next
  fix s d assume "lane_ok s" "max d 1 \<le> length (lane_queue s)"
  then show "lane_enqueue k d s = (None, s)" by (simp add: lane_enqueue_def enqueue_position_full)
next
  fix s t assume "lane_ok s" "t \<in> set (lane_queue s)"
  moreover from this have "lane_queue s \<noteq> []" by auto
  ultimately show "is_head t s \<longleftrightarrow> t = hd (lane_queue s)"
    by (auto simp: is_head_def advance_cancelled_ok lane_queue_hd)
qed (auto simp: finish_head finish_drop repair_lane_state_id lane_queue_sorted dest: lane_queue_bounds)

lemmas lane_history_intros =
  fifo_history.intros [of "lane_enqueue k" finish_state repair_lane_state is_head ticket_room lane_default depth] for k depth

abbreviation lane_history :: "string \<Rightarrow> nat \<Rightarrow> queue_lane_state \<Rightarrow> nat list \<Rightarrow> nat list \<Rightarrow> bool" where
  "lane_history k \<equiv> fifo_history (lane_enqueue k) finish_state repair_lane_state is_head ticket_room lane_default"


lemma removeAll_hd_sorted: "sorted_wrt (<) ((t::nat) # r) \<Longrightarrow> removeAll t (t # r) = r"
  by (auto intro!: removeAll_id)

section \<open>Properties of the queue\<close>

text \<open>C7: first come, first served. Whatever callers do with a lane (enqueue, complete at the head, drop at
  any point, recover from a poisoned lock), the completed tickets followed by the live ones are in the order of
  their enqueueing, so no live ticket was overtaken; at most \<open>max_depth\<close> tickets are live; and exactly the first
  live ticket is the head.\<close>

theorem lease_queue_fifo:
  assumes "lane_history k depth s live served"
  shows "sorted_wrt (<) (served @ live) \<and> length live \<le> max depth 1 \<and> (\<forall>t \<in> set live. is_head t s \<longleftrightarrow> t = hd live)"
  using lane.fifo_order [OF assms] .

definition two_waiters :: queue_lane_state where
  "two_waiters = \<lparr>next_ticket = 2, serving_ticket = 0, waiting = 2, cancelled = []\<rparr>"

lemma two_waiters_history: "lane_history ''k'' 8 two_waiters [0, 1] []"
proof -
  have "lane_enqueue ''k'' 8 lane_default = (Some 0, \<lparr>next_ticket = 1, serving_ticket = 0, waiting = 1, cancelled = []\<rparr>)"
    "lane_enqueue ''k'' 8 \<lparr>next_ticket = 1, serving_ticket = 0, waiting = 1, cancelled = []\<rparr> = (Some 1, two_waiters)"
    by (simp_all add: lane_enqueue_def enqueue_position_def lane_default_def two_waiters_def sat_add_def uint_max_def)
  then show ?thesis
    using h_enqueue [OF h_enqueue [OF h_start], of ticket_room lane_default 8 8 "lane_enqueue ''k''" 0 _ 8 1 two_waiters]
    by (simp add: ticket_room_def uint_max_def lane_default_def)
qed

theorem lease_queue_fifo_witness:
  "lane_history ''k'' 8 two_waiters [0, 1] [] \<and> is_head 0 two_waiters \<and> \<not> is_head 1 two_waiters"
  using two_waiters_history lease_queue_fifo [OF two_waiters_history] by simp

text \<open>Progress. When the head finishes, by completing or by being dropped, the waiter behind it gets
  through: its next check returns at once, whatever the deadline, also when cancelled tickets lie between.\<close>

lemma lease_queue_progress:
  assumes "lane_history k depth s (t # u # r) served"
  shows "wait_until_head k u deadline now (finish_state t c s) wakes = (Some (Inr ()), finish_state t c s)"
proof -
  have "lane_ok (finish_state t c s)" "is_head u (finish_state t c s)"
    using lane.next_is_ready [OF assms, of c] by auto
  then show ?thesis
    by (subst wait_until_head.simps) (simp add: is_head_def advance_cancelled_ok)
qed

lemma wait_until_head_returns:
  "deadline \<le> now \<or> (\<exists>w \<in> set wakes. deadline \<le> wk_next_now w) \<Longrightarrow>
   \<exists>r s'. wait_until_head k t deadline now s wakes = (Some r, s')"
proof (induction wakes arbitrary: now s)
  case Nil
  then show ?case by (subst wait_until_head.simps) (simp add: Let_def)
next
  case (Cons w ws)
  have "deadline \<le> now \<or> (\<exists>r s'. wait_until_head k t deadline (wk_next_now w) (wk_state w) ws = (Some r, s'))"
    using Cons.IH [of "wk_next_now w" "wk_state w"] Cons.prems by auto
  then show ?case by (subst wait_until_head.simps) (auto simp: Let_def)
qed

lemma wait_until_head_sound:
  "wait_until_head k t deadline now s wakes = (Some r, s') \<Longrightarrow>
   r = Inr () \<and> serving_ticket s' = t \<or>
   r = Inl (Timeout k t) \<and> (deadline \<le> now \<or> (\<exists>w \<in> set wakes. deadline \<le> wk_now w \<or> deadline \<le> wk_next_now w))"
proof (induction wakes arbitrary: now s)
  case Nil
  then show ?case
    by (subst (asm) wait_until_head.simps) (auto simp: Let_def split: if_splits)
next
  case (Cons w ws)
  then show ?case
    by (subst (asm) wait_until_head.simps) (auto simp: Let_def split: if_splits)
qed

text \<open>Waiting is bounded and truthful. The wait returns as soon as a check reads a time past the deadline;
  it returns success only with the caller's ticket at the head, and its only error is the timeout, which it reports
  only after the deadline was read.\<close>

lemma wait_until_head_bounded:
  assumes "deadline \<le> now \<or> (\<exists>w \<in> set wakes. deadline \<le> wk_next_now w)"
  shows "case wait_until_head k t deadline now s wakes of
      (None, _) \<Rightarrow> False
    | (Some (Inr _), s') \<Rightarrow> serving_ticket s' = t
    | (Some (Inl e), _) \<Rightarrow> e = Timeout k t"
  using wait_until_head_returns [OF assms, of k t s] wait_until_head_sound [of k t deadline now s wakes]
  by (auto split: sum.splits)

section \<open>Properties of the registry\<close>

text \<open>The registry in use: an ordered map within the lane limit.\<close>

definition registry_ok :: "queue_registry \<Rightarrow> bool" where
  "registry_ok r \<longleftrightarrow> bt_ok (lanes r) \<and> length (lanes r) \<le> MAX_QUEUE_LANES"

lemma bt_ok_map_snd: "bt_ok (map (\<lambda>(k, v). (k, f v)) m) \<longleftrightarrow> bt_ok m"
  by (induction m) auto

lemma prune_lookup:
  "bt_ok (lanes r) \<Longrightarrow> map_of (lanes (prune_empty_lanes r)) k =
     (case map_of (lanes r) k of
        None \<Rightarrow> None
      | Some lane \<Rightarrow> if idle_lane (recover_lane lane) then None else Some (recover_lane lane))"
  by (auto simp: prune_empty_lanes_def map_of_bt_retain bt_ok_map_snd map_of_map split: option.splits)

lemma prune_registry_ok: "registry_ok r \<Longrightarrow> registry_ok (prune_empty_lanes r)"
  by (auto simp: registry_ok_def prune_empty_lanes_def bt_ok_map_snd bt_retain_def
      intro: order_trans [OF length_filter_le])

lemma enqueue_lane_facts:
  assumes "registry_ok r" "enqueue_lane k r = (res, r')"
  shows "registry_ok r'" "k' \<noteq> k \<Longrightarrow> qr_poisoned r \<or> map_of (lanes r') k' = map_of (lanes (prune_empty_lanes r)) k'"
    "res = Inr () \<Longrightarrow> map_of (lanes r') k \<noteq> None"
  using assms prune_registry_ok [OF assms(1)]
  by (auto simp: enqueue_lane_def Let_def registry_ok_def length_bt_insert split: if_splits option.splits)

text \<open>A lane with live tickets is never lost. Enqueueing on one lane keeps every other lane that somebody
  still holds a ticket of, with its tickets (a poisoned one repaired), and the registry stays an ordered map of at
  most 4096 lanes; so two waiters on the same key are always in the same queue.\<close>

lemma enqueue_keeps_live_lanes:
  assumes "registry_ok r" "enqueue k d r = (res, r')" "map_of (lanes r) k' = Some lane" "k' \<noteq> k" "0 < ql_handles lane"
  shows "registry_ok r' \<and> (map_of (lanes r') k' = Some lane \<or> map_of (lanes r') k' = Some (recover_lane lane))"
proof -
  obtain e r1 where e: "enqueue_lane k r = (e, r1)" by force
  note f = enqueue_lane_facts [OF assms(1) e]
  have "\<not> idle_lane (recover_lane lane)" using assms(5) by (simp add: idle_lane_def recover_lane_def)
  then have keep: "map_of (lanes r1) k' = Some lane \<or> map_of (lanes r1) k' = Some (recover_lane lane)"
    using f(2) [OF assms(4)] prune_lookup [of r k'] assms(1,3) e
    by (auto simp: registry_ok_def enqueue_lane_def split: if_splits)
  show ?thesis
    using assms(2,4) e f(1,3) keep
    by (auto simp: enqueue_def Let_def registry_ok_def length_bt_insert split: sum.splits option.splits prod.splits)
qed

definition sample_registry :: queue_registry where
  "sample_registry = \<lparr>lanes = [(''a'', \<lparr>ql_state = two_waiters, ql_poisoned = False, ql_handles = 2\<rparr>)], qr_poisoned = False\<rparr>"

text \<open>Recovery from a poisoned lane lock: from any state the interrupted update can have left (ascending cancellations,
  64-bit tickets) the repair re-establishes the invariant of the lane, and on a consistent state it changes nothing.\<close>

lemmas repair_lane_state_restores = repair_lane_state_ok repair_lane_state_id

end
