(* ===== verification/Net_Text.thy ===== *)
theory Net_Text
  imports Rust_Text
begin

text \<open>
  What the network code uses of the standard library: splitting and stripping of strings, and the textual
  forms of IP addresses that \<open>str::parse::<IpAddr>\<close> accepts, with the loopback test.
\<close>

section \<open>Splitting\<close>

fun split_char :: "char \<Rightarrow> string \<Rightarrow> string list" where
  "split_char c [] = [[]]"
| "split_char c (x # s) =
     (if x = c then [] # split_char c s
      else case split_char c s of [] \<Rightarrow> [[x]] | w # ws \<Rightarrow> (x # w) # ws)"

definition strip_prefix :: "string \<Rightarrow> string \<Rightarrow> string option" where
  "strip_prefix p s = (if take (length p) s = p then Some (drop (length p) s) else None)"

definition strip_suffix :: "string \<Rightarrow> string \<Rightarrow> string option" where
  "strip_suffix p s = map_option rev (strip_prefix (rev p) (rev s))"

text \<open>\<open>find\<close> and \<open>rsplit_once\<close> of a single character: the text before and after it.\<close>

fun split_once :: "char \<Rightarrow> string \<Rightarrow> (string \<times> string) option" where
  "split_once c [] = None"
| "split_once c (x # s) =
     (if x = c then Some ([], s) else map_option (\<lambda>(a, b). (x # a, b)) (split_once c s))"

definition rsplit_once :: "char \<Rightarrow> string \<Rightarrow> (string \<times> string) option" where
  "rsplit_once c s = map_option (\<lambda>(a, b). (rev b, rev a)) (split_once c (rev s))"

definition eq_ignore_ascii_case :: "string \<Rightarrow> string \<Rightarrow> bool" where
  "eq_ignore_ascii_case a b \<longleftrightarrow> to_ascii_lowercase a = to_ascii_lowercase b"

lemma strip_prefix_Some [simp]: "strip_prefix p s = Some r \<longleftrightarrow> s = p @ r"
  by (auto simp: strip_prefix_def) (metis append_take_drop_id)

lemma strip_suffix_Some [simp]: "strip_suffix p s = Some r \<longleftrightarrow> s = r @ p"
  by (auto simp: strip_suffix_def) (metis rev_append rev_rev_ident)

lemma split_once_Some: "split_once c s = Some (a, b) \<longleftrightarrow> s = a @ c # b \<and> c \<notin> set a"
  by (induction s arbitrary: a b) (auto simp: Cons_eq_append_conv)

lemma split_once_None [simp]: "split_once c s = None \<longleftrightarrow> c \<notin> set s"
  by (induction s) auto

lemma rsplit_once_Some: "rsplit_once c s = Some (a, b) \<longleftrightarrow> s = a @ c # b \<and> c \<notin> set b"
proof -
  have "rsplit_once c s = Some (a, b) \<longleftrightarrow> split_once c (rev s) = Some (rev b, rev a)"
    by (auto simp: rsplit_once_def)
  also have "\<dots> \<longleftrightarrow> s = a @ c # b \<and> c \<notin> set b"
    by (auto simp: split_once_Some) (metis append.assoc append_Cons append_Nil rev.simps(2) rev_append rev_rev_ident)
  finally show ?thesis .
qed

lemma rsplit_once_None [simp]: "rsplit_once c s = None \<longleftrightarrow> c \<notin> set s"
  by (auto simp: rsplit_once_def)

lemma split_char_join: "join [c] (split_char c s) = s \<and> split_char c s \<noteq> []"
proof (induction s)
  case (Cons x s)
  then show ?case by (cases "split_char c s"; cases "tl (split_char c s)") auto
qed simp

section \<open>IP addresses\<close>

definition hex_digit :: "char \<Rightarrow> nat option" where
  "hex_digit c =
     (if is_digit c then Some (code c - 48)
      else if 97 \<le> code c \<and> code c \<le> 102 then Some (code c - 87)
      else if 65 \<le> code c \<and> code c \<le> 70 then Some (code c - 55)
      else None)"

definition hex_val :: "string \<Rightarrow> nat" where
  "hex_val s = foldl (\<lambda>n c. 16 * n + (case hex_digit c of Some d \<Rightarrow> d | None \<Rightarrow> 0)) 0 s"

text \<open>An octet: one to three decimal digits, at most 255, without a leading zero. A group: one to four
  hexadecimal digits. Both return the rest of the input.\<close>

definition read_octet :: "string \<Rightarrow> (nat \<times> string) option" where
  "read_octet s =
     (let ds = takeWhile is_digit s; rest = dropWhile is_digit s
      in if ds = [] \<or> 3 < length ds \<or> 255 < digits_val ds \<or> (hd ds = CHR ''0'' \<and> 1 < length ds) then None
         else Some (digits_val ds, rest))"

definition read_group :: "string \<Rightarrow> (nat \<times> string) option" where
  "read_group s =
     (let ds = takeWhile (\<lambda>c. hex_digit c \<noteq> None) s; rest = dropWhile (\<lambda>c. hex_digit c \<noteq> None) s
      in if ds = [] \<or> 4 < length ds then None else Some (hex_val ds, rest))"

definition read_sep :: "char \<Rightarrow> nat \<Rightarrow> (string \<Rightarrow> ('a \<times> string) option) \<Rightarrow> string \<Rightarrow> ('a \<times> string) option" where
  "read_sep sep i p s =
     (if i = 0 then p s
      else case s of [] \<Rightarrow> None | c # r \<Rightarrow> if c = sep then p r else None)"

fun read_octets :: "nat \<Rightarrow> nat \<Rightarrow> string \<Rightarrow> (nat list \<times> string) option" where
  "read_octets 0 i s = Some ([], s)"
| "read_octets (Suc n) i s =
     (case read_sep CHR ''.'' i read_octet s of
        None \<Rightarrow> None
      | Some (v, r) \<Rightarrow> map_option (\<lambda>(vs, r'). (v # vs, r')) (read_octets n (Suc i) r))"

definition read_ipv4 :: "string \<Rightarrow> (nat list \<times> string) option" where
  "read_ipv4 s = read_octets 4 0 s"

text \<open>Up to \<open>n\<close> groups separated by colons; the last two may be written as an IPv4 address.\<close>

fun read_groups :: "nat \<Rightarrow> nat \<Rightarrow> string \<Rightarrow> nat list \<times> bool \<times> string" where
  "read_groups 0 i s = ([], False, s)"
| "read_groups (Suc n) i s =
     (case (if 0 < n then read_sep CHR '':'' i read_ipv4 s else None) of
        Some (v4, r) \<Rightarrow> ([v4 ! 0 * 256 + v4 ! 1, v4 ! 2 * 256 + v4 ! 3], True, r)
      | None \<Rightarrow>
          (case read_sep CHR '':'' i read_group s of
             None \<Rightarrow> ([], False, s)
           | Some (g, r) \<Rightarrow> (case read_groups n (Suc i) r of (gs, f, r') \<Rightarrow> (g # gs, f, r'))))"

definition read_ipv6 :: "string \<Rightarrow> (nat list \<times> string) option" where
  "read_ipv6 s =
     (case read_groups 8 0 s of (hd_groups, hd_ipv4, r) \<Rightarrow>
        if length hd_groups = 8 then Some (hd_groups, r)
        else if hd_ipv4 then None
        else (case strip_prefix ''::'' r of
                None \<Rightarrow> None
              | Some r' \<Rightarrow>
                  (case read_groups (8 - (length hd_groups + 1)) 0 r' of (tl_groups, _, r'') \<Rightarrow>
                     Some (hd_groups @ replicate (8 - length hd_groups - length tl_groups) 0 @ tl_groups, r''))))"

datatype ip_addr = V4 "nat list" | V6 "nat list"

definition parse_ip_addr :: "string \<Rightarrow> ip_addr option" where
  "parse_ip_addr s =
     (case read_ipv4 s of
        Some (os, r) \<Rightarrow> if r = [] then Some (V4 os) else None
      | None \<Rightarrow> (case read_ipv6 s of Some (gs, r) \<Rightarrow> if r = [] then Some (V6 gs) else None | None \<Rightarrow> None))"

definition is_loopback :: "ip_addr \<Rightarrow> bool" where
  "is_loopback a = (case a of V4 os \<Rightarrow> hd os = 127 | V6 gs \<Rightarrow> gs = [0, 0, 0, 0, 0, 0, 0, 1])"

section \<open>The accepted IPv4 texts are the canonical ones\<close>

lemma digits_val_append: "digits_val (s @ [c]) = 10 * digits_val s + (code c - 48)"
  by (simp add: digits_val_def)

lemma code_inject: "code a = code b \<longleftrightarrow> a = b"
  by (simp add: code_def)

lemma digit_char_code: "is_digit c \<Longrightarrow> digit_char (code c - 48) = c"
  by (simp add: is_digit_def digit_char_def code_def)

lemma digits_val_pos: "list_all is_digit s \<Longrightarrow> s \<noteq> [] \<Longrightarrow> hd s \<noteq> CHR ''0'' \<Longrightarrow> 0 < digits_val s"
proof (induction s rule: rev_induct)
  case (snoc c s)
  show ?case
  proof (cases "s = []")
    case True
    then have "code c \<noteq> code (CHR ''0'')" using snoc.prems by (simp add: code_inject)
    moreover have "code (CHR ''0'') = 48" by (simp add: code_def)
    ultimately show ?thesis using snoc.prems True by (auto simp: digits_val_def is_digit_def)
  next
    case False
    then show ?thesis using snoc by (simp add: digits_val_append hd_append)
  qed
qed simp

lemma show_nat_digits_val:
  "list_all is_digit s \<Longrightarrow> s \<noteq> [] \<Longrightarrow> hd s \<noteq> CHR ''0'' \<or> length s = 1 \<Longrightarrow> show_nat (digits_val s) = s"
proof (induction s rule: rev_induct)
  case (snoc c s)
  have c: "is_digit c" "code c - 48 < 10" using snoc.prems by (auto simp: is_digit_def)
  show ?case
  proof (cases "s = []")
    case True
    then show ?thesis using c by (subst show_nat.simps) (simp add: digits_val_def digit_char_code)
  next
    case False
    then have nz: "hd s \<noteq> CHR ''0''" using snoc.prems(3) by (cases s) auto
    then have "0 < digits_val s" using snoc.prems False digits_val_pos by simp
    moreover have "show_nat (digits_val s) = s" using snoc nz False by simp
    ultimately show ?thesis
      using c by (subst show_nat.simps) (simp add: digits_val_append digit_char_code)
  qed
qed simp

lemma read_octet_canonical: "read_octet s = Some (v, r) \<Longrightarrow> v \<le> 255 \<and> s = show_nat v @ r"
proof -
  assume a: "read_octet s = Some (v, r)"
  let ?d = "takeWhile is_digit s"
  have f: "v = digits_val ?d" "r = dropWhile is_digit s" "?d \<noteq> []" "v \<le> 255"
      "hd ?d \<noteq> CHR ''0'' \<or> length ?d = 1"
    using a by (auto simp: read_octet_def Let_def split: if_splits) (cases ?d; simp)+
  have "list_all is_digit ?d" by (metis list_all_iff set_takeWhileD)
  then have "show_nat v = ?d" using show_nat_digits_val [of ?d] f by simp
  then show ?thesis using f by (metis takeWhile_dropWhile_id)
qed

lemma read_octets_canonical:
  "read_octets n i s = Some (vs, r) \<Longrightarrow>
     length vs = n \<and> (\<forall>v \<in> set vs. v \<le> 255) \<and>
     s = (if 0 < i \<and> 0 < n then ''.'' else []) @ join ''.'' (map show_nat vs) @ r"
proof (induction n i s arbitrary: vs r rule: read_octets.induct)
  case (2 n i s)
  then obtain v ws r' where v: "read_sep CHR ''.'' i read_octet s = Some (v, r')"
      "read_octets n (Suc i) r' = Some (ws, r)" "vs = v # ws"
    by (auto split: option.splits)
  then have tl: "length ws = n" "\<forall>v \<in> set ws. v \<le> 255"
      "r' = (if 0 < n then ''.'' else []) @ join ''.'' (map show_nat ws) @ r"
    using "2.IH" [OF v(1) refl v(2)] by auto
  have "v \<le> 255 \<and> s = (if 0 < i then ''.'' else []) @ show_nat v @ r'"
    using v(1) read_octet_canonical by (auto simp: read_sep_def split: if_splits list.splits)
  then show ?case using tl v(3) by (cases ws) auto
qed simp

end
