(* ===== verification/Http_Boundary.thy ===== *)
theory Http_Boundary
  imports Net_Text
begin

text \<open>
  The HTTP boundary checks (\<^verbatim>\<open>src/dashboard/http_boundary.rs\<close>): the Host and Origin guard against
  foreign web pages, header syntax, content negotiation and unique headers. The main result is that an
  accepted request is addressed to a loopback name and, when a browser sent it, comes from the same origin.
\<close>

record http_request =
  rq_method :: string
  rq_path :: string
  rq_query :: string
  rq_headers :: "(string \<times> string) list"
  rq_body :: string

datatype http_boundary_error =
    MissingHost
  | MultipleHost
  | HostNotAllowed string
  | MultipleOrigin
  | OriginNotAllowed string
  | DuplicateHeader string

definition http_boundary_error_display :: "http_boundary_error \<Rightarrow> string" where
  "http_boundary_error_display e =
     (case e of
        MissingHost \<Rightarrow> ''missing required Host header for MCPace serve mode''
      | MultipleHost \<Rightarrow> ''multiple Host headers are not allowed for MCPace serve mode''
      | HostNotAllowed host \<Rightarrow>
          ''host '' @ [CHR 0x27] @ host @ [CHR 0x27] @ '' is not allowed for MCPace serve mode''
      | MultipleOrigin \<Rightarrow> ''multiple Origin headers are not allowed for MCPace serve mode''
      | OriginNotAllowed origin \<Rightarrow>
          ''origin '' @ [CHR 0x27] @ origin @ [CHR 0x27] @ '' is not allowed for MCPace serve mode''
      | DuplicateHeader key \<Rightarrow> ''multiple '' @ key @ '' headers are not allowed for MCP HTTP requests'')"

definition valid_port :: "string \<Rightarrow> bool" where
  "valid_port v = (case parse_uint (uint_max 16) v of Some port \<Rightarrow> 0 < port | None \<Rightarrow> False)"

definition valid_port_suffix :: "string \<Rightarrow> bool" where
  "valid_port_suffix v = (case strip_prefix '':'' v of Some p \<Rightarrow> valid_port p | None \<Rightarrow> False)"

definition origin_host :: "string \<Rightarrow> string option" where
  "origin_host authority =
     (if starts_with authority ''[''
      then (case split_once CHR '']'' authority of
              None \<Rightarrow> None
            | Some (before, suffix) \<Rightarrow>
                if suffix = [] \<or> valid_port_suffix suffix then Some (before @ '']'') else None)
      else if 1 < length (filter (\<lambda>c. c = CHR '':'') authority) then None
      else (case rsplit_once CHR '':'' authority of
              Some (host, port) \<Rightarrow> if host \<noteq> [] \<and> valid_port port then Some host else None
            | None \<Rightarrow> Some authority))"

definition unbracket :: "string \<Rightarrow> string" where
  "unbracket host =
     (case Option.bind (strip_prefix ''['' host) (strip_suffix '']'') of Some v \<Rightarrow> v | None \<Rightarrow> host)"

definition is_valid_http_authority :: "string \<Rightarrow> bool" where
  "is_valid_http_authority authority =
     (if authority = [] \<or> CHR ''/'' \<in> set authority \<or> CHR ''@'' \<in> set authority
         \<or> list_ex (\<lambda>c. is_control c \<or> is_ws c) authority then False
      else if (CHR ''['' \<in> set authority \<or> CHR '']'' \<in> set authority) \<and> \<not> starts_with authority ''['' then False
      else (case origin_host authority of
              None \<Rightarrow> False
            | Some host \<Rightarrow>
                let bare_host = unbracket host
                in bare_host \<noteq> [] \<and> CHR ''['' \<notin> set bare_host \<and> CHR '']'' \<notin> set bare_host))"

definition is_loopback_host :: "string \<Rightarrow> bool" where
  "is_loopback_host host =
     (let trimmed = trim host
      in eq_ignore_ascii_case trimmed ''localhost'' \<or>
         (case parse_ip_addr (unbracket trimmed) of Some address \<Rightarrow> is_loopback address | None \<Rightarrow> False))"

definition is_allowed_local_authority :: "string \<Rightarrow> bool" where
  "is_allowed_local_authority authority =
     (if \<not> is_valid_http_authority authority then False
      else (case origin_host authority of None \<Rightarrow> False | Some host \<Rightarrow> is_loopback_host host))"

definition origin_authority :: "string \<Rightarrow> string option" where
  "origin_authority origin =
     (if origin = ''null'' then None
      else (case (case strip_prefix ''http://'' origin of
                    Some a \<Rightarrow> Some a
                  | None \<Rightarrow> strip_prefix ''https://'' origin) of
              Some a \<Rightarrow> if is_valid_http_authority a then Some a else None
            | None \<Rightarrow> None))"

definition is_allowed_local_origin :: "string \<Rightarrow> bool" where
  "is_allowed_local_origin origin =
     (case origin_authority origin of None \<Rightarrow> False | Some a \<Rightarrow> is_allowed_local_authority a)"

definition header_values :: "string \<Rightarrow> http_request \<Rightarrow> string list" where
  "header_values key request = map snd (filter (\<lambda>e. fst e = key) (rq_headers request))"

definition validate_origin_for_bind :: "http_request \<Rightarrow> http_boundary_error + unit" where
  "validate_origin_for_bind request =
     (case header_values ''host'' request of
        [] \<Rightarrow> Inl MissingHost
      | [raw_host] \<Rightarrow>
          let host = trim raw_host
          in if \<not> is_allowed_local_authority host then Inl (HostNotAllowed host)
             else (case header_values ''origin'' request of
                     [] \<Rightarrow> Inr ()
                   | [raw_origin] \<Rightarrow>
                       let origin = trim raw_origin
                       in if \<not> is_allowed_local_origin origin \<or>
                             \<not> (case origin_authority origin of
                                  Some authority \<Rightarrow> eq_ignore_ascii_case authority host | None \<Rightarrow> False)
                          then Inl (OriginNotAllowed origin) else Inr ()
                   | _ \<Rightarrow> Inl MultipleOrigin)
      | _ \<Rightarrow> Inl MultipleHost)"

definition is_valid_http_header_name :: "string \<Rightarrow> bool" where
  "is_valid_http_header_name name \<longleftrightarrow>
     name \<noteq> [] \<and>
     list_all (\<lambda>c. c \<in> set ''!#$%&*+-.^_|~'' \<or> c = CHR 0x27 \<or> c = CHR 0x60 \<or> is_alnum c) name"

definition is_valid_http_header_value :: "string \<Rightarrow> bool" where
  "is_valid_http_header_value v \<longleftrightarrow> list_all (\<lambda>c. c = CHR '' '' \<or> (33 \<le> code c \<and> code c \<le> 126)) v"

definition media_type_of :: "string \<Rightarrow> string" where
  "media_type_of item = trim (hd (split_char CHR '';'' (trim item)))"

definition accepts :: "http_request \<Rightarrow> string \<Rightarrow> bool" where
  "accepts request media_type =
     list_ex (\<lambda>v. list_ex (\<lambda>item. eq_ignore_ascii_case (media_type_of item) media_type) (split_char CHR '','' v))
       (header_values ''accept'' request)"

definition accepts_streamable_http_post :: "http_request \<Rightarrow> bool" where
  "accepts_streamable_http_post request \<longleftrightarrow>
     accepts request ''application/json'' \<and> accepts request ''text/event-stream''"

definition content_type_is :: "http_request \<Rightarrow> string \<Rightarrow> bool" where
  "content_type_is request media_type =
     (case header_values ''content-type'' request of
        [v] \<Rightarrow> eq_ignore_ascii_case (media_type_of v) media_type
      | _ \<Rightarrow> False)"

definition request_header_string_unique ::
  "http_request option \<Rightarrow> string \<Rightarrow> http_boundary_error + string option" where
  "request_header_string_unique request key =
     (case request of
        None \<Rightarrow> Inr None
      | Some r \<Rightarrow>
          (case header_values (to_ascii_lowercase key) r of
             [] \<Rightarrow> Inr None
           | [v] \<Rightarrow> let trimmed = trim v in Inr (if trimmed = [] then None else Some trimmed)
           | _ \<Rightarrow> Inl (DuplicateHeader key)))"

definition request_header_string :: "http_request option \<Rightarrow> string \<Rightarrow> string option" where
  "request_header_string request key =
     (case request_header_string_unique request key of Inl _ \<Rightarrow> None | Inr v \<Rightarrow> v)"

section \<open>What a loopback authority is\<close>

text \<open>
  The specification: a host that names the local machine, written out as text, and an authority that is
  such a host with an optional port between 1 and 65535.
\<close>

definition dotted :: "nat \<Rightarrow> nat \<Rightarrow> nat \<Rightarrow> nat \<Rightarrow> string" where
  "dotted a b c d = join ''.'' [show_nat a, show_nat b, show_nat c, show_nat d]"

definition loopback_ip :: "string \<Rightarrow> bool" where
  "loopback_ip t \<longleftrightarrow>
     (\<exists>b c d. b \<le> 255 \<and> c \<le> 255 \<and> d \<le> 255 \<and> t = dotted 127 b c d) \<or>
     read_ipv6 t = Some ([0, 0, 0, 0, 0, 0, 0, 1], [])"

definition loopback_name :: "string \<Rightarrow> bool" where
  "loopback_name h \<longleftrightarrow>
     to_ascii_lowercase h = ''localhost'' \<or> loopback_ip h \<or> (\<exists>t. h = ''['' @ t @ '']'' \<and> loopback_ip t)"

definition loopback_authority :: "string \<Rightarrow> bool" where
  "loopback_authority a \<longleftrightarrow>
     (\<exists>h. loopback_name h \<and>
        (a = h \<or> (\<exists>p port. a = h @ '':'' @ p \<and> parse_uint 65535 p = Some port \<and> 1 \<le> port)))"

lemma length_4_conv: "length xs = 4 \<longleftrightarrow> (\<exists>a b c d. xs = [a, b, c, d])"
  by (auto simp: eval_nat_numeral length_Suc_conv)

lemma parse_ip_loopback:
  assumes "parse_ip_addr t = Some a" "is_loopback a"
  shows "loopback_ip t"
proof (cases "read_ipv4 t")
  case None
  then show ?thesis
    using assms by (auto simp: parse_ip_addr_def is_loopback_def loopback_ip_def split: option.splits if_splits)
next
  case (Some x)
  then obtain os where os: "read_octets 4 0 t = Some (os, [])" "hd os = 127"
    using assms by (auto simp: parse_ip_addr_def is_loopback_def read_ipv4_def split: if_splits prod.splits)
  from read_octets_canonical [OF os(1)] obtain w b c d
    where v: "os = [w, b, c, d]" "\<forall>v \<in> set os. v \<le> 255" "t = join ''.'' (map show_nat os)"
    by (auto simp: length_4_conv)
  then have "b \<le> 255" "c \<le> 255" "d \<le> 255" "t = dotted 127 b c d"
    using os(2) by (auto simp: dotted_def)
  then show ?thesis unfolding loopback_ip_def by blast
qed

lemma unbracket_cases: "unbracket h = h \<or> h = ''['' @ unbracket h @ '']''"
  by (auto simp: unbracket_def split: option.splits bind_splits)

lemma loopback_host_name:
  assumes "is_loopback_host h" "trim h = h"
  shows "loopback_name h"
proof -
  consider "to_ascii_lowercase h = ''localhost''" | "loopback_ip (unbracket h)"
    using assms parse_ip_loopback [of "unbracket h"]
    by (auto simp: is_loopback_host_def Let_def eq_ignore_ascii_case_def to_ascii_lowercase_def lower_char_def
        is_upper_def code_def split: option.splits)
  then show ?thesis
    using unbracket_cases [of h] unfolding loopback_name_def by cases metis+
qed

lemma valid_port_parse: "valid_port p \<Longrightarrow> \<exists>port. parse_uint 65535 p = Some port \<and> 1 \<le> port"
  by (auto simp: valid_port_def uint_max_def split: option.splits)

lemma origin_host_text:
  assumes "origin_host a = Some h"
  shows "a = h \<or> (\<exists>p port. a = h @ '':'' @ p \<and> parse_uint 65535 p = Some port \<and> 1 \<le> port)"
proof -
  have "a = h \<or> (\<exists>p. a = h @ '':'' @ p \<and> valid_port p)"
    using assms
    by (auto simp: origin_host_def valid_port_suffix_def split_once_Some rsplit_once_Some
        split: if_splits option.splits)
  then show ?thesis using valid_port_parse by blast
qed

lemma allowed_authority_loopback:
  assumes "is_allowed_local_authority a"
  shows "loopback_authority a"
proof -
  obtain h where h: "origin_host a = Some h" "is_loopback_host h" "is_valid_http_authority a"
    using assms by (auto simp: is_allowed_local_authority_def split: if_splits option.splits)
  have "set h \<subseteq> set a" using origin_host_text [OF h(1)] by auto
  moreover have "\<forall>c \<in> set a. \<not> is_ws c"
    using h(3) by (auto simp: is_valid_http_authority_def list_ex_iff split: if_splits)
  ultimately have "trim h = h" unfolding trim_def by (intro trim_matches_none) auto
  then show ?thesis
    using loopback_host_name [OF h(2)] origin_host_text [OF h(1)] unfolding loopback_authority_def by blast
qed

lemma origin_authority_text:
  "origin_authority o' = Some a \<Longrightarrow> o' = ''http://'' @ a \<or> o' = ''https://'' @ a"
  by (auto simp: origin_authority_def split: if_splits option.splits)

section \<open>Properties\<close>

text \<open>C8: the Host and Origin guard. A request that passes has exactly one Host header, which names the local
  machine (\<open>localhost\<close>, 127.x.y.z, or an IPv6 literal of ::1, with an optional valid port); and every
  Origin header it has is that same authority with an http or https scheme. So a page from any other origin, also one
  whose name was rebound to the loopback address, is refused.\<close>

theorem origin_guard:
  assumes "validate_origin_for_bind request = Inr ()"
  shows "\<exists>host. header_values ''host'' request = [host] \<and> loopback_authority (trim host) \<and>
    (\<forall>o' \<in> set (header_values ''origin'' request).
       \<exists>a. (trim o' = ''http://'' @ a \<or> trim o' = ''https://'' @ a) \<and> eq_ignore_ascii_case a (trim host))"
proof -
  obtain host where h: "header_values ''host'' request = [host]" "is_allowed_local_authority (trim host)"
    using assms by (auto simp: validate_origin_for_bind_def Let_def split: list.splits if_splits)
  have "\<exists>a. (trim o' = ''http://'' @ a \<or> trim o' = ''https://'' @ a) \<and> eq_ignore_ascii_case a (trim host)"
    if "o' \<in> set (header_values ''origin'' request)" for o'
    using assms h that origin_authority_text [of "trim o'"]
    by (auto simp: validate_origin_for_bind_def Let_def split: list.splits if_splits option.splits)
  then show ?thesis using h allowed_authority_loopback by blast
qed

definition local_request :: http_request where
  "local_request = \<lparr>rq_method = ''POST'', rq_path = ''/mcp'', rq_query = [],
     rq_headers = [(''host'', ''127.0.0.1''), (''origin'', ''http://127.0.0.1'')], rq_body = []\<rparr>"

lemma local_request_ok: "validate_origin_for_bind local_request = Inr ()"
  by code_simp

theorem origin_guard_witness:
  "validate_origin_for_bind local_request = Inr () \<and> loopback_authority (trim ''127.0.0.1'')"
  using local_request_ok origin_guard [OF local_request_ok] by (auto simp: header_values_def local_request_def)

end
