(* ===== verification/Hash_Map.thy ===== *)
theory Hash_Map
  imports Prelude
begin

text \<open>
  Rust's \<open>HashMap\<close>, the eviction of its least recent entry, and runs of operations. A hash map is the
  association list of its entries in iteration order, with distinct keys (\<open>hm_ok\<close>). The iteration order of
  a hash map is unspecified and may change between operations; the operation laws below hold for every order, and
  the runs of the components contain reordering steps.
\<close>

section \<open>Hash maps\<close>

definition hm_ok :: "('k \<times> 'v) list \<Rightarrow> bool" where
  "hm_ok m \<longleftrightarrow> distinct (map fst m)"

fun hm_insert :: "'k \<Rightarrow> 'v \<Rightarrow> ('k \<times> 'v) list \<Rightarrow> ('k \<times> 'v) list" where
  "hm_insert k v [] = [(k, v)]"
| "hm_insert k v ((a, b) # m) = (if a = k then (k, v) # m else (a, b) # hm_insert k v m)"

definition hm_remove :: "'k \<Rightarrow> ('k \<times> 'v) list \<Rightarrow> ('k \<times> 'v) list" where
  "hm_remove k m = filter (\<lambda>e. fst e \<noteq> k) m"

definition hm_retain :: "('k \<Rightarrow> 'v \<Rightarrow> bool) \<Rightarrow> ('k \<times> 'v) list \<Rightarrow> ('k \<times> 'v) list" where
  "hm_retain p m = filter (\<lambda>e. p (fst e) (snd e)) m"

definition hm_map_values :: "('v \<Rightarrow> 'w) \<Rightarrow> ('k \<times> 'v) list \<Rightarrow> ('k \<times> 'w) list" where
  "hm_map_values f m = map (\<lambda>e. (fst e, f (snd e))) m"

definition hm_same :: "('k \<times> 'v) list \<Rightarrow> ('k \<times> 'v) list \<Rightarrow> bool" where
  "hm_same m n \<longleftrightarrow> hm_ok m \<and> hm_ok n \<and> set m = set n"

lemma hm_ok_Nil [simp]: "hm_ok []"
  by (simp add: hm_ok_def)

lemma hm_ok_Cons [simp]: "hm_ok (e # m) \<longleftrightarrow> fst e \<notin> fst ` set m \<and> hm_ok m"
  by (auto simp: hm_ok_def)

lemma map_of_hm_insert [simp, map_laws]: "map_of (hm_insert k v m) = (map_of m)(k \<mapsto> v)"
  by (induction m rule: hm_insert.induct) (auto simp: fun_eq_iff)

lemma fst_set_hm_insert: "fst ` set (hm_insert k v m) = insert k (fst ` set m)"
  by (simp flip: dom_map_of_conv_image_fst)

lemma hm_ok_insert [simp, intro]: "hm_ok m \<Longrightarrow> hm_ok (hm_insert k v m)"
  by (induction m rule: hm_insert.induct) (auto simp: fst_set_hm_insert)

lemma hm_ok_filter [simp, intro]: "hm_ok m \<Longrightarrow> hm_ok (filter p m)"
  by (induction m) auto

lemma hm_ok_remove [simp, intro]: "hm_ok m \<Longrightarrow> hm_ok (hm_remove k m)"
  by (simp add: hm_remove_def)

lemma hm_ok_retain [simp, intro]: "hm_ok m \<Longrightarrow> hm_ok (hm_retain p m)"
  by (simp add: hm_retain_def)

lemma hm_ok_map_values [simp]: "hm_ok (hm_map_values f m) \<longleftrightarrow> hm_ok m"
  by (simp add: hm_ok_def hm_map_values_def o_def)

lemma hm_in_set: "hm_ok m \<Longrightarrow> (k, v) \<in> set m \<longleftrightarrow> map_of m k = Some v"
  by (simp add: hm_ok_def)

lemma map_of_hm_remove [simp, map_laws]: "map_of (hm_remove k m) = (map_of m)(k := None)"
  by (induction m) (auto simp: hm_remove_def fun_eq_iff)

lemma map_of_hm_retain [map_laws]:
  assumes "hm_ok m"
  shows "map_of (hm_retain p m) k =
     (case map_of m k of None \<Rightarrow> None | Some v \<Rightarrow> if p k v then Some v else None)"
  using assms
proof (induction m)
  case (Cons e m)
  then have "map_of m (fst e) = None" by (simp add: map_of_eq_None_iff)
  with Cons show ?case by (cases e) (auto simp: hm_retain_def split: option.splits)
qed (simp add: hm_retain_def)

lemma map_of_hm_map_values [simp, map_laws]: "map_of (hm_map_values f m) k = map_option f (map_of m k)"
  by (induction m) (auto simp: hm_map_values_def)

lemma length_hm_map_values [simp]: "length (hm_map_values f m) = length m"
  by (simp add: hm_map_values_def)

lemma set_hm_insert: "hm_ok m \<Longrightarrow> set (hm_insert k v m) = insert (k, v) {e \<in> set m. fst e \<noteq> k}"
  by (auto simp: hm_in_set split: if_splits)

lemma length_hm_insert [map_laws]:
  "hm_ok m \<Longrightarrow> length (hm_insert k v m) = (if map_of m k = None then Suc (length m) else length m)"
  by (induction m rule: hm_insert.induct) auto

lemma length_hm_remove [map_laws]:
  assumes "hm_ok m"
  shows "length (hm_remove k m) = (if map_of m k = None then length m else length m - 1)"
  using assms
proof (induction m)
  case (Cons e m)
  then have "fst e = k \<Longrightarrow> map_of m k = None" by (auto simp: map_of_eq_None_iff)
  moreover have "map_of m k \<noteq> None \<Longrightarrow> length m > 0" by (cases m) auto
  ultimately show ?case using Cons by (cases e) (auto simp: hm_remove_def)
qed (simp add: hm_remove_def)

lemma length_hm_retain_le: "length (hm_retain p m) \<le> length m"
  by (simp add: hm_retain_def)

text \<open>Totals over the entries of a map.\<close>

definition hm_sum :: "('v \<Rightarrow> nat) \<Rightarrow> ('k \<times> 'v) list \<Rightarrow> nat" where
  "hm_sum f m = sum_list (map (\<lambda>e. f (snd e)) m)"

lemma hm_sum_simps [simp]: "hm_sum f [] = 0" "hm_sum f (e # m) = f (snd e) + hm_sum f m"
  by (simp_all add: hm_sum_def)

lemma hm_sum_insert:
  "hm_ok m \<Longrightarrow> hm_sum f (hm_insert k v m) + (case map_of m k of None \<Rightarrow> 0 | Some w \<Rightarrow> f w) = hm_sum f m + f v"
  by (induction m rule: hm_insert.induct) auto

lemma hm_sum_filter_le: "hm_sum f (filter p m) \<le> hm_sum f m"
  by (induction m) auto

lemma hm_sum_member: "map_of m k = Some v \<Longrightarrow> f v \<le> hm_sum f m"
  by (induction m) (auto split: if_splits)

lemma hm_sum_same: "hm_same m n \<Longrightarrow> hm_sum f m = hm_sum f n"
proof -
  assume s: "hm_same m n"
  have d: "distinct m" "distinct n"
    using s by (auto simp: hm_same_def hm_ok_def distinct_map)
  have "hm_sum f m = (\<Sum>e \<in> set m. f (snd e))" "hm_sum f n = (\<Sum>e \<in> set n. f (snd e))"
    unfolding hm_sum_def using d by (simp_all add: sum_list_distinct_conv_sum_set)
  then show ?thesis using s by (simp add: hm_same_def)
qed

lemma hm_same_map_of: "hm_same m n \<Longrightarrow> map_of m = map_of n"
  by (auto simp: hm_same_def hm_ok_def intro: map_of_inject_set [THEN iffD2])

lemma hm_same_length: "hm_same m n \<Longrightarrow> length m = length n"
proof -
  assume s: "hm_same m n"
  then have "distinct m" "distinct n" by (auto simp: hm_same_def hm_ok_def distinct_map)
  then show ?thesis using s by (metis distinct_card hm_same_def)
qed

section \<open>The least entry, and eviction down to a capacity\<close>

text \<open>\<open>Iterator::min_by_key\<close> returns the first of the least elements.\<close>

fun min_by_key :: "('a \<Rightarrow> 'b::linorder) \<Rightarrow> 'a list \<Rightarrow> 'a option" where
  "min_by_key f [] = None"
| "min_by_key f (x # xs) =
     (case min_by_key f xs of None \<Rightarrow> Some x | Some y \<Rightarrow> if f y < f x then Some y else Some x)"

lemma min_by_key_None [simp]: "min_by_key f xs = None \<longleftrightarrow> xs = []"
  by (cases xs) (auto split: option.splits)

lemma min_by_key_Some: "xs \<noteq> [] \<Longrightarrow> \<exists>x. min_by_key f xs = Some x"
  by (metis min_by_key_None option.exhaust)

lemma min_by_key_least: "min_by_key f xs = Some x \<Longrightarrow> x \<in> set xs \<and> (\<forall>y \<in> set xs. f x \<le> f y)"
  by (induction xs arbitrary: x) (fastforce split: option.splits if_splits)+

function evict_oldest :: "('v \<Rightarrow> nat) \<Rightarrow> nat \<Rightarrow> ('k \<times> 'v) list \<Rightarrow> ('k \<times> 'v) list" where
  "evict_oldest age maximum m =
     (if maximum \<le> length m
      then (case min_by_key (\<lambda>e. age (snd e)) m of
              None \<Rightarrow> m
            | Some e \<Rightarrow> evict_oldest age maximum (hm_remove (fst e) m))
      else m)"
  by auto
termination
proof (relation "measure (\<lambda>(age, maximum, m). length m)", simp, clarsimp)
  fix age :: "'v \<Rightarrow> nat" and m :: "('k \<times> 'v) list" and k v
  assume "min_by_key (\<lambda>e. age (snd e)) m = Some (k, v)"
  then have "(k, v) \<in> set m" using min_by_key_least by fastforce
  then show "length (hm_remove k m) < length m"
    unfolding hm_remove_def by (intro length_filter_less) auto
qed

declare evict_oldest.simps [simp del]

lemma evict_oldest_fits: "length m < maximum \<Longrightarrow> evict_oldest age maximum m = m"
  by (subst evict_oldest.simps) simp

lemma evict_oldest_sub: "\<exists>p. evict_oldest age maximum m = filter p m"
proof (induction age maximum m rule: evict_oldest.induct)
  case (1 age maximum m)
  show ?case
  proof (cases "maximum \<le> length m \<and> m \<noteq> []")
    case True
    then obtain e where e: "min_by_key (\<lambda>e. age (snd e)) m = Some e" using min_by_key_Some by blast
    then obtain p where p: "evict_oldest age maximum (hm_remove (fst e) m) = filter p (hm_remove (fst e) m)"
      using 1 True by blast
    have "evict_oldest age maximum m = evict_oldest age maximum (hm_remove (fst e) m)"
      using True e by (subst evict_oldest.simps) simp
    then show ?thesis using p by (auto simp: hm_remove_def)
  next
    case False
    then have "evict_oldest age maximum m = filter (\<lambda>_. True) m"
      by (subst evict_oldest.simps) (auto simp: min_by_key_None)
    then show ?thesis by blast
  qed
qed

lemma evict_oldest_ok [simp, intro]: "hm_ok m \<Longrightarrow> hm_ok (evict_oldest age maximum m)"
  using evict_oldest_sub [of age maximum m] by auto

lemma evict_oldest_length: "0 < maximum \<Longrightarrow> length (evict_oldest age maximum m) < maximum"
proof (induction age maximum m rule: evict_oldest.induct)
  case (1 age maximum m)
  show ?case
  proof (cases "maximum \<le> length m")
    case True
    then obtain e where e: "min_by_key (\<lambda>e. age (snd e)) m = Some e"
      using "1.prems" min_by_key_Some [of m] by (metis gr_implies_not0 le_zero_eq list.size(3))
    then show ?thesis using 1 True by (subst evict_oldest.simps) simp
  next
    case False
    then show ?thesis by (simp add: evict_oldest_fits)
  qed
qed

text \<open>Eviction stops as soon as there is room: it never leaves fewer than the capacity minus one.\<close>

lemma evict_keeps_full: "hm_ok m \<Longrightarrow> maximum \<le> length m \<Longrightarrow> Suc (length (evict_oldest age maximum m)) = maximum \<or> maximum = 0"
proof (induction age maximum m rule: evict_oldest.induct)
  case (1 age maximum m)
  show ?case
  proof (cases "maximum = 0")
    case False
    then obtain e where e: "min_by_key (\<lambda>e. age (snd e)) m = Some e"
      using "1.prems"(2) min_by_key_Some [of m] by (metis le_zero_eq list.size(3))
    have "e \<in> set m" using min_by_key_least [OF e] by simp
    then have "map_of m (fst e) \<noteq> None" by (simp add: map_of_eq_None_iff)
    then have len: "Suc (length (hm_remove (fst e) m)) = length m"
      using length_hm_remove [OF "1.prems"(1), of "fst e"] \<open>e \<in> set m\<close> by (cases m) auto
    have eq: "evict_oldest age maximum m = evict_oldest age maximum (hm_remove (fst e) m)"
      using "1.prems"(2) e by (subst evict_oldest.simps) simp
    show ?thesis
    proof (cases "maximum \<le> length (hm_remove (fst e) m)")
      case True
      then show ?thesis using "1.IH" [OF "1.prems"(2) e hm_ok_remove [OF "1.prems"(1)]] eq by simp
    next
      case False
      then show ?thesis using eq len "1.prems"(2) by (simp add: evict_oldest_fits not_le)
    qed
  qed simp
qed

text \<open>Whatever is evicted is no younger than whatever is kept.\<close>

lemma evict_oldest_lru:
  "e \<in> set m \<Longrightarrow> e \<notin> set (evict_oldest age maximum m) \<Longrightarrow> e' \<in> set (evict_oldest age maximum m) \<Longrightarrow>
   hm_ok m \<Longrightarrow> age (snd e) \<le> age (snd e')"
proof (induction age maximum m rule: evict_oldest.induct)
  case (1 age maximum m)
  have big: "maximum \<le> length m" "m \<noteq> []"
    using "1.prems"(1,2) evict_oldest_fits [of m maximum age] by (auto simp: not_less [symmetric])
  then obtain x where x: "min_by_key (\<lambda>e. age (snd e)) m = Some x" using min_by_key_Some by blast
  have eq: "evict_oldest age maximum m = evict_oldest age maximum (hm_remove (fst x) m)"
    using big x by (subst evict_oldest.simps) simp
  have sub: "set (evict_oldest age maximum m) \<subseteq> set m" using evict_oldest_sub [of age maximum m] by auto
  have least: "x \<in> set m" "\<forall>y \<in> set m. age (snd x) \<le> age (snd y)" using min_by_key_least [OF x] by auto
  show ?case
  proof (cases "e \<in> set (hm_remove (fst x) m)")
    case True
    then show ?thesis using "1.IH" [OF big(1) x] "1.prems" eq by simp
  next
    case False
    then have "fst e = fst x" using "1.prems"(1) by (simp add: hm_remove_def)
    then have "e = x" using "1.prems"(1,4) least(1) by (metis hm_in_set option.inject prod.collapse)
    then show ?thesis using least(2) sub "1.prems"(3) by blast
  qed
qed

section \<open>Runs of operations\<close>

text \<open>
  A component with an invariant: start states, operations, which of them a caller may use, and an invariant
  that each of those keeps. Every state reached by a sequence of them then satisfies it.
\<close>

locale op_system =
  fixes start :: "'s \<Rightarrow> bool" and allowed :: "'op \<Rightarrow> bool" and exec :: "'op \<Rightarrow> 's \<Rightarrow> 's" and inv :: "'s \<Rightarrow> bool"
  assumes start_inv: "start s \<Longrightarrow> inv s"
    and exec_inv: "inv s \<Longrightarrow> allowed op \<Longrightarrow> inv (exec op s)"
begin

lemma run_keeps: "inv s \<Longrightarrow> list_all allowed ops \<Longrightarrow> inv (fold exec ops s)"
  by (induction ops arbitrary: s) (auto simp: exec_inv)

lemma run_inv: "start s \<Longrightarrow> list_all allowed ops \<Longrightarrow> inv (fold exec ops s)"
  by (simp add: run_keeps start_inv)

end

end
