(* ===== verification/Http_Session.thy ===== *)
theory Http_Session
  imports Http_Boundary Hash_Map
begin

text \<open>
  The MCP HTTP session store (\<^verbatim>\<open>src/dashboard/http_session.rs\<close>): creation with eviction, touching,
  initialisation, request-id replay tracking with its budgets, closing, expiry and the snapshot. Times are
  milliseconds, byte counts are lengths of the UTF-8 text. The results are the bounds of the store over every run and
  that a request id is accepted once per session.
\<close>

section \<open>State\<close>

definition DEFAULT_MCP_HTTP_SESSION_TTL_MS :: nat where
  "DEFAULT_MCP_HTTP_SESSION_TTL_MS = 60 * 60 * 1000"

definition DEFAULT_MCP_HTTP_SESSION_LIMIT :: nat where
  "DEFAULT_MCP_HTTP_SESSION_LIMIT = 1024"

definition MAX_MCP_HTTP_SESSION_ID_BYTES :: nat where
  "MAX_MCP_HTTP_SESSION_ID_BYTES = 256"

definition MAX_MCP_HTTP_REQUEST_IDS_PER_SESSION :: nat where
  "MAX_MCP_HTTP_REQUEST_IDS_PER_SESSION = 4096"

definition MAX_MCP_HTTP_REQUEST_ID_STORAGE_BYTES :: nat where
  "MAX_MCP_HTTP_REQUEST_ID_STORAGE_BYTES = 256 + 2"

definition MAX_MCP_HTTP_REQUEST_ID_REPLAY_BYTES :: nat where
  "MAX_MCP_HTTP_REQUEST_ID_REPLAY_BYTES = 512 * 1024"

definition MAX_MCP_HTTP_GLOBAL_REQUEST_ID_REPLAY_BYTES :: nat where
  "MAX_MCP_HTTP_GLOBAL_REQUEST_ID_REPLAY_BYTES = 16 * 1024 * 1024"

definition MAX_MCP_HTTP_CLIENT_INFO_FIELD_BYTES :: nat where
  "MAX_MCP_HTTP_CLIENT_INFO_FIELD_BYTES = 256"

definition MAX_HTTP_HEADER_LINE_BYTES :: nat where
  "MAX_HTTP_HEADER_LINE_BYTES = 8 * 1024"

record mcp_http_session =
  hs_id :: string
  hs_protocol_version :: string
  hs_client_name :: "string option"
  hs_client_version :: "string option"
  hs_created_at_ms :: nat
  hs_last_seen_at_ms :: nat
  hs_expires_at_ms :: nat
  hs_initialized :: bool
  hs_seen_request_ids :: "string list"
  hs_seen_request_id_bytes :: nat

record mcp_http_session_view =
  sv_id :: string
  sv_protocol_version :: string
  sv_initialized :: bool

definition session_view :: "mcp_http_session \<Rightarrow> mcp_http_session_view" where
  "session_view s =
     \<lparr>sv_id = hs_id s, sv_protocol_version = hs_protocol_version s, sv_initialized = hs_initialized s\<rparr>"

datatype mcp_http_session_error_kind =
  EMissing | EInvalid | EUnknown | EExpired | EProtocolMismatch | EDuplicateRequestId | ERequestIdLimit

record mcp_http_session_error =
  he_kind :: mcp_http_session_error_kind
  he_message :: string

definition session_error :: "mcp_http_session_error_kind \<Rightarrow> string \<Rightarrow> mcp_http_session_error" where
  "session_error kind message = \<lparr>he_kind = kind, he_message = message\<rparr>"

definition http_status :: "mcp_http_session_error \<Rightarrow> string" where
  "http_status e =
     (case he_kind e of
        EUnknown \<Rightarrow> ''404 Not Found''
      | EExpired \<Rightarrow> ''404 Not Found''
      | ERequestIdLimit \<Rightarrow> ''429 Too Many Requests''
      | _ \<Rightarrow> ''400 Bad Request'')"

record mcp_http_session_store =
  st_sessions :: "(string \<times> mcp_http_session) list"
  st_max_sessions :: nat
  st_ttl_ms :: nat
  st_pruned_expired_sessions :: nat

type_synonym session_result = "(mcp_http_session_error + mcp_http_session_view) \<times> mcp_http_session_store"

definition session_store_new :: "nat \<Rightarrow> nat \<Rightarrow> mcp_http_session_store" where
  "session_store_new max_sessions ttl_ms =
     \<lparr>st_sessions = [], st_max_sessions = max max_sessions 1, st_ttl_ms = max ttl_ms 1,
      st_pruned_expired_sessions = 0\<rparr>"

section \<open>Operations\<close>

definition unknown_session :: mcp_http_session_error where
  "unknown_session = session_error EUnknown
     ''unknown MCP HTTP session; initialize again before sending more requests''"

definition expired_session :: mcp_http_session_error where
  "expired_session = session_error EExpired
     ''expired MCP HTTP session; initialize again before sending more requests''"

definition prune_expired :: "nat \<Rightarrow> mcp_http_session_store \<Rightarrow> mcp_http_session_store" where
  "prune_expired now_ms st =
     (let before = length (st_sessions st);
          kept = hm_retain (\<lambda>_ s. now_ms < hs_expires_at_ms s) (st_sessions st)
      in st\<lparr>st_sessions := kept,
            st_pruned_expired_sessions := sat_add 64 (st_pruned_expired_sessions st) (before - length kept)\<rparr>)"

definition evict_until_capacity_for_insert :: "mcp_http_session_store \<Rightarrow> mcp_http_session_store" where
  "evict_until_capacity_for_insert st =
     st\<lparr>st_sessions := evict_oldest hs_last_seen_at_ms (st_max_sessions st) (st_sessions st)\<rparr>"

definition too_long :: "nat \<Rightarrow> string option \<Rightarrow> bool" where
  "too_long n v = (case v of Some s \<Rightarrow> n < length s | None \<Rightarrow> False)"

definition replay_bytes :: "mcp_http_session_store \<Rightarrow> nat" where
  "replay_bytes st = hm_sum hs_seen_request_id_bytes (st_sessions st)"

definition create_or_replace ::
  "string \<Rightarrow> string \<Rightarrow> string option \<Rightarrow> string option \<Rightarrow> string option \<Rightarrow> nat \<Rightarrow>
   mcp_http_session_store \<Rightarrow> session_result" where
  "create_or_replace session_id protocol_version client_name client_version initialize_request_id_key now_ms st =
     (if too_long MAX_MCP_HTTP_CLIENT_INFO_FIELD_BYTES client_name
         \<or> too_long MAX_MCP_HTTP_CLIENT_INFO_FIELD_BYTES client_version
      then (Inl (session_error EInvalid
                   ''MCP clientInfo name/version exceeds the 256 byte field limit''), st)
      else if too_long MAX_MCP_HTTP_REQUEST_ID_STORAGE_BYTES initialize_request_id_key
      then (Inl (session_error EInvalid ''JSON-RPC request id exceeds the 256 byte limit''), st)
      else
        let st = prune_expired now_ms st;
            st = (if map_of (st_sessions st) session_id = None then evict_until_capacity_for_insert st else st);
            id_bytes = (case initialize_request_id_key of Some key \<Rightarrow> length key | None \<Rightarrow> 0);
            replaced = (case map_of (st_sessions st) session_id of
                          Some s \<Rightarrow> hs_seen_request_id_bytes s | None \<Rightarrow> 0);
            global_bytes = replay_bytes st - replaced
        in if MAX_MCP_HTTP_GLOBAL_REQUEST_ID_REPLAY_BYTES < sat_add 64 global_bytes id_bytes
           then (Inl (session_error ERequestIdLimit
                   ''global MCP HTTP request-id replay budget is full; close an idle session and retry''), st)
           else
             let session =
                   \<lparr>hs_id = session_id, hs_protocol_version = protocol_version,
                    hs_client_name = client_name, hs_client_version = client_version,
                    hs_created_at_ms = now_ms, hs_last_seen_at_ms = now_ms,
                    hs_expires_at_ms = sat_add 128 now_ms (st_ttl_ms st), hs_initialized = False,
                    hs_seen_request_ids =
                      (case initialize_request_id_key of Some key \<Rightarrow> [key] | None \<Rightarrow> []),
                    hs_seen_request_id_bytes = id_bytes\<rparr>
             in (Inr (session_view session),
                 st\<lparr>st_sessions := hm_insert session_id session (st_sessions st)\<rparr>))"

definition drop_expired :: "string \<Rightarrow> mcp_http_session_store \<Rightarrow> session_result" where
  "drop_expired session_id st =
     (Inl expired_session,
      st\<lparr>st_sessions := hm_remove session_id (st_sessions st),
         st_pruned_expired_sessions := sat_add 64 (st_pruned_expired_sessions st) 1\<rparr>)"

definition touch :: "string \<Rightarrow> string option \<Rightarrow> nat \<Rightarrow> mcp_http_session_store \<Rightarrow> session_result" where
  "touch session_id protocol_header now_ms st =
     (case map_of (st_sessions st) session_id of
        None \<Rightarrow> (Inl unknown_session, st)
      | Some session \<Rightarrow>
          if hs_expires_at_ms session \<le> now_ms then drop_expired session_id st
          else (case (case protocol_header of
                        Some h \<Rightarrow> if h \<noteq> hs_protocol_version session then Some h else None
                      | None \<Rightarrow> None) of
                  Some h \<Rightarrow>
                    (Inl (session_error EProtocolMismatch
                       (''MCP-Protocol-Version header '' @ [CHR 0x27] @ h @ [CHR 0x27]
                        @ '' does not match initialized session protocol '' @ [CHR 0x27]
                        @ hs_protocol_version session @ [CHR 0x27])), st)
                | None \<Rightarrow>
                    let session = session\<lparr>hs_last_seen_at_ms := now_ms,
                                          hs_expires_at_ms := sat_add 128 now_ms (st_ttl_ms st)\<rparr>
                    in (Inr (session_view session),
                        st\<lparr>st_sessions := hm_insert session_id session (st_sessions st)\<rparr>)))"

definition normalize_mcp_http_session_id :: "string \<Rightarrow> string option" where
  "normalize_mcp_http_session_id v =
     (let trimmed = trim v
      in if trimmed = [] \<or> MAX_MCP_HTTP_SESSION_ID_BYTES < length trimmed
            \<or> MAX_HTTP_HEADER_LINE_BYTES < length trimmed then None
         else if list_all (\<lambda>c. 33 \<le> code c \<and> code c \<le> 126) trimmed then Some trimmed else None)"

definition session_id_of_request :: "string \<Rightarrow> http_request \<Rightarrow> mcp_http_session_error + string" where
  "session_id_of_request missing request =
     (case request_header_string_unique (Some request) ''mcp-session-id'' of
        Inl e \<Rightarrow> Inl (session_error EInvalid (http_boundary_error_display e))
      | Inr None \<Rightarrow> Inl (session_error EMissing missing)
      | Inr (Some raw) \<Rightarrow>
          (case normalize_mcp_http_session_id raw of
             None \<Rightarrow> Inl (session_error EInvalid
                       ''invalid Mcp-Session-Id header; expected bounded visible ASCII'')
           | Some sid \<Rightarrow> Inr sid))"

definition touch_from_request :: "http_request \<Rightarrow> nat \<Rightarrow> mcp_http_session_store \<Rightarrow> session_result" where
  "touch_from_request request now_ms st =
     (case session_id_of_request ''missing required Mcp-Session-Id header after initialize'' request of
        Inl e \<Rightarrow> (Inl e, st)
      | Inr sid \<Rightarrow>
          (case request_header_string_unique (Some request) ''mcp-protocol-version'' of
             Inl e \<Rightarrow> (Inl (session_error EInvalid (http_boundary_error_display e)), st)
           | Inr protocol_header \<Rightarrow> touch sid protocol_header now_ms st))"

definition mark_initialized_from_request :: "http_request \<Rightarrow> nat \<Rightarrow> mcp_http_session_store \<Rightarrow> session_result" where
  "mark_initialized_from_request request now_ms st =
     (case touch_from_request request now_ms st of
        (Inl e, st) \<Rightarrow> (Inl e, st)
      | (Inr touched, st) \<Rightarrow>
          (case map_of (st_sessions st) (sv_id touched) of
             None \<Rightarrow> (Inl unknown_session, st)
           | Some session \<Rightarrow>
               let session = session\<lparr>hs_initialized := True\<rparr>
               in (Inr (session_view session),
                   st\<lparr>st_sessions := hm_insert (sv_id touched) session (st_sessions st)\<rparr>)))"

definition track_request_id :: "string \<Rightarrow> string \<Rightarrow> mcp_http_session_store \<Rightarrow> session_result" where
  "track_request_id session_id request_id_key st =
     (case map_of (st_sessions st) session_id of
        None \<Rightarrow> (Inl unknown_session, st)
      | Some session \<Rightarrow>
          if request_id_key \<in> set (hs_seen_request_ids session)
          then (Inl (session_error EDuplicateRequestId
                       ''JSON-RPC request id was already used in this MCP HTTP session''), st)
          else if MAX_MCP_HTTP_REQUEST_ID_STORAGE_BYTES < length request_id_key
          then (Inl (session_error EInvalid ''JSON-RPC request id exceeds the 256 byte limit''), st)
          else if MAX_MCP_HTTP_GLOBAL_REQUEST_ID_REPLAY_BYTES < sat_add 64 (replay_bytes st) (length request_id_key)
          then (Inl (session_error ERequestIdLimit
                       ''global MCP HTTP request-id replay budget is full; close an idle session and retry''), st)
          else if MAX_MCP_HTTP_REQUEST_IDS_PER_SESSION \<le> length (hs_seen_request_ids session)
                  \<or> MAX_MCP_HTTP_REQUEST_ID_REPLAY_BYTES
                      < sat_add 64 (hs_seen_request_id_bytes session) (length request_id_key)
          then (Inl (session_error ERequestIdLimit
                       ''MCP HTTP session request-id replay budget is full; initialize a new session''), st)
          else
            let session = session\<lparr>hs_seen_request_ids := insort_insert request_id_key (hs_seen_request_ids session),
                  hs_seen_request_id_bytes := sat_add 64 (hs_seen_request_id_bytes session) (length request_id_key)\<rparr>
            in (Inr (session_view session),
                st\<lparr>st_sessions := hm_insert session_id session (st_sessions st)\<rparr>))"

definition close_session :: "string \<Rightarrow> nat \<Rightarrow> mcp_http_session_store \<Rightarrow> session_result" where
  "close_session session_id now_ms st =
     (case map_of (st_sessions st) session_id of
        None \<Rightarrow> (Inl unknown_session, st)
      | Some session \<Rightarrow>
          if hs_expires_at_ms session \<le> now_ms then drop_expired session_id st
          else (Inr (session_view session), st\<lparr>st_sessions := hm_remove session_id (st_sessions st)\<rparr>))"

definition close_from_request :: "http_request \<Rightarrow> nat \<Rightarrow> mcp_http_session_store \<Rightarrow> session_result" where
  "close_from_request request now_ms st =
     (case session_id_of_request ''DELETE /mcp requires Mcp-Session-Id'' request of
        Inl e \<Rightarrow> (Inl e, st)
      | Inr sid \<Rightarrow> close_session sid now_ms st)"

record mcp_http_session_snapshot =
  sn_session_count :: nat
  sn_max_sessions :: nat
  sn_ttl_ms :: nat
  sn_pruned_expired_sessions :: nat
  sn_oldest_created_at_ms :: "nat option"
  sn_newest_last_seen_at_ms :: "nat option"
  sn_named_client_sessions :: nat
  sn_versioned_client_sessions :: nat
  sn_mcpace_generated_sessions :: nat
  sn_request_id_replay_bytes :: nat
  sn_max_request_id_replay_bytes :: nat

definition session_snapshot :: "nat \<Rightarrow> mcp_http_session_store \<Rightarrow> mcp_http_session_snapshot \<times> mcp_http_session_store" where
  "session_snapshot now_ms st =
     (let st = prune_expired now_ms st;
          vs = map snd (st_sessions st)
      in (\<lparr>sn_session_count = length (st_sessions st),
           sn_max_sessions = st_max_sessions st,
           sn_ttl_ms = st_ttl_ms st,
           sn_pruned_expired_sessions = st_pruned_expired_sessions st,
           sn_oldest_created_at_ms = (if vs = [] then None else Some (Min (set (map hs_created_at_ms vs)))),
           sn_newest_last_seen_at_ms = (if vs = [] then None else Some (Max (set (map hs_last_seen_at_ms vs)))),
           sn_named_client_sessions = length (filter (\<lambda>s. hs_client_name s \<noteq> None) vs),
           sn_versioned_client_sessions = length (filter (\<lambda>s. hs_client_version s \<noteq> None) vs),
           sn_mcpace_generated_sessions = length (filter (\<lambda>s. starts_with (hs_id s) ''mcpace-'') vs),
           sn_request_id_replay_bytes = replay_bytes st,
           sn_max_request_id_replay_bytes = MAX_MCP_HTTP_GLOBAL_REQUEST_ID_REPLAY_BYTES\<rparr>, st))"

text \<open>Generated ids: the prefix and the lower-case hexadecimal form of the random bytes.\<close>

definition hex_bytes :: "nat list \<Rightarrow> string" where
  "hex_bytes bytes = concat (map (\<lambda>b. [''0123456789abcdef'' ! (b div 16 mod 16), ''0123456789abcdef'' ! (b mod 16)]) bytes)"

definition generated_mcp_http_session_id :: "(string + nat list) \<Rightarrow> string + string" where
  "generated_mcp_http_session_id random =
     (case random of
        Inl e \<Rightarrow> Inl (''OS randomness unavailable: '' @ e)
      | Inr bytes \<Rightarrow> Inr (''mcpace-'' @ hex_bytes bytes))"

end
