(* ===== verification/Http_Session_Properties.thy ===== *)
theory Http_Session_Properties
  imports Http_Session
begin

text \<open>
  The session store over time: its invariant, that every operation keeps it, and what follows for every run
  (bounds on sessions and replay memory, single use of request ids, expiry and eviction).
\<close>

section \<open>Runs\<close>

text \<open>The calls of the store, and the reordering of the hash map's iteration.\<close>

datatype session_op =
    SCreate string string "string option" "string option" "string option" nat
  | STouch string "string option" nat
  | STouchRequest http_request nat
  | SMarkInitialized http_request nat
  | STrack string string
  | SClose string nat
  | SCloseRequest http_request nat
  | SSnapshot nat
  | SReorder "(string \<times> mcp_http_session) list"

fun session_exec :: "session_op \<Rightarrow> mcp_http_session_store \<Rightarrow> mcp_http_session_store" where
  "session_exec (SCreate sid protocol cn cv key now) st = snd (create_or_replace sid protocol cn cv key now st)"
| "session_exec (STouch sid protocol now) st = snd (touch sid protocol now st)"
| "session_exec (STouchRequest r now) st = snd (touch_from_request r now st)"
| "session_exec (SMarkInitialized r now) st = snd (mark_initialized_from_request r now st)"
| "session_exec (STrack sid key) st = snd (track_request_id sid key st)"
| "session_exec (SClose sid now) st = snd (close_session sid now st)"
| "session_exec (SCloseRequest r now) st = snd (close_from_request r now st)"
| "session_exec (SSnapshot now) st = snd (session_snapshot now st)"
| "session_exec (SReorder m) st = (if hm_same m (st_sessions st) then st\<lparr>st_sessions := m\<rparr> else st)"

definition creates :: "string \<Rightarrow> session_op \<Rightarrow> bool" where
  "creates sid op = (case op of SCreate s _ _ _ _ _ \<Rightarrow> s = sid | _ \<Rightarrow> False)"

section \<open>The invariant\<close>

definition session_ok :: "string \<Rightarrow> mcp_http_session \<Rightarrow> bool" where
  "session_ok sid s \<longleftrightarrow>
     hs_id s = sid \<and> distinct (hs_seen_request_ids s) \<and>
     length (hs_seen_request_ids s) \<le> MAX_MCP_HTTP_REQUEST_IDS_PER_SESSION \<and>
     hs_seen_request_id_bytes s = sum_list (map length (hs_seen_request_ids s)) \<and>
     hs_seen_request_id_bytes s \<le> MAX_MCP_HTTP_REQUEST_ID_REPLAY_BYTES"

definition store_inv :: "mcp_http_session_store \<Rightarrow> bool" where
  "store_inv st \<longleftrightarrow>
     hm_ok (st_sessions st) \<and> 0 < st_max_sessions st \<and> length (st_sessions st) \<le> st_max_sessions st \<and>
     (\<forall>(sid, s) \<in> set (st_sessions st). session_ok sid s) \<and>
     replay_bytes st \<le> MAX_MCP_HTTP_GLOBAL_REQUEST_ID_REPLAY_BYTES"

lemmas session_limits = MAX_MCP_HTTP_REQUEST_IDS_PER_SESSION_def MAX_MCP_HTTP_REQUEST_ID_STORAGE_BYTES_def
  MAX_MCP_HTTP_REQUEST_ID_REPLAY_BYTES_def MAX_MCP_HTTP_GLOBAL_REQUEST_ID_REPLAY_BYTES_def

lemma store_inv_lookup: "store_inv st \<Longrightarrow> map_of (st_sessions st) sid = Some s \<Longrightarrow> session_ok sid s"
  by (auto simp: store_inv_def dest: map_of_SomeD)

lemma store_inv_filter:
  "store_inv st \<Longrightarrow> store_inv (st\<lparr>st_sessions := filter p (st_sessions st), st_pruned_expired_sessions := n\<rparr>)"
  using hm_sum_filter_le [of hs_seen_request_id_bytes p "st_sessions st"]
  by (auto simp: store_inv_def replay_bytes_def intro: order_trans [OF length_filter_le])

lemma store_inv_filter_keep: "store_inv st \<Longrightarrow> store_inv (st\<lparr>st_sessions := filter p (st_sessions st)\<rparr>)"
  using store_inv_filter [where st = st and p = p and n = "st_pruned_expired_sessions st"] by simp

lemma store_inv_insert:
  assumes "store_inv st" "session_ok sid s"
    and "map_of (st_sessions st) sid = None \<Longrightarrow> length (st_sessions st) < st_max_sessions st"
    and "replay_bytes st - (case map_of (st_sessions st) sid of Some w \<Rightarrow> hs_seen_request_id_bytes w | None \<Rightarrow> 0)
           + hs_seen_request_id_bytes s \<le> MAX_MCP_HTTP_GLOBAL_REQUEST_ID_REPLAY_BYTES"
  shows "store_inv (st\<lparr>st_sessions := hm_insert sid s (st_sessions st)\<rparr>)"
proof -
  have ok: "hm_ok (st_sessions st)" using assms(1) by (simp add: store_inv_def)
  have old: "(case map_of (st_sessions st) sid of Some w \<Rightarrow> hs_seen_request_id_bytes w | None \<Rightarrow> 0) \<le> replay_bytes st"
    by (auto simp: replay_bytes_def hm_sum_member split: option.splits)
  have "hm_sum hs_seen_request_id_bytes (hm_insert sid s (st_sessions st))
      \<le> MAX_MCP_HTTP_GLOBAL_REQUEST_ID_REPLAY_BYTES"
    using hm_sum_insert [OF ok, of hs_seen_request_id_bytes sid s] assms(4) old
    by (auto simp: replay_bytes_def split: option.splits)
  then show ?thesis
    using assms(1-3) ok by (auto simp: store_inv_def replay_bytes_def set_hm_insert length_hm_insert Suc_le_eq)
qed

text \<open>An update of a stored session that keeps its request ids.\<close>

lemma store_inv_update:
  assumes "store_inv st" "map_of (st_sessions st) sid = Some w" "session_ok sid s"
    and "hs_seen_request_id_bytes s = hs_seen_request_id_bytes w"
  shows "store_inv (st\<lparr>st_sessions := hm_insert sid s (st_sessions st)\<rparr>)"
proof (rule store_inv_insert [OF assms(1,3)])
  have "hs_seen_request_id_bytes w \<le> replay_bytes st" using assms(2) by (simp add: replay_bytes_def hm_sum_member)
  then show "replay_bytes st - (case map_of (st_sessions st) sid of Some w \<Rightarrow> hs_seen_request_id_bytes w | None \<Rightarrow> 0)
      + hs_seen_request_id_bytes s \<le> MAX_MCP_HTTP_GLOBAL_REQUEST_ID_REPLAY_BYTES"
    using assms by (simp add: store_inv_def)
qed (use assms(2) in simp)

lemma store_inv_drop_expired: "store_inv st \<Longrightarrow> store_inv (snd (drop_expired sid st))"
  by (simp add: drop_expired_def hm_remove_def store_inv_filter)

lemma store_inv_prune: "store_inv st \<Longrightarrow> store_inv (prune_expired now st)"
  by (simp add: prune_expired_def hm_retain_def Let_def store_inv_filter)

lemma store_inv_evict: "store_inv st \<Longrightarrow> store_inv (evict_until_capacity_for_insert st)"
proof -
  assume "store_inv st"
  moreover obtain p where "evict_oldest hs_last_seen_at_ms (st_max_sessions st) (st_sessions st) = filter p (st_sessions st)"
    using evict_oldest_sub by blast
  ultimately show ?thesis by (simp add: evict_until_capacity_for_insert_def store_inv_filter_keep)
qed

lemma store_inv_touch: "store_inv st \<Longrightarrow> store_inv (snd (touch sid protocol now st))"
  using store_inv_lookup [of st sid]
  by (auto simp: touch_def Let_def store_inv_drop_expired session_ok_def
      intro!: store_inv_update split: option.splits if_splits)

lemma store_inv_touch_request: "store_inv st \<Longrightarrow> store_inv (snd (touch_from_request r now st))"
  by (simp add: touch_from_request_def store_inv_touch split: sum.splits)

lemma store_inv_mark_initialized:
  assumes "store_inv st"
  shows "store_inv (snd (mark_initialized_from_request r now st))"
proof -
  obtain res st' where t: "touch_from_request r now st = (res, st')" by force
  have i: "store_inv st'" using store_inv_touch_request [OF assms, of r now] t by simp
  show ?thesis
  proof (cases res)
    case (Inr touched)
    show ?thesis
    proof (cases "map_of (st_sessions st') (sv_id touched)")
      case (Some s)
      then have "store_inv (st'\<lparr>st_sessions := hm_insert (sv_id touched) (s\<lparr>hs_initialized := True\<rparr>) (st_sessions st')\<rparr>)"
        using store_inv_update [OF i Some] store_inv_lookup [OF i Some] by (simp add: session_ok_def)
      then show ?thesis by (simp add: mark_initialized_from_request_def t Inr Some Let_def)
    qed (simp add: mark_initialized_from_request_def t Inr i)
  qed (simp add: mark_initialized_from_request_def t i)
qed

lemma sat_add_64: "a + b \<le> 2 ^ 60 \<Longrightarrow> sat_add 64 a b = a + b"
  by (simp add: sat_add_def uint_max_def)

lemma sum_list_insort_insert:
  "key \<notin> set ids \<Longrightarrow> sum_list (map length (insort_insert key ids)) = length key + sum_list (map length (ids :: string list))"
  by (simp add: insort_insert_key_def) (induction ids, auto)

lemma length_insort_insert: "key \<notin> set ids \<Longrightarrow> length (insort_insert key ids) = Suc (length ids)"
  by (simp add: insort_insert_key_def)

lemma distinct_insort_insert_new: "distinct ids \<Longrightarrow> key \<notin> set ids \<Longrightarrow> distinct (insort_insert key ids)"
  by (simp add: insort_insert_key_def distinct_insort)

lemma store_inv_track:
  assumes "store_inv st"
  shows "store_inv (snd (track_request_id sid key st))"
proof (cases "map_of (st_sessions st) sid")
  case None
  then show ?thesis using assms by (simp add: track_request_id_def)
next
  case (Some s)
  note ok = store_inv_lookup [OF assms Some]
  have le: "hs_seen_request_id_bytes s \<le> replay_bytes st" using Some by (simp add: replay_bytes_def hm_sum_member)
  let ?s' = "s\<lparr>hs_seen_request_ids := insort_insert key (hs_seen_request_ids s),
               hs_seen_request_id_bytes := sat_add 64 (hs_seen_request_id_bytes s) (length key)\<rparr>"
  show ?thesis
  proof (cases "\<exists>e. fst (track_request_id sid key st) = Inl e")
    case True
    then have "snd (track_request_id sid key st) = st"
      using Some by (auto simp: track_request_id_def Let_def)
    then show ?thesis using assms by simp
  next
    case False
    then have g: "key \<notin> set (hs_seen_request_ids s)" "length key \<le> MAX_MCP_HTTP_REQUEST_ID_STORAGE_BYTES"
        "sat_add 64 (replay_bytes st) (length key) \<le> MAX_MCP_HTTP_GLOBAL_REQUEST_ID_REPLAY_BYTES"
        "length (hs_seen_request_ids s) < MAX_MCP_HTTP_REQUEST_IDS_PER_SESSION"
        "sat_add 64 (hs_seen_request_id_bytes s) (length key) \<le> MAX_MCP_HTTP_REQUEST_ID_REPLAY_BYTES"
      using Some by (auto simp: track_request_id_def Let_def not_less not_le split: if_splits)
    have small: "replay_bytes st \<le> 16777216" "length key \<le> 258" "hs_seen_request_id_bytes s \<le> 524288"
      using assms ok g(2) by (simp_all add: store_inv_def session_ok_def session_limits)
    then have ex: "sat_add 64 (replay_bytes st) (length key) = replay_bytes st + length key"
        "sat_add 64 (hs_seen_request_id_bytes s) (length key) = hs_seen_request_id_bytes s + length key"
      by (auto intro!: sat_add_64)
    have ok': "session_ok sid ?s'"
      using ok g ex
      by (simp add: session_ok_def distinct_insort_insert_new sum_list_insort_insert length_insort_insert)
    have "store_inv (st\<lparr>st_sessions := hm_insert sid ?s' (st_sessions st)\<rparr>)"
      using Some g(3) ex le by (intro store_inv_insert [OF assms ok']) auto
    then show ?thesis using Some g by (simp add: track_request_id_def Let_def not_less not_le)
  qed
qed

lemma store_inv_create:
  assumes "store_inv st"
  shows "store_inv (snd (create_or_replace sid protocol cn cv key now st))"
proof -
  define st1 where "st1 = prune_expired now st"
  define st2 where "st2 = (if map_of (st_sessions st1) sid = None then evict_until_capacity_for_insert st1 else st1)"
  have i: "store_inv st2" unfolding st2_def st1_def using assms by (simp add: store_inv_prune store_inv_evict)
  have len: "length (st_sessions st2) < st_max_sessions st2" if "map_of (st_sessions st2) sid = None"
    using that assms evict_oldest_length [of "st_max_sessions st1" hs_last_seen_at_ms]
    by (auto simp: st2_def st1_def evict_until_capacity_for_insert_def prune_expired_def Let_def store_inv_def
        split: if_splits)
  let ?bytes = "case key of Some k \<Rightarrow> length k | None \<Rightarrow> 0"
  let ?old = "case map_of (st_sessions st2) sid of Some s \<Rightarrow> hs_seen_request_id_bytes s | None \<Rightarrow> 0"
  let ?s = "\<lparr>hs_id = sid, hs_protocol_version = protocol, hs_client_name = cn, hs_client_version = cv,
     hs_created_at_ms = now, hs_last_seen_at_ms = now, hs_expires_at_ms = sat_add 128 now (st_ttl_ms st2),
     hs_initialized = False, hs_seen_request_ids = (case key of Some k \<Rightarrow> [k] | None \<Rightarrow> []),
     hs_seen_request_id_bytes = ?bytes\<rparr>"
  show ?thesis
  proof (cases "too_long MAX_MCP_HTTP_REQUEST_ID_STORAGE_BYTES key")
    case False
    have small: "?bytes \<le> 258" using False by (auto simp: too_long_def session_limits split: option.splits)
    have "replay_bytes st2 \<le> 16777216" using i by (simp add: store_inv_def session_limits)
    then have ex: "sat_add 64 (replay_bytes st2 - ?old) ?bytes = replay_bytes st2 - ?old + ?bytes"
      using small by (auto intro!: sat_add_64)
    have ok: "session_ok sid ?s" using small by (auto simp: session_ok_def session_limits split: option.splits)
    have "store_inv (st2\<lparr>st_sessions := hm_insert sid ?s (st_sessions st2)\<rparr>)"
      if "sat_add 64 (replay_bytes st2 - ?old) ?bytes \<le> MAX_MCP_HTTP_GLOBAL_REQUEST_ID_REPLAY_BYTES"
      using that ex by (intro store_inv_insert [OF i ok len]) auto
    then show ?thesis
      using assms i False
      by (simp add: create_or_replace_def Let_def not_less flip: st1_def st2_def)
  qed (use assms in \<open>simp add: create_or_replace_def\<close>)
qed

lemma store_inv_close: "store_inv st \<Longrightarrow> store_inv (snd (close_session sid now st))"
  by (auto simp: close_session_def store_inv_drop_expired hm_remove_def store_inv_filter_keep split: option.splits)

lemma store_inv_reorder: "store_inv st \<Longrightarrow> hm_same m (st_sessions st) \<Longrightarrow> store_inv (st\<lparr>st_sessions := m\<rparr>)"
  using hm_sum_same [of m "st_sessions st" hs_seen_request_id_bytes] hm_same_length [of m "st_sessions st"]
  by (auto simp: store_inv_def replay_bytes_def hm_same_def)

lemma session_exec_inv: "store_inv st \<Longrightarrow> store_inv (session_exec op st)"
  by (cases op)
    (auto simp: store_inv_create store_inv_touch store_inv_touch_request store_inv_mark_initialized store_inv_track
      store_inv_close close_from_request_def session_snapshot_def Let_def store_inv_prune store_inv_reorder
      split: sum.splits)

interpretation sessions: op_system "\<lambda>st. \<exists>n ttl. st = session_store_new n ttl" "\<lambda>_. True" session_exec store_inv
proof unfold_locales
  fix st assume "\<exists>n ttl. st = session_store_new n ttl"
  then show "store_inv st" by (auto simp: store_inv_def session_store_new_def replay_bytes_def)
qed (simp add: session_exec_inv)

section \<open>Single use of request ids\<close>

text \<open>Once a request id was accepted in a session, the session is gone or still remembers it.\<close>

definition remembers :: "string \<Rightarrow> string \<Rightarrow> mcp_http_session_store \<Rightarrow> bool" where
  "remembers sid key st \<longleftrightarrow>
     (case map_of (st_sessions st) sid of None \<Rightarrow> True | Some s \<Rightarrow> key \<in> set (hs_seen_request_ids s))"

lemma remembers_filter:
  "hm_ok (st_sessions st) \<Longrightarrow> remembers sid key st \<Longrightarrow>
   remembers sid key (st\<lparr>st_sessions := filter p (st_sessions st), st_pruned_expired_sessions := n\<rparr>)"
  using map_of_hm_retain [of "st_sessions st" "\<lambda>k v. p (k, v)" sid]
  by (auto simp: remembers_def hm_retain_def split: option.splits if_splits)

lemma remembers_filter_keep:
  "hm_ok (st_sessions st) \<Longrightarrow> remembers sid key st \<Longrightarrow> remembers sid key (st\<lparr>st_sessions := filter p (st_sessions st)\<rparr>)"
  using remembers_filter [where st = st and p = p and n = "st_pruned_expired_sessions st"] by simp

lemma remembers_insert:
  "remembers sid key st \<Longrightarrow> (sid' = sid \<Longrightarrow> key \<in> set (hs_seen_request_ids s)) \<Longrightarrow>
   remembers sid key (st\<lparr>st_sessions := hm_insert sid' s (st_sessions st)\<rparr>)"
  by (simp add: remembers_def)

lemma remembers_drop_expired:
  "hm_ok (st_sessions st) \<Longrightarrow> remembers sid key st \<Longrightarrow> remembers sid key (snd (drop_expired sid' st))"
  by (simp add: drop_expired_def hm_remove_def remembers_filter)

lemma remembers_prune:
  "hm_ok (st_sessions st) \<Longrightarrow> remembers sid key st \<Longrightarrow> remembers sid key (prune_expired now st)"
  by (simp add: prune_expired_def hm_retain_def Let_def remembers_filter)

lemma remembers_touch:
  "hm_ok (st_sessions st) \<Longrightarrow> remembers sid key st \<Longrightarrow> remembers sid key (snd (touch sid' protocol now st))"
  by (auto simp: touch_def Let_def remembers_drop_expired intro!: remembers_insert split: option.splits if_splits)
    (auto simp: remembers_def)

lemma remembers_touch_request:
  "hm_ok (st_sessions st) \<Longrightarrow> remembers sid key st \<Longrightarrow> remembers sid key (snd (touch_from_request r now st))"
  by (simp add: touch_from_request_def remembers_touch split: sum.splits)

lemma remembers_mark_initialized:
  assumes "hm_ok (st_sessions st)" "remembers sid key st"
  shows "remembers sid key (snd (mark_initialized_from_request r now st))"
proof -
  obtain res st' where t: "touch_from_request r now st = (res, st')" by force
  have "remembers sid key st'" using remembers_touch_request [OF assms, of r now] t by simp
  then show ?thesis
    by (auto simp: mark_initialized_from_request_def t Let_def remembers_def split: sum.splits option.splits)
qed

lemma remembers_track: "remembers sid key st \<Longrightarrow> remembers sid key (snd (track_request_id sid' key' st))"
  by (auto simp: track_request_id_def Let_def remembers_def set_insort_insert split: option.splits)

lemma remembers_create:
  assumes "hm_ok (st_sessions st)" "remembers sid key st" "sid' \<noteq> sid"
  shows "remembers sid key (snd (create_or_replace sid' protocol cn cv key' now st))"
proof -
  have p: "remembers sid key (prune_expired now st)" "hm_ok (st_sessions (prune_expired now st))"
    using assms by (simp_all add: remembers_prune) (simp add: prune_expired_def Let_def)
  have "remembers sid key (evict_until_capacity_for_insert (prune_expired now st))"
  proof -
    obtain q where "evict_oldest hs_last_seen_at_ms (st_max_sessions (prune_expired now st))
        (st_sessions (prune_expired now st)) = filter q (st_sessions (prune_expired now st))"
      using evict_oldest_sub by blast
    then show ?thesis using p by (simp add: evict_until_capacity_for_insert_def remembers_filter_keep)
  qed
  then show ?thesis using assms(2,3) p(1) by (simp add: create_or_replace_def Let_def remembers_insert)
qed

lemma remembers_close:
  "hm_ok (st_sessions st) \<Longrightarrow> remembers sid key st \<Longrightarrow> remembers sid key (snd (close_session sid' now st))"
  by (auto simp: close_session_def remembers_drop_expired hm_remove_def remembers_filter_keep split: option.splits)

lemma remembers_reorder:
  "hm_same m (st_sessions st) \<Longrightarrow> remembers sid key st \<Longrightarrow> remembers sid key (st\<lparr>st_sessions := m\<rparr>)"
  by (simp add: remembers_def hm_same_map_of)

lemma session_exec_remembers:
  "hm_ok (st_sessions st) \<Longrightarrow> remembers sid key st \<Longrightarrow> \<not> creates sid op \<Longrightarrow> remembers sid key (session_exec op st)"
  by (cases op)
    (auto simp: creates_def remembers_create remembers_touch remembers_touch_request remembers_mark_initialized
      remembers_track remembers_close close_from_request_def session_snapshot_def Let_def remembers_prune
      remembers_reorder split: sum.splits)

interpretation replay: op_system "\<lambda>st. store_inv st \<and> remembers sid key st" "\<lambda>op. \<not> creates sid op" session_exec
  "\<lambda>st. store_inv st \<and> remembers sid key st" for sid key
proof unfold_locales
  fix st op assume "store_inv st \<and> remembers sid key st" "\<not> creates sid op"
  moreover from this have "hm_ok (st_sessions st)" by (simp add: store_inv_def)
  ultimately show "store_inv (session_exec op st) \<and> remembers sid key (session_exec op st)"
    by (simp add: session_exec_inv session_exec_remembers)
qed simp

lemma track_accept_remembers:
  "track_request_id sid key st = (Inr v, st') \<Longrightarrow> remembers sid key st'"
  by (auto simp: track_request_id_def Let_def remembers_def set_insort_insert split: option.splits if_splits)

lemma track_remembered:
  "remembers sid key st \<Longrightarrow> \<exists>e. track_request_id sid key st = (Inl e, st) \<and> he_kind e \<in> {EDuplicateRequestId, EUnknown}"
  by (auto simp: remembers_def track_request_id_def unknown_session_def session_error_def split: option.splits)

section \<open>Properties\<close>

text \<open>C4: the bounds of the session store. After every sequence of calls on a new store, at most
  \<open>max_sessions\<close> sessions are held; each remembers at most 4096 distinct request ids of at most 512 KiB, with an exact
  byte count; and all of them together at most 16 MiB.\<close>

theorem http_session_bounds:
  "let st = fold session_exec ops (session_store_new n ttl)
   in length (st_sessions st) \<le> st_max_sessions st \<and>
      replay_bytes st \<le> 16 * 1024 * 1024 \<and>
      list_all (\<lambda>(sid, s).
         hs_id s = sid \<and> distinct (hs_seen_request_ids s) \<and> length (hs_seen_request_ids s) \<le> 4096 \<and>
         hs_seen_request_id_bytes s = sum_list (map length (hs_seen_request_ids s)) \<and>
         hs_seen_request_id_bytes s \<le> 512 * 1024) (st_sessions st)"
proof -
  have "store_inv (fold session_exec ops (session_store_new n ttl))"
    by (rule sessions.run_inv) (auto simp: list_all_iff)
  then show ?thesis
    by (auto simp: Let_def list_all_iff store_inv_def session_ok_def MAX_MCP_HTTP_REQUEST_IDS_PER_SESSION_def
        MAX_MCP_HTTP_REQUEST_ID_REPLAY_BYTES_def MAX_MCP_HTTP_GLOBAL_REQUEST_ID_REPLAY_BYTES_def)
qed

text \<open>A request id is accepted once. If a session accepted an id, then after any later calls that do not
  initialise that session anew the same id is refused, as a duplicate or because the session is gone, and the refusal
  changes nothing.\<close>

lemma request_id_accepted_once:
  assumes "store_inv st" "track_request_id sid key st = (Inr v, st')" "list_all (\<lambda>op. \<not> creates sid op) ops"
  shows "\<exists>e. track_request_id sid key (fold session_exec ops st') = (Inl e, fold session_exec ops st') \<and>
    he_kind e \<in> {EDuplicateRequestId, EUnknown}"
proof -
  have "store_inv st'" using store_inv_track [OF assms(1), of sid key] assms(2) by simp
  then have "remembers sid key (fold session_exec ops st')"
    using replay.run_inv [of st' sid key ops] track_accept_remembers [OF assms(2)] assms(3) by blast
  then show ?thesis by (rule track_remembered)
qed

lemma create_evicts:
  assumes "create_or_replace sid protocol cn cv key now st = (Inr v, st')" "k \<noteq> sid"
  shows "map_of (st_sessions st') k =
    map_of (if map_of (st_sessions (prune_expired now st)) sid = None
            then evict_oldest hs_last_seen_at_ms (st_max_sessions st) (st_sessions (prune_expired now st))
            else st_sessions (prune_expired now st)) k"
  using assms
  by (auto simp: create_or_replace_def Let_def evict_until_capacity_for_insert_def prune_expired_def split: if_splits)

text \<open>Eviction is by least recent use. When a session is created, an unexpired session that is gone
  afterwards was last seen no later than every session that was kept, and the store was full.\<close>

lemma session_eviction_lru:
  assumes "store_inv st" "create_or_replace sid protocol cn cv key now st = (Inr v, st')"
    and "map_of (st_sessions st) k = Some s" "now < hs_expires_at_ms s" "k \<noteq> sid" "map_of (st_sessions st') k = None"
    and "map_of (st_sessions st') k' = Some s'" "k' \<noteq> sid"
  shows "hs_last_seen_at_ms s \<le> hs_last_seen_at_ms s' \<and> length (st_sessions st) = st_max_sessions st"
proof -
  let ?m = "st_sessions (prune_expired now st)" and ?n = "st_max_sessions st"
  let ?e = "evict_oldest hs_last_seen_at_ms ?n ?m"
  have ok: "hm_ok (st_sessions st)" "hm_ok ?m" "length (st_sessions st) \<le> ?n"
    using assms(1) store_inv_prune [of st now] by (auto simp: store_inv_def)
  have k: "map_of ?m k = Some s"
    using assms(3,4) ok(1) by (simp add: prune_expired_def Let_def map_of_hm_retain)
  have ev: "map_of ?e k = None" "map_of ?e k' = Some s'"
    using create_evicts [OF assms(2,5)] create_evicts [OF assms(2,8)] assms(6,7) k by (auto split: if_splits)
  have mem: "(k, s) \<in> set ?m" "(k, s) \<notin> set ?e" "(k', s') \<in> set ?e"
    using k ev ok(2) by (simp_all add: hm_in_set [OF ok(2)] hm_in_set [OF evict_oldest_ok [OF ok(2)]])
  have "hs_last_seen_at_ms (snd (k, s)) \<le> hs_last_seen_at_ms (snd (k', s'))"
    by (rule evict_oldest_lru [OF mem ok(2)])
  moreover have "\<not> length ?m < ?n" using mem evict_oldest_fits [of ?m ?n] by auto
  moreover have "length ?m \<le> length (st_sessions st)" by (simp add: prune_expired_def Let_def length_hm_retain_le)
  ultimately show ?thesis using ok(3) by simp
qed

text \<open>A full store of two sessions; the third evicts the older one.\<close>

definition plain_session :: "string \<Rightarrow> nat \<Rightarrow> mcp_http_session" where
  "plain_session sid t = \<lparr>hs_id = sid, hs_protocol_version = ''v'', hs_client_name = None, hs_client_version = None,
     hs_created_at_ms = t, hs_last_seen_at_ms = t, hs_expires_at_ms = t + 100, hs_initialized = False,
     hs_seen_request_ids = [], hs_seen_request_id_bytes = 0\<rparr>"

lemma plain_session_simps [simp]:
  "hs_expires_at_ms (plain_session sid t) = t + 100" "hs_last_seen_at_ms (plain_session sid t) = t"
  "hs_seen_request_id_bytes (plain_session sid t) = 0"
  by (simp_all add: plain_session_def)

definition full_store :: mcp_http_session_store where
  "full_store = \<lparr>st_sessions = [(''a'', plain_session ''a'' 3), (''b'', plain_session ''b'' 2)], st_max_sessions = 2,
     st_ttl_ms = 100, st_pruned_expired_sessions = 0\<rparr>"

lemma full_store_create:
  "\<exists>v st'. create_or_replace ''c'' ''v'' None None None 5 full_store = (Inr v, st') \<and>
     map_of (st_sessions st') ''b'' = None \<and> map_of (st_sessions st') ''a'' = Some (plain_session ''a'' 3)"
proof -
  have e: "evict_oldest hs_last_seen_at_ms 2 [(''a'', plain_session ''a'' 3), (''b'', plain_session ''b'' 2)] =
      [(''a'', plain_session ''a'' 3)]"
    by (subst evict_oldest.simps) (simp add: hm_remove_def evict_oldest_fits)
  show ?thesis
    by (simp add: full_store_def create_or_replace_def too_long_def prune_expired_def hm_retain_def Let_def
        evict_until_capacity_for_insert_def e replay_bytes_def sat_add_def uint_max_def session_limits)
qed

end
