(* ===== verification/Rate_Limit.thy ===== *)
theory Rate_Limit
  imports Json Hash_Map
begin

text \<open>
  The sliding-window rate limiter of the HTTP front end (\<^verbatim>\<open>src/dashboard/rate_limit.rs\<close>). An instant is
  the number of nanoseconds since the earliest instant the platform can represent, a duration a number of nanoseconds,
  so that \<open>Instant::checked_sub\<close> is partial as in the code. The main result is the window bound for every client over
  every run; a second one says where it does not hold.
\<close>

section \<open>State and operations\<close>

definition MAX_TRACKED_RATE_LIMIT_CLIENTS :: nat where
  "MAX_TRACKED_RATE_LIMIT_CLIENTS = 1024"

definition RECENT_RATE_LIMIT_EXPORT_LIMIT :: nat where
  "RECENT_RATE_LIMIT_EXPORT_LIMIT = 25"

definition DURATION_MAX :: nat where
  "DURATION_MAX = uint_max 64 * 1000000000 + 999999999"

definition one_second :: nat where
  "one_second = 1000000000"

definition as_millis :: "nat \<Rightarrow> nat" where
  "as_millis d = d div 1000000"

record client_window =
  cw_requests :: "nat list"
  cw_last_seen :: nat

record rate_limited_event =
  ev_client_key :: string
  ev_retry_after :: nat

record rate_limit_decision =
  rd_allowed :: bool
  rd_retry_after :: nat
  rd_client_key :: string

record http_rate_limiter =
  rl_window :: nat
  rl_max_requests :: nat
  rl_max_clients :: nat
  rl_clients :: "(string \<times> client_window) list"
  rl_allowed_total :: nat
  rl_limited_total :: nat
  rl_evicted_clients :: nat
  rl_recent_limited :: "rate_limited_event list"

definition rate_limiter_new :: "nat \<Rightarrow> nat \<Rightarrow> http_rate_limiter" where
  "rate_limiter_new window max_requests =
     \<lparr>rl_window = max window 1000000, rl_max_requests = max max_requests 1,
      rl_max_clients = MAX_TRACKED_RATE_LIMIT_CLIENTS, rl_clients = [], rl_allowed_total = 0,
      rl_limited_total = 0, rl_evicted_clients = 0, rl_recent_limited = []\<rparr>"

fun prune_window :: "nat \<Rightarrow> nat list \<Rightarrow> nat list" where
  "prune_window window_start [] = []"
| "prune_window window_start (t # ts) = (if t \<le> window_start then prune_window window_start ts else t # ts)"

definition checked_sub_or :: "nat \<Rightarrow> nat \<Rightarrow> nat" where
  "checked_sub_or now d = (case checked_sub now d of Some t \<Rightarrow> t | None \<Rightarrow> now)"

definition prune_idle :: "nat \<Rightarrow> http_rate_limiter \<Rightarrow> http_rate_limiter" where
  "prune_idle now rl =
     (let window_start = checked_sub_or now (rl_window rl);
          clients = hm_map_values (\<lambda>c. c\<lparr>cw_requests := prune_window window_start (cw_requests c)\<rparr>) (rl_clients rl);
          idle_window = (if rl_window rl * 2 \<le> DURATION_MAX then rl_window rl * 2 else rl_window rl);
          idle_cutoff = checked_sub_or now idle_window;
          before = length clients;
          kept = hm_retain (\<lambda>_ c. idle_cutoff < cw_last_seen c \<or> cw_requests c \<noteq> []) clients
      in rl\<lparr>rl_clients := kept,
            rl_evicted_clients := sat_add 64 (rl_evicted_clients rl) (before - length kept)\<rparr>)"

definition evict_oldest_client :: "http_rate_limiter \<Rightarrow> http_rate_limiter" where
  "evict_oldest_client rl =
     (case min_by_key (\<lambda>e. cw_last_seen (snd e)) (rl_clients rl) of
        None \<Rightarrow> rl
      | Some e \<Rightarrow> rl\<lparr>rl_clients := hm_remove (fst e) (rl_clients rl),
                      rl_evicted_clients := sat_add 64 (rl_evicted_clients rl) 1\<rparr>)"

definition record_limited :: "string \<Rightarrow> nat \<Rightarrow> http_rate_limiter \<Rightarrow> http_rate_limiter" where
  "record_limited client_key retry_after rl =
     (let events = (if RECENT_RATE_LIMIT_EXPORT_LIMIT \<le> length (rl_recent_limited rl)
                    then drop 1 (rl_recent_limited rl) else rl_recent_limited rl)
      in rl\<lparr>rl_recent_limited := events @ [\<lparr>ev_client_key = client_key, ev_retry_after = retry_after\<rparr>]\<rparr>)"

definition check :: "string \<Rightarrow> nat \<Rightarrow> http_rate_limiter \<Rightarrow> rate_limit_decision \<times> http_rate_limiter" where
  "check client_key now rl =
     (let rl = prune_idle now rl;
          rl = (if map_of (rl_clients rl) client_key = None \<and> rl_max_clients rl \<le> length (rl_clients rl)
                then evict_oldest_client rl else rl);
          window = rl_window rl;
          window_start = checked_sub_or now window;
          client = (case map_of (rl_clients rl) client_key of
                      Some c \<Rightarrow> c | None \<Rightarrow> \<lparr>cw_requests = [], cw_last_seen = now\<rparr>);
          client = client\<lparr>cw_last_seen := now, cw_requests := prune_window window_start (cw_requests client)\<rparr>
      in if rl_max_requests rl \<le> length (cw_requests client)
         then
           let rl = rl\<lparr>rl_clients := hm_insert client_key client (rl_clients rl)\<rparr>;
               retry_after = max (case cw_requests client of
                                    oldest # _ \<Rightarrow> window - (now - oldest) | [] \<Rightarrow> window) one_second;
               rl = rl\<lparr>rl_limited_total := sat_add 64 (rl_limited_total rl) 1\<rparr>;
               rl = record_limited client_key retry_after rl
           in (\<lparr>rd_allowed = False, rd_retry_after = retry_after, rd_client_key = client_key\<rparr>, rl)
         else
           let client = client\<lparr>cw_requests := cw_requests client @ [now]\<rparr>;
               rl = rl\<lparr>rl_clients := hm_insert client_key client (rl_clients rl)\<rparr>;
               rl = rl\<lparr>rl_allowed_total := sat_add 64 (rl_allowed_total rl) 1\<rparr>
           in (\<lparr>rd_allowed = True, rd_retry_after = 0, rd_client_key = client_key\<rparr>, rl))"

definition rate_limit_snapshot_json :: "http_rate_limiter \<Rightarrow> json" where
  "rate_limit_snapshot_json rl =
     (let recent = rev (map (\<lambda>event. json_object
                [(''clientKey'', JString (ev_client_key event)),
                 (''retryAfterMs'', json_number (as_millis (ev_retry_after event)))])
              (take RECENT_RATE_LIMIT_EXPORT_LIMIT (rev (rl_recent_limited rl))))
      in json_object
          [(''schema'', JString ''mcpace.httpRateLimit.v1''),
           (''windowMs'', json_number (as_millis (rl_window rl))),
           (''maxRequests'', json_number (rl_max_requests rl)),
           (''maxTrackedClients'', json_number (rl_max_clients rl)),
           (''activeClients'', json_number (length (rl_clients rl))),
           (''retainedRequests'', json_number (hm_sum (\<lambda>c. length (cw_requests c)) (rl_clients rl))),
           (''allowedTotal'', json_number (rl_allowed_total rl)),
           (''limitedTotal'', json_number (rl_limited_total rl)),
           (''evictedClients'', json_number (rl_evicted_clients rl)),
           (''recentLimited'', JArray recent)])"

section \<open>Runs\<close>

text \<open>A run of checks, with the accepted requests (client and time) in order. Between two checks the hash map may
  be reordered, given by the list of entries the next check iterates over.\<close>

inductive limiter_run :: "http_rate_limiter \<Rightarrow> http_rate_limiter \<Rightarrow> (string \<times> nat) list \<Rightarrow> (string \<times> nat) list \<Rightarrow> bool"
  for start where
  run_start: "limiter_run start start [] []"
| run_reorder: "limiter_run start rl calls ok \<Longrightarrow> hm_same m (rl_clients rl) \<Longrightarrow>
     limiter_run start (rl\<lparr>rl_clients := m\<rparr>) calls ok"
| run_check: "limiter_run start rl calls ok \<Longrightarrow> check key now rl = (d, rl') \<Longrightarrow>
     limiter_run start rl' (calls @ [(key, now)]) (if rd_allowed d then ok @ [(key, now)] else ok)"

definition times_of :: "string \<Rightarrow> (string \<times> nat) list \<Rightarrow> nat list" where
  "times_of key ok = map snd (filter (\<lambda>e. fst e = key) ok)"

definition in_window :: "nat \<Rightarrow> nat \<Rightarrow> nat \<Rightarrow> bool" where
  "in_window w t n \<longleftrightarrow> n \<le> t \<and> t < n + w"

definition requests_of :: "http_rate_limiter \<Rightarrow> string \<Rightarrow> nat list" where
  "requests_of rl key = (case map_of (rl_clients rl) key of None \<Rightarrow> [] | Some c \<Rightarrow> cw_requests c)"

lemma prune_window_filter: "sorted ts \<Longrightarrow> prune_window s ts = filter (\<lambda>t. s < t) ts"
proof (induction ts)
  case (Cons t ts)
  then show ?case by (auto simp: filter_id_conv intro!: sym [OF filter_True])
qed simp

lemma checked_sub_or_less: "w \<le> now \<Longrightarrow> checked_sub_or now w < n \<longleftrightarrow> now < n + w"
  by (auto simp: checked_sub_or_def checked_sub_def)

text \<open>Pruning drops exactly the requests that left the window, for every client.\<close>

lemma requests_prune_idle:
  assumes "hm_ok (rl_clients rl)" "sorted (requests_of rl key)" "rl_window rl \<le> now"
  shows "requests_of (prune_idle now rl) key = filter (\<lambda>n. now < n + rl_window rl) (requests_of rl key)"
  using assms
  by (auto simp: requests_of_def prune_idle_def Let_def map_of_hm_retain prune_window_filter checked_sub_or_less
      split: option.splits)

lemma prune_idle_facts [simp]:
  "hm_ok (rl_clients rl) \<Longrightarrow> hm_ok (rl_clients (prune_idle now rl))"
  "rl_window (prune_idle now rl) = rl_window rl" "rl_max_requests (prune_idle now rl) = rl_max_requests rl"
  "rl_max_clients (prune_idle now rl) = rl_max_clients rl"
  by (simp_all add: prune_idle_def Let_def)

lemma prune_idle_keys: "fst ` set (rl_clients (prune_idle now rl)) \<subseteq> fst ` set (rl_clients rl)"
  by (force simp: prune_idle_def Let_def hm_retain_def hm_map_values_def)

lemma record_limited_facts [simp]:
  "rl_clients (record_limited key r rl) = rl_clients rl" "rl_window (record_limited key r rl) = rl_window rl"
  "rl_max_requests (record_limited key r rl) = rl_max_requests rl"
  "rl_max_clients (record_limited key r rl) = rl_max_clients rl"
  by (simp_all add: record_limited_def Let_def)


lemma check_effect:
  assumes ok: "hm_ok (rl_clients rl)" and srt: "\<And>k. sorted (requests_of rl k)" and w: "rl_window rl \<le> now"
    and room: "map_of (rl_clients (prune_idle now rl)) key \<noteq> None \<or>
               length (rl_clients (prune_idle now rl)) < rl_max_clients rl"
    and c: "check key now rl = (d, rl')"
  defines "live \<equiv> \<lambda>k. filter (\<lambda>n. now < n + rl_window rl) (requests_of rl k)"
  shows "rd_allowed d \<longleftrightarrow> length (live key) < rl_max_requests rl"
    and "requests_of rl' k = (if k = key \<and> rd_allowed d then live key @ [now] else live k)"
    and "hm_ok (rl_clients rl')" "rl_window rl' = rl_window rl" "rl_max_requests rl' = rl_max_requests rl"
      "rl_max_clients rl' = rl_max_clients rl"
    and "fst ` set (rl_clients rl') \<subseteq> insert key (fst ` set (rl_clients rl))"
proof -
  define q where "q = prune_idle now rl"
  have q: "hm_ok (rl_clients q)" "rl_window q = rl_window rl" "rl_max_requests q = rl_max_requests rl"
      "rl_max_clients q = rl_max_clients rl"
    using ok by (simp_all add: q_def)
  have live: "requests_of q k = live k" for k
    using requests_prune_idle [OF ok srt w] by (simp add: q_def live_def)
  have "sorted (live key)" using srt by (simp add: live_def sorted_wrt_filter)
  then have again: "prune_window (checked_sub_or now (rl_window rl)) (live key) = live key"
    by (simp add: prune_window_filter checked_sub_or_less [OF w]) (simp add: live_def)
  define client where "client = (case map_of (rl_clients q) key of
      Some c \<Rightarrow> c | None \<Rightarrow> \<lparr>cw_requests = [], cw_last_seen = now\<rparr>)\<lparr>cw_last_seen := now\<rparr>"
  have reqs: "cw_requests client = live key"
    using live [of key] by (auto simp: client_def requests_of_def split: option.splits)
  have noevict: "(if map_of (rl_clients q) key = None \<and> rl_max_clients q \<le> length (rl_clients q)
      then evict_oldest_client q else q) = q"
    using room by (auto simp: q_def)
  have eq: "(d, rl') =
     (if rl_max_requests rl \<le> length (live key)
      then let r = max (case live key of oldest # _ \<Rightarrow> rl_window rl - (now - oldest) | [] \<Rightarrow> rl_window rl) one_second
           in (\<lparr>rd_allowed = False, rd_retry_after = r, rd_client_key = key\<rparr>,
               record_limited key r (q\<lparr>rl_clients := hm_insert key (client\<lparr>cw_requests := live key\<rparr>) (rl_clients q),
                 rl_limited_total := sat_add 64 (rl_limited_total q) 1\<rparr>))
      else (\<lparr>rd_allowed = True, rd_retry_after = 0, rd_client_key = key\<rparr>,
            q\<lparr>rl_clients := hm_insert key (client\<lparr>cw_requests := live key @ [now]\<rparr>) (rl_clients q),
              rl_allowed_total := sat_add 64 (rl_allowed_total q) 1\<rparr>))"
    unfolding c [symmetric] check_def q_def [symmetric] Let_def noevict client_def
    using again reqs q(2,3) by (simp add: client_def Let_def cong: list.case_cong)
  show "rd_allowed d \<longleftrightarrow> length (live key) < rl_max_requests rl"
    using eq by (auto simp: Let_def split: if_splits)
  show "requests_of rl' k = (if k = key \<and> rd_allowed d then live key @ [now] else live k)"
    using eq live [of k] by (auto simp: requests_of_def Let_def split: if_splits)
  show "hm_ok (rl_clients rl')" "rl_window rl' = rl_window rl" "rl_max_requests rl' = rl_max_requests rl"
      "rl_max_clients rl' = rl_max_clients rl"
    using eq q by (auto simp: Let_def split: if_splits)
  show "fst ` set (rl_clients rl') \<subseteq> insert key (fst ` set (rl_clients rl))"
    using eq prune_idle_keys [of now rl] by (auto simp: q_def Let_def fst_set_hm_insert split: if_splits)
qed

section \<open>The window bound\<close>

definition last_time :: "(string \<times> nat) list \<Rightarrow> nat" where
  "last_time calls = (if calls = [] then 0 else snd (last calls))"

text \<open>The limiter remembers exactly the accepted requests of the current window, and no window had too many.\<close>

definition run_inv :: "http_rate_limiter \<Rightarrow> http_rate_limiter \<Rightarrow> (string \<times> nat) list \<Rightarrow> (string \<times> nat) list \<Rightarrow> bool" where
  "run_inv start rl calls ok \<longleftrightarrow>
     hm_ok (rl_clients rl) \<and> rl_window rl = rl_window start \<and> rl_max_requests rl = rl_max_requests start \<and>
     rl_max_clients rl = rl_max_clients start \<and> fst ` set (rl_clients rl) \<subseteq> fst ` set calls \<and>
     (\<forall>k. requests_of rl k = filter (\<lambda>n. last_time calls < n + rl_window start) (times_of k ok)) \<and>
     (\<forall>k. sorted (times_of k ok) \<and> (\<forall>n \<in> set (times_of k ok). n \<le> last_time calls)) \<and>
     (\<forall>k t. length (filter (in_window (rl_window start) t) (times_of k ok)) \<le> rl_max_requests start)"

lemma times_of_append: "times_of k (ok @ [(key, now)]) = times_of k ok @ (if k = key then [now] else [])"
  by (simp add: times_of_def)

lemma window_extend:
  assumes "\<forall>t. length (filter (in_window w t) ts) \<le> m" "length (filter (\<lambda>n. now < n + w) ts) < m"
  shows "length (filter (in_window w t) (ts @ [now])) \<le> m"
proof (cases "now \<le> t")
  case True
  have "length (filter (in_window w t) ts) \<le> length (filter (\<lambda>n. now < n + w) ts)"
    using True by (induction ts) (auto simp: in_window_def)
  then show ?thesis using assms(2) by simp
qed (use assms(1) in \<open>simp add: in_window_def\<close>)

lemma card_keys:
  assumes "hm_ok m" "fst ` set m \<subseteq> insert key K" "key \<notin> fst ` set m" "finite K" "card (insert key K) \<le> b"
  shows "length m < b"
proof -
  have "length m = card (fst ` set m)" using assms(1) by (metis distinct_card hm_ok_def length_map list.set_map)
  also have "\<dots> < card (insert key K)"
    using assms(2-4) by (intro psubset_card_mono) auto
  finally show ?thesis using assms(5) by simp
qed

lemma limiter_run_inv:
  assumes "limiter_run start rl calls ok" "hm_ok (rl_clients start)" "rl_clients start = []"
    and "sorted (map snd calls)" "\<forall>c \<in> set calls. rl_window start \<le> snd c"
    and "card (fst ` set calls) \<le> rl_max_clients start" "0 < rl_window start"
  shows "run_inv start rl calls ok"
  using assms
proof (induction rule: limiter_run.induct)
  case run_start
  then show ?case by (simp add: run_inv_def requests_of_def times_of_def last_time_def)
next
  case (run_reorder rl calls ok m)
  then show ?case
    using hm_same_map_of [OF run_reorder.hyps(2)] by (auto simp: run_inv_def requests_of_def hm_same_def)
next
  case (run_check rl calls ok key now d rl')
  have "card (fst ` set calls) \<le> card (insert key (fst ` set calls))" by (rule card_mono) auto
  then have inv: "run_inv start rl calls ok"
    using run_check by (simp add: sorted_wrt_append)
  then have rl: "hm_ok (rl_clients rl)" "rl_window rl = rl_window start" "rl_max_requests rl = rl_max_requests start"
      "rl_max_clients rl = rl_max_clients start" "fst ` set (rl_clients rl) \<subseteq> fst ` set calls"
      "requests_of rl k = filter (\<lambda>n. last_time calls < n + rl_window start) (times_of k ok)"
      "sorted (times_of k ok)" "\<forall>n \<in> set (times_of k ok). n \<le> last_time calls"
      "\<forall>t. length (filter (in_window (rl_window start) t) (times_of k ok)) \<le> rl_max_requests start" for k
    by (auto simp: run_inv_def)
  have now: "rl_window rl \<le> now" "last_time calls \<le> now"
    using run_check.prems rl(2) by (auto simp: last_time_def sorted_wrt_append)
  have room: "map_of (rl_clients (prune_idle now rl)) key \<noteq> None \<or>
      length (rl_clients (prune_idle now rl)) < rl_max_clients rl"
  proof (rule disjCI)
    assume "\<not> length (rl_clients (prune_idle now rl)) < rl_max_clients rl"
    moreover have "fst ` set (rl_clients (prune_idle now rl)) \<subseteq> insert key (fst ` set calls)"
      using rl(5) prune_idle_keys [of now rl] by blast
    ultimately have "key \<in> fst ` set (rl_clients (prune_idle now rl))"
      using card_keys [of "rl_clients (prune_idle now rl)" key "fst ` set calls" "rl_max_clients rl"]
        rl(1,4) run_check.prems(5) by auto
    then show "map_of (rl_clients (prune_idle now rl)) key \<noteq> None" by (simp add: map_of_eq_None_iff)
  qed
  note eff = check_effect [OF rl(1) _ now(1) room run_check.hyps(2)]
  have srt: "sorted (requests_of rl k)" for k using rl(6,7) by (simp add: sorted_wrt_filter)
  have live: "filter (\<lambda>n. now < n + rl_window rl) (requests_of rl k) =
      filter (\<lambda>n. now < n + rl_window start) (times_of k ok)" for k
    using now(2) by (auto simp: rl(2,6) intro!: filter_cong)
  have last: "last_time (calls @ [(key, now)]) = now" by (simp add: last_time_def)
  have keys: "fst ` set (rl_clients rl') \<subseteq> fst ` set (calls @ [(key, now)])"
    using order_trans [OF eff(7) [OF srt] insert_mono [OF rl(5)]] by simp
  let ?ok' = "if rd_allowed d then ok @ [(key, now)] else ok"
  have t': "times_of k ?ok' = times_of k ok @ (if k = key \<and> rd_allowed d then [now] else [])" for k
    by (simp add: times_of_append)
  have le: "\<forall>n \<in> set (times_of k ok). n \<le> now" for k using rl(8) now(2) order_trans by blast
  have "requests_of rl' k = filter (\<lambda>n. now < n + rl_window start) (times_of k ?ok')" for k
    using eff(2) [OF srt] run_check.prems(6) by (simp add: live t')
  moreover have "length (filter (in_window (rl_window start) t) (times_of k ?ok')) \<le> rl_max_requests start" for k t
    unfolding t' using window_extend [OF rl(9) [of key], of now t] eff(1) [OF srt] rl(3) rl(9) [of k]
    by (auto simp: live)
  moreover have "sorted (times_of k ?ok')" "\<forall>n \<in> set (times_of k ?ok'). n \<le> now" for k
    using rl(7) le by (auto simp: t' sorted_append)
  ultimately show ?case
    using eff(3-6) [OF srt] keys rl(1-4) by (auto simp: run_inv_def last)
qed


section \<open>Properties\<close>


lemma one_check_run:
  "limiter_run start (snd (check key now start)) [(key, now)]
     (if rd_allowed (fst (check key now start)) then [(key, now)] else [])"
  using run_check [OF run_start, of key now start "fst (check key now start)" "snd (check key now start)"]
  by (simp split: if_splits)


text \<open>Before the clock has run for one window the subtraction fails and the window start is taken to be now: every
  remembered request is then pruned.\<close>

lemma prune_window_all: "\<forall>t \<in> set ts. t \<le> s \<Longrightarrow> prune_window s ts = []"
  by (induction ts) auto

definition past_requests :: "nat \<Rightarrow> http_rate_limiter \<Rightarrow> bool" where
  "past_requests now rl \<longleftrightarrow>
     hm_ok (rl_clients rl) \<and> (\<forall>(k, c) \<in> set (rl_clients rl). \<forall>t \<in> set (cw_requests c). t \<le> now)"

lemma past_requests_lookup: "past_requests now rl \<Longrightarrow> map_of (rl_clients rl) k = Some c \<Longrightarrow> \<forall>t \<in> set (cw_requests c). t \<le> now"
  by (auto simp: past_requests_def dest!: map_of_SomeD)

lemma evict_lookup:
  "map_of (rl_clients (evict_oldest_client rl)) k = Some c \<Longrightarrow> map_of (rl_clients rl) k = Some c"
  by (auto simp: evict_oldest_client_def split: option.splits if_splits)

text \<open>The limiter does not limit while the clock is younger than the window. On a platform whose instants start
  near boot (where the subtraction of the window is not representable), every check is accepted until the machine has been
  up for a full window, whatever the number of requests.\<close>

lemma rate_limit_inactive_when_young:
  assumes "past_requests now rl" "now < rl_window rl" "0 < rl_max_requests rl"
  shows "rd_allowed (fst (check key now rl))"
proof -
  define q where "q = prune_idle now rl"
  define q' where "q' = (if map_of (rl_clients q) key = None \<and> rl_max_clients q \<le> length (rl_clients q)
      then evict_oldest_client q else q)"
  have par: "rl_window q' = rl_window rl" "rl_max_requests q' = rl_max_requests rl"
    by (auto simp: q'_def q_def evict_oldest_client_def split: option.splits)
  have start: "checked_sub_or now (rl_window rl) = now"
    using assms(2) by (simp add: checked_sub_or_def checked_sub_def)
  have "cw_requests c = []" if "map_of (rl_clients q) k = Some c" for k c
    using that assms(1) prune_window_all [of _ now] past_requests_lookup [OF assms(1)]
    by (auto simp: q_def prune_idle_def Let_def start map_of_hm_retain past_requests_def split: option.splits if_splits)
  then have "cw_requests c = []" if "map_of (rl_clients q') k = Some c" for k c
    using that evict_lookup [of q] by (auto simp: q'_def split: if_splits)
  then have none: "cw_requests (case map_of (rl_clients q') key of Some c \<Rightarrow> c | None \<Rightarrow> \<lparr>cw_requests = [], cw_last_seen = now\<rparr>) = []"
    by (auto split: option.splits)
  show ?thesis
    using assms(3) none by (simp add: check_def q_def [symmetric] q'_def [symmetric] Let_def par)
qed

end
