(* ===== verification/Admission.thy ===== *)
theory Admission
  imports Json
begin

text \<open>
  Concurrency limits of the HTTP front end: the admission controller for heavy actions and overview
  refreshes (\<^verbatim>\<open>src/dashboard/admission.rs\<close>) and the global request governor
  (\<^verbatim>\<open>src/dashboard/governor.rs\<close>). Both count permits in an atomic variable with a compare-and-exchange
  loop; the model is the interleaving of their atomic accesses by any number of threads. What they promise is the
  locale \<open>permit_counter\<close>: the counter is the number of permits held and never exceeds the limit. It is interpreted
  for each of the three counters.
\<close>

section \<open>The contract of a permit counter\<close>

locale permit_counter =
  fixes start :: "'s \<Rightarrow> bool" and step :: "'s \<Rightarrow> 's \<Rightarrow> bool"
    and active :: "'s \<Rightarrow> nat" and limit :: "'s \<Rightarrow> nat" and holders :: "'s \<Rightarrow> nat set"
  assumes start_empty: "start s \<Longrightarrow> active s = 0 \<and> holders s = {}"
    and step_limit: "step s t \<Longrightarrow> limit t = limit s"
    and step_cases: "step s t \<Longrightarrow> finite (holders s) \<Longrightarrow> active s = card (holders s) \<Longrightarrow> active s \<le> limit s \<Longrightarrow>
      limit s \<le> uint_max 64 \<Longrightarrow>
      active t = active s \<and> holders t = holders s \<or>
      (\<exists>p. p \<notin> holders s \<and> holders t = insert p (holders s) \<and> active s < limit s \<and> active t = Suc (active s)) \<or>
      (\<exists>p. p \<in> holders s \<and> holders t = holders s - {p} \<and> active t = active s - 1)"
begin

lemma permits_counted:
  assumes "start s0" "step\<^sup>*\<^sup>* s0 s" "limit s0 \<le> uint_max 64"
  shows "finite (holders s) \<and> active s = card (holders s) \<and> active s \<le> limit s \<and> limit s = limit s0"
  using assms(2)
proof (induction rule: rtranclp_induct)
  case base
  then show ?case using start_empty [OF assms(1)] by simp
next
  case (step s t)
  then have lim: "limit s \<le> uint_max 64" "limit t = limit s" using assms(3) step_limit by auto
  consider "active t = active s" "holders t = holders s"
    | p where "p \<notin> holders s" "holders t = insert p (holders s)" "active s < limit s" "active t = Suc (active s)"
    | p where "p \<in> holders s" "holders t = holders s - {p}" "active t = active s - 1"
    using step_cases [OF step.hyps(2)] step.IH lim(1) by blast
  then show ?case
  proof cases
    case 2
    then have "card (holders t) = Suc (card (holders s))" using step.IH by (simp add: card_insert_if)
    then show ?thesis using 2 step.IH lim(2) by simp
  next
    case 3
    then have "card (holders t) = card (holders s) - 1" using step.IH by (simp add: card_Diff_singleton)
    moreover have "active t \<le> limit s" using 3 step.IH by linarith
    ultimately show ?thesis using 3 step.IH lim(2) by simp
  qed (use step.IH lim(2) in simp)
qed

end

section \<open>The admission controller\<close>

datatype http_admission_kind = HeavyAction | OverviewRefresh

record http_admission_controller =
  heavy_action_active :: nat
  heavy_action_rejected :: nat
  heavy_action_completed :: nat
  overview_refresh_active :: nat
  overview_refresh_rejected :: nat
  overview_refresh_completed :: nat
  heavy_action_limit :: nat
  overview_refresh_limit :: nat

definition admission_default :: "nat \<Rightarrow> http_admission_controller" where
  "admission_default heavy_limit =
     \<lparr>heavy_action_active = 0, heavy_action_rejected = 0, heavy_action_completed = 0, overview_refresh_active = 0,
      overview_refresh_rejected = 0, overview_refresh_completed = 0, heavy_action_limit = heavy_limit,
      overview_refresh_limit = 1\<rparr>"

definition admission_parts :: "http_admission_kind \<Rightarrow> http_admission_controller \<Rightarrow> nat \<times> nat \<times> nat" where
  "admission_parts kind c =
     (case kind of
        HeavyAction \<Rightarrow> (heavy_action_active c, heavy_action_rejected c, heavy_action_limit c)
      | OverviewRefresh \<Rightarrow> (overview_refresh_active c, overview_refresh_rejected c, overview_refresh_limit c))"

text \<open>The atomic accesses: storing the active counter, and the wrapping increments of the statistics.\<close>

definition wrap_add :: "nat \<Rightarrow> nat \<Rightarrow> nat" where
  "wrap_add a b = (a + b) mod 2 ^ 64"

definition wrap_dec :: "nat \<Rightarrow> nat" where
  "wrap_dec a = (a + (2 ^ 64 - 1)) mod 2 ^ 64"

definition set_active :: "http_admission_kind \<Rightarrow> nat \<Rightarrow> http_admission_controller \<Rightarrow> http_admission_controller" where
  "set_active kind v c =
     (case kind of HeavyAction \<Rightarrow> c\<lparr>heavy_action_active := v\<rparr> | OverviewRefresh \<Rightarrow> c\<lparr>overview_refresh_active := v\<rparr>)"

definition count_rejected :: "http_admission_kind \<Rightarrow> http_admission_controller \<Rightarrow> http_admission_controller" where
  "count_rejected kind c =
     (case kind of
        HeavyAction \<Rightarrow> c\<lparr>heavy_action_rejected := wrap_add (heavy_action_rejected c) 1\<rparr>
      | OverviewRefresh \<Rightarrow> c\<lparr>overview_refresh_rejected := wrap_add (overview_refresh_rejected c) 1\<rparr>)"

definition count_completed :: "http_admission_kind \<Rightarrow> http_admission_controller \<Rightarrow> http_admission_controller" where
  "count_completed kind c =
     (case kind of
        HeavyAction \<Rightarrow> c\<lparr>heavy_action_completed := wrap_add (heavy_action_completed c) 1\<rparr>
      | OverviewRefresh \<Rightarrow> c\<lparr>overview_refresh_completed := wrap_add (overview_refresh_completed c) 1\<rparr>)"

text \<open>\<open>leave\<close> as one thread runs it: two atomic accesses.\<close>

definition leave :: "http_admission_kind \<Rightarrow> http_admission_controller \<Rightarrow> http_admission_controller" where
  "leave kind c = count_completed kind (set_active kind (wrap_dec (fst (admission_parts kind c))) c)"

text \<open>\<open>try_enter\<close> as a thread runs it that is not disturbed: whether it got a permit, and the counters.\<close>

definition try_enter :: "http_admission_kind \<Rightarrow> http_admission_controller \<Rightarrow> bool \<times> http_admission_controller" where
  "try_enter kind c =
     (case admission_parts kind c of (current, _, lim) \<Rightarrow>
        if lim \<le> current then (False, count_rejected kind c)
        else (True, set_active kind (sat_add 64 current 1) c))"

text \<open>Where a thread is: outside, before the load of the loop, before the exchange with the value it
  loaded, holding a permit, and between the two accesses of \<open>leave\<close>.\<close>

datatype admission_pc =
    AOut
  | ALoad http_admission_kind
  | AExchange http_admission_kind nat
  | AHold http_admission_kind
  | ALeft http_admission_kind

record admission_state =
  as_ctl :: http_admission_controller
  as_pc :: "nat \<Rightarrow> admission_pc"

definition at_pc :: "nat \<Rightarrow> admission_pc \<Rightarrow> admission_state \<Rightarrow> admission_state" where
  "at_pc p v s = s\<lparr>as_pc := (as_pc s)(p := v)\<rparr>"

abbreviation kind_active :: "http_admission_kind \<Rightarrow> admission_state \<Rightarrow> nat" where
  "kind_active kind s \<equiv> fst (admission_parts kind (as_ctl s))"

abbreviation kind_limit :: "http_admission_kind \<Rightarrow> admission_state \<Rightarrow> nat" where
  "kind_limit kind s \<equiv> snd (snd (admission_parts kind (as_ctl s)))"

inductive admission_step :: "admission_state \<Rightarrow> admission_state \<Rightarrow> bool" where
  enter_call: "as_pc s p = AOut \<Longrightarrow> admission_step s (at_pc p (ALoad kind) s)"
| enter_rejected: "as_pc s p = ALoad kind \<Longrightarrow> kind_limit kind s \<le> kind_active kind s \<Longrightarrow>
     admission_step s (at_pc p AOut (s\<lparr>as_ctl := count_rejected kind (as_ctl s)\<rparr>))"
| enter_load: "as_pc s p = ALoad kind \<Longrightarrow> kind_active kind s < kind_limit kind s \<Longrightarrow>
     admission_step s (at_pc p (AExchange kind (kind_active kind s)) s)"
| enter_exchange: "as_pc s p = AExchange kind current \<Longrightarrow> kind_active kind s = current \<Longrightarrow>
     admission_step s (at_pc p (AHold kind) (s\<lparr>as_ctl := set_active kind (sat_add 64 current 1) (as_ctl s)\<rparr>))"
| enter_retry: "as_pc s p = AExchange kind current \<Longrightarrow> kind_active kind s \<noteq> current \<Longrightarrow>
     admission_step s (at_pc p (ALoad kind) s)"
| leave_active: "as_pc s p = AHold kind \<Longrightarrow>
     admission_step s (at_pc p (ALeft kind) (s\<lparr>as_ctl := set_active kind (wrap_dec (kind_active kind s)) (as_ctl s)\<rparr>))"
| leave_completed: "as_pc s p = ALeft kind \<Longrightarrow>
     admission_step s (at_pc p AOut (s\<lparr>as_ctl := count_completed kind (as_ctl s)\<rparr>))"

definition admission_start :: "admission_state \<Rightarrow> bool" where
  "admission_start s \<longleftrightarrow> (\<exists>n. as_ctl s = admission_default n) \<and> as_pc s = (\<lambda>_. AOut)"

definition permit_holders :: "http_admission_kind \<Rightarrow> admission_state \<Rightarrow> nat set" where
  "permit_holders kind s = {p. as_pc s p = AHold kind}"

text \<open>A value that a thread is about to exchange was below the limit when it was loaded.\<close>

definition loaded_below :: "admission_state \<Rightarrow> bool" where
  "loaded_below s \<longleftrightarrow> (\<forall>p kind v. as_pc s p = AExchange kind v \<longrightarrow> v < kind_limit kind s)"

definition admission_next :: "admission_state \<Rightarrow> admission_state \<Rightarrow> bool" where
  "admission_next s t \<longleftrightarrow> admission_step s t \<and> loaded_below s"

lemma at_pc_simps [simp]: "as_pc (at_pc p v s) = (as_pc s)(p := v)" "as_ctl (at_pc p v s) = as_ctl s"
  by (simp_all add: at_pc_def)

lemma parts_set_active [simp]:
  "fst (admission_parts k (set_active kind v c)) = (if k = kind then v else fst (admission_parts k c))"
  "snd (snd (admission_parts k (set_active kind v c))) = snd (snd (admission_parts k c))"
  by (simp_all add: admission_parts_def set_active_def split: http_admission_kind.splits)

lemma parts_counts [simp]:
  "fst (admission_parts k (count_rejected kind c)) = fst (admission_parts k c)"
  "fst (admission_parts k (count_completed kind c)) = fst (admission_parts k c)"
  "snd (snd (admission_parts k (count_rejected kind c))) = snd (snd (admission_parts k c))"
  "snd (snd (admission_parts k (count_completed kind c))) = snd (snd (admission_parts k c))"
  by (simp_all add: admission_parts_def count_rejected_def count_completed_def split: http_admission_kind.splits)

lemma admission_step_limit: "admission_step s t \<Longrightarrow> kind_limit kind t = kind_limit kind s"
  by (induction rule: admission_step.induct) simp_all

lemma loaded_below_step: "admission_step s t \<Longrightarrow> loaded_below s \<Longrightarrow> loaded_below t"
  by (induction rule: admission_step.induct) (auto simp: loaded_below_def split: if_splits)

lemma admission_next_run:
  "admission_step\<^sup>*\<^sup>* s0 s \<Longrightarrow> loaded_below s0 \<Longrightarrow> admission_next\<^sup>*\<^sup>* s0 s \<and> loaded_below s"
proof (induction rule: rtranclp_induct)
  case (step s t)
  then have "admission_next s t" by (simp add: admission_next_def)
  then show ?case using step loaded_below_step by (auto intro: rtranclp.rtrancl_into_rtrancl)
qed simp

text \<open>An undisturbed call of \<open>try_enter\<close> and of \<open>leave\<close> is a run of these steps.\<close>

lemma try_enter_run:
  assumes "as_pc s p = AOut" "try_enter kind (as_ctl s) = (entered, c)"
  shows "admission_step\<^sup>*\<^sup>* s (at_pc p (if entered then AHold kind else AOut) (s\<lparr>as_ctl := c\<rparr>))"
proof -
  define u where "u = at_pc p (ALoad kind) s"
  have call: "admission_step s u" unfolding u_def using assms(1) by (rule enter_call)
  have pc: "as_pc u p = ALoad kind" "as_ctl u = as_ctl s" by (simp_all add: u_def)
  show ?thesis
  proof (cases "kind_limit kind s \<le> kind_active kind s")
    case True
    then have "admission_step u (at_pc p AOut (u\<lparr>as_ctl := count_rejected kind (as_ctl u)\<rparr>))"
      using pc by (intro enter_rejected) auto
    moreover have "entered = False" "c = count_rejected kind (as_ctl s)"
      using True assms(2) by (auto simp: try_enter_def split: prod.splits)
    ultimately show ?thesis using call pc by (simp add: u_def at_pc_def)
  next
    case False
    define v where "v = at_pc p (AExchange kind (kind_active kind u)) u"
    have load: "admission_step u v" unfolding v_def using False pc by (intro enter_load) auto
    have "admission_step v (at_pc p (AHold kind) (v\<lparr>as_ctl := set_active kind (sat_add 64 (kind_active kind u) 1) (as_ctl v)\<rparr>))"
      by (rule enter_exchange) (simp_all add: v_def)
    moreover have "entered" "c = set_active kind (sat_add 64 (kind_active kind s) 1) (as_ctl s)"
      using False assms(2) by (auto simp: try_enter_def split: prod.splits)
    ultimately show ?thesis
      using call load pc by (simp add: u_def v_def at_pc_def)
  qed
qed

lemma leave_run:
  assumes "as_pc s p = AHold kind"
  shows "admission_step\<^sup>*\<^sup>* s (at_pc p AOut (s\<lparr>as_ctl := leave kind (as_ctl s)\<rparr>))"
proof -
  define u where "u = at_pc p (ALeft kind) (s\<lparr>as_ctl := set_active kind (wrap_dec (kind_active kind s)) (as_ctl s)\<rparr>)"
  have "admission_step s u" unfolding u_def using assms by (rule leave_active)
  moreover have "admission_step u (at_pc p AOut (u\<lparr>as_ctl := count_completed kind (as_ctl u)\<rparr>))"
    by (rule leave_completed) (simp add: u_def)
  ultimately show ?thesis
    by (simp add: u_def at_pc_def leave_def)
qed

lemma wrap_dec_exact: "0 < a \<Longrightarrow> a \<le> uint_max 64 \<Longrightarrow> wrap_dec a = a - 1"
  by (cases a) (auto simp: wrap_dec_def uint_max_def)

lemma permit_holders_upd:
  "permit_holders kind (s\<lparr>as_pc := (as_pc s)(p := v)\<rparr>) =
     (if v = AHold kind then insert p (permit_holders kind s) else permit_holders kind s - {p})"
  by (auto simp: permit_holders_def)

lemma permit_holders_at_pc:
  "permit_holders kind (at_pc p v s) =
     (if v = AHold kind then insert p (permit_holders kind s) else permit_holders kind s - {p})"
  by (auto simp: permit_holders_def)

lemma permit_holders_ctl [simp]: "permit_holders kind (s\<lparr>as_ctl := c\<rparr>) = permit_holders kind s"
  by (simp add: permit_holders_def)

lemma not_holder: "as_pc s p \<noteq> AHold kind \<Longrightarrow> permit_holders kind s - {p} = permit_holders kind s"
  by (auto simp: permit_holders_def)


lemma admission_step_cases:
  assumes "admission_step s t" "loaded_below s" "finite (permit_holders k s)" "kind_active k s = card (permit_holders k s)"
    and "kind_active k s \<le> kind_limit k s" "kind_limit k s \<le> uint_max 64"
  shows "kind_active k t = kind_active k s \<and> permit_holders k t = permit_holders k s \<or>
    (\<exists>p. p \<notin> permit_holders k s \<and> permit_holders k t = insert p (permit_holders k s) \<and>
       kind_active k s < kind_limit k s \<and> kind_active k t = Suc (kind_active k s)) \<or>
    (\<exists>p. p \<in> permit_holders k s \<and> permit_holders k t = permit_holders k s - {p} \<and>
       kind_active k t = kind_active k s - 1)"
  using assms
proof (cases rule: admission_step.cases)
  case (enter_exchange p kind current)
  show ?thesis
  proof (cases "k = kind")
    case True
    have "current < kind_limit kind s" using assms(2) enter_exchange by (simp add: loaded_below_def)
    then have "sat_add 64 current 1 = Suc current" using assms(6) True by (simp add: sat_add_exact)
    moreover have "p \<notin> permit_holders k s" using enter_exchange by (simp add: permit_holders_def)
    ultimately show ?thesis
      using enter_exchange True \<open>current < kind_limit kind s\<close> by (auto simp: permit_holders_at_pc)
  qed (use enter_exchange in \<open>simp add: permit_holders_at_pc not_holder\<close>)
next
  case (leave_active p kind)
  show ?thesis
  proof (cases "k = kind")
    case True
    have p: "p \<in> permit_holders k s" using leave_active True by (simp add: permit_holders_def)
    have pos: "0 < kind_active k s" using p assms(3,4) by (simp add: card_gt_0_iff) blast
    then have "wrap_dec (kind_active k s) = kind_active k s - 1" using assms(5,6) by (simp add: wrap_dec_exact)
    then show ?thesis using leave_active True p by (auto simp: permit_holders_at_pc)
  qed (use leave_active in \<open>simp add: permit_holders_at_pc not_holder\<close>)
qed (simp_all add: permit_holders_at_pc not_holder)

interpretation kinds: permit_counter admission_start admission_next "kind_active kind" "kind_limit kind" "permit_holders kind"
  for kind
proof unfold_locales
  fix s assume "admission_start s"
  then show "kind_active kind s = 0 \<and> permit_holders kind s = {}"
    by (auto simp: admission_start_def admission_default_def admission_parts_def permit_holders_def
        split: http_admission_kind.splits)
next
  fix s t assume "admission_next s t"
  then show "kind_limit kind t = kind_limit kind s" by (simp add: admission_next_def admission_step_limit)
next
  fix s t
  assume "admission_next s t" "finite (permit_holders kind s)" "kind_active kind s = card (permit_holders kind s)"
    "kind_active kind s \<le> kind_limit kind s" "kind_limit kind s \<le> uint_max 64"
  then show "kind_active kind t = kind_active kind s \<and> permit_holders kind t = permit_holders kind s \<or>
      (\<exists>p. p \<notin> permit_holders kind s \<and> permit_holders kind t = insert p (permit_holders kind s) \<and>
         kind_active kind s < kind_limit kind s \<and> kind_active kind t = Suc (kind_active kind s)) \<or>
      (\<exists>p. p \<in> permit_holders kind s \<and> permit_holders kind t = permit_holders kind s - {p} \<and>
         kind_active kind t = kind_active kind s - 1)"
    unfolding admission_next_def by (elim conjE) (rule admission_step_cases)
qed

section \<open>The request governor\<close>

record global_resource_governor =
  active_requests :: nat
  completed_requests :: nat
  rejected_requests :: nat
  max_active_requests :: nat
  active_request_limit :: nat
  rss_soft_bytes :: "nat option"
  fd_soft_limit :: "nat option"
  thread_soft_limit :: "nat option"

datatype governor_pc =
    GOut
  | GLoad
  | GExchange nat
  | GRecord nat
  | GRecordLoop nat nat
  | GHold
  | GLeft

record governor_state =
  gs_gov :: global_resource_governor
  gs_pc :: "nat \<Rightarrow> governor_pc"

definition gov_at :: "nat \<Rightarrow> governor_pc \<Rightarrow> global_resource_governor \<Rightarrow> governor_state \<Rightarrow> governor_state" where
  "gov_at p v g s = \<lparr>gs_gov = g, gs_pc = (gs_pc s)(p := v)\<rparr>"

text \<open>One round of the loop of \<open>record_max_active\<close>; its weak exchange may fail although the value is unchanged.\<close>

definition record_max_active ::
  "nat \<Rightarrow> nat \<Rightarrow> bool \<Rightarrow> global_resource_governor \<Rightarrow> governor_pc \<times> global_resource_governor" where
  "record_max_active a observed exchanged g =
     (if a \<le> observed then (GHold, g)
      else if exchanged \<and> max_active_requests g = observed then (GHold, g\<lparr>max_active_requests := a\<rparr>)
      else (GRecordLoop a (max_active_requests g), g))"

definition leave_request :: "global_resource_governor \<Rightarrow> global_resource_governor" where
  "leave_request g =
     g\<lparr>active_requests := wrap_dec (active_requests g), completed_requests := wrap_add (completed_requests g) 1\<rparr>"

record resource_rejection =
  rr_reason :: string
  rr_retry_after_ms :: nat

text \<open>\<open>try_enter_request\<close> as a thread runs it that is not disturbed.\<close>

definition try_enter_request ::
  "global_resource_governor \<Rightarrow> (resource_rejection + unit) \<times> global_resource_governor" where
  "try_enter_request g =
     (if active_request_limit g \<le> active_requests g
      then (Inl \<lparr>rr_reason = ''active request budget exhausted'', rr_retry_after_ms = 1000\<rparr>,
            g\<lparr>rejected_requests := wrap_add (rejected_requests g) 1\<rparr>)
      else let next_active = sat_add 64 (active_requests g) 1
           in (Inr (), g\<lparr>active_requests := next_active,
                          max_active_requests := max (max_active_requests g) next_active\<rparr>))"

text \<open>\<open>try_enter_request\<close>, \<open>record_max_active\<close> and \<open>leave_request\<close>.\<close>

inductive governor_step :: "governor_state \<Rightarrow> governor_state \<Rightarrow> bool" where
  gov_call: "gs_pc s p = GOut \<Longrightarrow> governor_step s (gov_at p GLoad (gs_gov s) s)"
| gov_rejected: "gs_pc s p = GLoad \<Longrightarrow> active_request_limit (gs_gov s) \<le> active_requests (gs_gov s) \<Longrightarrow>
     governor_step s (gov_at p GOut ((gs_gov s)\<lparr>rejected_requests := wrap_add (rejected_requests (gs_gov s)) 1\<rparr>) s)"
| gov_load: "gs_pc s p = GLoad \<Longrightarrow> active_requests (gs_gov s) < active_request_limit (gs_gov s) \<Longrightarrow>
     governor_step s (gov_at p (GExchange (active_requests (gs_gov s))) (gs_gov s) s)"
| gov_exchange: "gs_pc s p = GExchange current \<Longrightarrow> active_requests (gs_gov s) = current \<Longrightarrow>
     governor_step s (gov_at p (GRecord (sat_add 64 current 1))
       ((gs_gov s)\<lparr>active_requests := sat_add 64 current 1\<rparr>) s)"
| gov_retry: "gs_pc s p = GExchange current \<Longrightarrow> active_requests (gs_gov s) \<noteq> current \<Longrightarrow>
     governor_step s (gov_at p GLoad (gs_gov s) s)"
| max_load: "gs_pc s p = GRecord a \<Longrightarrow>
     governor_step s (gov_at p (GRecordLoop a (max_active_requests (gs_gov s))) (gs_gov s) s)"
| max_step: "gs_pc s p = GRecordLoop a observed \<Longrightarrow> record_max_active a observed exchanged (gs_gov s) = (v, g) \<Longrightarrow>
     governor_step s (gov_at p v g s)"
| gov_leave: "gs_pc s p = GHold \<Longrightarrow>
     governor_step s (gov_at p GLeft ((gs_gov s)\<lparr>active_requests := wrap_dec (active_requests (gs_gov s))\<rparr>) s)"
| gov_completed: "gs_pc s p = GLeft \<Longrightarrow>
     governor_step s (gov_at p GOut ((gs_gov s)\<lparr>completed_requests := wrap_add (completed_requests (gs_gov s)) 1\<rparr>) s)"

lemma gov_at_simps [simp]: "gs_gov (gov_at p v g s) = g" "gs_pc (gov_at p v g s) = (gs_pc s)(p := v)"
  by (simp_all add: gov_at_def)

lemma gov_at_gov_at [simp]: "gov_at p v g (gov_at p w h s) = gov_at p v g s"
  by (simp add: gov_at_def)

text \<open>An undisturbed call of \<open>try_enter_request\<close> and of \<open>leave_request\<close> is a run of these steps.\<close>

lemma try_enter_request_run:
  assumes "gs_pc s p = GOut" "try_enter_request (gs_gov s) = (Inr (), g)"
  shows "governor_step\<^sup>*\<^sup>* s (gov_at p GHold g s)"
proof -
  let ?g = "gs_gov s"
  let ?n = "sat_add 64 (active_requests ?g) 1"
  let ?h = "?g\<lparr>active_requests := ?n\<rparr>"
  have room: "active_requests ?g < active_request_limit ?g"
    and g: "g = ?h\<lparr>max_active_requests := max (max_active_requests ?g) ?n\<rparr>"
    using assms(2) by (auto simp: try_enter_request_def Let_def split: if_splits)
  have "governor_step\<^sup>*\<^sup>* s (gov_at p GLoad ?g s)" using gov_call assms(1) by blast
  also have "governor_step (gov_at p GLoad ?g s) (gov_at p (GExchange (active_requests ?g)) ?g s)"
    using gov_load [of "gov_at p GLoad ?g s" p] room by simp
  also have "governor_step (gov_at p (GExchange (active_requests ?g)) ?g s) (gov_at p (GRecord ?n) ?h s)"
    using gov_exchange [of "gov_at p (GExchange (active_requests ?g)) ?g s" p] by simp
  also have "governor_step (gov_at p (GRecord ?n) ?h s) (gov_at p (GRecordLoop ?n (max_active_requests ?g)) ?h s)"
    using max_load [of "gov_at p (GRecord ?n) ?h s" p] by simp
  also have "governor_step (gov_at p (GRecordLoop ?n (max_active_requests ?g)) ?h s) (gov_at p GHold g s)"
    using max_step [of "gov_at p (GRecordLoop ?n (max_active_requests ?g)) ?h s" p ?n "max_active_requests ?g" True GHold g]
    by (auto simp: record_max_active_def g max_def)
  finally show ?thesis .
qed

lemma leave_request_run:
  assumes "gs_pc s p = GHold"
  shows "governor_step\<^sup>*\<^sup>* s (gov_at p GOut (leave_request (gs_gov s)) s)"
proof -
  let ?h = "(gs_gov s)\<lparr>active_requests := wrap_dec (active_requests (gs_gov s))\<rparr>"
  have "governor_step\<^sup>*\<^sup>* s (gov_at p GLeft ?h s)" using gov_leave assms by blast
  also have "governor_step (gov_at p GLeft ?h s) (gov_at p GOut (leave_request (gs_gov s)) s)"
    using gov_completed [of "gov_at p GLeft ?h s" p] by (simp add: leave_request_def)
  finally show ?thesis .
qed

definition governor_for :: "nat \<Rightarrow> nat option \<Rightarrow> nat option \<Rightarrow> nat option \<Rightarrow> global_resource_governor" where
  "governor_for request_limit rss fds threads =
     \<lparr>active_requests = 0, completed_requests = 0, rejected_requests = 0, max_active_requests = 0,
      active_request_limit = request_limit, rss_soft_bytes = rss, fd_soft_limit = fds, thread_soft_limit = threads\<rparr>"

definition governor_start :: "governor_state \<Rightarrow> bool" where
  "governor_start s \<longleftrightarrow> (\<exists>n rss fds threads. gs_gov s = governor_for n rss fds threads) \<and> gs_pc s = (\<lambda>_. GOut)"

text \<open>A thread that raised the counter and has not recorded the maximum yet, with the value it saw.\<close>

fun recording :: "governor_pc \<Rightarrow> nat option" where
  "recording (GRecord a) = Some a"
| "recording (GRecordLoop a observed) = Some a"
| "recording _ = None"

definition request_holders :: "governor_state \<Rightarrow> nat set" where
  "request_holders s = {p. gs_pc s p = GHold \<or> recording (gs_pc s p) \<noteq> None}"

definition governor_inv :: "governor_state \<Rightarrow> bool" where
  "governor_inv s \<longleftrightarrow>
     active_request_limit (gs_gov s) \<le> uint_max 64 \<and>
     (\<forall>p v. gs_pc s p = GExchange v \<longrightarrow> v < active_request_limit (gs_gov s)) \<and>
     (\<forall>p a. recording (gs_pc s p) = Some a \<longrightarrow> a \<le> active_request_limit (gs_gov s)) \<and>
     (\<forall>p a observed. gs_pc s p = GRecordLoop a observed \<longrightarrow> observed \<le> max_active_requests (gs_gov s)) \<and>
     max_active_requests (gs_gov s) \<le> active_request_limit (gs_gov s)"

definition governor_next :: "governor_state \<Rightarrow> governor_state \<Rightarrow> bool" where
  "governor_next s t \<longleftrightarrow> governor_step s t \<and> governor_inv s"

lemma governor_inv_step: "governor_step s t \<Longrightarrow> governor_inv s \<Longrightarrow> governor_inv t"
proof (induction rule: governor_step.induct)
  case (gov_exchange s p current)
  then have "current < active_request_limit (gs_gov s)" "active_request_limit (gs_gov s) \<le> uint_max 64"
    by (simp_all add: governor_inv_def)
  then have "sat_add 64 current 1 = Suc current" by (simp add: sat_add_exact)
  then show ?case
    using gov_exchange \<open>current < _\<close> unfolding governor_inv_def by (simp add: Suc_le_eq)
next
  case (max_step s p a observed exchanged v g)
  then have "recording (gs_pc s p) = Some a" by simp
  then have le: "a \<le> active_request_limit (gs_gov s)" using max_step.prems unfolding governor_inv_def by blast
  have "o' \<le> max_active_requests g" if "gs_pc s q = GRecordLoop b o'" for q b o'
  proof -
    have "o' \<le> max_active_requests (gs_gov s)" using that max_step.prems unfolding governor_inv_def by blast
    then show ?thesis using max_step.hyps by (auto simp: record_max_active_def split: if_splits)
  qed
  then show ?case
    using max_step le unfolding governor_inv_def by (auto simp: record_max_active_def split: if_splits)
next
  case (gov_call s p)
  then show ?case unfolding governor_inv_def by simp
next
  case (gov_rejected s p)
  then show ?case unfolding governor_inv_def by simp
next
  case (gov_load s p)
  then show ?case unfolding governor_inv_def by simp
next
  case (gov_retry s p)
  then show ?case unfolding governor_inv_def by simp
next
  case (max_load s p a)
  then have "recording (gs_pc s p) = Some a" by simp
  then have "a \<le> active_request_limit (gs_gov s)" using max_load unfolding governor_inv_def by blast
  then show ?case using max_load unfolding governor_inv_def by simp
next
  case (gov_leave s p)
  then show ?case unfolding governor_inv_def by simp
next
  case (gov_completed s p)
  then show ?case unfolding governor_inv_def by simp
qed

lemma request_holders_at:
  "request_holders (gov_at p v g s) =
     (if v = GHold \<or> recording v \<noteq> None then insert p (request_holders s) else request_holders s - {p})"
  by (auto simp: request_holders_def)

lemma request_holder_in: "gs_pc s p = GHold \<or> recording (gs_pc s p) \<noteq> None \<Longrightarrow> insert p (request_holders s) = request_holders s"
  by (auto simp: request_holders_def)

lemma request_holder_out:
  "gs_pc s p \<noteq> GHold \<Longrightarrow> recording (gs_pc s p) = None \<Longrightarrow> request_holders s - {p} = request_holders s"
  by (auto simp: request_holders_def)

lemma record_max_active_frame:
  assumes "record_max_active a observed exchanged g = (v, g')"
  shows "active_requests g' = active_requests g" "active_request_limit g' = active_request_limit g"
    "v = GHold \<or> recording v \<noteq> None"
  using assms by (auto simp: record_max_active_def split: if_splits)

lemma governor_step_cases:
  assumes "governor_step s t" "governor_inv s" "finite (request_holders s)"
    and "active_requests (gs_gov s) = card (request_holders s)"
    and "active_requests (gs_gov s) \<le> active_request_limit (gs_gov s)"
    and "active_request_limit (gs_gov s) \<le> uint_max 64"
  shows "active_requests (gs_gov t) = active_requests (gs_gov s) \<and> request_holders t = request_holders s \<or>
    (\<exists>p. p \<notin> request_holders s \<and> request_holders t = insert p (request_holders s) \<and>
       active_requests (gs_gov s) < active_request_limit (gs_gov s) \<and>
       active_requests (gs_gov t) = Suc (active_requests (gs_gov s))) \<or>
    (\<exists>p. p \<in> request_holders s \<and> request_holders t = request_holders s - {p} \<and>
       active_requests (gs_gov t) = active_requests (gs_gov s) - 1)"
  using assms(1)
proof (cases rule: governor_step.cases)
  case (gov_exchange p current)
  have lt: "current < active_request_limit (gs_gov s)" using assms(2) gov_exchange by (simp add: governor_inv_def)
  then have "sat_add 64 current 1 = Suc current" using assms(6) by (simp add: sat_add_exact)
  moreover have "p \<notin> request_holders s" using gov_exchange by (simp add: request_holders_def)
  ultimately show ?thesis using gov_exchange lt by (auto simp: request_holders_at)
next
  case (gov_leave p)
  have p: "p \<in> request_holders s" using gov_leave by (simp add: request_holders_def)
  have "0 < active_requests (gs_gov s)" using p assms(3,4) by (simp add: card_gt_0_iff) blast
  then have "wrap_dec (active_requests (gs_gov s)) = active_requests (gs_gov s) - 1"
    using assms(5,6) by (simp add: wrap_dec_exact)
  then show ?thesis using gov_leave p by (auto simp: request_holders_at)
next
  case (max_step p a observed exchanged v g)
  then show ?thesis
    using record_max_active_frame [OF max_step(3)] by (simp add: request_holders_at request_holder_in)
qed (simp_all add: request_holders_at request_holder_in request_holder_out)

lemma governor_step_limit: "governor_step s t \<Longrightarrow> active_request_limit (gs_gov t) = active_request_limit (gs_gov s)"
  by (induction rule: governor_step.induct) (simp_all add: record_max_active_frame)

interpretation governor: permit_counter governor_start governor_next "\<lambda>s. active_requests (gs_gov s)"
  "\<lambda>s. active_request_limit (gs_gov s)" request_holders
proof unfold_locales
  fix s assume "governor_start s"
  then show "active_requests (gs_gov s) = 0 \<and> request_holders s = {}"
    by (auto simp: governor_start_def governor_for_def request_holders_def)
next
  fix s t assume "governor_next s t"
  then show "active_request_limit (gs_gov t) = active_request_limit (gs_gov s)"
    by (simp add: governor_next_def governor_step_limit)
next
  fix s t
  assume "governor_next s t" "finite (request_holders s)" "active_requests (gs_gov s) = card (request_holders s)"
    "active_requests (gs_gov s) \<le> active_request_limit (gs_gov s)" "active_request_limit (gs_gov s) \<le> uint_max 64"
  then show "active_requests (gs_gov t) = active_requests (gs_gov s) \<and> request_holders t = request_holders s \<or>
      (\<exists>p. p \<notin> request_holders s \<and> request_holders t = insert p (request_holders s) \<and>
         active_requests (gs_gov s) < active_request_limit (gs_gov s) \<and>
         active_requests (gs_gov t) = Suc (active_requests (gs_gov s))) \<or>
      (\<exists>p. p \<in> request_holders s \<and> request_holders t = request_holders s - {p} \<and>
         active_requests (gs_gov t) = active_requests (gs_gov s) - 1)"
    unfolding governor_next_def by (elim conjE) (rule governor_step_cases)
qed

lemma governor_next_run:
  "governor_step\<^sup>*\<^sup>* s0 s \<Longrightarrow> governor_inv s0 \<Longrightarrow> governor_next\<^sup>*\<^sup>* s0 s \<and> governor_inv s"
proof (induction rule: rtranclp_induct)
  case (step s t)
  then have "governor_next s t" by (simp add: governor_next_def)
  then show ?case using step governor_inv_step by (auto intro: rtranclp.rtrancl_into_rtrancl)
qed simp

text \<open>The recorded maximum covers the counter, except for what threads are about to record.\<close>

definition max_covers :: "governor_state \<Rightarrow> bool" where
  "max_covers s \<longleftrightarrow>
     active_requests (gs_gov s) \<le> max_active_requests (gs_gov s) \<or>
     (\<exists>p a. recording (gs_pc s p) = Some a \<and> active_requests (gs_gov s) \<le> a)"

lemma max_covers_frame:
  assumes "max_covers s" "recording (gs_pc s p) = None \<or> recording v = recording (gs_pc s p)"
    and "active_requests g \<le> active_requests (gs_gov s)" "max_active_requests g = max_active_requests (gs_gov s)"
  shows "max_covers (gov_at p v g s)"
proof (cases "active_requests (gs_gov s) \<le> max_active_requests (gs_gov s)")
  case False
  then obtain q a where q: "recording (gs_pc s q) = Some a" "active_requests (gs_gov s) \<le> a"
    using assms(1) by (auto simp: max_covers_def)
  then have "recording (gs_pc (gov_at p v g s) q) = Some a" using assms(2) by (cases "q = p") auto
  then show ?thesis using q(2) assms(3) unfolding max_covers_def by (metis gov_at_simps(1) order_trans)
qed (use assms(3,4) in \<open>simp add: max_covers_def\<close>)

lemma max_covers_step:
  assumes "governor_step s t" "max_covers s" "governor_inv s" "active_requests (gs_gov s) = card (request_holders s)"
    "finite (request_holders s)" "active_requests (gs_gov s) \<le> active_request_limit (gs_gov s)"
  shows "max_covers t"
  using assms(1)
proof (cases rule: governor_step.cases)
  case (gov_exchange p current)
  then show ?thesis unfolding max_covers_def by (auto intro!: exI [of _ p])
next
  case (max_step p a observed exchanged v g)
  have obs: "observed \<le> max_active_requests (gs_gov s)" using assms(3) max_step unfolding governor_inv_def by blast
  have cov: "active_requests (gs_gov s) \<le> max (max_active_requests (gs_gov s)) a \<or>
      (\<exists>q b. q \<noteq> p \<and> recording (gs_pc s q) = Some b \<and> active_requests (gs_gov s) \<le> b)"
    using assms(2) max_step(2) unfolding max_covers_def by (metis max.coboundedI1 max.coboundedI2 option.inject recording.simps(2))
  have act: "active_requests g = active_requests (gs_gov s)"
    using max_step(3) by (auto simp: record_max_active_def split: if_splits)
  have "max (max_active_requests (gs_gov s)) a \<le> max_active_requests g \<or> recording v = Some a \<and> max_active_requests g = max_active_requests (gs_gov s)"
    using max_step(3) obs by (auto simp: record_max_active_def split: if_splits)
  then show ?thesis
    using cov act unfolding max_step(1) max_covers_def by (auto simp: le_max_iff_disj)
next
  case (gov_leave p)
  have "p \<in> request_holders s" using gov_leave by (simp add: request_holders_def)
  then have "0 < active_requests (gs_gov s)" using assms(4,5) by (simp add: card_gt_0_iff) blast
  then have "wrap_dec (active_requests (gs_gov s)) \<le> active_requests (gs_gov s)"
    using assms(3,6) by (simp add: wrap_dec_exact governor_inv_def)
  then show ?thesis using gov_leave assms(2) by (auto intro!: max_covers_frame)
qed (use assms(2) in \<open>auto intro!: max_covers_frame\<close>)

section \<open>Snapshots\<close>

definition kind_snapshot_json :: "http_admission_kind \<Rightarrow> nat \<Rightarrow> http_admission_controller \<Rightarrow> json" where
  "kind_snapshot_json kind kind_lim c =
     (case admission_parts kind c of (act, rejected, _) \<Rightarrow>
        let completed = (case kind of HeavyAction \<Rightarrow> heavy_action_completed c
                                    | OverviewRefresh \<Rightarrow> overview_refresh_completed c)
        in json_object [(''limit'', json_number kind_lim), (''active'', json_number act),
                        (''completed'', json_number completed), (''rejected'', json_number rejected)])"

definition admission_snapshot_json :: "http_admission_controller \<Rightarrow> json" where
  "admission_snapshot_json c =
     json_object
       [(''schema'', JString ''mcpace.httpAdmission.v1''),
        (''heavyActions'', kind_snapshot_json HeavyAction (heavy_action_limit c) c),
        (''overviewRefresh'', kind_snapshot_json OverviewRefresh (overview_refresh_limit c) c)]"

definition json_u64 :: "json \<Rightarrow> string \<Rightarrow> nat option" where
  "json_u64 v key =
     (case Option.bind (json_get v key) as_i64 of
        Some n \<Rightarrow> if 0 \<le> n then Some (nat n) else None
      | None \<Rightarrow> None)"

definition pressure_item :: "string \<Rightarrow> nat option \<Rightarrow> nat option \<Rightarrow> json" where
  "pressure_item name observed soft_limit =
     (let over_limit = (case (observed, soft_limit) of (Some v, Some l) \<Rightarrow> l < v | _ \<Rightarrow> False)
      in json_object [(''name'', JString name), (''observed'', optional_number observed),
                      (''softLimit'', optional_number soft_limit), (''overLimit'', JBool over_limit)])"

definition pressure_json :: "global_resource_governor \<Rightarrow> json \<Rightarrow> json" where
  "pressure_json g process_resource =
     (let items = [pressure_item ''rssBytes'' (json_u64 process_resource ''rssBytes'') (rss_soft_bytes g),
                   pressure_item ''fdCount'' (json_u64 process_resource ''fdCount'') (fd_soft_limit g),
                   pressure_item ''threads'' (json_u64 process_resource ''threads'') (thread_soft_limit g)];
          over_limit = list_ex (\<lambda>item. Option.bind (json_get item ''overLimit'') as_bool = Some True) items
      in json_object [(''ok'', JBool (\<not> over_limit)), (''items'', JArray items)])"

definition governor_snapshot_json :: "global_resource_governor \<Rightarrow> json \<Rightarrow> json" where
  "governor_snapshot_json g process_resource =
     json_object
       [(''schema'', JString ''mcpace.globalResourceGovernor.v1''),
        (''activeRequestLimit'', json_number (active_request_limit g)),
        (''activeRequests'', json_number (active_requests g)),
        (''maxActiveRequests'', json_number (max_active_requests g)),
        (''completedRequests'', json_number (completed_requests g)),
        (''rejectedRequests'', json_number (rejected_requests g)),
        (''rssSoftBytes'', optional_number (rss_soft_bytes g)),
        (''fdSoftLimit'', optional_number (fd_soft_limit g)),
        (''threadSoftLimit'', optional_number (thread_soft_limit g)),
        (''pressure'', pressure_json g process_resource),
        (''otelAliases'', json_object
           [(''http.server.active_requests'', JString ''runtime.http.resourceGovernor.activeRequests''),
            (''http.server.request.duration'', JString ''runtime.http.latency.byRoute[*].totalMs'')])]"

lemma pressure_item_over:
  "Option.bind (json_get (pressure_item name observed soft_limit) ''overLimit'') as_bool =
     Some (case (observed, soft_limit) of (Some v, Some l) \<Rightarrow> l < v | _ \<Rightarrow> False)"
  by (simp add: pressure_item_def json_object_def)

text \<open>The pressure report is healthy exactly when no observed value exceeds its soft limit.\<close>

lemma pressure_ok_iff:
  "Option.bind (json_get (pressure_json g r) ''ok'') as_bool = Some True \<longleftrightarrow>
     (\<forall>(key, soft) \<in> {(''rssBytes'', rss_soft_bytes g), (''fdCount'', fd_soft_limit g), (''threads'', thread_soft_limit g)}.
        \<forall>v l. json_u64 r key = Some v \<longrightarrow> soft = Some l \<longrightarrow> v \<le> l)"
  by (auto simp: pressure_json_def Let_def json_object_def pressure_item_over not_less split: option.splits)

section \<open>Properties\<close>

text \<open>C9: admission limits hold under every interleaving. For each kind of action, the active counter always equals
  the number of threads that hold a permit of that kind, and never exceeds the limit; so a call is rejected only while
  the limit is used up.\<close>

theorem admission_limit_holds:
  assumes "admission_start s0" "admission_step\<^sup>*\<^sup>* s0 s" "heavy_action_limit (as_ctl s0) \<le> uint_max 64"
  shows "kind_active kind s = card (permit_holders kind s) \<and> card (permit_holders kind s) \<le> kind_limit kind s0"
proof -
  have "loaded_below s0" using assms(1) by (auto simp: admission_start_def loaded_below_def)
  then have "admission_next\<^sup>*\<^sup>* s0 s" using admission_next_run [OF assms(2)] by blast
  moreover have "kind_limit kind s0 \<le> uint_max 64"
    using assms(1,3) by (cases kind) (auto simp: admission_parts_def admission_start_def admission_default_def uint_max_def)
  ultimately have "kind_active kind s = card (permit_holders kind s) \<and> kind_active kind s \<le> kind_limit kind s \<and>
      kind_limit kind s = kind_limit kind s0"
    using kinds.permits_counted [OF assms(1)] by blast
  then show ?thesis by simp
qed

definition idle_admission :: admission_state where
  "idle_admission = \<lparr>as_ctl = admission_default 4, as_pc = (\<lambda>_. AOut)\<rparr>"

theorem admission_limit_holds_witness:
  "kind_active HeavyAction (at_pc 7 (ALoad HeavyAction) idle_admission) =
     card (permit_holders HeavyAction (at_pc 7 (ALoad HeavyAction) idle_admission)) \<and>
   card (permit_holders HeavyAction (at_pc 7 (ALoad HeavyAction) idle_admission)) \<le> kind_limit HeavyAction idle_admission"
proof (rule admission_limit_holds)
  show "admission_start idle_admission" by (auto simp: idle_admission_def admission_start_def)
  show "admission_step\<^sup>*\<^sup>* idle_admission (at_pc 7 (ALoad HeavyAction) idle_admission)"
    by (rule r_into_rtranclp, rule enter_call) (simp add: idle_admission_def)
  show "heavy_action_limit (as_ctl idle_admission) \<le> uint_max 64"
    by (simp add: idle_admission_def admission_default_def uint_max_def)
qed

text \<open>The request governor under every interleaving. The active counter is the number of requests inside, within
  the budget; the recorded maximum never exceeds the budget, and it is at least the number of requests inside whenever
  no thread is still recording it.\<close>

lemma governor_budget_holds:
  assumes "governor_start s0" "governor_step\<^sup>*\<^sup>* s0 s" "active_request_limit (gs_gov s0) \<le> uint_max 64"
  shows "active_requests (gs_gov s) = card (request_holders s) \<and>
    card (request_holders s) \<le> active_request_limit (gs_gov s0) \<and>
    max_active_requests (gs_gov s) \<le> active_request_limit (gs_gov s0) \<and>
    ((\<forall>p. recording (gs_pc s p) = None) \<longrightarrow> card (request_holders s) \<le> max_active_requests (gs_gov s))"
proof -
  have inv0: "governor_inv s0"
    using assms(1,3) by (auto simp: governor_start_def governor_inv_def governor_for_def)
  have counted: "finite (request_holders u) \<and> active_requests (gs_gov u) = card (request_holders u) \<and>
      active_requests (gs_gov u) \<le> active_request_limit (gs_gov u) \<and>
      active_request_limit (gs_gov u) = active_request_limit (gs_gov s0)" if "governor_step\<^sup>*\<^sup>* s0 u" for u
    using governor.permits_counted [OF assms(1) _ assms(3)] governor_next_run [OF that inv0] by blast
  have "max_covers s"
    using assms(2)
  proof (induction rule: rtranclp_induct)
    case base
    then show ?case using assms(1) by (auto simp: max_covers_def governor_start_def governor_for_def)
  next
    case (step u t)
    then show ?case
      using max_covers_step [OF step.hyps(2) step.IH] counted [OF step.hyps(1)] governor_next_run [OF step.hyps(1) inv0]
      by blast
  qed
  then show ?thesis
    using counted [OF assms(2)] governor_next_run [OF assms(2) inv0] by (auto simp: max_covers_def governor_inv_def)
qed

definition idle_governor :: governor_state where
  "idle_governor = \<lparr>gs_gov = governor_for 2 None None None, gs_pc = (\<lambda>_. GOut)\<rparr>"

end
