(* ===== verification/Restart_Guard.thy ===== *)
theory Restart_Guard
  imports Net_Text
begin

text \<open>
  The restart-loop guard (\<^verbatim>\<open>src/restart_guard.rs\<close>): a file of launch times that blocks a launch after too many
  starts within the window. The file's text, the clock, the environment overrides and the outcome of writing are
  arguments. The results are the round trip of the file and the bound on launches per window.
\<close>

section \<open>Operations\<close>

datatype restart_guard_error = LaunchBlocked string nat nat | WriteFailed string string

definition restart_guard_error_display :: "restart_guard_error \<Rightarrow> string" where
  "restart_guard_error_display e =
     (case e of
        LaunchBlocked label attempts window_ms \<Rightarrow>
          label @ '' restart guard blocked launch after '' @ show_nat attempts @ '' starts within ''
          @ show_nat window_ms @ '' ms; inspect `mcpace status` and `mcpace advanced runtime logs`, then run ''
          @ [CHR 0x27] @ ''mcpace stop'' @ [CHR 0x27] @ '' after fixing the cause''
      | WriteFailed path reason \<Rightarrow>
          ''failed to write restart guard '' @ [CHR 0x27] @ path @ [CHR 0x27] @ '': '' @ reason)"

definition DEFAULT_RESTART_WINDOW_MS :: nat where
  "DEFAULT_RESTART_WINDOW_MS = 120000"

definition DEFAULT_RESTART_MAX_ATTEMPTS :: nat where
  "DEFAULT_RESTART_MAX_ATTEMPTS = 5"

definition RESTART_WINDOW_MS_MAX :: nat where
  "RESTART_WINDOW_MS_MAX = 3600000"

definition RESTART_MAX_ATTEMPTS_MAX :: nat where
  "RESTART_MAX_ATTEMPTS_MAX = 100"

definition clamp :: "nat \<Rightarrow> nat \<Rightarrow> nat \<Rightarrow> nat" where
  "clamp lo hi v = max lo (min v hi)"

definition restart_window_ms :: "nat option \<Rightarrow> nat" where
  "restart_window_ms env =
     (case env of Some v \<Rightarrow> clamp 1 RESTART_WINDOW_MS_MAX v | None \<Rightarrow> DEFAULT_RESTART_WINDOW_MS)"

definition restart_max_attempts :: "nat option \<Rightarrow> nat" where
  "restart_max_attempts env =
     (case env of Some v \<Rightarrow> clamp 1 RESTART_MAX_ATTEMPTS_MAX v | None \<Rightarrow> DEFAULT_RESTART_MAX_ATTEMPTS)"

text \<open>\<open>str::lines\<close>: the pieces between newlines, without a last empty piece, each without a trailing carriage return.\<close>

definition strip_cr :: "string \<Rightarrow> string" where
  "strip_cr l = (case strip_suffix [CHR 0x0D] l of Some r \<Rightarrow> r | None \<Rightarrow> l)"

definition text_lines :: "string \<Rightarrow> string list" where
  "text_lines s =
     (let ps = split_char CHR 0x0A s
      in map strip_cr (if last ps = [] then butlast ps else ps))"

definition read_attempts :: "string option \<Rightarrow> nat list" where
  "read_attempts file =
     (case file of None \<Rightarrow> [] | Some raw \<Rightarrow> List.map_filter (\<lambda>line. parse_u128 (trim line)) (text_lines raw))"

definition attempts_payload :: "nat list \<Rightarrow> string" where
  "attempts_payload attempts = join [CHR 0x0A] (map show_nat attempts) @ [CHR 0x0A]"

text \<open>\<open>write_attempts\<close> with the parent directory, the outcome of creating it and of the atomic write.\<close>

definition write_attempts ::
  "string \<Rightarrow> (string \<times> (string + unit)) option \<Rightarrow> (string + unit) \<Rightarrow> nat list \<Rightarrow> string option \<Rightarrow>
   (restart_guard_error + unit) \<times> string option" where
  "write_attempts path mkdir write attempts file =
     (case mkdir of
        Some (parent, Inl error) \<Rightarrow>
          (Inl (WriteFailed path (''failed to create '' @ parent @ '': '' @ error)), file)
      | _ \<Rightarrow>
          (case write of
             Inl error \<Rightarrow> (Inl (WriteFailed path error), file)
           | Inr _ \<Rightarrow> (Inr (), Some (attempts_payload attempts))))"

record guard_env =
  ge_now :: nat
  ge_window :: "nat option"
  ge_max :: "nat option"
  ge_mkdir :: "(string \<times> (string + unit)) option"
  ge_write :: "string + unit"

definition check_and_record ::
  "guard_env \<Rightarrow> string \<Rightarrow> string \<Rightarrow> string option \<Rightarrow> (restart_guard_error + unit) \<times> string option" where
  "check_and_record env path label file =
     (let now = ge_now env;
          window_ms = restart_window_ms (ge_window env);
          max_attempts = restart_max_attempts (ge_max env);
          cutoff = now - window_ms;
          attempts = filter (\<lambda>v. cutoff \<le> v \<and> v \<le> now) (read_attempts file)
      in if max_attempts \<le> length attempts
         then (Inl (LaunchBlocked label (length attempts) window_ms), file)
         else write_attempts path (ge_mkdir env) (ge_write env) (attempts @ [now]) file)"

definition restart_clear :: "string option \<Rightarrow> string option" where
  "restart_clear file = None"

section \<open>The file\<close>

lemma show_nat_no_char: "\<not> is_digit c \<Longrightarrow> c \<notin> set (show_nat n)"
  using show_nat_digits [of n] by (auto simp: list_all_iff)

lemma split_char_none: "c \<notin> set s \<Longrightarrow> split_char c s = [s]"
  by (induction s) auto

lemma split_char_append: "c \<notin> set s \<Longrightarrow> split_char c (s @ c # r) = s # split_char c r"
  by (induction s) auto

lemma nl_not_in_show: "CHR 0x0A \<notin> set (show_nat n)" "CHR 0x0D \<notin> set (show_nat n)"
  by (simp_all add: show_nat_no_char is_digit_def code_def)

lemma split_payload: "split_char CHR 0x0A (join [CHR 0x0A] (map show_nat ns) @ [CHR 0x0A]) =
    (if ns = [] then [[]] else map show_nat ns) @ [[]]"
proof (induction ns)
  case (Cons n ns)
  then show ?case by (cases ns) (auto simp: split_char_append nl_not_in_show)
qed simp

lemma strip_cr_show_nat: "strip_cr (show_nat n) = show_nat n"
proof -
  have "strip_suffix [CHR 0x0D] (show_nat n) = None"
    using nl_not_in_show(2) [of n]
    by (cases "strip_suffix [CHR 0x0D] (show_nat n)") (auto simp: strip_suffix_Some)
  then show ?thesis by (simp add: strip_cr_def)
qed

lemma trim_show_nat: "trim (show_nat n) = show_nat n"
  unfolding trim_def using show_nat_digits [of n]
  by (intro trim_matches_none) (auto simp: list_all_iff is_digit_def is_ws_def)

lemma map_filter_show: "\<forall>n \<in> set ns. n \<le> uint_max 128 \<Longrightarrow>
    List.map_filter (\<lambda>line. parse_u128 (trim line)) (map strip_cr (map show_nat ns)) = ns"
  by (induction ns) (simp_all add: strip_cr_show_nat trim_show_nat List.map_filter_simps)

lemma read_attempts_payload:
  assumes "\<forall>n \<in> set ns. n \<le> uint_max 128" "ns \<noteq> []"
  shows "read_attempts (Some (attempts_payload ns)) = ns"
proof -
  have "text_lines (attempts_payload ns) = map strip_cr (map show_nat ns)"
    using split_payload [of ns] assms(2) by (simp add: text_lines_def attempts_payload_def Let_def)
  then show ?thesis using map_filter_show [OF assms(1)] by (simp add: read_attempts_def)
qed

section \<open>Runs\<close>

text \<open>Launch attempts at non-decreasing times under fixed overrides: the file, the launch times that were let
  through, and the time of the last attempt. Writing may fail; such a launch is refused.\<close>

inductive guard_run ::
  "nat option \<Rightarrow> nat option \<Rightarrow> string option \<Rightarrow> nat list \<Rightarrow> nat \<Rightarrow> bool" for wenv menv where
  guard_start: "guard_run wenv menv None [] 0"
| guard_launch: "guard_run wenv menv file launched t \<Longrightarrow> t \<le> ge_now env \<Longrightarrow> ge_now env \<le> uint_max 128 \<Longrightarrow>
     ge_window env = wenv \<Longrightarrow> ge_max env = menv \<Longrightarrow> check_and_record env path label file = (Inr (), file') \<Longrightarrow>
     guard_run wenv menv file' (launched @ [ge_now env]) (ge_now env)"
| guard_refused: "guard_run wenv menv file launched t \<Longrightarrow> t \<le> ge_now env \<Longrightarrow>
     ge_window env = wenv \<Longrightarrow> ge_max env = menv \<Longrightarrow> check_and_record env path label file = (Inl e, file') \<Longrightarrow>
     guard_run wenv menv file' launched (ge_now env)"

definition within :: "nat \<Rightarrow> nat \<Rightarrow> nat \<Rightarrow> bool" where
  "within w t v \<longleftrightarrow> t - w \<le> v \<and> v \<le> t"

definition guard_inv :: "nat \<Rightarrow> nat \<Rightarrow> string option \<Rightarrow> nat list \<Rightarrow> nat \<Rightarrow> bool" where
  "guard_inv w m file launched t \<longleftrightarrow>
     (\<forall>v \<in> set (read_attempts file). v \<le> uint_max 128) \<and> (\<forall>v \<in> set launched. v \<le> t) \<and>
     (\<forall>u. t \<le> u \<longrightarrow> filter (within w u) (read_attempts file) = filter (within w u) launched) \<and>
     (\<forall>u. length (filter (within w u) launched) \<le> m)"

lemma check_launch:
  assumes "check_and_record env path label file = (Inr (), file')"
  shows "length (filter (within (restart_window_ms (ge_window env)) (ge_now env)) (read_attempts file))
      < restart_max_attempts (ge_max env)"
    and "file' = Some (attempts_payload
      (filter (within (restart_window_ms (ge_window env)) (ge_now env)) (read_attempts file) @ [ge_now env]))"
  using assms
  by (auto simp: check_and_record_def write_attempts_def within_def [abs_def] Let_def
      split: if_splits sum.splits option.splits prod.splits)

lemma check_refused: "check_and_record env path label file = (Inl e, file') \<Longrightarrow> file' = file"
  by (auto simp: check_and_record_def write_attempts_def Let_def
      split: if_splits sum.splits option.splits prod.splits)

lemma read_attempts_bound: "\<forall>v \<in> set (read_attempts file). v \<le> uint_max 128"
  by (auto simp: read_attempts_def List.map_filter_def parse_uint_def Let_def split: option.splits if_splits)

lemma filter_within_later: "t \<le> u \<Longrightarrow> \<forall>v \<in> set vs. v \<le> t \<Longrightarrow> filter (within w u) (filter (within w t) vs) = filter (within w u) vs"
  by (induction vs) (auto simp: within_def)

lemma within_extend:
  assumes "\<forall>u. length (filter (within w u) vs) \<le> m" "length (filter (within w now) vs) < m" "\<forall>v \<in> set vs. v \<le> now"
  shows "length (filter (within w u) (vs @ [now])) \<le> m"
proof (cases "now \<le> u")
  case True
  have "length (filter (within w u) vs) \<le> length (filter (within w now) vs)"
    using True assms(3) by (induction vs) (auto simp: within_def)
  then show ?thesis using assms(2) by simp
qed (use assms(1) in \<open>simp add: within_def\<close>)

lemma guard_run_inv:
  "guard_run wenv menv file launched t \<Longrightarrow>
   guard_inv (restart_window_ms wenv) (restart_max_attempts menv) file launched t"
proof (induction rule: guard_run.induct)
  case guard_start
  show ?case by (simp add: guard_inv_def read_attempts_def)
next
  case (guard_launch "file" launched t env path label file')
  let ?w = "restart_window_ms wenv" and ?m = "restart_max_attempts menv" and ?now = "ge_now env"
  let ?kept = "filter (within ?w ?now) (read_attempts file)"
  note launch = check_launch [OF guard_launch.hyps(6), unfolded guard_launch.hyps(4,5)]
  have old: "\<forall>v \<in> set launched. v \<le> ?now" using guard_launch by (force simp: guard_inv_def)
  have kept: "?kept = filter (within ?w ?now) launched" using guard_launch by (simp add: guard_inv_def)
  have small: "\<forall>v \<in> set (?kept @ [?now]). v \<le> uint_max 128"
    using read_attempts_bound [of "file"] guard_launch.hyps(3) by auto
  have new: "read_attempts file' = ?kept @ [?now]"
    using launch(2) read_attempts_payload [OF small] by simp
  have "filter (within ?w u) (read_attempts file') = filter (within ?w u) (launched @ [?now])" if "?now \<le> u" for u
    unfolding new kept using filter_within_later [OF that old, of ?w] by simp
  moreover have "length (filter (within ?w u) (launched @ [?now])) \<le> ?m" for u
    using guard_launch.IH launch(1) kept old by (intro within_extend) (auto simp: guard_inv_def)
  ultimately show ?case using old read_attempts_bound [of file'] by (simp add: guard_inv_def)
next
  case (guard_refused "file" launched t env path label e file')
  then show ?case using check_refused [OF guard_refused.hyps(5)] by (force simp: guard_inv_def)
qed

section \<open>Properties\<close>


definition first_launch :: guard_env where
  "first_launch = \<lparr>ge_now = 7, ge_window = None, ge_max = None, ge_mkdir = None, ge_write = Inr ()\<rparr>"

lemma first_launch_run: "guard_run None None (Some (attempts_payload [7])) [7] 7"
  using guard_launch [OF guard_start, of first_launch None None "''p''" "''serve''" "Some (attempts_payload [7])"]
  by (simp add: first_launch_def check_and_record_def write_attempts_def read_attempts_def Let_def restart_max_attempts_def
      DEFAULT_RESTART_MAX_ATTEMPTS_def uint_max_def)


text \<open>The attempts file round-trips. What \<open>write_attempts\<close> writes, \<open>read_attempts\<close> reads back, in the same
  order, for every list of 128-bit times it is called with.\<close>

lemma attempts_round_trip:
  assumes "\<forall>n \<in> set ns. n < 2 ^ 128" "ns \<noteq> []" "write_attempts path mkdir write ns file = (Inr (), file')"
  shows "read_attempts file' = ns"
proof -
  have "file' = Some (attempts_payload ns)"
    using assms(3) by (auto simp: write_attempts_def split: sum.splits option.splits prod.splits)
  moreover have "\<forall>n \<in> set ns. n \<le> uint_max 128" using assms(1) by (auto simp: uint_max_def)
  ultimately show ?thesis using read_attempts_payload assms(2) by blast
qed

end
