(* ===== verification/Execution_Policy.thy ===== *)
theory Execution_Policy
  imports Json Net_Text
begin

text \<open>
  Execution policies (\<^verbatim>\<open>src/execution.rs\<close>): the modes, their presets, the resolution of a server's policy from
  root defaults, canonical policy and server settings, its normalisation, the capacity it grants, and the affinity key that
  decides which requests share a worker. The 64-bit digest of \<open>DefaultHasher\<close> and the compact printing of JSON are
  arguments.
\<close>

section \<open>Modes\<close>

definition EXECUTION_PROTOCOL :: string where "EXECUTION_PROTOCOL = ''mcpace.execution.v1''"

definition DEFAULT_MAX_QUEUE_DEPTH :: nat where "DEFAULT_MAX_QUEUE_DEPTH = 256"

definition DEFAULT_IDLE_TTL_MS :: nat where "DEFAULT_IDLE_TTL_MS = 5 * 60 * 1000"

definition MAX_QUEUE_TIMEOUT_MS :: nat where "MAX_QUEUE_TIMEOUT_MS = 5 * 60 * 1000"

definition MAX_WORKERS :: nat where "MAX_WORKERS = 64"

definition MAX_IN_FLIGHT_PER_WORKER :: nat where "MAX_IN_FLIGHT_PER_WORKER = 64"

definition MAX_QUEUE_DEPTH :: nat where "MAX_QUEUE_DEPTH = 10000"

definition MAX_IDLE_TTL_MS :: nat where "MAX_IDLE_TTL_MS = 24 * 60 * 60 * 1000"

datatype execution_policy_error = UnsupportedMode string | MissingAffinity string string

definition execution_policy_error_display :: "execution_policy_error \<Rightarrow> string" where
  "execution_policy_error_display e =
     (case e of
        UnsupportedMode m \<Rightarrow>
          ''unsupported execution mode '' @ [CHR 0x27] @ m @ [CHR 0x27]
          @ ''; expected shared, serialized, session-isolated, project-isolated, pool, or disabled''
      | MissingAffinity m dimension \<Rightarrow>
          ''execution mode '' @ [CHR 0x27] @ m @ [CHR 0x27] @ '' requires '' @ [CHR 0x27] @ dimension @ [CHR 0x27]
          @ '' affinity, but the request did not provide a usable value'')"

datatype execution_mode = Shared | Serialized | SessionIsolated | ProjectIsolated | Pool | Disabled

definition normalize_token :: "string \<Rightarrow> string" where
  "normalize_token v = map (\<lambda>c. if c = CHR ''_'' then CHR ''-'' else c) (to_ascii_lowercase (trim v))"

definition parse_mode :: "string \<Rightarrow> execution_policy_error + execution_mode" where
  "parse_mode raw =
     (let normalized = normalize_token raw
      in if normalized \<in> set [''shared'', ''parallel'', ''parallel-safe'', ''multi-reader''] then Inr Shared
         else if normalized \<in> set [''serialized'', ''serial'', ''single-writer'', ''queue'', ''queued''] then Inr Serialized
         else if normalized \<in> set [''session'', ''session-isolated'', ''per-session'', ''single-session'']
           then Inr SessionIsolated
         else if normalized \<in> set [''project'', ''project-isolated'', ''per-project'', ''isolated-per-project'']
           then Inr ProjectIsolated
         else if normalized \<in> set [''pool'', ''process-pool'', ''worker-pool''] then Inr Pool
         else if normalized \<in> set [''disabled'', ''off'', ''plan-only'', ''not-runnable''] then Inr Disabled
         else Inl (UnsupportedMode normalized))"

fun mode_str :: "execution_mode \<Rightarrow> string" where
  "mode_str Shared = ''shared''"
| "mode_str Serialized = ''serialized''"
| "mode_str SessionIsolated = ''session-isolated''"
| "mode_str ProjectIsolated = ''project-isolated''"
| "mode_str Pool = ''pool''"
| "mode_str Disabled = ''disabled''"

section \<open>Policies\<close>

record execution_policy =
  ep_mode :: execution_mode
  ep_affinity :: "string list"
  ep_queue_timeout_ms :: nat
  ep_reuse_policy :: string
  ep_min_workers :: nat
  ep_max_workers :: nat
  ep_max_in_flight_per_worker :: nat
  ep_max_queue_depth :: nat
  ep_idle_ttl_ms :: nat
  ep_source :: string
  ep_warnings :: "string list"

fun mode_preset :: "execution_mode \<Rightarrow> string list \<times> nat \<times> string \<times> nat \<times> nat \<times> nat" where
  "mode_preset Shared = ([], 2000, ''shared'', 0, 1, 4)"
| "mode_preset Serialized = ([], 10000, ''sticky'', 0, 1, 1)"
| "mode_preset SessionIsolated = ([''client'', ''chat''], 10000, ''sticky-session'', 0, 1, 1)"
| "mode_preset ProjectIsolated = ([''project''], 10000, ''sticky-project'', 0, 1, 1)"
| "mode_preset Pool = ([], 5000, ''least-busy'', 1, 4, 1)"
| "mode_preset Disabled = ([], 0, ''never'', 0, 0, 0)"

definition for_mode :: "execution_mode \<Rightarrow> execution_policy" where
  "for_mode m =
     (case mode_preset m of (affinity, queue_timeout_ms, reuse_policy, min_workers, max_workers, max_in_flight) \<Rightarrow>
        \<lparr>ep_mode = m, ep_affinity = affinity, ep_queue_timeout_ms = queue_timeout_ms, ep_reuse_policy = reuse_policy,
         ep_min_workers = min_workers, ep_max_workers = max_workers, ep_max_in_flight_per_worker = max_in_flight,
         ep_max_queue_depth = DEFAULT_MAX_QUEUE_DEPTH, ep_idle_ttl_ms = DEFAULT_IDLE_TTL_MS,
         ep_source = ''mode-preset'', ep_warnings = []\<rparr>)"

definition warn :: "string \<Rightarrow> execution_policy \<Rightarrow> execution_policy" where
  "warn w p = p\<lparr>ep_warnings := ep_warnings p @ [w]\<rparr>"

definition non_negative :: "json option \<Rightarrow> nat option" where
  "non_negative value =
     (case Option.bind value as_i64 of Some n \<Rightarrow> if 0 \<le> n then Some (nat n) else None | None \<Rightarrow> None)"

definition positive :: "json option \<Rightarrow> nat option" where
  "positive value = (case non_negative value of Some n \<Rightarrow> if 0 < n then Some n else None | None \<Rightarrow> None)"

definition set_if :: "'a option \<Rightarrow> ('a \<Rightarrow> execution_policy \<Rightarrow> execution_policy) \<Rightarrow> execution_policy \<Rightarrow> execution_policy" where
  "set_if v f p = (case v of Some a \<Rightarrow> f a p | None \<Rightarrow> p)"

definition apply_mode_warning :: "string \<Rightarrow> json_map \<Rightarrow> execution_policy \<Rightarrow> execution_policy" where
  "apply_mode_warning label m p =
     (case Option.bind (map_of m ''mode'') as_str of
        None \<Rightarrow> p
      | Some raw_mode \<Rightarrow>
          (case parse_mode raw_mode of
             Inr v \<Rightarrow>
               if v = ep_mode p then p
               else warn (label @ '' mode '' @ [CHR 0x27] @ mode_str v @ [CHR 0x27]
                          @ '' was ignored because the resolved mode is '' @ [CHR 0x27] @ mode_str (ep_mode p) @ [CHR 0x27]) p
           | Inl e \<Rightarrow> warn (execution_policy_error_display e) p))"

definition apply_json :: "json \<Rightarrow> string \<Rightarrow> execution_policy \<Rightarrow> execution_policy" where
  "apply_json value label p =
     (case as_object value of
        None \<Rightarrow> warn (label @ '' is not an object; mode defaults remain active'') p
      | Some m \<Rightarrow>
          let p = apply_mode_warning label m p;
              p = set_if (Option.bind (map_of m ''affinity'') as_array)
                    (\<lambda>v p. p\<lparr>ep_affinity := strings_from_array (Some v)\<rparr>) p;
              p = set_if (non_negative (map_of m ''queueTimeoutMs'')) (\<lambda>v p. p\<lparr>ep_queue_timeout_ms := v\<rparr>) p;
              p = set_if (Option.bind (Option.bind (map_of m ''reusePolicy'') as_str)
                            (\<lambda>v. if normalize_token v = [] then None else Some (normalize_token v)))
                    (\<lambda>v p. p\<lparr>ep_reuse_policy := v\<rparr>) p;
              p = set_if (non_negative (map_of m ''minWorkers'')) (\<lambda>v p. p\<lparr>ep_min_workers := v\<rparr>) p;
              p = set_if (non_negative (map_of m ''maxWorkers'')) (\<lambda>v p. p\<lparr>ep_max_workers := v\<rparr>) p;
              p = set_if (non_negative (map_of m ''maxInFlightPerWorker''))
                    (\<lambda>v p. p\<lparr>ep_max_in_flight_per_worker := v\<rparr>) p;
              p = set_if (positive (map_of m ''maxQueueDepth'')) (\<lambda>v p. p\<lparr>ep_max_queue_depth := v\<rparr>) p;
              p = set_if (positive (map_of m ''idleTtlMs'')) (\<lambda>v p. p\<lparr>ep_idle_ttl_ms := v\<rparr>) p
          in p)"

definition apply_global_limits :: "json \<Rightarrow> execution_policy \<Rightarrow> execution_policy" where
  "apply_global_limits value p =
     (case as_object value of
        None \<Rightarrow> p
      | Some m \<Rightarrow>
          let p = set_if (positive (map_of m ''maxQueueDepth'')) (\<lambda>v p. p\<lparr>ep_max_queue_depth := v\<rparr>) p;
              p = set_if (positive (map_of m ''idleTtlMs'')) (\<lambda>v p. p\<lparr>ep_idle_ttl_ms := v\<rparr>) p
          in p)"

definition canonical_policy_disabled :: "json \<Rightarrow> bool" where
  "canonical_policy_disabled value \<longleftrightarrow>
     list_ex (\<lambda>key. map_option normalize_token (string_at_path value [key]) = Some ''disabled'')
       [''startupStrategy'', ''routingGroup''] \<or>
     map_option normalize_token (string_at_path value [''concurrencyPolicy'']) = Some ''plan-only'' \<or>
     map_option normalize_token (string_at_path value [''scopeClass'']) = Some ''not-runnable''"

definition apply_canonical_json :: "json \<Rightarrow> execution_policy \<Rightarrow> execution_policy" where
  "apply_canonical_json value p =
     (if canonical_policy_disabled value
      then p\<lparr>ep_mode := Disabled, ep_max_workers := 0, ep_max_in_flight_per_worker := 0\<rparr>
      else
        let p = (case non_negative (value_at_path value [''maxWorkers'']) of
                   Some v \<Rightarrow> p\<lparr>ep_max_workers := v\<rparr>
                 | None \<Rightarrow> set_if (non_negative (value_at_path value [''parallelismLimit'']))
                             (\<lambda>v p. p\<lparr>ep_max_workers := v\<rparr>) p)
        in set_if (non_negative (value_at_path value [''maxInFlightPerWorker'']))
             (\<lambda>v p. p\<lparr>ep_max_in_flight_per_worker := v\<rparr>) p)"

definition normalize_affinity_token :: "string \<Rightarrow> string" where
  "normalize_affinity_token v =
     (let t = normalize_token v
      in if t = ''conversation'' then ''chat'' else if t = ''workspace'' then ''project''
         else if t = ''credentials'' then ''credential'' else t)"

definition is_supported_affinity :: "string \<Rightarrow> bool" where
  "is_supported_affinity v \<longleftrightarrow>
     v \<in> set [''client'', ''project'', ''chat'', ''session'', ''credential'', ''application'', ''metadata'', ''transport'',
             ''transport-session'', ''client-instance'']"

definition normalize_affinity :: "execution_policy \<Rightarrow> execution_policy" where
  "normalize_affinity p =
     p\<lparr>ep_affinity := sorted_unique (filter is_supported_affinity (map normalize_affinity_token (ep_affinity p))),
       ep_warnings := ep_warnings p @
         map (\<lambda>raw. ''unsupported execution affinity '' @ [CHR 0x27] @ trim raw @ [CHR 0x27] @ ''; it was ignored'')
           (filter (\<lambda>raw. normalize_affinity_token raw \<noteq> [] \<and> \<not> is_supported_affinity (normalize_affinity_token raw))
             (ep_affinity p))\<rparr>"

definition clamp_with_warning :: "nat \<Rightarrow> nat \<Rightarrow> string \<Rightarrow> string list \<Rightarrow> nat \<times> string list" where
  "clamp_with_warning value maximum label warnings =
     (if maximum < value
      then (maximum, warnings @ [label @ ''='' @ show_nat value @ '' exceeded the runtime safety maximum ''
                                 @ show_nat maximum @ ''; the value was clamped''])
      else (value, warnings))"

definition clamp_limits :: "execution_policy \<Rightarrow> execution_policy" where
  "clamp_limits p =
     (let (qt, ws) = clamp_with_warning (ep_queue_timeout_ms p) MAX_QUEUE_TIMEOUT_MS ''queueTimeoutMs'' (ep_warnings p);
          (mw, ws) = clamp_with_warning (max (ep_max_workers p) 1) MAX_WORKERS ''maxWorkers'' ws;
          (mf, ws) = clamp_with_warning (max (ep_max_in_flight_per_worker p) 1) MAX_IN_FLIGHT_PER_WORKER
                       ''maxInFlightPerWorker'' ws;
          (qd, ws) = clamp_with_warning (max (ep_max_queue_depth p) 1) MAX_QUEUE_DEPTH ''maxQueueDepth'' ws;
          (it, ws) = clamp_with_warning (max (ep_idle_ttl_ms p) 1000) MAX_IDLE_TTL_MS ''idleTtlMs'' ws
      in p\<lparr>ep_queue_timeout_ms := qt, ep_max_workers := mw, ep_max_in_flight_per_worker := mf,
           ep_max_queue_depth := qd, ep_idle_ttl_ms := it, ep_warnings := ws\<rparr>)"

definition has_affinity :: "execution_policy \<Rightarrow> string \<Rightarrow> bool" where
  "has_affinity p v \<longleftrightarrow> normalize_affinity_token v \<in> set (ep_affinity p)"

definition single_process :: "execution_policy \<Rightarrow> execution_policy" where
  "single_process p =
     (let p = (if ep_mode p \<noteq> Pool \<and> 1 < ep_max_workers p
               then (warn (''mode '' @ [CHR 0x27] @ mode_str (ep_mode p) @ [CHR 0x27]
                       @ '' uses one process per affinity group; maxWorkers was clamped from ''
                       @ show_nat (ep_max_workers p) @ '' to 1'') p)\<lparr>ep_max_workers := 1\<rparr>
               else p)
      in p\<lparr>ep_min_workers := min (ep_min_workers p) (ep_max_workers p)\<rparr>)"

definition required_affinity :: "execution_policy \<Rightarrow> execution_policy" where
  "required_affinity p =
     (let p = (if ep_mode p = ProjectIsolated \<and> \<not> has_affinity p ''project''
               then warn ''project-isolated requires project affinity; 'project' was added automatically''
                      (p\<lparr>ep_affinity := ep_affinity p @ [''project'']\<rparr>)
               else p)
      in if ep_mode p = SessionIsolated \<and>
            \<not> list_ex (\<lambda>v. v \<in> set [''chat'', ''session'', ''application'', ''transport-session'']) (ep_affinity p)
         then warn ''session-isolated requires a session-like affinity; 'session' was added automatically''
                (p\<lparr>ep_affinity := ep_affinity p @ [''session'']\<rparr>)
         else p)"

definition allowed_reuse :: "string list" where
  "allowed_reuse = [''shared'', ''sticky'', ''sticky-session'', ''sticky-project'', ''least-busy'', ''ttl'', ''never'']"

definition check_reuse :: "execution_policy \<Rightarrow> execution_policy" where
  "check_reuse p =
     (if ep_reuse_policy p \<notin> set allowed_reuse
      then let fallback = ep_reuse_policy (for_mode (ep_mode p))
           in (warn (''unsupported reusePolicy '' @ [CHR 0x27] @ ep_reuse_policy p @ [CHR 0x27] @ ''; using ''
                     @ [CHR 0x27] @ fallback @ [CHR 0x27]) p)\<lparr>ep_reuse_policy := fallback\<rparr>
      else p)"

definition normalize_policy :: "execution_policy \<Rightarrow> execution_policy" where
  "normalize_policy p =
     (let p = normalize_affinity p
      in if ep_mode p = Disabled \<or> ep_max_workers p = 0 \<or> ep_max_in_flight_per_worker p = 0
         then p\<lparr>ep_mode := Disabled, ep_affinity := [], ep_queue_timeout_ms := 0, ep_reuse_policy := ''never'',
                ep_min_workers := 0, ep_max_workers := 0, ep_max_in_flight_per_worker := 0\<rparr>
         else check_reuse (normalize_affinity (required_affinity (single_process (clamp_limits p)))))"

definition mode_at :: "json option \<Rightarrow> execution_mode option" where
  "mode_at value =
     (case Option.bind (Option.bind value (\<lambda>v. json_get v ''mode'')) as_str of
        Some raw \<Rightarrow> (case parse_mode raw of Inr m \<Rightarrow> Some m | Inl _ \<Rightarrow> None)
      | None \<Rightarrow> None)"

definition resolve_with_canonical ::
  "json option \<Rightarrow> json option \<Rightarrow> json option \<Rightarrow> execution_mode \<Rightarrow> execution_policy" where
  "resolve_with_canonical execution_defaults canonical_policy server_execution fallback_mode =
     (let explicit_server_mode = mode_at server_execution;
          default_mode = mode_at execution_defaults;
          canonical_disabled = (case canonical_policy of Some c \<Rightarrow> canonical_policy_disabled c | None \<Rightarrow> False);
          m = (if canonical_disabled then Disabled
               else case explicit_server_mode of Some v \<Rightarrow> v | None \<Rightarrow> fallback_mode);
          p = for_mode m;
          p = (if canonical_disabled then p
               else
                 let p = (if explicit_server_mode = None \<and> default_mode = Some m
                          then set_if execution_defaults (\<lambda>d. apply_json d ''executionDefaults'') p
                          else set_if execution_defaults apply_global_limits p);
                     p = set_if canonical_policy apply_canonical_json p;
                     p = set_if server_execution (\<lambda>s. apply_json s ''server.execution'') p
                 in p\<lparr>ep_mode := m\<rparr>);
          p = p\<lparr>ep_source :=
                 (if canonical_disabled then ''server.policy''
                  else if explicit_server_mode \<noteq> None then ''server.execution''
                  else if canonical_policy \<noteq> None then ''server.policy''
                  else if default_mode = Some m then ''executionDefaults''
                  else ''inferred-policy'')\<rparr>
      in normalize_policy p)"

definition resolve :: "json option \<Rightarrow> json option \<Rightarrow> execution_mode \<Rightarrow> execution_policy" where
  "resolve execution_defaults server_execution fallback_mode =
     resolve_with_canonical execution_defaults None server_execution fallback_mode"

definition from_config_root :: "json \<Rightarrow> execution_policy" where
  "from_config_root config =
     (let defaults = json_get config ''executionDefaults'';
          fallback_mode = (case mode_at defaults of Some m \<Rightarrow> m | None \<Rightarrow> Serialized)
      in resolve defaults None fallback_mode)"

definition inferred_mode :: "string \<Rightarrow> string \<Rightarrow> string \<Rightarrow> string \<Rightarrow> execution_mode" where
  "inferred_mode scope_class concurrency_policy state_binding state_class =
     (let scope = normalize_token scope_class; conc = normalize_token concurrency_policy;
          bind = normalize_token state_binding; stat = normalize_token state_class
      in if conc = ''plan-only'' \<or> scope = ''not-runnable'' then Disabled
         else if conc = ''isolated-per-project'' \<or> scope = ''project-local'' \<or> stat = ''project-stateful''
           then ProjectIsolated
         else if conc = ''single-session'' \<or> stat = ''session-stateful'' \<or> bind = ''host-session'' then SessionIsolated
         else if conc = ''multi-reader'' \<and>
                 stat \<in> set [''stateless'', ''credential-stateful'', ''remote-session-stateful''] then Shared
         else Serialized)"

definition inferred_mode_from_canonical :: "json \<Rightarrow> execution_mode" where
  "inferred_mode_from_canonical value =
     (let get = (\<lambda>key. case string_at_path value [key] of Some s \<Rightarrow> s | None \<Rightarrow> [])
      in inferred_mode (get ''scopeClass'') (get ''concurrencyPolicy'') (get ''stateBinding'') (get ''stateClass''))"

definition to_config_json_value :: "execution_policy \<Rightarrow> json" where
  "to_config_json_value p =
     json_object
       [(''protocol'', JString EXECUTION_PROTOCOL), (''mode'', JString (mode_str (ep_mode p))),
        (''affinity'', json_strings (ep_affinity p)), (''queueTimeoutMs'', json_number (ep_queue_timeout_ms p)),
        (''reusePolicy'', JString (ep_reuse_policy p)), (''minWorkers'', json_number (ep_min_workers p)),
        (''maxWorkers'', json_number (ep_max_workers p)),
        (''maxInFlightPerWorker'', json_number (ep_max_in_flight_per_worker p)),
        (''maxQueueDepth'', json_number (ep_max_queue_depth p)), (''idleTtlMs'', json_number (ep_idle_ttl_ms p))]"

definition to_json_value :: "execution_policy \<Rightarrow> json" where
  "to_json_value p =
     (case to_config_json_value p of
        JObject m \<Rightarrow> JObject (bt_insert ''warnings'' (json_strings (ep_warnings p))
                                (bt_insert ''source'' (JString (ep_source p)) m))
      | v \<Rightarrow> v)"

definition for_server :: "execution_policy \<Rightarrow> json \<Rightarrow> execution_policy" where
  "for_server defaults raw_server =
     (let canonical = json_get raw_server ''policy'';
          server_execution = json_get raw_server ''execution'';
          fallback_mode = (case canonical of Some c \<Rightarrow> inferred_mode_from_canonical c | None \<Rightarrow> ep_mode defaults)
      in resolve_with_canonical (Some (to_config_json_value defaults)) canonical server_execution fallback_mode)"

section \<open>Capacity\<close>

definition is_disabled :: "execution_policy \<Rightarrow> bool" where
  "is_disabled p \<longleftrightarrow> ep_mode p = Disabled \<or> ep_max_workers p = 0"

definition worker_limit :: "execution_policy \<Rightarrow> nat" where
  "worker_limit p =
     (case ep_mode p of Disabled \<Rightarrow> 0 | Pool \<Rightarrow> max (ep_max_workers p) 1 | _ \<Rightarrow> 1)"

definition effective_max_in_flight_per_worker :: "execution_policy \<Rightarrow> string \<Rightarrow> nat" where
  "effective_max_in_flight_per_worker p transport =
     (if is_disabled p then 0
      else if eq_ignore_ascii_case transport ''stdio'' then 1
      else max (ep_max_in_flight_per_worker p) 1)"

definition effective_capacity :: "execution_policy \<Rightarrow> string \<Rightarrow> nat" where
  "effective_capacity p transport =
     min (worker_limit p * effective_max_in_flight_per_worker p transport) (uint_max 64)"

end
