(* ===== verification/Execution_Affinity.thy ===== *)
theory Execution_Affinity
  imports Execution_Policy Restart_Guard "HOL-Library.Word"
begin

text \<open>
  The affinity key of a request (\<^verbatim>\<open>src/execution.rs\<close>): the dimensions of the policy read from the request
  context, and the fingerprint by which requests share or do not share a worker. The properties of the resolved policy
  (bounds, precedence of a disabling policy, isolation by project and by session) are proved here.
\<close>

section \<open>The affinity key\<close>

record execution_affinity_context =
  ac_client_id :: "string option"
  ac_session_id :: "string option"
  ac_project_root :: "string option"
  ac_transport :: "string option"
  ac_metadata :: "json option"

record execution_affinity_key =
  ak_client_id :: string
  ak_session_id :: string
  ak_project_root :: string
  ak_transport :: string
  ak_fingerprint :: string

definition trimmed :: "string option \<Rightarrow> string option" where
  "trimmed v = trimmed_non_empty_owned v"

fun find_map :: "('a \<Rightarrow> 'b option) \<Rightarrow> 'a list \<Rightarrow> 'b option" where
  "find_map f [] = None"
| "find_map f (x # xs) = (case f x of Some y \<Rightarrow> Some y | None \<Rightarrow> find_map f xs)"

definition metadata_string :: "execution_affinity_context \<Rightarrow> string list list \<Rightarrow> string option" where
  "metadata_string context paths =
     (case ac_metadata context of
        None \<Rightarrow> None
      | Some metadata \<Rightarrow> find_map (\<lambda>path. trimmed (string_at_path metadata path)) paths)"

definition application_session_id :: "execution_affinity_context \<Rightarrow> string option" where
  "application_session_id context =
     metadata_string context
       [[''mcpace'', ''applicationSessionId''], [''mcpace'', ''chatId''], [''applicationSessionId''], [''chatId''],
        [''conversationId'']]"

definition hex_char :: "nat \<Rightarrow> char" where
  "hex_char d = ''0123456789abcdef'' ! d"

fun hex_digits :: "nat \<Rightarrow> nat \<Rightarrow> string" where
  "hex_digits 0 n = []"
| "hex_digits (Suc k) n = hex_digits k (n div 16) @ [hex_char (n mod 16)]"

definition fingerprint_text :: "(string \<Rightarrow> 64 word) \<Rightarrow> string \<Rightarrow> string" where
  "fingerprint_text digest v = ''len'' @ show_nat (length v) @ ''-hash'' @ hex_digits 16 (unat (digest v))"

definition affinity_display_value :: "string list \<Rightarrow> string \<Rightarrow> string option" where
  "affinity_display_value values dimension = find_map (strip_prefix (dimension @ ''='')) values"

text \<open>The value of one dimension; the printed metadata is an argument (\<open>compact\<close>).\<close>

definition default_session :: "execution_affinity_context \<Rightarrow> string option" where
  "default_session context =
     (case application_session_id context of Some s \<Rightarrow> Some s | None \<Rightarrow> trimmed (ac_session_id context))"

definition default_client :: "execution_affinity_context \<Rightarrow> string" where
  "default_client context = (case trimmed (ac_client_id context) of Some c \<Rightarrow> c | None \<Rightarrow> ''mcpace-upstream-bridge'')"

definition default_transport :: "execution_affinity_context \<Rightarrow> string" where
  "default_transport context = (case trimmed (ac_transport context) of Some t \<Rightarrow> t | None \<Rightarrow> ''stdio'')"

definition dimension_value ::
  "(string \<Rightarrow> 64 word) \<Rightarrow> (json \<Rightarrow> string) \<Rightarrow> execution_affinity_context \<Rightarrow> string \<Rightarrow> string option" where
  "dimension_value digest compact context dimension =
     (if dimension = ''client'' then Some (default_client context)
      else if dimension = ''project'' then trimmed (ac_project_root context)
      else if dimension \<in> set [''chat'', ''session'', ''application''] then default_session context
      else if dimension = ''credential'' then
        metadata_string context [[''mcpace'', ''credentialId''], [''mcpace'', ''credential''], [''credentialId''], [''credential'']]
      else if dimension = ''metadata'' then map_option (\<lambda>v. fingerprint_text digest (compact v)) (ac_metadata context)
      else if dimension = ''transport'' then Some (default_transport context)
      else if dimension = ''transport-session'' then
        (case metadata_string context [[''mcpace'', ''transportSessionId''], [''transportSessionId'']] of
           Some s \<Rightarrow> Some s | None \<Rightarrow> trimmed (ac_session_id context))
      else if dimension = ''client-instance'' then
        (case metadata_string context [[''mcpace'', ''clientInstanceId''], [''clientInstanceId'']] of
           Some s \<Rightarrow> Some s | None \<Rightarrow> Some (default_client context))
      else None)"

fun collect_values ::
  "(string \<Rightarrow> string option) \<Rightarrow> execution_mode \<Rightarrow> string list \<Rightarrow> execution_policy_error + string list" where
  "collect_values value m [] = Inr []"
| "collect_values value m (dimension # rest) =
     (case value dimension of
        None \<Rightarrow> Inl (MissingAffinity (mode_str m) dimension)
      | Some v \<Rightarrow>
          (case collect_values value m rest of
             Inl e \<Rightarrow> Inl e
           | Inr vs \<Rightarrow> Inr ((dimension @ ''='' @ v) # vs)))"

definition protect :: "(string \<Rightarrow> 64 word) \<Rightarrow> string \<Rightarrow> string" where
  "protect digest value =
     (case split_once CHR ''='' value of
        Some (dimension, raw) \<Rightarrow> dimension @ ''='' @ fingerprint_text digest raw
      | None \<Rightarrow> ''unknown='' @ fingerprint_text digest value)"

definition affinity_key ::
  "(string \<Rightarrow> 64 word) \<Rightarrow> (json \<Rightarrow> string) \<Rightarrow> execution_policy \<Rightarrow> execution_affinity_context \<Rightarrow>
   execution_policy_error + execution_affinity_key" where
  "affinity_key digest compact p context =
     (case collect_values (dimension_value digest compact context) (ep_mode p) (ep_affinity p) of
        Inl e \<Rightarrow> Inl e
      | Inr values \<Rightarrow>
          let shown = (\<lambda>d. affinity_display_value values d);
              or_shared = (\<lambda>v. case v of Some s \<Rightarrow> s | None \<Rightarrow> ''shared'')
          in Inr \<lparr>ak_client_id = or_shared (shown ''client''),
                  ak_session_id = or_shared (find_map shown [''chat'', ''session'', ''application'', ''transport-session'']),
                  ak_project_root = or_shared (shown ''project''),
                  ak_transport = default_transport context,
                  ak_fingerprint =
                    (if values = [] then ''mode='' @ mode_str (ep_mode p) @ ''|affinity=global''
                     else ''mode='' @ mode_str (ep_mode p) @ ''|'' @ join ''|'' (map (protect digest) values))\<rparr>)"

definition policy_fingerprint :: "execution_policy \<Rightarrow> string" where
  "policy_fingerprint p =
     ''protocol='' @ EXECUTION_PROTOCOL @ ''|mode='' @ mode_str (ep_mode p) @ ''|affinity='' @ join '','' (ep_affinity p)
     @ ''|queueTimeoutMs='' @ show_nat (ep_queue_timeout_ms p) @ ''|reusePolicy='' @ ep_reuse_policy p
     @ ''|minWorkers='' @ show_nat (ep_min_workers p) @ ''|maxWorkers='' @ show_nat (ep_max_workers p)
     @ ''|maxInFlightPerWorker='' @ show_nat (ep_max_in_flight_per_worker p)
     @ ''|maxQueueDepth='' @ show_nat (ep_max_queue_depth p) @ ''|idleTtlMs='' @ show_nat (ep_idle_ttl_ms p)"

section \<open>The resolved policy\<close>

definition policy_bounded :: "execution_policy \<Rightarrow> bool" where
  "policy_bounded p \<longleftrightarrow>
     (ep_mode p = Disabled \<and> ep_max_workers p = 0 \<and> ep_max_in_flight_per_worker p = 0 \<and> ep_affinity p = []) \<or>
     (ep_mode p \<noteq> Disabled \<and> 1 \<le> ep_max_workers p \<and> ep_max_workers p \<le> 64 \<and> (ep_mode p \<noteq> Pool \<longrightarrow> ep_max_workers p = 1) \<and>
      ep_min_workers p \<le> ep_max_workers p \<and>
      1 \<le> ep_max_in_flight_per_worker p \<and> ep_max_in_flight_per_worker p \<le> 64 \<and>
      1 \<le> ep_max_queue_depth p \<and> ep_max_queue_depth p \<le> 10000 \<and>
      1000 \<le> ep_idle_ttl_ms p \<and> ep_idle_ttl_ms p \<le> 86400000 \<and> ep_queue_timeout_ms p \<le> 300000 \<and>
      ep_reuse_policy p \<in> set allowed_reuse \<and> list_all is_supported_affinity (ep_affinity p) \<and>
      distinct (ep_affinity p))"

lemmas policy_limits = MAX_QUEUE_TIMEOUT_MS_def MAX_WORKERS_def MAX_IN_FLIGHT_PER_WORKER_def MAX_QUEUE_DEPTH_def
  MAX_IDLE_TTL_MS_def

lemma warn_simps [simp]:
  "ep_mode (warn w p) = ep_mode p" "ep_affinity (warn w p) = ep_affinity p"
  "ep_queue_timeout_ms (warn w p) = ep_queue_timeout_ms p" "ep_reuse_policy (warn w p) = ep_reuse_policy p"
  "ep_min_workers (warn w p) = ep_min_workers p" "ep_max_workers (warn w p) = ep_max_workers p"
  "ep_max_in_flight_per_worker (warn w p) = ep_max_in_flight_per_worker p"
  "ep_max_queue_depth (warn w p) = ep_max_queue_depth p" "ep_idle_ttl_ms (warn w p) = ep_idle_ttl_ms p"
  by (simp_all add: warn_def)

lemma clamp_with_warning_pair: "clamp_with_warning v m l ws = (min v m, snd (clamp_with_warning v m l ws))"
  by (simp add: clamp_with_warning_def min_def)

lemma clamp_limits_fields:
  "ep_mode (clamp_limits p) = ep_mode p" "ep_affinity (clamp_limits p) = ep_affinity p"
  "ep_queue_timeout_ms (clamp_limits p) = min (ep_queue_timeout_ms p) MAX_QUEUE_TIMEOUT_MS"
  "ep_max_workers (clamp_limits p) = min (max (ep_max_workers p) 1) MAX_WORKERS"
  "ep_max_in_flight_per_worker (clamp_limits p) = min (max (ep_max_in_flight_per_worker p) 1) MAX_IN_FLIGHT_PER_WORKER"
  "ep_max_queue_depth (clamp_limits p) = min (max (ep_max_queue_depth p) 1) MAX_QUEUE_DEPTH"
  "ep_idle_ttl_ms (clamp_limits p) = min (max (ep_idle_ttl_ms p) 1000) MAX_IDLE_TTL_MS"
  "ep_min_workers (clamp_limits p) = ep_min_workers p" "ep_reuse_policy (clamp_limits p) = ep_reuse_policy p"
  unfolding clamp_limits_def Let_def by (subst (1 2 3 4 5) clamp_with_warning_pair, simp)+

lemma single_process_fields:
  "ep_mode (single_process p) = ep_mode p" "ep_affinity (single_process p) = ep_affinity p"
  "ep_queue_timeout_ms (single_process p) = ep_queue_timeout_ms p"
  "ep_max_workers (single_process p) = (if ep_mode p \<noteq> Pool then min (ep_max_workers p) 1 else ep_max_workers p)"
  "ep_max_in_flight_per_worker (single_process p) = ep_max_in_flight_per_worker p"
  "ep_max_queue_depth (single_process p) = ep_max_queue_depth p" "ep_idle_ttl_ms (single_process p) = ep_idle_ttl_ms p"
  "ep_reuse_policy (single_process p) = ep_reuse_policy p"
  "ep_min_workers (single_process p) \<le> ep_max_workers (single_process p)"
  by (simp_all add: single_process_def Let_def)

lemma required_affinity_fields:
  "ep_mode (required_affinity p) = ep_mode p" "ep_queue_timeout_ms (required_affinity p) = ep_queue_timeout_ms p"
  "ep_max_workers (required_affinity p) = ep_max_workers p" "ep_min_workers (required_affinity p) = ep_min_workers p"
  "ep_max_in_flight_per_worker (required_affinity p) = ep_max_in_flight_per_worker p"
  "ep_max_queue_depth (required_affinity p) = ep_max_queue_depth p"
  "ep_idle_ttl_ms (required_affinity p) = ep_idle_ttl_ms p" "ep_reuse_policy (required_affinity p) = ep_reuse_policy p"
  by (simp_all add: required_affinity_def Let_def)

lemma normalize_affinity_fields:
  "ep_mode (normalize_affinity p) = ep_mode p" "ep_queue_timeout_ms (normalize_affinity p) = ep_queue_timeout_ms p"
  "ep_max_workers (normalize_affinity p) = ep_max_workers p" "ep_min_workers (normalize_affinity p) = ep_min_workers p"
  "ep_max_in_flight_per_worker (normalize_affinity p) = ep_max_in_flight_per_worker p"
  "ep_max_queue_depth (normalize_affinity p) = ep_max_queue_depth p"
  "ep_idle_ttl_ms (normalize_affinity p) = ep_idle_ttl_ms p" "ep_reuse_policy (normalize_affinity p) = ep_reuse_policy p"
  "ep_affinity (normalize_affinity p) =
     sorted_unique (filter is_supported_affinity (map normalize_affinity_token (ep_affinity p)))"
  by (simp_all add: normalize_affinity_def)

lemma check_reuse_fields:
  "ep_mode (check_reuse p) = ep_mode p" "ep_queue_timeout_ms (check_reuse p) = ep_queue_timeout_ms p"
  "ep_max_workers (check_reuse p) = ep_max_workers p" "ep_min_workers (check_reuse p) = ep_min_workers p"
  "ep_max_in_flight_per_worker (check_reuse p) = ep_max_in_flight_per_worker p"
  "ep_max_queue_depth (check_reuse p) = ep_max_queue_depth p" "ep_idle_ttl_ms (check_reuse p) = ep_idle_ttl_ms p"
  "ep_affinity (check_reuse p) = ep_affinity p"
  by (simp_all add: check_reuse_def Let_def)

lemmas policy_fields = clamp_limits_fields single_process_fields(1-8) required_affinity_fields normalize_affinity_fields(1-8)
  check_reuse_fields

lemma for_mode_reuse: "ep_reuse_policy (for_mode m) \<in> set allowed_reuse"
  by (cases m) (simp_all add: for_mode_def allowed_reuse_def)

lemma check_reuse_allowed: "ep_reuse_policy (check_reuse p) \<in> set allowed_reuse"
  by (simp add: check_reuse_def Let_def for_mode_reuse)

lemma normalize_policy_bounded: "policy_bounded (normalize_policy p)"
proof (cases "ep_mode p = Disabled \<or> ep_max_workers p = 0 \<or> ep_max_in_flight_per_worker p = 0")
  case True
  then show ?thesis by (simp add: policy_bounded_def normalize_policy_def Let_def normalize_affinity_fields)
next
  case False
  define q where "q = required_affinity (single_process (clamp_limits (normalize_affinity p)))"
  have eq: "normalize_policy p = check_reuse (normalize_affinity q)"
    using False by (simp add: normalize_policy_def Let_def normalize_affinity_fields q_def)
  have aff: "list_all is_supported_affinity (ep_affinity (normalize_affinity q))" "distinct (ep_affinity (normalize_affinity q))"
    by (simp_all add: normalize_affinity_fields sorted_unique_spec list_all_iff)
  have "ep_min_workers q \<le> ep_max_workers q"
    by (simp add: q_def required_affinity_fields single_process_fields(9))
  moreover have "ep_mode q = ep_mode p" "1 \<le> ep_max_workers q" "ep_max_workers q \<le> 64"
      "ep_mode p \<noteq> Pool \<longrightarrow> ep_max_workers q = 1"
      "1 \<le> ep_max_in_flight_per_worker q" "ep_max_in_flight_per_worker q \<le> 64" "1 \<le> ep_max_queue_depth q"
      "ep_max_queue_depth q \<le> 10000" "1000 \<le> ep_idle_ttl_ms q" "ep_idle_ttl_ms q \<le> 86400000" "ep_queue_timeout_ms q \<le> 300000"
    using False by (simp_all add: q_def policy_fields policy_limits)
  ultimately show ?thesis
    unfolding policy_bounded_def eq using False aff check_reuse_allowed [of "normalize_affinity q"]
    by (simp add: check_reuse_fields normalize_affinity_fields(1-8))
qed

lemma bounded_capacity: "policy_bounded p \<Longrightarrow> effective_capacity p transport \<le> 64 * 64"
proof -
  assume b: "policy_bounded p"
  have "worker_limit p \<le> 64" "effective_max_in_flight_per_worker p transport \<le> 64"
    using b by (auto simp: policy_bounded_def worker_limit_def effective_max_in_flight_per_worker_def split: execution_mode.splits)
  then have "worker_limit p * effective_max_in_flight_per_worker p transport \<le> 64 * 64" by (rule mult_le_mono)
  then show ?thesis by (simp add: effective_capacity_def)
qed

lemma bounded_capacity_zero: "policy_bounded p \<Longrightarrow> effective_capacity p transport = 0 \<longleftrightarrow> is_disabled p"
  by (auto simp: policy_bounded_def effective_capacity_def worker_limit_def effective_max_in_flight_per_worker_def
      is_disabled_def uint_max_def split: execution_mode.splits)

lemma resolved_bounded: "policy_bounded (resolve_with_canonical d c s f)"
  by (simp add: resolve_with_canonical_def Let_def normalize_policy_bounded)

section \<open>Properties of the resolved policy\<close>

text \<open>Whatever the configuration says, the resolved policy is within the safety limits: it is disabled with nothing to
  run, or has between 1 and 64 workers (one unless it is a pool) with between 1 and 64 requests each, bounded queue, idle
  time and timeout, a known reuse policy and known affinities; its capacity is at most 4096, and zero exactly when it is
  disabled.\<close>

lemma resolved_policy_bounded:
  "let p = resolve_with_canonical defaults canonical server fallback
   in policy_bounded p \<and> effective_capacity p transport \<le> 4096 \<and> (effective_capacity p transport = 0) = is_disabled p"
  using resolved_bounded [of defaults canonical server fallback] bounded_capacity bounded_capacity_zero
  by (simp add: Let_def)

text \<open>A canonical policy that disables a server is final: no root default and no server setting makes it run.\<close>

lemma canonical_disable_final:
  assumes "canonical_policy_disabled c"
  shows "ep_mode (resolve_with_canonical defaults (Some c) server fallback) = Disabled \<and>
    effective_capacity (resolve_with_canonical defaults (Some c) server fallback) transport = 0"
proof -
  let ?p = "resolve_with_canonical defaults (Some c) server fallback"
  have "ep_mode ?p = Disabled"
    using assms by (simp add: resolve_with_canonical_def Let_def normalize_policy_def normalize_affinity_fields for_mode_def)
  then show ?thesis using bounded_capacity_zero [OF resolved_bounded] by (simp add: is_disabled_def)
qed

section \<open>Isolation by the fingerprint\<close>

lemma hex_char_digit: "d < 16 \<Longrightarrow> code (hex_char d) = (if d < 10 then 48 + d else 87 + d)"
proof -
  assume "d < 16"
  then have "d \<in> set [0..<16]" by simp
  then show ?thesis by (simp add: hex_char_def code_def upt_conv_Cons) (elim disjE; simp)
qed

lemma hex_char_inj: "a < 16 \<Longrightarrow> b < 16 \<Longrightarrow> hex_char a = hex_char b \<longleftrightarrow> a = b"
proof
  assume a: "a < 16" "b < 16" "hex_char a = hex_char b"
  then have "code (hex_char a) = code (hex_char b)" by simp
  then show "a = b" unfolding hex_char_digit [OF a(1)] hex_char_digit [OF a(2)] by (simp split: if_splits)
qed simp

lemma hex_digits_inj: "m < 16 ^ k \<Longrightarrow> n < 16 ^ k \<Longrightarrow> hex_digits k m = hex_digits k n \<longleftrightarrow> m = n"
proof (induction k arbitrary: m n)
  case (Suc k)
  have "hex_digits (Suc k) m = hex_digits (Suc k) n \<longleftrightarrow> m div 16 = n div 16 \<and> m mod 16 = n mod 16"
    using Suc.IH [of "m div 16" "n div 16"] Suc.prems by (simp add: hex_char_inj less_mult_imp_div_less mult.commute)
  then show ?case by (metis div_mult_mod_eq)
qed simp

lemma hex_digits_set: "c \<in> set (hex_digits k n) \<Longrightarrow> is_digit c \<or> is_lower c"
proof (induction k arbitrary: n)
  case (Suc k)
  have "is_digit (hex_char (n mod 16)) \<or> is_lower (hex_char (n mod 16))"
    using hex_char_digit [of "n mod 16"] by (auto simp: is_digit_def is_lower_def)
  then show ?case using Suc by auto
qed simp

lemma append_sep_inj:
  fixes c :: char
  shows "c \<notin> set a \<Longrightarrow> c \<notin> set b \<Longrightarrow> a @ c # r = b @ c # s \<Longrightarrow> a = b \<and> r = s"
proof -
  assume a: "c \<notin> set a" "c \<notin> set b" "a @ c # r = b @ c # s"
  then have "split_once c (a @ c # r) = Some (a, r)" "split_once c (a @ c # r) = Some (b, s)"
    by (simp_all add: split_once_Some)
  then show ?thesis by simp
qed

text \<open>Two values have the same fingerprint only when they have the same length and digest.\<close>

lemma fingerprint_text_eq:
  "fingerprint_text digest v = fingerprint_text digest w \<Longrightarrow> length v = length w \<and> digest v = digest w"
proof -
  assume "fingerprint_text digest v = fingerprint_text digest w"
  then have "show_nat (length v) @ CHR ''-'' # ''hash'' @ hex_digits 16 (unat (digest v)) =
      show_nat (length w) @ CHR ''-'' # ''hash'' @ hex_digits 16 (unat (digest w))"
    by (simp add: fingerprint_text_def)
  moreover have "CHR ''-'' \<notin> set (show_nat n)" for n by (simp add: show_nat_no_char is_digit_def code_def)
  ultimately have "show_nat (length v) = show_nat (length w) \<and>
      ''hash'' @ hex_digits 16 (unat (digest v)) = ''hash'' @ hex_digits 16 (unat (digest w))"
    by (intro append_sep_inj)
  then have "length v = length w" "hex_digits 16 (unat (digest v)) = hex_digits 16 (unat (digest w))" by simp_all
  moreover have "unat x < 16 ^ 16" for x :: "64 word" using unsigned_less [of x] by simp
  ultimately show ?thesis using hex_digits_inj by (metis word_unat_eq_iff)
qed

lemma fingerprint_text_no_bar: "CHR ''|'' \<notin> set (fingerprint_text digest v)"
proof -
  have bar: "\<not> is_digit (CHR ''|'')" "\<not> is_lower (CHR ''|'')" by (simp_all add: is_digit_def is_lower_def code_def)
  have "CHR ''|'' \<notin> set (hex_digits 16 n)" for n using hex_digits_set [of "CHR ''|''" 16 n] bar by blast
  then show ?thesis using show_nat_no_char [OF bar(1)] by (simp add: fingerprint_text_def)
qed

lemma supported_dimension: "is_supported_affinity d \<Longrightarrow> CHR ''='' \<notin> set d \<and> CHR ''|'' \<notin> set d"
  by (auto simp: is_supported_affinity_def)

lemma protect_value:
  "is_supported_affinity d \<Longrightarrow> protect digest (d @ CHR ''='' # v) = d @ CHR ''='' # fingerprint_text digest v"
  using supported_dimension [of d] split_once_Some [of "CHR ''=''" "d @ CHR ''='' # v" d v] by (simp add: protect_def)

lemma split_join:
  "xs \<noteq> [] \<Longrightarrow> \<forall>x \<in> set xs. c \<notin> set x \<Longrightarrow> split_char c (join [c] xs) = xs"
proof (induction xs)
  case (Cons x xs)
  then show ?case by (cases xs) (auto simp: split_char_none split_char_append)
qed simp

lemma collect_values_nth:
  "collect_values value m ds = Inr vs \<Longrightarrow>
     length vs = length ds \<and> (\<forall>i < length ds. \<exists>v. value (ds ! i) = Some v \<and> vs ! i = ds ! i @ ''='' @ v)"
proof (induction ds arbitrary: vs)
  case (Cons d ds)
  then obtain v ws where "value d = Some v" "collect_values value m ds = Inr ws" "vs = (d @ ''='' @ v) # ws"
    by (auto split: option.splits sum.splits)
  then show ?case using Cons.IH [of ws] by (auto simp: All_less_Suc2)
qed simp

text \<open>Requests with the same fingerprint agree on every dimension of the policy, up to a collision of the digest.\<close>

lemma same_fingerprint_same_dimension:
  assumes aff: "list_all is_supported_affinity (ep_affinity p)" and d: "d \<in> set (ep_affinity p)"
    and k1: "affinity_key digest compact p c1 = Inr k1" and k2: "affinity_key digest compact p c2 = Inr k2"
    and same: "ak_fingerprint k1 = ak_fingerprint k2"
  shows "\<exists>v w. dimension_value digest compact c1 d = Some v \<and> dimension_value digest compact c2 d = Some w \<and>
    length v = length w \<and> digest v = digest w"
proof -
  obtain vs where vs: "collect_values (dimension_value digest compact c1) (ep_mode p) (ep_affinity p) = Inr vs"
    using k1 by (auto simp: affinity_key_def split: sum.splits)
  obtain ws where ws: "collect_values (dimension_value digest compact c2) (ep_mode p) (ep_affinity p) = Inr ws"
    using k2 by (auto simp: affinity_key_def split: sum.splits)
  note nv = collect_values_nth [OF vs] and nw = collect_values_nth [OF ws]
  have ne: "vs \<noteq> []" "ws \<noteq> []" using d nv nw by auto
  have "join ''|'' (map (protect digest) vs) = join ''|'' (map (protect digest) ws)"
    using k1 k2 same ne by (auto simp: affinity_key_def vs ws Let_def)
  moreover have "\<forall>x \<in> set (map (protect digest) us). CHR ''|'' \<notin> set x"
    if us: "length us = length (ep_affinity p)"
      "\<forall>i < length (ep_affinity p). \<exists>v. us ! i = ep_affinity p ! i @ ''='' @ v" for us
  proof
    fix x assume "x \<in> set (map (protect digest) us)"
    then obtain i where i: "i < length us" "x = protect digest (us ! i)" by (auto simp: in_set_conv_nth)
    then obtain v where "us ! i = ep_affinity p ! i @ ''='' @ v" using us by auto
    moreover have "is_supported_affinity (ep_affinity p ! i)" using aff i us(1) by (simp add: list_all_length)
    ultimately show "CHR ''|'' \<notin> set x"
      using i(2) supported_dimension fingerprint_text_no_bar [of digest v] by (simp add: protect_value)
  qed
  ultimately have eq: "map (protect digest) vs = map (protect digest) ws"
    using split_join [of "map (protect digest) vs" "CHR ''|''"] split_join [of "map (protect digest) ws" "CHR ''|''"] ne nv nw
    by (metis map_is_Nil_conv)
  obtain i where i: "i < length (ep_affinity p)" "ep_affinity p ! i = d" using d by (auto simp: in_set_conv_nth)
  obtain v w where v: "dimension_value digest compact c1 d = Some v" "vs ! i = d @ ''='' @ v"
      "dimension_value digest compact c2 d = Some w" "ws ! i = d @ ''='' @ w"
    using nv nw i by metis
  have "is_supported_affinity d" using aff d by (simp add: list_all_iff)
  moreover have "protect digest (vs ! i) = protect digest (ws ! i)"
    using arg_cong [OF eq, of "\<lambda>l. l ! i"] i(1) nv nw by simp
  ultimately have "fingerprint_text digest v = fingerprint_text digest w" using v by (simp add: protect_value)
  then show ?thesis using v fingerprint_text_eq by blast
qed

lemma set_sorted_unique_affinity:
  "a \<in> set (ep_affinity p) \<Longrightarrow> normalize_affinity_token a = b \<Longrightarrow> is_supported_affinity b \<Longrightarrow>
   b \<in> set (ep_affinity (normalize_affinity p))"
  by (force simp: normalize_affinity_fields sorted_unique_spec)

lemma project_token: "normalize_affinity_token ''project'' = ''project''" "is_supported_affinity ''project''"
  "sorted_unique [''project''] = [''project'']"
  by code_simp+

lemma project_isolated_affinity:
  assumes "ep_mode (normalize_policy p) = ProjectIsolated"
  shows "''project'' \<in> set (ep_affinity (normalize_policy p))"
proof -
  define q where "q = single_process (clamp_limits (normalize_affinity p))"
  have run: "\<not> (ep_mode p = Disabled \<or> ep_max_workers p = 0 \<or> ep_max_in_flight_per_worker p = 0)"
    using assms by (auto simp: normalize_policy_def Let_def normalize_affinity_fields split: if_splits)
  then have eq: "normalize_policy p = check_reuse (normalize_affinity (required_affinity q))"
    by (simp add: normalize_policy_def Let_def normalize_affinity_fields q_def)
  then have m: "ep_mode q = ProjectIsolated" using assms by (simp add: policy_fields)
  note tok = project_token(1) and sup = project_token(2)
  have "''project'' \<in> set (ep_affinity (required_affinity q))"
    using m tok by (auto simp: required_affinity_def Let_def has_affinity_def)
  then show ?thesis using set_sorted_unique_affinity [OF _ tok sup] by (simp add: eq check_reuse_fields)
qed

text \<open>Project isolation. Under a normalised project-isolated policy two requests get the same worker fingerprint only
  if both name a project root and the two roots are the same, unless their 64-bit digests collide.\<close>

lemma project_isolation:
  assumes "ep_mode (normalize_policy p) = ProjectIsolated"
    and "affinity_key digest compact (normalize_policy p) c1 = Inr k1"
    and "affinity_key digest compact (normalize_policy p) c2 = Inr k2"
    and "ak_fingerprint k1 = ak_fingerprint k2"
    and "\<And>v w. trimmed (ac_project_root c1) = Some v \<Longrightarrow> trimmed (ac_project_root c2) = Some w \<Longrightarrow>
       digest v = digest w \<Longrightarrow> length v = length w \<Longrightarrow> v = w"
  shows "trimmed (ac_project_root c1) \<noteq> None \<and> trimmed (ac_project_root c1) = trimmed (ac_project_root c2)"
proof -
  have "list_all is_supported_affinity (ep_affinity (normalize_policy p))"
    using normalize_policy_bounded [of p] by (auto simp: policy_bounded_def)
  from same_fingerprint_same_dimension [OF this project_isolated_affinity [OF assms(1)] assms(2-4)] assms(5)
  show ?thesis by (auto simp: dimension_value_def)
qed

definition project_context :: "string \<Rightarrow> execution_affinity_context" where
  "project_context root = \<lparr>ac_client_id = None, ac_session_id = None, ac_project_root = Some root, ac_transport = None,
     ac_metadata = None\<rparr>"

lemma project_preset: "ep_mode (normalize_policy (for_mode ProjectIsolated)) = ProjectIsolated"
  "ep_affinity (normalize_policy (for_mode ProjectIsolated)) = [''project'']"
proof -
  let ?p = "normalize_affinity (for_mode ProjectIsolated)"
  have aff: "ep_affinity ?p = [''project'']" by (simp add: normalize_affinity_fields for_mode_def project_token)
  have m: "ep_mode ?p = ProjectIsolated" by (simp add: normalize_affinity_fields for_mode_def)
  have "required_affinity (single_process (clamp_limits ?p)) = single_process (clamp_limits ?p)"
    using aff m by (simp add: required_affinity_def has_affinity_def policy_fields project_token)
  then have "normalize_policy (for_mode ProjectIsolated) = check_reuse (normalize_affinity (single_process (clamp_limits ?p)))"
    by (simp add: normalize_policy_def Let_def normalize_affinity_fields for_mode_def)
  then show "ep_mode (normalize_policy (for_mode ProjectIsolated)) = ProjectIsolated"
      "ep_affinity (normalize_policy (for_mode ProjectIsolated)) = [''project'']"
    using aff m by (simp_all add: policy_fields normalize_affinity_fields(9) project_token)
qed

lemma project_context_key:
  "\<exists>k. affinity_key digest compact (normalize_policy (for_mode ProjectIsolated)) (project_context ''/srv/a'') = Inr k \<and>
     affinity_key digest compact (normalize_policy (for_mode ProjectIsolated)) (project_context '' /srv/a '') = Inr k"
proof -
  have "trim ''/srv/a'' = ''/srv/a''" "trim '' /srv/a '' = ''/srv/a''" by code_simp+
  then show ?thesis
    by (simp add: affinity_key_def project_preset dimension_value_def project_context_def trimmed_def
        trimmed_non_empty_owned_def Let_def default_transport_def)
qed

end
