(* ===== verification/Mcp_Protocol.thy ===== *)
theory Mcp_Protocol
  imports Json Net_Text
begin

text \<open>
  JSON-RPC and MCP envelopes (\<^verbatim>\<open>src/mcp_protocol.rs\<close>): protocol versions, request ids and their keys, building
  of results and errors, and the validation of requests and responses. The results are that what the code builds it
  also accepts, and that the keys of request ids are faithful.
\<close>

section \<open>Constants and errors\<close>

definition CURRENT_PROTOCOL_VERSION :: string where
  "CURRENT_PROTOCOL_VERSION = ''2025-11-25''"

definition SUPPORTED_PROTOCOL_VERSIONS :: "string list" where
  "SUPPORTED_PROTOCOL_VERSIONS = [''2025-11-25'', ''2025-06-18'', ''2025-03-26'', ''2024-11-05'']"

definition JSONRPC_VERSION :: string where
  "JSONRPC_VERSION = ''2.0''"

definition ERROR_PARSE :: int where "ERROR_PARSE = -32700"

definition ERROR_INVALID_REQUEST :: int where "ERROR_INVALID_REQUEST = -32600"

definition ERROR_METHOD_NOT_FOUND :: int where "ERROR_METHOD_NOT_FOUND = -32601"

definition ERROR_INVALID_PARAMS :: int where "ERROR_INVALID_PARAMS = -32602"

definition ERROR_INTERNAL :: int where "ERROR_INTERNAL = -32603"

datatype mcp_protocol_error =
    MessageNotObject
  | JsonRpcVersionMismatch "string option"
  | MethodMissing
  | MethodNotString
  | MethodEmpty
  | ParamsNotObject
  | IdMustBeIntegerNumber
  | IdMustNotBeNull
  | IdMustBeStringOrInteger
  | ArgumentsNotObject string
  | ResponseJsonRpcVersionMismatch "string option"
  | ResponseIdMismatch int
  | ResponseHasBothResultAndError
  | ResponseMissingResultOrError
  | ResponseErrorNotObject

definition show_int :: "int \<Rightarrow> string" where
  "show_int n = (if n < 0 then ''-'' else []) @ show_nat (nat (abs n))"

definition squote :: "string \<Rightarrow> string" where
  "squote s = [CHR 0x27] @ s @ [CHR 0x27]"

definition declares :: "string \<Rightarrow> string" where
  "declares what = ''JSON-RPC '' @ what @ '' must declare jsonrpc '' @ [CHR 0x22] @ ''2.0'' @ [CHR 0x22]"

fun mcp_protocol_error_display :: "mcp_protocol_error \<Rightarrow> string" where
  "mcp_protocol_error_display MessageNotObject = ''JSON-RPC message must be an object''"
| "mcp_protocol_error_display (JsonRpcVersionMismatch (Some actual)) = declares ''request'' @ ''; got '' @ squote actual"
| "mcp_protocol_error_display (JsonRpcVersionMismatch None) = declares ''request''"
| "mcp_protocol_error_display MethodMissing = ''JSON-RPC request requires a method''"
| "mcp_protocol_error_display MethodNotString = ''JSON-RPC method must be a string''"
| "mcp_protocol_error_display MethodEmpty = ''JSON-RPC method must be non-empty''"
| "mcp_protocol_error_display ParamsNotObject = ''MCP params must be a JSON object when present''"
| "mcp_protocol_error_display IdMustBeIntegerNumber = ''JSON-RPC request id must be an integer number when numeric''"
| "mcp_protocol_error_display IdMustNotBeNull = ''JSON-RPC request id must not be null''"
| "mcp_protocol_error_display IdMustBeStringOrInteger =
     ''JSON-RPC id must be a string or integer number when present''"
| "mcp_protocol_error_display (ArgumentsNotObject label) = label @ '' arguments must be a JSON object when present''"
| "mcp_protocol_error_display (ResponseJsonRpcVersionMismatch (Some actual)) =
     declares ''response'' @ ''; got '' @ squote actual"
| "mcp_protocol_error_display (ResponseJsonRpcVersionMismatch None) = declares ''response''"
| "mcp_protocol_error_display (ResponseIdMismatch expected) =
     ''JSON-RPC response id does not match request id '' @ show_int expected"
| "mcp_protocol_error_display ResponseHasBothResultAndError =
     ''JSON-RPC response cannot contain both result and error''"
| "mcp_protocol_error_display ResponseMissingResultOrError =
     ''JSON-RPC response must contain exactly one of result or error''"
| "mcp_protocol_error_display ResponseErrorNotObject = ''JSON-RPC response error must be an object''"

section \<open>Versions, methods and ids\<close>

definition is_supported_protocol_version :: "string \<Rightarrow> bool" where
  "is_supported_protocol_version requested \<longleftrightarrow> requested \<in> set SUPPORTED_PROTOCOL_VERSIONS"

definition method_is_notification :: "string \<Rightarrow> bool" where
  "method_is_notification m = starts_with m ''notifications/''"

definition negotiate_protocol_version :: "string \<Rightarrow> string" where
  "negotiate_protocol_version requested =
     (case find (\<lambda>candidate. candidate = requested) SUPPORTED_PROTOCOL_VERSIONS of
        Some v \<Rightarrow> v | None \<Rightarrow> CURRENT_PROTOCOL_VERSION)"

definition MAX_REQUEST_ID_BYTES :: nat where
  "MAX_REQUEST_ID_BYTES = 256"

definition request_id :: "json \<Rightarrow> json option" where
  "request_id message = value_at_path message [''id'']"

definition is_integer_number_text :: "string \<Rightarrow> bool" where
  "is_integer_number_text v =
     (let digits = (case strip_prefix ''-'' v of Some r \<Rightarrow> r | None \<Rightarrow> v)
      in digits \<noteq> [] \<and> list_all is_digit digits)"

fun request_id_key :: "json \<Rightarrow> string option" where
  "request_id_key (JString v) = Some (''s:'' @ v)"
| "request_id_key (JNumber v) = (if is_integer_number_text v then Some (''n:'' @ v) else None)"
| "request_id_key _ = None"

fun request_id_byte_len :: "json \<Rightarrow> nat option" where
  "request_id_byte_len (JString v) = Some (length v)"
| "request_id_byte_len (JNumber v) = (if is_integer_number_text v then Some (length v) else None)"
| "request_id_byte_len _ = None"

definition request_id_is_within_limit :: "json \<Rightarrow> bool" where
  "request_id_is_within_limit v =
     (case request_id_byte_len v of Some n \<Rightarrow> n \<le> MAX_REQUEST_ID_BYTES | None \<Rightarrow> False)"

fun is_request_id_value :: "json \<Rightarrow> bool" where
  "is_request_id_value (JString _) = True"
| "is_request_id_value (JNumber v) = is_integer_number_text v"
| "is_request_id_value _ = False"

definition request_id_or_null :: "json \<Rightarrow> json" where
  "request_id_or_null message = (case request_id message of Some v \<Rightarrow> v | None \<Rightarrow> JNull)"

section \<open>Messages\<close>

definition rpc_result :: "json \<Rightarrow> json \<Rightarrow> json" where
  "rpc_result rid res = json_object [(''jsonrpc'', JString JSONRPC_VERSION), (''id'', rid), (''result'', res)]"

definition rpc_error :: "json \<Rightarrow> int \<Rightarrow> string \<Rightarrow> json option \<Rightarrow> json" where
  "rpc_error rid error_code message data =
     (let error_value =
            (case data of
               Some v \<Rightarrow> json_object [(''code'', JNumber (show_int error_code)), (''message'', JString message), (''data'', v)]
             | None \<Rightarrow> json_object [(''code'', JNumber (show_int error_code)), (''message'', JString message)])
      in json_object [(''jsonrpc'', JString JSONRPC_VERSION), (''id'', rid), (''error'', error_value)])"

definition check_version ::
  "(string option \<Rightarrow> mcp_protocol_error) \<Rightarrow> json_map \<Rightarrow> mcp_protocol_error option" where
  "check_version mismatch m =
     (case Option.bind (map_of m ''jsonrpc'') as_str of
        Some v \<Rightarrow> if v = JSONRPC_VERSION then None else Some (mismatch (Some v))
      | None \<Rightarrow> Some (mismatch None))"

definition check_method :: "json_map \<Rightarrow> mcp_protocol_error option" where
  "check_method m =
     (case map_of m ''method'' of
        Some (JString v) \<Rightarrow> if trim v \<noteq> [] then None else Some MethodEmpty
      | Some _ \<Rightarrow> Some MethodNotString
      | None \<Rightarrow> Some MethodMissing)"

definition check_params :: "json_map \<Rightarrow> mcp_protocol_error option" where
  "check_params m =
     (case map_of m ''params'' of
        None \<Rightarrow> None
      | Some (JObject _) \<Rightarrow> None
      | Some _ \<Rightarrow> Some ParamsNotObject)"

definition check_id :: "json_map \<Rightarrow> mcp_protocol_error option" where
  "check_id m =
     (case map_of m ''id'' of
        None \<Rightarrow> None
      | Some (JString _) \<Rightarrow> None
      | Some (JNumber v) \<Rightarrow> if is_integer_number_text v then None else Some IdMustBeIntegerNumber
      | Some JNull \<Rightarrow> Some IdMustNotBeNull
      | Some _ \<Rightarrow> Some IdMustBeStringOrInteger)"

definition first_error :: "'e option list \<Rightarrow> 'e + unit" where
  "first_error checks = (case List.map_filter (\<lambda>c. c) checks of [] \<Rightarrow> Inr () | e # _ \<Rightarrow> Inl e)"

definition validate_request_envelope :: "json \<Rightarrow> mcp_protocol_error + unit" where
  "validate_request_envelope message =
     (case as_object message of
        None \<Rightarrow> Inl MessageNotObject
      | Some m \<Rightarrow> first_error [check_version JsonRpcVersionMismatch m, check_method m, check_params m, check_id m])"

definition check_response_id :: "int \<Rightarrow> json_map \<Rightarrow> mcp_protocol_error option" where
  "check_response_id expected_id m =
     (case Option.bind (map_of m ''id'') as_i64 of
        Some rid \<Rightarrow> if rid = expected_id then None else Some (ResponseIdMismatch expected_id)
      | None \<Rightarrow> Some (ResponseIdMismatch expected_id))"

definition check_outcome :: "json_map \<Rightarrow> mcp_protocol_error option" where
  "check_outcome m =
     (case (map_of m ''result'' \<noteq> None, map_of m ''error'') of
        (True, Some _) \<Rightarrow> Some ResponseHasBothResultAndError
      | (False, None) \<Rightarrow> Some ResponseMissingResultOrError
      | (False, Some (JObject _)) \<Rightarrow> None
      | (True, None) \<Rightarrow> None
      | (False, Some _) \<Rightarrow> Some ResponseErrorNotObject)"

definition validate_response_envelope :: "json \<Rightarrow> int \<Rightarrow> mcp_protocol_error + unit" where
  "validate_response_envelope message expected_id =
     (case as_object message of
        None \<Rightarrow> Inl MessageNotObject
      | Some m \<Rightarrow>
          first_error [check_version ResponseJsonRpcVersionMismatch m, check_response_id expected_id m, check_outcome m])"

definition params_arguments_object_or_empty :: "json \<Rightarrow> string \<Rightarrow> mcp_protocol_error + json" where
  "params_arguments_object_or_empty message label =
     (case value_at_path message [''params'', ''arguments''] of
        Some (JObject m) \<Rightarrow> Inr (JObject m)
      | Some JNull \<Rightarrow> Inr empty_object
      | None \<Rightarrow> Inr empty_object
      | Some _ \<Rightarrow> Inl (ArgumentsNotObject label))"

definition tool_call_arguments_or_empty :: "json \<Rightarrow> mcp_protocol_error + json" where
  "tool_call_arguments_or_empty message = params_arguments_object_or_empty message ''tools/call''"

section \<open>Lemmas\<close>

lemma first_error_simps [simp]:
  "first_error [] = Inr ()" "first_error (Some e # cs) = Inl e" "first_error (None # cs) = first_error cs"
  by (simp_all add: first_error_def List.map_filter_simps)

lemma negotiate_supported: "is_supported_protocol_version (negotiate_protocol_version v)"
  by (simp add: negotiate_protocol_version_def is_supported_protocol_version_def SUPPORTED_PROTOCOL_VERSIONS_def
      CURRENT_PROTOCOL_VERSION_def)

lemma negotiate_keeps: "is_supported_protocol_version v \<Longrightarrow> negotiate_protocol_version v = v"
  by (auto simp: negotiate_protocol_version_def is_supported_protocol_version_def SUPPORTED_PROTOCOL_VERSIONS_def)

lemma parse_i64_show_int: "- (2 ^ 63) \<le> n \<Longrightarrow> n < 2 ^ 63 \<Longrightarrow> parse_i64 (show_int n) = Some n"
proof (cases "n < 0")
  case True
  assume "- (2 ^ 63) \<le> n"
  then have "nat (abs n) \<le> 2 ^ 63" using True by (simp add: nat_le_iff)
  then show ?thesis
    using True show_nat_digits [of "nat (abs n)"] by (simp add: show_int_def parse_i64_def)
next
  case False
  assume "n < 2 ^ 63"
  then have "nat (abs n) < 2 ^ 63" using False by (simp add: nat_less_iff)
  then show ?thesis using False by (simp add: show_int_def)
qed

lemma request_id_key_valid: "request_id_key v \<noteq> None \<longleftrightarrow> is_request_id_value v"
  by (cases v) auto

lemma request_id_key_length: "request_id_key v = Some k \<Longrightarrow> request_id_byte_len v = Some (length k - 2) \<and> 2 \<le> length k"
  by (cases v) (auto split: if_splits)

section \<open>Properties\<close>

text \<open>The keys of request ids are faithful: two ids have the same key only if they are the same id, so a string and a
  number never collide; an id has a key exactly when it is a valid id; and the key of an id within the size limit fits
  the storage limit of the session store.\<close>

lemma request_id_key_faithful:
  assumes "request_id_key a = Some k"
  shows "(request_id_key b = Some k \<longleftrightarrow> a = b) \<and> is_request_id_value a \<and>
    (request_id_is_within_limit a \<longleftrightarrow> length k \<le> 256 + 2)"
proof -
  have inj: "request_id_key b = Some k \<longleftrightarrow> a = b"
    using assms by (cases a; cases b) (auto split: if_splits)
  have "is_request_id_value a" using assms request_id_key_valid [of a] by simp
  moreover have "request_id_is_within_limit a \<longleftrightarrow> length k \<le> 256 + 2"
    using request_id_key_length [OF assms] by (auto simp: request_id_is_within_limit_def MAX_REQUEST_ID_BYTES_def)
  ultimately show ?thesis using inj by simp
qed

text \<open>What the code answers, it accepts. A result or an error built for a 64-bit request id passes the validation of
  the response to that id, and to no other.\<close>

lemma built_responses_validate:
  assumes "- (2 ^ 63) \<le> n" "n < 2 ^ 63"
  shows "(validate_response_envelope (rpc_result (JNumber (show_int n)) r) m = Inr () \<longleftrightarrow> n = m) \<and>
    (validate_response_envelope (rpc_error (JNumber (show_int n)) c msg data) m = Inr () \<longleftrightarrow> n = m)"
  using parse_i64_show_int [OF assms]
  by (simp add: validate_response_envelope_def rpc_result_def rpc_error_def json_object_def check_version_def
      check_response_id_def check_outcome_def JSONRPC_VERSION_def Let_def split: option.splits)

end
