(* ===== verification/Tool_Cache.thy ===== *)
theory Tool_Cache
  imports Execution_Affinity Hash_Map Mcp_Protocol "HOL-Library.Product_Lexorder"
begin

text \<open>
  The cache of upstream tool lists (\<^verbatim>\<open>src/upstream/tool_cache.rs\<close>): validation of a tools/list result, the
  memory cache with expiry and pruning, the disk cache with its envelope, key hash and file name, and the single-flight
  permits of concurrent loads. The request to the upstream server, the file system and the clocks are arguments; times are
  milliseconds.
\<close>

section \<open>Keys\<close>

definition TOOL_LIST_CACHE_TTL :: nat where "TOOL_LIST_CACHE_TTL = 30 * 1000"

definition TOOL_LIST_CACHE_MAX_ENTRIES :: nat where "TOOL_LIST_CACHE_MAX_ENTRIES = 128"

definition TOOL_LIST_DISK_CACHE_SCHEMA_VERSION :: nat where "TOOL_LIST_DISK_CACHE_SCHEMA_VERSION = 3"

datatype tool_list_cache_key =
  ToolListCacheKey
    (tk_root_path: string) (tk_server_name: string) (tk_settings_modified_ms: nat) (tk_settings_len: nat)
    (tk_server_fingerprint: string)

text \<open>The derived order compares the fields in their order.\<close>

definition key_fields :: "tool_list_cache_key \<Rightarrow> string \<times> string \<times> nat \<times> nat \<times> string" where
  "key_fields k = (tk_root_path k, tk_server_name k, tk_settings_modified_ms k, tk_settings_len k, tk_server_fingerprint k)"

lemma key_fields_inject: "key_fields a = key_fields b \<longleftrightarrow> a = b"
  by (cases a; cases b) (auto simp: key_fields_def)

instantiation tool_list_cache_key :: linorder
begin

definition less_eq_tool_list_cache_key :: "tool_list_cache_key \<Rightarrow> tool_list_cache_key \<Rightarrow> bool" where
  "less_eq_tool_list_cache_key a b \<longleftrightarrow> key_fields a \<le> key_fields b"

definition less_tool_list_cache_key :: "tool_list_cache_key \<Rightarrow> tool_list_cache_key \<Rightarrow> bool" where
  "less_tool_list_cache_key a b \<longleftrightarrow> key_fields a < key_fields b"

instance
  by standard
    (auto simp: less_eq_tool_list_cache_key_def less_tool_list_cache_key_def key_fields_inject not_le intro: less_imp_le
      dest: order_antisym)

end

datatype tool_list_cache_error = RuntimePath string | ClockBeforeUnixEpoch | Upstream string

definition tool_list_cache_error_display :: "tool_list_cache_error \<Rightarrow> string" where
  "tool_list_cache_error_display e =
     (case e of
        RuntimePath error \<Rightarrow> error
      | ClockBeforeUnixEpoch \<Rightarrow> ''system clock is before UNIX epoch''
      | Upstream error \<Rightarrow> error)"

section \<open>Validation\<close>

definition tool_name :: "json \<Rightarrow> string option" where
  "tool_name tool = trimmed_non_empty_owned (string_at_path tool [''name''])"

definition has_object_schema :: "json \<Rightarrow> bool" where
  "has_object_schema tool = (case value_at_path tool [''inputSchema''] of Some (JObject _) \<Rightarrow> True | _ \<Rightarrow> False)"

fun check_tools :: "string \<Rightarrow> nat \<Rightarrow> string list \<Rightarrow> json list \<Rightarrow> tool_list_cache_error + unit" where
  "check_tools server index names [] = Inr ()"
| "check_tools server index names (tool # rest) =
     (case tool_name tool of
        None \<Rightarrow> Inl (Upstream (''upstream server '' @ squote server @ '' tools/list item '' @ show_nat index
                               @ '' has no non-empty name''))
      | Some name \<Rightarrow>
          if name \<in> set names
          then Inl (Upstream (''upstream server '' @ squote server @ '' tools/list returned duplicate tool name '' @ squote name))
          else if \<not> has_object_schema tool
          then Inl (Upstream (''upstream server '' @ squote server @ '' tool '' @ squote name @ '' has no object inputSchema''))
          else check_tools server (Suc index) (insort_insert name names) rest)"

definition validate_tools_list_result :: "string \<Rightarrow> json \<Rightarrow> tool_list_cache_error + json" where
  "validate_tools_list_result server res =
     (case Option.bind (value_at_path res [''tools'']) as_array of
        None \<Rightarrow> Inl (Upstream (''upstream server '' @ squote server @ '' tools/list result must contain a tools array''))
      | Some tools \<Rightarrow>
          (case check_tools server 0 [] tools of Inl e \<Rightarrow> Inl e | Inr _ \<Rightarrow> Inr (JArray tools)))"

section \<open>The memory cache\<close>

record cached_tool_list =
  ct_stored_at :: nat
  ct_tools :: json

type_synonym memory_cache = "(tool_list_cache_key \<times> cached_tool_list) list"

text \<open>The loop removes the oldest entry while there are more than the maximum.\<close>

definition prune_tool_list_cache :: "memory_cache \<Rightarrow> memory_cache" where
  "prune_tool_list_cache cache = evict_oldest ct_stored_at (Suc TOOL_LIST_CACHE_MAX_ENTRIES) cache"

definition read_memory_cached_tools :: "nat \<Rightarrow> tool_list_cache_key \<Rightarrow> memory_cache \<Rightarrow> json option \<times> memory_cache" where
  "read_memory_cached_tools now key cache =
     (case map_of cache key of
        None \<Rightarrow> (None, cache)
      | Some entry \<Rightarrow>
          if now - ct_stored_at entry \<le> TOOL_LIST_CACHE_TTL then (Some (ct_tools entry), cache)
          else (None, bt_remove key cache))"

definition write_memory_cached_tools :: "nat \<Rightarrow> tool_list_cache_key \<Rightarrow> json \<Rightarrow> memory_cache \<Rightarrow> memory_cache" where
  "write_memory_cached_tools now key tools cache =
     prune_tool_list_cache (bt_insert key \<lparr>ct_stored_at = now, ct_tools = tools\<rparr> cache)"

section \<open>The disk cache\<close>

definition fnv_prime :: "64 word" where "fnv_prime = 0x100000001b3"

definition feed_stable_hash :: "64 word \<Rightarrow> string \<Rightarrow> 64 word" where
  "feed_stable_hash h bytes =
     (let h = fold (\<lambda>b h. xor h (of_nat (code b)) * fnv_prime) bytes h
      in xor h 0xff * fnv_prime)"

text \<open>The version of the package is a constant of the build, hence an argument.\<close>

definition disk_cache_key_hash :: "string \<Rightarrow> tool_list_cache_key \<Rightarrow> string" where
  "disk_cache_key_hash version key =
     (let h = 0xcbf29ce484222325;
          h = feed_stable_hash h (tk_root_path key);
          h = feed_stable_hash h (tk_server_name key);
          h = feed_stable_hash h (show_nat (tk_settings_modified_ms key));
          h = feed_stable_hash h (show_nat (tk_settings_len key));
          h = feed_stable_hash h (tk_server_fingerprint key);
          h = feed_stable_hash h version;
          h = feed_stable_hash h CURRENT_PROTOCOL_VERSION
      in hex_digits 16 (unat h))"

text \<open>The scalar values of a text: each starts with a byte that is not a continuation byte.\<close>

definition char_starts :: "string \<Rightarrow> string" where
  "char_starts v = filter (\<lambda>c. code c < 128 \<or> 192 \<le> code c) v"

definition safe_cache_file_stem :: "string \<Rightarrow> string" where
  "safe_cache_file_stem v =
     (let stem = trim_matches (\<lambda>c. c = CHR ''.'' \<or> c = CHR ''_'' \<or> c = CHR ''-'')
                   (take 48 (map (\<lambda>c. if is_alnum c \<or> c = CHR ''-'' \<or> c = CHR ''_'' \<or> c = CHR ''.'' then c else CHR ''_'')
                     (char_starts v)))
      in if stem = [] then ''server'' else stem)"

definition disk_cache_file_name :: "string \<Rightarrow> tool_list_cache_key \<Rightarrow> string" where
  "disk_cache_file_name version key =
     safe_cache_file_stem (tk_server_name key) @ ''-'' @ disk_cache_key_hash version key @ ''.json''"

definition u128_at_path :: "json \<Rightarrow> string list \<Rightarrow> nat option" where
  "u128_at_path value path =
     (case value_at_path value path of
        Some (JNumber v) \<Rightarrow> parse_u128 v
      | Some (JString v) \<Rightarrow> parse_u128 v
      | _ \<Rightarrow> None)"

definition disk_envelope :: "string \<Rightarrow> tool_list_cache_key \<Rightarrow> nat \<Rightarrow> json list \<Rightarrow> json" where
  "disk_envelope version key stored_at items =
     json_object
       [(''schemaVersion'', json_number TOOL_LIST_DISK_CACHE_SCHEMA_VERSION),
        (''storedAtUnixMs'', JString (show_nat stored_at)), (''keyHash'', JString (disk_cache_key_hash version key)),
        (''serverName'', JString (tk_server_name key)), (''mcpaceVersion'', JString version),
        (''mcpProtocolVersion'', JString CURRENT_PROTOCOL_VERSION), (''toolCount'', json_number (length items)),
        (''tools'', JArray items)]"

text \<open>
  The cache directory: its files with distinct names, their type and modification time (if it can be read), and the value
  that \<open>read_json_file\<close> returns (if any). The directory itself may be missing.
\<close>

record dir_file =
  df_name :: string
  df_regular :: bool
  df_modified :: "nat option"
  df_value :: "json option"

type_synonym cache_dir = "dir_file list"

definition dir_value :: "cache_dir option \<Rightarrow> string \<Rightarrow> json option" where
  "dir_value dir name = Option.bind dir (\<lambda>fs. Option.bind (find (\<lambda>f. df_name f = name) fs) df_value)"

definition dir_put :: "dir_file \<Rightarrow> cache_dir \<Rightarrow> cache_dir" where
  "dir_put f dir = f # filter (\<lambda>g. df_name g \<noteq> df_name f) dir"

definition dir_delete :: "(string \<Rightarrow> bool) \<Rightarrow> string list \<Rightarrow> cache_dir \<Rightarrow> cache_dir" where
  "dir_delete removable names dir = filter (\<lambda>f. \<not> (df_name f \<in> set names \<and> removable (df_name f))) dir"

definition has_json_extension :: "string \<Rightarrow> bool" where
  "has_json_extension name =
     (case rsplit_once CHR ''.'' name of
        Some (stem, extension) \<Rightarrow> stem \<noteq> [] \<and> eq_ignore_ascii_case extension ''json''
      | None \<Rightarrow> False)"

text \<open>\<open>prune_disk_tool_cache\<close>: newest first, then by name; what is past the maximum is removed.\<close>

definition disk_order :: "nat \<times> string \<Rightarrow> nat \<times> string \<Rightarrow> bool" where
  "disk_order a b \<longleftrightarrow> fst b < fst a \<or> (fst a = fst b \<and> snd a \<le> snd b)"

fun insert_by :: "('a \<Rightarrow> 'a \<Rightarrow> bool) \<Rightarrow> 'a \<Rightarrow> 'a list \<Rightarrow> 'a list" where
  "insert_by le x [] = [x]"
| "insert_by le x (y # ys) = (if le x y then x # y # ys else y # insert_by le x ys)"

definition cache_files :: "cache_dir \<Rightarrow> (nat \<times> string) list" where
  "cache_files dir =
     List.map_filter
       (\<lambda>f. if df_regular f \<and> has_json_extension (df_name f) then map_option (\<lambda>m. (m, df_name f)) (df_modified f) else None)
       dir"

definition prune_disk_tool_cache :: "(string \<Rightarrow> bool) \<Rightarrow> cache_dir \<Rightarrow> cache_dir" where
  "prune_disk_tool_cache removable dir =
     dir_delete removable
       (map snd (drop TOOL_LIST_CACHE_MAX_ENTRIES (foldr (insert_by disk_order) (cache_files dir) []))) dir"

text \<open>What the environment answers: the package version, the two clocks, whether the directory could be ensured, the file
  system's time of the atomic write or its error, which files can be removed, and the answer of the upstream server.\<close>

record cache_env =
  ce_version :: string
  ce_instant :: nat
  ce_unix :: "nat option"
  ce_ensure_dir :: "string + unit"
  ce_write :: "string + nat"
  ce_removable :: "string \<Rightarrow> bool"
  ce_load :: "string + json"

definition write_disk_cached_tools ::
  "cache_env \<Rightarrow> tool_list_cache_key \<Rightarrow> json \<Rightarrow> cache_dir option \<Rightarrow>
   (tool_list_cache_error + unit) \<times> cache_dir option" where
  "write_disk_cached_tools e key tools dir =
     (case as_array tools of
        None \<Rightarrow> (Inr (), dir)
      | Some items \<Rightarrow>
          (case ce_ensure_dir e of
             Inl error \<Rightarrow> (Inl (RuntimePath error), dir)
           | Inr _ \<Rightarrow>
               (let files = case_option [] id dir
                in case ce_unix e of
                     None \<Rightarrow> (Inl ClockBeforeUnixEpoch, Some files)
                   | Some stored_at \<Rightarrow>
                       (case ce_write e of
                          Inl error \<Rightarrow> (Inl (RuntimePath error), Some files)
                        | Inr modified \<Rightarrow>
                            (Inr (), Some (prune_disk_tool_cache (ce_removable e)
                               (dir_put \<lparr>df_name = disk_cache_file_name (ce_version e) key, df_regular = True,
                                         df_modified = Some modified,
                                         df_value = Some (disk_envelope (ce_version e) key stored_at items)\<rparr> files)))))))"

definition disk_stale :: "nat \<Rightarrow> nat \<Rightarrow> bool" where
  "disk_stale now stored_at \<longleftrightarrow>
     sat_add 128 now (5 * 60 * 1000) < stored_at \<or> sat_add 128 stored_at TOOL_LIST_CACHE_TTL < now"

definition read_disk_cached_tools ::
  "cache_env \<Rightarrow> tool_list_cache_key \<Rightarrow> cache_dir option \<Rightarrow> json option \<times> cache_dir option" where
  "read_disk_cached_tools e key dir =
     (let name = disk_cache_file_name (ce_version e) key
      in case dir_value dir name of
           None \<Rightarrow> (None, dir)
         | Some value \<Rightarrow>
             if Option.bind (value_at_path value [''schemaVersion'']) as_i64 \<noteq> Some (int TOOL_LIST_DISK_CACHE_SCHEMA_VERSION)
             then (None, dir)
             else if string_at_path value [''keyHash''] \<noteq> Some (disk_cache_key_hash (ce_version e) key) then (None, dir)
             else if string_at_path value [''serverName''] \<noteq> Some (tk_server_name key) then (None, dir)
             else (case u128_at_path value [''storedAtUnixMs''] of
                     None \<Rightarrow> (None, dir)
                   | Some stored_at \<Rightarrow>
                       (case ce_unix e of
                          None \<Rightarrow> (None, dir)
                        | Some now \<Rightarrow>
                            if disk_stale now stored_at
                            then (None, map_option (dir_delete (ce_removable e) [name]) dir)
                            else (Option.bind (value_at_path value [''tools''])
                                    (\<lambda>tools. map_option (\<lambda>_. tools) (as_array tools)), dir))))"

type_synonym tool_caches = "memory_cache \<times> cache_dir option"

definition read_cached_tools :: "cache_env \<Rightarrow> tool_list_cache_key \<Rightarrow> tool_caches \<Rightarrow> json option \<times> tool_caches" where
  "read_cached_tools e key st =
     (case st of (cache, dir) \<Rightarrow>
     (case read_memory_cached_tools (ce_instant e) key cache of
        (Some tools, cache') \<Rightarrow> (Some tools, cache', dir)
      | (None, cache') \<Rightarrow>
          (case read_disk_cached_tools e key dir of
             (None, dir') \<Rightarrow> (None, cache', dir')
           | (Some tools, dir') \<Rightarrow>
               (Some tools, write_memory_cached_tools (ce_instant e) key tools cache', dir'))))"

definition write_cached_tools :: "cache_env \<Rightarrow> tool_list_cache_key \<Rightarrow> json \<Rightarrow> tool_caches \<Rightarrow> tool_caches" where
  "write_cached_tools e key tools st =
     (case st of (cache, dir) \<Rightarrow>
        (write_memory_cached_tools (ce_instant e) key tools cache, snd (write_disk_cached_tools e key tools dir)))"

text \<open>\<open>cached_tools_list\<close> when the load permit is granted at once; the waiting for another load is the state machine below.\<close>

definition cached_tools_list ::
  "cache_env \<Rightarrow> string \<Rightarrow> tool_list_cache_key \<Rightarrow> bool \<Rightarrow> tool_caches \<Rightarrow>
   (tool_list_cache_error + json \<times> bool) \<times> tool_caches" where
  "cached_tools_list e server key refresh st =
     (case (if refresh then (None, st) else read_cached_tools e key st) of
        (Some tools, st') \<Rightarrow> (Inr (tools, True), st')
      | (None, st') \<Rightarrow>
          (case ce_load e of
             Inl error \<Rightarrow> (Inl (Upstream error), st')
           | Inr res \<Rightarrow>
               (case validate_tools_list_result server res of
                  Inl error \<Rightarrow> (Inl error, st')
                | Inr tools \<Rightarrow> (Inr (tools, False), write_cached_tools e key tools st'))))"

section \<open>Single flight\<close>

text \<open>Threads that want to load: the set of keys in flight under its lock, and where each thread is.\<close>

datatype load_pc = LoadIdle | LoadHeld tool_list_cache_key | LoadWaiting tool_list_cache_key | LoadRetry tool_list_cache_key

record load_state =
  lo_in_flight :: "tool_list_cache_key set"
  lo_pc :: "nat \<Rightarrow> load_pc"

inductive load_step :: "load_state \<Rightarrow> load_state \<Rightarrow> bool" where
  load_take: "lo_pc s p \<in> {LoadIdle, LoadRetry key} \<Longrightarrow> key \<notin> lo_in_flight s \<Longrightarrow>
     load_step s (s\<lparr>lo_in_flight := insert key (lo_in_flight s), lo_pc := (lo_pc s)(p := LoadHeld key)\<rparr>)"
| load_wait: "lo_pc s p \<in> {LoadIdle, LoadRetry key} \<Longrightarrow> key \<in> lo_in_flight s \<Longrightarrow>
     load_step s (s\<lparr>lo_pc := (lo_pc s)(p := LoadWaiting key)\<rparr>)"
| load_woken: "lo_pc s p = LoadWaiting key \<Longrightarrow> key \<notin> lo_in_flight s \<Longrightarrow>
     load_step s (s\<lparr>lo_pc := (lo_pc s)(p := LoadRetry key)\<rparr>)"
| load_cached: "lo_pc s p = LoadRetry key \<Longrightarrow> load_step s (s\<lparr>lo_pc := (lo_pc s)(p := LoadIdle)\<rparr>)"
| load_drop: "lo_pc s p = LoadHeld key \<Longrightarrow>
     load_step s (s\<lparr>lo_in_flight := lo_in_flight s - {key}, lo_pc := (lo_pc s)(p := LoadIdle)\<rparr>)"

definition load_start :: load_state where
  "load_start = \<lparr>lo_in_flight = {}, lo_pc = (\<lambda>_. LoadIdle)\<rparr>"

definition loaders :: "tool_list_cache_key \<Rightarrow> load_state \<Rightarrow> nat set" where
  "loaders key s = {p. lo_pc s p = LoadHeld key}"

definition load_inv :: "load_state \<Rightarrow> bool" where
  "load_inv s \<longleftrightarrow> (\<forall>key. if key \<in> lo_in_flight s then (\<exists>p. loaders key s = {p}) else loaders key s = {})"

section \<open>Lemmas\<close>

lemma check_tools_ok:
  "check_tools server i names tools = Inr () \<longleftrightarrow>
     (\<forall>tool \<in> set tools. tool_name tool \<noteq> None \<and> has_object_schema tool) \<and>
     distinct (map tool_name tools) \<and> (\<forall>tool \<in> set tools. \<forall>n \<in> set names. tool_name tool \<noteq> Some n)"
proof (induction server i names tools rule: check_tools.induct)
  case (2 server i names tool rest)
  show ?case
  proof (cases "tool_name tool")
    case (Some name)
    show ?thesis
    proof (cases "name \<notin> set names \<and> has_object_schema tool")
      case True
      have "(\<forall>t \<in> set rest. \<forall>n \<in> set (insort_insert name names). tool_name t \<noteq> Some n) \<longleftrightarrow>
          tool_name tool \<notin> tool_name ` set rest \<and> (\<forall>t \<in> set rest. \<forall>n \<in> set names. tool_name t \<noteq> Some n)"
        using Some by (force simp: set_insort_insert)
      then show ?thesis using 2 Some True by auto
    qed (use Some in auto)
  qed simp
qed simp

lemma prune_length: "length (prune_tool_list_cache cache) \<le> TOOL_LIST_CACHE_MAX_ENTRIES"
  using evict_oldest_length [of "Suc TOOL_LIST_CACHE_MAX_ENTRIES" ct_stored_at cache]
  by (simp add: prune_tool_list_cache_def less_Suc_eq_le)

lemma bt_hm_ok: "bt_ok m \<Longrightarrow> hm_ok m"
  by (simp add: hm_ok_def bt_ok_distinct)

lemma prune_bt_ok: "bt_ok cache \<Longrightarrow> bt_ok (prune_tool_list_cache cache)"
  using evict_oldest_sub [of ct_stored_at "Suc TOOL_LIST_CACHE_MAX_ENTRIES" cache] by (auto simp: prune_tool_list_cache_def)

lemma loaders_upd:
  "loaders key (s\<lparr>lo_in_flight := f, lo_pc := (lo_pc s)(p := v)\<rparr>) =
     (if v = LoadHeld key then insert p (loaders key s) else loaders key s - {p})"
  "loaders key (s\<lparr>lo_pc := (lo_pc s)(p := v)\<rparr>) =
     (if v = LoadHeld key then insert p (loaders key s) else loaders key s - {p})"
  by (auto simp: loaders_def)

lemma not_loader: "lo_pc s p \<noteq> LoadHeld key \<Longrightarrow> loaders key s - {p} = loaders key s"
  by (auto simp: loaders_def)

lemma load_inv_frame:
  "load_inv s \<Longrightarrow> (\<And>key. lo_pc s p \<noteq> LoadHeld key) \<Longrightarrow> (\<And>key. v \<noteq> LoadHeld key) \<Longrightarrow>
   load_inv (s\<lparr>lo_pc := (lo_pc s)(p := v)\<rparr>)"
  by (simp add: load_inv_def loaders_upd not_loader)

lemma load_inv_step:
  assumes "load_step s t" "load_inv s"
  shows "load_inv t"
  using assms
proof (induction rule: load_step.induct)
  case (load_take s p key)
  then have "loaders key s = {}" "\<And>k. lo_pc s p \<noteq> LoadHeld k" by (auto simp: load_inv_def)
  then show ?case using load_take.prems by (simp add: load_inv_def loaders_upd not_loader)
next
  case (load_drop s p key)
  then have p: "p \<in> loaders key s" "\<And>k. k \<noteq> key \<Longrightarrow> lo_pc s p \<noteq> LoadHeld k" by (auto simp: loaders_def)
  then have "key \<in> lo_in_flight s" using load_drop.prems by (auto simp: load_inv_def split: if_splits)
  then obtain q where "loaders key s = {q}" using load_drop.prems unfolding load_inv_def by meson
  then have "loaders key s = {p}" using p(1) by simp
  then show ?case using p(2) load_drop.prems by (auto simp: load_inv_def loaders_upd not_loader)
qed (rule load_inv_frame, auto)+

lemma load_reach_inv: "load_step\<^sup>*\<^sup>* load_start s \<Longrightarrow> load_inv s"
proof (induction rule: rtranclp_induct)
  case base
  show ?case by (simp add: load_inv_def load_start_def loaders_def)
qed (rule load_inv_step)

lemma write_memory_facts:
  "length (write_memory_cached_tools now key tools cache) \<le> TOOL_LIST_CACHE_MAX_ENTRIES"
  "bt_ok cache \<Longrightarrow> bt_ok (write_memory_cached_tools now key tools cache)"
  by (simp_all add: write_memory_cached_tools_def prune_length prune_bt_ok)

lemma read_memory_facts:
  "length (snd (read_memory_cached_tools now key cache)) \<le> length cache"
  "bt_ok cache \<Longrightarrow> bt_ok (snd (read_memory_cached_tools now key cache))"
  by (auto simp: read_memory_cached_tools_def length_bt_remove_le split: option.splits)

text \<open>A freshly written entry is what the next read within the time to live returns: it is the youngest, so pruning
  keeps it.\<close>

lemma write_then_read:
  assumes "bt_ok cache" "\<forall>e \<in> set cache. ct_stored_at (snd e) < now" "now \<le> later" "later \<le> now + TOOL_LIST_CACHE_TTL"
  shows "fst (read_memory_cached_tools later key (write_memory_cached_tools now key tools cache)) = Some tools"
proof -
  let ?e = "\<lparr>ct_stored_at = now, ct_tools = tools\<rparr>" and ?n = "Suc TOOL_LIST_CACHE_MAX_ENTRIES"
  let ?m = "bt_insert key ?e cache"
  have ok: "bt_ok ?m" using assms(1) by simp
  have mem: "(key, ?e) \<in> set ?m" using assms(1) by (simp add: set_bt_insert)
  have kept: "(key, ?e) \<in> set (evict_oldest ct_stored_at ?n ?m)"
  proof (rule ccontr)
    assume gone: "(key, ?e) \<notin> set (evict_oldest ct_stored_at ?n ?m)"
    have "?n \<le> length ?m"
    proof (rule ccontr)
      assume "\<not> ?n \<le> length ?m"
      then show False using gone mem evict_oldest_fits [of ?m ?n ct_stored_at] by simp
    qed
    then have "evict_oldest ct_stored_at ?n ?m \<noteq> []"
      using evict_keeps_full [OF bt_hm_ok [OF ok], where maximum = ?n and age = ct_stored_at]
      by (auto simp: TOOL_LIST_CACHE_MAX_ENTRIES_def)
    then obtain e' where e': "e' \<in> set (evict_oldest ct_stored_at ?n ?m)" by (cases "evict_oldest ct_stored_at ?n ?m") auto
    then have "now \<le> ct_stored_at (snd e')" using evict_oldest_lru [OF mem gone e' bt_hm_ok [OF ok]] by simp
    moreover have "e' \<in> set ?m" using e' evict_oldest_sub [of ct_stored_at ?n ?m] by auto
    ultimately have "e' = (key, ?e)" using assms(2) by (auto simp: set_bt_insert [OF assms(1)])
    then show False using gone e' by simp
  qed
  have "map_of (prune_tool_list_cache ?m) key = Some ?e"
    using kept bt_in_set [OF prune_bt_ok [OF ok]] by (simp add: prune_tool_list_cache_def)
  then show ?thesis using assms(3,4) by (simp add: read_memory_cached_tools_def write_memory_cached_tools_def)
qed

end
