(* ===== verification/Tool_Cache_Properties.thy ===== *)
theory Tool_Cache_Properties
  imports Tool_Cache "HOL-Library.Multiset"
begin

text \<open>
  What the tool cache promises: only validated tool lists are ever served, whatever the interleaving of calls; a load is
  reused from memory within its time to live and from disk by another process; concurrent loads of one key are serialised;
  the file names stay inside the cache directory.
\<close>

section \<open>Validated lists\<close>

definition valid_tools :: "json \<Rightarrow> bool" where
  "valid_tools v =
     (case v of
        JArray items \<Rightarrow>
          list_all (\<lambda>tool. tool_name tool \<noteq> None \<and> has_object_schema tool) items \<and> distinct (map tool_name items)
      | _ \<Rightarrow> False)"

lemma validate_ok_iff:
  "validate_tools_list_result server res = Inr tools \<longleftrightarrow> value_at_path res [''tools''] = Some tools \<and> valid_tools tools"
proof (cases "value_at_path res [''tools'']")
  case (Some v)
  show ?thesis
  proof (cases v)
    case (JArray items)
    have "check_tools server 0 [] items = Inr () \<longleftrightarrow> valid_tools (JArray items)"
      by (simp add: check_tools_ok valid_tools_def list_all_iff)
    then show ?thesis
      using Some JArray by (cases "check_tools server 0 [] items") (auto simp: validate_tools_list_result_def)
  qed (use Some in \<open>auto simp: validate_tools_list_result_def valid_tools_def\<close>)
qed (auto simp: validate_tools_list_result_def)

lemma valid_tools_array: "valid_tools v \<Longrightarrow> \<exists>items. v = JArray items"
  by (cases v) (auto simp: valid_tools_def)

definition file_valid :: "dir_file \<Rightarrow> bool" where
  "file_valid f =
     (case df_value f of
        None \<Rightarrow> True
      | Some v \<Rightarrow> (case value_at_path v [''tools''] of None \<Rightarrow> True | Some tools \<Rightarrow> valid_tools tools))"

definition caches_inv :: "tool_caches \<Rightarrow> bool" where
  "caches_inv st \<longleftrightarrow>
     bt_ok (fst st) \<and> length (fst st) \<le> TOOL_LIST_CACHE_MAX_ENTRIES \<and>
     (\<forall>e \<in> set (fst st). valid_tools (ct_tools (snd e))) \<and>
     (case snd st of None \<Rightarrow> True | Some files \<Rightarrow> \<forall>f \<in> set files. file_valid f)"

lemma write_memory_entries:
  "bt_ok cache \<Longrightarrow> e \<in> set (write_memory_cached_tools now key tools cache) \<Longrightarrow> e \<in> set cache \<or> ct_tools (snd e) = tools"
  using evict_oldest_sub [of ct_stored_at "Suc TOOL_LIST_CACHE_MAX_ENTRIES" "bt_insert key \<lparr>ct_stored_at = now, ct_tools = tools\<rparr> cache"]
  by (auto simp: write_memory_cached_tools_def prune_tool_list_cache_def set_bt_insert)

lemma read_memory_entries:
  "set (snd (read_memory_cached_tools now key cache)) \<subseteq> set cache"
  "fst (read_memory_cached_tools now key cache) = Some tools \<Longrightarrow> \<exists>e \<in> set cache. ct_tools (snd e) = tools"
  by (force simp: read_memory_cached_tools_def bt_remove_def dest: map_of_SomeD split: option.splits if_splits)+

lemma dir_delete_sub: "set (dir_delete removable names dir) \<subseteq> set dir"
  by (auto simp: dir_delete_def)

lemma disk_envelope_tools: "value_at_path (disk_envelope version key stored_at items) [''tools''] = Some (JArray items)"
  by (simp add: disk_envelope_def json_object_def)

lemma write_disk_valid:
  assumes "valid_tools tools" "case dir of None \<Rightarrow> True | Some files \<Rightarrow> \<forall>f \<in> set files. file_valid f"
  shows "case snd (write_disk_cached_tools e key tools dir) of None \<Rightarrow> True | Some files \<Rightarrow> \<forall>f \<in> set files. file_valid f"
proof -
  obtain items where items: "tools = JArray items" using valid_tools_array assms(1) by blast
  have files: "\<forall>f \<in> set (case_option [] id dir). file_valid f" using assms(2) by (cases dir) auto
  have "file_valid \<lparr>df_name = n, df_regular = r, df_modified = m,
      df_value = Some (disk_envelope version key stored_at items)\<rparr>" for n r m version stored_at
    using assms(1) items disk_envelope_tools [of version key stored_at items] by (simp only: file_valid_def) simp
  then show ?thesis
    using files assms(2) items dir_delete_sub
    by (fastforce simp: write_disk_cached_tools_def Let_def prune_disk_tool_cache_def dir_put_def
        split: sum.split option.split)
qed

lemma dir_value_valid:
  "dir_value (Some files) name = Some v \<Longrightarrow> \<forall>f \<in> set files. file_valid f \<Longrightarrow> value_at_path v [''tools''] = Some tools \<Longrightarrow>
   valid_tools tools"
  by (fastforce simp: dir_value_def file_valid_def bind_eq_Some_conv find_Some_iff set_conv_nth dest: bspec)

lemma read_disk_valid:
  assumes "case dir of None \<Rightarrow> True | Some files \<Rightarrow> \<forall>f \<in> set files. file_valid f"
  shows "fst (read_disk_cached_tools e key dir) = Some tools \<Longrightarrow> valid_tools tools"
    and "case snd (read_disk_cached_tools e key dir) of None \<Rightarrow> True | Some files \<Rightarrow> \<forall>f \<in> set files. file_valid f"
proof -
  assume r: "fst (read_disk_cached_tools e key dir) = Some tools"
  then obtain v where v: "dir_value dir (disk_cache_file_name (ce_version e) key) = Some v"
    and "value_at_path v [''tools''] = Some tools"
    by (auto simp: read_disk_cached_tools_def Let_def bind_eq_Some_conv split: option.splits if_splits)
  moreover obtain files where "dir = Some files" using v by (auto simp: dir_value_def bind_eq_Some_conv)
  ultimately show "valid_tools tools" using assms dir_value_valid by auto
next
  have "snd (read_disk_cached_tools e key dir) \<in> {dir, map_option (dir_delete (ce_removable e) [disk_cache_file_name (ce_version e) key]) dir}"
    by (auto simp: read_disk_cached_tools_def Let_def split: option.splits)
  then show "case snd (read_disk_cached_tools e key dir) of None \<Rightarrow> True | Some files \<Rightarrow> \<forall>f \<in> set files. file_valid f"
    using assms dir_delete_sub by (fastforce split: option.splits)
qed

lemma write_cached_inv: "caches_inv st \<Longrightarrow> valid_tools tools \<Longrightarrow> caches_inv (write_cached_tools e key tools st)"
  using write_disk_valid [of tools "snd st" e key] write_memory_entries [of "fst st"] write_memory_facts
  by (cases st) (simp only: caches_inv_def write_cached_tools_def prod.case fst_conv snd_conv, metis)

lemma read_memory_inv: "caches_inv (cache, dir) \<Longrightarrow> caches_inv (snd (read_memory_cached_tools now key cache), dir)"
  using read_memory_entries(1) [of now key cache] read_memory_facts [where now = now and key = key and cache = cache]
  by (auto simp: caches_inv_def)

lemma write_memory_inv:
  "caches_inv (cache, dir) \<Longrightarrow> valid_tools tools \<Longrightarrow> caches_inv (write_memory_cached_tools now key tools cache, dir)"
  using write_memory_entries [of cache _ now key tools] write_memory_facts [where now = now and key = key and tools = tools and cache = cache]
  by (simp only: caches_inv_def fst_conv snd_conv) metis

lemma read_cached_inv:
  assumes "caches_inv st"
  shows "caches_inv (snd (read_cached_tools e key st))"
    and "fst (read_cached_tools e key st) = Some tools \<Longrightarrow> valid_tools tools"
proof -
  obtain cache dir where st: "st = (cache, dir)" by (cases st)
  obtain r cache' where m: "read_memory_cached_tools (ce_instant e) key cache = (r, cache')" by fastforce
  obtain d dir' where k: "read_disk_cached_tools e key dir = (d, dir')" by fastforce
  have inv: "caches_inv (cache', dir)" using read_memory_inv assms st m by (metis snd_conv)
  have valid: "r = Some t \<Longrightarrow> valid_tools t" for t
    using read_memory_entries(2) [of "ce_instant e" key cache t] assms st m by (auto simp: caches_inv_def)
  have disk: "d = Some t \<Longrightarrow> valid_tools t" for t
    using read_disk_valid(1) [of dir e key t] assms st k by (simp add: caches_inv_def)
  have inv': "caches_inv (cache', dir')" using read_disk_valid(2) [of dir e key] inv k by (simp add: caches_inv_def)
  show "caches_inv (snd (read_cached_tools e key st))"
    using inv inv' disk write_memory_inv by (auto simp: read_cached_tools_def st m k split: option.split)
  show "fst (read_cached_tools e key st) = Some tools \<Longrightarrow> valid_tools tools"
    using valid disk by (auto simp: read_cached_tools_def st m k split: option.splits)
qed

lemma cached_tools_list_inv:
  assumes "caches_inv st"
  shows "caches_inv (snd (cached_tools_list e server key refresh st))"
    and "fst (cached_tools_list e server key refresh st) = Inr (tools, hit) \<Longrightarrow> valid_tools tools"
proof -
  obtain r st' where q: "(if refresh then (None, st) else read_cached_tools e key st) = (r, st')" by (rule prod.exhaust)
  have inv: "caches_inv st'" using q assms read_cached_inv(1) [OF assms, of e key] by (auto split: if_splits)
  have "r = Some t \<Longrightarrow> valid_tools t" for t
    using q read_cached_inv(2) [OF assms, of e key t] by (auto split: if_splits)
  then show "fst (cached_tools_list e server key refresh st) = Inr (tools, hit) \<Longrightarrow> valid_tools tools"
    by (auto simp: cached_tools_list_def q validate_ok_iff split: option.splits sum.splits)
  show "caches_inv (snd (cached_tools_list e server key refresh st))"
    using inv write_cached_inv by (auto simp: cached_tools_list_def q validate_ok_iff split: option.split sum.split)
qed

text \<open>Threads interleave reads (before a load and after a wait) with loads; a load alone is a call that refreshes.\<close>

datatype cache_op = ReadOp cache_env tool_list_cache_key | CallOp cache_env string tool_list_cache_key bool

fun cache_exec :: "cache_op \<Rightarrow> tool_caches \<Rightarrow> tool_caches" where
  "cache_exec (ReadOp e key) st = snd (read_cached_tools e key st)"
| "cache_exec (CallOp e server key refresh) st = snd (cached_tools_list e server key refresh st)"

interpretation caches: op_system "\<lambda>st. st = ([], None)" "\<lambda>_. True" cache_exec caches_inv
proof unfold_locales
  fix st op assume "caches_inv st"
  then show "caches_inv (cache_exec op st)" by (cases op) (simp_all add: read_cached_inv cached_tools_list_inv)
qed (simp add: caches_inv_def)

section \<open>Properties\<close>

text \<open>A tools/list result is accepted exactly when its \<open>tools\<close> member is an array of tools that all have an
  object \<open>inputSchema\<close> and a non-empty trimmed name, no two the same; that array is the result.\<close>

lemma tools_list_valid:
  "validate_tools_list_result server res = Inr tools \<longleftrightarrow>
     (\<exists>items. value_at_path res [''tools''] = Some (JArray items) \<and> tools = JArray items \<and>
        list_all (\<lambda>tool. tool_name tool \<noteq> None \<and> has_object_schema tool) items \<and> distinct (map tool_name items))"
  by (cases tools) (auto simp: validate_ok_iff valid_tools_def)


section \<open>Reuse from memory\<close>

lemma read_cached_fresh:
  "fst (read_memory_cached_tools (ce_instant e) key cache) = Some tools \<Longrightarrow> fst (read_cached_tools e key (cache, dir)) = Some tools"
  by (cases "read_memory_cached_tools (ce_instant e) key cache") (simp add: read_cached_tools_def)

lemma read_cached_miss:
  assumes "read_cached_tools e key (cache, dir) = (None, cache', dir')"
  shows "cache' = snd (read_memory_cached_tools (ce_instant e) key cache)"
  using assms by (auto simp: read_cached_tools_def split: option.splits prod.splits)

text \<open>Once a call loaded a tool list from the server, every call for that key within the time to live that does not
  ask for a refresh is answered with that list from memory, whatever the disk, the wall clock and the server say; the
  entries already in memory were stored before.\<close>

lemma fresh_load_reused:
  assumes "caches_inv (cache, dir)" "\<forall>x \<in> set cache. ct_stored_at (snd x) < ce_instant e"
    and "cached_tools_list e server key refresh (cache, dir) = (Inr (tools, False), st)"
    and "ce_instant e \<le> ce_instant e'" "ce_instant e' \<le> ce_instant e + TOOL_LIST_CACHE_TTL"
  shows "fst (cached_tools_list e' server key False st) = Inr (tools, True)"
proof -
  obtain r cache' dir' where q: "(if refresh then (None, cache, dir) else read_cached_tools e key (cache, dir)) = (r, cache', dir')"
    by (metis surj_pair)
  have r: "r = None" using assms(3) by (cases r) (simp_all add: cached_tools_list_def q)
  have st: "st = write_cached_tools e key tools (cache', dir')"
    using assms(3) r by (auto simp: cached_tools_list_def q split: sum.splits)
  have sub: "cache' = cache \<or> cache' = snd (read_memory_cached_tools (ce_instant e) key cache)"
    using q r read_cached_miss [of e key cache dir] by (auto split: if_splits)
  have ok: "bt_ok cache'" using sub assms(1) read_memory_facts(2) by (auto simp: caches_inv_def)
  have old: "\<forall>x \<in> set cache'. ct_stored_at (snd x) < ce_instant e"
    using sub assms(2) read_memory_entries(1) [of "ce_instant e" key cache] by auto
  have "fst (read_cached_tools e' key st) = Some tools"
    using read_cached_fresh [OF write_then_read [OF ok old assms(4,5)]] by (simp add: st write_cached_tools_def)
  then show ?thesis by (cases "read_cached_tools e' key st") (simp add: cached_tools_list_def)
qed

definition sample_key :: "string \<Rightarrow> tool_list_cache_key" where
  "sample_key server = ToolListCacheKey ''/work'' server 17 2 ''f''"

definition sample_env :: "nat \<Rightarrow> string + json \<Rightarrow> cache_env" where
  "sample_env now answer =
     \<lparr>ce_version = ''1.0'', ce_instant = now, ce_unix = Some now, ce_ensure_dir = Inl ''denied'', ce_write = Inl ''denied'',
      ce_removable = (\<lambda>_. True), ce_load = answer\<rparr>"

section \<open>Reuse from disk\<close>

lemma insert_by_set: "set (insert_by le x ys) = insert x (set ys)"
  by (induction ys) auto

lemma sort_by_set: "set (foldr (insert_by le) xs []) = set xs"
  by (induction xs) (simp_all add: insert_by_set)

lemma insert_by_first: "\<forall>y \<in> set ys. le x y \<Longrightarrow> insert_by le x ys = x # ys"
  by (cases ys) auto

lemma cache_files_Cons:
  "cache_files (f # dir) =
     (if df_regular f \<and> has_json_extension (df_name f) then case_option [] (\<lambda>m. [(m, df_name f)]) (df_modified f) else [])
     @ cache_files dir"
  by (simp add: cache_files_def List.map_filter_simps split: option.split)

lemma cache_files_mem:
  "(m, name) \<in> set (cache_files dir) \<Longrightarrow> \<exists>f \<in> set dir. df_name f = name \<and> df_modified f = Some m"
  by (auto simp: cache_files_def List.map_filter_def split: if_splits)

lemma set_drop_Cons: "ys \<in> {xs, x # xs} \<Longrightarrow> n \<noteq> 0 \<Longrightarrow> set (drop n ys) \<subseteq> set xs"
  by (cases n) (auto simp: set_drop_subset dest: in_set_dropD)

lemma prune_keeps_newest:
  assumes "\<forall>g \<in> set dir. case df_modified g of None \<Rightarrow> True | Some m \<Rightarrow> df_name g = df_name f \<or> m < modified"
    and "df_modified f = Some modified"
  shows "f \<in> set (prune_disk_tool_cache removable (dir_put f dir))"
proof -
  let ?rest = "filter (\<lambda>g. df_name g \<noteq> df_name f) dir"
  let ?sorted = "foldr (insert_by disk_order) (cache_files ?rest) []"
  have older: "m < modified \<and> name \<noteq> df_name f" if mem: "(m, name) \<in> set ?sorted" for m name
  proof -
    obtain g where "g \<in> set dir" "df_name g \<noteq> df_name f" "df_name g = name" "df_modified g = Some m"
      using cache_files_mem [of m name ?rest] mem by (auto simp: sort_by_set)
    then show ?thesis using assms(1) by fastforce
  qed
  have "disk_order (modified, df_name f) y" if "y \<in> set ?sorted" for y
    using older [of "fst y" "snd y"] that by (simp add: disk_order_def)
  then have first: "insert_by disk_order (modified, df_name f) ?sorted = (modified, df_name f) # ?sorted"
    by (simp add: insert_by_first)
  have "cache_files (dir_put f dir) \<in> {cache_files ?rest, (modified, df_name f) # cache_files ?rest}"
    using assms(2) by (simp add: dir_put_def cache_files_Cons)
  then have "foldr (insert_by disk_order) (cache_files (dir_put f dir)) [] \<in> {?sorted, (modified, df_name f) # ?sorted}"
    using first by (elim insertE emptyE) simp_all
  moreover have "TOOL_LIST_CACHE_MAX_ENTRIES \<noteq> 0" by (simp add: TOOL_LIST_CACHE_MAX_ENTRIES_def)
  ultimately have dropped: "set (drop TOOL_LIST_CACHE_MAX_ENTRIES
      (foldr (insert_by disk_order) (cache_files (dir_put f dir)) [])) \<subseteq> set ?sorted"
    by (rule set_drop_Cons)
  have "df_name f \<notin> snd ` set ?sorted" by (rule notI, elim imageE) (use older in \<open>metis prod.collapse\<close>)
  then have "df_name f \<notin> snd ` set (drop TOOL_LIST_CACHE_MAX_ENTRIES
      (foldr (insert_by disk_order) (cache_files (dir_put f dir)) []))"
    using dropped by blast
  then show ?thesis by (simp add: prune_disk_tool_cache_def dir_delete_def) (simp add: dir_put_def)
qed

lemma envelope_fields:
  "Option.bind (value_at_path (disk_envelope version key stored_at items) [''schemaVersion'']) as_i64 =
     Some (int TOOL_LIST_DISK_CACHE_SCHEMA_VERSION)"
  "string_at_path (disk_envelope version key stored_at items) [''keyHash''] = Some (disk_cache_key_hash version key)"
  "string_at_path (disk_envelope version key stored_at items) [''serverName''] = Some (tk_server_name key)"
  "stored_at \<le> uint_max 128 \<Longrightarrow> u128_at_path (disk_envelope version key stored_at items) [''storedAtUnixMs''] = Some stored_at"
  by (simp_all add: disk_envelope_def json_object_def json_number_def string_at_path_def u128_at_path_def
      TOOL_LIST_DISK_CACHE_SCHEMA_VERSION_def)

lemma find_name_mem:
  "f \<in> set dir \<Longrightarrow> \<forall>g \<in> set dir. df_name g = df_name f \<longrightarrow> g = f \<Longrightarrow> find (\<lambda>g. df_name g = df_name f) dir = Some f"
  by (induction dir) auto

lemma disk_fresh:
  "stored_at \<le> now \<Longrightarrow> now \<le> stored_at + TOOL_LIST_CACHE_TTL \<Longrightarrow> now \<le> uint_max 128 \<Longrightarrow> \<not> disk_stale now stored_at"
  by (auto simp: disk_stale_def sat_add_def)

text \<open>What one process writes to the disk cache, another with the same version reads back for the same key within the
  time to live, provided the other files of the directory are older (so pruning does not remove the new one).\<close>

lemma disk_cache_round_trip:
  assumes "ce_ensure_dir e = Inr ()" "ce_write e = Inr modified" "ce_unix e = Some stored_at"
    and "list_all (\<lambda>g. case df_modified g of None \<Rightarrow> True | Some m \<Rightarrow> m < modified) (case_option [] id dir)"
    and "ce_version e' = ce_version e" "ce_unix e' = Some now"
    and "stored_at \<le> now" "now \<le> stored_at + TOOL_LIST_CACHE_TTL" "now \<le> uint_max 128"
  shows "fst (read_disk_cached_tools e' key (snd (write_disk_cached_tools e key (JArray items) dir))) = Some (JArray items)"
proof -
  define f where "f = \<lparr>df_name = disk_cache_file_name (ce_version e) key, df_regular = True, df_modified = Some modified,
      df_value = Some (disk_envelope (ce_version e) key stored_at items)\<rparr>"
  let ?dir = "prune_disk_tool_cache (ce_removable e) (dir_put f (case_option [] id dir))"
  have w: "snd (write_disk_cached_tools e key (JArray items) dir) = Some ?dir"
    using assms(1-3) by (simp add: write_disk_cached_tools_def f_def)
  have "f \<in> set ?dir"
    using assms(4) by (intro prune_keeps_newest [where modified = modified]) (auto simp: f_def list_all_iff split: option.splits)
  moreover have "\<forall>g \<in> set ?dir. df_name g = df_name f \<longrightarrow> g = f"
    by (auto simp: prune_disk_tool_cache_def dir_delete_def dir_put_def)
  ultimately have "dir_value (Some ?dir) (disk_cache_file_name (ce_version e) key) = df_value f"
    using find_name_mem [of f ?dir] by (simp add: dir_value_def f_def)
  then show ?thesis
    using assms(5-9) disk_fresh [OF assms(7-9)] envelope_fields [where version = "ce_version e" and key = key]
      disk_envelope_tools [of "ce_version e" key stored_at items]
    by (simp only: read_disk_cached_tools_def w Let_def f_def) simp
qed

definition disk_env :: "nat \<Rightarrow> cache_env" where
  "disk_env now =
     \<lparr>ce_version = ''1.0'', ce_instant = now, ce_unix = Some now, ce_ensure_dir = Inr (), ce_write = Inr now,
      ce_removable = (\<lambda>_. True), ce_load = Inl ''down''\<rparr>"

section \<open>Bound of the directory\<close>

lemma insert_by_mset: "mset (insert_by le x ys) = add_mset x (mset ys)"
  by (induction ys) auto

lemma sort_by_mset: "mset (foldr (insert_by le) xs []) = mset xs"
  by (induction xs) (simp_all add: insert_by_mset)

lemma cache_files_delete:
  "cache_files (dir_delete (\<lambda>_. True) names dir) = filter (\<lambda>x. snd x \<notin> set names) (cache_files dir)"
  by (induction dir) (auto simp: dir_delete_def cache_files_Cons cache_files_def List.map_filter_simps split: option.split)

text \<open>When the files can be removed, pruning leaves at most 128 cache files.\<close>

lemma disk_cache_bounded:
  "length (cache_files (prune_disk_tool_cache (\<lambda>_. True) dir)) \<le> TOOL_LIST_CACHE_MAX_ENTRIES"
proof -
  let ?n = TOOL_LIST_CACHE_MAX_ENTRIES and ?s = "foldr (insert_by disk_order) (cache_files dir) []"
  let ?keep = "\<lambda>x. snd x \<notin> set (map snd (drop ?n ?s))"
  have "length (cache_files (prune_disk_tool_cache (\<lambda>_. True) dir)) = size (filter_mset ?keep (mset ?s))"
    by (simp add: prune_disk_tool_cache_def cache_files_delete sort_by_mset flip: mset_filter)
  also have "mset ?s = mset (take ?n ?s) + mset (drop ?n ?s)" by (simp flip: mset_append)
  also have "filter_mset ?keep (mset (take ?n ?s) + mset (drop ?n ?s)) = filter_mset ?keep (mset (take ?n ?s))"
    by (auto simp: filter_mset_eq_conv)
  also have "size \<dots> \<le> size (mset (take ?n ?s))" by (rule size_filter_mset_lesseq)
  finally show ?thesis by simp
qed

section \<open>File names\<close>

definition file_name_char :: "char \<Rightarrow> bool" where
  "file_name_char c \<longleftrightarrow> is_alnum c \<or> c = CHR ''-'' \<or> c = CHR ''_'' \<or> c = CHR ''.''"

lemma stem_ok:
  "list_all file_name_char (safe_cache_file_stem v)" "safe_cache_file_stem v \<noteq> []"
  "hd (safe_cache_file_stem v) \<notin> {CHR ''.'', CHR ''_'', CHR ''-''}" "length (safe_cache_file_stem v) \<le> 48"
proof -
  let ?p = "\<lambda>c. c = CHR ''.'' \<or> c = CHR ''_'' \<or> c = CHR ''-''"
  define w where "w = take 48 (map (\<lambda>c. if is_alnum c \<or> c = CHR ''-'' \<or> c = CHR ''_'' \<or> c = CHR ''.'' then c else CHR ''_'')
    (char_starts v))"
  have stem: "safe_cache_file_stem v = (if trim_matches ?p w = [] then ''server'' else trim_matches ?p w)"
    by (simp add: safe_cache_file_stem_def w_def Let_def)
  have "set w \<subseteq> Collect file_name_char" by (auto simp: w_def file_name_char_def dest!: in_set_takeD)
  then have "list_all file_name_char (trim_matches ?p w)" using set_trim_matches [of ?p w] by (auto simp: list_all_iff)
  moreover have "list_all file_name_char ''server''" by code_simp
  ultimately show "list_all file_name_char (safe_cache_file_stem v)" by (simp add: stem)
  show "safe_cache_file_stem v \<noteq> []" by (simp add: stem)
  show "hd (safe_cache_file_stem v) \<notin> {CHR ''.'', CHR ''_'', CHR ''-''}"
    using trim_matches_ends(1) [of ?p w] by (cases "trim_matches ?p w") (auto simp: stem)
  have "length (trim_matches ?p w) \<le> length w"
    by (metis length_dropWhile_le length_rev order_trans trim_matches_def)
  then show "length (safe_cache_file_stem v) \<le> 48" by (auto simp: stem w_def)
qed

lemma key_hash_chars: "list_all file_name_char (disk_cache_key_hash version key)" "length (disk_cache_key_hash version key) = 16"
proof -
  obtain n where "disk_cache_key_hash version key = hex_digits 16 n" by (simp add: disk_cache_key_hash_def Let_def)
  moreover have "length (hex_digits k m) = k" for k m by (induction k arbitrary: m) auto
  ultimately show "list_all file_name_char (disk_cache_key_hash version key)" "length (disk_cache_key_hash version key) = 16"
    using hex_digits_set [of _ 16 n] by (auto simp: list_all_iff file_name_char_def is_alnum_def)
qed

text \<open>Whatever the server is called, the name of its cache file is one path component of at most 70 letters, digits,
  dashes, underscores and dots, does not begin with a dot, and ends in \<open>.json\<close>, so that pruning finds it.\<close>

lemma cache_file_name_safe:
  "let name = disk_cache_file_name version key
   in list_all file_name_char name \<and> hd name \<noteq> CHR ''.'' \<and> length name \<le> 70 \<and> has_json_extension name"
proof -
  let ?s = "safe_cache_file_stem (tk_server_name key)" and ?h = "disk_cache_key_hash version key"
  have "rsplit_once CHR ''.'' (?s @ ''-'' @ ?h @ ''.json'') = Some (?s @ ''-'' @ ?h, ''json'')"
    by (simp add: rsplit_once_Some)
  then have "has_json_extension (?s @ ''-'' @ ?h @ ''.json'')" by (simp add: has_json_extension_def eq_ignore_ascii_case_def)
  moreover have "list_all file_name_char ''-''" "list_all file_name_char ''.json''" by code_simp+
  ultimately show ?thesis
    using stem_ok [of "tk_server_name key"] key_hash_chars [of version key]
    by (simp add: disk_cache_file_name_def Let_def)
qed

section \<open>Single flight\<close>

text \<open>However the threads interleave, at most one loads the tool list of a key at a time; and a thread that waits for a
  key is either waiting for exactly one loader or can go on.\<close>

lemma tool_load_single_flight:
  assumes "load_step\<^sup>*\<^sup>* load_start s"
  shows "(loaders key s = {} \<or> (\<exists>p. loaders key s = {p})) \<and>
    (lo_pc s p = LoadWaiting key \<longrightarrow>
       (\<exists>q. loaders key s = {q}) \<or> load_step s (s\<lparr>lo_pc := (lo_pc s)(p := LoadRetry key)\<rparr>))"
proof -
  have "if key \<in> lo_in_flight s then (\<exists>p. loaders key s = {p}) else loaders key s = {}"
    using load_reach_inv [OF assms] by (simp add: load_inv_def)
  then show ?thesis using load_woken [of s p key] by (auto split: if_splits)
qed

end
