(* ===== verification/Tool_Pagination.thy ===== *)
theory Tool_Pagination
  imports Mcp_Protocol
begin

text \<open>
  Answers of upstream servers (\<^verbatim>\<open>src/upstream.rs\<close>): the pagination of tools/list with its limits, the validation of a
  tools/call result and of an initialize result. The compact printing of JSON is an argument (\<open>compact\<close>).
\<close>

section \<open>Pages of tools\<close>

definition UPSTREAM_TOOL_LIST_MAX_PAGES :: nat where "UPSTREAM_TOOL_LIST_MAX_PAGES = 100"

definition UPSTREAM_TOOL_LIST_MAX_TOOLS :: nat where "UPSTREAM_TOOL_LIST_MAX_TOOLS = 10000"

definition UPSTREAM_TOOL_LIST_MAX_BYTES :: nat where "UPSTREAM_TOOL_LIST_MAX_BYTES = 32 * 1024 * 1024"

record tool_list_pagination =
  tp_tools :: "json list"
  tp_seen_cursors :: "string list"
  tp_pages :: nat
  tp_bytes :: nat

definition pagination_new :: tool_list_pagination where
  "pagination_new = \<lparr>tp_tools = [], tp_seen_cursors = [], tp_pages = 0, tp_bytes = 0\<rparr>"

definition list_error :: "string \<Rightarrow> string \<Rightarrow> string" where
  "list_error server what = ''upstream server '' @ squote server @ '' tools/list '' @ what"

fun push_tools ::
  "(json \<Rightarrow> string) \<Rightarrow> string \<Rightarrow> json list \<Rightarrow> tool_list_pagination \<Rightarrow> string option \<times> tool_list_pagination" where
  "push_tools compact server [] p = (None, p)"
| "push_tools compact server (tool # rest) p =
     (let p = p\<lparr>tp_bytes := sat_add 64 (tp_bytes p) (length (compact tool))\<rparr>
      in if UPSTREAM_TOOL_LIST_MAX_BYTES < tp_bytes p
         then (Some (list_error server (''exceeded the '' @ show_nat UPSTREAM_TOOL_LIST_MAX_BYTES
                                        @ ''-byte cumulative safety limit'')), p)
         else push_tools compact server rest (p\<lparr>tp_tools := tp_tools p @ [tool]\<rparr>))"

definition next_cursor :: "string \<Rightarrow> json \<Rightarrow> string + string option" where
  "next_cursor server res =
     (case value_at_path res [''nextCursor''] of
        None \<Rightarrow> Inr None
      | Some JNull \<Rightarrow> Inr None
      | Some (JString v) \<Rightarrow>
          if trim v = [] then Inr None
          else if length v \<le> 4096 then Inr (Some v)
          else Inl (list_error server ''returned an oversized nextCursor'')
      | Some _ \<Rightarrow> Inl (list_error server ''returned a non-string nextCursor''))"

definition add_page ::
  "(json \<Rightarrow> string) \<Rightarrow> string \<Rightarrow> json \<Rightarrow> tool_list_pagination \<Rightarrow> (string + string option) \<times> tool_list_pagination" where
  "add_page compact server res p =
     (case array_at_path res [''tools''] of
        None \<Rightarrow> (Inl (list_error server ''result must contain a tools array''), p)
      | Some page_tools \<Rightarrow>
          if UPSTREAM_TOOL_LIST_MAX_TOOLS < sat_add 64 (length (tp_tools p)) (length page_tools)
          then (Inl (list_error server (''exceeded the '' @ show_nat UPSTREAM_TOOL_LIST_MAX_TOOLS @ ''-tool safety limit'')), p)
          else
            (case push_tools compact server page_tools p of
               (Some e, p) \<Rightarrow> (Inl e, p)
             | (None, p) \<Rightarrow>
                 (let p = p\<lparr>tp_pages := sat_add 64 (tp_pages p) 1\<rparr>
                  in case next_cursor server res of
                       Inl e \<Rightarrow> (Inl e, p)
                     | Inr None \<Rightarrow> (Inr None, p)
                     | Inr (Some cursor) \<Rightarrow>
                         if UPSTREAM_TOOL_LIST_MAX_PAGES \<le> tp_pages p
                         then (Inl (list_error server (''exceeded the '' @ show_nat UPSTREAM_TOOL_LIST_MAX_PAGES
                                                       @ ''-page safety limit'')), p)
                         else if cursor \<in> set (tp_seen_cursors p)
                         then (Inl (list_error server (''repeated pagination cursor '' @ squote cursor)), p)
                         else (Inr (Some cursor),
                               p\<lparr>tp_seen_cursors := insort_insert cursor (tp_seen_cursors p)\<rparr>))))"

definition pagination_finish :: "tool_list_pagination \<Rightarrow> json" where
  "pagination_finish p = json_object [(''tools'', JArray (tp_tools p))]"

text \<open>
  The loop around it, as \<open>run_stdio_tools_list\<close> of \<^verbatim>\<open>stdio_runtime.rs\<close> and \<open>run_http_tools_list\<close> of
  \<^verbatim>\<open>http_runtime.rs\<close> run it: \<open>fetch n cursor\<close> is the answer of the server to the request for page \<open>n\<close>, whose id is
  METHOD_ID + \<open>n\<close>, or the error of the transport; \<open>wrap\<close> makes a pagination error an error of the transport.
\<close>

lemma push_tools_pages: "tp_pages (snd (push_tools compact server tools p)) = tp_pages p"
  by (induction compact server tools p rule: push_tools.induct) (simp_all add: Let_def)

lemma add_page_more:
  assumes "add_page compact server res p = (Inr (Some cursor), q)"
  shows "tp_pages q = Suc (tp_pages p) \<and> tp_pages q < UPSTREAM_TOOL_LIST_MAX_PAGES"
proof -
  obtain tools p1 where t: "push_tools compact server tools p = (None, p1)"
    and q: "tp_pages q = sat_add 64 (tp_pages p1) 1" "tp_pages q < UPSTREAM_TOOL_LIST_MAX_PAGES"
    using assms by (auto simp: add_page_def Let_def not_le split: option.splits if_splits prod.splits sum.splits)
  have "tp_pages p1 = tp_pages p" using push_tools_pages [of compact server tools p] t by simp
  then show ?thesis using q by (auto simp: sat_add_def uint_max_def UPSTREAM_TOOL_LIST_MAX_PAGES_def min_def split: if_splits)
qed

function list_pages ::
  "(json \<Rightarrow> string) \<Rightarrow> (string \<Rightarrow> 'e) \<Rightarrow> (nat \<Rightarrow> string option \<Rightarrow> 'e + json) \<Rightarrow> string \<Rightarrow> string option \<Rightarrow>
   tool_list_pagination \<Rightarrow> ('e + json) \<times> tool_list_pagination" where
  "list_pages compact wrap fetch server cursor p =
     (case fetch (tp_pages p) cursor of
        Inl e \<Rightarrow> (Inl e, p)
      | Inr res \<Rightarrow>
          (case add_page compact server res p of
             (Inl e, q) \<Rightarrow> (Inl (wrap e), q)
           | (Inr None, q) \<Rightarrow> (Inr (pagination_finish q), q)
           | (Inr (Some c), q) \<Rightarrow> list_pages compact wrap fetch server (Some c) q))"
  by pat_completeness auto
termination
  by (relation "measure (\<lambda>(compact, wrap, fetch, server, cursor, p). UPSTREAM_TOOL_LIST_MAX_PAGES - tp_pages p)")
    (auto dest!: add_page_more [OF sym])

declare list_pages.simps [simp del]

section \<open>Results of calls\<close>

definition tool_error :: "string \<Rightarrow> string \<Rightarrow> string \<Rightarrow> string" where
  "tool_error server tool what = ''upstream server '' @ squote server @ '' tool '' @ squote tool @ what"

definition validate_tool_call_result :: "string \<Rightarrow> string \<Rightarrow> json \<Rightarrow> string + bool" where
  "validate_tool_call_result server tool res =
     (case as_object res of
        None \<Rightarrow> Inl (tool_error server tool '' returned a non-object tools/call result'')
      | Some m \<Rightarrow>
          (case map_of m ''content'' of
             Some (JArray _) \<Rightarrow>
               (case map_of m ''isError'' of
                  Some (JBool b) \<Rightarrow> Inr b
                | Some _ \<Rightarrow> Inl (tool_error server tool '' returned a non-boolean isError value'')
                | None \<Rightarrow> Inr False)
           | _ \<Rightarrow> Inl (tool_error server tool '' tools/call result must contain a content array'')))"

definition batch_tool_call_error :: "string \<Rightarrow> nat \<Rightarrow> nat \<Rightarrow> string \<Rightarrow> string" where
  "batch_tool_call_error server completed count error =
     ''upstream server '' @ squote server @ '' batch stopped at call '' @ show_nat (sat_add 64 completed 1) @ '' of ''
     @ show_nat count @ '' after '' @ show_nat completed
     @ '' completed call(s); earlier calls may already have side effects: '' @ error"

definition init_error :: "string \<Rightarrow> string \<Rightarrow> string" where
  "init_error server what = ''upstream server '' @ squote server @ '' initialize '' @ what"

definition non_empty_text :: "json option \<Rightarrow> bool" where
  "non_empty_text v = (case Option.bind v as_str of Some s \<Rightarrow> trim s \<noteq> [] | None \<Rightarrow> False)"

fun check_server_info :: "string \<Rightarrow> json_map \<Rightarrow> string list \<Rightarrow> string option" where
  "check_server_info server info [] = None"
| "check_server_info server info (field # rest) =
     (if non_empty_text (map_of info field) then check_server_info server info rest
      else Some (init_error server (''serverInfo must contain non-empty '' @ squote field)))"

definition negotiated_protocol_version :: "string \<Rightarrow> json \<Rightarrow> string + string" where
  "negotiated_protocol_version server res =
     (case trimmed_non_empty_owned (string_at_path res [''protocolVersion'']) of
        None \<Rightarrow> Inl (init_error server ''result did not contain protocolVersion'')
      | Some version \<Rightarrow>
          if \<not> is_supported_protocol_version version
          then Inl (''upstream server '' @ squote server @ '' selected unsupported MCP protocol version '' @ squote version)
          else (case value_at_path res [''capabilities''] of
                  Some (JObject _) \<Rightarrow>
                    (case object_at_path res [''serverInfo''] of
                       None \<Rightarrow> Inl (init_error server ''result must contain a serverInfo object'')
                     | Some info \<Rightarrow>
                         (case check_server_info server info [''name'', ''version''] of
                            Some e \<Rightarrow> Inl e
                          | None \<Rightarrow> Inr version))
                | _ \<Rightarrow> Inl (init_error server ''result must contain a capabilities object'')))"

section \<open>Bounds of the list\<close>

definition page_tools :: "json \<Rightarrow> json list" where
  "page_tools res = (case array_at_path res [''tools''] of Some ts \<Rightarrow> ts | None \<Rightarrow> [])"

definition listed_bytes :: "(json \<Rightarrow> string) \<Rightarrow> json list \<Rightarrow> nat" where
  "listed_bytes compact tools = sum_list (map (\<lambda>t. length (compact t)) tools)"

definition page_bounds :: "(json \<Rightarrow> string) \<Rightarrow> tool_list_pagination \<Rightarrow> bool" where
  "page_bounds compact p \<longleftrightarrow>
     length (tp_tools p) \<le> UPSTREAM_TOOL_LIST_MAX_TOOLS \<and>
     tp_bytes p = listed_bytes compact (tp_tools p) \<and> tp_bytes p \<le> UPSTREAM_TOOL_LIST_MAX_BYTES"

text \<open>The pages of a complete listing: each is the answer to the cursor of the one before, the last has none.\<close>

fun page_run :: "string \<Rightarrow> (nat \<Rightarrow> string option \<Rightarrow> 'e + json) \<Rightarrow> nat \<Rightarrow> string option \<Rightarrow> json list \<Rightarrow> bool" where
  "page_run server fetch n cursor [] = False"
| "page_run server fetch n cursor (res # rest) =
     (fetch n cursor = Inr res \<and> array_at_path res [''tools''] \<noteq> None \<and>
      (case next_cursor server res of
         Inl _ \<Rightarrow> False
       | Inr None \<Rightarrow> rest = []
       | Inr (Some c) \<Rightarrow> page_run server fetch (Suc n) (Some c) rest))"

lemma push_tools_ok:
  assumes "push_tools compact server tools p = (None, q)" "tp_bytes p = listed_bytes compact (tp_tools p)"
    and "tp_bytes p \<le> UPSTREAM_TOOL_LIST_MAX_BYTES"
  shows "tp_tools q = tp_tools p @ tools \<and> tp_bytes q = listed_bytes compact (tp_tools q) \<and>
    tp_bytes q \<le> UPSTREAM_TOOL_LIST_MAX_BYTES"
  using assms
proof (induction compact server tools p rule: push_tools.induct)
  case (2 compact server tool rest p)
  let ?b = "sat_add 64 (tp_bytes p) (length (compact tool))"
  have le: "?b \<le> UPSTREAM_TOOL_LIST_MAX_BYTES" using "2.prems"(1) by (auto simp: Let_def split: if_splits)
  then have "?b = tp_bytes p + length (compact tool)"
    by (auto simp: sat_add_def uint_max_def UPSTREAM_TOOL_LIST_MAX_BYTES_def min_def split: if_splits)
  then show ?case using 2 le by (auto simp: Let_def listed_bytes_def)
qed simp

lemma add_page_ok:
  assumes "add_page compact server res p = (Inr c, q)" "page_bounds compact p"
  shows "page_bounds compact q \<and> tp_tools q = tp_tools p @ page_tools res \<and> next_cursor server res = Inr c \<and>
    array_at_path res [''tools''] \<noteq> None"
proof -
  obtain tools p1 where t: "array_at_path res [''tools''] = Some tools" "push_tools compact server tools p = (None, p1)"
    and le: "sat_add 64 (length (tp_tools p)) (length tools) \<le> UPSTREAM_TOOL_LIST_MAX_TOOLS"
    and q: "tp_tools q = tp_tools p1" "tp_bytes q = tp_bytes p1" "next_cursor server res = Inr c"
    using assms(1) by (auto simp: add_page_def Let_def not_less split: option.splits if_splits prod.splits sum.splits)
  have "length (tp_tools p) + length tools \<le> UPSTREAM_TOOL_LIST_MAX_TOOLS"
    using le by (auto simp: sat_add_def uint_max_def UPSTREAM_TOOL_LIST_MAX_TOOLS_def min_def split: if_splits)
  then show ?thesis using t q push_tools_ok [OF t(2)] assms(2) by (auto simp: page_bounds_def page_tools_def)
qed

lemma list_pages_ok:
  assumes "list_pages compact wrap fetch server cursor p = (Inr v, q)" "page_bounds compact p"
    and "tp_pages p < UPSTREAM_TOOL_LIST_MAX_PAGES"
  shows "\<exists>rs. page_run server fetch (tp_pages p) cursor rs \<and> tp_pages p + length rs \<le> UPSTREAM_TOOL_LIST_MAX_PAGES \<and>
    tp_tools q = tp_tools p @ concat (map page_tools rs) \<and> v = pagination_finish q \<and> page_bounds compact q"
  using assms
proof (induction compact wrap fetch server cursor p rule: list_pages.induct)
  case (1 compact wrap fetch server cursor p)
  from "1.prems"(1) obtain res c p1 where res: "fetch (tp_pages p) cursor = Inr res"
    and page: "add_page compact server res p = (Inr c, p1)"
    by (subst (asm) list_pages.simps) (auto split: sum.splits prod.splits)
  note ok = add_page_ok [OF page "1.prems"(2)]
  show ?case
  proof (cases c)
    case None
    then have "v = pagination_finish p1 \<and> q = p1"
      using "1.prems"(1) res page by (subst (asm) list_pages.simps) auto
    then show ?thesis using ok res None "1.prems"(3) by (intro exI [of _ "[res]"]) simp
  next
    case (Some d)
    have "list_pages compact wrap fetch server (Some d) p1 = (Inr v, q)"
      using "1.prems"(1) res page Some by (subst (asm) list_pages.simps) simp
    moreover have more: "tp_pages p1 = Suc (tp_pages p) \<and> tp_pages p1 < UPSTREAM_TOOL_LIST_MAX_PAGES"
      using add_page_more page Some by blast
    ultimately obtain rs where "page_run server fetch (Suc (tp_pages p)) (Some d) rs"
        "Suc (tp_pages p) + length rs \<le> UPSTREAM_TOOL_LIST_MAX_PAGES"
        "tp_tools q = tp_tools p1 @ concat (map page_tools rs)" "v = pagination_finish q" "page_bounds compact q"
      using "1.IH" [OF res page [symmetric] refl] ok Some by auto
    then show ?thesis using ok res Some by (intro exI [of _ "res # rs"]) simp
  qed
qed


definition sample_fetch :: "nat \<Rightarrow> string option \<Rightarrow> string + json" where
  "sample_fetch n cursor =
     (if cursor = None then Inr (JObject [(''nextCursor'', JString ''c''), (''tools'', JArray [JNull])])
      else Inr (JObject [(''tools'', JArray [JBool True])]))"


end
