(* ===== verification/Session_Pool.thy ===== *)
theory Session_Pool
  imports Tool_Pagination Hash_Map "HOL-Library.Product_Lexorder"
begin

text \<open>
  The pool of child processes (\<^verbatim>\<open>src/upstream/session_pool.rs\<close>). A worker is a shared record with atomic fields and a
  locked session; the registry groups the workers by the key of the calls they serve. Workers are named by the numbers
  their allocation gives them (the addresses of the \<open>Arc\<close>s); the registry and the workers are one state. The transport
  (\<open>write_jsonrpc\<close> and \<open>read_response\<close>), the start of a process, clocks and the exit status of a process are arguments.
\<close>

section \<open>Keys\<close>

datatype upstream_session_key =
  UpstreamSessionKey
    (sk_root_path: string) (sk_server_name: string) (sk_settings_modified_ms: nat) (sk_settings_len: nat)
    (sk_server_fingerprint: string) (sk_client_id: string) (sk_session_id: string) (sk_project_root: string)
    (sk_transport: string) (sk_execution_mode: string) (sk_affinity_fingerprint: string)

definition session_key_fields ::
  "upstream_session_key \<Rightarrow>
   (string \<times> string \<times> nat \<times> nat \<times> string) \<times> string \<times> string \<times> string \<times> string \<times> string \<times> string" where
  "session_key_fields k =
     ((sk_root_path k, sk_server_name k, sk_settings_modified_ms k, sk_settings_len k, sk_server_fingerprint k),
      sk_client_id k, sk_session_id k, sk_project_root k, sk_transport k, sk_execution_mode k, sk_affinity_fingerprint k)"

lemma session_key_fields_inject: "session_key_fields a = session_key_fields b \<longleftrightarrow> a = b"
  by (cases a; cases b) (auto simp: session_key_fields_def)

instantiation upstream_session_key :: linorder
begin

definition less_eq_upstream_session_key :: "upstream_session_key \<Rightarrow> upstream_session_key \<Rightarrow> bool" where
  "less_eq_upstream_session_key a b \<longleftrightarrow> session_key_fields a \<le> session_key_fields b"

definition less_upstream_session_key :: "upstream_session_key \<Rightarrow> upstream_session_key \<Rightarrow> bool" where
  "less_upstream_session_key a b \<longleftrightarrow> session_key_fields a < session_key_fields b"

instance
  by standard
    (auto simp: less_eq_upstream_session_key_def less_upstream_session_key_def session_key_fields_inject not_le
      intro: less_imp_le dest: order_antisym)

end

section \<open>Sessions\<close>

definition INITIALIZE_ID :: int where "INITIALIZE_ID = 1"

definition METHOD_ID :: int where "METHOD_ID = 2"

definition i64_max :: int where "i64_max = 2 ^ 63 - 1"

datatype upstream_session_pool_error = StdioError string | StateError string

fun session_pool_error_display :: "upstream_session_pool_error \<Rightarrow> string" where
  "session_pool_error_display (StdioError error) = error"
| "session_pool_error_display (StateError message) = message"

text \<open>A session: its process, the key it was started for (which the code keeps implicitly, as the key of the checkout that
  started it), and its counters.\<close>

record pooled_session =
  us_pid :: nat
  us_started_for :: upstream_session_key
  us_created_at :: nat
  us_last_used :: nat
  us_next_request_id :: int
  us_call_count :: nat

definition session_new :: "nat \<Rightarrow> upstream_session_key \<Rightarrow> nat \<Rightarrow> pooled_session" where
  "session_new pid key now =
     \<lparr>us_pid = pid, us_started_for = key, us_created_at = now, us_last_used = now, us_next_request_id = METHOD_ID,
      us_call_count = 0\<rparr>"

definition next_request_id :: "pooled_session \<Rightarrow> int \<times> pooled_session" where
  "next_request_id s =
     (let request_id = us_next_request_id s;
          n = min (us_next_request_id s + 1) i64_max;
          n = (if n \<le> INITIALIZE_ID then METHOD_ID else n)
      in (request_id, s\<lparr>us_next_request_id := n\<rparr>))"

definition session_request :: "int \<Rightarrow> string \<Rightarrow> (string \<times> json) list \<Rightarrow> json" where
  "session_request rid name params =
     json_object ([(''jsonrpc'', JString ''2.0''), (''id'', JNumber (show_int rid)), (''method'', JString name)] @ params)"

text \<open>The transport: the answer to a request, or the error of writing it or of reading the answer.\<close>

type_synonym exchange = "json \<Rightarrow> string + json"

function session_list_tools ::
  "(json \<Rightarrow> string) \<Rightarrow> exchange \<Rightarrow> string \<Rightarrow> nat \<Rightarrow> string option \<Rightarrow> tool_list_pagination \<Rightarrow> pooled_session \<Rightarrow>
   (upstream_session_pool_error + json) \<times> pooled_session" where
  "session_list_tools compact exchange server now cursor p s =
     (case next_request_id s of (rid, s1) \<Rightarrow>
        (case exchange (session_request rid ''tools/list''
                 (case cursor of None \<Rightarrow> [] | Some c \<Rightarrow> [(''params'', json_object [(''cursor'', JString c)])])) of
           Inl e \<Rightarrow> (Inl (StdioError e), s1)
         | Inr res \<Rightarrow>
             (case add_page compact server res p of
                (Inl e, q) \<Rightarrow> (Inl (StateError e), s1)
              | (Inr None, q) \<Rightarrow> (Inr (pagination_finish q), s1\<lparr>us_last_used := now\<rparr>)
              | (Inr (Some c), q) \<Rightarrow>
                  session_list_tools compact exchange server now (Some c) q (s1\<lparr>us_last_used := now\<rparr>))))"
  by pat_completeness auto
termination
  by (relation "measure (\<lambda>(compact, exchange, server, now, cursor, p, s). UPSTREAM_TOOL_LIST_MAX_PAGES - tp_pages p)")
    (auto dest!: add_page_more [OF sym])

declare session_list_tools.simps [simp del]

definition tool_call_params :: "string \<Rightarrow> json \<Rightarrow> (string \<times> json) list" where
  "tool_call_params tool arguments = [(''params'', json_object [(''name'', JString tool), (''arguments'', arguments)])]"

definition count_call :: "nat \<Rightarrow> pooled_session \<Rightarrow> pooled_session" where
  "count_call now s = s\<lparr>us_call_count := sat_add 64 (us_call_count s) 1, us_last_used := now\<rparr>"

definition session_call_tool ::
  "exchange \<Rightarrow> nat \<Rightarrow> string \<Rightarrow> json \<Rightarrow> pooled_session \<Rightarrow> (upstream_session_pool_error + json) \<times> pooled_session" where
  "session_call_tool exchange now tool arguments s =
     (case next_request_id s of (rid, s1) \<Rightarrow>
        (case exchange (session_request rid ''tools/call'' (tool_call_params tool arguments)) of
           Inl e \<Rightarrow> (Inl (StdioError e), s1)
         | Inr res \<Rightarrow> (Inr res, count_call now s1)))"

definition call_result_json :: "nat \<Rightarrow> bool \<Rightarrow> string \<Rightarrow> json \<Rightarrow> json" where
  "call_result_json index is_error tool res =
     json_object
       [(''index'', json_number index), (''ok'', JBool (\<not> is_error)), (''upstreamOk'', JBool (\<not> is_error)),
        (''upstreamIsError'', JBool is_error), (''tool'', JString tool), (''upstreamResult'', res)]"

text \<open>The batch stops at the first call that fails; \<open>index\<close> counts the calls before it, \<open>results\<close> are theirs.\<close>

fun session_call_tools ::
  "exchange \<Rightarrow> nat \<Rightarrow> string \<Rightarrow> nat \<Rightarrow> nat \<Rightarrow> json list \<Rightarrow> (string \<times> json) list \<Rightarrow> pooled_session \<Rightarrow>
   (upstream_session_pool_error + json list) \<times> pooled_session" where
  "session_call_tools exchange now server count index results [] s = (Inr results, s)"
| "session_call_tools exchange now server count index results ((tool, arguments) # rest) s =
     (case next_request_id s of (rid, s1) \<Rightarrow>
        (case (case exchange (session_request rid ''tools/call'' (tool_call_params tool arguments)) of
                 Inl e \<Rightarrow> Inl e
               | Inr res \<Rightarrow>
                   (case validate_tool_call_result server tool res of Inl e \<Rightarrow> Inl e | Inr is_error \<Rightarrow> Inr (res, is_error))) of
           Inl e \<Rightarrow> (Inl (StateError (batch_tool_call_error server index count e)), s1)
         | Inr (res, is_error) \<Rightarrow>
             session_call_tools exchange now server count (Suc index) (results @ [call_result_json index is_error tool res])
               rest (count_call now s1)))"

section \<open>Workers and the registry\<close>

record pooled_worker =
  wk_session :: "pooled_session option"
  wk_poisoned :: bool
  wk_busy :: bool
  wk_initialized :: bool
  wk_last_used_ms :: nat
  wk_idle_ttl_ms :: nat

type_synonym worker_groups = "(upstream_session_key \<times> nat list) list"

record session_pool =
  po_groups :: worker_groups
  po_worker :: "nat \<Rightarrow> pooled_worker"
  po_next :: nat
  po_max_sessions :: nat

definition UPSTREAM_SESSION_IDLE_TTL :: nat where "UPSTREAM_SESSION_IDLE_TTL = 300 * 1000"

definition worker_reserved :: "nat \<Rightarrow> nat \<Rightarrow> pooled_worker" where
  "worker_reserved now_ms idle_ttl_ms =
     \<lparr>wk_session = None, wk_poisoned = False, wk_busy = True, wk_initialized = False, wk_last_used_ms = now_ms,
      wk_idle_ttl_ms = max idle_ttl_ms 1\<rparr>"

definition with_max_sessions :: "nat \<Rightarrow> session_pool" where
  "with_max_sessions n =
     \<lparr>po_groups = [], po_worker = (\<lambda>_. worker_reserved 0 1), po_next = 0, po_max_sessions = max n 1\<rparr>"

definition upd_worker :: "nat \<Rightarrow> (pooled_worker \<Rightarrow> pooled_worker) \<Rightarrow> session_pool \<Rightarrow> session_pool" where
  "upd_worker w f pool = pool\<lparr>po_worker := (po_worker pool)(w := f (po_worker pool w))\<rparr>"

definition group_of :: "upstream_session_key \<Rightarrow> worker_groups \<Rightarrow> nat list" where
  "group_of key groups = (case map_of groups key of None \<Rightarrow> [] | Some ws \<Rightarrow> ws)"

definition put_group :: "upstream_session_key \<Rightarrow> nat list \<Rightarrow> worker_groups \<Rightarrow> worker_groups" where
  "put_group key ws groups = (if ws = [] then bt_remove key groups else bt_insert key ws groups)"

definition registered_session_count :: "session_pool \<Rightarrow> nat" where
  "registered_session_count pool = sum_list (map (\<lambda>e. length (snd e)) (po_groups pool))"

definition pool_idle_ttl_ms :: "session_pool \<Rightarrow> nat" where
  "pool_idle_ttl_ms pool =
     (case map (\<lambda>w. wk_idle_ttl_ms (po_worker pool w)) (concat (map snd (po_groups pool))) of
        [] \<Rightarrow> UPSTREAM_SESSION_IDLE_TTL
      | ttl # ttls \<Rightarrow> foldl max ttl ttls)"

definition list_remove :: "nat \<Rightarrow> 'a list \<Rightarrow> 'a list" where
  "list_remove i xs = take i xs @ drop (Suc i) xs"

definition idle_candidates :: "session_pool \<Rightarrow> (upstream_session_key \<times> nat \<times> nat) list" where
  "idle_candidates pool =
     concat (map (\<lambda>(key, ws).
       List.map_filter
         (\<lambda>(index, w). if \<not> wk_busy (po_worker pool w) then Some (key, index, wk_last_used_ms (po_worker pool w)) else None)
         (zip [0..<length ws] ws)) (po_groups pool))"

definition remove_oldest_idle_worker :: "session_pool \<Rightarrow> nat option \<times> session_pool" where
  "remove_oldest_idle_worker pool =
     (case min_by_key (\<lambda>(key, index, used). used) (idle_candidates pool) of
        None \<Rightarrow> (None, pool)
      | Some (key, index, used) \<Rightarrow>
          (case map_of (po_groups pool) key of
             None \<Rightarrow> (None, pool)
           | Some ws \<Rightarrow> (Some (ws ! index), pool\<lparr>po_groups := put_group key (list_remove index ws) (po_groups pool)\<rparr>)))"

definition remove_worker :: "upstream_session_key \<Rightarrow> nat \<Rightarrow> session_pool \<Rightarrow> session_pool" where
  "remove_worker key w pool =
     pool\<lparr>po_groups := put_group key (remove1 w (group_of key (po_groups pool))) (po_groups pool)\<rparr>"

text \<open>\<open>remove_workers\<close>: the candidates that are still not busy; a group that becomes empty is dropped.\<close>

definition keep_worker :: "nat list \<Rightarrow> session_pool \<Rightarrow> nat \<Rightarrow> bool" where
  "keep_worker candidates pool w \<longleftrightarrow> \<not> (w \<in> set candidates \<and> \<not> wk_busy (po_worker pool w))"

definition remove_workers :: "nat list \<Rightarrow> session_pool \<Rightarrow> nat list \<times> session_pool" where
  "remove_workers candidates pool =
     (if candidates = [] then ([], pool)
      else (filter (\<lambda>w. \<not> keep_worker candidates pool w) (concat (map snd (po_groups pool))),
            pool\<lparr>po_groups := filter (\<lambda>e. snd e \<noteq> [])
                    (map (\<lambda>(key, ws). (key, filter (keep_worker candidates pool) ws)) (po_groups pool))\<rparr>))"

datatype try_lock = Locked bool | WouldBlock

text \<open>Whether a worker is stale: not busy, and idle for longer than its time to live or without a running process. The
  answer of \<open>try_lock\<close> carries whether the process has exited.\<close>

definition stale_worker :: "nat \<Rightarrow> try_lock \<Rightarrow> pooled_worker \<Rightarrow> bool" where
  "stale_worker now_ms lock wk \<longleftrightarrow>
     \<not> wk_busy wk \<and>
     (wk_idle_ttl_ms wk < now_ms - wk_last_used_ms wk \<or>
      (case lock of
         WouldBlock \<Rightarrow> False
       | Locked has_exited \<Rightarrow>
           wk_poisoned wk \<or> (case wk_session wk of None \<Rightarrow> True | Some _ \<Rightarrow> has_exited)))"

datatype selection = Selected nat bool | Evicted nat | NoWorker

text \<open>The part of \<open>checkout\<close> under the lock of the registry.\<close>

definition checkout_select ::
  "upstream_session_key \<Rightarrow> nat \<Rightarrow> nat \<Rightarrow> nat \<Rightarrow> session_pool \<Rightarrow> selection \<times> session_pool" where
  "checkout_select key worker_limit idle_ttl_ms now_ms pool =
     (case find (\<lambda>w. \<not> wk_busy (po_worker pool w)) (take worker_limit (group_of key (po_groups pool))) of
        Some w \<Rightarrow>
          (Selected w (wk_initialized (po_worker pool w)),
           upd_worker w (\<lambda>wk. wk\<lparr>wk_busy := True, wk_idle_ttl_ms := idle_ttl_ms\<rparr>) pool)
      | None \<Rightarrow>
          (let group_len = length (group_of key (po_groups pool)); n = registered_session_count pool
           in if group_len < worker_limit \<and> n < po_max_sessions pool
              then (Selected (po_next pool) False,
                    pool\<lparr>po_groups := put_group key (group_of key (po_groups pool) @ [po_next pool]) (po_groups pool),
                         po_worker := (po_worker pool)(po_next pool := worker_reserved now_ms idle_ttl_ms),
                         po_next := Suc (po_next pool)\<rparr>)
              else if po_max_sessions pool \<le> n
              then (case remove_oldest_idle_worker pool of
                      (Some w, pool') \<Rightarrow> (Evicted w, pool')
                    | (None, pool') \<Rightarrow> (NoWorker, pool'))
              else (NoWorker, pool)))"

section \<open>Using a checked-out worker\<close>

text \<open>An operation of the checkout locks the session; the flag says whether the checkout is marked as failed.\<close>

definition checkout_run ::
  "(pooled_session \<Rightarrow> (upstream_session_pool_error + 'a) \<times> pooled_session) \<Rightarrow> nat \<Rightarrow> session_pool \<Rightarrow>
   (upstream_session_pool_error + 'a) \<times> bool \<times> session_pool" where
  "checkout_run f w pool =
     (if wk_poisoned (po_worker pool w)
      then (Inl (StateError ''checked-out upstream worker session state was poisoned''), True,
            upd_worker w (\<lambda>wk. wk\<lparr>wk_initialized := False\<rparr>) pool)
      else (case wk_session (po_worker pool w) of
              None \<Rightarrow> (Inl (StateError ''checked-out upstream worker is not initialized''), False, pool)
            | Some s \<Rightarrow>
                (case f s of (res, s') \<Rightarrow>
                   (res, isl res, upd_worker w (\<lambda>wk. wk\<lparr>wk_session := Some s'\<rparr>) pool))))"

record pool_call_outcome =
  oc_hit :: bool
  oc_session_call_count :: nat
  oc_session_age_ms :: nat
  oc_pool_size :: nat
  oc_max_pool_size :: nat
  oc_idle_ttl_ms :: nat
  oc_evicted_idle_count :: nat
  oc_evicted_capacity_count :: nat

definition checkout_outcome ::
  "bool \<Rightarrow> nat \<Rightarrow> nat \<Rightarrow> nat \<Rightarrow> nat \<Rightarrow> session_pool \<Rightarrow> (upstream_session_pool_error + pool_call_outcome) \<times> bool \<times> session_pool" where
  "checkout_outcome hit evicted_idle evicted_capacity now w pool =
     checkout_run
       (\<lambda>s. (Inr \<lparr>oc_hit = hit, oc_session_call_count = us_call_count s, oc_session_age_ms = now - us_created_at s,
                  oc_pool_size = registered_session_count pool, oc_max_pool_size = po_max_sessions pool,
                  oc_idle_ttl_ms = wk_idle_ttl_ms (po_worker pool w), oc_evicted_idle_count = evicted_idle,
                  oc_evicted_capacity_count = evicted_capacity\<rparr>, s)) w pool"

section \<open>Snapshots\<close>

record upstream_session_snapshot =
  ss_server_name :: string
  ss_pid :: nat
  ss_client_id :: string
  ss_session_id :: string
  ss_project_root :: string
  ss_transport :: string
  ss_created_age_ms :: nat
  ss_idle_ms :: nat
  ss_call_count :: nat
  ss_resource :: json

definition snapshot_json :: "upstream_session_snapshot \<Rightarrow> json" where
  "snapshot_json s =
     json_object
       [(''server'', JString (ss_server_name s)), (''pid'', json_number (ss_pid s)), (''clientId'', JString (ss_client_id s)),
        (''sessionId'', JString (ss_session_id s)), (''projectRoot'', JString (ss_project_root s)),
        (''transport'', JString (ss_transport s)), (''ageMs'', json_number (ss_created_age_ms s)),
        (''idleMs'', json_number (ss_idle_ms s)), (''callCount'', json_number (ss_call_count s)),
        (''resource'', ss_resource s)]"

definition worker_snapshot ::
  "nat \<Rightarrow> (nat \<Rightarrow> json) \<Rightarrow> try_lock \<Rightarrow> upstream_session_key \<Rightarrow> nat \<Rightarrow> session_pool \<Rightarrow> upstream_session_snapshot option \<times> session_pool" where
  "worker_snapshot now resource lock key w pool =
     (let wk = po_worker pool w
      in if \<not> wk_initialized wk then (None, pool)
         else case lock of
                WouldBlock \<Rightarrow> (None, pool)
              | Locked has_exited \<Rightarrow>
                  if wk_poisoned wk then (None, upd_worker w (\<lambda>wk. wk\<lparr>wk_initialized := False\<rparr>) pool)
                  else (case wk_session wk of
                          None \<Rightarrow> (None, pool)
                        | Some s \<Rightarrow>
                            if has_exited then (None, pool)
                            else (Some \<lparr>ss_server_name = sk_server_name key, ss_pid = us_pid s,
                                    ss_client_id = sk_client_id key, ss_session_id = sk_session_id key,
                                    ss_project_root = sk_project_root key, ss_transport = sk_transport key,
                                    ss_created_age_ms = now - us_created_at s, ss_idle_ms = now - us_last_used s,
                                    ss_call_count = us_call_count s, ss_resource = resource (us_pid s)\<rparr>, pool)))"

text \<open>\<open>session_snapshots\<close> when no other thread acts in between; \<open>locks\<close> are the answers of \<open>try_lock\<close>.\<close>

fun collect_snapshots ::
  "nat \<Rightarrow> (nat \<Rightarrow> json) \<Rightarrow> (nat \<Rightarrow> try_lock) \<Rightarrow> (upstream_session_key \<times> nat) list \<Rightarrow> session_pool \<Rightarrow>
   upstream_session_snapshot list \<times> session_pool" where
  "collect_snapshots now resource locks [] pool = ([], pool)"
| "collect_snapshots now resource locks ((key, w) # rest) pool =
     (case worker_snapshot now resource (locks w) key w pool of
        (r, pool1) \<Rightarrow>
          (case collect_snapshots now resource locks rest pool1 of
             (rs, pool2) \<Rightarrow> (case_option [] (\<lambda>x. [x]) r @ rs, pool2)))"

definition session_snapshots ::
  "nat \<Rightarrow> (nat \<Rightarrow> json) \<Rightarrow> (nat \<Rightarrow> try_lock) \<Rightarrow> session_pool \<Rightarrow> upstream_session_snapshot list \<times> session_pool" where
  "session_snapshots now resource locks pool =
     collect_snapshots now resource locks (concat (map (\<lambda>(key, ws). map (Pair key) ws) (po_groups pool))) pool"

section \<open>Threads\<close>

text \<open>
  Where a thread is: nowhere, scanning the registry for stale workers, about to remove them, about to select a worker,
  waiting for one, starting the process of a new one, holding one, about to give it back, about to remove a failed one from
  the registry, about to clear its busy flag. A scan is part of a checkout (with its key and idle time) or stands alone.
\<close>

datatype pool_pc =
    PIdle
  | PScan "(upstream_session_key \<times> nat) option" "nat list" "nat list"
  | PPurge "(upstream_session_key \<times> nat) option" "nat list"
  | PSelect upstream_session_key nat
  | PWait upstream_session_key nat
  | PInit upstream_session_key nat
  | PHeld upstream_session_key nat
  | PRelease upstream_session_key nat
  | PFailed upstream_session_key nat
  | PRemoved nat

record pool_system =
  sy_pool :: session_pool
  sy_pc :: "nat \<Rightarrow> pool_pc"

definition set_pc :: "nat \<Rightarrow> pool_pc \<Rightarrow> session_pool \<Rightarrow> pool_system \<Rightarrow> pool_system" where
  "set_pc p c pool s = s\<lparr>sy_pool := pool, sy_pc := (sy_pc s)(p := c)\<rparr>"

definition all_workers :: "session_pool \<Rightarrow> nat list" where
  "all_workers pool = concat (map snd (po_groups pool))"

definition session_after :: "pooled_session \<Rightarrow> pooled_session \<Rightarrow> bool" where
  "session_after s t \<longleftrightarrow>
     (\<exists>compact exchange server now. snd (session_list_tools compact exchange server now None pagination_new s) = t) \<or>
     (\<exists>exchange now tool arguments. snd (session_call_tool exchange now tool arguments s) = t) \<or>
     (\<exists>exchange now server calls. snd (session_call_tools exchange now server (length calls) 0 [] calls s) = t)"

text \<open>The steps of the threads; \<open>limit_of\<close> is the worker limit of the execution policy of the server behind a key.\<close>

inductive pool_step :: "(upstream_session_key \<Rightarrow> nat) \<Rightarrow> pool_system \<Rightarrow> pool_system \<Rightarrow> bool" for limit_of where
  checkout_call: "sy_pc s p = PIdle \<Longrightarrow>
     pool_step limit_of s (set_pc p (PScan (Some (key, ttl)) (all_workers (sy_pool s)) []) (sy_pool s) s)"
| purge_call: "sy_pc s p = PIdle \<Longrightarrow>
     pool_step limit_of s (set_pc p (PScan None (all_workers (sy_pool s)) []) (sy_pool s) s)"
| scan: "sy_pc s p = PScan a (w # todo) stale \<Longrightarrow>
     pool_step limit_of s
       (set_pc p (PScan a todo (if stale_worker now_ms lock (po_worker (sy_pool s) w) then stale @ [w] else stale))
          (sy_pool s) s)"
| scan_end: "sy_pc s p = PScan a [] stale \<Longrightarrow> pool_step limit_of s (set_pc p (PPurge a stale) (sy_pool s) s)"
| purge: "sy_pc s p = PPurge a stale \<Longrightarrow>
     pool_step limit_of s
       (set_pc p (case a of None \<Rightarrow> PIdle | Some (key, ttl) \<Rightarrow> PSelect key ttl) (snd (remove_workers stale (sy_pool s))) s)"
| lease_lost: "sy_pc s p = PSelect key ttl \<Longrightarrow> pool_step limit_of s (set_pc p PIdle (sy_pool s) s)"
| select: "sy_pc s p = PSelect key ttl \<Longrightarrow>
     checkout_select key (max (limit_of key) 1) (max ttl 1) now_ms (sy_pool s) = (sel, pool) \<Longrightarrow>
     pool_step limit_of s
       (set_pc p (case sel of
                    Selected w hit \<Rightarrow> if hit then PHeld key w else PInit key w
                  | Evicted w \<Rightarrow> PSelect key ttl
                  | NoWorker \<Rightarrow> PWait key ttl) pool s)"
| wait_timeout: "sy_pc s p = PWait key ttl \<Longrightarrow> pool_step limit_of s (set_pc p PIdle (sy_pool s) s)"
| wait_woken: "sy_pc s p = PWait key ttl \<Longrightarrow>
     pool_step limit_of s (set_pc p (PScan (Some (key, ttl)) (all_workers (sy_pool s)) []) (sy_pool s) s)"
| init_ok: "sy_pc s p = PInit key w \<Longrightarrow> \<not> wk_poisoned (po_worker (sy_pool s) w) \<Longrightarrow>
     pool_step limit_of s
       (set_pc p (PHeld key w)
          (upd_worker w (\<lambda>wk. wk\<lparr>wk_session := Some (session_new pid key now), wk_initialized := True\<rparr>) (sy_pool s)) s)"
| init_failed: "sy_pc s p = PInit key w \<Longrightarrow>
     pool_step limit_of s
       (set_pc p (PFailed key w) (upd_worker w (\<lambda>wk. wk\<lparr>wk_initialized := False\<rparr>) (sy_pool s)) s)"
| call_session: "sy_pc s p = PHeld key w \<Longrightarrow> \<not> wk_poisoned (po_worker (sy_pool s) w) \<Longrightarrow>
     wk_session (po_worker (sy_pool s) w) = Some x \<Longrightarrow> session_after x y \<Longrightarrow>
     pool_step limit_of s (set_pc p (PHeld key w) (upd_worker w (\<lambda>wk. wk\<lparr>wk_session := Some y\<rparr>) (sy_pool s)) s)"
| call_panics: "sy_pc s p = PHeld key w \<Longrightarrow>
     pool_step limit_of s (set_pc p (PHeld key w) (upd_worker w (\<lambda>wk. wk\<lparr>wk_poisoned := True\<rparr>) (sy_pool s)) s)"
| drop_ok: "sy_pc s p = PHeld key w \<Longrightarrow>
     pool_step limit_of s
       (set_pc p (PRelease key w) (upd_worker w (\<lambda>wk. wk\<lparr>wk_last_used_ms := now_ms\<rparr>) (sy_pool s)) s)"
| drop_failed: "sy_pc s p = PHeld key w \<Longrightarrow>
     pool_step limit_of s
       (set_pc p (PFailed key w)
          (upd_worker w (\<lambda>wk. wk\<lparr>wk_last_used_ms := now_ms, wk_initialized := False\<rparr>) (sy_pool s)) s)"
| release: "sy_pc s p = PRelease key w \<Longrightarrow>
     pool_step limit_of s (set_pc p PIdle (upd_worker w (\<lambda>wk. wk\<lparr>wk_busy := False\<rparr>) (sy_pool s)) s)"
| remove_failed: "sy_pc s p = PFailed key w \<Longrightarrow>
     pool_step limit_of s (set_pc p (PRemoved w) (remove_worker key w (sy_pool s)) s)"
| clear_busy: "sy_pc s p = PRemoved w \<Longrightarrow>
     pool_step limit_of s (set_pc p PIdle (upd_worker w (\<lambda>wk. wk\<lparr>wk_busy := False\<rparr>) (sy_pool s)) s)"
| snapshot_poisoned: "wk_poisoned (po_worker (sy_pool s) w) \<Longrightarrow>
     pool_step limit_of s (s\<lparr>sy_pool := upd_worker w (\<lambda>wk. wk\<lparr>wk_initialized := False\<rparr>) (sy_pool s)\<rparr>)"

definition pool_start :: "nat \<Rightarrow> pool_system" where
  "pool_start n = \<lparr>sy_pool = with_max_sessions n, sy_pc = (\<lambda>_. PIdle)\<rparr>"

end
