(* ===== verification/Session_Pool_Properties.thy ===== *)
theory Session_Pool_Properties
  imports Session_Pool
begin

text \<open>
  What the pool of child processes promises under every interleaving of its threads: a worker is used by one thread at a
  time, only for the key it was started for; the pool never holds more workers than its maximum, nor a group more than the
  limit of its policy; a busy worker always has a thread that will give it back.
\<close>

section \<open>Groups\<close>

definition registered :: "upstream_session_key \<Rightarrow> nat \<Rightarrow> session_pool \<Rightarrow> bool" where
  "registered key w pool \<longleftrightarrow> w \<in> set (group_of key (po_groups pool))"

definition groups_ok :: "worker_groups \<Rightarrow> bool" where
  "groups_ok g \<longleftrightarrow>
     bt_ok g \<and> (\<forall>k. distinct (group_of k g)) \<and>
     (\<forall>k k' w. w \<in> set (group_of k g) \<and> w \<in> set (group_of k' g) \<longrightarrow> k = k')"

definition group_count :: "worker_groups \<Rightarrow> nat" where
  "group_count g = sum_list (map (\<lambda>e. length (snd e)) g)"

lemma group_of_put: "group_of k (put_group k' ws g) = (if k = k' then ws else group_of k g)"
  by (auto simp: group_of_def put_group_def)

lemma bt_ok_put [simp]: "bt_ok g \<Longrightarrow> bt_ok (put_group k ws g)"
  by (simp add: put_group_def)

lemma group_count_insert:
  "bt_ok g \<Longrightarrow> group_count (bt_insert k ws g) + length (group_of k g) = group_count g + length ws"
proof (induction g)
  case (Cons e g)
  obtain a b where e: "e = (a, b)" by force
  have "k < a \<Longrightarrow> map_of g k = None" using Cons.prems by (force simp: e map_of_eq_None_iff)
  moreover have "k = a \<Longrightarrow> map_of g k = None" using Cons.prems by (force simp: e map_of_eq_None_iff)
  ultimately show ?case using Cons by (auto simp: e group_count_def group_of_def)
qed (simp add: group_count_def group_of_def)

lemma group_count_remove: "bt_ok g \<Longrightarrow> group_count (bt_remove k g) + length (group_of k g) = group_count g"
proof (induction g)
  case (Cons e g)
  obtain a b where e: "e = (a, b)" by force
  have "k = a \<Longrightarrow> bt_remove k g = g"
    using Cons.prems by (force simp: e bt_remove_def intro!: filter_True)
  then show ?case using Cons by (auto simp: e group_count_def group_of_def bt_remove_def)
qed (simp add: group_count_def group_of_def bt_remove_def)

lemma group_count_put: "bt_ok g \<Longrightarrow> group_count (put_group k ws g) + length (group_of k g) = group_count g + length ws"
  by (simp add: put_group_def group_count_insert group_count_remove)

lemma groups_ok_subset:
  assumes "groups_ok g" "bt_ok g'" "\<And>k. distinct (group_of k g')" "\<And>k. set (group_of k g') \<subseteq> set (group_of k g)"
  shows "groups_ok g'"
  using assms unfolding groups_ok_def by (meson subsetD)

text \<open>Replacing one group by a sublist of it.\<close>

lemma shrink_group:
  assumes "groups_ok g" "set ws \<subseteq> set (group_of k g)" "distinct ws" "length ws \<le> length (group_of k g)"
  shows "groups_ok (put_group k ws g)" "group_count (put_group k ws g) \<le> group_count g"
proof -
  show "groups_ok (put_group k ws g)"
    using assms(1-3) by (intro groups_ok_subset [OF assms(1)]) (auto simp: group_of_put groups_ok_def)
  show "group_count (put_group k ws g) \<le> group_count g"
    using group_count_put [of g k ws] assms(1,4) by (simp add: groups_ok_def)
qed

lemma list_remove_facts:
  assumes "i < length xs" "distinct xs"
  shows "set (list_remove i xs) = set xs - {xs ! i}" "distinct (list_remove i xs)" "length (list_remove i xs) \<le> length xs"
proof -
  have x: "xs = take i xs @ xs ! i # drop (Suc i) xs" using assms(1) by (rule id_take_nth_drop)
  then have d: "distinct (take i xs @ xs ! i # drop (Suc i) xs)" using assms(2) by metis
  then show "distinct (list_remove i xs)" by (auto simp: list_remove_def)
  have "set xs = insert (xs ! i) (set (list_remove i xs))"
    by (subst x) (auto simp: list_remove_def)
  moreover have "xs ! i \<notin> set (list_remove i xs)" using d by (auto simp: list_remove_def)
  ultimately show "set (list_remove i xs) = set xs - {xs ! i}" by auto
  show "length (list_remove i xs) \<le> length xs" using assms(1) by (simp add: list_remove_def)
qed

lemma idle_candidates_mem:
  assumes "(k, i, used) \<in> set (idle_candidates pool)" "bt_ok (po_groups pool)"
  shows "\<exists>ws. map_of (po_groups pool) k = Some ws \<and> i < length ws \<and> \<not> wk_busy (po_worker pool (ws ! i)) \<and>
    used = wk_last_used_ms (po_worker pool (ws ! i))"
proof -
  obtain ws where ws: "(k, ws) \<in> set (po_groups pool)"
    and "i < length ws" "\<not> wk_busy (po_worker pool (ws ! i))" "used = wk_last_used_ms (po_worker pool (ws ! i))"
    using assms(1) by (auto simp: idle_candidates_def List.map_filter_def in_set_zip split: if_splits)
  then show ?thesis using bt_in_set [OF assms(2), of k ws] by auto
qed

lemma remove_oldest_facts:
  assumes "remove_oldest_idle_worker pool = (Some w, pool')" "groups_ok (po_groups pool)"
  shows "\<exists>k. registered k w pool \<and> \<not> wk_busy (po_worker pool w) \<and> groups_ok (po_groups pool') \<and>
    group_count (po_groups pool') \<le> group_count (po_groups pool) \<and> po_worker pool' = po_worker pool \<and>
    po_next pool' = po_next pool \<and> po_max_sessions pool' = po_max_sessions pool \<and>
    (\<forall>k'. set (group_of k' (po_groups pool')) = set (group_of k' (po_groups pool)) - {w} \<and>
          length (group_of k' (po_groups pool')) \<le> length (group_of k' (po_groups pool)))"
proof -
  have ok: "bt_ok (po_groups pool)" using assms(2) by (simp add: groups_ok_def)
  obtain k i used ws where m: "min_by_key (\<lambda>(key, index, used). used) (idle_candidates pool) = Some (k, i, used)"
    and ws: "map_of (po_groups pool) k = Some ws" "w = ws ! i"
    and pool': "pool' = pool\<lparr>po_groups := put_group k (list_remove i ws) (po_groups pool)\<rparr>"
    using assms(1) by (auto simp: remove_oldest_idle_worker_def split: option.splits)
  have g: "group_of k (po_groups pool) = ws" using ws(1) by (simp add: group_of_def)
  have i: "i < length ws" "\<not> wk_busy (po_worker pool w)"
    using idle_candidates_mem [of k i used pool] min_by_key_least [OF m] ok ws by auto
  have d: "distinct ws" using assms(2) g unfolding groups_ok_def by metis
  note lr = list_remove_facts [OF i(1) d]
  have other: "k' \<noteq> k \<Longrightarrow> w \<notin> set (group_of k' (po_groups pool))" for k'
    using assms(2) g i(1) ws(2) unfolding groups_ok_def by (metis nth_mem)
  have "registered k w pool" using g i(1) ws(2) by (simp add: registered_def)
  then show ?thesis
    using shrink_group [OF assms(2), of "list_remove i ws" k] lr g i(2) other ws(2)
    by (intro exI [of _ k]) (auto simp: pool' group_of_put)
qed

lemma map_of_shrunk_groups:
  "bt_ok g \<Longrightarrow> map_of (filter (\<lambda>e. snd e \<noteq> []) (map (\<lambda>(k, ws). (k, filter f ws)) g)) k =
     (case map_of g k of None \<Rightarrow> None | Some ws \<Rightarrow> if filter f ws = [] then None else Some (filter f ws))"
proof (induction g)
  case (Cons e g)
  obtain a b where e: "e = (a, b)" by force
  have "map_of g a = None" using Cons.prems by (force simp: e map_of_eq_None_iff)
  then show ?case using Cons by (auto simp: e split: option.splits)
qed simp

lemma shrunk_groups_ok:
  "bt_ok g \<Longrightarrow> bt_ok (filter (\<lambda>e. snd e \<noteq> []) (map (\<lambda>(k, ws). (k, filter f ws)) g))"
  by (intro bt_ok_filter) (induction g, auto)

lemma shrunk_groups_count:
  "group_count (filter (\<lambda>e. snd e \<noteq> []) (map (\<lambda>(k, ws). (k, filter f ws)) g)) \<le> group_count g"
proof (induction g)
  case (Cons e g)
  then show ?case
    using add_mono [OF length_filter_le [of f "snd e"] Cons.IH] by (cases e) (auto simp: group_count_def)
qed (simp add: group_count_def)

lemma remove_workers_facts:
  assumes "groups_ok (po_groups pool)"
  shows "groups_ok (po_groups (snd (remove_workers c pool))) \<and>
    group_count (po_groups (snd (remove_workers c pool))) \<le> group_count (po_groups pool) \<and>
    po_worker (snd (remove_workers c pool)) = po_worker pool \<and> po_next (snd (remove_workers c pool)) = po_next pool \<and>
    po_max_sessions (snd (remove_workers c pool)) = po_max_sessions pool \<and>
    (\<forall>k. set (group_of k (po_groups (snd (remove_workers c pool)))) = {w \<in> set (group_of k (po_groups pool)). keep_worker c pool w} \<and>
         length (group_of k (po_groups (snd (remove_workers c pool)))) \<le> length (group_of k (po_groups pool)))"
proof (cases "c = []")
  case False
  have ok: "bt_ok (po_groups pool)" using assms by (simp add: groups_ok_def)
  have g: "group_of k (po_groups (snd (remove_workers c pool))) = filter (keep_worker c pool) (group_of k (po_groups pool))" for k
    using False map_of_shrunk_groups [OF ok, of "keep_worker c pool" k]
    by (auto simp: remove_workers_def group_of_def split: option.splits)
  have "bt_ok (po_groups (snd (remove_workers c pool)))"
    using False shrunk_groups_ok [OF ok] by (simp add: remove_workers_def)
  then have "groups_ok (po_groups (snd (remove_workers c pool)))"
    using assms by (intro groups_ok_subset [OF assms]) (auto simp: g groups_ok_def)
  moreover have "group_count (po_groups (snd (remove_workers c pool))) \<le> group_count (po_groups pool)"
    using False shrunk_groups_count by (simp add: remove_workers_def)
  ultimately show ?thesis by (simp add: g) (simp add: remove_workers_def)
qed (use assms in \<open>simp add: remove_workers_def keep_worker_def\<close>)

lemma remove_worker_facts:
  assumes "groups_ok (po_groups pool)"
  shows "groups_ok (po_groups (remove_worker k w pool)) \<and>
    group_count (po_groups (remove_worker k w pool)) \<le> group_count (po_groups pool) \<and>
    po_worker (remove_worker k w pool) = po_worker pool \<and> po_next (remove_worker k w pool) = po_next pool \<and>
    po_max_sessions (remove_worker k w pool) = po_max_sessions pool \<and>
    (\<forall>k'. set (group_of k' (po_groups (remove_worker k w pool))) =
            (if k' = k then set (group_of k (po_groups pool)) - {w} else set (group_of k' (po_groups pool))) \<and>
          length (group_of k' (po_groups (remove_worker k w pool))) \<le> length (group_of k' (po_groups pool)))"
proof -
  have d: "distinct (group_of k (po_groups pool))" using assms by (simp add: groups_ok_def)
  then have s: "set (remove1 w (group_of k (po_groups pool))) = set (group_of k (po_groups pool)) - {w}"
    by (simp add: set_remove1_eq)
  have l: "length (remove1 w (group_of k (po_groups pool))) \<le> length (group_of k (po_groups pool))"
    by (simp add: length_remove1)
  show ?thesis
    using shrink_group [OF assms, of "remove1 w (group_of k (po_groups pool))" k] s l d
    by (simp add: remove_worker_def group_of_put)
qed

section \<open>The invariant\<close>

definition pool_ok :: "(upstream_session_key \<Rightarrow> nat) \<Rightarrow> session_pool \<Rightarrow> bool" where
  "pool_ok limit_of pool \<longleftrightarrow>
     groups_ok (po_groups pool) \<and> group_count (po_groups pool) \<le> po_max_sessions pool \<and>
     (\<forall>k. length (group_of k (po_groups pool)) \<le> max (limit_of k) 1) \<and>
     (\<forall>k w. registered k w pool \<longrightarrow>
        w < po_next pool \<and>
        (\<forall>s. wk_session (po_worker pool w) = Some s \<longrightarrow> us_started_for s = k) \<and>
        (wk_initialized (po_worker pool w) \<longrightarrow> wk_session (po_worker pool w) \<noteq> None))"

fun holds :: "pool_pc \<Rightarrow> (upstream_session_key \<times> nat) option" where
  "holds (PInit k w) = Some (k, w)"
| "holds (PHeld k w) = Some (k, w)"
| "holds (PRelease k w) = Some (k, w)"
| "holds (PFailed k w) = Some (k, w)"
| "holds _ = None"

text \<open>Ownership, over the relation of registration and the busy flags.\<close>

definition own_ok :: "(upstream_session_key \<Rightarrow> nat \<Rightarrow> bool) \<Rightarrow> (nat \<Rightarrow> bool) \<Rightarrow> nat \<Rightarrow> (nat \<Rightarrow> pool_pc) \<Rightarrow> bool" where
  "own_ok reg busy n pc \<longleftrightarrow>
     (\<forall>p k w. holds (pc p) = Some (k, w) \<longrightarrow> reg k w \<and> busy w) \<and>
     (\<forall>p q k k' w. holds (pc p) = Some (k, w) \<and> holds (pc q) = Some (k', w) \<longrightarrow> p = q) \<and>
     (\<forall>k w. reg k w \<and> busy w \<longrightarrow> (\<exists>p. holds (pc p) = Some (k, w))) \<and>
     (\<forall>p w. pc p = PRemoved w \<longrightarrow> w < n \<and> (\<forall>k. \<not> reg k w))"

definition pool_inv :: "(upstream_session_key \<Rightarrow> nat) \<Rightarrow> pool_system \<Rightarrow> bool" where
  "pool_inv limit_of s \<longleftrightarrow>
     pool_ok limit_of (sy_pool s) \<and>
     own_ok (\<lambda>k w. registered k w (sy_pool s)) (\<lambda>w. wk_busy (po_worker (sy_pool s) w)) (po_next (sy_pool s)) (sy_pc s) \<and>
     (\<forall>p k w. sy_pc s p = PHeld k w \<longrightarrow> wk_session (po_worker (sy_pool s) w) \<noteq> None)"

lemma own_okI:
  assumes "\<And>p k w. holds (pc p) = Some (k, w) \<Longrightarrow> reg k w" "\<And>p k w. holds (pc p) = Some (k, w) \<Longrightarrow> busy w"
    and "\<And>p q k k' w. holds (pc p) = Some (k, w) \<Longrightarrow> holds (pc q) = Some (k', w) \<Longrightarrow> p = q"
    and "\<And>k w. reg k w \<Longrightarrow> busy w \<Longrightarrow> \<exists>p. holds (pc p) = Some (k, w)"
    and "\<And>p w. pc p = PRemoved w \<Longrightarrow> w < n" "\<And>p k w. pc p = PRemoved w \<Longrightarrow> \<not> reg k w"
  shows "own_ok reg busy n pc"
  using assms unfolding own_ok_def by blast

lemma own_okD:
  assumes "own_ok reg busy n pc"
  shows "holds (pc p) = Some (k, w) \<Longrightarrow> reg k w" "holds (pc p) = Some (k, w) \<Longrightarrow> busy w"
    and "holds (pc p) = Some (k, w) \<Longrightarrow> holds (pc q) = Some (k', w) \<Longrightarrow> p = q"
    and "reg k w \<Longrightarrow> busy w \<Longrightarrow> \<exists>p. holds (pc p) = Some (k, w)"
    and "pc p = PRemoved w \<Longrightarrow> w < n" "pc p = PRemoved w \<Longrightarrow> \<not> reg k w"
  using assms unfolding own_ok_def by blast+

lemma own_shrink:
  assumes "own_ok reg busy n pc" "\<And>k w. reg' k w \<Longrightarrow> reg k w" "\<And>k w. reg k w \<Longrightarrow> busy w \<Longrightarrow> reg' k w"
  shows "own_ok reg' busy n pc"
  using assms unfolding own_ok_def by meson

lemma own_Suc: "own_ok reg busy n pc \<Longrightarrow> own_ok reg busy (Suc n) pc"
  unfolding own_ok_def by (meson less_SucI)

lemma own_pc:
  assumes "own_ok reg busy n pc" "holds c = holds (pc p)" "\<And>w. c \<noteq> PRemoved w"
  shows "own_ok reg busy n (pc(p := c))"
proof -
  have h: "holds ((pc(p := c)) q) = holds (pc q)" for q using assms(2) by simp
  show ?thesis
  proof (rule own_okI)
    fix q w assume "(pc(p := c)) q = PRemoved w"
    then have "pc q = PRemoved w" using assms(3) by (auto split: if_splits)
    then show "w < n" "\<And>k. \<not> reg k w" using own_okD(5,6) [OF assms(1)] by blast+
  qed (use own_okD(1-4) [OF assms(1)] h in metis)+
qed

text \<open>Taking an idle registered worker, or a new one.\<close>

lemma own_take:
  assumes "own_ok reg busy n pc" "reg k w" "\<not> busy w" "holds (pc p) = None" "holds c = Some (k, w)"
    and "\<And>k'. reg k' w \<Longrightarrow> k' = k"
  shows "own_ok reg (busy(w := True)) n (pc(p := c))"
proof -
  note d = own_okD [OF assms(1)]
  have other: "holds (pc q) = Some (k', v) \<Longrightarrow> v \<noteq> w" for q k' v using d(2) assms(3) by blast
  show ?thesis
  proof (rule own_okI)
    fix q k' v assume q: "holds ((pc(p := c)) q) = Some (k', v)"
    show "reg k' v" "(busy(w := True)) v" using q d(1,2) assms(2,5) by (auto split: if_splits)
    fix r k2 assume "holds ((pc(p := c)) r) = Some (k2, v)"
    then show "q = r" using q d(3) other assms(5) by (fastforce split: if_splits)
  next
    fix k' v assume v: "reg k' v" "(busy(w := True)) v"
    show "\<exists>q. holds ((pc(p := c)) q) = Some (k', v)"
    proof (cases "v = w")
      case True
      then show ?thesis using v(1) assms(5,6) by (intro exI [of _ p]) simp
    next
      case False
      then obtain q where "holds (pc q) = Some (k', v)" using d(4) v by auto
      then show ?thesis using assms(4) by (intro exI [of _ q]) auto
    qed
  next
    fix q v assume "(pc(p := c)) q = PRemoved v"
    then have "pc q = PRemoved v" using assms(5) by (auto split: if_splits)
    then show "v < n" "\<And>k. \<not> reg k v" using d(5,6) by blast+
  qed
qed

lemma own_new:
  assumes "own_ok reg busy n pc" "\<And>k w. reg k w \<Longrightarrow> w < n" "holds (pc p) = None" "holds c = Some (k, n)"
    and "\<And>k' w. reg' k' w \<longleftrightarrow> reg k' w \<or> (k' = k \<and> w = n)"
  shows "own_ok reg' (busy(n := True)) (Suc n) (pc(p := c))"
proof -
  have own: "own_ok reg' (busy(n := False)) n pc"
  proof (rule own_okI)
    fix q k' v assume q: "holds (pc q) = Some (k', v)"
    then have "v < n" using own_okD(1) [OF assms(1)] assms(2) by blast
    then show "reg' k' v" "(busy(n := False)) v" using own_okD(1,2) [OF assms(1) q] assms(5) by auto
  next
    fix k' v assume "reg' k' v" "(busy(n := False)) v"
    then show "\<exists>q. holds (pc q) = Some (k', v)" using own_okD(4) [OF assms(1)] assms(5) by (auto split: if_splits)
  next
    fix q k' v assume "pc q = PRemoved v"
    then show "v < n" "\<not> reg' k' v" using own_okD(5,6) [OF assms(1)] assms(5) by auto
  qed (use own_okD(3) [OF assms(1)] in blast)
  have "own_ok reg' ((busy(n := False))(n := True)) n (pc(p := c))"
  proof (rule own_take [OF own, where k = k])
    show "\<And>k'. reg' k' n \<Longrightarrow> k' = k" using assms(2,5) by blast
  qed (simp_all add: assms(3-5))
  then have "own_ok reg' (busy(n := True)) n (pc(p := c))" by simp
  then show ?thesis by (rule own_Suc)
qed

lemma own_release:
  assumes "own_ok reg busy n pc" "holds (pc p) = Some (k, w)" "holds c = None" "\<And>v. c \<noteq> PRemoved v"
    and "\<And>k'. reg k' w \<Longrightarrow> k' = k"
  shows "own_ok reg (busy(w := False)) n (pc(p := c))"
proof -
  note d = own_okD [OF assms(1)]
  show ?thesis
  proof (rule own_okI)
    fix q k' v assume q: "holds ((pc(p := c)) q) = Some (k', v)"
    then have old: "q \<noteq> p" "holds (pc q) = Some (k', v)" using assms(3) by (auto split: if_splits)
    then show "reg k' v" "(busy(w := False)) v" using d(1-3) assms(2) by auto
    fix r k2 assume "holds ((pc(p := c)) r) = Some (k2, v)"
    then show "q = r" using old d(3) assms(3) by (auto split: if_splits)
  next
    fix k' v assume v: "reg k' v" "(busy(w := False)) v"
    then obtain q where "holds (pc q) = Some (k', v)" using d(4) by (auto split: if_splits)
    then show "\<exists>q. holds ((pc(p := c)) q) = Some (k', v)" using v(2) assms(2) by (intro exI [of _ q]) auto
  next
    fix q v assume "(pc(p := c)) q = PRemoved v"
    then have "pc q = PRemoved v" using assms(4) by (auto split: if_splits)
    then show "v < n" "\<And>k. \<not> reg k v" using d(5,6) by blast+
  qed
qed

lemma own_remove:
  assumes "own_ok reg busy n pc" "holds (pc p) = Some (k, w)" "w < n" "\<And>k'. reg k' w \<Longrightarrow> k' = k"
    and "\<And>k' v. reg' k' v \<longleftrightarrow> reg k' v \<and> \<not> (k' = k \<and> v = w)"
  shows "own_ok reg' busy n (pc(p := PRemoved w))"
proof -
  have other: "q \<noteq> p \<Longrightarrow> holds (pc q) = Some (k', v) \<Longrightarrow> v \<noteq> w" for q k' v
    using assms(1,2) unfolding own_ok_def by blast
  show ?thesis
    unfolding own_ok_def
  proof (intro conjI allI impI)
    fix q k' v assume "holds ((pc(p := PRemoved w)) q) = Some (k', v)"
    then show "reg' k' v" "busy v" using assms(1,5) other unfolding own_ok_def by (auto split: if_splits)
  next
    fix q r k1 k2 v
    assume "holds ((pc(p := PRemoved w)) q) = Some (k1, v) \<and> holds ((pc(p := PRemoved w)) r) = Some (k2, v)"
    then show "q = r" using assms(1) unfolding own_ok_def by (auto split: if_splits)
  next
    fix k' v assume a: "reg' k' v \<and> busy v"
    then obtain q where "holds (pc q) = Some (k', v)" using assms(1,5) unfolding own_ok_def by blast
    then show "\<exists>q. holds ((pc(p := PRemoved w)) q) = Some (k', v)"
      using a assms(2,5) by (intro exI [of _ q]) auto
  next
    fix q v assume "(pc(p := PRemoved w)) q = PRemoved v"
    then show "v < n" "\<And>k'. \<not> reg' k' v"
      using assms(1,3,4,5) unfolding own_ok_def by (auto split: if_splits)
  qed
qed

lemma own_clear:
  assumes "own_ok reg busy n pc" "pc p = PRemoved w"
  shows "own_ok reg (busy(w := False)) n (pc(p := PIdle))"
proof -
  note d = own_okD [OF assms(1)]
  have free: "\<not> reg k w" for k using d(6) assms(2) by blast
  have "holds (pc q) \<noteq> Some (k, w)" for q k using d(1) free by blast
  then have "own_ok reg (busy(w := False)) n pc"
    by (intro own_okI) (use d in \<open>auto split: if_splits\<close>)
  then show ?thesis using assms(2) by (intro own_pc) auto
qed

section \<open>Every step keeps it\<close>

lemma next_request_id_started: "next_request_id x = (rid, y) \<Longrightarrow> us_started_for y = us_started_for x"
  by (auto simp: next_request_id_def Let_def)

lemma list_tools_started:
  "us_started_for (snd (session_list_tools compact exchange server now c p s)) = us_started_for s"
proof (induction compact exchange server now c p s rule: session_list_tools.induct)
  case (1 compact exchange server now c p s)
  obtain rid s1 where s1: "next_request_id s = (rid, s1)" by force
  note e = next_request_id_started [OF s1]
  show ?case
    by (subst session_list_tools.simps) (use 1 s1 e in \<open>auto split: sum.split option.split prod.split\<close>)
qed

lemma call_tools_started:
  "us_started_for (snd (session_call_tools exchange now server m i rs calls s)) = us_started_for s"
proof (induction exchange now server m i rs calls s rule: session_call_tools.induct)
  case (2 exchange now server m i rs tool arguments rest s)
  obtain rid s1 where s1: "next_request_id s = (rid, s1)" by force
  have "us_started_for (count_call now s1) = us_started_for s"
    using next_request_id_started [OF s1] by (simp add: count_call_def)
  then show ?case
    using "2.IH" [OF s1 [symmetric]] next_request_id_started [OF s1] s1 by (auto split: sum.split)
qed simp

lemma session_after_started: "session_after s t \<Longrightarrow> us_started_for t = us_started_for s"
proof -
  have "us_started_for (snd (session_call_tool exchange now tool a s)) = us_started_for s" for exchange now tool a
    by (auto simp: session_call_tool_def count_call_def dest: next_request_id_started split: sum.split prod.split)
  moreover assume "session_after s t"
  ultimately show ?thesis using list_tools_started call_tools_started by (auto simp: session_after_def)
qed

lemma pool_pc_simps [simp]: "sy_pool (set_pc p c pool s) = pool" "sy_pc (set_pc p c pool s) = (sy_pc s)(p := c)"
  by (simp_all add: set_pc_def)

lemma upd_worker_simps [simp]:
  "po_groups (upd_worker w f pool) = po_groups pool" "po_next (upd_worker w f pool) = po_next pool"
  "po_max_sessions (upd_worker w f pool) = po_max_sessions pool"
  "po_worker (upd_worker w f pool) = (po_worker pool)(w := f (po_worker pool w))"
  "registered k v (upd_worker w f pool) = registered k v pool"
  by (simp_all add: upd_worker_def registered_def)

lemma pool_ok_upd:
  assumes "pool_ok limit_of pool"
    and "\<And>k x. registered k w pool \<Longrightarrow> wk_session (f (po_worker pool w)) = Some x \<Longrightarrow> us_started_for x = k"
    and "wk_initialized (f (po_worker pool w)) \<Longrightarrow>
      wk_session (f (po_worker pool w)) \<noteq> None \<or> (\<forall>k. \<not> registered k w pool)"
  shows "pool_ok limit_of (upd_worker w f pool)"
  using assms unfolding pool_ok_def by auto

lemma pool_ok_flags:
  assumes "pool_ok limit_of pool" "\<And>wk. wk_session (f wk) = wk_session wk" "\<And>wk. wk_initialized (f wk) \<Longrightarrow> wk_initialized wk"
  shows "pool_ok limit_of (upd_worker w f pool)"
  using assms by (intro pool_ok_upd [OF assms(1)]) (auto simp: pool_ok_def)

lemma registered_unique: "pool_ok limit_of pool \<Longrightarrow> registered k w pool \<Longrightarrow> registered k' w pool \<Longrightarrow> k' = k"
  unfolding pool_ok_def groups_ok_def registered_def by blast

lemma pool_ok_shrink:
  assumes "pool_ok limit_of pool" "groups_ok (po_groups pool')" "group_count (po_groups pool') \<le> group_count (po_groups pool)"
    and "po_worker pool' = po_worker pool" "po_next pool' = po_next pool" "po_max_sessions pool' = po_max_sessions pool"
    and "\<And>k w. registered k w pool' \<Longrightarrow> registered k w pool"
    and "\<And>k. length (group_of k (po_groups pool')) \<le> length (group_of k (po_groups pool))"
  shows "pool_ok limit_of pool'"
  using assms unfolding pool_ok_def by (simp, blast intro: le_trans order_trans)

abbreviation owned :: "session_pool \<Rightarrow> (nat \<Rightarrow> pool_pc) \<Rightarrow> bool" where
  "owned pool pc \<equiv> own_ok (\<lambda>k w. registered k w pool) (\<lambda>w. wk_busy (po_worker pool w)) (po_next pool) pc"

lemma select_take:
  assumes "pool_ok limit_of pool" "owned pool pc" "holds (pc p) = None"
    and "registered key w pool" "\<not> wk_busy (po_worker pool w)" "holds c = Some (key, w)"
    and "pool' = upd_worker w (\<lambda>wk. wk\<lparr>wk_busy := True, wk_idle_ttl_ms := ttl\<rparr>) pool"
  shows "pool_ok limit_of pool' \<and> owned pool' (pc(p := c))"
proof -
  have "own_ok (\<lambda>k w. registered k w pool) ((\<lambda>w. wk_busy (po_worker pool w))(w := True)) (po_next pool) (pc(p := c))"
    by (rule own_take [OF assms(2) assms(4) assms(5) assms(3) assms(6)]) (rule registered_unique [OF assms(1) assms(4)])
  moreover have "(\<lambda>v. wk_busy (po_worker pool' v)) = (\<lambda>v. wk_busy (po_worker pool v))(w := True)"
    by (auto simp: assms(7))
  moreover have "pool_ok limit_of pool'"
    unfolding assms(7) by (rule pool_ok_upd [OF assms(1)]) (use assms(1) in \<open>auto simp: pool_ok_def\<close>)
  ultimately show ?thesis by (simp add: assms(7))
qed

lemma reserve_groups_ok:
  assumes "groups_ok g" "\<And>k. n \<notin> set (group_of k g)"
  shows "groups_ok (put_group key (group_of key g @ [n]) g)"
proof -
  have "k = k'" if "w \<in> set (group_of k g)" "w \<in> set (group_of k' g)" for k k' w
    using that assms(1) unfolding groups_ok_def by blast
  then show ?thesis using assms unfolding groups_ok_def by (simp add: group_of_put) blast
qed

lemma select_reserve:
  assumes "pool_ok limit_of pool" "owned pool pc" "holds (pc p) = None" "holds c = Some (key, po_next pool)"
    and "length (group_of key (po_groups pool)) < max (limit_of key) 1" "group_count (po_groups pool) < po_max_sessions pool"
    and pool': "pool' = pool\<lparr>po_groups := put_group key (group_of key (po_groups pool) @ [po_next pool]) (po_groups pool),
        po_worker := (po_worker pool)(po_next pool := worker_reserved now ttl), po_next := Suc (po_next pool)\<rparr>"
  shows "pool_ok limit_of pool' \<and> owned pool' (pc(p := c))"
proof -
  let ?g = "group_of key (po_groups pool)" and ?n = "po_next pool"
  have ok: "groups_ok (po_groups pool)" "bt_ok (po_groups pool)" using assms(1) by (auto simp: pool_ok_def groups_ok_def)
  have fresh: "registered k w pool \<Longrightarrow> w < ?n" for k w using assms(1) by (simp add: pool_ok_def)
  have reg: "registered k w pool' \<longleftrightarrow> registered k w pool \<or> (k = key \<and> w = ?n)" for k w
    by (auto simp: pool' registered_def group_of_put)
  have "groups_ok (po_groups pool')"
    using reserve_groups_ok [OF ok(1)] fresh by (force simp: pool' registered_def)
  moreover have "group_count (po_groups pool') \<le> po_max_sessions pool'"
    using group_count_put [OF ok(2), of key "?g @ [?n]"] assms(6) by (simp add: pool')
  moreover have "length (group_of k (po_groups pool')) \<le> max (limit_of k) 1" for k
    using assms(1,5) by (auto simp: pool' group_of_put pool_ok_def)
  moreover have "po_worker pool' w = po_worker pool w" if "registered k w pool" for k w
    using fresh [OF that] by (simp add: pool')
  ultimately have "pool_ok limit_of pool'"
    using assms(1) fresh unfolding pool_ok_def reg by (auto simp: pool' worker_reserved_def less_Suc_eq)
  moreover have "own_ok (\<lambda>k w. registered k w pool') ((\<lambda>w. wk_busy (po_worker pool w))(?n := True)) (Suc ?n) (pc(p := c))"
    by (rule own_new [OF assms(2) fresh assms(3,4) reg])
  moreover have "(\<lambda>v. wk_busy (po_worker pool' v)) = (\<lambda>v. wk_busy (po_worker pool v))(?n := True)"
    by (auto simp: pool' worker_reserved_def)
  ultimately show ?thesis by (simp add: pool')
qed

lemma select_evict:
  assumes "pool_ok limit_of pool" "owned pool pc" "remove_oldest_idle_worker pool = (Some w, pool')"
  shows "pool_ok limit_of pool' \<and> owned pool' pc"
proof -
  have "groups_ok (po_groups pool)" using assms(1) by (simp add: pool_ok_def)
  then obtain k where w: "registered k w pool" "\<not> wk_busy (po_worker pool w)"
    and f: "groups_ok (po_groups pool')" "group_count (po_groups pool') \<le> group_count (po_groups pool)"
      "po_worker pool' = po_worker pool" "po_next pool' = po_next pool" "po_max_sessions pool' = po_max_sessions pool"
    and s: "\<And>k'. set (group_of k' (po_groups pool')) = set (group_of k' (po_groups pool)) - {w} \<and>
      length (group_of k' (po_groups pool')) \<le> length (group_of k' (po_groups pool))"
    using remove_oldest_facts [OF assms(3)] by auto
  have reg: "registered k' v pool' \<longleftrightarrow> registered k' v pool \<and> v \<noteq> w" for k' v
    by (simp add: registered_def s)
  have "pool_ok limit_of pool'" by (rule pool_ok_shrink [OF assms(1) f]) (auto simp: reg s)
  moreover have "own_ok (\<lambda>k w. registered k w pool') (\<lambda>w. wk_busy (po_worker pool w)) (po_next pool) pc"
    by (rule own_shrink [OF assms(2)]) (auto simp: reg w(2))
  ultimately show ?thesis using f by simp
qed

lemma remove_oldest_None: "remove_oldest_idle_worker pool = (None, pool') \<Longrightarrow> pool' = pool"
  by (auto simp: remove_oldest_idle_worker_def split: option.splits prod.splits)

definition pc_of :: "upstream_session_key \<Rightarrow> nat \<Rightarrow> selection \<Rightarrow> pool_pc" where
  "pc_of key ttl sel =
     (case sel of
        Selected w hit \<Rightarrow> if hit then PHeld key w else PInit key w
      | Evicted w \<Rightarrow> PSelect key ttl
      | NoWorker \<Rightarrow> PWait key ttl)"

lemma checkout_select_ok:
  assumes "checkout_select key (max (limit_of key) 1) ttl now pool = (sel, pool')" "pool_ok limit_of pool" "owned pool pc"
    and "holds (pc p) = None"
  shows "pool_ok limit_of pool' \<and> owned pool' (pc(p := pc_of key t sel))"
proof (cases "find (\<lambda>w. \<not> wk_busy (po_worker pool w)) (take (max (limit_of key) 1) (group_of key (po_groups pool)))")
  case (Some w)
  have w: "registered key w pool" "\<not> wk_busy (po_worker pool w)"
    using Some by (auto simp: registered_def find_Some_iff dest: nth_mem in_set_takeD)
  then show ?thesis
    using assms(1) Some by (intro select_take [OF assms(2-4) w]) (auto simp: checkout_select_def pc_of_def)
next
  case None
  let ?g = "group_of key (po_groups pool)"
  have idle: "owned pool (pc(p := pc_of key t x))" if "\<And>w h. x \<noteq> Selected w h" for x
    using that assms(4) by (cases x) (auto intro!: own_pc [OF assms(3)] simp: pc_of_def)
  consider (reserve) "length ?g < max (limit_of key) 1" "group_count (po_groups pool) < po_max_sessions pool"
      "sel = Selected (po_next pool) False"
      "pool' = pool\<lparr>po_groups := put_group key (?g @ [po_next pool]) (po_groups pool),
        po_worker := (po_worker pool)(po_next pool := worker_reserved now ttl), po_next := Suc (po_next pool)\<rparr>"
    | (evict) w where "remove_oldest_idle_worker pool = (Some w, pool')" "sel = Evicted w"
    | (nothing) "sel = NoWorker" "pool' = pool"
    using assms(1) None
    by (auto simp: checkout_select_def Let_def registered_session_count_def group_count_def dest!: remove_oldest_None
        split: if_splits option.splits prod.splits)
  then show ?thesis
  proof cases
    case reserve
    then show ?thesis by (intro select_reserve [OF assms(2-4) _ reserve(1,2,4)]) (simp add: pc_of_def)
  next
    case (evict w)
    have "owned pool (pc(p := pc_of key t sel))" using evict(2) by (intro idle) simp
    then show ?thesis using select_evict [OF assms(2) _ evict(1)] by simp
  next
    case nothing
    then show ?thesis using assms(2) idle by simp
  qed
qed

lemma owned_upd:
  assumes "owned pool pc" "wk_busy (f (po_worker pool w)) = wk_busy (po_worker pool w)"
  shows "owned (upd_worker w f pool) pc"
proof -
  have "(\<lambda>v. wk_busy (po_worker (upd_worker w f pool) v)) = (\<lambda>v. wk_busy (po_worker pool v))" using assms(2) by auto
  then show ?thesis using assms(1) by simp
qed

lemma owned_release:
  assumes "owned pool pc" "pool_ok limit_of pool" "holds (pc p) = Some (k, w)"
  shows "owned (upd_worker w (\<lambda>wk. wk\<lparr>wk_busy := False\<rparr>) pool) (pc(p := PIdle))"
proof -
  have "own_ok (\<lambda>k w. registered k w pool) ((\<lambda>w. wk_busy (po_worker pool w))(w := False)) (po_next pool) (pc(p := PIdle))"
    by (rule own_release [OF assms(1,3)]) (auto intro: registered_unique [OF assms(2) own_okD(1) [OF assms(1,3)]])
  moreover have "(\<lambda>v. wk_busy (po_worker (upd_worker w (\<lambda>wk. wk\<lparr>wk_busy := False\<rparr>) pool) v)) =
      (\<lambda>v. wk_busy (po_worker pool v))(w := False)" by auto
  ultimately show ?thesis by simp
qed

lemma owned_clear:
  assumes "owned pool pc" "pc p = PRemoved w"
  shows "owned (upd_worker w (\<lambda>wk. wk\<lparr>wk_busy := False\<rparr>) pool) (pc(p := PIdle))"
proof -
  have "(\<lambda>v. wk_busy (po_worker (upd_worker w (\<lambda>wk. wk\<lparr>wk_busy := False\<rparr>) pool) v)) =
      (\<lambda>v. wk_busy (po_worker pool v))(w := False)" by auto
  then show ?thesis using own_clear [OF assms] by simp
qed

lemma owned_purge:
  assumes "pool_ok limit_of pool" "owned pool pc"
  shows "pool_ok limit_of (snd (remove_workers stale pool)) \<and> owned (snd (remove_workers stale pool)) pc"
proof -
  let ?pool = "snd (remove_workers stale pool)"
  have f: "groups_ok (po_groups ?pool)" "group_count (po_groups ?pool) \<le> group_count (po_groups pool)"
    "po_worker ?pool = po_worker pool" "po_next ?pool = po_next pool" "po_max_sessions ?pool = po_max_sessions pool"
    "\<And>k. length (group_of k (po_groups ?pool)) \<le> length (group_of k (po_groups pool))"
    and reg: "registered k w ?pool \<longleftrightarrow> registered k w pool \<and> keep_worker stale pool w" for k w
    using remove_workers_facts [of pool stale] assms(1) by (auto simp: pool_ok_def registered_def)
  have "pool_ok limit_of ?pool" by (rule pool_ok_shrink [OF assms(1) f(1-5)]) (use f(6) reg in auto)
  moreover have "own_ok (\<lambda>k w. registered k w ?pool) (\<lambda>w. wk_busy (po_worker pool w)) (po_next pool) pc"
    by (rule own_shrink [OF assms(2)]) (auto simp: reg keep_worker_def)
  ultimately show ?thesis using f(3,4) by simp
qed

lemma owned_remove:
  assumes "pool_ok limit_of pool" "owned pool pc" "holds (pc p) = Some (k, w)"
  shows "pool_ok limit_of (remove_worker k w pool) \<and> owned (remove_worker k w pool) (pc(p := PRemoved w))"
proof -
  let ?pool = "remove_worker k w pool"
  have here: "registered k w pool" using own_okD(1) [OF assms(2,3)] .
  have f: "groups_ok (po_groups ?pool)" "group_count (po_groups ?pool) \<le> group_count (po_groups pool)"
    "po_worker ?pool = po_worker pool" "po_next ?pool = po_next pool" "po_max_sessions ?pool = po_max_sessions pool"
    "\<And>k'. length (group_of k' (po_groups ?pool)) \<le> length (group_of k' (po_groups pool))"
    and reg: "registered k' v ?pool \<longleftrightarrow> registered k' v pool \<and> \<not> (k' = k \<and> v = w)" for k' v
    using remove_worker_facts [of pool k w] assms(1) by (auto simp: pool_ok_def registered_def)
  have "pool_ok limit_of ?pool" by (rule pool_ok_shrink [OF assms(1) f(1-5)]) (use f(6) reg in auto)
  moreover have "w < po_next pool" using here assms(1) by (simp add: pool_ok_def)
  then have "own_ok (\<lambda>k w. registered k w ?pool) (\<lambda>w. wk_busy (po_worker pool w)) (po_next pool) (pc(p := PRemoved w))"
    by (rule own_remove [OF assms(2,3)]) (auto simp: reg intro: registered_unique [OF assms(1) here])
  ultimately show ?thesis using f(3,4) by simp
qed

text \<open>Steps that only move a thread, and steps that change a flag of the worker the thread holds.\<close>

lemma step_pc:
  assumes "pool_ok limit_of pool" "owned pool pc" "holds c = holds (pc p)" "\<And>w. c \<noteq> PRemoved w"
  shows "pool_ok limit_of pool \<and> owned pool (pc(p := c))"
  using assms own_pc by blast

lemma step_flags:
  assumes "pool_ok limit_of pool" "owned pool pc" "holds c = holds (pc p)" "\<And>w. c \<noteq> PRemoved w"
    and "\<And>wk. wk_session (f wk) = wk_session wk" "\<And>wk. wk_initialized (f wk) \<Longrightarrow> wk_initialized wk"
    and "\<And>wk. wk_busy (f wk) = wk_busy wk"
  shows "pool_ok limit_of (upd_worker w f pool) \<and> owned (upd_worker w f pool) (pc(p := c))"
  by (intro conjI pool_ok_flags [OF assms(1)] owned_upd [OF own_pc [OF assms(2)]]) (use assms(3-7) in auto)

lemma pool_step_ok:
  assumes "pool_step limit_of s t" "pool_ok limit_of (sy_pool s)" "owned (sy_pool s) (sy_pc s)"
  shows "pool_ok limit_of (sy_pool t) \<and> owned (sy_pool t) (sy_pc t)"
  using assms
proof (induction rule: pool_step.induct)
  case (purge s p a stale)
  have "owned (sy_pool s) ((sy_pc s)(p := case a of None \<Rightarrow> PIdle | Some (key, ttl) \<Rightarrow> PSelect key ttl))"
    using purge.hyps by (intro own_pc [OF purge.prems(2)]) (auto split: option.split)
  then show ?case unfolding pool_pc_simps by (rule owned_purge [OF purge.prems(1)])
next
  case (select s p key ttl now_ms sel pool)
  have "pool_ok limit_of pool \<and> owned pool ((sy_pc s)(p := pc_of key ttl sel))"
    using checkout_select_ok [where limit_of = limit_of and key = key, OF select.hyps(2) select.prems, of p ttl] select.hyps(1)
    by simp
  then show ?case unfolding pool_pc_simps pc_of_def .
next
  case (release s p key w)
  then show ?case
    unfolding pool_pc_simps by (intro conjI pool_ok_flags owned_release [OF release.prems(2,1)]) auto
next
  case (remove_failed s p key w)
  then show ?case unfolding pool_pc_simps by (intro owned_remove [OF remove_failed.prems]) simp
next
  case (clear_busy s p w)
  then show ?case unfolding pool_pc_simps by (intro conjI pool_ok_flags owned_clear) (assumption | simp)+
next
  case (init_ok s p key w pid now)
  have "registered key w (sy_pool s)" using own_okD(1) [OF init_ok.prems(2), of p key w] init_ok.hyps(1) by simp
  then have "registered k w (sy_pool s) \<Longrightarrow> k = key" for k using registered_unique [OF init_ok.prems(1)] by blast
  then have "pool_ok limit_of (upd_worker w (\<lambda>wk. wk\<lparr>wk_session := Some (session_new pid key now), wk_initialized := True\<rparr>)
      (sy_pool s))"
    by (intro pool_ok_upd [OF init_ok.prems(1)]) (auto simp: session_new_def)
  moreover have "owned (sy_pool s) ((sy_pc s)(p := PHeld key w))"
    using init_ok.hyps(1) by (intro own_pc [OF init_ok.prems(2)]) auto
  ultimately show ?case unfolding pool_pc_simps by (intro conjI owned_upd) (assumption | simp)+
next
  case (call_session s p key w x y)
  have "owned (sy_pool s) ((sy_pc s)(p := PHeld key w))"
    using call_session.hyps(1) by (intro own_pc [OF call_session.prems(2)]) auto
  moreover have "pool_ok limit_of (upd_worker w (\<lambda>wk. wk\<lparr>wk_session := Some y\<rparr>) (sy_pool s))"
    using call_session.prems(1) call_session.hyps(3) session_after_started [OF call_session.hyps(4)]
    by (intro pool_ok_upd [OF call_session.prems(1)]) (auto simp: pool_ok_def)
  ultimately show ?case unfolding pool_pc_simps by (intro conjI owned_upd) (assumption | simp)+
next
  case (snapshot_poisoned s w)
  have "owned (upd_worker w (\<lambda>wk. wk\<lparr>wk_initialized := False\<rparr>) (sy_pool s)) (sy_pc s)"
    by (rule owned_upd [OF snapshot_poisoned.prems(2)]) simp
  moreover have "pool_ok limit_of (upd_worker w (\<lambda>wk. wk\<lparr>wk_initialized := False\<rparr>) (sy_pool s))"
    by (rule pool_ok_flags [OF snapshot_poisoned.prems(1)]) simp_all
  ultimately show ?case by (simp del: upd_worker_simps)
qed ((unfold pool_pc_simps, (rule step_flags | rule step_pc), simp_all)[1])+

text \<open>A session, once started, is never taken out of its worker, and a checkout that reports a hit has one.\<close>

definition held_started :: "pool_system \<Rightarrow> bool" where
  "held_started s \<longleftrightarrow> (\<forall>p k w. sy_pc s p = PHeld k w \<longrightarrow> wk_session (po_worker (sy_pool s) w) \<noteq> None)"

lemma checkout_select_sessions:
  assumes "checkout_select key limit ttl now pool = (sel, pool')"
  shows "w \<noteq> po_next pool \<Longrightarrow> wk_session (po_worker pool' w) = wk_session (po_worker pool w)"
    and "sel = Selected v True \<Longrightarrow> registered key v pool \<and> wk_initialized (po_worker pool v)"
proof -
  have r: "po_worker (snd (remove_oldest_idle_worker pool)) = po_worker pool"
    by (auto simp: remove_oldest_idle_worker_def split: option.split prod.split)
  show "w \<noteq> po_next pool \<Longrightarrow> wk_session (po_worker pool' w) = wk_session (po_worker pool w)"
    using assms r by (auto simp: checkout_select_def Let_def split: option.splits if_splits prod.splits)
  show "sel = Selected v True \<Longrightarrow> registered key v pool \<and> wk_initialized (po_worker pool v)"
    using assms
    by (auto simp: checkout_select_def Let_def registered_def find_Some_iff dest: nth_mem in_set_takeD
        split: option.splits if_splits prod.splits)
qed

lemma held_started_step:
  assumes "pool_step limit_of s t" "pool_ok limit_of (sy_pool s)" "owned (sy_pool s) (sy_pc s)" "held_started s"
  shows "held_started t"
  using assms
proof (induction rule: pool_step.induct)
  case (select s p key ttl now_ms sel pool)
  note sess = checkout_select_sessions [OF select.hyps(2)]
  show ?case
    unfolding held_started_def
  proof (intro allI impI)
    fix q k w assume q: "sy_pc (set_pc p (case sel of Selected w hit \<Rightarrow> if hit then PHeld key w else PInit key w
        | Evicted w \<Rightarrow> PSelect key ttl | NoWorker \<Rightarrow> PWait key ttl) pool s) q = PHeld k w"
    have reg: "registered k w (sy_pool s) \<and> wk_session (po_worker (sy_pool s) w) \<noteq> None"
    proof (cases "q = p")
      case True
      then have "sel = Selected w True" "k = key" using q by (auto split: selection.splits if_splits)
      then show ?thesis using sess(2) select.prems(1) by (auto simp: pool_ok_def)
    next
      case False
      then have "sy_pc s q = PHeld k w" using q by simp
      then show ?thesis
        using select.prems(3) own_okD(1) [OF select.prems(2), of q k w] by (simp add: held_started_def)
    qed
    then have "w \<noteq> po_next (sy_pool s)" using select.prems(1) by (auto simp: pool_ok_def)
    then show "wk_session (po_worker (sy_pool (set_pc p (case sel of Selected w hit \<Rightarrow> if hit then PHeld key w else PInit key w
        | Evicted w \<Rightarrow> PSelect key ttl | NoWorker \<Rightarrow> PWait key ttl) pool s)) w) \<noteq> None"
      using sess(1) reg by simp
  qed
next
  case (purge s p a stale)
  then show ?case by (auto simp: held_started_def remove_workers_def split: option.splits if_splits)
next
  case (remove_failed s p key w)
  then show ?case by (auto simp: held_started_def remove_worker_def split: if_splits)
qed (auto simp: held_started_def split: if_splits)

lemma pool_inv_step: "pool_step limit_of s t \<Longrightarrow> pool_inv limit_of s \<Longrightarrow> pool_inv limit_of t"
  using pool_step_ok [of limit_of s t] held_started_step [of limit_of s t] unfolding pool_inv_def held_started_def by blast

lemma pool_start_inv: "pool_inv limit_of (pool_start n)"
  by (auto simp: pool_inv_def pool_start_def with_max_sessions_def pool_ok_def own_ok_def groups_ok_def group_of_def
      group_count_def registered_def)

lemma pool_reach_inv: "(pool_step limit_of)\<^sup>*\<^sup>* (pool_start n) s \<Longrightarrow> pool_inv limit_of s"
proof (induction rule: rtranclp_induct)
  case base
  show ?case by (rule pool_start_inv)
qed (rule pool_inv_step)

lemma max_sessions_step: "pool_step limit_of s t \<Longrightarrow> po_max_sessions (sy_pool t) = po_max_sessions (sy_pool s)"
proof (induction rule: pool_step.induct)
  case (select s p key ttl now_ms sel pool)
  then show ?case
    by (auto simp: checkout_select_def Let_def remove_oldest_idle_worker_def split: option.splits if_splits prod.splits)
qed (auto simp: remove_workers_def remove_worker_def)

lemma max_sessions_reach: "(pool_step limit_of)\<^sup>*\<^sup>* (pool_start n) s \<Longrightarrow> po_max_sessions (sy_pool s) = max n 1"
proof (induction rule: rtranclp_induct)
  case base
  show ?case by (simp add: pool_start_def with_max_sessions_def)
qed (simp add: max_sessions_step)

section \<open>Properties\<close>

text \<open>C11: whatever the interleaving of checkouts, calls, failures, panics, purges and snapshots: a worker that a thread
  holds is busy and registered under the key of that thread and no other, no other thread holds it, and the process in it
  was started for that key. So no call ever reaches a process of another key.\<close>

theorem session_pool_exclusive:
  assumes "(pool_step limit_of)\<^sup>*\<^sup>* (pool_start n) s" "holds (sy_pc s p) = Some (key, w)"
  shows "wk_busy (po_worker (sy_pool s) w) \<and> registered key w (sy_pool s) \<and>
    (\<forall>k. registered k w (sy_pool s) \<longrightarrow> k = key) \<and>
    (\<forall>q k. holds (sy_pc s q) = Some (k, w) \<longrightarrow> q = p) \<and>
    (\<forall>x. wk_session (po_worker (sy_pool s) w) = Some x \<longrightarrow> us_started_for x = key) \<and>
    (sy_pc s p = PHeld key w \<longrightarrow> wk_session (po_worker (sy_pool s) w) \<noteq> None)"
proof -
  have inv: "pool_inv limit_of s" by (rule pool_reach_inv [OF assms(1)])
  then have ok: "pool_ok limit_of (sy_pool s)" "owned (sy_pool s) (sy_pc s)" by (auto simp: pool_inv_def)
  note d = own_okD [OF ok(2)]
  have reg: "registered key w (sy_pool s)" using d(1) assms(2) .
  have "\<forall>x. wk_session (po_worker (sy_pool s) w) = Some x \<longrightarrow> us_started_for x = key"
    using ok(1) reg unfolding pool_ok_def by blast
  moreover have "\<forall>k. registered k w (sy_pool s) \<longrightarrow> k = key" using registered_unique [OF ok(1) reg] by blast
  moreover have "\<forall>q k. holds (sy_pc s q) = Some (k, w) \<longrightarrow> q = p" using d(3) assms(2) by blast
  ultimately show ?thesis using reg d(2) [OF assms(2)] inv unfolding pool_inv_def by blast
qed

text \<open>C12: the pool never registers more workers than its maximum, and no group more than the limit of its policy; a
  registered worker that is busy is held by a thread, so no worker is lost to the pool.\<close>

theorem session_pool_bounded:
  assumes "(pool_step limit_of)\<^sup>*\<^sup>* (pool_start n) s"
  shows "registered_session_count (sy_pool s) \<le> max n 1 \<and>
    length (group_of key (po_groups (sy_pool s))) \<le> max (limit_of key) 1 \<and>
    (registered key w (sy_pool s) \<and> wk_busy (po_worker (sy_pool s) w) \<longrightarrow> (\<exists>p. holds (sy_pc s p) = Some (key, w)))"
proof -
  have inv: "pool_inv limit_of s" by (rule pool_reach_inv [OF assms])
  then have ok: "pool_ok limit_of (sy_pool s)" "owned (sy_pool s) (sy_pc s)" by (auto simp: pool_inv_def)
  show ?thesis
    using ok(1) own_okD(4) [OF ok(2)] max_sessions_reach [OF assms]
    by (auto simp: pool_ok_def registered_session_count_def group_count_def)
qed

text \<open>A checkout on an empty pool.\<close>

definition pool_key :: upstream_session_key where
  "pool_key = UpstreamSessionKey ''/w'' ''git'' 1 2 ''f'' ''c'' ''s'' ''/p'' ''stdio'' ''shared'' ''a''"

definition one_held :: pool_system where
  "one_held =
     \<lparr>sy_pool = \<lparr>po_groups = [(pool_key, [0])],
        po_worker = (\<lambda>_. worker_reserved 0 1)(0 := (worker_reserved 7 5)\<lparr>wk_session := Some (session_new 42 pool_key 8),
          wk_initialized := True\<rparr>), po_next = 1, po_max_sessions = 1\<rparr>,
      sy_pc = (\<lambda>_. PIdle)(0 := PHeld pool_key 0)\<rparr>"

lemma one_held_reach: "(pool_step (\<lambda>_. 1))\<^sup>*\<^sup>* (pool_start 1) one_held"
proof -
  let ?R = "(pool_step (\<lambda>_. 1))\<^sup>*\<^sup>* (pool_start 1)"
  let ?p = "with_max_sessions 1"
  let ?at = "\<lambda>c. \<lparr>sy_pool = ?p, sy_pc = (\<lambda>_. PIdle)(0 := c)\<rparr>"
  let ?q = "\<lparr>po_groups = [(pool_key, [0])], po_worker = (\<lambda>_. worker_reserved 0 1)(0 := worker_reserved 7 5),
      po_next = 1, po_max_sessions = 1\<rparr>"
  have "?R (?at (PScan (Some (pool_key, 5)) [] []))"
    using checkout_call [of "pool_start 1" 0 "\<lambda>_. 1" pool_key 5]
    by (simp add: pool_start_def set_pc_def all_workers_def with_max_sessions_def r_into_rtranclp)
  then have "?R (?at (PPurge (Some (pool_key, 5)) []))"
    using scan_end [of "?at (PScan (Some (pool_key, 5)) [] [])" 0 "Some (pool_key, 5)" "[]" "\<lambda>_. 1"]
    by (simp add: set_pc_def rtranclp.rtrancl_into_rtrancl)
  then have "?R (?at (PSelect pool_key 5))"
    using purge [of "?at (PPurge (Some (pool_key, 5)) [])" 0 "Some (pool_key, 5)" "[]" "\<lambda>_. 1"]
    by (simp add: set_pc_def remove_workers_def rtranclp.rtrancl_into_rtrancl)
  then have "?R \<lparr>sy_pool = ?q, sy_pc = (\<lambda>_. PIdle)(0 := PInit pool_key 0)\<rparr>"
    using select [of "?at (PSelect pool_key 5)" 0 pool_key 5 "\<lambda>_. 1" 7 "Selected 0 False" ?q]
    by (simp add: set_pc_def checkout_select_def with_max_sessions_def group_of_def registered_session_count_def put_group_def
        rtranclp.rtrancl_into_rtrancl)
  then show ?thesis
    using init_ok [of "\<lparr>sy_pool = ?q, sy_pc = (\<lambda>_. PIdle)(0 := PInit pool_key 0)\<rparr>" 0 pool_key 0 "\<lambda>_. 1" 42 8]
    by (simp add: set_pc_def one_held_def upd_worker_def worker_reserved_def rtranclp.rtrancl_into_rtrancl)
qed

theorem session_pool_exclusive_witness: "registered pool_key 0 (sy_pool one_held) \<and> wk_busy (po_worker (sy_pool one_held) 0)"
  using session_pool_exclusive [OF one_held_reach, of 0 pool_key 0] by (simp add: one_held_def)

theorem session_pool_bounded_witness: "registered_session_count (sy_pool one_held) \<le> 1"
  using session_pool_bounded [OF one_held_reach] by simp

end
