(* ===== verification/Text_Search.thy ===== *)
theory Text_Search
  imports Net_Text
begin

text \<open>
  Searching and splitting strings at a substring, as \<open>str::find\<close>, \<open>str::split_once\<close>, \<open>str::split\<close>, \<open>str::replace\<close>,
  \<open>str::lines\<close> and \<open>str::split_whitespace\<close> do, and the validity of UTF-8. A search is leftmost.
\<close>

section \<open>The first occurrence\<close>

fun split_at :: "string \<Rightarrow> string \<Rightarrow> (string \<times> string) option" where
  "split_at sep [] = (if sep = [] then Some ([], []) else None)"
| "split_at sep (x # s) =
     (if starts_with (x # s) sep then Some ([], drop (length sep) (x # s))
      else map_option (\<lambda>(a, b). (x # a, b)) (split_at sep s))"

lemma starts_with_append [simp]: "starts_with (p @ s) p"
  by (simp add: starts_with_def)

lemma starts_with_iff: "starts_with s p \<longleftrightarrow> (\<exists>r. s = p @ r)"
  by (metis append_eq_conv_conj starts_with_def append_take_drop_id)

lemma split_at_Some: "split_at sep s = Some (a, b) \<Longrightarrow> s = a @ sep @ b"
proof (induction sep s arbitrary: a rule: split_at.induct)
  case (2 sep x s)
  then show ?case
    by (auto simp: starts_with_def split: if_splits) (metis append_take_drop_id)
qed (auto split: if_splits)

lemma split_at_leftmost: "split_at sep (a' @ sep @ b') \<noteq> None \<and> length (fst (the (split_at sep (a' @ sep @ b')))) \<le> length a'"
proof (induction a')
  case Nil
  have "starts_with (sep @ b') sep" by simp
  then show ?case by (cases "sep @ b'") auto
next
  case (Cons x a')
  then show ?case by auto
qed

lemma split_at_None: "split_at sep s = None \<longleftrightarrow> (\<nexists>a b. s = a @ sep @ b)"
  using split_at_Some split_at_leftmost by (metis option.exhaust surj_pair)

lemma split_at_le: "split_at sep s = Some (a, b) \<Longrightarrow> s = a' @ sep @ b' \<Longrightarrow> length a \<le> length a'"
  using split_at_leftmost [of sep a' b'] by auto

lemma split_at_suffix:
  assumes "split_at sep s = Some (a, b)" "s = a' @ sep @ b'"
  shows "\<exists>c. b = c @ b'"
proof -
  have "b = drop (length a + length sep) s" "b' = drop (length a' + length sep) s"
    by (simp add: split_at_Some [OF assms(1)], simp add: assms(2))
  moreover have "length a \<le> length a'" by (rule split_at_le [OF assms])
  ultimately have "b' = drop (length a' - length a) b" by (simp add: add.commute)
  then show ?thesis by (metis append_take_drop_id)
qed

lemma split_at_shorter: "split_at sep s = Some (a, b) \<Longrightarrow> length b + length sep \<le> length s"
  by (auto dest: split_at_Some)

lemma split_at_first:
  assumes "\<And>u v. a @ sep @ b = u @ sep @ v \<Longrightarrow> length a \<le> length u"
  shows "split_at sep (a @ sep @ b) = Some (a, b)"
proof -
  obtain c d where cd: "split_at sep (a @ sep @ b) = Some (c, d)" using split_at_leftmost [of sep a b] by auto
  have e: "a @ sep @ b = c @ sep @ d" by (rule split_at_Some [OF cd])
  moreover have "length c = length a" using split_at_le [OF cd] assms [OF e] by fastforce
  ultimately show ?thesis using cd by simp
qed

section \<open>Derived operations\<close>

function split_str :: "string \<Rightarrow> string \<Rightarrow> string list" where
  "split_str sep s =
     (case split_at sep s of
        None \<Rightarrow> [s]
      | Some (a, b) \<Rightarrow> if sep = [] then [a, b] else a # split_str sep b)"
  by pat_completeness auto
termination
  by (relation "measure (\<lambda>(sep, s). length s)") (auto dest!: split_at_shorter simp: neq_Nil_conv)

declare split_str.simps [simp del]

definition replace_str :: "string \<Rightarrow> string \<Rightarrow> string \<Rightarrow> string" where
  "replace_str from into s = join into (split_str from s)"

definition split_whitespace :: "string \<Rightarrow> string list" where
  "split_whitespace s = filter (\<lambda>w. w \<noteq> []) (split_char CHR '' '' (map (\<lambda>c. if is_ws c then CHR '' '' else c) s))"

abbreviation CR :: char where "CR \<equiv> CHR 0x0D"

abbreviation LF :: char where "LF \<equiv> CHR 0x0A"

abbreviation CRLF :: string where "CRLF \<equiv> [CR, LF]"

definition text_lines :: "string \<Rightarrow> string list" where
  "text_lines s =
     (let pieces = split_char LF s;
          ended = map (\<lambda>l. case strip_suffix [CR] l of Some r \<Rightarrow> r | None \<Rightarrow> l) (butlast pieces)
      in if last pieces = [] then ended else ended @ [last pieces])"

lemma split_at_CRLF: "CR \<notin> set a \<Longrightarrow> split_at CRLF (a @ CRLF @ b) = Some (a, b)"
  by (induction a) (auto simp: starts_with_def)

section \<open>UTF-8\<close>

definition utf8_cont :: "char \<Rightarrow> bool" where
  "utf8_cont c \<longleftrightarrow> 0x80 \<le> code c \<and> code c \<le> 0xBF"

text \<open>The number of continuation bytes after a lead byte, and the range of the first of them.\<close>

definition utf8_lead :: "nat \<Rightarrow> (nat \<times> nat \<times> nat) option" where
  "utf8_lead n =
     (if n < 0x80 then Some (0, 0, 0)
      else if 0xC2 \<le> n \<and> n \<le> 0xDF then Some (1, 0x80, 0xBF)
      else if n = 0xE0 then Some (2, 0xA0, 0xBF)
      else if n = 0xED then Some (2, 0x80, 0x9F)
      else if 0xE1 \<le> n \<and> n \<le> 0xEF then Some (2, 0x80, 0xBF)
      else if n = 0xF0 then Some (3, 0x90, 0xBF)
      else if 0xF1 \<le> n \<and> n \<le> 0xF3 then Some (3, 0x80, 0xBF)
      else if n = 0xF4 then Some (3, 0x80, 0x8F)
      else None)"

function utf8_ok :: "string \<Rightarrow> bool" where
  "utf8_ok [] = True"
| "utf8_ok (c # s) =
     (case utf8_lead (code c) of
        None \<Rightarrow> False
      | Some (n, lo, hi) \<Rightarrow>
          (if n = 0 then utf8_ok s
           else n \<le> length s \<and> lo \<le> code (hd s) \<and> code (hd s) \<le> hi \<and> list_all utf8_cont (take n s) \<and> utf8_ok (drop n s)))"
  by pat_completeness auto
termination
  by (relation "measure length") auto

lemma utf8_ascii: "list_all (\<lambda>c. code c < 128) s \<Longrightarrow> utf8_ok s"
  by (induction s) (auto simp: utf8_lead_def)

text \<open>\<open>String::from_utf8_lossy\<close>: the longest start of a character that is not completed is replaced by U+FFFD.\<close>

definition utf8_run :: "nat \<Rightarrow> nat \<Rightarrow> nat \<Rightarrow> string \<Rightarrow> nat" where
  "utf8_run n lo hi s =
     (case s of
        [] \<Rightarrow> 0
      | d # t \<Rightarrow> if n = 0 \<or> \<not> (lo \<le> code d \<and> code d \<le> hi) then 0 else Suc (length (takeWhile utf8_cont (take (n - 1) t))))"

function utf8_lossy :: "string \<Rightarrow> string" where
  "utf8_lossy [] = []"
| "utf8_lossy (c # s) =
     (case utf8_lead (code c) of
        None \<Rightarrow> [CHR 0xEF, CHR 0xBF, CHR 0xBD] @ utf8_lossy s
      | Some (n, lo, hi) \<Rightarrow>
          (let k = utf8_run n lo hi s
           in (if k = n then c # take n s else [CHR 0xEF, CHR 0xBF, CHR 0xBD]) @ utf8_lossy (drop k s)))"
  by pat_completeness auto
termination
  by (relation "measure length") auto

lemma takeWhile_take_all: "list_all p (take n t) \<Longrightarrow> takeWhile p (take n t) = take n t"
  by (simp add: list_all_iff)

lemma utf8_lossy_ok: "utf8_ok s \<Longrightarrow> utf8_lossy s = s"
proof (induction s rule: utf8_ok.induct)
  case (2 c s)
  obtain n lo hi where l: "utf8_lead (code c) = Some (n, lo, hi)" using "2.prems" by (cases "utf8_lead (code c)") auto
  show ?case
  proof (cases n)
    case 0
    then have "utf8_run n lo hi s = 0" by (simp add: utf8_run_def split: list.splits)
    then show ?thesis using 0 l "2.IH"(1) [OF l refl refl] "2.prems" by simp
  next
    case (Suc m)
    then obtain d t where s: "s = d # t" using "2.prems" l by (cases s) auto
    have "list_all utf8_cont (take m t)" "m \<le> length t" using "2.prems" l Suc s by simp_all
    then have "utf8_run n lo hi s = n"
      using "2.prems" l Suc s by (simp add: utf8_run_def takeWhile_take_all del: takeWhile_eq_all_conv)
    moreover have "utf8_lossy (drop n s) = drop n s"
      using "2.prems" l Suc by (intro "2.IH"(2) [OF l refl refl]) simp_all
    ultimately show ?thesis using l by simp
  qed
qed simp

end
