(* ===== verification/Http_Probe.thy ===== *)
theory Http_Probe
  imports Text_Search Json
begin

text \<open>
  The blocking HTTP client (\<^verbatim>\<open>src/http_probe.rs\<close>): parsing of responses, the chunked transfer coding, server-sent
  events, and when a response is complete. The JSON parser (\<open>parse\<close>) and the socket are arguments. A panic, which the
  release profile turns into an abort of the process, is an outcome of its own.
\<close>

datatype http_probe_error = HttpProbeError string | ProbePanic

definition DEFAULT_MAX_RESPONSE_BYTES :: nat where "DEFAULT_MAX_RESPONSE_BYTES = 8 * 1024 * 1024"

record http_response =
  hr_status_line :: string
  hr_status :: nat
  hr_headers :: "(string \<times> string) list"
  hr_content_type :: string
  hr_content_length :: "nat option"
  hr_transfer_encoding :: string
  hr_body :: string

definition response_header :: "string \<Rightarrow> http_response \<Rightarrow> string option" where
  "response_header name r = map_option snd (List.find (\<lambda>(candidate, _). eq_ignore_ascii_case candidate name) (hr_headers r))"

section \<open>The head of a response\<close>

record header_scan =
  sc_headers :: "(string \<times> string) list"
  sc_content_type :: string
  sc_content_length :: "nat option"
  sc_transfer_encoding :: string
  sc_transfer_encoding_seen :: bool

definition scan_start :: header_scan where
  "scan_start = \<lparr>sc_headers = [], sc_content_type = [], sc_content_length = None, sc_transfer_encoding = [],
     sc_transfer_encoding_seen = False\<rparr>"

definition field_byte :: "char \<Rightarrow> bool" where
  "field_byte c \<longleftrightarrow> code c = 9 \<or> code c = 32 \<or> (0x21 \<le> code c \<and> code c \<le> 0x7E) \<or> 0x80 \<le> code c"

definition scan_header :: "string \<Rightarrow> header_scan \<Rightarrow> string + header_scan" where
  "scan_header line st =
     (case split_once CHR '':'' line of
        None \<Rightarrow> Inl (''HTTP response contains malformed header line: '' @ line)
      | Some (name, value) \<Rightarrow>
          (let name = trim name; value = trim value; key = to_ascii_lowercase name;
               st' = st\<lparr>sc_headers := sc_headers st @ [(name, value)]\<rparr>
           in if \<not> valid_http_header_name name \<or> \<not> list_all field_byte value
              then Inl (''HTTP response contains an invalid header: '' @ name)
              else if key = ''content-type'' then Inr (st'\<lparr>sc_content_type := value\<rparr>)
              else if key = ''content-length''
              then (case parse_uint (uint_max 64) value of
                      None \<Rightarrow> Inl ''HTTP response has an invalid Content-Length header''
                    | Some n \<Rightarrow>
                        if sc_content_length st \<noteq> None then Inl ''HTTP response has duplicate Content-Length headers''
                        else Inr (st'\<lparr>sc_content_length := Some n\<rparr>))
              else if key = ''transfer-encoding''
              then (if sc_transfer_encoding_seen st then Inl ''HTTP response has duplicate Transfer-Encoding headers''
                    else Inr (st'\<lparr>sc_transfer_encoding_seen := True, sc_transfer_encoding := value\<rparr>))
              else Inr st'))"

fun scan_headers :: "string list \<Rightarrow> header_scan \<Rightarrow> string + header_scan" where
  "scan_headers [] st = Inr st"
| "scan_headers (line # rest) st = (case scan_header line st of Inl e \<Rightarrow> Inl e | Inr st' \<Rightarrow> scan_headers rest st')"

definition codings_of :: "string \<Rightarrow> string list" where
  "codings_of te = filter (\<lambda>v. v \<noteq> []) (map trim (split_char CHR '','' te))"

definition check_framing :: "header_scan \<Rightarrow> string option" where
  "check_framing st =
     (if sc_content_length st \<noteq> None \<and> sc_transfer_encoding st \<noteq> []
      then Some ''HTTP response cannot combine Content-Length with Transfer-Encoding''
      else if sc_transfer_encoding st \<noteq> [] \<and>
        (length (codings_of (sc_transfer_encoding st)) \<noteq> 1 \<or>
         \<not> eq_ignore_ascii_case (hd (codings_of (sc_transfer_encoding st))) ''chunked'')
      then Some ''HTTP response uses an unsupported or ambiguous Transfer-Encoding''
      else None)"

definition parse_status_line :: "string \<Rightarrow> string + nat" where
  "parse_status_line line =
     (if list_ex (\<lambda>c. c = LF \<or> c = CR \<or> code c = 0) line
      then Inl ''HTTP response status line contains invalid line framing''
      else let parts = split_whitespace line;
               version = (case parts of [] \<Rightarrow> [] | v # _ \<Rightarrow> v);
               status = (case parts of _ # n # _ \<Rightarrow> parse_uint (uint_max 16) n | _ \<Rightarrow> None)
           in case status of
                None \<Rightarrow> Inl (''HTTP response has malformed status line: '' @ line)
              | Some n \<Rightarrow>
                  if \<not> (100 \<le> n \<and> n \<le> 599) then Inl (''HTTP response has malformed status line: '' @ line)
                  else if version \<notin> {''HTTP/1.0'', ''HTTP/1.1''}
                  then Inl (''HTTP response has unsupported version in status line: '' @ line)
                  else Inr n)"

definition parse_response :: "string \<Rightarrow> string + http_response" where
  "parse_response raw =
     (case split_at (CRLF @ CRLF) raw of
        None \<Rightarrow> Inl ''HTTP response missing header/body separator''
      | Some (headers_text, body) \<Rightarrow>
          (let ls = split_str CRLF headers_text; status_line = hd ls
           in case parse_status_line status_line of
                Inl e \<Rightarrow> Inl e
              | Inr status \<Rightarrow>
                  (case scan_headers (tl ls) scan_start of
                     Inl e \<Rightarrow> Inl e
                   | Inr st \<Rightarrow>
                       (case check_framing st of
                          Some e \<Rightarrow> Inl e
                        | None \<Rightarrow>
                            Inr \<lparr>hr_status_line = status_line, hr_status = status, hr_headers = sc_headers st,
                                 hr_content_type = sc_content_type st, hr_content_length = sc_content_length st,
                                 hr_transfer_encoding = sc_transfer_encoding st, hr_body = body\<rparr>))))"

section \<open>The chunked transfer coding\<close>

definition parse_hex_usize :: "string \<Rightarrow> nat option" where
  "parse_hex_usize s =
     (let d = strip_plus s
      in if d = [] \<or> \<not> list_all (\<lambda>c. hex_digit c \<noteq> None) d then None
         else if hex_val d \<le> uint_max 64 then Some (hex_val d) else None)"

text \<open>After the last chunk: trailer lines up to an empty one, which must end the body.\<close>

function decode_trailers :: "string \<Rightarrow> string \<Rightarrow> http_probe_error + string" where
  "decode_trailers rest decoded =
     (case split_at CRLF rest of
        None \<Rightarrow> Inl (HttpProbeError ''chunked HTTP body is missing the final trailer terminator'')
      | Some (trailer, rest1) \<Rightarrow>
          if trailer = []
          then (if rest1 \<noteq> [] then Inl (HttpProbeError ''chunked HTTP body has bytes after the final terminator'')
                else Inr decoded)
          else if \<not> utf8_ok trailer then Inl (HttpProbeError ''chunked HTTP body has a non-UTF-8 trailer'')
          else (case split_once CHR '':'' trailer of
                  None \<Rightarrow> Inl (HttpProbeError ''chunked HTTP body has a malformed trailer'')
                | Some (name, value) \<Rightarrow>
                    if \<not> valid_http_header_name (trim name) \<or> \<not> list_all field_byte value
                    then Inl (HttpProbeError ''chunked HTTP body has an invalid trailer'')
                    else decode_trailers rest1 decoded))"
  by pat_completeness auto
termination
  by (relation "measure (\<lambda>(rest, decoded). length rest)") (auto dest!: split_at_shorter)

declare decode_trailers.simps [simp del]

text \<open>
  The loop over the chunks: \<open>offset\<close> bytes of the body are consumed, \<open>rest\<close> is what remains and \<open>len\<close> the length of the
  whole. The sum of the offset and the chunk size wraps at 64 bits; a slice whose end is before its start panics.
\<close>

function decode_chunks :: "nat \<Rightarrow> nat \<Rightarrow> string \<Rightarrow> string \<Rightarrow> http_probe_error + string" where
  "decode_chunks len offset rest decoded =
     (case split_at CRLF rest of
        None \<Rightarrow> Inl (HttpProbeError ''chunked HTTP body is incomplete'')
      | Some (size_line, rest1) \<Rightarrow>
          if \<not> utf8_ok size_line then Inl (HttpProbeError ''chunked HTTP body has a non-UTF-8 n line'')
          else (case parse_hex_usize (trim (hd (split_char CHR '';'' size_line))) of
                  None \<Rightarrow> Inl (HttpProbeError ''chunked HTTP body has an invalid chunk size'')
                | Some n \<Rightarrow>
                    (let offset = offset + length size_line + 2; finish = (offset + n) mod 2 ^ 64
                     in if n = 0 then decode_trailers rest1 decoded
                        else if len < finish then Inl (HttpProbeError ''chunked HTTP body is incomplete'')
                        else if finish < offset then Inl ProbePanic
                        else let rest2 = drop n rest1; decoded' = decoded @ take n rest1
                             in if starts_with rest2 CRLF then decode_chunks len (offset + n + 2) (drop 2 rest2) decoded'
                                else if rest2 \<noteq> []
                                then Inl (HttpProbeError ''chunked HTTP body is missing a chunk terminator'')
                                else decode_chunks len (offset + n) rest2 decoded')))"
  by pat_completeness auto
termination
  by (relation "measure (\<lambda>(len, offset, rest, decoded). length rest)") (auto dest!: split_at_shorter)

declare decode_chunks.simps [simp del]

definition decode_chunked_body :: "string \<Rightarrow> http_probe_error + string" where
  "decode_chunked_body body = decode_chunks (length body) 0 body []"

definition body_bytes :: "http_response \<Rightarrow> http_probe_error + string" where
  "body_bytes r =
     (if contains (to_ascii_lowercase (hr_transfer_encoding r)) ''chunked'' then decode_chunked_body (hr_body r)
      else case hr_content_length r of
             Some n \<Rightarrow>
               if length (hr_body r) < n
               then Inl (HttpProbeError (''HTTP response body is truncated: expected '' @ show_nat n @ '' bytes, received ''
                      @ show_nat (length (hr_body r))))
               else Inr (take n (hr_body r))
           | None \<Rightarrow> Inr (hr_body r))"

section \<open>Server-sent events and completeness\<close>

definition is_event_stream :: "http_response \<Rightarrow> bool" where
  "is_event_stream r = contains (to_ascii_lowercase (hr_content_type r)) ''text/event-stream''"

definition json_response_id_matches :: "json \<Rightarrow> int option \<Rightarrow> bool" where
  "json_response_id_matches v expected =
     (case expected of None \<Rightarrow> True | Some i \<Rightarrow> Option.bind (value_at_path v [''id'']) as_i64 = Some i)"

definition event_data :: "string \<Rightarrow> string" where
  "event_data event = trim (join [LF] (map trim (List.map_filter (strip_prefix ''data:'') (text_lines event))))"

fun first_event :: "(string \<Rightarrow> string + json) \<Rightarrow> int option \<Rightarrow> string list \<Rightarrow> string option" where
  "first_event parse expected [] = None"
| "first_event parse expected (event # rest) =
     (let data = event_data event
      in if data = [] then first_event parse expected rest
         else case parse data of
                Inl _ \<Rightarrow> first_event parse expected rest
              | Inr v \<Rightarrow> if json_response_id_matches v expected then Some data else first_event parse expected rest)"

definition sse_json_rpc_body :: "(string \<Rightarrow> string + json) \<Rightarrow> string \<Rightarrow> int option \<Rightarrow> string option" where
  "sse_json_rpc_body parse body expected = first_event parse expected (split_str [LF, LF] (replace_str CRLF [LF] body))"

definition sse_json_body :: "(string \<Rightarrow> string + json) \<Rightarrow> string \<Rightarrow> string option" where
  "sse_json_body parse body = sse_json_rpc_body parse body None"

text \<open>Tests that look at the body: an error of decoding means no, a panic stays a panic.\<close>

definition body_test :: "(string \<Rightarrow> bool) \<Rightarrow> http_response \<Rightarrow> http_probe_error + bool" where
  "body_test test r =
     (case body_bytes r of Inl ProbePanic \<Rightarrow> Inl ProbePanic | Inl (HttpProbeError _) \<Rightarrow> Inr False | Inr body \<Rightarrow> Inr (test body))"

definition generic_http_body_ready :: "(string \<Rightarrow> string + json) \<Rightarrow> http_response \<Rightarrow> http_probe_error + bool" where
  "generic_http_body_ready parse r =
     (if is_event_stream r then body_test (\<lambda>body. utf8_ok body \<and> sse_json_body parse body \<noteq> None) r
      else if contains (to_ascii_lowercase (hr_transfer_encoding r)) ''chunked'' then body_test (\<lambda>_. True) r
      else case hr_content_length r of
             Some n \<Rightarrow> Inr (n \<le> length (hr_body r))
           | None \<Rightarrow> Inr (\<not> isl (parse (trim (hr_body r)))))"

definition response_ready :: "(string \<Rightarrow> string + json) \<Rightarrow> string \<Rightarrow> http_probe_error + bool" where
  "response_ready parse raw = (case parse_response raw of Inl _ \<Rightarrow> Inr False | Inr r \<Rightarrow> generic_http_body_ready parse r)"

definition body_answers :: "(string \<Rightarrow> string + json) \<Rightarrow> int option \<Rightarrow> string \<Rightarrow> bool" where
  "body_answers parse expected body \<longleftrightarrow>
     utf8_ok body \<and> (case parse (trim body) of Inl _ \<Rightarrow> False | Inr v \<Rightarrow> json_response_id_matches v expected)"

definition mcp_json_rpc_response_ready ::
  "(string \<Rightarrow> string + json) \<Rightarrow> int option \<Rightarrow> string \<Rightarrow> http_probe_error + bool" where
  "mcp_json_rpc_response_ready parse expected raw =
     (case parse_response raw of
        Inl _ \<Rightarrow> Inr False
      | Inr r \<Rightarrow>
          if hr_status r \<in> {202, 204, 304} then Inr True
          else if \<not> (200 \<le> hr_status r \<and> hr_status r < 300) then generic_http_body_ready parse r
          else if is_event_stream r
          then body_test (\<lambda>body. utf8_ok body \<and> sse_json_rpc_body parse body expected \<noteq> None) r
          else (case generic_http_body_ready parse r of
                  Inl e \<Rightarrow> Inl e
                | Inr False \<Rightarrow> Inr False
                | Inr True \<Rightarrow>
                    (case body_bytes r of
                       Inl ProbePanic \<Rightarrow> Inl ProbePanic
                     | Inl (HttpProbeError _) \<Rightarrow> Inr (body_answers parse expected [])
                     | Inr body \<Rightarrow> Inr (body_answers parse expected body))))"

text \<open>
  Reading: what the successive reads of the socket give; the list ends when the deadline has passed.
\<close>

datatype read_event = ReadEnd | ReadBytes string | ReadTimedOut | ReadFailed string

fun read_response_until ::
  "(string \<Rightarrow> http_probe_error + bool) \<Rightarrow> nat \<Rightarrow> string \<Rightarrow> read_event list \<Rightarrow> http_probe_error + string" where
  "read_response_until ready limit raw [] = Inl (HttpProbeError ''timed out while reading HTTP probe response'')"
| "read_response_until ready limit raw (e # rest) =
     (case e of
        ReadEnd \<Rightarrow>
          if utf8_ok raw then Inr raw else Inl (HttpProbeError ''HTTP probe returned a non-UTF-8 response'')
      | ReadBytes bytes \<Rightarrow>
          (let raw = raw @ bytes
           in if limit < length raw
              then Inl (HttpProbeError ''HTTP probe response exceeded the maximum supported size'')
              else if \<not> utf8_ok raw then read_response_until ready limit raw rest
              else case ready raw of
                     Inl p \<Rightarrow> Inl p
                   | Inr True \<Rightarrow> Inr raw
                   | Inr False \<Rightarrow> read_response_until ready limit raw rest)
      | ReadTimedOut \<Rightarrow>
          if \<not> utf8_ok raw then Inl (HttpProbeError ''timed out while reading HTTP probe response'')
          else (case ready raw of
                  Inl p \<Rightarrow> Inl p
                | Inr True \<Rightarrow> Inr raw
                | Inr False \<Rightarrow> Inl (HttpProbeError ''timed out while reading HTTP probe response''))
      | ReadFailed error \<Rightarrow> Inl (HttpProbeError (''read response: '' @ error)))"

definition parse_json_response ::
  "(string \<Rightarrow> string + json) \<Rightarrow> string \<Rightarrow> http_probe_error + ((string \<times> string) list \<times> json)" where
  "parse_json_response parse response =
     (case parse_response response of
        Inl e \<Rightarrow> Inl (HttpProbeError e)
      | Inr r \<Rightarrow>
          if hr_status r \<noteq> 200 then Inl (HttpProbeError (''HTTP request failed: '' @ hr_status_line r))
          else (case body_bytes r of
                  Inl e \<Rightarrow> Inl e
                | Inr body \<Rightarrow>
                    if \<not> utf8_ok body then Inl (HttpProbeError ''HTTP probe returned a non-UTF-8 body'')
                    else (case (if is_event_stream r then sse_json_body parse body else Some (trim body)) of
                            None \<Rightarrow> Inl (HttpProbeError ''HTTP probe SSE response did not contain a JSON-RPC response'')
                          | Some json_body \<Rightarrow>
                              (case parse json_body of
                                 Inl e \<Rightarrow> Inl (HttpProbeError (''parse HTTP JSON response: '' @ e))
                               | Inr v \<Rightarrow> Inr (hr_headers r, v)))))"

definition DEFAULT_LOCAL_HOST :: string where "DEFAULT_LOCAL_HOST = ''127.0.0.1''"

definition probe_host :: "string \<Rightarrow> string" where
  "probe_host host =
     (let trimmed = rev (dropWhile (\<lambda>c. c = CHR '']'') (rev (dropWhile (\<lambda>c. c = CHR ''['') (trim host))))
      in if trimmed \<in> {'''', ''0.0.0.0'', ''::''} then DEFAULT_LOCAL_HOST else trimmed)"

definition json_get_request :: "string \<Rightarrow> string \<Rightarrow> string" where
  "json_get_request host path = ''GET '' @ path @ '' HTTP/1.1'' @ CRLF @ ''Host: '' @ host @ CRLF @ ''Connection: close'' @ CRLF @ CRLF"

end
