(* ===== verification/Diagnostics.thy ===== *)
theory Diagnostics
  imports Text_Search
begin

text \<open>
  Diagnostics of upstream servers (\<^verbatim>\<open>src/upstream/diagnostics.rs\<close>): secrets are redacted from what a server prints
  before it is shown. The main result is that a redacted value does not influence the output; one form of credentials
  is not redacted completely. A scan over character positions is modelled by the reversed text before the position and the
  text from it on.
\<close>

definition STDERR_DIAGNOSTIC_MAX_LINES :: nat where "STDERR_DIAGNOSTIC_MAX_LINES = 6"

definition STDERR_DIAGNOSTIC_MAX_CHARS_PER_LINE :: nat where "STDERR_DIAGNOSTIC_MAX_CHARS_PER_LINE = 320"

definition DIAGNOSTIC_REDACTION :: string where "DIAGNOSTIC_REDACTION = ''<redacted>''"

section \<open>Assignments\<close>

definition is_quote :: "char \<Rightarrow> bool" where
  "is_quote c \<longleftrightarrow> c = CHR 0x27 \<or> c = CHR 0x22"

definition key_char :: "char \<Rightarrow> bool" where
  "key_char c \<longleftrightarrow> is_alnum c \<or> c \<in> {CHR ''_'', CHR ''-'', CHR ''.''}"

definition is_delimiter :: "char \<Rightarrow> bool" where
  "is_delimiter c \<longleftrightarrow> c \<in> {CHR '','', CHR '';'', CHR ''|'', CHR '')'', CHR ''}''}"

text \<open>The key before a separator: white space is skipped, a quote may end it.\<close>

definition diagnostic_key :: "string \<Rightarrow> string" where
  "diagnostic_key before =
     (let b = dropWhile is_ws before;
          key = (case b of
                   [] \<Rightarrow> []
                 | q # r \<Rightarrow> if is_quote q then q # takeWhile key_char r else takeWhile key_char b)
      in trim_matches is_quote (trim (rev key)))"

definition sensitive_markers :: "string list" where
  "sensitive_markers =
     [''token'', ''secret'', ''password'', ''passwd'', ''api_key'', ''apikey'', ''access_key'', ''accesskey'', ''private_key'',
      ''privatekey'', ''authorization'', ''credential'', ''credentials'']"

definition diagnostic_key_is_sensitive :: "string \<Rightarrow> bool" where
  "diagnostic_key_is_sensitive key =
     (let normalized = to_ascii_lowercase (filter (\<lambda>ch. is_alnum ch \<or> ch = CHR ''_'') key)
      in normalized \<noteq> [] \<and> list_ex (contains normalized) sensitive_markers)"

text \<open>The value that is skipped, and what follows it.\<close>

definition sensitive_value :: "string \<Rightarrow> string \<times> string" where
  "sensitive_value s =
     (case s of
        [] \<Rightarrow> ([], [])
      | q # r \<Rightarrow>
          if is_quote q
          then (case split_once q r of Some (a, b) \<Rightarrow> (q # a @ [q], b) | None \<Rightarrow> (q # r, []))
          else (takeWhile (\<lambda>c. \<not> is_ws c \<and> \<not> is_delimiter c) s, dropWhile (\<lambda>c. \<not> is_ws c \<and> \<not> is_delimiter c) s))"

lemma sensitive_value_append: "fst (sensitive_value s) @ snd (sensitive_value s) = s"
  by (auto simp: sensitive_value_def split_once_Some split: list.splits option.splits prod.splits)

lemma sensitive_value_shorter: "length (snd (sensitive_value s)) \<le> length s"
  by (metis sensitive_value_append length_append le_add2)

function redact_from :: "string \<Rightarrow> string \<Rightarrow> string" where
  "redact_from before [] = []"
| "redact_from before (c # rest) =
     (if (c = CHR ''='' \<or> c = CHR '':'') \<and> diagnostic_key_is_sensitive (diagnostic_key before)
      then (let ws = takeWhile is_ws rest; r = dropWhile is_ws rest
            in c # ws @ DIAGNOSTIC_REDACTION @
               redact_from (rev (c # ws @ fst (sensitive_value r)) @ before) (snd (sensitive_value r)))
      else c # redact_from (c # before) rest)"
  by pat_completeness auto
termination
proof (relation "measure (\<lambda>(before, s). length s)")
  show "((rev (c # ws @ fst (sensitive_value r)) @ before, snd (sensitive_value r)), before, c # rest)
      \<in> measure (\<lambda>(before, s). length s)" if "r = dropWhile is_ws rest" for c ws r before rest
    using sensitive_value_shorter [of r] length_dropWhile_le [of is_ws rest] that by simp
qed auto

definition redact_sensitive_assignments :: "string \<Rightarrow> string" where
  "redact_sensitive_assignments value = redact_from [] value"

section \<open>Bearer tokens\<close>

definition skip_bearer_token :: "string \<Rightarrow> string" where
  "skip_bearer_token s = dropWhile (\<lambda>c. \<not> is_ws c \<and> \<not> is_delimiter c) s"

text \<open>The search runs over the lower-case text; the text before an occurrence is copied as it is.\<close>

definition find_bearer :: "string \<Rightarrow> (string \<times> string) option" where
  "find_bearer s =
     (case split_at ''bearer '' (to_ascii_lowercase s) of
        None \<Rightarrow> None
      | Some (a, _) \<Rightarrow> Some (take (length a) s, drop (length a + 7) s))"

lemma find_bearer_shorter: "find_bearer s = Some (a, r) \<Longrightarrow> length r < length s"
  by (auto simp: find_bearer_def to_ascii_lowercase_def dest!: split_at_shorter split: option.splits prod.splits)

function redact_bearer_tokens :: "string \<Rightarrow> string" where
  "redact_bearer_tokens s =
     (case find_bearer s of
        None \<Rightarrow> s
      | Some (a, r) \<Rightarrow> a @ ''Bearer '' @ DIAGNOSTIC_REDACTION @ redact_bearer_tokens (skip_bearer_token r))"
  by pat_completeness auto
termination
proof (relation "measure length")
  show "(skip_bearer_token r, s) \<in> measure length" if "find_bearer s = Some p" "(a, r) = p" for s p a r
    using find_bearer_shorter [of s a r] that length_dropWhile_le [of "\<lambda>c. \<not> is_ws c \<and> \<not> is_delimiter c" r]
    by (simp add: skip_bearer_token_def)
qed simp

declare redact_bearer_tokens.simps [simp del]

section \<open>Truncation and lines\<close>

text \<open>The first \<open>n\<close> characters of a UTF-8 text.\<close>

fun take_chars :: "nat \<Rightarrow> string \<Rightarrow> string" where
  "take_chars n [] = []"
| "take_chars n (c # s) =
     (if utf8_cont c then c # take_chars n s else case n of 0 \<Rightarrow> [] | Suc m \<Rightarrow> c # take_chars m s)"

definition count_chars :: "string \<Rightarrow> nat" where
  "count_chars s = length (filter (\<lambda>c. \<not> utf8_cont c) s)"

definition truncate_diagnostic_text :: "string \<Rightarrow> string" where
  "truncate_diagnostic_text s =
     (if count_chars s \<le> STDERR_DIAGNOSTIC_MAX_CHARS_PER_LINE then s
      else take_chars STDERR_DIAGNOSTIC_MAX_CHARS_PER_LINE s @ [CHR 0xE2, CHR 0x80, CHR 0xA6] @ ''<truncated>'')"

definition sanitize_upstream_diagnostic :: "string \<Rightarrow> string" where
  "sanitize_upstream_diagnostic s = truncate_diagnostic_text (redact_sensitive_assignments (redact_bearer_tokens s))"

text \<open>\<open>pending\<close> are the lines the channel holds; at most six non-empty ones are taken.\<close>

fun stderr_lines :: "string list \<Rightarrow> string list \<Rightarrow> string list" where
  "stderr_lines [] taken = taken"
| "stderr_lines (line # pending) taken =
     (let taken = (if trim line = [] then taken else taken @ [sanitize_upstream_diagnostic (trim line)])
      in if STDERR_DIAGNOSTIC_MAX_LINES \<le> length taken then taken else stderr_lines pending taken)"

definition stderr_suffix :: "string list \<Rightarrow> string" where
  "stderr_suffix pending =
     (let ls = stderr_lines pending [] in if ls = [] then [] else ''; stderr: '' @ join '' | '' ls)"

section \<open>A redacted value does not influence the output\<close>

definition clean :: "string \<Rightarrow> bool" where
  "clean v \<longleftrightarrow> list_all (\<lambda>c. \<not> is_ws c \<and> \<not> is_delimiter c \<and> \<not> is_quote c) v"

lemma delimiter_stops: "is_delimiter d \<Longrightarrow> \<not> is_ws d \<and> \<not> key_char d \<and> \<not> is_quote d \<and> d \<noteq> CHR ''='' \<and> d \<noteq> CHR '':''"
  by (auto simp: is_delimiter_def key_char_def is_quote_def text_defs)

lemma separator_kept: "c = CHR ''='' \<or> c = CHR '':'' \<Longrightarrow> \<not> is_ws c \<and> \<not> is_delimiter c \<and> \<not> is_quote c"
  by (auto simp: is_delimiter_def is_quote_def text_defs)

lemma takeWhile_stop: "\<not> P d \<Longrightarrow> takeWhile P (s @ d # r) = takeWhile P s"
  by (induction s) auto

lemma dropWhile_stop: "\<not> P d \<Longrightarrow> dropWhile P (s @ d # r) = dropWhile P s @ d # r"
  by (induction s) auto

text \<open>The key that is looked up does not reach beyond a delimiter.\<close>

lemma diagnostic_key_local: "is_delimiter d \<Longrightarrow> diagnostic_key (u @ d # x) = diagnostic_key (u @ d # y)"
  using delimiter_stops [of d]
  by (cases "dropWhile is_ws u") (auto simp: diagnostic_key_def dropWhile_stop takeWhile_stop Let_def)

lemma redact_from_local: "is_delimiter d \<Longrightarrow> redact_from (u @ d # x) s = redact_from (u @ d # y) s"
proof (induction s arbitrary: u rule: length_induct)
  case (1 s)
  show ?case
  proof (cases s)
    case (Cons c rest)
    let ?r = "dropWhile is_ws rest"
    let ?used = "rev (c # takeWhile is_ws rest @ fst (sensitive_value ?r))"
    have "length (snd (sensitive_value ?r)) < length s"
      using sensitive_value_shorter [of ?r] length_dropWhile_le [of is_ws rest] Cons by simp
    then have "redact_from ((?used @ u) @ d # x) (snd (sensitive_value ?r)) = redact_from ((?used @ u) @ d # y) (snd (sensitive_value ?r))"
      using 1 by blast
    moreover have "redact_from ((c # u) @ d # x) rest = redact_from ((c # u) @ d # y) rest" using 1 Cons by (metis length_Cons lessI)
    ultimately show ?thesis
      using diagnostic_key_local [OF 1(2), of u x y] Cons by (simp add: Let_def)
  qed simp
qed

lemma redact_after_value:
  assumes "is_delimiter d" "d # rest = a @ b"
  shows "redact_from (rev a @ x) b = redact_from (rev a @ y) b"
proof (cases a)
  case Nil
  then have "b = d # rest" using assms(2) by simp
  then show ?thesis
    using Nil delimiter_stops [OF assms(1)] redact_from_local [OF assms(1), of "[]" x rest y] by simp
next
  case (Cons e a')
  then show ?thesis using assms redact_from_local [OF assms(1), of "rev a'" x b y] by simp
qed

lemma split_once_skip:
  "q \<notin> set s \<Longrightarrow> split_once q (s @ r) = map_option (\<lambda>(a, b). (s @ a, b)) (split_once q r)"
proof (cases "split_once q r")
  case None
  moreover assume "q \<notin> set s"
  ultimately have "split_once q (s @ r) = None" by simp
  with None show ?thesis by (simp del: split_once_None)
qed (auto simp: split_once_Some)

text \<open>A value that starts before a sensitive assignment ends before it, or swallows all of it.\<close>

lemma sensitive_value_around:
  assumes "is_delimiter d" "c = CHR ''='' \<or> c = CHR '':''"
  shows "(\<exists>a b. p = a @ b \<and> (\<forall>v. sensitive_value (p @ c # v @ d # rest) = (a, b @ c # v @ d # rest))) \<or>
    (\<exists>a b. d # rest = a @ b \<and> (\<forall>v. clean v \<longrightarrow> sensitive_value (p @ c # v @ d # rest) = (p @ c # v @ a, b)))"
proof -
  let ?go = "\<lambda>c. \<not> is_ws c \<and> \<not> is_delimiter c"
  note c = separator_kept [OF assms(2)] and d = delimiter_stops [OF assms(1)]
  have v: "takeWhile ?go (c # v @ d # rest) = c # v" "dropWhile ?go (c # v @ d # rest) = d # rest" if "clean v" for v
  proof -
    have "\<forall>x \<in> set (c # v). ?go x" using that c by (simp add: clean_def list_all_iff)
    then have "takeWhile ?go ((c # v) @ d # rest) = (c # v) @ takeWhile ?go (d # rest)"
      "dropWhile ?go ((c # v) @ d # rest) = dropWhile ?go (d # rest)"
      using takeWhile_append2 [of "c # v" ?go "d # rest"] dropWhile_append2 [of "c # v" ?go "d # rest"] by blast+
    then show "takeWhile ?go (c # v @ d # rest) = c # v" "dropWhile ?go (c # v @ d # rest) = d # rest"
      using assms(1) by simp_all
  qed
  consider "p = []" | q p' where "p = q # p'" "is_quote q" | q p' where "p = q # p'" "\<not> is_quote q" by (cases p) auto
  then show ?thesis
  proof cases
    case 1
    then show ?thesis using v c by (intro disjI2 exI [of _ "[]"] exI [of _ "d # rest"]) (simp add: sensitive_value_def)
  next
    case 2
    show ?thesis
    proof (cases "split_once q p'")
      case None
      then have q: "split_once q (p' @ c # v @ d # rest) = map_option (\<lambda>(a, b). (p' @ c # v @ d # a, b)) (split_once q rest)"
        if "clean v" for v
        using that c d 2(2) split_once_skip [of q "p' @ c # v @ [d]" rest] by (auto simp: clean_def list_all_iff)
      show ?thesis
      proof (cases "split_once q rest")
        case None
        then show ?thesis
          using q 2 by (intro disjI2 exI [of _ "d # rest"] exI [of _ "[]"]) (simp add: sensitive_value_def del: split_once_None)
      next
        case (Some ab)
        then obtain a b where ab: "split_once q rest = Some (a, b)" by (cases ab) auto
        then have "d # rest = (d # a @ [q]) @ b" by (simp add: split_once_Some)
        then show ?thesis
          using q 2 ab by (intro disjI2 exI [of _ "d # a @ [q]"] exI [of _ b]) (simp add: sensitive_value_def)
      qed
    next
      case (Some ab)
      then obtain a b where ab: "p' = a @ q # b" "q \<notin> set a" by (cases ab) (auto simp: split_once_Some)
      then have "split_once q (p' @ x) = Some (a, b @ x)" for x by (simp add: split_once_Some)
      then show ?thesis
        using 2 ab by (intro disjI1 exI [of _ "q # a @ [q]"] exI [of _ b]) (simp add: sensitive_value_def)
    qed
  next
    case 3
    show ?thesis
    proof (cases "dropWhile ?go p")
      case Nil
      then have "takeWhile ?go (p @ x) = p @ takeWhile ?go x" "dropWhile ?go (p @ x) = dropWhile ?go x" for x
        by (simp_all add: dropWhile_eq_Nil_conv)
      then show ?thesis
        using 3 v by (intro disjI2 exI [of _ "[]"] exI [of _ "d # rest"]) (simp add: sensitive_value_def)
    next
      case (Cons e b)
      then have "takeWhile ?go (p @ x) = takeWhile ?go p" "dropWhile ?go (p @ x) = (e # b) @ x" for x
        by (metis dropWhile_append takeWhile_append list.distinct(1) dropWhile_eq_Nil_conv)+
      moreover have "p = takeWhile ?go p @ e # b" using Cons by (metis takeWhile_dropWhile_id)
      moreover have "sensitive_value (p @ x) = (takeWhile ?go (p @ x), dropWhile ?go (p @ x))" for x
        using 3 by (simp only: sensitive_value_def list.case if_False append_Cons)
      ultimately show ?thesis
        by (intro disjI1 exI [of _ "takeWhile ?go p"] exI [of _ "e # b"] conjI allI) (assumption, simp only: prod.inject)
    qed
  qed
qed

lemma redact_from_direct:
  assumes "is_delimiter d" "c = CHR ''='' \<or> c = CHR '':''" "clean u" "diagnostic_key_is_sensitive (diagnostic_key before)"
  shows "redact_from before (c # u @ d # rest) = c # DIAGNOSTIC_REDACTION @ redact_from (rev (c # u) @ before) (d # rest)"
proof -
  let ?go = "\<lambda>c. \<not> is_ws c \<and> \<not> is_delimiter c"
  note stop = delimiter_stops [OF assms(1)]
  have nows: "dropWhile is_ws (u @ d # rest) = u @ d # rest" "takeWhile is_ws (u @ d # rest) = []"
    using assms(3) stop by (cases u; simp add: clean_def)+
  have "\<forall>x \<in> set u. ?go x" using assms(3) by (simp add: clean_def list_all_iff)
  moreover have "\<not> is_quote (hd (u @ d # rest))" using assms(3) stop by (cases u) (simp_all add: clean_def)
  then have "sensitive_value (u @ d # rest) = (takeWhile ?go (u @ d # rest), dropWhile ?go (u @ d # rest))"
    by (cases u) (simp_all add: sensitive_value_def)
  ultimately have sv: "sensitive_value (u @ d # rest) = (u, d # rest)"
    using takeWhile_append2 [of u ?go "d # rest"] dropWhile_append2 [of u ?go "d # rest"] assms(1) by auto
  show ?thesis
    using assms(2,4)
    by (subst redact_from.simps(2), subst if_P) (simp, simp only: Let_def nows sv fst_conv snd_conv append.left_neutral)
qed

lemma redact_from_hides:
  assumes "is_delimiter d" "c = CHR ''='' \<or> c = CHR '':''" "clean v" "clean w"
    and "diagnostic_key_is_sensitive (diagnostic_key (rev pre @ before))"
  shows "redact_from before (pre @ c # v @ d # rest) = redact_from before (pre @ c # w @ d # rest)"
  using assms(5)
proof (induction pre arbitrary: before rule: length_induct)
  case (1 pre)
  note sep = separator_kept [OF assms(2)]
  have swallowed: "redact_from (rev (p @ c # v @ a) @ x) b = redact_from (rev (p @ c # w @ a) @ x) b"
    if "d # rest = a @ b" for p a x b
    using redact_after_value [OF assms(1) that, of "rev (p @ c # v) @ x" "rev (p @ c # w) @ x"] by simp
  show ?case
  proof (cases pre)
    case Nil
    have key: "diagnostic_key_is_sensitive (diagnostic_key before)" using 1(2) Nil by simp
    then show ?thesis
      using redact_from_direct [OF assms(1,2,3) key] redact_from_direct [OF assms(1,2,4) key] Nil
        swallowed [of "[]" "d # rest" "[]" before] by (simp del: redact_from.simps)
  next
    case (Cons x pre')
    let ?p = "dropWhile is_ws pre'" and ?ws = "takeWhile is_ws pre'"
    have ws: "takeWhile is_ws (pre' @ c # u) = ?ws" "dropWhile is_ws (pre' @ c # u) = ?p @ c # u" for u
      using sep by (simp_all add: takeWhile_stop dropWhile_stop)
    have len: "length ?p \<le> length pre'" by (rule length_dropWhile_le)
    show ?thesis
    proof (cases "(x = CHR ''='' \<or> x = CHR '':'') \<and> diagnostic_key_is_sensitive (diagnostic_key before)")
      case False
      then show ?thesis using 1(1) [rule_format, of pre' "x # before"] 1(2) Cons by auto
    next
      case True
      from sensitive_value_around [OF assms(1,2), of ?p rest]
      have "redact_from (rev (x # ?ws @ fst (sensitive_value (?p @ c # v @ d # rest))) @ before)
            (snd (sensitive_value (?p @ c # v @ d # rest))) =
          redact_from (rev (x # ?ws @ fst (sensitive_value (?p @ c # w @ d # rest))) @ before)
            (snd (sensitive_value (?p @ c # w @ d # rest)))"
      proof (elim disjE exE conjE)
        fix a b assume p: "?p = a @ b" and sv: "\<forall>v. sensitive_value (?p @ c # v @ d # rest) = (a, b @ c # v @ d # rest)"
        have "rev b @ rev (x # ?ws @ a) @ before = rev pre @ before"
          using p Cons takeWhile_dropWhile_id [of is_ws pre'] by (metis append.assoc append_Cons rev_append)
        moreover have "length b < length pre" using p len Cons by (metis length_append le_add2 le_trans length_Cons less_Suc_eq_le)
        ultimately have "redact_from (rev (x # ?ws @ a) @ before) (b @ c # v @ d # rest) =
            redact_from (rev (x # ?ws @ a) @ before) (b @ c # w @ d # rest)"
          using 1(1) [rule_format, of b "rev (x # ?ws @ a) @ before"] 1(2) by metis
        then show ?thesis using sv by simp
      next
        fix a b assume ab: "d # rest = a @ b"
          and "\<forall>v. clean v \<longrightarrow> sensitive_value (?p @ c # v @ d # rest) = (?p @ c # v @ a, b)"
        then show ?thesis
          using assms(3,4) swallowed [OF ab, of "x # ?ws @ ?p" before] by (simp del: takeWhile_dropWhile_id)
      qed
      then show ?thesis using True Cons by (simp add: Let_def ws)
    qed
  qed
qed



text \<open>Credentials of a scheme other than Bearer are shown. The value of an assignment ends at white space, so of an
  Authorization line only the name of the scheme is redacted.\<close>

lemma basic_credentials_shown:
  "sanitize_upstream_diagnostic ''Authorization: Basic dXNlcjpwYXNz'' = ''Authorization: <redacted> dXNlcjpwYXNz''"
  by code_simp

end
