(* ===== verification/Http_Upstream.thy ===== *)
theory Http_Upstream
  imports Http_Probe Diagnostics Session_Pool
begin

text \<open>
  Upstream servers over HTTP (\<^verbatim>\<open>src/upstream/http_runtime.rs\<close>): URLs, configured headers, the text of the requests, the
  reading of answers, and the life of a session from initialize to its deletion. The plain connection and the HTTPS agent,
  the clock and the JSON printer and parser are arguments.
\<close>

section \<open>URLs\<close>

record parsed_http_url =
  pu_url :: string
  pu_secure :: bool
  pu_host :: string
  pu_port :: nat
  pu_path :: string
  pu_host_header :: string

definition blank_or_control :: "char \<Rightarrow> bool" where
  "blank_or_control c \<longleftrightarrow> is_control c \<or> is_ws c"

definition parse_required_http_port :: "string \<Rightarrow> string \<Rightarrow> string + nat" where
  "parse_required_http_port port authority =
     (if port = [] then Inl (''invalid HTTP upstream port in '' @ squote authority)
      else case parse_uint (uint_max 16) port of
             None \<Rightarrow> Inl (''invalid HTTP upstream port in '' @ squote authority)
           | Some n \<Rightarrow> if n = 0 then Inl (''invalid HTTP upstream port in '' @ squote authority) else Inr n)"

definition parse_optional_http_port :: "string \<Rightarrow> string \<Rightarrow> nat \<Rightarrow> string + nat" where
  "parse_optional_http_port suffix authority default_port =
     (if suffix = [] then Inr default_port
      else case strip_prefix '':'' suffix of
             None \<Rightarrow> Inl (''invalid HTTP upstream authority '' @ squote authority)
           | Some port \<Rightarrow> parse_required_http_port port authority)"

definition parse_bracketed_authority :: "string \<Rightarrow> nat \<Rightarrow> string + string \<times> nat \<times> string" where
  "parse_bracketed_authority authority default_port =
     (case split_once CHR '']'' authority of
        None \<Rightarrow> Inl (''invalid IPv6 HTTP upstream authority '' @ squote authority)
      | Some (before, suffix) \<Rightarrow>
          (let host = tl before
           in if trim host = [] \<or> list_ex blank_or_control host
              then Inl (''invalid IPv6 HTTP upstream host '' @ squote authority)
              else (case parse_optional_http_port suffix authority default_port of
                      Inl e \<Rightarrow> Inl e
                    | Inr port \<Rightarrow>
                        Inr (host, port,
                             if suffix = [] then ''['' @ host @ '']'' else ''['' @ host @ '']:'' @ show_nat port))))"

definition parse_plain_authority :: "string \<Rightarrow> nat \<Rightarrow> string + string \<times> nat \<times> bool" where
  "parse_plain_authority authority default_port =
     (case rsplit_once CHR '':'' authority of
        Some (host, port) \<Rightarrow>
          if host \<noteq> []
          then (case parse_required_http_port port authority of Inl e \<Rightarrow> Inl e | Inr n \<Rightarrow> Inr (host, n, True))
          else Inl (''invalid HTTP upstream authority '' @ squote authority)
      | None \<Rightarrow> Inr (authority, default_port, False))"

definition parse_http_authority :: "string \<Rightarrow> nat \<Rightarrow> string + string \<times> nat \<times> string" where
  "parse_http_authority authority default_port =
     (if authority = [] \<or> CHR ''/'' \<in> set authority \<or> CHR ''@'' \<in> set authority \<or> list_ex blank_or_control authority
      then Inl (''invalid HTTP upstream authority '' @ squote authority)
      else if starts_with authority ''['' then parse_bracketed_authority authority default_port
      else if 1 < length (filter (\<lambda>c. c = CHR '':'') authority)
      then Inl (''IPv6 HTTP upstream authorities must be bracketed: '' @ squote authority)
      else (case parse_plain_authority authority default_port of
              Inl e \<Rightarrow> Inl e
            | Inr (host, port, explicit_port) \<Rightarrow>
                if trim host = [] \<or> list_ex blank_or_control host
                then Inl (''HTTP upstream URL has an invalid host: '' @ authority)
                else Inr (host, port, if explicit_port then host @ '':'' @ show_nat port else host)))"

definition split_http_authority_and_path :: "string \<Rightarrow> string + string \<times> string" where
  "split_http_authority_and_path rest =
     (let stop = (\<lambda>c. c = CHR ''/'' \<or> c = CHR ''?'');
          authority = takeWhile (\<lambda>c. \<not> stop c) rest; suffix = dropWhile (\<lambda>c. \<not> stop c) rest
      in if suffix = []
         then (if rest = [] then Inl ''HTTP upstream URL has an empty authority'' else Inr (rest, ''/''))
         else if authority = [] then Inl ''HTTP upstream URL has an empty authority''
         else let path = (if starts_with suffix ''/'' then suffix else ''/'' @ suffix)
              in if list_ex is_control path then Inl ''HTTP upstream URL path cannot contain control characters''
                 else Inr (authority, path))"

text \<open>Whether an address is a loopback address, directly or as an IPv4 address mapped into IPv6.\<close>

definition address_is_loopback :: "ip_addr \<Rightarrow> bool" where
  "address_is_loopback a \<longleftrightarrow>
     is_loopback a \<or>
     (case a of V4 _ \<Rightarrow> False | V6 gs \<Rightarrow> take 6 gs = [0, 0, 0, 0, 0, 0xFFFF] \<and> gs ! 6 div 256 = 127)"

definition plain_http_upstream_host_is_loopback :: "string \<Rightarrow> bool" where
  "plain_http_upstream_host_is_loopback host =
     (let normalized = trim_matches (\<lambda>c. c = CHR ''['' \<or> c = CHR '']'') (trim host)
      in eq_ignore_ascii_case normalized ''localhost'' \<or>
         (case parse_ip_addr normalized of Some a \<Rightarrow> address_is_loopback a | None \<Rightarrow> False))"

definition parse_http_url :: "string \<Rightarrow> string + parsed_http_url" where
  "parse_http_url url =
     (if url = [] \<or> list_ex blank_or_control url
      then Inl ''HTTP upstream URL cannot be empty or contain whitespace/control characters''
      else if CHR ''#'' \<in> set url \<or> CHR 0x5C \<in> set url
      then Inl ''HTTP upstream URL cannot contain fragments or backslashes''
      else let normalized_url = to_ascii_lowercase url
           in case (if starts_with normalized_url ''https://'' then Some (True, drop 8 url, 443)
                    else if starts_with normalized_url ''http://'' then Some (False, drop 7 url, 80)
                    else None) of
                None \<Rightarrow> Inl (''HTTP upstream URL must start with http:// or https://: '' @ url)
              | Some (secure, rest, default_port) \<Rightarrow>
                  (case split_http_authority_and_path rest of
                     Inl e \<Rightarrow> Inl e
                   | Inr (authority, path) \<Rightarrow>
                       (case parse_http_authority authority default_port of
                          Inl e \<Rightarrow> Inl e
                        | Inr (host, port, host_header) \<Rightarrow>
                            if \<not> secure \<and> \<not> plain_http_upstream_host_is_loopback host
                            then Inl (''direct plain-HTTP MCP upstreams are limited to loopback hosts; '' @ squote host
                                      @ '' must use HTTPS or a local gateway'')
                            else Inr \<lparr>pu_url = url, pu_secure = secure, pu_host = host, pu_port = port, pu_path = path,
                                      pu_host_header = host_header\<rparr>)))"

section \<open>Headers\<close>

fun check_headers :: "string list \<Rightarrow> (string \<times> string) list \<Rightarrow> string + unit" where
  "check_headers seen [] = Inr ()"
| "check_headers seen ((name, v) # rest) =
     (let key = to_ascii_lowercase name
      in if key \<in> set seen
         then Inl (''HTTP upstream configured duplicate header name '' @ squote name @ '' with different casing'')
         else if \<not> valid_http_header_name name
         then Inl (''HTTP upstream configured an invalid header name '' @ squote name)
         else if reserved_mcp_http_header_name name
         then Inl (''HTTP upstream header '' @ squote name @ '' is managed by MCPace and cannot be overridden'')
         else if \<not> valid_http_field_value v
         then Inl (''HTTP upstream configured an invalid value for header '' @ squote name)
         else check_headers (insort_insert key seen) rest)"

definition validate_configured_headers :: "(string \<times> string) list \<Rightarrow> string + unit" where
  "validate_configured_headers headers = check_headers [] headers"

definition append_configured_headers :: "(string \<times> string) list \<Rightarrow> string" where
  "append_configured_headers headers = concat (map (\<lambda>(name, v). name @ '': '' @ v @ CRLF) headers)"

definition http_upstream_configuration_error :: "string \<Rightarrow> (string \<times> string) list \<Rightarrow> string option" where
  "http_upstream_configuration_error url headers =
     (case parse_http_url url of
        Inl e \<Rightarrow> Some e
      | Inr _ \<Rightarrow> (case validate_configured_headers headers of Inl e \<Rightarrow> Some e | Inr _ \<Rightarrow> None))"

section \<open>Requests and answers\<close>

definition jsonrpc_request :: "int \<Rightarrow> string \<Rightarrow> json option \<Rightarrow> json" where
  "jsonrpc_request rid name params =
     json_object ([(''jsonrpc'', JString ''2.0''), (''id'', JNumber (show_int rid)), (''method'', JString name)]
       @ (case params of None \<Rightarrow> [] | Some p \<Rightarrow> [(''params'', p)]))"

record http_upstream_response =
  hu_status :: nat
  hu_content_type :: string
  hu_session_id :: "string option"
  hu_body :: string

definition parse_http_response :: "string \<Rightarrow> http_probe_error + http_upstream_response" where
  "parse_http_response raw =
     (case parse_response raw of
        Inl e \<Rightarrow> Inl (HttpProbeError (''HTTP upstream returned a malformed response: '' @ e))
      | Inr r \<Rightarrow>
          (case body_bytes r of
             Inl ProbePanic \<Rightarrow> Inl ProbePanic
           | Inl (HttpProbeError e) \<Rightarrow> Inl (HttpProbeError (''failed to decode HTTP upstream response body: '' @ e))
           | Inr body \<Rightarrow>
               if \<not> utf8_ok body then Inl (HttpProbeError ''HTTP upstream returned a non-UTF-8 body'')
               else Inr \<lparr>hu_status = hr_status r, hu_content_type = hr_content_type r,
                         hu_session_id = response_header ''mcp-session-id'' r, hu_body = body\<rparr>))"

definition post_request :: "parsed_http_url \<Rightarrow> string \<Rightarrow> (string \<times> string) list \<Rightarrow> string option \<Rightarrow> string \<Rightarrow> string" where
  "post_request target protocol_version headers session_id body =
     ''POST '' @ pu_path target @ '' HTTP/1.1'' @ CRLF @ ''Host: '' @ pu_host_header target @ CRLF
     @ ''Accept: application/json, text/event-stream'' @ CRLF @ ''Content-Type: application/json'' @ CRLF
     @ ''MCP-Protocol-Version: '' @ protocol_version @ CRLF @ ''Content-Length: '' @ show_nat (length body) @ CRLF
     @ ''Connection: close'' @ CRLF @ append_configured_headers headers
     @ (case session_id of None \<Rightarrow> [] | Some sid \<Rightarrow> ''Mcp-Session-Id: '' @ sid @ CRLF) @ CRLF @ body"

text \<open>What answers: the plain connection (host, port, request, expected id) and the HTTPS agent.\<close>

record http_env =
  hx_compact :: "json \<Rightarrow> string"
  hx_parse :: "string \<Rightarrow> string + json"
  hx_plain :: "string \<Rightarrow> nat \<Rightarrow> string \<Rightarrow> int option \<Rightarrow> http_probe_error + string"
  hx_secure :: "string \<Rightarrow> (string \<times> string) list \<Rightarrow> string \<Rightarrow> int option \<Rightarrow> string + http_upstream_response"
  hx_remaining :: "string \<Rightarrow> nat \<Rightarrow> nat option"
  hx_version :: string

definition https_headers :: "string \<Rightarrow> (string \<times> string) list \<Rightarrow> string option \<Rightarrow> (string \<times> string) list" where
  "https_headers protocol_version headers session_id =
     [(''Accept'', ''application/json, text/event-stream''), (''Content-Type'', ''application/json''),
      (''MCP-Protocol-Version'', protocol_version)] @ headers
     @ (case session_id of None \<Rightarrow> [] | Some sid \<Rightarrow> [(''Mcp-Session-Id'', sid)])"

definition post_json ::
  "http_env \<Rightarrow> parsed_http_url \<Rightarrow> json \<Rightarrow> string option \<Rightarrow> string \<Rightarrow> (string \<times> string) list \<Rightarrow>
   http_probe_error + http_upstream_response" where
  "post_json env target payload session_id protocol_version headers =
     (let expected_id = Option.bind (value_at_path payload [''id'']) as_i64; body = hx_compact env payload
      in case validate_configured_headers headers of
           Inl e \<Rightarrow> Inl (HttpProbeError e)
         | Inr _ \<Rightarrow>
             if pu_secure target
             then (if \<not> (case session_id of None \<Rightarrow> True | Some sid \<Rightarrow> valid_http_header_value sid)
                   then Inl (HttpProbeError ''HTTPS upstream returned an invalid MCP session id header'')
                   else case hx_secure env (pu_url target) (https_headers protocol_version headers session_id) body expected_id of
                          Inl e \<Rightarrow> Inl (HttpProbeError e)
                        | Inr r \<Rightarrow> Inr r)
             else if \<not> (case session_id of None \<Rightarrow> True | Some sid \<Rightarrow> valid_http_header_value sid)
             then Inl (HttpProbeError ''HTTP upstream returned an invalid MCP session id header'')
             else (case hx_plain env (pu_host target) (pu_port target)
                          (post_request target protocol_version headers session_id body) expected_id of
                     Inl ProbePanic \<Rightarrow> Inl ProbePanic
                   | Inl (HttpProbeError e) \<Rightarrow> Inl (HttpProbeError (''HTTP upstream request failed: '' @ e))
                   | Inr raw \<Rightarrow> parse_http_response raw))"

definition json_body_from_response ::
  "(string \<Rightarrow> string + json) \<Rightarrow> http_upstream_response \<Rightarrow> int option \<Rightarrow> string + string" where
  "json_body_from_response parse r expected =
     (if contains (to_ascii_lowercase (hu_content_type r)) ''text/event-stream''
      then (case sse_json_rpc_body parse (hu_body r) expected of
              None \<Rightarrow> Inl ''HTTP upstream SSE response did not contain a matching JSON-RPC response''
            | Some data \<Rightarrow> Inr data)
      else Inr (trim (hu_body r)))"

definition auth_hint :: "nat \<Rightarrow> string" where
  "auth_hint status =
     (if status = 401 \<or> status = 403
      then '' Authentication is required; configure an explicit --header NAME=VALUE (environment placeholders are supported) or use an OAuth-capable stdio adapter. MCPace does not perform upstream OAuth authorization flows.''
      else [])"

definition jsonrpc_result :: "http_env \<Rightarrow> string \<Rightarrow> string \<Rightarrow> int \<Rightarrow> http_upstream_response \<Rightarrow> http_probe_error + json" where
  "jsonrpc_result env server name expected r =
     (if \<not> (200 \<le> hu_status r \<and> hu_status r < 300)
      then Inl (HttpProbeError (''HTTP upstream server '' @ squote server @ '' returned status '' @ show_nat (hu_status r)
                @ '' for '' @ name @ '': '' @ sanitize_upstream_diagnostic (trim (hu_body r)) @ auth_hint (hu_status r)))
      else case json_body_from_response (hx_parse env) r (Some expected) of
             Inl e \<Rightarrow> Inl (HttpProbeError e)
           | Inr body \<Rightarrow>
               (case hx_parse env body of
                  Inl e \<Rightarrow> Inl (HttpProbeError (''HTTP upstream server '' @ squote server @ '' returned invalid JSON for ''
                              @ name @ '': '' @ e))
                | Inr v \<Rightarrow>
                    (case validate_response_envelope v expected of
                       Inl e \<Rightarrow> Inl (HttpProbeError (''HTTP upstream server '' @ squote server
                                   @ '' returned a malformed JSON-RPC response for '' @ name @ '': '' @ mcp_protocol_error_display e))
                     | Inr _ \<Rightarrow>
                         (case value_at_path v [''error''] of
                            Some e \<Rightarrow> Inl (HttpProbeError (''HTTP upstream server '' @ squote server
                                         @ '' returned JSON-RPC error for '' @ name @ '': ''
                                         @ sanitize_upstream_diagnostic (hx_compact env e)))
                          | None \<Rightarrow> (case value_at_path v [''result''] of Some res \<Rightarrow> Inr res | None \<Rightarrow> Inl ProbePanic)))))"

section \<open>Sessions\<close>

text \<open>
  \<open>hx_remaining env phase n\<close> is the time left when a phase is reached for the \<open>n\<close>-th time, \<open>None\<close> after the deadline. A session that is given up is
  deleted: the DELETE requests that are sent are part of the result.
\<close>

definition remaining_http_timeout :: "http_env \<Rightarrow> string \<Rightarrow> string \<Rightarrow> nat \<Rightarrow> http_probe_error + nat" where
  "remaining_http_timeout env server phase n =
     (case hx_remaining env phase n of
        Some (Suc t) \<Rightarrow> Inr (Suc t)
      | _ \<Rightarrow> Inl (HttpProbeError (''timed out waiting for HTTP upstream server '' @ squote server @ '' during '' @ phase)))"

datatype http_delete = SecureDelete string "(string \<times> string) list" | PlainDelete string nat string

definition terminate_http_session ::
  "parsed_http_url \<Rightarrow> string option \<Rightarrow> string \<Rightarrow> (string \<times> string) list \<Rightarrow> http_delete list" where
  "terminate_http_session target session_id protocol_version headers =
     (case session_id of
        None \<Rightarrow> []
      | Some sid \<Rightarrow>
          if \<not> valid_http_header_value sid then []
          else if pu_secure target
          then [SecureDelete (pu_url target)
                  ([(''MCP-Protocol-Version'', protocol_version), (''Mcp-Session-Id'', sid)] @ headers)]
          else [PlainDelete (pu_host target) (pu_port target)
                  (''DELETE '' @ pu_path target @ '' HTTP/1.1'' @ CRLF @ ''Host: '' @ pu_host_header target @ CRLF
                   @ ''MCP-Protocol-Version: '' @ protocol_version @ CRLF @ ''Mcp-Session-Id: '' @ sid @ CRLF
                   @ ''Content-Length: 0'' @ CRLF @ ''Connection: close'' @ CRLF @ append_configured_headers headers @ CRLF)])"

definition terminate_before_deadline ::
  "http_env \<Rightarrow> parsed_http_url \<Rightarrow> string option \<Rightarrow> string \<Rightarrow> (string \<times> string) list \<Rightarrow> http_delete list" where
  "terminate_before_deadline env target session_id protocol_version headers =
     (case hx_remaining env ''terminate'' 0 of
        None \<Rightarrow> []
      | Some _ \<Rightarrow> terminate_http_session target session_id protocol_version headers)"

definition initialize_payload :: "http_env \<Rightarrow> json" where
  "initialize_payload env =
     jsonrpc_request INITIALIZE_ID ''initialize''
       (Some (json_object
          [(''protocolVersion'', JString CURRENT_PROTOCOL_VERSION), (''capabilities'', empty_object),
           (''clientInfo'', json_object [(''name'', JString ''mcpace-upstream-http-bridge''), (''version'', JString (hx_version env))])]))"

definition initialized_payload :: json where
  "initialized_payload = json_object [(''jsonrpc'', JString ''2.0''), (''method'', JString ''notifications/initialized'')]"

definition initialize_http_session ::
  "http_env \<Rightarrow> string \<Rightarrow> string option \<Rightarrow> (string \<times> string) list \<Rightarrow>
   (http_probe_error + parsed_http_url \<times> string option \<times> string) \<times> http_delete list" where
  "initialize_http_session env server url headers =
     (case url of
        None \<Rightarrow> (Inl (HttpProbeError (''HTTP upstream server '' @ squote server @ '' has no url configured'')), [])
      | Some u \<Rightarrow>
          (case parse_http_url u of
             Inl e \<Rightarrow> (Inl (HttpProbeError e), [])
           | Inr target \<Rightarrow>
               (case remaining_http_timeout env server ''initialize'' 0 of
                  Inl e \<Rightarrow> (Inl e, [])
                | Inr _ \<Rightarrow>
                    (case post_json env target (initialize_payload env) None CURRENT_PROTOCOL_VERSION headers of
                       Inl e \<Rightarrow> (Inl e, [])
                     | Inr response \<Rightarrow>
                         (let sid = hu_session_id response;
                              give_up = (\<lambda>version e. (Inl e, terminate_before_deadline env target sid version headers))
                          in case jsonrpc_result env server ''initialize'' INITIALIZE_ID response of
                               Inl e \<Rightarrow> give_up CURRENT_PROTOCOL_VERSION e
                             | Inr res \<Rightarrow>
                                 (case negotiated_protocol_version server res of
                                    Inl e \<Rightarrow> give_up CURRENT_PROTOCOL_VERSION (HttpProbeError e)
                                  | Inr version \<Rightarrow>
                                      (case remaining_http_timeout env server ''notifications/initialized'' 0 of
                                         Inl e \<Rightarrow> (Inl e, [])
                                       | Inr _ \<Rightarrow>
                                           (case post_json env target initialized_payload sid version headers of
                                              Inl e \<Rightarrow> give_up version e
                                            | Inr r \<Rightarrow>
                                                if 200 \<le> hu_status r \<and> hu_status r < 300 then (Inr (target, sid, version), [])
                                                else give_up version
                                                  (HttpProbeError (''HTTP upstream server '' @ squote server @ '' returned status ''
                                                     @ show_nat (hu_status r) @ '' for notifications/initialized'')))))))))) "

text \<open>A session in use: an operation on it, then its deletion.\<close>

definition with_http_session ::
  "http_env \<Rightarrow> string \<Rightarrow> string option \<Rightarrow> (string \<times> string) list \<Rightarrow>
   (parsed_http_url \<Rightarrow> string option \<Rightarrow> string \<Rightarrow> http_probe_error + 'a) \<Rightarrow> (http_probe_error + 'a) \<times> http_delete list" where
  "with_http_session env server url headers use =
     (case initialize_http_session env server url headers of
        (Inl e, ds) \<Rightarrow> (Inl e, ds)
      | (Inr (target, sid, version), ds) \<Rightarrow>
          (use target sid version, ds @ terminate_before_deadline env target sid version headers))"

definition post_and_read ::
  "http_env \<Rightarrow> string \<Rightarrow> (string \<times> string) list \<Rightarrow> parsed_http_url \<Rightarrow> string option \<Rightarrow> string \<Rightarrow> string \<Rightarrow> nat \<Rightarrow> string \<Rightarrow>
   int \<Rightarrow> json option \<Rightarrow> http_probe_error + json" where
  "post_and_read env server headers target sid version phase n name rid params =
     (case remaining_http_timeout env server phase n of
        Inl e \<Rightarrow> Inl e
      | Inr _ \<Rightarrow>
          (case post_json env target (jsonrpc_request rid name params) sid version headers of
             Inl e \<Rightarrow> Inl e
           | Inr response \<Rightarrow> jsonrpc_result env server name rid response))"

definition run_http_request ::
  "http_env \<Rightarrow> string \<Rightarrow> string option \<Rightarrow> (string \<times> string) list \<Rightarrow> string \<Rightarrow> json option \<Rightarrow>
   (http_probe_error + json) \<times> http_delete list" where
  "run_http_request env server url headers name params =
     with_http_session env server url headers
       (\<lambda>target sid version. post_and_read env server headers target sid version name 0 name METHOD_ID params)"

definition run_http_tools_list ::
  "http_env \<Rightarrow> string \<Rightarrow> string option \<Rightarrow> (string \<times> string) list \<Rightarrow> (http_probe_error + json) \<times> http_delete list" where
  "run_http_tools_list env server url headers =
     with_http_session env server url headers
       (\<lambda>target sid version. fst (list_pages (hx_compact env) HttpProbeError
          (\<lambda>page cursor. post_and_read env server headers target sid version ''tools/list pagination'' page ''tools/list''
             (min (METHOD_ID + int page) i64_max) (map_option (\<lambda>c. json_object [(''cursor'', JString c)]) cursor))
          server None pagination_new))"

definition batch_error :: "string \<Rightarrow> nat \<Rightarrow> nat \<Rightarrow> http_probe_error \<Rightarrow> http_probe_error" where
  "batch_error server index count e =
     (case e of
        ProbePanic \<Rightarrow> ProbePanic
      | HttpProbeError m \<Rightarrow> HttpProbeError (batch_tool_call_error server index count m))"

fun http_call_tools ::
  "(nat \<Rightarrow> int \<Rightarrow> json \<Rightarrow> http_probe_error + json) \<Rightarrow> string \<Rightarrow> nat \<Rightarrow> nat \<Rightarrow> json list \<Rightarrow> (string \<times> json) list \<Rightarrow>
   http_probe_error + json list" where
  "http_call_tools exchange server count index results [] = Inr results"
| "http_call_tools exchange server count index results ((tool, arguments) # rest) =
     (case exchange index (min (METHOD_ID + int index) i64_max) (json_object [(''name'', JString tool), (''arguments'', arguments)]) of
        Inl e \<Rightarrow> Inl (batch_error server index count e)
      | Inr res \<Rightarrow>
          (case validate_tool_call_result server tool res of
             Inl e \<Rightarrow> Inl (batch_error server index count (HttpProbeError e))
           | Inr is_error \<Rightarrow>
               http_call_tools exchange server count (Suc index) (results @ [call_result_json index is_error tool res]) rest))"

definition run_http_tool_calls ::
  "http_env \<Rightarrow> string \<Rightarrow> string option \<Rightarrow> (string \<times> string) list \<Rightarrow> (string \<times> json) list \<Rightarrow>
   (http_probe_error + json list) \<times> http_delete list" where
  "run_http_tool_calls env server url headers calls =
     with_http_session env server url headers
       (\<lambda>target sid version. http_call_tools
          (\<lambda>index rid params. post_and_read env server headers target sid version ''tools/call batch'' index ''tools/call'' rid (Some params))
          server (length calls) 0 [] calls)"

end
