(* ===== verification/Http_Probe_Properties.thy ===== *)
theory Http_Probe_Properties
  imports Http_Probe
begin

text \<open>
  Correctness of the HTTP client: the chunked coding is decoded exactly, an accepted response has one unambiguous framing,
  and what a read returns is bounded. One chunk size makes the decoder panic.
\<close>

section \<open>The chunked coding\<close>

text \<open>A chunk as a sender frames it: a size line that announces the length of the data, the data, a line end.\<close>

definition frame_ok :: "string \<times> string \<Rightarrow> bool" where
  "frame_ok = (\<lambda>(line, chunk).
     CR \<notin> set line \<and> utf8_ok line \<and> chunk \<noteq> [] \<and>
     parse_hex_usize (trim (hd (split_char CHR '';'' line))) = Some (length chunk))"

definition frame :: "string \<times> string \<Rightarrow> string" where
  "frame = (\<lambda>(line, chunk). line @ CRLF @ chunk @ CRLF)"

definition last_frame_ok :: "string \<Rightarrow> bool" where
  "last_frame_ok line \<longleftrightarrow>
     CR \<notin> set line \<and> utf8_ok line \<and> parse_hex_usize (trim (hd (split_char CHR '';'' line))) = Some 0"

lemma decode_chunks_unfold:
  assumes "split_at CRLF rest = Some (line, rest1)" "utf8_ok line"
    and "parse_hex_usize (trim (hd (split_char CHR '';'' line))) = Some n"
  shows "decode_chunks len off rest dec =
    (if n = 0 then decode_trailers rest1 dec
     else if len < (off + length line + 2 + n) mod 2 ^ 64 then Inl (HttpProbeError ''chunked HTTP body is incomplete'')
     else if (off + length line + 2 + n) mod 2 ^ 64 < off + length line + 2 then Inl ProbePanic
     else if starts_with (drop n rest1) CRLF
     then decode_chunks len (off + length line + 2 + n + 2) (drop 2 (drop n rest1)) (dec @ take n rest1)
     else if drop n rest1 \<noteq> [] then Inl (HttpProbeError ''chunked HTTP body is missing a chunk terminator'')
     else decode_chunks len (off + length line + 2 + n) (drop n rest1) (dec @ take n rest1))"
  by (subst decode_chunks.simps) (simp only: assms option.case prod.case Let_def not_not if_False not_True_eq_False)

lemma decode_chunk_step:
  assumes "frame_ok (line, c)" "len < 2 ^ 64" "off + length line + 2 + length c \<le> len"
  shows "decode_chunks len off (frame (line, c) @ rest) dec =
    decode_chunks len (off + length (frame (line, c))) rest (dec @ c)"
proof -
  have split: "split_at CRLF (frame (line, c) @ rest) = Some (line, c @ CRLF @ rest)"
    using assms(1) split_at_CRLF [of line "c @ CRLF @ rest"] by (simp add: frame_ok_def frame_def)
  have "(off + length line + 2 + length c) mod 2 ^ 64 = off + length line + 2 + length c"
    using assms(2,3) by simp
  moreover have "starts_with (CRLF @ rest) CRLF" by (simp add: starts_with_def)
  ultimately show ?thesis
    using assms by (subst decode_chunks.simps, subst split) (simp add: Let_def frame_ok_def frame_def add.assoc)
qed

lemma decode_chunks_end:
  assumes "last_frame_ok line"
  shows "decode_chunks len off (line @ CRLF @ CRLF) dec = Inr dec"
proof -
  have "split_at CRLF (line @ CRLF @ CRLF) = Some (line, CRLF)"
    using assms split_at_CRLF [of line CRLF] by (simp add: last_frame_ok_def)
  moreover have "decode_trailers CRLF dec = Inr dec"
    by (subst decode_trailers.simps) (simp add: starts_with_def)
  ultimately show ?thesis using assms by (subst decode_chunks.simps) (simp add: last_frame_ok_def Let_def)
qed

lemma decode_frames:
  assumes "list_all frame_ok fs" "last_frame_ok line" "len < 2 ^ 64" "off + length (concat (map frame fs)) \<le> len"
  shows "decode_chunks len off (concat (map frame fs) @ line @ CRLF @ CRLF) dec = Inr (dec @ concat (map snd fs))"
  using assms
proof (induction fs arbitrary: off dec)
  case Nil
  then show ?case using decode_chunks_end by simp
next
  case (Cons f fs)
  obtain l c where f: "f = (l, c)" by (cases f)
  have "off + length l + 2 + length c \<le> len" using Cons.prems(4) by (simp add: f frame_def)
  then show ?case
    using Cons decode_chunk_step [of l c len off] by (simp add: f add.assoc)
qed

lemma wrapped_before: "o1 < m \<Longrightarrow> n < m \<Longrightarrow> \<not> (o1 + n) mod m < o1 \<Longrightarrow> (o1 + n) mod m = o1 + n" for m :: nat
  by (cases "o1 + n < m") (auto simp: le_mod_geq)

text \<open>What is decoded, was framed: the decoded bytes are the data of the chunks in order.\<close>

lemma decode_chunks_sound:
  assumes "decode_chunks len off rest dec = Inr d" "len = off + length rest" "len < 2 ^ 64"
  shows "\<exists>fs r. rest = concat (map frame fs) @ r \<and> d = dec @ concat (map snd fs) \<and>
    list_all (\<lambda>(line, c). parse_hex_usize (trim (hd (split_char CHR '';'' line))) = Some (length c)) fs"
  using assms
proof (induction len off rest dec rule: decode_chunks.induct)
  case (1 len off rest dec)
  obtain line rest1 n where l: "split_at CRLF rest = Some (line, rest1)" and u: "utf8_ok line"
    and n: "parse_hex_usize (trim (hd (split_char CHR '';'' line))) = Some n"
    using "1.prems"(1) by (subst (asm) decode_chunks.simps) (auto split: option.splits if_splits)
  have rest: "rest = line @ CRLF @ rest1" by (rule split_at_Some [OF l])
  define o1 where "o1 = off + length line + 2"
  show ?case
  proof (cases "n = 0")
    case True
    have "decode_trailers rest1 dec = Inr d \<Longrightarrow> d = dec"
    proof (induction rest1 dec rule: decode_trailers.induct)
      case (1 r s)
      then show ?case by (subst (asm) (2) decode_trailers.simps) (auto split: option.splits if_splits)
    qed
    then have "d = dec" using "1.prems"(1) True unfolding decode_chunks_unfold [OF l u n] by simp
    then show ?thesis by (intro exI [of _ "[]"] exI [of _ rest]) simp
  next
    case False
    have fin: "\<not> len < (o1 + n) mod 2 ^ 64" "\<not> (o1 + n) mod 2 ^ 64 < o1"
      using "1.prems"(1) False unfolding decode_chunks_unfold [OF l u n] o1_def [symmetric] by (auto split: if_splits)
    have "n < 2 ^ 64" using n by (auto simp: parse_hex_usize_def Let_def uint_max_def split: if_splits)
    moreover have o1: "o1 + length rest1 = len" using "1.prems"(2) rest by (simp add: o1_def)
    ultimately have le: "(o1 + n) mod 2 ^ 64 = o1 + n"
      using fin(2) "1.prems"(3) wrapped_before [of o1 "2 ^ 64" n] by simp
    have len: "n \<le> length rest1" using fin(1) o1 le by simp
    let ?rest2 = "drop n rest1"
    have st: "starts_with ?rest2 CRLF"
    proof (rule ccontr)
      assume "\<not> starts_with ?rest2 CRLF"
      then have "?rest2 = [] \<and> decode_chunks len (o1 + n) ?rest2 (dec @ take n rest1) = Inr d"
        using "1.prems"(1) False fin unfolding decode_chunks_unfold [OF l u n] o1_def [symmetric]
        by (simp split: if_splits)
      then have "decode_chunks len (o1 + n) [] (dec @ take n rest1) = Inr d" by metis
      then show False by (subst (asm) decode_chunks.simps) simp
    qed
    then obtain rest3 where r3: "?rest2 = CRLF @ rest3" by (auto simp: starts_with_iff)
    have dec: "decode_chunks len (o1 + n + 2) (drop 2 ?rest2) (dec @ take n rest1) = Inr d"
      using "1.prems"(1) False fin st unfolding decode_chunks_unfold [OF l u n] o1_def [symmetric] by simp
    moreover have "len = o1 + n + 2 + length (drop 2 ?rest2)" using arg_cong [OF r3, of length] o1 len by simp
    ultimately obtain fs r where fs: "drop 2 ?rest2 = concat (map frame fs) @ r"
        "d = (dec @ take n rest1) @ concat (map snd fs)"
        "list_all (\<lambda>(line, c). parse_hex_usize (trim (hd (split_char CHR '';'' line))) = Some (length c)) fs"
      using "1.IH"(1) [OF l refl _ n refl refl False _ _ refl refl] u fin st o1_def "1.prems"(3) by auto
    have "rest = concat (map frame ((line, take n rest1) # fs)) @ r"
      using rest r3 fs(1) by (simp add: frame_def) (metis append_take_drop_id)
    then show ?thesis using fs(2,3) n len by (intro exI [of _ "(line, take n rest1) # fs"] exI [of _ r]) simp
  qed
qed



section \<open>A chunk size at the end of the address space\<close>

lemma status_200: "parse_status_line ''HTTP/1.1 200 OK'' = Inr 200"
  by (simp add: parse_status_line_def split_whitespace_def parse_uint_def uint_max_def strip_plus_def digits_val_def text_defs)

text \<open>The sum of the offset and an announced chunk size is not checked. A response whose first chunk announces 16
  hexadecimal digits f makes the decoder slice backwards: a panic, whatever follows, already while the response is being read.\<close>

definition hostile_head :: string where
  "hostile_head = ''HTTP/1.1 200 OK'' @ CRLF @ ''transfer-encoding: chunked'' @ CRLF @ CRLF"

lemma oversized_chunk_panics:
  "mcp_json_rpc_response_ready parse expected (hostile_head @ ''ffffffffffffffff'' @ CRLF @ r) = Inl ProbePanic"
proof -
  let ?b = "''ffffffffffffffff'' @ CRLF @ r"
  have "split_at CRLF ?b = Some (''ffffffffffffffff'', r)" by (rule split_at_CRLF) simp
  then have dec: "decode_chunked_body ?b = Inl ProbePanic"
    unfolding decode_chunked_body_def
    by (subst decode_chunks_unfold)
      (auto simp: utf8_lead_def parse_hex_usize_def strip_plus_def hex_digit_def hex_val_def uint_max_def text_defs)
  have "split_at (CRLF @ CRLF) (hostile_head @ ?b) = Some (''HTTP/1.1 200 OK'' @ CRLF @ ''transfer-encoding: chunked'', ?b)"
    by (simp add: hostile_head_def starts_with_def)
  moreover have "split_str CRLF (''HTTP/1.1 200 OK'' @ CRLF @ ''transfer-encoding: chunked'') =
      [''HTTP/1.1 200 OK'', ''transfer-encoding: chunked'']" by code_simp
  moreover note status_200
  moreover have "scan_headers [''transfer-encoding: chunked''] scan_start =
      Inr (scan_start\<lparr>sc_headers := [(''transfer-encoding'', ''chunked'')], sc_transfer_encoding := ''chunked'',
        sc_transfer_encoding_seen := True\<rparr>)" by code_simp
  moreover have "check_framing (scan_start\<lparr>sc_headers := [(''transfer-encoding'', ''chunked'')], sc_transfer_encoding := ''chunked'',
        sc_transfer_encoding_seen := True\<rparr>) = None" by code_simp
  ultimately have parsed: "parse_response (hostile_head @ ?b) =
      Inr \<lparr>hr_status_line = ''HTTP/1.1 200 OK'', hr_status = 200, hr_headers = [(''transfer-encoding'', ''chunked'')],
           hr_content_type = [], hr_content_length = None, hr_transfer_encoding = ''chunked'', hr_body = ?b\<rparr>"
    by (simp only: parse_response_def option.case prod.case Let_def list.sel sum.case) (simp add: scan_start_def)
  have "contains (to_ascii_lowercase ''chunked'') ''chunked''" "\<not> contains (to_ascii_lowercase []) ''text/event-stream''" by code_simp+
  then show ?thesis
    unfolding mcp_json_rpc_response_ready_def parsed
    by (simp only: sum.case is_event_stream_def generic_http_body_ready_def body_test_def body_bytes_def dec
        http_response.simps if_True if_False) simp
qed

section \<open>Framing\<close>

definition named :: "string \<Rightarrow> (string \<times> string) list \<Rightarrow> (string \<times> string) list" where
  "named key = filter (\<lambda>(name, _). to_ascii_lowercase name = key)"

text \<open>What a scan has seen: valid headers, at most one of each framing header, and its value.\<close>

definition scan_inv :: "header_scan \<Rightarrow> bool" where
  "scan_inv st \<longleftrightarrow>
     list_all (\<lambda>(name, value). valid_http_header_name name \<and> list_all field_byte value) (sc_headers st) \<and>
     map snd (named ''transfer-encoding'' (sc_headers st)) =
       (if sc_transfer_encoding_seen st then [sc_transfer_encoding st] else []) \<and>
     (\<not> sc_transfer_encoding_seen st \<longrightarrow> sc_transfer_encoding st = []) \<and>
     map (parse_uint (uint_max 64) \<circ> snd) (named ''content-length'' (sc_headers st)) =
       (case sc_content_length st of None \<Rightarrow> [] | Some n \<Rightarrow> [Some n])"

lemma scan_start_inv: "scan_inv scan_start"
  by (simp add: scan_inv_def scan_start_def named_def)

text \<open>What one header line does.\<close>

lemma scan_header_cases:
  assumes "scan_header line st = Inr st'"
  obtains name v where "valid_http_header_name name" "list_all field_byte v" "sc_headers st' = sc_headers st @ [(name, v)]"
    "(to_ascii_lowercase name = ''content-length'' \<and> sc_content_length st = None \<and>
       sc_content_length st' = parse_uint (uint_max 64) v \<and> sc_content_length st' \<noteq> None) \<or>
     (to_ascii_lowercase name \<noteq> ''content-length'' \<and> sc_content_length st' = sc_content_length st)"
    "(to_ascii_lowercase name = ''transfer-encoding'' \<and> \<not> sc_transfer_encoding_seen st \<and> sc_transfer_encoding_seen st' \<and>
       sc_transfer_encoding st' = v) \<or>
     (to_ascii_lowercase name \<noteq> ''transfer-encoding'' \<and> sc_transfer_encoding_seen st' = sc_transfer_encoding_seen st \<and>
       sc_transfer_encoding st' = sc_transfer_encoding st)"
proof -
  obtain n w where nw: "split_once CHR '':'' line = Some (n, w)"
    using assms by (cases "split_once CHR '':'' line") (auto simp: scan_header_def)
  show thesis
    using assms by (intro that [of "trim n" "trim w"])
      (auto simp: scan_header_def nw Let_def split: if_splits option.splits)
qed

lemma named_append: "named key (hs @ [(n, v)]) = named key hs @ (if to_ascii_lowercase n = key then [(n, v)] else [])"
  by (simp add: named_def)

lemma scan_header_inv: "scan_header line st = Inr st' \<Longrightarrow> scan_inv st \<Longrightarrow> scan_inv st'"
  by (elim scan_header_cases) (auto simp: scan_inv_def named_append split: option.splits)

lemma scan_headers_inv: "scan_headers ls st = Inr st' \<Longrightarrow> scan_inv st \<Longrightarrow> scan_inv st'"
  by (induction ls st rule: scan_headers.induct) (auto dest: scan_header_inv split: sum.splits)

lemma parse_status_line_range: "parse_status_line line = Inr n \<Longrightarrow> 100 \<le> n \<and> n \<le> 599"
  by (auto simp: parse_status_line_def Let_def split: if_splits option.splits)

text \<open>C24: an accepted response has one framing. Its headers are well formed, its status is between 100 and 599, it has at
  most one Content-Length (the one whose value is kept) and at most one Transfer-Encoding, never both with a value, and a
  coding that is accepted is chunked alone. The body is what follows the first empty line.\<close>

theorem parse_response_unambiguous:
  assumes "parse_response raw = Inr r"
  shows "list_all (\<lambda>(name, value). valid_http_header_name name \<and> list_all field_byte value) (hr_headers r) \<and>
    100 \<le> hr_status r \<and> hr_status r \<le> 599 \<and>
    length (named ''content-length'' (hr_headers r)) \<le> 1 \<and> length (named ''transfer-encoding'' (hr_headers r)) \<le> 1 \<and>
    (hr_content_length r = None \<or> hr_transfer_encoding r = []) \<and>
    (hr_transfer_encoding r = [] \<or> (\<exists>c. codings_of (hr_transfer_encoding r) = [c] \<and> eq_ignore_ascii_case c ''chunked'')) \<and>
    split_at (CRLF @ CRLF) raw = Some (take (length raw - (length (hr_body r) + 4)) raw, hr_body r)"
proof -
  obtain head st where head: "split_at (CRLF @ CRLF) raw = Some (head, hr_body r)"
    and st: "scan_headers (tl (split_str CRLF head)) scan_start = Inr st" "check_framing st = None"
    and r: "hr_headers r = sc_headers st" "hr_content_length r = sc_content_length st"
      "hr_transfer_encoding r = sc_transfer_encoding st" "parse_status_line (hr_status_line r) = Inr (hr_status r)"
    using assms by (auto simp: parse_response_def Let_def split: option.splits sum.splits)
  have inv: "scan_inv st" using scan_headers_inv [OF st(1) scan_start_inv] .
  have "length (map (parse_uint (uint_max 64) \<circ> snd) (named ''content-length'' (sc_headers st))) =
      length (case sc_content_length st of None \<Rightarrow> [] | Some n \<Rightarrow> [Some n])"
    and "length (map snd (named ''transfer-encoding'' (sc_headers st))) =
      length (if sc_transfer_encoding_seen st then [sc_transfer_encoding st] else [])"
    using inv by (simp_all only: scan_inv_def)
  then have cl: "length (named ''content-length'' (sc_headers st)) \<le> 1"
    and te: "length (named ''transfer-encoding'' (sc_headers st)) \<le> 1"
    by (simp_all split: option.splits if_splits)
  have "length (codings_of (sc_transfer_encoding st)) = 1 \<Longrightarrow>
      codings_of (sc_transfer_encoding st) = [hd (codings_of (sc_transfer_encoding st))]"
    by (cases "codings_of (sc_transfer_encoding st)") auto
  moreover have "raw = head @ CRLF @ CRLF @ hr_body r" using split_at_Some [OF head] by simp
  ultimately show ?thesis
    using inv st(2) cl te head parse_status_line_range [OF r(4)]
    by (auto simp: r scan_inv_def check_framing_def split: if_splits)
qed

definition plain_response :: http_response where
  "plain_response = \<lparr>hr_status_line = ''HTTP/1.1 200 OK'', hr_status = 200, hr_headers = [(''content-length'', ''2'')],
     hr_content_type = [], hr_content_length = Some 2, hr_transfer_encoding = [], hr_body = ''hi''\<rparr>"

lemma plain_response_parsed:
  "parse_response (''HTTP/1.1 200 OK'' @ CRLF @ ''content-length: 2'' @ CRLF @ CRLF @ ''hi'') = Inr plain_response"
proof -
  have "split_at (CRLF @ CRLF) (''HTTP/1.1 200 OK'' @ CRLF @ ''content-length: 2'' @ CRLF @ CRLF @ ''hi'') =
      Some (''HTTP/1.1 200 OK'' @ CRLF @ ''content-length: 2'', ''hi'')" by (simp add: starts_with_def)
  moreover have "split_str CRLF (''HTTP/1.1 200 OK'' @ CRLF @ ''content-length: 2'') = [''HTTP/1.1 200 OK'', ''content-length: 2'']"
    by code_simp
  moreover have "scan_headers [''content-length: 2''] scan_start =
      Inr (scan_start\<lparr>sc_headers := [(''content-length'', ''2'')], sc_content_length := Some 2\<rparr>)"
    by (simp add: scan_header_def scan_start_def Let_def parse_uint_def uint_max_def strip_plus_def digits_val_def field_byte_def
        valid_http_header_name_def text_defs)
  ultimately show ?thesis
    by (simp only: parse_response_def option.case prod.case Let_def list.sel sum.case status_200)
      (simp add: scan_start_def check_framing_def plain_response_def)
qed

theorem parse_response_unambiguous_witness:
  "length (named ''content-length'' (hr_headers plain_response)) \<le> 1 \<and>
   (hr_content_length plain_response = None \<or> hr_transfer_encoding plain_response = [])"
  using parse_response_unambiguous [OF plain_response_parsed] by blast

section \<open>Reading\<close>

text \<open>What a read returns fits the limit, and the predicate of completeness held of it unless the peer ended the stream.\<close>

lemma read_response_bounded:
  assumes "read_response_until ready limit raw es = Inr text" "length raw \<le> limit"
  shows "length text \<le> limit \<and> utf8_ok text \<and> (ready text = Inr True \<or> ReadEnd \<in> set es)"
  using assms
proof (induction ready limit raw es rule: read_response_until.induct)
  case (2 ready limit raw e rest)
  show ?case
  proof (cases e)
    case (ReadBytes bytes)
    then have fit: "length (raw @ bytes) \<le> limit" using "2.prems"(1) by (simp add: Let_def split: if_splits)
    show ?thesis
      using "2.prems"(1) "2.IH"(1,2) [OF ReadBytes refl] ReadBytes fit
      by (cases "utf8_ok (raw @ bytes)"; cases "ready (raw @ bytes)") (auto simp: Let_def split: bool.splits if_splits)
  qed (use "2.prems" in \<open>auto split: if_splits sum.splits bool.splits\<close>)
qed simp

end
