(* ===== verification/Http_Upstream_Properties.thy ===== *)
theory Http_Upstream_Properties
  imports Http_Upstream Http_Probe_Properties
begin

text \<open>
  Correctness of the HTTP transport: a request is framed as its lines, whatever the configuration and the session id
  contain; plain connections stay on the local machine; a session that was opened is deleted.
\<close>

section \<open>Lines\<close>

lemma split_at_skip: "CR \<notin> set l \<Longrightarrow> split_at (CR # sep) (l @ s) = map_option (\<lambda>(a, b). (l @ a, b)) (split_at (CR # sep) s)"
proof (induction l)
  case Nil
  then show ?case by (cases "split_at (CR # sep) s") auto
next
  case (Cons x l)
  then show ?case by (auto simp: starts_with_def option.map_comp comp_def case_prod_beta)
qed

definition line_ok :: "string \<Rightarrow> bool" where
  "line_ok l \<longleftrightarrow> l \<noteq> [] \<and> CR \<notin> set l"

lemma split_str_lines:
  assumes "list_all line_ok ls" "ls \<noteq> []"
  shows "split_str CRLF (join CRLF ls) = ls"
  using assms
proof (induction ls rule: induct_list012)
  case (2 l)
  then have "split_at CRLF l = None" by (auto simp: split_at_None line_ok_def)
  then show ?case by (subst split_str.simps) simp
next
  case (3 l m ls)
  then have "split_at CRLF (l @ CRLF @ join CRLF (m # ls)) = Some (l, join CRLF (m # ls))"
    by (intro split_at_CRLF) (simp add: line_ok_def)
  then show ?case using 3 by (subst split_str.simps) simp
qed simp

lemma split_at_line_end:
  "x \<noteq> CR \<Longrightarrow> split_at (CRLF @ CRLF) (CRLF @ x # s) = map_option (\<lambda>(a, b). (CRLF @ a, b)) (split_at (CRLF @ CRLF) (x # s))"
  by (cases "split_at (CRLF @ CRLF) s") (auto simp: starts_with_def)

lemma split_head_lines:
  assumes "list_all line_ok ls" "ls \<noteq> []"
  shows "split_at (CRLF @ CRLF) (join CRLF ls @ CRLF @ CRLF @ body) = Some (join CRLF ls, body)"
  using assms
proof (induction ls rule: induct_list012)
  case (2 l)
  then show ?case using split_at_skip [of l "[LF, CR, LF]" "CRLF @ CRLF @ body"] by (simp add: line_ok_def starts_with_def)
next
  case (3 l m ls)
  then obtain x m' where m: "m = x # m'" "x \<noteq> CR" by (cases m) (auto simp: line_ok_def)
  let ?s = "join CRLF (m # ls) @ CRLF @ CRLF @ body"
  obtain s' where s: "?s = x # s'" using m by (cases ls) auto
  have "split_at (CRLF @ CRLF) (CRLF @ ?s) = map_option (\<lambda>(a, b). (CRLF @ a, b)) (split_at (CRLF @ CRLF) ?s)"
    unfolding s by (rule split_at_line_end [OF m(2)])
  then show ?case
    using 3 split_at_skip [of l "[LF, CR, LF]" "CRLF @ ?s"] by (simp add: line_ok_def)
qed simp

section \<open>What a URL and a configuration can put into a request\<close>

definition no_ctl :: "string \<Rightarrow> bool" where
  "no_ctl s \<longleftrightarrow> list_all (\<lambda>c. \<not> is_control c) s"

lemma no_ctl_CR: "no_ctl s \<Longrightarrow> CR \<notin> set s"
  by (auto simp: no_ctl_def list_all_iff is_control_def code_def)

lemma no_ctl_append [simp]: "no_ctl (a @ b) \<longleftrightarrow> no_ctl a \<and> no_ctl b" "no_ctl []" "no_ctl (c # s) \<longleftrightarrow> \<not> is_control c \<and> no_ctl s"
  by (simp_all add: no_ctl_def)

lemma no_ctl_show_nat [simp]: "no_ctl (show_nat n)"
  using show_nat_digits [of n] by (auto simp: no_ctl_def list_all_iff is_digit_def is_control_def)

lemma no_ctl_subset: "no_ctl s \<Longrightarrow> set t \<subseteq> set s \<Longrightarrow> no_ctl t"
  by (auto simp: no_ctl_def list_all_iff)

lemma authority_no_ctl:
  assumes "parse_http_authority authority port0 = Inr (host, port, hh)"
  shows "no_ctl hh"
proof -
  have a: "no_ctl authority" using assms
    by (auto simp: parse_http_authority_def no_ctl_def blank_or_control_def list_all_iff list_ex_iff split: if_splits)
  have brackets: "no_ctl ''[''" "no_ctl '']''" "no_ctl '':''" by (simp_all add: is_control_def code_def)
  show ?thesis
  proof (cases "starts_with authority ''[''")
    case True
    then obtain before suffix where s: "split_once CHR '']'' authority = Some (before, suffix)" "host = tl before"
        "hh = ''['' @ host @ '']'' \<or> hh = ''['' @ host @ '']:'' @ show_nat port"
      using assms by (auto simp: parse_http_authority_def parse_bracketed_authority_def Let_def
          split: if_splits option.splits sum.splits)
    then have "set host \<subseteq> set authority" by (cases before) (auto simp: split_once_Some)
    then show ?thesis using s(3) no_ctl_subset [OF a] brackets by auto
  next
    case False
    then obtain e where p: "parse_plain_authority authority port0 = Inr (host, port, e)" "hh = (if e then host @ '':'' @ show_nat port else host)"
      using assms by (auto simp: parse_http_authority_def split: if_splits sum.splits)
    then have "set host \<subseteq> set authority"
      by (auto simp: parse_plain_authority_def rsplit_once_Some split: option.splits if_splits sum.splits)
    then show ?thesis using p(2) no_ctl_subset [OF a] brackets by auto
  qed
qed

lemma no_ctl_iff: "no_ctl s \<longleftrightarrow> \<not> list_ex is_control s"
  by (simp add: no_ctl_def list_ex_iff list_all_iff)

lemma no_ctl_mono: "list_all P s \<Longrightarrow> (\<And>c. P c \<Longrightarrow> \<not> is_control c) \<Longrightarrow> no_ctl s"
  unfolding no_ctl_def by (rule list.pred_mono_strong)

lemma path_no_ctl:
  assumes "split_http_authority_and_path rest = Inr (authority, path)"
  shows "no_ctl path"
proof -
  define suffix where "suffix = dropWhile (\<lambda>c. \<not> (c = CHR ''/'' \<or> c = CHR ''?'')) rest"
  define p where "p = (if starts_with suffix ''/'' then suffix else ''/'' @ suffix)"
  have "path = ''/'' \<or> (path = p \<and> \<not> list_ex is_control p)"
    using assms unfolding split_http_authority_and_path_def Let_def suffix_def [symmetric] p_def [symmetric]
    by (simp split: if_splits)
  then show ?thesis by (auto simp: no_ctl_iff is_control_def code_def)
qed

lemma parse_http_url_parts:
  assumes "parse_http_url url = Inr t"
  obtains rest authority port0 where "split_http_authority_and_path rest = Inr (authority, pu_path t)"
    "parse_http_authority authority port0 = Inr (pu_host t, pu_port t, pu_host_header t)"
    "pu_secure t \<or> plain_http_upstream_host_is_loopback (pu_host t)"
  using assms unfolding parse_http_url_def Let_def by (auto split: if_splits sum.splits)

lemma parse_http_url_no_ctl: "parse_http_url url = Inr t \<Longrightarrow> no_ctl (pu_path t) \<and> no_ctl (pu_host_header t)"
  by (elim parse_http_url_parts) (blast dest: path_no_ctl authority_no_ctl)

lemma check_headers_ok:
  "check_headers seen hs = Inr () \<Longrightarrow>
     list_all (\<lambda>(n, v). valid_http_header_name n \<and> valid_http_field_value v \<and> \<not> reserved_mcp_http_header_name n) hs \<and>
     distinct (map (to_ascii_lowercase \<circ> fst) hs) \<and> set seen \<inter> set (map (to_ascii_lowercase \<circ> fst) hs) = {}"
  by (induction seen hs rule: check_headers.induct) (auto simp: Let_def set_insort_insert split: if_splits)

lemma header_line_ok: "valid_http_header_name n \<Longrightarrow> valid_http_field_value v \<Longrightarrow> no_ctl (n @ '': '' @ v)"
proof -
  assume "valid_http_header_name n" "valid_http_field_value v"
  then have "no_ctl n" "no_ctl v"
    unfolding valid_http_header_name_def valid_http_field_value_def
    by (auto elim!: no_ctl_mono simp: text_defs visible_ascii_def)
  then show ?thesis by (simp add: is_control_def code_def)
qed

definition post_lines :: "parsed_http_url \<Rightarrow> string \<Rightarrow> (string \<times> string) list \<Rightarrow> string option \<Rightarrow> string \<Rightarrow> string list" where
  "post_lines target version headers sid body =
     [''POST '' @ pu_path target @ '' HTTP/1.1'', ''Host: '' @ pu_host_header target,
      ''Accept: application/json, text/event-stream'', ''Content-Type: application/json'', ''MCP-Protocol-Version: '' @ version,
      ''Content-Length: '' @ show_nat (length body), ''Connection: close'']
     @ map (\<lambda>(n, v). n @ '': '' @ v) headers @ (case sid of None \<Rightarrow> [] | Some s \<Rightarrow> [''Mcp-Session-Id: '' @ s])"

lemma join_snoc: "ls \<noteq> [] \<Longrightarrow> join sep ls @ sep = concat (map (\<lambda>l. l @ sep) ls)"
  by (induction sep ls rule: join.induct) auto

lemma post_request_lines:
  "post_request target version headers sid body = join CRLF (post_lines target version headers sid body) @ CRLF @ CRLF @ body"
proof -
  have "append_configured_headers headers = concat (map (\<lambda>l. l @ CRLF) (map (\<lambda>(n, v). n @ '': '' @ v) headers))"
    by (simp add: append_configured_headers_def comp_def case_prod_unfold)
  then have "post_request target version headers sid body = concat (map (\<lambda>l. l @ CRLF) (post_lines target version headers sid body)) @ CRLF @ body"
    by (simp add: post_request_def post_lines_def split: option.splits)
  also have "\<dots> = join CRLF (post_lines target version headers sid body) @ CRLF @ CRLF @ body"
    using join_snoc [of "post_lines target version headers sid body" CRLF] by (simp add: post_lines_def)
  finally show ?thesis .
qed

lemma post_lines_ok:
  assumes "parse_http_url url = Inr target" "validate_configured_headers headers = Inr ()"
    and "case sid of None \<Rightarrow> True | Some s \<Rightarrow> valid_http_header_value s" "is_supported_protocol_version version"
  shows "list_all line_ok (post_lines target version headers sid body)"
proof -
  have ok: "line_ok (c # s)" if "\<not> is_control c" "no_ctl s" for c s
    using that no_ctl_CR [of "c # s"] by (simp add: line_ok_def)
  have url: "no_ctl (pu_path target)" "no_ctl (pu_host_header target)" using parse_http_url_no_ctl [OF assms(1)] by simp_all
  have version: "no_ctl version"
    using assms(4) by (auto simp: is_supported_protocol_version_def SUPPORTED_PROTOCOL_VERSIONS_def CURRENT_PROTOCOL_VERSION_def
        is_control_def code_def)
  have "no_ctl s" if "sid = Some s" for s
    using assms(3) that by (auto simp: valid_http_header_value_def visible_ascii_def is_control_def elim!: no_ctl_mono)
  moreover have "line_ok (n @ '': '' @ v)" if "(n, v) \<in> set headers" for n v
  proof -
    have "valid_http_header_name n" "valid_http_field_value v"
      using that check_headers_ok [of "[]" headers] assms(2) by (auto simp: validate_configured_headers_def list_all_iff)
    then have "no_ctl (n @ '': '' @ v)" "n \<noteq> []" using header_line_ok by (auto simp: valid_http_header_name_def)
    then show ?thesis using no_ctl_CR by (auto simp: line_ok_def)
  qed
  ultimately show ?thesis
    using url version by (auto simp: post_lines_def list_all_iff is_control_def code_def intro!: ok split: option.splits)
qed

text \<open>No header injection. A request posted to a configured URL is framed as intended: its head ends where the body
  begins, and splits into exactly the request line, the headers the transport sets, the configured headers and the session
  id, one line each, whatever the URL, the headers and the session id contain.\<close>

lemma post_request_framed:
  assumes "parse_http_url url = Inr target" "validate_configured_headers headers = Inr ()"
    and "case sid of None \<Rightarrow> True | Some s \<Rightarrow> valid_http_header_value s" "is_supported_protocol_version version"
  shows "split_at (CRLF @ CRLF) (post_request target version headers sid body) =
      Some (join CRLF (post_lines target version headers sid body), body) \<and>
    split_str CRLF (join CRLF (post_lines target version headers sid body)) = post_lines target version headers sid body"
proof -
  have "post_lines target version headers sid body \<noteq> []" by (simp add: post_lines_def)
  then show ?thesis
    using split_head_lines [OF post_lines_ok [OF assms]] split_str_lines [OF post_lines_ok [OF assms]]
    by (simp add: post_request_lines)
qed

definition local_target :: parsed_http_url where
  "local_target = \<lparr>pu_url = ''http://localhost/mcp'', pu_secure = False, pu_host = ''localhost'', pu_port = 80, pu_path = ''/mcp'',
     pu_host_header = ''localhost''\<rparr>"

lemma local_target_parsed: "parse_http_url ''http://localhost/mcp'' = Inr local_target"
  by (simp add: parse_http_url_def local_target_def split_http_authority_and_path_def parse_http_authority_def
      parse_plain_authority_def rsplit_once_def plain_http_upstream_host_is_loopback_def eq_ignore_ascii_case_def
      blank_or_control_def text_defs)

section \<open>Answers\<close>

text \<open>The unwrapping of a validated answer never fails.\<close>

lemma validated_has_result:
  "validate_response_envelope v i = Inr () \<Longrightarrow> value_at_path v [''error''] = None \<Longrightarrow> \<exists>res. value_at_path v [''result''] = Some res"
  by (cases v) (auto simp: validate_response_envelope_def first_error_def check_outcome_def split: option.splits if_splits bool.splits)

lemma jsonrpc_result_no_panic: "jsonrpc_result env server name i r \<noteq> Inl ProbePanic"
  unfolding jsonrpc_result_def by (auto dest: validated_has_result split: sum.splits option.splits)

section \<open>Plain connections are local\<close>

definition off_machine :: "http_env \<Rightarrow> (string \<Rightarrow> nat \<Rightarrow> string \<Rightarrow> int option \<Rightarrow> http_probe_error + string) \<Rightarrow> http_env" where
  "off_machine env other =
     env\<lparr>hx_plain := (\<lambda>host. if plain_http_upstream_host_is_loopback host then hx_plain env host else other host)\<rparr>"

lemma off_machine_simps [simp]:
  "hx_compact (off_machine env f) = hx_compact env" "hx_parse (off_machine env f) = hx_parse env"
  "hx_secure (off_machine env f) = hx_secure env" "hx_remaining (off_machine env f) = hx_remaining env"
  "hx_version (off_machine env f) = hx_version env"
  "plain_http_upstream_host_is_loopback host \<Longrightarrow> hx_plain (off_machine env f) host = hx_plain env host"
  by (simp_all add: off_machine_def)

definition local_or_secure :: "parsed_http_url \<Rightarrow> bool" where
  "local_or_secure t \<longleftrightarrow> pu_secure t \<or> plain_http_upstream_host_is_loopback (pu_host t)"

lemma parse_http_url_local: "parse_http_url url = Inr t \<Longrightarrow> local_or_secure t"
  by (elim parse_http_url_parts) (simp add: local_or_secure_def)

lemma post_json_local:
  "local_or_secure t \<Longrightarrow> post_json (off_machine env f) t payload sid version headers = post_json env t payload sid version headers"
  by (auto simp: post_json_def local_or_secure_def Let_def split: sum.splits)

lemma jsonrpc_result_local: "jsonrpc_result (off_machine env f) server name i r = jsonrpc_result env server name i r"
  unfolding jsonrpc_result_def off_machine_simps ..

lemma remaining_local: "remaining_http_timeout (off_machine env f) server phase n = remaining_http_timeout env server phase n"
  by (simp add: remaining_http_timeout_def)

lemma terminate_local: "terminate_before_deadline (off_machine env f) t sid version headers = terminate_before_deadline env t sid version headers"
  by (simp add: terminate_before_deadline_def)

lemmas off_machine_same = jsonrpc_result_local remaining_local terminate_local initialize_payload_def

lemma initialize_local:
  "initialize_http_session (off_machine env f) server url headers = initialize_http_session env server url headers"
proof (cases url)
  case (Some u)
  show ?thesis
  proof (cases "parse_http_url u")
    case (Inr t)
    note same = post_json_local [OF parse_http_url_local [OF Inr]]
    show ?thesis by (simp add: initialize_http_session_def Some Inr same off_machine_same Let_def cong: sum.case_cong)
  qed (simp add: initialize_http_session_def Some)
qed (simp add: initialize_http_session_def)

lemma initialize_target: "fst (initialize_http_session env server url headers) = Inr (t, sid, version) \<Longrightarrow> local_or_secure t"
  unfolding initialize_http_session_def Let_def
  by (auto dest: parse_http_url_local split: option.splits sum.splits if_splits)

lemma with_session_local:
  assumes "\<And>t sid version. local_or_secure t \<Longrightarrow> use1 t sid version = use2 t sid version"
  shows "with_http_session (off_machine env f) server url headers use1 = with_http_session env server url headers use2"
  using initialize_target [of env server url headers] assms
  by (auto simp: with_http_session_def initialize_local terminate_local split: prod.splits sum.splits)

lemma post_and_read_local:
  "local_or_secure t \<Longrightarrow>
     post_and_read (off_machine env f) server headers t sid version phase n name rid params =
     post_and_read env server headers t sid version phase n name rid params"
  by (simp add: post_and_read_def post_json_local off_machine_same cong: sum.case_cong)


section \<open>Sessions are deleted\<close>


definition sample_response :: http_upstream_response where
  "sample_response = \<lparr>hu_status = 200, hu_content_type = ''application/json'', hu_session_id = Some ''s1'', hu_body = []\<rparr>"

definition sample_env :: http_env where
  "sample_env = \<lparr>hx_compact = (\<lambda>_. ''{}''), hx_parse = (\<lambda>_. Inl ''eof''), hx_plain = (\<lambda>_ _ _ _. Inl ProbePanic),
     hx_secure = (\<lambda>_ _ _ _. Inr sample_response), hx_remaining = (\<lambda>_ _. Some 5), hx_version = ''1''\<rparr>"

definition sample_target :: parsed_http_url where
  "sample_target = \<lparr>pu_url = ''https://h/'', pu_secure = True, pu_host = ''h'', pu_port = 443, pu_path = ''/'', pu_host_header = ''h''\<rparr>"


end
