(* ===== verification/Server_Config.thy ===== *)
theory Server_Config
  imports Http_Upstream Execution_Affinity Tool_Cache
begin

text \<open>
  Configured upstream servers (\<^verbatim>\<open>src/upstream/server_config.rs\<close>, \<^verbatim>\<open>src/upstream/process_config.rs\<close>,
  \<^verbatim>\<open>src/source_type.rs\<close>, \<^verbatim>\<open>src/platform_utils.rs\<close> and the first part of \<^verbatim>\<open>src/upstream.rs\<close>): how the registry of servers and
  the policy file become server configurations, which of them may be called, and the limits on timeouts. Environment
  variables, the operating system and the file system are arguments; paths are those of Unix.
\<close>

section \<open>Templates and paths\<close>

record config_env =
  cg_root :: string
  cg_os :: string
  cg_var :: "string \<Rightarrow> string option"
  cg_metadata :: "string \<Rightarrow> string + bool"
  cg_exists :: "string \<Rightarrow> bool"
  cg_canonical :: "string \<Rightarrow> string option"
  cg_which :: "string \<Rightarrow> string + string"

definition path_join :: "string \<Rightarrow> string \<Rightarrow> string" where
  "path_join base p =
     (if starts_with p ''/'' then p
      else if base = [] \<or> last base = CHR ''/'' then base @ p
      else base @ ''/'' @ p)"

definition manager_data_path :: "string \<Rightarrow> string" where
  "manager_data_path root = path_join (path_join root ''data'') ''runtime''"

definition child_process_path :: "string \<Rightarrow> string" where
  "child_process_path v =
     (case strip_prefix ([CHR 0x5C, CHR 0x5C] @ ''?'' @ [CHR 0x5C] @ ''UNC'' @ [CHR 0x5C]) v of
        Some rest \<Rightarrow> [CHR 0x5C, CHR 0x5C] @ rest
      | None \<Rightarrow> (case strip_prefix ([CHR 0x5C, CHR 0x5C] @ ''?'' @ [CHR 0x5C]) v of Some rest \<Rightarrow> rest | None \<Rightarrow> v))"

definition resolve_placeholder :: "config_env \<Rightarrow> string \<Rightarrow> string" where
  "resolve_placeholder env expression =
     (let (name, fallback) = (case split_at '':-'' expression of Some (n, f) \<Rightarrow> (n, Some f) | None \<Rightarrow> (expression, None))
      in if name = ''MCPACE_PRIMARY_WORKSPACE'' then child_process_path (cg_root env)
         else if name = ''MCPACE_MANAGER_DATA'' then child_process_path (manager_data_path (cg_root env))
         else case cg_var env name of
                Some v \<Rightarrow> v
              | None \<Rightarrow> (case fallback of Some f \<Rightarrow> f | None \<Rightarrow> []))"

function expand_template :: "config_env \<Rightarrow> string \<Rightarrow> string" where
  "expand_template env rest =
     (case split_at ''${'' rest of
        None \<Rightarrow> rest
      | Some (before, after) \<Rightarrow>
          (case split_once CHR ''}'' after of
             None \<Rightarrow> rest
           | Some (expression, rest') \<Rightarrow> before @ resolve_placeholder env expression @ expand_template env rest'))"
  by pat_completeness auto
termination
  by (relation "measure (\<lambda>(env, rest). length rest)") (auto simp: split_once_Some dest!: split_at_shorter)

declare expand_template.simps [simp del]

text \<open>The components of a relative path, and whether its file name has an extension.\<close>

definition relative_components :: "string \<Rightarrow> string list" where
  "relative_components p =
     (let ps = split_char CHR ''/'' p
      in (if hd ps = ''.'' then [''.''] else []) @ filter (\<lambda>c. c \<noteq> [] \<and> c \<noteq> ''.'') ps)"

definition has_extension :: "string \<Rightarrow> bool" where
  "has_extension p =
     (let cs = relative_components p; file_name = (if cs = [] then [] else last cs)
      in file_name \<notin> {[], ''.'', ''..''} \<and>
         (case rsplit_once CHR ''.'' file_name of None \<Rightarrow> False | Some (stem, _) \<Rightarrow> stem \<noteq> []))"

datatype upstream_process_config_error = EmptyCommand | AbsoluteCommandMissing string | CommandResolve string string

fun process_config_error_display :: "upstream_process_config_error \<Rightarrow> string" where
  "process_config_error_display EmptyCommand = ''empty command''"
| "process_config_error_display (AbsoluteCommandMissing path) = ''absolute command path '' @ squote path @ '' does not exist''"
| "process_config_error_display (CommandResolve command error) = ''failed to resolve command '' @ squote command @ '': '' @ error"

definition canonical_or :: "config_env \<Rightarrow> string \<Rightarrow> string" where
  "canonical_or env p = (case cg_canonical env p of Some c \<Rightarrow> c | None \<Rightarrow> p)"

definition resolve_command_for_cwd :: "config_env \<Rightarrow> string \<Rightarrow> string \<Rightarrow> upstream_process_config_error + string" where
  "resolve_command_for_cwd env command cwd =
     (let command = trim command
      in if command = [] then Inl EmptyCommand
         else if starts_with command ''/''
         then (if cg_exists env command then Inr (canonical_or env command) else Inl (AbsoluteCommandMissing command))
         else let path_like = 1 < length (relative_components command) \<or> has_extension command;
                  search = (case cg_which env command of Inr p \<Rightarrow> Inr p | Inl e \<Rightarrow> Inl (CommandResolve command e))
              in if \<not> path_like then search
                 else if cg_exists env (path_join cwd command) then Inr (canonical_or env (path_join cwd command))
                 else if cg_exists env command then Inr (canonical_or env command)
                 else search)"

definition validate_stdio_cwd :: "config_env \<Rightarrow> string \<Rightarrow> string \<Rightarrow> string option" where
  "validate_stdio_cwd env cwd server =
     (case cg_metadata env cwd of
        Inr True \<Rightarrow> None
      | Inr False \<Rightarrow> Some (''configured cwd '' @ squote cwd @ '' for upstream server '' @ squote server @ '' is not a directory'')
      | Inl e \<Rightarrow> Some (''configured cwd '' @ squote cwd @ '' for upstream server '' @ squote server
                     @ '' is not accessible: '' @ e))"

section \<open>Transports and platforms\<close>

definition normalize_public_source_type :: "string \<Rightarrow> string" where
  "normalize_public_source_type v =
     (let t = to_ascii_lowercase (trim v)
      in if t \<in> {''streamablehttp'', ''streamable-http'', ''streamable_http'', ''http-stream'', ''remote-http'', ''remote'',
                  ''http'', ''url''} then ''streamable-http''
         else if t \<in> {''legacy-sse'', ''sse-legacy'', ''http+sse'', ''http-sse'', ''remote-sse'', ''sse''} then ''sse-legacy''
         else if t \<in> {''stdio'', ''local'', ''local-stdio'', ''local-command'', ''command''} then ''stdio''
         else t)"

definition normalize_runtime_source_type :: "string \<Rightarrow> string" where
  "normalize_runtime_source_type v =
     (let t = normalize_public_source_type v
      in if t = ''streamable-http'' then ''http'' else if t = ''sse-legacy'' then ''legacy-sse'' else t)"

definition infer_source_type_with_remote_default ::
  "string \<Rightarrow> string \<Rightarrow> string \<Rightarrow> string \<Rightarrow> (string \<Rightarrow> string) \<Rightarrow> string" where
  "infer_source_type_with_remote_default raw command url remote_default norm =
     (let normalized = norm raw
      in if normalized \<noteq> [] then normalized
         else if trim command \<noteq> [] then ''stdio''
         else if trim url \<noteq> [] then remote_default
         else ''stdio'')"

definition infer_public_source_type :: "string \<Rightarrow> string \<Rightarrow> string \<Rightarrow> string" where
  "infer_public_source_type raw command url =
     infer_source_type_with_remote_default raw command url ''streamable-http'' normalize_public_source_type"

definition infer_runtime_source_type :: "string \<Rightarrow> string \<Rightarrow> string \<Rightarrow> string" where
  "infer_runtime_source_type raw command url =
     infer_source_type_with_remote_default raw command url ''http'' normalize_runtime_source_type"

definition normalize_platform :: "string \<Rightarrow> string" where
  "normalize_platform v =
     (let t = to_ascii_lowercase (trim v)
      in if t \<in> {''darwin'', ''mac'', ''osx'', ''macos''} then ''macos''
         else if t \<in> {''win'', ''win32'', ''windows'', ''windows_nt''} then ''windows''
         else t)"

definition supports_current_platform :: "string \<Rightarrow> string list \<Rightarrow> bool" where
  "supports_current_platform os platforms \<longleftrightarrow>
     platforms = [] \<or> list_ex (\<lambda>p. let n = normalize_platform p in n = os \<or> n \<in> {''any'', ''all'', ''*''}) platforms"

definition normalize_server_name :: "string \<Rightarrow> string" where
  "normalize_server_name v =
     to_ascii_lowercase (trim_matches (\<lambda>c. c = CHR ''-'')
       (map (\<lambda>ch. if is_alnum ch \<or> ch \<in> {CHR ''-'', CHR ''_'', CHR ''.''} then ch else CHR ''-'') (char_starts (trim v))))"

section \<open>The data\<close>

record tool_risk_policy =
  rp_tools :: "string list"
  rp_risk_class :: "string option"
  rp_allow_argument :: "string option"
  rp_description :: "string option"

record upstream_server_config =
  sv_name :: string
  sv_enabled :: bool
  sv_disabled_reason :: "string option"
  sv_source_type :: string
  sv_command :: "string option"
  sv_args :: "string list"
  sv_env :: "(string \<times> string) list"
  sv_headers :: "(string \<times> string) list"
  sv_cwd :: "string option"
  sv_url :: "string option"
  sv_timeout_ms :: nat
  sv_execution :: execution_policy
  sv_tool_policies :: "tool_risk_policy list"

record upstream_server_policy =
  sp_profile_enabled :: bool
  sp_platform_supported :: bool
  sp_runtime_enabled :: bool
  sp_execution :: execution_policy
  sp_tool_policies :: "tool_risk_policy list"

record mcp_server_entry =
  me_name :: string
  me_normalized_name :: string
  me_value :: json
  me_source :: string

definition DEFAULT_TIMEOUT_MS :: nat where "DEFAULT_TIMEOUT_MS = 120000"

definition DEFAULT_PROBE_TIMEOUT_MS :: nat where "DEFAULT_PROBE_TIMEOUT_MS = 30000"

section \<open>Policies\<close>

definition token_at_is :: "json \<Rightarrow> string list \<Rightarrow> string \<Rightarrow> bool" where
  "token_at_is raw path token = (case string_at_path raw path of Some v \<Rightarrow> normalize_flag v = token | None \<Rightarrow> False)"

definition not_positive_at :: "json \<Rightarrow> string list \<Rightarrow> bool" where
  "not_positive_at raw path = (case Option.bind (value_at_path raw path) as_i64 of Some n \<Rightarrow> n \<le> 0 | None \<Rightarrow> False)"

definition server_policy_is_disabled :: "json \<Rightarrow> bool" where
  "server_policy_is_disabled raw \<longleftrightarrow>
     token_at_is raw [''policy'', ''startupStrategy''] ''disabled'' \<or> token_at_is raw [''policy'', ''routingGroup''] ''disabled'' \<or>
     token_at_is raw [''policy'', ''concurrencyPolicy''] ''plan-only'' \<or>
     token_at_is raw [''policy'', ''scopeClass''] ''not-runnable'' \<or> not_positive_at raw [''policy'', ''maxWorkers''] \<or>
     token_at_is raw [''execution'', ''mode''] ''disabled'' \<or> not_positive_at raw [''execution'', ''maxWorkers'']"

definition parse_tool_policy :: "json \<Rightarrow> tool_risk_policy option" where
  "parse_tool_policy raw =
     (let tools = filter (\<lambda>v. v \<noteq> []) (map trim (strings_from_array (array_at_path raw [''tools''])));
          risk_class = Option.bind (string_at_path raw [''riskClass'']) (\<lambda>v. if normalize_flag v = [] then None else Some (normalize_flag v));
          allow_argument = trimmed_non_empty_owned (string_at_path raw [''allowArgument''])
      in if tools = [] then None
         else if risk_class = None \<and> allow_argument = None then None
         else Some \<lparr>rp_tools = tools, rp_risk_class = risk_class, rp_allow_argument = allow_argument,
                    rp_description = trimmed_non_empty_owned (string_at_path raw [''description''])\<rparr>)"

definition server_policy :: "config_env \<Rightarrow> (string \<times> bool) list \<Rightarrow> execution_policy \<Rightarrow> string \<Rightarrow> json \<Rightarrow> upstream_server_policy" where
  "server_policy env overrides defaults name raw =
     (let required = (bool_at_path raw [''required''] = Some True);
          default_enabled = (bool_at_path raw [''defaultEnabled''] = Some True);
          execution = for_server defaults raw
      in \<lparr>sp_profile_enabled = (if required then True else case map_of overrides name of Some b \<Rightarrow> b | None \<Rightarrow> default_enabled),
          sp_platform_supported = supports_current_platform (cg_os env) (strings_from_array (array_at_path raw [''platforms''])),
          sp_runtime_enabled = (\<not> is_disabled execution \<and> \<not> server_policy_is_disabled raw),
          sp_execution = execution,
          sp_tool_policies = (case array_at_path raw [''toolPolicies''] of
                                None \<Rightarrow> [] | Some raws \<Rightarrow> List.map_filter parse_tool_policy raws)\<rparr>)"

definition conservative :: execution_policy where
  "conservative = for_mode Serialized"

datatype upstream_server_config_error = RegistryError string | PolicyError string

fun server_config_error_display :: "upstream_server_config_error \<Rightarrow> string" where
  "server_config_error_display (RegistryError reason) = ''failed to load upstream server registry: '' @ reason"
| "server_config_error_display (PolicyError reason) = ''failed to load upstream server policy: '' @ reason"

definition collect_policies ::
  "config_env \<Rightarrow> (string \<times> bool) list \<Rightarrow> execution_policy \<Rightarrow> json_map \<Rightarrow> (string \<times> upstream_server_policy) list" where
  "collect_policies env overrides defaults servers =
     fold (\<lambda>(server_name, raw) m.
        let name = normalize_server_name server_name
        in if name = [] then m else bt_insert name (server_policy env overrides defaults name raw) m) servers []"

text \<open>The policy file, when there is one, and the overrides of the runtime profile.\<close>

definition load_upstream_server_policies ::
  "config_env \<Rightarrow> (string + json) option \<Rightarrow> string + (string \<times> bool) list \<Rightarrow>
   upstream_server_config_error + execution_policy \<times> (string \<times> upstream_server_policy) list" where
  "load_upstream_server_policies env config profile =
     (case config of
        None \<Rightarrow> Inr (conservative, [])
      | Some (Inl e) \<Rightarrow> Inl (PolicyError e)
      | Some (Inr v) \<Rightarrow>
          (case profile of
             Inl e \<Rightarrow> Inl (PolicyError e)
           | Inr overrides \<Rightarrow>
               (let defaults = from_config_root v
                in case object_at_path v [''servers''] of
                     None \<Rightarrow> Inr (defaults, [])
                   | Some servers \<Rightarrow> Inr (defaults, collect_policies env overrides defaults servers))))"

section \<open>Servers\<close>

definition source_enabled_from_mcp_settings :: "json \<Rightarrow> bool" where
  "source_enabled_from_mcp_settings raw =
     (if bool_at_path raw [''disabled''] = Some True then False
      else case bool_at_path raw [''enabled''] of Some b \<Rightarrow> b | None \<Rightarrow> True)"

definition insert_env_var_name :: "string \<Rightarrow> string list \<Rightarrow> string list" where
  "insert_env_var_name v names =
     (let v = trim v
      in if v = [] \<or> CHR ''='' \<in> set v \<or> CHR 0x00 \<in> set v \<or> CR \<in> set v \<or> LF \<in> set v \<or> v \<in> set names then names
         else names @ [v])"

definition env_var_entry :: "json \<Rightarrow> string option" where
  "env_var_entry v =
     (case v of
        JString name \<Rightarrow> Some name
      | JObject m \<Rightarrow>
          (let source = (case Option.bind (map_of m ''source'') as_str of Some s \<Rightarrow> s | None \<Rightarrow> ''local'')
           in if trim source \<noteq> ''local'' then None
              else Option.bind (case map_of m ''name'' of Some n \<Rightarrow> Some n | None \<Rightarrow> map_of m ''key'') as_str)
      | _ \<Rightarrow> None)"

definition env_var_names_from_array :: "json list option \<Rightarrow> string list" where
  "env_var_names_from_array values =
     fold (\<lambda>v names. case env_var_entry v of Some n \<Rightarrow> insert_env_var_name n names | None \<Rightarrow> names)
       (case values of Some vs \<Rightarrow> vs | None \<Rightarrow> []) []"

definition expanded_strings :: "config_env \<Rightarrow> json_map option \<Rightarrow> (string \<times> string) list" where
  "expanded_strings env m =
     fold (\<lambda>(k, v) acc. case as_str v of Some s \<Rightarrow> bt_insert k (expand_template env s) acc | None \<Rightarrow> acc)
       (case m of Some x \<Rightarrow> x | None \<Rightarrow> []) []"

definition server_env_values :: "config_env \<Rightarrow> json \<Rightarrow> (string \<times> string) list" where
  "server_env_values env raw =
     fold (\<lambda>key acc. if map_of acc key \<noteq> None then acc
            else case cg_var env key of Some v \<Rightarrow> bt_insert key v acc | None \<Rightarrow> acc)
       (env_var_names_from_array (array_at_path raw [''env_vars''])) (expanded_strings env (object_at_path raw [''env'']))"

definition disabled_reason_of :: "config_env \<Rightarrow> mcp_server_entry \<Rightarrow> upstream_server_policy option \<Rightarrow> string option" where
  "disabled_reason_of env entry policy =
     (if \<not> source_enabled_from_mcp_settings (me_value entry)
      then Some (''server is disabled in MCP settings source '' @ me_source entry)
      else case policy of
             None \<Rightarrow> None
           | Some p \<Rightarrow>
               if \<not> sp_platform_supported p
               then Some (''server is not declared for the current platform '' @ squote (cg_os env))
               else if \<not> sp_profile_enabled p then Some ''server is disabled by the active MCPace runtime profile''
               else if \<not> sp_runtime_enabled p then Some ''server is disabled by MCPace runtime policy''
               else None)"

definition configured_timeout_ms :: "json \<Rightarrow> nat" where
  "configured_timeout_ms raw =
     (case (case Option.bind (value_at_path raw [''options'', ''timeout'']) as_i64 of
              Some n \<Rightarrow> Some n
            | None \<Rightarrow> Option.bind (value_at_path raw [''initTimeout'']) as_i64) of
        Some n \<Rightarrow> if 0 < n then nat n else DEFAULT_TIMEOUT_MS
      | None \<Rightarrow> DEFAULT_TIMEOUT_MS)"

definition text_or_empty :: "string option \<Rightarrow> string" where
  "text_or_empty v = (case v of Some s \<Rightarrow> s | None \<Rightarrow> [])"

definition server_config ::
  "config_env \<Rightarrow> execution_policy \<Rightarrow> (string \<times> upstream_server_policy) list \<Rightarrow> mcp_server_entry \<Rightarrow> upstream_server_config" where
  "server_config env defaults policies entry =
     (let raw = me_value entry;
          policy = map_of policies (me_normalized_name entry);
          reason = disabled_reason_of env entry policy;
          command = map_option (expand_template env) (string_at_path raw [''command'']);
          url = string_at_path raw [''url'']
      in \<lparr>sv_name = me_name entry, sv_enabled = (reason = None), sv_disabled_reason = reason,
          sv_source_type = infer_runtime_source_type (text_or_empty (string_at_path raw [''type''])) (text_or_empty command)
            (text_or_empty url),
          sv_command = command,
          sv_args = map (expand_template env) (strings_from_array (array_at_path raw [''args''])),
          sv_env = server_env_values env raw,
          sv_headers = expanded_strings env (object_at_path raw [''headers'']),
          sv_cwd = Option.bind (string_at_path raw [''cwd''])
            (\<lambda>v. let c = expand_template env v in if trim c = [] then None else Some c),
          sv_url = url,
          sv_timeout_ms = configured_timeout_ms raw,
          sv_execution = (case policy of Some p \<Rightarrow> sp_execution p | None \<Rightarrow> defaults),
          sv_tool_policies = (case policy of Some p \<Rightarrow> sp_tool_policies p | None \<Rightarrow> [])\<rparr>)"

definition load_servers ::
  "config_env \<Rightarrow> string + mcp_server_entry list \<Rightarrow> (string + json) option \<Rightarrow> string + (string \<times> bool) list \<Rightarrow>
   upstream_server_config_error + (string \<times> upstream_server_config) list" where
  "load_servers env registry config profile =
     (case registry of
        Inl e \<Rightarrow> Inl (RegistryError e)
      | Inr entries \<Rightarrow>
          (case load_upstream_server_policies env config profile of
             Inl e \<Rightarrow> Inl e
           | Inr (defaults, policies) \<Rightarrow>
               Inr (fold (\<lambda>entry m. bt_insert (me_name entry) (server_config env defaults policies entry) m) entries [])))"

definition find_server :: "(string \<times> upstream_server_config) list \<Rightarrow> string \<Rightarrow> upstream_server_config option" where
  "find_server servers name =
     (case map_of servers name of
        Some s \<Rightarrow> Some s
      | None \<Rightarrow> List.find (\<lambda>s. eq_ignore_ascii_case (sv_name s) name) (map snd servers))"

definition select_servers :: "(string \<times> upstream_server_config) list \<Rightarrow> string option \<Rightarrow> upstream_server_config list" where
  "select_servers servers selected =
     filter (\<lambda>s. case selected of Some name \<Rightarrow> eq_ignore_ascii_case (sv_name s) name | None \<Rightarrow> True) (map snd servers)"

section \<open>Which servers may be called\<close>

definition invalid_env_entry :: "string \<times> string \<Rightarrow> bool" where
  "invalid_env_entry = (\<lambda>(name, v). name = [] \<or> CHR ''='' \<in> set name \<or> CHR 0x00 \<in> set name \<or> CHR 0x00 \<in> set v)"

definition server_runtime_callable :: "config_env \<Rightarrow> upstream_server_config \<Rightarrow> bool \<times> string option \<times> string option" where
  "server_runtime_callable env server =
     (let upstream = ''upstream server '' @ squote (sv_name server)
      in if \<not> sv_enabled server then (False, None, None)
         else if sv_source_type server = ''http''
         then (case trimmed_non_empty_owned (sv_url server) of
                 None \<Rightarrow> (False, None, Some (''HTTP '' @ upstream @ '' has no url configured''))
               | Some url \<Rightarrow>
                   (case http_upstream_configuration_error url (sv_headers server) of
                      Some e \<Rightarrow> (False, None, Some e)
                    | None \<Rightarrow> (True, None, None)))
         else if sv_source_type server = ''legacy-sse''
         then (False, None, Some (upstream @ '' declares the deprecated HTTP+SSE transport. Use a stdio compatibility adapter or migrate the endpoint to Streamable HTTP before direct forwarding.''))
         else if sv_source_type server \<noteq> ''stdio''
         then (False, None, Some (upstream @ '' uses unsupported '' @ squote (sv_source_type server) @ '' transport''))
         else if list_ex (\<lambda>a. CHR 0x00 \<in> set a) (sv_args server)
         then (False, None, Some (upstream @ '' contains a NUL byte in a stdio argument''))
         else case List.find invalid_env_entry (sv_env server) of
                Some (name, _) \<Rightarrow> (False, None, Some (upstream @ '' contains an invalid environment entry '' @ squote name))
              | None \<Rightarrow>
                  (case trimmed_non_empty_owned (sv_command server) of
                     None \<Rightarrow> (False, None, Some (upstream @ '' has no stdio command configured''))
                   | Some command \<Rightarrow>
                       (let cwd = (case sv_cwd server of Some c \<Rightarrow> c | None \<Rightarrow> cg_root env)
                        in case validate_stdio_cwd env cwd (sv_name server) of
                             Some e \<Rightarrow> (False, None, Some e)
                           | None \<Rightarrow>
                               (case resolve_command_for_cwd env command cwd of
                                  Inr path \<Rightarrow> (True, Some path, None)
                                | Inl e \<Rightarrow> (False, None, Some (''failed to resolve command '' @ squote command @ '' for '' @ upstream
                                            @ '': '' @ process_config_error_display e))))))"

definition ensure_callable_stdio :: "config_env \<Rightarrow> upstream_server_config \<Rightarrow> string + unit" where
  "ensure_callable_stdio env server =
     (case server_runtime_callable env server of
        (True, _, _) \<Rightarrow> Inr ()
      | (False, _, command_error) \<Rightarrow>
          (let upstream = ''upstream server '' @ squote (sv_name server)
           in if \<not> sv_enabled server
              then Inl (upstream @ '' is disabled: ''
                        @ (case sv_disabled_reason server of Some r \<Rightarrow> r | None \<Rightarrow> ''server is disabled by source or policy''))
              else case command_error of
                     Some e \<Rightarrow> Inl e
                   | None \<Rightarrow>
                       if sv_source_type server \<noteq> ''stdio'' \<and> sv_source_type server \<noteq> ''http''
                       then Inl (upstream @ '' uses '' @ squote (sv_source_type server) @ '' transport. This MCPace bridge forwards stdio and Streamable HTTP/HTTPS upstreams; configure a compatibility adapter or call runtime_diagnostics for exact status.'')
                       else Inl (upstream @ '' is not callable through the stdio bridge'')))"

definition timeout_for :: "upstream_server_config \<Rightarrow> nat option \<Rightarrow> nat" where
  "timeout_for server requested = clamp 1000 300000 (case requested of Some n \<Rightarrow> n | None \<Rightarrow> sv_timeout_ms server)"

definition probe_timeout_for :: "upstream_server_config \<Rightarrow> nat option \<Rightarrow> nat" where
  "probe_timeout_for server requested =
     clamp 1000 300000 (case requested of Some n \<Rightarrow> n | None \<Rightarrow> min (sv_timeout_ms server) DEFAULT_PROBE_TIMEOUT_MS)"

definition upstream_blocked_status :: "upstream_server_config \<Rightarrow> string" where
  "upstream_blocked_status server =
     (if \<not> sv_enabled server then ''disabled''
      else if sv_source_type server = ''stdio'' then ''blocked-command-not-found''
      else if sv_source_type server = ''http'' then ''blocked-http-upstream''
      else if sv_source_type server = ''legacy-sse'' then ''blocked-legacy-sse-upstream''
      else ''blocked-unsupported-transport'')"

definition fingerprint_secret_map :: "(string \<Rightarrow> 64 word) \<Rightarrow> (string \<times> string) list \<Rightarrow> string" where
  "fingerprint_secret_map digest values =
     join [CHR 0x1F] (map (\<lambda>(key, v). key @ '':'' @ fingerprint_text digest v) values)"

definition show_bool :: "bool \<Rightarrow> string" where
  "show_bool b = (if b then ''true'' else ''false'')"

definition server_fingerprint :: "(string \<Rightarrow> 64 word) \<Rightarrow> upstream_server_config \<Rightarrow> string" where
  "server_fingerprint digest server =
     ''protocol='' @ CURRENT_PROTOCOL_VERSION @ ''|enabled='' @ show_bool (sv_enabled server) @ ''|type='' @ sv_source_type server
     @ ''|command='' @ text_or_empty (sv_command server) @ ''|args='' @ join [CHR 0x1F] (sv_args server)
     @ ''|env='' @ fingerprint_secret_map digest (sv_env server) @ ''|headers='' @ fingerprint_secret_map digest (sv_headers server)
     @ ''|cwd='' @ text_or_empty (sv_cwd server) @ ''|url='' @ text_or_empty (sv_url server)
     @ ''|timeout='' @ show_nat (sv_timeout_ms server) @ ''|execution='' @ policy_fingerprint (sv_execution server)"

section \<open>A callable server is an enabled one\<close>

lemma bt_fold_entries:
  "map_of (fold (\<lambda>e m. bt_insert (f e) (g e) m) es m) k = Some v \<Longrightarrow> map_of m k = Some v \<or> (\<exists>e \<in> set es. k = f e \<and> v = g e)"
  by (induction es arbitrary: m) (fastforce split: if_splits)+

lemma bt_fold_ok: "bt_ok m \<Longrightarrow> bt_ok (fold (\<lambda>e m. bt_insert (f e) (g e) m) es m)"
  by (induction es arbitrary: m) auto

lemma find_server_from:
  assumes "bt_ok servers" "find_server servers name = Some s"
  shows "\<exists>k. map_of servers k = Some s"
proof (cases "map_of servers name")
  case None
  then have "s \<in> snd ` set servers" using assms(2) by (auto simp: find_server_def find_Some_iff intro!: imageI nth_mem)
  then show ?thesis using map_of_values [OF assms(1)] by blast
qed (use assms(2) in \<open>auto simp: find_server_def\<close>)

text \<open>What a call needs: a transport the bridge forwards, whose target was checked.\<close>

definition transport_ok :: "config_env \<Rightarrow> upstream_server_config \<Rightarrow> bool" where
  "transport_ok env s \<longleftrightarrow>
     (sv_source_type s = ''http'' \<and>
        (\<exists>url target. trimmed_non_empty_owned (sv_url s) = Some url \<and> parse_http_url url = Inr target \<and>
           validate_configured_headers (sv_headers s) = Inr ())) \<or>
     (sv_source_type s = ''stdio'' \<and> list_all (\<lambda>a. CHR 0x00 \<notin> set a) (sv_args s) \<and> \<not> list_ex invalid_env_entry (sv_env s) \<and>
        (\<exists>command path cwd. trimmed_non_empty_owned (sv_command s) = Some command \<and> cg_metadata env cwd = Inr True \<and>
           cwd = (case sv_cwd s of Some c \<Rightarrow> c | None \<Rightarrow> cg_root env) \<and> resolve_command_for_cwd env command cwd = Inr path))"

lemma callable_transport:
  assumes "fst (server_runtime_callable env s)"
  shows "sv_enabled s \<and> transport_ok env s"
proof (cases "sv_source_type s = ''http''")
  case True
  then show ?thesis
    using assms by (auto simp: server_runtime_callable_def transport_ok_def http_upstream_configuration_error_def Let_def
        split: if_splits option.splits sum.splits)
next
  case False
  then have "sv_enabled s" "sv_source_type s = ''stdio''" "list_all (\<lambda>a. CHR 0x00 \<notin> set a) (sv_args s)"
    using assms by (auto simp: server_runtime_callable_def Let_def list_ex_iff list_all_iff split: if_splits)
  moreover have "List.find invalid_env_entry (sv_env s) = None"
    using assms False by (auto simp: server_runtime_callable_def Let_def split: if_splits option.splits)
  ultimately show ?thesis
    using assms False by (auto simp: server_runtime_callable_def transport_ok_def validate_stdio_cwd_def Let_def find_None_iff
        list_ex_iff split: if_splits option.splits sum.splits bool.splits)
qed

text \<open>Only enabled servers are called. A server that passes the check before a call was read from an entry of the
  registry that its settings source does not disable; if the policy file mentions it, it is declared for this platform,
  enabled by the runtime profile (or required) and its execution policy has workers; its transport is HTTP with a valid URL
  and headers, or a command that resolves.\<close>

lemma callable_server_enabled:
  assumes "load_servers env (Inr entries) config profile = Inr servers" "find_server servers name = Some s"
    and "ensure_callable_stdio env s = Inr ()"
  shows "transport_ok env s \<and>
    (\<exists>entry \<in> set entries. \<exists>defaults policies.
       load_upstream_server_policies env config profile = Inr (defaults, policies) \<and>
       s = server_config env defaults policies entry \<and> source_enabled_from_mcp_settings (me_value entry) \<and>
       (\<forall>p. map_of policies (me_normalized_name entry) = Some p \<longrightarrow>
          sp_platform_supported p \<and> sp_profile_enabled p \<and> sp_runtime_enabled p))"
proof -
  obtain defaults policies where p: "load_upstream_server_policies env config profile = Inr (defaults, policies)"
    and servers: "servers = fold (\<lambda>entry m. bt_insert (me_name entry) (server_config env defaults policies entry) m) entries []"
    using assms(1) by (auto simp: load_servers_def split: sum.splits)
  have callable: "fst (server_runtime_callable env s)"
    using assms(3) by (auto simp: ensure_callable_stdio_def Let_def split: prod.splits bool.splits if_splits option.splits)
  note enabled = callable_transport [OF callable]
  have "bt_ok servers" by (simp add: servers bt_fold_ok)
  then obtain k where "map_of servers k = Some s" using find_server_from assms(2) by blast
  then obtain entry where entry: "entry \<in> set entries" "s = server_config env defaults policies entry"
    using bt_fold_entries [of me_name "server_config env defaults policies" entries "[]"] by (auto simp: servers)
  then have "disabled_reason_of env entry (map_of policies (me_normalized_name entry)) = None"
    using enabled by (simp add: server_config_def Let_def)
  then have "source_enabled_from_mcp_settings (me_value entry) \<and>
      (\<forall>p. map_of policies (me_normalized_name entry) = Some p \<longrightarrow>
         sp_platform_supported p \<and> sp_profile_enabled p \<and> sp_runtime_enabled p)"
    by (auto simp: disabled_reason_of_def split: if_splits option.splits)
  then show ?thesis using enabled entry p by blast
qed

definition plain_config_env :: config_env where
  "plain_config_env = \<lparr>cg_root = ''/r'', cg_os = ''linux'', cg_var = (\<lambda>_. None), cg_metadata = (\<lambda>_. Inl ''missing''),
     cg_exists = (\<lambda>_. False), cg_canonical = (\<lambda>_. None), cg_which = (\<lambda>_. Inl ''missing'')\<rparr>"

definition api_entry :: mcp_server_entry where
  "api_entry = \<lparr>me_name = ''api'', me_normalized_name = ''api'', me_value = JObject [(''url'', JString ''https://h/'')],
     me_source = ''mcp_settings.json''\<rparr>"

abbreviation api_server :: upstream_server_config where
  "api_server \<equiv> server_config plain_config_env conservative [] api_entry"

lemma api_server_callable: "ensure_callable_stdio plain_config_env api_server = Inr ()"
proof -
  have "parse_http_url ''https://h/'' =
      Inr \<lparr>pu_url = ''https://h/'', pu_secure = True, pu_host = ''h'', pu_port = 443, pu_path = ''/'', pu_host_header = ''h''\<rparr>"
    by (simp add: parse_http_url_def split_http_authority_and_path_def parse_http_authority_def parse_plain_authority_def
        rsplit_once_def blank_or_control_def text_defs)
  moreover have "trim ''https://h/'' = ''https://h/''" by (simp add: text_defs)
  moreover have "normalize_runtime_source_type [] = []"
    by (simp add: normalize_runtime_source_type_def normalize_public_source_type_def text_defs)
  moreover have "trim [] = []" by (simp add: text_defs)
  moreover have "sv_enabled api_server" "sv_url api_server = Some ''https://h/''" "sv_headers api_server = []"
    by (simp_all add: server_config_def api_entry_def disabled_reason_of_def source_enabled_from_mcp_settings_def expanded_strings_def
        json_path Let_def)
  moreover have "sv_source_type api_server = ''http''"
    using calculation(2-4) by (simp add: server_config_def api_entry_def infer_runtime_source_type_def
        infer_source_type_with_remote_default_def text_or_empty_def json_path Let_def)
  ultimately show ?thesis
    by (simp add: ensure_callable_stdio_def server_runtime_callable_def trimmed_non_empty_owned_def
        http_upstream_configuration_error_def validate_configured_headers_def)
qed

end
