(* ===== verification/Tool_Policy.thy ===== *)
theory Tool_Policy
  imports Server_Config
begin

text \<open>
  Which tools a caller may use (the policy part of \<^verbatim>\<open>src/upstream/lease_runtime.rs\<close>): risk policies with their patterns and
  grants, and the check that a tool is one the server advertises. The patterns are compared with a reference meaning.
\<close>

section \<open>Patterns\<close>

text \<open>The loop over the non-empty segments between the stars: each is found leftmost in the rest.\<close>

fun match_segments :: "bool \<Rightarrow> bool \<Rightarrow> string list \<Rightarrow> string \<Rightarrow> string option" where
  "match_segments anchored first [] rest = Some rest"
| "match_segments anchored first (segment # segments) rest =
     (case split_at segment rest of
        None \<Rightarrow> None
      | Some (before, after) \<Rightarrow>
          if first \<and> anchored \<and> before \<noteq> [] then None else match_segments anchored False segments after)"

definition wildcard_match :: "string \<Rightarrow> string \<Rightarrow> bool" where
  "wildcard_match pattern v =
     (if CHR ''*'' \<notin> set pattern then False
      else case match_segments (\<not> starts_with pattern ''*'') True (filter (\<lambda>s. s \<noteq> []) (split_char CHR ''*'' pattern)) v of
             None \<Rightarrow> False
           | Some rest \<Rightarrow> last pattern = CHR ''*'' \<or> rest = [])"

definition tool_pattern_matches :: "string \<Rightarrow> string \<Rightarrow> bool" where
  "tool_pattern_matches pattern tool =
     (let pattern = to_ascii_lowercase (trim pattern); tool = to_ascii_lowercase (trim tool)
      in if pattern = [] then False
         else if pattern = ''*'' \<or> pattern = tool then True
         else wildcard_match pattern tool)"

section \<open>Risk policies\<close>

record upstream_lease_context =
  lc_client_id :: "string option"
  lc_session_id :: "string option"
  lc_project_root :: "string option"
  lc_transport :: "string option"
  lc_metadata :: "json option"
  lc_ttl_ms :: "nat option"
  lc_allow_arguments :: "string list"
  lc_allowed_tool_risk_classes :: "string list"

definition matches_tool :: "tool_risk_policy \<Rightarrow> string \<Rightarrow> bool" where
  "matches_tool policy tool = list_ex (\<lambda>pattern. tool_pattern_matches pattern tool) (rp_tools policy)"

definition is_allowed :: "tool_risk_policy \<Rightarrow> upstream_lease_context option \<Rightarrow> bool" where
  "is_allowed policy context =
     (case context of
        None \<Rightarrow> False
      | Some c \<Rightarrow>
          (case rp_allow_argument policy of Some a \<Rightarrow> a \<in> set (lc_allow_arguments c) | None \<Rightarrow> False) \<or>
          (case rp_risk_class policy of Some k \<Rightarrow> k \<in> set (lc_allowed_tool_risk_classes c) | None \<Rightarrow> False))"

definition blocked_message :: "tool_risk_policy \<Rightarrow> string \<Rightarrow> string \<Rightarrow> string" where
  "blocked_message policy server tool =
     (let grants = (case rp_allow_argument policy of Some a \<Rightarrow> [''set '' @ a @ ''=true''] | None \<Rightarrow> [])
            @ (case rp_risk_class policy of Some k \<Rightarrow> [''include '' @ squote k @ '' in allowToolRiskClasses''] | None \<Rightarrow> []);
          hint = (if grants = [] then ''declare an explicit allow rule in mcpace.config.json'' else join '' or '' grants);
          detail = (case rp_description policy of Some d \<Rightarrow> '' ('' @ d @ '')'' | None \<Rightarrow> [])
      in ''upstream server '' @ squote server @ '' tool '' @ squote tool @ '' requires explicit risk authorization: '' @ hint
         @ '' on upstream_call/upstream_batch'' @ detail)"

definition validate_upstream_tool_policy ::
  "upstream_server_config \<Rightarrow> string \<Rightarrow> upstream_lease_context option \<Rightarrow> string + unit" where
  "validate_upstream_tool_policy server tool context =
     (case List.find (\<lambda>policy. matches_tool policy tool \<and> \<not> is_allowed policy context) (sv_tool_policies server) of
        Some policy \<Rightarrow> Inl (blocked_message policy (sv_name server) tool)
      | None \<Rightarrow> Inr ())"

fun validate_batch_from ::
  "upstream_server_config \<Rightarrow> upstream_lease_context option \<Rightarrow> nat \<Rightarrow> (string \<times> json) list \<Rightarrow> string + unit" where
  "validate_batch_from server context index [] = Inr ()"
| "validate_batch_from server context index ((tool, _) # rest) =
     (if trim tool = [] then Inl (''upstream_batch calls['' @ show_nat index @ ''] requires non-empty '' @ squote ''tool'')
      else case validate_upstream_tool_policy server (trim tool) context of
             Inl e \<Rightarrow> Inl e
           | Inr _ \<Rightarrow> validate_batch_from server context (Suc index) rest)"

definition validate_upstream_batch_tool_policy ::
  "upstream_server_config \<Rightarrow> (string \<times> json) list \<Rightarrow> upstream_lease_context option \<Rightarrow> string + unit" where
  "validate_upstream_batch_tool_policy server calls context = validate_batch_from server context 0 calls"

section \<open>Grants\<close>

fun collect_strings :: "string \<Rightarrow> (string \<Rightarrow> string) \<Rightarrow> json list \<Rightarrow> string list \<Rightarrow> string + string list" where
  "collect_strings error norm [] acc = Inr acc"
| "collect_strings error norm (item # rest) acc =
     (case as_str item of
        None \<Rightarrow> Inl error
      | Some s \<Rightarrow> collect_strings error norm rest (if norm s = [] then acc else insort_insert (norm s) acc))"

definition collect_allow_argument_list :: "json \<Rightarrow> string list \<Rightarrow> string + string list" where
  "collect_allow_argument_list v acc =
     (case v of
        JArray items \<Rightarrow> collect_strings ''allowArguments must be an array of strings'' trim items acc
      | JNull \<Rightarrow> Inr acc
      | _ \<Rightarrow> Inl ''allowArguments must be an array of strings'')"

fun collect_allow :: "json_map \<Rightarrow> string list \<Rightarrow> string + string list" where
  "collect_allow [] acc = Inr acc"
| "collect_allow ((key, v) # rest) acc =
     (if \<not> starts_with key ''allow'' \<or> key = ''allowToolRiskClasses'' then collect_allow rest acc
      else if key = ''allowArguments''
      then (case collect_allow_argument_list v acc of Inl e \<Rightarrow> Inl e | Inr acc' \<Rightarrow> collect_allow rest acc')
      else case v of
             JBool True \<Rightarrow> collect_allow rest (insort_insert key acc)
           | JBool False \<Rightarrow> collect_allow rest acc
           | JNull \<Rightarrow> collect_allow rest acc
           | _ \<Rightarrow> Inl (key @ '' must be a boolean''))"

definition collect_allow_arguments :: "json \<Rightarrow> string + string list" where
  "collect_allow_arguments arguments = (case as_object arguments of None \<Rightarrow> Inr [] | Some m \<Rightarrow> collect_allow m [])"

definition collect_allowed_tool_risk_classes :: "json \<Rightarrow> string + string list" where
  "collect_allowed_tool_risk_classes arguments =
     (case value_at_path arguments [''allowToolRiskClasses''] of
        Some (JArray values) \<Rightarrow>
          collect_strings ''allowToolRiskClasses must be an array of strings'' (\<lambda>v. to_ascii_lowercase (trim v)) values []
      | Some JNull \<Rightarrow> Inr []
      | None \<Rightarrow> Inr []
      | Some _ \<Rightarrow> Inl ''allowToolRiskClasses must be an array of strings'')"

section \<open>Advertised tools\<close>

definition ALLOW_UNKNOWN_TOOL_ARGUMENT :: string where "ALLOW_UNKNOWN_TOOL_ARGUMENT = ''allowUnknownTool''"

definition ALLOW_UNKNOWN_UPSTREAM_TOOL_ARGUMENT :: string where
  "ALLOW_UNKNOWN_UPSTREAM_TOOL_ARGUMENT = ''allowUnknownUpstreamTool''"

definition context_allows_unknown_tool :: "upstream_lease_context option \<Rightarrow> bool" where
  "context_allows_unknown_tool context =
     (case context of
        None \<Rightarrow> False
      | Some c \<Rightarrow> ALLOW_UNKNOWN_TOOL_ARGUMENT \<in> set (lc_allow_arguments c) \<or>
                ALLOW_UNKNOWN_UPSTREAM_TOOL_ARGUMENT \<in> set (lc_allow_arguments c))"

definition known_tool_validation_enabled :: "string option \<Rightarrow> bool" where
  "known_tool_validation_enabled var \<longleftrightarrow>
     \<not> (case var of Some v \<Rightarrow> to_ascii_lowercase (trim v) \<in> {''1'', ''true'', ''yes'', ''on''} | None \<Rightarrow> False)"

definition known_tool_validation_required :: "string option \<Rightarrow> upstream_lease_context option \<Rightarrow> bool" where
  "known_tool_validation_required var context \<longleftrightarrow> known_tool_validation_enabled var \<and> \<not> context_allows_unknown_tool context"

definition tool_names_from_tools_list :: "upstream_server_config \<Rightarrow> json \<Rightarrow> string \<Rightarrow> string + string list" where
  "tool_names_from_tools_list server tools hint =
     (let names = filter (\<lambda>n. n \<noteq> []) (map trim (List.map_filter (\<lambda>tool. string_at_path tool [''name''])
                    (case as_array tools of Some items \<Rightarrow> items | None \<Rightarrow> [])));
          advertised = fold insort_insert names []
      in if advertised = []
         then Inl (''refusing to call upstream server '' @ squote (sv_name server)
                   @ '' because its tools/list returned no named tools'' @ hint @ ''; pass '' @ ALLOW_UNKNOWN_TOOL_ARGUMENT
                   @ ''=true only for explicitly trusted dynamic hidden tools'')
         else Inr advertised)"

definition ensure_tool_name_in_verified_set :: "upstream_server_config \<Rightarrow> string \<Rightarrow> string list \<Rightarrow> string + unit" where
  "ensure_tool_name_in_verified_set server tool advertised =
     (if advertised = [] then Inr ()
      else if tool \<in> set advertised then Inr ()
      else Inl (''refusing to call upstream server '' @ squote (sv_name server) @ '' tool '' @ squote tool
                @ '' because it is not present in the server'' @ [CHR 0x27]
                @ ''s current tools/list; use upstream_search/upstream_tools to refresh discovery, or pass ''
                @ ALLOW_UNKNOWN_TOOL_ARGUMENT @ ''=true only for explicitly trusted dynamic hidden tools''))"

fun ensure_tools_in_verified_set :: "upstream_server_config \<Rightarrow> (string \<times> json) list \<Rightarrow> string list \<Rightarrow> string + unit" where
  "ensure_tools_in_verified_set server [] advertised = Inr ()"
| "ensure_tools_in_verified_set server ((tool, _) # rest) advertised =
     (case ensure_tool_name_in_verified_set server (trim tool) advertised of
        Inl e \<Rightarrow> Inl e
      | Inr _ \<Rightarrow> ensure_tools_in_verified_set server rest advertised)"

text \<open>The names a call is checked against; \<open>listed\<close> is what the tool cache (or the pooled session) answers, with its hint.\<close>

definition verified_tool_names_for_call ::
  "string option \<Rightarrow> upstream_server_config \<Rightarrow> string + json \<times> string \<Rightarrow> upstream_lease_context option \<Rightarrow> string + string list" where
  "verified_tool_names_for_call var server listed context =
     (if \<not> known_tool_validation_required var context then Inr []
      else case listed of
             Inl e \<Rightarrow> Inl (''refusing to call upstream server '' @ squote (sv_name server)
                       @ '' because tools/list could not verify the requested tool: '' @ e
                       @ ''. Retry after upstream_tools/upstream_probe succeeds, or pass '' @ ALLOW_UNKNOWN_TOOL_ARGUMENT
                       @ ''=true only when the server intentionally supports dynamic hidden tools.'')
           | Inr (tools, hint) \<Rightarrow> tool_names_from_tools_list server tools hint)"

definition validate_upstream_tool_known ::
  "string option \<Rightarrow> upstream_server_config \<Rightarrow> string + json \<times> string \<Rightarrow> string \<Rightarrow> upstream_lease_context option \<Rightarrow> string + unit" where
  "validate_upstream_tool_known var server listed tool context =
     (case verified_tool_names_for_call var server listed context of
        Inl e \<Rightarrow> Inl e
      | Inr names \<Rightarrow> ensure_tool_name_in_verified_set server tool names)"

definition validate_upstream_batch_tools_known ::
  "string option \<Rightarrow> upstream_server_config \<Rightarrow> string + json \<times> string \<Rightarrow> (string \<times> json) list \<Rightarrow> upstream_lease_context option \<Rightarrow>
   string + unit" where
  "validate_upstream_batch_tools_known var server listed calls context =
     (if calls = [] then Inr ()
      else case verified_tool_names_for_call var server listed context of
             Inl e \<Rightarrow> Inl e
           | Inr names \<Rightarrow> ensure_tools_in_verified_set server calls names)"

definition policy_json :: "tool_risk_policy \<Rightarrow> json" where
  "policy_json p =
     json_object [(''riskClass'', json_string_or_null (rp_risk_class p)), (''allowArgument'', json_string_or_null (rp_allow_argument p)),
       (''description'', json_string_or_null (rp_description p))]"

definition tool_policy_info ::
  "string + (string \<times> upstream_server_config) list \<Rightarrow> string \<Rightarrow> string \<Rightarrow> string + json" where
  "tool_policy_info loaded server_name tool =
     (let server_name = trim server_name; tool = trim tool
      in if server_name = [] then Inl ''tool_policy_info requires a non-empty server name''
         else if tool = [] then Inl ''tool_policy_info requires a non-empty tool name''
         else case loaded of
                Inl e \<Rightarrow> Inl e
              | Inr servers \<Rightarrow>
                  (case find_server servers server_name of
                     None \<Rightarrow> Inl (''upstream server '' @ squote server_name @ '' is not configured'')
                   | Some server \<Rightarrow>
                       (let policies = map policy_json (filter (\<lambda>p. matches_tool p tool) (sv_tool_policies server))
                        in Inr (json_object [(''server'', JString server_name), (''tool'', JString tool),
                             (''guardRequired'', JBool (policies \<noteq> [])), (''policyCount'', json_number (length policies)),
                             (''policies'', JArray policies)]))))"

section \<open>The reference meaning of patterns\<close>

text \<open>A star stands for any text, every other character for itself.\<close>

function glob :: "string \<Rightarrow> string \<Rightarrow> bool" where
  "glob [] v = (v = [])"
| "glob (c # p) v =
     (if c = CHR ''*'' then glob p v \<or> (case v of [] \<Rightarrow> False | _ # v' \<Rightarrow> glob (c # p) v')
      else case v of [] \<Rightarrow> False | x # v' \<Rightarrow> x = c \<and> glob p v')"
  by pat_completeness auto
termination
  by (relation "measure (\<lambda>(p, v). length p + length v)") auto

declare glob.simps(2) [simp del]

lemma glob_star: "glob (CHR ''*'' # p) v \<longleftrightarrow> (\<exists>a b. v = a @ b \<and> glob p b)"
proof (induction v)
  case Nil
  then show ?case by (subst glob.simps(2)) simp
next
  case (Cons x v)
  have "(\<exists>a b. x # v = a @ b \<and> glob p b) \<longleftrightarrow> glob p (x # v) \<or> (\<exists>a b. v = a @ b \<and> glob p b)"
    by (auto simp: Cons_eq_append_conv)
  then show ?case by (subst glob.simps(2)) (simp add: Cons)
qed

lemma glob_literal: "CHR ''*'' \<notin> set s \<Longrightarrow> glob (s @ p) v \<longleftrightarrow> (\<exists>b. v = s @ b \<and> glob p b)"
proof (induction s arbitrary: v)
  case (Cons x s)
  then show ?case by (cases v) (auto simp: glob.simps(2))
qed simp

lemma glob_self: "glob p p"
proof (induction p)
  case (Cons c p)
  then show ?case by (cases "c = CHR ''*''") (auto simp: glob_star glob.simps(2) intro: exI [of _ "[c]"])
qed simp

text \<open>The segments occur in the text in order, without overlap; the text ends with \<open>r\<close> after the last.\<close>

fun occurs :: "string list \<Rightarrow> string \<Rightarrow> string \<Rightarrow> bool" where
  "occurs [] v r = (v = r)"
| "occurs (s # ss) v r = (\<exists>a b. v = a @ s @ b \<and> occurs ss b r)"

lemma occurs_prepend: "ss \<noteq> [] \<Longrightarrow> occurs ss v r \<Longrightarrow> occurs ss (x @ v) r"
  by (cases ss) (auto, metis append.assoc)

lemma occurs_later: "\<exists>r. occurs ss v r \<Longrightarrow> \<exists>r. occurs ss (x @ v) r"
  by (cases "ss = []") (auto intro: occurs_prepend)

lemma match_segments_sound: "match_segments anchored False ss v = Some r \<Longrightarrow> occurs ss v r"
  by (induction ss arbitrary: v) (auto split: option.splits prod.splits dest: split_at_Some)

lemma match_segments_complete: "\<exists>r. occurs ss v r \<Longrightarrow> \<exists>r. match_segments anchored False ss v = Some r"
proof (induction ss arbitrary: v)
  case (Cons s ss)
  then obtain a b r where v: "v = a @ s @ b" and r: "occurs ss b r" by auto
  then obtain c d where cd: "split_at s v = Some (c, d)" using split_at_leftmost [of s a b] by auto
  obtain e where "d = e @ b" using split_at_suffix [OF cd v] by blast
  then have "\<exists>r. occurs ss d r" using occurs_later r by blast
  then show ?case using Cons.IH cd by simp
qed simp

definition starred :: "string list \<Rightarrow> string" where
  "starred ss = concat (map ((#) CHR ''*'') ss)"

abbreviation non_empty :: "string list \<Rightarrow> string list" where
  "non_empty ss \<equiv> filter (\<lambda>s. s \<noteq> []) ss"

lemma glob_starred:
  assumes "list_all (\<lambda>s. CHR ''*'' \<notin> set s) ss" "ss \<noteq> []"
  shows "glob (starred ss) v \<longleftrightarrow>
    (if last ss = [] then \<exists>r. occurs (non_empty ss) v r else occurs (non_empty ss) v [])"
  using assms
proof (induction ss arbitrary: v)
  case (Cons s ss)
  have s: "CHR ''*'' \<notin> set s" using Cons.prems(1) by simp
  have step: "glob (starred (s # ss)) v \<longleftrightarrow> (\<exists>a b. v = a @ s @ b \<and> glob (starred ss) b)"
    using glob_literal [OF s] by (auto simp: starred_def glob_star)
  show ?case
  proof (cases "ss = []")
    case True
    then show ?thesis unfolding step by (auto simp: starred_def)
  next
    case False
    note IH = Cons.IH [OF _ False] Cons.prems(1)
    have fs: "non_empty ss \<noteq> []" if "last ss \<noteq> []" using that False by (auto simp: filter_empty_conv)
    show ?thesis
    proof (cases "s = []")
      case True
      have "(\<exists>a b r. v = a @ b \<and> occurs (non_empty ss) b r) \<longleftrightarrow> (\<exists>r. occurs (non_empty ss) v r)"
        using occurs_later by blast
      moreover have "last ss \<noteq> [] \<Longrightarrow> (\<exists>a b. v = a @ b \<and> occurs (non_empty ss) b []) \<longleftrightarrow> occurs (non_empty ss) v []"
        using occurs_prepend [OF fs] by blast
      ultimately show ?thesis unfolding step using True False IH by (cases "last ss = []") simp_all
    next
      case s': False
      have "(\<exists>a b. v = a @ s @ b \<and> Ex (occurs (non_empty ss) b)) \<longleftrightarrow> Ex (occurs (s # non_empty ss) v)"
        by (metis occurs.simps(2))
      then show ?thesis unfolding step using s' False IH by (cases "last ss = []") simp_all
    qed
  qed
qed simp

lemma pattern_pieces:
  obtains s0 ss where "split_char CHR ''*'' p = s0 # ss" "p = s0 @ starred ss" "list_all (\<lambda>s. CHR ''*'' \<notin> set s) (s0 # ss)"
proof -
  have "\<exists>s0 ss. split_char CHR ''*'' p = s0 # ss \<and> p = s0 @ starred ss \<and> list_all (\<lambda>s. CHR ''*'' \<notin> set s) (s0 # ss)"
  proof (induction p)
    case (Cons x p)
    then show ?case by (auto simp: starred_def)
  qed (simp add: starred_def)
  then show thesis using that by blast
qed

lemma starred_Cons: "starred (s # ss) = CHR ''*'' # s @ starred ss"
  by (simp add: starred_def)

lemma last_starred: "ss \<noteq> [] \<Longrightarrow> list_all (\<lambda>s. CHR ''*'' \<notin> set s) ss \<Longrightarrow> last (starred ss) = CHR ''*'' \<longleftrightarrow> last ss = []"
proof (induction ss)
  case (Cons s ss)
  show ?case
  proof (cases "ss = []")
    case True
    then show ?thesis using Cons.prems(2) by (cases "s = []") (auto simp: starred_def dest: last_in_set)
  next
    case False
    then have "starred ss \<noteq> []" by (cases ss) (auto simp: starred_def)
    then show ?thesis using Cons False by (auto simp: starred_Cons)
  qed
qed simp

lemma match_segments_free: "match_segments False first ss v = match_segments False False ss v"
  by (cases ss) (auto split: option.splits)

lemma match_segments_prefix:
  "match_segments True True (s # ss) v = Some r \<longleftrightarrow> (\<exists>b. v = s @ b \<and> match_segments True False ss b = Some r)"
proof
  assume "match_segments True True (s # ss) v = Some r"
  then show "\<exists>b. v = s @ b \<and> match_segments True False ss b = Some r"
    using split_at_Some [of s v "[]"] by (auto split: option.splits prod.splits if_splits)
next
  assume "\<exists>b. v = s @ b \<and> match_segments True False ss b = Some r"
  then obtain b where b: "v = s @ b" "match_segments True False ss b = Some r" by blast
  then obtain c d where cd: "split_at s v = Some (c, d)" using split_at_leftmost [of s "[]" b] by auto
  then have "c = []" using split_at_le [OF cd, of "[]" b] b(1) by simp
  moreover have "d = b" using split_at_Some [OF cd] b(1) calculation by simp
  ultimately show "match_segments True True (s # ss) v = Some r" using cd b(2) by simp
qed

text \<open>What the matcher decides: the text before the first star is a prefix, the other segments follow in order.\<close>

lemma wildcard_match_pieces:
  assumes "split_char CHR ''*'' p = s0 # ss" "p = s0 @ starred ss" "list_all (\<lambda>s. CHR ''*'' \<notin> set s) (s0 # ss)" "ss \<noteq> []"
  shows "wildcard_match p v \<longleftrightarrow>
    (\<exists>b r. v = s0 @ b \<and> match_segments (s0 \<noteq> []) False (non_empty ss) b = Some r \<and> (last ss = [] \<or> r = []))"
proof -
  have ne: "starred ss \<noteq> []" "hd (starred ss) = CHR ''*''" using assms(4) by (cases ss; simp add: starred_def)+
  then have star: "CHR ''*'' \<in> set p" using assms(2) hd_in_set [OF ne(1)] by simp
  have last: "last p = CHR ''*'' \<longleftrightarrow> last ss = []" using assms last_starred [of ss] ne(1) by simp
  show ?thesis
  proof (cases "s0 = []")
    case True
    then have "starts_with p ''*''" using assms(2) ne by (cases "starred ss") (auto simp: starts_with_def)
    then show ?thesis
      using star last assms(1) True
      by (auto simp: wildcard_match_def match_segments_free [of True] split: option.splits)
  next
    case False
    then have "\<not> starts_with p ''*''" using assms(2,3) by (cases s0) (auto simp: starts_with_def)
    then have "wildcard_match p v \<longleftrightarrow> (\<exists>r. match_segments True True (s0 # non_empty ss) v = Some r \<and> (last ss = [] \<or> r = []))"
      using star last assms(1) False by (auto simp: wildcard_match_def split: option.splits)
    then show ?thesis using False unfolding match_segments_prefix by (simp only: not_False_eq_True) blast
  qed
qed

lemma wildcard_match_glob:
  assumes "CHR ''*'' \<in> set p"
  shows "wildcard_match p v \<Longrightarrow> glob p v" and "last p = CHR ''*'' \<Longrightarrow> glob p v \<Longrightarrow> wildcard_match p v"
proof -
  obtain s0 ss where p: "split_char CHR ''*'' p = s0 # ss" "p = s0 @ starred ss" "list_all (\<lambda>s. CHR ''*'' \<notin> set s) (s0 # ss)"
    by (rule pattern_pieces)
  have ss: "ss \<noteq> []" using assms p(2,3) by (auto simp: starred_def)
  have g: "glob p v \<longleftrightarrow> (\<exists>b. v = s0 @ b \<and> glob (starred ss) b)" using glob_literal [of s0 "starred ss" v] p(2,3) by simp
  note w = wildcard_match_pieces [OF p ss, of v] and gs = glob_starred [of ss] p(3) ss
  show "wildcard_match p v \<Longrightarrow> glob p v"
    using match_segments_sound gs by (fastforce simp: w g split: if_splits)
  show "wildcard_match p v" if star: "last p = CHR ''*''" and match: "glob p v"
  proof -
    have "starred ss \<noteq> []" using ss by (cases ss) (auto simp: starred_def)
    then have l: "last ss = []" using star p last_starred [OF ss] by simp
    then obtain b r where b: "v = s0 @ b" "occurs (non_empty ss) b r" using match gs by (auto simp: g)
    then obtain r' where "match_segments (s0 \<noteq> []) False (non_empty ss) b = Some r'"
      using match_segments_complete by blast
    then show ?thesis unfolding w using b(1) l by blast
  qed
qed

lemma glob_no_star: "CHR ''*'' \<notin> set p \<Longrightarrow> glob p v \<longleftrightarrow> v = p"
  using glob_literal [of p "[]" v] by auto

lemma glob_any: "glob ''*'' v"
  by (simp add: glob_star)

section \<open>Properties\<close>

abbreviation norm_name :: "string \<Rightarrow> string" where
  "norm_name s \<equiv> to_ascii_lowercase (trim s)"

lemma tool_pattern_complete:
  assumes "norm_name pattern \<noteq> []" "CHR ''*'' \<notin> set (norm_name pattern) \<or> last (norm_name pattern) = CHR ''*''"
    and "glob (norm_name pattern) (norm_name tool)"
  shows "tool_pattern_matches pattern tool"
  using assms wildcard_match_glob(2) [of "norm_name pattern" "norm_name tool"]
    glob_no_star [of "norm_name pattern" "norm_name tool"] last_in_set [of "norm_name pattern"]
  by (cases "CHR ''*'' \<in> set (norm_name pattern)") (auto simp: tool_pattern_matches_def Let_def)

text \<open>C23: the matcher and the meaning of patterns. A pattern of a risk policy never matches a tool that its stars do not
  cover; and a pattern without a star or with a star at its end matches exactly the tools it covers, up to case and
  surrounding white space.\<close>

theorem tool_pattern_glob:
  "(tool_pattern_matches pattern tool \<longrightarrow> norm_name pattern \<noteq> [] \<and> glob (norm_name pattern) (norm_name tool)) \<and>
   (norm_name pattern \<noteq> [] \<and> (CHR ''*'' \<notin> set (norm_name pattern) \<or> last (norm_name pattern) = CHR ''*'') \<longrightarrow>
      tool_pattern_matches pattern tool = glob (norm_name pattern) (norm_name tool))"
proof -
  let ?p = "norm_name pattern" and ?t = "norm_name tool"
  have star: "wildcard_match ?p ?t \<Longrightarrow> CHR ''*'' \<in> set ?p" by (auto simp: wildcard_match_def split: if_splits)
  have same: "glob ?p ?p" by (rule glob_self)
  have "tool_pattern_matches pattern tool \<Longrightarrow> ?p \<noteq> [] \<and> glob ?p ?t"
    using wildcard_match_glob(1) [of ?p ?t] star glob_any same
    by (auto simp: tool_pattern_matches_def Let_def split: if_splits)
  then show ?thesis using tool_pattern_complete by blast
qed

theorem tool_pattern_glob_witness: "tool_pattern_matches '' delete_*'' ''delete_all'' = glob ''delete_*'' ''delete_all''"
  using tool_pattern_glob [of "'' delete_*''" "''delete_all''"] by (simp add: text_defs)

text \<open>What the arguments of a call grant for a policy.\<close>

definition granted :: "json \<Rightarrow> tool_risk_policy \<Rightarrow> bool" where
  "granted arguments policy \<longleftrightarrow>
     (\<exists>m. arguments = JObject m \<and>
       ((\<exists>a. rp_allow_argument policy = Some a \<and>
          ((starts_with a ''allow'' \<and> (a, JBool True) \<in> set m) \<or>
           (\<exists>items s. (''allowArguments'', JArray items) \<in> set m \<and> JString s \<in> set items \<and> trim s = a))) \<or>
        (\<exists>k values s. rp_risk_class policy = Some k \<and> map_of m ''allowToolRiskClasses'' = Some (JArray values) \<and>
           JString s \<in> set values \<and> norm_name s = k)))"

lemma as_str_Some: "as_str v = Some s \<longleftrightarrow> v = JString s"
  by (cases v) auto

lemma collect_strings_from:
  "collect_strings error norm items acc = Inr ys \<Longrightarrow> y \<in> set ys \<Longrightarrow> y \<in> set acc \<or> (\<exists>s. JString s \<in> set items \<and> norm s = y)"
  by (induction error norm items acc rule: collect_strings.induct)
    (auto simp: as_str_Some set_insort_insert split: option.splits if_splits)

definition allows :: "string \<Rightarrow> string \<times> json \<Rightarrow> bool" where
  "allows y = (\<lambda>(key, v).
     (y = key \<and> starts_with key ''allow'' \<and> v = JBool True) \<or>
     (key = ''allowArguments'' \<and> (\<exists>items s. v = JArray items \<and> JString s \<in> set items \<and> trim s = y)))"

lemma collect_allow_argument_list_from:
  assumes "collect_allow_argument_list v acc = Inr zs" "y \<in> set zs" "y \<notin> set acc"
  shows "allows y (''allowArguments'', v)"
  using assms collect_strings_from [of _ trim _ acc zs y] by (cases v) (auto simp: collect_allow_argument_list_def allows_def)

lemma collect_allow_step:
  assumes "collect_allow ((key, v) # rest) acc = Inr ys"
  shows "\<exists>acc'. collect_allow rest acc' = Inr ys \<and> (\<forall>y \<in> set acc'. y \<in> set acc \<or> allows y (key, v))"
proof (cases "key = ''allowArguments''")
  case True
  then obtain zs where "collect_allow_argument_list v acc = Inr zs" "collect_allow rest zs = Inr ys"
    using assms by (auto simp: starts_with_def split: sum.splits)
  then show ?thesis using collect_allow_argument_list_from True by blast
next
  case False
  then show ?thesis
    using assms by (cases v) (auto simp: allows_def set_insort_insert split: if_splits bool.splits)
qed

lemma collect_allow_from:
  "collect_allow m acc = Inr ys \<Longrightarrow> y \<in> set ys \<Longrightarrow> y \<in> set acc \<or> (\<exists>e \<in> set m. allows y e)"
proof (induction m arbitrary: acc)
  case (Cons e m)
  obtain key v where e: "e = (key, v)" by (cases e)
  from collect_allow_step [of key v m acc ys] Cons.prems(1) e obtain acc'
    where "collect_allow m acc' = Inr ys" "\<forall>y \<in> set acc'. y \<in> set acc \<or> allows y (key, v)" by blast
  then show ?case using Cons.IH Cons.prems(2) e by fastforce
qed simp

lemma is_allowed_granted:
  assumes "is_allowed policy (Some c)" "collect_allow_arguments arguments = Inr (lc_allow_arguments c)"
    and "collect_allowed_tool_risk_classes arguments = Inr (lc_allowed_tool_risk_classes c)"
  shows "granted arguments policy"
proof -
  consider a where "rp_allow_argument policy = Some a" "a \<in> set (lc_allow_arguments c)"
    | k where "rp_risk_class policy = Some k" "k \<in> set (lc_allowed_tool_risk_classes c)"
    using assms(1) by (auto simp: is_allowed_def split: option.splits)
  then show ?thesis
  proof cases
    case 1
    then obtain m where m: "arguments = JObject m" "collect_allow m [] = Inr (lc_allow_arguments c)"
      using assms(2) by (cases arguments) (auto simp: collect_allow_arguments_def)
    obtain e where "e \<in> set m" "allows a e" using collect_allow_from [OF m(2) 1(2)] by auto
    then show ?thesis using 1(1) m(1) by (cases e) (auto simp: granted_def allows_def)
  next
    case 2
    then obtain vs where v: "value_at_path arguments [''allowToolRiskClasses''] = Some (JArray vs)"
        "collect_strings ''allowToolRiskClasses must be an array of strings'' norm_name vs [] = Inr (lc_allowed_tool_risk_classes c)"
      using assms(3) by (auto simp: collect_allowed_tool_risk_classes_def split: option.splits json.splits)
    then obtain m where "arguments = JObject m" "map_of m ''allowToolRiskClasses'' = Some (JArray vs)"
      by (cases arguments) (auto split: option.splits)
    then show ?thesis using 2(1) collect_strings_from [OF v(2) 2(2)] by (auto simp: granted_def)
  qed
qed

text \<open>C22: a risky tool needs an explicit grant. If a call passes the policy check in a context made from its arguments, then
  for every policy of the server with a pattern (without a star, or ending with one) that covers the tool, the arguments
  themselves name the allow argument of the policy or its risk class.\<close>

theorem risk_policy_enforced:
  assumes "validate_upstream_tool_policy server tool (Some c) = Inr ()"
    and "collect_allow_arguments arguments = Inr (lc_allow_arguments c)"
    and "collect_allowed_tool_risk_classes arguments = Inr (lc_allowed_tool_risk_classes c)"
    and "policy \<in> set (sv_tool_policies server)" "pattern \<in> set (rp_tools policy)" "norm_name pattern \<noteq> []"
    and "CHR ''*'' \<notin> set (norm_name pattern) \<or> last (norm_name pattern) = CHR ''*''" "glob (norm_name pattern) (norm_name tool)"
  shows "granted arguments policy"
proof -
  have "tool_pattern_matches pattern tool" using assms(6-8) by (rule tool_pattern_complete)
  then have "matches_tool policy tool" using assms(5) by (auto simp: matches_tool_def list_ex_iff)
  moreover have "List.find (\<lambda>p. matches_tool p tool \<and> \<not> is_allowed p (Some c)) (sv_tool_policies server) = None"
    using assms(1) by (auto simp: validate_upstream_tool_policy_def split: option.splits)
  ultimately have "is_allowed policy (Some c)" using assms(4) by (auto simp: find_None_iff)
  then show ?thesis by (rule is_allowed_granted [OF _ assms(2,3)])
qed

definition delete_policy :: "string \<Rightarrow> tool_risk_policy" where
  "delete_policy pattern = \<lparr>rp_tools = [pattern], rp_risk_class = Some ''destructive'', rp_allow_argument = None, rp_description = None\<rparr>"

definition guarded_server :: "string \<Rightarrow> upstream_server_config" where
  "guarded_server pattern = \<lparr>sv_name = ''fs'', sv_enabled = True, sv_disabled_reason = None, sv_source_type = ''stdio'',
     sv_command = None, sv_args = [], sv_env = [], sv_headers = [], sv_cwd = None, sv_url = None, sv_timeout_ms = 0,
     sv_execution = conservative, sv_tool_policies = [delete_policy pattern]\<rparr>"

definition granting_context :: upstream_lease_context where
  "granting_context = \<lparr>lc_client_id = None, lc_session_id = None, lc_project_root = None, lc_transport = None, lc_metadata = None,
     lc_ttl_ms = None, lc_allow_arguments = [], lc_allowed_tool_risk_classes = [''destructive'']\<rparr>"

theorem risk_policy_enforced_witness:
  "granted (JObject [(''allowToolRiskClasses'', JArray [JString '' destructive''])]) (delete_policy ''delete_*'')"
proof (rule risk_policy_enforced [where c = granting_context and server = "guarded_server ''delete_*''" and tool = "''delete_all''"
      and pattern = "''delete_*''"])
  show "validate_upstream_tool_policy (guarded_server ''delete_*'') ''delete_all'' (Some granting_context) = Inr ()"
    by (simp add: validate_upstream_tool_policy_def guarded_server_def is_allowed_def granting_context_def delete_policy_def)
  show "glob (norm_name ''delete_*'') (norm_name ''delete_all'')" by (simp add: text_defs glob.simps(2))
qed (simp_all add: collect_allow_arguments_def collect_allowed_tool_risk_classes_def granting_context_def guarded_server_def
    delete_policy_def insort_insert_key_def text_defs)

text \<open>A pattern that ends with a segment is not applied to every tool that ends with it: the segment is searched leftmost,
  so a tool in which it also occurs earlier escapes the policy.\<close>

lemma suffix_pattern_escaped:
  "glob ''*delete'' ''bulk_delete_undelete'' \<and> \<not> tool_pattern_matches ''*delete'' ''bulk_delete_undelete'' \<and>
   validate_upstream_tool_policy (guarded_server ''*delete'') ''bulk_delete_undelete'' None = Inr ()"
proof -
  have "\<not> tool_pattern_matches ''*delete'' ''bulk_delete_undelete''"
    by (simp add: tool_pattern_matches_def wildcard_match_def text_defs)
  then show ?thesis
    by (simp add: glob.simps(2) validate_upstream_tool_policy_def guarded_server_def matches_tool_def delete_policy_def)
qed

end
