(* ===== verification/Tool_Audit.thy ===== *)
theory Tool_Audit
  imports Tool_Policy
begin

text \<open>
  The audit of tool calls (\<^verbatim>\<open>src/upstream/lease_runtime.rs\<close>): sizes and token usage of a call, the
  classification of its outcome, and the fields of the log record. The compact printer of JSON values and
  \<open>DefaultHasher\<close> are arguments (\<open>compact\<close>, \<open>digest\<close>), as are the clock and the sequence number of a record.
\<close>

section \<open>Reported token usage\<close>

record reported_token_usage =
  ru_input :: "nat option"
  ru_output :: "nat option"
  ru_total :: "nat option"
  ru_source :: "string option"

definition usage_default :: reported_token_usage where
  "usage_default = \<lparr>ru_input = None, ru_output = None, ru_total = None, ru_source = None\<rparr>"

definition has_usage :: "reported_token_usage \<Rightarrow> bool" where
  "has_usage u \<longleftrightarrow> ru_input u \<noteq> None \<or> ru_output u \<noteq> None \<or> ru_total u \<noteq> None"

definition json_u128 :: "json \<Rightarrow> nat option" where
  "json_u128 v =
     (case v of
        JNumber n \<Rightarrow> parse_uint (uint_max 128) n
      | JString n \<Rightarrow> parse_uint (uint_max 128) n
      | _ \<Rightarrow> None)"

definition token_count :: "json \<Rightarrow> string list \<Rightarrow> nat option" where
  "token_count v keys = find_map (\<lambda>key. Option.bind (json_get v key) json_u128) keys"

fun json_at_path :: "json \<Rightarrow> string list \<Rightarrow> json option" where
  "json_at_path v [] = Some v"
| "json_at_path v (key # path) = Option.bind (json_get v key) (\<lambda>w. json_at_path w path)"

definition usage_paths :: "string list list" where
  "usage_paths =
     [[''_meta'', ''usage''], [''usage''], [''metadata'', ''usage''], [''upstreamResult'', ''_meta'', ''usage''],
      [''upstreamResult'', ''usage''], [''result'', ''_meta'', ''usage''], [''result'', ''usage''], [''_meta''],
      [''metadata''], []]"

text \<open>What one candidate object reports.\<close>

definition candidate_usage :: "json \<Rightarrow> reported_token_usage option" where
  "candidate_usage candidate =
     (let input = token_count candidate [''inputTokens'', ''input_tokens'', ''promptTokens'', ''prompt_tokens''];
          output = token_count candidate [''outputTokens'', ''output_tokens'', ''completionTokens'', ''completion_tokens''];
          explicit_total = token_count candidate [''totalTokens'', ''total_tokens''];
          sum = (case explicit_total of
                   Some t \<Rightarrow> Some t
                 | None \<Rightarrow> (case (input, output) of (Some l, Some r) \<Rightarrow> Some (sat_add 128 l r) | _ \<Rightarrow> None));
          u = \<lparr>ru_input = input, ru_output = output, ru_total = sum, ru_source = None\<rparr>
      in if has_usage u then Some u else None)"

definition extract_reported_token_usage :: "json \<Rightarrow> reported_token_usage option" where
  "extract_reported_token_usage v = find_map (\<lambda>path. Option.bind (json_at_path v path) candidate_usage) usage_paths"

definition merge_reported_token_usage :: "reported_token_usage \<Rightarrow> reported_token_usage \<Rightarrow> reported_token_usage" where
  "merge_reported_token_usage primary fallback =
     (let used_primary = has_usage primary;
          used_fallback = (\<not> used_primary \<or> (ru_input primary = None \<and> ru_input fallback \<noteq> None) \<or>
            (ru_output primary = None \<and> ru_output fallback \<noteq> None) \<or> (ru_total primary = None \<and> ru_total fallback \<noteq> None))
      in \<lparr>ru_input = or_else (ru_input primary) (ru_input fallback), ru_output = or_else (ru_output primary) (ru_output fallback),
          ru_total = or_else (ru_total primary) (ru_total fallback),
          ru_source = (if used_primary then if used_fallback then Some ''mixed'' else ru_source primary
                       else if used_fallback then ru_source fallback else None)\<rparr>)"

fun add_counts :: "nat option \<Rightarrow> nat option \<Rightarrow> nat option" where
  "add_counts (Some a) (Some b) = Some (sat_add 128 a b)"
| "add_counts (Some a) None = Some a"
| "add_counts None b = b"

definition sum_reported_token_usage :: "reported_token_usage \<Rightarrow> reported_token_usage \<Rightarrow> reported_token_usage" where
  "sum_reported_token_usage left right =
     \<lparr>ru_input = add_counts (ru_input left) (ru_input right), ru_output = add_counts (ru_output left) (ru_output right),
      ru_total = add_counts (ru_total left) (ru_total right),
      ru_source = (if has_usage left then if has_usage right then Some ''upstream_results'' else ru_source left
                   else if has_usage right then ru_source right else None)\<rparr>"

definition usage_from :: "string \<Rightarrow> json option \<Rightarrow> reported_token_usage" where
  "usage_from source v =
     (case Option.bind v extract_reported_token_usage of
        Some u \<Rightarrow> u\<lparr>ru_source := Some source\<rparr>
      | None \<Rightarrow> usage_default)"

definition reported_token_usage_of :: "json option \<Rightarrow> upstream_lease_context option \<Rightarrow> reported_token_usage" where
  "reported_token_usage_of res context =
     merge_reported_token_usage (usage_from ''upstream_result'' res)
       (usage_from ''request_context'' (Option.bind context lc_metadata))"

definition reported_token_usage_for_results :: "json list \<Rightarrow> upstream_lease_context option \<Rightarrow> reported_token_usage" where
  "reported_token_usage_for_results results context =
     merge_reported_token_usage
       (fold (\<lambda>res aggregate. sum_reported_token_usage aggregate (reported_token_usage_of (Some res) None)) results usage_default)
       (reported_token_usage_of None context)"

section \<open>Metrics\<close>

record tool_audit_metrics =
  am_queue_duration_ms :: nat
  am_upstream_duration_ms :: nat
  am_total_duration_ms :: nat
  am_request_bytes :: nat
  am_response_bytes :: nat
  am_estimated_input_tokens :: nat
  am_estimated_output_tokens :: nat
  am_reported_input_tokens :: "nat option"
  am_reported_output_tokens :: "nat option"
  am_reported_total_tokens :: "nat option"
  am_token_usage_source :: "string option"

definition estimate_payload_tokens :: "nat \<Rightarrow> nat" where
  "estimate_payload_tokens bytes = (if bytes = 0 then 0 else sat_add 64 bytes 3 div 4)"

definition metrics_from :: "nat \<Rightarrow> nat \<Rightarrow> reported_token_usage \<Rightarrow> nat \<Rightarrow> nat \<Rightarrow> nat \<Rightarrow> tool_audit_metrics" where
  "metrics_from request_bytes response_bytes usage queue_ms upstream_ms total_ms =
     \<lparr>am_queue_duration_ms = queue_ms, am_upstream_duration_ms = upstream_ms, am_total_duration_ms = total_ms,
      am_request_bytes = request_bytes, am_response_bytes = response_bytes,
      am_estimated_input_tokens = estimate_payload_tokens request_bytes,
      am_estimated_output_tokens = estimate_payload_tokens response_bytes,
      am_reported_input_tokens = ru_input usage, am_reported_output_tokens = ru_output usage,
      am_reported_total_tokens = ru_total usage, am_token_usage_source = ru_source usage\<rparr>"

definition for_single ::
  "(json \<Rightarrow> string) \<Rightarrow> json \<Rightarrow> json option \<Rightarrow> upstream_lease_context option \<Rightarrow> nat \<Rightarrow> nat \<Rightarrow> nat \<Rightarrow> tool_audit_metrics" where
  "for_single compact arguments res context =
     metrics_from (length (compact arguments)) (case res of Some r \<Rightarrow> length (compact r) | None \<Rightarrow> 0)
       (reported_token_usage_of res context)"

text \<open>The sums are over the sizes of values held in memory.\<close>

definition for_batch ::
  "(json \<Rightarrow> string) \<Rightarrow> (string \<times> json) list \<Rightarrow> json list option \<Rightarrow> upstream_lease_context option \<Rightarrow> nat \<Rightarrow> nat \<Rightarrow> nat \<Rightarrow>
   tool_audit_metrics" where
  "for_batch compact calls results context =
     metrics_from (sum_list (map (\<lambda>(tool, arguments). length tool + length (compact arguments)) calls))
       (case results of Some items \<Rightarrow> sum_list (map (\<lambda>r. length (compact r)) items) | None \<Rightarrow> 0)
       (reported_token_usage_for_results (case results of Some items \<Rightarrow> items | None \<Rightarrow> []) context)"

definition log_fields :: "tool_audit_metrics \<Rightarrow> (string \<times> json) list" where
  "log_fields m =
     [(''metricsSchema'', JString ''mcpace.toolAuditMetrics.v1''), (''queueDurationMs'', json_number (am_queue_duration_ms m)),
      (''upstreamDurationMs'', json_number (am_upstream_duration_ms m)), (''totalDurationMs'', json_number (am_total_duration_ms m)),
      (''requestBytes'', json_number (am_request_bytes m)), (''responseBytes'', json_number (am_response_bytes m)),
      (''estimatedInputTokens'', json_number (am_estimated_input_tokens m)),
      (''estimatedOutputTokens'', json_number (am_estimated_output_tokens m)),
      (''estimatedTotalTokens'', json_number (sat_add 64 (am_estimated_input_tokens m) (am_estimated_output_tokens m))),
      (''tokenEstimateMethod'', JString ''utf8-bytes-div-4''), (''reportedInputTokens'', optional_number (am_reported_input_tokens m)),
      (''reportedOutputTokens'', optional_number (am_reported_output_tokens m)),
      (''reportedTotalTokens'', optional_number (am_reported_total_tokens m)),
      (''tokenUsageSource'', json_string_or_null (am_token_usage_source m))]"

section \<open>The outcome of a call\<close>

record tool_audit_outcome =
  ao_outcome :: string
  ao_error_kind :: string
  ao_failure_stage :: string

definition mentions :: "string \<Rightarrow> string list \<Rightarrow> bool" where
  "mentions message words = list_ex (contains message) words"

definition classify_tool_audit_outcome :: "bool \<Rightarrow> bool \<Rightarrow> string option \<Rightarrow> tool_audit_outcome" where
  "classify_tool_audit_outcome bridge_ok upstream_ok error =
     (let outcome = (\<lambda>a b c. \<lparr>ao_outcome = a, ao_error_kind = b, ao_failure_stage = c\<rparr>)
      in if bridge_ok \<and> upstream_ok then outcome ''success'' ''none'' ''complete''
         else if bridge_ok then outcome ''tool_error'' ''upstream_tool_error'' ''upstream''
         else let message = to_ascii_lowercase (case error of Some e \<Rightarrow> e | None \<Rightarrow> [])
              in if mentions message [''policy'', ''risk'', ''allowunknown'', ''not allowed'', ''blocked'', ''denied'']
                 then outcome ''denied'' ''policy_denied'' ''policy''
                 else if mentions message [''auth'', ''credential'', ''access token'', ''api token'', ''bearer token'', ''missing token'',
                        ''invalid token'', ''token expired'', ''unauthorized'', ''forbidden'']
                 then outcome ''denied'' ''authorization'' ''authorization''
                 else if mentions message [''timeout'', ''timed out'']
                 then outcome ''timeout'' ''timeout'' (if mentions message [''queue'', ''lease''] then ''queue'' else ''upstream'')
                 else if mentions message [''queue'', ''lease'', ''capacity'', ''busy''] then outcome ''rejected'' ''capacity'' ''queue''
                 else if mentions message [''unknown tool'', ''schema'', ''argument'', ''invalid'', ''duplicate'']
                 then outcome ''invalid'' ''validation'' ''validation''
                 else if mentions message [''spawn'', ''stdio'', ''http'', ''connect'', ''transport'', ''status'', ''process'']
                 then outcome ''transport_error'' ''transport'' ''upstream''
                 else outcome ''bridge_error'' ''internal'' ''bridge'')"

section \<open>Traces and records\<close>

definition short_hash :: "(string \<Rightarrow> 64 word) \<Rightarrow> string \<Rightarrow> string" where
  "short_hash digest v = hex_digits 8 (unat (digest v) mod 2 ^ 32)"

definition argument_fingerprint :: "(string \<Rightarrow> 64 word) \<Rightarrow> (json \<Rightarrow> string) \<Rightarrow> json \<Rightarrow> string" where
  "argument_fingerprint digest compact arguments =
     ''len'' @ show_nat (length (compact arguments)) @ ''-'' @ hex_digits 16 (unat (digest (compact arguments)))"

text \<open>The ellipsis is one character of three bytes.\<close>

definition compact_trace_value :: "string \<Rightarrow> string" where
  "compact_trace_value v =
     (let v = trim v
      in if 48 < count_chars v then take_chars 48 v @ [CHR 0xE2, CHR 0x80, CHR 0xA6] else take_chars 48 v)"

definition context_text :: "(upstream_lease_context \<Rightarrow> string option) \<Rightarrow> upstream_lease_context option \<Rightarrow> string \<Rightarrow> string" where
  "context_text field context fallback = (case Option.bind context field of Some v \<Rightarrow> v | None \<Rightarrow> fallback)"

definition upstream_session_trace ::
  "(string \<Rightarrow> 64 word) \<Rightarrow> string \<Rightarrow> upstream_lease_context option \<Rightarrow> upstream_session_key option \<Rightarrow> string" where
  "upstream_session_trace digest server_name context pool_key =
     (let trace = (\<lambda>session project client hashed.
            ''chat='' @ compact_trace_value session @ '' project='' @ compact_trace_value project @ '' client=''
            @ compact_trace_value client @ '' -> '' @ server_name @ ''#'' @ short_hash digest hashed)
      in case pool_key of
           Some key \<Rightarrow>
             trace (sk_session_id key) (sk_project_root key) (sk_client_id key)
               (sk_server_name key @ ''|'' @ sk_execution_mode key @ ''|'' @ sk_affinity_fingerprint key @ ''|''
                @ sk_server_fingerprint key)
         | None \<Rightarrow>
             let client = context_text lc_client_id context ''mcpace-upstream-bridge'';
                 session = context_text lc_session_id context ''anonymous-session'';
                 project = context_text lc_project_root context ''unresolved-project''
             in trace session project client (server_name @ ''|'' @ session @ ''|'' @ project))"

definition context_field :: "upstream_lease_context option \<Rightarrow> string \<Rightarrow> json" where
  "context_field context key =
     json_string_or_null
       (if key = ''client_id'' then Option.bind context lc_client_id
        else if key = ''session_id'' then Option.bind context lc_session_id
        else if key = ''project_root'' then Option.bind context lc_project_root
        else if key = ''transport'' then Option.bind context lc_transport
        else None)"

fun show_hex :: "nat \<Rightarrow> string" where
  "show_hex n = (if n < 16 then [hex_char n] else show_hex (n div 16) @ [hex_char (n mod 16)])"

declare show_hex.simps [simp del]

definition next_tool_audit_id :: "nat \<Rightarrow> nat \<Rightarrow> string" where
  "next_tool_audit_id timestamp sequence = ''tc-'' @ show_hex timestamp @ ''-'' @ show_hex sequence"

text \<open>A record of the log: its level, its event and its fields.\<close>

type_synonym audit_record = "string \<times> string \<times> (string \<times> json) list"

definition log_tool_call_audit ::
  "(string \<Rightarrow> 64 word) \<Rightarrow> (json \<Rightarrow> string) \<Rightarrow> string \<Rightarrow> string \<Rightarrow> string \<Rightarrow> json \<Rightarrow> upstream_lease_context option \<Rightarrow> bool \<Rightarrow> bool \<Rightarrow>
   bool \<Rightarrow> string option \<Rightarrow> upstream_session_key option \<Rightarrow> tool_audit_metrics \<Rightarrow> string option \<Rightarrow> audit_record" where
  "log_tool_call_audit digest compact call_id server_name tool arguments context bridge_ok upstream_ok pooled lease_id pool_key
     metrics error =
     (let audit = classify_tool_audit_outcome bridge_ok upstream_ok error
      in (if bridge_ok \<and> upstream_ok then ''info'' else ''warn'', ''tool_call_audit'',
          [(''auditSchema'', JString ''mcpace.toolAudit.v2''), (''callId'', JString call_id), (''requestKind'', JString ''tools/call''),
           (''callCount'', json_number 1), (''outcome'', JString (ao_outcome audit)), (''errorKind'', JString (ao_error_kind audit)),
           (''failureStage'', JString (ao_failure_stage audit)), (''server'', JString server_name), (''tool'', JString tool),
           (''bridgeOk'', JBool bridge_ok), (''upstreamOk'', JBool upstream_ok),
           (''upstreamIsError'', JBool (bridge_ok \<and> \<not> upstream_ok)), (''pooled'', JBool pooled),
           (''leaseId'', json_string_or_null lease_id),
           (''trace'', JString (upstream_session_trace digest server_name context pool_key)),
           (''argumentsFingerprint'', JString (argument_fingerprint digest compact arguments)),
           (''clientId'', context_field context ''client_id''), (''sessionId'', context_field context ''session_id''),
           (''projectRoot'', context_field context ''project_root''), (''transport'', context_field context ''transport''),
           (''error'', json_string_or_null error)] @ log_fields metrics))"

definition log_tool_batch_audit ::
  "(string \<Rightarrow> 64 word) \<Rightarrow> (json \<Rightarrow> string) \<Rightarrow> string \<Rightarrow> string \<Rightarrow> (string \<times> json) list \<Rightarrow> upstream_lease_context option \<Rightarrow> bool \<Rightarrow>
   bool \<Rightarrow> string option \<Rightarrow> upstream_session_key option \<Rightarrow> nat \<Rightarrow> nat \<Rightarrow> tool_audit_metrics \<Rightarrow> string option \<Rightarrow> audit_record" where
  "log_tool_batch_audit digest compact call_id server_name calls context bridge_ok pooled lease_id pool_key ok_count failed_count
     metrics error =
     (let upstream_ok = (bridge_ok \<and> failed_count = 0);
          audit = classify_tool_audit_outcome bridge_ok upstream_ok error
      in (if bridge_ok \<and> upstream_ok then ''info'' else ''warn'', ''tool_batch_audit'',
          [(''auditSchema'', JString ''mcpace.toolAudit.v2''), (''callId'', JString call_id),
           (''requestKind'', JString ''tools/call.batch''), (''outcome'', JString (ao_outcome audit)),
           (''errorKind'', JString (ao_error_kind audit)), (''failureStage'', JString (ao_failure_stage audit)),
           (''server'', JString server_name), (''bridgeOk'', JBool bridge_ok), (''upstreamOk'', JBool upstream_ok),
           (''upstreamOkCount'', json_number ok_count), (''upstreamFailedCount'', json_number failed_count),
           (''callCount'', json_number (length calls)), (''tools'', JArray (map (\<lambda>c. JString (fst c)) calls)),
           (''argumentsFingerprints'', JArray (map (\<lambda>c. JString (argument_fingerprint digest compact (snd c))) calls)),
           (''pooled'', JBool pooled), (''leaseId'', json_string_or_null lease_id),
           (''trace'', JString (upstream_session_trace digest server_name context pool_key)),
           (''clientId'', context_field context ''client_id''), (''sessionId'', context_field context ''session_id''),
           (''projectRoot'', context_field context ''project_root''), (''transport'', context_field context ''transport''),
           (''error'', json_string_or_null error)] @ log_fields metrics))"

section \<open>Properties\<close>

text \<open>The audit record does not reveal the arguments of a call: it depends on them only through the length and the digest of
  their text.\<close>

lemma audit_hides_arguments:
  assumes "length (compact a) = length (compact b)" "digest (compact a) = digest (compact b)"
  shows "log_tool_call_audit digest compact i server tool a context x y pooled lid key (for_single compact a res context q u t) error =
    log_tool_call_audit digest compact i server tool b context x y pooled lid key (for_single compact b res context q u t) error"
  using assms by (simp add: log_tool_call_audit_def argument_fingerprint_def for_single_def)

text \<open>The tokens a batch reports are the saturated sum over the results that report any.\<close>

lemma find_map_Some: "find_map f xs = Some y \<Longrightarrow> \<exists>x \<in> set xs. f x = Some y"
  by (induction xs) (auto split: option.splits)

lemma extract_has_usage: "extract_reported_token_usage v = Some u \<Longrightarrow> has_usage u"
  by (auto simp: extract_reported_token_usage_def candidate_usage_def Let_def bind_eq_Some_conv dest!: find_map_Some
      split: if_splits)

lemma usage_source_simps [simp]:
  "ru_input (u\<lparr>ru_source := s\<rparr>) = ru_input u" "ru_output (u\<lparr>ru_source := s\<rparr>) = ru_output u"
  "ru_total (u\<lparr>ru_source := s\<rparr>) = ru_total u" "has_usage (u\<lparr>ru_source := s\<rparr>) = has_usage u"
  by (simp_all add: has_usage_def)

lemma merge_default: "merge_reported_token_usage u usage_default = (if has_usage u then u else usage_default)"
  by (auto simp: merge_reported_token_usage_def usage_default_def has_usage_def or_else_def Let_def split: option.splits)

lemma result_usage:
  "reported_token_usage_of (Some res) None =
     (case extract_reported_token_usage res of Some u \<Rightarrow> u\<lparr>ru_source := Some ''upstream_result''\<rparr> | None \<Rightarrow> usage_default)"
  using extract_has_usage [of res]
  by (auto simp: reported_token_usage_of_def usage_from_def merge_default split: option.splits)

definition counts_sum :: "nat list \<Rightarrow> nat option" where
  "counts_sum ns = (if ns = [] then None else Some (min (sum_list ns) (uint_max 128)))"

lemma counts_sum_step:
  "m \<le> uint_max 128 \<Longrightarrow> add_counts (counts_sum ns) (Some m) = counts_sum (ns @ [m])"
  by (auto simp: counts_sum_def sat_add_def)

lemma usage_fold_counts:
  assumes field: "\<And>a b. f (sum_reported_token_usage a b) = add_counts (f a) (f b)" and "f usage_default = None"
    and "\<And>r n. r \<in> set results \<Longrightarrow> f (reported_token_usage_of (Some r) None) = Some n \<Longrightarrow> n \<le> uint_max 128"
    and "f acc = counts_sum ns"
  shows "f (fold (\<lambda>r a. sum_reported_token_usage a (reported_token_usage_of (Some r) None)) results acc) =
    counts_sum (ns @ List.map_filter (\<lambda>r. f (reported_token_usage_of (Some r) None)) results)"
  using assms(3,4)
proof (induction results arbitrary: acc ns)
  case Nil
  then show ?case by (simp add: List.map_filter_def)
next
  case (Cons r rs)
  have bound: "\<And>r n. r \<in> set rs \<Longrightarrow> f (reported_token_usage_of (Some r) None) = Some n \<Longrightarrow> n \<le> uint_max 128"
    using Cons.prems(1) by (meson list.set_intros(2))
  show ?case
  proof (cases "f (reported_token_usage_of (Some r) None)")
    case None
    then have "f (sum_reported_token_usage acc (reported_token_usage_of (Some r) None)) = counts_sum ns"
      using Cons.prems(2) by (cases "counts_sum ns") (simp_all add: field)
    from Cons.IH [OF bound this] None show ?thesis by (simp add: List.map_filter_def)
  next
    case (Some n)
    then have "f (sum_reported_token_usage acc (reported_token_usage_of (Some r) None)) = counts_sum (ns @ [n])"
      using Cons.prems(2) counts_sum_step [OF Cons.prems(1) [OF _ Some], of ns] by (simp add: field)
    from Cons.IH [OF bound this] Some show ?thesis by (simp add: List.map_filter_def)
  qed
qed

lemma json_u128_bound: "json_u128 v = Some n \<Longrightarrow> n \<le> uint_max 128"
  by (auto simp: json_u128_def parse_uint_def Let_def split: json.splits if_splits)

lemma token_count_bound: "token_count v keys = Some n \<Longrightarrow> n \<le> uint_max 128"
  by (auto simp: token_count_def bind_eq_Some_conv dest!: find_map_Some intro: json_u128_bound)

lemma extract_bound:
  assumes "extract_reported_token_usage v = Some u"
  shows "ru_input u = Some n \<Longrightarrow> n \<le> uint_max 128" "ru_output u = Some n \<Longrightarrow> n \<le> uint_max 128"
  using assms
  by (auto simp: extract_reported_token_usage_def candidate_usage_def Let_def bind_eq_Some_conv dest!: find_map_Some
      split: if_splits dest: token_count_bound)

lemma batch_input_tokens:
  "ru_input (reported_token_usage_for_results results None) =
     counts_sum (List.map_filter (\<lambda>r. Option.bind (extract_reported_token_usage r) ru_input) results)"
proof -
  let ?agg = "fold (\<lambda>r a. sum_reported_token_usage a (reported_token_usage_of (Some r) None)) results usage_default"
  have one: "ru_input (reported_token_usage_of (Some r) None) = Option.bind (extract_reported_token_usage r) ru_input" for r
    by (simp add: result_usage usage_default_def split: option.splits)
  have "ru_input ?agg = counts_sum ([] @ List.map_filter (\<lambda>r. ru_input (reported_token_usage_of (Some r) None)) results)"
    by (rule usage_fold_counts)
      (auto simp: sum_reported_token_usage_def usage_default_def counts_sum_def one bind_eq_Some_conv intro: extract_bound(1))
  moreover have "reported_token_usage_of None None = usage_default"
    by (simp add: reported_token_usage_of_def usage_from_def merge_default)
  moreover have "ru_input (if has_usage u then u else usage_default) = ru_input u" for u
    by (simp add: has_usage_def usage_default_def)
  ultimately show ?thesis by (simp add: reported_token_usage_for_results_def merge_default one)
qed

end
