(* ===== verification/Lease_Runtime.thy ===== *)
theory Lease_Runtime
  imports Tool_Audit Lease_Commands Lease_Queue
begin

text \<open>
  Tool calls under a lease (\<^verbatim>\<open>src/upstream/lease_runtime.rs\<close>): waiting in a lane, acquiring the lease with
  retries, the heartbeat that renews it, the call itself (directly or on a pooled worker), the release, and the audit
  record. The world holds the lease file and the lanes, which other threads and processes change between any two steps
  of a call (\<open>rn_others\<close>), the log, and the trace of what the call did. Clocks, upstream answers and the
  answers of the pool at a step are fields of the environment; lease commands, lanes, policies and the HTTP transport are
  those of the other theories.
\<close>

section \<open>The world of a call\<close>

datatype lease_event =
    EvTicket string nat
  | EvTicketDone string nat
  | EvAcquired string
  | EvCall "string list"
  | EvInvalidate
  | EvReleased string "string + json"

record runtime_world =
  rw_step :: nat
  rw_file :: lease_file
  rw_lanes :: queue_registry
  rw_hub_log :: "log_event list"
  rw_log :: "audit_record list"
  rw_events :: "lease_event list"

record lease_heartbeat =
  hb_lost :: bool
  hb_renewal_count :: nat
  hb_failure_count :: nat

text \<open>Durations are in milliseconds, instants in nanoseconds. The retry wait answers whether it timed out and the time read
  after it; \<open>rn_rounds\<close> bounds the number of attempts considered.\<close>

record runtime_env =
  rn_config :: config_env
  rn_registry :: "string + mcp_server_entry list"
  rn_config_file :: "(string + json) option"
  rn_profile :: "string + (string \<times> bool) list"
  rn_digest :: "string \<Rightarrow> 64 word"
  rn_compact :: "json \<Rightarrow> string"
  rn_settings :: "nat \<times> nat"
  rn_allow_var :: "string option"
  rn_others :: "nat \<Rightarrow> lease_file \<times> queue_registry \<Rightarrow> lease_file \<times> queue_registry"
  rn_hub :: "nat \<Rightarrow> hub_env"
  rn_now :: "nat \<Rightarrow> nat"
  rn_stamp :: "nat \<Rightarrow> nat \<times> nat"
  rn_wakes :: "nat \<Rightarrow> wake_up list"
  rn_retry :: "nat \<Rightarrow> bool \<times> nat"
  rn_rounds :: nat
  rn_heartbeat :: "nat \<Rightarrow> lease_heartbeat"
  rn_listed :: "nat \<Rightarrow> string + json \<times> bool"
  rn_http :: "nat \<Rightarrow> http_env"
  rn_stdio :: "nat \<Rightarrow> string \<Rightarrow> json \<Rightarrow> string + json"
  rn_stdio_batch :: "nat \<Rightarrow> (string \<times> json) list \<Rightarrow> string + json list"
  rn_checkout :: "nat \<Rightarrow> upstream_session_key \<Rightarrow> upstream_session_pool_error + unit"
  rn_pool_cached :: "nat \<Rightarrow> json option"
  rn_pool_list :: "nat \<Rightarrow> upstream_session_pool_error + json"
  rn_pool_call :: "nat \<Rightarrow> string \<Rightarrow> json \<Rightarrow> upstream_session_pool_error + json"
  rn_pool_batch :: "nat \<Rightarrow> (string \<times> json) list \<Rightarrow> upstream_session_pool_error + json list"
  rn_pool_outcome :: "nat \<Rightarrow> upstream_session_pool_error + pool_call_outcome"

text \<open>A call finishes with an error or a value, waits for a lane or a lease after the given wake-ups and rounds, or ends
  with the process (a panic aborts it).\<close>

datatype 'a call_outcome = Finished "string + 'a" | Waiting | Aborted

definition step_world :: "runtime_env \<Rightarrow> runtime_world \<Rightarrow> runtime_world" where
  "step_world env w =
     (let (f, l) = rn_others env (rw_step w) (rw_file w, rw_lanes w)
      in w\<lparr>rw_step := Suc (rw_step w), rw_file := f, rw_lanes := l\<rparr>)"

definition read_clock :: "runtime_env \<Rightarrow> runtime_world \<Rightarrow> nat \<times> runtime_world" where
  "read_clock env w = (rn_now env (rw_step w), step_world env w)"

definition emit :: "lease_event \<Rightarrow> runtime_world \<Rightarrow> runtime_world" where
  "emit e w = w\<lparr>rw_events := rw_events w @ [e]\<rparr>"

definition elapsed_ms :: "nat \<Rightarrow> nat \<Rightarrow> nat" where
  "elapsed_ms started now = (now - started) div 1000000"

section \<open>The heartbeat\<close>

definition lease_heartbeat_interval :: "nat \<Rightarrow> nat" where
  "lease_heartbeat_interval ttl_ms =
     (let ttl_ms = min ttl_ms (uint_max 64);
          upper_bound = max (ttl_ms - 1) 1
      in min (clamp 50 30000 (ttl_ms div 3)) upper_bound)"

text \<open>One round of the heartbeat thread: the stop flag read at its head and after the sleep, and the answer of the renewal.\<close>

fun heartbeat_loop :: "(bool \<times> bool \<times> (string + json)) list \<Rightarrow> lease_heartbeat \<Rightarrow> lease_heartbeat" where
  "heartbeat_loop [] hb = hb"
| "heartbeat_loop ((stop, stop_after_sleep, renewal) # rounds) hb =
     (if stop \<or> stop_after_sleep then hb
      else if (case renewal of Inr v \<Rightarrow> string_at_path v [''status''] = Some ''renewed'' | Inl _ \<Rightarrow> False)
      then heartbeat_loop rounds (hb\<lparr>hb_renewal_count := hb_renewal_count hb + 1\<rparr>)
      else hb\<lparr>hb_failure_count := hb_failure_count hb + 1, hb_lost := True\<rparr>)"

fun sleep_interruptibly :: "nat \<Rightarrow> (bool \<times> nat) list \<Rightarrow> nat list" where
  "sleep_interruptibly deadline [] = []"
| "sleep_interruptibly deadline ((stop, now) # reads) =
     (if stop \<or> deadline \<le> now then [] else min (deadline - now) 25000000 # sleep_interruptibly deadline reads)"

section \<open>Leases\<close>

record lease_queue_metrics =
  qm_attempts :: nat
  qm_wait_ms :: nat
  qm_timeout_ms :: nat
  qm_ticket :: "nat option"
  qm_depth_at_enqueue :: nat
  qm_ahead_at_enqueue :: nat

record upstream_lease_guard =
  lg_lease_id :: string
  lg_lease :: json
  lg_queue :: lease_queue_metrics
  lg_affinity :: execution_affinity_key

record upstream_lease_outcome =
  lo_lease_id :: "string option"
  lo_lease :: json
  lo_release :: json
  lo_heartbeat :: lease_heartbeat
  lo_queue :: lease_queue_metrics

definition lease_command ::
  "runtime_env \<Rightarrow> (hub_env \<Rightarrow> lease_file \<Rightarrow> 'a \<times> lease_file \<times> log_event list) \<Rightarrow> runtime_world \<Rightarrow> 'a \<times> runtime_world" where
  "lease_command env f w =
     (let n = rw_step w; w = step_world env w
      in case f (rn_hub env n) (rw_file w) of
           (r, file', log) \<Rightarrow> (r, w\<lparr>rw_file := file', rw_hub_log := rw_hub_log w @ log\<rparr>))"

definition notify_lanes :: "runtime_world \<Rightarrow> runtime_world" where
  "notify_lanes w = w\<lparr>rw_lanes := notify_all_lanes (rw_lanes w)\<rparr>"

definition release_lease :: "runtime_env \<Rightarrow> string \<Rightarrow> runtime_world \<Rightarrow> (string + json) \<times> runtime_world" where
  "release_lease env lease_id w =
     (case lease_command env (\<lambda>h. release_runtime_lease h lease_id) w of (r, w) \<Rightarrow> (r, emit (EvReleased lease_id r) w))"

text \<open>\<open>Drop\<close> of a guard that is not released, and its \<open>release\<close>.\<close>

definition guard_drop :: "runtime_env \<Rightarrow> upstream_lease_guard \<Rightarrow> runtime_world \<Rightarrow> runtime_world" where
  "guard_drop env g w = notify_lanes (snd (release_lease env (lg_lease_id g) w))"

definition guard_release :: "runtime_env \<Rightarrow> upstream_lease_guard \<Rightarrow> runtime_world \<Rightarrow> (string + json) \<times> runtime_world" where
  "guard_release env g w =
     (case release_lease env (lg_lease_id g) w of
        (Inl e, w) \<Rightarrow> (Inl e, w)
      | (Inr v, w) \<Rightarrow> (Inr v, notify_lanes w))"

text \<open>The counters of the heartbeat are read before it is stopped; a guard whose release failed is dropped, which tries
  again.\<close>

definition finalize_upstream_lease ::
  "runtime_env \<Rightarrow> upstream_lease_guard \<Rightarrow> runtime_world \<Rightarrow> (string + upstream_lease_outcome) \<times> runtime_world" where
  "finalize_upstream_lease env g w =
     (let hb = rn_heartbeat env (rw_step w)
      in case guard_release env g w of
           (Inl e, w) \<Rightarrow> (Inl e, guard_drop env g w)
         | (Inr v, w) \<Rightarrow>
             (Inr \<lparr>lo_lease_id = Some (lg_lease_id g), lo_lease = lg_lease g, lo_release = v, lo_heartbeat = hb,
                   lo_queue = lg_queue g\<rparr>, w))"

definition upstream_lease_entries :: "upstream_lease_outcome \<Rightarrow> (string \<times> json) list" where
  "upstream_lease_entries outcome =
     [(''leaseAttached'', JBool True), (''leaseId'', json_string_or_null (lo_lease_id outcome)), (''lease'', lo_lease outcome),
      (''leaseReleased'', JBool True), (''leaseRelease'', lo_release outcome), (''leaseBypassReason'', JNull),
      (''leaseHeartbeatStarted'', JBool True),
      (''leaseHeartbeatRenewalCount'', json_number (hb_renewal_count (lo_heartbeat outcome))),
      (''leaseHeartbeatLost'', JBool (hb_lost (lo_heartbeat outcome))),
      (''leaseHeartbeatFailureCount'', json_number (hb_failure_count (lo_heartbeat outcome))),
      (''leaseQueueAttempts'', json_number (qm_attempts (lo_queue outcome))),
      (''leaseQueueWaitMs'', json_number (qm_wait_ms (lo_queue outcome))),
      (''leaseQueueTimeoutMs'', json_number (qm_timeout_ms (lo_queue outcome))),
      (''leaseQueueTicket'', optional_number (qm_ticket (lo_queue outcome))),
      (''leaseQueueDepthAtEnqueue'', json_number (qm_depth_at_enqueue (lo_queue outcome))),
      (''leaseQueueAheadAtEnqueue'', json_number (qm_ahead_at_enqueue (lo_queue outcome)))]"

definition upstream_pool_entries :: "pool_call_outcome \<Rightarrow> (string \<times> json) list" where
  "upstream_pool_entries outcome =
     [(''sessionPoolEnabled'', JBool True), (''sessionPoolHit'', JBool (oc_hit outcome)),
      (''sessionPoolReused'', JBool (oc_hit outcome)),
      (''sessionPoolSessionCallCount'', json_number (oc_session_call_count outcome)),
      (''sessionPoolSessionAgeMs'', json_number (oc_session_age_ms outcome)), (''sessionPoolSize'', json_number (oc_pool_size outcome)),
      (''sessionPoolMaxSize'', json_number (oc_max_pool_size outcome)), (''sessionPoolIdleTtlMs'', json_number (oc_idle_ttl_ms outcome)),
      (''sessionPoolEvictedIdleCount'', json_number (oc_evicted_idle_count outcome)),
      (''sessionPoolEvictedCapacityCount'', json_number (oc_evicted_capacity_count outcome))]"

section \<open>Acquisition\<close>

definition cache_root_path :: "config_env \<Rightarrow> string" where
  "cache_root_path cfg = canonical_or cfg (cg_root cfg)"

definition execution_affinity_key ::
  "runtime_env \<Rightarrow> upstream_server_config \<Rightarrow> upstream_lease_context option \<Rightarrow> string + execution_affinity_key" where
  "execution_affinity_key env server context =
     (case affinity_key (rn_digest env) (rn_compact env) (sv_execution server)
            \<lparr>ac_client_id = Option.bind context lc_client_id, ac_session_id = Option.bind context lc_session_id,
             ac_project_root = Option.bind context lc_project_root,
             ac_transport = or_else (Option.bind context lc_transport) (Some (sv_source_type server)),
             ac_metadata = Option.bind context lc_metadata\<rparr> of
        Inl e \<Rightarrow> Inl (execution_policy_error_display e)
      | Inr k \<Rightarrow> Inr k)"

definition upstream_lease_lane_key :: "runtime_env \<Rightarrow> upstream_server_config \<Rightarrow> execution_affinity_key \<Rightarrow> string" where
  "upstream_lease_lane_key env server affinity =
     ''root='' @ short_hash (rn_digest env) (cache_root_path (rn_config env))
     @ ''|server='' @ short_hash (rn_digest env) (server_fingerprint (rn_digest env) server)
     @ ''|affinity='' @ short_hash (rn_digest env) (ak_fingerprint affinity)"

definition upstream_session_key :: "runtime_env \<Rightarrow> upstream_server_config \<Rightarrow> execution_affinity_key \<Rightarrow> upstream_session_key" where
  "upstream_session_key env server affinity =
     UpstreamSessionKey (cache_root_path (rn_config env)) (sv_name server) (fst (rn_settings env)) (snd (rn_settings env))
       (server_fingerprint (rn_digest env) server) (ak_client_id affinity) (ak_session_id affinity) (ak_project_root affinity)
       (ak_transport affinity) (mode_str (ep_mode (sv_execution server))) (ak_fingerprint affinity)"

definition effective_ttl :: "upstream_lease_context option \<Rightarrow> nat \<Rightarrow> nat" where
  "effective_ttl context timeout_ms =
     (case Option.bind context lc_ttl_ms of
        Some ttl \<Rightarrow> if 0 < ttl then ttl else sat_add 128 timeout_ms 5000
      | None \<Rightarrow> sat_add 128 timeout_ms 5000)"

definition lease_request ::
  "runtime_env \<Rightarrow> upstream_server_config \<Rightarrow> upstream_lease_context option \<Rightarrow> nat \<Rightarrow> runtime_lease_request" where
  "lease_request env server context ttl_ms =
     \<lparr>q_server_name = sv_name server,
      q_client_id = or_else (trimmed_non_empty_owned (Option.bind context lc_client_id)) (Some ''mcpace-upstream-bridge''),
      q_session_id = trimmed_non_empty_owned (Option.bind context lc_session_id),
      q_project_root = or_else (trimmed_non_empty_owned (Option.bind context lc_project_root))
        (Some (child_process_path (cg_root (rn_config env)))),
      q_transport = or_else (trimmed_non_empty_owned (Option.bind context lc_transport)) (Some (sv_source_type server)),
      q_metadata_json = map_option (rn_compact env) (Option.bind context lc_metadata),
      q_ttl_ms = Some ttl_ms, q_takeover = False\<rparr>"

definition acquire_lease ::
  "runtime_env \<Rightarrow> runtime_lease_request \<Rightarrow> runtime_world \<Rightarrow> (string + runtime_lease_acquire_result) \<times> runtime_world" where
  "acquire_lease env request w =
     (case lease_command env (\<lambda>h. acquire_runtime_lease h request) w of
        (Inr (Acquired lid v), w) \<Rightarrow> (Inr (Acquired lid v), emit (EvAcquired lid) w)
      | (r, w) \<Rightarrow> (r, w))"

definition lease_of :: "json \<Rightarrow> json" where
  "lease_of v = (case value_at_path v [''lease''] of Some l \<Rightarrow> l | None \<Rightarrow> v)"

definition runtime_lease_blocked_error :: "runtime_env \<Rightarrow> string \<Rightarrow> string \<Rightarrow> json \<Rightarrow> string" where
  "runtime_lease_blocked_error env server_name reason v =
     ''runtime lease blocked for upstream server '' @ squote server_name @ '': '' @ reason @ '' | '' @ rn_compact env v"

definition runtime_lease_lost_error :: "string \<Rightarrow> string \<Rightarrow> string list \<Rightarrow> string" where
  "runtime_lease_lost_error server_name name stderr =
     ''runtime lease lost while waiting for upstream server '' @ squote server_name @ '' response to '' @ name
     @ ''; upstream process was cancelled before using a stale result'' @ stderr_suffix stderr"

definition acquire_upstream_lease_once ::
  "runtime_env \<Rightarrow> upstream_server_config \<Rightarrow> runtime_lease_request \<Rightarrow> lease_queue_metrics \<Rightarrow> execution_affinity_key \<Rightarrow>
   runtime_world \<Rightarrow> upstream_lease_guard call_outcome \<times> runtime_world" where
  "acquire_upstream_lease_once env server request queue affinity w =
     (case acquire_lease env request w of
        (Inl e, w) \<Rightarrow> (Finished (Inl e), w)
      | (Inr (Acquired lid v), w) \<Rightarrow>
          (Finished (Inr \<lparr>lg_lease_id = lid, lg_lease = lease_of v, lg_queue = queue, lg_affinity = affinity\<rparr>), w)
      | (Inr (Blocked v), w) \<Rightarrow>
          (Finished (Inl (runtime_lease_blocked_error env (sv_name server)
             (unwrap_or (string_at_path v [''reason'']) ''runtime lease acquisition was blocked'') v)), w))"

definition in_lane :: "string \<Rightarrow> (queue_lane \<Rightarrow> queue_lane) \<Rightarrow> runtime_world \<Rightarrow> runtime_world" where
  "in_lane key f w =
     (case map_of (lanes (rw_lanes w)) key of
        Some lane \<Rightarrow> w\<lparr>rw_lanes := (rw_lanes w)\<lparr>lanes := bt_insert key (f lane) (lanes (rw_lanes w))\<rparr>\<rparr>
      | None \<Rightarrow> w)"

text \<open>A ticket ends exactly once, completed or dropped.\<close>

definition end_ticket :: "(nat \<Rightarrow> queue_lane \<Rightarrow> queue_lane) \<Rightarrow> string \<Rightarrow> nat \<Rightarrow> runtime_world \<Rightarrow> runtime_world" where
  "end_ticket f key tick w = emit (EvTicketDone key tick) (in_lane key (f tick) w)"

definition take_ticket ::
  "runtime_env \<Rightarrow> string \<Rightarrow> nat \<Rightarrow> runtime_world \<Rightarrow> (lease_queue_error + lease_queue_position) \<times> runtime_world" where
  "take_ticket env key max_depth w =
     (let w = step_world env w
      in case enqueue key max_depth (rw_lanes w) of
           (Inl e, r) \<Rightarrow> (Inl e, w\<lparr>rw_lanes := r\<rparr>)
         | (Inr p, r) \<Rightarrow> (Inr p, emit (EvTicket key (ticket p)) (w\<lparr>rw_lanes := r\<rparr>)))"

definition wait_for_head ::
  "runtime_env \<Rightarrow> string \<Rightarrow> nat \<Rightarrow> nat \<Rightarrow> runtime_world \<Rightarrow> (lease_queue_error + unit) option \<times> runtime_world" where
  "wait_for_head env key tick deadline w =
     (let n = rw_step w; w = step_world env w
      in case map_of (lanes (rw_lanes w)) key of
           None \<Rightarrow> (Some (Inl Poisoned), w)
         | Some lane \<Rightarrow>
             (case wait_until_head key tick deadline (rn_now env n) (ql_state lane) (rn_wakes env n) of
                (r, s) \<Rightarrow> (r, in_lane key (\<lambda>lane. lane\<lparr>ql_state := s\<rparr>) w)))"

text \<open>The attempts while the ticket is the head of its lane.\<close>

fun acquire_rounds ::
  "runtime_env \<Rightarrow> upstream_server_config \<Rightarrow> runtime_lease_request \<Rightarrow> string \<Rightarrow> lease_queue_position \<Rightarrow> execution_affinity_key \<Rightarrow>
   nat \<Rightarrow> nat \<Rightarrow> nat \<Rightarrow> nat \<Rightarrow> runtime_world \<Rightarrow> upstream_lease_guard call_outcome \<times> runtime_world" where
  "acquire_rounds env server request key position affinity queued_at deadline 0 attempts w = (Waiting, w)"
| "acquire_rounds env server request key position affinity queued_at deadline (Suc rounds) attempts w =
     (let attempts = sat_add 64 attempts 1
      in case acquire_lease env request w of
           (Inl e, w) \<Rightarrow> (Finished (Inl e), end_ticket drop_ticket key (ticket position) w)
         | (Inr (Acquired lid v), w) \<Rightarrow>
             (let (now, w) = read_clock env w;
                  queue = \<lparr>qm_attempts = attempts, qm_wait_ms = elapsed_ms queued_at now,
                    qm_timeout_ms = ep_queue_timeout_ms (sv_execution server), qm_ticket = Some (ticket position),
                    qm_depth_at_enqueue = depth_at_enqueue position, qm_ahead_at_enqueue = ahead_at_enqueue position\<rparr>
              in (Finished (Inr \<lparr>lg_lease_id = lid, lg_lease = lease_of v, lg_queue = queue, lg_affinity = affinity\<rparr>),
                  end_ticket complete key (ticket position) w))
         | (Inr (Blocked v), w) \<Rightarrow>
             (let (now, w) = read_clock env w
              in if deadline \<le> now
                 then (let (later, w) = read_clock env w
                       in (Finished (Inl (''upstream lease queue timed out for server '' @ squote (sv_name server) @ '' after ''
                             @ show_nat (elapsed_ms queued_at later) @ '' ms and '' @ show_nat attempts @ '' attempt(s): ''
                             @ unwrap_or (string_at_path v [''reason'']) ''runtime lease acquisition remained blocked''
                             @ '' | '' @ rn_compact env v)),
                           end_ticket drop_ticket key (ticket position) w))
                 else let n = rw_step w; (now, w) = read_clock env w; (timed_out, later) = rn_retry env n
                      in case wait_for_retry key (ticket position) deadline now timed_out later of
                           Inl e \<Rightarrow> (Finished (Inl (lease_queue_error_display e)), end_ticket drop_ticket key (ticket position) w)
                         | Inr _ \<Rightarrow>
                             acquire_rounds env server request key position affinity queued_at deadline rounds attempts w))"

definition acquire_upstream_lease ::
  "runtime_env \<Rightarrow> upstream_server_config \<Rightarrow> upstream_lease_context option \<Rightarrow> nat \<Rightarrow> runtime_world \<Rightarrow>
   upstream_lease_guard call_outcome \<times> runtime_world" where
  "acquire_upstream_lease env server context timeout_ms w =
     (if is_disabled (sv_execution server)
      then (Finished (Inl (''upstream server '' @ squote (sv_name server) @ '' is disabled by execution policy'')), w)
      else case execution_affinity_key env server context of
             Inl e \<Rightarrow> (Finished (Inl e), w)
           | Inr affinity \<Rightarrow>
               (let request = lease_request env server context (effective_ttl context timeout_ms);
                    queue_timeout_ms = ep_queue_timeout_ms (sv_execution server)
                in if queue_timeout_ms = 0
                   then acquire_upstream_lease_once env server request
                          \<lparr>qm_attempts = 1, qm_wait_ms = 0, qm_timeout_ms = 0, qm_ticket = None, qm_depth_at_enqueue = 0,
                           qm_ahead_at_enqueue = 0\<rparr> affinity w
                   else let (queued_at, w) = read_clock env w;
                            deadline = queued_at + queue_timeout_ms * 1000000;
                            key = upstream_lease_lane_key env server affinity
                        in case take_ticket env key (ep_max_queue_depth (sv_execution server)) w of
                             (Inl e, w) \<Rightarrow> (Finished (Inl (lease_queue_error_display e)), w)
                           | (Inr position, w) \<Rightarrow>
                               (case wait_for_head env key (ticket position) deadline w of
                                  (None, w) \<Rightarrow> (Waiting, w)
                                | (Some (Inl e), w) \<Rightarrow>
                                    (Finished (Inl (lease_queue_error_display e)), end_ticket drop_ticket key (ticket position) w)
                                | (Some (Inr _), w) \<Rightarrow>
                                    acquire_rounds env server request key position affinity queued_at deadline (rn_rounds env) 0 w)))"

section \<open>The exchange with the server\<close>

definition remaining_upstream_timeout ::
  "runtime_env \<Rightarrow> nat \<Rightarrow> string \<Rightarrow> string \<Rightarrow> runtime_world \<Rightarrow> (string + nat) \<times> runtime_world" where
  "remaining_upstream_timeout env deadline server_name phase w =
     (let (now, w) = read_clock env w
      in if deadline \<le> now
         then (Inl (''upstream server '' @ squote server_name @ '' timed out before '' @ phase), w)
         else (Inr (deadline - now), w))"

text \<open>A request on the transport of the server; \<open>None\<close> means that it ended the process.\<close>

definition send_call ::
  "runtime_env \<Rightarrow> upstream_server_config \<Rightarrow> string list \<Rightarrow> (http_env \<Rightarrow> (http_probe_error + 'm) \<times> http_delete list) \<Rightarrow>
   (nat \<Rightarrow> string + 'm) \<Rightarrow> runtime_world \<Rightarrow> (string + 'm) option \<times> runtime_world" where
  "send_call env server tools http stdio w =
     (let n = rw_step w; w = emit (EvCall tools) (step_world env w)
      in (if sv_source_type server = ''http''
          then (case fst (http (rn_http env n)) of
                  Inl (HttpProbeError m) \<Rightarrow> Some (Inl m)
                | Inl ProbePanic \<Rightarrow> None
                | Inr v \<Rightarrow> Some (Inr v))
          else Some (stdio n), w))"

text \<open>What the part of a call under the lease comes to: the payload with what was found out about it, or an error with the
  payload if there was one; the number is the duration in milliseconds.\<close>

datatype ('m, 'x) call_body = BodyOk 'm 'x nat | BodyErr string "'m option" nat | BodyAborted

definition with_hint :: "string + json \<times> bool \<Rightarrow> string + json \<times> string" where
  "with_hint listed =
     (case listed of Inl e \<Rightarrow> Inl e | Inr (tools, hit) \<Rightarrow> Inr (tools, if hit then '' from cache'' else []))"

definition direct_body ::
  "runtime_env \<Rightarrow> upstream_server_config \<Rightarrow> string \<Rightarrow> nat \<Rightarrow> string \<Rightarrow> (string + json \<times> string \<Rightarrow> string + unit) \<Rightarrow>
   (runtime_world \<Rightarrow> (string + 'm) option \<times> runtime_world) \<Rightarrow> ('m \<Rightarrow> string + 'x) \<Rightarrow> runtime_world \<Rightarrow>
   ('m, 'x) call_body \<times> runtime_world" where
  "direct_body env server server_name timeout_ms phase known send inspect w =
     (let (begun, w) = read_clock env w;
          deadline = begun + timeout_ms * 1000000
      in case remaining_upstream_timeout env deadline server_name ''tools/list verification'' w of
           (Inl e, w) \<Rightarrow> (BodyErr e None 0, w)
         | (Inr _, w) \<Rightarrow>
             (let listed = with_hint (rn_listed env (rw_step w)); w = step_world env w
              in case known listed of
                   Inl e \<Rightarrow> (BodyErr e None 0, w)
                 | Inr _ \<Rightarrow>
                     (let (started, w) = read_clock env w
                      in case remaining_upstream_timeout env deadline server_name phase w of
                           (Inl e, w) \<Rightarrow> (let (now, w) = read_clock env w in (BodyErr e None (elapsed_ms started now), w))
                         | (Inr _, w) \<Rightarrow>
                             (case send w of
                                (None, w) \<Rightarrow> (BodyAborted, w)
                              | (Some r, w) \<Rightarrow>
                                  (let (now, w) = read_clock env w; took = elapsed_ms started now
                                   in case r of
                                        Inl e \<Rightarrow> (BodyErr e None took, w)
                                      | Inr v \<Rightarrow>
                                          (case inspect v of
                                             Inl e \<Rightarrow> (BodyErr e (Some v) took, w)
                                           | Inr x \<Rightarrow> (BodyOk v x took, w)))))))"

definition verified_tool_names_for_call_with_pool ::
  "string option \<Rightarrow> upstream_server_config \<Rightarrow> json option \<Rightarrow> upstream_session_pool_error + json \<Rightarrow> upstream_lease_context option \<Rightarrow>
   string + string list" where
  "verified_tool_names_for_call_with_pool var server cached listed context =
     (if \<not> known_tool_validation_required var context then Inr []
      else case cached of
             Some tools \<Rightarrow> tool_names_from_tools_list server tools '' from cache''
           | None \<Rightarrow>
               (case listed of
                  Inl e \<Rightarrow> Inl (session_pool_error_display e)
                | Inr res \<Rightarrow>
                    (case validate_tools_list_result (sv_name server) res of
                       Inl e \<Rightarrow> Inl (tool_list_cache_error_display e)
                     | Inr tools \<Rightarrow> tool_names_from_tools_list server tools '' from pooled session'')))"

definition validate_upstream_tool_known_with_pool ::
  "string option \<Rightarrow> upstream_server_config \<Rightarrow> json option \<Rightarrow> upstream_session_pool_error + json \<Rightarrow> string \<Rightarrow>
   upstream_lease_context option \<Rightarrow> string + unit" where
  "validate_upstream_tool_known_with_pool var server cached listed tool context =
     (case verified_tool_names_for_call_with_pool var server cached listed context of
        Inl e \<Rightarrow> Inl e
      | Inr names \<Rightarrow> ensure_tool_name_in_verified_set server tool names)"

definition validate_upstream_batch_tools_known_with_pool ::
  "string option \<Rightarrow> upstream_server_config \<Rightarrow> json option \<Rightarrow> upstream_session_pool_error + json \<Rightarrow> (string \<times> json) list \<Rightarrow>
   upstream_lease_context option \<Rightarrow> string + unit" where
  "validate_upstream_batch_tools_known_with_pool var server cached listed calls context =
     (if calls = [] then Inr ()
      else case verified_tool_names_for_call_with_pool var server cached listed context of
             Inl e \<Rightarrow> Inl e
           | Inr names \<Rightarrow> ensure_tools_in_verified_set server calls names)"

text \<open>The same on a pooled worker: check out, verify, call, inspect (an invalid result invalidates the worker), report.\<close>

definition pooled_body ::
  "runtime_env \<Rightarrow> upstream_session_key \<Rightarrow> string list \<Rightarrow> (json option \<Rightarrow> upstream_session_pool_error + json \<Rightarrow> string + unit) \<Rightarrow>
   (nat \<Rightarrow> upstream_session_pool_error + 'm) \<Rightarrow> ('m \<Rightarrow> string + 'x) \<Rightarrow> runtime_world \<Rightarrow>
   ('m, 'x \<times> pool_call_outcome) call_body \<times> runtime_world" where
  "pooled_body env key tools known call inspect w =
     (let (started, w) = read_clock env w;
          fail = (\<lambda>e w. let (now, w) = read_clock env w in (BodyErr e None (elapsed_ms started now), w));
          checkout = rn_checkout env (rw_step w) key;
          w = step_world env w
      in case checkout of
           Inl e \<Rightarrow> fail (session_pool_error_display e) w
         | Inr _ \<Rightarrow>
             (let n = rw_step w; w = step_world env w
              in case known (rn_pool_cached env n) (rn_pool_list env n) of
                   Inl e \<Rightarrow> fail e w
                 | Inr _ \<Rightarrow>
                     (let n = rw_step w; w = emit (EvCall tools) (step_world env w)
                      in case call n of
                           Inl e \<Rightarrow> fail (session_pool_error_display e) w
                         | Inr v \<Rightarrow>
                             (case inspect v of
                                Inl e \<Rightarrow>
                                  (let w = emit EvInvalidate w; (now, w) = read_clock env w
                                   in (BodyErr e (Some v) (elapsed_ms started now), w))
                              | Inr x \<Rightarrow>
                                  (let n = rw_step w; w = step_world env w
                                   in case rn_pool_outcome env n of
                                        Inl e \<Rightarrow> fail (session_pool_error_display e) w
                                      | Inr outcome \<Rightarrow>
                                          (let (now, w) = read_clock env w
                                           in (BodyOk v (x, outcome) (elapsed_ms started now), w)))))))"

section \<open>A call under a lease\<close>

definition write_audit :: "runtime_env \<Rightarrow> (string \<Rightarrow> audit_record) \<Rightarrow> runtime_world \<Rightarrow> runtime_world" where
  "write_audit env audit w =
     (let (timestamp, sequence) = rn_stamp env (rw_step w); w = step_world env w
      in w\<lparr>rw_log := rw_log w @ [audit (next_tool_audit_id timestamp sequence)]\<rparr>)"

text \<open>The frame of the four call functions: policy, lease, body, release, audit. The audit is made from the pool key, the lease
  id, the payload, the metrics and the error; the answer from the payload, what is known about it, the metrics and the
  outcome of the lease. A guard that was not released is dropped after the audit, when the function returns.\<close>

definition leased_call ::
  "runtime_env \<Rightarrow> upstream_server_config \<Rightarrow> upstream_lease_context option \<Rightarrow> nat \<Rightarrow> nat \<Rightarrow> string + unit \<Rightarrow>
   (upstream_lease_guard \<Rightarrow> upstream_session_key option) \<Rightarrow>
   (upstream_session_key option \<Rightarrow> string option \<Rightarrow> ('m \<times> 'x) option \<Rightarrow> tool_audit_metrics \<Rightarrow> string option \<Rightarrow> string \<Rightarrow> audit_record) \<Rightarrow>
   ('m option \<Rightarrow> nat \<Rightarrow> nat \<Rightarrow> nat \<Rightarrow> tool_audit_metrics) \<Rightarrow>
   (upstream_lease_guard \<Rightarrow> runtime_world \<Rightarrow> ('m, 'x) call_body \<times> runtime_world) \<Rightarrow>
   ('m \<Rightarrow> 'x \<Rightarrow> tool_audit_metrics \<Rightarrow> upstream_lease_outcome \<Rightarrow> json) \<Rightarrow> runtime_world \<Rightarrow> json call_outcome \<times> runtime_world" where
  "leased_call env server context timeout_ms begun policy key_of audit metrics_of body answer w =
     (let fail = (\<lambda>key payload queue_ms upstream_ms e w.
            let (now, w) = read_clock env w
            in write_audit env (audit key None None (metrics_of payload queue_ms upstream_ms (elapsed_ms begun now)) (Some e)) w)
      in case policy of
           Inl e \<Rightarrow> (Finished (Inl e), fail None None 0 0 e w)
         | Inr _ \<Rightarrow>
             (let (queued, w) = read_clock env w
              in case acquire_upstream_lease env server context timeout_ms w of
                   (Waiting, w) \<Rightarrow> (Waiting, w)
                 | (Aborted, w) \<Rightarrow> (Aborted, w)
                 | (Finished (Inl e), w) \<Rightarrow>
                     (let (now, w) = read_clock env w in (Finished (Inl e), fail None None (elapsed_ms queued now) 0 e w))
                 | (Finished (Inr g), w) \<Rightarrow>
                     (let (now, w) = read_clock env w; queue_ms = elapsed_ms queued now
                      in case body g w of
                           (BodyAborted, w) \<Rightarrow> (Aborted, w)
                         | (BodyErr e payload took, w) \<Rightarrow>
                             (Finished (Inl e), guard_drop env g (fail (key_of g) payload queue_ms took e w))
                         | (BodyOk v x took, w) \<Rightarrow>
                             (case finalize_upstream_lease env g w of
                                (Inl e, w) \<Rightarrow> (Finished (Inl e), fail (key_of g) (Some v) queue_ms took e w)
                              | (Inr outcome, w) \<Rightarrow>
                                  (let (now, w) = read_clock env w;
                                       metrics = metrics_of (Some v) queue_ms took (elapsed_ms begun now)
                                   in (Finished (Inr (answer v x metrics outcome)),
                                       write_audit env (audit (key_of g) (lo_lease_id outcome) (Some (v, x)) metrics None) w))))))"

section \<open>The call functions\<close>

definition resolve_server :: "runtime_env \<Rightarrow> string \<Rightarrow> string + upstream_server_config" where
  "resolve_server env server_name =
     (case load_servers (rn_config env) (rn_registry env) (rn_config_file env) (rn_profile env) of
        Inl e \<Rightarrow> Inl (server_config_error_display e)
      | Inr servers \<Rightarrow>
          (case find_server servers server_name of
             None \<Rightarrow> Inl (''upstream server '' @ squote server_name @ '' is not configured'')
           | Some server \<Rightarrow>
               (case ensure_callable_stdio (rn_config env) server of Inl e \<Rightarrow> Inl e | Inr _ \<Rightarrow> Inr server)))"

definition call_params :: "string \<Rightarrow> json \<Rightarrow> json" where
  "call_params tool arguments = json_object [(''name'', JString tool), (''arguments'', arguments)]"

text \<open>The audit of a single call: without an error the bridge succeeded, and the payload says whether the tool did.\<close>

definition single_audit ::
  "runtime_env \<Rightarrow> string \<Rightarrow> string \<Rightarrow> json \<Rightarrow> upstream_lease_context option \<Rightarrow> bool \<Rightarrow> ('x \<Rightarrow> bool) \<Rightarrow> upstream_session_key option \<Rightarrow>
   string option \<Rightarrow> (json \<times> 'x) option \<Rightarrow> tool_audit_metrics \<Rightarrow> string option \<Rightarrow> string \<Rightarrow> audit_record" where
  "single_audit env server_name tool arguments context pooled is_error key lid payload metrics error call_id =
     log_tool_call_audit (rn_digest env) (rn_compact env) call_id server_name tool arguments context (payload \<noteq> None)
       (case payload of Some (v, x) \<Rightarrow> \<not> is_error x | None \<Rightarrow> False) pooled lid key metrics error"

definition single_answer ::
  "string \<Rightarrow> string \<Rightarrow> nat \<Rightarrow> json \<Rightarrow> bool \<Rightarrow> tool_audit_metrics \<Rightarrow> (string \<times> json) list \<Rightarrow> json" where
  "single_answer server_name tool timeout_ms v is_error metrics entries =
     json_object
       ([(''ok'', JBool (\<not> is_error)), (''bridgeOk'', JBool True), (''upstreamOk'', JBool (\<not> is_error)),
         (''upstreamIsError'', JBool is_error), (''server'', JString server_name), (''tool'', JString tool),
         (''timeoutMs'', json_number timeout_ms), (''observability'', json_object (log_fields metrics)), (''upstreamResult'', v)]
        @ entries)"

definition call_tool_with_context ::
  "runtime_env \<Rightarrow> string \<Rightarrow> string \<Rightarrow> json \<Rightarrow> nat option \<Rightarrow> upstream_lease_context option \<Rightarrow> runtime_world \<Rightarrow>
   json call_outcome \<times> runtime_world" where
  "call_tool_with_context env server_name tool arguments timeout_ms context w =
     (let (begun, w) = read_clock env w; server_name = trim server_name; tool = trim tool
      in if server_name = [] then (Finished (Inl (''upstream_call requires non-empty '' @ squote ''server'')), w)
         else if tool = [] then (Finished (Inl (''upstream_call requires non-empty '' @ squote ''tool'')), w)
         else case resolve_server env server_name of
                Inl e \<Rightarrow> (Finished (Inl e), w)
              | Inr server \<Rightarrow>
                  (let timeout = timeout_for server timeout_ms
                   in leased_call env server context timeout begun (validate_upstream_tool_policy server tool context) (\<lambda>_. None)
                        (single_audit env server_name tool arguments context False id)
                        (\<lambda>payload. for_single (rn_compact env) arguments payload context)
                        (\<lambda>_. direct_body env server server_name timeout ''tools/call''
                           (\<lambda>listed. validate_upstream_tool_known (rn_allow_var env) server listed tool context)
                           (send_call env server [tool]
                              (\<lambda>h. run_http_request h (sv_name server) (sv_url server) (sv_headers server) ''tools/call''
                                 (Some (call_params tool arguments)))
                              (\<lambda>n. rn_stdio env n ''tools/call'' (call_params tool arguments)))
                           (validate_tool_call_result (sv_name server) tool))
                        (\<lambda>v is_error metrics outcome.
                           single_answer server_name tool timeout v is_error metrics (upstream_lease_entries outcome)) w))"

definition call_tool_with_pooled_context ::
  "runtime_env \<Rightarrow> string \<Rightarrow> string \<Rightarrow> json \<Rightarrow> nat option \<Rightarrow> upstream_lease_context option \<Rightarrow> runtime_world \<Rightarrow>
   json call_outcome \<times> runtime_world" where
  "call_tool_with_pooled_context env server_name tool arguments timeout_ms context w =
     (let server_name = trim server_name; tool = trim tool
      in if server_name = [] then (Finished (Inl (''upstream_call requires non-empty '' @ squote ''server'')), w)
         else if tool = [] then (Finished (Inl (''upstream_call requires non-empty '' @ squote ''tool'')), w)
         else case resolve_server env server_name of
                Inl e \<Rightarrow> (Finished (Inl e), w)
              | Inr server \<Rightarrow>
                  if sv_source_type server = ''http''
                  then call_tool_with_context env server_name tool arguments timeout_ms context w
                  else (let (begun, w) = read_clock env w; timeout = timeout_for server timeout_ms;
                            key_of = (\<lambda>g. upstream_session_key env server (lg_affinity g))
                        in leased_call env server context timeout begun (validate_upstream_tool_policy server tool context)
                             (\<lambda>g. Some (key_of g))
                             (single_audit env server_name tool arguments context True fst)
                             (\<lambda>payload. for_single (rn_compact env) arguments payload context)
                             (\<lambda>g. pooled_body env (key_of g) [tool]
                                (\<lambda>cached listed. validate_upstream_tool_known_with_pool (rn_allow_var env) server cached listed tool
                                   context)
                                (\<lambda>n. rn_pool_call env n tool arguments) (validate_tool_call_result (sv_name server) tool))
                             (\<lambda>v (is_error, pool) metrics outcome.
                                single_answer server_name tool timeout v is_error metrics
                                  (upstream_pool_entries pool @ upstream_lease_entries outcome)) w))"

definition ok_count :: "json list \<Rightarrow> nat" where
  "ok_count results = length (filter (\<lambda>item. bool_at_path item [''upstreamOk''] = Some True) results)"

definition batch_audit ::
  "runtime_env \<Rightarrow> string \<Rightarrow> (string \<times> json) list \<Rightarrow> upstream_lease_context option \<Rightarrow> bool \<Rightarrow> upstream_session_key option \<Rightarrow>
   string option \<Rightarrow> (json list \<times> 'x) option \<Rightarrow> tool_audit_metrics \<Rightarrow> string option \<Rightarrow> string \<Rightarrow> audit_record" where
  "batch_audit env server_name calls context pooled key lid payload metrics error call_id =
     (let (ok, failed) =
            (case payload of Some (vs, _) \<Rightarrow> (ok_count vs, length vs - ok_count vs) | None \<Rightarrow> (0, length calls))
      in log_tool_batch_audit (rn_digest env) (rn_compact env) call_id server_name calls context (payload \<noteq> None) pooled lid key
           ok failed metrics error)"

definition batch_answer ::
  "string \<Rightarrow> nat \<Rightarrow> json list \<Rightarrow> tool_audit_metrics \<Rightarrow> (string \<times> json) list \<Rightarrow> json" where
  "batch_answer server_name timeout_ms vs metrics entries =
     (let ok = ok_count vs; failed = length vs - ok; upstream_ok = (failed = 0)
      in json_object
           ([(''ok'', JBool upstream_ok), (''bridgeOk'', JBool True), (''upstreamOk'', JBool upstream_ok),
             (''server'', JString server_name), (''timeoutMs'', json_number timeout_ms), (''callCount'', json_number (length vs)),
             (''upstreamOkCount'', json_number ok), (''upstreamFailedCount'', json_number failed),
             (''observability'', json_object (log_fields metrics)), (''results'', JArray vs)] @ entries))"

definition call_tools_with_context ::
  "runtime_env \<Rightarrow> string \<Rightarrow> (string \<times> json) list \<Rightarrow> nat option \<Rightarrow> upstream_lease_context option \<Rightarrow> runtime_world \<Rightarrow>
   json call_outcome \<times> runtime_world" where
  "call_tools_with_context env server_name calls timeout_ms context w =
     (let (begun, w) = read_clock env w; server_name = trim server_name
      in if server_name = [] then (Finished (Inl (''upstream_batch requires non-empty '' @ squote ''server'')), w)
         else if calls = [] then (Finished (Inl ''upstream_batch requires at least one call''), w)
         else case resolve_server env server_name of
                Inl e \<Rightarrow> (Finished (Inl e), w)
              | Inr server \<Rightarrow>
                  (let timeout = timeout_for server timeout_ms
                   in leased_call env server context timeout begun (validate_upstream_batch_tool_policy server calls context)
                        (\<lambda>_. None)
                        (batch_audit env server_name calls context False)
                        (\<lambda>payload. for_batch (rn_compact env) calls payload context)
                        (\<lambda>_. direct_body env server server_name timeout ''tools/call batch''
                           (\<lambda>listed. validate_upstream_batch_tools_known (rn_allow_var env) server listed calls context)
                           (send_call env server (map fst calls)
                              (\<lambda>h. run_http_tool_calls h (sv_name server) (sv_url server) (sv_headers server) calls)
                              (\<lambda>n. rn_stdio_batch env n calls))
                           (\<lambda>_. Inr ()))
                        (\<lambda>vs _ metrics outcome. batch_answer server_name timeout vs metrics (upstream_lease_entries outcome)) w))"

definition call_tools_with_pooled_context ::
  "runtime_env \<Rightarrow> string \<Rightarrow> (string \<times> json) list \<Rightarrow> nat option \<Rightarrow> upstream_lease_context option \<Rightarrow> runtime_world \<Rightarrow>
   json call_outcome \<times> runtime_world" where
  "call_tools_with_pooled_context env server_name calls timeout_ms context w =
     (let server_name = trim server_name
      in if server_name = [] then (Finished (Inl (''upstream_batch requires non-empty '' @ squote ''server'')), w)
         else if calls = [] then (Finished (Inl ''upstream_batch requires at least one call''), w)
         else case resolve_server env server_name of
                Inl e \<Rightarrow> (Finished (Inl e), w)
              | Inr server \<Rightarrow>
                  if sv_source_type server = ''http'' then call_tools_with_context env server_name calls timeout_ms context w
                  else (let (begun, w) = read_clock env w; timeout = timeout_for server timeout_ms;
                            key_of = (\<lambda>g. upstream_session_key env server (lg_affinity g))
                        in leased_call env server context timeout begun (validate_upstream_batch_tool_policy server calls context)
                             (\<lambda>g. Some (key_of g))
                             (batch_audit env server_name calls context True)
                             (\<lambda>payload. for_batch (rn_compact env) calls payload context)
                             (\<lambda>g. pooled_body env (key_of g) (map fst calls)
                                (\<lambda>cached listed. validate_upstream_batch_tools_known_with_pool (rn_allow_var env) server cached listed
                                   calls context)
                                (\<lambda>n. rn_pool_batch env n calls) (\<lambda>_. Inr ()))
                             (\<lambda>vs (_, pool) metrics outcome.
                                batch_answer server_name timeout vs metrics
                                  (upstream_pool_entries pool @ upstream_lease_entries outcome)) w))"

section \<open>Requests and listings without a lease\<close>

definition callable_server_names :: "runtime_env \<Rightarrow> string + string list" where
  "callable_server_names env =
     (case load_servers (rn_config env) (rn_registry env) (rn_config_file env) (rn_profile env) of
        Inl e \<Rightarrow> Inl (server_config_error_display e)
      | Inr servers \<Rightarrow>
          Inr (map sv_name (filter (\<lambda>s. fst (server_runtime_callable (rn_config env) s)) (map snd servers))))"

definition request_once ::
  "runtime_env \<Rightarrow> nat \<Rightarrow> (string \<Rightarrow> json option \<Rightarrow> string + json) \<Rightarrow> string \<Rightarrow> string \<Rightarrow> json option \<Rightarrow> json call_outcome" where
  "request_once env n stdio server_name name params =
     (let server_name = trim server_name; name = trim name
      in if server_name = [] then Finished (Inl ''upstream request requires a non-empty server name'')
         else if name = [] then Finished (Inl ''upstream request requires a non-empty method'')
         else case resolve_server env server_name of
                Inl e \<Rightarrow> Finished (Inl e)
              | Inr server \<Rightarrow>
                  if sv_source_type server = ''http''
                  then (case fst (run_http_request (rn_http env n) (sv_name server) (sv_url server) (sv_headers server) name params) of
                          Inl (HttpProbeError m) \<Rightarrow> Finished (Inl m)
                        | Inl ProbePanic \<Rightarrow> Aborted
                        | Inr v \<Rightarrow> Finished (Inr v))
                  else Finished (stdio name params))"

definition list_tools :: "runtime_env \<Rightarrow> string + json \<Rightarrow> (upstream_server_config \<Rightarrow> string + json \<times> bool) \<Rightarrow> string option \<Rightarrow> nat option \<Rightarrow> string + json" where
  "list_tools env inventory listed server_name timeout_ms =
     (case trimmed_non_empty_owned server_name of
        None \<Rightarrow> inventory
      | Some server_name \<Rightarrow>
          (case resolve_server env server_name of
             Inl e \<Rightarrow> Inl e
           | Inr server \<Rightarrow>
               (case listed server of
                  Inl e \<Rightarrow> Inl e
                | Inr (tools, hit) \<Rightarrow>
                    Inr (json_object
                      [(''ok'', JBool True), (''server'', JString server_name), (''sourceType'', JString (sv_source_type server)),
                       (''timeoutMs'', json_number (timeout_for server timeout_ms)), (''cacheHit'', JBool hit),
                       (''cacheTtlMs'', json_number TOOL_LIST_CACHE_TTL),
                       (''toolCount'', json_number (case as_array tools of Some items \<Rightarrow> length items | None \<Rightarrow> 0)),
                       (''tools'', tools)]))))"

section \<open>What the steps leave alone\<close>

lemma step_world_frame [simp]:
  "rw_events (step_world env w) = rw_events w" "rw_log (step_world env w) = rw_log w"
  "rw_step (step_world env w) = Suc (rw_step w)"
  by (simp_all add: step_world_def split: prod.splits)

lemma lease_command_frame:
  "lease_command env f w = (r, w') \<Longrightarrow> rw_events w' = rw_events w \<and> rw_log w' = rw_log w \<and> rw_step w' = Suc (rw_step w)"
  by (auto simp: lease_command_def Let_def split: prod.splits)

lemma emit_frame [simp]:
  "rw_events (emit e w) = rw_events w @ [e]" "rw_log (emit e w) = rw_log w" "rw_step (emit e w) = rw_step w"
  by (simp_all add: emit_def)

lemma notify_lanes_frame [simp]: "rw_events (notify_lanes w) = rw_events w" "rw_log (notify_lanes w) = rw_log w"
  by (simp_all add: notify_lanes_def)

lemma in_lane_frame [simp]:
  "rw_events (in_lane key f w) = rw_events w" "rw_log (in_lane key f w) = rw_log w" "rw_step (in_lane key f w) = rw_step w"
  by (simp_all add: in_lane_def split: option.splits)

lemma end_ticket_frame [simp]:
  "rw_events (end_ticket f key t w) = rw_events w @ [EvTicketDone key t]" "rw_log (end_ticket f key t w) = rw_log w"
  by (simp_all add: end_ticket_def)

lemma release_lease_frame:
  "release_lease env lid w = (r, w') \<Longrightarrow> rw_events w' = rw_events w @ [EvReleased lid r] \<and> rw_log w' = rw_log w"
  by (auto simp: release_lease_def dest: lease_command_frame split: prod.splits)

lemma guard_drop_frame:
  "\<exists>r. rw_events (guard_drop env g w) = rw_events w @ [EvReleased (lg_lease_id g) r]" "rw_log (guard_drop env g w) = rw_log w"
  using release_lease_frame [of env "lg_lease_id g" w] by (cases "release_lease env (lg_lease_id g) w"; simp add: guard_drop_def)+

lemma finalize_frame:
  assumes "finalize_upstream_lease env g w = (r, w')"
  shows "rw_log w' = rw_log w \<and>
    (case r of
       Inl _ \<Rightarrow> \<exists>e r. rw_events w' = rw_events w @ [EvReleased (lg_lease_id g) (Inl e), EvReleased (lg_lease_id g) r]
     | Inr outcome \<Rightarrow> lo_lease_id outcome = Some (lg_lease_id g) \<and>
         (\<exists>v. rw_events w' = rw_events w @ [EvReleased (lg_lease_id g) (Inr v)]))"
proof -
  obtain r1 w1 where rel: "release_lease env (lg_lease_id g) w = (r1, w1)" by (cases "release_lease env (lg_lease_id g) w")
  note frame = release_lease_frame [OF rel] guard_drop_frame [of env g w1]
  show ?thesis
  proof (cases r1)
    case (Inl e)
    then have "r = Inl e" "w' = guard_drop env g w1"
      using assms rel by (auto simp: finalize_upstream_lease_def guard_release_def)
    then show ?thesis using frame Inl by auto
  next
    case (Inr v)
    then show ?thesis using assms rel frame by (auto simp: finalize_upstream_lease_def guard_release_def)
  qed
qed

lemma acquire_lease_frame:
  assumes "acquire_lease env request w = (r, w')"
  shows "rw_log w' = rw_log w \<and> rw_step w' = Suc (rw_step w) \<and>
    rw_events w' = rw_events w @ (case r of Inr (Acquired lid v) \<Rightarrow> [EvAcquired lid] | _ \<Rightarrow> [])"
  using assms unfolding acquire_lease_def
  by (cases "lease_command env (\<lambda>h. acquire_runtime_lease h request) w")
    (auto dest: lease_command_frame split: sum.splits runtime_lease_acquire_result.splits)

end
