(* ===== verification/Lease_Runtime_Example.thy ===== *)
theory Lease_Runtime_Example
  imports Lease_Runtime
begin

text \<open>
  A tool call from beginning to end: a server configured with a command only, an empty lease file and no lanes. The call takes
  a ticket, acquires a lease in the store, finds the tool advertised, is answered and releases the lease.
\<close>

definition fs_config :: config_env where
  "fs_config = \<lparr>cg_root = ''/w'', cg_os = ''linux'', cg_var = (\<lambda>_. None), cg_metadata = (\<lambda>_. Inr True), cg_exists = (\<lambda>_. False),
     cg_canonical = (\<lambda>_. None), cg_which = (\<lambda>c. Inr c)\<rparr>"

definition fs_entry :: mcp_server_entry where
  "fs_entry = \<lparr>me_name = ''fs'', me_normalized_name = ''fs'', me_value = JObject [(''command'', JString ''fs'')], me_source = ''settings''\<rparr>"

definition fs_hub :: hub_env where
  "fs_hub = \<lparr>he_parse = (\<lambda>_. Inr (JObject [])), he_pretty = (\<lambda>_. ''{}''), he_compact = (\<lambda>_. ''{}''), he_layout = Inr (),
     he_lease_path = ''l'', he_lock_path = ''k'', he_lock = (\<lambda>_. LockCreated (Inr ())), he_write = Inr (), he_now0 = 0,
     he_clock = \<lparr>le_now = 5, le_now2 = 5, le_now3 = 5, le_pid = 1, le_nanos = Some 1\<rparr>, he_plan = Inr (JObject [])\<rparr>"

definition fs_http :: http_env where
  "fs_http = \<lparr>hx_compact = (\<lambda>_. ''{}''), hx_parse = (\<lambda>_. Inl ''eof''), hx_plain = (\<lambda>_ _ _ _. Inl ProbePanic),
     hx_secure = (\<lambda>_ _ _ _. Inl ''closed''), hx_remaining = (\<lambda>_ _. Some 5), hx_version = ''1''\<rparr>"

definition fs_env :: runtime_env where
  "fs_env = \<lparr>rn_config = fs_config, rn_registry = Inr [fs_entry], rn_config_file = None, rn_profile = Inr [], rn_digest = (\<lambda>_. 0),
     rn_compact = (\<lambda>_. ''{}''), rn_settings = (0, 0), rn_allow_var = None, rn_others = (\<lambda>_ x. x), rn_hub = (\<lambda>_. fs_hub),
     rn_now = (\<lambda>_. 0), rn_stamp = (\<lambda>n. (n, 1)), rn_wakes = (\<lambda>_. []), rn_retry = (\<lambda>_. (True, 0)), rn_rounds = 1,
     rn_heartbeat = (\<lambda>_. \<lparr>hb_lost = False, hb_renewal_count = 0, hb_failure_count = 0\<rparr>),
     rn_listed = (\<lambda>_. Inr (JArray [JObject [(''name'', JString ''read'')]], True)), rn_http = (\<lambda>_. fs_http),
     rn_stdio = (\<lambda>_ _ _. Inr (JObject [(''content'', JArray [])])),
     rn_stdio_batch = (\<lambda>_ _. Inl ''no''), rn_checkout = (\<lambda>_ _. Inl (StateError ''no'')), rn_pool_cached = (\<lambda>_. None),
     rn_pool_list = (\<lambda>_. Inl (StateError ''no'')), rn_pool_call = (\<lambda>_ _ _. Inl (StateError ''no'')),
     rn_pool_batch = (\<lambda>_ _. Inl (StateError ''no'')), rn_pool_outcome = (\<lambda>_. Inl (StateError ''no''))\<rparr>"

definition fs_world :: runtime_world where
  "fs_world = \<lparr>rw_step = 0, rw_file = None, rw_lanes = \<lparr>lanes = [], qr_poisoned = False\<rparr>, rw_hub_log = [], rw_log = [],
     rw_events = []\<rparr>"

definition fs_server :: upstream_server_config where
  "fs_server = \<lparr>sv_name = ''fs'', sv_enabled = True, sv_disabled_reason = None, sv_source_type = ''stdio'', sv_command = Some ''fs'',
     sv_args = [], sv_env = [], sv_headers = [], sv_cwd = None, sv_url = None, sv_timeout_ms = DEFAULT_TIMEOUT_MS,
     sv_execution = conservative, sv_tool_policies = []\<rparr>"

lemma fs_expanded: "expand_template cfg ''fs'' = ''fs''"
  by (subst expand_template.simps) (simp add: text_defs)

lemma fs_resolved: "resolve_server fs_env ''fs'' = Inr fs_server"
proof -
  have "server_config fs_config conservative [] fs_entry = fs_server"
    by (simp add: server_config_def fs_server_def fs_entry_def fs_config_def disabled_reason_of_def source_enabled_from_mcp_settings_def
        expanded_strings_def server_env_values_def configured_timeout_ms_def infer_runtime_source_type_def
        infer_source_type_with_remote_default_def text_or_empty_def env_var_names_from_array_def Let_def fs_expanded json_path
        strings_from_array_def normalize_runtime_source_type_def normalize_public_source_type_def text_defs)
  then have "load_servers fs_config (Inr [fs_entry]) None (Inr []) = Inr [(''fs'', fs_server)]"
    by (simp add: load_servers_def load_upstream_server_policies_def) (simp add: fs_entry_def)
  moreover have "ensure_callable_stdio fs_config fs_server = Inr ()"
    by (simp add: ensure_callable_stdio_def server_runtime_callable_def fs_server_def fs_config_def trimmed_non_empty_owned_def
        validate_stdio_cwd_def resolve_command_for_cwd_def relative_components_def has_extension_def Let_def text_defs)
  ultimately show ?thesis by (simp add: resolve_server_def fs_env_def find_server_def)
qed


lemma fs_blockers: "q_project_root request = Some p \<Longrightarrow> route_blockers (conservative_settings_only_route request ''fs'') = []"
  by (simp add: route_blockers_def conservative_settings_only_route_def Let_def sorted_unique_def non_empty_token_def quoted_def
      sanitize_token_def starts_with_def split: option.splits)

lemma fs_granted:
  "q_server_name request = ''fs'' \<Longrightarrow> q_project_root request = Some p \<Longrightarrow>
   \<exists>lid v file' log. acquire_runtime_lease fs_hub request None = (Inr (Acquired lid v), file', log)"
proof -
  assume q: "q_server_name request = ''fs''" "q_project_root request = Some p"
  let ?route = "conservative_settings_only_route request ''fs''"
  let ?op = "AcquireOp ?route (normalize_ttl (q_ttl_ms request)) (q_takeover request)"
  have name: "clean_required_server_name ''fs'' = Inr ''fs''" by (simp add: clean_required_server_name_def text_defs)
  have plan: "route_for_request (he_plan fs_hub) ''fs'' = Inr None"
    by (simp add: route_for_request_def find_server_plan_def fs_hub_def json_path Let_def)
  have lock: "acquire_lease_store_lock path (he_lock fs_hub) = Inr ()" for path
    by (simp add: lease_lock_acquired_iff fs_hub_def) (rule exI [of _ 0], simp)
  have "lc_exit_code (lease_result (he_clock fs_hub) ?op (default_store_map 0)) = 0"
  proof -
    let ?s = "purged_store (le_now (he_clock fs_hub)) (default_store_map 0)"
    obtain n where n: "lease_result (he_clock fs_hub) ?op (default_store_map 0) =
        snd (snd (op_mutator (he_clock fs_hub) ?op ?s (le_now (he_clock fs_hub)) n))"
      using exec_result by blast
    have "leases_of (default_store_map 0) = []" by (simp add: leases_of_def leases_map_def default_store_map_def unwrap_or_def)
    then have "leases_of ?s = []" by (simp add: bt_retain_def)
    then have "find_conflict ?s ?route = None"
      by (auto simp: find_conflict_def leases_of_def unwrap_or_def Let_def split: option.splits)
    then show ?thesis using q fs_blockers by (simp add: n acquire_exit_code)
  qed
  then show ?thesis
    using name plan lock q
    by (auto simp: acquire_runtime_lease_def acquire_lease_for_route_def mutate_store_def read_store_map_def fs_hub_def
        lease_result_def lease_outcome_def unwrap_or_def Let_def split: prod.splits)
qed


lemma fs_step [simp]: "step_world fs_env w = w\<lparr>rw_step := Suc (rw_step w)\<rparr>"
  by (simp add: step_world_def fs_env_def)

lemma fs_fields:
  "rn_now fs_env n = 0" "rn_hub fs_env n = fs_hub" "rn_rounds fs_env = 1" "rn_wakes fs_env n = []"
  by (simp_all add: fs_env_def)

lemma fs_policy: "\<not> is_disabled (sv_execution fs_server)" "ep_queue_timeout_ms (sv_execution fs_server) \<noteq> 0"
  "ep_max_queue_depth (sv_execution fs_server) \<noteq> 0"
  by (simp_all add: fs_server_def conservative_def for_mode_def is_disabled_def DEFAULT_MAX_QUEUE_DEPTH_def)

text \<open>With no lane in use the first ticket is the head at once, and with an empty lease file the lease is granted.\<close>

lemma fs_acquired:
  assumes "rw_file w = None" "rw_lanes w = \<lparr>lanes = [], qr_poisoned = False\<rparr>"
  shows "\<exists>g w'. acquire_upstream_lease fs_env fs_server None timeout w = (Finished (Inr g), w')"
proof -
  obtain affinity where affinity: "execution_affinity_key fs_env fs_server None = Inr affinity"
    by (auto simp: execution_affinity_key_def fs_env_def fs_server_def affinity_key_def conservative_def for_mode_def Let_def)
  define key where "key = upstream_lease_lane_key fs_env fs_server affinity"
  define request where "request = lease_request fs_env fs_server None (effective_ttl None timeout)"
  obtain d where d: "max (ep_max_queue_depth (sv_execution fs_server)) 1 = Suc d" by (metis not0_implies_Suc max_def fs_policy(3) One_nat_def zero_neq_one)
  define lane where "lane = \<lparr>ql_state = \<lparr>next_ticket = 1, serving_ticket = 0, waiting = 1, cancelled = []\<rparr>, ql_poisoned = False, ql_handles = 1\<rparr>"
  define position where "position = \<lparr>ticket = 0, depth_at_enqueue = 1, ahead_at_enqueue = 0\<rparr>"
  have enq: "enqueue key (ep_max_queue_depth (sv_execution fs_server)) \<lparr>lanes = [], qr_poisoned = False\<rparr> =
      (Inr position, \<lparr>lanes = [(key, lane)], qr_poisoned = False\<rparr>)"
    by (simp add: enqueue_def enqueue_lane_def prune_empty_lanes_def bt_retain_def MAX_QUEUE_LANES_def enqueue_in_lane_def
        enqueue_position_def d lane_default_def lane_def position_def sat_add_def uint_max_def Let_def)
  obtain lid v file' log where granted: "acquire_runtime_lease fs_hub request None = (Inr (Acquired lid v), file', log)"
    using fs_granted [of request "child_process_path (cg_root fs_config)"]
    by (auto simp: request_def lease_request_def or_else_def trimmed_non_empty_owned_def fs_server_def fs_env_def)
  have "ticket position = 0" "ql_state lane = \<lparr>next_ticket = 1, serving_ticket = 0, waiting = 1, cancelled = []\<rparr>"
    by (simp_all add: position_def lane_def)
  then show ?thesis
    using affinity assms granted fs_policy(1,2) enq
    by (simp add: acquire_upstream_lease_def read_clock_def take_ticket_def wait_for_head_def Let_def emit_def in_lane_def
        wait_until_head.simps acquire_lease_def lease_command_def fs_fields flip: key_def request_def)
qed


lemma fs_known:
  "validate_upstream_tool_known (rn_allow_var fs_env) fs_server (with_hint (rn_listed fs_env n)) ''read'' None = Inr ()"
  by (simp add: validate_upstream_tool_known_def verified_tool_names_for_call_def known_tool_validation_required_def
      known_tool_validation_enabled_def context_allows_unknown_tool_def with_hint_def tool_names_from_tools_list_def
      ensure_tool_name_in_verified_set_def fs_env_def List.map_filter_def insort_insert_key_def json_path text_defs Let_def)

text \<open>The call is sent and finishes.\<close>

lemma fs_call:
  "\<exists>r w'. call_tool_with_context fs_env ''fs'' ''read'' JNull None None fs_world = (Finished r, w') \<and> EvCall [''read''] \<in> set (rw_events w')"
proof -
  let ?w = "fs_world\<lparr>rw_step := 2\<rparr>"
  obtain g w1 where acq: "acquire_upstream_lease fs_env fs_server None (timeout_for fs_server None) ?w = (Finished (Inr g), w1)"
    using fs_acquired [of ?w "timeout_for fs_server None"] by (auto simp: fs_world_def)
  let ?stdio = "Inr (JObject [(''content'', JArray [])])"
  have time: "0 < timeout_for fs_server None" by (simp add: timeout_for_def clamp_def)
  have trim: "trim ''fs'' = ''fs''" "trim ''read'' = ''read''" by (simp_all add: text_defs)
  have policy: "validate_upstream_tool_policy fs_server ''read'' None = Inr ()"
    by (simp add: validate_upstream_tool_policy_def fs_server_def)
  have ok: "validate_tool_call_result (sv_name fs_server) ''read'' (JObject [(''content'', JArray [])]) = Inr False"
    by (simp add: validate_tool_call_result_def)
  have stdio: "sv_source_type fs_server \<noteq> ''http''" "rn_stdio fs_env n m v = ?stdio" for n m v
    by (simp_all add: fs_server_def fs_env_def)
  have two: "Suc (Suc (rw_step fs_world)) = 2" by (simp add: fs_world_def)
  have mono: "finalize_upstream_lease fs_env g w = (r, w') \<Longrightarrow> e \<in> set (rw_events w) \<Longrightarrow> e \<in> set (rw_events w')" for w r w' e
    using finalize_frame [of fs_env g w] by (cases r) auto
  show ?thesis
    using acq time by (auto simp: call_tool_with_context_def read_clock_def trim fs_resolved leased_call_def policy two direct_body_def
        remaining_upstream_timeout_def fs_known send_call_def stdio ok fs_fields emit_def write_audit_def Let_def
        split: prod.splits sum.splits intro: mono)
qed

end
