(* ===== verification/Lease_Runtime_Properties.thy ===== *)
theory Lease_Runtime_Properties
  imports Lease_Runtime_Example
begin

text \<open>
  What a tool call does, whatever other threads and processes do to the lease file and the lanes in the meantime: it follows
  the protocol of tickets and leases to its end, sends its request only under a lease and after the checks, and is audited
  once. The heartbeat renews a lease before it expires, and the retries end when the clock passes the deadline.
\<close>

section \<open>The protocol of a call\<close>

text \<open>The phases: nothing done; a ticket taken; the ticket given back without a lease; a lease held, first with the ticket and
  then without; the request sent; the lease released (whether the request was sent, whether the release succeeded); a failed
  release tried again.\<close>

datatype call_phase =
    Start
  | InLane string nat
  | GaveUp
  | LeasedInLane string nat string
  | Leased string bool
  | Closed string bool bool
  | Retried string

fun phase_step :: "call_phase \<Rightarrow> lease_event \<Rightarrow> call_phase option" where
  "phase_step Start (EvTicket key t) = Some (InLane key t)"
| "phase_step Start (EvAcquired lid) = Some (Leased lid False)"
| "phase_step (InLane key t) (EvTicketDone key' t') = (if key = key' \<and> t = t' then Some GaveUp else None)"
| "phase_step (InLane key t) (EvAcquired lid) = Some (LeasedInLane key t lid)"
| "phase_step (LeasedInLane key t lid) (EvTicketDone key' t') = (if key = key' \<and> t = t' then Some (Leased lid False) else None)"
| "phase_step (Leased lid sent) (EvCall tools) = (if sent then None else Some (Leased lid True))"
| "phase_step (Leased lid sent) EvInvalidate = (if sent then Some (Leased lid True) else None)"
| "phase_step (Leased lid sent) (EvReleased lid' r) = (if lid = lid' then Some (Closed lid sent (\<not> isl r)) else None)"
| "phase_step (Closed lid sent ok) (EvReleased lid' r) = (if lid = lid' \<and> \<not> ok then Some (Retried lid) else None)"
| "phase_step _ _ = None"

fun phase_run :: "call_phase \<Rightarrow> lease_event list \<Rightarrow> call_phase option" where
  "phase_run p [] = Some p"
| "phase_run p (e # es) = Option.bind (phase_step p e) (\<lambda>q. phase_run q es)"

lemma phase_run_append: "phase_run p (es @ fs) = Option.bind (phase_run p es) (\<lambda>q. phase_run q fs)"
  by (induction p es rule: phase_run.induct) (auto split: Option.bind_splits)

text \<open>Where a finished call may end: with a result, only after the request was sent under a lease that was then released;
  with an error, never while a ticket or a lease is held.\<close>

fun accepts :: "string + 'a \<Rightarrow> call_phase \<Rightarrow> bool" where
  "accepts (Inr v) p = (\<exists>lid. p = Closed lid True True)"
| "accepts (Inl e) p = (p = Start \<or> p = GaveUp \<or> (\<exists>lid sent ok. p = Closed lid sent ok) \<or> (\<exists>lid. p = Retried lid))"

section \<open>Acquisition\<close>

lemma acquire_rounds_frame:
  assumes "acquire_rounds env server request key position affinity queued_at deadline rounds attempts w = (out, w')"
  shows "rw_log w' = rw_log w \<and> out \<noteq> Aborted \<and>
    (\<forall>r. out = Finished r \<longrightarrow> rw_events w' = rw_events w @
       (case r of Inl _ \<Rightarrow> [EvTicketDone key (ticket position)]
        | Inr g \<Rightarrow> [EvAcquired (lg_lease_id g), EvTicketDone key (ticket position)])) \<and>
    (out = Waiting \<longrightarrow> rw_events w' = rw_events w)"
  using assms
proof (induction rounds arbitrary: attempts w)
  case 0
  then show ?case by auto
next
  case (Suc rounds)
  obtain r w1 where acq: "acquire_lease env request w = (r, w1)" by (cases "acquire_lease env request w")
  note frame = acquire_lease_frame [OF acq]
  consider (error) e where "r = Inl e" | (granted) lid v where "r = Inr (Acquired lid v)" | (blocked) v where "r = Inr (Blocked v)"
    by (metis runtime_lease_acquire_result.exhaust sumE)
  then show ?case
  proof cases
    case blocked
    show ?thesis
    proof (cases "deadline \<le> rn_now env (rw_step w1)")
      case True
      then show ?thesis using Suc.prems acq frame blocked by (auto simp: Let_def read_clock_def)
    next
      case False
      let ?w2 = "step_world env (step_world env w1)"
      obtain timed_out later where retry: "rn_retry env (rw_step (step_world env w1)) = (timed_out, later)"
        by (cases "rn_retry env (rw_step (step_world env w1))")
      show ?thesis
      proof (cases "wait_for_retry key (ticket position) deadline (rn_now env (rw_step (step_world env w1))) timed_out later")
        case (Inl e)
        then show ?thesis using Suc.prems acq frame blocked False retry by (auto simp: Let_def read_clock_def)
      next
        case (Inr u)
        then have "acquire_rounds env server request key position affinity queued_at deadline rounds (sat_add 64 attempts 1) ?w2 =
            (out, w')"
          using Suc.prems acq blocked False retry by (simp add: Let_def read_clock_def)
        from Suc.IH [OF this] show ?thesis using frame blocked by simp
      qed
    qed
  qed (use Suc.prems acq frame in \<open>auto simp: Let_def read_clock_def\<close>)
qed

lemma acquire_once_frame:
  assumes "acquire_upstream_lease_once env server request queue affinity w = (out, w')"
  shows "rw_log w' = rw_log w \<and> (\<exists>r. out = Finished r \<and>
    rw_events w' = rw_events w @ (case r of Inl _ \<Rightarrow> [] | Inr g \<Rightarrow> [EvAcquired (lg_lease_id g)]))"
proof -
  obtain r w1 where acq: "acquire_lease env request w = (r, w1)" by (cases "acquire_lease env request w")
  then show ?thesis using assms acquire_lease_frame [OF acq]
    by (auto simp: acquire_upstream_lease_once_def split: sum.splits runtime_lease_acquire_result.splits)
qed

lemma take_ticket_frame:
  assumes "take_ticket env key depth w = (r, w')"
  shows "rw_log w' = rw_log w \<and>
    rw_events w' = rw_events w @ (case r of Inl _ \<Rightarrow> [] | Inr p \<Rightarrow> [EvTicket key (ticket p)])"
  using assms by (auto simp: take_ticket_def Let_def split: prod.splits sum.splits)

lemma wait_for_head_frame:
  assumes "wait_for_head env key t deadline w = (r, w')"
  shows "rw_log w' = rw_log w \<and> rw_events w' = rw_events w"
  using assms by (auto simp: wait_for_head_def Let_def split: prod.splits option.splits)

text \<open>An acquisition that finishes holds a lease and no ticket, or nothing.\<close>

lemma acquire_frame:
  assumes "acquire_upstream_lease env server context timeout w = (out, w')"
  shows "rw_log w' = rw_log w \<and> out \<noteq> Aborted \<and> (\<exists>es. rw_events w' = rw_events w @ es \<and> (\<forall>tools. EvCall tools \<notin> set es) \<and>
    (\<forall>r. out = Finished r \<longrightarrow>
       (case r of Inl _ \<Rightarrow> phase_run Start es = Some Start \<or> phase_run Start es = Some GaveUp
        | Inr g \<Rightarrow> phase_run Start es = Some (Leased (lg_lease_id g) False))))"
proof -
  let ?policy = "sv_execution server"
  consider (disabled) "is_disabled ?policy" | (affinity) e where "\<not> is_disabled ?policy" "execution_affinity_key env server context = Inl e"
    | (once) k where "\<not> is_disabled ?policy" "execution_affinity_key env server context = Inr k" "ep_queue_timeout_ms ?policy = 0"
    | (queue) k where "\<not> is_disabled ?policy" "execution_affinity_key env server context = Inr k" "ep_queue_timeout_ms ?policy \<noteq> 0"
    by (metis sumE)
  then show ?thesis
  proof cases
    case once
    then show ?thesis using assms acquire_once_frame
      by (auto simp: acquire_upstream_lease_def Let_def dest!: acquire_once_frame split: sum.splits intro!: exI)
  next
    case queue
    let ?w1 = "step_world env w" and ?key = "upstream_lease_lane_key env server k"
    obtain r w2 where t: "take_ticket env ?key (ep_max_queue_depth ?policy) ?w1 = (r, w2)"
      by (cases "take_ticket env ?key (ep_max_queue_depth ?policy) ?w1")
    note ticket_frame = take_ticket_frame [OF t]
    let ?deadline = "rn_now env (rw_step w) + ep_queue_timeout_ms ?policy * 1000000"
    show ?thesis
    proof (cases r)
      case (Inl e)
      then show ?thesis using assms queue t ticket_frame by (auto simp: acquire_upstream_lease_def Let_def read_clock_def)
    next
      case (Inr p)
      obtain h w3 where wait: "wait_for_head env ?key (ticket p) ?deadline w2 = (h, w3)"
        by (cases "wait_for_head env ?key (ticket p) ?deadline w2")
      note frame = ticket_frame wait_for_head_frame [OF wait]
      consider (waiting) "h = None" | (error) e where "h = Some (Inl e)" | (head) "h = Some (Inr ())"
        by (metis option.exhaust sumE unit.exhaust)
      then show ?thesis
      proof cases
        case head
        have "acquire_rounds env server (lease_request env server context (effective_ttl context timeout)) ?key p k
            (rn_now env (rw_step w)) ?deadline (rn_rounds env) 0 w3 = (out, w')"
          using assms queue t Inr wait head by (simp add: acquire_upstream_lease_def Let_def read_clock_def)
        from acquire_rounds_frame [OF this] show ?thesis using frame Inr
          by (cases out) (auto split: sum.splits)
      qed (use assms queue t Inr wait frame in \<open>auto simp: acquire_upstream_lease_def Let_def read_clock_def\<close>)
    qed
  qed (use assms in \<open>auto simp: acquire_upstream_lease_def\<close>)
qed

section \<open>The interface of a body\<close>

text \<open>What the part of a call under the lease promises: it writes no audit record, sends at most the request for the given
  tools and only if \<open>allowed\<close>, and succeeds only if it sent it.\<close>

locale leased_body =
  fixes body :: "upstream_lease_guard \<Rightarrow> runtime_world \<Rightarrow> ('m, 'x) call_body \<times> runtime_world"
    and tools :: "string list" and allowed :: bool
  assumes body_log: "body g w = (b, w') \<Longrightarrow> rw_log w' = rw_log w"
    and body_events: "body g w = (b, w') \<Longrightarrow>
      \<exists>es. rw_events w' = rw_events w @ es \<and>
        (es = [] \<and> (\<forall>v x t. b \<noteq> BodyOk v x t) \<or> es = [EvCall tools] \<and> allowed \<or>
         es = [EvCall tools, EvInvalidate] \<and> allowed \<and> (\<forall>v x t. b \<noteq> BodyOk v x t))"
begin

lemma body_phase:
  assumes "body g w = (b, w')"
  obtains es sent where "rw_events w' = rw_events w @ es" "phase_run (Leased lid False) es = Some (Leased lid sent)"
    and "\<And>v x t. b = BodyOk v x t \<Longrightarrow> sent" "\<And>ts. EvCall ts \<in> set es \<Longrightarrow> ts = tools \<and> allowed"
  using body_events [OF assms] by fastforce

end

lemma clock_frame: "read_clock env w = (t, w') \<Longrightarrow> rw_events w' = rw_events w \<and> rw_log w' = rw_log w \<and> rw_step w' = Suc (rw_step w)"
  by (auto simp: read_clock_def)

lemma remaining_frame:
  "remaining_upstream_timeout env deadline server phase w = (r, w') \<Longrightarrow> rw_events w' = rw_events w \<and> rw_log w' = rw_log w"
  by (auto simp: remaining_upstream_timeout_def read_clock_def Let_def split: if_splits)

lemma send_call_frame:
  "send_call env server tools http stdio w = (r, w') \<Longrightarrow> rw_events w' = rw_events w @ [EvCall tools] \<and> rw_log w' = rw_log w"
  by (auto simp: send_call_def Let_def)

lemma direct_body_frame:
  assumes "direct_body env server name timeout phase known (send_call env server tools http stdio) inspect w = (b, w')"
  shows "rw_log w' = rw_log w \<and> (\<exists>es. rw_events w' = rw_events w @ es \<and>
    (es = [] \<and> (\<forall>v x t. b \<noteq> BodyOk v x t) \<or> es = [EvCall tools] \<and> (\<exists>n. known (with_hint (rn_listed env n)) = Inr ())))"
proof -
  let ?w1 = "step_world env w" and ?deadline = "rn_now env (rw_step w) + timeout * 1000000"
  let ?w4 = "step_world env (step_world env (step_world env ?w1))"
  let ?listed = "with_hint (rn_listed env (Suc (Suc (rw_step w))))"
  show ?thesis
  proof (cases "?deadline \<le> rn_now env (Suc (rw_step w))")
    case True
    then show ?thesis using assms
      by (auto simp: direct_body_def read_clock_def remaining_upstream_timeout_def Let_def)
  next
    case time: False
    show ?thesis
    proof (cases "known ?listed")
      case (Inl e)
      then show ?thesis using assms time
        by (auto simp: direct_body_def read_clock_def remaining_upstream_timeout_def Let_def)
    next
      case known: (Inr u)
      show ?thesis
      proof (cases "?deadline \<le> rn_now env (Suc (Suc (Suc (Suc (rw_step w)))))")
        case True
        then show ?thesis using assms time known
          by (auto simp: direct_body_def read_clock_def remaining_upstream_timeout_def Let_def)
      next
        case False
        obtain r w5 where send: "send_call env server tools http stdio (step_world env ?w4) = (r, w5)"
          by (cases "send_call env server tools http stdio (step_world env ?w4)")
        have "w' = w5 \<or> w' = step_world env w5"
          using assms time known False send
          by (auto simp: direct_body_def read_clock_def remaining_upstream_timeout_def Let_def
              split: option.splits sum.splits)
        then show ?thesis using send_call_frame [OF send] known by auto
      qed
    qed
  qed
qed

interpretation direct: leased_body
  "\<lambda>_. direct_body env server name timeout phase known (send_call env server tools http stdio) inspect" tools
  "\<exists>n. known (with_hint (rn_listed env n)) = Inr ()"
  for env server name timeout phase known tools http stdio inspect
  by unfold_locales (auto dest!: direct_body_frame)

lemma pooled_body_frame:
  assumes "pooled_body env key tools known call inspect w = (b, w')"
  shows "rw_log w' = rw_log w \<and> (\<exists>es. rw_events w' = rw_events w @ es \<and>
    (es = [] \<and> (\<forall>v x t. b \<noteq> BodyOk v x t) \<or> es = [EvCall tools] \<and> (\<exists>n. known (rn_pool_cached env n) (rn_pool_list env n) = Inr ()) \<or>
     es = [EvCall tools, EvInvalidate] \<and> (\<exists>n. known (rn_pool_cached env n) (rn_pool_list env n) = Inr ()) \<and> (\<forall>v x t. b \<noteq> BodyOk v x t)))"
proof -
  let ?w1 = "step_world env w" let ?w2 = "step_world env ?w1" let ?w3 = "step_world env ?w2"
  show ?thesis
  proof (cases "rn_checkout env (rw_step ?w1) key")
    case (Inl e)
    then show ?thesis using assms by (auto simp: pooled_body_def read_clock_def Let_def)
  next
    case out: (Inr u)
    show ?thesis
    proof (cases "known (rn_pool_cached env (rw_step ?w2)) (rn_pool_list env (rw_step ?w2))")
      case (Inl e)
      then show ?thesis using assms out by (auto simp: pooled_body_def read_clock_def Let_def)
    next
      case (Inr u')
      then have known: "\<exists>n. known (rn_pool_cached env n) (rn_pool_list env n) = Inr ()" by auto
      show ?thesis using assms out Inr known
        by (auto simp: pooled_body_def read_clock_def Let_def split: sum.splits)
    qed
  qed
qed

interpretation pooled: leased_body
  "\<lambda>g. pooled_body env (key g) tools known call inspect" tools "\<exists>n. known (rn_pool_cached env n) (rn_pool_list env n) = Inr ()"
  for env key tools known call inspect
  by unfold_locales (auto dest!: pooled_body_frame)

section \<open>The frame of a call\<close>

lemma write_audit_frame:
  "rw_events (write_audit env audit w) = rw_events w"
  "\<exists>call_id. rw_log (write_audit env audit w) = rw_log w @ [audit call_id]"
  by (auto simp: write_audit_def Let_def split: prod.splits)

context leased_body
begin

text \<open>A finished call follows the protocol; a call in any state sent its request only if it was allowed to.\<close>

lemma leased_call_events:
  assumes "leased_call env server context timeout begun policy key_of audit metrics_of body answer w = (out, w')"
  shows "\<exists>es. rw_events w' = rw_events w @ es \<and> (\<forall>r. out = Finished r \<longrightarrow> (\<exists>p. phase_run Start es = Some p \<and> accepts r p)) \<and>
    (\<forall>ts. EvCall ts \<in> set es \<longrightarrow> ts = tools \<and> allowed \<and> policy = Inr ())"
proof (cases policy)
  case (Inl e)
  then show ?thesis using assms by (auto simp: leased_call_def read_clock_def Let_def write_audit_frame)
next
  case (Inr u)
  let ?w1 = "step_world env w"
  obtain a w2 where acq: "acquire_upstream_lease env server context timeout ?w1 = (a, w2)"
    by (cases "acquire_upstream_lease env server context timeout ?w1")
  obtain as where as: "rw_events w2 = rw_events w @ as" "a \<noteq> Aborted" "\<forall>tools. EvCall tools \<notin> set as"
    and phase: "\<And>r. a = Finished r \<Longrightarrow> (case r of Inl _ \<Rightarrow> phase_run Start as = Some Start \<or> phase_run Start as = Some GaveUp
        | Inr g \<Rightarrow> phase_run Start as = Some (Leased (lg_lease_id g) False))"
    using acquire_frame [OF acq] by auto
  consider (waiting) "a = Waiting" | (error) e where "a = Finished (Inl e)" | (lease) g where "a = Finished (Inr g)"
    using as(2) by (metis call_outcome.exhaust sumE)
  then show ?thesis
  proof cases
    case lease
    let ?w3 = "step_world env w2"
    obtain b w4 where b: "body g ?w3 = (b, w4)" by (cases "body g ?w3")
    obtain bs sent where bs: "rw_events w4 = rw_events ?w3 @ bs"
        "phase_run (Leased (lg_lease_id g) False) bs = Some (Leased (lg_lease_id g) sent)" "\<And>v x t. b = BodyOk v x t \<Longrightarrow> sent"
        "\<And>ts. EvCall ts \<in> set bs \<Longrightarrow> ts = tools \<and> allowed"
      using body_phase [OF b] by metis
    have run: "phase_run Start (as @ bs @ cs) = phase_run (Leased (lg_lease_id g) sent) cs" for cs
      using phase [OF lease] bs(2) by (simp add: phase_run_append)
    show ?thesis
    proof (cases b)
      case BodyAborted
      then have "w' = w4" "out = Aborted" using assms Inr acq lease b by (auto simp: leased_call_def read_clock_def Let_def)
      then show ?thesis using as bs(1,4) Inr by auto
    next
      case (BodyErr e payload took)
      then obtain w5 where w': "w' = guard_drop env g w5" "rw_events w5 = rw_events w4" "out = Finished (Inl e)"
        using assms Inr acq lease b by (auto simp: leased_call_def read_clock_def Let_def write_audit_frame)
      obtain r where "rw_events w' = rw_events w @ as @ bs @ [EvReleased (lg_lease_id g) r]"
        using guard_drop_frame(1) [of env g w5] w' as(1) bs(1) by auto
      then show ?thesis using run [of "[EvReleased (lg_lease_id g) r]"] as(3) bs(4) w'(3) Inr
        by (intro exI [of _ "as @ bs @ [EvReleased (lg_lease_id g) r]"]) auto
    next
      case (BodyOk v x took)
      obtain f w5 where fin: "finalize_upstream_lease env g w4 = (f, w5)" by (cases "finalize_upstream_lease env g w4")
      have ev: "rw_events w' = rw_events w5"
        using assms Inr acq lease b BodyOk fin
        by (auto simp: leased_call_def read_clock_def Let_def write_audit_frame split: sum.splits)
      have out: "out = Finished (case f of Inl e \<Rightarrow> Inl e | Inr oc \<Rightarrow> Inr (SOME v. out = Finished (Inr v)))"
        using assms Inr acq lease b BodyOk fin
        by (auto simp: leased_call_def read_clock_def Let_def split: sum.splits)
      obtain cs p where cs: "rw_events w5 = rw_events w4 @ cs" "phase_run (Leased (lg_lease_id g) True) cs = Some p" "\<forall>ts. EvCall ts \<notin> set cs"
        and p: "case f of Inl _ \<Rightarrow> p = Retried (lg_lease_id g) | Inr _ \<Rightarrow> p = Closed (lg_lease_id g) True True"
        using finalize_frame [OF fin] by (cases f) force+
      have "phase_run Start (as @ bs @ cs) = Some p" using run [of cs] cs(2) bs(3) [OF BodyOk] by simp
      moreover have "accepts r p" if "out = Finished r" for r
        using that out p by (cases f; cases r) auto
      ultimately show ?thesis using ev cs as bs Inr by (intro exI [of _ "as @ bs @ cs"]) auto
    qed
  qed (use assms Inr acq as phase in \<open>auto simp: leased_call_def read_clock_def Let_def write_audit_frame\<close>)
qed

end

definition audited ::
  "(upstream_session_key option \<Rightarrow> string option \<Rightarrow> ('m \<times> 'x) option \<Rightarrow> tool_audit_metrics \<Rightarrow> string option \<Rightarrow> string \<Rightarrow> audit_record) \<Rightarrow>
   string + json \<Rightarrow> audit_record \<Rightarrow> bool" where
  "audited audit r a \<longleftrightarrow>
     (case r of
        Inl e \<Rightarrow> \<exists>key metrics call_id. a = audit key None None metrics (Some e) call_id
      | Inr _ \<Rightarrow> \<exists>key lid payload metrics call_id. a = audit key (Some lid) (Some payload) metrics None call_id)"

lemma audited_fail: "\<exists>a. rw_log (write_audit env (audit key None None metrics (Some e)) w) = rw_log w @ [a] \<and> audited audit (Inl e) a"
  using write_audit_frame(2) [of env "audit key None None metrics (Some e)" w] by (force simp: audited_def)

lemma audited_ok:
  "\<exists>a. rw_log (write_audit env (audit key (Some lid) (Some p) metrics None) w) = rw_log w @ [a] \<and> audited audit (Inr v) a"
proof -
  obtain call_id where "rw_log (write_audit env (audit key (Some lid) (Some p) metrics None) w) =
      rw_log w @ [audit key (Some lid) (Some p) metrics None call_id]"
    using write_audit_frame(2) by blast
  moreover have "audited audit (Inr v) (audit key (Some lid) (Some p) metrics None call_id)"
    unfolding audited_def by simp (metis surj_pair)
  ultimately show ?thesis by blast
qed

context leased_body
begin

text \<open>A finished call wrote one audit record, which tells whether it succeeded.\<close>

lemma leased_call_audit:
  assumes "leased_call env server context timeout begun policy key_of audit metrics_of body answer w = (Finished r, w')"
  shows "\<exists>a. rw_log w' = rw_log w @ [a] \<and> audited audit r a"
proof (cases policy)
  case (Inl e)
  then show ?thesis using assms audited_fail [where w = "step_world env w" and audit = audit]
    by (auto simp: leased_call_def read_clock_def Let_def)
next
  case (Inr u)
  let ?w1 = "step_world env w"
  obtain a w2 where acq: "acquire_upstream_lease env server context timeout ?w1 = (a, w2)"
    by (cases "acquire_upstream_lease env server context timeout ?w1")
  have log2: "rw_log w2 = rw_log w" "a \<noteq> Aborted" using acquire_frame [OF acq] by auto
  consider (waiting) "a = Waiting" | (error) e where "a = Finished (Inl e)" | (lease) g where "a = Finished (Inr g)"
    using log2(2) by (metis call_outcome.exhaust sumE)
  then show ?thesis
  proof cases
    case waiting
    then show ?thesis using assms Inr acq by (simp add: leased_call_def read_clock_def Let_def)
  next
    case error
    then show ?thesis using assms Inr acq log2(1) audited_fail [where w = "step_world env (step_world env w2)" and audit = audit]
      by (auto simp: leased_call_def read_clock_def Let_def)
  next
    case lease
    let ?w3 = "step_world env w2"
    obtain b w4 where b: "body g ?w3 = (b, w4)" by (cases "body g ?w3")
    have log4: "rw_log w4 = rw_log w" using body_log [OF b] log2(1) by simp
    show ?thesis
    proof (cases b)
      case BodyAborted
      then show ?thesis using assms Inr acq lease b by (simp add: leased_call_def read_clock_def Let_def)
    next
      case (BodyErr e payload took)
      then show ?thesis
        using assms Inr acq lease b log4 audited_fail [where w = "step_world env w4" and audit = audit]
        by (auto simp: leased_call_def read_clock_def Let_def guard_drop_frame(2))
    next
      case (BodyOk v x took)
      obtain f w5 where fin: "finalize_upstream_lease env g w4 = (f, w5)" by (cases "finalize_upstream_lease env g w4")
      have log5: "rw_log w5 = rw_log w" using finalize_frame [OF fin] log4 by simp
      show ?thesis
      proof (cases f)
        case (Inl e)
        then show ?thesis
          using assms \<open>policy = Inr u\<close> acq lease b BodyOk fin log5 audited_fail [where w = "step_world env w5" and audit = audit]
          by (auto simp: leased_call_def read_clock_def Let_def)
      next
        case (Inr outcome)
        then obtain metrics where
            "w' = write_audit env (audit (key_of g) (lo_lease_id outcome) (Some (v, x)) metrics None) (step_world env w5)" "\<not> isl r"
          using assms \<open>policy = Inr u\<close> acq lease b BodyOk fin by (auto simp: leased_call_def read_clock_def Let_def)
        moreover have "lo_lease_id outcome = Some (lg_lease_id g)" using finalize_frame [OF fin] Inr by simp
        ultimately show ?thesis
          using audited_ok [of env audit "key_of g" "lg_lease_id g" "(v, x)" metrics "step_world env w5" "projr r"] log5
          by (cases r) simp_all
      qed
    qed
  qed
qed

end

section \<open>The four calls\<close>

inductive tool_call :: "runtime_env \<Rightarrow> (runtime_world \<Rightarrow> json call_outcome \<times> runtime_world) \<Rightarrow> bool" for env where
  single: "tool_call env (call_tool_with_context env server_name tool arguments timeout_ms context)"
| single_pooled: "tool_call env (call_tool_with_pooled_context env server_name tool arguments timeout_ms context)"
| batch: "tool_call env (call_tools_with_context env server_name calls timeout_ms context)"
| batch_pooled: "tool_call env (call_tools_with_pooled_context env server_name calls timeout_ms context)"

definition protocol_followed :: "runtime_world \<Rightarrow> json call_outcome \<times> runtime_world \<Rightarrow> bool" where
  "protocol_followed w run \<longleftrightarrow>
     (\<forall>r. fst run = Finished r \<longrightarrow>
        (\<exists>es p. rw_events (snd run) = rw_events w @ es \<and> phase_run Start es = Some p \<and> accepts r p))"

lemma protocol_error [simp]: "rw_events w' = rw_events w \<Longrightarrow> protocol_followed w (Finished (Inl e), w')"
  by (auto simp: protocol_followed_def intro!: exI [of _ "[]"])

lemma protocol_leased:
  assumes "leased_body body tools allowed" "rw_events w0 = rw_events w"
  shows "protocol_followed w (leased_call env server context timeout begun policy key_of audit metrics_of body answer w0)"
proof (cases "leased_call env server context timeout begun policy key_of audit metrics_of body answer w0")
  case (Pair out w')
  from leased_body.leased_call_events [OF assms(1) this] show ?thesis
    using assms(2) by (auto simp: protocol_followed_def Pair)
qed

lemma protocol_single: "protocol_followed w (call_tool_with_context env s tool a t c w)"
  unfolding call_tool_with_context_def read_clock_def Let_def prod.case
  by (auto split: sum.splits intro!: protocol_leased direct.leased_body_axioms)

lemma protocol_single_pooled: "protocol_followed w (call_tool_with_pooled_context env s tool a t c w)"
  unfolding call_tool_with_pooled_context_def read_clock_def Let_def prod.case
  by (auto split: sum.splits intro!: protocol_single protocol_leased pooled.leased_body_axioms)

lemma protocol_batch: "protocol_followed w (call_tools_with_context env s calls t c w)"
  unfolding call_tools_with_context_def read_clock_def Let_def prod.case
  by (auto split: sum.splits intro!: protocol_leased direct.leased_body_axioms)

lemma protocol_batch_pooled: "protocol_followed w (call_tools_with_pooled_context env s calls t c w)"
  unfolding call_tools_with_pooled_context_def read_clock_def Let_def prod.case
  by (auto split: sum.splits intro!: protocol_batch protocol_leased pooled.leased_body_axioms)

lemma tool_call_protocol_aux: "tool_call env run \<Longrightarrow> protocol_followed w (run w)"
  by (induction rule: tool_call.induct) (rule protocol_single protocol_single_pooled protocol_batch protocol_batch_pooled)+

text \<open>C14: leases and tickets are given back on every path. Whatever other threads and processes do in between and whatever the
  servers answer, a tool call that finishes (single or batch, direct or pooled) went through the protocol: a ticket it took
  was given back; a request was sent at most once and only while its lease was held; a lease it held was released, again
  after a failed release; and a result is returned only if the request was sent and the release succeeded.\<close>

theorem tool_call_protocol:
  assumes "tool_call env run" "run w = (Finished r, w')"
  shows "\<exists>es p. rw_events w' = rw_events w @ es \<and> phase_run Start es = Some p \<and> accepts r p"
  using tool_call_protocol_aux [OF assms(1), of w] assms(2) by (simp add: protocol_followed_def)

theorem tool_call_protocol_witness:
  "\<exists>w' r es p. call_tool_with_context fs_env ''fs'' ''read'' JNull None None fs_world = (Finished r, w') \<and>
     rw_events w' = rw_events fs_world @ es \<and> phase_run Start es = Some p \<and> accepts r p"
proof -
  obtain r w' where call: "call_tool_with_context fs_env ''fs'' ''read'' JNull None None fs_world = (Finished r, w')"
    using fs_call by blast
  from tool_call_protocol [OF tool_call.single call] call show ?thesis by blast
qed

section \<open>What is sent was checked\<close>

definition tools_sent :: "runtime_world \<Rightarrow> json call_outcome \<times> runtime_world \<Rightarrow> string list set" where
  "tools_sent w run = {ts. EvCall ts \<in> set (drop (length (rw_events w)) (rw_events (snd run)))}"

lemma tools_sent_same [simp]: "rw_events w' = rw_events w \<Longrightarrow> tools_sent w (out, w') = {}"
  by (simp add: tools_sent_def)

lemma tools_sent_leased:
  assumes "leased_body body tools allowed" "rw_events w0 = rw_events w"
    and "ts \<in> tools_sent w (leased_call env server context timeout begun policy key_of audit metrics_of body answer w0)"
  shows "ts = tools \<and> allowed \<and> policy = Inr ()"
proof (cases "leased_call env server context timeout begun policy key_of audit metrics_of body answer w0")
  case (Pair out w')
  from leased_body.leased_call_events [OF assms(1) this] show ?thesis
    using assms(2,3) by (auto simp: tools_sent_def Pair)
qed

lemma tools_sent_cong: "rw_events w0 = rw_events w \<Longrightarrow> tools_sent w0 run = tools_sent w run"
  by (simp add: tools_sent_def)

text \<open>A tool list a call may have seen: the cached or fetched list, the one in the cache, or the one a pooled worker gave.\<close>

definition tools_seen :: "runtime_env \<Rightarrow> upstream_server_config \<Rightarrow> json \<Rightarrow> bool" where
  "tools_seen env server tools \<longleftrightarrow>
     (\<exists>n. (\<exists>hit. rn_listed env n = Inr (tools, hit)) \<or> rn_pool_cached env n = Some tools \<or>
        (\<exists>res. rn_pool_list env n = Inr res \<and> validate_tools_list_result (sv_name server) res = Inr tools))"

definition advertises :: "json \<Rightarrow> string \<Rightarrow> bool" where
  "advertises tools tool \<longleftrightarrow>
     (\<exists>items. as_array tools = Some items \<and> (\<exists>item \<in> set items. \<exists>n. string_at_path item [''name''] = Some n \<and> trim n = tool))"

lemma set_fold_insort_insert: "set (fold insort_insert xs acc) = set xs \<union> set acc"
  by (induction xs arbitrary: acc) (auto simp: set_insort_insert)

lemma names_advertised:
  "tool_names_from_tools_list server tools hint = Inr names \<Longrightarrow> names \<noteq> [] \<and> (\<forall>tool \<in> set names. advertises tools tool)"
  by (auto simp: tool_names_from_tools_list_def Let_def advertises_def set_fold_insort_insert List.map_filter_def
      split: if_splits option.splits) blast

lemma verified_member:
  "ensure_tool_name_in_verified_set server tool names = Inr () \<Longrightarrow> names \<noteq> [] \<Longrightarrow> tool \<in> set names"
  by (auto simp: ensure_tool_name_in_verified_set_def split: if_splits)

lemma known_seen:
  assumes "validate_upstream_tool_known var server (with_hint (rn_listed env n)) tool context = Inr ()"
    and "known_tool_validation_required var context"
  shows "\<exists>tools. tools_seen env server tools \<and> advertises tools tool"
proof -
  obtain tools hit names where "rn_listed env n = Inr (tools, hit)" and names: "tool_names_from_tools_list server tools
      (if hit then '' from cache'' else []) = Inr names" "ensure_tool_name_in_verified_set server tool names = Inr ()"
    using assms by (auto simp: validate_upstream_tool_known_def verified_tool_names_for_call_def with_hint_def split: sum.splits)
  then show ?thesis using names_advertised [OF names(1)] verified_member [OF names(2)] by (auto simp: tools_seen_def)
qed

lemma known_with_pool_seen:
  assumes "validate_upstream_tool_known_with_pool var server (rn_pool_cached env n) (rn_pool_list env n) tool context = Inr ()"
    and "known_tool_validation_required var context"
  shows "\<exists>tools. tools_seen env server tools \<and> advertises tools tool"
proof -
  obtain tools hint names where "tools_seen env server tools"
    and names: "tool_names_from_tools_list server tools hint = Inr names" "ensure_tool_name_in_verified_set server tool names = Inr ()"
    using assms by (fastforce simp: validate_upstream_tool_known_with_pool_def verified_tool_names_for_call_with_pool_def tools_seen_def
        split: sum.splits option.splits)
  then show ?thesis using names_advertised [OF names(1)] verified_member [OF names(2)] by blast
qed

definition call_allowed :: "runtime_env \<Rightarrow> string \<Rightarrow> string \<Rightarrow> upstream_lease_context option \<Rightarrow> bool" where
  "call_allowed env server_name tool context \<longleftrightarrow>
     (\<exists>server. resolve_server env server_name = Inr server \<and> validate_upstream_tool_policy server tool context = Inr () \<and>
        (known_tool_validation_required (rn_allow_var env) context \<longrightarrow> (\<exists>tools. tools_seen env server tools \<and> advertises tools tool)))"

lemma single_guarded:
  assumes "ts \<in> tools_sent w (call_tool_with_context env s tool a t c w)"
  shows "ts = [trim tool] \<and> call_allowed env (trim s) (trim tool) c"
proof -
  obtain server where server: "resolve_server env (trim s) = Inr server"
    using assms by (auto simp: call_tool_with_context_def read_clock_def Let_def split: if_splits sum.splits)
  have "ts = [trim tool] \<and> (\<exists>n. validate_upstream_tool_known (rn_allow_var env) server (with_hint (rn_listed env n)) (trim tool) c = Inr ()) \<and>
      validate_upstream_tool_policy server (trim tool) c = Inr ()"
    using assms server
    by (auto simp: call_tool_with_context_def read_clock_def Let_def split: if_splits
        dest!: tools_sent_leased [OF direct.leased_body_axioms, rotated])
  then show ?thesis using server known_seen by (auto simp: call_allowed_def)
qed

lemma single_pooled_guarded:
  assumes "ts \<in> tools_sent w (call_tool_with_pooled_context env s tool a t c w)"
  shows "ts = [trim tool] \<and> call_allowed env (trim s) (trim tool) c"
proof -
  obtain server where server: "resolve_server env (trim s) = Inr server"
    using assms by (auto simp: call_tool_with_pooled_context_def read_clock_def Let_def split: if_splits sum.splits)
  show ?thesis
  proof (cases "sv_source_type server = ''http''")
    case True
    then have "ts \<in> tools_sent w (call_tool_with_context env (trim s) (trim tool) a t c w)"
      using assms server by (auto simp: call_tool_with_pooled_context_def Let_def split: if_splits)
    from single_guarded [OF this] show ?thesis by simp
  next
    case False
    have "ts = [trim tool] \<and> (\<exists>n. validate_upstream_tool_known_with_pool (rn_allow_var env) server (rn_pool_cached env n)
        (rn_pool_list env n) (trim tool) c = Inr ()) \<and> validate_upstream_tool_policy server (trim tool) c = Inr ()"
      using assms server False
      by (auto simp: call_tool_with_pooled_context_def read_clock_def Let_def split: if_splits
          dest!: tools_sent_leased [OF pooled.leased_body_axioms, rotated])
    then show ?thesis using server known_with_pool_seen by (auto simp: call_allowed_def)
  qed
qed

text \<open>C15: nothing is sent unchecked. A request that a tool call sends, on whatever path and with whatever interference, names
  the tool that was asked for; the server is configured, enabled and callable; every risk policy of the server that matches
  the tool was granted; and unless unknown tools are allowed, a tool list the call saw advertises the tool.\<close>

theorem tool_call_guarded:
  assumes "f \<in> {call_tool_with_context, call_tool_with_pooled_context}" "ts \<in> tools_sent w (f env s tool arguments t c w)"
  shows "ts = [trim tool] \<and> call_allowed env (trim s) (trim tool) c"
  using assms single_guarded single_pooled_guarded by blast

theorem tool_call_guarded_witness: "call_allowed fs_env ''fs'' ''read'' None"
proof -
  obtain r w' where "call_tool_with_context fs_env ''fs'' ''read'' JNull None None fs_world = (Finished r, w')"
      "EvCall [''read''] \<in> set (rw_events w')"
    using fs_call by blast
  then have "[''read''] \<in> tools_sent fs_world (call_tool_with_context fs_env ''fs'' ''read'' JNull None None fs_world)"
    by (simp add: tools_sent_def fs_world_def)
  from tool_call_guarded [where f = call_tool_with_context, OF _ this] show ?thesis by (simp add: text_defs)
qed

section \<open>One audit record per call\<close>

definition audit_field :: "audit_record \<Rightarrow> string \<Rightarrow> json option" where
  "audit_field a name = map_of (snd (snd a)) name"

text \<open>A record of the log that tells how a call ended.\<close>

definition tells :: "string + json \<Rightarrow> audit_record \<Rightarrow> bool" where
  "tells r a \<longleftrightarrow>
     fst (snd a) = ''tool_call_audit'' \<and> audit_field a ''bridgeOk'' = Some (JBool (\<not> isl r)) \<and>
     audit_field a ''error'' = Some (case r of Inl e \<Rightarrow> JString e | Inr _ \<Rightarrow> JNull)"

lemma single_audit_tells: "audited (single_audit env s tool arguments c pooled is_error) r a \<Longrightarrow> tells r a"
  by (cases r) (auto simp: audited_def single_audit_def log_tool_call_audit_def audit_field_def tells_def Let_def)

lemma single_audited:
  assumes "trim s \<noteq> []" "trim tool \<noteq> []" "resolve_server env (trim s) = Inr server"
    and "call_tool_with_context env s tool arguments t c w = (Finished r, w')"
  shows "\<exists>a. rw_log w' = rw_log w @ [a] \<and> audited (single_audit env (trim s) (trim tool) arguments c False id) r a"
  using assms
  by (auto simp: call_tool_with_context_def read_clock_def Let_def dest!: direct.leased_call_audit)

lemma single_pooled_audited:
  assumes "trim s \<noteq> []" "trim tool \<noteq> []" "resolve_server env (trim s) = Inr server"
    and "call_tool_with_pooled_context env s tool arguments t c w = (Finished r, w')"
  shows "\<exists>a. rw_log w' = rw_log w @ [a] \<and> tells r a"
proof (cases "sv_source_type server = ''http''")
  case True
  then have "call_tool_with_context env (trim s) (trim tool) arguments t c w = (Finished r, w')"
    using assms by (simp add: call_tool_with_pooled_context_def Let_def)
  then show ?thesis using single_audited [of "trim s" "trim tool"] assms(1-3) single_audit_tells by fastforce
next
  case False
  obtain key_of metrics_of body answer w0 where
      call: "leased_call env server c (timeout_for server t) (rn_now env (rw_step w)) (validate_upstream_tool_policy server (trim tool) c)
        key_of (single_audit env (trim s) (trim tool) arguments c True fst) metrics_of
        (\<lambda>g. pooled_body env (upstream_session_key env server (lg_affinity g)) [trim tool]
           (\<lambda>cached listed. validate_upstream_tool_known_with_pool (rn_allow_var env) server cached listed (trim tool) c)
           (\<lambda>n. rn_pool_call env n (trim tool) arguments) (validate_tool_call_result (sv_name server) (trim tool)))
        answer w0 = (Finished r, w')" and "rw_log w0 = rw_log w"
    using assms False by (auto simp: call_tool_with_pooled_context_def read_clock_def Let_def)
  then show ?thesis using pooled.leased_call_audit [OF call] single_audit_tells by metis
qed



section \<open>The heartbeat\<close>

text \<open>A lease is renewed before it expires. The heartbeat of a lease with a time to live of at least two milliseconds
  sleeps at least one millisecond, at most thirty seconds, and strictly less than the time to live the lease store grants.\<close>

lemma heartbeat_before_expiry:
  assumes "2 \<le> ttl_ms"
  shows "1 \<le> lease_heartbeat_interval ttl_ms \<and> lease_heartbeat_interval ttl_ms \<le> 30000 \<and>
    lease_heartbeat_interval ttl_ms < normalize_ttl (Some ttl_ms)"
proof -
  define t where "t = min ttl_ms (uint_max 64)"
  have t: "2 \<le> t" "t \<le> ttl_ms" using assms by (simp_all add: t_def uint_max_def)
  have i: "lease_heartbeat_interval ttl_ms = min (clamp 50 30000 (t div 3)) (max (t - 1) 1)"
    by (simp add: lease_heartbeat_interval_def t_def Let_def)
  have c: "50 \<le> clamp 50 30000 (t div 3)" "clamp 50 30000 (t div 3) \<le> 30000" by (simp_all add: clamp_def)
  have "lease_heartbeat_interval ttl_ms < ttl_ms" using t i by linarith
  moreover have "normalize_ttl (Some ttl_ms) = min ttl_ms 3600000" using assms by (simp add: normalize_ttl_def MAX_LEASE_TTL_MS_def)
  ultimately show ?thesis using c i by linarith
qed

lemma heartbeat_loop_counts:
  "hb_lost (heartbeat_loop rounds hb) \<longleftrightarrow> hb_lost hb \<or> hb_failure_count (heartbeat_loop rounds hb) \<noteq> hb_failure_count hb"
  by (induction rounds hb rule: heartbeat_loop.induct) auto

section \<open>The retries end\<close>

text \<open>Waiting for a lease ends. When the clock reading of some round, each of which reads it at a fixed place, has passed
  the deadline of the queue, the attempts have ended by that round: the call holds a lease or reports an error. It never
  waits past its deadline.\<close>

lemma acquire_rounds_end:
  assumes "deadline \<le> rn_now env (rw_step w + 3 * k + 1)" "k < rounds"
  shows "\<exists>r w'. acquire_rounds env server request key position affinity queued_at deadline rounds attempts w = (Finished r, w')"
  using assms
proof (induction rounds arbitrary: k attempts w)
  case (Suc rounds)
  obtain r w1 where acq: "acquire_lease env request w = (r, w1)" by (cases "acquire_lease env request w")
  have step: "rw_step w1 = Suc (rw_step w)" using acquire_lease_frame [OF acq] by simp
  consider (error) e where "r = Inl e" | (granted) lid v where "r = Inr (Acquired lid v)" | (blocked) v where "r = Inr (Blocked v)"
    by (metis runtime_lease_acquire_result.exhaust sumE)
  then show ?case
  proof cases
    case blocked
    show ?thesis
    proof (cases "deadline \<le> rn_now env (rw_step w1)")
      case True
      then show ?thesis using acq blocked by (simp add: Let_def read_clock_def)
    next
      case False
      then obtain j where k: "k = Suc j" using Suc.prems(1) step by (cases k) auto
      obtain timed_out later where retry: "rn_retry env (Suc (rw_step w1)) = (timed_out, later)"
        by (cases "rn_retry env (Suc (rw_step w1))")
      show ?thesis
      proof (cases "wait_for_retry key (ticket position) deadline (rn_now env (Suc (rw_step w1))) timed_out later")
        case (Inl e)
        then show ?thesis using acq blocked False retry by (simp add: Let_def read_clock_def)
      next
        case (Inr u)
        have "\<exists>r w'. acquire_rounds env server request key position affinity queued_at deadline rounds (sat_add 64 attempts 1)
            (step_world env (step_world env w1)) = (Finished r, w')"
        proof (rule Suc.IH)
          have "rw_step (step_world env (step_world env w1)) + 3 * j + 1 = rw_step w + 3 * k + 1" by (simp add: k step)
          then show "deadline \<le> rn_now env (rw_step (step_world env (step_world env w1)) + 3 * j + 1)" using Suc.prems(1) by metis
          show "j < rounds" using Suc.prems(2) k by simp
        qed
        then show ?thesis using acq blocked False retry Inr by (simp add: Let_def read_clock_def)
      qed
    qed
  qed (simp_all add: acq Let_def read_clock_def)
qed simp

end
