(* ===== verification/Client_Path.thy ===== *)
theory Client_Path
  imports Text_Search Execution_Affinity "HOL-Library.Sublist"
begin

text \<open>
  Paths of the client planner (\<^verbatim>\<open>src/client/pathing.rs\<close>): the normal form of a path or file URI, the lexical key by
  which a directory contains another, the sanitised text of keys and the hash of derived lease ids.
\<close>

section \<open>Normal forms\<close>

definition hex_value :: "char \<Rightarrow> nat option" where
  "hex_value c =
     (if is_digit c then Some (code c - 48)
      else if 97 \<le> code c \<and> code c \<le> 102 then Some (code c - 97 + 10)
      else if 65 \<le> code c \<and> code c \<le> 70 then Some (code c - 65 + 10)
      else None)"

fun percent_bytes :: "string \<Rightarrow> string" where
  "percent_bytes (c # h # l # rest) =
     (case (if c = CHR ''%'' then hex_value h else None, hex_value l) of
        (Some hi, Some lo) \<Rightarrow> char_of (hi * 16 + lo) # percent_bytes rest
      | _ \<Rightarrow> c # percent_bytes (h # l # rest))"
| "percent_bytes s = s"

definition percent_decode :: "string \<Rightarrow> string" where
  "percent_decode v = utf8_lossy (percent_bytes v)"

text \<open>The text before the first question mark or hash sign.\<close>

definition trim_uri_suffix :: "string \<Rightarrow> string" where
  "trim_uri_suffix v = takeWhile (\<lambda>c. c \<noteq> CHR ''?'' \<and> c \<noteq> CHR ''#'') v"

definition starts_with_drive :: "string \<Rightarrow> bool" where
  "starts_with_drive s \<longleftrightarrow> (case s of a # b # _ \<Rightarrow> b = CHR '':'' \<and> (is_upper a \<or> is_lower a) | _ \<Rightarrow> False)"

definition decode_file_uri :: "string \<Rightarrow> string option" where
  "decode_file_uri v =
     (if \<not> starts_with (to_ascii_lowercase v) ''file://'' then None
      else let rest = trim_uri_suffix (drop 7 v)
           in case (if starts_with (to_ascii_lowercase rest) ''localhost/'' then Some (drop 9 rest)
                    else if starts_with rest ''/'' then Some rest else None) of
                None \<Rightarrow> None
              | Some rest \<Rightarrow>
                  let decoded = percent_decode rest
                  in Some (if starts_with decoded ''/'' \<and> starts_with_drive (drop 1 decoded) then drop 1 decoded else decoded))"

definition normalize_path :: "string \<Rightarrow> string" where
  "normalize_path v =
     (let trimmed = trim v
      in if trimmed = [] then []
         else let normalized = map (\<lambda>c. if c = CHR 0x5C then CHR ''/'' else c) trimmed
              in case decode_file_uri normalized of Some decoded \<Rightarrow> decoded | None \<Rightarrow> normalized)"

definition normalize_transport :: "string \<Rightarrow> string" where
  "normalize_transport v =
     (let t = normalize_flag v
      in if t \<in> {''http'', ''streamable-http'', ''streamable_http''} then ''streamable-http''
         else if t \<in> {''stdio'', ''local-stdio''} then ''stdio''
         else if t = ''sse'' then ''sse''
         else if t = [] then ''stdio''
         else t)"

section \<open>Lexical containment\<close>

definition looks_like_windows_path :: "string \<Rightarrow> bool" where
  "looks_like_windows_path v \<longleftrightarrow> starts_with_drive v \<or> starts_with v ''//''"

text \<open>The prefix of a path (two slashes, a drive, one slash or none) and the text after it.\<close>

definition lexical_split :: "string \<Rightarrow> string \<times> string" where
  "lexical_split rest =
     (if starts_with rest ''//'' then (''//'', drop 2 rest)
      else if starts_with_drive rest then (take 2 rest, dropWhile (\<lambda>c. c = CHR ''/'') (drop 2 rest))
      else if starts_with rest ''/'' then (''/'', dropWhile (\<lambda>c. c = CHR ''/'') rest)
      else ([], rest))"

definition lexical_push :: "string \<Rightarrow> string list \<Rightarrow> string \<Rightarrow> string list" where
  "lexical_push pre parts part =
     (if part = [] \<or> part = ''.'' then parts
      else if part = ''..'' then
        (if parts \<noteq> [] \<and> last parts \<noteq> ''..'' then butlast parts
         else if pre = [] then parts @ [part] else parts)
      else parts @ [part])"

definition lexical_components :: "string \<Rightarrow> string \<times> string list" where
  "lexical_components v =
     (let (pre, rest) = lexical_split (trim (normalize_path v))
      in (pre, foldl (lexical_push pre) [] (split_char CHR ''/'' rest)))"

definition lexical_text :: "string \<times> string list \<Rightarrow> string" where
  "lexical_text c =
     (let (pre, parts) = c
      in if pre = ''/'' \<or> pre = ''//'' \<or> pre = [] then pre @ join ''/'' parts
         else if parts = [] then pre else pre @ ''/'' @ join ''/'' parts)"

definition lexical_path_key :: "string \<Rightarrow> string" where
  "lexical_path_key v = (if trim (normalize_path v) = [] then [] else lexical_text (lexical_components v))"

definition path_compare_key :: "string \<Rightarrow> string" where
  "path_compare_key v =
     (let normalized = lexical_path_key v
      in if looks_like_windows_path normalized then to_ascii_lowercase normalized else normalized)"

definition path_is_within :: "string \<Rightarrow> string \<Rightarrow> bool" where
  "path_is_within path root \<longleftrightarrow>
     (let path_key = path_compare_key path; root_key = path_compare_key root
      in root_key \<noteq> [] \<and> (path_key = root_key \<or> starts_with path_key (root_key @ ''/'')))"

section \<open>Keys and hashes\<close>

text \<open>A character outside ASCII becomes one underscore: its lead byte does, its continuation bytes disappear.\<close>

definition safe_key_char :: "char \<Rightarrow> bool" where
  "safe_key_char c \<longleftrightarrow> is_alnum c \<or> c \<in> {CHR ''/'', CHR ''-'', CHR ''_'', CHR ''.'', CHR '':''}"

definition sanitize_key :: "string \<Rightarrow> string" where
  "sanitize_key v = map (\<lambda>c. if safe_key_char c then c else CHR ''_'') (filter (\<lambda>c. \<not> utf8_cont c) (normalize_path v))"

definition stable_hash :: "string \<Rightarrow> 64 word" where
  "stable_hash s = foldl (\<lambda>h c. xor h (of_nat (code c)) * 0x100000001b3) 0xcbf29ce484222325 s"

definition stable_hash_hex :: "string \<Rightarrow> string" where
  "stable_hash_hex input = hex_digits 16 (unat (stable_hash input))"

section \<open>Laws of containment\<close>

definition part_ok :: "string \<Rightarrow> bool" where
  "part_ok p \<longleftrightarrow> p \<noteq> [] \<and> p \<noteq> ''.'' \<and> CHR ''/'' \<notin> set p"

lemma split_char_no_sep: "p \<in> set (split_char c s) \<Longrightarrow> c \<notin> set p"
proof (induction s arbitrary: p)
  case (Cons x s)
  then show ?case by (cases "split_char c s") (auto split: if_splits)
qed simp

lemma split_char_sep: "split_char c (a @ c # b) = split_char c a @ split_char c b"
proof (induction a)
  case (Cons x a)
  have "split_char c a \<noteq> []" using split_char_join by blast
  then show ?case using Cons by (cases "split_char c a") auto
qed simp

lemma lexical_push_ok:
  "list_all part_ok parts \<Longrightarrow> CHR ''/'' \<notin> set part \<Longrightarrow> list_all part_ok (lexical_push pre parts part)"
  by (auto simp: lexical_push_def part_ok_def list_all_iff dest: in_set_butlastD)

lemma lexical_fold_ok:
  "list_all part_ok parts \<Longrightarrow> \<forall>p \<in> set ps. CHR ''/'' \<notin> set p \<Longrightarrow> list_all part_ok (foldl (lexical_push pre) parts ps)"
  by (induction ps arbitrary: parts) (auto simp: lexical_push_ok)

lemma lexical_components_ok: "list_all part_ok (snd (lexical_components v))"
  unfolding lexical_components_def
  by (simp add: Let_def split_beta lexical_fold_ok split_char_no_sep)

text \<open>A rooted path never has a parent component left.\<close>

lemma lexical_push_rooted:
  "pre \<noteq> [] \<Longrightarrow> ''..'' \<notin> set parts \<Longrightarrow> ''..'' \<notin> set (lexical_push pre parts part)"
  by (auto simp: lexical_push_def dest: in_set_butlastD)

lemma lexical_fold_rooted:
  "pre \<noteq> [] \<Longrightarrow> ''..'' \<notin> set parts \<Longrightarrow> ''..'' \<notin> set (foldl (lexical_push pre) parts ps)"
  by (induction ps arbitrary: parts) (auto simp: lexical_push_rooted)

lemma rooted_no_parent: "fst (lexical_components v) \<noteq> [] \<Longrightarrow> ''..'' \<notin> set (snd (lexical_components v))"
  by (simp add: lexical_components_def Let_def split_beta lexical_fold_rooted)

lemma join_append: "xs \<noteq> [] \<Longrightarrow> ys \<noteq> [] \<Longrightarrow> join sep (xs @ ys) = join sep xs @ sep @ join sep ys"
proof (induction sep xs rule: join.induct)
  case (2 sep x)
  then show ?case by (cases ys) auto
qed auto

lemma parts_no_sep: "list_all part_ok ps \<Longrightarrow> \<forall>x \<in> set ps. CHR ''/'' \<notin> set x"
  by (auto simp: list_all_iff part_ok_def)

lemma join_parts_hd: "list_all part_ok ps \<Longrightarrow> ps \<noteq> [] \<Longrightarrow> \<exists>c r. join ''/'' ps = c # r \<and> c \<noteq> CHR ''/''"
proof (cases ps)
  case (Cons p qs)
  assume "list_all part_ok ps"
  then obtain c r where "p = c # r" "c \<noteq> CHR ''/''" using Cons by (cases p) (auto simp: part_ok_def)
  then show ?thesis using Cons by (cases qs) auto
qed simp

lemma join_parts_Nil: "list_all part_ok ps \<Longrightarrow> join ''/'' ps = [] \<longleftrightarrow> ps = []"
  using join_parts_hd [of ps] by fastforce

lemma join_prefix_iff:
  assumes p: "list_all part_ok ps" and r: "list_all part_ok rs" "rs \<noteq> []"
  shows "join ''/'' ps = join ''/'' rs \<or> starts_with (join ''/'' ps) (join ''/'' rs @ ''/'') \<longleftrightarrow> prefix rs ps"
    (is "?lhs \<longleftrightarrow> _")
proof
  have rs: "split_char CHR ''/'' (join ''/'' rs) = rs" using r parts_no_sep by (intro split_join) auto
  assume l: ?lhs
  then have "ps \<noteq> []" using r join_parts_Nil [OF r(1)] by (auto simp: starts_with_def)
  then have ps: "split_char CHR ''/'' (join ''/'' ps) = ps" using p parts_no_sep by (intro split_join) auto
  show "prefix rs ps"
  proof (cases "join ''/'' ps = join ''/'' rs")
    case True
    then have "ps = rs" using ps rs by metis
    then show ?thesis by simp
  next
    case False
    then obtain t where "join ''/'' ps = join ''/'' rs @ CHR ''/'' # t" using l by (auto simp: starts_with_iff)
    then have "ps = rs @ split_char CHR ''/'' t" using ps rs by (metis split_char_sep)
    then show ?thesis by simp
  qed
next
  assume "prefix rs ps"
  then obtain t where t: "ps = rs @ t" by (auto simp: prefix_def)
  show ?lhs using r t by (cases "t = []") (auto simp: join_append starts_with_iff)
qed

lemma lexical_text_plain:
  assumes "\<not> looks_like_windows_path (lexical_path_key v)" "lexical_path_key v \<noteq> []"
  shows "fst (lexical_components v) \<in> {[], ''/''}"
    and "lexical_path_key v = fst (lexical_components v) @ join ''/'' (snd (lexical_components v))"
proof -
  obtain pre parts where c: "lexical_components v = (pre, parts)" by (cases "lexical_components v")
  have k: "lexical_path_key v = lexical_text (pre, parts)"
    using assms(2) c by (simp add: lexical_path_key_def split: if_splits)
  have "pre = ''//'' \<or> starts_with_drive pre \<and> length pre = 2 \<or> pre = ''/'' \<or> pre = []"
    using c unfolding lexical_components_def lexical_split_def Let_def
    by (auto simp: starts_with_drive_def split: if_splits list.splits)
  moreover have "starts_with_drive (lexical_text (pre, parts))" if "starts_with_drive pre" "length pre = 2"
    using that by (auto simp: lexical_text_def starts_with_drive_def split: list.splits)
  moreover have "starts_with (lexical_text (pre, parts)) ''//''" if "pre = ''//''"
    using that by (simp add: lexical_text_def starts_with_def)
  ultimately have "pre \<in> {[], ''/''}" using assms(1) k by (auto simp: looks_like_windows_path_def)
  then show "fst (lexical_components v) \<in> {[], ''/''}"
    "lexical_path_key v = fst (lexical_components v) @ join ''/'' (snd (lexical_components v))"
    using k c by (auto simp: lexical_text_def)
qed

definition plain_path :: "string \<Rightarrow> bool" where
  "plain_path v \<longleftrightarrow> \<not> looks_like_windows_path (lexical_path_key v)"

lemma path_is_within_iff:
  assumes "plain_path path" "plain_path root" and r: "snd (lexical_components root) \<noteq> []"
  shows "path_is_within path root \<longleftrightarrow>
    trim (normalize_path root) \<noteq> [] \<and> fst (lexical_components path) = fst (lexical_components root) \<and>
    prefix (snd (lexical_components root)) (snd (lexical_components path))"
proof (cases "trim (normalize_path root) = []")
  case True
  then show ?thesis using assms(2) by (simp add: path_is_within_def path_compare_key_def lexical_path_key_def plain_path_def)
next
  case root: False
  obtain rp rs where rc: "lexical_components root = (rp, rs)" by (cases "lexical_components root")
  obtain pp ps where pc: "lexical_components path = (pp, ps)" by (cases "lexical_components path")
  have ok: "list_all part_ok rs" "list_all part_ok ps"
    using lexical_components_ok [of root] lexical_components_ok [of path] rc pc by simp_all
  have rs: "rs \<noteq> []" using r rc by simp
  have nr: "lexical_path_key root \<noteq> []"
    using root rc rs join_parts_Nil [OF ok(1)] by (simp add: lexical_path_key_def lexical_text_def)
  have rk: "rp \<in> {[], ''/''}" "lexical_path_key root = rp @ join ''/'' rs"
    using lexical_text_plain [of root] assms(2) nr rc by (auto simp: plain_path_def)
  have within: "path_is_within path root \<longleftrightarrow>
      lexical_path_key path = lexical_path_key root \<or> starts_with (lexical_path_key path) (lexical_path_key root @ ''/'')"
    using assms(1,2) nr by (simp add: path_is_within_def path_compare_key_def plain_path_def Let_def)
  obtain a as where a: "join ''/'' rs = a # as" "a \<noteq> CHR ''/''" using join_parts_hd [OF ok(1) rs] by auto
  show ?thesis
  proof (cases "lexical_path_key path = []")
    case True
    have "ps = [] \<or> trim (normalize_path path) = []"
      using True pc join_parts_Nil [OF ok(2)] by (auto simp: lexical_path_key_def lexical_text_def split: if_splits)
    moreover have "ps = []" if "trim (normalize_path path) = []"
      using pc that by (auto simp: lexical_components_def lexical_split_def starts_with_drive_def starts_with_def lexical_push_def)
    ultimately have "ps = []" by blast
    then show ?thesis using True within nr rs rc pc by (simp add: starts_with_def)
  next
    case False
    have pk: "pp \<in> {[], ''/''}" "lexical_path_key path = pp @ join ''/'' ps"
      using lexical_text_plain [of path] assms(1) False pc by (auto simp: plain_path_def)
    have ne: "pp \<noteq> rp \<Longrightarrow> \<not> (pp @ join ''/'' ps = rp @ join ''/'' rs \<or> starts_with (pp @ join ''/'' ps) (rp @ join ''/'' rs @ ''/''))"
      using pk(1) rk(1) a join_parts_hd [OF ok(2)] by (cases "ps = []") (auto simp: starts_with_iff)
    have "starts_with (x @ s) (x @ t) \<longleftrightarrow> starts_with s t" for x s t by (auto simp: starts_with_iff)
    then show ?thesis
      using within ne join_prefix_iff [OF ok(2,1) rs] root pk(2) rk(2) rc pc by (cases "pp = rp") auto
  qed
qed

text \<open>The test for a containing directory adds a slash to the key of the root, so the root directory itself contains
  no file.\<close>

lemma root_directory_contains_nothing: "\<not> path_is_within ''/work'' ''/''"
  by (simp add: path_is_within_def path_compare_key_def lexical_path_key_def lexical_components_def lexical_split_def
      lexical_text_def lexical_push_def normalize_path_def decode_file_uri_def starts_with_drive_def
      looks_like_windows_path_def Let_def text_defs)

section \<open>Laws of keys\<close>

lemma sanitize_key_chars: "c \<in> set (sanitize_key v) \<Longrightarrow> safe_key_char c"
  by (auto simp: sanitize_key_def safe_key_char_def split: if_splits)

lemma safe_key_char_no_bar: "\<not> safe_key_char (CHR ''|'')"
  by (simp add: safe_key_char_def text_defs)

lemma sanitize_key_no_bar: "CHR ''|'' \<notin> set (sanitize_key v)"
  using sanitize_key_chars safe_key_char_no_bar by blast

definition key_subst :: "char \<Rightarrow> char" where
  "key_subst c = (if safe_key_char c then c else CHR ''_'')"

definition path_neutral :: "string \<Rightarrow> bool" where
  "path_neutral v \<longleftrightarrow> list_all (\<lambda>c. \<not> is_ws c \<and> c \<noteq> CHR 0x5C \<and> \<not> utf8_cont c) v"

lemma path_neutral_append [simp]: "path_neutral (a @ b) \<longleftrightarrow> path_neutral a \<and> path_neutral b"
  by (simp add: path_neutral_def)

lemma safe_key_char_neutral: "safe_key_char c \<Longrightarrow> \<not> is_ws c \<and> c \<noteq> CHR 0x5C \<and> \<not> utf8_cont c"
  by (auto simp: safe_key_char_def utf8_cont_def text_defs)

lemma sanitize_key_neutral [simp]: "path_neutral (sanitize_key v)"
  using sanitize_key_chars safe_key_char_neutral by (fastforce simp: path_neutral_def list_all_iff)

lemma sanitize_key_plain:
  assumes n: "path_neutral v" and f: "\<not> starts_with (to_ascii_lowercase v) ''file://''"
  shows "sanitize_key v = map key_subst v"
proof -
  have "trim v = v" using n by (simp add: trim_def trim_matches_none path_neutral_def list_all_iff)
  moreover have "map (\<lambda>c. if c = CHR 0x5C then CHR ''/'' else c) v = v"
    using n by (intro map_idI) (auto simp: path_neutral_def list_all_iff)
  ultimately have "normalize_path v = v" using f by (simp add: normalize_path_def Let_def decode_file_uri_def)
  moreover have "filter (\<lambda>c. \<not> utf8_cont c) v = v" using n by (simp add: path_neutral_def list_all_iff filter_id_conv)
  ultimately show ?thesis by (simp add: sanitize_key_def key_subst_def)
qed

end
