(* ===== verification/Server_Signals.thy ===== *)
theory Server_Signals
  imports Client_Path
begin

text \<open>
  Signals of a configured server (\<^verbatim>\<open>src/server/loader.rs\<close>): what its command, URL, arguments and hints say about what it
  touches (files, browser, shell, credentials, ...). The signals decide how conservatively an unknown server is scheduled.
\<close>

section \<open>Words\<close>

definition signal_tokens :: "string \<Rightarrow> string list" where
  "signal_tokens text =
     sorted_unique (filter (\<lambda>w. w \<noteq> []) (split_char CHR '' '' (map (\<lambda>c. if is_alnum c \<or> c = CHR ''_'' then c else CHR '' '') text)))"

definition has_any_token :: "string list \<Rightarrow> string list \<Rightarrow> bool" where
  "has_any_token tokens needles \<longleftrightarrow> list_ex (\<lambda>needle. needle \<in> set tokens) needles"

definition has_any_substring :: "string \<Rightarrow> string list \<Rightarrow> bool" where
  "has_any_substring haystack needles \<longleftrightarrow> list_ex (\<lambda>needle. contains haystack needle) needles"

definition looks_like_launcher_package_signal :: "string \<Rightarrow> bool" where
  "looks_like_launcher_package_signal v \<longleftrightarrow>
     \<not> (v = [] \<or> v = ''.'' \<or> v = ''..'' \<or>
        list_ex (starts_with v) [''-'', ''/'', ''./'', ''../'', ''~/'', ''http://'', ''https://''] \<or> CHR 0x5C \<in> set v) \<and>
     \<not> (CHR ''/'' \<in> set v \<and> \<not> starts_with v ''@'') \<and>
     (starts_with v ''@'' \<or> contains v ''mcp'' \<or> contains v ''modelcontextprotocol'' \<or> contains v ''server-'' \<or> contains v ''-server'')"

definition is_arg_quote :: "char \<Rightarrow> bool" where
  "is_arg_quote c \<longleftrightarrow> c = CHR 0x22 \<or> c = CHR 0x27"

definition raw_arg_is_semantic_signal :: "string \<Rightarrow> bool" where
  "raw_arg_is_semantic_signal v =
     (let normalized = to_ascii_lowercase (trim_matches is_arg_quote (trim v))
      in if normalized = [] then False
         else if normalized \<in> {''stdio'', ''http'', ''https'', ''sse'', ''streamable-http'', ''read-only'', ''readonly'', ''no-write''} then True
         else if looks_like_launcher_package_signal normalized then True
         else if \<not> starts_with normalized ''-'' then False
         else list_ex (\<lambda>flag. normalized = flag \<or> starts_with normalized (flag @ ''=''))
           [''--transport'', ''--stdio'', ''--http'', ''--sse'', ''--streamable-http'', ''--read-only'', ''--readonly'',
            ''--no-write'', ''--write'', ''--allow-read'', ''--allow-write'', ''--workspace'', ''--project'', ''--root'',
            ''--path'', ''--db'', ''--database'', ''--browser-profile'', ''--profile''])"

definition source_signal_args :: "string list \<Rightarrow> string list \<Rightarrow> string list" where
  "source_signal_args args profile_hints =
     sorted_unique (filter raw_arg_is_semantic_signal args @ filter (\<lambda>h. h \<noteq> []) (map trim profile_hints))"

definition command_semantic_signal :: "string \<Rightarrow> string" where
  "command_semantic_signal command =
     (let command_name = to_ascii_lowercase (trim_matches is_arg_quote
            (last (split_char CHR ''/'' (map (\<lambda>c. if c = CHR 0x5C then CHR ''/'' else c) (trim command)))))
      in if command_name \<in> {''sh'', ''bash'', ''zsh'', ''fish'', ''cmd'', ''cmd.exe'', ''powershell'', ''powershell.exe'',
              ''pwsh'', ''pwsh.exe'', ''ssh'', ''ssh.exe'', ''sftp'', ''sftp.exe'', ''terminal''} then command_name
         else if looks_like_launcher_package_signal command_name then command_name
         else [])"

section \<open>Signals\<close>

text \<open>Each signal looks at the lower-case text of the server and at its words.\<close>

definition remote_file_api :: "string \<Rightarrow> string list \<Rightarrow> bool" where
  "remote_file_api text tokens \<longleftrightarrow>
     has_any_substring text
       [''google-drive'', ''google drive'', ''google-docs'', ''google docs'', ''google-sheets'', ''google sheets'',
        ''google-slides'', ''google slides'', ''google-workspace'', ''google workspace'', ''onedrive'', ''dropbox'',
        ''sharepoint''] \<or>
     (''google'' \<in> set tokens \<and> has_any_token tokens [''drive'', ''docs'', ''sheets'', ''slides'', ''workspace''])"

definition filesystem_signal :: "string \<Rightarrow> string list \<Rightarrow> bool" where
  "filesystem_signal text tokens \<longleftrightarrow>
     \<not> remote_file_api text tokens \<and> (has_any_token tokens
       [''filesystem'', ''file-system'', ''file'', ''files'', ''directory'', ''directories'', ''folder'', ''path'',
        ''read_file'', ''write_file''] \<or>
     has_any_substring text
       [''server-filesystem'', ''@modelcontextprotocol/server-filesystem''])"

definition runnable_server_marker :: "string \<Rightarrow> string list \<Rightarrow> bool" where
  "runnable_server_marker text tokens \<longleftrightarrow>
     has_any_token tokens
       [''server'', ''mcp-server'', ''stdio'', ''streamable'', ''sse''] \<or>
     has_any_substring text
       [''mcp server'', ''model context protocol server'']"

definition explicit_sdk_or_framework :: "string \<Rightarrow> string list \<Rightarrow> bool" where
  "explicit_sdk_or_framework text tokens \<longleftrightarrow>
     has_any_token tokens
       [''sdk'', ''framework'', ''middleware'', ''inspector-client'', ''inspector-cli'', ''eval'', ''evaluation'',
        ''instrumentation'', ''fastmcp'', ''nestjs'', ''genkit''] \<or>
     has_any_substring text
       [''mcp-framework'', ''shared utilities'', ''client-side application'', ''model context protocol inspector'',
        ''mcp apps middleware'', ''mcp sdk'', ''mcp utilities'']"

definition weak_library_signal :: "string \<Rightarrow> string list \<Rightarrow> bool" where
  "weak_library_signal text tokens \<longleftrightarrow>
     has_any_token tokens
       [''plugin'', ''module'', ''library'', ''utils'', ''utilities''] \<and> \<not> runnable_server_marker text tokens"

definition example_or_demo :: "string \<Rightarrow> string list \<Rightarrow> bool" where
  "example_or_demo text tokens \<longleftrightarrow>
     has_any_token tokens
       [''demo'', ''example'', ''starter'', ''sample'', ''basic'', ''preact''] \<or>
     has_any_substring text
       [''cohort heatmap'', ''budget allocator'', ''customer segmentation'', ''basic mcp app'', ''mcp app server example'']"

definition sdk_or_example :: "string \<Rightarrow> string list \<Rightarrow> bool" where
  "sdk_or_example text tokens \<longleftrightarrow>
     explicit_sdk_or_framework text tokens \<or> weak_library_signal text tokens \<or>
     example_or_demo text tokens \<and> \<not> runnable_server_marker text tokens"

definition code_hosting_api :: "string \<Rightarrow> string list \<Rightarrow> bool" where
  "code_hosting_api text tokens \<longleftrightarrow>
     has_any_token tokens
       [''github'', ''gitlab'', ''gitea'', ''bitbucket'', ''sourcegraph'']"

definition git_repository :: "string \<Rightarrow> string list \<Rightarrow> bool" where
  "git_repository text tokens \<longleftrightarrow>
     (has_any_token tokens
       [''git'', ''worktree'', ''branch'', ''commit'', ''diff'', ''checkout'', ''repo-path'', ''repository-root''] \<or>
     has_any_substring text
       [''server-git'', ''mcp-server-git'']) \<and>
     \<not> code_hosting_api text tokens"

definition network_database :: "string \<Rightarrow> string list \<Rightarrow> bool" where
  "network_database text tokens \<longleftrightarrow>
     has_any_token tokens
       [''postgres'', ''postgresql'', ''mysql'', ''mssql'', ''mariadb'', ''redis'', ''supabase'']"

definition file_database :: "string \<Rightarrow> string list \<Rightarrow> bool" where
  "file_database text tokens \<longleftrightarrow>
     has_any_token tokens
       [''sqlite'', ''duckdb'', ''db-path'', ''database-file'']"

definition database_signal :: "string \<Rightarrow> string list \<Rightarrow> bool" where
  "database_signal text tokens \<longleftrightarrow>
     has_any_token tokens
       [''sqlite'', ''postgres'', ''postgresql'', ''mysql'', ''mssql'', ''mariadb'', ''redis'', ''duckdb'', ''database'',
        ''sql'', ''db'', ''db-path'', ''table'']"

definition browser_data_only :: "string \<Rightarrow> string list \<Rightarrow> bool" where
  "browser_data_only text tokens \<longleftrightarrow>
     has_any_token tokens
       [''caniuse'', ''compat'', ''compatibility'', ''browserslist'', ''feature-table''] \<or>
     has_any_substring text
       [''browser feature'', ''browser support'', ''compat-data'']"

definition browser_observation_surface :: "string \<Rightarrow> string list \<Rightarrow> bool" where
  "browser_observation_surface text tokens \<longleftrightarrow>
     has_any_token tokens
       [''browser'', ''chrome'', ''chromium'', ''extension'', ''tab'', ''tabs'', ''bookmark'', ''bookmarks'', ''history''] \<or>
     has_any_substring text
       [''browser tabs'', ''chrome tabs'', ''browser bookmarks'']"

definition browser_observation_only :: "string \<Rightarrow> string list \<Rightarrow> bool" where
  "browser_observation_only text tokens \<longleftrightarrow>
     \<not> browser_data_only text tokens \<and> browser_observation_surface text tokens \<and>
     has_any_token tokens
       [''tab'', ''tabs'', ''bookmark'', ''bookmarks'', ''history'', ''active-tab'', ''open-tabs''] \<and>
     \<not> has_any_token tokens
       [''click'', ''navigate'', ''automation'', ''automate'', ''playwright'', ''puppeteer'', ''webdriver'',
        ''safaridriver'', ''stagehand'']"

definition remote_browser_provider :: "string \<Rightarrow> string list \<Rightarrow> bool" where
  "remote_browser_provider text tokens \<longleftrightarrow>
     has_any_token tokens
       [''browserbase'', ''browserstack'', ''apify'', ''stagehand'', ''remote-browser'', ''cloud-browser''] \<or>
     has_any_substring text
       [''browserbase'', ''browserstack'', ''remote browser'', ''cloud browser'']"

definition browser_control_action :: "string \<Rightarrow> string list \<Rightarrow> bool" where
  "browser_control_action text tokens \<longleftrightarrow>
     has_any_token tokens
       [''playwright'', ''puppeteer'', ''screenshot'', ''click'', ''navigate'', ''devtools'', ''cdp'', ''webdriver'',
        ''safaridriver'', ''stagehand'', ''android'', ''adb'', ''ios'', ''simulator'', ''mobile-automation''] \<or>
     has_any_substring text
       [''browser automation'', ''control browser'', ''automate browser'', ''mcpbrowser'', ''sessionmcp'',
        ''mcp-browser'', ''browser-kit'', ''chrome-devtools'']"

definition chrome_control :: "string \<Rightarrow> string list \<Rightarrow> bool" where
  "chrome_control text tokens \<longleftrightarrow>
     has_any_token tokens
       [''chrome'', ''chromium''] \<and>
     has_any_token tokens
       [''devtools'', ''cdp'', ''extension'', ''debug'', ''debugger'']"

definition browser_automation :: "string \<Rightarrow> string list \<Rightarrow> bool" where
  "browser_automation text tokens \<longleftrightarrow>
     remote_browser_provider text tokens \<or> browser_control_action text tokens \<or> chrome_control text tokens"

definition remote_browser_session :: "string \<Rightarrow> string list \<Rightarrow> bool" where
  "remote_browser_session text tokens \<longleftrightarrow>
     \<not> browser_observation_only text tokens \<and> browser_automation text tokens \<and> \<not> browser_data_only text tokens \<and>
     remote_browser_provider text tokens"

definition browser_or_desktop :: "string \<Rightarrow> string list \<Rightarrow> bool" where
  "browser_or_desktop text tokens \<longleftrightarrow>
     \<not> browser_observation_only text tokens \<and> browser_automation text tokens \<and> \<not> browser_data_only text tokens \<and>
     \<not> remote_browser_provider text tokens"

definition memory_or_context :: "string \<Rightarrow> string list \<Rightarrow> bool" where
  "memory_or_context text tokens \<longleftrightarrow>
     has_any_token tokens
       [''memory'', ''sequential-thinking'', ''context-store'', ''thinking'', ''remember'', ''notes'', ''note'']"

definition local_utility :: "string \<Rightarrow> string list \<Rightarrow> bool" where
  "local_utility text tokens \<longleftrightarrow>
     has_any_token tokens
       [''time'', ''timezone'', ''clock'', ''date'', ''calculator'', ''calculate'', ''math'']"

definition fetch_words :: "string \<Rightarrow> string list \<Rightarrow> bool" where
  "fetch_words text tokens \<longleftrightarrow>
     has_any_token tokens
       [''fetch'', ''http'', ''https'', ''url'', ''web'', ''scrape'', ''crawler'', ''search'']"

definition transport_gateway :: "string \<Rightarrow> string list \<Rightarrow> bool" where
  "transport_gateway text tokens \<longleftrightarrow>
     (has_any_token tokens
       [''gateway'', ''proxy'', ''bridge''] \<or>
     has_any_substring text
       [''stdio to'', ''stdio over'', ''over sse'', ''streamable http bridge'']) \<and>
     \<not> browser_or_desktop text tokens \<and> \<not> remote_browser_session text tokens"

definition documentation_lookup :: "string \<Rightarrow> string list \<Rightarrow> bool" where
  "documentation_lookup text tokens \<longleftrightarrow>
     has_any_token tokens
       [''context7'', ''docs'', ''documentation'', ''caniuse'', ''reference'', ''manual'', ''knowledgebase'',
        ''knowledge-base'', ''browser-compat'', ''design-system'', ''components'', ''shadcn'', ''magicui'', ''magic-ui'',
        ''primer'', ''primevue'', ''excalidraw''] \<or>
     has_any_substring text
       [''feature support'', ''support tables'', ''developer docs'', ''design system'', ''component references'']"

definition project_analysis :: "string \<Rightarrow> string list \<Rightarrow> bool" where
  "project_analysis text tokens \<longleftrightarrow>
     has_any_token tokens
       [''eslint'', ''lint'', ''linter'', ''tsserver'', ''language-server'', ''code-index'', ''code-intelligence'',
        ''knip'', ''pandacss'', ''panda'', ''semantic'', ''lsp'', ''theia''] \<or>
     has_any_substring text
       [''static analysis'', ''code analysis'', ''semantic code'', ''language server protocol'']"

definition external_read_api :: "string \<Rightarrow> string list \<Rightarrow> bool" where
  "external_read_api text tokens \<longleftrightarrow>
     has_any_token tokens
       [''brave'', ''search'', ''firecrawl'', ''scrape'', ''scraper'', ''scraping'', ''crawl'', ''crawler'', ''maps'',
        ''mapbox'', ''geocode'', ''geocoding'', ''weather'', ''lookup'', ''worldbank'', ''airbnb'', ''openbnb'',
        ''dataforseo'']"

definition external_api :: "string \<Rightarrow> string list \<Rightarrow> bool" where
  "external_api text tokens \<longleftrightarrow>
     code_hosting_api text tokens \<or> has_any_token tokens
       [''notion'', ''sentry'', ''slack'', ''linear'', ''jira'', ''confluence'', ''atlassian'', ''clickup'', ''redmine'',
        ''google-drive'', ''google-docs'', ''google-sheets'', ''google-slides'', ''google-workspace'', ''salesforce'',
        ''netlify'', ''currents'', ''motiff'', ''esa'', ''hubspot'', ''asana'', ''shortcut'', ''contentful'',
        ''bitrix24'', ''resend'', ''databricks'', ''mediawiki'', ''vendure'', ''microsoft'', ''workiq'', ''descope'',
        ''freee'', ''firehydrant'', ''postman'', ''targetprocess'', ''transkribus'', ''trustpager'', ''z_ai'', ''zai'',
        ''variflight'', ''langwatch'', ''transcend'', ''supabase'', ''heroku'', ''azure-devops'', ''apify'',
        ''browserstack'', ''datadog'', ''dynatrace'', ''transcend'', ''rancher'', ''boondmanager'', ''appflowy'',
        ''shortcut'', ''appnest'', ''openfec'', ''pipedrive'', ''ramp'', ''retellai'', ''deploysapp'', ''octopusdeploy'',
        ''api'', ''rest'', ''graphql'', ''contentful'', ''ramp'', ''wordpress'', ''outlook'', ''calendar'', ''mail'',
        ''crm'', ''canvas'', ''lms'', ''gohighlevel'', ''ghl'']"

definition cloud_admin :: "string \<Rightarrow> string list \<Rightarrow> bool" where
  "cloud_admin text tokens \<longleftrightarrow>
     has_any_token tokens
       [''azure'', ''aws'', ''gcp'', ''cloudflare'', ''terraform'', ''pulumi'', ''heroku'']"

definition cluster_control :: "string \<Rightarrow> string list \<Rightarrow> bool" where
  "cluster_control text tokens \<longleftrightarrow>
     has_any_token tokens
       [''kubernetes'', ''k8s'', ''kubectl'', ''helm'']"

definition identity_admin :: "string \<Rightarrow> string list \<Rightarrow> bool" where
  "identity_admin text tokens \<longleftrightarrow>
     has_any_token tokens
       [''okta'', ''auth0'', ''entra'', ''identity'', ''scim''] \<or>
     contains text ''active directory''"

definition secrets_manager :: "string \<Rightarrow> string list \<Rightarrow> bool" where
  "secrets_manager text tokens \<longleftrightarrow>
     has_any_token tokens
       [''vault'', ''1password'', ''bitwarden'', ''keychain'', ''secret'', ''secrets''] \<or>
     contains text ''secret manager''"

definition payments_financial :: "string \<Rightarrow> string list \<Rightarrow> bool" where
  "payments_financial text tokens \<longleftrightarrow>
     has_any_token tokens
       [''stripe'', ''paypal'', ''billing'', ''payment'', ''payments'']"

definition blockchain_wallet :: "string \<Rightarrow> string list \<Rightarrow> bool" where
  "blockchain_wallet text tokens \<longleftrightarrow>
     has_any_token tokens
       [''wallet'', ''phantom'', ''ethereum'', ''blockchain'', ''web3'', ''crypto'']"

definition credentials_words :: "string \<Rightarrow> string list \<Rightarrow> bool" where
  "credentials_words text tokens \<longleftrightarrow>
     has_any_token tokens
       [''token'', ''tokens'', ''api_key'', ''apikey'', ''auth'', ''oauth'', ''bearer'', ''credential'', ''credentials'']"

definition shell_or_process :: "string \<Rightarrow> string list \<Rightarrow> bool" where
  "shell_or_process text tokens \<longleftrightarrow>
     has_any_token tokens
       [''shell'', ''terminal'', ''exec'', ''execute'', ''command-runner'', ''code-runner'', ''run_command'', ''ssh'',
        ''sftp'']"

definition has_mutation_terms :: "string \<Rightarrow> string list \<Rightarrow> bool" where
  "has_mutation_terms text tokens \<longleftrightarrow>
     has_any_token tokens
       [''write'', ''delete'', ''remove'', ''rm'', ''rmdir'', ''mkdir'', ''create'', ''update'', ''insert'', ''modify'',
        ''move'', ''rename'', ''upload'', ''send'', ''post'', ''commit'', ''push'', ''apply'', ''drop'', ''truncate'',
        ''deploy'', ''publish'', ''execute'', ''run_command'', ''patch'', ''edit'', ''upsert'', ''append'', ''add'']"

definition has_readonly_terms :: "string \<Rightarrow> string list \<Rightarrow> bool" where
  "has_readonly_terms text tokens \<longleftrightarrow>
     has_any_token tokens
       [''read'', ''list'', ''search'', ''query'', ''find'', ''get'', ''lookup'', ''inspect'', ''schema'', ''describe'',
        ''status'', ''weather'', ''time'', ''calculate'', ''calculator'', ''show'', ''view'']"

text \<open>The set of signals, in the order of the set.\<close>

definition detected_signals :: "string \<Rightarrow> string list \<Rightarrow> string \<Rightarrow> (string \<times> bool) list" where
  "detected_signals text tokens url =
     [(''filesystem'', filesystem_signal text tokens),
      (''network-or-external-api'', remote_file_api text tokens \<or> external_api text tokens),
      (''credentials-or-auth'', remote_file_api text tokens \<or> credentials_words text tokens),
      (''sdk-or-example'', sdk_or_example text tokens),
      (''git-repository'', git_repository text tokens),
      (''database'', database_signal text tokens),
      (''network-database'', network_database text tokens),
      (''file-database'', file_database text tokens),
      (''browser-observation'', browser_observation_only text tokens),
      (''remote-browser-session'', remote_browser_session text tokens),
      (''browser-or-desktop'', browser_or_desktop text tokens),
      (''memory-or-context'', memory_or_context text tokens),
      (''local-utility'', local_utility text tokens),
      (''network-fetch'', fetch_words text tokens \<or> trim url \<noteq> []),
      (''transport-gateway'', transport_gateway text tokens),
      (''documentation-lookup'', documentation_lookup text tokens),
      (''project-analysis'', project_analysis text tokens),
      (''external-read-api'', external_read_api text tokens),
      (''cloud-admin'', cloud_admin text tokens),
      (''cluster-control'', cluster_control text tokens),
      (''identity-admin'', identity_admin text tokens),
      (''secrets-manager'', secrets_manager text tokens),
      (''payments-financial'', payments_financial text tokens),
      (''blockchain-wallet'', blockchain_wallet text tokens),
      (''shell-or-process'', shell_or_process text tokens),
      (''mutable-tools'', has_mutation_terms text tokens),
      (''readonly-tools'', has_readonly_terms text tokens \<and> \<not> has_mutation_terms text tokens)]"

definition source_signals :: "string \<Rightarrow> string \<Rightarrow> string list \<Rightarrow> string list" where
  "source_signals command url args =
     (let text = to_ascii_lowercase (command_semantic_signal command @ '' '' @ url @ '' '' @ join '' '' args);
          tokens = signal_tokens text;
          signals = sorted_unique (map fst (filter snd (detected_signals text tokens url)))
      in if signals = [] then [''unknown-side-effects''] else signals)"

section \<open>Words with a dash\<close>

text \<open>The words of a text are cut at every character that is neither a letter, a digit nor an underscore, so a word list
  entry with a dash matches nothing.\<close>

lemma split_char_subset: "w \<in> set (split_char c s) \<Longrightarrow> set w \<subseteq> set s"
proof (induction s arbitrary: w)
  case (Cons x s)
  then show ?case by (cases "split_char c s") (fastforce split: if_splits)+
qed simp

lemma signal_token_chars:
  assumes "w \<in> set (signal_tokens t)" "c \<in> set w"
  shows "is_alnum c \<or> c = CHR ''_''"
proof -
  let ?s = "map (\<lambda>c. if is_alnum c \<or> c = CHR ''_'' then c else CHR '' '') t"
  have w: "w \<in> set (split_char CHR '' '' ?s)" using assms(1) by (simp add: signal_tokens_def sorted_unique_spec)
  have "c \<in> set ?s" using split_char_subset [OF w] assms(2) by blast
  moreover have "c \<noteq> CHR '' ''" using split_char_no_sep [OF w] assms(2) by blast
  ultimately show ?thesis by (auto split: if_splits)
qed

lemma dashed_word_never_matches: "CHR ''-'' \<in> set needle \<Longrightarrow> needle \<notin> set (signal_tokens t)"
  using signal_token_chars [of needle t "CHR ''-''"] by (auto simp: text_defs)

text \<open>A signal is reported when its test holds.\<close>

lemma source_signal_iff:
  assumes "name \<noteq> ''unknown-side-effects''"
    and "t = to_ascii_lowercase (command_semantic_signal command @ '' '' @ url @ '' '' @ join '' '' args)"
  shows "name \<in> set (source_signals command url args) \<longleftrightarrow> (name, True) \<in> set (detected_signals t (signal_tokens t) url)"
proof -
  let ?d = "detected_signals t (signal_tokens t) url"
  have s: "set (sorted_unique (map fst (filter snd ?d))) = {n. (n, True) \<in> set ?d}"
    by (force simp: sorted_unique_spec)
  then have "sorted_unique (map fst (filter snd ?d)) = [] \<Longrightarrow> (name, True) \<notin> set ?d" by auto
  then show ?thesis using assms s by (auto simp: source_signals_def Let_def)
qed

text \<open>A server that is named as a code runner is not taken for one that runs processes.\<close>

lemma code_runner_not_detected:
  "''shell-or-process'' \<notin> set (source_signals ''npx'' [] [''mcp-server-code-runner''])"
proof -
  have t: "''  mcp-server-code-runner'' =
      to_ascii_lowercase (command_semantic_signal ''npx'' @ '' '' @ [] @ '' '' @ join '' '' [''mcp-server-code-runner''])" by code_simp
  have "signal_tokens ''  mcp-server-code-runner'' = [''code'', ''mcp'', ''runner'', ''server'']" by code_simp
  then have "\<not> shell_or_process ''  mcp-server-code-runner'' (signal_tokens ''  mcp-server-code-runner'')"
    by (simp add: shell_or_process_def has_any_token_def)
  then show ?thesis by (simp add: source_signal_iff [OF _ t] detected_signals_def)
qed

end
