(* ===== verification/Server_Record.thy ===== *)
theory Server_Record
  imports Execution_Affinity
begin

text \<open>
  The record of a configured server (\<^verbatim>\<open>src/server/model.rs\<close>): what the inventory knows of it, with its two JSON forms.
\<close>

record server_record =
  sr_name :: string
  sr_kind :: string
  sr_required :: bool
  sr_default_enabled :: bool
  sr_profile_enabled :: bool
  sr_platform_supported :: bool
  sr_effective_enabled :: bool
  sr_auto_start :: bool
  sr_transport_preference :: string
  sr_supported_transports :: "string list"
  sr_platforms :: "string list"
  sr_required_commands :: "string list"
  sr_scope_class :: string
  sr_concurrency_policy :: string
  sr_state_binding :: string
  sr_credential_binding :: string
  sr_parallelism_limit :: nat
  sr_parallel_safety_class :: string
  sr_runtime_type :: string
  sr_state_class :: string
  sr_effect_class :: string
  sr_default_pool_model :: string
  sr_max_workers :: nat
  sr_max_in_flight_per_worker :: nat
  sr_execution :: execution_policy
  sr_transport_status :: string
  sr_launcher_kind :: string
  sr_lock_domains :: "string list"
  sr_profile_evidence :: "json list"
  sr_conflict_domain :: string
  sr_project_root_mode :: string
  sr_worktree_binding :: string
  sr_state_profile_mode :: string
  sr_host_lock :: string
  sr_startup_strategy :: string
  sr_routing_group :: string
  sr_discovery_requires_lease :: bool
  sr_health_url :: string
  sr_source_enabled :: bool
  sr_source_type :: string
  sr_source_path :: string
  sr_source_command :: string
  sr_source_args :: "string list"
  sr_source_env_names :: "string list"
  sr_source_header_names :: "string list"
  sr_source_url :: string
  sr_tool_policies :: "json list"
  sr_installer_target :: string
  sr_installer_method :: string
  sr_installer_package :: string
  sr_installer_verify_command :: string

record source_server_record =
  ss_name :: string
  ss_enabled :: bool
  ss_source_type :: string
  ss_command :: string
  ss_url :: string
  ss_args :: "string list"
  ss_env_names :: "string list"
  ss_header_names :: "string list"
  ss_source_path :: string
  ss_profile_hints :: "string list"
  ss_execution :: "json option"
  ss_policy :: "json option"

definition summary_json_value :: "server_record \<Rightarrow> json" where
  "summary_json_value r = json_object
     [(''name'', JString (sr_name r)), (''kind'', JString (sr_kind r)), (''required'', JBool (sr_required r)),
      (''defaultEnabled'', JBool (sr_default_enabled r)), (''profileEnabled'', JBool (sr_profile_enabled r)),
      (''platformSupported'', JBool (sr_platform_supported r)), (''sourceEnabled'', JBool (sr_source_enabled r)),
      (''sourceType'', JString (sr_source_type r)), (''sourcePath'', JString (sr_source_path r)),
      (''sourceCommand'', JString (sr_source_command r)), (''sourceArgs'', json_strings (sr_source_args r)),
      (''sourceEnvNames'', json_strings (sr_source_env_names r)),
      (''sourceHeaderNames'', json_strings (sr_source_header_names r)), (''sourceUrl'', JString (sr_source_url r)),
      (''effectiveEnabled'', JBool (sr_effective_enabled r)),
      (''transportPreference'', JString (sr_transport_preference r)), (''scopeClass'', JString (sr_scope_class r)),
      (''concurrencyPolicy'', JString (sr_concurrency_policy r)), (''stateBinding'', JString (sr_state_binding r)),
      (''credentialBinding'', JString (sr_credential_binding r)),
      (''parallelismLimit'', json_number (sr_parallelism_limit r)),
      (''parallelSafetyClass'', JString (sr_parallel_safety_class r)), (''runtimeType'', JString (sr_runtime_type r)),
      (''stateClass'', JString (sr_state_class r)), (''effectClass'', JString (sr_effect_class r)),
      (''defaultPoolModel'', JString (sr_default_pool_model r)), (''maxWorkers'', json_number (sr_max_workers r)),
      (''maxInFlightPerWorker'', json_number (sr_max_in_flight_per_worker r)),
      (''execution'', Execution_Policy.to_json_value (sr_execution r)),
      (''transportStatus'', JString (sr_transport_status r)), (''launcherKind'', JString (sr_launcher_kind r)),
      (''lockDomains'', json_strings (sr_lock_domains r)), (''profileEvidence'', JArray (sr_profile_evidence r)),
      (''conflictDomain'', JString (sr_conflict_domain r)), (''projectRootMode'', JString (sr_project_root_mode r)),
      (''worktreeBinding'', JString (sr_worktree_binding r)), (''stateProfileMode'', JString (sr_state_profile_mode r)),
      (''hostLock'', JString (sr_host_lock r)), (''startupStrategy'', JString (sr_startup_strategy r)),
      (''routingGroup'', JString (sr_routing_group r)), (''discoveryRequiresLease'', JBool (sr_discovery_requires_lease r))]"

definition routing_policy_json :: "server_record \<Rightarrow> json" where
  "routing_policy_json r = json_object
     [(''scopeClass'', JString (sr_scope_class r)), (''concurrencyPolicy'', JString (sr_concurrency_policy r)),
      (''stateBinding'', JString (sr_state_binding r)), (''credentialBinding'', JString (sr_credential_binding r)),
      (''parallelismLimit'', json_number (sr_parallelism_limit r)),
      (''parallelSafetyClass'', JString (sr_parallel_safety_class r)), (''runtimeType'', JString (sr_runtime_type r)),
      (''stateClass'', JString (sr_state_class r)), (''effectClass'', JString (sr_effect_class r)),
      (''defaultPoolModel'', JString (sr_default_pool_model r)), (''maxWorkers'', json_number (sr_max_workers r)),
      (''maxInFlightPerWorker'', json_number (sr_max_in_flight_per_worker r)),
      (''execution'', Execution_Policy.to_json_value (sr_execution r)),
      (''transportStatus'', JString (sr_transport_status r)), (''launcherKind'', JString (sr_launcher_kind r)),
      (''lockDomains'', json_strings (sr_lock_domains r)), (''profileEvidence'', JArray (sr_profile_evidence r)),
      (''conflictDomain'', JString (sr_conflict_domain r)), (''projectRootMode'', JString (sr_project_root_mode r)),
      (''worktreeBinding'', JString (sr_worktree_binding r)), (''stateProfileMode'', JString (sr_state_profile_mode r)),
      (''hostLock'', JString (sr_host_lock r)), (''startupStrategy'', JString (sr_startup_strategy r)),
      (''routingGroup'', JString (sr_routing_group r)), (''discoveryRequiresLease'', JBool (sr_discovery_requires_lease r))]"

definition capabilities_json_value :: "server_record \<Rightarrow> json" where
  "capabilities_json_value r = json_object
     [(''name'', JString (sr_name r)), (''kind'', JString (sr_kind r)), (''required'', JBool (sr_required r)),
      (''autoStart'', JBool (sr_auto_start r)), (''profileEnabled'', JBool (sr_profile_enabled r)),
      (''platformSupported'', JBool (sr_platform_supported r)), (''effectiveEnabled'', JBool (sr_effective_enabled r)),
      (''supportedTransports'', json_strings (sr_supported_transports r)), (''platforms'', json_strings (sr_platforms r)),
      (''requiredCommands'', json_strings (sr_required_commands r)), (''routingPolicy'', routing_policy_json r),
      (''healthUrl'', JString (sr_health_url r)), (''sourceEnabled'', JBool (sr_source_enabled r)),
      (''sourceType'', JString (sr_source_type r)), (''sourcePath'', JString (sr_source_path r)),
      (''sourceCommand'', JString (sr_source_command r)), (''sourceArgs'', json_strings (sr_source_args r)),
      (''sourceEnvNames'', json_strings (sr_source_env_names r)),
      (''sourceHeaderNames'', json_strings (sr_source_header_names r)), (''sourceUrl'', JString (sr_source_url r)),
      (''toolPolicies'', JArray (sr_tool_policies r)),
      (''installer'', json_object [(''target'', JString (sr_installer_target r)), (''method'', JString (sr_installer_method r)),
        (''package'', JString (sr_installer_package r)), (''verifyCommand'', JString (sr_installer_verify_command r))])]"

end
