(* ===== verification/Server_Inference.thy ===== *)
theory Server_Inference
  imports Server_Signals Server_Record Server_Config
begin

text \<open>
  What the loader infers about a server (\<^verbatim>\<open>src/server/loader.rs\<close>): from its signals the scheduling policy an undeclared
  server gets, its runtime, state and effect classes, how far calls to it may run in parallel, its pool model and the lock
  domains it touches.
\<close>

section \<open>The policy of a server nobody declared\<close>

record generic_source_policy =
  gs_scope_class :: string
  gs_concurrency_policy :: string
  gs_state_binding :: string
  gs_credential_binding :: string
  gs_parallelism_limit :: nat
  gs_conflict_domain_prefix :: string
  gs_project_root_mode :: string
  gs_worktree_binding :: string
  gs_state_profile_mode :: string
  gs_host_lock :: string
  gs_startup_strategy :: string
  gs_routing_group :: string
  gs_discovery_requires_lease :: bool

definition any_signal :: "string list \<Rightarrow> string list \<Rightarrow> bool" where
  "any_signal signals names \<longleftrightarrow> list_ex (\<lambda>n. n \<in> set signals) names"

definition analyses_project :: "string list \<Rightarrow> bool" where
  "analyses_project s \<longleftrightarrow>
     ''project-analysis'' \<in> set s \<and>
     \<not> any_signal s [''network-or-external-api'', ''credentials-or-auth'', ''cloud-admin'', ''external-read-api'', ''documentation-lookup'']"

definition service_policy :: "string list \<Rightarrow> generic_source_policy" where
  "service_policy s =
    (if ''transport-gateway'' \<in> set s then
       \<lparr>gs_scope_class = ''stateless-local'', gs_concurrency_policy = ''multi-reader'', gs_state_binding = ''none'',
        gs_credential_binding = ''none'', gs_parallelism_limit = 2, gs_conflict_domain_prefix = ''transport-gateway'',
        gs_project_root_mode = ''optional'', gs_worktree_binding = ''none'', gs_state_profile_mode = ''none'', gs_host_lock = ''none'',
        gs_startup_strategy = ''lazy-shared'', gs_routing_group = ''transport-gateway'', gs_discovery_requires_lease = False\<rparr>
     else if any_signal s [''documentation-lookup'', ''external-read-api''] \<and>
       \<not> any_signal s [''mutable-tools'', ''cloud-admin'', ''identity-admin'', ''cluster-control'', ''secrets-manager'',
         ''payments-financial'', ''blockchain-wallet''] then
       \<lparr>gs_scope_class = ''credential-scoped'', gs_concurrency_policy = ''multi-reader'', gs_state_binding = ''none'',
        gs_credential_binding = (if any_signal s [''credentials-or-auth'', ''network-or-external-api''] then ''provider-budget'' else ''none''),
        gs_parallelism_limit = 2, gs_conflict_domain_prefix = ''external-read'', gs_project_root_mode = ''optional'',
        gs_worktree_binding = ''none'', gs_state_profile_mode = ''none'', gs_host_lock = ''none'', gs_startup_strategy = ''lazy-shared'',
        gs_routing_group = ''external-read'', gs_discovery_requires_lease = False\<rparr>
     else if any_signal s [''cloud-admin'', ''identity-admin'', ''cluster-control'', ''secrets-manager'', ''payments-financial'',
         ''blockchain-wallet'', ''credentials-or-auth'', ''network-or-external-api''] then
       \<lparr>gs_scope_class = ''credential-scoped'', gs_concurrency_policy = ''single-writer'', gs_state_binding = ''identity-tenant'',
        gs_credential_binding = ''credential-profile'', gs_parallelism_limit = 1, gs_conflict_domain_prefix = ''credential-provider'',
        gs_project_root_mode = ''optional'', gs_worktree_binding = ''none'', gs_state_profile_mode = ''optional'',
        gs_host_lock = ''none'', gs_startup_strategy = ''lazy-per-profile'', gs_routing_group = ''credential-provider'',
        gs_discovery_requires_lease = True\<rparr>
     else if ''network-fetch'' \<in> set s \<and> ''mutable-tools'' \<notin> set s then
       \<lparr>gs_scope_class = ''credential-scoped'', gs_concurrency_policy = ''multi-reader'', gs_state_binding = ''none'',
        gs_credential_binding = ''provider-budget'', gs_parallelism_limit = 2, gs_conflict_domain_prefix = ''network-fetch'',
        gs_project_root_mode = ''optional'', gs_worktree_binding = ''none'', gs_state_profile_mode = ''none'', gs_host_lock = ''none'',
        gs_startup_strategy = ''lazy-shared'', gs_routing_group = ''network-fetch'', gs_discovery_requires_lease = False\<rparr>
     else if any_signal s [''local-utility'', ''readonly-tools''] \<and> ''mutable-tools'' \<notin> set s then
       \<lparr>gs_scope_class = ''stateless-local'', gs_concurrency_policy = ''multi-reader'', gs_state_binding = ''none'',
        gs_credential_binding = ''none'', gs_parallelism_limit = 4, gs_conflict_domain_prefix = ''stateless-local'',
        gs_project_root_mode = ''none'', gs_worktree_binding = ''none'', gs_state_profile_mode = ''none'', gs_host_lock = ''none'',
        gs_startup_strategy = ''lazy-shared'', gs_routing_group = ''stateless-local'', gs_discovery_requires_lease = False\<rparr>
     else
       \<lparr>gs_scope_class = ''configured-source'', gs_concurrency_policy = ''single-writer'', gs_state_binding = ''runtime-source'',
        gs_credential_binding = ''source-config'', gs_parallelism_limit = 1, gs_conflict_domain_prefix = ''settings-source'',
        gs_project_root_mode = ''optional'', gs_worktree_binding = ''none'', gs_state_profile_mode = ''none'', gs_host_lock = ''none'',
        gs_startup_strategy = ''lazy-shared'', gs_routing_group = ''unknown-source'', gs_discovery_requires_lease = True\<rparr>)"

definition local_policy :: "string list \<Rightarrow> generic_source_policy" where
  "local_policy s =
    (if ''memory-or-context'' \<in> set s then
       \<lparr>gs_scope_class = ''state-profile'', gs_concurrency_policy = ''single-session'', gs_state_binding = ''context-store'',
        gs_credential_binding = ''none'', gs_parallelism_limit = 1, gs_conflict_domain_prefix = ''state-profile'',
        gs_project_root_mode = ''optional'', gs_worktree_binding = ''none'', gs_state_profile_mode = ''required'',
        gs_host_lock = ''none'', gs_startup_strategy = ''lazy-per-profile'', gs_routing_group = ''memory-context'',
        gs_discovery_requires_lease = True\<rparr>
     else if ''git-repository'' \<in> set s then
       \<lparr>gs_scope_class = ''project-local'', gs_concurrency_policy = ''single-writer'', gs_state_binding = ''repo'',
        gs_credential_binding = ''git-config'', gs_parallelism_limit = 1, gs_conflict_domain_prefix = ''git-repository'',
        gs_project_root_mode = ''required'', gs_worktree_binding = ''repository-root'', gs_state_profile_mode = ''none'',
        gs_host_lock = ''none'', gs_startup_strategy = ''lazy-per-project'', gs_routing_group = ''project-git'',
        gs_discovery_requires_lease = True\<rparr>
     else if ''database'' \<in> set s \<and> any_signal s [''network-database'', ''credentials-or-auth''] then
       \<lparr>gs_scope_class = ''credential-scoped'', gs_concurrency_policy = ''single-writer'', gs_state_binding = ''db-connection'',
        gs_credential_binding = ''database-connection'', gs_parallelism_limit = 1, gs_conflict_domain_prefix = ''database-connection'',
        gs_project_root_mode = ''optional'', gs_worktree_binding = ''none'', gs_state_profile_mode = ''optional'',
        gs_host_lock = ''none'', gs_startup_strategy = ''lazy-per-profile'', gs_routing_group = ''database-connection'',
        gs_discovery_requires_lease = True\<rparr>
     else if ''database'' \<in> set s then
       \<lparr>gs_scope_class = ''project-local'', gs_concurrency_policy = ''single-writer'', gs_state_binding = ''db'',
        gs_credential_binding = ''none'', gs_parallelism_limit = 1, gs_conflict_domain_prefix = ''database'',
        gs_project_root_mode = ''required'', gs_worktree_binding = ''project-root'', gs_state_profile_mode = ''none'',
        gs_host_lock = ''none'', gs_startup_strategy = ''lazy-per-project'', gs_routing_group = ''project-database'',
        gs_discovery_requires_lease = True\<rparr>
     else if analyses_project s then
       \<lparr>gs_scope_class = ''project-local'', gs_concurrency_policy = ''isolated-per-project'',
        gs_state_binding = ''project-index'', gs_credential_binding = ''none'', gs_parallelism_limit = 1,
        gs_conflict_domain_prefix = ''project-analysis'', gs_project_root_mode = ''required'', gs_worktree_binding = ''project-root'',
        gs_state_profile_mode = ''none'', gs_host_lock = ''none'', gs_startup_strategy = ''lazy-per-project'',
        gs_routing_group = ''project-analysis'', gs_discovery_requires_lease = True\<rparr>
     else if ''filesystem'' \<in> set s then
       \<lparr>gs_scope_class = ''project-local'', gs_concurrency_policy = ''isolated-per-project'', gs_state_binding = ''file'',
        gs_credential_binding = ''none'', gs_parallelism_limit = 1, gs_conflict_domain_prefix = ''project-filesystem'',
        gs_project_root_mode = ''required'', gs_worktree_binding = ''project-root'', gs_state_profile_mode = ''none'',
        gs_host_lock = ''none'', gs_startup_strategy = ''lazy-per-project'', gs_routing_group = ''project-filesystem'',
        gs_discovery_requires_lease = True\<rparr>
     else service_policy s)"

definition policy_for_signals :: "string list \<Rightarrow> bool \<Rightarrow> generic_source_policy" where
  "policy_for_signals s remote =
    (if ''sdk-or-example'' \<in> set s then
       \<lparr>gs_scope_class = ''not-runnable'', gs_concurrency_policy = ''plan-only'', gs_state_binding = ''none'',
        gs_credential_binding = ''none'', gs_parallelism_limit = 0, gs_conflict_domain_prefix = ''not-runnable'',
        gs_project_root_mode = ''none'', gs_worktree_binding = ''none'', gs_state_profile_mode = ''none'', gs_host_lock = ''none'',
        gs_startup_strategy = ''disabled'', gs_routing_group = ''sdk-or-example'', gs_discovery_requires_lease = False\<rparr>
     else if ''remote-browser-session'' \<in> set s then
       \<lparr>gs_scope_class = ''credential-scoped'', gs_concurrency_policy = ''single-session'',
        gs_state_binding = ''remote-browser-session'', gs_credential_binding = ''credential-profile'', gs_parallelism_limit = 1,
        gs_conflict_domain_prefix = ''remote-browser'', gs_project_root_mode = ''optional'', gs_worktree_binding = ''none'',
        gs_state_profile_mode = ''optional'', gs_host_lock = ''none'', gs_startup_strategy = ''lazy-per-profile'',
        gs_routing_group = ''remote-browser'', gs_discovery_requires_lease = True\<rparr>
     else if ''browser-observation'' \<in> set s then
       \<lparr>gs_scope_class = ''host-readonly'', gs_concurrency_policy = ''multi-reader'', gs_state_binding = ''host-readonly'',
        gs_credential_binding = ''browser-profile'', gs_parallelism_limit = 2, gs_conflict_domain_prefix = ''browser-readonly'',
        gs_project_root_mode = ''optional'', gs_worktree_binding = ''none'', gs_state_profile_mode = ''optional'',
        gs_host_lock = ''browser-profile-read'', gs_startup_strategy = ''lazy-shared'', gs_routing_group = ''browser-observation'',
        gs_discovery_requires_lease = True\<rparr>
     else if ''browser-or-desktop'' \<in> set s then
       \<lparr>gs_scope_class = ''shared-exclusive'', gs_concurrency_policy = ''single-session'', gs_state_binding = ''host-desktop'',
        gs_credential_binding = ''browser-profile'', gs_parallelism_limit = 1, gs_conflict_domain_prefix = ''browser-profile'',
        gs_project_root_mode = ''optional'', gs_worktree_binding = ''none'', gs_state_profile_mode = ''required'',
        gs_host_lock = ''browser-profile'', gs_startup_strategy = ''singleton-host'', gs_routing_group = ''browser'',
        gs_discovery_requires_lease = True\<rparr>
     else if ''shell-or-process'' \<in> set s then
       \<lparr>gs_scope_class = ''shared-exclusive'', gs_concurrency_policy = ''single-session'', gs_state_binding = ''host-session'',
        gs_credential_binding = ''source-config'', gs_parallelism_limit = 1, gs_conflict_domain_prefix = ''host-process'',
        gs_project_root_mode = ''optional'', gs_worktree_binding = ''none'', gs_state_profile_mode = ''required'',
        gs_host_lock = ''host-session'', gs_startup_strategy = ''singleton-host'', gs_routing_group = ''dangerous-process'',
        gs_discovery_requires_lease = True\<rparr>
     else if remote then
       \<lparr>gs_scope_class = ''credential-scoped'', gs_concurrency_policy = ''single-writer'', gs_state_binding = ''remote-session'',
        gs_credential_binding = ''remote-origin-or-credential'', gs_parallelism_limit = 1, gs_conflict_domain_prefix = ''remote-mcp'',
        gs_project_root_mode = ''optional'', gs_worktree_binding = ''none'', gs_state_profile_mode = ''optional'',
        gs_host_lock = ''none'', gs_startup_strategy = ''lazy-shared'', gs_routing_group = ''remote-mcp'',
        gs_discovery_requires_lease = True\<rparr>
     else local_policy s)"

definition is_remote :: "string \<Rightarrow> string \<Rightarrow> bool" where
  "is_remote source_type url \<longleftrightarrow> source_type = ''streamable-http'' \<or> source_type = ''http'' \<or> trim url \<noteq> []"

definition infer_generic_source_policy :: "source_server_record \<Rightarrow> string \<Rightarrow> generic_source_policy" where
  "infer_generic_source_policy r source_type =
     policy_for_signals
       (source_signals (ss_command r) (ss_url r) (source_signal_args (ss_args r) (ss_profile_hints r)))
       (is_remote source_type (ss_url r))"

section \<open>Hints of the tools\<close>

definition bool_member :: "json \<Rightarrow> string \<Rightarrow> bool option" where
  "bool_member v key = Option.bind (json_get v key) as_bool"

definition policy_mentions_destructive :: "json \<Rightarrow> bool" where
  "policy_mentions_destructive v \<longleftrightarrow>
     as_object v \<noteq> None \<and>
     (bool_member v ''destructiveHint'' = Some True \<or> bool_member v ''readOnlyHint'' = Some False \<or>
      bool_member v ''readOnly'' = Some False)"

definition policy_mentions_readonly :: "json \<Rightarrow> bool" where
  "policy_mentions_readonly v \<longleftrightarrow>
     as_object v \<noteq> None \<and> (bool_member v ''readOnlyHint'' = Some True \<or> bool_member v ''readOnly'' = Some True)"

definition policy_is_explicit_stateless :: "string \<Rightarrow> string \<Rightarrow> bool" where
  "policy_is_explicit_stateless concurrency_policy state_binding \<longleftrightarrow>
     concurrency_policy \<in> {''multi-reader'', ''read-only'', ''readonly''} \<and> trim state_binding \<in> {''none'', ''stateless''}"

definition binds_credential :: "string \<Rightarrow> bool" where
  "binds_credential credential_binding \<longleftrightarrow> trim credential_binding \<noteq> [] \<and> credential_binding \<noteq> ''none''"

definition is_legacy_sse :: "string \<Rightarrow> bool" where
  "is_legacy_sse source_type \<longleftrightarrow> source_type = ''sse-legacy'' \<or> source_type = ''sse''"

section \<open>Runtime, state and effect classes\<close>

record runtime_classification =
  rl_runtime_type :: string
  rl_state_class :: string
  rl_effect_class :: string

definition rt_class :: "string \<Rightarrow> string \<Rightarrow> string \<Rightarrow> runtime_classification" where
  "rt_class t s e = \<lparr>rl_runtime_type = t, rl_state_class = s, rl_effect_class = e\<rparr>"

text \<open>A server bound to no host and no project: by its transport, its credentials and the hints of its tools.\<close>

definition service_classification ::
  "string list \<Rightarrow> bool \<Rightarrow> string \<Rightarrow> string \<Rightarrow> string \<Rightarrow> string \<Rightarrow> bool \<Rightarrow> bool \<Rightarrow> runtime_classification" where
  "service_classification s remote scope_class concurrency_policy state_binding credential_binding read_only destructive =
     (let explicit_stateless = policy_is_explicit_stateless concurrency_policy state_binding
      in if ''transport-gateway'' \<in> set s \<and> \<not> destructive then rt_class ''stateless'' ''stateless'' ''read-only''
         else if (any_signal s [''documentation-lookup'', ''external-read-api''] \<or> ''network-fetch'' \<in> set s \<and> \<not> destructive) \<and>
           \<not> any_signal s [''network-or-external-api'', ''credentials-or-auth'', ''cloud-admin'', ''cluster-control'']
         then rt_class ''stateless'' ''stateless'' ''external-read''
         else if remote then
           (if read_only \<and> \<not> destructive \<and> explicit_stateless then rt_class ''stateless'' ''stateless'' ''external-read''
            else rt_class ''external'' ''remote-session-stateful'' (if destructive then ''external-mutating'' else ''external-unknown''))
         else if scope_class = ''credential-scoped'' \<or> binds_credential credential_binding \<or>
           any_signal s [''cloud-admin'', ''identity-admin'', ''cluster-control'', ''secrets-manager'', ''payments-financial'',
             ''blockchain-wallet'', ''network-or-external-api'']
         then
           (if ''network-fetch'' \<in> set s \<and> read_only \<and> \<not> destructive then rt_class ''stateless'' ''stateless'' ''external-read''
            else rt_class ''external'' ''credential-stateful'' (if destructive then ''external-mutating'' else ''external-unknown''))
         else if explicit_stateless \<or>
           concurrency_policy = ''multi-reader'' \<and> state_binding \<in> {[], ''none'', ''stateless''} \<and>
             (read_only \<or> ''network-fetch'' \<in> set s)
         then rt_class ''stateless'' ''stateless'' (if ''network-fetch'' \<in> set s then ''external-read'' else ''read-only'')
         else if destructive then rt_class ''side-effecting'' ''unknown-stateful'' ''unknown-mutating''
         else rt_class ''unknown'' ''unknown-conservative'' ''unknown'')"

definition infer_runtime_classification ::
  "string \<Rightarrow> string \<Rightarrow> string \<Rightarrow> string \<Rightarrow> string \<Rightarrow> string \<Rightarrow> string \<Rightarrow> string list \<Rightarrow> json list \<Rightarrow> runtime_classification" where
  "infer_runtime_classification source_type scope_class concurrency_policy state_binding credential_binding command url args
     tool_policies =
     (let s = source_signals command url args;
          read_only = list_ex policy_mentions_readonly tool_policies \<or> any_signal s [''readonly-tools'', ''local-utility''];
          destructive = list_ex policy_mentions_destructive tool_policies \<or> ''mutable-tools'' \<in> set s
      in if is_legacy_sse source_type then rt_class ''legacy'' ''legacy-transport'' ''unknown''
         else if ''sdk-or-example'' \<in> set s \<or> scope_class = ''not-runnable'' \<or> concurrency_policy = ''plan-only''
         then rt_class ''package-artifact'' ''not-a-server'' ''not-runnable''
         else if ''shell-or-process'' \<in> set s then rt_class ''side-effecting'' ''host-stateful'' ''process-exec''
         else if ''remote-browser-session'' \<in> set s
         then rt_class ''interactive'' ''remote-session-stateful'' ''external-mutating''
         else if (''browser-observation'' \<in> set s \<or> state_binding = ''host-readonly'') \<and> \<not> destructive
         then rt_class ''stateful'' ''host-stateful'' ''read-only''
         else if ''browser-observation'' \<in> set s \<or> state_binding = ''host-readonly''
         then rt_class ''side-effecting'' ''host-stateful'' ''host-mutating''
         else if ''browser-or-desktop'' \<in> set s then rt_class ''interactive'' ''host-stateful'' ''host-mutating''
         else if ''network-database'' \<in> set s \<or> state_binding = ''db-connection''
         then rt_class ''external'' ''credential-stateful'' ''external-mutating''
         else if analyses_project s
         then rt_class ''stateful'' ''project-stateful'' (if destructive then ''project-mutating'' else ''read-only'')
         else if scope_class = ''project-local'' \<or> concurrency_policy = ''isolated-per-project'' \<or>
           state_binding \<in> {''repo'', ''repo-path'', ''file'', ''file-path'', ''db'', ''db-file-path'', ''project'', ''project-index''} \<or>
           any_signal s [''filesystem'', ''git-repository'', ''database'']
         then rt_class ''stateful'' ''project-stateful'' ''project-mutating''
         else if scope_class = ''state-profile'' \<or> concurrency_policy = ''single-session'' \<or>
           state_binding \<in> {''context-store'', ''memory'', ''host-session''} \<or> ''memory-or-context'' \<in> set s
         then rt_class ''stateful'' ''session-stateful'' ''ephemeral-state''
         else service_classification s (is_remote source_type url) scope_class concurrency_policy state_binding credential_binding
           read_only destructive)"

section \<open>Parallel safety, pools and lock domains\<close>

definition infer_parallel_safety_class ::
  "string \<Rightarrow> string \<Rightarrow> string \<Rightarrow> string \<Rightarrow> string \<Rightarrow> string \<Rightarrow> string \<Rightarrow> string list \<Rightarrow> json list \<Rightarrow> string" where
  "infer_parallel_safety_class source_type scope_class concurrency_policy state_binding credential_binding command url args
     tool_policies =
     (let s = source_signals command url args;
          destructive = list_ex policy_mentions_destructive tool_policies \<or> ''mutable-tools'' \<in> set s
      in if is_legacy_sse source_type then ''PX_legacy_compat''
         else if (''browser-observation'' \<in> set s \<or> state_binding = ''host-readonly'') \<and> \<not> destructive
         then ''P1_host_readonly_candidate''
         else if scope_class = ''shared-exclusive'' \<or> state_binding = ''host-desktop'' \<or> state_binding = ''remote-browser-session'' \<or>
           any_signal s [''browser-or-desktop'', ''remote-browser-session'', ''shell-or-process'']
         then ''PX_forbidden''
         else if scope_class = ''project-local'' \<or> concurrency_policy = ''isolated-per-project'' then ''P3_project_safe''
         else if any_signal s [''filesystem'', ''git-repository'', ''database''] then ''P3_project_safe''
         else if destructive then ''P0_mutating_requires_serialization''
         else if policy_is_explicit_stateless concurrency_policy state_binding
         then (if is_remote source_type url then ''P4_stateless_remote_candidate'' else ''P1_readonly_candidate'')
         else if binds_credential credential_binding then ''P2_session_safe''
         else if concurrency_policy = ''single-session'' \<or> ''memory-or-context'' \<in> set s then ''P2_session_safe''
         else if is_remote source_type url then ''P2_session_safe''
         else if any_signal s [''network-fetch'', ''documentation-lookup'', ''external-read-api'', ''local-utility'', ''transport-gateway'']
         then ''P1_readonly_candidate''
         else if concurrency_policy = ''multi-reader'' then ''P1_readonly_candidate''
         else if list_ex policy_mentions_readonly tool_policies then ''P1_readonly_candidate''
         else if trim command \<noteq> [] then ''P0_unknown_stdio''
         else ''P0_unknown'')"

definition infer_default_pool_model :: "string \<Rightarrow> string \<Rightarrow> string \<Rightarrow> string \<Rightarrow> string \<Rightarrow> string" where
  "infer_default_pool_model source_type scope_class concurrency_policy state_binding credential_binding =
     (if is_legacy_sse source_type then ''legacy-disabled''
      else if scope_class = ''not-runnable'' \<or> concurrency_policy = ''plan-only'' then ''disabled''
      else if state_binding = ''host-readonly'' \<and> concurrency_policy = ''multi-reader'' then ''host-readonly-pool''
      else if scope_class = ''shared-exclusive'' \<or> state_binding = ''host-desktop'' \<or> concurrency_policy = ''single-session''
      then ''singleton''
      else if scope_class = ''project-local'' \<or> concurrency_policy = ''isolated-per-project'' then ''project-pool''
      else if policy_is_explicit_stateless concurrency_policy state_binding \<and> source_type = ''stdio'' then ''process-pool''
      else if source_type = ''streamable-http'' \<or> source_type = ''http'' then ''remote-http-session-pool''
      else if binds_credential credential_binding then ''credential-session-pool''
      else if source_type = ''stdio'' then ''process-pool''
      else ''singleton'')"

definition state_lock_domain :: "string \<Rightarrow> string option" where
  "state_lock_domain state_binding =
     (if state_binding \<in> {''repo'', ''repo-path''} then Some ''repo''
      else if state_binding \<in> {''file'', ''file-path''} then Some ''file''
      else if state_binding \<in> {''db'', ''db-file-path''} then Some ''db''
      else if state_binding = ''host-desktop'' then Some ''browser-or-desktop-session''
      else if state_binding = ''host-readonly'' then Some ''browser-readonly-session''
      else if state_binding = ''host-session'' then Some ''host-session''
      else if state_binding = ''remote-session'' then Some ''transport-session''
      else if state_binding \<in> {''context-store'', ''memory''} then Some ''context-store''
      else if state_binding \<in> {''identity-tenant'', ''tenant''} then Some ''tenant''
      else None)"

definition infer_lock_domains :: "string \<Rightarrow> string \<Rightarrow> string \<Rightarrow> string \<Rightarrow> string \<Rightarrow> string list" where
  "infer_lock_domains scope_class concurrency_policy state_binding credential_binding fallback_domain =
     (let domains =
            (if binds_credential credential_binding then [''credential:'' @ trim credential_binding] else []) @
            (if scope_class = ''project-local'' \<or> concurrency_policy = ''isolated-per-project'' then [''project''] else []) @
            (case state_lock_domain state_binding of Some d \<Rightarrow> [d] | None \<Rightarrow> []) @
            (if concurrency_policy = ''single-session'' then [''session''] else [])
      in sorted_unique (if domains = [] then [''server:'' @ fallback_domain] else domains))"

end
