(* ===== verification/Server_Evidence.thy ===== *)
theory Server_Evidence
  imports Server_Inference
begin

text \<open>
  The evidence kept with a server (\<^verbatim>\<open>src/server/loader.rs\<close>): a confidence score summed from what is known about it, the action
  it allows, and the JSON records the inventory prints. The scores are \<open>f64\<close> values; a score is a number of units of
  \<open>2 ^ - 57\<close>, which all the values that arise are multiples of, and sums round to 53 bits, ties to even, as the machine does.
\<close>

section \<open>Scores\<close>

definition f64_exponent :: "nat \<Rightarrow> nat \<Rightarrow> nat" where
  "f64_exponent p q = length (takeWhile (\<lambda>e. q * 2 ^ (53 + e) \<le> p) [0..<8])"

definition round_half_even :: "nat \<Rightarrow> nat \<Rightarrow> nat" where
  "round_half_even p q =
     (let d = p div q; r = p mod q
      in if 2 * r < q then d else if q < 2 * r then d + 1 else if even d then d else d + 1)"

text \<open>The double nearest to \<open>p / q\<close> units.\<close>

definition f64_round :: "nat \<Rightarrow> nat \<Rightarrow> nat" where
  "f64_round p q = (let e = f64_exponent p q in round_half_even p (q * 2 ^ e) * 2 ^ e)"

definition f64_decimal :: "nat \<Rightarrow> nat \<Rightarrow> nat" where
  "f64_decimal digits places = f64_round (digits * 2 ^ 57) (10 ^ places)"

definition f64_add :: "nat \<Rightarrow> nat \<Rightarrow> nat" where
  "f64_add a b = f64_round (a + b) 1"

text \<open>The shortest decimal that reads back as the same double, for a value below one.\<close>

definition zero_padded :: "nat \<Rightarrow> nat \<Rightarrow> string" where
  "zero_padded places n = (let s = show_nat n in replicate (places - length s) CHR ''0'' @ s)"

definition nearest_decimal :: "nat \<Rightarrow> nat \<Rightarrow> nat" where
  "nearest_decimal v places = round_half_even (v * 10 ^ places) (2 ^ 57)"

definition f64_to_string :: "nat \<Rightarrow> string" where
  "f64_to_string v =
     (case List.find (\<lambda>places. f64_decimal (nearest_decimal v places) places = v) [1..<18] of
        Some places \<Rightarrow> ''0.'' @ zero_padded places (nearest_decimal v places)
      | None \<Rightarrow> ''0.'' @ zero_padded 57 (nearest_decimal v 57))"

section \<open>Decisions\<close>

record evidence_decision =
  ed_score :: nat
  ed_level :: string
  ed_automatic_action :: string
  ed_next_step :: string
  ed_sources :: "string list"

record profile_evidence_input =
  pi_source_type :: string
  pi_scope_class :: string
  pi_concurrency_policy :: string
  pi_state_binding :: string
  pi_credential_binding :: string
  pi_runtime_type :: string
  pi_state_class :: string
  pi_effect_class :: string
  pi_command :: string
  pi_url :: string
  pi_args :: "string list"

text \<open>What is known, in the order it is weighed: the test, the weight in hundredths, the name.\<close>

definition evidence_items :: "profile_evidence_input \<Rightarrow> string list \<Rightarrow> (bool \<times> nat \<times> string) list" where
  "evidence_items input s =
     [(trim (pi_source_type input) \<noteq> [], 10, ''transport-shape''),
      (trim (pi_command input) \<noteq> [] \<or> trim (pi_url input) \<noteq> [], 10, ''launcher-shape''),
      (pi_args input \<noteq> [], 15, ''profile-hints-or-safe-flags''),
      (''unknown-side-effects'' \<notin> set s, 20, ''indirect-runtime-signals''),
      (binds_credential (pi_credential_binding input), 10, ''credential-binding''),
      (policy_is_explicit_stateless (pi_concurrency_policy input) (pi_state_binding input) \<or>
         pi_concurrency_policy input \<in> {''single-writer'', ''single-session'', ''isolated-per-project'', ''plan-only''},
       10, ''conservative-policy-binding''),
      (is_legacy_sse (pi_source_type input), 5, ''legacy-transport-detection''),
      (''unknown-side-effects'' \<notin> set s \<and> (pi_runtime_type input = ''stateless'' \<or> pi_effect_class input = ''read-only''),
       10, ''read-only-or-stateless-evidence'')]"

definition evidence_score :: "(bool \<times> nat \<times> string) list \<Rightarrow> nat" where
  "evidence_score items =
     min (fold (\<lambda>(known, weight, _) score. if known then f64_add score (f64_decimal weight 2) else score) items (f64_decimal 20 2))
       (f64_decimal 95 2)"

definition decide_evidence :: "profile_evidence_input \<Rightarrow> string list \<Rightarrow> evidence_decision" where
  "decide_evidence input s =
     (let items = evidence_items input s; score = evidence_score items; sources = map (snd \<circ> snd) (filter fst items)
      in if pi_scope_class input = ''not-runnable'' \<or> pi_concurrency_policy input = ''plan-only'' then
           \<lparr>ed_score = max score (f64_decimal 70 2), ed_level = ''high'', ed_automatic_action = ''plan-only'',
            ed_next_step = ''do not run as an MCP server unless a package entrypoint and safe probe prove it is runnable'',
            ed_sources = sources\<rparr>
         else if ''shell-or-process'' \<in> set s then
           \<lparr>ed_score = max score (f64_decimal 85 2), ed_level = ''high'', ed_automatic_action = ''blocked-high-risk'',
            ed_next_step = ''require explicit local approval and sandboxing before any live probe or tool call'',
            ed_sources = sources\<rparr>
         else if ''unknown-side-effects'' \<in> set s \<or> pi_state_class input = ''unknown-conservative'' then
           \<lparr>ed_score = min score (f64_decimal 49 2), ed_level = ''low'', ed_automatic_action = ''needs-safe-probe'',
            ed_next_step = ''run mcpace advanced dev lab probe to collect initialize and tools/list evidence before widening policy'',
            ed_sources = sources\<rparr>
         else if pi_runtime_type input = ''external'' \<or> pi_state_class input = ''credential-stateful'' \<or>
           pi_credential_binding input \<noteq> ''none'' then
           \<lparr>ed_score = max score (f64_decimal 65 2), ed_level = ''medium'', ed_automatic_action = ''static-safe-policy'',
            ed_next_step = ''keep conservative credential-scoped policy until safe probe and tool schema review prove read-only behavior'',
            ed_sources = sources\<rparr>
         else if pi_runtime_type input = ''interactive'' \<or> pi_state_class input = ''host-stateful'' then
           \<lparr>ed_score = max score (f64_decimal 70 2), ed_level = ''medium'', ed_automatic_action = ''static-safe-policy'',
            ed_next_step = ''keep single-session or host lock policy; safe probe may confirm tools but must not call actions'',
            ed_sources = sources\<rparr>
         else
           \<lparr>ed_score = max score (f64_decimal 60 2), ed_level = (if f64_decimal 75 2 \<le> score then ''high'' else ''medium''),
            ed_automatic_action = ''static-safe-policy'',
            ed_next_step = ''use static conservative policy now; optional safe probe can raise evidence confidence'',
            ed_sources = sources\<rparr>)"

definition profile_evidence_records :: "profile_evidence_input \<Rightarrow> json list" where
  "profile_evidence_records input =
     (let s = source_signals (pi_command input) (pi_url input) (pi_args input); d = decide_evidence input s
      in json_object
           [(''kind'', JString ''static''), (''confidence'', JNumber (f64_to_string (ed_score d))),
            (''evidenceScore'', JNumber (f64_to_string (ed_score d))), (''evidenceLevel'', JString (ed_level d)),
            (''automaticAction'', JString (ed_automatic_action d)), (''nextStep'', JString (ed_next_step d)),
            (''summary'', JString (''Initial adaptive profile inferred from indirect config, transport, package hints, ''
               @ ''source command semantics and policy fields; weak evidence must be confirmed with a safe live probe before ''
               @ ''widening concurrency.'')),
            (''data'', json_object
               [(''sourceType'', JString (pi_source_type input)), (''scopeClass'', JString (pi_scope_class input)),
                (''concurrencyPolicy'', JString (pi_concurrency_policy input)),
                (''stateBinding'', JString (pi_state_binding input)),
                (''credentialBinding'', JString (pi_credential_binding input)),
                (''runtimeType'', JString (pi_runtime_type input)), (''stateClass'', JString (pi_state_class input)),
                (''effectClass'', JString (pi_effect_class input)), (''hasCommand'', JBool (trim (pi_command input) \<noteq> [])),
                (''hasUrl'', JBool (trim (pi_url input) \<noteq> [])), (''argCount'', json_number (length (pi_args input))),
                (''sourceSignals'', json_strings s), (''evidenceSources'', json_strings (ed_sources d))])]
         # (if is_legacy_sse (pi_source_type input) then
              [json_object [(''kind'', JString ''policy''), (''confidence'', json_number 1),
                 (''summary'', JString (''Legacy SSE compatibility is not treated as the stable default transport; ''
                    @ ''prefer Streamable HTTP or stdio.''))]]
            else []))"

section \<open>Bounds\<close>

text \<open>A decision is never surer than 0.95, and a server of unknown effects never surer than 0.49.\<close>

lemma evidence_score_cap: "evidence_score items \<le> f64_decimal 95 2"
  by (simp add: evidence_score_def)

lemma f64_decimal_values:
  "f64_decimal 49 2 = 70616442157169376" "f64_decimal 60 2 = 86469112845513520" "f64_decimal 65 2 = 93674872249306320"
  "f64_decimal 70 2 = 100880631653099104" "f64_decimal 85 2 = 122497909864477488" "f64_decimal 95 2 = 136909428672063072"
  by (simp_all add: f64_decimal_def f64_round_def f64_exponent_def round_half_even_def Let_def upt_rec)

lemma decision_score_bounded: "ed_score (decide_evidence input s) \<le> f64_decimal 95 2"
  using evidence_score_cap [of "evidence_items input s"] by (auto simp: decide_evidence_def Let_def f64_decimal_values)

lemma unknown_effects_need_probe:
  assumes "pi_scope_class input \<noteq> ''not-runnable''" "pi_concurrency_policy input \<noteq> ''plan-only''" "''shell-or-process'' \<notin> set s"
    and "''unknown-side-effects'' \<in> set s"
  shows "ed_automatic_action (decide_evidence input s) = ''needs-safe-probe'' \<and>
    ed_score (decide_evidence input s) \<le> f64_decimal 49 2"
  using assms by (simp add: decide_evidence_def Let_def)

end
