(* ===== verification/Server_Loader.thy ===== *)
theory Server_Loader
  imports Server_Evidence
begin

text \<open>
  The inventory of servers (\<^verbatim>\<open>src/server/loader.rs\<close>): the settings sources, the declarations of \<^verbatim>\<open>mcpace.config.json\<close> and the runtime
  profile make one record per server. What the files hold is an argument, as is the name of the operating system.
\<close>

section \<open>Errors\<close>

datatype server_loader_error = LoadConfigRead string string | LoadSources string | LoadRuntimeProfile string

fun server_loader_error_display :: "server_loader_error \<Rightarrow> string" where
  "server_loader_error_display (LoadConfigRead path reason) = ''failed to read server config '' @ path @ '': '' @ reason"
| "server_loader_error_display (LoadSources reason) = ''failed to load MCP source settings: '' @ reason"
| "server_loader_error_display (LoadRuntimeProfile reason) = ''failed to load runtime profile selection: '' @ reason"

section \<open>Settings sources\<close>

definition str_member :: "json \<Rightarrow> string \<Rightarrow> string" where
  "str_member v key = trim (unwrap_or (Option.bind (json_get v key) as_str) [])"

definition source_enabled :: "json \<Rightarrow> bool" where
  "source_enabled v =
     (if bool_member v ''disabled'' = Some True then False else unwrap_or (bool_member v ''enabled'') True)"

definition object_keys :: "json option \<Rightarrow> string list" where
  "object_keys v = (case Option.bind v as_object of Some m \<Rightarrow> map fst m | None \<Rightarrow> [])"

definition profile_hints_of :: "json \<Rightarrow> string list" where
  "profile_hints_of v =
     strings_from_array (Option.bind (or_else (json_get v ''mcpaceProfileHints'') (json_get v ''profileHints'')) as_array)"

definition source_settings_record :: "mcp_server_entry \<Rightarrow> source_server_record" where
  "source_settings_record entry =
     (let v = me_value entry; command = str_member v ''command''; url = str_member v ''url'';
          description = str_member v ''description''
      in \<lparr>ss_name = trim (me_name entry), ss_enabled = source_enabled v,
          ss_source_type = infer_public_source_type (str_member v ''type'') command url,
          ss_command = command, ss_url = url,
          ss_args = strings_from_array (Option.bind (json_get v ''args'') as_array),
          ss_env_names = object_keys (json_get v ''env''), ss_header_names = object_keys (json_get v ''headers''),
          ss_source_path = me_source entry,
          ss_profile_hints = sorted_unique (profile_hints_of v @ (if description = [] then [] else [description])),
          ss_execution = json_get v ''execution'', ss_policy = json_get v ''policy''\<rparr>)"

definition load_source_settings :: "string + mcp_server_entry list \<Rightarrow> server_loader_error + (string \<times> source_server_record) list" where
  "load_source_settings registry =
     (case registry of
        Inl e \<Rightarrow> Inl (LoadSources e)
      | Inr entries \<Rightarrow>
          Inr (fold (\<lambda>entry m. bt_insert (me_normalized_name entry) (source_settings_record entry) m) entries []))"

section \<open>Fields of a record\<close>

definition supported_transports_for_source_type :: "string \<Rightarrow> string list" where
  "supported_transports_for_source_type source_type =
     (if source_type = ''stdio'' then [''stdio'']
      else if source_type = ''streamable-http'' \<or> source_type = ''http'' then [''streamable-http'']
      else if is_legacy_sse source_type then [''sse'']
      else if source_type \<noteq> [] then [source_type]
      else [])"

definition transport_status_for_source_type :: "string \<Rightarrow> string" where
  "transport_status_for_source_type source_type =
     (if is_legacy_sse source_type then ''legacy-compat''
      else if source_type \<in> {''streamable-http'', ''http'', ''stdio''} then ''stable''
      else if source_type = [] then ''inferred''
      else ''custom'')"

definition infer_launcher_kind :: "string \<Rightarrow> string \<Rightarrow> string \<Rightarrow> string \<Rightarrow> string" where
  "infer_launcher_kind command url installer_method installer_package =
     (let command = to_ascii_lowercase (trim command); meth = to_ascii_lowercase (trim installer_method);
          package = to_ascii_lowercase (trim installer_package)
      in if trim url \<noteq> [] then ''remote-url''
         else if contains command ''npx'' \<or> meth = ''npm'' \<or> starts_with package ''npm:'' then ''npx''
         else if contains command ''uvx'' \<or> meth = ''pypi'' \<or> starts_with package ''pypi:'' then ''uvx''
         else if contains command ''docker'' \<or> meth = ''oci'' \<or> starts_with package ''oci:'' then ''oci''
         else if command = [] \<and> meth = [] \<and> package = [] then ''unspecified''
         else ''local-command'')"

definition runtime_policy_disabled :: "string \<Rightarrow> string \<Rightarrow> string \<Rightarrow> string \<Rightarrow> nat \<Rightarrow> bool" where
  "runtime_policy_disabled scope_class concurrency_policy startup_strategy routing_group max_workers \<longleftrightarrow>
     to_ascii_lowercase (trim startup_strategy) = ''disabled'' \<or> to_ascii_lowercase (trim routing_group) = ''disabled'' \<or>
     to_ascii_lowercase (trim concurrency_policy) = ''plan-only'' \<or> to_ascii_lowercase (trim scope_class) = ''not-runnable'' \<or>
     max_workers = 0"

definition policy_string :: "json_map option \<Rightarrow> string \<Rightarrow> string \<Rightarrow> string" where
  "policy_string policy key fallback =
     unwrap_or (trimmed_non_empty_owned (Option.bind (Option.bind policy (\<lambda>m. map_of m key)) as_str)) fallback"

definition policy_token :: "json_map option \<Rightarrow> string \<Rightarrow> string \<Rightarrow> string" where
  "policy_token policy key fallback = normalize_flag (policy_string policy key fallback)"

definition policy_usize :: "json_map option \<Rightarrow> string \<Rightarrow> nat \<Rightarrow> nat" where
  "policy_usize policy key fallback = unwrap_or (non_negative (Option.bind policy (\<lambda>m. map_of m key))) fallback"

definition policy_bool :: "json_map option \<Rightarrow> string \<Rightarrow> bool \<Rightarrow> bool" where
  "policy_bool policy key fallback = unwrap_or (Option.bind (Option.bind policy (\<lambda>m. map_of m key)) as_bool) fallback"

definition inferred_transport_preference :: "json \<Rightarrow> string \<Rightarrow> string" where
  "inferred_transport_preference v source_type =
     (let configured = str_member v ''transportPreference'' in if configured = [] then source_type else configured)"

definition inferred_supported_transports :: "json \<Rightarrow> string \<Rightarrow> string list" where
  "inferred_supported_transports v source_type =
     (let transports = strings_from_array (Option.bind (json_get v ''supportedTransports'') as_array)
      in sorted_unique (if transports = [] then supported_transports_for_source_type source_type else transports))"

definition inferred_required_commands :: "json \<Rightarrow> string \<Rightarrow> string \<Rightarrow> string list" where
  "inferred_required_commands v source_type source_command =
     (let commands = strings_from_array (Option.bind (json_get v ''requiredCommands'') as_array); command = trim source_command
      in sorted_unique (commands @ (if source_type = ''stdio'' \<and> command \<noteq> [] then [command] else [])))"

definition conflict_domain_of :: "generic_source_policy \<Rightarrow> string \<Rightarrow> string \<Rightarrow> string" where
  "conflict_domain_of policy name bare =
     (if gs_conflict_domain_prefix policy = [] then bare else gs_conflict_domain_prefix policy @ '':'' @ name)"

section \<open>A server that is only in the settings\<close>

definition generic_source_server_record :: "string \<Rightarrow> source_server_record \<Rightarrow> execution_policy \<Rightarrow> server_record" where
  "generic_source_server_record normalized_name source execution_defaults =
     (let source_type = infer_public_source_type (ss_source_type source) (ss_command source) (ss_url source);
          policy = infer_generic_source_policy source source_type;
          signal_args = source_signal_args (ss_args source) (ss_profile_hints source);
          scope = gs_scope_class policy; conc = gs_concurrency_policy policy; bind = gs_state_binding policy;
          cred = gs_credential_binding policy;
          cls = infer_runtime_classification source_type scope conc bind cred (ss_command source) (ss_url source) signal_args [];
          execution = resolve_with_canonical (Some (to_config_json_value execution_defaults)) (ss_policy source) (ss_execution source)
            (inferred_mode scope conc bind (rl_state_class cls))
      in \<lparr>sr_name = (if trim (ss_name source) = [] then normalized_name else trim (ss_name source)),
          sr_kind = ''source-'' @ source_type, sr_required = False, sr_default_enabled = False,
          sr_profile_enabled = ss_enabled source, sr_platform_supported = True,
          sr_effective_enabled = (ss_enabled source \<and> \<not> is_disabled execution \<and>
            \<not> runtime_policy_disabled scope conc (gs_startup_strategy policy) (gs_routing_group policy) (worker_limit execution)),
          sr_auto_start = False, sr_transport_preference = source_type,
          sr_supported_transports = supported_transports_for_source_type source_type, sr_platforms = [],
          sr_required_commands = (if source_type = ''stdio'' \<and> trim (ss_command source) \<noteq> [] then [ss_command source] else []),
          sr_scope_class = scope, sr_concurrency_policy = conc, sr_state_binding = bind, sr_credential_binding = cred,
          sr_parallelism_limit = gs_parallelism_limit policy,
          sr_parallel_safety_class =
            infer_parallel_safety_class source_type scope conc bind cred (ss_command source) (ss_url source) signal_args [],
          sr_runtime_type = rl_runtime_type cls, sr_state_class = rl_state_class cls, sr_effect_class = rl_effect_class cls,
          sr_default_pool_model = infer_default_pool_model source_type scope conc bind cred,
          sr_max_workers = worker_limit execution,
          sr_max_in_flight_per_worker = effective_max_in_flight_per_worker execution source_type,
          sr_execution = execution, sr_transport_status = transport_status_for_source_type source_type,
          sr_launcher_kind = infer_launcher_kind (ss_command source) (ss_url source) ''user-supplied'' [],
          sr_lock_domains = infer_lock_domains scope conc bind cred normalized_name,
          sr_profile_evidence = profile_evidence_records
            \<lparr>pi_source_type = source_type, pi_scope_class = scope, pi_concurrency_policy = conc, pi_state_binding = bind,
             pi_credential_binding = cred, pi_runtime_type = rl_runtime_type cls, pi_state_class = rl_state_class cls,
             pi_effect_class = rl_effect_class cls, pi_command = ss_command source, pi_url = ss_url source, pi_args = signal_args\<rparr>,
          sr_conflict_domain = conflict_domain_of policy normalized_name normalized_name,
          sr_project_root_mode = gs_project_root_mode policy, sr_worktree_binding = gs_worktree_binding policy,
          sr_state_profile_mode = gs_state_profile_mode policy, sr_host_lock = gs_host_lock policy,
          sr_startup_strategy = gs_startup_strategy policy, sr_routing_group = gs_routing_group policy,
          sr_discovery_requires_lease = gs_discovery_requires_lease policy, sr_health_url = [],
          sr_source_enabled = ss_enabled source, sr_source_type = source_type, sr_source_path = ss_source_path source,
          sr_source_command = ss_command source, sr_source_args = ss_args source, sr_source_env_names = ss_env_names source,
          sr_source_header_names = ss_header_names source, sr_source_url = ss_url source, sr_tool_policies = [],
          sr_installer_target = ''none'', sr_installer_method = ''user-supplied'', sr_installer_package = [],
          sr_installer_verify_command = []\<rparr>)"

section \<open>A declared server\<close>

text \<open>The settings source of a declared server as the inference sees it, with the hints of the declaration.\<close>

definition no_source :: source_server_record where
  "no_source = \<lparr>ss_name = [], ss_enabled = False, ss_source_type = [], ss_command = [], ss_url = [], ss_args = [],
     ss_env_names = [], ss_header_names = [], ss_source_path = [], ss_profile_hints = [], ss_execution = None, ss_policy = None\<rparr>"

definition inferred_source_record :: "string \<Rightarrow> json \<Rightarrow> source_server_record option \<Rightarrow> source_server_record" where
  "inferred_source_record name v source =
     (let r = unwrap_or source no_source
      in r\<lparr>ss_name := (if trim (ss_name r) = [] then trim name else ss_name r),
           ss_source_type := (if source = None then [] else infer_public_source_type (ss_source_type r) (ss_command r) (ss_url r)),
           ss_profile_hints := sorted_unique (ss_profile_hints r @ profile_hints_of v)\<rparr>)"

text \<open>The policy of a declared server: each field from the declaration when it gives one, else inferred.\<close>

definition declared_policy :: "json_map option \<Rightarrow> generic_source_policy \<Rightarrow> generic_source_policy" where
  "declared_policy policy inferred =
     \<lparr>gs_scope_class = policy_token policy ''scopeClass'' (gs_scope_class inferred),
      gs_concurrency_policy = policy_token policy ''concurrencyPolicy'' (gs_concurrency_policy inferred),
      gs_state_binding = policy_token policy ''stateBinding'' (gs_state_binding inferred),
      gs_credential_binding = policy_token policy ''credentialBinding'' (gs_credential_binding inferred),
      gs_parallelism_limit = policy_usize policy ''parallelismLimit'' (gs_parallelism_limit inferred),
      gs_conflict_domain_prefix = gs_conflict_domain_prefix inferred,
      gs_project_root_mode = policy_token policy ''projectRootMode'' (gs_project_root_mode inferred),
      gs_worktree_binding = policy_token policy ''worktreeBinding'' (gs_worktree_binding inferred),
      gs_state_profile_mode = policy_token policy ''stateProfileMode'' (gs_state_profile_mode inferred),
      gs_host_lock = policy_token policy ''hostLock'' (gs_host_lock inferred),
      gs_startup_strategy = policy_token policy ''startupStrategy'' (gs_startup_strategy inferred),
      gs_routing_group = policy_token policy ''routingGroup'' (gs_routing_group inferred),
      gs_discovery_requires_lease = policy_bool policy ''discoveryRequiresLease'' (gs_discovery_requires_lease inferred)\<rparr>"

definition installer_member :: "json \<Rightarrow> string \<Rightarrow> string" where
  "installer_member v key = str_member (unwrap_or (json_get v ''installer'') JNull) key"

definition normalize_server_record ::
  "string \<Rightarrow> string \<Rightarrow> json \<Rightarrow> source_server_record option \<Rightarrow> execution_policy \<Rightarrow> bool option \<Rightarrow> server_record option" where
  "normalize_server_record os name v source execution_defaults profile_override_enabled =
     (if as_object v = None then None
      else
        let policy_map = Option.bind (json_get v ''policy'') as_object;
            required = unwrap_or (bool_member v ''required'') False;
            default_enabled = unwrap_or (bool_member v ''defaultEnabled'') False;
            profile_enabled = (if required then True else unwrap_or profile_override_enabled default_enabled);
            platforms = strings_from_array (Option.bind (json_get v ''platforms'') as_array);
            platform_supported = supports_current_platform os platforms;
            r = inferred_source_record name v source;
            source_type = ss_source_type r;
            signal_args = source_signal_args (ss_args r) (ss_profile_hints r);
            lower_name = to_ascii_lowercase (trim name);
            inferred = infer_generic_source_policy r source_type;
            policy = declared_policy policy_map inferred;
            scope = gs_scope_class policy; conc = gs_concurrency_policy policy; bind = gs_state_binding policy;
            cred = gs_credential_binding policy;
            tool_policies = unwrap_or (Option.bind (json_get v ''toolPolicies'') as_array) [];
            installer_method = installer_member v ''installMethod'';
            installer_package = installer_member v ''installPackage'';
            cls = infer_runtime_classification source_type scope conc bind cred (ss_command r) (ss_url r) signal_args tool_policies;
            runtime_type = policy_token policy_map ''runtimeType'' (rl_runtime_type cls);
            state_class = policy_token policy_map ''stateClass'' (rl_state_class cls);
            effect_class = policy_token policy_map ''effectClass'' (rl_effect_class cls);
            execution = resolve_with_canonical (Some (to_config_json_value execution_defaults))
              (or_else (json_get v ''policy'') (ss_policy r)) (or_else (json_get v ''execution'') (ss_execution r))
              (inferred_mode scope conc bind state_class)
        in Some \<lparr>sr_name = name, sr_kind = str_member v ''kind'', sr_required = required, sr_default_enabled = default_enabled,
             sr_profile_enabled = profile_enabled, sr_platform_supported = platform_supported,
             sr_effective_enabled = (profile_enabled \<and> ss_enabled r \<and> platform_supported \<and> \<not> is_disabled execution \<and>
               \<not> runtime_policy_disabled scope conc (gs_startup_strategy policy) (gs_routing_group policy) (worker_limit execution)),
             sr_auto_start = unwrap_or (bool_member v ''autoStart'') False,
             sr_transport_preference = inferred_transport_preference v source_type,
             sr_supported_transports = inferred_supported_transports v source_type, sr_platforms = platforms,
             sr_required_commands = inferred_required_commands v source_type (ss_command r),
             sr_scope_class = scope, sr_concurrency_policy = conc, sr_state_binding = bind, sr_credential_binding = cred,
             sr_parallelism_limit = gs_parallelism_limit policy,
             sr_parallel_safety_class =
               infer_parallel_safety_class source_type scope conc bind cred (ss_command r) (ss_url r) signal_args tool_policies,
             sr_runtime_type = runtime_type, sr_state_class = state_class, sr_effect_class = effect_class,
             sr_default_pool_model = infer_default_pool_model source_type scope conc bind cred,
             sr_max_workers = worker_limit execution,
             sr_max_in_flight_per_worker = effective_max_in_flight_per_worker execution source_type,
             sr_execution = execution, sr_transport_status = transport_status_for_source_type source_type,
             sr_launcher_kind = infer_launcher_kind (ss_command r) (ss_url r) installer_method installer_package,
             sr_lock_domains = infer_lock_domains scope conc bind cred name,
             sr_profile_evidence = profile_evidence_records
               \<lparr>pi_source_type = source_type, pi_scope_class = scope, pi_concurrency_policy = conc, pi_state_binding = bind,
                pi_credential_binding = cred, pi_runtime_type = runtime_type, pi_state_class = state_class,
                pi_effect_class = effect_class, pi_command = ss_command r, pi_url = ss_url r, pi_args = signal_args\<rparr>,
             sr_conflict_domain = policy_string policy_map ''conflictDomain'' (conflict_domain_of inferred lower_name (trim name)),
             sr_project_root_mode = gs_project_root_mode policy, sr_worktree_binding = gs_worktree_binding policy,
             sr_state_profile_mode = gs_state_profile_mode policy, sr_host_lock = gs_host_lock policy,
             sr_startup_strategy = gs_startup_strategy policy, sr_routing_group = gs_routing_group policy,
             sr_discovery_requires_lease = gs_discovery_requires_lease policy, sr_health_url = str_member v ''healthUrl'',
             sr_source_enabled = ss_enabled r, sr_source_type = source_type, sr_source_path = ss_source_path r,
             sr_source_command = ss_command r, sr_source_args = ss_args r, sr_source_env_names = ss_env_names r,
             sr_source_header_names = ss_header_names r, sr_source_url = ss_url r, sr_tool_policies = tool_policies,
             sr_installer_target = installer_member v ''installTarget'', sr_installer_method = installer_method,
             sr_installer_package = installer_package,
             sr_installer_verify_command = installer_member v ''verifyCommand''\<rparr>)"

section \<open>All servers\<close>

definition declared_names :: "json_map \<Rightarrow> string list" where
  "declared_names servers = filter (\<lambda>n. n \<noteq> []) (map (normalize_server_name \<circ> fst) servers)"

definition declared_records ::
  "string \<Rightarrow> (string \<times> source_server_record) list \<Rightarrow> execution_policy \<Rightarrow> (string \<times> bool) list \<Rightarrow> json_map \<Rightarrow> server_record list" where
  "declared_records os settings defaults overrides servers =
     List.map_filter (\<lambda>(name, v).
        let normalized_name = normalize_server_name name
        in if normalized_name = [] then None
           else normalize_server_record os name v (map_of settings normalized_name) defaults (map_of overrides normalized_name)) servers"

definition undeclared_records ::
  "(string \<times> source_server_record) list \<Rightarrow> execution_policy \<Rightarrow> json_map \<Rightarrow> server_record list" where
  "undeclared_records settings defaults servers =
     map (\<lambda>(name, source). generic_source_server_record name source defaults)
       (filter (\<lambda>(name, _). name \<notin> set (declared_names servers)) settings)"

definition load_server_records ::
  "string \<Rightarrow> string \<Rightarrow> string + json \<Rightarrow> string + mcp_server_entry list \<Rightarrow> string + (string \<times> bool) list \<Rightarrow>
   server_loader_error + server_record list" where
  "load_server_records os root config registry profile =
     (case config of
        Inl e \<Rightarrow> Inl (LoadConfigRead (path_join root ''mcpace.config.json'') e)
      | Inr v \<Rightarrow>
          (case load_source_settings registry of
             Inl e \<Rightarrow> Inl e
           | Inr settings \<Rightarrow>
               (let defaults = from_config_root v
                in case profile of
                     Inl e \<Rightarrow> Inl (LoadRuntimeProfile e)
                   | Inr overrides \<Rightarrow>
                       (let servers = unwrap_or (object_at_path v [''servers'']) []
                        in Inr (sort_key (\<lambda>r. to_ascii_lowercase (sr_name r))
                                  (declared_records os settings defaults overrides servers @
                                   undeclared_records settings defaults servers))))))"

end
