(* ===== verification/Client_Context.thy ===== *)
theory Client_Context
  imports Client_Path
begin

text \<open>
  The context of a client's plan (\<^verbatim>\<open>src/client/metadata.rs\<close>, \<^verbatim>\<open>src/client/context.rs\<close>): the identity, session,
  workspace and ingress that flags, environment and MCP metadata give, in this order of precedence, and the lease id of
  the session. The environment and the JSON parser are arguments.
\<close>

section \<open>Metadata\<close>

record metadata_envelope =
  me_client_id :: "string option"
  me_session_id :: "string option"
  me_conversation_id :: "string option"
  me_client_instance_id :: "string option"
  me_transport_session_id :: "string option"
  me_credential_profile_id :: "string option"
  me_workspace_roots :: "string list"
  me_cwd :: "string option"
  me_transport :: "string option"

definition default_metadata_envelope :: metadata_envelope where
  "default_metadata_envelope =
     \<lparr>me_client_id = None, me_session_id = None, me_conversation_id = None, me_client_instance_id = None,
      me_transport_session_id = None, me_credential_profile_id = None, me_workspace_roots = [], me_cwd = None,
      me_transport = None\<rparr>"

record parsed_args =
  pa_client_id :: "string option"
  pa_session_id :: "string option"
  pa_project_root :: "string option"
  pa_transport :: "string option"
  pa_metadata_json :: "string option"

datatype client_metadata_error = InvalidJson string

fun client_metadata_error_display :: "client_metadata_error \<Rightarrow> string" where
  "client_metadata_error_display (InvalidJson reason) = ''failed to parse client metadata JSON: '' @ reason"

definition metadata_documents :: "json \<Rightarrow> json list" where
  "metadata_documents v =
     [v] @ opt_list (json_get v ''params'') @
     (case json_get v ''payload'' of
        None \<Rightarrow> []
      | Some payload \<Rightarrow> payload # opt_list (json_get payload ''params''))"

definition context_hint :: "json \<Rightarrow> json option" where
  "context_hint document =
     Option.bind (json_get document ''_meta'')
       (\<lambda>meta. find_map (json_get meta) [''com.mcpace/context'', ''com.mcpace.context'', ''mcpaceContext''])"

definition metadata_context_hints :: "json list \<Rightarrow> json list" where
  "metadata_context_hints documents = List.map_filter context_hint documents"

definition first_string_at_any_path :: "json list \<Rightarrow> string list list \<Rightarrow> string option" where
  "first_string_at_any_path documents paths =
     find_map (\<lambda>document. find_map (\<lambda>path. trimmed_non_empty_owned (string_at_path document path)) paths) documents"

definition root_of_entry :: "json \<Rightarrow> string option" where
  "root_of_entry entry =
     (case entry of
        JString text \<Rightarrow> Some text
      | JObject entries \<Rightarrow> find_map (\<lambda>k. Option.bind (map_of entries k) as_str) [''uri'', ''path'', ''root'']
      | _ \<Rightarrow> None)"

definition root_strings_from_entries :: "json list option \<Rightarrow> string list" where
  "root_strings_from_entries v =
     filter (\<lambda>r. r \<noteq> []) (map normalize_path (List.map_filter root_of_entry (case v of Some items \<Rightarrow> items | None \<Rightarrow> [])))"

definition metadata_workspace_roots :: "json list \<Rightarrow> json list \<Rightarrow> string list" where
  "metadata_workspace_roots documents context_hints =
     (let field = (\<lambda>k d. root_strings_from_entries (Option.bind (json_get d k) as_array));
          document_roots = (\<lambda>d.
            field ''workspaceRoots'' d @ root_strings_from_entries (array_at_path d [''workspace'', ''roots'']) @
            field ''workspaces'' d @ field ''roots'' d @ root_strings_from_entries (array_at_path d [''result'', ''roots'']));
          hint_roots = (\<lambda>h. field ''workspaceRoots'' h @ field ''workspaceRootsFallback'' h)
      in sorted_unique (filter (\<lambda>r. r \<noteq> []) (concat (map document_roots documents) @ concat (map hint_roots context_hints))))"

definition load_metadata ::
  "(string \<Rightarrow> string option) \<Rightarrow> (string \<Rightarrow> string + json) \<Rightarrow> parsed_args \<Rightarrow> client_metadata_error + metadata_envelope" where
  "load_metadata getenv parse parsed =
     (let raw = (case or_else (pa_metadata_json parsed) (getenv ''MCPACE_CLIENT_METADATA_JSON'') of Some t \<Rightarrow> t | None \<Rightarrow> [])
      in if trim raw = [] then Inr default_metadata_envelope
         else case parse raw of
                Inl reason \<Rightarrow> Inl (InvalidJson reason)
              | Inr v \<Rightarrow>
                  let documents = metadata_documents v;
                      hints = metadata_context_hints documents;
                      read = (\<lambda>paths hint_paths.
                        or_else (first_string_at_any_path documents paths) (first_string_at_any_path hints hint_paths))
                  in Inr
                    \<lparr>me_client_id = read [[''client'', ''id''], [''clientId''], [''clientInfo'', ''name'']]
                       [[''clientProfileId''], [''clientId'']],
                     me_session_id = read [[''session'', ''id''], [''sessionId''], [''externalSessionId'']]
                       [[''sessionId''], [''externalSessionId'']],
                     me_conversation_id = read [[''conversation'', ''id''], [''conversationId''], [''chatId'']]
                       [[''conversationId'']],
                     me_client_instance_id = read [[''clientInstanceId''], [''workspace'', ''id''], [''windowId'']]
                       [[''clientInstanceId'']],
                     me_transport_session_id =
                       read [[''transportSessionId''], [''mcpSessionId''], [''headers'', ''Mcp-Session-Id''],
                             [''headers'', ''mcp-session-id'']]
                         [[''transportSessionId''], [''mcpSessionId'']],
                     me_credential_profile_id =
                       read [[''credentialProfileId''], [''credential'', ''profileId''], [''auth'', ''profileId'']]
                         [[''credentialProfileId''], [''credential'', ''profileId'']],
                     me_workspace_roots = metadata_workspace_roots documents hints,
                     me_cwd = map_option normalize_path (read [[''cwd''], [''workingDirectory'']] [[''cwd'']]),
                     me_transport =
                       map_option normalize_transport
                         (read [[''transport''], [''ingress''], [''transportPreference'']] [[''transport''], [''ingress'']])\<rparr>)"

section \<open>Resolution\<close>

record resolved_context =
  rc_client_id :: string
  rc_client_id_source :: string
  rc_session_id :: "string option"
  rc_session_id_source :: string
  rc_session_lease_id :: string
  rc_session_lease_source :: string
  rc_conversation_id :: "string option"
  rc_conversation_id_source :: string
  rc_client_instance_id :: "string option"
  rc_client_instance_id_source :: string
  rc_transport_session_id :: "string option"
  rc_transport_session_id_source :: string
  rc_credential_profile_id :: "string option"
  rc_credential_profile_id_source :: string
  rc_project_root :: "string option"
  rc_project_root_source :: string
  rc_workspace_roots :: "string list"
  rc_cwd :: "string option"
  rc_cwd_source :: string
  rc_preferred_ingress :: string
  rc_preferred_ingress_source :: string
  rc_warnings :: "string list"

definition clean_optional_string :: "string option \<Rightarrow> string option" where
  "clean_optional_string v = Option.bind v (\<lambda>v. let trimmed = trim v in if trimmed = [] then None else Some trimmed)"

definition resolve_string :: "(string option \<times> string) list \<Rightarrow> string option \<times> string" where
  "resolve_string candidates =
     (case find_map (\<lambda>(candidate, source). map_option (\<lambda>v. (v, source)) (clean_optional_string candidate)) candidates of
        Some (v, source) \<Rightarrow> (Some v, source)
      | None \<Rightarrow> (None, snd (last candidates)))"

text \<open>The longest root that contains the working directory; of equally long ones the first.\<close>

definition best_matching_root :: "string list \<Rightarrow> string \<Rightarrow> string option" where
  "best_matching_root roots cwd =
     foldl (\<lambda>best root.
        if path_is_within cwd root
        then (case best of Some current \<Rightarrow> if length root \<le> length current then best else Some root | None \<Rightarrow> Some root)
        else best) None roots"

definition resolve_project_root ::
  "(string \<Rightarrow> string option) \<Rightarrow> parsed_args \<Rightarrow> metadata_envelope \<Rightarrow> string option \<Rightarrow> (string option \<times> string) \<times> string list" where
  "resolve_project_root getenv parsed metadata cwd =
     (let roots = me_workspace_roots metadata
      in case clean_optional_string (map_option normalize_path (pa_project_root parsed)) of
           Some v \<Rightarrow> ((Some v, ''flag''), [])
         | None \<Rightarrow>
             (case clean_optional_string (map_option normalize_path (getenv ''MCPACE_PROJECT_ROOT'')) of
                Some v \<Rightarrow> ((Some v, ''env''), [])
              | None \<Rightarrow>
                  if length roots = 1 then ((Some (hd roots), ''metadata-single-root''), [])
                  else if 1 < length roots then
                    (case cwd of
                       Some cwd \<Rightarrow>
                         (case best_matching_root roots cwd of
                            Some best \<Rightarrow> ((Some best, ''metadata-roots+cwd''), [])
                          | None \<Rightarrow> ((None, ''ambiguous-workspace-roots''),
                              [show_nat (length roots) @ '' workspace roots were provided, but cwd '' @ [CHR 0x27] @ cwd
                               @ [CHR 0x27] @ '' did not match any of them.'']))
                     | None \<Rightarrow> ((None, ''ambiguous-workspace-roots''), []))
                  else (case cwd of
                          Some cwd \<Rightarrow> ((Some cwd, ''metadata-cwd''), [])
                        | None \<Rightarrow> ((None, ''unresolved''), []))))"

record session_lease_input =
  li_client_id :: string
  li_session_id :: "string option"
  li_conversation_id :: "string option"
  li_client_instance_id :: "string option"
  li_transport_session_id :: "string option"
  li_project_root :: "string option"
  li_cwd :: "string option"
  li_preferred_ingress :: string

definition extend_seed :: "string \<Rightarrow> string option \<Rightarrow> string list \<Rightarrow> string list" where
  "extend_seed key v seed =
     (case clean_optional_string v of Some v \<Rightarrow> seed @ [key @ '':'' @ sanitize_key v] | None \<Rightarrow> seed)"

definition lease_seed :: "session_lease_input \<Rightarrow> string list" where
  "lease_seed input =
     (let seed =
        extend_seed ''ingress'' (Some (li_preferred_ingress input))
          (extend_seed ''cwd'' (li_cwd input)
            (extend_seed ''project-root'' (li_project_root input)
              (extend_seed ''transport-session'' (li_transport_session_id input)
                (extend_seed ''client-instance'' (li_client_instance_id input)
                  (extend_seed ''conversation'' (li_conversation_id input)
                    (extend_seed ''client'' (Some (li_client_id input)) []))))))
      in if seed = [] then [''anonymous''] else seed)"

definition resolve_session_lease :: "session_lease_input \<Rightarrow> string \<times> string" where
  "resolve_session_lease input =
     (case clean_optional_string (li_session_id input) of
        Some external_session_id \<Rightarrow> (''external:'' @ sanitize_key external_session_id, ''external-session-id'')
      | None \<Rightarrow> (''planned:'' @ stable_hash_hex (join ''|'' (lease_seed input)), ''planned-fallback''))"

definition resolve_context :: "(string \<Rightarrow> string option) \<Rightarrow> parsed_args \<Rightarrow> metadata_envelope \<Rightarrow> resolved_context" where
  "resolve_context getenv parsed metadata =
     (let (client_id, client_id_source) = resolve_string
            [(pa_client_id parsed, ''flag''), (getenv ''MCPACE_CLIENT_ID'', ''env''), (me_client_id metadata, ''metadata''),
             (Some ''unknown-client'', ''fallback'')];
          (session_id, session_id_source) = resolve_string
            [(pa_session_id parsed, ''flag''), (getenv ''MCPACE_SESSION_ID'', ''env''), (me_session_id metadata, ''metadata''),
             (None, ''none'')];
          from_env = (\<lambda>name v. resolve_string [(getenv name, ''env''), (None, ''env''), (v, ''metadata''), (None, ''none'')]);
          (conversation_id, conversation_id_source) = from_env ''MCPACE_CONVERSATION_ID'' (me_conversation_id metadata);
          (client_instance_id, client_instance_id_source) = from_env ''MCPACE_CLIENT_INSTANCE_ID'' (me_client_instance_id metadata);
          (transport_session_id, transport_session_id_source) =
            from_env ''MCPACE_TRANSPORT_SESSION_ID'' (me_transport_session_id metadata);
          (credential_profile_id, credential_profile_id_source) =
            from_env ''MCPACE_CREDENTIAL_PROFILE_ID'' (me_credential_profile_id metadata);
          (cwd, cwd_source) = resolve_string
            [(map_option normalize_path (getenv ''MCPACE_CWD''), ''env''), (None, ''env''), (me_cwd metadata, ''metadata''),
             (None, ''none'')];
          ((project_root, project_root_source), root_warnings) = resolve_project_root getenv parsed metadata cwd;
          (preferred_ingress, preferred_ingress_source) = resolve_string
            [(map_option normalize_transport (pa_transport parsed), ''flag''),
             (map_option normalize_transport (or_else (getenv ''MCPACE_CLIENT_TRANSPORT'') (getenv ''MCPACE_CLIENT_INGRESS'')), ''env''),
             (map_option normalize_transport (me_transport metadata), ''metadata''), (Some ''stdio'', ''default-local'')];
          client_id = (case client_id of Some c \<Rightarrow> c | None \<Rightarrow> ''unknown-client'');
          preferred_ingress = (case preferred_ingress of Some t \<Rightarrow> t | None \<Rightarrow> ''stdio'');
          (lease_id, lease_source) = resolve_session_lease
            \<lparr>li_client_id = client_id, li_session_id = session_id, li_conversation_id = conversation_id,
             li_client_instance_id = client_instance_id, li_transport_session_id = transport_session_id,
             li_project_root = project_root, li_cwd = cwd, li_preferred_ingress = preferred_ingress\<rparr>;
          warnings = root_warnings @
            (if session_id = None
             then [''No external session id was resolved; the plan derived an internal session lease '' @ [CHR 0x27] @ lease_id @ [CHR 0x27]
                   @ '' from '' @ lease_source
                   @ '' and the future hub must keep that lease sticky for the life of the connection.''] else []) @
            (if session_id = None \<and> conversation_id = None \<and> client_instance_id = None \<and> transport_session_id = None
             then [''No external session, conversation, client-instance, or transport-session id was resolved; multiple live instances of the same client in the same project can share the derived planned lease. Pass --session-id, MCPACE_SESSION_ID, MCPACE_CLIENT_INSTANCE_ID, or _meta.com.mcpace/context metadata for strict multi-client isolation.''] else []) @
            (if 1 < length (me_workspace_roots metadata) \<and> project_root = None
             then [''Multiple workspace roots were provided but no explicit project root or cwd selected a single project; project-local routing stays unresolved.''] else [])
      in \<lparr>rc_client_id = client_id, rc_client_id_source = client_id_source,
          rc_session_id = session_id, rc_session_id_source = session_id_source,
          rc_session_lease_id = lease_id, rc_session_lease_source = lease_source,
          rc_conversation_id = conversation_id, rc_conversation_id_source = conversation_id_source,
          rc_client_instance_id = client_instance_id, rc_client_instance_id_source = client_instance_id_source,
          rc_transport_session_id = transport_session_id, rc_transport_session_id_source = transport_session_id_source,
          rc_credential_profile_id = credential_profile_id, rc_credential_profile_id_source = credential_profile_id_source,
          rc_project_root = project_root, rc_project_root_source = project_root_source,
          rc_workspace_roots = me_workspace_roots metadata, rc_cwd = cwd, rc_cwd_source = cwd_source,
          rc_preferred_ingress = preferred_ingress, rc_preferred_ingress_source = preferred_ingress_source,
          rc_warnings = sorted_unique warnings\<rparr>)"

section \<open>The matching root\<close>

definition best_ok :: "string \<Rightarrow> string list \<Rightarrow> string option \<Rightarrow> bool" where
  "best_ok cwd seen best \<longleftrightarrow>
     (case best of
        None \<Rightarrow> \<forall>q \<in> set seen. \<not> path_is_within cwd q
      | Some r \<Rightarrow> r \<in> set seen \<and> path_is_within cwd r \<and> (\<forall>q \<in> set seen. path_is_within cwd q \<longrightarrow> length q \<le> length r))"

lemma best_ok_simps:
  "best_ok cwd seen None \<longleftrightarrow> (\<forall>q \<in> set seen. \<not> path_is_within cwd q)"
  "best_ok cwd seen (Some r) \<longleftrightarrow>
     r \<in> set seen \<and> path_is_within cwd r \<and> (\<forall>q \<in> set seen. path_is_within cwd q \<longrightarrow> length q \<le> length r)"
  by (simp_all add: best_ok_def)

lemma best_matching_fold:
  fixes cwd
  defines "f \<equiv> \<lambda>best root.
     if path_is_within cwd root
     then (case best of Some current \<Rightarrow> if length root \<le> length current then best else Some root | None \<Rightarrow> Some root) else best"
  assumes "best_ok cwd seen best"
  shows "best_ok cwd (seen @ roots) (foldl f best roots)"
  using assms(2)
proof (induction roots arbitrary: best seen)
  case (Cons root roots)
  have "best_ok cwd (seen @ [root]) (f best root)"
    using Cons.prems by (cases best) (auto simp: f_def best_ok_simps)
  from Cons.IH [OF this] show ?case by simp
qed simp

lemma best_matching_root_spec: "best_ok cwd roots (best_matching_root roots cwd)"
  using best_matching_fold [of cwd "[]" None roots] by (simp add: best_matching_root_def best_ok_simps)

text \<open>A path in lexical normal form: its text is its key, so nothing is left of dots or doubled slashes.\<close>

definition canonical_path :: "string \<Rightarrow> bool" where
  "canonical_path v \<longleftrightarrow> plain_path v \<and> snd (lexical_components v) \<noteq> [] \<and> lexical_path_key v = v"

lemma canonical_text:
  assumes "canonical_path r"
  shows "fst (lexical_components r) @ join ''/'' (snd (lexical_components r)) = r"
proof -
  obtain pre parts where c: "lexical_components r = (pre, parts)" by (cases "lexical_components r")
  have ok: "list_all part_ok parts" "parts \<noteq> []" using assms lexical_components_ok [of r] c by (simp_all add: canonical_path_def)
  have "lexical_path_key r \<noteq> []"
  proof
    assume e: "lexical_path_key r = []"
    then have "r = []" using assms by (simp add: canonical_path_def)
    then show False using ok(2) c
      by (simp add: lexical_components_def normalize_path_def trim_def trim_matches_def lexical_split_def
          starts_with_drive_def starts_with_def lexical_push_def)
  qed
  moreover have "\<not> looks_like_windows_path (lexical_path_key r)" "lexical_path_key r = r"
    using assms by (auto simp: canonical_path_def plain_path_def)
  ultimately show ?thesis using lexical_text_plain(2) [of r] by metis
qed

lemma join_prefix_length: "prefix xs ys \<Longrightarrow> length (join sep xs) \<le> length (join sep ys)"
proof -
  assume "prefix xs ys"
  then obtain zs where "ys = xs @ zs" by (auto simp: prefix_def)
  then show ?thesis by (cases "xs = []"; cases "zs = []") (simp_all add: join_append)
qed

lemma best_root_deepest:
  assumes best: "best_matching_root roots cwd = Some r" and cwd: "plain_path cwd"
    and canonical: "\<forall>q \<in> set roots. canonical_path q" and q: "q \<in> set roots" "path_is_within cwd q"
  shows "path_is_within r q"
proof -
  have r: "r \<in> set roots" "path_is_within cwd r" "length q \<le> length r"
    using best_matching_root_spec [of cwd roots] best q by (auto simp: best_ok_simps)
  have c: "canonical_path r" "canonical_path q" using canonical r q by auto
  have p: "plain_path r" "plain_path q" "snd (lexical_components r) \<noteq> []" "snd (lexical_components q) \<noteq> []"
    using c by (simp_all add: canonical_path_def)
  note wr = path_is_within_iff [OF cwd p(1,3)] and wq = path_is_within_iff [OF cwd p(2,4)]
  have same: "fst (lexical_components q) = fst (lexical_components r)" "trim (normalize_path q) \<noteq> []"
    using wr wq r(2) q(2) by simp_all
  have "prefix (snd (lexical_components q)) (snd (lexical_components r)) \<or>
      prefix (snd (lexical_components r)) (snd (lexical_components q))"
    using wr wq r(2) q(2) prefix_same_cases by blast
  moreover have "snd (lexical_components q) = snd (lexical_components r)"
    if pre: "prefix (snd (lexical_components r)) (snd (lexical_components q))"
  proof -
    have "length (join ''/'' (snd (lexical_components q))) \<le> length (join ''/'' (snd (lexical_components r)))"
      using r(3) same(1) canonical_text [OF c(1)] canonical_text [OF c(2)] by (metis add_le_cancel_left length_append)
    moreover obtain zs where zs: "snd (lexical_components q) = snd (lexical_components r) @ zs" using pre by (auto simp: prefix_def)
    ultimately have "zs = []" using p(3) by (cases "zs = []") (simp_all add: join_append)
    then show ?thesis using zs by simp
  qed
  ultimately have "prefix (snd (lexical_components q)) (snd (lexical_components r))" by auto
  then show ?thesis using path_is_within_iff [OF p(1,2,4)] same by simp
qed

section \<open>The session lease\<close>

definition seed_fields :: "session_lease_input \<Rightarrow> (string \<times> string option) list" where
  "seed_fields input =
     [(''client'', Some (li_client_id input)), (''conversation'', li_conversation_id input),
      (''client-instance'', li_client_instance_id input), (''transport-session'', li_transport_session_id input),
      (''project-root'', li_project_root input), (''cwd'', li_cwd input), (''ingress'', Some (li_preferred_ingress input))]"

definition seed_entry :: "string \<Rightarrow> string option \<Rightarrow> string list" where
  "seed_entry k v = (case v of Some t \<Rightarrow> [k @ '':'' @ t] | None \<Rightarrow> [])"

definition seed_entries :: "(string \<times> string option) list \<Rightarrow> string list" where
  "seed_entries es = concat (map (\<lambda>(k, v). seed_entry k v) es)"

definition cleaned :: "session_lease_input \<Rightarrow> (string \<times> string option) list" where
  "cleaned input = map (\<lambda>(k, v). (k, map_option sanitize_key (clean_optional_string v))) (seed_fields input)"

lemma lease_seed_entries:
  "lease_seed input = (if seed_entries (cleaned input) = [] then [''anonymous''] else seed_entries (cleaned input))"
proof -
  have e: "extend_seed k v seed = seed @ seed_entry k (map_option sanitize_key (clean_optional_string v))" for k v seed
    by (simp add: extend_seed_def seed_entry_def split: option.splits)
  show ?thesis by (simp add: lease_seed_def cleaned_def seed_fields_def seed_entries_def e Let_def)
qed

lemma assoc_ext:
  assumes d: "distinct (map fst xs)" "map fst xs = map fst ys" and eq: "map_of xs = map_of ys"
  shows "xs = ys"
proof (rule nth_equalityI)
  show l: "length xs = length ys" using d(2) by (metis length_map)
  fix i assume i: "i < length xs"
  have k: "fst (xs ! i) = fst (ys ! i)" using d(2) i l by (metis nth_map)
  have "map_of xs (fst (xs ! i)) = Some (snd (xs ! i))" using d(1) i by simp
  moreover have "map_of ys (fst (ys ! i)) = Some (snd (ys ! i))" using d i l by simp
  ultimately show "xs ! i = ys ! i" using k eq by (simp add: prod_eq_iff)
qed

lemma seed_entries_inj:
  assumes keys: "\<forall>e \<in> set xs \<union> set ys. CHR '':'' \<notin> set (fst e)" and d: "distinct (map fst xs)" "map fst xs = map fst ys"
    and eq: "set (seed_entries xs) = set (seed_entries ys)"
  shows "xs = ys"
proof -
  have mem: "(k @ CHR '':'' # t) \<in> set (seed_entries zs) \<longleftrightarrow> (k, Some t) \<in> set zs"
    if "\<forall>e \<in> set zs. CHR '':'' \<notin> set (fst e)" "CHR '':'' \<notin> set k" for zs k t
  proof
    assume "(k @ CHR '':'' # t) \<in> set (seed_entries zs)"
    then obtain k' t' where z: "(k', Some t') \<in> set zs" "k @ CHR '':'' # t = k' @ CHR '':'' # t'"
      by (auto simp: seed_entries_def seed_entry_def split: option.splits)
    moreover have "CHR '':'' \<notin> set k'" using that(1) z(1) by force
    ultimately show "(k, Some t) \<in> set zs" using append_sep_inj [of "CHR '':''" k k' t t'] that(2) by simp
  qed (force simp: seed_entries_def seed_entry_def)
  have "map_of xs k = map_of ys k" for k
  proof (cases "k \<in> set (map fst xs)")
    case True
    then have "k \<in> fst ` set xs" "k \<in> fst ` set ys" using d(2) by (metis list.set_map)+
    then obtain v w where v: "(k, v) \<in> set xs" "(k, w) \<in> set ys" by auto
    have "CHR '':'' \<notin> set k" using keys v(1) by force
    then have "(k, Some t) \<in> set xs \<longleftrightarrow> (k, Some t) \<in> set ys" for t
      using mem [of xs k t] mem [of ys k t] keys eq by simp
    moreover have "u = v" if "(k, u) \<in> set xs" for u using that v(1) d(1) by (metis map_of_is_SomeI option.inject)
    moreover have "u = w" if "(k, u) \<in> set ys" for u using that v(2) d by (metis map_of_is_SomeI option.inject)
    ultimately have "v = w" using v by (cases v; cases w) blast+
    then show ?thesis using v d by (metis map_of_is_SomeI)
  qed (metis d(2) map_of_eq_None_iff list.set_map)
  then show ?thesis using assoc_ext [OF d] by blast
qed

lemma cleaned_keys: "map fst (cleaned input) = map fst (seed_fields input)"
  by (simp add: cleaned_def split_beta)

lemma seed_keys:
  "map fst (cleaned input) =
     [''client'', ''conversation'', ''client-instance'', ''transport-session'', ''project-root'', ''cwd'', ''ingress'']"
  by (simp add: cleaned_keys seed_fields_def)

lemma cleaned_no_bar: "(k, Some t) \<in> set (cleaned input) \<Longrightarrow> CHR ''|'' \<notin> set t"
  by (auto simp: cleaned_def dest!: sym [of "Some _"] simp: sanitize_key_no_bar)

lemma seed_entry_text:
  assumes "e \<in> set (seed_entries (cleaned input))"
  shows "CHR ''|'' \<notin> set e" "CHR '':'' \<in> set e"
proof -
  obtain k t where kt: "(k, Some t) \<in> set (cleaned input)" "e = k @ '':'' @ t"
    using assms by (auto simp: seed_entries_def seed_entry_def split: option.splits)
  have "k \<in> set (map fst (cleaned input))" using kt(1) by force
  then have "CHR ''|'' \<notin> set k" unfolding seed_keys by auto
  then show "CHR ''|'' \<notin> set e" "CHR '':'' \<in> set e" using kt cleaned_no_bar by auto
qed

lemma lease_seed_inj: "lease_seed a = lease_seed b \<longleftrightarrow> cleaned a = cleaned b"
proof
  assume eq: "lease_seed a = lease_seed b"
  have no: "seed_entries (cleaned i) \<noteq> [''anonymous'']" for i
    using seed_entry_text(2) [of "''anonymous''" i] by auto
  have "seed_entries (cleaned a) = seed_entries (cleaned b)"
    using eq no [of a] no [of b] by (auto simp: lease_seed_entries split: if_splits)
  moreover have "\<forall>e \<in> set (cleaned a) \<union> set (cleaned b). CHR '':'' \<notin> set (fst e)"
  proof
    fix e assume "e \<in> set (cleaned a) \<union> set (cleaned b)"
    then have "fst e \<in> set (map fst (cleaned a)) \<union> set (map fst (cleaned b))" by auto
    then show "CHR '':'' \<notin> set (fst e)" unfolding seed_keys by auto
  qed
  ultimately show "cleaned a = cleaned b" by (intro seed_entries_inj) (simp_all add: seed_keys)
qed (simp add: lease_seed_entries)

lemma seed_text_inj: "join ''|'' (lease_seed a) = join ''|'' (lease_seed b) \<longleftrightarrow> cleaned a = cleaned b"
proof -
  have ne: "lease_seed i \<noteq> []" and bar: "\<forall>x \<in> set (lease_seed i). CHR ''|'' \<notin> set x" for i
    using seed_entry_text(1) [of _ i] by (auto simp: lease_seed_entries)
  have "join ''|'' (lease_seed a) = join ''|'' (lease_seed b) \<longleftrightarrow> lease_seed a = lease_seed b"
    using split_join [OF ne bar] by metis
  then show ?thesis by (simp add: lease_seed_inj)
qed

section \<open>Properties\<close>

text \<open>Containment is lexical. For paths without a drive or network prefix, and a root with at least one component, a
  path is within a root exactly when both are absolute or both relative and the components of the root, with dots and
  parents resolved, are a prefix of the components of the path: a sibling with a longer name and a path that climbs out
  by parents are outside.\<close>

lemma containment_is_lexical:
  assumes "plain_path path" "plain_path root" "snd (lexical_components root) \<noteq> []"
  shows "path_is_within path root \<longleftrightarrow>
    trim (normalize_path root) \<noteq> [] \<and> fst (lexical_components path) = fst (lexical_components root) \<and>
    prefix (snd (lexical_components root)) (snd (lexical_components path))"
  by (rule path_is_within_iff [OF assms])

lemmas path_eval = path_is_within_def path_compare_key_def lexical_path_key_def lexical_components_def lexical_split_def
  lexical_text_def lexical_push_def normalize_path_def decode_file_uri_def starts_with_drive_def
  looks_like_windows_path_def Let_def text_defs

text \<open>With several workspace roots in normal form and no explicit project root, the project is the deepest root
  that contains the working directory: it is inside every other root that contains it.\<close>

lemma project_root_deepest:
  assumes "clean_optional_string (map_option normalize_path (pa_project_root parsed)) = None"
    and "clean_optional_string (map_option normalize_path (getenv ''MCPACE_PROJECT_ROOT'')) = None"
    and "1 < length (me_workspace_roots metadata)" "plain_path cwd" "\<forall>q \<in> set (me_workspace_roots metadata). canonical_path q"
    and "\<exists>q \<in> set (me_workspace_roots metadata). path_is_within cwd q"
  shows "\<exists>r \<in> set (me_workspace_roots metadata).
    resolve_project_root getenv parsed metadata (Some cwd) = ((Some r, ''metadata-roots+cwd''), []) \<and> path_is_within cwd r \<and>
    (\<forall>q \<in> set (me_workspace_roots metadata). path_is_within cwd q \<longrightarrow> path_is_within r q)"
proof -
  let ?roots = "me_workspace_roots metadata"
  obtain r where r: "best_matching_root ?roots cwd = Some r"
    using best_matching_root_spec [of cwd ?roots] assms(6) by (cases "best_matching_root ?roots cwd") (auto simp: best_ok_simps)
  then have "r \<in> set ?roots" "path_is_within cwd r"
    using best_matching_root_spec [of cwd ?roots] by (simp_all add: best_ok_simps)
  then show ?thesis
    using best_root_deepest [OF r assms(4,5)] assms(1-3) r by (intro bexI [of _ r]) (simp_all add: resolve_project_root_def)
qed

definition two_roots :: metadata_envelope where
  "two_roots = default_metadata_envelope\<lparr>me_workspace_roots := [''/w'', ''/w/p'']\<rparr>"

definition no_flags :: parsed_args where
  "no_flags = \<lparr>pa_client_id = None, pa_session_id = None, pa_project_root = None, pa_transport = None, pa_metadata_json = None\<rparr>"

text \<open>Without an external session id two requests have the same lease only when the hash of their seeds agrees, and
  the seeds agree exactly when every identity they are made of (client, conversation, instance, transport session, project,
  directory and ingress) agrees after sanitising: no two fields can be confused with each other.\<close>

lemma planned_lease_separates:
  assumes "clean_optional_string (li_session_id a) = None" "clean_optional_string (li_session_id b) = None"
    and "fst (resolve_session_lease a) = fst (resolve_session_lease b)"
  shows "stable_hash (join ''|'' (lease_seed a)) = stable_hash (join ''|'' (lease_seed b)) \<and>
    (join ''|'' (lease_seed a) = join ''|'' (lease_seed b) \<longleftrightarrow> cleaned a = cleaned b)"
proof -
  have "unat x < 16 ^ 16" for x :: "64 word" using unsigned_less [of x] by simp
  moreover have "hex_digits 16 (unat (stable_hash (join ''|'' (lease_seed a)))) =
      hex_digits 16 (unat (stable_hash (join ''|'' (lease_seed b))))"
    using assms by (simp add: resolve_session_lease_def stable_hash_hex_def)
  ultimately have "stable_hash (join ''|'' (lease_seed a)) = stable_hash (join ''|'' (lease_seed b))"
    using hex_digits_inj [of "unat (stable_hash (join ''|'' (lease_seed a)))" 16 "unat (stable_hash (join ''|'' (lease_seed b)))"]
    by (simp only: word_unat_eq_iff)
  then show ?thesis by (simp add: seed_text_inj)
qed

definition codex_input :: session_lease_input where
  "codex_input =
     \<lparr>li_client_id = ''codex'', li_session_id = None, li_conversation_id = Some ''c'', li_client_instance_id = None,
      li_transport_session_id = None, li_project_root = None, li_cwd = None, li_preferred_ingress = ''stdio''\<rparr>"

end
