(* ===== verification/Client_Catalog.thy ===== *)
theory Client_Catalog
  imports Client_Path Server_Config
begin

text \<open>
  The catalogue of clients (\<^verbatim>\<open>src/client_catalog.rs\<close>, \<^verbatim>\<open>src/client_catalog/builtin.rs\<close>): the targets MCPace knows, how
  targets of the configuration and of catalogue files are parsed and merged over them, how a client id finds its target,
  and the JSON form. Files, home directory and the split search path are arguments.
\<close>

section \<open>Targets\<close>

datatype client_catalog_error = ReadFailed string string | EmptyCatalog string

fun client_catalog_error_display :: "client_catalog_error \<Rightarrow> string" where
  "client_catalog_error_display (ReadFailed path reason) =
     ''client catalog extension could not read '' @ [CHR 0x27] @ path @ [CHR 0x27] @ '': '' @ reason"
| "client_catalog_error_display (EmptyCatalog path) =
     ''client catalog '' @ [CHR 0x27] @ path @ [CHR 0x27] @ '' did not contain any targets''"

record json_mcp_server_shape =
  js_servers_object_key :: string
  js_url_field :: string
  js_include_type_http :: bool
  js_include_tools_star :: bool
  js_include_disabled_false :: bool

datatype client_install_kind = TomlMcpServersManagedTable | JsonMcpServers json_mcp_server_shape | YamlMcpServersManagedSection

record client_install_support =
  ci_kind :: client_install_kind
  ci_preferred_scope :: string
  ci_preferred_config_path :: string

record client_target_record =
  ct_id :: string
  ct_family_id :: string
  ct_display_name :: string
  ct_aliases :: "string list"
  ct_maturity :: string
  ct_surface_class :: string
  ct_surface_kind :: string
  ct_proof_tier :: string
  ct_config_format :: string
  ct_config_paths :: "string list"
  ct_config_precedence :: "string list"
  ct_native_scopes :: "string list"
  ct_supported_ingresses :: "string list"
  ct_documented_features :: "string list"
  ct_documented_constraints :: "string list"
  ct_notes :: "string list"
  ct_install_support :: "client_install_support option"
  ct_source :: string

record client_registry =
  cr_targets :: "client_target_record list"
  cr_sources :: "string list"
  cr_warnings :: "string list"

section \<open>Built-in targets\<close>

text \<open>The targets of the program, as the registry holds them (with the source it gives them).\<close>

definition target_codex :: client_target_record where
  "target_codex =
     \<lparr>ct_id = ''codex'', ct_family_id = ''codex'', ct_display_name = ''OpenAI Codex'',
      ct_aliases = [''codex-cli'', ''openai-codex''], ct_maturity = ''documented'', ct_surface_class = ''local'',
      ct_surface_kind = ''local-cli-ide'', ct_proof_tier = ''tier-1'', ct_config_format = ''toml'',
      ct_config_paths = [''~/.codex/config.toml'', ''.codex/config.toml''],
      ct_config_precedence = [''project-trusted'', ''user''], ct_native_scopes = [''user'', ''project''],
      ct_supported_ingresses = [''stdio'', ''streamable-http''], ct_documented_features = [''tools'', ''oauth''],
      ct_documented_constraints = [''shared-config-cli-ide''],
      ct_notes = [''CLI and IDE extension share the same config layers.'', ''Project config applies only in trusted projects.''],
      ct_install_support = Some
       \<lparr>ci_kind = TomlMcpServersManagedTable,
        ci_preferred_scope = ''user'', ci_preferred_config_path = ''~/.codex/config.toml''\<rparr>,
      ct_source = ''builtin''\<rparr>"

definition target_claude_code :: client_target_record where
  "target_claude_code =
     \<lparr>ct_id = ''claude-code'', ct_family_id = ''claude'', ct_display_name = ''Anthropic Claude Code'',
      ct_aliases = [''claude'', ''claude code'', ''claudecode''], ct_maturity = ''documented'',
      ct_surface_class = ''local'', ct_surface_kind = ''local-cli-ide-web'', ct_proof_tier = ''tier-1'',
      ct_config_format = ''json'', ct_config_paths = [''~/.claude.json'', ''.mcp.json''],
      ct_config_precedence = [''project'', ''user'', ''local''], ct_native_scopes = [''local'', ''project'', ''user''],
      ct_supported_ingresses = [''stdio'', ''streamable-http'', ''sse''], ct_documented_features = [''tools'', ''oauth''],
      ct_documented_constraints = [''sse-deprecated'', ''managed-config''],
      ct_notes = [''Project-scoped servers live in .mcp.json.'', ''Local and user-scoped servers live in ~/.claude.json.''],
      ct_install_support = Some
       \<lparr>ci_kind = JsonMcpServers \<lparr>js_servers_object_key = ''mcpServers'', js_url_field = ''url'', js_include_type_http = True,
        js_include_tools_star = False, js_include_disabled_false = False\<rparr>,
        ci_preferred_scope = ''user'', ci_preferred_config_path = ''~/.claude.json''\<rparr>,
      ct_source = ''builtin''\<rparr>"

definition target_claude_api_connector :: client_target_record where
  "target_claude_api_connector =
     \<lparr>ct_id = ''claude-api-connector'', ct_family_id = ''claude'', ct_display_name = ''Anthropic Claude API MCP connector'',
      ct_aliases = [''claude-api'', ''anthropic-mcp-connector'', ''claude-mcp-connector''], ct_maturity = ''documented'',
      ct_surface_class = ''cloud'', ct_surface_kind = ''cloud-api-connector'', ct_proof_tier = ''catalog-only'',
      ct_config_format = ''api-request'', ct_config_paths = [], ct_config_precedence = [''request''],
      ct_native_scopes = [''request''], ct_supported_ingresses = [''streamable-http'', ''sse''],
      ct_documented_features = [''tools'', ''oauth''],
      ct_documented_constraints = [''tools-only'', ''public-http-only'', ''beta-header-required''],
      ct_notes = [''Only tool calls are supported on this surface.'', ''The server must be publicly reachable over HTTP; local stdio is not supported.''],
      ct_install_support = None, ct_source = ''builtin''\<rparr>"

definition target_vscode_workspace :: client_target_record where
  "target_vscode_workspace =
     \<lparr>ct_id = ''vscode-workspace'', ct_family_id = ''vscode'', ct_display_name = ''Visual Studio Code user configuration'',
      ct_aliases = [''vscode'', ''vscode-user'', ''vs-code'', ''code'', ''visual-studio-code''],
      ct_maturity = ''documented'', ct_surface_class = ''local'', ct_surface_kind = ''local-editor'',
      ct_proof_tier = ''tier-1'', ct_config_format = ''json'',
      ct_config_paths = [''.vscode/mcp.json'', ''~/AppData/Roaming/Code/User/mcp.json'', ''~/Library/Application Support/Code/User/mcp.json'', ''~/.config/Code/User/mcp.json''],
      ct_config_precedence = [''workspace'', ''user''], ct_native_scopes = [''workspace'', ''user''],
      ct_supported_ingresses = [''stdio'', ''streamable-http''],
      ct_documented_features = [''tools'', ''inputs'', ''approval''],
      ct_documented_constraints = [''workspace-trust'', ''servers-root-key''],
      ct_notes = [''VS Code uses a top-level servers object in mcp.json instead of the mcpServers key used by several other clients.'', ''Automatic install uses the platform-specific user mcp.json so one local MCPace endpoint is shared across workspaces; .vscode/mcp.json remains available for manual workspace-only configuration.''],
      ct_install_support = Some
       \<lparr>ci_kind = JsonMcpServers \<lparr>js_servers_object_key = ''servers'', js_url_field = ''url'', js_include_type_http = True,
        js_include_tools_star = False, js_include_disabled_false = False\<rparr>,
        ci_preferred_scope = ''user'', ci_preferred_config_path = ''~/.config/Code/User/mcp.json''\<rparr>,
      ct_source = ''builtin''\<rparr>"

definition target_cursor_local :: client_target_record where
  "target_cursor_local =
     \<lparr>ct_id = ''cursor-local'', ct_family_id = ''cursor'', ct_display_name = ''Cursor local editor and CLI'',
      ct_aliases = [''cursor'', ''cursor-cli'', ''cursor-editor''], ct_maturity = ''documented'',
      ct_surface_class = ''local'', ct_surface_kind = ''local-editor-cli'', ct_proof_tier = ''tier-1'',
      ct_config_format = ''json'', ct_config_paths = [''~/.cursor/mcp.json'', ''.cursor/mcp.json''],
      ct_config_precedence = [''project'', ''global'', ''nested''],
      ct_native_scopes = [''project'', ''global'', ''nested''],
      ct_supported_ingresses = [''stdio'', ''streamable-http'', ''sse''], ct_documented_features = [''tools'', ''oauth''],
      ct_documented_constraints = [''shared-config-cli-editor'', ''fixed-oauth-callback''],
      ct_notes = [''Cursor CLI uses the same MCP configuration as the editor.'', ''Project config takes precedence over the global file for matching server names.''],
      ct_install_support = Some
       \<lparr>ci_kind = JsonMcpServers \<lparr>js_servers_object_key = ''mcpServers'', js_url_field = ''url'', js_include_type_http = False,
        js_include_tools_star = False, js_include_disabled_false = False\<rparr>,
        ci_preferred_scope = ''global'', ci_preferred_config_path = ''~/.cursor/mcp.json''\<rparr>,
      ct_source = ''builtin''\<rparr>"

definition target_cursor_cloud_agents :: client_target_record where
  "target_cursor_cloud_agents =
     \<lparr>ct_id = ''cursor-cloud-agents'', ct_family_id = ''cursor'', ct_display_name = ''Cursor cloud agents'',
      ct_aliases = [''cursor-cloud'', ''cursor-background-agents''], ct_maturity = ''documented'',
      ct_surface_class = ''cloud'', ct_surface_kind = ''cloud-agent'', ct_proof_tier = ''catalog-only'',
      ct_config_format = ''dashboard-or-project'', ct_config_paths = [], ct_config_precedence = [''project'', ''team''],
      ct_native_scopes = [''project'', ''team''], ct_supported_ingresses = [''stdio'', ''streamable-http''],
      ct_documented_features = [''tools'', ''oauth''],
      ct_documented_constraints = [''cloud-vm'', ''no-sse'', ''http-preferred''],
      ct_notes = [''Cloud agents run away from the local workstation, so local-only assumptions do not hold.'', ''HTTP is the safer transport for secrets because the backend can proxy or terminate auth.''],
      ct_install_support = None, ct_source = ''builtin''\<rparr>"

definition target_kiro_ide :: client_target_record where
  "target_kiro_ide =
     \<lparr>ct_id = ''kiro-ide'', ct_family_id = ''kiro'', ct_display_name = ''Kiro IDE'',
      ct_aliases = [''kiro'', ''kiro-editor''], ct_maturity = ''documented'', ct_surface_class = ''local'',
      ct_surface_kind = ''local-ide'', ct_proof_tier = ''tier-2'', ct_config_format = ''json'',
      ct_config_paths = [''~/.kiro/settings/mcp.json'', ''.kiro/settings/mcp.json''],
      ct_config_precedence = [''workspace'', ''user''], ct_native_scopes = [''user'', ''workspace''],
      ct_supported_ingresses = [''stdio'', ''streamable-http''], ct_documented_features = [''tools''],
      ct_documented_constraints = [''workspace-overrides-user''],
      ct_notes = [''Workspace and user configs merge with workspace precedence.'', ''Local command and remote URL entries share the same JSON file shape.''],
      ct_install_support = Some
       \<lparr>ci_kind = JsonMcpServers \<lparr>js_servers_object_key = ''mcpServers'', js_url_field = ''url'', js_include_type_http = False,
        js_include_tools_star = False, js_include_disabled_false = True\<rparr>,
        ci_preferred_scope = ''user'', ci_preferred_config_path = ''~/.kiro/settings/mcp.json''\<rparr>,
      ct_source = ''builtin''\<rparr>"

definition target_kiro_cli :: client_target_record where
  "target_kiro_cli =
     \<lparr>ct_id = ''kiro-cli'', ct_family_id = ''kiro'', ct_display_name = ''Kiro CLI'',
      ct_aliases = [''kiro-agent'', ''kirocli''], ct_maturity = ''documented'', ct_surface_class = ''local'',
      ct_surface_kind = ''local-cli'', ct_proof_tier = ''tier-2'', ct_config_format = ''json'',
      ct_config_paths = [''~/.kiro/settings/mcp.json'', ''.kiro/settings/mcp.json'', ''~/.kiro/agents/*.json'', ''<project>/.kiro/agents/*.json''],
      ct_config_precedence = [''agent'', ''workspace'', ''user''], ct_native_scopes = [''agent'', ''workspace'', ''user''],
      ct_supported_ingresses = [''stdio'', ''streamable-http'', ''sse''],
      ct_documented_features = [''tools'', ''prompts'', ''oauth''],
      ct_documented_constraints = [''agent-overrides-workspace-user'', ''tool-name-rules''],
      ct_notes = [''Agent-level config can augment or override MCP from shared settings files.'', ''Tool names and descriptions need to stay within Kiro CLI formatting rules.''],
      ct_install_support = Some
       \<lparr>ci_kind = JsonMcpServers \<lparr>js_servers_object_key = ''mcpServers'', js_url_field = ''url'', js_include_type_http = False,
        js_include_tools_star = False, js_include_disabled_false = True\<rparr>,
        ci_preferred_scope = ''user'', ci_preferred_config_path = ''~/.kiro/settings/mcp.json''\<rparr>,
      ct_source = ''builtin''\<rparr>"

definition target_windsurf :: client_target_record where
  "target_windsurf =
     \<lparr>ct_id = ''windsurf'', ct_family_id = ''windsurf'', ct_display_name = ''Windsurf'',
      ct_aliases = [''codeium'', ''windsurf-ide''], ct_maturity = ''documented'', ct_surface_class = ''local'',
      ct_surface_kind = ''local-ide'', ct_proof_tier = ''tier-2'', ct_config_format = ''json'',
      ct_config_paths = [''~/.codeium/windsurf/mcp_config.json''], ct_config_precedence = [''user''],
      ct_native_scopes = [''user''], ct_supported_ingresses = [''stdio'', ''streamable-http'', ''sse''],
      ct_documented_features = [''tools'', ''oauth''], ct_documented_constraints = [''tool-budget-100''],
      ct_notes = [''Cascade supports stdio, Streamable HTTP, and SSE MCP servers.'', ''The UI enforces a budget of 100 enabled tools across connected MCP servers.''],
      ct_install_support = Some
       \<lparr>ci_kind = JsonMcpServers \<lparr>js_servers_object_key = ''mcpServers'', js_url_field = ''serverUrl'', js_include_type_http = False,
        js_include_tools_star = False, js_include_disabled_false = False\<rparr>,
        ci_preferred_scope = ''user'', ci_preferred_config_path = ''~/.codeium/windsurf/mcp_config.json''\<rparr>,
      ct_source = ''builtin''\<rparr>"

definition target_gemini_cli :: client_target_record where
  "target_gemini_cli =
     \<lparr>ct_id = ''gemini-cli'', ct_family_id = ''gemini'', ct_display_name = ''Gemini CLI'',
      ct_aliases = [''gemini'', ''google-gemini-cli''], ct_maturity = ''documented'', ct_surface_class = ''local'',
      ct_surface_kind = ''local-cli'', ct_proof_tier = ''tier-2'', ct_config_format = ''json'',
      ct_config_paths = [''~/.gemini/settings.json'', ''.gemini/settings.json''],
      ct_config_precedence = [''workspace'', ''user'', ''system''],
      ct_native_scopes = [''workspace'', ''user'', ''system''],
      ct_supported_ingresses = [''stdio'', ''streamable-http'', ''sse''], ct_documented_features = [''tools''],
      ct_documented_constraints = [''settings-json''],
      ct_notes = [''User settings live in ~/.gemini/settings.json and project settings live in .gemini/settings.json.'', ''System settings also exist for managed environments, but MCPace currently patches the user settings file.'', ''Transport support is evolving quickly, so compatibility should be proven with real traces.''],
      ct_install_support = Some
       \<lparr>ci_kind = JsonMcpServers \<lparr>js_servers_object_key = ''mcpServers'', js_url_field = ''httpUrl'', js_include_type_http = False,
        js_include_tools_star = False, js_include_disabled_false = False\<rparr>,
        ci_preferred_scope = ''user'', ci_preferred_config_path = ''~/.gemini/settings.json''\<rparr>,
      ct_source = ''builtin''\<rparr>"

definition target_github_copilot_cli :: client_target_record where
  "target_github_copilot_cli =
     \<lparr>ct_id = ''github-copilot-cli'', ct_family_id = ''github-copilot'', ct_display_name = ''GitHub Copilot CLI'',
      ct_aliases = [''copilot'', ''copilot-cli'', ''github-copilot''], ct_maturity = ''documented'',
      ct_surface_class = ''local'', ct_surface_kind = ''local-cli'', ct_proof_tier = ''tier-2'',
      ct_config_format = ''json'', ct_config_paths = [''~/.copilot/mcp-config.json''],
      ct_config_precedence = [''session'', ''user''], ct_native_scopes = [''session'', ''user''],
      ct_supported_ingresses = [''stdio'', ''streamable-http'', ''sse''], ct_documented_features = [''tools''],
      ct_documented_constraints = [''built-in-github-server'', ''session-additional-config''],
      ct_notes = [''CLI config can be augmented per session with --additional-mcp-config.'', ''The GitHub MCP server is built in and available without extra configuration.''],
      ct_install_support = Some
       \<lparr>ci_kind = JsonMcpServers \<lparr>js_servers_object_key = ''mcpServers'', js_url_field = ''url'', js_include_type_http = True,
        js_include_tools_star = True, js_include_disabled_false = False\<rparr>,
        ci_preferred_scope = ''user'', ci_preferred_config_path = ''~/.copilot/mcp-config.json''\<rparr>,
      ct_source = ''builtin''\<rparr>"

definition target_github_copilot_cloud_agent :: client_target_record where
  "target_github_copilot_cloud_agent =
     \<lparr>ct_id = ''github-copilot-cloud-agent'', ct_family_id = ''github-copilot'',
      ct_display_name = ''GitHub Copilot cloud agent'', ct_aliases = [''copilot-cloud'', ''github-copilot-cloud''],
      ct_maturity = ''documented'', ct_surface_class = ''cloud'', ct_surface_kind = ''cloud-agent'',
      ct_proof_tier = ''catalog-only'', ct_config_format = ''repo-json'',
      ct_config_paths = [''repository-level MCP config''], ct_config_precedence = [''repository''],
      ct_native_scopes = [''repository''], ct_supported_ingresses = [''stdio'', ''streamable-http'', ''sse''],
      ct_documented_features = [''tools''],
      ct_documented_constraints = [''tools-only'', ''no-remote-oauth'', ''no-approval-prompts'', ''repo-level-config''],
      ct_notes = [''Cloud agent supports tools only; resources and prompts are not available on this surface.'', ''Remote MCP servers that depend on OAuth are not currently supported here.''],
      ct_install_support = None, ct_source = ''builtin''\<rparr>"

definition target_hermes_agent :: client_target_record where
  "target_hermes_agent =
     \<lparr>ct_id = ''hermes-agent'', ct_family_id = ''hermes'', ct_display_name = ''Hermes Agent'',
      ct_aliases = [''hermes'', ''nous-hermes-agent''], ct_maturity = ''documented'', ct_surface_class = ''local'',
      ct_surface_kind = ''local-agent'', ct_proof_tier = ''tier-2'', ct_config_format = ''yaml'',
      ct_config_paths = [''~/.hermes/config.yaml'', ''~/.hermes/.env''],
      ct_config_precedence = [''cli'', ''config.yaml'', ''.env'', ''defaults''], ct_native_scopes = [''user''],
      ct_supported_ingresses = [''stdio'', ''streamable-http''],
      ct_documented_features = [''tools'', ''resources'', ''prompts'', ''oauth''],
      ct_documented_constraints = [''config-yaml-plus-env'', ''oauth-pkce'', ''capability-aware-resource-prompt-wrapper''],
      ct_notes = [''Hermes mixes local stdio and remote HTTP MCP servers in one config.'', ''Resources and prompts become utility wrappers only when the server actually exposes those capabilities.''],
      ct_install_support = Some
       \<lparr>ci_kind = YamlMcpServersManagedSection,
        ci_preferred_scope = ''user'', ci_preferred_config_path = ''~/.hermes/config.yaml''\<rparr>,
      ct_source = ''builtin''\<rparr>"

definition target_generic_stdio :: client_target_record where
  "target_generic_stdio =
     \<lparr>ct_id = ''generic-stdio'', ct_family_id = ''generic'', ct_display_name = ''Generic stdio MCP host'',
      ct_aliases = [''generic'', ''stdio''], ct_maturity = ''generic'', ct_surface_class = ''generic'',
      ct_surface_kind = ''generic-stdio-host'', ct_proof_tier = ''generic'', ct_config_format = ''host-defined'',
      ct_config_paths = [], ct_config_precedence = [''host-defined''], ct_native_scopes = [''host-defined''],
      ct_supported_ingresses = [''stdio''], ct_documented_features = [], ct_documented_constraints = [''host-defined''],
      ct_notes = [''Use this when the host launches a command and speaks MCP over stdio.''], ct_install_support = None,
      ct_source = ''builtin''\<rparr>"

definition target_generic_http :: client_target_record where
  "target_generic_http =
     \<lparr>ct_id = ''generic-http'', ct_family_id = ''generic'', ct_display_name = ''Generic Streamable HTTP MCP host'',
      ct_aliases = [''http'', ''streamable-http''], ct_maturity = ''generic'', ct_surface_class = ''generic'',
      ct_surface_kind = ''generic-http-host'', ct_proof_tier = ''generic'', ct_config_format = ''host-defined'',
      ct_config_paths = [], ct_config_precedence = [''host-defined''], ct_native_scopes = [''host-defined''],
      ct_supported_ingresses = [''streamable-http''], ct_documented_features = [],
      ct_documented_constraints = [''host-defined''],
      ct_notes = [''Use this when the host connects to one MCP URL instead of launching a process.''],
      ct_install_support = None, ct_source = ''builtin''\<rparr>"

definition target_public_http_connector :: client_target_record where
  "target_public_http_connector =
     \<lparr>ct_id = ''public-http-connector'', ct_family_id = ''generic'',
      ct_display_name = ''Generic public HTTP MCP connector'', ct_aliases = [''api-connector'', ''cloud-http-connector''],
      ct_maturity = ''generic'', ct_surface_class = ''cloud'', ct_surface_kind = ''generic-public-http-connector'',
      ct_proof_tier = ''catalog-only'', ct_config_format = ''request-or-dashboard'', ct_config_paths = [],
      ct_config_precedence = [''surface-defined''], ct_native_scopes = [''request'', ''project'', ''team''],
      ct_supported_ingresses = [''streamable-http'', ''sse''], ct_documented_features = [''tools''],
      ct_documented_constraints = [''tools-only'', ''public-http-only''],
      ct_notes = [''Use this when the client lives in the cloud and can only reach public HTTP MCP servers.''],
      ct_install_support = None, ct_source = ''builtin''\<rparr>"

definition CLIENT_TARGETS :: "client_target_record list" where
  "CLIENT_TARGETS =
     [target_codex, target_claude_code, target_claude_api_connector, target_vscode_workspace, target_cursor_local,
      target_cursor_cloud_agents, target_kiro_ide, target_kiro_cli, target_windsurf, target_gemini_cli,
      target_github_copilot_cli, target_github_copilot_cloud_agent, target_hermes_agent, target_generic_stdio,
      target_generic_http, target_public_http_connector]"

section \<open>Reading targets\<close>

definition string_field :: "json_map \<Rightarrow> string \<Rightarrow> string option" where
  "string_field entries key = trimmed_non_empty_owned (Option.bind (map_of entries key) as_str)"

definition bool_field :: "json_map \<Rightarrow> string \<Rightarrow> bool \<Rightarrow> bool" where
  "bool_field entries key d = unwrap_or (Option.bind (map_of entries key) as_bool) d"

definition array_field :: "json_map \<Rightarrow> string \<Rightarrow> string list" where
  "array_field entries key = strings_from_array (Option.bind (map_of entries key) as_array)"

definition default_array_field :: "json_map \<Rightarrow> string \<Rightarrow> string list \<Rightarrow> string list" where
  "default_array_field entries key fallback = (let vs = array_field entries key in if vs = [] then fallback else vs)"

definition default_json_mcp_server_shape :: json_mcp_server_shape where
  "default_json_mcp_server_shape =
     \<lparr>js_servers_object_key = ''mcpServers'', js_url_field = ''url'', js_include_type_http = True,
      js_include_tools_star = False, js_include_disabled_false = False\<rparr>"

definition shape_from_json :: "json option \<Rightarrow> json_mcp_server_shape option" where
  "shape_from_json v =
     map_option (\<lambda>entries.
       \<lparr>js_servers_object_key = unwrap_or (string_field entries ''serversObjectKey'') ''mcpServers'',
        js_url_field = unwrap_or (string_field entries ''urlField'') ''url'',
        js_include_type_http = bool_field entries ''includeTypeHttp'' True,
        js_include_tools_star = bool_field entries ''includeToolsStar'' False,
        js_include_disabled_false = bool_field entries ''includeDisabledFalse'' False\<rparr>)
       (Option.bind v as_object)"

definition from_kind_name :: "string \<Rightarrow> json_map \<Rightarrow> string \<Rightarrow> client_install_kind option \<times> string list" where
  "from_kind_name kind entries source =
     (let k = normalize_flag kind
      in if k \<in> {''toml-mcp-servers-managed-table'', ''toml''} then (Some TomlMcpServersManagedTable, [])
         else if k \<in> {''yaml-mcp-servers-managed-section'', ''yaml''} then (Some YamlMcpServersManagedSection, [])
         else if k \<in> {''json-mcp-servers'', ''json''} then
           (Some (JsonMcpServers (unwrap_or (shape_from_json (map_of entries ''jsonServerShape'')) default_json_mcp_server_shape)), [])
         else (None, [source @ '' uses unknown client install kind '' @ [CHR 0x27] @ k @ [CHR 0x27]
                      @ ''; install patching is disabled for that target'']))"

fun install_kind_str :: "client_install_kind \<Rightarrow> string" where
  "install_kind_str TomlMcpServersManagedTable = ''toml-mcp-servers-managed-table''"
| "install_kind_str (JsonMcpServers _) = ''json-mcp-servers''"
| "install_kind_str YamlMcpServersManagedSection = ''yaml-mcp-servers-managed-section''"

definition install_support_from_json :: "json \<Rightarrow> string \<Rightarrow> client_install_support option \<times> string list" where
  "install_support_from_json v source =
     (case as_object v of
        None \<Rightarrow> (None, [])
      | Some entries \<Rightarrow>
          (case from_kind_name (unwrap_or (string_field entries ''kind'') ''json-mcp-servers'') entries source of
             (None, warnings) \<Rightarrow> (None, warnings)
           | (Some kind, warnings) \<Rightarrow>
               (Some \<lparr>ci_kind = kind, ci_preferred_scope = unwrap_or (string_field entries ''preferredScope'') ''user'',
                      ci_preferred_config_path = unwrap_or (string_field entries ''preferredConfigPath'') ''client config''\<rparr>,
                warnings)))"

text \<open>A parsed target with the warnings of its parsing.\<close>

definition target_from_json :: "json \<Rightarrow> string option \<Rightarrow> string \<Rightarrow> client_target_record option \<times> string list" where
  "target_from_json v fallback_id source =
     (case as_object v of
        None \<Rightarrow> (None, [])
      | Some entries \<Rightarrow>
          (case trimmed_non_empty_owned (or_else (string_field entries ''id'') fallback_id) of
             None \<Rightarrow> (None, [source @ '' contains a client target without an id; skipping''])
           | Some ident \<Rightarrow>
               let (install, warnings) =
                     (case map_of entries ''installSupport'' of
                        Some v \<Rightarrow> install_support_from_json v source | None \<Rightarrow> (None, []));
                   text = (\<lambda>key fallback. unwrap_or (string_field entries key) fallback)
               in (Some
                 \<lparr>ct_id = ident, ct_family_id = text ''familyId'' ident, ct_display_name = text ''displayName'' ident,
                  ct_aliases = array_field entries ''aliases'', ct_maturity = text ''maturity'' ''external'',
                  ct_surface_class = text ''surfaceClass'' ''custom'', ct_surface_kind = text ''surfaceKind'' ''custom-client'',
                  ct_proof_tier = text ''proofTier'' ''external'', ct_config_format = text ''configFormat'' ''host-defined'',
                  ct_config_paths = array_field entries ''configPaths'',
                  ct_config_precedence = default_array_field entries ''configPrecedence'' [''host-defined''],
                  ct_native_scopes = default_array_field entries ''nativeScopes'' [''host-defined''],
                  ct_supported_ingresses = default_array_field entries ''supportedIngresses'' [''stdio''],
                  ct_documented_features = array_field entries ''documentedFeatures'',
                  ct_documented_constraints = array_field entries ''documentedConstraints'',
                  ct_notes = array_field entries ''notes'', ct_install_support = install, ct_source = source\<rparr>, warnings)))"

definition collect_targets :: "(client_target_record option \<times> string list) list \<Rightarrow> client_target_record list \<times> string list" where
  "collect_targets parsed = (List.map_filter fst parsed, concat (map snd parsed))"

definition parse_targets_from_array :: "json list \<Rightarrow> string \<Rightarrow> client_target_record list \<times> string list" where
  "parse_targets_from_array items source = collect_targets (map (\<lambda>item. target_from_json item None source) items)"

definition parse_targets_from_object :: "json \<Rightarrow> string \<Rightarrow> client_target_record list \<times> string list" where
  "parse_targets_from_object v source =
     (case as_object v of
        None \<Rightarrow> ([], [])
      | Some entries \<Rightarrow> collect_targets (map (\<lambda>(ident, item). target_from_json item (Some ident) source) entries))"

text \<open>The warnings of a file only decide whether an empty result is an error; they are not returned.\<close>

definition load_targets_from_file :: "(string \<Rightarrow> string + json) \<Rightarrow> string \<Rightarrow> client_catalog_error + client_target_record list" where
  "load_targets_from_file read path =
     (case read path of
        Inl reason \<Rightarrow> Inl (ReadFailed path reason)
      | Inr v \<Rightarrow>
          let source = ''file:'' @ path;
              (targets, warnings) =
                (case as_array v of
                   Some items \<Rightarrow> parse_targets_from_array items source
                 | None \<Rightarrow> (case Option.bind (json_get v ''targets'') as_array of
                              Some items \<Rightarrow> parse_targets_from_array items source
                            | None \<Rightarrow> parse_targets_from_object v source))
          in if targets = [] \<and> warnings = [] then Inl (EmptyCatalog path) else Inr targets)"

section \<open>The registry\<close>

type_synonym target_map = "(string \<times> client_target_record) list"

definition replaced_warning :: "client_target_record \<Rightarrow> client_target_record \<Rightarrow> string" where
  "replaced_warning target previous =
     ''client target '' @ [CHR 0x27] @ ct_id target @ [CHR 0x27] @ '' from '' @ ct_source target
     @ '' replaced previous definition from '' @ ct_source previous"

definition merge_target :: "client_target_record \<Rightarrow> target_map \<times> string list \<Rightarrow> target_map \<times> string list" where
  "merge_target target acc =
     (let (targets, warnings) = acc; key = normalize_flag (ct_id target)
      in (bt_insert key target targets,
          warnings @ (case map_of targets key of
             None \<Rightarrow> []
           | Some previous \<Rightarrow> [replaced_warning target previous])))"

definition merge_targets :: "client_target_record list \<Rightarrow> target_map \<times> string list \<Rightarrow> target_map \<times> string list" where
  "merge_targets items acc = fold merge_target items acc"

record catalog_env =
  cc_config :: "(string + json) option"
  cc_read :: "string \<Rightarrow> string + json"
  cc_home :: "string option"
  cc_search_path :: "string list option"

definition expand_home :: "catalog_env \<Rightarrow> string \<Rightarrow> string" where
  "expand_home env raw =
     (if raw = ''~'' \<or> starts_with raw ''~/'' \<or> starts_with raw (''~'' @ [CHR 0x5C])
      then (case cc_home env of
              Some home \<Rightarrow>
                path_join home (dropWhile (\<lambda>c. c = CHR ''/'' \<or> c = CHR 0x5C) (dropWhile (\<lambda>c. c = CHR ''~'') raw))
            | None \<Rightarrow> raw)
      else raw)"

definition resolve_catalog_path :: "catalog_env \<Rightarrow> string \<Rightarrow> string \<Rightarrow> string" where
  "resolve_catalog_path env root_path raw = path_join root_path (expand_home env raw)"

definition builtin_targets :: target_map where
  "builtin_targets = fold (\<lambda>target. bt_insert (normalize_flag (ct_id target)) target) CLIENT_TARGETS []"

definition config_targets :: "json \<Rightarrow> string list \<times> string \<Rightarrow> target_map \<times> string list \<Rightarrow> target_map \<times> string list" where
  "config_targets config entry acc =
     (case array_at_path config (fst entry) of
        None \<Rightarrow> acc
      | Some items \<Rightarrow>
          let (parsed, parse_warnings) = parse_targets_from_array items (snd entry); (targets, warnings) = acc
          in merge_targets parsed (targets, warnings @ parse_warnings))"

definition merge_file :: "catalog_env \<Rightarrow> string \<Rightarrow> target_map \<times> string list \<Rightarrow> target_map \<times> string list" where
  "merge_file env path acc =
     (case load_targets_from_file (cc_read env) path of
        Inr items \<Rightarrow> merge_targets items acc
      | Inl e \<Rightarrow> (fst acc, snd acc @ [client_catalog_error_display e]))"

definition path_settings :: "(string list \<times> string) list" where
  "path_settings =
     [([''clientCatalog'', ''paths''], ''clientCatalog.paths''), ([''client'', ''catalogPaths''], ''client.catalogPaths'')]"

definition target_settings :: "(string list \<times> string) list" where
  "target_settings =
     [([''clientCatalog'', ''targets''], ''clientCatalog.targets''),
      ([''client'', ''catalog'', ''targets''], ''client.catalog.targets'')]"

text \<open>The configuration file is looked for only when there is a root directory; \<open>cc_config\<close> is its content when it exists.\<close>

definition config_catalog :: "catalog_env \<Rightarrow> string option \<Rightarrow> (target_map \<times> string list) \<times> string list \<times> string list" where
  "config_catalog env root =
     (case Option.bind root (\<lambda>r. map_option (Pair r) (cc_config env)) of
        None \<Rightarrow> ((builtin_targets, []), [], [])
      | Some (r, Inl e) \<Rightarrow>
          ((builtin_targets,
            [''client catalog extension could not read '' @ [CHR 0x27] @ path_join r ''mcpace.config.json'' @ [CHR 0x27]
             @ '': '' @ e]), [], [])
      | Some (r, Inr v) \<Rightarrow>
          (fold (config_targets v) target_settings (builtin_targets, []),
           concat (map (\<lambda>(p, k). map (\<lambda>item. k @ '':'' @ item) (strings_from_array (array_at_path v p))) path_settings) @
           concat (map (\<lambda>(p, k). if array_at_path v p = None then [] else [k]) target_settings),
           concat (map (\<lambda>(p, k). map (resolve_catalog_path env r) (strings_from_array (array_at_path v p))) path_settings)))"

definition load_registry :: "catalog_env \<Rightarrow> string option \<Rightarrow> client_registry" where
  "load_registry env root =
     (let (acc, sources, paths) = config_catalog env root;
          env_paths = unwrap_or (cc_search_path env) [];
          (targets, warnings) = fold (merge_file env) (paths @ env_paths) acc
      in \<lparr>cr_targets = map snd targets,
          cr_sources = sorted_unique ([''builtin-client-catalog''] @ sources @ map (\<lambda>p. ''env:MCPACE_CLIENT_CATALOG:'' @ p) env_paths),
          cr_warnings = sorted_unique warnings\<rparr>)"

section \<open>Using targets\<close>

definition target_answers :: "string \<Rightarrow> client_target_record \<Rightarrow> bool" where
  "target_answers ident target \<longleftrightarrow>
     normalize_flag (ct_id target) = normalize_flag ident \<or>
     list_ex (\<lambda>alias. normalize_flag alias = normalize_flag ident) (ct_aliases target)"

definition find_in_targets :: "client_target_record list \<Rightarrow> string \<Rightarrow> client_target_record option" where
  "find_in_targets targets ident = List.find (target_answers ident) targets"

definition find_builtin :: "string \<Rightarrow> client_target_record option" where
  "find_builtin ident =
     List.find (\<lambda>target. ct_id target = normalize_flag ident \<or>
       list_ex (\<lambda>alias. normalize_flag alias = normalize_flag ident) (ct_aliases target)) CLIENT_TARGETS"

definition catalog_normalize_transport :: "string \<Rightarrow> string" where
  "catalog_normalize_transport v =
     (let t = normalize_flag v
      in if t \<in> {''http'', ''streamable-http'', ''streamable_http''} then ''streamable-http''
         else if t \<in> {''stdio'', ''local-stdio''} then ''stdio'' else t)"

definition supports_ingress :: "client_target_record \<Rightarrow> string \<Rightarrow> bool" where
  "supports_ingress target ingress \<longleftrightarrow>
     list_ex (\<lambda>v. catalog_normalize_transport v = catalog_normalize_transport ingress) (ct_supported_ingresses target)"

definition has_feature :: "client_target_record \<Rightarrow> string \<Rightarrow> bool" where
  "has_feature target feature \<longleftrightarrow> list_ex (\<lambda>v. normalize_flag v = normalize_flag feature) (ct_documented_features target)"

definition has_constraint :: "client_target_record \<Rightarrow> string \<Rightarrow> bool" where
  "has_constraint target c \<longleftrightarrow> list_ex (\<lambda>v. normalize_flag v = normalize_flag c) (ct_documented_constraints target)"

definition supports_client_install :: "client_target_record \<Rightarrow> bool" where
  "supports_client_install target \<longleftrightarrow> ct_install_support target \<noteq> None"

definition preferred_install_scope :: "client_target_record \<Rightarrow> string option" where
  "preferred_install_scope target = map_option ci_preferred_scope (ct_install_support target)"

definition preferred_install_config_path :: "client_target_record \<Rightarrow> string option" where
  "preferred_install_config_path target =
     or_else (map_option ci_preferred_config_path (ct_install_support target))
       (case ct_config_paths target of [] \<Rightarrow> None | p # _ \<Rightarrow> Some p)"

definition join_human_list :: "string list \<Rightarrow> string" where
  "join_human_list vs =
     (case vs of
        [] \<Rightarrow> ''none''
      | [one] \<Rightarrow> one
      | [a, b] \<Rightarrow> a @ '' and '' @ b
      | _ \<Rightarrow> join '', '' (butlast vs) @ '', and '' @ last vs)"

definition client_install_support_summary_for_targets :: "client_target_record list \<Rightarrow> string" where
  "client_install_support_summary_for_targets targets = join_human_list (map ct_id (filter supports_client_install targets))"

definition client_install_support_summary :: string where
  "client_install_support_summary = join_human_list (map ct_id (filter supports_client_install CLIENT_TARGETS))"

definition shape_json :: "json_mcp_server_shape \<Rightarrow> json" where
  "shape_json s = json_object
     [(''serversObjectKey'', JString (js_servers_object_key s)), (''urlField'', JString (js_url_field s)),
      (''includeTypeHttp'', JBool (js_include_type_http s)), (''includeToolsStar'', JBool (js_include_tools_star s)),
      (''includeDisabledFalse'', JBool (js_include_disabled_false s))]"

definition install_support_json :: "client_install_support \<Rightarrow> json" where
  "install_support_json s = json_object
     [(''kind'', JString (install_kind_str (ci_kind s))), (''preferredScope'', JString (ci_preferred_scope s)),
      (''preferredConfigPath'', JString (ci_preferred_config_path s)),
      (''jsonServerShape'', case ci_kind s of JsonMcpServers shape \<Rightarrow> shape_json shape | _ \<Rightarrow> JNull)]"

definition target_json :: "client_target_record \<Rightarrow> json" where
  "target_json t = json_object
     [(''id'', JString (ct_id t)), (''familyId'', JString (ct_family_id t)), (''displayName'', JString (ct_display_name t)),
      (''aliases'', json_strings (ct_aliases t)), (''maturity'', JString (ct_maturity t)),
      (''surfaceClass'', JString (ct_surface_class t)), (''surfaceKind'', JString (ct_surface_kind t)),
      (''proofTier'', JString (ct_proof_tier t)), (''configFormat'', JString (ct_config_format t)),
      (''configPaths'', json_strings (ct_config_paths t)), (''configPrecedence'', json_strings (ct_config_precedence t)),
      (''nativeScopes'', json_strings (ct_native_scopes t)), (''supportedIngresses'', json_strings (ct_supported_ingresses t)),
      (''documentedFeatures'', json_strings (ct_documented_features t)),
      (''documentedConstraints'', json_strings (ct_documented_constraints t)), (''notes'', json_strings (ct_notes t)),
      (''source'', JString (ct_source t)), (''installSupported'', JBool (supports_client_install t)),
      (''installSupport'', case ct_install_support t of Some s \<Rightarrow> install_support_json s | None \<Rightarrow> JNull)]"

section \<open>Laws of the registry\<close>

definition catalog_ok :: "target_map \<times> string list \<Rightarrow> bool" where
  "catalog_ok acc \<longleftrightarrow>
     bt_ok (fst acc) \<and> (\<forall>e \<in> set (fst acc). fst e = normalize_flag (ct_id (snd e))) \<and>
     (\<forall>b \<in> set CLIENT_TARGETS. \<exists>t. map_of (fst acc) (normalize_flag (ct_id b)) = Some t \<and>
        (t = b \<or> (\<exists>a. replaced_warning a b \<in> set (snd acc))))"

lemma catalog_ok_merge: "catalog_ok acc \<Longrightarrow> catalog_ok (merge_target target acc)"
proof -
  assume ok: "catalog_ok acc"
  obtain m ws where acc: "acc = (m, ws)" by (cases acc)
  let ?k = "normalize_flag (ct_id target)"
  have m: "merge_target target acc =
      (bt_insert ?k target m, ws @ (case map_of m ?k of None \<Rightarrow> [] | Some p \<Rightarrow> [replaced_warning target p]))"
    by (simp add: merge_target_def acc Let_def)
  have "\<exists>t. map_of (bt_insert ?k target m) (normalize_flag (ct_id b)) = Some t \<and>
      (t = b \<or> (\<exists>a. replaced_warning a b \<in> set (snd (merge_target target acc))))" if b: "b \<in> set CLIENT_TARGETS" for b
  proof -
    have "\<forall>b \<in> set CLIENT_TARGETS. \<exists>t. map_of m (normalize_flag (ct_id b)) = Some t \<and>
        (t = b \<or> (\<exists>a. replaced_warning a b \<in> set ws))" using ok by (simp add: catalog_ok_def acc)
    from bspec [OF this b] obtain t where t: "map_of m (normalize_flag (ct_id b)) = Some t"
        "t = b \<or> (\<exists>a. replaced_warning a b \<in> set ws)" by (elim exE conjE)
    show ?thesis using t by (cases "normalize_flag (ct_id b) = ?k") (auto simp: m)
  qed
  moreover have "bt_ok m" "\<forall>e \<in> set m. fst e = normalize_flag (ct_id (snd e))" using ok by (simp_all add: catalog_ok_def acc)
  ultimately show ?thesis unfolding catalog_ok_def by (simp add: m set_bt_insert)
qed

lemma catalog_ok_more: "catalog_ok (m, ws) \<Longrightarrow> catalog_ok (m, ws @ vs)"
  by (auto simp: catalog_ok_def) blast

lemma fold_keeps: "(\<And>x a. P a \<Longrightarrow> P (f x a)) \<Longrightarrow> P a \<Longrightarrow> P (fold f xs a)"
  by (induction xs arbitrary: a) auto

lemma catalog_ok_merge_targets: "catalog_ok acc \<Longrightarrow> catalog_ok (merge_targets items acc)"
  unfolding merge_targets_def by (rule fold_keeps) (rule catalog_ok_merge)

lemma catalog_ok_config: "catalog_ok acc \<Longrightarrow> catalog_ok (config_targets v entry acc)"
  by (cases acc) (auto simp: config_targets_def split_beta Let_def split: option.splits
      intro!: catalog_ok_merge_targets catalog_ok_more)

lemma catalog_ok_file: "catalog_ok acc \<Longrightarrow> catalog_ok (merge_file env path acc)"
  by (cases acc) (auto simp: merge_file_def split: sum.splits intro!: catalog_ok_merge_targets catalog_ok_more)

text \<open>The names by which a built-in target is found are its own.\<close>

definition target_names :: "client_target_record \<Rightarrow> string list" where
  "target_names t = map normalize_flag (ct_id t # ct_aliases t)"

lemma target_answers_names: "target_answers ident t \<longleftrightarrow> normalize_flag ident \<in> set (target_names t)"
  by (simp add: target_answers_def target_names_def list_ex_iff image_iff eq_commute [of "normalize_flag ident"])

lemmas target_defs = target_codex_def target_claude_code_def target_claude_api_connector_def target_vscode_workspace_def target_cursor_local_def target_cursor_cloud_agents_def target_kiro_ide_def target_kiro_cli_def target_windsurf_def target_gemini_cli_def target_github_copilot_cli_def target_github_copilot_cloud_agent_def target_hermes_agent_def target_generic_stdio_def target_generic_http_def target_public_http_connector_def

lemma builtin_names: "distinct (concat (map (\<lambda>t. remdups (target_names t)) CLIENT_TARGETS))"
  by code_simp

lemma builtin_ids: "\<forall>t \<in> set CLIENT_TARGETS. normalize_flag (ct_id t) = ct_id t" "distinct (map ct_id CLIENT_TARGETS)"
  by code_simp+

lemma builtin_fold:
  "bt_ok m \<Longrightarrow> \<forall>e \<in> set m. fst e = normalize_flag (ct_id (snd e)) \<Longrightarrow>
   distinct (map (\<lambda>t. normalize_flag (ct_id t)) ts) \<Longrightarrow>
   (let m' = fold (\<lambda>target. bt_insert (normalize_flag (ct_id target)) target) ts m
    in bt_ok m' \<and> (\<forall>e \<in> set m'. fst e = normalize_flag (ct_id (snd e))) \<and>
      (\<forall>t \<in> set ts. map_of m' (normalize_flag (ct_id t)) = Some t) \<and>
      (\<forall>k. k \<notin> (\<lambda>t. normalize_flag (ct_id t)) ` set ts \<longrightarrow> map_of m' k = map_of m k))"
proof (induction ts arbitrary: m)
  case (Cons t ts)
  let ?m = "bt_insert (normalize_flag (ct_id t)) t m"
  have "bt_ok ?m" "\<forall>e \<in> set ?m. fst e = normalize_flag (ct_id (snd e))"
    using Cons.prems(1,2) by (auto simp: set_bt_insert)
  from Cons.IH [OF this] Cons.prems(3) show ?case by (auto simp: Let_def)
qed simp

lemma catalog_ok_builtin: "catalog_ok (builtin_targets, ws)"
proof -
  have "map (\<lambda>t. normalize_flag (ct_id t)) CLIENT_TARGETS = map ct_id CLIENT_TARGETS" using builtin_ids(1) by simp
  then have d: "distinct (map (\<lambda>t. normalize_flag (ct_id t)) CLIENT_TARGETS)" using builtin_ids(2) by metis
  have f: "bt_ok builtin_targets" "\<forall>e \<in> set builtin_targets. fst e = normalize_flag (ct_id (snd e))"
      "\<forall>t \<in> set CLIENT_TARGETS. map_of builtin_targets (normalize_flag (ct_id t)) = Some t"
    using builtin_fold [OF bt_ok_Nil _ d] unfolding builtin_targets_def Let_def by auto
  then show ?thesis by (simp add: catalog_ok_def)
qed

lemma catalog_ok_config_catalog: "config_catalog env root = (acc, sources, paths) \<Longrightarrow> catalog_ok acc"
proof -
  assume c: "config_catalog env root = (acc, sources, paths)"
  have "catalog_ok (fold (config_targets v) target_settings (builtin_targets, []))" for v
    by (rule fold_keeps) (simp_all add: catalog_ok_config catalog_ok_builtin)
  then show ?thesis using c catalog_ok_builtin by (auto simp: config_catalog_def split: option.splits sum.splits)
qed

lemma distinct_concat_owner:
  "distinct (concat (map (\<lambda>t. remdups (f t)) ts)) \<Longrightarrow> t \<in> set ts \<Longrightarrow> u \<in> set ts \<Longrightarrow> x \<in> set (f t) \<Longrightarrow> x \<in> set (f u) \<Longrightarrow> t = u"
  by (induction ts) auto

text \<open>Targets whose texts survive the trimming of the reader.\<close>

definition clean :: "string \<Rightarrow> bool" where
  "clean s \<longleftrightarrow> trim s = s \<and> s \<noteq> []"

definition kind_ok :: "client_install_kind \<Rightarrow> bool" where
  "kind_ok k \<longleftrightarrow> (case k of JsonMcpServers s \<Rightarrow> clean (js_servers_object_key s) \<and> clean (js_url_field s) | _ \<Rightarrow> True)"

definition target_ok :: "client_target_record \<Rightarrow> bool" where
  "target_ok t \<longleftrightarrow>
     list_all clean [ct_id t, ct_family_id t, ct_display_name t, ct_maturity t, ct_surface_class t, ct_surface_kind t,
       ct_proof_tier t, ct_config_format t] \<and>
     list_all (list_all clean) [ct_aliases t, ct_config_paths t, ct_config_precedence t, ct_native_scopes t,
       ct_supported_ingresses t, ct_documented_features t, ct_documented_constraints t, ct_notes t] \<and>
     ct_config_precedence t \<noteq> [] \<and> ct_native_scopes t \<noteq> [] \<and> ct_supported_ingresses t \<noteq> [] \<and>
     (case ct_install_support t of
        Some s \<Rightarrow> clean (ci_preferred_scope s) \<and> clean (ci_preferred_config_path s) \<and> kind_ok (ci_kind s)
      | None \<Rightarrow> True)"

lemma clean_owned: "clean s \<Longrightarrow> trimmed_non_empty_owned (Some s) = Some s"
  by (simp add: clean_def trimmed_non_empty_owned_def)

lemma strings_from_clean: "list_all clean xs \<Longrightarrow> strings_from_array (as_array (json_strings xs)) = xs"
  by (induction xs) (auto simp: strings_from_array_def json_strings_def clean_def)

lemma shape_round_trip:
  "clean (js_servers_object_key s) \<Longrightarrow> clean (js_url_field s) \<Longrightarrow> shape_from_json (Some (shape_json s)) = Some s"
  by (simp add: shape_from_json_def shape_json_def string_field_def bool_field_def json_path clean_owned)

lemma kind_round_trip:
  assumes "kind_ok k" "map_of entries ''jsonServerShape'' = Some (case k of JsonMcpServers shape \<Rightarrow> shape_json shape | _ \<Rightarrow> JNull)"
  shows "from_kind_name (install_kind_str k) entries source = (Some k, [])"
  using assms by (cases k) (simp_all add: from_kind_name_def shape_round_trip kind_ok_def normalize_flag_def text_defs)

lemma kind_str_clean: "clean (install_kind_str k)"
  by (cases k) (simp_all add: clean_def text_defs)

lemma install_support_round_trip:
  assumes "clean (ci_preferred_scope s)" "clean (ci_preferred_config_path s)" "kind_ok (ci_kind s)"
  shows "install_support_from_json (install_support_json s) source = (Some s, [])"
proof -
  let ?shape = "case ci_kind s of JsonMcpServers shape \<Rightarrow> shape_json shape | _ \<Rightarrow> JNull"
  let ?es = "json_entries [(''kind'', JString (install_kind_str (ci_kind s))), (''preferredScope'', JString (ci_preferred_scope s)),
      (''preferredConfigPath'', JString (ci_preferred_config_path s)), (''jsonServerShape'', ?shape)]"
  have o: "as_object (install_support_json s) = Some ?es" by (simp add: install_support_json_def json_path)
  have f: "string_field ?es ''kind'' = Some (install_kind_str (ci_kind s))"
      "string_field ?es ''preferredScope'' = Some (ci_preferred_scope s)"
      "string_field ?es ''preferredConfigPath'' = Some (ci_preferred_config_path s)"
    using assms kind_str_clean by (simp_all add: string_field_def json_path clean_owned)
  have "from_kind_name (install_kind_str (ci_kind s)) ?es source = (Some (ci_kind s), [])"
    by (rule kind_round_trip [OF assms(3)]) (simp add: json_path)
  then show ?thesis by (simp add: install_support_from_json_def o f)
qed

text \<open>A catalogue file whose only target has no id is read without an error, and the warning about it is not kept.\<close>

lemma catalog_file_warning_lost:
  assumes "cc_read env path = Inr (JArray [JObject []])"
  shows "snd (parse_targets_from_array [JObject []] (''file:'' @ path)) \<noteq> [] \<and> merge_file env path acc = acc"
  using assms by (simp add: merge_file_def load_targets_from_file_def parse_targets_from_array_def collect_targets_def
      target_from_json_def string_field_def trimmed_non_empty_owned_def merge_targets_def map_filter_simps)

section \<open>Properties\<close>

text \<open>Whatever the configuration and the catalogue files hold, the registry has one target per normalised id, keeps a
  target under every built-in id, and a built-in target that is not there unchanged was replaced with a warning that
  names it.\<close>

lemma registry_complete:
  "let r = load_registry env root
   in distinct (map (\<lambda>t. normalize_flag (ct_id t)) (cr_targets r)) \<and>
      (\<forall>b \<in> set CLIENT_TARGETS. \<exists>t \<in> set (cr_targets r). normalize_flag (ct_id t) = ct_id b \<and>
         (t = b \<or> (\<exists>a. replaced_warning a b \<in> set (cr_warnings r))))"
proof -
  obtain acc sources paths where c: "config_catalog env root = (acc, sources, paths)" by (cases "config_catalog env root")
  obtain targets warnings where f: "fold (merge_file env) (paths @ unwrap_or (cc_search_path env) []) acc = (targets, warnings)"
    by fastforce
  have r: "cr_targets (load_registry env root) = map snd targets" "cr_warnings (load_registry env root) = sorted_unique warnings"
    using c f by (simp_all add: load_registry_def del: fold_append)
  have ok: "catalog_ok (targets, warnings)"
    using fold_keeps [where P = catalog_ok and f = "merge_file env", OF catalog_ok_file catalog_ok_config_catalog [OF c]] f by metis
  have "distinct (map fst targets)" using ok by (auto simp: catalog_ok_def intro: bt_ok_distinct)
  moreover have "map fst targets = map (\<lambda>e. normalize_flag (ct_id (snd e))) targets"
    using ok by (auto simp: catalog_ok_def)
  ultimately have "distinct (map (\<lambda>t. normalize_flag (ct_id t)) (map snd targets))" by (simp add: comp_def)
  moreover have "\<exists>t \<in> set (map snd targets). normalize_flag (ct_id t) = ct_id b \<and> (t = b \<or> (\<exists>a. replaced_warning a b \<in> set warnings))"
    if b: "b \<in> set CLIENT_TARGETS" for b
  proof -
    have "\<forall>b \<in> set CLIENT_TARGETS. \<exists>t. map_of targets (normalize_flag (ct_id b)) = Some t \<and>
        (t = b \<or> (\<exists>a. replaced_warning a b \<in> set warnings))" using ok by (simp add: catalog_ok_def)
    from bspec [OF this b] obtain t where t: "map_of targets (normalize_flag (ct_id b)) = Some t"
        "t = b \<or> (\<exists>a. replaced_warning a b \<in> set warnings)" by (elim exE conjE)
    then have "(normalize_flag (ct_id b), t) \<in> set targets" by (simp add: map_of_SomeD)
    then show ?thesis using ok t(2) builtin_ids(1) b by (force simp: catalog_ok_def)
  qed
  ultimately show ?thesis by (simp add: r Let_def sorted_unique_spec)
qed

text \<open>In the built-in catalogue a client id or alias, in any case and with any surrounding space, belongs to one target
  only; the two lookups of the program find the same target.\<close>

lemma builtin_lookup_unambiguous:
  "find_builtin ident = find_in_targets CLIENT_TARGETS ident \<and>
   (t \<in> set CLIENT_TARGETS \<and> target_answers ident t \<longrightarrow> find_in_targets CLIENT_TARGETS ident = Some t)"
proof -
  have "find_builtin ident = find_in_targets CLIENT_TARGETS ident"
    unfolding find_builtin_def find_in_targets_def
    by (rule find_cong) (use builtin_ids(1) in \<open>auto simp: target_answers_def\<close>)
  moreover have "find_in_targets CLIENT_TARGETS ident = Some t" if t: "t \<in> set CLIENT_TARGETS" "target_answers ident t"
  proof -
    obtain u where u: "find_in_targets CLIENT_TARGETS ident = Some u" "u \<in> set CLIENT_TARGETS" "target_answers ident u"
      using t by (cases "find_in_targets CLIENT_TARGETS ident")
        (auto simp: find_in_targets_def find_None_iff find_Some_iff in_set_conv_nth)
    then have "u = t" using distinct_concat_owner [OF builtin_names, of u t] t by (simp add: target_answers_names)
    then show ?thesis using u(1) by simp
  qed
  ultimately show ?thesis by blast
qed

text \<open>A target with trimmed texts that is printed and read back is the same target, with the source of the reader and
  without a warning.\<close>

lemma target_json_round_trip:
  assumes "target_ok t"
  shows "target_from_json (target_json t) fallback_id source = (Some (t\<lparr>ct_source := source\<rparr>), [])"
proof -
  obtain es where es: "as_object (target_json t) = Some es" "\<And>k. map_of es k = json_get (target_json t) k"
    by (simp add: target_json_def json_path)
  have i: "(case map_of es ''installSupport'' of Some v \<Rightarrow> install_support_from_json v source | None \<Rightarrow> (None, []))
      = (ct_install_support t, [])"
    using assms install_support_round_trip [of _ source]
    by (cases "ct_install_support t") (auto simp: es(2) target_json_def json_path target_ok_def install_support_from_json_def)
  have one: "string_field es k = Some v" if "json_get (target_json t) k = Some (JString v)" "clean v" for k v
    using that by (simp add: string_field_def es(2) clean_owned)
  have many: "array_field es k = vs" if "json_get (target_json t) k = Some (json_strings vs)" "list_all clean vs" for k vs
    using that by (simp add: array_field_def es(2) strings_from_clean)
  have field: "string_field es ''id'' = Some (ct_id t)" "string_field es ''familyId'' = Some (ct_family_id t)"
      "string_field es ''displayName'' = Some (ct_display_name t)" "string_field es ''maturity'' = Some (ct_maturity t)"
      "string_field es ''surfaceClass'' = Some (ct_surface_class t)" "string_field es ''surfaceKind'' = Some (ct_surface_kind t)"
      "string_field es ''proofTier'' = Some (ct_proof_tier t)" "string_field es ''configFormat'' = Some (ct_config_format t)"
    using assms by (auto simp: target_ok_def target_json_def json_path intro!: one)
  have lists: "array_field es ''aliases'' = ct_aliases t" "array_field es ''configPaths'' = ct_config_paths t"
      "array_field es ''configPrecedence'' = ct_config_precedence t" "array_field es ''nativeScopes'' = ct_native_scopes t"
      "array_field es ''supportedIngresses'' = ct_supported_ingresses t"
      "array_field es ''documentedFeatures'' = ct_documented_features t"
      "array_field es ''documentedConstraints'' = ct_documented_constraints t" "array_field es ''notes'' = ct_notes t"
    using assms by (auto simp: target_ok_def target_json_def json_path intro!: many)
  have "trimmed_non_empty_owned (Some (ct_id t)) = Some (ct_id t)" using assms by (simp add: target_ok_def clean_owned)
  then show ?thesis
    using assms by (simp add: target_from_json_def es(1) i field lists default_array_field_def target_ok_def)
qed

end
