(* ===== verification/Client_Plan.thy ===== *)
theory Client_Plan
  imports Client_Context Client_Catalog Server_Record Lease_Route
begin

text \<open>
  The routing plan of a client (\<^verbatim>\<open>src/client/plan.rs\<close>, \<^verbatim>\<open>src/client/model.rs\<close> and the JSON of
  \<^verbatim>\<open>src/client/render.rs\<close>): for each configured server the keys by which its processes and requests are shared or kept
  apart, and how many requests may run. The hub reads the JSON of the plan (theory \<open>Lease_Route\<close>). The digest of
  affinity values, the printed metadata and the operating system are arguments.
\<close>

section \<open>Data\<close>

record scope_resolution =
  sc_process_partition :: string
  sc_process_scope_key :: string
  sc_project_binding_key :: "string option"
  sc_worktree_binding_key :: "string option"
  sc_conflict_domain :: string
  sc_host_lock_key :: "string option"
  sc_state_profile_key :: "string option"
  sc_parallelism_limit :: nat
  sc_parallel_safety_class :: string
  sc_runtime_type :: string
  sc_state_class :: string
  sc_effect_class :: string
  sc_default_pool_model :: string
  sc_worker_pool_key :: string
  sc_max_workers :: nat
  sc_max_in_flight_per_worker :: nat
  sc_lock_domains :: "string list"
  sc_transport_status :: string
  sc_launcher_kind :: string
  sc_scheduler_lane :: string
  sc_startup_strategy :: string
  sc_session_affinity_key :: "string option"
  sc_affinity_resolved :: bool
  sc_affinity_fingerprint :: string
  sc_warnings :: "string list"

record request_strategy =
  rs_name :: string
  rs_mutex_key :: "string option"
  rs_scheduler_lane :: string
  rs_parallelism_limit :: nat
  rs_warnings :: "string list"

record server_coordination_plan =
  cs_name :: string
  cs_admission_state :: string
  cs_scope_class :: string
  cs_concurrency_policy :: string
  cs_upstream_transport :: string
  cs_process_partition :: string
  cs_process_scope_key :: string
  cs_project_binding_key :: "string option"
  cs_worktree_binding_key :: "string option"
  cs_conflict_domain :: string
  cs_host_lock_key :: "string option"
  cs_state_profile_key :: "string option"
  cs_parallelism_limit :: nat
  cs_parallel_safety_class :: string
  cs_runtime_type :: string
  cs_state_class :: string
  cs_effect_class :: string
  cs_default_pool_model :: string
  cs_worker_pool_key :: string
  cs_max_workers :: nat
  cs_max_in_flight_per_worker :: nat
  cs_execution :: execution_policy
  cs_lock_domains :: "string list"
  cs_transport_status :: string
  cs_launcher_kind :: string
  cs_scheduler_lane :: string
  cs_startup_strategy :: string
  cs_request_strategy :: string
  cs_request_mutex_key :: "string option"
  cs_session_affinity_key :: "string option"
  cs_affinity_resolved :: bool
  cs_affinity_fingerprint :: string
  cs_warnings :: "string list"

record client_plan =
  cp_root_path :: string
  cp_config_version :: "string option"
  cp_configured_client_key_name :: "string option"
  cp_client_target_id :: "string option"
  cp_client_target_family_id :: "string option"
  cp_client_target_maturity :: string
  cp_client_target_surface_class :: string
  cp_client_target_surface_kind :: string
  cp_client_target_documented_features :: "string list"
  cp_client_target_documented_constraints :: "string list"
  cp_entrypoint_mode :: string
  cp_launcher_command :: string
  cp_current_grouped_action :: string
  cp_preferred_ingress :: string
  cp_preferred_ingress_source :: string
  cp_supported_ingresses :: "string list"
  cp_hub_lifecycle_implemented :: bool
  cp_client_install_implemented :: bool
  cp_client_export_implemented :: bool
  cp_context :: resolved_context
  cp_session_binding_key :: string
  cp_requires_hub_owned_stdio :: bool
  cp_parallel_safe_servers :: nat
  cp_serialized_servers :: nat
  cp_exclusive_servers :: nat
  cp_warnings :: "string list"
  cp_servers :: "server_coordination_plan list"

record plan_env =
  pe_digest :: "string \<Rightarrow> 64 word"
  pe_compact :: "json \<Rightarrow> string"
  pe_os :: string

section \<open>The server's record\<close>

definition is_none_marker :: "string \<Rightarrow> bool" where
  "is_none_marker v \<longleftrightarrow> to_ascii_lowercase (trim v) \<in> {[], ''none'', ''false''}"

definition requires_project_binding :: "server_record \<Rightarrow> bool" where
  "requires_project_binding r \<longleftrightarrow>
     sr_scope_class r = ''project-local'' \<or> sr_concurrency_policy r = ''isolated-per-project'' \<or> sr_project_root_mode r = ''required''"

definition requires_worktree_binding :: "server_record \<Rightarrow> bool" where
  "requires_worktree_binding r \<longleftrightarrow>
     \<not> is_none_marker (sr_worktree_binding r) \<or>
     sr_state_binding r \<in> {''repo'', ''repo-path'', ''file'', ''file-path'', ''db'', ''db-file-path'', ''project'', ''project-index''}"

definition requires_host_lock :: "server_record \<Rightarrow> bool" where
  "requires_host_lock r \<longleftrightarrow>
     sr_scope_class r = ''shared-exclusive'' \<or> sr_state_binding r = ''host-desktop'' \<or> \<not> is_none_marker (sr_host_lock r)"

definition is_state_profiled :: "server_record \<Rightarrow> bool" where
  "is_state_profiled r \<longleftrightarrow>
     sr_routing_group r = ''stateful'' \<or> sr_routing_group r = ''interactive'' \<or> sr_state_binding r = ''host-session'' \<or>
     \<not> is_none_marker (sr_state_profile_mode r)"

definition admission_state :: "server_record \<Rightarrow> string" where
  "admission_state r =
     (if \<not> sr_platform_supported r then ''unsupported-platform''
      else if sr_source_enabled r \<and> sr_effective_enabled r then ''configured-source''
      else if sr_source_enabled r then ''disabled-by-policy''
      else if sr_required r then ''required-needs-source''
      else if sr_default_enabled r then ''default-needs-source''
      else ''optional-disabled'')"

definition server_is_not_routable :: "server_record \<Rightarrow> bool" where
  "server_is_not_routable r \<longleftrightarrow>
     \<not> sr_platform_supported r \<or> \<not> sr_effective_enabled r \<or> sr_startup_strategy r = ''disabled'' \<or>
     sr_routing_group r = ''disabled'' \<or> sr_routing_group r = ''sdk-or-example'' \<or> sr_concurrency_policy r = ''plan-only'' \<or>
     sr_scope_class r = ''not-runnable'' \<or> sr_max_workers r = 0"

definition server_record_is_routable :: "server_record \<Rightarrow> bool" where
  "server_record_is_routable r \<longleftrightarrow> \<not> server_is_not_routable r \<and> sr_transport_status r \<noteq> ''legacy-compat''"

definition resolve_upstream_transport :: "server_record \<Rightarrow> string" where
  "resolve_upstream_transport r =
     (if sr_source_type r = ''stdio'' \<or> contains (sr_kind r) ''stdio'' then ''stdio''
      else if sr_source_type r = ''sse-legacy'' \<or> sr_source_type r = ''sse'' then ''sse-legacy''
      else if sr_source_type r = ''http'' \<or> sr_source_type r = ''streamable-http'' \<or> sr_transport_preference r = ''http'' \<or>
        sr_transport_preference r = ''streamable-http'' \<or> contains (sr_kind r) ''http'' then ''streamable-http''
      else if list_ex (\<lambda>t. normalize_transport t = ''stdio'') (sr_supported_transports r) then ''stdio''
      else if list_ex (\<lambda>t. normalize_transport t = ''streamable-http'') (sr_supported_transports r) then ''streamable-http''
      else ''unspecified'')"

section \<open>Scope\<close>

definition resolve_project_binding_key :: "server_record \<Rightarrow> resolved_context \<Rightarrow> string \<times> string list" where
  "resolve_project_binding_key r c =
     (case rc_project_root c of
        Some root \<Rightarrow> (''project:'' @ sanitize_key root, [])
      | None \<Rightarrow> (''project:pending:'' @ sanitize_key (rc_session_lease_id c),
          [sr_name r @ '' requires a project root but no project root was resolved; routing should pause or isolate this server until a project is known.'']))"

definition optional_project_or_cwd_key :: "resolved_context \<Rightarrow> string" where
  "optional_project_or_cwd_key c =
     (case rc_project_root c of
        Some root \<Rightarrow> ''project:'' @ sanitize_key root
      | None \<Rightarrow> (case rc_cwd c of
                   Some cwd \<Rightarrow> ''cwd:'' @ sanitize_key cwd
                 | None \<Rightarrow> ''session:'' @ sanitize_key (rc_session_lease_id c)))"

definition state_session_partition :: "server_record \<Rightarrow> resolved_context \<Rightarrow> string" where
  "state_session_partition r c =
     (if sr_state_profile_mode r \<in> {''project'', ''project-shared''} then ''project-shared''
      else if sr_state_profile_mode r \<in> {''host'', ''global''} then ''host-shared''
      else sanitize_key (rc_session_lease_id c))"

definition affinity_metadata :: "resolved_context \<Rightarrow> json" where
  "affinity_metadata c =
     (let chat = or_else (rc_conversation_id c) (rc_session_id c)
      in json_object [(''mcpace'', json_object
           [(''applicationSessionId'', json_string_or_null chat), (''chatId'', json_string_or_null chat),
            (''clientInstanceId'', json_string_or_null (rc_client_instance_id c)),
            (''transportSessionId'', json_string_or_null (rc_transport_session_id c)),
            (''credentialId'', json_string_or_null (rc_credential_profile_id c))])])"

definition affinity_context :: "server_record \<Rightarrow> resolved_context \<Rightarrow> execution_affinity_context" where
  "affinity_context r c =
     \<lparr>ac_client_id = Some (rc_client_id c), ac_session_id = or_else (rc_conversation_id c) (rc_session_id c),
      ac_project_root = rc_project_root c, ac_transport = Some (resolve_upstream_transport r),
      ac_metadata = Some (affinity_metadata c)\<rparr>"

definition plan_affinity :: "plan_env \<Rightarrow> server_record \<Rightarrow> resolved_context \<Rightarrow> execution_policy_error + execution_affinity_key" where
  "plan_affinity env r c = affinity_key (pe_digest env) (pe_compact env) (sr_execution r) (affinity_context r c)"

fun mode_lane :: "execution_mode \<Rightarrow> string" where
  "mode_lane Disabled = ''disabled''"
| "mode_lane Shared = ''shared-capacity''"
| "mode_lane Serialized = ''serialized-fifo''"
| "mode_lane SessionIsolated = ''session-affinity-fifo''"
| "mode_lane ProjectIsolated = ''project-affinity-fifo''"
| "mode_lane Pool = ''worker-pool''"

definition or_text :: "string \<Rightarrow> string \<Rightarrow> string" where
  "or_text v fallback = (if trim v = [] then fallback else v)"

definition worker_pool_key :: "server_record \<Rightarrow> string \<Rightarrow> string" where
  "worker_pool_key r fingerprint =
     ''worker-group:'' @ sanitize_key (sr_name r) @ ''|mode:'' @ mode_str (ep_mode (sr_execution r)) @ ''|affinity:'' @ sanitize_key fingerprint"

definition resolve_scope :: "plan_env \<Rightarrow> server_record \<Rightarrow> resolved_context \<Rightarrow> scope_resolution" where
  "resolve_scope env r c =
     (let conflict_domain = or_text (sr_conflict_domain r) (sr_name r);
          (project_binding_key, w1) =
            (if requires_project_binding r then let (k, w) = resolve_project_binding_key r c in (Some k, w) else (None, []));
          (worktree_binding_key, w2) =
            (if requires_worktree_binding r
             then let (k, w) = (case project_binding_key of Some k \<Rightarrow> (k, []) | None \<Rightarrow> resolve_project_binding_key r c)
                  in (Some (''worktree:'' @ sanitize_key (sr_worktree_binding r) @ ''|'' @ k), w)
             else (None, []));
          state_profile_key =
            (if is_state_profiled r
             then Some (''state-profile:'' @ sanitize_key conflict_domain @ ''|''
                        @ unwrap_or project_binding_key (optional_project_or_cwd_key c)
                        @ ''|session:'' @ state_session_partition r c)
             else None);
          host_lock_key =
            (if requires_host_lock r
             then Some (''host-lock:'' @ sanitize_key conflict_domain @ ''|kind:''
                        @ sanitize_key (or_text (sr_host_lock r) ''host-session''))
             else None);
          upstream_transport = resolve_upstream_transport r;
          (affinity_resolved, fingerprint, w3) =
            (case plan_affinity env r c of
               Inr key \<Rightarrow> (True, ak_fingerprint key, [])
             | Inl e \<Rightarrow> (False, ''missing-affinity'',
                 [sr_name r @ '' cannot resolve its execution affinity: '' @ execution_policy_error_display e
                  @ ''. Routing is fail-closed until the client supplies the missing identity.'']));
          mode = mode_str (ep_mode (sr_execution r));
          process_partition = ''execution:'' @ mode @ ''|affinity:'' @ fingerprint
      in \<lparr>sc_process_partition = process_partition,
          sc_process_scope_key =
            ''server:'' @ sanitize_key (sr_name r) @ ''|kind:'' @ sanitize_key (or_text (sr_kind r) ''unknown'')
            @ ''|execution:'' @ mode @ ''|partition:'' @ sanitize_key process_partition,
          sc_project_binding_key = project_binding_key, sc_worktree_binding_key = worktree_binding_key,
          sc_conflict_domain = conflict_domain, sc_host_lock_key = host_lock_key, sc_state_profile_key = state_profile_key,
          sc_parallelism_limit = effective_capacity (sr_execution r) upstream_transport,
          sc_parallel_safety_class = sr_parallel_safety_class r, sc_runtime_type = sr_runtime_type r,
          sc_state_class = sr_state_class r, sc_effect_class = sr_effect_class r,
          sc_default_pool_model = sr_default_pool_model r, sc_worker_pool_key = worker_pool_key r fingerprint,
          sc_max_workers = worker_limit (sr_execution r),
          sc_max_in_flight_per_worker = effective_max_in_flight_per_worker (sr_execution r) upstream_transport,
          sc_lock_domains = sr_lock_domains r, sc_transport_status = sr_transport_status r,
          sc_launcher_kind = sr_launcher_kind r, sc_scheduler_lane = mode_lane (ep_mode (sr_execution r)),
          sc_startup_strategy = sr_startup_strategy r,
          sc_session_affinity_key =
            (if affinity_resolved \<and>
                list_ex (\<lambda>v. v \<in> {''chat'', ''session'', ''application'', ''transport-session''}) (ep_affinity (sr_execution r))
             then Some (''session-affinity:'' @ sanitize_key fingerprint) else None),
          sc_affinity_resolved = affinity_resolved, sc_affinity_fingerprint = fingerprint,
          sc_warnings = w1 @ w2 @ w3\<rparr>)"

section \<open>Request strategy\<close>

definition execution_mutex_key :: "server_record \<Rightarrow> scope_resolution \<Rightarrow> string" where
  "execution_mutex_key r scope =
     ''server:'' @ sanitize_key (sr_name r) @ ''|execution-mutex:'' @ sanitize_key (sc_worker_pool_key scope)"

definition resolve_request_strategy :: "server_record \<Rightarrow> scope_resolution \<Rightarrow> request_strategy" where
  "resolve_request_strategy r scope =
     (let blocked = (\<lambda>strategy lane w.
            \<lparr>rs_name = strategy, rs_mutex_key = None, rs_scheduler_lane = lane, rs_parallelism_limit = 0, rs_warnings = w\<rparr>);
          p0 = starts_with (sr_parallel_safety_class r) ''P0_'';
          capacity = sc_parallelism_limit scope;
          key = execution_mutex_key r scope;
          warnings = ep_warnings (sr_execution r) @
            (if ep_reuse_policy (sr_execution r) = ''never''
             then [sr_name r @ '' disables process reuse; startup cost and process churn will be paid for every call.''] else []);
          strategy = (\<lambda>strategy mutex lane limit w.
            \<lparr>rs_name = strategy, rs_mutex_key = mutex, rs_scheduler_lane = lane, rs_parallelism_limit = limit, rs_warnings = w\<rparr>)
      in if server_is_not_routable r \<or> is_disabled (sr_execution r)
         then blocked ''disabled-no-route'' ''disabled''
                [sr_name r @ '' is disabled or plan-only; MCPace must not route tool calls to it.'']
         else if sr_transport_status r = ''legacy-compat''
         then blocked ''legacy-compat-disabled'' ''legacy-disabled''
                [sr_name r @ '' uses legacy SSE compatibility; MCPace does not auto-route it without an explicit compatibility override.'']
         else if \<not> sc_affinity_resolved scope
         then blocked ''blocked-missing-affinity'' ''identity-required''
                [sr_name r @ '' requires execution affinity that is absent from the current client context.'']
         else case ep_mode (sr_execution r) of
                Disabled \<Rightarrow> blocked ''disabled-no-route'' ''disabled'' warnings
              | Serialized \<Rightarrow> strategy ''serialize-per-instance'' (Some key) ''serialized-fifo'' 1 warnings
              | SessionIsolated \<Rightarrow>
                  strategy ''serialize-per-session-instance'' (Some key) ''session-affinity-fifo'' (max capacity 1) warnings
              | ProjectIsolated \<Rightarrow>
                  strategy ''serialize-per-project-instance'' (Some key) ''project-affinity-fifo'' (max capacity 1) warnings
              | Shared \<Rightarrow>
                  if capacity \<le> 1 then strategy ''serialize-shared-worker'' (Some key) ''shared-capacity'' 1 warnings
                  else strategy ''parallel-safe'' None ''shared-capacity'' capacity warnings
              | Pool \<Rightarrow>
                  strategy (if p0 then ''bounded-worker-pool-pending-probe'' else ''bounded-worker-pool'') None ''worker-pool''
                    (max capacity 1)
                    (warnings @ (if p0 then [sr_name r @ '' has no positive parallel-safety evidence; MCPace keeps one in-flight call per isolated worker until probes justify a higher value.''] else [])))"

section \<open>The plan\<close>

definition build_server_plan :: "plan_env \<Rightarrow> server_record \<Rightarrow> resolved_context \<Rightarrow> server_coordination_plan" where
  "build_server_plan env r c =
     (let upstream_transport = resolve_upstream_transport r;
          scope = resolve_scope env r c;
          request = resolve_request_strategy r scope;
          warnings = sc_warnings scope @ rs_warnings request @
            (if sr_transport_status r = ''legacy-compat''
             then [sr_name r @ '' uses legacy SSE compatibility; MCPace treats it as disabled-for-auto-parallelism and prefers Streamable HTTP or stdio.''] else []) @
            (if starts_with (sr_parallel_safety_class r) ''P0_''
             then [sr_name r @ '' has no evidence-backed parallel profile yet; the adaptive scheduler should start conservative and raise concurrency only after safe probes/runtime evidence.''] else []) @
            (if \<not> supports_current_platform (pe_os env) (sr_platforms r)
             then [sr_name r @ '' is not declared for the current platform '' @ [CHR 0x27] @ pe_os env @ [CHR 0x27]
                   @ ''; installer/startup logic should skip it unless an override proves compatibility.''] else [])
      in \<lparr>cs_name = sr_name r, cs_admission_state = admission_state r, cs_scope_class = sr_scope_class r,
          cs_concurrency_policy = sr_concurrency_policy r, cs_upstream_transport = upstream_transport,
          cs_process_partition = sc_process_partition scope, cs_process_scope_key = sc_process_scope_key scope,
          cs_project_binding_key = sc_project_binding_key scope, cs_worktree_binding_key = sc_worktree_binding_key scope,
          cs_conflict_domain = sc_conflict_domain scope, cs_host_lock_key = sc_host_lock_key scope,
          cs_state_profile_key = sc_state_profile_key scope, cs_parallelism_limit = rs_parallelism_limit request,
          cs_parallel_safety_class = sr_parallel_safety_class r, cs_runtime_type = sr_runtime_type r,
          cs_state_class = sr_state_class r, cs_effect_class = sr_effect_class r,
          cs_default_pool_model = sr_default_pool_model r, cs_worker_pool_key = sc_worker_pool_key scope,
          cs_max_workers = worker_limit (sr_execution r),
          cs_max_in_flight_per_worker = effective_max_in_flight_per_worker (sr_execution r) upstream_transport,
          cs_execution = sr_execution r, cs_lock_domains = sr_lock_domains r, cs_transport_status = sr_transport_status r,
          cs_launcher_kind = sr_launcher_kind r, cs_scheduler_lane = rs_scheduler_lane request,
          cs_startup_strategy = sc_startup_strategy scope, cs_request_strategy = rs_name request,
          cs_request_mutex_key = rs_mutex_key request, cs_session_affinity_key = sc_session_affinity_key scope,
          cs_affinity_resolved = sc_affinity_resolved scope, cs_affinity_fingerprint = sc_affinity_fingerprint scope,
          cs_warnings = sorted_unique warnings\<rparr>)"

definition server_plan_is_routable :: "server_coordination_plan \<Rightarrow> bool" where
  "server_plan_is_routable p \<longleftrightarrow>
     0 < cs_parallelism_limit p \<and> cs_scheduler_lane p \<noteq> ''disabled'' \<and> cs_scheduler_lane p \<noteq> ''legacy-disabled'' \<and>
     cs_request_strategy p \<noteq> ''disabled-no-route'' \<and> cs_request_strategy p \<noteq> ''legacy-compat-disabled''"

definition target_warnings :: "client_target_record option \<Rightarrow> string \<Rightarrow> string list" where
  "target_warnings client_target preferred_ingress =
     (case client_target of
        None \<Rightarrow> [''Client id did not match a verified client target catalog entry; the plan falls back to generic MCP host assumptions.'']
      | Some t \<Rightarrow>
          let surface = ''Client surface '' @ [CHR 0x27] @ ct_id t @ [CHR 0x27]
          in (if \<not> supports_ingress t preferred_ingress
              then [''Client target '' @ [CHR 0x27] @ ct_id t @ [CHR 0x27] @ '' does not document '' @ [CHR 0x27] @ preferred_ingress @ [CHR 0x27]
                    @ '' as a native MCP ingress; the plan keeps the hub preference but export/install logic should not assume native support.''] else []) @
             (if has_constraint t ''tools-only''
              then [surface @ '' is documented as tools-only; resources and prompts should be treated as unavailable on this surface.''] else []) @
             (if has_constraint t ''public-http-only''
              then [surface @ '' only reaches public HTTP MCP servers; a future MCPace relay/public HTTP lane is required for this surface.''] else []) @
             (if has_constraint t ''no-remote-oauth''
              then [surface @ '' does not document remote OAuth MCP support; prefer PAT/header-based remote config or a different surface.''] else []) @
             (if has_constraint t ''tool-budget-100''
              then [surface @ '' has a documented enabled-tool budget of 100; install/export logic should budget tool exposure instead of enabling every tool by default.''] else []) @
             (if has_constraint t ''sse-deprecated''
              then [surface @ '' still documents SSE, but that transport is deprecated there; plan around stdio or Streamable HTTP instead.''] else []))"

definition hub_supported_ingresses :: "string list" where
  "hub_supported_ingresses = [''stdio'', ''streamable-http'']"

definition plan_ingresses :: "client_target_record option \<Rightarrow> string list" where
  "plan_ingresses client_target =
     (let supported = (case client_target of
            Some t \<Rightarrow> filter (\<lambda>v. v \<in> set hub_supported_ingresses) (ct_supported_ingresses t)
          | None \<Rightarrow> hub_supported_ingresses)
      in if supported = [] then hub_supported_ingresses else supported)"

text \<open>The counters of routed servers: with several requests at a time, one at a time, and bound to a session or project.\<close>

definition is_parallel_safe :: "server_coordination_plan \<Rightarrow> bool" where
  "is_parallel_safe p \<longleftrightarrow> ep_mode (cs_execution p) \<in> {Shared, Pool} \<and> 1 < cs_parallelism_limit p"

definition is_exclusive :: "server_coordination_plan \<Rightarrow> bool" where
  "is_exclusive p \<longleftrightarrow> ep_mode (cs_execution p) \<in> {SessionIsolated, ProjectIsolated}"

definition count_if :: "('a \<Rightarrow> bool) \<Rightarrow> 'a list \<Rightarrow> nat" where
  "count_if p xs = length (filter p xs)"

definition build_plan ::
  "plan_env \<Rightarrow> (string \<Rightarrow> string) \<Rightarrow> string \<Rightarrow> string option \<Rightarrow> string option \<Rightarrow> resolved_context \<Rightarrow> client_target_record option \<Rightarrow>
   server_record list \<Rightarrow> client_plan" where
  "build_plan env configured_mcp_url root_path config_version configured_client_key_name c client_target records =
     (let plans = map (\<lambda>r. build_server_plan env r c) records;
          routed = filter server_plan_is_routable plans;
          requires_hub_owned_stdio = list_ex (\<lambda>p. cs_upstream_transport p = ''stdio'') routed;
          warnings =
            rc_warnings c @ target_warnings client_target (rc_preferred_ingress c) @ concat (map cs_warnings plans) @
            (if rc_project_root c = None \<and>
                list_ex (\<lambda>r. server_record_is_routable r \<and>
                  (sr_scope_class r = ''project-local'' \<or> sr_concurrency_policy r = ''isolated-per-project'')) records
             then [''Project-local servers exist but no project root was resolved; the hub should avoid sharing those servers until a project is bound.''] else []) @
            (if rc_session_id c = None \<and>
                list_ex (\<lambda>r. server_record_is_routable r \<and> sr_concurrency_policy r = ''single-session'') records
             then [''At least one server is single-session and no external session id was resolved; the future hub must keep derived lease '' @ [CHR 0x27]
                   @ rc_session_lease_id c @ [CHR 0x27] @ '' sticky instead of collapsing traffic under one anonymous route.''] else []) @
            (if rc_preferred_ingress c = ''streamable-http''
             then [''Streamable HTTP is available through the one-port local MCPace server on '' @ configured_mcp_url root_path
                   @ ''; keep cloud/public relay expectations separate from this localhost lane.''] else []) @
            (if requires_hub_owned_stdio
             then [''At least one routed server uses stdio; the hub must own the child process and arbitrate access instead of letting unrelated clients write directly to the same stream.''] else []) @
            (case client_target of
               Some t \<Rightarrow> if has_constraint t ''public-http-only'' \<and> requires_hub_owned_stdio
                 then [''Client surface '' @ [CHR 0x27] @ ct_id t @ [CHR 0x27]
                       @ '' cannot consume MCPace as a local stdio launcher; expose MCPace through a public HTTP or relay lane before targeting this surface.'']
                 else []
             | None \<Rightarrow> [])
      in \<lparr>cp_root_path = root_path, cp_config_version = config_version, cp_configured_client_key_name = configured_client_key_name,
          cp_client_target_id = map_option ct_id client_target, cp_client_target_family_id = map_option ct_family_id client_target,
          cp_client_target_maturity = unwrap_or (map_option ct_maturity client_target) ''unknown'',
          cp_client_target_surface_class = unwrap_or (map_option ct_surface_class client_target) ''unknown'',
          cp_client_target_surface_kind = unwrap_or (map_option ct_surface_kind client_target) ''unknown'',
          cp_client_target_documented_features = unwrap_or (map_option ct_documented_features client_target) [],
          cp_client_target_documented_constraints = unwrap_or (map_option ct_documented_constraints client_target) [],
          cp_entrypoint_mode = ''single-local-hub'', cp_launcher_command = ''mcpace'', cp_current_grouped_action = ''client plan'',
          cp_preferred_ingress = rc_preferred_ingress c, cp_preferred_ingress_source = rc_preferred_ingress_source c,
          cp_supported_ingresses = plan_ingresses client_target, cp_hub_lifecycle_implemented = True,
          cp_client_install_implemented = (case client_target of Some t \<Rightarrow> supports_client_install t | None \<Rightarrow> False),
          cp_client_export_implemented = True, cp_context = c,
          cp_session_binding_key = ''client:'' @ sanitize_key (rc_client_id c) @ ''|session:'' @ sanitize_key (rc_session_lease_id c)
            @ ''|project:'' @ sanitize_key (unwrap_or (rc_project_root c) ''unresolved''),
          cp_requires_hub_owned_stdio = requires_hub_owned_stdio,
          cp_parallel_safe_servers = count_if is_parallel_safe routed,
          cp_serialized_servers = count_if (\<lambda>p. \<not> is_parallel_safe p) routed,
          cp_exclusive_servers = count_if is_exclusive routed,
          cp_warnings = sorted_unique warnings, cp_servers = plans\<rparr>)"

section \<open>JSON\<close>

definition server_plan_json :: "server_coordination_plan \<Rightarrow> json" where
  "server_plan_json p = json_object
     [(''name'', JString (cs_name p)), (''admissionState'', JString (cs_admission_state p)),
      (''scopeClass'', JString (cs_scope_class p)), (''concurrencyPolicy'', JString (cs_concurrency_policy p)),
      (''upstreamTransport'', JString (cs_upstream_transport p)), (''processPartition'', JString (cs_process_partition p)),
      (''processScopeKey'', JString (cs_process_scope_key p)),
      (''projectBindingKey'', json_string_or_null (cs_project_binding_key p)),
      (''worktreeBindingKey'', json_string_or_null (cs_worktree_binding_key p)),
      (''conflictDomain'', JString (cs_conflict_domain p)), (''hostLockKey'', json_string_or_null (cs_host_lock_key p)),
      (''stateProfileKey'', json_string_or_null (cs_state_profile_key p)),
      (''parallelismLimit'', json_number (cs_parallelism_limit p)),
      (''parallelSafetyClass'', JString (cs_parallel_safety_class p)), (''runtimeType'', JString (cs_runtime_type p)),
      (''stateClass'', JString (cs_state_class p)), (''effectClass'', JString (cs_effect_class p)),
      (''defaultPoolModel'', JString (cs_default_pool_model p)), (''workerPoolKey'', JString (cs_worker_pool_key p)),
      (''maxWorkers'', json_number (cs_max_workers p)),
      (''maxInFlightPerWorker'', json_number (cs_max_in_flight_per_worker p)),
      (''execution'', Execution_Policy.to_json_value (cs_execution p)), (''lockDomains'', json_strings (cs_lock_domains p)),
      (''transportStatus'', JString (cs_transport_status p)), (''launcherKind'', JString (cs_launcher_kind p)),
      (''schedulerLane'', JString (cs_scheduler_lane p)), (''startupStrategy'', JString (cs_startup_strategy p)),
      (''requestStrategy'', JString (cs_request_strategy p)),
      (''requestMutexKey'', json_string_or_null (cs_request_mutex_key p)),
      (''sessionAffinityKey'', json_string_or_null (cs_session_affinity_key p)),
      (''affinityResolved'', JBool (cs_affinity_resolved p)),
      (''affinityFingerprint'', JString (cs_affinity_fingerprint p)), (''warnings'', json_strings (cs_warnings p))]"

definition context_json :: "resolved_context \<Rightarrow> json" where
  "context_json c = json_object
     [(''clientId'', JString (rc_client_id c)), (''clientIdSource'', JString (rc_client_id_source c)),
      (''sessionId'', json_string_or_null (rc_session_id c)), (''sessionIdSource'', JString (rc_session_id_source c)),
      (''sessionLeaseId'', JString (rc_session_lease_id c)), (''sessionLeaseSource'', JString (rc_session_lease_source c)),
      (''conversationId'', json_string_or_null (rc_conversation_id c)),
      (''conversationIdSource'', JString (rc_conversation_id_source c)),
      (''clientInstanceId'', json_string_or_null (rc_client_instance_id c)),
      (''clientInstanceIdSource'', JString (rc_client_instance_id_source c)),
      (''transportSessionId'', json_string_or_null (rc_transport_session_id c)),
      (''transportSessionIdSource'', JString (rc_transport_session_id_source c)),
      (''credentialProfileId'', json_string_or_null (rc_credential_profile_id c)),
      (''credentialProfileIdSource'', JString (rc_credential_profile_id_source c)),
      (''projectRoot'', json_string_or_null (rc_project_root c)),
      (''projectRootSource'', JString (rc_project_root_source c)),
      (''workspaceRoots'', json_strings (rc_workspace_roots c)), (''cwd'', json_string_or_null (rc_cwd c)),
      (''cwdSource'', JString (rc_cwd_source c))]"

definition client_plan_json :: "client_plan \<Rightarrow> json" where
  "client_plan_json p = json_object
     [(''rootPath'', JString (cp_root_path p)), (''configVersion'', json_string_or_null (cp_config_version p)),
      (''configuredClientKeyName'', json_string_or_null (cp_configured_client_key_name p)),
      (''clientTargetId'', json_string_or_null (cp_client_target_id p)),
      (''clientTargetFamilyId'', json_string_or_null (cp_client_target_family_id p)),
      (''clientTargetMaturity'', JString (cp_client_target_maturity p)),
      (''clientTargetSurfaceClass'', JString (cp_client_target_surface_class p)),
      (''clientTargetSurfaceKind'', JString (cp_client_target_surface_kind p)),
      (''clientTargetDocumentedFeatures'', json_strings (cp_client_target_documented_features p)),
      (''clientTargetDocumentedConstraints'', json_strings (cp_client_target_documented_constraints p)),
      (''entrypointMode'', JString (cp_entrypoint_mode p)), (''launcherCommand'', JString (cp_launcher_command p)),
      (''currentGroupedAction'', JString (cp_current_grouped_action p)),
      (''preferredIngress'', JString (cp_preferred_ingress p)),
      (''preferredIngressSource'', JString (cp_preferred_ingress_source p)),
      (''supportedIngresses'', json_strings (cp_supported_ingresses p)),
      (''hubLifecycleImplemented'', JBool (cp_hub_lifecycle_implemented p)),
      (''clientInstallImplemented'', JBool (cp_client_install_implemented p)),
      (''clientExportImplemented'', JBool (cp_client_export_implemented p)),
      (''sessionBindingKey'', JString (cp_session_binding_key p)),
      (''requiresHubOwnedStdio'', JBool (cp_requires_hub_owned_stdio p)),
      (''parallelSafeServerCount'', json_number (cp_parallel_safe_servers p)),
      (''serializedServerCount'', json_number (cp_serialized_servers p)),
      (''exclusiveServerCount'', json_number (cp_exclusive_servers p)), (''context'', context_json (cp_context p)),
      (''warnings'', json_strings (cp_warnings p)), (''servers'', JArray (map server_plan_json (cp_servers p)))]"

section \<open>The runtime plan\<close>

definition prefer_local_http_when_supported ::
  "parsed_args \<Rightarrow> client_target_record \<Rightarrow> string \<Rightarrow> resolved_context \<Rightarrow> resolved_context" where
  "prefer_local_http_when_supported parsed target source c =
     (if pa_transport parsed = None \<and> \<not> has_constraint target ''public-http-only'' \<and> supports_ingress target ''streamable-http''
      then c\<lparr>rc_preferred_ingress := ''streamable-http'', rc_preferred_ingress_source := source\<rparr> else c)"

definition read_config_version :: "(string + json) option \<Rightarrow> string option" where
  "read_config_version config = (case config of Some (Inr v) \<Rightarrow> string_at_path v [''version''] | _ \<Rightarrow> None)"

definition read_client_key_name :: "(string + json) option \<Rightarrow> string option" where
  "read_client_key_name config =
     (case config of Some (Inr v) \<Rightarrow> map_option trim (string_at_path v [''client'', ''keyName'']) | _ \<Rightarrow> None)"

record runtime_plan_request =
  rp_client_id :: "string option"
  rp_session_id :: "string option"
  rp_project_root :: "string option"
  rp_transport :: "string option"
  rp_metadata_json :: "string option"

text \<open>What the plan is made from besides the request: the loaded servers, the client catalogue, the environment variables,
  the JSON parser and the address of the local server.\<close>

record plan_sources =
  ps_env :: plan_env
  ps_records :: "string + server_record list"
  ps_catalog :: catalog_env
  ps_var :: "string \<Rightarrow> string option"
  ps_parse :: "string \<Rightarrow> string + json"
  ps_mcp_url :: "string \<Rightarrow> string"

definition build_plan_struct :: "plan_sources \<Rightarrow> parsed_args \<Rightarrow> string \<Rightarrow> string + client_plan" where
  "build_plan_struct ps parsed root_path =
     (case ps_records ps of
        Inl e \<Rightarrow> Inl e
      | Inr records \<Rightarrow>
          let registry = load_registry (ps_catalog ps) (Some root_path)
          in case load_metadata (ps_var ps) (ps_parse ps) parsed of
               Inl e \<Rightarrow> Inl (client_metadata_error_display e)
             | Inr metadata \<Rightarrow>
                 let context = resolve_context (ps_var ps) parsed metadata;
                     client_target = find_in_targets (cr_targets registry) (rc_client_id context);
                     context = (case client_target of
                        Some target \<Rightarrow> prefer_local_http_when_supported parsed target ''serve-default'' context
                      | None \<Rightarrow> context);
                     config = cc_config (ps_catalog ps)
                 in Inr (build_plan (ps_env ps) (ps_mcp_url ps) root_path (read_config_version config)
                      (read_client_key_name config) context client_target records))"

definition runtime_plan_json :: "plan_sources \<Rightarrow> string \<Rightarrow> runtime_plan_request \<Rightarrow> string + json" where
  "runtime_plan_json ps root_path request =
     map_sum id client_plan_json (build_plan_struct ps
       \<lparr>pa_client_id = rp_client_id request, pa_session_id = rp_session_id request, pa_project_root = rp_project_root request,
        pa_transport = rp_transport request, pa_metadata_json = rp_metadata_json request\<rparr> root_path)"

end
