(* ===== verification/Client_Plan_Properties.thy ===== *)
theory Client_Plan_Properties
  imports Client_Plan
begin

text \<open>
  What the hub reads from a client's plan, which servers it can grant a lease for, and which requests share the keys of a
  plan.
\<close>

section \<open>The hub's view of a plan\<close>

definition route_of_plan :: "resolved_context \<Rightarrow> server_coordination_plan \<Rightarrow> planned_route" where
  "route_of_plan c p =
     \<lparr>r_server_name = cs_name p, r_admission_state = cs_admission_state p, r_request_strategy = cs_request_strategy p,
      r_request_mutex_key = cs_request_mutex_key p, r_session_affinity_key = cs_session_affinity_key p,
      r_process_scope_key = cs_process_scope_key p, r_process_partition = cs_process_partition p,
      r_project_binding_key = cs_project_binding_key p, r_worktree_binding_key = cs_worktree_binding_key p,
      r_conflict_domain = cs_conflict_domain p, r_host_lock_key = cs_host_lock_key p,
      r_state_profile_key = cs_state_profile_key p, r_scheduler_lane = cs_scheduler_lane p,
      r_startup_strategy = cs_startup_strategy p, r_upstream_transport = cs_upstream_transport p,
      r_parallelism_limit = cs_parallelism_limit p, r_warnings = cs_warnings p, r_client_id = rc_client_id c,
      r_session_lease_id = rc_session_lease_id c, r_session_id = rc_session_id c, r_project_root = rc_project_root c\<rparr>"

lemma optional_string_or_null: "json_get v k = Some (json_string_or_null s) \<Longrightarrow> optional_string v [k] = s"
  by (cases s) (simp_all add: optional_string_def)

lemma required_string_text: "json_get v k = Some (JString s) \<Longrightarrow> required_string v [k] = s"
  by (simp add: required_string_def optional_string_def)

lemma required_usize_number: "json_get v k = Some (json_number n) \<Longrightarrow> n < 2 ^ 63 \<Longrightarrow> required_usize v [k] = n"
  by (simp add: required_usize_def json_number_def parse_i64_show_nat)

lemma map_filter_map_some: "List.map_filter as_str (map JString xs) = xs"
  by (induction xs) (simp_all add: map_filter_simps)

lemma strings_at_strings: "json_get v k = Some (json_strings xs) \<Longrightarrow> strings_at v [k] = xs"
  by (simp add: strings_at_def array_at_path_def json_strings_def map_filter_map_some)

lemma find_map_image: "List.find p (map f xs) = map_option f (List.find (p \<circ> f) xs)"
  by (induction xs) auto

lemma lower_char_idem: "lower_char (lower_char c) = lower_char c"
  by (auto simp: lower_char_def is_upper_def code_def of_char_of)

lemma to_ascii_lowercase_idem [simp]: "to_ascii_lowercase (to_ascii_lowercase s) = to_ascii_lowercase s"
  by (simp add: to_ascii_lowercase_def lower_char_idem)

text \<open>The name by which the hub looks a server up in a plan.\<close>

definition same_server_name :: "string \<Rightarrow> server_coordination_plan \<Rightarrow> bool" where
  "same_server_name name p \<longleftrightarrow> to_ascii_lowercase (trim (cs_name p)) = to_ascii_lowercase (trim name)"

lemma find_server_plan_json:
  "find_server_plan (client_plan_json plan) name =
     map_option server_plan_json (List.find (same_server_name name) (cp_servers plan))"
proof -
  have "array_at_path (client_plan_json plan) [''servers''] = Some (map server_plan_json (cp_servers plan))"
    by (simp add: client_plan_json_def json_path)
  moreover have "string_at_path (server_plan_json p) [''name''] = Some (cs_name p)" for p
    by (simp add: server_plan_json_def json_path)
  ultimately show ?thesis by (simp add: find_server_plan_def find_map_image comp_def same_server_name_def [abs_def])
qed

lemma server_plan_read:
  assumes "cs_parallelism_limit p < 2 ^ 63"
  shows "required_string (server_plan_json p) [''name''] = cs_name p"
    "required_string (server_plan_json p) [''admissionState''] = cs_admission_state p"
    "required_string (server_plan_json p) [''requestStrategy''] = cs_request_strategy p"
    "optional_string (server_plan_json p) [''requestMutexKey''] = cs_request_mutex_key p"
    "optional_string (server_plan_json p) [''sessionAffinityKey''] = cs_session_affinity_key p"
    "required_string (server_plan_json p) [''processScopeKey''] = cs_process_scope_key p"
    "required_string (server_plan_json p) [''processPartition''] = cs_process_partition p"
    "optional_string (server_plan_json p) [''projectBindingKey''] = cs_project_binding_key p"
    "optional_string (server_plan_json p) [''worktreeBindingKey''] = cs_worktree_binding_key p"
    "required_string (server_plan_json p) [''conflictDomain''] = cs_conflict_domain p"
    "optional_string (server_plan_json p) [''hostLockKey''] = cs_host_lock_key p"
    "optional_string (server_plan_json p) [''stateProfileKey''] = cs_state_profile_key p"
    "required_string (server_plan_json p) [''schedulerLane''] = cs_scheduler_lane p"
    "required_string (server_plan_json p) [''startupStrategy''] = cs_startup_strategy p"
    "required_string (server_plan_json p) [''upstreamTransport''] = cs_upstream_transport p"
    "required_usize (server_plan_json p) [''parallelismLimit''] = cs_parallelism_limit p"
    "strings_at (server_plan_json p) [''warnings''] = cs_warnings p"
  by (rule required_string_text optional_string_or_null required_usize_number [OF _ assms] strings_at_strings,
      simp add: server_plan_json_def json_path)+

lemma context_read:
  "required_string (context_json c) [''clientId''] = rc_client_id c"
  "required_string (context_json c) [''sessionLeaseId''] = rc_session_lease_id c"
  "optional_string (context_json c) [''sessionId''] = rc_session_id c"
  "optional_string (context_json c) [''projectRoot''] = rc_project_root c"
  by (rule required_string_text optional_string_or_null, simp add: context_json_def json_path)+

lemma planned_route_json:
  assumes "\<forall>p \<in> set (cp_servers plan). cs_parallelism_limit p < 2 ^ 63"
  shows "planned_route_from_plan (client_plan_json plan) name =
    (case List.find (same_server_name name) (cp_servers plan) of
       None \<Rightarrow> Inl (''server '' @ quoted name @ '' was not found in the client routing plan'')
     | Some p \<Rightarrow> Inr (route_of_plan (cp_context plan) p))"
proof (cases "List.find (same_server_name name) (cp_servers plan)")
  case None
  then show ?thesis by (simp add: planned_route_from_plan_def find_server_plan_json)
next
  case (Some p)
  then have "p \<in> set (cp_servers plan)" by (metis find_Some_iff nth_mem)
  then have l: "cs_parallelism_limit p < 2 ^ 63" using assms by blast
  have "value_at_path (client_plan_json plan) [''context''] = Some (context_json (cp_context plan))"
    by (simp add: client_plan_json_def json_path)
  then show ?thesis
    using Some by (simp add: planned_route_from_plan_def find_server_plan_json server_plan_read [OF l] context_read route_of_plan_def)
qed

section \<open>Which servers can be routed\<close>

lemma contains_middle: "contains (a @ p @ b) p"
proof (induction a)
  case Nil
  show ?case by (cases "p @ b") (auto simp: starts_with_def, metis append_eq_conv_conj)
qed simp

lemma sorted_unique_mem [simp]: "x \<in> set (sorted_unique xs) \<longleftrightarrow> x \<in> set xs"
  by (simp add: sorted_unique_spec)

lemma unblocked_route:
  assumes "route_blockers route = []"
  shows "r_admission_state route = ''configured-source''" "r_request_strategy route \<noteq> ''disabled-no-route''"
    "r_request_strategy route \<noteq> ''legacy-compat-disabled''" "r_startup_strategy route \<noteq> ''disabled''"
    "0 < r_parallelism_limit route" "r_project_binding_key route = Some k \<Longrightarrow> \<not> starts_with k ''project:pending:''"
    "w \<in> set (r_warnings route) \<Longrightarrow> \<not> contains w ''not declared for the current platform''"
  using assms by (auto simp: route_blockers_def filter_empty_conv split: if_splits)

lemma strategy_cases:
  assumes "0 < rs_parallelism_limit (resolve_request_strategy r scope)"
  shows "\<not> server_is_not_routable r" "\<not> is_disabled (sr_execution r)" "sr_transport_status r \<noteq> ''legacy-compat''"
    "sc_affinity_resolved scope"
  using assms by (auto simp: resolve_request_strategy_def Let_def split: if_splits)

lemma strategy_limit:
  assumes "0 < rs_parallelism_limit (resolve_request_strategy r scope)"
  shows "rs_parallelism_limit (resolve_request_strategy r scope) \<le> max 1 (sc_parallelism_limit scope)"
  using strategy_cases [OF assms]
  by (auto simp: resolve_request_strategy_def Let_def is_disabled_def split: execution_mode.splits)

lemma strategy_mutex:
  assumes "0 < rs_parallelism_limit (resolve_request_strategy r scope)"
  shows "rs_mutex_key (resolve_request_strategy r scope) =
    (if ep_mode (sr_execution r) = Pool \<or> ep_mode (sr_execution r) = Shared \<and> 1 < sc_parallelism_limit scope
     then None else Some (execution_mutex_key r scope))"
  using strategy_cases [OF assms]
  by (auto simp: resolve_request_strategy_def Let_def is_disabled_def split: execution_mode.splits)

lemma build_server_plan_fields:
  "cs_parallelism_limit (build_server_plan env r c) = rs_parallelism_limit (resolve_request_strategy r (resolve_scope env r c))"
  "cs_request_mutex_key (build_server_plan env r c) = rs_mutex_key (resolve_request_strategy r (resolve_scope env r c))"
  "cs_request_strategy (build_server_plan env r c) = rs_name (resolve_request_strategy r (resolve_scope env r c))"
  "cs_scheduler_lane (build_server_plan env r c) = rs_scheduler_lane (resolve_request_strategy r (resolve_scope env r c))"
  "cs_admission_state (build_server_plan env r c) = admission_state r"
  "cs_name (build_server_plan env r c) = sr_name r"
  "cs_execution (build_server_plan env r c) = sr_execution r"
  "cs_process_scope_key (build_server_plan env r c) = sc_process_scope_key (resolve_scope env r c)"
  "cs_project_binding_key (build_server_plan env r c) = sc_project_binding_key (resolve_scope env r c)"
  "cs_affinity_resolved (build_server_plan env r c) = sc_affinity_resolved (resolve_scope env r c)"
  by (simp_all add: build_server_plan_def Let_def)

definition scope_fingerprint :: "plan_env \<Rightarrow> server_record \<Rightarrow> resolved_context \<Rightarrow> string" where
  "scope_fingerprint env r c = (case plan_affinity env r c of Inr k \<Rightarrow> ak_fingerprint k | Inl _ \<Rightarrow> ''missing-affinity'')"

lemma resolve_scope_fields:
  "sc_affinity_resolved (resolve_scope env r c) \<longleftrightarrow> (\<exists>k. plan_affinity env r c = Inr k)"
  "sc_parallelism_limit (resolve_scope env r c) = effective_capacity (sr_execution r) (resolve_upstream_transport r)"
  "sc_worker_pool_key (resolve_scope env r c) = worker_pool_key r (scope_fingerprint env r c)"
  "sc_process_scope_key (resolve_scope env r c) =
     ''server:'' @ sanitize_key (sr_name r) @ ''|kind:'' @ sanitize_key (or_text (sr_kind r) ''unknown'')
     @ ''|execution:'' @ mode_str (ep_mode (sr_execution r)) @ ''|partition:''
     @ sanitize_key (''execution:'' @ mode_str (ep_mode (sr_execution r)) @ ''|affinity:'' @ scope_fingerprint env r c)"
  "sc_project_binding_key (resolve_scope env r c) =
     (if requires_project_binding r then Some (fst (resolve_project_binding_key r c)) else None)"
  by (auto simp: resolve_scope_def scope_fingerprint_def Let_def split_beta split: sum.splits)

lemma plan_platform_warning:
  assumes "\<not> supports_current_platform (pe_os env) (sr_platforms r)"
  shows "\<exists>w \<in> set (cs_warnings (build_server_plan env r c)). contains w ''not declared for the current platform''"
proof -
  let ?w = "(sr_name r @ '' is '') @ ''not declared for the current platform'' @ ('' '' @ [CHR 0x27] @ pe_os env @ [CHR 0x27]
      @ ''; installer/startup logic should skip it unless an override proves compatibility.'')"
  have "?w \<in> set (cs_warnings (build_server_plan env r c))" using assms by (simp add: build_server_plan_def Let_def)
  then show ?thesis using contains_middle by blast
qed

section \<open>Which requests share a key\<close>

lemma collect_values_map:
  "collect_values value m ds = Inr vs \<Longrightarrow> vs = map (\<lambda>d. d @ ''='' @ the (value d)) ds \<and> (\<forall>d \<in> set ds. value d \<noteq> None)"
  by (induction ds arbitrary: vs) (auto split: option.splits sum.splits)

definition dimension_mark :: "plan_env \<Rightarrow> server_record \<Rightarrow> resolved_context \<Rightarrow> string \<Rightarrow> string" where
  "dimension_mark env r c d =
     fingerprint_text (pe_digest env) (the (dimension_value (pe_digest env) (pe_compact env) (affinity_context r c) d))"

lemma plan_fingerprint:
  assumes a: "list_all is_supported_affinity (ep_affinity (sr_execution r))" and k: "plan_affinity env r c = Inr k"
  shows "scope_fingerprint env r c = ''mode='' @ mode_str (ep_mode (sr_execution r)) @ ''|'' @
    (if ep_affinity (sr_execution r) = [] then ''affinity=global''
     else join ''|'' (map (\<lambda>d. d @ ''='' @ dimension_mark env r c d) (ep_affinity (sr_execution r))))"
proof -
  let ?p = "sr_execution r" and ?v = "dimension_value (pe_digest env) (pe_compact env) (affinity_context r c)"
  obtain vs where vs: "collect_values ?v (ep_mode ?p) (ep_affinity ?p) = Inr vs"
    using k by (auto simp: plan_affinity_def affinity_key_def split: sum.splits)
  note m = collect_values_map [OF vs]
  have "map (protect (pe_digest env)) vs = map (\<lambda>d. d @ ''='' @ dimension_mark env r c d) (ep_affinity ?p)"
    using m a protect_value by (simp add: dimension_mark_def list_all_iff)
  moreover have "vs = [] \<longleftrightarrow> ep_affinity ?p = []" using m by simp
  ultimately show ?thesis using k by (auto simp: scope_fingerprint_def plan_affinity_def affinity_key_def vs Let_def)
qed

lemma fingerprint_text_chars: "c \<in> set (fingerprint_text digest v) \<Longrightarrow> is_digit c \<or> is_lower c \<or> c = CHR ''-''"
  using hex_digits_set [of c 16 "unat (digest v)"] show_nat_digits [of "length v"]
  by (auto simp: fingerprint_text_def list_all_iff is_lower_def code_def)

definition plain_word :: "string \<Rightarrow> bool" where
  "plain_word s \<longleftrightarrow> list_all (\<lambda>c. is_digit c \<or> is_lower c \<or> c = CHR ''-'') s"

lemma plain_word_key: "plain_word s \<Longrightarrow> map key_subst s = s \<and> CHR ''_'' \<notin> set s \<and> path_neutral s"
proof -
  have "key_subst c = c \<and> c \<noteq> CHR ''_'' \<and> \<not> is_ws c \<and> c \<noteq> CHR 0x5C \<and> \<not> utf8_cont c"
    if "is_digit c \<or> is_lower c \<or> c = CHR ''-''" for c
    using that by (auto simp: key_subst_def safe_key_char_def utf8_cont_def text_defs)
  then show "plain_word s \<Longrightarrow> map key_subst s = s \<and> CHR ''_'' \<notin> set s \<and> path_neutral s"
    unfolding plain_word_def path_neutral_def by (induction s) auto
qed

lemma dimension_mark_plain: "plain_word (dimension_mark env r c d)"
  using fingerprint_text_chars by (auto simp: dimension_mark_def plain_word_def list_all_iff)

lemma mode_str_plain: "plain_word (mode_str m)"
  by (cases m) (simp_all add: plain_word_def text_defs)

lemma supported_plain: "is_supported_affinity d \<Longrightarrow> plain_word d"
  by (auto simp: is_supported_affinity_def plain_word_def text_defs)

lemma sep_subst [simp]: "key_subst (CHR ''='') = CHR ''_''" "key_subst (CHR ''|'') = CHR ''_''" "key_subst (CHR ''_'') = CHR ''_''"
  by (simp_all add: key_subst_def safe_key_char_def text_defs)

lemma sep_neutral [simp]: "path_neutral (CHR ''='' # s) = path_neutral s" "path_neutral (CHR ''|'' # s) = path_neutral s"
    "path_neutral []"
  by (simp_all add: path_neutral_def utf8_cont_def text_defs)

lemma join_Cons: "xs \<noteq> [] \<Longrightarrow> join sep (x # xs) = x @ sep @ join sep xs"
  by (cases xs) auto

text \<open>A joined list of dimensions and marks, after the substitution, is the list of its words separated by underscores.\<close>

lemma join_subst:
  assumes "\<forall>d \<in> set ds. plain_word d" "\<forall>d \<in> set ds. plain_word (f d)"
  shows "map key_subst (join ''|'' (map (\<lambda>d. d @ ''='' @ f d) ds)) = join ''_'' (concat (map (\<lambda>d. [d, f d]) ds)) \<and>
    path_neutral (join ''|'' (map (\<lambda>d. d @ ''='' @ f d) ds))"
  using assms
proof (induction ds)
  case (Cons d ds)
  note w = plain_word_key [of d] plain_word_key [of "f d"]
  show ?case
  proof (cases ds)
    case Nil
    then show ?thesis using Cons.prems w by simp
  next
    case (Cons e es)
    then show ?thesis using Cons.IH Cons.prems w by simp
  qed
qed simp

lemma fingerprint_sanitized:
  assumes a: "list_all is_supported_affinity (ep_affinity (sr_execution r))" and k: "plan_affinity env r c = Inr k"
    and ne: "ep_affinity (sr_execution r) \<noteq> []"
  shows "map key_subst (scope_fingerprint env r c) =
      join ''_'' ([''mode'', mode_str (ep_mode (sr_execution r))] @
        concat (map (\<lambda>d. [d, dimension_mark env r c d]) (ep_affinity (sr_execution r))))"
    and "path_neutral (scope_fingerprint env r c)"
proof -
  let ?A = "ep_affinity (sr_execution r)" and ?m = "mode_str (ep_mode (sr_execution r))"
  have w: "\<forall>d \<in> set ?A. plain_word d" "\<forall>d \<in> set ?A. plain_word (dimension_mark env r c d)"
    using a supported_plain dimension_mark_plain by (auto simp: list_all_iff)
  have f: "scope_fingerprint env r c = ''mode'' @ ''='' @ ?m @ ''|'' @ join ''|'' (map (\<lambda>d. d @ ''='' @ dimension_mark env r c d) ?A)"
    using plan_fingerprint [OF a k] ne by simp
  have mode: "plain_word ''mode''" by (simp add: plain_word_def text_defs)
  note j = join_subst [OF w] and m = plain_word_key [OF mode_str_plain, of "ep_mode (sr_execution r)"] plain_word_key [OF mode]
  show "path_neutral (scope_fingerprint env r c)" unfolding f path_neutral_append using j m by simp
  have "concat (map (\<lambda>d. [d, dimension_mark env r c d]) ?A) \<noteq> []" using ne by (cases ?A) auto
  then show "map key_subst (scope_fingerprint env r c) =
      join ''_'' ([''mode'', ?m] @ concat (map (\<lambda>d. [d, dimension_mark env r c d]) ?A))"
    unfolding f map_append using j m by (simp add: join_Cons)
qed

lemma mode_not_file: "\<not> starts_with (to_ascii_lowercase (''mode='' @ s)) ''file://''"
    "\<not> starts_with (to_ascii_lowercase (''worker-group:'' @ s)) ''file://''"
    "\<not> starts_with (to_ascii_lowercase (''execution:'' @ s)) ''file://''"
  by (simp_all add: text_defs)

lemma literal_neutral:
  "path_neutral ''worker-group:''" "path_neutral ''|mode:''" "path_neutral ''|affinity:''" "path_neutral ''execution:''"
  "path_neutral ''mode=''" "path_neutral ''affinity=global''"
  by (simp_all add: path_neutral_def utf8_cont_def text_defs)

lemma key_subst_sanitized: "map key_subst (sanitize_key v) = sanitize_key v"
  using sanitize_key_chars by (intro map_idI) (auto simp: key_subst_def)

lemma resolved_fingerprint_neutral:
  assumes "list_all is_supported_affinity (ep_affinity (sr_execution r))" "plan_affinity env r c = Inr k"
  shows "path_neutral (scope_fingerprint env r c)" "sanitize_key (scope_fingerprint env r c) = map key_subst (scope_fingerprint env r c)"
proof -
  show n: "path_neutral (scope_fingerprint env r c)"
  proof (cases "ep_affinity (sr_execution r) = []")
    case True
    then have "scope_fingerprint env r c = ''mode='' @ mode_str (ep_mode (sr_execution r)) @ ''|'' @ ''affinity=global''"
      using plan_fingerprint [OF assms] by simp
    then show ?thesis using plain_word_key [OF mode_str_plain, of "ep_mode (sr_execution r)"] literal_neutral(5,6)
      by (simp only: path_neutral_append) simp
  qed (rule fingerprint_sanitized(2) [OF assms])
  have "\<exists>s. scope_fingerprint env r c = ''mode='' @ s" using plan_fingerprint [OF assms] by blast
  then show "sanitize_key (scope_fingerprint env r c) = map key_subst (scope_fingerprint env r c)"
    using sanitize_key_plain [OF n] mode_not_file(1) by metis
qed

text \<open>Both the mutex key and the process key of a plan end in the sanitised fingerprint, after a text that depends on the
  server only.\<close>

lemma mutex_key_form:
  "\<exists>pre. \<forall>c. execution_mutex_key r (resolve_scope env r c) = pre @ sanitize_key (scope_fingerprint env r c)"
proof -
  let ?m = "mode_str (ep_mode (sr_execution r))"
  let ?pre = "''worker-group:'' @ sanitize_key (sr_name r) @ ''|mode:'' @ ?m @ ''|affinity:''"
  have n: "path_neutral (?pre @ sanitize_key s)" for s
    using plain_word_key [OF mode_str_plain, of "ep_mode (sr_execution r)"] literal_neutral by (simp only: path_neutral_append) simp
  have "sanitize_key (worker_pool_key r s) = map key_subst ?pre @ sanitize_key s" for s
    using sanitize_key_plain [OF n [of s]] mode_not_file(2) by (simp add: worker_pool_key_def key_subst_sanitized)
  then show ?thesis
    by (intro exI [of _ "''server:'' @ sanitize_key (sr_name r) @ ''|execution-mutex:'' @ map key_subst ?pre"])
      (simp add: execution_mutex_key_def resolve_scope_fields)
qed

lemma process_key_form:
  assumes a: "list_all is_supported_affinity (ep_affinity (sr_execution r))"
  shows "\<exists>pre. \<forall>c k. plan_affinity env r c = Inr k \<longrightarrow>
    sc_process_scope_key (resolve_scope env r c) = pre @ sanitize_key (scope_fingerprint env r c)"
proof -
  let ?m = "mode_str (ep_mode (sr_execution r))"
  let ?pre = "''execution:'' @ ?m @ ''|affinity:''"
  have "sanitize_key (?pre @ scope_fingerprint env r c) = map key_subst ?pre @ sanitize_key (scope_fingerprint env r c)"
    if k: "plan_affinity env r c = Inr k" for c k
  proof -
    have n: "path_neutral (?pre @ scope_fingerprint env r c)"
      using plain_word_key [OF mode_str_plain, of "ep_mode (sr_execution r)"] literal_neutral resolved_fingerprint_neutral [OF a k]
      by (simp only: path_neutral_append)
    show ?thesis using sanitize_key_plain [OF n] mode_not_file(3) resolved_fingerprint_neutral(2) [OF a k] by simp
  qed
  then show ?thesis
    by (intro exI [of _ "''server:'' @ sanitize_key (sr_name r) @ ''|kind:'' @ sanitize_key (or_text (sr_kind r) ''unknown'')
        @ ''|execution:'' @ ?m @ ''|partition:'' @ map key_subst ?pre"]) (simp add: resolve_scope_fields)
qed

lemma strategy_mutex_same:
  "rs_mutex_key (resolve_request_strategy r s1) = None \<longleftrightarrow> rs_mutex_key (resolve_request_strategy r s2) = None"
  "rs_mutex_key (resolve_request_strategy r s1) = Some k \<Longrightarrow> k = execution_mutex_key r s1"
  if "sc_affinity_resolved s1" "sc_affinity_resolved s2" "sc_parallelism_limit s1 = sc_parallelism_limit s2"
  using that by (auto simp: resolve_request_strategy_def Let_def split: execution_mode.splits if_splits)

lemma capacity_key_iff_fingerprint:
  assumes a: "list_all is_supported_affinity (ep_affinity (sr_execution r))"
    and k: "plan_affinity env r c1 = Inr k1" "plan_affinity env r c2 = Inr k2"
  shows "route_capacity_key (route_of_plan d1 (build_server_plan env r c1)) =
      route_capacity_key (route_of_plan d2 (build_server_plan env r c2)) \<longleftrightarrow>
    map key_subst (scope_fingerprint env r c1) = map key_subst (scope_fingerprint env r c2)"
proof -
  let ?s1 = "resolve_scope env r c1" and ?s2 = "resolve_scope env r c2"
  have s: "sc_affinity_resolved ?s1" "sc_affinity_resolved ?s2" "sc_parallelism_limit ?s1 = sc_parallelism_limit ?s2"
    using k by (simp_all add: resolve_scope_fields)
  obtain mp where mp: "\<forall>c. execution_mutex_key r (resolve_scope env r c) = mp @ sanitize_key (scope_fingerprint env r c)"
    using mutex_key_form by blast
  obtain pp where pp: "\<forall>c k. plan_affinity env r c = Inr k \<longrightarrow>
      sc_process_scope_key (resolve_scope env r c) = pp @ sanitize_key (scope_fingerprint env r c)"
    using process_key_form [OF a] by blast
  have key: "route_capacity_key (route_of_plan d (build_server_plan env r c)) =
      (case rs_mutex_key (resolve_request_strategy r (resolve_scope env r c)) of
         Some k \<Rightarrow> k | None \<Rightarrow> sc_process_scope_key (resolve_scope env r c))" for d c
    by (simp add: route_capacity_key_def route_of_plan_def build_server_plan_fields split: option.split)
  have f: "sanitize_key (scope_fingerprint env r c1) = map key_subst (scope_fingerprint env r c1)"
      "sanitize_key (scope_fingerprint env r c2) = map key_subst (scope_fingerprint env r c2)"
    using resolved_fingerprint_neutral(2) [OF a] k by simp_all
  show ?thesis
  proof (cases "rs_mutex_key (resolve_request_strategy r ?s1)")
    case None
    then have "rs_mutex_key (resolve_request_strategy r ?s2) = None" using strategy_mutex_same(1) [OF s] by simp
    then show ?thesis using None pp k f by (simp add: key)
  next
    case (Some m1)
    then obtain m2 where m2: "rs_mutex_key (resolve_request_strategy r ?s2) = Some m2"
      using strategy_mutex_same(1) [OF s, where r = r] by auto
    have "m1 = execution_mutex_key r ?s1" "m2 = execution_mutex_key r ?s2"
      using strategy_mutex_same(2) [OF s Some] strategy_mutex_same(2) [OF s(2,1) s(3) [symmetric] m2] by simp_all
    then show ?thesis using Some m2 mp f by (simp add: key)
  qed
qed

lemma fingerprint_iff_marks:
  assumes a: "list_all is_supported_affinity (ep_affinity (sr_execution r))"
    and k: "plan_affinity env r c1 = Inr k1" "plan_affinity env r c2 = Inr k2"
  shows "map key_subst (scope_fingerprint env r c1) = map key_subst (scope_fingerprint env r c2) \<longleftrightarrow>
    (\<forall>d \<in> set (ep_affinity (sr_execution r)). dimension_mark env r c1 d = dimension_mark env r c2 d)"
proof (cases "ep_affinity (sr_execution r) = []")
  case True
  then show ?thesis using plan_fingerprint [OF a k(1)] plan_fingerprint [OF a k(2)] by simp
next
  case ne: False
  let ?A = "ep_affinity (sr_execution r)"
  define ws where "ws c = [''mode'', mode_str (ep_mode (sr_execution r))] @ concat (map (\<lambda>d. [d, dimension_mark env r c d]) ?A)" for c
  have "\<forall>w \<in> set (ws c). CHR ''_'' \<notin> set w" for c
    using plain_word_key [OF mode_str_plain] plain_word_key [OF dimension_mark_plain] plain_word_key [OF supported_plain] a
    by (auto simp: ws_def list_all_iff)
  then have split: "split_char CHR ''_'' (join ''_'' (ws c)) = ws c" for c by (intro split_join) (simp add: ws_def)
  have "map key_subst (scope_fingerprint env r c1) = map key_subst (scope_fingerprint env r c2) \<longleftrightarrow> ws c1 = ws c2"
    using fingerprint_sanitized(1) [OF a k(1) ne] fingerprint_sanitized(1) [OF a k(2) ne] split
    unfolding ws_def [symmetric] by metis
  moreover have "concat (map (\<lambda>d. [d, f d]) ds) = concat (map (\<lambda>d. [d, g d]) ds) \<longleftrightarrow> (\<forall>d \<in> set ds. f d = g d)" for f g :: "string \<Rightarrow> string" and ds
    by (induction ds) auto
  ultimately show ?thesis by (simp add: ws_def)
qed

section \<open>An example\<close>

definition files_policy :: execution_policy where
  "files_policy = for_mode ProjectIsolated"

definition files_record :: server_record where
  "files_record =
     \<lparr>sr_name = ''files'', sr_kind = ''mcp-stdio'', sr_required = False, sr_default_enabled = False,
      sr_profile_enabled = False, sr_platform_supported = True, sr_effective_enabled = True, sr_auto_start = False,
      sr_transport_preference = [], sr_supported_transports = [], sr_platforms = [], sr_required_commands = [],
      sr_scope_class = ''project-local'', sr_concurrency_policy = ''isolated-per-project'', sr_state_binding = [],
      sr_credential_binding = [], sr_parallelism_limit = 1, sr_parallel_safety_class = ''P1_x'', sr_runtime_type = [],
      sr_state_class = [], sr_effect_class = [], sr_default_pool_model = [], sr_max_workers = 1,
      sr_max_in_flight_per_worker = 1, sr_execution = files_policy, sr_transport_status = [], sr_launcher_kind = [],
      sr_lock_domains = [], sr_profile_evidence = [], sr_conflict_domain = [], sr_project_root_mode = [],
      sr_worktree_binding = [], sr_state_profile_mode = [], sr_host_lock = [], sr_startup_strategy = ''lazy'',
      sr_routing_group = [], sr_discovery_requires_lease = False, sr_health_url = [], sr_source_enabled = True,
      sr_source_type = ''stdio'', sr_source_path = [], sr_source_command = [], sr_source_args = [],
      sr_source_env_names = [], sr_source_header_names = [], sr_source_url = [], sr_tool_policies = [],
      sr_installer_target = [], sr_installer_method = [], sr_installer_package = [], sr_installer_verify_command = []\<rparr>"

definition files_context :: resolved_context where
  "files_context =
     \<lparr>rc_client_id = ''codex'', rc_client_id_source = [], rc_session_id = Some ''s'', rc_session_id_source = [],
      rc_session_lease_id = ''external:s'', rc_session_lease_source = [], rc_conversation_id = None,
      rc_conversation_id_source = [], rc_client_instance_id = None, rc_client_instance_id_source = [],
      rc_transport_session_id = None, rc_transport_session_id_source = [], rc_credential_profile_id = None,
      rc_credential_profile_id_source = [], rc_project_root = Some ''/srv/a'', rc_project_root_source = [],
      rc_workspace_roots = [], rc_cwd = None, rc_cwd_source = [], rc_preferred_ingress = ''stdio'',
      rc_preferred_ingress_source = [], rc_warnings = []\<rparr>"

definition plain_env :: plan_env where
  "plain_env = \<lparr>pe_digest = stable_hash, pe_compact = (\<lambda>_. []), pe_os = ''linux''\<rparr>"

definition files_sources :: plan_sources where
  "files_sources =
     \<lparr>ps_env = plain_env, ps_records = Inr [files_record],
      ps_catalog = \<lparr>cc_config = None, cc_read = (\<lambda>_. Inl []), cc_home = None, cc_search_path = None\<rparr>,
      ps_var = (\<lambda>_. None), ps_parse = (\<lambda>_. Inl []), ps_mcp_url = (\<lambda>_. [])\<rparr>"

lemma files_policy_fields [simp]:
  "ep_mode files_policy = ProjectIsolated" "ep_affinity files_policy = [''project'']" "ep_warnings files_policy = []"
  "ep_reuse_policy files_policy = ''sticky-project''" "is_disabled files_policy = False" "policy_bounded files_policy"
  by (simp_all add: files_policy_def for_mode_def is_disabled_def policy_bounded_def allowed_reuse_def
      DEFAULT_MAX_QUEUE_DEPTH_def DEFAULT_IDLE_TTL_MS_def is_supported_affinity_def)

lemma files_record_fields [simp]:
  "sr_execution files_record = files_policy" "sr_name files_record = ''files''" "sr_transport_status files_record = []"
  "sr_parallel_safety_class files_record = ''P1_x''" "sr_platforms files_record = []"
  "server_is_not_routable files_record = False" "admission_state files_record = ''configured-source''"
  "requires_project_binding files_record = True" "requires_worktree_binding files_record = False"
  "sr_startup_strategy files_record = ''lazy''"
  by (simp_all add: files_record_def server_is_not_routable_def admission_state_def requires_project_binding_def
      requires_worktree_binding_def is_none_marker_def text_defs)

text \<open>A project-isolated server with nothing unusual about it has an open route in a context with a project.\<close>

definition plain_isolated :: "server_record \<Rightarrow> bool" where
  "plain_isolated r \<longleftrightarrow>
     ep_mode (sr_execution r) = ProjectIsolated \<and> ep_affinity (sr_execution r) = [''project''] \<and> ep_warnings (sr_execution r) = [] \<and>
     \<not> is_disabled (sr_execution r) \<and> ep_reuse_policy (sr_execution r) \<noteq> ''never'' \<and> sr_platforms r = [] \<and>
     sr_transport_status r \<noteq> ''legacy-compat'' \<and> \<not> starts_with (sr_parallel_safety_class r) ''P0_'' \<and>
     \<not> server_is_not_routable r \<and> admission_state r = ''configured-source'' \<and> requires_project_binding r \<and>
     \<not> requires_worktree_binding r"

lemma files_affinity:
  assumes "ep_mode (sr_execution r) = ProjectIsolated" "ep_affinity (sr_execution r) = [''project'']"
    and "rc_project_root c = Some ''/srv/a''"
  shows "\<exists>k. plan_affinity env r c = Inr k"
proof -
  have "trim ''/srv/a'' = ''/srv/a''" by code_simp
  then show ?thesis using assms
    by (simp add: plan_affinity_def affinity_key_def dimension_value_def affinity_context_def trimmed_def
        trimmed_non_empty_owned_def Let_def)
qed

lemma plain_isolated_route_open:
  assumes i: "plain_isolated r"
  shows "route_blockers (route_of_plan files_context (build_server_plan plain_env r files_context)) = []"
proof -
  have root: "rc_project_root files_context = Some ''/srv/a''" by (simp add: files_context_def)
  obtain k where k: "plan_affinity plain_env r files_context = Inr k"
    using files_affinity [of r] root i by (auto simp: plain_isolated_def)
  have b: "resolve_project_binding_key r files_context = (''project:'' @ sanitize_key ''/srv/a'', [])"
    using root by (simp add: resolve_project_binding_key_def)
  have scope: "sc_affinity_resolved (resolve_scope plain_env r files_context)"
      "sc_warnings (resolve_scope plain_env r files_context) = []"
      "sc_project_binding_key (resolve_scope plain_env r files_context) = Some (''project:'' @ sanitize_key ''/srv/a'')"
      "sc_startup_strategy (resolve_scope plain_env r files_context) = sr_startup_strategy r"
    using k b i by (simp_all add: resolve_scope_def Let_def plain_isolated_def)
  have strategy: "rs_name (resolve_request_strategy r (resolve_scope plain_env r files_context)) = ''serialize-per-project-instance''"
      "rs_scheduler_lane (resolve_request_strategy r (resolve_scope plain_env r files_context)) = ''project-affinity-fifo''"
      "0 < rs_parallelism_limit (resolve_request_strategy r (resolve_scope plain_env r files_context))"
      "rs_warnings (resolve_request_strategy r (resolve_scope plain_env r files_context)) = []"
    using scope(1) i by (simp_all add: resolve_request_strategy_def Let_def plain_isolated_def)
  have w: "cs_warnings (build_server_plan plain_env r files_context) = []"
    using scope strategy(4) i
    by (simp add: build_server_plan_def Let_def supports_current_platform_def sorted_unique_def plain_isolated_def)
  have lazy: "sr_startup_strategy r \<noteq> ''disabled''" "admission_state r = ''configured-source''"
    using i by (auto simp: plain_isolated_def server_is_not_routable_def)
  have "\<not> starts_with (''project:'' @ sanitize_key ''/srv/a'') ''project:pending:''"
    by (simp add: sanitize_key_def path_eval safe_key_char_def utf8_cont_def)
  then show ?thesis
    using scope strategy w lazy
    by (simp add: route_blockers_def route_of_plan_def build_server_plan_fields build_server_plan_def [THEN arg_cong, of cs_startup_strategy] Let_def sorted_unique_def)
qed

lemma files_route_open: "route_blockers (route_of_plan files_context (build_server_plan plain_env files_record files_context)) = []"
  by (rule plain_isolated_route_open) (simp add: plain_isolated_def starts_with_def)

lemma open_route_enabled:
  assumes "route_blockers (route_of_plan c (build_server_plan env r c)) = []"
  shows "sr_source_enabled r" "sr_effective_enabled r" "sr_platform_supported r"
  using unblocked_route(1) [OF assms]
  by (auto simp: route_of_plan_def build_server_plan_fields admission_state_def split: if_splits)

section \<open>Properties\<close>

definition bounded_records :: "server_record list \<Rightarrow> bool" where
  "bounded_records rs \<longleftrightarrow> list_all (\<lambda>r. policy_bounded (sr_execution r)) rs"

lemma plan_limit_bounded: "policy_bounded (sr_execution r) \<Longrightarrow> cs_parallelism_limit (build_server_plan env r c) \<le> 4096"
  using strategy_limit [of r "resolve_scope env r c"] bounded_capacity [of "sr_execution r" "resolve_upstream_transport r"]
  by (cases "rs_parallelism_limit (resolve_request_strategy r (resolve_scope env r c)) = 0")
    (simp_all add: build_server_plan_fields resolve_scope_fields)

text \<open>C19: the hub reads back the plan the client made. For a request planned from servers whose policies are within their
  limits, the route the hub extracts from the JSON plan is, field by field, the one of the first planned server whose name
  agrees up to case and surrounding space, under the context the request resolved to; a server that is not in the plan is
  an error.\<close>

theorem hub_reads_plan:
  assumes "build_plan_struct ps parsed root = Inr plan" "ps_records ps = Inr records" "bounded_records records"
  shows "planned_route_from_plan (client_plan_json plan) name =
    (case List.find (\<lambda>r. to_ascii_lowercase (trim (sr_name r)) = to_ascii_lowercase (trim name)) records of
       None \<Rightarrow> Inl (''server '' @ quoted name @ '' was not found in the client routing plan'')
     | Some r \<Rightarrow> Inr (route_of_plan (cp_context plan) (build_server_plan (ps_env ps) r (cp_context plan))))"
proof -
  have p: "cp_servers plan = map (\<lambda>r. build_server_plan (ps_env ps) r (cp_context plan)) records"
    using assms(1,2) by (auto simp: build_plan_struct_def build_plan_def Let_def split: sum.splits)
  have "cs_parallelism_limit (build_server_plan (ps_env ps) r (cp_context plan)) < 2 ^ 63" if "r \<in> set records" for r
    using plan_limit_bounded [of r "ps_env ps" "cp_context plan"] assms(3) that by (simp add: bounded_records_def list_all_iff)
  then have "\<forall>s \<in> set (cp_servers plan). cs_parallelism_limit s < 2 ^ 63" by (simp add: p)
  from planned_route_json [OF this, of name] show ?thesis
    by (simp add: p find_map_image comp_def same_server_name_def build_server_plan_fields split: option.splits)
qed

theorem hub_reads_plan_witness:
  "\<exists>plan. build_plan_struct files_sources no_flags ''/m'' = Inr plan \<and>
     planned_route_from_plan (client_plan_json plan) '' FILES '' =
       Inr (route_of_plan (cp_context plan) (build_server_plan plain_env files_record (cp_context plan)))"
proof -
  obtain plan where p: "build_plan_struct files_sources no_flags ''/m'' = Inr plan"
    by (simp add: build_plan_struct_def files_sources_def load_metadata_def no_flags_def trim_def trim_matches_def Let_def)
  have r: "ps_records files_sources = Inr [files_record]" "bounded_records [files_record]" "ps_env files_sources = plain_env"
    by (simp_all add: files_sources_def bounded_records_def)
  have "to_ascii_lowercase (trim ''files'') = to_ascii_lowercase (trim '' FILES '')" by code_simp
  then show ?thesis using hub_reads_plan [OF p r(1,2), of "'' FILES ''"] p r(3) by simp
qed

text \<open>C17: fail closed. The hub grants no lease on a planned route unless the server is supported on this platform, enabled in
  its source and by policy, neither disabled nor plan-only nor on the legacy transport, its affinity is resolved, and its
  project is known when it needs one; the route then has between 1 and 4096 requests at a time, and every mode but a pool
  and a shared server with capacity runs one request at a time under a mutex key.\<close>

theorem planned_route_fail_closed:
  assumes "route_blockers (route_of_plan c (build_server_plan env r c)) = []" "policy_bounded (sr_execution r)"
  shows "sr_platform_supported r \<and> supports_current_platform (pe_os env) (sr_platforms r) \<and>
    sr_source_enabled r \<and> sr_effective_enabled r \<and> server_record_is_routable r \<and> \<not> is_disabled (sr_execution r) \<and>
    (\<exists>k. plan_affinity env r c = Inr k) \<and> (requires_project_binding r \<longrightarrow> rc_project_root c \<noteq> None) \<and>
    cs_parallelism_limit (build_server_plan env r c) \<in> {1..4096} \<and>
    (cs_request_mutex_key (build_server_plan env r c) = None \<longrightarrow>
       ep_mode (sr_execution r) = Pool \<or>
       ep_mode (sr_execution r) = Shared \<and> 1 < effective_capacity (sr_execution r) (resolve_upstream_transport r))"
proof -
  note u = unblocked_route [OF assms(1)]
  let ?s = "resolve_scope env r c"
  have pos: "0 < rs_parallelism_limit (resolve_request_strategy r ?s)"
    using u(5) by (simp add: route_of_plan_def build_server_plan_fields)
  note sc = strategy_cases [OF pos]
  have adm: "admission_state r = ''configured-source''"
    using u(1) by (simp add: route_of_plan_def build_server_plan_fields)
  have plat: "supports_current_platform (pe_os env) (sr_platforms r)"
    using u(7) plan_platform_warning [of env r c] by (auto simp: route_of_plan_def)
  have proj: "rc_project_root c \<noteq> None" if "requires_project_binding r"
  proof
    assume none: "rc_project_root c = None"
    have "r_project_binding_key (route_of_plan c (build_server_plan env r c)) =
        Some (''project:pending:'' @ sanitize_key (rc_session_lease_id c))"
      using that none by (simp add: route_of_plan_def build_server_plan_fields resolve_scope_fields resolve_project_binding_key_def)
    from u(6) [OF this] show False by (simp add: starts_with_def)
  qed
  show ?thesis
    using adm plat proj sc strategy_mutex [OF pos] pos plan_limit_bounded [OF assms(2), of env c]
    by (auto simp: admission_state_def server_record_is_routable_def server_is_not_routable_def resolve_scope_fields
        build_server_plan_fields split: if_splits)
qed

theorem planned_route_fail_closed_witness:
  "sr_source_enabled files_record \<and> rc_project_root files_context \<noteq> None \<and>
   cs_request_mutex_key (build_server_plan plain_env files_record files_context) \<noteq> None"
  using planned_route_fail_closed [OF files_route_open] by auto

text \<open>C18: requests share a lease key exactly by affinity. For one server, two contexts whose affinity resolves get the same
  capacity key exactly when every dimension of the server's policy (project, session, client, ...) has a value of the same
  length and digest in both: the sanitising of keys confuses no two of them.\<close>

theorem lease_key_by_affinity:
  assumes "list_all is_supported_affinity (ep_affinity (sr_execution r))"
    and "plan_affinity env r c1 = Inr k1" "plan_affinity env r c2 = Inr k2"
  shows "route_capacity_key (route_of_plan c1 (build_server_plan env r c1)) =
      route_capacity_key (route_of_plan c2 (build_server_plan env r c2)) \<longleftrightarrow>
    (\<forall>d \<in> set (ep_affinity (sr_execution r)).
       let v = the (dimension_value (pe_digest env) (pe_compact env) (affinity_context r c1) d);
           w = the (dimension_value (pe_digest env) (pe_compact env) (affinity_context r c2) d)
       in length v = length w \<and> pe_digest env v = pe_digest env w)"
proof -
  have "fingerprint_text dg v = fingerprint_text dg w \<longleftrightarrow> length v = length w \<and> dg v = dg w" for dg v w
    by (rule iffI, erule fingerprint_text_eq) (simp add: fingerprint_text_def)
  then show ?thesis
    unfolding capacity_key_iff_fingerprint [OF assms] fingerprint_iff_marks [OF assms] by (simp add: dimension_mark_def Let_def)
qed

theorem lease_key_by_affinity_witness:
  "route_capacity_key (route_of_plan files_context (build_server_plan plain_env files_record files_context)) =
   route_capacity_key (route_of_plan (files_context\<lparr>rc_session_id := None\<rparr>)
     (build_server_plan plain_env files_record (files_context\<lparr>rc_session_id := None\<rparr>)))"
proof -
  let ?c = "files_context\<lparr>rc_session_id := None\<rparr>"
  have root: "rc_project_root files_context = Some ''/srv/a''" "rc_project_root ?c = Some ''/srv/a''"
    by (simp_all add: files_context_def)
  obtain k1 k2 where k: "plan_affinity plain_env files_record files_context = Inr k1" "plan_affinity plain_env files_record ?c = Inr k2"
    using files_affinity [OF _ _ root(1), of files_record] files_affinity [OF _ _ root(2), of files_record] by fastforce
  have a: "list_all is_supported_affinity (ep_affinity (sr_execution files_record))" by (simp add: is_supported_affinity_def)
  show ?thesis
    using lease_key_by_affinity [OF a k] root by (simp add: dimension_value_def affinity_context_def)
qed

end
