(* ===== verification/Server_Loader_Lemmas.thy ===== *)
theory Server_Loader_Lemmas
  imports Server_Loader Client_Plan_Properties
begin

text \<open>
  Facts about loaded records that the properties share: how the fields of a record come from its settings source and its
  declaration, where a loaded record comes from, and that its policy is within the limits of the hub.
\<close>

section \<open>Records\<close>

lemma generic_record_fields:
  fixes n s d
  defines "r \<equiv> generic_source_server_record n s d"
  shows "sr_source_enabled r = ss_enabled s" "sr_platform_supported r" "sr_effective_enabled r \<Longrightarrow> ss_enabled s"
    "policy_bounded (sr_execution r)"
  by (simp_all add: r_def generic_source_server_record_def Let_def resolved_bounded)

lemma inferred_source_enabled: "ss_enabled (inferred_source_record name v source) = (case source of None \<Rightarrow> False | Some s \<Rightarrow> ss_enabled s)"
  by (cases source) (simp_all add: inferred_source_record_def no_source_def Let_def)

text \<open>The profile lets a declared server run when it is required, chosen by the profile, or enabled by default.\<close>

definition profile_allows :: "json \<Rightarrow> bool option \<Rightarrow> bool" where
  "profile_allows v override \<longleftrightarrow>
     bool_member v ''required'' = Some True \<or> unwrap_or override (bool_member v ''defaultEnabled'' = Some True)"

lemma unwrap_or_False: "unwrap_or x False \<longleftrightarrow> x = Some True"
  by (cases x) auto

lemma normalize_server_record_None: "normalize_server_record os name v source d override = None \<longleftrightarrow> as_object v = None"
  by (simp add: normalize_server_record_def Let_def)

lemma declared_record_the:
  assumes "normalize_server_record os name v source d override = Some r"
  shows "r = the (normalize_server_record os name v source d override)" "(as_object v = None) = False"
  using assms normalize_server_record_None [of os name v source d override] by auto

lemma declared_record_fields:
  assumes "normalize_server_record os name v source d override = Some r"
  shows "sr_name r = name" "policy_bounded (sr_execution r)" "sr_profile_enabled r = profile_allows v override"
    "sr_platform_supported r = supports_current_platform os (strings_from_array (Option.bind (json_get v ''platforms'') as_array))"
    "sr_source_enabled r = (case source of None \<Rightarrow> False | Some s \<Rightarrow> ss_enabled s)"
  unfolding declared_record_the(1) [OF assms] normalize_server_record_def Let_def declared_record_the(2) [OF assms] if_False option.sel
  by (simp_all add: resolved_bounded profile_allows_def unwrap_or_False inferred_source_enabled)

lemma declared_record_parts:
  fixes source os name v d override
  defines "q \<equiv> inferred_source_record name v source"
  defines "pm \<equiv> Option.bind (json_get v ''policy'') as_object"
  defines "g \<equiv> declared_policy pm (infer_generic_source_policy q (ss_source_type q))"
  defines "a \<equiv> source_signal_args (ss_args q) (ss_profile_hints q)"
  defines "tp \<equiv> unwrap_or (Option.bind (json_get v ''toolPolicies'') as_array) []"
  assumes "normalize_server_record os name v source d override = Some r"
  shows "sr_scope_class r = gs_scope_class g" "sr_concurrency_policy r = gs_concurrency_policy g"
    "sr_state_binding r = gs_state_binding g" "sr_worktree_binding r = gs_worktree_binding g"
    "sr_project_root_mode r = gs_project_root_mode g" "sr_startup_strategy r = gs_startup_strategy g"
    "sr_routing_group r = gs_routing_group g" "sr_source_type r = ss_source_type q"
    "sr_transport_status r = transport_status_for_source_type (ss_source_type q)"
    "sr_platforms r = strings_from_array (Option.bind (json_get v ''platforms'') as_array)"
    "sr_parallel_safety_class r = infer_parallel_safety_class (ss_source_type q) (gs_scope_class g) (gs_concurrency_policy g)
       (gs_state_binding g) (gs_credential_binding g) (ss_command q) (ss_url q) a tp"
    "sr_execution r = resolve_with_canonical (Some (to_config_json_value d)) (or_else (json_get v ''policy'') (ss_policy q))
       (or_else (json_get v ''execution'') (ss_execution q))
       (inferred_mode (gs_scope_class g) (gs_concurrency_policy g) (gs_state_binding g) (sr_state_class r))"
    "sr_max_workers r = worker_limit (sr_execution r)"
    "sr_effective_enabled r \<longleftrightarrow> sr_profile_enabled r \<and> sr_source_enabled r \<and> sr_platform_supported r \<and>
       \<not> is_disabled (sr_execution r) \<and>
       \<not> runtime_policy_disabled (gs_scope_class g) (gs_concurrency_policy g) (gs_startup_strategy g) (gs_routing_group g)
           (worker_limit (sr_execution r))"
    "sr_state_class r = policy_token pm ''stateClass'' (rl_state_class (infer_runtime_classification (ss_source_type q)
       (gs_scope_class g) (gs_concurrency_policy g) (gs_state_binding g) (gs_credential_binding g) (ss_command q) (ss_url q) a tp))"
  unfolding q_def pm_def g_def a_def tp_def declared_record_the(1) [OF assms(6)] normalize_server_record_def Let_def
    declared_record_the(2) [OF assms(6)] if_False option.sel
  by (simp_all only: server_record.select_convs conj_ac)

lemma declared_record_enabled:
  assumes "normalize_server_record os name v source d override = Some r" "sr_effective_enabled r"
  shows "sr_profile_enabled r" "sr_platform_supported r" "sr_source_enabled r"
  using declared_record_parts(14) [OF assms(1)] assms(2) by simp_all

section \<open>The settings\<close>

lemma settings_entry:
  assumes "load_source_settings (Inr entries) = Inr settings"
  shows "bt_ok settings" "fst ` set settings = me_normalized_name ` set entries"
    "(n, s) \<in> set settings \<Longrightarrow> \<exists>e \<in> set entries. me_normalized_name e = n \<and> s = source_settings_record e"
proof -
  let ?f = "fold (\<lambda>e m. bt_insert (me_normalized_name e) (source_settings_record e) m)"
  have s: "settings = ?f entries []" using assms by (simp add: load_source_settings_def)
  have "bt_ok m \<Longrightarrow> bt_ok (?f es m) \<and> fst ` set (?f es m) = fst ` set m \<union> me_normalized_name ` set es \<and>
      (\<forall>x \<in> set (?f es m). x \<in> set m \<or> (\<exists>e \<in> set es. x = (me_normalized_name e, source_settings_record e)))" for es m
  proof (induction es arbitrary: m)
    case (Cons e es)
    let ?m = "bt_insert (me_normalized_name e) (source_settings_record e) m"
    have ok: "bt_ok ?m" using Cons.prems by simp
    show ?case using Cons.IH [OF ok] set_bt_insert [OF Cons.prems] by (auto simp: fst_set_bt_insert)
  qed auto
  from this [of "[]" entries] show "bt_ok settings" "fst ` set settings = me_normalized_name ` set entries"
    "(n, s) \<in> set settings \<Longrightarrow> \<exists>e \<in> set entries. me_normalized_name e = n \<and> s = source_settings_record e"
    by (auto simp: s)
qed

definition declared_servers :: "json \<Rightarrow> json_map" where
  "declared_servers config = unwrap_or (object_at_path config [''servers'']) []"

lemma load_server_records_Inr:
  assumes "load_server_records os root config registry profile = Inr records"
  obtains v entries overrides settings where "config = Inr v" "registry = Inr entries" "profile = Inr overrides"
    "load_source_settings (Inr entries) = Inr settings"
    "records = sort_key (\<lambda>r. to_ascii_lowercase (sr_name r))
       (declared_records os settings (from_config_root v) overrides (declared_servers v) @
        undeclared_records settings (from_config_root v) (declared_servers v))"
  using assms
  by (auto simp: load_server_records_def declared_servers_def load_source_settings_def Let_def split: sum.splits)

lemma in_map_filter: "y \<in> set (List.map_filter f xs) \<longleftrightarrow> (\<exists>x \<in> set xs. f x = Some y)"
  by (force simp: map_filter_def)

lemma declared_record_cases:
  assumes "r \<in> set (declared_records os settings d overrides servers)"
  obtains name v where "(name, v) \<in> set servers" "normalize_server_name name \<noteq> []"
    "normalize_server_record os name v (map_of settings (normalize_server_name name)) d
       (map_of overrides (normalize_server_name name)) = Some r"
  using assms by (auto simp: declared_records_def in_map_filter Let_def split: if_splits)

lemma undeclared_record_cases:
  assumes "r \<in> set (undeclared_records settings d servers)"
  obtains n s where "(n, s) \<in> set settings" "n \<notin> set (declared_names servers)" "r = generic_source_server_record n s d"
  using assms by (auto simp: undeclared_records_def)

lemma loaded_policies_bounded:
  assumes "load_server_records os root config registry profile = Inr records"
  shows "bounded_records records"
proof -
  have "policy_bounded (sr_execution r)" if "r \<in> set (declared_records os s d o' sv)" for r s d o' sv
    using that declared_record_fields(2) by (metis declared_record_cases)
  moreover have "policy_bounded (sr_execution r)" if "r \<in> set (undeclared_records s d sv)" for r s d sv
    using that generic_record_fields(4) by (metis undeclared_record_cases)
  ultimately show ?thesis
    using assms by (auto simp: bounded_records_def list_all_iff elim!: load_server_records_Inr)
qed

section \<open>What is inferred\<close>

lemma normalize_policy_mode: "ep_mode (normalize_policy p) \<in> {ep_mode p, Disabled}"
  by (simp add: normalize_policy_def Let_def policy_fields normalize_affinity_def)

lemma resolve_inferred_mode: "ep_mode (resolve_with_canonical d None None f) \<in> {f, Disabled}"
proof -
  have "ep_mode (normalize_policy (p\<lparr>ep_mode := f, ep_source := x\<rparr>)) \<in> {f, Disabled}" for p x
    using normalize_policy_mode [of "p\<lparr>ep_mode := f, ep_source := x\<rparr>"] by simp
  then show ?thesis by (simp add: resolve_with_canonical_def mode_at_def Let_def)
qed

definition concurrency_policies :: "string list" where
  "concurrency_policies = [''plan-only'', ''single-session'', ''multi-reader'', ''single-writer'', ''isolated-per-project'']"

lemma inferred_concurrency: "gs_concurrency_policy (policy_for_signals s remote) \<in> set concurrency_policies"
  by (simp add: policy_for_signals_def local_policy_def service_policy_def concurrency_policies_def)

lemma concurrency_tokens: "c \<in> set concurrency_policies \<Longrightarrow> normalize_token c = c"
proof -
  have "list_all (\<lambda>c. normalize_token c = c) concurrency_policies" by code_simp
  then show "c \<in> set concurrency_policies \<Longrightarrow> normalize_token c = c" by (simp add: list_all_iff)
qed

definition stateful_signals :: "string list" where
  "stateful_signals = [''sdk-or-example'', ''remote-browser-session'', ''browser-or-desktop'', ''shell-or-process'',
     ''memory-or-context'', ''git-repository'', ''database'', ''filesystem'', ''browser-observation'']"

definition mutating_signals :: "string list" where
  "mutating_signals = [''mutable-tools'', ''cloud-admin'', ''identity-admin'', ''cluster-control'', ''secrets-manager'',
     ''payments-financial'', ''blockchain-wallet'']"

lemma multi_reader_signals:
  assumes "gs_concurrency_policy (policy_for_signals s remote) = ''multi-reader''" "''browser-observation'' \<notin> set s"
  shows "\<not> remote" "\<not> any_signal s stateful_signals" "any_signal s mutating_signals \<Longrightarrow> ''transport-gateway'' \<in> set s"
  using assms
  by (auto simp: policy_for_signals_def local_policy_def service_policy_def any_signal_def stateful_signals_def mutating_signals_def
      split: if_splits)

lemma generic_record_mode:
  fixes n s d
  defines "t \<equiv> infer_public_source_type (ss_source_type s) (ss_command s) (ss_url s)"
  defines "a \<equiv> source_signal_args (ss_args s) (ss_profile_hints s)"
  defines "g \<equiv> policy_for_signals (source_signals (ss_command s) (ss_url s) a) (is_remote t (ss_url s))"
  defines "cls \<equiv> infer_runtime_classification t (gs_scope_class g) (gs_concurrency_policy g) (gs_state_binding g)
    (gs_credential_binding g) (ss_command s) (ss_url s) a []"
  shows "sr_execution (generic_source_server_record n s d) =
    resolve_with_canonical (Some (to_config_json_value d)) (ss_policy s) (ss_execution s)
      (inferred_mode (gs_scope_class g) (gs_concurrency_policy g) (gs_state_binding g) (rl_state_class cls))"
    "sr_parallel_safety_class (generic_source_server_record n s d) =
       infer_parallel_safety_class t (gs_scope_class g) (gs_concurrency_policy g) (gs_state_binding g)
    (gs_credential_binding g) (ss_command s) (ss_url s) a []"
  unfolding t_def a_def g_def cls_def generic_source_server_record_def Let_def infer_generic_source_policy_def
  by (simp_all only: server_record.select_convs)

lemma shared_mode_cases:
  assumes "inferred_mode scope conc bind stat = Shared"
  shows "normalize_token conc = ''multi-reader''" "normalize_token stat \<in> {''stateless'', ''credential-stateful'', ''remote-session-stateful''}"
  using assms by (auto simp: inferred_mode_def Let_def split: if_splits)

lemma host_class_tokens:
  "normalize_token ''host-stateful'' = ''host-stateful''" "normalize_token ''legacy-transport'' = ''legacy-transport''"
  "normalize_token ''not-a-server'' = ''not-a-server''" 
  by code_simp+

lemma observation_class:
  assumes "''browser-observation'' \<in> set (source_signals command url args)" "''remote-browser-session'' \<notin> set (source_signals command url args)"
  shows "rl_state_class (infer_runtime_classification t scope conc bind cred command url args tp) \<in>
     {''legacy-transport'', ''not-a-server'', ''host-stateful''}"
  using assms by (simp add: infer_runtime_classification_def Let_def rt_class_def)

end
