(* ===== verification/Server_Loader_Example.thy ===== *)
theory Server_Loader_Example
  imports Server_Loader_Lemmas
begin

text \<open>
  A configuration with one declared server, loaded: the record it gives, and the open route the planner makes of it.
\<close>

definition sample_declaration :: json where
  "sample_declaration = json_object [(''required'', JBool True),
     (''policy'', json_object [(''scopeClass'', JString ''project-local''), (''concurrencyPolicy'', JString ''isolated-per-project'')])]"

definition sample_config :: json where
  "sample_config = json_object [(''servers'', json_object [(''files'', sample_declaration)])]"

definition sample_entry :: mcp_server_entry where
  "sample_entry = \<lparr>me_name = ''files'', me_normalized_name = ''files'', me_value = json_object [(''command'', JString ''files'')],
     me_source = ''mcp_settings.json''\<rparr>"

lemma sample_defaults_unnormalised: "from_config_root sample_config = normalize_policy ((for_mode Serialized)\<lparr>ep_source := ''inferred-policy''\<rparr>)"
  by (simp add: from_config_root_def sample_config_def resolve_def resolve_with_canonical_def mode_at_def json_object_def Let_def set_if_def for_mode_def)

lemma affinity_tokens:
  "normalize_affinity_token ''project'' = ''project''" "normalize_affinity_token ''client'' = ''client''" "normalize_affinity_token ''chat'' = ''chat''"
  "is_supported_affinity ''project''" "is_supported_affinity ''client''" "is_supported_affinity ''chat''"
  by code_simp+

lemma preset_normal:
  assumes "m \<noteq> SessionIsolated"
  shows "normalize_policy ((for_mode m)\<lparr>ep_source := x\<rparr>) = (for_mode m)\<lparr>ep_source := x\<rparr>"
  using assms
  by (cases m) (simp_all add: normalize_policy_def normalize_affinity_def for_mode_def Let_def clamp_limits_def clamp_with_warning_def single_process_def required_affinity_def check_reuse_def allowed_reuse_def DEFAULT_MAX_QUEUE_DEPTH_def DEFAULT_IDLE_TTL_MS_def policy_limits sorted_unique_def has_affinity_def affinity_tokens)

lemma sample_defaults: "from_config_root sample_config = (for_mode Serialized)\<lparr>ep_source := ''inferred-policy''\<rparr>"
  by (simp add: sample_defaults_unnormalised preset_normal)

lemma mode_at_None [simp]: "mode_at None = None" by (simp add: mode_at_def)

lemma for_mode_mode: "(for_mode m)\<lparr>ep_mode := m, ep_source := x\<rparr> = (for_mode m)\<lparr>ep_source := x\<rparr>"
  by (cases m) (simp_all add: for_mode_def)

lemma sample_settings: "load_source_settings (Inr [sample_entry]) = Inr [(''files'', source_settings_record sample_entry)]"
  by (simp add: load_source_settings_def sample_entry_def)

lemma sample_source: "source_settings_record sample_entry = \<lparr>ss_name = ''files'', ss_enabled = True, ss_source_type = ''stdio'', ss_command = ''files'', ss_url = [], ss_args = [], ss_env_names = [], ss_header_names = [], ss_source_path = ''mcp_settings.json'', ss_profile_hints = [], ss_execution = None, ss_policy = None\<rparr>"
  by code_simp

lemma sample_inferred_source: "inferred_source_record ''files'' sample_declaration (Some (source_settings_record sample_entry)) = source_settings_record sample_entry"
  by code_simp

lemma sample_signals: "source_signals ''files'' [] [] = [''unknown-side-effects'']" "source_signal_args [] [] = []" by code_simp+

lemma sample_inferred_policy: "infer_generic_source_policy (source_settings_record sample_entry) ''stdio'' = local_policy [''unknown-side-effects'']"
   by (simp add: infer_generic_source_policy_def sample_source sample_signals policy_for_signals_def is_remote_def text_defs)

lemma sample_member: "json_get sample_declaration k = map_of [(''required'', JBool True), (''policy'', json_object [(''scopeClass'', JString ''project-local''), (''concurrencyPolicy'', JString ''isolated-per-project'')])] k"
  by (simp add: sample_declaration_def json_object_def)

lemma sample_is_object: "as_object sample_declaration \<noteq> None" by (simp add: sample_declaration_def json_object_def)

lemma sample_name: "normalize_server_name ''files'' = ''files''" by code_simp

definition sample_record :: server_record where
  "sample_record = the (normalize_server_record ''linux'' ''files'' sample_declaration (Some (source_settings_record sample_entry))
     (from_config_root sample_config) None)"

lemma sample_normalized: "normalize_server_record ''linux'' ''files'' sample_declaration (Some (source_settings_record sample_entry))
     (from_config_root sample_config) None = Some sample_record"
  using normalize_server_record_None [of "''linux''" "''files''" sample_declaration "Some (source_settings_record sample_entry)" "from_config_root sample_config" None]
  by (auto simp: sample_record_def sample_declaration_def json_object_def)

lemma sample_policy: "declared_policy (as_object (json_object [(''scopeClass'', JString ''project-local''), (''concurrencyPolicy'', JString ''isolated-per-project'')])) (local_policy [''unknown-side-effects'']) =
   (local_policy [''unknown-side-effects''])\<lparr>gs_scope_class := ''project-local'', gs_concurrency_policy := ''isolated-per-project''\<rparr>"
  by code_simp

lemma unknown_source_policy: "local_policy [''unknown-side-effects''] = \<lparr>gs_scope_class = ''configured-source'', gs_concurrency_policy = ''single-writer'', gs_state_binding = ''runtime-source'',
        gs_credential_binding = ''source-config'', gs_parallelism_limit = 1, gs_conflict_domain_prefix = ''settings-source'',
        gs_project_root_mode = ''optional'', gs_worktree_binding = ''none'', gs_state_profile_mode = ''none'', gs_host_lock = ''none'',
        gs_startup_strategy = ''lazy-shared'', gs_routing_group = ''unknown-source'', gs_discovery_requires_lease = True\<rparr>"
  by code_simp

definition sample_execution :: execution_policy where
  "sample_execution = resolve_with_canonical (Some (to_config_json_value (from_config_root sample_config))) (json_get sample_declaration ''policy'') None ProjectIsolated"

lemma sample_execution_eq: "sample_execution = (for_mode ProjectIsolated)\<lparr>ep_source := ''server.policy''\<rparr>"
proof -
  let ?d = "to_config_json_value (from_config_root sample_config)"
  let ?pol = "json_object [(''scopeClass'', JString ''project-local''), (''concurrencyPolicy'', JString ''isolated-per-project'')]"
  have c: "json_get sample_declaration ''policy'' = Some ?pol"
    by (simp add: sample_declaration_def json_object_def)
  have nd: "\<not> canonical_policy_disabled ?pol" by code_simp
  have vs: "value_at_path ?pol [''maxWorkers''] = None" "value_at_path ?pol [''parallelismLimit''] = None"
    "value_at_path ?pol [''maxInFlightPerWorker''] = None" by code_simp+
  have m: "mode_at (Some ?d) = Some Serialized" unfolding sample_defaults
    by (simp add: mode_at_def to_config_json_value_def json_object_def for_mode_def) code_simp
  have g: "apply_global_limits ?d (for_mode ProjectIsolated) = for_mode ProjectIsolated" unfolding sample_defaults
    by (simp add: apply_global_limits_def to_config_json_value_def json_object_def for_mode_def positive_def non_negative_def
        json_number_def set_if_def)
  show ?thesis
    using c m g nd vs by (simp add: sample_execution_def resolve_with_canonical_def Let_def set_if_def apply_canonical_json_def non_negative_def for_mode_mode preset_normal)
qed

lemma project_local_mode: "inferred_mode ''project-local'' ''isolated-per-project'' x y = ProjectIsolated"
  by (simp add: inferred_mode_def Let_def) code_simp

lemma sample_fields:
  "sr_execution sample_record = sample_execution" "sr_platforms sample_record = []" "sr_transport_status sample_record = ''stable''"
  "sr_parallel_safety_class sample_record = ''P3_project_safe''"
    "sr_startup_strategy sample_record = ''lazy-shared''" "sr_routing_group sample_record = ''unknown-source''"
    "sr_concurrency_policy sample_record = ''isolated-per-project''" "sr_scope_class sample_record = ''project-local''"
     "sr_max_workers sample_record = 1" "sr_worktree_binding sample_record = ''none''" "sr_state_binding sample_record = ''runtime-source''"
     "sr_platform_supported sample_record"  "sr_source_enabled sample_record" "sr_effective_enabled sample_record" 
proof -
  have g: "declared_policy (Option.bind (json_get sample_declaration ''policy'') as_object)
      (infer_generic_source_policy (source_settings_record sample_entry) (ss_source_type (source_settings_record sample_entry))) =
      (local_policy [''unknown-side-effects''])\<lparr>gs_scope_class := ''project-local'', gs_concurrency_policy := ''isolated-per-project''\<rparr>"
    using sample_inferred_policy sample_policy by (simp add: sample_member sample_source)
  note f = declared_record_parts [OF sample_normalized, unfolded sample_inferred_source g] declared_record_fields(3-5) [OF sample_normalized]
  show e: "sr_execution sample_record = sample_execution"
     using f(12) by (simp add: sample_source sample_member or_else_def project_local_mode unknown_source_policy sample_execution_def)
  show pl: "sr_platforms sample_record = []" using f(10) by (simp add: sample_member strings_from_array_def)
  show "sr_transport_status sample_record = ''stable''" using f(9) by (simp add: sample_source transport_status_for_source_type_def is_legacy_sse_def)
  show "sr_parallel_safety_class sample_record = ''P3_project_safe''"
    using f(11) by (simp add: sample_source sample_member unknown_source_policy sample_signals infer_parallel_safety_class_def is_legacy_sse_def any_signal_def)
  show st: "sr_startup_strategy sample_record = ''lazy-shared''" "sr_routing_group sample_record = ''unknown-source''"
    "sr_concurrency_policy sample_record = ''isolated-per-project''" "sr_scope_class sample_record = ''project-local''"
    "sr_worktree_binding sample_record = ''none''" "sr_state_binding sample_record = ''runtime-source''" using f(1-7) by (simp_all add: unknown_source_policy)
  show mw: "sr_max_workers sample_record = 1" using f(13) by (simp add: e sample_execution_eq worker_limit_def for_mode_def)
  show ps: "sr_platform_supported sample_record"  "sr_source_enabled sample_record"
    using f(17,18) by (simp_all add: sample_member sample_source strings_from_array_def supports_current_platform_def)
  have w: "\<not> runtime_policy_disabled ''project-local'' ''isolated-per-project'' ''lazy-shared'' ''unknown-source'' 1"
    unfolding runtime_policy_disabled_def by code_simp
  show "sr_effective_enabled sample_record"
    using f(14,16) ps w mw f(13)  by (simp add: unknown_source_policy e sample_execution_eq is_disabled_def for_mode_def sample_member profile_allows_def bool_member_def)
qed

lemma sample_plain: "plain_isolated sample_record"
  by (simp add: plain_isolated_def sample_fields sample_execution_eq for_mode_def is_disabled_def starts_with_def
      server_is_not_routable_def admission_state_def requires_project_binding_def requires_worktree_binding_def is_none_marker_def
      text_defs)

lemma sample_loaded:
  "load_server_records ''linux'' ''/m'' (Inr sample_config) (Inr [sample_entry]) (Inr []) = Inr [sample_record]"
proof -
  have o: "object_at_path sample_config [''servers''] = Some [(''files'', sample_declaration)]"
    by (simp add: sample_config_def json_object_def json_path)
  have n: "declared_names [(''files'', sample_declaration)] = [''files'']" by (simp add: declared_names_def sample_name)
  show ?thesis
    using sample_normalized
    by (simp add: load_server_records_def sample_settings o declared_records_def undeclared_records_def n sample_name Let_def
        map_filter_def)
qed

section \<open>A clock\<close>

text \<open>A server nobody declared, whose signals say that it only reads: it is shared.\<close>

lemma resolve_preset:
  assumes "m \<noteq> SessionIsolated" "m \<noteq> k"
  shows "resolve_with_canonical (Some (to_config_json_value ((for_mode k)\<lparr>ep_source := x\<rparr>))) None None m =
    (for_mode m)\<lparr>ep_source := ''inferred-policy''\<rparr>"
proof -
  let ?d = "to_config_json_value ((for_mode k)\<lparr>ep_source := x\<rparr>)"
  have "list_all (\<lambda>k. parse_mode (mode_str k) = Inr k) [Shared, Serialized, SessionIsolated, ProjectIsolated, Pool, Disabled]"
    by code_simp
  then have k: "parse_mode (mode_str k) = Inr k" by (cases k) (simp_all add: list_all_iff)
  have m: "mode_at (Some ?d) = Some k"
    using k by (cases k) (simp_all add: mode_at_def to_config_json_value_def json_object_def for_mode_def)
  have g: "apply_global_limits ?d (for_mode m) = for_mode m"
    by (cases k; cases m) (simp_all add: apply_global_limits_def to_config_json_value_def json_object_def for_mode_def positive_def non_negative_def
        json_number_def set_if_def)
  show ?thesis using m g assms by (simp add: resolve_with_canonical_def Let_def set_if_def for_mode_mode preset_normal)
qed

definition clock_source :: source_server_record where
  "clock_source = no_source\<lparr>ss_name := ''time'', ss_enabled := True, ss_source_type := ''stdio'', ss_command := ''uvx'',
     ss_args := [''mcp-server-time'']\<rparr>"

lemma clock_signals:
  "source_signal_args [''mcp-server-time''] [] = [''mcp-server-time'']"
  "source_signals ''uvx'' [] [''mcp-server-time''] = [''local-utility'', ''readonly-tools'']" by code_simp+

lemma clock_policy: "policy_for_signals [''local-utility'', ''readonly-tools''] False = \<lparr>gs_scope_class = ''stateless-local'', gs_concurrency_policy = ''multi-reader'', gs_state_binding = ''none'',
        gs_credential_binding = ''none'', gs_parallelism_limit = 4, gs_conflict_domain_prefix = ''stateless-local'',
        gs_project_root_mode = ''none'', gs_worktree_binding = ''none'', gs_state_profile_mode = ''none'', gs_host_lock = ''none'',
        gs_startup_strategy = ''lazy-shared'', gs_routing_group = ''stateless-local'', gs_discovery_requires_lease = False\<rparr>" by code_simp

lemma clock_type: "infer_public_source_type ''stdio'' ''uvx'' [] = ''stdio''" by code_simp

lemma clock_class: "rl_state_class (infer_runtime_classification ''stdio'' ''stateless-local'' ''multi-reader'' ''none'' ''none'' ''uvx'' [] [''mcp-server-time''] []) = ''stateless''"
  unfolding infer_runtime_classification_def clock_signals(2) by code_simp

lemma clock_mode: "inferred_mode ''stateless-local'' ''multi-reader'' ''none'' ''stateless'' = Shared" by code_simp

lemma clock_shared:
  "ep_mode (sr_execution (generic_source_server_record ''time'' clock_source (from_config_root sample_config))) = Shared"
proof -
  have f: "ss_command clock_source = ''uvx''" "ss_url clock_source = []" "ss_args clock_source = [''mcp-server-time'']"
    "ss_profile_hints clock_source = []" "ss_source_type clock_source = ''stdio''" "ss_policy clock_source = None"
    "ss_execution clock_source = None" by (simp_all add: clock_source_def no_source_def)
  have r: "\<not> is_remote ''stdio'' []" by (simp add: is_remote_def text_defs)
  show ?thesis
    using resolve_preset [of Shared Serialized] by (simp add: generic_record_mode f clock_type clock_signals r clock_policy
        clock_class clock_mode sample_defaults) (simp add: for_mode_def)
qed

section \<open>Servers disabled by default\<close>

text \<open>Under defaults that disable servers, the upstream runtime refuses a declared server without a policy, while the
  inventory infers a mode for it and keeps it enabled.\<close>

definition bare_declaration :: json where
  "bare_declaration = json_object [(''required'', JBool True)]"

definition disabled_defaults :: execution_policy where
  "disabled_defaults = (for_mode Disabled)\<lparr>ep_source := ''executionDefaults''\<rparr>"

lemma default_disabled_split:
  assumes "normalize_server_record ''linux'' ''files'' bare_declaration (Some (source_settings_record sample_entry))
    disabled_defaults None = Some r"
  shows "sr_effective_enabled r"
    "disabled_reason_of env sample_entry (Some (server_policy env [] disabled_defaults ''files'' bare_declaration)) \<noteq> None"
proof -
  have m: "json_get bare_declaration k = map_of [(''required'', JBool True)] k" for k
    by (simp add: bare_declaration_def json_object_def)
  have q: "inferred_source_record ''files'' bare_declaration (Some (source_settings_record sample_entry)) =
      source_settings_record sample_entry" by code_simp
  have tok: "normalize_flag ''configured-source'' = ''configured-source''" "normalize_flag ''single-writer'' = ''single-writer''"
    "normalize_flag ''lazy-shared'' = ''lazy-shared''" "normalize_flag ''unknown-source'' = ''unknown-source''" by code_simp+
  have g: "declared_policy (Option.bind (json_get bare_declaration ''policy'') as_object)
      (infer_generic_source_policy (source_settings_record sample_entry) (ss_source_type (source_settings_record sample_entry))) =
      local_policy [''unknown-side-effects'']"
    using sample_inferred_policy
    by (simp add: m sample_source declared_policy_def policy_token_def policy_string_def policy_usize_def policy_bool_def
        trimmed_non_empty_owned_def non_negative_def unknown_source_policy) code_simp
  note f = declared_record_parts [OF assms, unfolded q g] declared_record_fields(3-5) [OF assms]
  have c: "rl_state_class (infer_runtime_classification ''stdio'' ''configured-source'' ''single-writer'' ''runtime-source''
      ''source-config'' ''files'' [] [] []) = ''credential-stateful''"
    unfolding infer_runtime_classification_def sample_signals by code_simp
  have st: "sr_state_class r = ''credential-stateful''"
    using f(15) by (simp add: m sample_source sample_signals unknown_source_policy c policy_token_def policy_string_def
        trimmed_non_empty_owned_def) code_simp
  have i: "inferred_mode ''configured-source'' ''single-writer'' ''runtime-source'' ''credential-stateful'' = Serialized" by code_simp
  have e: "sr_execution r = (for_mode Serialized)\<lparr>ep_source := ''inferred-policy''\<rparr>"
    using f(12) resolve_preset [of Serialized Disabled "''executionDefaults''"]
    by (simp add: m sample_source or_else_def unknown_source_policy st i disabled_defaults_def)
  have w: "\<not> runtime_policy_disabled ''configured-source'' ''single-writer'' ''lazy-shared'' ''unknown-source'' 1"
    unfolding runtime_policy_disabled_def by code_simp
  show "sr_effective_enabled r"
    using f(14,16-18) w by (simp add: e m sample_source unknown_source_policy is_disabled_def worker_limit_def for_mode_def profile_allows_def
        bool_member_def strings_from_array_def supports_current_platform_def)
  have "is_disabled (for_server disabled_defaults bare_declaration)"
    using resolve_inferred_mode [of _ Disabled]
    by (simp add: for_server_def m disabled_defaults_def is_disabled_def for_mode_def [of Disabled, THEN arg_cong, of ep_mode])
  then show "disabled_reason_of env sample_entry (Some (server_policy env [] disabled_defaults ''files'' bare_declaration)) \<noteq> None"
    by (simp add: disabled_reason_of_def server_policy_def Let_def)
qed

end
