(* ===== verification/Server_Loader_Properties.thy ===== *)
theory Server_Loader_Properties
  imports Server_Loader_Example
begin

text \<open>
  What the inventory guarantees: a server is only routed to when the sources, the profile and the platform agree, each server
  gets one record, the inventory and the upstream runtime read the same switches alike, and what is inferred for an
  undeclared server shares it among requests only when nothing says it is stateful.
\<close>



section \<open>One record per server\<close>

definition declared_objects :: "json_map \<Rightarrow> json_map" where
  "declared_objects servers = filter (\<lambda>(name, v). normalize_server_name name \<noteq> [] \<and> as_object v \<noteq> None) servers"

lemma declared_record_names: "map sr_name (declared_records os settings d overrides servers) = map fst (declared_objects servers)"
proof (induction servers)
  case (Cons x servers)
  obtain name v where x: "x = (name, v)" by (cases x)
  show ?case
  proof (cases "normalize_server_name name = [] \<or> as_object v = None")
    case True
    then have "(let n = normalize_server_name name in if n = [] then None
        else normalize_server_record os name v (map_of settings n) d (map_of overrides n)) = None"
      by (auto simp: Let_def normalize_server_record_None)
    then show ?thesis using Cons True by (auto simp: x declared_records_def declared_objects_def List.map_filter_simps Let_def)
  next
    case False
    then obtain r where r: "normalize_server_record os name v (map_of settings (normalize_server_name name)) d
        (map_of overrides (normalize_server_name name)) = Some r"
      by (cases "normalize_server_record os name v (map_of settings (normalize_server_name name)) d
        (map_of overrides (normalize_server_name name))") (auto simp: normalize_server_record_None)
    then show ?thesis using Cons False declared_record_fields(1) [OF r]
      by (simp add: x declared_records_def declared_objects_def List.map_filter_simps Let_def)
  qed
qed (simp add: declared_records_def declared_objects_def List.map_filter_simps)

text \<open>One record per server. The inventory holds exactly one record for each declared server whose name and value are
  usable and one for each name of a settings source that is not declared, sorted by lower-case name. A declaration that is
  not an object hides the settings source of its name.\<close>

lemma inventory_one_record:
  assumes "load_server_records os root (Inr config) (Inr entries) (Inr overrides) = Inr records"
  shows "sorted (map (to_ascii_lowercase \<circ> sr_name) records) \<and>
    length records = length (declared_objects (declared_servers config)) +
      card (me_normalized_name ` set entries - set (declared_names (declared_servers config))) \<and>
    fst ` set (declared_objects (declared_servers config)) \<subseteq> sr_name ` set records"
proof -
  obtain settings where s: "load_source_settings (Inr entries) = Inr settings"
    and r: "records = sort_key (\<lambda>r. to_ascii_lowercase (sr_name r))
       (declared_records os settings (from_config_root config) overrides (declared_servers config) @
        undeclared_records settings (from_config_root config) (declared_servers config))"
    using assms by (auto elim!: load_server_records_Inr)
  let ?names = "set (declared_names (declared_servers config))"
  note se = settings_entry(1,2) [OF s]
  have d: "distinct (map fst settings)" using se(1) by (simp add: bt_ok_def strict_sorted_iff)
  have "length (undeclared_records settings (from_config_root config) (declared_servers config)) =
      length (filter (\<lambda>n. n \<notin> ?names) (map fst settings))"
    by (simp add: undeclared_records_def filter_map o_def case_prod_unfold)
  also have "\<dots> = card (set (filter (\<lambda>n. n \<notin> ?names) (map fst settings)))" using d by (metis distinct_card distinct_filter)
  also have "set (filter (\<lambda>n. n \<notin> ?names) (map fst settings)) = me_normalized_name ` set entries - ?names"
    using se(2) by (auto simp: set_eq_iff image_iff)
  finally have u: "length (undeclared_records settings (from_config_root config) (declared_servers config)) =
      card (me_normalized_name ` set entries - ?names)" .
  note names = declared_record_names [of os settings "from_config_root config" overrides "declared_servers config"]
  have n: "sr_name ` set (declared_records os settings (from_config_root config) overrides (declared_servers config)) =
      fst ` set (declared_objects (declared_servers config))" using arg_cong [OF names, of set] by simp
  show ?thesis
    using arg_cong [OF names, of length] u n
    by (auto simp: r sorted_sort_key o_def)
qed

section \<open>The inventory and the runtime\<close>

lemma member_path: "bool_at_path v [k] = bool_member v k" "array_at_path v [k] = Option.bind (json_get v k) as_array"
  by (simp_all add: json_path bool_member_def)

lemma source_enabled_alike: "source_enabled_from_mcp_settings v = source_enabled v"
  by (simp add: source_enabled_from_mcp_settings_def source_enabled_def member_path unwrap_or_def)

lemma canonical_disabled_mode:
  assumes "canonical_policy_disabled c"
  shows "is_disabled (resolve_with_canonical d (Some c) s f)"
  using canonical_disable_final assms by (simp add: is_disabled_def)

text \<open>The inventory and the upstream runtime read the switches of a declared server alike. The record is enabled by its
  source, the profile and the platform exactly when the runtime finds no reason of that kind against it, and a policy that
  disables the server disables it for both.\<close>

lemma inventory_agrees_with_runtime:
  assumes "normalize_server_record (cg_os env) name v (Some (source_settings_record e)) d (map_of overrides n) = Some r"
  shows "(sr_source_enabled r \<and> sr_profile_enabled r \<and> sr_platform_supported r \<longleftrightarrow>
      disabled_reason_of env e (Some (server_policy env overrides d n v)) \<in>
        {None, Some ''server is disabled by MCPace runtime policy''}) \<and>
    (\<forall>c. json_get v ''policy'' = Some c \<and> canonical_policy_disabled c \<longrightarrow>
      \<not> sr_effective_enabled r \<and> disabled_reason_of env e (Some (server_policy env overrides d n v)) \<noteq> None)"
proof -
  let ?p = "server_policy env overrides d n v"
  note f = declared_record_fields(3-5) [OF assms]
  have p: "sr_profile_enabled r = sp_profile_enabled ?p" "sr_platform_supported r = sp_platform_supported ?p"
    using f(1,2) by (auto simp: server_policy_def Let_def member_path profile_allows_def unwrap_or_def split: option.splits)
  have s: "sr_source_enabled r = source_enabled_from_mcp_settings (me_value e)"
    using f(3) by (simp add: source_enabled_alike source_settings_record_def Let_def)
  have dis: "\<not> sr_effective_enabled r \<and> \<not> sp_runtime_enabled ?p" if "json_get v ''policy'' = Some c" "canonical_policy_disabled c" for c
    using that canonical_disabled_mode [OF that(2)] declared_record_parts(12,14) [OF assms]
    by (simp add: server_policy_def Let_def for_server_def or_else_def)
  show ?thesis using p s dis by (auto simp: disabled_reason_of_def)
qed

section \<open>Sharing by inference\<close>

text \<open>C21: what is inferred shares only what looks stateless. If a server that nobody declared runs in shared mode, it is local, no
  signal says that it runs processes, drives or watches a browser, keeps memory, or touches a repository, a database or
  files, and no signal says that it changes anything or administers accounts, unless it is a gateway.\<close>

theorem inferred_sharing_is_stateless:
  assumes "ss_policy s = None" "ss_execution s = None" "ep_mode (sr_execution (generic_source_server_record n s d)) = Shared"
  shows "trim (ss_url s) = [] \<and>
    \<not> any_signal (source_signals (ss_command s) (ss_url s) (source_signal_args (ss_args s) (ss_profile_hints s))) stateful_signals \<and>
    (any_signal (source_signals (ss_command s) (ss_url s) (source_signal_args (ss_args s) (ss_profile_hints s))) mutating_signals \<longrightarrow>
      ''transport-gateway'' \<in> set (source_signals (ss_command s) (ss_url s) (source_signal_args (ss_args s) (ss_profile_hints s))))"
proof -
  let ?t = "infer_public_source_type (ss_source_type s) (ss_command s) (ss_url s)"
  let ?a = "source_signal_args (ss_args s) (ss_profile_hints s)"
  let ?sig = "source_signals (ss_command s) (ss_url s) ?a"
  let ?g = "policy_for_signals ?sig (is_remote ?t (ss_url s))"
  let ?cls = "infer_runtime_classification ?t (gs_scope_class ?g) (gs_concurrency_policy ?g) (gs_state_binding ?g)
    (gs_credential_binding ?g) (ss_command s) (ss_url s) ?a []"
  have m: "inferred_mode (gs_scope_class ?g) (gs_concurrency_policy ?g) (gs_state_binding ?g) (rl_state_class ?cls) = Shared"
    using assms resolve_inferred_mode [of "Some (to_config_json_value d)" "inferred_mode (gs_scope_class ?g) (gs_concurrency_policy ?g) (gs_state_binding ?g) (rl_state_class ?cls)"]
    by (simp add: generic_record_mode)
  note c = shared_mode_cases [OF m]
  have mr: "gs_concurrency_policy ?g = ''multi-reader''"
    using c(1) concurrency_tokens [OF inferred_concurrency, of ?sig "is_remote ?t (ss_url s)"] by simp
  have "''browser-observation'' \<notin> set ?sig"
  proof
    assume b: "''browser-observation'' \<in> set ?sig"
    have "''remote-browser-session'' \<notin> set ?sig"
      using mr by (auto simp: policy_for_signals_def split: if_splits)
    from observation_class [OF b this, of ?t "gs_scope_class ?g" "gs_concurrency_policy ?g" "gs_state_binding ?g" "gs_credential_binding ?g" "[]"] c(2)
    show False by (auto simp: host_class_tokens)
  qed
  from multi_reader_signals [OF mr this] show ?thesis by (auto simp: is_remote_def)
qed

theorem inferred_sharing_is_stateless_witness:
  "''shell-or-process'' \<notin> set (source_signals ''uvx'' [] [''mcp-server-time''])"
  using inferred_sharing_is_stateless [OF _ _ clock_shared]
  by (simp add: clock_source_def no_source_def clock_signals)

end
