(* ===== verification/File_System.thy ===== *)
theory File_System
  imports Server_Config
begin

text \<open>
  Files and their atomic replacement (\<^verbatim>\<open>src/runtimepaths.rs\<close>). A file system maps path texts to what is there; a function that
  changes it also returns every state in between, the last one first, so that a crash at any point is one of them. Which
  operation fails, and with which text, is an answer of the environment. Paths follow the Unix conventions and carry no
  trailing slash.
\<close>

section \<open>File systems\<close>

datatype fs_node = Dir | File string | Symlink | Special

type_synonym file_system = "(string \<times> fs_node) list"

fun fs_put :: "string \<Rightarrow> fs_node \<Rightarrow> file_system \<Rightarrow> file_system" where
  "fs_put p n [] = [(p, n)]"
| "fs_put p n ((q, m) # fs) = (if q = p then (p, n) # fs else (q, m) # fs_put p n fs)"

definition fs_del :: "string \<Rightarrow> file_system \<Rightarrow> file_system" where
  "fs_del p fs = filter (\<lambda>e. fst e \<noteq> p) fs"

lemma fs_get [simp, map_laws]: "map_of (fs_put p n fs) q = (if q = p then Some n else map_of fs q)"
  by (induction p n fs rule: fs_put.induct) auto

lemma fs_get_del [simp, map_laws]: "map_of (fs_del p fs) q = (if q = p then None else map_of fs q)"
  by (induction fs) (auto simp: fs_del_def)

record fs_env =
  fe_error :: "string \<Rightarrow> string \<Rightarrow> string option"
  fe_pid :: nat
  fe_time_ms :: "nat \<Rightarrow> nat"
  fe_counter :: "nat \<Rightarrow> nat"
  fe_partial :: nat
  fe_canonical :: "string \<Rightarrow> string option"
  fe_parse :: "string \<Rightarrow> string + json"
  fe_pretty :: "json \<Rightarrow> string"
  fe_var :: "string \<Rightarrow> string option"

section \<open>Paths\<close>

definition path_parent :: "string \<Rightarrow> string" where
  "path_parent p =
     (if p = [] \<or> p = ''/'' then ''.''
      else case rsplit_once CHR ''/'' p of
             None \<Rightarrow> []
           | Some (a, _) \<Rightarrow> if a = [] then ''/'' else a)"

definition path_file_name :: "string \<Rightarrow> string option" where
  "path_file_name p =
     (let n = (case rsplit_once CHR ''/'' p of None \<Rightarrow> p | Some (_, b) \<Rightarrow> b)
      in if n = [] \<or> n = ''.'' \<or> n = ''..'' then None else Some n)"

definition canonicalize_or_original :: "fs_env \<Rightarrow> string \<Rightarrow> string" where
  "canonicalize_or_original env p = unwrap_or (fe_canonical env p) p"

section \<open>Errors\<close>

datatype runtime_path_error =
    PathIo string string string
  | NotRealDirectory string
  | MissingFileName string string
  | Locked string string string
  | TemporaryFileExhausted string "string option"
  | AtomicReplaceFailed string string string

fun runtime_path_error_display :: "runtime_path_error \<Rightarrow> string" where
  "runtime_path_error_display (PathIo operation p reason) = ''failed to '' @ operation @ '' '' @ p @ '': '' @ reason"
| "runtime_path_error_display (NotRealDirectory p) = ''runtime path is not a real directory: '' @ p"
| "runtime_path_error_display (MissingFileName purpose p) =
     purpose @ '' lock target '' @ [CHR 0x27] @ p @ [CHR 0x27] @ '' has no file name''"
| "runtime_path_error_display (Locked purpose target lock_path) =
     purpose @ '' target '' @ [CHR 0x27] @ target @ [CHR 0x27]
     @ '' is locked by another MCPace process; retry after that operation finishes or remove stale lock ''
     @ [CHR 0x27] @ lock_path @ [CHR 0x27] @ '' only after verifying no MCPace process is active''"
| "runtime_path_error_display (TemporaryFileExhausted target last_error) =
     ''failed to create a unique temporary file next to '' @ target
     @ (case last_error of Some e \<Rightarrow> '': '' @ e | None \<Rightarrow> [])"
| "runtime_path_error_display (AtomicReplaceFailed temp_path target reason) =
     ''failed to move '' @ temp_path @ '' to '' @ target @ '': '' @ reason"

section \<open>Atomic replacement\<close>

definition atomic_temp_path :: "fs_env \<Rightarrow> nat \<Rightarrow> string \<Rightarrow> string \<Rightarrow> string" where
  "atomic_temp_path env k parent p =
     path_join parent (''.'' @ unwrap_or (path_file_name p) ''mcpace-runtime-file'' @ ''.tmp-'' @ show_nat (fe_pid env) @ ''-''
       @ show_nat (fe_time_ms env k) @ ''-'' @ show_nat (fe_counter env k))"

text \<open>A directory and the directories above it, the outermost first.\<close>

definition path_ancestors :: "string \<Rightarrow> string list" where
  "path_ancestors d = filter (\<lambda>a. a \<noteq> [] \<and> (a = d \<or> d ! length a = CHR ''/'')) (map (\<lambda>i. take i d) [0..<Suc (length d)])"

definition make_dir :: "string \<Rightarrow> file_system \<Rightarrow> file_system" where
  "make_dir d fs = (if map_of fs d = None then fs_put d Dir fs else fs)"

definition create_dir_all :: "fs_env \<Rightarrow> string \<Rightarrow> string \<Rightarrow> file_system \<Rightarrow> runtime_path_error + file_system" where
  "create_dir_all env operation d fs =
     (case fe_error env operation d of
        Some e \<Rightarrow> Inl (PathIo operation d e)
      | None \<Rightarrow> Inr (fold make_dir (path_ancestors d) fs))"

lemma fold_make_dir:
  "map_of (fold make_dir ds fs) q = (if map_of fs q = None \<and> q \<in> set ds then Some Dir else map_of fs q)"
  by (induction ds arbitrary: fs) (auto simp: make_dir_def)

lemma create_dir_all_get:
  "create_dir_all env operation d fs = Inr fs1 \<Longrightarrow>
   map_of fs1 q = (if map_of fs q = None \<and> q \<in> set (path_ancestors d) then Some Dir else map_of fs q)"
  by (auto simp: create_dir_all_def fold_make_dir split: option.splits)

lemma path_ancestors_length: "a \<in> set (path_ancestors d) \<Longrightarrow> length a \<le> length d"
  by (auto simp: path_ancestors_def split: if_splits)

lemma fold_make_dir_id: "\<forall>d \<in> set ds. map_of fs d \<noteq> None \<Longrightarrow> fold make_dir ds fs = fs"
  by (induction ds arbitrary: fs) (auto simp: make_dir_def)

definition remove_file :: "fs_env \<Rightarrow> string \<Rightarrow> file_system \<Rightarrow> file_system" where
  "remove_file env p fs = (case fe_error env ''remove'' p of Some _ \<Rightarrow> fs | None \<Rightarrow> fs_del p fs)"

text \<open>One attempt with a fresh temporary file. A write that fails may have written a part of the text.\<close>

definition write_temp_and_rename ::
  "fs_env \<Rightarrow> string \<Rightarrow> string \<Rightarrow> string \<Rightarrow> file_system \<Rightarrow> (runtime_path_error + unit) \<times> file_system list" where
  "write_temp_and_rename env temp p contents fs =
     (let created = fs_put temp (File []) fs; partial = fs_put temp (File (take (fe_partial env) contents)) fs;
          written = fs_put temp (File contents) fs; renamed = fs_put p (File contents) (fs_del temp fs)
      in case fe_error env ''write'' temp of
           Some e \<Rightarrow> (Inl (PathIo ''write'' temp e), [remove_file env temp partial, partial, created])
         | None \<Rightarrow>
             (case fe_error env ''fsync'' temp of
                Some e \<Rightarrow> (Inl (PathIo ''fsync'' temp e), [remove_file env temp written, written, partial, created])
              | None \<Rightarrow>
                  (case fe_error env ''rename'' temp of
                     Some e \<Rightarrow> (Inl (AtomicReplaceFailed temp p e), [remove_file env temp written, written, partial, created])
                   | None \<Rightarrow>
                       (case fe_error env ''set permissions on'' p of
                          Some e \<Rightarrow> (Inl (PathIo ''set permissions on'' p e), [renamed, written, partial, created])
                        | None \<Rightarrow> (Inr (), [renamed, written, partial, created])))))"

fun atomic_attempts ::
  "fs_env \<Rightarrow> nat \<Rightarrow> nat \<Rightarrow> string option \<Rightarrow> string \<Rightarrow> string \<Rightarrow> file_system \<Rightarrow> (runtime_path_error + unit) \<times> file_system list" where
  "atomic_attempts env 0 k last_error p contents fs = (Inl (TemporaryFileExhausted p last_error), [])"
| "atomic_attempts env (Suc n) k last_error p contents fs =
     (let temp = atomic_temp_path env k (path_parent p) p
      in if map_of fs temp \<noteq> None
         then atomic_attempts env n (k + 1) (Some ''File exists (os error 17)'') p contents fs
         else case fe_error env ''create temporary file'' temp of
                Some e \<Rightarrow> (Inl (PathIo ''create temporary file'' temp e), [])
              | None \<Rightarrow> write_temp_and_rename env temp p contents fs)"

definition write_text_atomic ::
  "fs_env \<Rightarrow> string \<Rightarrow> string \<Rightarrow> file_system \<Rightarrow> (runtime_path_error + unit) \<times> file_system list" where
  "write_text_atomic env p contents fs =
     (case create_dir_all env ''create'' (path_parent p) fs of
        Inl e \<Rightarrow> (Inl e, [fs])
      | Inr fs1 \<Rightarrow> (case atomic_attempts env 100 0 None p contents fs1 of (r, states) \<Rightarrow> (r, states @ [fs1, fs])))"

section \<open>Locks\<close>

definition lock_path_for :: "string \<Rightarrow> string \<Rightarrow> string" where
  "lock_path_for parent name = path_join parent (''.'' @ name @ ''.mcpace.lock'')"

definition acquire_exclusive_file_lock ::
  "fs_env \<Rightarrow> string \<Rightarrow> string \<Rightarrow> file_system \<Rightarrow> (runtime_path_error + string) \<times> file_system" where
  "acquire_exclusive_file_lock env target purpose fs =
     (case create_dir_all env ''create lock directory'' (path_parent target) fs of
        Inl e \<Rightarrow> (Inl e, fs)
      | Inr fs1 \<Rightarrow>
          (case fe_error env ''inspect lock directory'' (path_parent target) of
             Some e \<Rightarrow> (Inl (PathIo ''inspect lock directory'' (path_parent target) e), fs1)
           | None \<Rightarrow>
               if map_of fs1 (path_parent target) = None
               then (Inl (PathIo ''inspect lock directory'' (path_parent target) ''No such file or directory (os error 2)''), fs1)
               else if map_of fs1 (path_parent target) \<noteq> Some Dir then (Inl (NotRealDirectory (path_parent target)), fs1)
               else
                 (case path_file_name target of
                    None \<Rightarrow> (Inl (MissingFileName purpose target), fs1)
                  | Some name \<Rightarrow>
                      (let lock_path = lock_path_for (path_parent target) name
                       in if map_of fs1 lock_path \<noteq> None then (Inl (Locked purpose target lock_path), fs1)
                          else case fe_error env ''acquire lock'' lock_path of
                                 Some e \<Rightarrow> (Inl (PathIo ''acquire lock'' lock_path e), fs1)
                               | None \<Rightarrow> (Inr lock_path, fs_put lock_path (File (''pid='' @ show_nat (fe_pid env) @ '' timeMs=''
                                   @ show_nat (fe_time_ms env 0) @ '' purpose='' @ purpose @ '' target='' @ target @ [LF])) fs1)))))"

definition drop_lock :: "fs_env \<Rightarrow> string \<Rightarrow> file_system \<Rightarrow> file_system" where
  "drop_lock env lock_path fs = remove_file env lock_path fs"

fun acquire_locks ::
  "fs_env \<Rightarrow> string list \<Rightarrow> string \<Rightarrow> string list \<Rightarrow> file_system \<Rightarrow> (runtime_path_error + string list) \<times> file_system" where
  "acquire_locks env [] purpose locks fs = (Inr locks, fs)"
| "acquire_locks env (p # ps) purpose locks fs =
     (case acquire_exclusive_file_lock env p purpose fs of
        (Inl e, fs1) \<Rightarrow> (Inl e, fold (drop_lock env) locks fs1)
      | (Inr l, fs1) \<Rightarrow> acquire_locks env ps purpose (locks @ [l]) fs1)"

definition acquire_exclusive_file_locks ::
  "fs_env \<Rightarrow> string list \<Rightarrow> string \<Rightarrow> file_system \<Rightarrow> (runtime_path_error + string list) \<times> file_system" where
  "acquire_exclusive_file_locks env targets purpose fs = acquire_locks env (sorted_unique targets) purpose [] fs"

section \<open>Never a torn file\<close>

lemma length_rsplit: "rsplit_once c p = Some (a, b) \<Longrightarrow> length p = length a + 1 + length b"
  by (auto simp: rsplit_once_Some)

lemma temp_not_target: "atomic_temp_path env k (path_parent p) p \<noteq> p"
proof -
  have "length p < length (atomic_temp_path env k (path_parent p) p)"
    by (auto simp: atomic_temp_path_def path_parent_def path_file_name_def path_join_def starts_with_def Let_def
        split: option.splits dest: length_rsplit)
  then show ?thesis by auto
qed

lemma parent_shorter: "path_file_name p \<noteq> None \<Longrightarrow> length (path_parent p) < length p"
  by (auto simp: path_file_name_def path_parent_def Let_def rsplit_once_Some Cons_eq_append_conv split: option.splits if_splits)

lemma not_own_ancestor: "path_file_name p \<noteq> None \<Longrightarrow> p \<notin> set (path_ancestors (path_parent p))"
  using parent_shorter path_ancestors_length by fastforce

text \<open>What one attempt leaves behind, state by state.\<close>

definition torn_free :: "string \<Rightarrow> string \<Rightarrow> file_system \<Rightarrow> file_system \<Rightarrow> bool" where
  "torn_free p contents fs s \<longleftrightarrow>
     map_of s p \<in> {map_of fs p, Some (File contents)} \<and> (\<forall>q. q \<noteq> p \<and> map_of fs q \<noteq> None \<longrightarrow> map_of s q = map_of fs q)"

definition replaced :: "string \<Rightarrow> string \<Rightarrow> file_system \<Rightarrow> file_system \<Rightarrow> bool" where
  "replaced p contents fs s \<longleftrightarrow> map_of s p = Some (File contents) \<and> (\<forall>q. q \<noteq> p \<longrightarrow> map_of s q = map_of fs q)"

lemma write_temp_states:
  assumes "write_temp_and_rename env temp p contents fs = (result, states)" "temp \<noteq> p" "map_of fs temp = None"
  shows "states \<noteq> []" "\<forall>s \<in> set states. torn_free p contents fs s" "result = Inr () \<Longrightarrow> replaced p contents fs (hd states)"
  using assms
  by (auto simp: write_temp_and_rename_def remove_file_def torn_free_def replaced_def Let_def split: option.splits)

lemma atomic_attempts_states:
  assumes "atomic_attempts env n k le p contents fs = (result, states)"
  shows "\<forall>s \<in> set states. torn_free p contents fs s" "result = Inr () \<Longrightarrow> states \<noteq> [] \<and> replaced p contents fs (hd states)"
proof -
  have "(\<forall>s \<in> set states. torn_free p contents fs s) \<and> (result = Inr () \<longrightarrow> states \<noteq> [] \<and> replaced p contents fs (hd states))"
    using assms
  proof (induction env n k le p contents fs arbitrary: result states rule: atomic_attempts.induct)
    case (2 env n k le p contents fs)
    let ?temp = "atomic_temp_path env k (path_parent p) p"
    show ?case
    proof (cases "map_of fs ?temp = None")
      case False
      then show ?thesis using "2.IH" [OF refl, of result states] "2.prems" by simp
    next
      case True
      then show ?thesis
        using "2.prems" write_temp_states [OF _ temp_not_target True] by (auto simp: Let_def split: option.splits)
    qed
  qed simp
  then show "\<forall>s \<in> set states. torn_free p contents fs s" "result = Inr () \<Longrightarrow> states \<noteq> [] \<and> replaced p contents fs (hd states)"
    by auto
qed

text \<open>C37: replacement is atomic. In every state of a write, and so after a crash at any point, the target holds what it held
  before or the whole new text, and no other file that existed has changed; if the write reports success, the target holds
  the new text, and nothing else has changed but that the directories above it exist.\<close>

theorem atomic_write_never_torn:
  assumes "write_text_atomic env p contents fs = (result, states)" "path_file_name p \<noteq> None"
  shows "states \<noteq> [] \<and> (\<forall>s \<in> set states. torn_free p contents fs s) \<and>
    (result = Inr () \<longrightarrow>
       map_of (hd states) p = Some (File contents) \<and>
       (\<forall>q. q \<noteq> p \<longrightarrow> map_of (hd states) q =
          (if map_of fs q = None \<and> q \<in> set (path_ancestors (path_parent p)) then Some Dir else map_of fs q)))"
proof (cases "create_dir_all env ''create'' (path_parent p) fs")
  case (Inl e)
  then show ?thesis using assms by (auto simp: write_text_atomic_def torn_free_def)
next
  case (Inr fs1)
  obtain r st where w: "atomic_attempts env 100 0 None p contents fs1 = (r, st)" by fastforce
  have e: "result = r" "states = st @ [fs1, fs]" using assms(1) Inr w by (auto simp: write_text_atomic_def)
  have p: "map_of fs1 p = map_of fs p" and q: "\<And>q. map_of fs q \<noteq> None \<Longrightarrow> map_of fs1 q = map_of fs q"
    using create_dir_all_get [OF Inr] not_own_ancestor [OF assms(2)] by auto
  have t: "torn_free p contents fs1 s \<Longrightarrow> torn_free p contents fs s" for s
    using p q by (auto simp: torn_free_def)
  have "\<forall>s \<in> set states. torn_free p contents fs s"
    using atomic_attempts_states(1) [OF w] t p q by (auto simp: e(2) torn_free_def)
  moreover have "replaced p contents fs1 (hd states)" if "result = Inr ()"
    using atomic_attempts_states(2) [OF w] that by (simp add: e)
  ultimately show ?thesis
    using create_dir_all_get [OF Inr] by (auto simp: e(2) replaced_def)
qed

theorem atomic_write_never_torn_witness:
  "\<exists>states. write_text_atomic (\<lparr>fe_error = (\<lambda>_ _. None), fe_pid = 7, fe_time_ms = (\<lambda>_. 1), fe_counter = id, fe_partial = 1,
       fe_canonical = Some, fe_parse = (\<lambda>_. Inl []), fe_pretty = (\<lambda>_. []), fe_var = (\<lambda>_. None)\<rparr>) ''/r/a'' ''new'' [(''/r/a'', File ''old'')]
     = (Inr (), states) \<and> map_of (hd states) ''/r/a'' = Some (File ''new'')"
proof -
  let ?env = "\<lparr>fe_error = (\<lambda>_ _. None), fe_pid = 7, fe_time_ms = (\<lambda>_. 1), fe_counter = id, fe_partial = 1,
       fe_canonical = Some, fe_parse = (\<lambda>_. Inl []), fe_pretty = (\<lambda>_. []), fe_var = (\<lambda>_. None)\<rparr>"
  have d: "path_parent ''/r/a'' = ''/r''" "path_file_name ''/r/a'' = Some ''a''" "path_ancestors ''/r'' = [''/r'']" by code_simp+
  have t: "atomic_temp_path ?env 0 ''/r'' ''/r/a'' \<noteq> ''/r''" "atomic_temp_path ?env 0 ''/r'' ''/r/a'' \<noteq> ''/r/a''"
    by (simp_all add: atomic_temp_path_def path_join_def starts_with_def d)
  obtain states where w: "write_text_atomic ?env ''/r/a'' ''new'' [(''/r/a'', File ''old'')] = (Inr (), states)"
    using t by (simp add: write_text_atomic_def create_dir_all_def make_dir_def numeral_eq_Suc Let_def d write_temp_and_rename_def)
  then show ?thesis using atomic_write_never_torn [OF w] d by auto
qed

section \<open>Locks exclude each other\<close>

lemma lock_taken:
  assumes "acquire_exclusive_file_lock env target purpose fs = (Inr l, fs1)"
  shows "map_of fs l = None" "\<exists>text. map_of fs1 l = Some (File text)"
    "acquire_exclusive_file_lock env target purpose' fs1 = (Inl (Locked purpose' target l), fs1)"
proof -
  obtain name where n: "path_file_name target = Some name" "l = lock_path_for (path_parent target) name"
    using assms by (auto simp: acquire_exclusive_file_lock_def Let_def split: sum.splits option.splits if_splits)
  have "length (path_parent target) < length l"
    by (auto simp: n(2) lock_path_for_def path_join_def starts_with_def)
  then have ne: "l \<noteq> path_parent target" "l \<notin> set (path_ancestors (path_parent target))"
    using path_ancestors_length by fastforce+
  have again: "fold make_dir ds (fs_put q n (fold make_dir ds fs)) = fs_put q n (fold make_dir ds fs)" for ds q n
    by (rule fold_make_dir_id) (auto simp: fold_make_dir)
  show "map_of fs l = None" "\<exists>text. map_of fs1 l = Some (File text)"
    "acquire_exclusive_file_lock env target purpose' fs1 = (Inl (Locked purpose' target l), fs1)"
    using assms n ne
    by (auto simp: acquire_exclusive_file_lock_def create_dir_all_def fold_make_dir again Let_def split: sum.splits option.splits if_splits)
qed

section \<open>Reading JSON\<close>

definition open_text :: "fs_env \<Rightarrow> file_system \<Rightarrow> string \<Rightarrow> string + string" where
  "open_text env fs p =
     (case fe_error env ''open'' p of
        Some e \<Rightarrow> Inl e
      | None \<Rightarrow>
          (case map_of fs p of
             Some (File t) \<Rightarrow> Inr t
           | None \<Rightarrow> Inl ''No such file or directory (os error 2)''
           | Some _ \<Rightarrow> Inl ''Is a directory (os error 21)''))"

definition json_file_error_display :: "string \<Rightarrow> json_file_error \<Rightarrow> string" where
  "json_file_error_display p e =
     (case e of
        ReadError reason \<Rightarrow> ''failed to read '' @ p @ '': '' @ reason
      | ParseError reason \<Rightarrow> ''failed to parse '' @ p @ '': '' @ reason)"

definition read_json :: "fs_env \<Rightarrow> file_system \<Rightarrow> string \<Rightarrow> string + json" where
  "read_json env fs p = map_sum (json_file_error_display p) id (read_json_file (fe_parse env) (open_text env fs p))"

lemma read_json_file_only: "read_json env fs p = Inr v \<Longrightarrow> \<exists>t. map_of fs p = Some (File t)"
  by (auto simp: read_json_def open_text_def read_json_file_def split: option.splits fs_node.splits)

lemma read_json_cong: "map_of fs p = map_of fs' p \<Longrightarrow> read_json env fs p = read_json env fs' p"
  by (auto simp: read_json_def open_text_def cong: option.case_cong)

end
