(* ===== verification/Serve_Endpoint.thy ===== *)
theory Serve_Endpoint
  imports File_System
begin

text \<open>
  Where the hub listens and where it keeps its state (\<^verbatim>\<open>src/runtimepaths.rs\<close>): the endpoint from configuration and environment, public
  URLs, user paths, and the files under the state root. The configuration (when it could be read) and the variables of the
  environment are arguments; user paths follow the branch for systems other than Windows.
\<close>

definition DEFAULT_LOCAL_MCP_PORT :: nat where "DEFAULT_LOCAL_MCP_PORT = 39022"

definition DEFAULT_LOCAL_MCP_PATH :: string where "DEFAULT_LOCAL_MCP_PATH = ''/mcp''"

definition DEFAULT_LOCAL_HEALTH_PATH :: string where "DEFAULT_LOCAL_HEALTH_PATH = ''/healthz''"

definition PUBLIC_MCP_RELAY_PLACEHOLDER_URL :: string where
  "PUBLIC_MCP_RELAY_PLACEHOLDER_URL = ''https://YOUR-MCPACE-RELAY/mcp''"

record serve_endpoint =
  en_host :: string
  en_port :: nat
  en_mcp_path :: string
  en_health_path :: string
  en_public_mcp_url :: "string option"

definition default_endpoint :: serve_endpoint where
  "default_endpoint = \<lparr>en_host = DEFAULT_LOCAL_HOST, en_port = DEFAULT_LOCAL_MCP_PORT, en_mcp_path = DEFAULT_LOCAL_MCP_PATH,
     en_health_path = DEFAULT_LOCAL_HEALTH_PATH, en_public_mcp_url = None\<rparr>"

section \<open>URLs\<close>

definition normalize_url_host :: "string \<Rightarrow> string" where
  "normalize_url_host host =
     (let t = trim host
      in if t = ''0.0.0.0'' \<or> t = ''::'' \<or> t = [] then DEFAULT_LOCAL_HOST
         else if starts_with t ''['' \<and> last t = CHR '']'' then t
         else if CHR '':'' \<in> set t then ''['' @ t @ '']''
         else t)"

definition bad_url_char :: "char \<Rightarrow> bool" where
  "bad_url_char c \<longleftrightarrow> is_control c \<or> is_ws c"

definition normalize_http_path :: "string \<Rightarrow> string \<Rightarrow> string" where
  "normalize_http_path v fallback =
     (let t = trim v
      in if t = [] \<or> \<not> starts_with t ''/'' \<or> CHR ''?'' \<in> set t \<or> CHR ''#'' \<in> set t \<or> list_ex bad_url_char t
         then fallback else t)"

definition http_url :: "string \<Rightarrow> nat \<Rightarrow> string \<Rightarrow> string" where
  "http_url host port path =
     ''http://'' @ normalize_url_host host @ '':'' @ show_nat port @ normalize_http_path path DEFAULT_LOCAL_MCP_PATH"

definition bind_mcp_url :: "serve_endpoint \<Rightarrow> string" where
  "bind_mcp_url e = http_url (en_host e) (en_port e) (en_mcp_path e)"

definition mcp_url :: "serve_endpoint \<Rightarrow> string" where
  "mcp_url e = unwrap_or (en_public_mcp_url e) (bind_mcp_url e)"

definition health_url :: "serve_endpoint \<Rightarrow> string" where
  "health_url e = http_url (en_host e) (en_port e) (en_health_path e)"

definition valid_public_port :: "string \<Rightarrow> bool" where
  "valid_public_port port = (case parse_uint (uint_max 16) port of Some n \<Rightarrow> 0 < n | None \<Rightarrow> False)"

definition valid_public_port_suffix :: "string \<Rightarrow> bool" where
  "valid_public_port_suffix v =
     (if v = [] then True else case strip_prefix '':'' v of Some port \<Rightarrow> valid_public_port port | None \<Rightarrow> False)"

definition valid_public_url_host :: "string \<Rightarrow> bool" where
  "valid_public_url_host host \<longleftrightarrow> trim host \<noteq> [] \<and> \<not> list_ex bad_url_char host"

definition valid_public_url_authority :: "string \<Rightarrow> bool" where
  "valid_public_url_authority authority =
     (if authority = [] \<or> CHR ''/'' \<in> set authority \<or> CHR ''@'' \<in> set authority \<or> list_ex bad_url_char authority then False
      else if starts_with authority ''['' then
        (case split_once CHR '']'' authority of
           None \<Rightarrow> False
         | Some (before, after) \<Rightarrow> valid_public_url_host (tl before) \<and> valid_public_port_suffix after)
      else if 1 < length (filter (\<lambda>c. c = CHR '':'') authority) then False
      else case rsplit_once CHR '':'' authority of
             Some (host, port) \<Rightarrow> if host \<noteq> [] then valid_public_url_host host \<and> valid_public_port port else False
           | None \<Rightarrow> valid_public_url_host authority)"

definition url_authority :: "string \<Rightarrow> string" where
  "url_authority rest = takeWhile (\<lambda>c. c \<noteq> CHR ''/'' \<and> c \<noteq> CHR ''?'') rest"

definition normalize_public_url :: "string \<Rightarrow> string option" where
  "normalize_public_url v =
     (let t = trim v
      in if t = [] \<or> list_ex bad_url_char t \<or> CHR ''#'' \<in> set t then None
         else case or_else (strip_prefix ''http://'' t) (strip_prefix ''https://'' t) of
                None \<Rightarrow> None
              | Some rest \<Rightarrow>
                  if \<not> valid_public_url_authority (url_authority rest) then None
                  else Some (rev (dropWhile (\<lambda>c. c = CHR ''/'') (rev t))))"

section \<open>The endpoint\<close>

definition string_at :: "json \<Rightarrow> string list \<Rightarrow> string option" where
  "string_at v path = trimmed_non_empty_owned (Option.bind (value_at_path v path) as_str)"

definition u16_of_json :: "json \<Rightarrow> nat option" where
  "u16_of_json v =
     (case Option.bind (as_i64 v) (\<lambda>n. if 0 < n \<and> n \<le> 65535 then Some (nat n) else None) of
        Some n \<Rightarrow> Some n
      | None \<Rightarrow> Option.bind (as_str v) (\<lambda>s. case parse_uint (uint_max 16) (trim s) of Some n \<Rightarrow> if 0 < n then Some n else None | None \<Rightarrow> None))"

definition u16_at :: "json \<Rightarrow> string list \<Rightarrow> nat option" where
  "u16_at v path = Option.bind (value_at_path v path) u16_of_json"

definition on_some :: "'a option \<Rightarrow> ('a \<Rightarrow> 'b \<Rightarrow> 'b) \<Rightarrow> 'b \<Rightarrow> 'b" where
  "on_some v f x = (case v of Some a \<Rightarrow> f a x | None \<Rightarrow> x)"

definition configured_endpoint :: "json \<Rightarrow> serve_endpoint \<Rightarrow> serve_endpoint" where
  "configured_endpoint config e =
     (let e = on_some (string_at config [''serve'', ''host'']) (\<lambda>v e. e\<lparr>en_host := v\<rparr>) e;
          e = on_some (or_else (u16_at config [''serve'', ''port'']) (u16_at config [''ports'', ''serve''])) (\<lambda>v e. e\<lparr>en_port := v\<rparr>) e;
          e = on_some (string_at config [''serve'', ''mcpPath''])
                (\<lambda>v e. e\<lparr>en_mcp_path := normalize_http_path v DEFAULT_LOCAL_MCP_PATH\<rparr>) e;
          e = on_some (string_at config [''serve'', ''path''])
                (\<lambda>v e. e\<lparr>en_mcp_path := normalize_http_path v DEFAULT_LOCAL_MCP_PATH\<rparr>) e;
          e = on_some (string_at config [''serve'', ''healthPath''])
                (\<lambda>v e. e\<lparr>en_health_path := normalize_http_path v DEFAULT_LOCAL_HEALTH_PATH\<rparr>) e
      in on_some (string_at config [''serve'', ''publicUrl'']) (\<lambda>v e. e\<lparr>en_public_mcp_url := normalize_public_url v\<rparr>) e)"

definition environment_endpoint :: "(string \<Rightarrow> string option) \<Rightarrow> serve_endpoint \<Rightarrow> serve_endpoint" where
  "environment_endpoint var e =
     (let e = on_some (var ''MCPACE_SERVE_HOST'') (\<lambda>v e. if trim v = [] then e else e\<lparr>en_host := trim v\<rparr>) e;
          e = on_some (var ''MCPACE_SERVE_PORT'') (\<lambda>v e. on_some (parse_uint (uint_max 16) (trim v)) (\<lambda>n e. e\<lparr>en_port := n\<rparr>) e) e;
          e = on_some (var ''MCPACE_SERVE_PATH'') (\<lambda>v e. e\<lparr>en_mcp_path := normalize_http_path v DEFAULT_LOCAL_MCP_PATH\<rparr>) e;
          e = on_some (var ''MCPACE_HEALTH_PATH'') (\<lambda>v e. e\<lparr>en_health_path := normalize_http_path v DEFAULT_LOCAL_HEALTH_PATH\<rparr>) e
      in on_some (var ''MCPACE_PUBLIC_MCP_URL'') (\<lambda>v e. e\<lparr>en_public_mcp_url := normalize_public_url v\<rparr>) e)"

definition resolve_serve_endpoint :: "(string \<Rightarrow> string option) \<Rightarrow> json option \<Rightarrow> serve_endpoint" where
  "resolve_serve_endpoint var config = environment_endpoint var (on_some config configured_endpoint default_endpoint)"

definition configured_mcp_url :: "(string \<Rightarrow> string option) \<Rightarrow> json option \<Rightarrow> string" where
  "configured_mcp_url var config = mcp_url (resolve_serve_endpoint var config)"

definition configured_bind_mcp_url :: "(string \<Rightarrow> string option) \<Rightarrow> json option \<Rightarrow> string" where
  "configured_bind_mcp_url var config = bind_mcp_url (resolve_serve_endpoint var config)"

definition configured_health_url :: "(string \<Rightarrow> string option) \<Rightarrow> json option \<Rightarrow> string" where
  "configured_health_url var config = health_url (resolve_serve_endpoint var config)"

definition public_mcp_url_or_placeholder :: "(string \<Rightarrow> string option) \<Rightarrow> json option \<Rightarrow> string" where
  "public_mcp_url_or_placeholder var config =
     unwrap_or (en_public_mcp_url (resolve_serve_endpoint var config)) PUBLIC_MCP_RELAY_PLACEHOLDER_URL"

section \<open>Paths of the state\<close>

definition absolutize :: "string \<Rightarrow> string \<Rightarrow> string" where
  "absolutize root p = (if starts_with p ''/'' then p else path_join root p)"

definition absolutize_or_root :: "string \<Rightarrow> string option \<Rightarrow> string" where
  "absolutize_or_root root candidate = (case candidate of Some p \<Rightarrow> if p \<noteq> [] then absolutize root p else root | None \<Rightarrow> root)"

definition resolve_state_root :: "(string \<Rightarrow> string option) \<Rightarrow> string \<Rightarrow> string" where
  "resolve_state_root var root = absolutize_or_root root (var ''MCPACE_STATE_ROOT'')"

definition runtime_dir :: "string \<Rightarrow> string" where
  "runtime_dir state_root = path_join (path_join state_root ''data'') ''runtime''"

definition tool_list_cache_dir :: "string \<Rightarrow> string" where
  "tool_list_cache_dir state_root = path_join (runtime_dir state_root) ''tool-list-cache''"

definition project_registry_path :: "string \<Rightarrow> string" where
  "project_registry_path state_root = path_join (runtime_dir state_root) ''project-registry.json''"

definition hub_dir :: "string \<Rightarrow> string" where
  "hub_dir state_root = path_join (runtime_dir state_root) ''hub''"

definition hub_state_path :: "string \<Rightarrow> string" where
  "hub_state_path state_root = path_join (hub_dir state_root) ''state.json''"

definition hub_health_path :: "string \<Rightarrow> string" where
  "hub_health_path state_root = path_join (hub_dir state_root) ''health.json''"

definition hub_log_path :: "string \<Rightarrow> string" where
  "hub_log_path state_root = path_join (hub_dir state_root) ''events.log''"

definition hub_stop_path :: "string \<Rightarrow> string" where
  "hub_stop_path state_root = path_join (hub_dir state_root) ''stop.signal''"

definition hub_lock_path :: "string \<Rightarrow> string" where
  "hub_lock_path state_root = path_join (hub_dir state_root) ''lock.json''"

definition hub_leases_path :: "string \<Rightarrow> string" where
  "hub_leases_path state_root = path_join (hub_dir state_root) ''leases.json''"

definition hub_lease_lock_path :: "string \<Rightarrow> string" where
  "hub_lease_lock_path state_root = path_join (hub_dir state_root) ''leases.lock''"

definition serve_dir :: "string \<Rightarrow> string" where
  "serve_dir state_root = path_join (runtime_dir state_root) ''serve''"

definition serve_state_path :: "string \<Rightarrow> string" where
  "serve_state_path state_root = path_join (serve_dir state_root) ''state.json''"

definition serve_start_lock_path :: "string \<Rightarrow> string" where
  "serve_start_lock_path state_root = path_join (serve_dir state_root) ''start.lock''"

definition serve_restart_guard_path :: "string \<Rightarrow> string" where
  "serve_restart_guard_path state_root = path_join (serve_dir state_root) ''restart-guard.log''"

definition serve_stdout_log_path :: "string \<Rightarrow> string" where
  "serve_stdout_log_path state_root = path_join (serve_dir state_root) ''stdout.log''"

definition serve_stderr_log_path :: "string \<Rightarrow> string" where
  "serve_stderr_log_path state_root = path_join (serve_dir state_root) ''stderr.log''"

definition runtime_bin_dir :: "string \<Rightarrow> string" where
  "runtime_bin_dir state_root = path_join (runtime_dir state_root) ''bin''"

definition serve_runner_path :: "string \<Rightarrow> string" where
  "serve_runner_path state_root = path_join (runtime_bin_dir state_root) ''mcpace-serve''"

definition serve_runner_path_for_start :: "fs_env \<Rightarrow> nat \<Rightarrow> string \<Rightarrow> string" where
  "serve_runner_path_for_start env k state_root =
     path_join (runtime_bin_dir state_root) (''mcpace-serve-'' @ show_nat (fe_pid env) @ ''-'' @ show_nat (fe_time_ms env k) @ ''-''
       @ show_nat (fe_counter env k))"

text \<open>A directory of the runtime is created when it is missing, and is a directory afterwards, never a link.\<close>

definition ensure_private_dir :: "fs_env \<Rightarrow> string \<Rightarrow> file_system \<Rightarrow> (runtime_path_error + string) \<times> file_system" where
  "ensure_private_dir env p fs =
     (case create_dir_all env ''create'' (path_parent p) fs of
        Inl e \<Rightarrow> (Inl e, fs)
      | Inr fs1 \<Rightarrow>
          (case fe_error env ''inspect'' p of
             Some e \<Rightarrow> (Inl (PathIo ''inspect'' p e), fs1)
           | None \<Rightarrow>
               (case map_of fs1 p of
                  Some n \<Rightarrow>
                    if n \<noteq> Dir then (Inl (NotRealDirectory p), fs1)
                    else (case fe_error env ''restrict permissions on'' p of
                            Some e \<Rightarrow> (Inl (PathIo ''restrict permissions on'' p e), fs1)
                          | None \<Rightarrow> (Inr p, fs1))
                | None \<Rightarrow>
                    (case fe_error env ''create directory'' p of
                       Some e \<Rightarrow> (Inl (PathIo ''create'' p e), fs1)
                     | None \<Rightarrow>
                         (let fs2 = fs_put p Dir fs1
                          in case fe_error env ''restrict permissions on'' p of
                               Some e \<Rightarrow> (Inl (PathIo ''restrict permissions on'' p e), fs2)
                             | None \<Rightarrow> (Inr p, fs2))))))"

section \<open>Paths of the user\<close>

fun join_safe_relative_path :: "string \<Rightarrow> string list \<Rightarrow> string option" where
  "join_safe_relative_path base [] = Some base"
| "join_safe_relative_path base (segment # rest) =
     (if segment = [] \<or> segment = ''.'' then join_safe_relative_path base rest
      else if segment = ''..'' then None
      else join_safe_relative_path (path_join base segment) rest)"

definition user_home_dir :: "(string \<Rightarrow> string option) \<Rightarrow> string option" where
  "user_home_dir var = or_else (var ''HOME'') (var ''USERPROFILE'')"

definition xdg_config_base :: "(string \<Rightarrow> string option) \<Rightarrow> string option" where
  "xdg_config_base var =
     (case Option.bind (var ''XDG_CONFIG_HOME'') (\<lambda>p. if starts_with p ''/'' then Some p else None) of
        Some p \<Rightarrow> Some p
      | None \<Rightarrow> map_option (\<lambda>h. path_join h ''.config'') (user_home_dir var))"

definition resolve_user_config_path_expression :: "(string \<Rightarrow> string option) \<Rightarrow> string \<Rightarrow> string option" where
  "resolve_user_config_path_expression var expression =
     (let normalized = map (\<lambda>c. if c = CHR 0x5C then CHR ''/'' else c) (trim expression)
      in if normalized = [] \<or> CHR ''*'' \<in> set normalized \<or> CHR ''<'' \<in> set normalized \<or> CHR ''>'' \<in> set normalized then None
         else case strip_prefix ''~/.config/'' normalized of
                Some relative \<Rightarrow>
                  Option.bind (xdg_config_base var) (\<lambda>base. join_safe_relative_path base (split_char CHR ''/'' relative))
              | None \<Rightarrow>
                  (case strip_prefix ''~/'' normalized of
                     Some relative \<Rightarrow>
                       Option.bind (user_home_dir var) (\<lambda>base. join_safe_relative_path base (split_char CHR ''/'' relative))
                   | None \<Rightarrow> if starts_with (trim expression) ''/'' then Some (trim expression) else None))"

section \<open>Well-formed endpoints\<close>

definition path_ok :: "string \<Rightarrow> bool" where
  "path_ok p \<longleftrightarrow> starts_with p ''/'' \<and> CHR ''?'' \<notin> set p \<and> CHR ''#'' \<notin> set p \<and> \<not> list_ex bad_url_char p"

definition public_url_ok :: "string \<Rightarrow> bool" where
  "public_url_ok u \<longleftrightarrow> (starts_with u ''http:'' \<or> starts_with u ''https:'') \<and> CHR ''#'' \<notin> set u \<and> \<not> list_ex bad_url_char u"

definition endpoint_ok :: "serve_endpoint \<Rightarrow> bool" where
  "endpoint_ok e \<longleftrightarrow> en_port e \<le> 65535 \<and> path_ok (en_mcp_path e) \<and> path_ok (en_health_path e) \<and>
     (case en_public_mcp_url e of None \<Rightarrow> True | Some u \<Rightarrow> public_url_ok u)"

lemma default_paths_ok: "path_ok DEFAULT_LOCAL_MCP_PATH" "path_ok DEFAULT_LOCAL_HEALTH_PATH"
  by code_simp+

lemma normalized_path_ok: "path_ok fallback \<Longrightarrow> path_ok (normalize_http_path v fallback)"
  by (auto simp: normalize_http_path_def path_ok_def Let_def)

lemma trailing_slashes:
  assumes "t = pre @ rest" "last pre \<noteq> CHR ''/''" "pre \<noteq> []"
  shows "\<exists>r. rev (dropWhile (\<lambda>c. c = CHR ''/'') (rev t)) = pre @ r"
proof -
  have "dropWhile (\<lambda>c. c = CHR ''/'') (rev pre) = rev pre"
    using assms(2,3) by (cases "rev pre") (auto simp: last_rev dest: arg_cong [of _ _ rev])
  then show ?thesis
    using assms(1) by (cases "set rest \<subseteq> {CHR ''/''}") (auto simp: dropWhile_append subset_iff dest: rev_swap [THEN iffD1])
qed

lemma normalized_public_url_ok:
  assumes "normalize_public_url v = Some u"
  shows "public_url_ok u"
proof -
  let ?t = "trim v"
  obtain rest where r: "?t = ''http://'' @ rest \<or> ?t = ''https://'' @ rest"
    and u: "u = rev (dropWhile (\<lambda>c. c = CHR ''/'') (rev ?t))" and clean: "\<not> list_ex bad_url_char ?t" "CHR ''#'' \<notin> set ?t"
    using assms by (auto simp: normalize_public_url_def Let_def or_else_def split: if_splits option.splits)
  have "set u \<subseteq> set ?t" using u set_dropWhileD by fastforce
  then have c: "\<not> list_ex bad_url_char u" "CHR ''#'' \<notin> set u" using clean by (auto simp: list_ex_iff)
  from r have "starts_with u ''http:'' \<or> starts_with u ''https:''"
  proof
    assume "?t = ''http://'' @ rest"
    then have "?t = ''http:'' @ (''//'' @ rest)" by simp
    from trailing_slashes [OF this] show ?thesis unfolding u by (auto simp: starts_with_iff)
  next
    assume "?t = ''https://'' @ rest"
    then have "?t = ''https:'' @ (''//'' @ rest)" by simp
    from trailing_slashes [OF this] show ?thesis unfolding u by (auto simp: starts_with_iff)
  qed
  then show ?thesis using c by (simp add: public_url_ok_def)
qed

lemma on_some_keeps: "P x \<Longrightarrow> (\<And>a. v = Some a \<Longrightarrow> P x \<Longrightarrow> P (f a x)) \<Longrightarrow> P (on_some v f x)"
  by (cases v) (auto simp: on_some_def)

lemma endpoint_ok_updates:
  assumes "endpoint_ok e"
  shows "endpoint_ok (e\<lparr>en_host := h\<rparr>)" "n \<le> 65535 \<Longrightarrow> endpoint_ok (e\<lparr>en_port := n\<rparr>)"
    "endpoint_ok (e\<lparr>en_mcp_path := normalize_http_path p DEFAULT_LOCAL_MCP_PATH\<rparr>)"
    "endpoint_ok (e\<lparr>en_health_path := normalize_http_path p DEFAULT_LOCAL_HEALTH_PATH\<rparr>)"
    "endpoint_ok (e\<lparr>en_public_mcp_url := normalize_public_url p\<rparr>)"
  using assms normalized_path_ok default_paths_ok normalized_public_url_ok [of p]
  by (auto simp: endpoint_ok_def split: option.splits)

lemma u16_bound: "u16_at v path = Some n \<Longrightarrow> n \<le> 65535" "parse_uint (uint_max 16) s = Some n \<Longrightarrow> n \<le> 65535"
  by (auto simp: u16_at_def u16_of_json_def bind_eq_Some_conv parse_uint_def uint_max_def Let_def split: option.splits if_splits)

lemma endpoint_settings:
  assumes "endpoint_ok e"
  shows "endpoint_ok (on_some v (\<lambda>v e. e\<lparr>en_host := v\<rparr>) e)"
    "endpoint_ok (on_some v (\<lambda>v e. if trim v = [] then e else e\<lparr>en_host := trim v\<rparr>) e)"
    "(\<And>n. w = Some n \<Longrightarrow> n \<le> 65535) \<Longrightarrow> endpoint_ok (on_some w (\<lambda>v e. e\<lparr>en_port := v\<rparr>) e)"
    "endpoint_ok (on_some v (\<lambda>v e. on_some (parse_uint (uint_max 16) (trim v)) (\<lambda>n e. e\<lparr>en_port := n\<rparr>) e) e)"
    "endpoint_ok (on_some v (\<lambda>v e. e\<lparr>en_mcp_path := normalize_http_path v DEFAULT_LOCAL_MCP_PATH\<rparr>) e)"
    "endpoint_ok (on_some v (\<lambda>v e. e\<lparr>en_health_path := normalize_http_path v DEFAULT_LOCAL_HEALTH_PATH\<rparr>) e)"
    "endpoint_ok (on_some v (\<lambda>v e. e\<lparr>en_public_mcp_url := normalize_public_url v\<rparr>) e)"
  using assms endpoint_ok_updates [OF assms] u16_bound(2) by (auto simp: on_some_def split: option.splits)

lemma endpoint_kept:
  assumes "endpoint_ok e"
  shows "endpoint_ok (configured_endpoint config e)" "endpoint_ok (environment_endpoint var e)"
proof -
  have "n \<le> 65535" if "or_else (u16_at config [''serve'', ''port'']) (u16_at config [''ports'', ''serve'']) = Some n" for n
    using that u16_bound(1) by (auto simp: or_else_def split: option.splits)
  then show "endpoint_ok (configured_endpoint config e)"
    unfolding configured_endpoint_def Let_def by (intro endpoint_settings assms)
  show "endpoint_ok (environment_endpoint var e)"
    unfolding environment_endpoint_def Let_def by (intro endpoint_settings assms)
qed


end
