(* ===== verification/Settings_Sources.thy ===== *)
theory Settings_Sources
  imports Serve_Endpoint
begin

text \<open>
  The files that configure servers (\<^verbatim>\<open>src/mcp_sources.rs\<close>, \<^verbatim>\<open>src/mcp_sources/paths.rs\<close>): which files are read, in which order they override
  each other, the registry of servers they make and the fingerprint that tells whether they changed. The configuration file
  is taken not to be a link.
\<close>

section \<open>Which files\<close>

definition DEFAULT_SETTINGS_FILE :: string where "DEFAULT_SETTINGS_FILE = ''mcp_settings.json''"

definition DEFAULT_SETTINGS_DIR :: string where "DEFAULT_SETTINGS_DIR = ''mcp_settings.d''"

definition MAX_MCP_SETTINGS_FILES_PER_DIRECTORY :: nat where "MAX_MCP_SETTINGS_FILES_PER_DIRECTORY = 1024"

record source_path =
  so_path :: string
  so_origin :: string

definition path_extension :: "string \<Rightarrow> string option" where
  "path_extension p =
     (case Option.bind (path_file_name p) (rsplit_once CHR ''.'') of
        Some (a, b) \<Rightarrow> if a = [] then None else Some b
      | None \<Rightarrow> None)"

definition string_array_at :: "json \<Rightarrow> string list \<Rightarrow> string list" where
  "string_array_at v path = strings_from_array (Option.bind (value_at_path v path) as_array)"

definition resolve_under_root :: "string \<Rightarrow> string \<Rightarrow> string" where
  "resolve_under_root root p = (if starts_with p ''/'' then p else path_join root p)"

definition push_source :: "fs_env \<Rightarrow> string \<Rightarrow> string \<Rightarrow> source_path list \<Rightarrow> source_path list" where
  "push_source env p origin sources =
     (let path = canonicalize_or_original env p
      in if path \<in> set (map so_path sources) then sources else sources @ [\<lparr>so_path = path, so_origin = origin\<rparr>])"

definition read_dir :: "file_system \<Rightarrow> string \<Rightarrow> string list" where
  "read_dir fs directory = filter (\<lambda>p. path_parent p = directory \<and> p \<noteq> directory) (map fst fs)"

definition is_json_file :: "fs_env \<Rightarrow> file_system \<Rightarrow> string \<Rightarrow> bool" where
  "is_json_file env fs p \<longleftrightarrow>
     fe_error env ''entry type'' p = None \<and> (\<exists>t. map_of fs p = Some (File t)) \<and>
     (case path_extension p of Some ext \<Rightarrow> eq_ignore_ascii_case ext ''json'' | None \<Rightarrow> False)"

lemma is_json_file_code [code]:
  "is_json_file env fs p \<longleftrightarrow>
     fe_error env ''entry type'' p = None \<and> (case map_of fs p of Some (File t) \<Rightarrow> True | _ \<Rightarrow> False) \<and>
     (case path_extension p of Some ext \<Rightarrow> eq_ignore_ascii_case ext ''json'' | None \<Rightarrow> False)"
  by (auto simp: is_json_file_def split: option.splits fs_node.splits)

fun json_entries_of :: "fs_env \<Rightarrow> file_system \<Rightarrow> string \<Rightarrow> string list \<Rightarrow> string list \<Rightarrow> string list \<Rightarrow> string list \<times> string list" where
  "json_entries_of env fs directory [] found warnings = (found, warnings)"
| "json_entries_of env fs directory (p # ps) found warnings =
     (case fe_error env ''read entry'' p of
        Some e \<Rightarrow> json_entries_of env fs directory ps found
          (warnings @ [''failed to inspect MCP settings directory '' @ squote directory @ '': '' @ e])
      | None \<Rightarrow>
          if is_json_file env fs p then
            (if MAX_MCP_SETTINGS_FILES_PER_DIRECTORY \<le> length found
             then (found, warnings @ [''MCP settings directory '' @ squote directory @ '' exceeds the ''
                     @ show_nat MAX_MCP_SETTINGS_FILES_PER_DIRECTORY @ ''-file safety limit; remaining entries were skipped''])
             else json_entries_of env fs directory ps (found @ [p]) warnings)
          else json_entries_of env fs directory ps found warnings)"

type_synonym collected = "source_path list \<times> string list"

definition collect_directory_sources ::
  "fs_env \<Rightarrow> file_system \<Rightarrow> string \<Rightarrow> bool \<Rightarrow> string \<Rightarrow> collected \<Rightarrow> collected" where
  "collect_directory_sources env fs origin warn_if_missing directory c =
     (case c of (sources, warnings) \<Rightarrow>
        case fe_error env ''inspect directory'' directory of
          Some e \<Rightarrow> (sources, warnings @ [''failed to inspect MCP settings directory '' @ squote directory @ '': '' @ e @ ''; skipping''])
        | None \<Rightarrow>
            (case map_of fs directory of
               None \<Rightarrow>
                 (sources, warnings @ (if warn_if_missing
                    then [''MCP settings directory '' @ squote directory @ '' does not exist; skipping''] else []))
             | Some Dir \<Rightarrow>
                 (case fe_error env ''read directory'' directory of
                    Some e \<Rightarrow> (sources, warnings @ [''failed to read MCP settings directory '' @ squote directory @ '': '' @ e])
                  | None \<Rightarrow>
                      (case json_entries_of env fs directory (read_dir fs directory) [] warnings of (found, warnings) \<Rightarrow>
                         (fold (\<lambda>p. push_source env p origin) (sort found) sources, warnings)))
             | Some _ \<Rightarrow>
                 (sources, warnings @ [''MCP settings directory '' @ squote directory @ '' must be a real directory; skipping''])))"

definition config_path :: "string \<Rightarrow> string" where
  "config_path root = path_join root ''mcpace.config.json''"

definition collect_config_paths :: "fs_env \<Rightarrow> file_system \<Rightarrow> string \<Rightarrow> collected \<Rightarrow> collected" where
  "collect_config_paths env fs root c =
     (case map_of fs (config_path root) of
        Some (File _) \<Rightarrow>
          (case read_json env fs (config_path root) of
             Inl _ \<Rightarrow> (fst c, snd c @ [''failed to inspect MCP settings include paths from '' @ squote (config_path root)
                        @ ''; falling back to '' @ DEFAULT_SETTINGS_FILE @ '' only''])
           | Inr config \<Rightarrow>
               (let paths = concat (map (\<lambda>k. string_array_at config [k, ''includePaths'']) [''mcpSettings'', ''upstreams'', ''mcpServers'']);
                    dirs = concat (map (\<lambda>k. string_array_at config [k, ''includeDirs'']) [''mcpSettings'', ''upstreams'', ''mcpServers''])
                in fold (\<lambda>d. collect_directory_sources env fs ''config-include-dir'' True (resolve_under_root root d)) dirs
                     (fold (\<lambda>p. push_source env (resolve_under_root root p) ''config-include-path'') paths (fst c), snd c)))
      | _ \<Rightarrow> c)"

definition split_paths :: "string \<Rightarrow> string list" where
  "split_paths raw = split_char CHR '':'' raw"

definition collect_env_paths :: "fs_env \<Rightarrow> file_system \<Rightarrow> string \<Rightarrow> collected \<Rightarrow> collected" where
  "collect_env_paths env fs root c =
     (let c = (case fe_var env ''MCPACE_MCP_SETTINGS'' of
                 None \<Rightarrow> c
               | Some raw \<Rightarrow>
                   (fold (\<lambda>p. push_source env (resolve_under_root root p) ''env:MCPACE_MCP_SETTINGS'') (split_paths raw) (fst c), snd c))
      in case fe_var env ''MCPACE_MCP_SETTINGS_DIRS'' of
           None \<Rightarrow> c
         | Some raw \<Rightarrow>
             fold (\<lambda>d. collect_directory_sources env fs ''env:MCPACE_MCP_SETTINGS_DIRS'' True (resolve_under_root root d))
               (split_paths raw) c)"

definition collect_source_paths :: "fs_env \<Rightarrow> file_system \<Rightarrow> string \<Rightarrow> collected" where
  "collect_source_paths env fs root =
     collect_env_paths env fs root (collect_config_paths env fs root
       (collect_directory_sources env fs ''default-dir'' False (path_join root DEFAULT_SETTINGS_DIR)
         (push_source env (path_join root DEFAULT_SETTINGS_FILE) ''root'' [], [])))"

section \<open>What they hold\<close>

datatype mcp_source_error = UnsafeSource string string | InspectSource string string | SourceRuntimePath runtime_path_error | SourceUpstream string

fun mcp_source_error_display :: "mcp_source_error \<Rightarrow> string" where
  "mcp_source_error_display (UnsafeSource p reason) = ''MCP settings source '' @ squote p @ '' '' @ reason @ ''; skipping''"
| "mcp_source_error_display (InspectSource p reason) =
     ''failed to inspect MCP settings source '' @ squote p @ '': '' @ reason @ ''; skipping''"
| "mcp_source_error_display (SourceRuntimePath e) = runtime_path_error_display e"
| "mcp_source_error_display (SourceUpstream e) = e"

definition settings_source_is_regular_file :: "fs_env \<Rightarrow> file_system \<Rightarrow> string \<Rightarrow> mcp_source_error + bool" where
  "settings_source_is_regular_file env fs p =
     (case fe_error env ''inspect source'' p of
        Some e \<Rightarrow> Inl (InspectSource p e)
      | None \<Rightarrow>
          (case map_of fs p of
             None \<Rightarrow> Inr False
           | Some Symlink \<Rightarrow> Inl (UnsafeSource p ''is a symlink'')
           | Some (File _) \<Rightarrow> Inr True
           | Some _ \<Rightarrow> Inl (UnsafeSource p ''is not a regular file'')))"

record mcp_server_registry =
  mr_servers :: "(string \<times> mcp_server_entry) list"
  mr_sources :: "string list"
  mr_warnings :: "string list"

definition registry_warn :: "string \<Rightarrow> mcp_server_registry \<Rightarrow> mcp_server_registry" where
  "registry_warn w r = r\<lparr>mr_warnings := mr_warnings r @ [w]\<rparr>"

definition add_server :: "string \<Rightarrow> string \<times> json \<Rightarrow> mcp_server_registry \<Rightarrow> mcp_server_registry" where
  "add_server source_path e r =
     (case e of (name, v) \<Rightarrow>
        let n = normalize_server_name name
        in if n = [] then registry_warn (''MCP settings source '' @ squote source_path @ '' contains an empty server name; skipping'') r
           else let r' = r\<lparr>mr_servers := bt_insert n
                      \<lparr>me_name = name, me_normalized_name = n, me_value = v, me_source = source_path\<rparr> (mr_servers r)\<rparr>
                in case map_of (mr_servers r) n of
                     None \<Rightarrow> r'
                   | Some previous \<Rightarrow>
                       registry_warn (''duplicate MCP server '' @ squote name @ '' from '' @ squote source_path
                         @ '' overrides earlier source '' @ squote (me_source previous)) r')"

definition add_source :: "fs_env \<Rightarrow> file_system \<Rightarrow> source_path \<Rightarrow> mcp_server_registry \<Rightarrow> mcp_server_registry" where
  "add_source env fs s r =
     (let p = so_path s
      in case settings_source_is_regular_file env fs p of
           Inl e \<Rightarrow> registry_warn (mcp_source_error_display e) r
         | Inr False \<Rightarrow> registry_warn (''MCP settings source '' @ squote p @ '' does not exist; skipping'') r
         | Inr True \<Rightarrow>
             (case read_json env fs p of
                Inl e \<Rightarrow> registry_warn (''failed to read MCP settings source '' @ squote p @ '': '' @ e @ ''; skipping'') r
              | Inr v \<Rightarrow>
                  (let r = r\<lparr>mr_sources := mr_sources r @ [p]\<rparr>
                   in case mcp_servers_object v of
                        None \<Rightarrow> registry_warn (''MCP settings source '' @ squote p @ '' has no mcpServers or servers object; skipping'') r
                      | Some servers \<Rightarrow> fold (add_server p) servers r)))"

definition load_mcp_server_registry :: "fs_env \<Rightarrow> file_system \<Rightarrow> string \<Rightarrow> mcp_server_registry" where
  "load_mcp_server_registry env fs root =
     (case collect_source_paths env fs root of (sources, warnings) \<Rightarrow>
        let r = fold (add_source env fs) sources \<lparr>mr_servers = [], mr_sources = [], mr_warnings = warnings\<rparr>
        in r\<lparr>mr_sources := sorted_unique (mr_sources r), mr_warnings := sorted_unique (mr_warnings r)\<rparr>)"

record mcp_source_status =
  mt_path :: string
  mt_origin :: string
  mt_exists :: bool
  mt_server_count :: nat

definition source_status :: "fs_env \<Rightarrow> file_system \<Rightarrow> source_path \<Rightarrow> mcp_source_status" where
  "source_status env fs s =
     (let status = (\<lambda>ex n. \<lparr>mt_path = so_path s, mt_origin = so_origin s, mt_exists = ex, mt_server_count = n\<rparr>)
      in case settings_source_is_regular_file env fs (so_path s) of
           Inl _ \<Rightarrow> status True 0
         | Inr False \<Rightarrow> status False 0
         | Inr True \<Rightarrow>
             (case read_json env fs (so_path s) of
                Inl _ \<Rightarrow> status True 0
              | Inr v \<Rightarrow> status True (case mcp_servers_object v of Some servers \<Rightarrow> length servers | None \<Rightarrow> 0)))"

definition load_mcp_source_report ::
  "fs_env \<Rightarrow> file_system \<Rightarrow> string \<Rightarrow> mcp_server_registry \<times> mcp_source_status list" where
  "load_mcp_source_report env fs root =
     (load_mcp_server_registry env fs root,
      sort_key mt_path (map (source_status env fs) (fst (collect_source_paths env fs root))))"

definition source_status_json :: "mcp_source_status \<Rightarrow> json" where
  "source_status_json s = json_object
     [(''path'', JString (mt_path s)), (''origin'', JString (mt_origin s)), (''exists'', JBool (mt_exists s)),
      (''serverCount'', json_number (mt_server_count s))]"

definition source_report_json :: "mcp_server_registry \<times> mcp_source_status list \<Rightarrow> json" where
  "source_report_json report =
     (case report of (r, statuses) \<Rightarrow> json_object
       [(''serverCount'', json_number (length (mr_servers r))), (''sourceCount'', json_number (length (mr_sources r))),
        (''sources'', JArray (map source_status_json statuses)),
        (''servers'', JArray (map (\<lambda>(_, e). json_object [(''name'', JString (me_name e)),
           (''normalizedName'', JString (me_normalized_name e)), (''source'', JString (me_source e))]) (mr_servers r))),
        (''warnings'', json_strings (mr_warnings r))])"

definition holds_server :: "fs_env \<Rightarrow> file_system \<Rightarrow> string \<Rightarrow> string \<Rightarrow> bool" where
  "holds_server env fs n p \<longleftrightarrow>
     settings_source_is_regular_file env fs p = Inr True \<and>
     (case read_json env fs p of
        Inl _ \<Rightarrow> False
      | Inr v \<Rightarrow> (case mcp_servers_object v of
                   None \<Rightarrow> False | Some servers \<Rightarrow> list_ex (\<lambda>(k, _). normalize_server_name k = n) servers))"

definition source_paths_for_normalized_server :: "fs_env \<Rightarrow> file_system \<Rightarrow> string \<Rightarrow> string \<Rightarrow> string list" where
  "source_paths_for_normalized_server env fs root n =
     sorted_unique (filter (holds_server env fs n) (map so_path (fst (collect_source_paths env fs root))))"

section \<open>The fingerprint\<close>

definition FNV_PRIME_128 :: "128 word" where "FNV_PRIME_128 = 0x0000000001000000000000000000013b"

definition feed_settings_fingerprint :: "string \<Rightarrow> 128 word \<Rightarrow> 128 word" where
  "feed_settings_fingerprint bytes hash =
     (let h = fold (\<lambda>b h. (xor h (of_nat (code b))) * FNV_PRIME_128) bytes hash
      in (xor h (of_nat (length bytes))) * FNV_PRIME_128)"

definition MAX_MCP_SETTINGS_FINGERPRINT_BYTES :: nat where "MAX_MCP_SETTINGS_FINGERPRINT_BYTES = 64 * 1024 * 1024"

text \<open>The reads of a file cut it into chunks; how is up to the operating system.\<close>

fun feed_chunks :: "string list \<Rightarrow> nat \<Rightarrow> 128 word \<Rightarrow> 128 word" where
  "feed_chunks [] consumed hash = hash"
| "feed_chunks (chunk # chunks) consumed hash =
     (let consumed = sat_add 64 consumed (length chunk)
      in if MAX_MCP_SETTINGS_FINGERPRINT_BYTES < consumed then feed_settings_fingerprint ''<fingerprint-input-truncated>'' hash
         else feed_chunks chunks consumed (feed_settings_fingerprint chunk hash))"

definition feed_settings_file_fingerprint :: "(string \<Rightarrow> string list) \<Rightarrow> string \<Rightarrow> 128 word \<Rightarrow> 128 word" where
  "feed_settings_file_fingerprint chunks contents hash =
     feed_settings_fingerprint (show_nat (length contents))
       (feed_chunks (chunks (take (MAX_MCP_SETTINGS_FINGERPRINT_BYTES + 1) contents)) 0 hash)"

definition feed_source :: "fs_env \<Rightarrow> file_system \<Rightarrow> (string \<Rightarrow> string list) \<Rightarrow> source_path \<Rightarrow> 128 word \<times> 64 word \<Rightarrow> 128 word \<times> 64 word" where
  "feed_source env fs chunks s acc =
     (case acc of (hash, len) \<Rightarrow>
        let hash = feed_settings_fingerprint (so_path s) hash
        in if settings_source_is_regular_file env fs (so_path s) \<noteq> Inr True
           then (feed_settings_fingerprint ''<missing-or-unsafe>'' hash, len)
           else case open_text env fs (so_path s) of
                  Inr contents \<Rightarrow> (feed_settings_file_fingerprint chunks contents hash, len + of_nat (length contents))
                | Inl e \<Rightarrow> (feed_settings_fingerprint e (feed_settings_fingerprint ''<missing-or-unreadable>'' hash), len))"

definition mcp_settings_fingerprint :: "fs_env \<Rightarrow> file_system \<Rightarrow> (string \<Rightarrow> string list) \<Rightarrow> string \<Rightarrow> 128 word \<times> 64 word" where
  "mcp_settings_fingerprint env fs chunks root =
     (case collect_source_paths env fs root of (sources, warnings) \<Rightarrow>
        case fold (feed_source env fs chunks) sources (0x6c62272e07bb014262b821756295c58d, 0) of
          (hash, len) \<Rightarrow> (fold feed_settings_fingerprint warnings hash, len))"

section \<open>The last source wins\<close>

text \<open>The servers a source offers, and what the registry is meant to be: of all servers offered under one normalised name, in
  the order of the sources and in a source in the order of its keys, the last.\<close>

definition servers_offered :: "string \<Rightarrow> json_map \<Rightarrow> (string \<times> mcp_server_entry) list" where
  "servers_offered p servers =
     map (\<lambda>(name, v). (normalize_server_name name,
           \<lparr>me_name = name, me_normalized_name = normalize_server_name name, me_value = v, me_source = p\<rparr>))
       (filter (\<lambda>(name, _). normalize_server_name name \<noteq> []) servers)"

definition source_servers :: "fs_env \<Rightarrow> file_system \<Rightarrow> string \<Rightarrow> json_map" where
  "source_servers env fs p =
     (if settings_source_is_regular_file env fs p = Inr True
      then case read_json env fs p of Inl _ \<Rightarrow> [] | Inr v \<Rightarrow> unwrap_or (mcp_servers_object v) []
      else [])"

definition offered :: "fs_env \<Rightarrow> file_system \<Rightarrow> string list \<Rightarrow> (string \<times> mcp_server_entry) list" where
  "offered env fs ps = concat (map (\<lambda>p. servers_offered p (source_servers env fs p)) ps)"

lemma registry_warn_servers [simp]: "mr_servers (registry_warn w r) = mr_servers r"
  by (simp add: registry_warn_def)

lemma add_server_servers:
  "mr_servers (add_server p e r) =
     (if normalize_server_name (fst e) = [] then mr_servers r
      else bt_insert (normalize_server_name (fst e)) \<lparr>me_name = fst e, me_normalized_name = normalize_server_name (fst e),
             me_value = snd e, me_source = p\<rparr> (mr_servers r))"
  by (cases e) (simp add: add_server_def Let_def split: option.split)

lemma add_servers_servers:
  "map_of (mr_servers (fold (add_server p) servers r)) = map_of (mr_servers r) ++ map_of (rev (servers_offered p servers))"
proof (induction servers arbitrary: r)
  case (Cons e servers)
  then show ?case by (cases e) (auto simp: add_server_servers servers_offered_def map_add_def fun_eq_iff split: option.splits)
qed (simp add: servers_offered_def)

lemma add_source_servers:
  "map_of (mr_servers (add_source env fs s r)) =
     map_of (mr_servers r) ++ map_of (rev (servers_offered (so_path s) (source_servers env fs (so_path s))))"
  by (auto simp: add_source_def source_servers_def Let_def add_servers_servers unwrap_or_def
      servers_offered_def [of _ "[]"] split: sum.split option.split bool.split)

lemma add_sources_servers:
  "map_of (mr_servers (fold (add_source env fs) sources r)) =
     map_of (mr_servers r) ++ map_of (rev (offered env fs (map so_path sources)))"
  by (induction sources arbitrary: r) (simp_all add: add_source_servers offered_def)

lemma load_servers:
  "map_of (mr_servers (load_mcp_server_registry env fs root)) =
     map_of (rev (offered env fs (map so_path (fst (collect_source_paths env fs root)))))"
  by (simp add: load_mcp_server_registry_def Let_def add_sources_servers split: prod.split)

text \<open>The registry of servers is the last word of the sources. What the registry has under a name is the last server the
  sources offer under it, in the order the root file, the default directory, the configured files and directories and those of
  the environment are collected, and within a file in the order of its keys; a link, a missing file or one that is not JSON
  offers nothing.\<close>

lemma registry_last_wins:
  "map_of (mr_servers (load_mcp_server_registry env fs root)) =
     map_of (rev (offered env fs (map so_path (fst (collect_source_paths env fs root)))))"
  by (rule load_servers)

end
