(* ===== verification/Settings_Write.thy ===== *)
theory Settings_Write
  imports Settings_Sources
begin

text \<open>
  Edits of the settings files (\<^verbatim>\<open>src/mcp_sources/write.rs\<close>, \<^verbatim>\<open>src/mcp_sources/write_helpers.rs\<close>): adding a server, removing one,
  switching one on or off. Each edit holds the lock of the settings namespace and the lock of its file, in that order, and
  replaces the file atomically.
\<close>

section \<open>Validation\<close>

datatype write_validation_error =
    UnsupportedServerType string
  | InvalidUrl string
  | InvalidKeyValue string string

fun write_validation_error_display :: "write_validation_error \<Rightarrow> string" where
  "write_validation_error_display (UnsupportedServerType v) =
     ''unsupported MCP server type '' @ squote v @ ''; use stdio or streamable-http''"
| "write_validation_error_display (InvalidUrl reason) = reason"
| "write_validation_error_display (InvalidKeyValue _ reason) = reason"

definition normalize_server_type :: "string option \<Rightarrow> bool \<Rightarrow> bool \<Rightarrow> write_validation_error + string" where
  "normalize_server_type requested has_command has_url =
     (let normalized = infer_public_source_type (unwrap_or requested []) (if has_command then ''command'' else [])
                         (if has_url then ''https://example.invalid/mcp'' else [])
      in if normalized \<in> {''stdio'', ''streamable-http''} then Inr normalized else Inl (UnsupportedServerType normalized))"

definition validate_remote_mcp_host :: "string \<Rightarrow> write_validation_error + unit" where
  "validate_remote_mcp_host host =
     (if trim host = [] \<or> list_ex blank_or_control host then Inl (InvalidUrl ''server add --url has an invalid host'') else Inr ())"

definition validate_remote_mcp_port :: "string \<Rightarrow> write_validation_error + unit" where
  "validate_remote_mcp_port port =
     (case parse_uint (uint_max 16) port of
        Some n \<Rightarrow> if 0 < n then Inr () else Inl (InvalidUrl ''server add --url has an invalid port'')
      | None \<Rightarrow> Inl (InvalidUrl ''server add --url has an invalid port''))"

definition validate_remote_mcp_port_suffix :: "string \<Rightarrow> write_validation_error + unit" where
  "validate_remote_mcp_port_suffix v =
     (if v = [] then Inr ()
      else case strip_prefix '':'' v of
             None \<Rightarrow> Inl (InvalidUrl ''server add --url has an invalid bracketed authority suffix'')
           | Some port \<Rightarrow> validate_remote_mcp_port port)"

definition validate_remote_mcp_authority :: "string \<Rightarrow> write_validation_error + unit" where
  "validate_remote_mcp_authority authority =
     (if authority = [] \<or> CHR ''/'' \<in> set authority \<or> CHR ''@'' \<in> set authority \<or> list_ex blank_or_control authority
      then Inl (InvalidUrl ''server add --url has an invalid authority'')
      else if starts_with authority ''[''
      then (case split_once CHR '']'' authority of
              None \<Rightarrow> Inl (InvalidUrl ''server add --url has an invalid bracketed IPv6 authority'')
            | Some (before, suffix) \<Rightarrow>
                (let host = tl before
                 in if trim host = [] \<or> list_ex blank_or_control host
                    then Inl (InvalidUrl ''server add --url has an invalid IPv6 host'')
                    else validate_remote_mcp_port_suffix suffix))
      else if 1 < length (filter (\<lambda>c. c = CHR '':'') authority)
      then Inl (InvalidUrl ''server add --url IPv6 authorities must be bracketed'')
      else case rsplit_once CHR '':'' authority of
             Some (host, port) \<Rightarrow>
               if host \<noteq> []
               then (case validate_remote_mcp_host host of Inl e \<Rightarrow> Inl e | Inr _ \<Rightarrow> validate_remote_mcp_port port)
               else Inl (InvalidUrl ''server add --url has an invalid host or port'')
           | None \<Rightarrow> validate_remote_mcp_host authority)"

definition remote_mcp_authority_is_loopback :: "string \<Rightarrow> bool" where
  "remote_mcp_authority_is_loopback authority =
     (let host = (case strip_prefix ''['' authority of
                    Some rest \<Rightarrow> hd (split_char CHR '']'' rest)
                  | None \<Rightarrow> hd (split_char CHR '':'' authority));
          normalized = trim_matches (\<lambda>c. c = CHR ''['' \<or> c = CHR '']'') (trim host)
      in eq_ignore_ascii_case normalized ''localhost'' \<or>
         (case parse_ip_addr normalized of Some a \<Rightarrow> address_is_loopback a | None \<Rightarrow> False))"

definition validate_remote_mcp_url :: "string \<Rightarrow> write_validation_error + unit" where
  "validate_remote_mcp_url v =
     (let trimmed = trim v
      in if trimmed = [] then Inl (InvalidUrl ''server add --url requires a non-empty URL'')
         else if list_ex blank_or_control trimmed
         then Inl (InvalidUrl ''server add --url cannot contain whitespace or control characters'')
         else if CHR ''#'' \<in> set trimmed \<or> CHR 0x5C \<in> set trimmed
         then Inl (InvalidUrl ''server add --url must not contain a URL fragment or backslash'')
         else let normalized = to_ascii_lowercase trimmed
              in case (if starts_with normalized ''http://'' then Some (True, drop 7 trimmed)
                       else if starts_with normalized ''https://'' then Some (False, drop 8 trimmed)
                       else None) of
                   None \<Rightarrow> Inl (InvalidUrl ''server add --url currently accepts only http:// or https:// MCP endpoints'')
                 | Some (plain_http, rest) \<Rightarrow>
                     (let authority = takeWhile (\<lambda>c. c \<noteq> CHR ''/'' \<and> c \<noteq> CHR ''?'') rest
                      in case validate_remote_mcp_authority authority of
                           Inl e \<Rightarrow> Inl e
                         | Inr _ \<Rightarrow>
                             if plain_http \<and> \<not> remote_mcp_authority_is_loopback authority
                             then Inl (InvalidUrl ''server add --url permits plain http:// only for loopback MCP endpoints; use https:// or a local gateway'')
                             else Inr ()))"

definition validate_env_name :: "string \<Rightarrow> bool" where
  "validate_env_name v =
     (case v of
        [] \<Rightarrow> False
      | c # cs \<Rightarrow> (is_upper c \<or> is_lower c \<or> c = CHR ''_'') \<and> list_all (\<lambda>ch. is_alnum ch \<or> ch = CHR ''_'') cs)"

definition validate_http_header_name :: "string \<Rightarrow> bool" where
  "validate_http_header_name v \<longleftrightarrow> valid_http_header_name v \<and> \<not> reserved_mcp_http_header_name v"

fun key_value_pairs ::
  "string \<Rightarrow> (string \<Rightarrow> bool) \<Rightarrow> string list \<Rightarrow> (string \<times> string) list \<Rightarrow> write_validation_error + (string \<times> string) list" where
  "key_value_pairs flag_name validate_key [] parsed = Inr parsed"
| "key_value_pairs flag_name validate_key (raw # rest) parsed =
     (case split_once CHR ''='' raw of
        None \<Rightarrow> Inl (InvalidKeyValue flag_name (flag_name @ '' expects KEY=VALUE, got '' @ squote raw))
      | Some (k, v) \<Rightarrow>
          (let key = trim k
           in if key = [] \<or> \<not> validate_key key
              then Inl (InvalidKeyValue flag_name (flag_name @ '' contains an invalid key '' @ squote key))
              else if list_ex (\<lambda>(existing, _). eq_ignore_ascii_case existing key) parsed
              then Inl (InvalidKeyValue flag_name (flag_name @ '' contains duplicate key '' @ squote key @ '' with ambiguous casing''))
              else if CHR 0x00 \<in> set v \<or> CR \<in> set v \<or> LF \<in> set v
              then Inl (InvalidKeyValue flag_name (flag_name @ '' value for '' @ squote key @ '' contains a disallowed control character''))
              else if flag_name = ''--header'' \<and> \<not> valid_http_field_value v
              then Inl (InvalidKeyValue flag_name (flag_name @ '' value for '' @ squote key @ '' is not a safe HTTP header value''))
              else key_value_pairs flag_name validate_key rest (bt_insert key v parsed)))"

definition parse_key_value_pairs ::
  "string list \<Rightarrow> string \<Rightarrow> (string \<Rightarrow> bool) \<Rightarrow> write_validation_error + (string \<times> string) list" where
  "parse_key_value_pairs vs flag_name validate_key = key_value_pairs flag_name validate_key vs []"

section \<open>The files\<close>

definition settings_error :: "string \<Rightarrow> string \<Rightarrow> string" where
  "settings_error p reason = ''MCP settings source '' @ squote p @ '' '' @ reason"

definition regular_settings :: "fs_env \<Rightarrow> file_system \<Rightarrow> string \<Rightarrow> (string + json) \<Rightarrow> string + json" where
  "regular_settings env fs p missing =
     (case fe_error env ''inspect source'' p of
        Some e \<Rightarrow> Inl (''failed to inspect MCP settings source '' @ squote p @ '': '' @ e)
      | None \<Rightarrow>
          (case map_of fs p of
             None \<Rightarrow> missing
           | Some Symlink \<Rightarrow> Inl (settings_error p ''must be a regular file, not a symlink'')
           | Some (File _) \<Rightarrow> read_json env fs p
           | Some _ \<Rightarrow> Inl (settings_error p ''must be a regular file'')))"

definition read_settings_or_empty :: "fs_env \<Rightarrow> file_system \<Rightarrow> string \<Rightarrow> string + json" where
  "read_settings_or_empty env fs p = regular_settings env fs p (Inr (json_object [(''mcpServers'', JObject [])]))"

definition read_existing_settings :: "fs_env \<Rightarrow> file_system \<Rightarrow> string \<Rightarrow> string + json" where
  "read_existing_settings env fs p = regular_settings env fs p (Inl (settings_error p ''does not exist''))"

definition servers_object_mut :: "json_map \<Rightarrow> string \<Rightarrow> string \<Rightarrow> string + string \<times> json_map" where
  "servers_object_mut root_object key p =
     (case map_of root_object key of
        Some (JObject servers) \<Rightarrow> Inr (key, servers)
      | Some _ \<Rightarrow> Inl (settings_error p (''has a non-object '' @ key @ '' value''))
      | None \<Rightarrow> Inl (settings_error p (''has no '' @ key @ '' object'')))"

text \<open>The key the servers stand under, with the root object that has it.\<close>

definition ensure_servers_object_mut :: "json_map \<Rightarrow> string \<Rightarrow> string + json_map \<times> string \<times> json_map" where
  "ensure_servers_object_mut root_object p =
     (let (root_object, key) =
            (if map_of root_object ''mcpServers'' \<noteq> None then (root_object, ''mcpServers'')
             else if map_of root_object ''servers'' \<noteq> None then (root_object, ''servers'')
             else (bt_insert ''mcpServers'' (JObject []) root_object, ''mcpServers''))
      in map_sum id (Pair root_object) (servers_object_mut root_object key p))"

definition existing_servers_object_mut :: "json_map \<Rightarrow> string \<Rightarrow> string + string \<times> json_map" where
  "existing_servers_object_mut root_object p =
     (if map_of root_object ''mcpServers'' \<noteq> None then servers_object_mut root_object ''mcpServers'' p
      else if map_of root_object ''servers'' \<noteq> None then servers_object_mut root_object ''servers'' p
      else Inl (settings_error p ''has no mcpServers or servers object''))"

definition find_server_key :: "string \<Rightarrow> json_map \<Rightarrow> string option" where
  "find_server_key n servers = List.find (\<lambda>k. normalize_server_name k = n) (map fst servers)"

definition find_source_path_for_server :: "fs_env \<Rightarrow> file_system \<Rightarrow> string \<Rightarrow> string \<Rightarrow> string + string option" where
  "find_source_path_for_server env fs root n =
     (case source_paths_for_normalized_server env fs root n of
        [] \<Rightarrow> Inr None
      | [p] \<Rightarrow> Inr (Some p)
      | ps \<Rightarrow> Inl (''MCP server '' @ squote n @ '' exists in multiple settings sources ('' @ join '', '' ps
                 @ ''); pass --settings <path> to choose the exact source''))"

definition same_settings_path :: "fs_env \<Rightarrow> string \<Rightarrow> string \<Rightarrow> bool" where
  "same_settings_path env left right \<longleftrightarrow> canonicalize_or_original env left = canonicalize_or_original env right"

definition reject_cross_source_shadowing :: "fs_env \<Rightarrow> file_system \<Rightarrow> string \<Rightarrow> string \<Rightarrow> string \<Rightarrow> string option" where
  "reject_cross_source_shadowing env fs root n target =
     (case filter (\<lambda>p. \<not> same_settings_path env p target) (source_paths_for_normalized_server env fs root n) of
        [] \<Rightarrow> None
      | shadowing \<Rightarrow> Some (''MCP server '' @ squote n @ '' already exists in another settings source ('' @ join '', '' shadowing
          @ ''); pass --settings <existing path> with --force, remove the old entry first, or choose a different server name''))"

definition acquire_mcp_settings_namespace_lock ::
  "fs_env \<Rightarrow> string \<Rightarrow> file_system \<Rightarrow> (runtime_path_error + string) \<times> file_system" where
  "acquire_mcp_settings_namespace_lock env root fs =
     (case ensure_private_dir env (runtime_dir root) fs of
        (Inl e, fs1) \<Rightarrow> (Inl e, fs1)
      | (Inr d, fs1) \<Rightarrow>
          acquire_exclusive_file_lock env (path_join d ''mcp-settings.namespace'') ''MCP settings namespace update'' fs1)"

text \<open>A guard lives to the end of the block it is taken in; a dry run takes none.\<close>

definition with_lock ::
  "fs_env \<Rightarrow> bool \<Rightarrow> (file_system \<Rightarrow> (runtime_path_error + string) \<times> file_system) \<Rightarrow> (file_system \<Rightarrow> (string + 'a) \<times> file_system)
   \<Rightarrow> file_system \<Rightarrow> (string + 'a) \<times> file_system" where
  "with_lock env dry_run acquire body fs =
     (if dry_run then body fs
      else case acquire fs of
             (Inl e, fs1) \<Rightarrow> (Inl (runtime_path_error_display e), fs1)
           | (Inr l, fs1) \<Rightarrow> (case body fs1 of (r, fs2) \<Rightarrow> (r, drop_lock env l fs2)))"

definition save_settings :: "fs_env \<Rightarrow> string \<Rightarrow> json \<Rightarrow> file_system \<Rightarrow> (string + unit) \<times> file_system" where
  "save_settings env p v fs =
     (case write_text_atomic env p (fe_pretty env v @ [LF]) fs of
        (r, states) \<Rightarrow> (map_sum runtime_path_error_display id r, hd states))"

definition settings_lock :: "fs_env \<Rightarrow> string \<Rightarrow> file_system \<Rightarrow> (runtime_path_error + string) \<times> file_system" where
  "settings_lock env p = acquire_exclusive_file_lock env p ''MCP settings update''"

definition default_mcp_server_fragment_path :: "string \<Rightarrow> string \<Rightarrow> string" where
  "default_mcp_server_fragment_path root server_name =
     path_join (path_join root DEFAULT_SETTINGS_DIR) (normalize_server_name server_name @ ''.json'')"

section \<open>Adding a server\<close>

record mcp_server_write_options =
  wo_name :: string
  wo_server_type :: "string option"
  wo_command :: "string option"
  wo_args :: "string list"
  wo_url :: "string option"
  wo_env :: "string list"
  wo_headers :: "string list"
  wo_settings_path :: "string option"
  wo_enabled :: bool
  wo_dry_run :: bool
  wo_force :: bool
  wo_profile_hints :: "string list"

record mcp_server_write_result =
  wr_name :: string
  wr_normalized_name :: string
  wr_path :: string
  wr_action :: string
  wr_dry_run :: bool
  wr_existed_before :: bool
  wr_server_type :: string
  wr_command :: "string option"
  wr_url :: "string option"
  wr_args_count :: nat
  wr_env_count :: nat
  wr_header_count :: nat

definition given :: "string option \<Rightarrow> bool" where
  "given v = (case v of Some x \<Rightarrow> trim x \<noteq> [] | None \<Rightarrow> False)"

definition trimmed_entry :: "string \<Rightarrow> string option \<Rightarrow> (string \<times> json) list" where
  "trimmed_entry key v =
     (case v of Some x \<Rightarrow> if trim x \<noteq> [] then [(key, JString (trim x))] else [] | None \<Rightarrow> [])"

definition build_server_entry ::
  "string \<Rightarrow> mcp_server_write_options \<Rightarrow> (string \<times> string) list \<Rightarrow> (string \<times> string) list \<Rightarrow> json" where
  "build_server_entry server_type opts env headers =
     (let hints = sorted_unique (filter (\<lambda>v. v \<noteq> []) (map trim (wo_profile_hints opts)));
          texts = (\<lambda>m. json_object (map (\<lambda>(k, v). (k, JString v)) m))
      in json_object
           ([(''enabled'', JBool (wo_enabled opts)), (''type'', JString server_type)]
            @ trimmed_entry ''command'' (wo_command opts)
            @ (if wo_args opts \<noteq> [] then [(''args'', json_strings (wo_args opts))] else [])
            @ trimmed_entry ''url'' (wo_url opts)
            @ (if hints \<noteq> [] then [(''mcpaceProfileHints'', json_strings hints)] else [])
            @ (if env \<noteq> [] then [(''env'', texts env)] else [])
            @ (if headers \<noteq> [] then [(''headers'', texts headers)] else [])))"

text \<open>The checks that come before any file is touched: the type, the variables and the headers.\<close>

definition check_transport :: "mcp_server_write_options \<Rightarrow> string + string" where
  "check_transport opts =
     (if given (wo_command opts) \<and> given (wo_url opts) then Inl ''server add accepts either --command or --url, not both''
      else if \<not> given (wo_command opts) \<and> \<not> given (wo_url opts)
      then Inl ''server add requires --command <cmd> for stdio or --url <url> for HTTP''
      else case normalize_server_type (wo_server_type opts) (given (wo_command opts)) (given (wo_url opts)) of
             Inl e \<Rightarrow> Inl (write_validation_error_display e)
           | Inr server_type \<Rightarrow>
               (case (if given (wo_url opts) then validate_remote_mcp_url (unwrap_or (wo_url opts) []) else Inr ()) of
                  Inl e \<Rightarrow> Inl (write_validation_error_display e)
                | Inr _ \<Rightarrow>
                    if server_type = ''stdio'' \<and> \<not> given (wo_command opts)
                    then Inl ''server type stdio requires --command <cmd>''
                    else if server_type \<noteq> ''stdio'' \<and> \<not> given (wo_url opts)
                    then Inl (''server type '' @ server_type @ '' requires --url <url>'')
                    else Inr server_type))"

definition check_write_options ::
  "mcp_server_write_options \<Rightarrow> string + string \<times> (string \<times> string) list \<times> (string \<times> string) list" where
  "check_write_options opts =
     (case check_transport opts of
        Inl e \<Rightarrow> Inl e
      | Inr server_type \<Rightarrow>
          (case parse_key_value_pairs (wo_env opts) ''--env'' validate_env_name of
             Inl e \<Rightarrow> Inl (write_validation_error_display e)
           | Inr env \<Rightarrow>
               (case parse_key_value_pairs (wo_headers opts) ''--header'' validate_http_header_name of
                  Inl e \<Rightarrow> Inl (write_validation_error_display e)
                | Inr headers \<Rightarrow> Inr (server_type, env, headers))))"

definition write_result ::
  "mcp_server_write_options \<Rightarrow> string \<Rightarrow> bool \<Rightarrow> string \<Rightarrow> nat \<Rightarrow> nat \<Rightarrow> mcp_server_write_result" where
  "write_result opts target existed server_type envs headers =
     (let action = (if existed then ''replace'' else ''add'')
      in \<lparr>wr_name = trim (wo_name opts), wr_normalized_name = normalize_server_name (trim (wo_name opts)), wr_path = target,
          wr_action = (if wo_dry_run opts then ''dry-run-'' @ action else action), wr_dry_run = wo_dry_run opts,
          wr_existed_before = existed, wr_server_type = server_type, wr_command = wo_command opts, wr_url = wo_url opts,
          wr_args_count = length (wo_args opts), wr_env_count = envs, wr_header_count = headers\<rparr>)"

text \<open>The edit of the file itself, under both locks.\<close>

definition edit_add ::
  "fs_env \<Rightarrow> mcp_server_write_options \<Rightarrow> string \<Rightarrow> string \<times> (string \<times> string) list \<times> (string \<times> string) list
   \<Rightarrow> file_system \<Rightarrow> (string + mcp_server_write_result) \<times> file_system" where
  "edit_add env opts target checked fs =
     (case checked of (server_type, envs, headers) \<Rightarrow>
        case read_settings_or_empty env fs target of
          Inl e \<Rightarrow> (Inl e, fs)
        | Inr (JObject root_object) \<Rightarrow>
            (case ensure_servers_object_mut root_object target of
               Inl e \<Rightarrow> (Inl e, fs)
             | Inr (root_object, key, servers) \<Rightarrow>
                 (let existing_key = find_server_key (normalize_server_name (trim (wo_name opts))) servers;
                      result = write_result opts target (existing_key \<noteq> None) server_type (length envs) (length headers)
                  in if existing_key \<noteq> None \<and> \<not> wo_force opts
                     then (Inl (''server '' @ squote (trim (wo_name opts)) @ '' already exists in '' @ target
                                @ ''; rerun with --force to replace it''), fs)
                     else if wo_dry_run opts then (Inr result, fs)
                     else let servers1 = (case existing_key of
                                            Some k \<Rightarrow> if k \<noteq> trim (wo_name opts) then bt_remove k servers else servers
                                          | None \<Rightarrow> servers);
                              servers2 = bt_insert (trim (wo_name opts)) (build_server_entry server_type opts envs headers) servers1
                          in case save_settings env target (JObject (bt_insert key (JObject servers2) root_object)) fs of
                               (Inl e, fs1) \<Rightarrow> (Inl e, fs1)
                             | (Inr _, fs1) \<Rightarrow> (Inr result, fs1)))
        | Inr _ \<Rightarrow> (Inl (settings_error target ''must contain a JSON object''), fs))"

definition usable_name :: "string \<Rightarrow> string \<Rightarrow> string option" where
  "usable_name command name =
     (if trim name = [] then Some (command @ '' requires a non-empty server name'')
      else if normalize_server_name (trim name) = []
      then Some (''server name '' @ squote (trim name) @ '' does not contain a usable ASCII token'')
      else None)"

definition write_mcp_server_entry ::
  "fs_env \<Rightarrow> string \<Rightarrow> mcp_server_write_options \<Rightarrow> file_system \<Rightarrow> (string + mcp_server_write_result) \<times> file_system" where
  "write_mcp_server_entry env root opts fs =
     (case usable_name ''server add'' (wo_name opts) of
        Some e \<Rightarrow> (Inl e, fs)
      | None \<Rightarrow>
          (case check_write_options opts of
             Inl e \<Rightarrow> (Inl e, fs)
           | Inr checked \<Rightarrow>
               (let n = normalize_server_name (trim (wo_name opts));
                    target = (case wo_settings_path opts of
                                Some p \<Rightarrow> resolve_under_root root p
                              | None \<Rightarrow> default_mcp_server_fragment_path root n)
                in with_lock env (wo_dry_run opts) (acquire_mcp_settings_namespace_lock env root)
                     (\<lambda>fs1. case reject_cross_source_shadowing env fs1 root n target of
                               Some e \<Rightarrow> (Inl e, fs1)
                             | None \<Rightarrow> with_lock env (wo_dry_run opts) (settings_lock env target) (edit_add env opts target checked) fs1)
                     fs)))"

definition write_result_json :: "mcp_server_write_result \<Rightarrow> json" where
  "write_result_json r = json_object
     [(''name'', JString (wr_name r)), (''normalizedName'', JString (wr_normalized_name r)), (''path'', JString (wr_path r)),
      (''action'', JString (wr_action r)), (''dryRun'', JBool (wr_dry_run r)), (''existedBefore'', JBool (wr_existed_before r)),
      (''type'', JString (wr_server_type r)), (''command'', json_string_or_null (wr_command r)),
      (''url'', json_string_or_null (wr_url r)), (''argsCount'', json_number (wr_args_count r)),
      (''envCount'', json_number (wr_env_count r)), (''headerCount'', json_number (wr_header_count r)),
      (''suggestedNextCommands'', json_strings
         [''mcpace advanced server test '' @ wr_normalized_name r @ '' --refresh --json'',
          if wr_server_type r = ''stdio'' then ''mcpace advanced client install <client|all> --dry-run --diff''
          else ''MCPace forwards Streamable HTTP directly; HTTPS uses platform certificate verification and plain HTTP is limited to loopback''])]"

section \<open>Removing a server\<close>

record mcp_server_remove_options =
  xo_name :: string
  xo_settings_path :: "string option"
  xo_dry_run :: bool

record mcp_server_remove_result =
  xr_name :: string
  xr_normalized_name :: string
  xr_path :: string
  xr_dry_run :: bool
  xr_existed_before :: bool
  xr_remaining_server_count :: nat

definition choose_target :: "fs_env \<Rightarrow> string \<Rightarrow> string \<Rightarrow> string option \<Rightarrow> file_system \<Rightarrow> string + string" where
  "choose_target env root name settings_path fs =
     (case settings_path of
        Some p \<Rightarrow> Inr (resolve_under_root root p)
      | None \<Rightarrow>
          (case find_source_path_for_server env fs root (normalize_server_name (trim name)) of
             Inl e \<Rightarrow> Inl e
           | Inr (Some p) \<Rightarrow> Inr p
           | Inr None \<Rightarrow> Inl (''MCP server '' @ squote (trim name) @ '' was not found in known sources; run ''
               @ squote ''mcpace advanced server sources'' @ '' or pass --settings <path>'')))"

definition not_found_in :: "string \<Rightarrow> string \<Rightarrow> string" where
  "not_found_in name target = ''MCP server '' @ squote (trim name) @ '' was not found in '' @ squote target"

definition edit_remove ::
  "fs_env \<Rightarrow> mcp_server_remove_options \<Rightarrow> string \<Rightarrow> file_system \<Rightarrow> (string + mcp_server_remove_result) \<times> file_system" where
  "edit_remove env opts target fs =
     (let n = normalize_server_name (trim (xo_name opts))
      in case read_existing_settings env fs target of
           Inl e \<Rightarrow> (Inl e, fs)
         | Inr (JObject root_object) \<Rightarrow>
             (case existing_servers_object_mut root_object target of
                Inl e \<Rightarrow> (Inl e, fs)
              | Inr (key, servers) \<Rightarrow>
                  (case find_server_key n servers of
                     None \<Rightarrow> (Inl (not_found_in (xo_name opts) target), fs)
                   | Some k \<Rightarrow>
                       (let result = (\<lambda>count. \<lparr>xr_name = trim (xo_name opts), xr_normalized_name = n, xr_path = target,
                              xr_dry_run = xo_dry_run opts, xr_existed_before = True, xr_remaining_server_count = count\<rparr>)
                        in if xo_dry_run opts
                           then (Inr (result (length (filter (\<lambda>(k, _). normalize_server_name k \<noteq> n) servers))), fs)
                           else let servers1 = bt_remove k servers
                                in case save_settings env target (JObject (bt_insert key (JObject servers1) root_object)) fs of
                                     (Inl e, fs1) \<Rightarrow> (Inl e, fs1)
                                   | (Inr _, fs1) \<Rightarrow> (Inr (result (length servers1)), fs1))))
         | Inr _ \<Rightarrow> (Inl (settings_error target ''must be a JSON object''), fs))"

definition locked_edit ::
  "fs_env \<Rightarrow> string \<Rightarrow> bool \<Rightarrow> (file_system \<Rightarrow> string + string) \<Rightarrow> (string \<Rightarrow> file_system \<Rightarrow> (string + 'a) \<times> file_system)
   \<Rightarrow> file_system \<Rightarrow> (string + 'a) \<times> file_system" where
  "locked_edit env root dry_run target_of edit =
     with_lock env dry_run (acquire_mcp_settings_namespace_lock env root)
       (\<lambda>fs. case target_of fs of
                Inl e \<Rightarrow> (Inl e, fs)
              | Inr target \<Rightarrow> with_lock env dry_run (settings_lock env target) (edit target) fs)"

definition remove_mcp_server_entry ::
  "fs_env \<Rightarrow> string \<Rightarrow> mcp_server_remove_options \<Rightarrow> file_system \<Rightarrow> (string + mcp_server_remove_result) \<times> file_system" where
  "remove_mcp_server_entry env root opts fs =
     (case usable_name ''server remove'' (xo_name opts) of
        Some e \<Rightarrow> (Inl e, fs)
      | None \<Rightarrow>
          locked_edit env root (xo_dry_run opts) (choose_target env root (xo_name opts) (xo_settings_path opts))
            (edit_remove env opts) fs)"

definition remove_result_json :: "mcp_server_remove_result \<Rightarrow> json" where
  "remove_result_json r = json_object
     [(''name'', JString (xr_name r)), (''normalizedName'', JString (xr_normalized_name r)), (''path'', JString (xr_path r)),
      (''action'', JString ''remove''), (''dryRun'', JBool (xr_dry_run r)), (''existedBefore'', JBool (xr_existed_before r)),
      (''remainingServerCount'', json_number (xr_remaining_server_count r))]"

section \<open>Switching a server on or off\<close>

record mcp_server_toggle_options =
  to_name :: string
  to_settings_path :: "string option"
  to_enabled :: bool
  to_dry_run :: bool

record mcp_server_toggle_result =
  tr_name :: string
  tr_normalized_name :: string
  tr_path :: string
  tr_action :: string
  tr_dry_run :: bool
  tr_existed_before :: bool
  tr_enabled :: bool
  tr_previous_enabled :: "bool option"
  tr_server_count :: nat

definition toggled :: "bool \<Rightarrow> json_map \<Rightarrow> json_map" where
  "toggled enabled server_object =
     (let m = bt_insert ''enabled'' (JBool enabled) server_object
      in if enabled then bt_remove ''disabled'' m else bt_insert ''disabled'' (JBool True) m)"

definition previously_enabled :: "json_map \<Rightarrow> bool option" where
  "previously_enabled server_object =
     or_else (Option.bind (map_of server_object ''enabled'') as_bool)
       (map_option Not (Option.bind (map_of server_object ''disabled'') as_bool))"

definition edit_toggle ::
  "fs_env \<Rightarrow> mcp_server_toggle_options \<Rightarrow> string \<Rightarrow> file_system \<Rightarrow> (string + mcp_server_toggle_result) \<times> file_system" where
  "edit_toggle env opts target fs =
     (let n = normalize_server_name (trim (to_name opts))
      in case read_existing_settings env fs target of
           Inl e \<Rightarrow> (Inl e, fs)
         | Inr (JObject root_object) \<Rightarrow>
             (case existing_servers_object_mut root_object target of
                Inl e \<Rightarrow> (Inl e, fs)
              | Inr (key, servers) \<Rightarrow>
                  (case find_server_key n servers of
                     None \<Rightarrow> (Inl (not_found_in (to_name opts) target), fs)
                   | Some k \<Rightarrow>
                       (case map_of servers k of
                          Some (JObject server_object) \<Rightarrow>
                            (let result = \<lparr>tr_name = trim (to_name opts), tr_normalized_name = n, tr_path = target,
                                   tr_action = (if to_enabled opts then ''enable'' else ''disable''), tr_dry_run = to_dry_run opts,
                                   tr_existed_before = True, tr_enabled = to_enabled opts,
                                   tr_previous_enabled = previously_enabled server_object, tr_server_count = length servers\<rparr>
                             in if to_dry_run opts then (Inr result, fs)
                                else let servers1 = bt_insert k (JObject (toggled (to_enabled opts) server_object)) servers
                                     in case save_settings env target (JObject (bt_insert key (JObject servers1) root_object)) fs of
                                          (Inl e, fs1) \<Rightarrow> (Inl e, fs1)
                                        | (Inr _, fs1) \<Rightarrow> (Inr result, fs1))
                        | _ \<Rightarrow> (Inl (''MCP server '' @ squote (trim (to_name opts)) @ '' in '' @ squote target
                                   @ '' must be a JSON object to enable/disable it''), fs))))
         | Inr _ \<Rightarrow> (Inl (settings_error target ''must be a JSON object''), fs))"

definition set_mcp_server_enabled ::
  "fs_env \<Rightarrow> string \<Rightarrow> mcp_server_toggle_options \<Rightarrow> file_system \<Rightarrow> (string + mcp_server_toggle_result) \<times> file_system" where
  "set_mcp_server_enabled env root opts fs =
     (case usable_name ''server enable/disable'' (to_name opts) of
        Some e \<Rightarrow> (Inl e, fs)
      | None \<Rightarrow>
          locked_edit env root (to_dry_run opts) (choose_target env root (to_name opts) (to_settings_path opts))
            (edit_toggle env opts) fs)"

definition toggle_result_json :: "mcp_server_toggle_result \<Rightarrow> json" where
  "toggle_result_json r = json_object
     [(''name'', JString (tr_name r)), (''normalizedName'', JString (tr_normalized_name r)), (''path'', JString (tr_path r)),
      (''action'', JString (tr_action r)), (''dryRun'', JBool (tr_dry_run r)), (''existedBefore'', JBool (tr_existed_before r)),
      (''enabled'', JBool (tr_enabled r)),
      (''previousEnabled'', case tr_previous_enabled r of Some b \<Rightarrow> JBool b | None \<Rightarrow> JNull),
      (''serverCount'', json_number (tr_server_count r)),
      (''suggestedNextCommands'', json_strings
         [''mcpace advanced server test '' @ tr_normalized_name r @ '' --refresh --json'', ''mcpace status --json''])]"

end
