(* ===== verification/Settings_Write_Properties.thy ===== *)
theory Settings_Write_Properties
  imports Settings_Write
begin

text \<open>
  What the edits of the settings promise: a URL that can be added is one the upstream client can call, an edit changes its file
  and nothing else, and the registry loaded afterwards shows it.
\<close>

section \<open>What is accepted can be called\<close>

lemma hd_split_char: "hd (split_char c s) = takeWhile (\<lambda>x. x \<noteq> c) s"
proof (induction s)
  case (Cons x s)
  then show ?case using split_char_join [of c s] by (cases "split_char c s") auto
qed simp

lemma parse_uint_Nil [simp]: "parse_uint m [] = None"
  by (simp add: parse_uint_def Let_def strip_plus_def)

lemma port_accepted: "validate_remote_mcp_port port = Inr () \<longleftrightarrow> (\<exists>n. parse_required_http_port port a = Inr n)"
  by (auto simp: validate_remote_mcp_port_def parse_required_http_port_def split: option.splits)

lemma port_suffix_accepted:
  "validate_remote_mcp_port_suffix v = Inr () \<longleftrightarrow> (\<exists>n. parse_optional_http_port v a d = Inr n)"
  using port_accepted [of _ a]
  by (auto simp: validate_remote_mcp_port_suffix_def parse_optional_http_port_def simp del: strip_prefix_Some split: option.splits)

lemma bracketed_accepted:
  "(case split_once CHR '']'' authority of
      None \<Rightarrow> Inl (InvalidUrl e1)
    | Some (before, suffix) \<Rightarrow>
        (let host = tl before
         in if trim host = [] \<or> list_ex blank_or_control host then Inl (InvalidUrl e2) else validate_remote_mcp_port_suffix suffix))
     = Inr () \<longleftrightarrow> (\<exists>u. parse_bracketed_authority authority d = Inr u)"
  by (auto simp: parse_bracketed_authority_def Let_def port_suffix_accepted [of _ authority d]
      simp del: split_once_None split: option.splits sum.splits)

lemma authority_accepted:
  "validate_remote_mcp_authority authority = Inr () \<longleftrightarrow> (\<exists>u. parse_http_authority authority d = Inr u)"
proof -
  have "(case rsplit_once CHR '':'' authority of
      Some (host, port) \<Rightarrow>
        if host \<noteq> [] then (case validate_remote_mcp_host host of Inl e \<Rightarrow> Inl e | Inr _ \<Rightarrow> validate_remote_mcp_port port) else Inl (InvalidUrl e)
    | None \<Rightarrow> validate_remote_mcp_host authority) = Inr () \<longleftrightarrow>
    (\<exists>u. (case parse_plain_authority authority d of
         Inl e \<Rightarrow> Inl e
       | Inr (host, port, explicit_port) \<Rightarrow>
           if trim host = [] \<or> list_ex blank_or_control host
           then Inl (''HTTP upstream URL has an invalid host: '' @ authority)
           else Inr (host, port, if explicit_port then host @ '':'' @ show_nat port else host)) = Inr u)" for e
    by (auto simp: parse_plain_authority_def validate_remote_mcp_host_def port_accepted [of _ authority]
        simp del: rsplit_once_None split: option.splits sum.splits)
  then show ?thesis
    using bracketed_accepted [where authority = authority and d = d] unfolding validate_remote_mcp_authority_def parse_http_authority_def by simp
qed

lemma rsplit_single_colon:
  "rsplit_once CHR '':'' a = Some (h, p) \<Longrightarrow> \<not> 1 < length (filter (\<lambda>c. c = CHR '':'') a) \<Longrightarrow> takeWhile (\<lambda>c. c \<noteq> CHR '':'') a = h"
  by (auto simp: rsplit_once_Some filter_empty_conv takeWhile_append takeWhile_eq_all_conv split: if_splits)

lemma loopback_same:
  assumes "parse_http_authority a d = Inr (h, p, hh)"
  shows "remote_mcp_authority_is_loopback a = plain_http_upstream_host_is_loopback h"
proof -
  have "(case strip_prefix ''['' a of Some rest \<Rightarrow> hd (split_char CHR '']'' rest) | None \<Rightarrow> hd (split_char CHR '':'' a)) = h"
  proof (cases "starts_with a ''[''")
    case True
    then obtain rest where a: "a = CHR ''['' # rest" by (cases a) (auto simp: starts_with_def)
    then show ?thesis
      using assms True by (auto simp: parse_http_authority_def parse_bracketed_authority_def Let_def hd_split_char split_once_Some
          strip_prefix_def Cons_eq_append_conv takeWhile_append takeWhile_eq_all_conv split: if_splits option.splits sum.splits)
  next
    case False
    then have "strip_prefix ''['' a = None" by (simp add: strip_prefix_def starts_with_def)
    moreover have "takeWhile (\<lambda>c. c \<noteq> CHR '':'') a = h"
      using assms False rsplit_single_colon [of a] by (auto simp: parse_http_authority_def parse_plain_authority_def takeWhile_eq_all_conv
          split: if_splits option.splits sum.splits)
    ultimately show ?thesis by (simp add: hd_split_char)
  qed
  then show ?thesis by (simp add: remote_mcp_authority_is_loopback_def plain_http_upstream_host_is_loopback_def)
qed

definition not_stop :: "char \<Rightarrow> bool" where
  "not_stop c \<longleftrightarrow> c \<noteq> CHR ''/'' \<and> c \<noteq> CHR ''?''"

lemma split_clean:
  assumes "\<not> list_ex blank_or_control rest"
  shows "\<exists>path. split_http_authority_and_path rest =
    (if takeWhile not_stop rest = [] then Inl ''HTTP upstream URL has an empty authority'' else Inr (takeWhile not_stop rest, path))"
proof -
  have d: "(\<lambda>c. \<not> (c = CHR ''/'' \<or> c = CHR ''?'')) = not_stop" by (auto simp: not_stop_def)
  have "\<not> list_ex is_control (dropWhile not_stop rest)"
    using assms by (auto simp: list_ex_iff blank_or_control_def dest: set_dropWhileD)
  moreover have "\<not> is_control CHR ''/''" by code_simp
  ultimately have c: "\<not> list_ex is_control (dropWhile not_stop rest)" "\<not> list_ex is_control (''/'' @ dropWhile not_stop rest)" by simp_all
  show ?thesis
  proof (cases "dropWhile not_stop rest = []")
    case True
    then have "takeWhile not_stop rest = rest" using takeWhile_dropWhile_id [of not_stop rest] by (metis append_Nil2)
    then show ?thesis unfolding split_http_authority_and_path_def d Let_def using True by (simp only: if_True) auto
  next
    case False
    then show ?thesis unfolding split_http_authority_and_path_def d Let_def using c by auto
  qed
qed

text \<open>The shared part of both readings, after the scheme.\<close>

lemma rest_accepted:
  assumes "\<not> list_ex blank_or_control rest" "secure = (\<not> plain)"
  shows "(let authority = takeWhile not_stop rest
     in case validate_remote_mcp_authority authority of
          Inl e \<Rightarrow> Inl e
        | Inr _ \<Rightarrow> if plain \<and> \<not> remote_mcp_authority_is_loopback authority then Inl (InvalidUrl e1) else Inr ()) = Inr () \<longleftrightarrow>
    (\<exists>u. (case split_http_authority_and_path rest of
            Inl e \<Rightarrow> Inl e
          | Inr (authority, path) \<Rightarrow>
              (case parse_http_authority authority d of
                 Inl e \<Rightarrow> Inl e
               | Inr (host, port, host_header) \<Rightarrow>
                   if \<not> secure \<and> \<not> plain_http_upstream_host_is_loopback host then Inl (e2 host)
                   else Inr \<lparr>pu_url = url, pu_secure = secure, pu_host = host, pu_port = port, pu_path = path,
                             pu_host_header = host_header\<rparr>)) = Inr u)"
proof -
  let ?a = "takeWhile not_stop rest"
  obtain path where s: "split_http_authority_and_path rest =
      (if ?a = [] then Inl ''HTTP upstream URL has an empty authority'' else Inr (?a, path))"
    using split_clean [OF assms(1)] by blast
  have e: "validate_remote_mcp_authority [] \<noteq> Inr ()" by (simp add: validate_remote_mcp_authority_def)
  show ?thesis
  proof (cases "parse_http_authority ?a d")
    case (Inl x)
    then have "validate_remote_mcp_authority ?a \<noteq> Inr ()" using authority_accepted [of ?a d] by simp
    then show ?thesis using Inl by (cases "validate_remote_mcp_authority ?a") (simp_all add: s Let_def)
  next
    case (Inr x)
    obtain h p hh where x: "x = (h, p, hh)" by (cases x)
    have "validate_remote_mcp_authority ?a = Inr ()" using authority_accepted [of ?a d] Inr by blast
    then show ?thesis using e Inr loopback_same [of ?a d] by (auto simp: s Let_def x assms(2))
  qed
qed

text \<open>\<open>server add\<close> and the HTTP upstream agree on URLs. A URL is accepted for a new server exactly if the client that will
  call the server can parse it: both want http or https, no blank, fragment or backslash, a well-formed authority, and plain
  HTTP only for the loopback interface.\<close>

lemma added_url_iff_callable: "validate_remote_mcp_url v = Inr () \<longleftrightarrow> (\<exists>u. parse_http_url (trim v) = Inr u)"
proof -
  let ?t = "trim v" and ?n = "to_ascii_lowercase (trim v)"
  have two: "\<not> (starts_with s ''http://'' \<and> starts_with s ''https://'')" for s
    by (auto simp: starts_with_iff)
  have d: "(\<lambda>c. c \<noteq> CHR ''/'' \<and> c \<noteq> CHR ''?'') = not_stop" by (auto simp: not_stop_def)
  show ?thesis
  proof (cases "?t = [] \<or> list_ex blank_or_control ?t \<or> CHR ''#'' \<in> set ?t \<or> CHR 0x5C \<in> set ?t")
    case True
    then show ?thesis by (auto simp: validate_remote_mcp_url_def parse_http_url_def Let_def)
  next
    case False
    then have clean: "\<not> list_ex blank_or_control (drop n ?t)" for n by (auto simp: list_ex_iff dest: in_set_dropD)
    consider (http) "starts_with ?n ''http://''" "\<not> starts_with ?n ''https://''"
      | (https) "\<not> starts_with ?n ''http://''" "starts_with ?n ''https://''"
      | (neither) "\<not> starts_with ?n ''http://''" "\<not> starts_with ?n ''https://''" using two by blast
    then show ?thesis
    proof cases
      case http
      then show ?thesis unfolding validate_remote_mcp_url_def parse_http_url_def d
        using False by simp (rule rest_accepted [OF clean], simp)
    next
      case https
      then show ?thesis unfolding validate_remote_mcp_url_def parse_http_url_def d
        using False by simp (rule rest_accepted [OF clean], simp)
    next
      case neither
      then show ?thesis unfolding validate_remote_mcp_url_def parse_http_url_def using False by simp
    qed
  qed
qed

section \<open>An edit changes its file and nothing else\<close>

definition dirs_present :: "file_system \<Rightarrow> string \<Rightarrow> bool" where
  "dirs_present fs d \<longleftrightarrow> (\<forall>a \<in> set (path_ancestors d). map_of fs a \<noteq> None)"

lemma fs_put_new: "map_of fs l = None \<Longrightarrow> fs_put l n fs = fs @ [(l, n)]"
  by (induction l n fs rule: fs_put.induct) (auto split: if_splits)

lemma fs_del_absent: "map_of fs l = None \<Longrightarrow> fs_del l fs = fs"
  by (induction fs) (auto simp: fs_del_def split: if_splits)

lemma fs_put_append: "map_of fs t \<noteq> None \<Longrightarrow> fs_put t n (fs @ gs) = fs_put t n fs @ gs"
  by (induction t n fs rule: fs_put.induct) (auto split: if_splits)

lemma fs_del_append: "fs_del l (fs @ gs) = fs_del l fs @ fs_del l gs"
  by (simp add: fs_del_def)

lemma fs_put_keys: "map_of fs t \<noteq> None \<Longrightarrow> map fst (fs_put t n fs) = map fst fs"
  by (induction t n fs rule: fs_put.induct) (auto split: if_splits)

lemma create_dir_all_present:
  "dirs_present fs d \<Longrightarrow> create_dir_all env operation d fs = Inr fs1 \<Longrightarrow> fs1 = fs"
  by (auto simp: create_dir_all_def dirs_present_def fold_make_dir_id split: option.splits)

lemma atomic_attempts_result:
  "atomic_attempts env n k le p contents fs = (Inr (), states) \<Longrightarrow> states \<noteq> [] \<and> hd states = fs_put p (File contents) fs"
proof (induction env n k le p contents fs arbitrary: states rule: atomic_attempts.induct)
  case (2 env n k le p contents fs)
  let ?temp = "atomic_temp_path env k (path_parent p) p"
  show ?case
  proof (cases "map_of fs ?temp = None")
    case False
    then show ?thesis using "2.IH" [OF refl, of states] "2.prems" by simp
  next
    case True
    then show ?thesis using "2.prems" by (auto simp: write_temp_and_rename_def Let_def fs_del_absent split: option.splits)
  qed
qed simp

lemma save_settings_result:
  assumes "save_settings env p v fs = (Inr u, fs1)" "dirs_present fs (path_parent p)"
  shows "fs1 = fs_put p (File (fe_pretty env v @ [LF])) fs"
proof -
  obtain r states where w: "write_text_atomic env p (fe_pretty env v @ [LF]) fs = (r, states)" by fastforce
  then have r: "r = Inr ()" "fs1 = hd states" using assms(1) by (cases r; simp add: save_settings_def)+
  with w show ?thesis
    by (auto simp: write_text_atomic_def hd_append split: sum.splits prod.splits
        dest!: create_dir_all_present [OF assms(2)] atomic_attempts_result)
qed

lemma lock_result:
  assumes "acquire_exclusive_file_lock env target purpose fs = (Inr l, fs1)" "dirs_present fs (path_parent target)"
  shows "map_of fs l = None \<and> (\<exists>x. fs1 = fs @ [(l, File x)]) \<and>
    (\<exists>name. path_file_name target = Some name \<and> l = lock_path_for (path_parent target) name)"
  using assms create_dir_all_present [OF assms(2)]
  by (auto simp: acquire_exclusive_file_lock_def Let_def fs_put_new split: sum.splits option.splits if_splits)

text \<open>The lock of the settings namespace.\<close>

definition namespace_lock_path :: "string \<Rightarrow> string" where
  "namespace_lock_path root = runtime_dir root @ ''/.mcp-settings.namespace.mcpace.lock''"

lemma runtime_dir_shape: "\<exists>a. a \<noteq> [] \<and> runtime_dir root = a @ ''/runtime''"
proof -
  have "last (path_join root ''data'') = CHR ''a''" "path_join root ''data'' \<noteq> []" by (simp_all add: path_join_def starts_with_def)
  then show ?thesis by (auto simp: runtime_dir_def path_join_def starts_with_def)
qed

lemma parent_of_child: "d \<noteq> [] \<Longrightarrow> CHR ''/'' \<notin> set b \<Longrightarrow> path_parent (d @ CHR ''/'' # b) = d"
  using rsplit_once_Some [of "CHR ''/''" "d @ CHR ''/'' # b" d b] by (auto simp: path_parent_def append_eq_Cons_conv)

lemma name_of_child:
  "CHR ''/'' \<notin> set b \<Longrightarrow> b \<noteq> [] \<Longrightarrow> b \<noteq> ''.'' \<Longrightarrow> b \<noteq> ''..'' \<Longrightarrow> path_file_name (d @ CHR ''/'' # b) = Some b"
  using rsplit_once_Some [of "CHR ''/''" "d @ CHR ''/'' # b" d b] by (auto simp: path_file_name_def Let_def)

lemma ancestors_of_parent: "d \<noteq> [] \<Longrightarrow> set (path_ancestors d) \<subseteq> set (path_ancestors (d @ CHR ''/'' # b))"
proof
  fix a assume d: "d \<noteq> []" and "a \<in> set (path_ancestors d)"
  then have i: "a = take (length a) d" "length a \<le> length d" and ne: "a \<noteq> []" and c: "a = d \<or> d ! length a = CHR ''/''"
    by (auto simp: path_ancestors_def split: if_splits)
  let ?e = "d @ CHR ''/'' # b"
  have "a = take (length a) ?e" "?e ! length a = CHR ''/''" "length a < length ?e"
    using i c by (auto simp: nth_append)
  then show "a \<in> set (path_ancestors ?e)" using ne by (auto simp: path_ancestors_def simp del: upt_Suc)
qed

lemma own_ancestor: "d \<noteq> [] \<Longrightarrow> d \<in> set (path_ancestors d)"
  by (simp add: path_ancestors_def)

lemma ensure_present:
  assumes "ensure_private_dir env d fs = (Inr d', fs1)" "dirs_present fs (path_parent d)" "map_of fs d \<noteq> None"
  shows "d' = d \<and> fs1 = fs"
proof (cases "create_dir_all env ''create'' (path_parent d) fs")
  case (Inr fs2)
  then have "fs2 = fs" by (rule create_dir_all_present [OF assms(2)])
  then show ?thesis using assms Inr by (auto simp: ensure_private_dir_def Let_def split: option.splits if_splits)
qed (use assms in \<open>simp add: ensure_private_dir_def\<close>)

lemma namespace_lock_result:
  assumes "acquire_mcp_settings_namespace_lock env root fs = (Inr l, fs1)" "dirs_present fs (runtime_dir root)"
  shows "l = namespace_lock_path root" "map_of fs l = None" "\<exists>x. fs1 = fs @ [(l, File x)]"
proof -
  obtain a where a: "a \<noteq> []" "runtime_dir root = a @ CHR ''/'' # ''runtime''" using runtime_dir_shape by force
  have n: "path_join (runtime_dir root) ''mcp-settings.namespace'' = runtime_dir root @ CHR ''/'' # ''mcp-settings.namespace''"
    by (simp add: path_join_def starts_with_def a)
  have pp: "path_parent (path_join (runtime_dir root) ''mcp-settings.namespace'') = runtime_dir root"
    "path_file_name (path_join (runtime_dir root) ''mcp-settings.namespace'') = Some ''mcp-settings.namespace''"
    unfolding n by (rule parent_of_child; simp add: a) (rule name_of_child; simp)
  have "path_parent (runtime_dir root) = a" unfolding a(2) using a(1) by (rule parent_of_child) simp
  then have up: "dirs_present fs (path_parent (runtime_dir root))"
    using assms(2) ancestors_of_parent [OF a(1), of "''runtime''"] by (auto simp: dirs_present_def a(2))
  have e: "ensure_private_dir env (runtime_dir root) fs = (Inr d, fs2) \<Longrightarrow> d = runtime_dir root \<and> fs2 = fs" for d fs2
    using ensure_present [OF _ up] assms(2) own_ancestor [of "runtime_dir root"] a by (simp add: dirs_present_def)
  have "acquire_exclusive_file_lock env (path_join (runtime_dir root) ''mcp-settings.namespace'') ''MCP settings namespace update'' fs = (Inr l, fs1)"
    using assms(1) e by (auto simp: acquire_mcp_settings_namespace_lock_def split: prod.splits sum.splits)
  from lock_result [OF this, unfolded pp] assms(2) show "l = namespace_lock_path root" "map_of fs l = None" "\<exists>x. fs1 = fs @ [(l, File x)]"
    by (auto simp: namespace_lock_path_def lock_path_for_def path_join_def starts_with_def a)
qed

lemma with_lock_result:
  assumes "with_lock env False acquire body fs = (Inr r, fs')"
  obtains l fs1 fs2 where "acquire fs = (Inr l, fs1)" "body fs1 = (Inr r, fs2)" "fs' = drop_lock env l fs2"
  using assms by (auto simp: with_lock_def split: prod.splits sum.splits)

text \<open>A successful edit of an existing file, with the directories in place: the two locks come and go, the file is replaced.\<close>

lemma locked_edit_result:
  assumes e: "locked_edit env root False target_of edit fs = (Inr r, fs')"
    and path: "\<And>target fs1 fs2 r. edit target fs1 = (Inr r, fs2) \<Longrightarrow> path_of r = target"
    and edit: "\<And>target fs1 fs2 r. edit target fs1 = (Inr r, fs2) \<Longrightarrow> dirs_present fs1 (path_parent target) \<Longrightarrow>
      \<exists>v. fs2 = fs_put target (File (fe_pretty env v @ [LF])) fs1 \<and> P target fs1 v"
    and present: "dirs_present fs (runtime_dir root)" "dirs_present fs (path_parent (path_of r))" "map_of fs (path_of r) \<noteq> None"
    and remove: "\<And>p. fe_error env ''remove'' p = None"
  obtains x l2 y v where "map_of fs (namespace_lock_path root) = None"
    "target_of (fs @ [(namespace_lock_path root, File x)]) = Inr (path_of r)"
    "P (path_of r) (fs @ [(namespace_lock_path root, File x), (l2, File y)]) v"
    "fs' = fs_put (path_of r) (File (fe_pretty env v @ [LF])) fs"
proof -
  let ?l1 = "namespace_lock_path root"
  obtain l1 fs1 fs4 where a1: "acquire_mcp_settings_namespace_lock env root fs = (Inr l1, fs1)" and
    b1: "(case target_of fs1 of Inl e \<Rightarrow> (Inl e, fs1) | Inr target \<Rightarrow> with_lock env False (settings_lock env target) (edit target) fs1) = (Inr r, fs4)"
    and f1: "fs' = drop_lock env l1 fs4"
    using e unfolding locked_edit_def by (rule with_lock_result)
  note l1 = namespace_lock_result [OF a1 present(1)]
  obtain x where x: "fs1 = fs @ [(?l1, File x)]" using l1 by blast
  obtain target where t: "target_of fs1 = Inr target" "with_lock env False (settings_lock env target) (edit target) fs1 = (Inr r, fs4)"
    using b1 by (auto split: sum.splits)
  obtain l2 fs2 fs3 where a2: "settings_lock env target fs1 = (Inr l2, fs2)" and b2: "edit target fs2 = (Inr r, fs3)"
    and f2: "fs4 = drop_lock env l2 fs3"
    using t(2) by (rule with_lock_result)
  have p: "path_of r = target" using b2 by (rule path)
  have up: "dirs_present (fs @ gs) (path_parent target)" for gs using present(2) by (auto simp: dirs_present_def p)
  obtain y where l2: "map_of fs1 l2 = None" "fs2 = fs1 @ [(l2, File y)]"
    using lock_result [of env target "''MCP settings update''" fs1 l2 fs2] a2 up by (auto simp: settings_lock_def x)
  obtain v where v: "fs3 = fs_put target (File (fe_pretty env v @ [LF])) fs2" "P target fs2 v"
    using edit [OF b2] up by (auto simp: l2(2) x)
  have d: "drop_lock env q gs = fs_del q gs" for q gs by (simp add: drop_lock_def remove_file_def remove)
  have n: "map_of fs target \<noteq> None" "target \<noteq> ?l1" "target \<noteq> l2" "map_of fs l2 = None" "l2 \<noteq> ?l1" "map_of fs ?l1 = None"
    using present(3) l1 l2(1) by (auto simp: p x split: if_splits)
  have "fs' = fs_put target (File (fe_pretty env v @ [LF])) fs"
    using n by (simp add: f1 f2 v l2(2) x d l1(1) fs_put_append fs_del_append fs_del_absent) (simp add: fs_del_def)
  then show thesis using that [of x l2 y v] n(6) t(1) v(2) by (simp add: p x l2(2))
qed

section \<open>The files collected\<close>

definition dir_json :: "fs_env \<Rightarrow> file_system \<Rightarrow> string \<Rightarrow> string list" where
  "dir_json env fs d =
     (if map_of fs d = Some Dir then filter (\<lambda>p. fe_error env ''read entry'' p = None \<and> is_json_file env fs p) (read_dir fs d) else [])"

lemma json_entries_found:
  "length found \<le> MAX_MCP_SETTINGS_FILES_PER_DIRECTORY \<Longrightarrow>
   fst (json_entries_of env fs d ps found ws) =
     found @ take (MAX_MCP_SETTINGS_FILES_PER_DIRECTORY - length found)
       (filter (\<lambda>p. fe_error env ''read entry'' p = None \<and> is_json_file env fs p) ps)"
proof (induction ps arbitrary: found ws)
  case (Cons p ps)
  let ?M = MAX_MCP_SETTINGS_FILES_PER_DIRECTORY
  show ?case
  proof (cases "fe_error env ''read entry'' p = None \<and> is_json_file env fs p \<and> length found < ?M")
    case True
    then have "?M - length found = Suc (?M - length (found @ [p]))" by (simp add: Suc_diff_Suc)
    then show ?thesis using True Cons.IH [of "found @ [p]" ws] by simp
  next
    case False
    then show ?thesis using Cons.IH [of found] Cons.prems by (auto split: option.split)
  qed
qed simp

lemma collect_directory_fst:
  "fst (collect_directory_sources env fs origin w d c) =
     (if fe_error env ''inspect directory'' d = None \<and> fe_error env ''read directory'' d = None
      then fold (\<lambda>p. push_source env p origin) (sort (take MAX_MCP_SETTINGS_FILES_PER_DIRECTORY (dir_json env fs d))) (fst c)
      else fst c)"
  using json_entries_found [of "[]" env fs d "read_dir fs d" "snd c"]
  by (auto simp: collect_directory_sources_def dir_json_def split: prod.splits option.splits fs_node.splits)

lemma collect_directories_fst:
  "dir_json env fs = dir_json env fs' \<Longrightarrow> fst c = fst c' \<Longrightarrow>
   fst (fold (\<lambda>d. collect_directory_sources env fs origin w (f d)) ds c) =
   fst (fold (\<lambda>d. collect_directory_sources env fs' origin w (f d)) ds c')"
proof (induction ds arbitrary: c c')
  case (Cons d ds)
  then show ?case by (simp add: collect_directory_fst)
qed simp

text \<open>Which files are collected depends on the settings directories and the configuration alone.\<close>

lemma collected_cong:
  assumes j: "dir_json env fs = dir_json env fs'" and c: "map_of fs (config_path root) = map_of fs' (config_path root)"
  shows "fst (collect_source_paths env fs root) = fst (collect_source_paths env fs' root)"
proof -
  have config: "fst (collect_config_paths env fs root x) = fst (collect_config_paths env fs' root x')" if "fst x = fst x'" for x x'
    using that by (auto simp: collect_config_paths_def read_json_cong [OF c] c Let_def intro!: collect_directories_fst [OF j]
        split: option.splits fs_node.splits sum.splits)
  have envs: "fst (collect_env_paths env fs root x) = fst (collect_env_paths env fs' root x')" if "fst x = fst x'" for x x'
    using that by (auto simp: collect_env_paths_def Let_def intro!: collect_directories_fst [OF j] split: option.splits)
  show ?thesis unfolding collect_source_paths_def by (intro envs config) (simp add: collect_directory_fst j)
qed

lemma dir_json_put_file: "map_of fs t = Some (File x) \<Longrightarrow> dir_json env (fs_put t (File y) fs) = dir_json env fs"
  by (rule ext) (auto simp: dir_json_def read_dir_def is_json_file_def fs_put_keys intro!: filter_cong)

lemma namespace_lock_no_json: "\<not> is_json_file env fs (namespace_lock_path root)"
proof -
  have "path_file_name (namespace_lock_path root) = Some ''.mcp-settings.namespace.mcpace.lock''"
    using name_of_child [of "''.mcp-settings.namespace.mcpace.lock''" "runtime_dir root"] by (simp add: namespace_lock_path_def)
  moreover have "rsplit_once CHR ''.'' ''.mcp-settings.namespace.mcpace.lock'' = Some (''.mcp-settings.namespace.mcpace'', ''lock'')"
    "\<not> eq_ignore_ascii_case ''lock'' ''json''" by code_simp+
  ultimately show ?thesis by (simp add: is_json_file_def path_extension_def)
qed

lemma dir_json_locked:
  assumes "map_of fs (namespace_lock_path root) = None"
  shows "dir_json env (fs @ [(namespace_lock_path root, File x)]) = dir_json env fs"
proof
  fix d
  let ?l = "namespace_lock_path root" and ?fs = "fs @ [(namespace_lock_path root, File x)]"
  have "is_json_file env ?fs p = is_json_file env fs p" for p
  proof (cases "p = ?l")
    case False
    then show ?thesis by (auto simp: is_json_file_def map_add_def split: option.splits)
  qed (simp add: namespace_lock_no_json)
  then show "dir_json env ?fs d = dir_json env fs d"
    using assms namespace_lock_no_json [of env fs] by (auto simp: dir_json_def read_dir_def map_add_def split: option.splits)
qed

lemma config_not_lock: "config_path root \<noteq> namespace_lock_path root"
proof -
  have "last (config_path root) = CHR ''n''" "last (namespace_lock_path root) = CHR ''k''"
    by (simp_all add: config_path_def path_join_def namespace_lock_path_def starts_with_def)
  then show ?thesis by auto
qed

section \<open>The registry after an edit\<close>

text \<open>What is asked of the JSON printer and parser: what is read is well-formed, and what is printed reads back.\<close>

definition json_codec :: "fs_env \<Rightarrow> bool" where
  "json_codec env \<longleftrightarrow>
     (\<forall>t v. fe_parse env t = Inr v \<longrightarrow> json_ok v) \<and> (\<forall>v. json_ok v \<longrightarrow> fe_parse env (fe_pretty env v @ [LF]) = Inr v)"

lemma json_codec_reads: "json_codec env \<Longrightarrow> fe_parse env t = Inr v \<Longrightarrow> json_ok v"
  by (simp add: json_codec_def)

lemma json_codec_prints: "json_codec env \<Longrightarrow> json_ok v \<Longrightarrow> fe_parse env (fe_pretty env v @ [LF]) = Inr v"
  by (simp add: json_codec_def)

text \<open>An edit that finds the key of the server and changes the servers in one way.\<close>

definition edited ::
  "fs_env \<Rightarrow> string \<Rightarrow> (string \<Rightarrow> json_map \<Rightarrow> json_map \<Rightarrow> bool) \<Rightarrow> string \<Rightarrow> file_system \<Rightarrow> json \<Rightarrow> bool" where
  "edited env n change t fs v \<longleftrightarrow>
     (\<exists>ro key servers k servers'. settings_source_is_regular_file env fs t = Inr True \<and> read_json env fs t = Inr (JObject ro) \<and>
        existing_servers_object_mut ro t = Inr (key, servers) \<and> find_server_key n servers = Some k \<and>
        change k servers servers' \<and> v = JObject (bt_insert key (JObject servers') ro))"

lemma read_json_ok: "json_codec env \<Longrightarrow> read_json env fs t = Inr v \<Longrightarrow> json_ok v"
  by (auto simp: read_json_def read_json_file_def split: sum.splits if_splits dest: json_codec_reads)

lemma existing_servers:
  assumes "existing_servers_object_mut ro t = Inr (key, servers)"
  shows "mcp_servers_object (JObject ro) = Some servers"
    "mcp_servers_object (JObject (bt_insert key (JObject servers') ro)) = Some servers'" "map_of ro key = Some (JObject servers)"
  using assms
  by (auto simp: existing_servers_object_mut_def servers_object_mut_def mcp_servers_object_def mcp_servers_object_with_key_def
      object_at_path_def split: if_splits option.splits json.splits)

lemma source_servers_cong:
  assumes "map_of fs p = map_of fs' p"
  shows "source_servers env fs p = source_servers env fs' p"
  by (simp only: source_servers_def settings_source_is_regular_file_def assms read_json_cong [OF assms])

lemma held: "e \<in> set (source_servers env fs p) \<Longrightarrow> holds_server env fs (normalize_server_name (fst e)) p"
proof -
  assume e: "e \<in> set (source_servers env fs p)"
  then have r: "settings_source_is_regular_file env fs p = Inr True" 
    by (cases "settings_source_is_regular_file env fs p = Inr True") (simp_all add: source_servers_def)
  with e obtain v where v: "read_json env fs p = Inr v" by (cases "read_json env fs p") (simp_all add: source_servers_def)
  with e r obtain servers where "mcp_servers_object v = Some servers" "e \<in> set servers"
    by (cases "mcp_servers_object v") (simp_all add: source_servers_def unwrap_or_def)
  then show ?thesis using r v by (auto simp: holds_server_def list_ex_iff intro: bexI [of _ e])
qed

lemma not_held: "\<not> holds_server env fs n p \<Longrightarrow> map_of (rev (servers_offered p (source_servers env fs p))) n = None"
  by (auto simp: map_of_eq_None_iff servers_offered_def dest!: held)

lemma map_of_rev_concat:
  "t \<in> set ps \<Longrightarrow> \<forall>p \<in> set ps. p \<noteq> t \<longrightarrow> map_of (rev (g p)) n = None \<Longrightarrow>
   map_of (rev (concat (map g ps))) n = map_of (rev (g t)) n"
proof (induction ps)
  case (Cons p ps)
  show ?case
  proof (cases "t \<in> set ps")
    case True
    then show ?thesis using Cons by (cases "p = t") (auto simp: map_add_def split: option.split)
  next
    case False
    then have "map_of (rev (concat (map g ps))) n = None"
      using Cons.prems by (force simp: map_of_eq_None_iff)
    then show ?thesis using False Cons.prems by (auto simp: map_add_def)
  qed
qed simp

text \<open>After a successful edit without an explicit path, the registry has under the name of the server what its own file offers.\<close>

lemma edited_load:
  assumes codec: "json_codec env" and old: "map_of fs t = Some (File x0)" and t: "t \<noteq> config_path root"
    and nolock: "map_of fs (namespace_lock_path root) = None"
    and target: "choose_target env root name None (fs @ [(namespace_lock_path root, File x)]) = Inr t"
    and n: "n = normalize_server_name (trim name)"
    and edit: "edited env n change t (fs @ gs) v" "fs' = fs_put t (File (fe_pretty env v @ [LF])) fs"
    and change: "\<forall>k m m'. change k m m' \<and> map_ok m \<longrightarrow> map_ok m'"
    and small: "length (fe_pretty env v @ [LF]) \<le> MAX_JSON_FILE_BYTES"
  shows "\<exists>k servers'. map_ok (source_servers env fs t) \<and> find_server_key n (source_servers env fs t) = Some k \<and>
    change k (source_servers env fs t) servers' \<and>
    map_of (mr_servers (load_mcp_server_registry env fs' root)) n = map_of (rev (servers_offered t servers')) n"
proof -
  let ?l = "namespace_lock_path root"
  let ?fs1 = "fs @ [(?l, File x)]"
  let ?S = "map so_path (fst (collect_source_paths env fs' root))"
  have at: "map_of (fs @ gs) t = map_of fs t" using old by (simp add: map_add_def split: option.split)
  obtain ro key servers k servers' where e: "settings_source_is_regular_file env fs t = Inr True" "read_json env fs t = Inr (JObject ro)"
      "existing_servers_object_mut ro t = Inr (key, servers)" "find_server_key n servers = Some k" "change k servers servers'"
      "v = JObject (bt_insert key (JObject servers') ro)"
    using edit(1) unfolding edited_def settings_source_is_regular_file_def at read_json_cong [OF at] by blast
  note ex = existing_servers [OF e(3)]
  have s: "source_servers env fs t = servers" using e ex by (simp add: source_servers_def unwrap_or_def)
  have ok: "map_ok ro" "map_ok servers" using read_json_ok [OF codec e(2)] map_ok_lookup [OF _ ex(3)] by auto
  have "json_ok v" using ok change e(5) by (auto simp: e(6))
  then have "read_json env fs' t = Inr v"
    using small e(2) json_codec_prints [OF codec]
    by (auto simp: edit(2) read_json_def read_json_file_def open_text_def old split: option.splits)
  moreover have "settings_source_is_regular_file env fs' t = Inr True"
    using e(1) by (auto simp: edit(2) settings_source_is_regular_file_def old split: option.splits)
  ultimately have s': "source_servers env fs' t = servers'" using ex by (simp add: source_servers_def unwrap_or_def e(6))
  have "dir_json env ?fs1 = dir_json env fs'"
    using dir_json_locked [OF nolock] dir_json_put_file [OF old] by (simp add: edit(2))
  then have same: "fst (collect_source_paths env ?fs1 root) = fst (collect_source_paths env fs' root)"
    using t config_not_lock by (intro collected_cong) (auto simp: edit(2) map_add_def split: option.split)
  have "source_paths_for_normalized_server env ?fs1 root n = [t]"
    using target by (auto simp: choose_target_def find_source_path_for_server_def n split: sum.splits list.splits option.splits)
  then have "set (filter (holds_server env ?fs1 n) ?S) = {t}"
    unfolding source_paths_for_normalized_server_def same by (metis list.set(1) list.simps(15) sorted_unique_spec(3))
  then have S: "t \<in> set ?S" "\<And>p. p \<in> set ?S \<Longrightarrow> p \<noteq> t \<Longrightarrow> \<not> holds_server env ?fs1 n p" by auto
  have others: "map_of (rev (servers_offered p (source_servers env fs' p))) n = None" if "p \<in> set ?S" "p \<noteq> t" for p
  proof (cases "p = ?l")
    case True
    then have "source_servers env fs' p = []"
      using nolock that(2) by (auto simp: source_servers_def edit(2) settings_source_is_regular_file_def split: option.splits)
    then show ?thesis by (simp add: servers_offered_def)
  next
    case False
    then have "map_of fs' p = map_of ?fs1 p" using that(2) by (simp add: edit(2) map_add_def split: option.split)
    from source_servers_cong [OF this] show ?thesis using not_held [OF S(2) [OF that]] by simp
  qed
  have "map_of (mr_servers (load_mcp_server_registry env fs' root)) n = map_of (rev (servers_offered t servers')) n"
    unfolding load_servers offered_def using map_of_rev_concat [OF S(1), of "\<lambda>p. servers_offered p (source_servers env fs' p)"] others
    by (simp add: s')
  then show ?thesis using e s ok by blast
qed

lemma locked_edit_value:
  "locked_edit env root dry_run target_of edit fs = (Inr r, fs') \<Longrightarrow> \<exists>target fs1 fs2. edit target fs1 = (Inr r, fs2)"
  by (auto simp: locked_edit_def with_lock_def split: if_splits prod.splits sum.splits)

lemma usable: "usable_name command name = None \<Longrightarrow> normalize_server_name (trim name) \<noteq> []"
  by (auto simp: usable_name_def split: if_splits)

lemma read_existing:
  "read_existing_settings env fs t = Inr v \<Longrightarrow> settings_source_is_regular_file env fs t = Inr True \<and> read_json env fs t = Inr v"
  by (auto simp: read_existing_settings_def regular_settings_def settings_source_is_regular_file_def split: option.splits fs_node.splits)

lemma find_server_key_Some:
  "find_server_key n m = Some k \<Longrightarrow> normalize_server_name k = n \<and> (\<exists>v. (k, v) \<in> set m)"
  by (auto simp: find_server_key_def find_Some_iff) (metis fst_conv nth_mem surj_pair)

lemma map_of_rev_unique:
  "(n, e) \<in> set xs \<Longrightarrow> (\<And>e'. (n, e') \<in> set xs \<Longrightarrow> e' = e) \<Longrightarrow> map_of (rev xs) n = Some e"
  by (metis map_of_SomeD set_rev weak_map_of_SomeI)

lemma other_key:
  assumes "length (filter (\<lambda>(k, _). normalize_server_name k = n) m) \<le> 1" "(k, v) \<in> set m" "(k', v') \<in> set m"
    "normalize_server_name k = n" "normalize_server_name k' = n"
  shows "k' = k"
proof -
  let ?m = "filter (\<lambda>(k, _). normalize_server_name k = n) m"
  have "(k, v) \<in> set ?m" "(k', v') \<in> set ?m" using assms by auto
  then show ?thesis using assms(1) by (cases ?m) auto
qed

definition toggles :: "bool \<Rightarrow> string \<Rightarrow> json_map \<Rightarrow> json_map \<Rightarrow> bool" where
  "toggles enabled k m m' \<longleftrightarrow> (\<exists>so. map_of m k = Some (JObject so) \<and> m' = bt_insert k (JObject (toggled enabled so)) m)"

lemma toggled_ok: "map_ok m \<Longrightarrow> map_ok (toggled enabled m)"
  by (simp add: toggled_def Let_def)

lemma toggles_ok: "\<forall>k m m'. toggles enabled k m m' \<and> map_ok m \<longrightarrow> map_ok m'"
  by (auto simp: toggles_def intro!: map_ok_insert toggled_ok dest: map_ok_lookup)

lemma toggled_enabled: "source_enabled_from_mcp_settings (JObject (toggled enabled m)) = enabled"
  by (simp add: source_enabled_from_mcp_settings_def toggled_def Let_def json_path)

lemma edit_toggle_path: "edit_toggle env opts t fs = (Inr r, fs1) \<Longrightarrow> tr_path r = t \<and> tr_normalized_name r = normalize_server_name (trim (to_name opts))"
  by (auto simp: edit_toggle_def Let_def split: sum.splits json.splits option.splits prod.splits if_splits)

lemmas toggle_path = conjunct1 [OF edit_toggle_path] and toggle_name = conjunct2 [OF edit_toggle_path]

lemma edit_toggle_edited:
  assumes "edit_toggle env opts t fs = (Inr r, fs1)" "\<not> to_dry_run opts" "dirs_present fs (path_parent t)"
  shows "\<exists>v. fs1 = fs_put t (File (fe_pretty env v @ [LF])) fs \<and>
    edited env (normalize_server_name (trim (to_name opts))) (toggles (to_enabled opts)) t fs v"
  using assms(1,2)
  by (auto simp: edit_toggle_def Let_def edited_def toggles_def
      split: sum.splits json.splits option.splits prod.splits dest!: read_existing save_settings_result [OF _ assms(3)])

definition removes :: "string \<Rightarrow> json_map \<Rightarrow> json_map \<Rightarrow> bool" where
  "removes k m m' \<longleftrightarrow> m' = bt_remove k m"

lemma removes_ok: "\<forall>k m m'. removes k m m' \<and> map_ok m \<longrightarrow> map_ok m'"
  by (simp add: removes_def)

lemma edit_remove_path: "edit_remove env opts t fs = (Inr r, fs1) \<Longrightarrow> xr_path r = t \<and> xr_normalized_name r = normalize_server_name (trim (xo_name opts))"
  by (auto simp: edit_remove_def Let_def split: sum.splits json.splits option.splits prod.splits if_splits)

lemmas remove_path = conjunct1 [OF edit_remove_path] and remove_name = conjunct2 [OF edit_remove_path]

lemma edit_remove_edited:
  assumes "edit_remove env opts t fs = (Inr r, fs1)" "\<not> xo_dry_run opts" "dirs_present fs (path_parent t)"
  shows "\<exists>v. fs1 = fs_put t (File (fe_pretty env v @ [LF])) fs \<and>
    edited env (normalize_server_name (trim (xo_name opts))) removes t fs v"
  using assms(1,2)
  by (auto simp: edit_remove_def Let_def edited_def removes_def
      split: sum.splits json.splits option.splits prod.splits dest!: read_existing save_settings_result [OF _ assms(3)])

end
