(* ===== verification/Settings_Example.thy ===== *)
theory Settings_Example
  imports Settings_Write_Properties "HOL-Library.Countable"
begin

text \<open>
  A small installation: the root file configures one server, and the texts of JSON values are numbered so that every value
  reads back from its text. The two values at hand have texts of one character.
\<close>

instance json :: countable by countable_datatype

definition with_server :: json where
  "with_server = JObject [(''mcpServers'', JObject [(''a'', JObject [])])]"

definition with_server_off :: json where
  "with_server_off = JObject [(''mcpServers'', JObject [(''a'', JObject [(''disabled'', JBool True), (''enabled'', JBool False)])])]"

definition without_server :: json where
  "without_server = JObject [(''mcpServers'', JObject [])]"

definition numbered_text :: "json \<Rightarrow> string" where
  "numbered_text v = replicate (to_nat v) CHR ''x''"

definition numbered_json :: "string \<Rightarrow> string + json" where
  "numbered_json s = (let v = from_nat (length s) in if json_ok v then Inr v else Inl [])"

definition sample_pretty :: "json \<Rightarrow> string" where
  "sample_pretty v =
     (if v = with_server then ''1'' else if v = with_server_off then ''2'' else if v = without_server then ''3''
      else ''4'' @ numbered_text v)"

definition sample_parse :: "string \<Rightarrow> string + json" where
  "sample_parse t =
     (if t = ''1'' @ [LF] then Inr with_server else if t = ''2'' @ [LF] then Inr with_server_off
      else if t = ''3'' @ [LF] then Inr without_server
      else if t \<noteq> [] \<and> hd t = CHR ''4'' then numbered_json (tl (butlast t)) else Inl [])"

declare numbered_text_def [code del] numbered_json_def [code del]

definition sample_fs_env :: fs_env where
  "sample_fs_env =
     \<lparr>fe_error = (\<lambda>_ _. None), fe_pid = 7, fe_time_ms = (\<lambda>_. 1), fe_counter = id, fe_partial = 1, fe_canonical = Some,
      fe_parse = sample_parse, fe_pretty = sample_pretty, fe_var = (\<lambda>_. None)\<rparr>"

definition sample_file :: string where
  "sample_file = ''/r/mcp_settings.json''"

definition sample_fs :: file_system where
  "sample_fs = [(''/r'', Dir), (''/r/data'', Dir), (''/r/data/runtime'', Dir), (sample_file, File (''1'' @ [LF]))]"

lemma sample_codec: "json_codec sample_fs_env"
  by (auto simp: json_codec_def sample_fs_env_def sample_parse_def sample_pretty_def numbered_text_def numbered_json_def Let_def
      with_server_def with_server_off_def without_server_def map_ok_def bt_ok_def butlast_append split: if_splits)

lemma sample_read: "map_of fs p = Some (File [c, LF]) \<Longrightarrow> read_json sample_fs_env fs p = map_sum (\<lambda>e. json_file_error_display p (ParseError e)) id (sample_parse [c, LF])"
  by (simp add: read_json_def read_json_file_def open_text_def sample_fs_env_def MAX_JSON_FILE_BYTES_def split: sum.split)

definition sample_locked :: file_system where
  "sample_locked = snd (acquire_mcp_settings_namespace_lock sample_fs_env ''/r'' sample_fs)"

definition sample_locked2 :: file_system where
  "sample_locked2 = snd (settings_lock sample_fs_env sample_file sample_locked)"

lemma sample_locks:
  "acquire_mcp_settings_namespace_lock sample_fs_env ''/r'' sample_fs = (Inr (namespace_lock_path ''/r''), sample_locked)"
  "settings_lock sample_fs_env sample_file sample_locked = (Inr ''/r/.mcp_settings.json.mcpace.lock'', sample_locked2)"
  by (simp_all only: sample_locked_def sample_locked2_def prod_eq_iff fst_conv snd_conv simp_thms) code_simp+

lemma sample_gets:
  "map_of sample_locked sample_file = Some (File [CHR ''1'', LF])" "map_of sample_locked2 sample_file = Some (File [CHR ''1'', LF])"
  by code_simp+

lemma sample_parses: "sample_parse [CHR ''1'', LF] = Inr with_server"
  by (simp add: sample_parse_def)

lemma sample_sources: "map so_path (fst (collect_source_paths sample_fs_env sample_locked ''/r'')) = [sample_file]"
  by code_simp

lemma sample_names:
  "normalize_server_name (trim ''A'') = ''a''" "normalize_server_name ''a'' = ''a''" "usable_name command ''A'' = None"
  by (code_simp, code_simp, simp add: usable_name_def) code_simp

lemma sample_regular: "map_of fs p = Some (File t) \<Longrightarrow> settings_source_is_regular_file sample_fs_env fs p = Inr True"
  by (simp add: settings_source_is_regular_file_def sample_fs_env_def)

lemma sample_servers: "mcp_servers_object with_server = Some [(''a'', JObject [])]"
  by code_simp

lemma sample_target: "choose_target sample_fs_env ''/r'' ''A'' None sample_locked = Inr sample_file"
proof -
  have "holds_server sample_fs_env sample_locked ''a'' sample_file"
    by (simp add: holds_server_def sample_regular [OF sample_gets(1)] sample_read [OF sample_gets(1)] sample_parses sample_servers sample_names)
  then show ?thesis
    by (simp add: choose_target_def find_source_path_for_server_def source_paths_for_normalized_server_def sample_names sample_sources
        sorted_unique_def)
qed

lemma sample_settings_read: "read_existing_settings sample_fs_env sample_locked2 sample_file = Inr with_server"
proof -
  have "fe_error sample_fs_env ''inspect source'' sample_file = None" by (simp add: sample_fs_env_def)
  then show ?thesis
    by (simp add: read_existing_settings_def regular_settings_def sample_gets sample_read [OF sample_gets(2)] sample_parses)
qed

text \<open>An edit of the sample with both locks, given what it does to the locked files.\<close>

definition sample_unlock :: "file_system \<Rightarrow> file_system" where
  "sample_unlock fs = drop_lock sample_fs_env (namespace_lock_path ''/r'') (drop_lock sample_fs_env ''/r/.mcp_settings.json.mcpace.lock'' fs)"

lemma sample_edit:
  "edit sample_file sample_locked2 = (Inr r, fs) \<Longrightarrow>
   locked_edit sample_fs_env ''/r'' False (choose_target sample_fs_env ''/r'' ''A'' None) edit sample_fs = (Inr r, sample_unlock fs)"
  by (simp add: locked_edit_def with_lock_def sample_locks sample_target sample_unlock_def)

definition sample_toggle :: mcp_server_toggle_options where
  "sample_toggle = \<lparr>to_name = ''A'', to_settings_path = None, to_enabled = False, to_dry_run = False\<rparr>"

definition sample_remove :: mcp_server_remove_options where
  "sample_remove = \<lparr>xo_name = ''A'', xo_settings_path = None, xo_dry_run = False\<rparr>"

definition sample_saved :: "json \<Rightarrow> file_system" where
  "sample_saved v = snd (save_settings sample_fs_env sample_file v sample_locked2)"

lemma sample_saves:
  "save_settings sample_fs_env sample_file with_server_off sample_locked2 = (Inr (), sample_saved with_server_off)"
  "save_settings sample_fs_env sample_file without_server sample_locked2 = (Inr (), sample_saved without_server)"
  by (simp_all only: sample_saved_def prod_eq_iff fst_conv snd_conv simp_thms) code_simp+

lemma sample_server_key:
  "existing_servers_object_mut [(''mcpServers'', JObject [(''a'', JObject [])])] p = Inr (''mcpServers'', [(''a'', JObject [])])"
  "find_server_key ''a'' [(''a'', JObject [])] = Some ''a''"
  by (simp_all add: existing_servers_object_mut_def servers_object_mut_def find_server_key_def sample_names)

lemma sample_toggle_edit:
  "\<exists>r. edit_toggle sample_fs_env sample_toggle sample_file sample_locked2 = (Inr r, sample_saved with_server_off) \<and>
     tr_path r = sample_file \<and> tr_normalized_name r = ''a''"
  using sample_saves(1)
  by (simp add: edit_toggle_def sample_toggle_def sample_names sample_settings_read with_server_def sample_server_key with_server_off_def toggled_def Let_def)

lemma sample_remove_edit:
  "\<exists>r. edit_remove sample_fs_env sample_remove sample_file sample_locked2 = (Inr r, sample_saved without_server) \<and>
     xr_path r = sample_file \<and> xr_normalized_name r = ''a''"
  using sample_saves(2)
  by (simp add: edit_remove_def sample_remove_def sample_names sample_settings_read with_server_def sample_server_key without_server_def bt_remove_def Let_def)

lemma sample_unlocked:
  "map_of (sample_unlock (sample_saved with_server_off)) sample_file = Some (File (''2'' @ [LF]))"
  "map_of (sample_unlock (sample_saved without_server)) sample_file = Some (File (''3'' @ [LF]))"
  by code_simp+

lemma sample_dirs:
  "dirs_present sample_fs (runtime_dir ''/r'')" "dirs_present sample_fs (path_parent sample_file)"
  "map_of sample_fs sample_file = Some (File [CHR ''1'', LF])" "sample_file \<noteq> config_path ''/r''"
  by code_simp+

lemma sample_unique:
  "length (filter (\<lambda>(k, _). normalize_server_name k = ''a'') (source_servers sample_fs_env sample_fs sample_file)) \<le> 1"
  by (simp add: source_servers_def sample_regular [OF sample_dirs(3)] sample_read [OF sample_dirs(3)] sample_parses sample_servers unwrap_or_def)

end
