(* ===== verification/Settings_Effects.thy ===== *)
theory Settings_Effects
  imports Settings_Example
begin

text \<open>
  The edits of the settings seen from the registry: what a successful edit reports is what the next load shows.
\<close>



text \<open>A removed server is gone. After a successful \<open>server remove\<close> that named no file, nothing but the file of the server
  has changed, and the registry loaded next has no server of that name, under the conditions under which switching a server
  takes effect.\<close>

lemma remove_takes_effect:
  assumes s: "remove_mcp_server_entry env root opts fs = (Inr r, fs')" "\<not> xo_dry_run opts" "xo_settings_path opts = None"
    and e: "json_codec env" "\<forall>p. fe_error env ''remove'' p = None"
    and d: "dirs_present fs (runtime_dir root)" "dirs_present fs (path_parent (xr_path r))"
      "map_of fs (xr_path r) = Some (File old)" "xr_path r \<noteq> config_path root"
    and small: "\<forall>c. map_of fs' (xr_path r) = Some (File c) \<longrightarrow> length c \<le> MAX_JSON_FILE_BYTES"
    and unique: "length (filter (\<lambda>(k, _). normalize_server_name k = xr_normalized_name r) (source_servers env fs (xr_path r))) \<le> 1"
  shows "(\<exists>c. fs' = fs_put (xr_path r) (File c) fs) \<and>
    map_of (mr_servers (load_mcp_server_registry env fs' root)) (xr_normalized_name r) = None"
proof -
  let ?n = "normalize_server_name (trim (xo_name opts))" and ?t = "xr_path r"
  have l: "locked_edit env root False (choose_target env root (xo_name opts) None) (edit_remove env opts) fs = (Inr r, fs')"
    using s by (simp add: remove_mcp_server_entry_def split: option.splits)
  obtain x l2 y v where f: "map_of fs (namespace_lock_path root) = None"
    "choose_target env root (xo_name opts) None (fs @ [(namespace_lock_path root, File x)]) = Inr ?t"
    "edited env ?n removes ?t (fs @ [(namespace_lock_path root, File x), (l2, File y)]) v"
    "fs' = fs_put ?t (File (fe_pretty env v @ [LF])) fs"
    by (rule locked_edit_result [where path_of = xr_path and P = "edited env ?n removes",
          OF l remove_path edit_remove_edited [OF _ s(2)] d(1,2)]) (use d(3) e(2) in auto)
  have n: "xr_normalized_name r = ?n" using locked_edit_value [OF l] remove_name by blast
  obtain k where k: "find_server_key ?n (source_servers env fs ?t) = Some k" and
    reg: "map_of (mr_servers (load_mcp_server_registry env fs' root)) ?n =
      map_of (rev (servers_offered ?t (bt_remove k (source_servers env fs ?t)))) ?n"
    using edited_load [OF e(1) d(3) d(4) f(1) f(2) refl f(3) f(4) removes_ok] small f(4) by (auto simp: removes_def)
  have "map_of (rev (servers_offered ?t (bt_remove k (source_servers env fs ?t)))) ?n = None"
    using find_server_key_Some [OF k] other_key [OF unique [unfolded n]]
    by (auto simp: servers_offered_def bt_remove_def map_of_eq_None_iff)
  then show ?thesis using reg f(4) by (auto simp: n)
qed

section \<open>Two keys for one server\<close>

text \<open>The condition on the keys is needed. Of two keys that normalise to the same name an edit takes the first, and the registry
  the last: switching the server off reports success and leaves it on.\<close>

lemma two_keys_edit_misses:
  "find_server_key ''foo'' [(''Foo'', a), (''foo'', b)] = Some ''Foo'' \<and>
   map_option me_value (map_of (rev (servers_offered p (bt_insert ''Foo'' (JObject (toggled False so)) [(''Foo'', a), (''foo'', b)]))) ''foo'') = Some b"
proof -
  have n: "normalize_server_name ''Foo'' = ''foo''" "normalize_server_name ''foo'' = ''foo''" by code_simp+
  have "bt_insert ''Foo'' v [(''Foo'', a), (''foo'', b)] = [(''Foo'', v), (''foo'', b)]" for v by simp
  then show ?thesis by (simp add: find_server_key_def servers_offered_def n)
qed

end
