(* ===== verification/Proxy_Uri.thy ===== *)
theory Proxy_Uri
  imports Text_Search Execution_Affinity Json
begin

text \<open>
  URIs of proxied resources (\<^verbatim>\<open>src/adapter/proxy_uri.rs\<close>): the name of the server and the URI of its resource, each in hexadecimal,
  behind the scheme of the hub. The texts that \<open>String::from_utf8\<close> reports are an argument.
\<close>

definition PROXIED_RESOURCE_SCHEME :: string where "PROXIED_RESOURCE_SCHEME = ''mcpace://upstream-resource''"

datatype proxy_resource_uri_error =
    NotProxied string
  | MissingPayload string
  | InvalidHexLength
  | InvalidHexByte char
  | ServerUtf8 string
  | UriUtf8 string

text \<open>A byte as a character: its UTF-8 form.\<close>

definition latin1 :: "char \<Rightarrow> string" where
  "latin1 b = (if code b < 128 then [b] else [char_of (192 + code b div 64), char_of (128 + code b mod 64)])"

fun proxy_uri_error_display :: "proxy_resource_uri_error \<Rightarrow> string" where
  "proxy_uri_error_display (NotProxied uri) =
     ''resource uri '' @ [CHR 0x27] @ uri @ [CHR 0x27] @ '' is not a MCPace proxied upstream resource''"
| "proxy_uri_error_display (MissingPayload uri) =
     ''resource uri '' @ [CHR 0x27] @ uri @ [CHR 0x27] @ '' is missing upstream server or payload''"
| "proxy_uri_error_display InvalidHexLength = ''hex payload length must be even''"
| "proxy_uri_error_display (InvalidHexByte b) = ''invalid hex byte '' @ [CHR 0x27] @ latin1 b @ [CHR 0x27]"
| "proxy_uri_error_display (ServerUtf8 e) = ''proxied resource server is not UTF-8: '' @ e"
| "proxy_uri_error_display (UriUtf8 e) = ''proxied resource uri is not UTF-8: '' @ e"

definition hex_encode :: "string \<Rightarrow> string" where
  "hex_encode bytes = concat (map (\<lambda>b. [hex_char (code b div 16), hex_char (code b mod 16)]) bytes)"

definition encode_resource_uri :: "string \<Rightarrow> string \<Rightarrow> string" where
  "encode_resource_uri server upstream_uri =
     PROXIED_RESOURCE_SCHEME @ ''/'' @ hex_encode server @ ''/'' @ hex_encode upstream_uri"

definition proxy_hex_value :: "char \<Rightarrow> proxy_resource_uri_error + nat" where
  "proxy_hex_value byte =
     (if is_digit byte then Inr (code byte - 48)
      else if 97 \<le> code byte \<and> code byte \<le> 102 then Inr (code byte - 97 + 10)
      else if 65 \<le> code byte \<and> code byte \<le> 70 then Inr (code byte - 65 + 10)
      else Inl (InvalidHexByte byte))"

fun hex_pairs :: "string \<Rightarrow> proxy_resource_uri_error + string" where
  "hex_pairs (h # l # rest) =
     (case proxy_hex_value h of
        Inl e \<Rightarrow> Inl e
      | Inr a \<Rightarrow>
          (case proxy_hex_value l of
             Inl e \<Rightarrow> Inl e
           | Inr b \<Rightarrow> map_sum id (\<lambda>bs. char_of (a * 16 + b) # bs) (hex_pairs rest)))"
| "hex_pairs _ = Inr []"

definition hex_decode :: "string \<Rightarrow> proxy_resource_uri_error + string" where
  "hex_decode v = (if odd (length v) then Inl InvalidHexLength else hex_pairs v)"

definition decode_resource_uri ::
  "(string \<Rightarrow> string) \<Rightarrow> string \<Rightarrow> proxy_resource_uri_error + (string \<times> string)" where
  "decode_resource_uri utf8_error v =
     (case strip_prefix (PROXIED_RESOURCE_SCHEME @ ''/'') v of
        None \<Rightarrow> Inl (NotProxied v)
      | Some rest \<Rightarrow>
          (case split_once CHR ''/'' rest of
             None \<Rightarrow> Inl (MissingPayload v)
           | Some (encoded_server, encoded_uri) \<Rightarrow>
               (case hex_decode encoded_server of
                  Inl e \<Rightarrow> Inl e
                | Inr server \<Rightarrow>
                    if \<not> utf8_ok server then Inl (ServerUtf8 (utf8_error server))
                    else
                      (case hex_decode encoded_uri of
                         Inl e \<Rightarrow> Inl e
                       | Inr uri \<Rightarrow> if \<not> utf8_ok uri then Inl (UriUtf8 (utf8_error uri)) else Inr (server, uri)))))"

definition maybe_meta_errors :: "json list \<Rightarrow> string \<times> json" where
  "maybe_meta_errors errors = (''_meta'', json_object [(''mcpace/errors'', JArray errors)])"

definition is_unsupported_method_error :: "string \<Rightarrow> bool" where
  "is_unsupported_method_error e =
     (let lower = to_ascii_lowercase e
      in list_ex (contains lower) [''method not found'', ''unsupported'', ''unknown method'', ''-32601''])"

section \<open>Hexadecimal\<close>

lemma hex_nibble: "d < 16 \<Longrightarrow> proxy_hex_value (hex_char d) = Inr d"
  using hex_char_digit [of d] by (auto simp: proxy_hex_value_def is_digit_def code_def split: if_splits)

lemma hex_char_no_slash: "d < 16 \<Longrightarrow> hex_char d \<noteq> CHR ''/''"
  using hex_char_digit [of d] by (auto simp: code_def split: if_splits)

lemma code_byte: "code b < 256" "char_of (code b) = b"
  by (simp_all add: code_def)

lemma hex_encode_simps [simp]: "hex_encode [] = []" "hex_encode (b # bs) = hex_char (code b div 16) # hex_char (code b mod 16) # hex_encode bs"
  by (simp_all add: hex_encode_def)

lemma hex_pairs_encode: "hex_pairs (hex_encode bs) = Inr bs"
proof (induction bs)
  case (Cons b bs)
  have "code b div 16 < 16" "code b mod 16 < 16" using code_byte(1) [of b] by auto
  then show ?case using Cons by (simp add: hex_nibble code_byte(2))
qed simp

lemma even_hex_encode: "even (length (hex_encode bs))"
  by (induction bs) auto

lemma hex_decode_encode [simp]: "hex_decode (hex_encode bs) = Inr bs"
  by (simp add: hex_decode_def even_hex_encode hex_pairs_encode)

lemma hex_encode_no_slash: "CHR ''/'' \<notin> set (hex_encode bs)"
proof (induction bs)
  case (Cons b bs)
  have "code b div 16 < 16" "code b mod 16 < 16" using code_byte(1) [of b] by auto
  then show ?case using Cons hex_char_no_slash by (metis hex_encode_simps(2) set_ConsD)
qed simp

lemma code_lower: "code (lower_char c) = (if is_upper c then code c + 32 else code c)"
  by (auto simp: lower_char_def is_upper_def code_def)

lemma hex_value_char: "proxy_hex_value c = Inr d \<longleftrightarrow> d < 16 \<and> lower_char c = hex_char d"
proof
  assume d: "proxy_hex_value c = Inr d"
  then have l: "d < 16" by (auto simp: proxy_hex_value_def is_digit_def split: if_splits)
  have "code (lower_char c) = code (hex_char d)"
    using d by (auto simp: proxy_hex_value_def is_digit_def code_lower is_upper_def hex_char_digit [OF l] split: if_splits)
  then show "d < 16 \<and> lower_char c = hex_char d" using l by (metis code_byte(2))
next
  assume d: "d < 16 \<and> lower_char c = hex_char d"
  then have "(if is_upper c then code c + 32 else code c) = (if d < 10 then 48 + d else 87 + d)"
    using hex_char_digit [of d] code_lower [of c] by simp
  then show "proxy_hex_value c = Inr d"
    using conjunct1 [OF d] by (auto simp: proxy_hex_value_def is_digit_def is_upper_def split: if_splits)
qed

lemma map_sum_Inr: "map_sum f g s = Inr y \<longleftrightarrow> (\<exists>x. s = Inr x \<and> y = g x)"
  by (cases s) auto

lemma hex_decode_short:
  "hex_decode [] = Inr bs \<longleftrightarrow> to_ascii_lowercase [] = hex_encode bs" "hex_decode [c] = Inr bs \<longleftrightarrow> to_ascii_lowercase [c] = hex_encode bs"
  by (cases bs; simp add: hex_decode_def to_ascii_lowercase_def)+

lemma hex_decode_iff: "hex_decode v = Inr bs \<longleftrightarrow> to_ascii_lowercase v = hex_encode bs"
proof (induction v arbitrary: bs rule: hex_pairs.induct)
  case (1 h l rest)
  show ?case
  proof
    assume a: "hex_decode (h # l # rest) = Inr bs"
    then obtain x y cs where x: "proxy_hex_value h = Inr x" "proxy_hex_value l = Inr y" "hex_pairs rest = Inr cs"
      "bs = char_of (x * 16 + y) # cs" "even (length rest)"
      by (auto simp: hex_decode_def map_sum_Inr split: sum.splits if_splits)
    have n: "x < 16" "y < 16" "lower_char h = hex_char x" "lower_char l = hex_char y" using x hex_value_char by auto
    have "to_ascii_lowercase rest = hex_encode cs"
      using "1.IH" [OF x(1,2), of cs] x(3,5) by (simp add: hex_decode_def)
    then show "to_ascii_lowercase (h # l # rest) = hex_encode bs"
      using n x(4) by (simp add: to_ascii_lowercase_def code_def)
  next
    assume a: "to_ascii_lowercase (h # l # rest) = hex_encode bs"
    then obtain b cs where b: "bs = b # cs" "lower_char h = hex_char (code b div 16)" "lower_char l = hex_char (code b mod 16)"
      "to_ascii_lowercase rest = hex_encode cs"
      by (cases bs) (auto simp: to_ascii_lowercase_def)
    have v: "proxy_hex_value h = Inr (code b div 16)" "proxy_hex_value l = Inr (code b mod 16)"
      using b code_byte(1) [of b] hex_value_char by auto
    have "hex_decode rest = Inr cs" using "1.IH" [OF v] b(4) by simp
    then show "hex_decode (h # l # rest) = Inr bs"
      using v b(1) code_byte(2) [of b] by (auto simp: hex_decode_def split: if_splits)
  qed
qed (simp_all only: hex_decode_short)

section \<open>Round trip\<close>

text \<open>Proxied URIs name one resource. A text decodes to a server and a URI exactly when both are valid UTF-8 and the text
  is their encoding, up to the case of the hexadecimal digits: what the hub encodes decodes to itself, two resources never
  share a URI, and nothing else is accepted.\<close>

lemma resource_uri_round_trip:
  "decode_resource_uri utf8_error v = Inr (server, uri) \<longleftrightarrow>
     utf8_ok server \<and> utf8_ok uri \<and>
     (\<exists>a b. v = PROXIED_RESOURCE_SCHEME @ ''/'' @ a @ ''/'' @ b \<and>
        to_ascii_lowercase (a @ ''/'' @ b) = hex_encode server @ ''/'' @ hex_encode uri)"
proof
  assume "decode_resource_uri utf8_error v = Inr (server, uri)"
  then obtain a b where "v = (PROXIED_RESOURCE_SCHEME @ ''/'') @ a @ CHR ''/'' # b" "hex_decode a = Inr server" "utf8_ok server"
    "hex_decode b = Inr uri" "utf8_ok uri"
    by (auto simp: decode_resource_uri_def split_once_Some split: option.splits sum.splits if_splits)
  moreover from this have "to_ascii_lowercase (a @ ''/'' @ b) = hex_encode server @ ''/'' @ hex_encode uri"
    by (simp add: hex_decode_iff to_ascii_lowercase_def) (simp add: lower_char_def is_upper_def code_def)
  ultimately show "utf8_ok server \<and> utf8_ok uri \<and>
     (\<exists>a b. v = PROXIED_RESOURCE_SCHEME @ ''/'' @ a @ ''/'' @ b \<and>
        to_ascii_lowercase (a @ ''/'' @ b) = hex_encode server @ ''/'' @ hex_encode uri)"
    by auto
next
  assume r: "utf8_ok server \<and> utf8_ok uri \<and>
     (\<exists>a b. v = PROXIED_RESOURCE_SCHEME @ ''/'' @ a @ ''/'' @ b \<and>
        to_ascii_lowercase (a @ ''/'' @ b) = hex_encode server @ ''/'' @ hex_encode uri)"
  then obtain a b where v: "v = PROXIED_RESOURCE_SCHEME @ ''/'' @ a @ ''/'' @ b"
    and l: "to_ascii_lowercase (a @ ''/'' @ b) = hex_encode server @ ''/'' @ hex_encode uri" by blast
  have slash: "lower_char (CHR ''/'') = CHR ''/''" by (simp add: lower_char_def is_upper_def code_def)
  have k: "to_ascii_lowercase a @ CHR ''/'' # to_ascii_lowercase b = hex_encode server @ CHR ''/'' # hex_encode uri"
    using l slash by (simp add: to_ascii_lowercase_def)
  have no: "CHR ''/'' \<notin> set (hex_encode server)" "CHR ''/'' \<notin> set (hex_encode uri)" by (simp_all add: hex_encode_no_slash)
  have ab: "to_ascii_lowercase a = hex_encode server \<and> to_ascii_lowercase b = hex_encode uri"
    using k no append_Cons_eq_iff [of "CHR ''/''" "hex_encode server" "hex_encode uri" "to_ascii_lowercase a" "to_ascii_lowercase b"]
    by (metis (no_types))
  have na: "CHR ''/'' \<notin> set a"
    using ab no(1) slash by (metis (no_types) imageI list.set_map to_ascii_lowercase_def)
  then have "split_once CHR ''/'' (a @ CHR ''/'' # b) = Some (a, b)" by (simp add: split_once_Some)
  moreover have "strip_prefix (PROXIED_RESOURCE_SCHEME @ ''/'') v = Some (a @ CHR ''/'' # b)" by (simp add: v)
  ultimately show "decode_resource_uri utf8_error v = Inr (server, uri)"
    using r ab hex_decode_iff [of a server] hex_decode_iff [of b uri] by (simp add: decode_resource_uri_def del: strip_prefix_Some)
qed

corollary encoded_uri_decodes:
  assumes "utf8_ok server" "utf8_ok uri"
  shows "decode_resource_uri utf8_error (encode_resource_uri server uri) = Inr (server, uri)"
proof -
  have "split_once CHR ''/'' (hex_encode server @ CHR ''/'' # hex_encode uri) = Some (hex_encode server, hex_encode uri)"
    by (simp add: split_once_Some hex_encode_no_slash)
  moreover have "strip_prefix (PROXIED_RESOURCE_SCHEME @ ''/'') (encode_resource_uri server uri) =
      Some (hex_encode server @ CHR ''/'' # hex_encode uri)" by (simp add: encode_resource_uri_def)
  ultimately show ?thesis using assms by (simp add: decode_resource_uri_def del: strip_prefix_Some)
qed

end
