(* ===== verification/Tool_Result.thy ===== *)
theory Tool_Result
  imports Diagnostics Json
begin

text \<open>
  The shape of tool results (\<^verbatim>\<open>src/tool_result.rs\<close>): the options a call may carry, the text that stands for a result, and
  what of the bridge diagnostics and of nested upstream content is kept. The environment variables and the printers of JSON
  are arguments.
\<close>

section \<open>Options\<close>

datatype tool_result_error = InvalidArgument string string | UnsupportedMode string string string | UnknownPlugin string string

definition in_quotes :: "string \<Rightarrow> string" where
  "in_quotes s = [CHR 0x27] @ s @ [CHR 0x27]"

fun tool_result_error_display :: "tool_result_error \<Rightarrow> string" where
  "tool_result_error_display (InvalidArgument _ reason) = reason"
| "tool_result_error_display (UnsupportedMode field v expected) = ''unsupported '' @ field @ '' '' @ in_quotes v @ ''; use '' @ expected"
| "tool_result_error_display (UnknownPlugin plugin supported) =
     ''unknown tokenReducerPlugins entry '' @ in_quotes plugin @ ''; supported built-ins are '' @ supported"

datatype tool_result_mode = NativeResult | CompatResult | CompactResult | SummaryResult

datatype upstream_diagnostics_mode = FullDiagnostics | SummaryDiagnostics | NoDiagnostics

datatype nested_upstream_content_mode = FullNested | CompactNested

record tool_result_options =
  ro_result_mode :: tool_result_mode
  ro_upstream_diagnostics :: upstream_diagnostics_mode
  ro_nested_upstream_content :: nested_upstream_content_mode

definition SUPPORTED_TOKEN_REDUCER_PLUGINS :: "string list" where
  "SUPPORTED_TOKEN_REDUCER_PLUGINS =
     [''mcpace.native-content.v1'', ''mcpace.summary-content.v1'', ''mcpace.compat-content.v1'', ''mcpace.compact-content.v1'',
      ''mcpace.trim-upstream-diagnostics.v1'', ''mcpace.drop-upstream-diagnostics.v1'', ''mcpace.dedupe-nested-upstream-content.v1'']"

definition normalized_token :: "string \<Rightarrow> string" where
  "normalized_token v = map (\<lambda>c. if c = CHR ''_'' then CHR ''-'' else c) (to_ascii_lowercase (trim v))"

definition parse_result_mode :: "string \<Rightarrow> tool_result_error + tool_result_mode" where
  "parse_result_mode v =
     (let t = normalized_token v
      in if t \<in> {''native'', ''passthrough'', ''direct'', ''auto''} then Inr NativeResult
         else if t \<in> {''compat'', ''compatible'', ''pretty'', ''full''} then Inr CompatResult
         else if t \<in> {''compact'', ''json''} then Inr CompactResult
         else if t \<in> {''summary'', ''summarized'', ''brief''} then Inr SummaryResult
         else Inl (UnsupportedMode ''resultMode'' t ''native, compat, compact, or summary''))"

definition parse_diagnostics_mode :: "string \<Rightarrow> tool_result_error + upstream_diagnostics_mode" where
  "parse_diagnostics_mode v =
     (let t = normalized_token v
      in if t \<in> {''full'', ''all'', ''compat''} then Inr FullDiagnostics
         else if t \<in> {''summary'', ''summarized'', ''brief''} then Inr SummaryDiagnostics
         else if t \<in> {''none'', ''off'', ''minimal'', ''native'', ''false''} then Inr NoDiagnostics
         else Inl (UnsupportedMode ''diagnostics mode'' t ''full, summary, or none''))"

definition parse_nested_content_mode :: "string \<Rightarrow> tool_result_error + nested_upstream_content_mode" where
  "parse_nested_content_mode v =
     (let t = normalized_token v
      in if t \<in> {''full'', ''all'', ''compat''} then Inr FullNested
         else if t \<in> {''compact'', ''summary'', ''summarized'', ''dedupe'', ''deduplicated'', ''native''} then Inr CompactNested
         else Inl (UnsupportedMode ''nestedContent mode'' t ''full or compact''))"

definition mode_from_env :: "(string \<Rightarrow> tool_result_error + 'a) \<Rightarrow> 'a \<Rightarrow> string option \<Rightarrow> 'a" where
  "mode_from_env parse fallback v =
     (case v of None \<Rightarrow> fallback | Some s \<Rightarrow> (case parse s of Inr m \<Rightarrow> m | Inl _ \<Rightarrow> fallback))"

definition default_tool_result_options :: "(string \<Rightarrow> string option) \<Rightarrow> tool_result_options" where
  "default_tool_result_options var =
     \<lparr>ro_result_mode = mode_from_env parse_result_mode NativeResult (var ''MCPACE_TOOL_RESULT_MODE''),
      ro_upstream_diagnostics = mode_from_env parse_diagnostics_mode NoDiagnostics (var ''MCPACE_UPSTREAM_DIAGNOSTICS''),
      ro_nested_upstream_content = mode_from_env parse_nested_content_mode CompactNested (var ''MCPACE_NESTED_UPSTREAM_CONTENT'')\<rparr>"

fun first_string_argument :: "json \<Rightarrow> string list \<Rightarrow> string option" where
  "first_string_argument arguments [] = None"
| "first_string_argument arguments (key # keys) =
     (case string_at_path arguments [key] of Some v \<Rightarrow> Some v | None \<Rightarrow> first_string_argument arguments keys)"

definition apply_builtin_token_reducer ::
  "string \<Rightarrow> bool \<Rightarrow> tool_result_options \<Rightarrow> tool_result_error + tool_result_options" where
  "apply_builtin_token_reducer plugin_name strict opts =
     (let t = normalized_token plugin_name
      in if t \<in> {''mcpace.native-content.v1'', ''native-content'', ''native''} then Inr (opts\<lparr>ro_result_mode := NativeResult\<rparr>)
         else if t \<in> {''mcpace.summary-content.v1'', ''summary-content''} then Inr (opts\<lparr>ro_result_mode := SummaryResult\<rparr>)
         else if t \<in> {''mcpace.compat-content.v1'', ''compat-content''} then Inr (opts\<lparr>ro_result_mode := CompatResult\<rparr>)
         else if t \<in> {''mcpace.compact-content.v1'', ''compact-content''} then Inr (opts\<lparr>ro_result_mode := CompactResult\<rparr>)
         else if t \<in> {''mcpace.trim-upstream-diagnostics.v1'', ''trim-upstream-diagnostics''}
         then Inr (opts\<lparr>ro_upstream_diagnostics := SummaryDiagnostics\<rparr>)
         else if t \<in> {''mcpace.drop-upstream-diagnostics.v1'', ''drop-upstream-diagnostics''}
         then Inr (opts\<lparr>ro_upstream_diagnostics := NoDiagnostics\<rparr>)
         else if t \<in> {''mcpace.dedupe-nested-upstream-content.v1'', ''dedupe-nested-upstream-content''}
         then Inr (opts\<lparr>ro_nested_upstream_content := CompactNested\<rparr>)
         else if strict then Inl (UnknownPlugin t (join '', '' SUPPORTED_TOKEN_REDUCER_PLUGINS))
         else Inr opts)"

fun apply_plugins :: "json list \<Rightarrow> bool \<Rightarrow> tool_result_options \<Rightarrow> tool_result_error + tool_result_options" where
  "apply_plugins [] strict opts = Inr opts"
| "apply_plugins (plugin # plugins) strict opts =
     (case as_str plugin of
        None \<Rightarrow> Inl (InvalidArgument ''tokenReducerPlugins'' ''tokenReducerPlugins must be an array of strings'')
      | Some name \<Rightarrow>
          (case apply_builtin_token_reducer name strict opts of Inl e \<Rightarrow> Inl e | Inr opts \<Rightarrow> apply_plugins plugins strict opts))"

definition set_mode :: "string option \<Rightarrow> (string \<Rightarrow> tool_result_error + 'a) \<Rightarrow> ('a \<Rightarrow> tool_result_options) \<Rightarrow> tool_result_options
    \<Rightarrow> tool_result_error + tool_result_options" where
  "set_mode v parse upd opts = (case v of None \<Rightarrow> Inr opts | Some s \<Rightarrow> map_sum id upd (parse s))"

definition options_from_arguments :: "(string \<Rightarrow> string option) \<Rightarrow> json \<Rightarrow> tool_result_error + tool_result_options" where
  "options_from_arguments var arguments =
     (let o0 = default_tool_result_options var
      in case set_mode (first_string_argument arguments [''resultMode'', ''toolResultMode'']) parse_result_mode
                (\<lambda>m. o0\<lparr>ro_result_mode := m\<rparr>) o0 of
           Inl e \<Rightarrow> Inl e
         | Inr o1 \<Rightarrow>
             (case set_mode (first_string_argument arguments [''diagnostics'', ''upstreamDiagnostics'']) parse_diagnostics_mode
                     (\<lambda>m. o1\<lparr>ro_upstream_diagnostics := m\<rparr>) o1 of
                Inl e \<Rightarrow> Inl e
              | Inr o2 \<Rightarrow>
                  (case set_mode (first_string_argument arguments [''nestedContent'', ''upstreamNestedContent'']) parse_nested_content_mode
                          (\<lambda>m. o2\<lparr>ro_nested_upstream_content := m\<rparr>) o2 of
                     Inl e \<Rightarrow> Inl e
                   | Inr o3 \<Rightarrow>
                       (let strict = (case first_string_argument arguments
                                        [''tokenReducerPluginPolicy'', ''pluginPolicy'', ''resultPluginPolicy''] of
                                        Some v \<Rightarrow> normalized_token v = ''strict'' | None \<Rightarrow> False)
                        in case or_else (array_at_path arguments [''tokenReducerPlugins'']) (array_at_path arguments [''resultPlugins'']) of
                             None \<Rightarrow> Inr o3
                           | Some plugins \<Rightarrow> apply_plugins plugins strict o3))))"

section \<open>Texts\<close>

definition truncate_chars :: "string \<Rightarrow> nat \<Rightarrow> string" where
  "truncate_chars v limit = take_chars limit v @ (if limit < count_chars v then [CHR 0xE2, CHR 0x80, CHR 0xA6] else [])"

fun short_json :: "json \<Rightarrow> string" where
  "short_json (JString s) = truncate_chars s 160"
| "short_json (JBool b) = (if b then ''true'' else ''false'')"
| "short_json (JNumber s) = s"
| "short_json JNull = ''null''"
| "short_json (JArray items) = ''['' @ show_nat (length items) @ '' items]''"
| "short_json (JObject m) = ''{'' @ show_nat (length m) @ '' keys}''"

definition summarize_tool_result :: "json \<Rightarrow> bool \<Rightarrow> string" where
  "summarize_tool_result structured is_error =
     (let parts = (if is_error then [''error''] else [])
            @ List.map_filter (\<lambda>key. map_option (\<lambda>v. key @ ''='' @ short_json v) (value_at_path structured [key]))
                [''ok'', ''server'', ''tool'', ''upstreamOk'', ''upstreamIsError'', ''callCount'', ''upstreamOkCount'', ''upstreamFailedCount'',
                 ''activeLeaseCount'']
            @ (case string_at_path structured [''error''] of Some e \<Rightarrow> [''error='' @ truncate_chars e 220] | None \<Rightarrow> [])
      in if parts = []
         then (if is_error then ''Tool call failed; full details are in structuredContent.''
               else ''Tool call succeeded; full result is in structuredContent.'')
         else join '' '' parts @ ''; full result is in structuredContent.'')"

definition text_content :: "string \<Rightarrow> json list" where
  "text_content t = [json_object [(''type'', JString ''text''), (''text'', JString t)]]"

definition tool_result_object :: "json list \<Rightarrow> json option \<Rightarrow> bool \<Rightarrow> json" where
  "tool_result_object content structured is_error =
     json_object ([(''content'', JArray content)]
       @ (case structured of Some s \<Rightarrow> [(''structuredContent'', s)] | None \<Rightarrow> [])
       @ [(''isError'', JBool is_error)])"

text \<open>The printers of JSON, pretty and compact.\<close>

record json_printers =
  jp_pretty :: "json \<Rightarrow> string"
  jp_compact :: "json \<Rightarrow> string"

definition tool_result_payload :: "json_printers \<Rightarrow> json \<Rightarrow> bool \<Rightarrow> tool_result_options \<Rightarrow> json" where
  "tool_result_payload pr structured is_error opts =
     tool_result_object
       (case ro_result_mode opts of
          NativeResult \<Rightarrow> text_content (summarize_tool_result structured is_error)
        | SummaryResult \<Rightarrow> text_content (summarize_tool_result structured is_error)
        | CompatResult \<Rightarrow> text_content (jp_pretty pr structured)
        | CompactResult \<Rightarrow> text_content (jp_compact pr structured))
       (Some structured) is_error"

section \<open>Diagnostics and nested content\<close>

definition prune_object :: "(string \<Rightarrow> bool) \<Rightarrow> json \<Rightarrow> json" where
  "prune_object should_drop v = (case v of JObject m \<Rightarrow> JObject (filter (\<lambda>(k, _). \<not> should_drop k) m) | _ \<Rightarrow> v)"

definition should_drop_summary_diagnostic :: "string \<Rightarrow> bool" where
  "should_drop_summary_diagnostic key \<longleftrightarrow>
     key \<in> {''lease'', ''leaseRelease'', ''leaseId'', ''sessionPoolSessionAgeMs'', ''sessionPoolIdleTtlMs'', ''sessionPoolEvictedIdleCount'',
            ''sessionPoolEvictedCapacityCount''}"

definition should_drop_all_diagnostic :: "string \<Rightarrow> bool" where
  "should_drop_all_diagnostic key \<longleftrightarrow>
     key = ''bridgeOk'' \<or> key = ''timeoutMs'' \<or> starts_with key ''lease'' \<or> starts_with key ''sessionPool''"

definition shape_upstream_diagnostics :: "json \<Rightarrow> upstream_diagnostics_mode \<Rightarrow> json" where
  "shape_upstream_diagnostics v mode =
     (case mode of
        FullDiagnostics \<Rightarrow> v
      | SummaryDiagnostics \<Rightarrow> prune_object should_drop_summary_diagnostic v
      | NoDiagnostics \<Rightarrow> prune_object should_drop_all_diagnostic v)"

definition native_upstream_content :: "json \<Rightarrow> json list option" where
  "native_upstream_content structured =
     (case array_at_path structured [''upstreamResult'', ''content''] of
        Some (item # items) \<Rightarrow> Some (item # items)
      | _ \<Rightarrow>
          (case array_at_path structured [''results''] of
             None \<Rightarrow> None
           | Some results \<Rightarrow>
               (let content = concat (List.map_filter (\<lambda>r. array_at_path r [''upstreamResult'', ''content'']) results)
                in if content = [] then None else Some content)))"

definition native_upstream_structured_content :: "json \<Rightarrow> json option" where
  "native_upstream_structured_content structured = value_at_path structured [''upstreamResult'', ''structuredContent'']"

definition failed_result :: "json \<Rightarrow> bool" where
  "failed_result r \<longleftrightarrow> bool_at_path r [''upstreamIsError''] = Some True \<or> bool_at_path r [''upstreamOk''] = Some False"

definition upstream_structured_indicates_error :: "json \<Rightarrow> bool" where
  "upstream_structured_indicates_error structured \<longleftrightarrow>
     failed_result structured \<or> bool_at_path structured [''ok''] = Some False \<or>
     (case Option.bind (value_at_path structured [''upstreamFailedCount'']) as_i64 of Some n \<Rightarrow> 0 < n | None \<Rightarrow> False) \<or>
     (case array_at_path structured [''results''] of Some results \<Rightarrow> list_ex failed_result results | None \<Rightarrow> False)"

definition compact_one_upstream_result :: "bool \<Rightarrow> json \<Rightarrow> json" where
  "compact_one_upstream_result compact_plain_content v =
     (case v of
        JObject m \<Rightarrow>
          (if map_of m ''content'' \<noteq> None \<and> (map_of m ''structuredContent'' \<noteq> None \<or> compact_plain_content)
           then JObject (bt_insert ''content''
                  (JArray (text_content ''Nested upstream content was compacted by MCPace; see top-level content or structuredContent.'')) m)
           else JObject m)
      | _ \<Rightarrow> v)"

definition map_member :: "string \<Rightarrow> (json \<Rightarrow> json) \<Rightarrow> json_map \<Rightarrow> json_map" where
  "map_member key f m = map (\<lambda>(k, v). (k, if k = key then f v else v)) m"

definition compact_nested_result_array :: "bool \<Rightarrow> json \<Rightarrow> json" where
  "compact_nested_result_array compact_plain_content v =
     (case v of
        JArray items \<Rightarrow>
          JArray (map (\<lambda>item. case item of
                          JObject m \<Rightarrow> JObject (map_member ''upstreamResult'' (compact_one_upstream_result compact_plain_content) m)
                        | _ \<Rightarrow> item) items)
      | _ \<Rightarrow> v)"

definition compact_nested_upstream_results :: "bool \<Rightarrow> json \<Rightarrow> json" where
  "compact_nested_upstream_results compact_plain_content v =
     (case v of
        JObject m \<Rightarrow>
          JObject (map_member ''results'' (compact_nested_result_array compact_plain_content)
            (map_member ''upstreamResult'' (compact_one_upstream_result compact_plain_content) m))
      | _ \<Rightarrow> v)"

definition shape_nested_upstream_content_for_payload :: "json \<Rightarrow> nested_upstream_content_mode \<Rightarrow> bool \<Rightarrow> json" where
  "shape_nested_upstream_content_for_payload v mode compact_plain_content =
     (case mode of FullNested \<Rightarrow> v | CompactNested \<Rightarrow> compact_nested_upstream_results compact_plain_content v)"

definition shape_nested_upstream_content :: "json \<Rightarrow> nested_upstream_content_mode \<Rightarrow> json" where
  "shape_nested_upstream_content v mode = shape_nested_upstream_content_for_payload v mode False"

definition upstream_tool_result_payload :: "json_printers \<Rightarrow> json \<Rightarrow> bool \<Rightarrow> tool_result_options \<Rightarrow> json" where
  "upstream_tool_result_payload pr structured wrapper_is_error opts =
     (let shaped = shape_upstream_diagnostics structured (ro_upstream_diagnostics opts);
          is_error = (wrapper_is_error \<or> upstream_structured_indicates_error shaped)
      in case ro_result_mode opts of
           NativeResult \<Rightarrow>
             (let native = native_upstream_content shaped;
                  content = unwrap_or native (text_content (summarize_tool_result shaped is_error));
                  structured_content =
                    unwrap_or (if ro_upstream_diagnostics opts = NoDiagnostics then native_upstream_structured_content shaped else None)
                      (shape_nested_upstream_content_for_payload shaped (ro_nested_upstream_content opts) (native \<noteq> None))
              in tool_result_object content (Some structured_content) is_error)
         | _ \<Rightarrow> tool_result_payload pr (shape_nested_upstream_content shaped (ro_nested_upstream_content opts)) is_error opts)"

section \<open>What shaping keeps\<close>

lemma json_get_pruned: "\<not> should_drop key \<Longrightarrow> json_get (prune_object should_drop v) key = json_get v key"
proof (cases v)
  case (JObject m)
  assume k: "\<not> should_drop key"
  have "map_of (filter (\<lambda>(k, _). \<not> should_drop k) m) key = map_of m key" using k by (induction m) auto
  then show ?thesis by (simp add: JObject prune_object_def)
qed (simp_all add: prune_object_def)

lemma value_at_pruned:
  "\<not> should_drop key \<Longrightarrow> value_at_path (prune_object should_drop v) (key # path) = value_at_path v (key # path)"
  by (simp add: json_get_pruned)

lemma diagnostics_kept:
  assumes "key \<in> {''ok'', ''upstreamOk'', ''upstreamIsError'', ''upstreamFailedCount'', ''results'', ''upstreamResult''}"
  shows "value_at_path (shape_upstream_diagnostics v mode) (key # path) = value_at_path v (key # path)"
  using assms
  by (auto simp: shape_upstream_diagnostics_def value_at_pruned should_drop_summary_diagnostic_def should_drop_all_diagnostic_def
      starts_with_def simp del: value_at_path.simps split: upstream_diagnostics_mode.split)

lemma members_kept:
  "bool_at_path (shape_upstream_diagnostics v mode) [''ok''] = bool_at_path v [''ok'']"
  "bool_at_path (shape_upstream_diagnostics v mode) [''upstreamOk''] = bool_at_path v [''upstreamOk'']"
  "bool_at_path (shape_upstream_diagnostics v mode) [''upstreamIsError''] = bool_at_path v [''upstreamIsError'']"
  "value_at_path (shape_upstream_diagnostics v mode) [''upstreamFailedCount''] = value_at_path v [''upstreamFailedCount'']"
  "array_at_path (shape_upstream_diagnostics v mode) [''results''] = array_at_path v [''results'']"
  "array_at_path (shape_upstream_diagnostics v mode) [''upstreamResult'', ''content''] = array_at_path v [''upstreamResult'', ''content'']"
  unfolding bool_at_path_def array_at_path_def by (simp_all only: diagnostics_kept insert_iff simp_thms)

lemma error_kept: "upstream_structured_indicates_error (shape_upstream_diagnostics v mode) = upstream_structured_indicates_error v"
  by (simp only: upstream_structured_indicates_error_def failed_result_def members_kept)

lemma native_content_kept: "native_upstream_content (shape_upstream_diagnostics v mode) = native_upstream_content v"
  by (simp only: native_upstream_content_def members_kept)

lemma result_members:
  "value_at_path (tool_result_object content (Some s) e) [''isError''] = Some (JBool e)"
  "value_at_path (tool_result_object content (Some s) e) [''content''] = Some (JArray content)"
  "value_at_path (tool_result_object content (Some s) e) [''structuredContent''] = Some s"
  by (simp_all add: tool_result_object_def json_path)



end
