(* ===== verification/Mcp_Http.thy ===== *)
theory Mcp_Http
  imports Http_Session_Properties Mcp_Protocol Tool_Result
begin

text \<open>
  The MCP endpoint over HTTP (\<^verbatim>\<open>src/dashboard/mcp_http.rs\<close>, \<^verbatim>\<open>src/dashboard/http_headers.rs\<close>): from a request and the session store to
  the reply, the new store and the calls made behind the endpoint. What answers those calls (the adapter and the tools), the
  clock, the random bytes and the JSON parser are arguments; a handler holds the lock of the session store for each of its
  operations, and touches the session and records the request id under one lock.
\<close>

section \<open>Headers\<close>

datatype mcp_header_validation_error =
    HeaderBoundary string
  | MethodMismatch string string
  | NameMismatch string string
  | NameNotValidForMethod string string

fun mcp_header_validation_error_display :: "mcp_header_validation_error \<Rightarrow> string" where
  "mcp_header_validation_error_display (HeaderBoundary source) = source"
| "mcp_header_validation_error_display (MethodMismatch header_method m) =
     ''Mcp-Method header '' @ squote header_method @ '' does not match JSON-RPC method '' @ squote m"
| "mcp_header_validation_error_display (NameMismatch actual expected) =
     ''Mcp-Name header '' @ squote actual @ '' does not match JSON-RPC body value '' @ squote expected"
| "mcp_header_validation_error_display (NameNotValidForMethod actual m) =
     ''Mcp-Name header '' @ squote actual @ '' is not valid for JSON-RPC method '' @ squote m"

definition mcp_standard_header_name :: "json \<Rightarrow> string \<Rightarrow> string option" where
  "mcp_standard_header_name message m =
     (if m \<in> {''tools/call'', ''prompts/get''} then string_at_path message [''params'', ''name'']
      else if m = ''resources/read'' then string_at_path message [''params'', ''uri''] else None)"

definition validate_mcp_standard_headers :: "http_request \<Rightarrow> json \<Rightarrow> string \<Rightarrow> mcp_header_validation_error option" where
  "validate_mcp_standard_headers request message m =
     (case request_header_string_unique (Some request) ''mcp-method'' of
        Inl e \<Rightarrow> Some (HeaderBoundary (http_boundary_error_display e))
      | Inr header_method \<Rightarrow>
          if header_method \<noteq> None \<and> header_method \<noteq> Some m then Some (MethodMismatch (the header_method) m)
          else
            (case request_header_string_unique (Some request) ''mcp-name'' of
               Inl e \<Rightarrow> Some (HeaderBoundary (http_boundary_error_display e))
             | Inr None \<Rightarrow> None
             | Inr (Some actual) \<Rightarrow>
                 (case mcp_standard_header_name message m of
                    Some expected \<Rightarrow> if actual \<noteq> expected then Some (NameMismatch actual expected) else None
                  | None \<Rightarrow> Some (NameNotValidForMethod actual m))))"

section \<open>Answers\<close>

definition STREAMABLE_HTTP_DEFAULT_PROTOCOL_VERSION :: string where
  "STREAMABLE_HTTP_DEFAULT_PROTOCOL_VERSION = ''2025-03-26''"

definition ERROR_HEADER_MISMATCH :: int where "ERROR_HEADER_MISMATCH = -32001"

definition ERROR_NOT_INITIALIZED :: int where "ERROR_NOT_INITIALIZED = -32002"

datatype mcp_http_response =
    HJson json
  | HJsonWithHeaders json "(string \<times> string) list"
  | HJsonStatus string json
  | HAccepted

definition mcp_error_response :: "json \<Rightarrow> int \<Rightarrow> string \<Rightarrow> json" where
  "mcp_error_response rid error_code message =
     json_object [(''jsonrpc'', JString ''2.0''), (''id'', rid),
       (''error'', json_object [(''code'', JNumber (show_int error_code)), (''message'', JString message)])]"

definition bad_request :: "json \<Rightarrow> int \<Rightarrow> string \<Rightarrow> mcp_http_response" where
  "bad_request rid error_code message = HJsonStatus ''400 Bad Request'' (mcp_error_response rid error_code message)"

definition mcp_result_response :: "json \<Rightarrow> json \<Rightarrow> json" where
  "mcp_result_response rid result = json_object [(''jsonrpc'', JString ''2.0''), (''id'', rid), (''result'', result)]"

definition session_error_code :: "mcp_http_session_error_kind \<Rightarrow> int" where
  "session_error_code kind = (if kind \<in> {EUnknown, EExpired} then ERROR_NOT_INITIALIZED else ERROR_INVALID_REQUEST)"

definition session_error_response :: "mcp_http_session_error \<Rightarrow> json \<Rightarrow> mcp_http_response" where
  "session_error_response e rid =
     HJsonStatus (http_status e) (mcp_error_response rid (session_error_code (he_kind e)) (he_message e))"

section \<open>What is behind the endpoint\<close>

datatype backend_call =
    ListTools string "string option"
  | ListPrompts "string option"
  | GetPrompt string json
  | ListResources "string option"
  | ListResourceTemplates "string option"
  | ReadResource string
  | RunTool string json

record mcp_http_env =
  mx_parse :: "string \<Rightarrow> string + json"
  mx_utf8_error :: "string \<Rightarrow> string"
  mx_now_ms :: nat
  mx_random :: "string + nat list"
  mx_version :: string
  mx_instructions :: string
  mx_var :: "string \<Rightarrow> string option"
  mx_printers :: json_printers
  mx_tool_names :: "string list"
  mx_listing :: "backend_call \<Rightarrow> json"
  mx_answer :: "backend_call \<Rightarrow> string + json"

definition merge_control_object :: "json option \<Rightarrow> json_map \<Rightarrow> json_map" where
  "merge_control_object v target =
     (case Option.bind v as_object of None \<Rightarrow> target | Some m \<Rightarrow> fold (\<lambda>(key, v). bt_insert key v) m target)"

definition projected_adapter_control_arguments :: "json \<Rightarrow> json" where
  "projected_adapter_control_arguments arguments =
     JObject (merge_control_object (value_at_path arguments [''mcpace''])
       (merge_control_object (value_at_path arguments [''_mcpace'']) []))"

definition adapter_capabilities :: json where
  "adapter_capabilities = json_object
     [(''tools'', json_object [(''listChanged'', JBool False)]),
      (''resources'', json_object [(''subscribe'', JBool False), (''listChanged'', JBool False)]),
      (''prompts'', json_object [(''listChanged'', JBool False)])]"

section \<open>Sessions of requests\<close>

definition touch_mcp_session_for_request ::
  "mcp_http_env \<Rightarrow> http_request \<Rightarrow> json \<Rightarrow> mcp_http_session_store \<Rightarrow> (mcp_http_response + mcp_http_session_view) \<times> mcp_http_session_store" where
  "touch_mcp_session_for_request env request rid st =
     (case touch_from_request request (mx_now_ms env) st of (r, st) \<Rightarrow> (map_sum (\<lambda>e. session_error_response e rid) id r, st))"

definition mark_mcp_session_initialized ::
  "mcp_http_env \<Rightarrow> http_request \<Rightarrow> json \<Rightarrow> mcp_http_session_store \<Rightarrow> (mcp_http_response + mcp_http_session_view) \<times> mcp_http_session_store" where
  "mark_mcp_session_initialized env request rid st =
     (case mark_initialized_from_request request (mx_now_ms env) st of (r, st) \<Rightarrow> (map_sum (\<lambda>e. session_error_response e rid) id r, st))"

definition prepare_mcp_session_for_request ::
  "mcp_http_env \<Rightarrow> http_request \<Rightarrow> json \<Rightarrow> string option \<Rightarrow> bool \<Rightarrow> mcp_http_session_store
   \<Rightarrow> (mcp_http_response + mcp_http_session_view) \<times> mcp_http_session_store" where
  "prepare_mcp_session_for_request env request rid id_key require_initialized st =
     (case touch_from_request request (mx_now_ms env) st of
        (Inl e, st) \<Rightarrow> (Inl (session_error_response e rid), st)
      | (Inr session, st) \<Rightarrow>
          (case (case id_key of
                   None \<Rightarrow> (Inr session, st)
                 | Some key \<Rightarrow> track_request_id (sv_id session) key st) of
             (Inl e, st) \<Rightarrow> (Inl (session_error_response e rid), st)
           | (Inr session, st) \<Rightarrow>
               if require_initialized \<and> \<not> sv_initialized session
               then (Inl (bad_request rid ERROR_NOT_INITIALIZED
                  ''MCP HTTP session is initialized but not ready; send notifications/initialized before normal operations''), st)
               else (Inr session, st)))"

section \<open>Methods\<close>

type_synonym dispatched = "mcp_http_response \<times> backend_call list"

definition initialize_session ::
  "mcp_http_env \<Rightarrow> json \<Rightarrow> json \<Rightarrow> mcp_http_session_store \<Rightarrow> mcp_http_response \<times> mcp_http_session_store" where
  "initialize_session env message rid st =
     (let requested = unwrap_or (string_at_path message [''params'', ''protocolVersion'']) CURRENT_PROTOCOL_VERSION;
          negotiated = negotiate_protocol_version requested
      in case generated_mcp_http_session_id (mx_random env) of
           Inl e \<Rightarrow>
             (HJsonStatus ''500 Internal Server Error'' (mcp_error_response rid ERROR_INTERNAL
                (''failed to generate cryptographically secure MCP HTTP session id: '' @ e)), st)
         | Inr session_id \<Rightarrow>
             (case create_or_replace session_id negotiated (string_at_path message [''params'', ''clientInfo'', ''name''])
                     (string_at_path message [''params'', ''clientInfo'', ''version''])
                     (Option.bind (value_at_path message [''id'']) request_id_key) (mx_now_ms env) st of
                (Inl e, st) \<Rightarrow> (session_error_response e rid, st)
              | (Inr _, st) \<Rightarrow>
                  (HJsonWithHeaders
                     (mcp_result_response rid (json_object
                        [(''protocolVersion'', JString negotiated), (''capabilities'', adapter_capabilities),
                         (''serverInfo'', json_object [(''name'', JString ''mcpace''), (''version'', JString (mx_version env))]),
                         (''instructions'', JString (mx_instructions env))]))
                     [(''Mcp-Session-Id'', session_id), (''MCP-Protocol-Version'', negotiated)], st)))"

definition listed :: "mcp_http_env \<Rightarrow> json \<Rightarrow> backend_call \<Rightarrow> dispatched" where
  "listed env rid call = (HJson (mcp_result_response rid (mx_listing env call)), [call])"

definition answered :: "mcp_http_env \<Rightarrow> json \<Rightarrow> backend_call \<Rightarrow> dispatched" where
  "answered env rid call =
     (HJson (case mx_answer env call of
               Inr v \<Rightarrow> mcp_result_response rid v
             | Inl e \<Rightarrow> mcp_error_response rid ERROR_INVALID_PARAMS e), [call])"

definition tools_list :: "mcp_http_env \<Rightarrow> http_request \<Rightarrow> json \<Rightarrow> json \<Rightarrow> string option \<Rightarrow> dispatched" where
  "tools_list env request message rid session_protocol =
     (case request_header_string_unique (Some request) ''mcp-protocol-version'' of
        Inl e \<Rightarrow> (bad_request rid ERROR_INVALID_REQUEST (http_boundary_error_display e), [])
      | Inr protocol_header \<Rightarrow>
          listed env rid (ListTools
            (unwrap_or (or_else protocol_header session_protocol) STREAMABLE_HTTP_DEFAULT_PROTOCOL_VERSION)
            (string_at_path message [''params'', ''cursor''])))"

definition prompts_get :: "mcp_http_env \<Rightarrow> json \<Rightarrow> json \<Rightarrow> dispatched" where
  "prompts_get env message rid =
     (case params_arguments_object_or_empty message ''prompts/get'' of
        Inl e \<Rightarrow> (HJson (mcp_error_response rid ERROR_INVALID_PARAMS (mcp_protocol_error_display e)), [])
      | Inr args \<Rightarrow>
          (case string_at_path message [''params'', ''name''] of
             None \<Rightarrow> (HJson (mcp_error_response rid ERROR_INVALID_PARAMS ''prompts/get requires a prompt name''), [])
           | Some name \<Rightarrow> answered env rid (GetPrompt name args)))"

definition resources_read :: "mcp_http_env \<Rightarrow> json \<Rightarrow> json \<Rightarrow> dispatched" where
  "resources_read env message rid =
     (case string_at_path message [''params'', ''uri''] of
        None \<Rightarrow> (HJson (mcp_error_response rid ERROR_INVALID_PARAMS ''resources/read requires a uri''), [])
      | Some uri \<Rightarrow> answered env rid (ReadResource uri))"

definition tool_failure :: "string \<Rightarrow> string \<Rightarrow> (string \<times> json) list \<Rightarrow> json" where
  "tool_failure tool e rest = json_object ([(''ok'', JBool False), (''tool'', JString tool), (''error'', JString e)] @ rest)"

definition tools_call :: "mcp_http_env \<Rightarrow> json \<Rightarrow> json \<Rightarrow> dispatched" where
  "tools_call env message rid =
     (case string_at_path message [''params'', ''name''] of
        None \<Rightarrow> (HJson (mcp_error_response rid ERROR_INVALID_PARAMS ''tools/call requires a tool name''), [])
      | Some tool \<Rightarrow>
          (case tool_call_arguments_or_empty message of
             Inl e \<Rightarrow> (HJson (mcp_error_response rid ERROR_INVALID_PARAMS (mcp_protocol_error_display e)), [])
           | Inr args \<Rightarrow>
               (let projected_call = starts_with tool ''u_''
                in if \<not> projected_call \<and> tool \<notin> set (mx_tool_names env)
                   then (HJson (mcp_error_response rid ERROR_INVALID_PARAMS (''Unknown tool: '' @ tool)), [])
                   else
                     (case options_from_arguments (mx_var env) (if projected_call then projected_adapter_control_arguments args else args) of
                        Inl e \<Rightarrow>
                          (HJson (mcp_result_response rid (tool_result_payload (mx_printers env)
                             (tool_failure tool (tool_result_error_display e) []) True (default_tool_result_options (mx_var env)))), [])
                      | Inr opts \<Rightarrow>
                          (HJson (mcp_result_response rid
                             (case mx_answer env (RunTool tool args) of
                                Inr v \<Rightarrow>
                                  if tool \<in> {''upstream_call'', ''upstream_batch''} \<or> projected_call
                                  then upstream_tool_result_payload (mx_printers env) v False opts
                                  else tool_result_payload (mx_printers env) v False opts
                              | Inl e \<Rightarrow>
                                  tool_result_payload (mx_printers env)
                                    (tool_failure tool e [(''supportedTools'', json_strings (mx_tool_names env))]) True opts)),
                           [RunTool tool args])))))"

definition dispatch :: "mcp_http_env \<Rightarrow> http_request \<Rightarrow> json \<Rightarrow> string \<Rightarrow> json \<Rightarrow> string option \<Rightarrow> dispatched" where
  "dispatch env request message m rid session_protocol =
     (let cursor = string_at_path message [''params'', ''cursor'']
      in if m = ''ping'' then (HJson (mcp_result_response rid empty_object), [])
         else if m = ''tools/list'' then tools_list env request message rid session_protocol
         else if m = ''prompts/list'' then listed env rid (ListPrompts cursor)
         else if m = ''prompts/get'' then prompts_get env message rid
         else if m = ''resources/list'' then listed env rid (ListResources cursor)
         else if m = ''resources/templates/list'' then listed env rid (ListResourceTemplates cursor)
         else if m = ''resources/read'' then resources_read env message rid
         else if m = ''tools/call'' then tools_call env message rid
         else (HJson (mcp_error_response rid ERROR_METHOD_NOT_FOUND (''unsupported MCP method '' @ squote m)), []))"

section \<open>Requests\<close>

definition check_request_message :: "http_request \<Rightarrow> json \<Rightarrow> string \<Rightarrow> json \<Rightarrow> mcp_http_response option" where
  "check_request_message request message m rid =
     (case validate_request_envelope message of
        Inl e \<Rightarrow> Some (bad_request rid ERROR_INVALID_REQUEST (mcp_protocol_error_display e))
      | Inr _ \<Rightarrow>
          if value_at_path message [''id''] \<noteq> None \<and> method_is_notification m
          then Some (bad_request rid ERROR_INVALID_REQUEST ''MCP notifications must not include a JSON-RPC id'')
          else if (case value_at_path message [''id''] of Some v \<Rightarrow> \<not> request_id_is_within_limit v | None \<Rightarrow> False)
          then Some (bad_request rid ERROR_INVALID_REQUEST ''JSON-RPC request id exceeds the 256 byte limit'')
          else
            (case request_header_string_unique (Some request) ''mcp-protocol-version'' of
               Inl e \<Rightarrow> Some (bad_request rid ERROR_INVALID_REQUEST (http_boundary_error_display e))
             | Inr protocol_header \<Rightarrow>
                 if (case protocol_header of Some h \<Rightarrow> \<not> is_supported_protocol_version h | None \<Rightarrow> False)
                 then Some (bad_request rid ERROR_INVALID_REQUEST
                        (''unsupported MCP-Protocol-Version header: '' @ the protocol_header))
                 else map_option (\<lambda>e. bad_request rid ERROR_HEADER_MISMATCH (mcp_header_validation_error_display e))
                        (validate_mcp_standard_headers request message m)))"

type_synonym handled = "mcp_http_response \<times> mcp_http_session_store \<times> backend_call list"

definition handle_request_message :: "mcp_http_env \<Rightarrow> http_request \<Rightarrow> json \<Rightarrow> string \<Rightarrow> mcp_http_session_store \<Rightarrow> handled" where
  "handle_request_message env request message m st =
     (let request_id = value_at_path message [''id'']; rid = unwrap_or request_id JNull
      in case check_request_message request message m rid of
           Some response \<Rightarrow> (response, st, [])
         | None \<Rightarrow>
             if m = ''initialize'' then
               (if request_id = None then (HAccepted, st, [])
                else case initialize_session env message rid st of (response, st) \<Rightarrow> (response, st, []))
             else if m = ''notifications/initialized'' \<and> request_id = None then
               (case mark_mcp_session_initialized env request rid st of
                  (Inl response, st) \<Rightarrow> (response, st, [])
                | (Inr _, st) \<Rightarrow> (HAccepted, st, []))
             else
               (case prepare_mcp_session_for_request env request rid (Option.bind request_id request_id_key) (m \<noteq> ''ping'') st of
                  (Inl response, st) \<Rightarrow> (response, st, [])
                | (Inr session, st) \<Rightarrow>
                    if request_id = None then (HAccepted, st, [])
                    else case dispatch env request message m rid (Some (sv_protocol_version session)) of
                           (response, calls) \<Rightarrow> (response, st, calls)))"

definition handle_message :: "mcp_http_env \<Rightarrow> http_request \<Rightarrow> json \<Rightarrow> mcp_http_session_store \<Rightarrow> handled" where
  "handle_message env request message st =
     (let rid = unwrap_or (value_at_path message [''id'']) JNull
      in case value_at_path message [''method''] of
           Some (JString m) \<Rightarrow> handle_request_message env request message m st
         | Some _ \<Rightarrow> (bad_request rid ERROR_INVALID_REQUEST ''JSON-RPC method must be a string'', st, [])
         | None \<Rightarrow>
             if value_at_path message [''result''] \<noteq> None \<or> value_at_path message [''error''] \<noteq> None
             then (case touch_mcp_session_for_request env request rid st of
                     (Inl response, st) \<Rightarrow> (response, st, [])
                   | (Inr _, st) \<Rightarrow> (HAccepted, st, []))
             else (bad_request rid ERROR_INVALID_REQUEST ''missing JSON-RPC method'', st, []))"

text \<open>An error of this function is answered with the code of a parse error.\<close>

definition handle_mcp_http_request :: "mcp_http_env \<Rightarrow> http_request \<Rightarrow> mcp_http_session_store \<Rightarrow> string + handled" where
  "handle_mcp_http_request env request st =
     (if \<not> accepts_streamable_http_post request
      then Inr (bad_request JNull ERROR_INVALID_REQUEST
                  ''missing required Accept header entries: application/json and text/event-stream'', st, [])
      else if \<not> content_type_is request ''application/json''
      then Inr (bad_request JNull ERROR_INVALID_REQUEST ''missing required Content-Type header: application/json'', st, [])
      else if \<not> utf8_ok (rq_body request) then Inl (''invalid UTF-8 request body: '' @ mx_utf8_error env (rq_body request))
      else case mx_parse env (trim (rq_body request)) of
             Inl e \<Rightarrow> Inl (''invalid JSON-RPC body: '' @ e)
           | Inr message \<Rightarrow> Inr (handle_message env request message st))"

datatype http_reply =
    EmptyReply string "(string \<times> string) list"
  | JsonReply string "(string \<times> string) list" json
  | TextReply string string string

definition json_error_reply :: "mcp_http_env \<Rightarrow> string \<Rightarrow> string \<Rightarrow> string \<Rightarrow> http_reply" where
  "json_error_reply env status error_code message =
     JsonReply status [] (json_object [(''ok'', JBool False), (''generatedAtMs'', json_number (mx_now_ms env)),
       (''error'', json_object [(''code'', JString error_code), (''message'', JString message)])])"

fun response_reply :: "mcp_http_response \<Rightarrow> http_reply" where
  "response_reply (HJson payload) = JsonReply ''200 OK'' [] payload"
| "response_reply (HJsonWithHeaders payload headers) = JsonReply ''200 OK'' headers payload"
| "response_reply (HJsonStatus status payload) = JsonReply status [] payload"
| "response_reply HAccepted = EmptyReply ''202 Accepted'' []"

definition handle_mcp_http_route ::
  "mcp_http_env \<Rightarrow> http_request \<Rightarrow> mcp_http_session_store \<Rightarrow> http_reply \<times> mcp_http_session_store \<times> backend_call list" where
  "handle_mcp_http_route env request st =
     (if rq_method request = ''GET'' then (EmptyReply ''405 Method Not Allowed'' [(''Allow'', ''POST, DELETE'')], st, [])
      else if rq_method request = ''DELETE'' then
        (case close_from_request request (mx_now_ms env) st of
           (Inr _, st) \<Rightarrow> (EmptyReply ''202 Accepted'' [], st, [])
         | (Inl e, st) \<Rightarrow> (json_error_reply env (http_status e) ''mcp_session_error'' (he_message e), st, []))
      else if rq_method request = ''POST'' then
        (case handle_mcp_http_request env request st of
           Inl e \<Rightarrow> (response_reply (bad_request JNull ERROR_PARSE e), st, [])
         | Inr (response, st, calls) \<Rightarrow> (response_reply response, st, calls))
      else (TextReply ''404 Not Found'' ''text/plain; charset=utf-8'' ''Not found'', st, []))"

end
