(* ===== verification/Mcp_Http_Properties.thy ===== *)
theory Mcp_Http_Properties
  imports Mcp_Http
begin

text \<open>
  What reaches the adapter and the tools through the HTTP endpoint: only a request of a live, initialised session, with an
  id that session has not seen, and never the same request twice.
\<close>

section \<open>The session of a request\<close>

definition request_session :: "http_request \<Rightarrow> string option" where
  "request_session request =
     (case session_id_of_request [] request of Inl _ \<Rightarrow> None | Inr sid \<Rightarrow> Some sid)"

definition request_message :: "mcp_http_env \<Rightarrow> http_request \<Rightarrow> json option" where
  "request_message env request = (case mx_parse env (trim (rq_body request)) of Inl _ \<Rightarrow> None | Inr message \<Rightarrow> Some message)"

definition message_key :: "json \<Rightarrow> string option" where
  "message_key message = Option.bind (value_at_path message [''id'']) request_id_key"

definition request_key :: "mcp_http_env \<Rightarrow> http_request \<Rightarrow> string option" where
  "request_key env request = Option.bind (request_message env request) message_key"

lemma session_id_of_request_Inr:
  "session_id_of_request missing request = Inr sid \<longleftrightarrow> request_session request = Some sid"
  by (auto simp: request_session_def session_id_of_request_def split: sum.splits option.splits)

lemma touch_accept:
  "touch sid h now st = (Inr v, st') \<Longrightarrow>
   \<exists>s. map_of (st_sessions st) sid = Some s \<and> now < hs_expires_at_ms s \<and>
     v = session_view (s\<lparr>hs_last_seen_at_ms := now, hs_expires_at_ms := sat_add 128 now (st_ttl_ms st)\<rparr>) \<and>
     st' = st\<lparr>st_sessions := hm_insert sid (s\<lparr>hs_last_seen_at_ms := now,
        hs_expires_at_ms := sat_add 128 now (st_ttl_ms st)\<rparr>) (st_sessions st)\<rparr>"
  by (auto simp: touch_def drop_expired_def Let_def split: option.splits if_splits)

lemma touch_from_request_accept:
  "touch_from_request request now st = (Inr v, st') \<Longrightarrow>
   \<exists>sid h. request_session request = Some sid \<and> touch sid h now st = (Inr v, st')"
  by (auto simp: touch_from_request_def session_id_of_request_Inr split: sum.splits)

lemma track_accept:
  "track_request_id sid key st = (Inr v, st') \<Longrightarrow>
   \<exists>s. map_of (st_sessions st) sid = Some s \<and> key \<notin> set (hs_seen_request_ids s) \<and> sv_initialized v = hs_initialized s"
  by (auto simp: track_request_id_def Let_def session_view_def split: option.splits if_splits)

text \<open>The session a request may use: known, not expired, and the request id is new to it.\<close>

definition admits :: "string \<Rightarrow> string \<Rightarrow> nat \<Rightarrow> mcp_http_session_store \<Rightarrow> bool" where
  "admits sid key now st \<longleftrightarrow>
     (case map_of (st_sessions st) sid of
        None \<Rightarrow> False
      | Some s \<Rightarrow> now < hs_expires_at_ms s \<and> hs_initialized s \<and> key \<notin> set (hs_seen_request_ids s))"

lemma admits_not_remembered: "admits sid key now st \<Longrightarrow> \<not> remembers sid key st"
  by (auto simp: admits_def remembers_def split: option.splits)

lemma prepare_accept:
  assumes "store_inv st" "prepare_mcp_session_for_request env request rid (Some key) True st = (Inr v, st')"
  shows "\<exists>sid. request_session request = Some sid \<and> admits sid key (mx_now_ms env) st \<and> remembers sid key st'"
proof -
  obtain u st1 where t: "touch_from_request request (mx_now_ms env) st = (Inr u, st1)"
    and k: "track_request_id (sv_id u) key st1 = (Inr v, st')" and i: "sv_initialized v"
    using assms(2) by (auto simp: prepare_mcp_session_for_request_def split: prod.splits sum.splits if_splits)
  obtain sid h where sid: "request_session request = Some sid" and t': "touch sid h (mx_now_ms env) st = (Inr u, st1)"
    using touch_from_request_accept [OF t] by blast
  obtain s where s: "map_of (st_sessions st) sid = Some s" "mx_now_ms env < hs_expires_at_ms s"
      "sv_id u = hs_id s"
      "st1 = st\<lparr>st_sessions := hm_insert sid (s\<lparr>hs_last_seen_at_ms := mx_now_ms env,
        hs_expires_at_ms := sat_add 128 (mx_now_ms env) (st_ttl_ms st)\<rparr>) (st_sessions st)\<rparr>"
    using touch_accept [OF t'] by (auto simp: session_view_def)
  have u: "sv_id u = sid" using store_inv_lookup [OF assms(1) s(1)] s(3) by (simp add: session_ok_def)
  have "remembers sid key st'" using track_accept_remembers [OF k] u by simp
  moreover have "admits sid key (mx_now_ms env) st"
    using track_accept [OF k] s i u by (auto simp: admits_def)
  ultimately show ?thesis using sid by blast
qed

section \<open>Which calls are made\<close>

definition tool_allowed :: "mcp_http_env \<Rightarrow> json \<Rightarrow> string \<Rightarrow> backend_call \<Rightarrow> bool" where
  "tool_allowed env message m c =
     (case c of
        RunTool tool _ \<Rightarrow> m = ''tools/call'' \<and> string_at_path message [''params'', ''name''] = Some tool \<and>
          (starts_with tool ''u_'' \<or> tool \<in> set (mx_tool_names env))
      | GetPrompt name _ \<Rightarrow> m = ''prompts/get'' \<and> string_at_path message [''params'', ''name''] = Some name
      | ReadResource uri \<Rightarrow> m = ''resources/read'' \<and> string_at_path message [''params'', ''uri''] = Some uri
      | ListTools _ _ \<Rightarrow> m = ''tools/list''
      | ListPrompts _ \<Rightarrow> m = ''prompts/list''
      | ListResources _ \<Rightarrow> m = ''resources/list''
      | ListResourceTemplates _ \<Rightarrow> m = ''resources/templates/list'')"

definition one_allowed :: "mcp_http_env \<Rightarrow> json \<Rightarrow> string \<Rightarrow> backend_call list \<Rightarrow> bool" where
  "one_allowed env message m calls \<longleftrightarrow> calls = [] \<or> m \<noteq> ''ping'' \<and> (\<exists>c. calls = [c] \<and> tool_allowed env message m c)"

lemma tools_call_allowed: "one_allowed env message ''tools/call'' (snd (tools_call env message rid))"
  by (auto simp: tools_call_def one_allowed_def tool_allowed_def Let_def split: option.splits sum.splits)

lemma prompts_get_allowed: "one_allowed env message ''prompts/get'' (snd (prompts_get env message rid))"
  by (auto simp: prompts_get_def answered_def one_allowed_def tool_allowed_def split: option.splits sum.splits)

lemma resources_read_allowed: "one_allowed env message ''resources/read'' (snd (resources_read env message rid))"
  by (auto simp: resources_read_def answered_def one_allowed_def tool_allowed_def split: option.splits)

lemma tools_list_allowed: "one_allowed env message ''tools/list'' (snd (tools_list env request message rid p))"
  by (auto simp: tools_list_def listed_def one_allowed_def tool_allowed_def split: sum.splits)

lemma listed_allowed:
  "tool_allowed env message m call \<Longrightarrow> m \<noteq> ''ping'' \<Longrightarrow> one_allowed env message m (snd (listed env rid call))"
  by (simp add: one_allowed_def listed_def)

lemma one_allowed_none: "one_allowed env message m (snd (response, []))"
  by (simp add: one_allowed_def)

lemma one_allowed_if:
  "(b \<Longrightarrow> one_allowed env message m (snd x)) \<Longrightarrow> (\<not> b \<Longrightarrow> one_allowed env message m (snd y)) \<Longrightarrow>
   one_allowed env message m (snd (if b then x else y))"
  by simp

lemma dispatch_allowed: "one_allowed env message m (snd (dispatch env request message m rid p))"
  unfolding dispatch_def Let_def
  by (intro one_allowed_if)
    (simp_all only: one_allowed_none tools_call_allowed prompts_get_allowed resources_read_allowed tools_list_allowed,
     simp_all add: listed_allowed tool_allowed_def)

text \<open>The standard headers, where a request has them, name what the message names.\<close>

definition headers_agree :: "http_request \<Rightarrow> json \<Rightarrow> string \<Rightarrow> bool" where
  "headers_agree request message m \<longleftrightarrow>
     request_header_string_unique (Some request) ''mcp-method'' \<in> {Inr None, Inr (Some m)} \<and>
     request_header_string_unique (Some request) ''mcp-name'' \<in> {Inr None, Inr (mcp_standard_header_name message m)}"

lemma validated_headers_agree: "validate_mcp_standard_headers request message m = None \<Longrightarrow> headers_agree request message m"
  by (auto simp: validate_mcp_standard_headers_def headers_agree_def split: sum.splits option.splits if_splits)

lemma checked_message:
  assumes "check_request_message request message m rid = None"
  shows "headers_agree request message m \<and> (value_at_path message [''id''] \<noteq> None \<longrightarrow> message_key message \<noteq> None)"
proof -
  have "validate_mcp_standard_headers request message m = None"
    and "\<And>v. value_at_path message [''id''] = Some v \<Longrightarrow> request_id_is_within_limit v"
    using assms by (auto simp: check_request_message_def split: sum.splits if_splits)
  moreover have "request_id_key v \<noteq> None" if "request_id_is_within_limit v" for v
    using that by (cases v) (auto simp: request_id_is_within_limit_def split: if_splits)
  ultimately show ?thesis using validated_headers_agree by (auto simp: message_key_def)
qed

definition call_justified :: "mcp_http_env \<Rightarrow> http_request \<Rightarrow> mcp_http_session_store \<Rightarrow> mcp_http_session_store \<Rightarrow> backend_call \<Rightarrow> bool" where
  "call_justified env request st st' c \<longleftrightarrow>
     (\<exists>message m sid key.
        rq_method request = ''POST'' \<and> request_message env request = Some message \<and>
        value_at_path message [''method''] = Some (JString m) \<and> tool_allowed env message m c \<and>
        headers_agree request message m \<and>
        request_session request = Some sid \<and> message_key message = Some key \<and>
        admits sid key (mx_now_ms env) st \<and> remembers sid key st')"

lemma handle_request_message_calls:
  assumes "store_inv st" "handle_request_message env request message m st = (response, st', calls)" "calls \<noteq> []"
  shows "\<exists>c sid key. calls = [c] \<and> tool_allowed env message m c \<and> headers_agree request message m \<and>
     request_session request = Some sid \<and> message_key message = Some key \<and>
     admits sid key (mx_now_ms env) st \<and> remembers sid key st'"
proof -
  note h = assms(2) [unfolded handle_request_message_def Let_def]
  obtain y where y: "value_at_path message [''id''] = Some y"
    using h assms(3) by (cases "value_at_path message [''id'']") (auto split: option.splits if_splits prod.splits sum.splits)
  have checked: "check_request_message request message m y = None"
    using h assms(3) y by (auto split: option.splits)
  obtain key where key: "message_key message = Some key" using checked_message [OF checked] y by auto
  obtain v where p: "prepare_mcp_session_for_request env request y (Some key) (m \<noteq> ''ping'') st = (Inr v, st')"
    and d: "snd (dispatch env request message m y (Some (sv_protocol_version v))) = calls"
    using h assms(3) y key checked by (auto simp: message_key_def split: if_splits prod.splits sum.splits)
  have allowed: "m \<noteq> ''ping''" "\<exists>c. calls = [c] \<and> tool_allowed env message m c"
    using dispatch_allowed [of env message m request y "Some (sv_protocol_version v)"] d assms(3)
    by (auto simp: one_allowed_def)
  then show ?thesis using prepare_accept [OF assms(1)] p key checked_message [OF checked] by auto
qed

lemma route_calls:
  assumes "store_inv st" "handle_mcp_http_route env request st = (reply, st', calls)" "c \<in> set calls"
  shows "calls = [c] \<and> call_justified env request st st' c"
proof -
  obtain response where post: "rq_method request = ''POST''"
    and h: "handle_mcp_http_request env request st = Inr (response, st', calls)"
    using assms(2,3) by (auto simp: handle_mcp_http_route_def split: if_splits prod.splits sum.splits)
  then obtain message where message: "request_message env request = Some message"
    and hm: "handle_message env request message st = (response, st', calls)"
    using assms(3) by (auto simp: handle_mcp_http_request_def request_message_def split: if_splits sum.splits)
  then obtain m where "value_at_path message [''method''] = Some (JString m)"
    and "handle_request_message env request message m st = (response, st', calls)"
    using assms(3)
    by (auto simp: handle_message_def Let_def split: option.splits json.splits if_splits prod.splits sum.splits)
  then show ?thesis
    using handle_request_message_calls [OF assms(1), of env request message m response st' calls] post message assms(3)
    unfolding call_justified_def by fastforce
qed

section \<open>What every request keeps\<close>

definition route_step :: "mcp_http_env \<times> http_request \<Rightarrow> mcp_http_session_store \<Rightarrow> mcp_http_session_store" where
  "route_step er st = fst (snd (handle_mcp_http_route (fst er) (snd er) st))"

text \<open>A predicate on stores that the operations of the store keep, when the sessions they create are fresh, is kept by every
  request whose generated session id is fresh.\<close>

locale session_predicate =
  fixes P :: "mcp_http_session_store \<Rightarrow> bool" and fresh :: "string \<Rightarrow> bool"
  assumes exec: "P st \<Longrightarrow> (\<And>sid. creates sid op \<Longrightarrow> fresh sid) \<Longrightarrow> P (session_exec op st)"
begin

lemma touch_keeps: "P st \<Longrightarrow> P (snd (touch_from_request r now st))"
  using exec [of st "STouchRequest r now"] by (simp add: creates_def)

lemma track_keeps: "P st \<Longrightarrow> P (snd (track_request_id sid key st))"
  using exec [of st "STrack sid key"] by (simp add: creates_def)

lemma mark_keeps: "P st \<Longrightarrow> P (snd (mark_initialized_from_request r now st))"
  using exec [of st "SMarkInitialized r now"] by (simp add: creates_def)

lemma close_keeps: "P st \<Longrightarrow> P (snd (close_from_request r now st))"
  using exec [of st "SCloseRequest r now"] by (simp add: creates_def)

lemma create_keeps: "P st \<Longrightarrow> fresh sid \<Longrightarrow> P (snd (create_or_replace sid protocol cn cv key now st))"
  using exec [of st "SCreate sid protocol cn cv key now"] by (simp add: creates_def)

lemma prepare_keeps: "P st \<Longrightarrow> P (snd (prepare_mcp_session_for_request env request rid key req st))"
proof -
  assume "P st"
  then have t: "P (snd (touch_from_request request (mx_now_ms env) st))" by (rule touch_keeps)
  have "P st2" if "touch_from_request request (mx_now_ms env) st = (Inr u, st1)" "track_request_id sid k st1 = (r, st2)" for u st1 sid k r st2
    using t that track_keeps [of st1 sid k] by simp
  then show ?thesis
    using t by (auto simp: prepare_mcp_session_for_request_def split: prod.splits sum.splits option.splits)
qed

lemma initialize_keeps:
  assumes "P st" "\<And>sid. generated_mcp_http_session_id (mx_random env) = Inr sid \<Longrightarrow> fresh sid"
  shows "P (snd (initialize_session env message rid st))"
proof -
  have "P st'" if "generated_mcp_http_session_id (mx_random env) = Inr sid" "create_or_replace sid p cn cv key now st = (r, st')"
    for sid p cn cv key now r st'
    using create_keeps [OF assms(1) assms(2) [OF that(1)], of p cn cv key now] that(2) by simp
  then show ?thesis using assms(1) by (auto simp: initialize_session_def Let_def split: prod.splits sum.splits)
qed

lemma request_keeps:
  assumes "P st" "\<And>sid. generated_mcp_http_session_id (mx_random env) = Inr sid \<Longrightarrow> fresh sid"
  shows "P (fst (snd (handle_request_message env request message m st)))"
proof -
  have i: "P st'" if "initialize_session env message rid st = (r, st')" for rid r st'
    using initialize_keeps [of st env message rid] assms that by simp
  have p: "P st'" if "prepare_mcp_session_for_request env request rid key req st = (r, st')" for rid key req r st'
    using prepare_keeps [OF assms(1), of env request rid key req] that by simp
  have k: "P st'" if "mark_mcp_session_initialized env request rid st = (r, st')" for rid r st'
    using mark_keeps [OF assms(1), of request "mx_now_ms env"] that
    by (auto simp: mark_mcp_session_initialized_def split: prod.splits)
  obtain response st' calls where "handle_request_message env request message m st = (response, st', calls)"
    by (metis prod.exhaust)
  moreover from this have "P st'"
    using assms(1) unfolding handle_request_message_def Let_def
    by (auto split: option.splits if_splits prod.splits sum.splits dest: i p k)
  ultimately show ?thesis by simp
qed

lemma route_keeps:
  assumes "P st" "\<And>sid. generated_mcp_http_session_id (mx_random env) = Inr sid \<Longrightarrow> fresh sid"
  shows "P (route_step (env, request) st)"
proof -
  have touched: "P (snd (touch_mcp_session_for_request env request rid st))" for rid
    using touch_keeps [OF assms(1), of request "mx_now_ms env"]
    by (auto simp: touch_mcp_session_for_request_def split: prod.splits)
  have "P (fst (snd (handle_message env request message st)))" for message
    using assms(1) request_keeps [of st env request message] assms(2) touched
    by (auto simp: handle_message_def Let_def split: option.splits json.splits prod.splits sum.splits)
      (metis snd_conv)+
  then have "P st'" if "handle_message env request message st = (response, st', calls)" for message response st' calls
    using that by (metis fst_conv snd_conv)
  then show ?thesis
    using assms(1) close_keeps [OF assms(1), of request "mx_now_ms env"]
    by (auto simp: route_step_def handle_mcp_http_route_def handle_mcp_http_request_def split: prod.splits sum.splits)
qed

end

interpretation bounded: session_predicate store_inv "\<lambda>_. True"
  by unfold_locales (simp add: session_exec_inv)

interpretation recorded: session_predicate "\<lambda>st. store_inv st \<and> remembers sid key st" "\<lambda>s. s \<noteq> sid" for sid key
proof unfold_locales
  fix st op assume "store_inv st \<and> remembers sid key st" "\<And>s. creates s op \<Longrightarrow> s \<noteq> sid"
  then show "store_inv (session_exec op st) \<and> remembers sid key (session_exec op st)"
    using replay.exec_inv [of st sid key op] by blast
qed

interpretation endpoint: op_system "\<lambda>st. \<exists>n ttl. st = session_store_new n ttl" "\<lambda>_. True" route_step store_inv
proof unfold_locales
  fix st er show "store_inv st \<Longrightarrow> store_inv (route_step er st)" by (cases er) (simp add: bounded.route_keeps)
qed (rule sessions.start_inv)

definition generates :: "string \<Rightarrow> mcp_http_env \<times> http_request \<Rightarrow> bool" where
  "generates sid er \<longleftrightarrow> generated_mcp_http_session_id (mx_random (fst er)) = Inr sid"

interpretation endpoint_replay: op_system "\<lambda>st. store_inv st \<and> remembers sid key st" "\<lambda>er. \<not> generates sid er" route_step
  "\<lambda>st. store_inv st \<and> remembers sid key st" for sid key
proof unfold_locales
  fix st er assume "store_inv st \<and> remembers sid key st" "\<not> generates sid er"
  then show "store_inv (route_step er st) \<and> remembers sid key (route_step er st)"
    using recorded.route_keeps [of st sid key "fst er" "snd er"] by (auto simp: generates_def)
qed simp

section \<open>Properties\<close>

text \<open>C5: nothing behind the endpoint is called without a ready session. After every sequence of HTTP requests to a new server, a
  request makes at most one call behind the endpoint, and then it is a POST with a parsed message whose method is the one of
  that call and whose standard headers agree with it; its session is known, not expired and initialised; its id is new to
  the session and is recorded before the call; and a tool it runs is a listed one or a projected upstream tool.\<close>

theorem backend_call_ready:
  "case handle_mcp_http_route env request (fold route_step steps (session_store_new n ttl)) of
     (reply, st', calls) \<Rightarrow>
       length calls \<le> 1 \<and> list_all (call_justified env request (fold route_step steps (session_store_new n ttl)) st') calls"
proof -
  have i: "store_inv (fold route_step steps (session_store_new n ttl))"
    by (rule endpoint.run_inv) (auto simp: list_all_iff)
  have one: "length calls \<le> 1 \<and> (\<forall>c \<in> set calls. call_justified env request (fold route_step steps (session_store_new n ttl)) st' c)"
    if "handle_mcp_http_route env request (fold route_step steps (session_store_new n ttl)) = (reply, st', calls)" for reply st' calls
    using route_calls [OF i that] by (cases calls) auto
  show ?thesis
    using one by (auto simp: list_all_iff split: prod.splits)
qed

text \<open>C6: a request is not run twice. Once a request of a session reached what is behind the endpoint, a request of the same
  session with the same id never does, whatever requests came between, as long as no later session draws the same random id.\<close>

theorem replayed_request_not_run:
  assumes "handle_mcp_http_route env request (fold route_step steps (session_store_new n ttl)) = (reply, st', calls)" "calls \<noteq> []"
    and "request_session request = Some sid" "list_all (\<lambda>er. \<not> generates sid er) later"
    and "request_session request' = Some sid" "request_key env' request' = request_key env request"
  shows "snd (snd (handle_mcp_http_route env' request' (fold route_step later st'))) = []"
proof (rule ccontr)
  let ?st = "fold route_step steps (session_store_new n ttl)"
  assume again: "\<not> ?thesis"
  have i: "store_inv ?st" by (rule endpoint.run_inv) (auto simp: list_all_iff)
  obtain c where c: "c \<in> set calls" using assms(2) by (cases calls) auto
  obtain key where key: "request_key env request = Some key" "remembers sid key st'"
    using route_calls [OF i assms(1) c] assms(3) by (auto simp: call_justified_def request_key_def)
  have "store_inv st'" using bounded.route_keeps [OF i, of env request] assms(1) by (simp add: route_step_def)
  then have kept: "store_inv (fold route_step later st')" "remembers sid key (fold route_step later st')"
    using endpoint_replay.run_keeps [of st' sid key later] key(2) assms(4) by auto
  obtain reply2 st2 c2 calls2 where r: "handle_mcp_http_route env' request' (fold route_step later st') = (reply2, st2, c2 # calls2)"
    using again by (metis list.exhaust prod.exhaust_sel)
  then have "call_justified env' request' (fold route_step later st') st2 c2"
    using route_calls [OF kept(1) r] by simp
  then have "admits sid key (mx_now_ms env') (fold route_step later st')"
    using assms(5,6) key(1) by (auto simp: call_justified_def request_key_def)
  then show False using admits_not_remembered kept(2) by blast
qed

text \<open>A session from its start: initialize, the notification that it is ready, a tool call, and the same call again.\<close>

definition sample_message :: "string \<Rightarrow> json" where
  "sample_message body =
     (if body = ''i'' then json_object [(''jsonrpc'', JString ''2.0''), (''id'', JNumber ''1''), (''method'', JString ''initialize'')]
      else if body = ''n'' then json_object [(''jsonrpc'', JString ''2.0''), (''method'', JString ''notifications/initialized'')]
      else json_object [(''jsonrpc'', JString ''2.0''), (''id'', JNumber ''2''), (''method'', JString ''tools/call''),
             (''params'', json_object [(''name'', JString ''hub_status'')])])"

definition sample_env :: mcp_http_env where
  "sample_env = \<lparr>mx_parse = (\<lambda>body. Inr (sample_message body)), mx_utf8_error = (\<lambda>_. []), mx_now_ms = 5, mx_random = Inr [1],
     mx_version = ''1'', mx_instructions = [], mx_var = (\<lambda>_. None), mx_printers = \<lparr>jp_pretty = (\<lambda>_. []), jp_compact = (\<lambda>_. [])\<rparr>,
     mx_tool_names = [''hub_status''], mx_listing = (\<lambda>_. JNull), mx_answer = (\<lambda>_. Inr JNull)\<rparr>"

definition sample_post :: "string \<Rightarrow> http_request" where
  "sample_post body = \<lparr>rq_method = ''POST'', rq_path = ''/mcp'', rq_query = [],
     rq_headers = [(''accept'', ''application/json, text/event-stream''), (''content-type'', ''application/json''),
       (''mcp-session-id'', ''mcpace-01'')], rq_body = body\<rparr>"

definition sample_session :: "bool \<Rightarrow> string list \<Rightarrow> mcp_http_session" where
  "sample_session ready ids = \<lparr>hs_id = ''mcpace-01'', hs_protocol_version = CURRENT_PROTOCOL_VERSION, hs_client_name = None,
     hs_client_version = None, hs_created_at_ms = 5, hs_last_seen_at_ms = 5, hs_expires_at_ms = 15, hs_initialized = ready,
     hs_seen_request_ids = ids, hs_seen_request_id_bytes = 3 * length ids\<rparr>"

definition sample_sessions :: "bool \<Rightarrow> string list \<Rightarrow> mcp_http_session_store" where
  "sample_sessions ready ids = (session_store_new 2 10)\<lparr>st_sessions := [(''mcpace-01'', sample_session ready ids)]\<rparr>"

lemma sample_request_shape:
  "accepts_streamable_http_post (sample_post body)" "content_type_is (sample_post body) ''application/json''"
  "request_session (sample_post body) = Some ''mcpace-01''"
  by code_simp+

lemma sample_bodies:
  "utf8_ok ''i''" "utf8_ok ''n''" "utf8_ok ''c''" "trim ''i'' = ''i''" "trim ''n'' = ''n''" "trim ''c'' = ''c''"
  by code_simp+

lemma sample_envelopes:
  "validate_request_envelope (sample_message ''i'') = Inr ()" "validate_request_envelope (sample_message ''n'') = Inr ()"
  "validate_request_envelope (sample_message ''c'') = Inr ()"
  "request_id_is_within_limit (JNumber ''1'')" "request_id_is_within_limit (JNumber ''2'')"
  "\<not> method_is_notification ''initialize''" "\<not> method_is_notification ''tools/call''"
  "request_id_key (JNumber ''1'') = Some ''n:1''" "request_id_key (JNumber ''2'') = Some ''n:2''"
  by code_simp+

lemma sample_headers:
  "validate_mcp_standard_headers (sample_post body) (sample_message ''i'') ''initialize'' = None"
  "validate_mcp_standard_headers (sample_post body) (sample_message ''n'') ''notifications/initialized'' = None"
  "validate_mcp_standard_headers (sample_post body) (sample_message ''c'') ''tools/call'' = None"
  "request_header_string_unique (Some (sample_post body)) ''mcp-protocol-version'' = Inr None"
  "generated_mcp_http_session_id (mx_random sample_env) = Inr ''mcpace-01''"
  "negotiate_protocol_version CURRENT_PROTOCOL_VERSION = CURRENT_PROTOCOL_VERSION"
  by code_simp+

lemma sample_values:
  "value_at_path (sample_message ''i'') [''method''] = Some (JString ''initialize'')"
  "value_at_path (sample_message ''n'') [''method''] = Some (JString ''notifications/initialized'')"
  "value_at_path (sample_message ''c'') [''method''] = Some (JString ''tools/call'')"
  "value_at_path (sample_message ''i'') [''id''] = Some (JNumber ''1'')"
  "value_at_path (sample_message ''n'') [''id''] = None"
  "value_at_path (sample_message ''c'') [''id''] = Some (JNumber ''2'')"
  "string_at_path (sample_message ''i'') [''params'', ''protocolVersion''] = None"
  "string_at_path (sample_message ''i'') [''params'', ''clientInfo'', ''name''] = None"
  "string_at_path (sample_message ''i'') [''params'', ''clientInfo'', ''version''] = None"
  by code_simp+

lemma sample_env_simps:
  "mx_parse sample_env body = Inr (sample_message body)" "mx_now_ms sample_env = 5" "rq_method (sample_post body) = ''POST''"
  "rq_body (sample_post body) = body"
  by (simp_all add: sample_env_def sample_post_def)

lemma sample_route:
  "trim body = body \<Longrightarrow> utf8_ok body \<Longrightarrow> handle_mcp_http_route sample_env (sample_post body) st =
     (case handle_message sample_env (sample_post body) (sample_message body) st of (r, st, calls) \<Rightarrow> (response_reply r, st, calls))"
  by (simp add: handle_mcp_http_route_def handle_mcp_http_request_def sample_request_shape sample_env_simps)

lemmas sample_routes = sample_route [OF sample_bodies(4,1)] sample_route [OF sample_bodies(5,2)] sample_route [OF sample_bodies(6,3)]

lemma sample_touch:
  "touch_from_request (sample_post body) 5 (sample_sessions ready ids) =
     (Inr (session_view (sample_session ready ids)), sample_sessions ready ids)"
  using sample_request_shape(3) [of body]
  by (simp add: touch_from_request_def sample_headers session_id_of_request_Inr [THEN iffD2] touch_def sample_sessions_def
      sample_session_def session_store_new_def sat_add_def uint_max_def Let_def)

lemma sample_run_initialize:
  "route_step (sample_env, sample_post ''i'') (session_store_new 2 10) = sample_sessions False [''n:1'']"
  by (simp add: route_step_def sample_routes handle_message_def handle_request_message_def sample_values
      check_request_message_def sample_envelopes sample_headers initialize_session_def create_or_replace_def too_long_def
      prune_expired_def session_store_new_def hm_retain_def sample_env_simps evict_until_capacity_for_insert_def
      evict_oldest_fits replay_bytes_def sat_add_def uint_max_def session_limits Let_def
      sample_sessions_def sample_session_def
      del: value_at_path.simps request_id_key.simps)

lemma sample_run_ready:
  "route_step (sample_env, sample_post ''n'') (sample_sessions False ids) = sample_sessions True ids"
  by (simp add: route_step_def sample_routes handle_message_def handle_request_message_def sample_values
      check_request_message_def sample_envelopes sample_headers mark_mcp_session_initialized_def mark_initialized_from_request_def
      sample_env_simps sample_touch Let_def del: value_at_path.simps)
    (simp add: sample_sessions_def sample_session_def session_view_def session_store_new_def)

lemma sample_tools_call: "snd (tools_call sample_env (sample_message ''c'') (JNumber ''2'')) = [RunTool ''hub_status'' empty_object]"
  by code_simp

lemma sample_track:
  "\<exists>v st'. track_request_id ''mcpace-01'' ''n:2'' (sample_sessions True [''n:1'']) = (Inr v, st') \<and> sv_initialized v"
  by (simp add: track_request_id_def sample_sessions_def sample_session_def session_store_new_def session_limits replay_bytes_def
      sat_add_def uint_max_def Let_def session_view_def)

lemma sample_run_call:
  "snd (snd (handle_mcp_http_route sample_env (sample_post ''c'') (sample_sessions True [''n:1'']))) = [RunTool ''hub_status'' empty_object]"
proof -
  obtain v st' where t: "track_request_id ''mcpace-01'' ''n:2'' (sample_sessions True [''n:1'']) = (Inr v, st')" "sv_initialized v"
    using sample_track by blast
  have "prepare_mcp_session_for_request sample_env (sample_post ''c'') (JNumber ''2'') (Some ''n:2'') True (sample_sessions True [''n:1'']) = (Inr v, st')"
    using t by (simp add: prepare_mcp_session_for_request_def sample_env_simps sample_touch session_view_def sample_session_def)
  moreover obtain response where tc: "tools_call sample_env (sample_message ''c'') (JNumber ''2'') = (response, [RunTool ''hub_status'' empty_object])"
    using sample_tools_call by (metis prod.collapse)
  ultimately show ?thesis
    by (simp add: sample_routes handle_message_def handle_request_message_def sample_values
      check_request_message_def sample_envelopes sample_headers dispatch_def Let_def
      del: value_at_path.simps request_id_key.simps)
qed

theorem replayed_request_not_run_witness:
  "\<exists>st'. handle_mcp_http_route sample_env (sample_post ''c'') (fold route_step [(sample_env, sample_post ''i''), (sample_env, sample_post ''n'')]
        (session_store_new 2 10)) = st' \<and> snd (snd st') = [RunTool ''hub_status'' empty_object] \<and>
     snd (snd (handle_mcp_http_route sample_env (sample_post ''c'') (fold route_step [] (fst (snd st'))))) = []"
proof -
  let ?steps = "[(sample_env, sample_post ''i''), (sample_env, sample_post ''n'')]"
  obtain reply st' calls where c: "handle_mcp_http_route sample_env (sample_post ''c'') (sample_sessions True [''n:1'']) = (reply, st', calls)"
    by (metis prod.exhaust)
  moreover have calls: "calls = [RunTool ''hub_status'' empty_object]" using sample_run_call c by simp
  ultimately show ?thesis
    using replayed_request_not_run [of sample_env "sample_post ''c''" ?steps 2 10 reply st' calls "''mcpace-01''" "[]" "sample_post ''c''" sample_env]
    by (simp add: sample_run_initialize sample_run_ready sample_request_shape)
qed

end
