(* ===== verification/Config_Edit.thy ===== *)
theory Config_Edit
  imports Mcp_Protocol Text_Search
begin

text \<open>
  The edits of the configuration files of MCP clients (\<^verbatim>\<open>src/config_edit.rs\<close>, \<^verbatim>\<open>src/config_edit/removal.rs\<close>) and the scan of the
  commands such a file starts (\<^verbatim>\<open>src/codex_config.rs\<close>). An edit maps the text of a file to its new text; positions are byte
  offsets, and every position the code slices at is next to an ASCII character. A slice whose start is behind its end panics in
  Rust; here it is the error \<open>SlicePanic\<close>. The JSON parser, printer and string decoder are arguments.
\<close>

section \<open>Errors and results\<close>

datatype config_edit_error =
    JsonParse string string
  | JsonTopLevelObject string
  | JsonServersObject string string
  | ManagedBlockMissingEnd string string
  | OverwideManagedBlock string string
  | SlicePanic

fun config_edit_error_display :: "config_edit_error \<Rightarrow> string" where
  "config_edit_error_display (JsonParse path message) =
     ''failed to parse JSON client config '' @ squote path @ '': '' @ message"
| "config_edit_error_display (JsonTopLevelObject path) =
     ''JSON client config '' @ squote path @ '' must be a top-level object''"
| "config_edit_error_display (JsonServersObject path key) =
     ''JSON client config '' @ squote path @ '' has a non-object '' @ key @ '' field''"
| "config_edit_error_display (ManagedBlockMissingEnd path adapter) =
     ''Client config '' @ squote path @ '' contains an MCPace begin marker without a matching end marker for '' @ squote adapter"
| "config_edit_error_display (OverwideManagedBlock path adapter) =
     ''Client config '' @ squote path @ '' contains an over-wide MCPace managed block for '' @ squote adapter
     @ '' with unrelated TOML tables and no recoverable MCPace table''"
| "config_edit_error_display SlicePanic = ''begin > end''"

record client_config_update =
  cu_contents :: string
  cu_replaced_existing_block :: bool

abbreviation config_update :: "string \<Rightarrow> bool \<Rightarrow> client_config_update" where
  "config_update c replaced \<equiv> \<lparr>cu_contents = c, cu_replaced_existing_block = replaced\<rparr>"

section \<open>Lines of TOML\<close>

definition trim_start :: "string \<Rightarrow> string" where
  "trim_start s = dropWhile is_ws s"

definition trim_end :: "string \<Rightarrow> string" where
  "trim_end s = rev (dropWhile is_ws (rev s))"

definition ends_with :: "string \<Rightarrow> string \<Rightarrow> bool" where
  "ends_with s suffix \<longleftrightarrow> starts_with (rev s) (rev suffix)"

fun split_inclusive :: "string \<Rightarrow> string list" where
  "split_inclusive [] = []"
| "split_inclusive (c # s) =
     (if c = LF then [LF] # split_inclusive s
      else case split_inclusive s of [] \<Rightarrow> [[c]] | l # ls \<Rightarrow> (c # l) # ls)"

text \<open>The state of the scan of a line: the open quote, and whether the last character escapes the next one.\<close>

definition toml_quote_step :: "char option \<times> bool \<Rightarrow> char \<Rightarrow> char option \<times> bool" where
  "toml_quote_step q ch =
     (case q of
        (Some open_quote, escaped) \<Rightarrow>
          if open_quote = CHR 0x22
          then (if escaped then (Some open_quote, False)
                else if ch = CHR 0x5C then (Some open_quote, True)
                else if ch = CHR 0x22 then (None, escaped)
                else (Some open_quote, escaped))
          else if open_quote = CHR 0x27 \<and> ch = CHR 0x27 then (None, escaped)
          else (Some open_quote, escaped)
      | (None, escaped) \<Rightarrow> if ch = CHR 0x22 \<or> ch = CHR 0x27 then (Some ch, escaped) else (None, escaped))"

fun comment_index :: "char option \<times> bool \<Rightarrow> string \<Rightarrow> nat option" where
  "comment_index q [] = None"
| "comment_index q (ch # s) =
     (if fst q = None \<and> ch = CHR ''#'' then Some 0 else map_option Suc (comment_index (toml_quote_step q ch) s))"

definition trim_toml_line :: "string \<Rightarrow> string" where
  "trim_toml_line line =
     (let trimmed = trim line
      in case comment_index (None, False) trimmed of Some i \<Rightarrow> trim_end (take i trimmed) | None \<Rightarrow> trimmed)"

definition looks_like_toml_table_header :: "string \<Rightarrow> bool" where
  "looks_like_toml_table_header trimmed_line \<longleftrightarrow> trimmed_line \<noteq> [] \<and> hd trimmed_line = CHR ''['' \<and> last trimmed_line = CHR '']''"

fun quoted_end :: "char \<Rightarrow> bool \<Rightarrow> string \<Rightarrow> nat option" where
  "quoted_end quote escaped [] = None"
| "quoted_end quote escaped (ch # s) =
     (if escaped then map_option Suc (quoted_end quote False s)
      else if ch = CHR 0x5C then map_option Suc (quoted_end quote True s)
      else if ch = quote then Some 0 else map_option Suc (quoted_end quote False s))"

definition toml_quoted_string_end :: "string \<Rightarrow> char \<Rightarrow> nat option" where
  "toml_quoted_string_end v quote = map_option Suc (quoted_end quote False (drop 1 v))"

definition parse_toml_string_literal :: "(string \<Rightarrow> string option) \<Rightarrow> string \<Rightarrow> string option" where
  "parse_toml_string_literal decode v =
     (if starts_with v [CHR 0x22]
      then (case toml_quoted_string_end v (CHR 0x22) of None \<Rightarrow> None | Some i \<Rightarrow> decode (take (Suc i) v))
      else case strip_prefix [CHR 0x27] v of
             Some rest \<Rightarrow> map_option fst (split_at [CHR 0x27] rest)
           | None \<Rightarrow> None)"

definition parse_toml_string_assignment :: "(string \<Rightarrow> string option) \<Rightarrow> string \<Rightarrow> string \<Rightarrow> string option" where
  "parse_toml_string_assignment decode trimmed_line key =
     (case split_at ''='' trimmed_line of
        None \<Rightarrow> None
      | Some (left, right) \<Rightarrow> if trim left \<noteq> key then None else parse_toml_string_literal decode (trim right))"

abbreviation is_bare_toml_key :: "string \<Rightarrow> bool" where
  "is_bare_toml_key \<equiv> ascii_alnum_dash_underscore"

definition toml_escape :: "char \<Rightarrow> string" where
  "toml_escape ch =
     (if ch = CHR 0x5C then [CHR 0x5C, CHR 0x5C]
      else if ch = CHR 0x22 then [CHR 0x5C, CHR 0x22]
      else if ch = LF then [CHR 0x5C, CHR ''n'']
      else if ch = CR then [CHR 0x5C, CHR ''r'']
      else if ch = CHR 0x09 then [CHR 0x5C, CHR ''t'']
      else [ch])"

definition toml_basic_string :: "string \<Rightarrow> string" where
  "toml_basic_string v = [CHR 0x22] @ concat (map toml_escape v) @ [CHR 0x22]"

definition detect_newline :: "string \<Rightarrow> string" where
  "detect_newline existing = (if contains existing CRLF then CRLF else [LF])"

definition format_toml_table_key :: "string \<Rightarrow> string" where
  "format_toml_table_key v = (if is_bare_toml_key v then v else toml_basic_string v)"

definition begin_marker :: "string \<Rightarrow> string" where
  "begin_marker adapter_key_name = ''# BEGIN MCPACE MANAGED BLOCK: '' @ adapter_key_name"

definition end_marker :: "string \<Rightarrow> string" where
  "end_marker adapter_key_name = ''# END MCPACE MANAGED BLOCK: '' @ adapter_key_name"

definition build_toml_mcp_server_block :: "string \<Rightarrow> string \<Rightarrow> string \<Rightarrow> string" where
  "build_toml_mcp_server_block adapter_key_name server_url newline =
     join newline
       [begin_marker adapter_key_name,
        ''# This block is managed by '' @ [CHR 0x60] @ ''mcpace advanced client install'' @ [CHR 0x60, CHR ''.''],
        ''[mcp_servers.'' @ format_toml_table_key adapter_key_name @ '']'',
        ''url = '' @ toml_basic_string server_url,
        ''enabled = true'',
        ''startup_timeout_sec = 20'',
        end_marker adapter_key_name,
        []]"

section \<open>Entries of JSON files\<close>

definition servers_key_of :: "string \<Rightarrow> string" where
  "servers_key_of servers_object_key = (if trim servers_object_key = [] then ''mcpServers'' else trim servers_object_key)"

definition apply_json_mcp_server_entry ::
  "(string \<Rightarrow> string + json) \<Rightarrow> (json \<Rightarrow> string) \<Rightarrow> string \<Rightarrow> string \<Rightarrow> string \<Rightarrow> json \<Rightarrow> string \<Rightarrow> config_edit_error + client_config_update" where
  "apply_json_mcp_server_entry parse pretty existing adapter_key_name servers_object_key server_config path =
     (case (if trim existing = [] then Inr empty_object else parse existing) of
        Inl message \<Rightarrow> Inl (JsonParse path message)
      | Inr (JObject root) \<Rightarrow>
          (let servers_key = servers_key_of servers_object_key
           in case unwrap_or (map_of root servers_key) empty_object of
                JObject servers \<Rightarrow>
                  Inr (config_update
                    (pretty (JObject (bt_insert servers_key (JObject (bt_insert adapter_key_name server_config servers)) root)))
                    (map_of servers adapter_key_name \<noteq> None))
              | _ \<Rightarrow> Inl (JsonServersObject path servers_key))
      | Inr _ \<Rightarrow> Inl (JsonTopLevelObject path))"

fun json_value_contains_exact_string :: "string \<Rightarrow> json \<Rightarrow> bool" where
  "json_value_contains_exact_string expected (JString v) = (v = expected)"
| "json_value_contains_exact_string expected (JArray items) = list_ex (json_value_contains_exact_string expected) items"
| "json_value_contains_exact_string expected (JObject entries) = list_ex (\<lambda>e. json_value_contains_exact_string expected (snd e)) entries"
| "json_value_contains_exact_string expected _ = False"

definition remove_json_mcp_server_entry ::
  "(string \<Rightarrow> string + json) \<Rightarrow> (json \<Rightarrow> string) \<Rightarrow> string \<Rightarrow> string \<Rightarrow> string \<Rightarrow> string \<Rightarrow> string \<Rightarrow> config_edit_error + client_config_update" where
  "remove_json_mcp_server_entry parse pretty existing adapter_key_name servers_object_key expected_server_url path =
     (if trim existing = [] then Inr (config_update existing False)
      else case parse existing of
        Inl message \<Rightarrow> Inl (JsonParse path message)
      | Inr (JObject root) \<Rightarrow>
          (let servers_key = servers_key_of servers_object_key
           in case map_of root servers_key of
                None \<Rightarrow> Inr (config_update existing False)
              | Some (JObject servers) \<Rightarrow>
                  if (case map_of servers adapter_key_name of
                        Some entry \<Rightarrow> json_value_contains_exact_string expected_server_url entry | None \<Rightarrow> False)
                  then Inr (config_update (pretty (JObject (bt_insert servers_key (JObject (bt_remove adapter_key_name servers)) root))) True)
                  else Inr (config_update existing False)
              | Some _ \<Rightarrow> Inl (JsonServersObject path servers_key))
      | Inr _ \<Rightarrow> Inl (JsonTopLevelObject path))"

section \<open>Managed blocks\<close>

definition find_str :: "string \<Rightarrow> string \<Rightarrow> nat option" where
  "find_str sub s = map_option (\<lambda>p. length (fst p)) (split_at sub s)"

definition slice :: "string \<Rightarrow> nat \<Rightarrow> nat \<Rightarrow> string option" where
  "slice s a b = (if a \<le> b \<and> b \<le> length s then Some (take (b - a) (drop a s)) else None)"

definition line_start :: "string \<Rightarrow> nat \<Rightarrow> nat" where
  "line_start existing index = index - length (takeWhile (\<lambda>c. c \<noteq> LF) (rev (take index existing)))"

definition line_end_after :: "string \<Rightarrow> nat \<Rightarrow> nat" where
  "line_end_after existing index =
     (if starts_with (drop index existing) CRLF then index + 2
      else if starts_with (drop index existing) [LF] then index + 1
      else case find_str [LF] (drop index existing) of Some relative \<Rightarrow> index + relative + 1 | None \<Rightarrow> length existing)"

definition locate_managed_block :: "string \<Rightarrow> string \<Rightarrow> string \<Rightarrow> config_edit_error + (nat \<times> nat) option" where
  "locate_managed_block existing adapter_key_name path =
     (case find_str (begin_marker adapter_key_name) existing of
        None \<Rightarrow> Inr None
      | Some marker_start \<Rightarrow>
          (case find_str (end_marker adapter_key_name) (drop marker_start existing) of
             None \<Rightarrow> Inl (ManagedBlockMissingEnd path adapter_key_name)
           | Some relative_end \<Rightarrow>
               (let e = marker_start + relative_end + length (end_marker adapter_key_name)
                in Inr (Some (line_start existing marker_start,
                     if starts_with (drop e existing) CRLF then e + 2
                     else if starts_with (drop e existing) [LF] then e + 1 else e)))))"

definition table_header_candidates :: "string \<Rightarrow> string list" where
  "table_header_candidates adapter_key_name =
     (if is_bare_toml_key adapter_key_name then [''[mcp_servers.'' @ adapter_key_name @ '']''] else [])
     @ [''[mcp_servers.'' @ toml_basic_string adapter_key_name @ '']'']"

fun table_scan :: "string list \<Rightarrow> nat \<Rightarrow> string list \<Rightarrow> nat option \<Rightarrow> nat \<Rightarrow> (nat \<times> nat) option" where
  "table_scan candidates range_end [] start offset = map_option (\<lambda>v. (v, range_end)) start"
| "table_scan candidates range_end (line # ls) start offset =
     (let trimmed = trim_toml_line line
      in case start of
           None \<Rightarrow> table_scan candidates range_end ls (if trimmed \<in> set candidates then Some offset else None) (offset + length line)
         | Some v \<Rightarrow>
             if looks_like_toml_table_header trimmed then Some (v, offset)
             else table_scan candidates range_end ls start (offset + length line))"

definition locate_toml_mcp_servers_table_block_in_range ::
  "string \<Rightarrow> string \<Rightarrow> nat \<Rightarrow> nat \<Rightarrow> config_edit_error + (nat \<times> nat) option" where
  "locate_toml_mcp_servers_table_block_in_range existing adapter_key_name range_start range_end =
     (case slice existing range_start range_end of
        None \<Rightarrow> Inl SlicePanic
      | Some part \<Rightarrow> Inr (table_scan (table_header_candidates adapter_key_name) range_end (split_inclusive part) None range_start))"

definition locate_toml_mcp_servers_table_block :: "string \<Rightarrow> string \<Rightarrow> config_edit_error + (nat \<times> nat) option" where
  "locate_toml_mcp_servers_table_block existing adapter_key_name =
     locate_toml_mcp_servers_table_block_in_range existing adapter_key_name 0 (length existing)"

definition foreign_header :: "string \<Rightarrow> string \<Rightarrow> bool" where
  "foreign_header adapter_key_name line \<longleftrightarrow>
     looks_like_toml_table_header (trim_toml_line line) \<and> trim_toml_line line \<notin> set (table_header_candidates adapter_key_name)"

definition range_has_foreign_toml_header :: "string \<Rightarrow> nat \<Rightarrow> nat \<Rightarrow> string \<Rightarrow> config_edit_error + bool" where
  "range_has_foreign_toml_header existing range_start range_end adapter_key_name =
     (case slice existing range_start range_end of
        None \<Rightarrow> Inl SlicePanic
      | Some part \<Rightarrow> Inr (list_ex (foreign_header adapter_key_name) (split_inclusive part)))"

record overwide_span =
  ow_begin_line_start :: nat
  ow_begin_line_end :: nat
  ow_table_start :: nat
  ow_table_end :: nat
  ow_end_line_start :: nat
  ow_end_line_end :: nat
  ow_preserve_between_begin_and_table :: bool

datatype toml_managed_block_span = ExactSpan nat nat | RecoverOverwide overwide_span

definition locate_toml_managed_block :: "string \<Rightarrow> string \<Rightarrow> string \<Rightarrow> config_edit_error + toml_managed_block_span option" where
  "locate_toml_managed_block existing adapter_key_name path =
     (case find_str (begin_marker adapter_key_name) existing of
        None \<Rightarrow> Inr None
      | Some marker_start \<Rightarrow>
          (let marker_end = marker_start + length (begin_marker adapter_key_name);
               begin_line_start = line_start existing marker_start;
               begin_line_end = line_end_after existing marker_end
           in case find_str (end_marker adapter_key_name) (drop marker_start existing) of
                None \<Rightarrow> Inl (ManagedBlockMissingEnd path adapter_key_name)
              | Some relative_end \<Rightarrow>
                  (let end_marker_start = marker_start + relative_end;
                       end_line_start = line_start existing end_marker_start;
                       end_line_end = line_end_after existing (end_marker_start + length (end_marker adapter_key_name))
                   in case range_has_foreign_toml_header existing marker_end end_marker_start adapter_key_name of
                        Inl e \<Rightarrow> Inl e
                      | Inr False \<Rightarrow> Inr (Some (ExactSpan begin_line_start end_line_end))
                      | Inr True \<Rightarrow>
                          (case locate_toml_mcp_servers_table_block_in_range existing adapter_key_name marker_end end_marker_start of
                             Inl e \<Rightarrow> Inl e
                           | Inr None \<Rightarrow> Inl (OverwideManagedBlock path adapter_key_name)
                           | Inr (Some (table_start, table_end)) \<Rightarrow>
                               (case range_has_foreign_toml_header existing begin_line_end table_start adapter_key_name of
                                  Inl e \<Rightarrow> Inl e
                                | Inr preserve \<Rightarrow>
                                    Inr (Some (RecoverOverwide \<lparr>ow_begin_line_start = begin_line_start, ow_begin_line_end = begin_line_end,
                                      ow_table_start = table_start, ow_table_end = table_end, ow_end_line_start = end_line_start,
                                      ow_end_line_end = end_line_end, ow_preserve_between_begin_and_table = preserve\<rparr>)))))))"

definition splice_text :: "string \<Rightarrow> nat \<Rightarrow> nat \<Rightarrow> string \<Rightarrow> string" where
  "splice_text existing a b block = take a existing @ block @ drop b existing"

definition apply_toml_managed_block_update :: "string \<Rightarrow> string \<Rightarrow> toml_managed_block_span \<Rightarrow> config_edit_error + string" where
  "apply_toml_managed_block_update existing managed_block span =
     (case span of
        ExactSpan a b \<Rightarrow> Inr (splice_text existing a b managed_block)
      | RecoverOverwide ow \<Rightarrow>
          (case (if ow_preserve_between_begin_and_table ow then slice existing (ow_begin_line_end ow) (ow_table_start ow) else Some []) of
             None \<Rightarrow> Inl SlicePanic
           | Some between \<Rightarrow>
               (case slice existing (ow_table_end ow) (ow_end_line_start ow) of
                  None \<Rightarrow> Inl SlicePanic
                | Some rest \<Rightarrow>
                    Inr (take (ow_begin_line_start ow) existing @ between @ managed_block @ rest @ drop (ow_end_line_end ow) existing))))"

definition with_blank_line :: "string \<Rightarrow> string" where
  "with_blank_line existing =
     (if existing = [] then []
      else let newline = detect_newline existing;
               ended = (if ends_with existing [LF] then existing else existing @ newline)
           in if ends_with ended (newline @ newline) then ended else ended @ newline)"

definition apply_toml_mcp_server_block :: "string \<Rightarrow> string \<Rightarrow> string \<Rightarrow> string \<Rightarrow> config_edit_error + client_config_update" where
  "apply_toml_mcp_server_block existing adapter_key_name managed_block path =
     (case locate_toml_managed_block existing adapter_key_name path of
        Inl e \<Rightarrow> Inl e
      | Inr (Some span) \<Rightarrow>
          map_sum id (\<lambda>updated. config_update updated True) (apply_toml_managed_block_update existing managed_block span)
      | Inr None \<Rightarrow>
          (case locate_toml_mcp_servers_table_block existing adapter_key_name of
             Inl e \<Rightarrow> Inl e
           | Inr (Some (a, b)) \<Rightarrow> Inr (config_update (splice_text existing a b managed_block) True)
           | Inr None \<Rightarrow> Inr (config_update (with_blank_line existing @ managed_block) False)))"

definition remove_toml_mcp_server_block :: "string \<Rightarrow> string \<Rightarrow> string \<Rightarrow> config_edit_error + client_config_update" where
  "remove_toml_mcp_server_block existing adapter_key_name path =
     (case locate_toml_managed_block existing adapter_key_name path of
        Inl e \<Rightarrow> Inl e
      | Inr None \<Rightarrow> Inr (config_update existing False)
      | Inr (Some span) \<Rightarrow> map_sum id (\<lambda>updated. config_update updated True) (apply_toml_managed_block_update existing [] span))"

section \<open>YAML\<close>

definition build_yaml_mcp_servers_entry_block :: "string \<Rightarrow> string \<Rightarrow> string \<Rightarrow> string" where
  "build_yaml_mcp_servers_entry_block adapter_key_name server_url newline =
     join newline
       [''  '' @ begin_marker adapter_key_name,
        ''  '' @ adapter_key_name @ '':'',
        ''    url: '' @ toml_basic_string server_url,
        ''    enabled: true'',
        ''    timeout: 120'',
        ''    connect_timeout: 60'',
        ''  '' @ end_marker adapter_key_name,
        []]"

definition trim_yaml_key_quotes :: "string \<Rightarrow> string" where
  "trim_yaml_key_quotes v =
     unwrap_or (or_else (Option.bind (strip_prefix [CHR 0x22] v) (strip_suffix [CHR 0x22]))
       (Option.bind (strip_prefix [CHR 0x27] v) (strip_suffix [CHR 0x27]))) v"

definition read_yaml_mapping_key :: "string \<Rightarrow> (nat \<times> string) option" where
  "read_yaml_mapping_key line =
     (let without_newline = rev (dropWhile (\<lambda>c. c = CR \<or> c = LF) (rev line));
          content = trim_start without_newline
      in if trim without_newline = [] then None
         else if starts_with content ''#'' \<or> starts_with content ''-'' then None
         else case split_at '':'' content of
                None \<Rightarrow> None
              | Some (before, _) \<Rightarrow>
                  if trim before = [] then None
                  else Some (length without_newline - length content, trim_yaml_key_quotes (trim before)))"

fun section_scan :: "string \<Rightarrow> nat \<Rightarrow> string list \<Rightarrow> (nat \<times> nat) option \<Rightarrow> nat \<Rightarrow> (nat \<times> nat \<times> nat) option" where
  "section_scan key n [] start offset = map_option (\<lambda>(a, body_start). (a, body_start, n)) start"
| "section_scan key n (line # ls) start offset =
     (case read_yaml_mapping_key line of
        None \<Rightarrow> section_scan key n ls start (offset + length line)
      | Some (indent, line_key) \<Rightarrow>
          (case start of
             None \<Rightarrow> section_scan key n ls
               (if indent = 0 \<and> line_key = key then Some (offset, offset + length line) else None) (offset + length line)
           | Some (a, body_start) \<Rightarrow>
               if indent = 0 then Some (a, body_start, offset) else section_scan key n ls start (offset + length line)))"

definition locate_yaml_top_level_section :: "string \<Rightarrow> string \<Rightarrow> (nat \<times> nat \<times> nat) option" where
  "locate_yaml_top_level_section existing key = section_scan key (length existing) (split_inclusive existing) None 0"

fun entry_scan :: "string \<Rightarrow> nat \<Rightarrow> string list \<Rightarrow> (nat \<times> nat) option \<Rightarrow> nat \<Rightarrow> (nat \<times> nat) option" where
  "entry_scan adapter_key_name section_end [] start offset = map_option (\<lambda>(a, _). (a, section_end)) start"
| "entry_scan adapter_key_name section_end (line # ls) start offset =
     (case read_yaml_mapping_key line of
        None \<Rightarrow> entry_scan adapter_key_name section_end ls start (offset + length line)
      | Some (indent, line_key) \<Rightarrow>
          (case start of
             None \<Rightarrow> entry_scan adapter_key_name section_end ls
               (if 0 < indent \<and> line_key = adapter_key_name then Some (offset, indent) else None) (offset + length line)
           | Some (a, entry_indent) \<Rightarrow>
               if indent = entry_indent then Some (a, offset)
               else entry_scan adapter_key_name section_end ls start (offset + length line)))"

definition locate_yaml_section_entry :: "string \<Rightarrow> nat \<Rightarrow> nat \<Rightarrow> string \<Rightarrow> (nat \<times> nat) option" where
  "locate_yaml_section_entry existing section_body_start section_end adapter_key_name =
     entry_scan adapter_key_name section_end
       (split_inclusive (take (section_end - section_body_start) (drop section_body_start existing))) None section_body_start"

definition apply_yaml_mcp_server_entry :: "string \<Rightarrow> string \<Rightarrow> string \<Rightarrow> string \<Rightarrow> config_edit_error + client_config_update" where
  "apply_yaml_mcp_server_entry existing adapter_key_name server_url path =
     (let newline = detect_newline existing;
          entry_block = build_yaml_mcp_servers_entry_block adapter_key_name server_url newline
      in case locate_managed_block existing adapter_key_name path of
           Inl e \<Rightarrow> Inl e
         | Inr (Some (a, b)) \<Rightarrow> Inr (config_update (splice_text existing a b entry_block) True)
         | Inr None \<Rightarrow>
             (case locate_yaml_top_level_section existing ''mcp_servers'' of
                Some (section_start, section_body_start, section_end) \<Rightarrow>
                  (case locate_yaml_section_entry existing section_body_start section_end adapter_key_name of
                     Some (a, b) \<Rightarrow> Inr (config_update (splice_text existing a b entry_block) True)
                   | None \<Rightarrow>
                       Inr (config_update
                         (take section_end existing
                          @ (if section_start < section_end \<and> \<not> ends_with (take section_end existing) [LF] then newline else [])
                          @ entry_block @ drop section_end existing) False))
              | None \<Rightarrow> Inr (config_update (with_blank_line existing @ ''mcp_servers:'' @ newline @ entry_block) False)))"

definition remove_yaml_mcp_server_entry :: "string \<Rightarrow> string \<Rightarrow> string \<Rightarrow> config_edit_error + client_config_update" where
  "remove_yaml_mcp_server_entry existing adapter_key_name path =
     (case locate_managed_block existing adapter_key_name path of
        Inl e \<Rightarrow> Inl e
      | Inr None \<Rightarrow> Inr (config_update existing False)
      | Inr (Some (a, b)) \<Rightarrow> Inr (config_update (splice_text existing a b []) True))"

section \<open>Commands of a Codex file\<close>

record codex_mcp_command =
  cx_server_name :: string
  cx_command :: string

definition parse_mcp_servers_table_name :: "(string \<Rightarrow> string option) \<Rightarrow> string \<Rightarrow> string option" where
  "parse_mcp_servers_table_name decode trimmed_line =
     (case Option.bind (strip_prefix ''['' trimmed_line) (strip_suffix '']'') of
        None \<Rightarrow> None
      | Some inner \<Rightarrow>
          (case strip_prefix ''mcp_servers.'' (trim inner) of
             None \<Rightarrow> None
           | Some rest \<Rightarrow>
               (let name = trim rest
                in or_else (parse_toml_string_literal decode name) (if is_bare_toml_key name then Some name else None))))"

definition push_mcp_server_command :: "codex_mcp_command list \<Rightarrow> string option \<Rightarrow> string option \<Rightarrow> codex_mcp_command list" where
  "push_mcp_server_command commands server_name command =
     (case (server_name, command) of
        (Some s, Some c) \<Rightarrow> if trim c = [] then commands else commands @ [\<lparr>cx_server_name = s, cx_command = c\<rparr>]
      | _ \<Rightarrow> commands)"

fun command_scan ::
  "(string \<Rightarrow> string option) \<Rightarrow> string list \<Rightarrow> codex_mcp_command list \<Rightarrow> string option \<Rightarrow> string option \<Rightarrow> codex_mcp_command list" where
  "command_scan decode [] commands current_server current_command =
     push_mcp_server_command commands current_server current_command"
| "command_scan decode (line # ls) commands current_server current_command =
     (let trimmed = trim_toml_line line
      in if looks_like_toml_table_header trimmed
         then command_scan decode ls (push_mcp_server_command commands current_server current_command)
                (parse_mcp_servers_table_name decode trimmed) None
         else command_scan decode ls commands current_server
                (if current_server \<noteq> None \<and> current_command = None
                 then parse_toml_string_assignment decode trimmed ''command'' else current_command))"

definition mcp_server_commands :: "(string \<Rightarrow> string option) \<Rightarrow> string \<Rightarrow> codex_mcp_command list" where
  "mcp_server_commands decode contents = command_scan decode (split_inclusive contents) [] None None"

definition missing_mcp_server_commands ::
  "(string \<Rightarrow> string option) \<Rightarrow> (string \<Rightarrow> bool) \<Rightarrow> string \<Rightarrow> string option \<Rightarrow> codex_mcp_command list" where
  "missing_mcp_server_commands decode which contents skip_server_name =
     filter (\<lambda>entry. \<not> which (cx_command entry))
       (filter (\<lambda>entry. skip_server_name \<noteq> Some (cx_server_name entry)) (mcp_server_commands decode contents))"

definition detect_missing_stdio_command_warnings ::
  "(string \<Rightarrow> string option) \<Rightarrow> (string \<Rightarrow> bool) \<Rightarrow> string \<Rightarrow> string \<Rightarrow> string \<Rightarrow> string list" where
  "detect_missing_stdio_command_warnings decode which existing adapter_key_name path =
     map (\<lambda>entry. ''Existing MCP server '' @ squote (cx_server_name entry) @ '' in '' @ squote path @ '' uses command ''
            @ squote (cx_command entry)
            @ '', but that program was not found on PATH. MCP clients can fail startup before reaching MCPace; fix or remove that separate entry if startup still fails.'')
       (missing_mcp_server_commands decode which existing (Some adapter_key_name))"

end
