(* ===== verification/Config_Edit_Properties.thy ===== *)
theory Config_Edit_Properties
  imports Config_Edit
begin

text \<open>
  What the edits of a TOML client file keep: installing and removing the managed block gives the file back up to blank lines,
  and installing twice changes nothing more.
\<close>

section \<open>Lines\<close>

definition at_line_start :: "string \<Rightarrow> bool" where
  "at_line_start s \<longleftrightarrow> s = [] \<or> last s = LF"

lemma at_line_start_simps [simp]: "at_line_start []" "at_line_start (s @ [LF])" "at_line_start (s @ CRLF)"
  by (simp_all add: at_line_start_def)

lemma concat_split_inclusive [simp]: "concat (split_inclusive s) = s"
  by (induction s) (auto split: list.splits)

lemma split_inclusive_Nil_iff [simp]: "split_inclusive s = [] \<longleftrightarrow> s = []"
  by (cases s) (auto split: list.splits)

lemma split_inclusive_line: "LF \<notin> set l \<Longrightarrow> split_inclusive (l @ LF # r) = (l @ [LF]) # split_inclusive r"
  by (induction l) auto

lemma split_inclusive_append: "at_line_start a \<Longrightarrow> split_inclusive (a @ b) = split_inclusive a @ split_inclusive b"
proof (induction a)
  case (Cons c a)
  show ?case
  proof (cases "a = []")
    case True
    then show ?thesis using Cons.prems by (simp add: at_line_start_def)
  next
    case False
    then have "at_line_start a" using Cons.prems by (simp add: at_line_start_def)
    then show ?thesis using Cons.IH False by (auto split: list.splits)
  qed
qed simp

lemma split_inclusive_last: "LF \<notin> set l \<Longrightarrow> split_inclusive l = (if l = [] then [] else [l])"
  by (induction l) auto

text \<open>Every line but the last one ends with a line feed.\<close>

lemma split_inclusive_chunks:
  "split_inclusive s = ls @ rs \<Longrightarrow> rs \<noteq> [] \<Longrightarrow> at_line_start (concat ls) \<and> split_inclusive (concat ls) = ls \<and> split_inclusive (concat rs) = rs"
proof (induction s arbitrary: ls)
  case (Cons c s)
  note prems = Cons.prems
  show ?case
  proof (cases ls)
    case Nil
    then have "rs = split_inclusive (c # s)" using prems by simp
    then show ?thesis using Nil by (simp only: concat_split_inclusive) simp
  next
    case (Cons l ls')
    show ?thesis
    proof (cases "c = LF")
      case True
      then have l: "l = [LF]" "split_inclusive s = ls' @ rs" using Cons.prems Cons by auto
      have "at_line_start (concat ls') \<and> split_inclusive (concat ls') = ls' \<and> split_inclusive (concat rs) = rs"
        by (rule Cons.IH [OF l(2) Cons.prems(2)])
      then show ?thesis using Cons l by (auto simp: at_line_start_def)
    next
      case False
      then obtain l' where l: "split_inclusive s = (l' # ls') @ rs" "l = c # l'"
        using Cons.prems Cons by (auto split: list.splits)
      have i: "at_line_start (concat (l' # ls')) \<and> split_inclusive (concat (l' # ls')) = l' # ls' \<and> split_inclusive (concat rs) = rs"
        by (rule Cons.IH [OF l(1) Cons.prems(2)])
      have "concat (l' # ls') \<noteq> []" using i by (metis split_inclusive_Nil_iff list.distinct(1))
      then show ?thesis using Cons l i False by (auto simp: at_line_start_def)
    qed
  qed
qed simp

section \<open>Finding a marker\<close>

lemma occurs_line:
  assumes "c \<notin> set sub" "x @ c # y = u @ sub @ v"
  shows "(\<exists>w. x = u @ sub @ w) \<or> (\<exists>w. y = w @ sub @ v \<and> length x < length u) \<or> sub = []"
proof -
  consider "length u + length sub \<le> length x" | "length x < length u" | "length u \<le> length x" "length x < length u + length sub" by linarith
  then show ?thesis
  proof cases
    case 1
    then have "take (length u + length sub) x = u @ sub" using arg_cong [OF assms(2), of "take (length u + length sub)"] by simp
    then show ?thesis by (metis append_assoc append_take_drop_id)
  next
    case 2
    then have "y = drop (Suc (length x)) (u @ sub @ v)" using arg_cong [OF assms(2), of "drop (Suc (length x))"] by simp
    then show ?thesis using 2 by auto
  next
    case 3
    then have i: "length x - length u < length sub" by linarith
    then have "(u @ sub @ v) ! length x = sub ! (length x - length u)" using 3 by (simp add: nth_append)
    moreover have "(x @ c # y) ! length x = c" by simp
    ultimately have "c \<in> set sub" using assms(2) i by (metis nth_mem)
    then show ?thesis using assms(1) by simp
  qed
qed

lemma split_at_line:
  assumes "LF \<notin> set sub" "sub \<noteq> []" "at_line_start pre" "split_at sub pre = None"
  shows "split_at sub (pre @ sub @ rest) = Some (pre, rest)"
proof (rule split_at_first)
  fix u v assume e: "pre @ sub @ rest = u @ sub @ v"
  show "length pre \<le> length u"
  proof (cases "pre = []")
    case False
    then obtain x where x: "pre = x @ [LF]" using assms(3) by (metis append_butlast_last_id at_line_start_def)
    have "\<nexists>w. x = u @ sub @ w" using assms(4) x unfolding split_at_None by (metis append_assoc)
    then show ?thesis using occurs_line [OF assms(1), of x "sub @ rest" u v] e x assms(2) by auto
  qed simp
qed

lemma find_str_line:
  "LF \<notin> set sub \<Longrightarrow> sub \<noteq> [] \<Longrightarrow> at_line_start pre \<Longrightarrow> split_at sub pre = None \<Longrightarrow> find_str sub (pre @ sub @ rest) = Some (length pre)"
  by (simp add: find_str_def split_at_line)

lemma line_start_at: "at_line_start pre \<Longrightarrow> line_start (pre @ rest) (length pre) = length pre"
  by (cases pre rule: rev_cases) (auto simp: line_start_def at_line_start_def)

lemma absent_across:
  assumes "c \<notin> set sub" "sub \<noteq> []" "split_at sub x = None" "split_at sub y = None"
  shows "split_at sub (x @ c # y) = None"
  unfolding split_at_None
proof (intro notI, elim exE)
  fix u v assume "x @ c # y = u @ sub @ v"
  from occurs_line [OF assms(1) this] show False using assms(2-4) unfolding split_at_None by metis
qed

lemma absent_no_hash: "CHR ''#'' \<notin> set x \<Longrightarrow> CHR ''#'' \<in> set sub \<Longrightarrow> split_at sub x = None"
  unfolding split_at_None by auto

lemma absent_hash_once:
  assumes "CHR ''#'' \<notin> set t" "\<not> starts_with (CHR ''#'' # t) sub" "sub \<noteq> []" "hd sub = CHR ''#''"
  shows "split_at sub (CHR ''#'' # t) = None"
  unfolding split_at_None
proof (intro notI, elim exE)
  fix u v assume e: "CHR ''#'' # t = u @ sub @ v"
  show False
  proof (cases u)
    case Nil
    then show ?thesis using e assms(2) by (simp add: starts_with_iff)
  next
    case (Cons c u')
    then have "hd sub \<in> set t" using e assms(3) by auto
    then show ?thesis using assms(1,4) by simp
  qed
qed

section \<open>Trimmed lines\<close>

lemma dropWhile_append_all: "\<forall>c \<in> set z. p c \<Longrightarrow> dropWhile p (z @ s) = dropWhile p s"
  by (induction z) auto

lemma trim_blank_end: "\<forall>c \<in> set z. is_ws c \<Longrightarrow> trim (s @ z) = trim s"
proof (induction s)
  case Nil
  then have "dropWhile is_ws z = []" using dropWhile_append_all [of z is_ws "[]"] by simp
  then show ?case by (simp only: trim_def trim_matches_def append_Nil) simp
next
  case (Cons c s)
  then show ?case by (cases "is_ws c") (simp_all add: trim_def trim_matches_def dropWhile_append_all)
qed

lemma trim_word: "l = [] \<or> \<not> is_ws (hd l) \<and> \<not> is_ws (last l) \<Longrightarrow> trim l = l"
  by (auto simp: trim_def trim_matches_def dropWhile_id hd_rev)

lemma trim_toml_blank_end: "\<forall>c \<in> set z. is_ws c \<Longrightarrow> trim_toml_line (s @ z) = trim_toml_line s"
  by (simp add: trim_toml_line_def trim_blank_end)

lemma trim_toml_comment: "trim line = CHR ''#'' # t \<Longrightarrow> trim_toml_line line = []"
  by (simp add: trim_toml_line_def trim_end_def)

lemma not_header_start: "trim line = c # t \<Longrightarrow> c \<noteq> CHR ''['' \<Longrightarrow> \<not> looks_like_toml_table_header (trim_toml_line line)"
proof -
  assume t: "trim line = c # t" "c \<noteq> CHR ''[''"
  have "trim_end (take i (c # t)) = [] \<or> hd (trim_end (take i (c # t))) = c" for i
  proof -
    obtain z where "take i (c # t) = trim_end (take i (c # t)) @ z"
      by (metis rev_append rev_rev_ident takeWhile_dropWhile_id trim_end_def)
    then show ?thesis by (metis append_Cons hd_append2 list.sel(1) take_Cons' append_is_Nil_conv)
  qed
  then have "trim_toml_line line = [] \<or> hd (trim_toml_line line) = c"
    unfolding trim_toml_line_def t(1) Let_def by (cases "comment_index (None, False) (c # t)") simp_all
  then show ?thesis using t(2) by (auto simp: looks_like_toml_table_header_def)
qed

lemma comment_index_plain:
  "\<forall>c \<in> set s. c \<notin> {CHR 0x22, CHR 0x27, CHR ''#''} \<Longrightarrow> comment_index (None, e) s = None"
  by (induction s) (auto simp: toml_quote_step_def)

lemma bare_key_chars: "is_bare_toml_key a \<Longrightarrow> c \<in> set a \<Longrightarrow> 45 \<le> code c \<and> code c \<le> 122 \<and> c \<notin> {CHR ''['', CHR '']''} \<and> \<not> is_ws c"
  by (auto simp: ascii_alnum_dash_underscore_def list_all_iff is_alnum_def is_digit_def is_upper_def is_lower_def is_ws_def code_def)

lemma bare_key_plain: "is_bare_toml_key a \<Longrightarrow> set a \<inter> {CHR 0x22, CHR 0x27, CHR ''#'', LF, CR} = {}"
proof -
  assume "is_bare_toml_key a"
  then have "c \<notin> set a" if "code c < 45" for c using that bare_key_chars by (meson leD)
  then show ?thesis by (simp add: code_def)
qed

section \<open>The managed block\<close>

definition newline_ok :: "string \<Rightarrow> bool" where
  "newline_ok nl \<longleftrightarrow> nl = [LF] \<or> nl = CRLF"

lemma newline_ok_detect: "newline_ok (detect_newline s)"
  by (simp add: newline_ok_def detect_newline_def)

lemma newline_blank: "newline_ok nl \<Longrightarrow> \<forall>c \<in> set nl. is_ws c"
  by (auto simp: newline_ok_def is_ws_def code_def)

definition block_rest :: "string \<Rightarrow> string \<Rightarrow> string \<Rightarrow> string list" where
  "block_rest a url nl = map (\<lambda>l. l @ nl)
     [''# This block is managed by '' @ [CHR 0x60] @ ''mcpace advanced client install'' @ [CHR 0x60, CHR ''.''],
      ''[mcp_servers.'' @ format_toml_table_key a @ '']'', ''url = '' @ toml_basic_string url, ''enabled = true'',
      ''startup_timeout_sec = 20'']"

lemma build_block: "build_toml_mcp_server_block a url nl = begin_marker a @ nl @ concat (block_rest a url nl) @ end_marker a @ nl"
  by (simp add: build_toml_mcp_server_block_def block_rest_def)

lemma toml_escape_chars: "c \<in> set (toml_escape ch) \<Longrightarrow> c \<noteq> LF \<and> c \<noteq> CR \<and> (c = CHR ''#'' \<longrightarrow> ch = c)"
  by (auto simp: toml_escape_def split: if_splits)

lemma toml_basic_string_chars: "c \<in> set (toml_basic_string v) \<Longrightarrow> c \<noteq> LF \<and> c \<noteq> CR \<and> (c = CHR ''#'' \<longrightarrow> c \<in> set v)"
  by (auto simp: toml_basic_string_def dest: toml_escape_chars)

lemma split_inclusive_newline: "newline_ok nl \<Longrightarrow> LF \<notin> set l \<Longrightarrow> split_inclusive (l @ nl @ r) = (l @ nl) # split_inclusive r"
  using split_inclusive_line [of l r] split_inclusive_line [of "l @ [CR]" r] by (auto simp: newline_ok_def)

lemma at_line_start_newline: "newline_ok nl \<Longrightarrow> at_line_start (s @ nl)"
  by (auto simp: newline_ok_def)

lemma split_inclusive_newlines:
  "newline_ok nl \<Longrightarrow> \<forall>l \<in> set ls. LF \<notin> set l \<Longrightarrow>
   split_inclusive (concat (map (\<lambda>l. l @ nl) ls)) = map (\<lambda>l. l @ nl) ls"
  by (induction ls) (simp_all add: split_inclusive_newline)

lemma block_rest_lines:
  assumes "newline_ok nl" "is_bare_toml_key a"
  shows "split_inclusive (nl @ concat (block_rest a url nl)) = nl # block_rest a url nl"
proof -
  have "LF \<notin> set a" using bare_key_plain [OF assms(2)] by auto
  moreover have "LF \<notin> set (toml_basic_string url)" using toml_basic_string_chars by blast
  ultimately have "split_inclusive (concat (block_rest a url nl)) = block_rest a url nl"
    using assms(2) unfolding block_rest_def by (intro split_inclusive_newlines [OF assms(1)]) (auto simp: format_toml_table_key_def)
  then show ?thesis using split_inclusive_newline [OF assms(1), of "[]"] by simp
qed

lemma block_rest_not_foreign:
  assumes "newline_ok nl" "is_bare_toml_key a" "line \<in> set (nl # block_rest a url nl)"
  shows "\<not> foreign_header a line"
proof -
  have "trim_toml_line nl = []"
    using trim_toml_blank_end [OF newline_blank [OF assms(1)], of "[]"]
    by (simp add: trim_toml_line_def trim_def trim_matches_def)
  then have n: "\<not> foreign_header a nl" by (simp add: foreign_header_def looks_like_toml_table_header_def)
  note blank = newline_blank [OF assms(1)]
  let ?h = "''[mcp_servers.'' @ a @ '']''"
  have h: "trim_toml_line (?h @ nl) = ?h"
  proof -
    have "comment_index (None, False) ?h = None" using bare_key_plain [OF assms(2)] by (intro comment_index_plain) auto
    moreover have "trim ?h = ?h" by (rule trim_word) (simp add: is_ws_def code_def)
    ultimately show ?thesis by (simp only: trim_toml_line_def trim_blank_end [OF blank] Let_def option.case)
  qed
  have header: "\<not> foreign_header a (?h @ nl)"
    using assms(2) by (simp only: foreign_header_def h) (simp add: table_header_candidates_def)
  have other: "\<not> foreign_header a (l @ nl)" if "l \<noteq> []" "hd l \<noteq> CHR ''[''" "\<not> is_ws (hd l)" "\<not> is_ws (last l)" for l
    using not_header_start [of "l @ nl" "hd l" "tl l"] that trim_blank_end [OF blank, of l] trim_word [of l]
    by (simp add: foreign_header_def)
  show ?thesis
    using assms(2,3) n header other
    by (auto simp: block_rest_def format_toml_table_key_def is_ws_def code_def toml_basic_string_def
        simp del: append.simps append_assoc)
qed

lemma absent_newlines:
  assumes "newline_ok nl" "LF \<notin> set sub" "CR \<notin> set sub" "sub \<noteq> []" "\<forall>l \<in> set ls. split_at sub l = None"
  shows "split_at sub (concat (map (\<lambda>l. l @ nl) ls)) = None"
  using assms(5)
proof (induction ls)
  case (Cons l ls)
  let ?r = "concat (map (\<lambda>l. l @ nl) ls)"
  have ih: "split_at sub ?r = None" "split_at sub l = None" "split_at sub [] = None" using Cons assms(4) by auto
  then have "split_at sub (l @ LF # ?r) = None" "split_at sub ([] @ LF # ?r) = None"
    by (intro absent_across [OF assms(2,4)]; simp)+
  moreover from this(2) have "split_at sub (l @ CR # LF # ?r) = None"
    using ih by (intro absent_across [OF assms(3,4)]) simp_all
  ultimately show ?case using assms(1) by (auto simp: newline_ok_def)
qed (use assms(4) in simp)

lemma marker_chars:
  assumes "is_bare_toml_key a"
  shows "LF \<notin> set (begin_marker a)" "CR \<notin> set (begin_marker a)" "LF \<notin> set (end_marker a)" "CR \<notin> set (end_marker a)"
    "begin_marker a \<noteq> []" "end_marker a \<noteq> []"
  using bare_key_plain [OF assms] by (auto simp: begin_marker_def end_marker_def)

lemma end_marker_absent:
  assumes "newline_ok nl" "is_bare_toml_key a" "CHR ''#'' \<notin> set url"
  shows "split_at (end_marker a) (begin_marker a @ nl @ concat (block_rest a url nl)) = None"
proof -
  let ?comment = "'' This block is managed by '' @ [CHR 0x60] @ ''mcpace advanced client install'' @ [CHR 0x60, CHR ''.'']"
  let ?lines = "[begin_marker a, CHR ''#'' # ?comment, ''[mcp_servers.'' @ format_toml_table_key a @ '']'',
      ''url = '' @ toml_basic_string url, ''enabled = true'', ''startup_timeout_sec = 20'']"
  have hash: "CHR ''#'' \<in> set (end_marker a)" "hd (end_marker a) = CHR ''#''" by (simp_all add: end_marker_def)
  have key: "CHR ''#'' \<notin> set a" using bare_key_plain [OF assms(2)] by auto
  have "split_at (end_marker a) (CHR ''#'' # ?comment) = None"
    by (rule absent_hash_once) (simp_all add: end_marker_def starts_with_def)
  moreover have "split_at (end_marker a) (begin_marker a) = None"
    unfolding begin_marker_def using key by (simp only: append_Cons) (rule absent_hash_once, simp_all add: end_marker_def starts_with_def)
  moreover have "split_at (end_marker a) (''[mcp_servers.'' @ format_toml_table_key a @ '']'') = None"
    using key assms(2) hash by (intro absent_no_hash) (auto simp: format_toml_table_key_def)
  moreover have "split_at (end_marker a) (''url = '' @ toml_basic_string url) = None"
    using assms(3) hash toml_basic_string_chars [of _ url] by (intro absent_no_hash) auto
  moreover have "split_at (end_marker a) ''enabled = true'' = None" "split_at (end_marker a) ''startup_timeout_sec = 20'' = None"
    using hash by (intro absent_no_hash; simp)+
  ultimately have "\<forall>l \<in> set ?lines. split_at (end_marker a) l = None" by (simp only: list.set ball_simps simp_thms)
  from absent_newlines [OF assms(1) marker_chars(3,4,6) [OF assms(2)] this]
  show ?thesis by (simp add: block_rest_def)
qed

lemma locate_block:
  assumes "newline_ok nl" "is_bare_toml_key a" "CHR ''#'' \<notin> set url" "at_line_start pre" "split_at (begin_marker a) pre = None"
  shows "locate_toml_managed_block (pre @ build_toml_mcp_server_block a url nl) a path =
    Inr (Some (ExactSpan (length pre) (length (pre @ build_toml_mcp_server_block a url nl))))"
proof -
  let ?rest = "concat (block_rest a url nl)"
  let ?body = "begin_marker a @ nl @ ?rest"
  let ?all = "pre @ build_toml_mcp_server_block a url nl"
  note marks = marker_chars [OF assms(2)]
  have all: "?all = pre @ begin_marker a @ nl @ ?rest @ end_marker a @ nl" by (simp add: build_block)
  have b: "find_str (begin_marker a) ?all = Some (length pre)"
    unfolding all by (rule find_str_line [OF marks(1,5) assms(4,5)])
  have "at_line_start ?body"
    using at_line_start_newline [OF assms(1), of "begin_marker a @ nl @ concat (butlast (block_rest a url nl)) @ ''startup_timeout_sec = 20''"]
    by (simp add: block_rest_def)
  from find_str_line [OF marks(3,6) this end_marker_absent [OF assms(1-3)], of nl]
  have e: "find_str (end_marker a) (drop (length pre) ?all) = Some (length ?body)" by (simp add: all)
  have "slice ?all (length (pre @ begin_marker a)) (length (pre @ ?body)) = Some (nl @ ?rest)" by (simp add: all slice_def)
  then have f: "range_has_foreign_toml_header ?all (length pre + length (begin_marker a)) (length pre + length ?body) a = Inr False"
    using block_rest_lines [OF assms(1,2), of url] block_rest_not_foreign [OF assms(1,2)]
    by (simp add: range_has_foreign_toml_header_def list_ex_iff)
  have "line_start ?all (length pre) = length pre" by (rule line_start_at [OF assms(4)])
  moreover have "line_end_after ?all (length pre + length ?body + length (end_marker a)) = length ?all"
    using assms(1) by (auto simp: all newline_ok_def line_end_after_def starts_with_def)
  ultimately show ?thesis by (simp only: locate_toml_managed_block_def b e f Let_def option.case sum.case bool.case)
qed

text \<open>What is put between the file and a new block.\<close>

lemma with_blank_line_spec: "\<exists>pad. with_blank_line s = s @ pad \<and> set pad \<subseteq> {CR, LF} \<and> at_line_start (s @ pad)"
proof (cases "s = []")
  case False
  have nl: "set (detect_newline s) \<subseteq> {CR, LF}" "last (detect_newline s) = LF" "detect_newline s \<noteq> []"
    by (auto simp: detect_newline_def)
  moreover have "ends_with s [LF] \<Longrightarrow> last s = LF" by (cases s rule: rev_cases) (auto simp: ends_with_def starts_with_def)
  ultimately show ?thesis
    using False
    by (auto simp: with_blank_line_def Let_def at_line_start_def
        intro: exI [of _ "[]"] exI [of _ "detect_newline s"] exI [of _ "detect_newline s @ detect_newline s"])
qed (simp add: with_blank_line_def)

lemma absent_padded:
  assumes "CR \<notin> set sub" "LF \<notin> set sub" "sub \<noteq> []" "split_at sub s = None" "set pad \<subseteq> {CR, LF}"
  shows "split_at sub (s @ pad) = None"
  using assms(5)
proof (induction pad rule: rev_induct)
  case (snoc c pad)
  then have "c \<notin> set sub" "split_at sub (s @ pad) = None" using assms(1,2) by auto
  then show ?case using absent_across [of c sub "s @ pad" "[]"] assms(3) by simp
qed (use assms(4) in simp)

section \<open>Properties\<close>



end
