(* ===== verification/Config_Edit_Tables.thy ===== *)
theory Config_Edit_Tables
  imports Config_Edit_Properties
begin

text \<open>
  No edit of a TOML client file loses a table of another server: the file is cut into its lines the way the code cuts it, and each
  way of replacing the managed lines keeps the table headers of the others.
\<close>

section \<open>Tables of other servers\<close>

definition foreign_headers :: "string \<Rightarrow> string \<Rightarrow> string list" where
  "foreign_headers adapter s = map trim_toml_line (filter (foreign_header adapter) (split_inclusive s))"

lemma foreign_headers_Nil [simp]: "foreign_headers adapter [] = []"
  by (simp add: foreign_headers_def)

lemma foreign_headers_append:
  "at_line_start a \<Longrightarrow> foreign_headers adapter (a @ b) = foreign_headers adapter a @ foreign_headers adapter b"
  by (simp add: foreign_headers_def split_inclusive_append)

lemma at_line_start_append: "at_line_start b \<Longrightarrow> b \<noteq> [] \<or> at_line_start a \<Longrightarrow> at_line_start (a @ b)"
  by (auto simp: at_line_start_def last_append)

lemma blank_not_foreign: "\<forall>c \<in> set l. is_ws c \<Longrightarrow> \<not> foreign_header adapter l"
  using trim_toml_blank_end [of l "[]"] by (simp add: foreign_header_def looks_like_toml_table_header_def trim_toml_line_def trim_def trim_matches_def)

lemma comment_not_foreign:
  assumes "\<forall>c \<in> set b. is_ws c"
  shows "\<not> foreign_header adapter (b @ CHR ''#'' # t)"
proof -
  have "trim (b @ CHR ''#'' # t) = trim (CHR ''#'' # t)"
    by (simp add: trim_def trim_matches_def dropWhile_append_all [OF assms])
  moreover have "\<exists>t'. trim (CHR ''#'' # t) = CHR ''#'' # t'"
  proof -
    have "\<not> is_ws CHR ''#''" by (simp add: is_ws_def code_def)
    then show ?thesis by (simp add: trim_def trim_matches_def) (metis dropWhile_append3 rev.simps(2) rev_rev_ident)
  qed
  ultimately have "trim_toml_line (b @ CHR ''#'' # t) = []" using trim_toml_comment by metis
  then show ?thesis by (simp add: foreign_header_def looks_like_toml_table_header_def)
qed

lemma split_inclusive_snoc:
  "\<not> at_line_start s \<Longrightarrow> split_inclusive (s @ [c]) = butlast (split_inclusive s) @ [last (split_inclusive s) @ [c]]"
proof (induction s)
  case (Cons x s)
  show ?case
  proof (cases "s = []")
    case True
    then show ?thesis using Cons.prems by (simp add: at_line_start_def)
  next
    case False
    then have "\<not> at_line_start s" using Cons.prems by (simp add: at_line_start_def)
    then show ?thesis using Cons.IH False by (auto split: list.splits)
  qed
qed simp

lemma foreign_headers_padded:
  assumes "set pad \<subseteq> {CR, LF}"
  shows "foreign_headers adapter (s @ pad) = foreign_headers adapter s"
  using assms
proof (induction pad rule: rev_induct)
  case (snoc c pad)
  have blank: "\<forall>x \<in> set [c]. is_ws x" using snoc.prems by (auto simp: is_ws_def code_def)
  have "foreign_headers adapter ((s @ pad) @ [c]) = foreign_headers adapter (s @ pad)"
  proof (cases "at_line_start (s @ pad)")
    case True
    have "split_inclusive [c] = [[c]]" by simp
    then show ?thesis
      using foreign_headers_append [OF True, of adapter "[c]"] blank_not_foreign [OF blank] by (simp add: foreign_headers_def)
  next
    case False
    then have "split_inclusive (s @ pad) \<noteq> []" by (auto simp: at_line_start_def)
    then obtain ls l where ls: "split_inclusive (s @ pad) = ls @ [l]" by (metis append_butlast_last_id)
    have "trim_toml_line (l @ [c]) = trim_toml_line l" by (rule trim_toml_blank_end [OF blank])
    then show ?thesis using split_inclusive_snoc [OF False, of c] ls by (simp add: foreign_headers_def foreign_header_def)
  qed
  then show ?case using snoc by simp
qed simp

text \<open>A text that may replace managed lines: whole lines, none of them a foreign header.\<close>

definition replacement_ok :: "string \<Rightarrow> string \<Rightarrow> bool" where
  "replacement_ok adapter block \<longleftrightarrow> at_line_start block \<and> foreign_headers adapter block = []"

lemma replacement_ok_Nil: "replacement_ok adapter []"
  by (simp add: replacement_ok_def)

lemma replacement_ok_block:
  assumes "newline_ok nl" "is_bare_toml_key a"
  shows "replacement_ok a (build_toml_mcp_server_block a url nl)"
proof -
  let ?rest = "nl @ concat (block_rest a url nl)"
  note marks = marker_chars [OF assms(2)]
  have r: "at_line_start (begin_marker a @ ?rest)"
    using at_line_start_newline [OF assms(1), of "begin_marker a @ nl @ concat (butlast (block_rest a url nl)) @ ''startup_timeout_sec = 20''"]
    by (simp add: block_rest_def)
  have e: "split_inclusive (end_marker a @ nl) = [end_marker a @ nl]"
    using split_inclusive_newline [OF assms(1) marks(3), of "[]"] by simp
  have b: "split_inclusive (begin_marker a @ ?rest) = (begin_marker a @ nl) # block_rest a url nl"
    using split_inclusive_newline [OF assms(1) marks(1), of "concat (block_rest a url nl)"] block_rest_lines [OF assms, of url]
      split_inclusive_newline [OF assms(1), of "[]" "concat (block_rest a url nl)"] by simp
  have "\<not> foreign_header a (begin_marker a @ nl)" "\<not> foreign_header a (end_marker a @ nl)"
    using comment_not_foreign [of "[]" a] by (simp_all add: begin_marker_def end_marker_def)
  then have "foreign_headers a (begin_marker a @ ?rest) = []" "foreign_headers a (end_marker a @ nl) = []"
    using block_rest_not_foreign [OF assms] by (auto simp: foreign_headers_def b e filter_empty_conv)
  then have "foreign_headers a ((begin_marker a @ ?rest) @ end_marker a @ nl) = []" by (simp only: foreign_headers_append [OF r]) simp
  then show ?thesis
    using at_line_start_newline [OF assms(1), of "begin_marker a @ ?rest @ end_marker a"] by (simp add: replacement_ok_def build_block)
qed

lemma table_scan_Some:
  "table_scan cands e ls (Some v) off = Some (ts, te) \<Longrightarrow> e = off + length (concat ls) \<Longrightarrow>
   ts = v \<and> (\<exists>l2 l3. ls = l2 @ l3 \<and> te = off + length (concat l2) \<and> (\<forall>x \<in> set l2. \<not> looks_like_toml_table_header (trim_toml_line x)))"
proof (induction ls arbitrary: off)
  case (Cons line ls)
  show ?case
  proof (cases "looks_like_toml_table_header (trim_toml_line line)")
    case True
    then show ?thesis using Cons.prems by (intro conjI exI [of _ "[]"] exI [of _ "line # ls"]) (auto simp: Let_def)
  next
    case False
    then obtain l2 l3 where "ts = v" "ls = l2 @ l3" "te = off + length line + length (concat l2)"
        "\<forall>x \<in> set l2. \<not> looks_like_toml_table_header (trim_toml_line x)"
      using Cons.IH [of "off + length line"] Cons.prems by (auto simp: Let_def)
    then show ?thesis using False by (intro conjI exI [of _ "line # l2"] exI [of _ l3]) auto
  qed
qed simp

lemma table_scan_None:
  "table_scan cands e ls None off = Some (ts, te) \<Longrightarrow> e = off + length (concat ls) \<Longrightarrow>
   \<exists>l1 l l2 l3. ls = l1 @ (l # l2) @ l3 \<and> ts = off + length (concat l1) \<and> te = ts + length (concat (l # l2)) \<and>
     trim_toml_line l \<in> set cands \<and> (\<forall>x \<in> set l2. \<not> looks_like_toml_table_header (trim_toml_line x))"
proof (induction ls arbitrary: off)
  case (Cons line ls)
  show ?case
  proof (cases "trim_toml_line line \<in> set cands")
    case True
    then have "table_scan cands e ls (Some off) (off + length line) = Some (ts, te)" using Cons.prems(1) by (simp add: Let_def)
    from table_scan_Some [OF this] Cons.prems(2) obtain l2 l3 where
      "ts = off" "ls = l2 @ l3" "te = off + length line + length (concat l2)"
      "\<forall>x \<in> set l2. \<not> looks_like_toml_table_header (trim_toml_line x)" by auto
    then show ?thesis using True by (intro exI [of _ "[]"] exI [of _ line] exI [of _ l2] exI [of _ l3]) auto
  next
    case False
    then have "table_scan cands e ls None (off + length line) = Some (ts, te)" using Cons.prems(1) by (simp add: Let_def)
    from Cons.IH [OF this] Cons.prems(2) obtain l1 l l2 l3 where
      "ls = l1 @ (l # l2) @ l3" "ts = off + length line + length (concat l1)" "te = ts + length (concat (l # l2))"
      "trim_toml_line l \<in> set cands" "\<forall>x \<in> set l2. \<not> looks_like_toml_table_header (trim_toml_line x)" by auto
    then show ?thesis by (intro exI [of _ "line # l1"] exI [of _ l] exI [of _ l2] exI [of _ l3]) auto
  qed
qed simp

text \<open>Replacing the lines of the adapter's table within whole lines.\<close>

lemma replace_table:
  assumes "split_inclusive n = l1 @ (l # l2) @ l3" "trim_toml_line l \<in> set (table_header_candidates adapter)"
    and "\<forall>x \<in> set l2. \<not> looks_like_toml_table_header (trim_toml_line x)" "replacement_ok adapter block"
  shows "n = concat l1 @ concat (l # l2) @ concat l3 \<and> at_line_start (concat l1) \<and>
    foreign_headers adapter (concat l1 @ block @ concat l3) = foreign_headers adapter n \<and>
    foreign_headers adapter n = foreign_headers adapter (concat l1) @ foreign_headers adapter (concat l3) \<and>
    (at_line_start n \<longrightarrow> at_line_start (concat l3))"
proof -
  have n: "n = concat l1 @ concat (l # l2) @ concat l3" using arg_cong [OF assms(1), of concat] by simp
  have s1: "at_line_start (concat l1)" "split_inclusive (concat l1) = l1"
    using split_inclusive_chunks [OF assms(1)] by simp_all
  have s3: "split_inclusive (concat l3) = l3"
    using split_inclusive_chunks [of n "l1 @ l # l2" l3] assms(1) by (cases "l3 = []") auto
  have "filter (foreign_header adapter) (l # l2) = []"
    using assms(2,3) by (auto simp: foreign_header_def filter_empty_conv)
  then have fn: "foreign_headers adapter n = foreign_headers adapter (concat l1) @ foreign_headers adapter (concat l3)"
    by (simp only: foreign_headers_def assms(1) s1(2) s3 filter_append map_append) simp
  then have "foreign_headers adapter (concat l1 @ block @ concat l3) = foreign_headers adapter n"
    using assms(4) by (simp add: foreign_headers_append [OF s1(1)] foreign_headers_append replacement_ok_def)
  moreover have "at_line_start n \<longrightarrow> at_line_start (concat l3)" 
    unfolding n at_line_start_def by (cases "concat l3 = []") (auto simp only: last_append append_is_Nil_conv if_False simp_thms)
  ultimately show ?thesis using n s1 fn by simp
qed

text \<open>Where the markers stand, and the lines they are on.\<close>

lemma line_start_split:
  assumes "index \<le> length s"
  shows "\<exists>A b. take index s = A @ b \<and> at_line_start A \<and> LF \<notin> set b \<and> line_start s index = length A"
proof -
  let ?b = "rev (takeWhile (\<lambda>c. c \<noteq> LF) (rev (take index s)))" and ?A = "rev (dropWhile (\<lambda>c. c \<noteq> LF) (rev (take index s)))"
  have t: "take index s = ?A @ ?b" by (metis rev_append rev_rev_ident takeWhile_dropWhile_id)
  moreover have "at_line_start ?A"
    by (cases "dropWhile (\<lambda>c. c \<noteq> LF) (rev (take index s))") (auto simp: at_line_start_def dest: dropWhile_eq_Cons_conv [THEN iffD1])
  moreover have "LF \<notin> set ?b" by (auto dest: set_takeWhileD)
  moreover have "line_start s index = length ?A"
    using arg_cong [OF t, of length] assms by (simp add: line_start_def)
  ultimately show ?thesis by blast
qed

definition line_rest :: "string \<Rightarrow> string \<Rightarrow> bool" where
  "line_rest e D \<longleftrightarrow> (\<exists>t. e = t @ [LF] \<and> LF \<notin> set t) \<or> LF \<notin> set e \<and> D = []"

lemma line_end_split:
  assumes "index \<le> length s"
  shows "\<exists>e D. drop index s = e @ D \<and> line_rest e D \<and> line_end_after s index = index + length e"
proof (cases "split_at [LF] (drop index s)")
  case None
  then have "LF \<notin> set (drop index s)" unfolding split_at_None by (metis append_Cons append_Nil split_list)
  then show ?thesis
    using None assms
    by (intro exI [of _ "drop index s"] exI [of _ "[]"])
      (auto simp: line_rest_def line_end_after_def find_str_def starts_with_iff)
next
  case (Some p)
  obtain t D where p: "p = (t, D)" by force
  have d: "drop index s = t @ LF # D" using split_at_Some Some p by fastforce
  have t: "LF \<notin> set t"
  proof
    assume "LF \<in> set t"
    then obtain x y where "t = x @ LF # y" by (metis split_list)
    then show False using split_at_le [of "[LF]" "drop index s" t D x "y @ LF # D"] Some p d by simp
  qed
  have "line_end_after s index = index + length (t @ [LF])"
    using d t Some p
    by (cases t; cases "tl t") (auto simp: line_end_after_def find_str_def starts_with_def split: if_splits)
  then show ?thesis using d t by (intro exI [of _ "t @ [LF]"] exI [of _ D]) (auto simp: line_rest_def)
qed

lemma line_rest_unique: "line_rest e D \<Longrightarrow> e @ D = t @ LF # r \<Longrightarrow> LF \<notin> set t \<Longrightarrow> e = t @ [LF] \<and> D = r"
proof -
  assume a: "line_rest e D" "e @ D = t @ LF # r" "LF \<notin> set t"
  have "LF \<in> set (e @ D)" unfolding a(2) by simp
  then obtain u where u: "e = u @ [LF]" "LF \<notin> set u" using a(1) by (auto simp: line_rest_def)
  then have "u @ LF # D = t @ LF # r" using a(2) by simp
  moreover have "takeWhile (\<lambda>c. c \<noteq> LF) (x @ LF # y) = x" if "LF \<notin> set x" for x y using that by (induction x) auto
  ultimately have "u = t" using u(2) a(3) by metis
  then show ?thesis using u a(2) by simp
qed

definition own_line :: "string \<Rightarrow> nat \<Rightarrow> bool" where
  "own_line s index \<longleftrightarrow> list_all is_ws (drop (line_start s index) (take index s))"

definition markers_on_own_lines :: "string \<Rightarrow> string \<Rightarrow> bool" where
  "markers_on_own_lines adapter s \<longleftrightarrow>
     (case find_str (begin_marker adapter) s of
        None \<Rightarrow> True
      | Some p \<Rightarrow> own_line s p \<and>
          (case find_str (end_marker adapter) (drop p s) of None \<Rightarrow> True | Some r \<Rightarrow> own_line s (p + r)))"

text \<open>A file with a managed block: what is before it, the line of the begin marker, the lines between, the line of the end
  marker, what is after it.\<close>

definition managed_parts :: "string \<Rightarrow> string \<Rightarrow> nat \<Rightarrow> nat \<Rightarrow> string \<Rightarrow> string \<Rightarrow> string \<Rightarrow> string \<Rightarrow> string \<Rightarrow> string \<Rightarrow> string \<Rightarrow> bool" where
  "managed_parts a s p r A b m N q e D \<longleftrightarrow>
     s = A @ (b @ begin_marker a @ m @ [LF]) @ N @ (q @ end_marker a @ e) @ D \<and>
     at_line_start A \<and> list_all is_ws b \<and> LF \<notin> set b \<and> LF \<notin> set m \<and> at_line_start N \<and> list_all is_ws q \<and> LF \<notin> set q \<and> line_rest e D \<and>
     line_start s p = length A \<and> line_end_after s (p + length (begin_marker a)) = length A + length (b @ begin_marker a @ m @ [LF]) \<and>
     line_start s (p + r) = length A + length (b @ begin_marker a @ m @ [LF]) + length N \<and>
     line_end_after s (p + r + length (end_marker a)) =
       length A + length (b @ begin_marker a @ m @ [LF]) + length N + length (q @ end_marker a @ e) \<and>
     p = length A + length b \<and> p + r = length A + length (b @ begin_marker a @ m @ [LF]) + length N + length q"

lemma find_str_Some: "find_str sub s = Some i \<Longrightarrow> \<exists>x y. s = x @ sub @ y \<and> length x = i"
  by (auto simp: find_str_def dest: split_at_Some)

lemma managed_parts_exist:
  assumes "is_bare_toml_key a" "find_str (begin_marker a) s = Some p" "find_str (end_marker a) (drop p s) = Some r"
    and "length (begin_marker a) \<le> r" "own_line s p" "own_line s (p + r)"
  shows "\<exists>A b m N q e D. managed_parts a s p r A b m N q e D"
proof -
  let ?bm = "begin_marker a" and ?em = "end_marker a"
  note marks = marker_chars [OF assms(1)]
  obtain P R where P: "s = P @ ?bm @ R" "length P = p" using find_str_Some [OF assms(2)] by blast
  obtain X S where X: "?bm @ R = X @ ?em @ S" "length X = r" using find_str_Some [OF assms(3)] P by auto
  obtain M where M: "X = ?bm @ M" using X assms(4) by (metis append_eq_append_conv2 append_eq_conv_conj append_take_drop_id take_append take_all)
  have s: "s = P @ ?bm @ M @ ?em @ S" using P(1) X(1) M by simp
  have len: "p + r \<le> length s" "p + r = length (P @ ?bm @ M)" using s P(2) X(2) M by auto
  obtain A b where A: "take p s = A @ b" "at_line_start A" "LF \<notin> set b" "line_start s p = length A"
    using line_start_split [of p s] P by auto
  have Pab: "P = A @ b" using A(1) P by simp
  have b: "list_all is_ws b" using assms(5) A by (simp add: own_line_def)
  obtain A' q where A': "take (p + r) s = A' @ q" "at_line_start A'" "LF \<notin> set q" "line_start s (p + r) = length A'"
    using line_start_split [OF len(1)] by auto
  have q: "list_all is_ws q" using assms(6) A' by (simp add: own_line_def)
  have PbM: "P @ ?bm @ M = A' @ q" using A'(1) s len by simp
  have lb: "\<not> is_ws (last ?bm)" "last ?bm \<noteq> LF"
  proof -
    have "a \<noteq> []" using assms(1) by (simp add: ascii_alnum_dash_underscore_def)
    then have "last ?bm \<in> set a" by (simp add: begin_marker_def)
    then show "\<not> is_ws (last ?bm)" "last ?bm \<noteq> LF" using bare_key_chars [OF assms(1)] bare_key_plain [OF assms(1)] by blast+
  qed
  have "length (P @ ?bm) < length A'"
  proof (rule ccontr)
    assume le: "\<not> length (P @ ?bm) < length A'"
    then obtain w where w: "P @ ?bm = A' @ w" using PbM by (metis append_assoc append_eq_append_conv2 append_eq_conv_conj append_take_drop_id take_append take_all not_less)
    then have "w @ M = q" using PbM by (metis append_assoc same_append_eq)
    moreover have "last (A' @ w) = last ?bm" using w marks(5) by (metis last_appendR)
    ultimately show False
      using lb q A'(2) w marks(5) by (cases w rule: rev_cases) (auto simp: at_line_start_def list_all_iff)
  qed
  then obtain M' where M': "A' = P @ ?bm @ M'" "M' \<noteq> []"
    using PbM by (metis append_assoc append_eq_append_conv2 append_Nil2 less_irrefl not_less_iff_gr_or_eq length_append le_add1 not_less)
  then have M: "M = M' @ q" using PbM by simp
  have "last M' = LF" using A'(2) M' by (simp add: at_line_start_def)
  then obtain m N where m: "M' = m @ LF # N" "LF \<notin> set m" using M'(2) by (metis last_in_set split_list_first)
  have N: "at_line_start N" using \<open>last M' = LF\<close> m by (auto simp: at_line_start_def split: if_splits)
  obtain e D where e: "S = e @ D" "line_rest e D" "line_end_after s (p + r + length ?em) = p + r + length ?em + length e"
    using line_end_split [of "p + r + length ?em" s] len(2) s by auto
  obtain e' D' where e': "M @ ?em @ S = e' @ D'" "line_rest e' D'" "line_end_after s (p + length ?bm) = p + length ?bm + length e'"
    using line_end_split [of "p + length ?bm" s] P(2) s by auto
  have "e' = m @ [LF]" using line_rest_unique [OF e'(2), of m "N @ q @ ?em @ S"] e'(1) M m by simp
  then have "managed_parts a s p r A b m N q e D"
    unfolding managed_parts_def using s Pab M m A A' M' b q N e e'(3) P(2) len(2) by simp
  then show ?thesis by blast
qed

lemma managed_partsD:
  assumes "managed_parts a s p r A b m N q e D"
  shows "s = A @ (b @ begin_marker a @ m @ [LF]) @ N @ (q @ end_marker a @ e) @ D" "line_start s p = length A"
    "line_end_after s (p + length (begin_marker a)) = length (A @ b @ begin_marker a @ m @ [LF])"
    "line_start s (p + r) = length (A @ b @ begin_marker a @ m @ [LF]) + length N"
    "line_end_after s (p + r + length (end_marker a)) = length (A @ (b @ begin_marker a @ m @ [LF]) @ N @ q @ end_marker a @ e)"
    "p = length (A @ b)" "p + r = length (A @ (b @ begin_marker a @ m @ [LF]) @ N @ q)"
  using assms unfolding managed_parts_def length_append add.assoc by blast+

lemma managed_parts_headers:
  assumes "is_bare_toml_key a" "managed_parts a s p r A b m N q e D"
  shows "foreign_headers a s = foreign_headers a A @ foreign_headers a N @ foreign_headers a D"
proof -
  let ?B = "b @ begin_marker a @ m @ [LF]" and ?E = "q @ end_marker a @ e"
  note p = assms(2) [unfolded managed_parts_def]
  note marks = marker_chars [OF assms(1)]
  have B: "foreign_headers a ?B = []" "at_line_start ?B"
  proof -
    have "split_inclusive ?B = [?B]" using split_inclusive_line [of "b @ begin_marker a @ m" "[]"] p marks by simp
    moreover have "\<not> foreign_header a ?B"
      using comment_not_foreign [of b a] p by (simp add: begin_marker_def list_all_iff)
    ultimately show "foreign_headers a ?B = []" by (simp add: foreign_headers_def)
    show "at_line_start ?B" by (simp add: at_line_start_def)
  qed
  have E: "foreign_headers a (?E @ D) = foreign_headers a D"
  proof -
    have nf: "\<not> foreign_header a ?E" using comment_not_foreign [of q a] p by (simp add: end_marker_def list_all_iff)
    have rest: "line_rest e D" using p by simp
    then consider t where "e = t @ [LF]" "LF \<notin> set t" | "LF \<notin> set e" "D = []" by (auto simp: line_rest_def)
    then show ?thesis
    proof cases
      case 1
      then have "split_inclusive (?E @ D) = ?E # split_inclusive D"
        using split_inclusive_line [of "q @ end_marker a @ t" D] p marks by simp
      then show ?thesis using nf by (simp only: foreign_headers_def filter.simps if_False)
    next
      case 2
      then have "LF \<notin> set ?E" using p marks by simp
      then show ?thesis using nf split_inclusive_last [of ?E] marks 2 by (simp add: foreign_headers_def)
    qed
  qed
  have "s = A @ ?B @ N @ ?E @ D" using p by simp
  then show ?thesis using p B E by (simp only: foreign_headers_append) simp
qed

text \<open>The offsets of the parts.\<close>

lemma managed_parts_offsets:
  assumes "managed_parts a s p r A b m N q e D"
  shows "take (line_start s p) s = A" "drop (line_end_after s (p + r + length (end_marker a))) s = D"
    "slice s (p + length (begin_marker a)) (p + r) = Some ((m @ [LF]) @ N @ q)"
proof -
  let ?B = "b @ begin_marker a @ m @ [LF]" and ?E = "q @ end_marker a @ e"
  note p = managed_partsD [OF assms]
  note s = p(1)
  have "take (length A) s = A" by (subst s) simp
  then show "take (line_start s p) s = A" using p(2) by simp
  have "drop (length (A @ ?B @ N @ ?E)) s = D" by (subst s) simp
  then show "drop (line_end_after s (p + r + length (end_marker a))) s = D" by (simp only: p(5))
  have i: "p + length (begin_marker a) = length (A @ b @ begin_marker a)" "p + r = length (A @ b @ begin_marker a @ (m @ [LF]) @ N @ q)"
    unfolding p(7) by (simp_all add: p(6))
  have "s = (A @ b @ begin_marker a) @ ((m @ [LF]) @ N @ q) @ end_marker a @ e @ D" using s by simp
  then show "slice s (p + length (begin_marker a)) (p + r) = Some ((m @ [LF]) @ N @ q)"
    unfolding i by (simp add: slice_def)
qed

lemma exact_span_keeps:
  assumes "is_bare_toml_key a" "managed_parts a s p r A b m N q e D" "replacement_ok a block" "foreign_headers a N = []"
  shows "foreign_headers a (splice_text s (line_start s p) (line_end_after s (p + r + length (end_marker a))) block) = foreign_headers a s"
proof -
  have "splice_text s (line_start s p) (line_end_after s (p + r + length (end_marker a))) block = A @ block @ D"
    using managed_parts_offsets [OF assms(2)] by (simp add: splice_text_def)
  moreover have "foreign_headers a (A @ block @ D) = foreign_headers a A @ foreign_headers a D"
    using assms(2,3) by (simp add: managed_parts_def foreign_headers_append replacement_ok_def)
  ultimately show ?thesis using managed_parts_headers [OF assms(1,2)] assms(4) by simp
qed

text \<open>The lines between the markers, as the code splits them.\<close>

lemma between_lines:
  assumes "managed_parts a s p r A b m N q e D"
  shows "split_inclusive ((m @ [LF]) @ N @ q) = (m @ [LF]) # split_inclusive N @ (if q = [] then [] else [q])"
  using assms split_inclusive_line [of m "N @ q"]
  by (simp add: managed_parts_def split_inclusive_append split_inclusive_last)

lemma slice_inner: "slice (x @ y @ z) (length x) (length x + length y) = Some y"
  by (simp add: slice_def)

lemma overwide_span_keeps:
  assumes "is_bare_toml_key a" "managed_parts a s p r A b m N q e D" "replacement_ok a block"
    and scan: "table_scan (table_header_candidates a) (p + r) (split_inclusive ((m @ [LF]) @ N @ q)) None (p + length (begin_marker a)) = Some (ts, te)"
    and preserve: "range_has_foreign_toml_header s (line_end_after s (p + length (begin_marker a))) ts a = Inr keep"
    and upd: "apply_toml_managed_block_update s block (RecoverOverwide \<lparr>ow_begin_line_start = line_start s p,
       ow_begin_line_end = line_end_after s (p + length (begin_marker a)), ow_table_start = ts, ow_table_end = te,
       ow_end_line_start = line_start s (p + r), ow_end_line_end = line_end_after s (p + r + length (end_marker a)),
       ow_preserve_between_begin_and_table = keep\<rparr>) = Inr u"
  shows "foreign_headers a u = foreign_headers a s"
proof -
  let ?B = "b @ begin_marker a @ m @ [LF]" and ?E = "q @ end_marker a @ e"
  let ?q = "if q = [] then [] else [q]"
  note p = managed_partsD [OF assms(2)]
  have s: "s = (A @ ?B) @ N @ ?E @ D" using p(1) by simp
  note ble = p(3) and els = p(4)
  have off: "p + length (begin_marker a) = length (A @ b @ begin_marker a)" "p + r = length (A @ ?B) + length N + length q"
    unfolding p(7) by (simp_all add: p(6))
  have e: "p + r = p + length (begin_marker a) + length (concat (split_inclusive ((m @ [LF]) @ N @ q)))"
    unfolding concat_split_inclusive off by simp
  obtain l1 l l2 l3 where l: "split_inclusive ((m @ [LF]) @ N @ q) = l1 @ (l # l2) @ l3"
      "ts = p + length (begin_marker a) + length (concat l1)" "te = ts + length (concat (l # l2))"
      "trim_toml_line l \<in> set (table_header_candidates a)" "\<forall>x \<in> set l2. \<not> looks_like_toml_table_header (trim_toml_line x)"
    using table_scan_None [OF scan e] by blast
  have "length (A @ ?B) \<le> ts" using preserve ble by (simp add: range_has_foreign_toml_header_def slice_def split: if_splits)
  then obtain l1' where l1: "l1 = (m @ [LF]) # l1'" using l(1,2) off(1) between_lines [OF assms(2)] by (cases l1) auto
  have te: "te \<le> length (A @ ?B) + length N"
    using upd els by (auto simp: apply_toml_managed_block_update_def slice_def split: if_splits option.splits)
  have all: "split_inclusive N @ ?q = l1' @ (l # l2) @ l3" using l(1) l1 between_lines [OF assms(2)] by simp
  have ts: "ts = length (A @ ?B) + length (concat l1')" using l(2) l1 off(1) by simp
  have "l3 \<noteq> []" if "q \<noteq> []"
  proof
    assume "l3 = []"
    then have "concat l1' @ concat (l # l2) = N @ q" using arg_cong [OF all, of concat] that by simp
    then have "length (concat l1') + length (concat (l # l2)) = length N + length q" by (metis length_append)
    then show False using te ts l(3) that by simp
  qed
  then obtain l3' where l3: "split_inclusive N = l1' @ (l # l2) @ l3'"
  proof (cases "q = []")
    case False
    then obtain z l3' where "l3 = l3' @ [z]" using \<open>q \<noteq> [] \<Longrightarrow> l3 \<noteq> []\<close> by (metis rev_exhaust)
    then have "split_inclusive N @ [q] = (l1' @ (l # l2) @ l3') @ [z]" using all False by simp
    then show ?thesis using that by (simp only: append1_eq_conv)
  qed (use that all in simp)
  note rt = replace_table [OF l3 l(4,5) assms(3)]
  let ?X = "concat l1'" and ?T = "concat (l # l2)" and ?Y = "concat l3'"
  have N: "N = ?X @ ?T @ ?Y" using rt by blast
  have X: "slice s (length (A @ ?B)) ts = Some ?X"
    unfolding ts using slice_inner [of "A @ ?B" ?X "?T @ ?Y @ ?E @ D"] s N by simp
  have Y: "slice s te (length (A @ ?B) + length N) = Some ?Y"
    using slice_inner [of "(A @ ?B) @ ?X @ ?T" ?Y "?E @ D"] s N ts l(3) by (simp add: add.assoc)
  have keep: "keep \<longleftrightarrow> foreign_headers a ?X \<noteq> []"
    using preserve X ble by (auto simp: range_has_foreign_toml_header_def foreign_headers_def list_ex_iff filter_empty_conv)
  have u: "u = A @ (if keep then ?X else []) @ block @ ?Y @ D"
    using upd X Y ble els managed_parts_offsets(1,2) [OF assms(2)]
    by (auto simp: apply_toml_managed_block_update_def split: if_splits)
  have "at_line_start A" "at_line_start N" using assms(2) by (auto simp: managed_parts_def)
  then have at: "at_line_start A" "at_line_start ?X" "at_line_start ?Y" "at_line_start block" "foreign_headers a block = []"
    using rt assms(3) by (auto simp: replacement_ok_def)
  have "foreign_headers a u = foreign_headers a A @ foreign_headers a ?X @ foreign_headers a ?Y @ foreign_headers a D"
    unfolding u using keep at by (simp add: foreign_headers_append)
  moreover have "foreign_headers a N = foreign_headers a ?X @ foreign_headers a ?Y" using rt by blast
  ultimately show ?thesis using managed_parts_headers [OF assms(1,2)] by (simp only: append_assoc)
qed

lemma span_update_keeps:
  assumes "is_bare_toml_key a" "markers_on_own_lines a s" "replacement_ok a block"
    and loc: "locate_toml_managed_block s a path = Inr (Some span)" and upd: "apply_toml_managed_block_update s block span = Inr u"
  shows "foreign_headers a u = foreign_headers a s"
proof -
  obtain p where p: "find_str (begin_marker a) s = Some p" using loc by (auto simp: locate_toml_managed_block_def split: option.splits)
  obtain r where r: "find_str (end_marker a) (drop p s) = Some r"
    using loc p by (auto simp: locate_toml_managed_block_def Let_def split: option.splits)
  let ?pb = "p + length (begin_marker a)"
  note l = loc [unfolded locate_toml_managed_block_def p r Let_def option.case]
  obtain f where f: "range_has_foreign_toml_header s ?pb (p + r) a = Inr f" using l by (auto split: sum.splits)
  then have "length (begin_marker a) \<le> r" by (simp add: range_has_foreign_toml_header_def slice_def split: if_splits)
  moreover have "own_line s p" "own_line s (p + r)" using assms(2) by (simp_all add: markers_on_own_lines_def p r)
  ultimately obtain A b m N q e D where parts: "managed_parts a s p r A b m N q e D"
    using managed_parts_exist [OF assms(1) p r] by blast
  note sl = managed_parts_offsets(3) [OF parts]
  show ?thesis
  proof (cases f)
    case False
    then have "foreign_headers a N = []"
      using f sl between_lines [OF parts] by (auto simp: range_has_foreign_toml_header_def foreign_headers_def list_ex_iff filter_empty_conv)
    moreover have "u = splice_text s (line_start s p) (line_end_after s (p + r + length (end_marker a))) block"
      using l f False upd by (auto simp: apply_toml_managed_block_update_def)
    ultimately show ?thesis using exact_span_keeps [OF assms(1) parts assms(3)] by simp
  next
    case True
    note l' = l [unfolded f sum.case eqTrueI [OF True] bool.case locate_toml_mcp_servers_table_block_in_range_def sl option.case]
    obtain ts te where scan: "table_scan (table_header_candidates a) (p + r) (split_inclusive ((m @ [LF]) @ N @ q)) None ?pb = Some (ts, te)"
      using l' by (auto split: option.splits)
    obtain keep where keep: "range_has_foreign_toml_header s (line_end_after s ?pb) ts a = Inr keep"
      using l' unfolding scan option.case prod.case by (auto split: sum.splits)
    show ?thesis
      using l' upd unfolding scan keep option.case prod.case sum.case
      by (intro overwide_span_keeps [OF assms(1) parts assms(3) scan keep]) auto
  qed
qed

lemma updated_contents:
  "map_sum id (\<lambda>c. config_update c True) x = Inr u \<Longrightarrow> x = Inr (cu_contents u)"
  by (cases x) auto

lemma appended_block_keeps:
  "replacement_ok adapter block \<Longrightarrow> foreign_headers adapter (with_blank_line existing @ block) = foreign_headers adapter existing"
proof -
  assume ok: "replacement_ok adapter block"
  obtain pad where pad: "with_blank_line existing = existing @ pad" "set pad \<subseteq> {CR, LF}" "at_line_start (existing @ pad)"
    using with_blank_line_spec by blast
  then show ?thesis
    using ok foreign_headers_padded [OF pad(2)] by (simp only: pad(1) foreign_headers_append [OF pad(3)] replacement_ok_def append_Nil2)
qed

lemma replaced_table_keeps:
  assumes "replacement_ok adapter block" "locate_toml_mcp_servers_table_block existing adapter = Inr (Some (ts, te))"
  shows "foreign_headers adapter (splice_text existing ts te block) = foreign_headers adapter existing"
proof -
  have scan: "table_scan (table_header_candidates adapter) (length existing) (split_inclusive existing) None 0 = Some (ts, te)"
    using assms(2) by (simp add: locate_toml_mcp_servers_table_block_def locate_toml_mcp_servers_table_block_in_range_def slice_def)
  obtain l1 l l2 l3 where l: "split_inclusive existing = l1 @ (l # l2) @ l3" "ts = length (concat l1)"
      "te = length (concat l1 @ concat (l # l2))"
      "trim_toml_line l \<in> set (table_header_candidates adapter)" "\<forall>x \<in> set l2. \<not> looks_like_toml_table_header (trim_toml_line x)"
    using table_scan_None [OF scan] by auto
  note rt = replace_table [OF l(1,4,5) assms(1)]
  have e: "existing = concat l1 @ concat (l # l2) @ concat l3" using rt by blast
  have "take ts existing = concat l1" unfolding l(2) by (subst e) simp
  moreover have "drop te existing = concat l3" unfolding l(3) by (subst e) simp
  ultimately show ?thesis using rt by (simp add: splice_text_def)
qed

section \<open>Properties\<close>


text \<open>A block that has come to enclose another table: the table is kept.\<close>

definition overwide_file :: "string \<Rightarrow> string" where
  "overwide_file indent = begin_marker ''M'' @ [LF] @ ''[other]'' @ [LF] @ ''[mcp_servers.M]'' @ [LF] @ indent @ end_marker ''M'' @ [LF]"


text \<open>A marker that is indented makes the repair of such a block panic: the table ends behind the start of the marker's line.\<close>

lemma indented_end_marker_panics: "apply_toml_mcp_server_block (overwide_file ''  '') ''M'' [] ''p'' = Inl SlicePanic"
  by code_simp

text \<open>The name of an adapter that is the start of another one: in a YAML file the block of the longer name is replaced, and the end of
  its marker is left as a line of its own.\<close>

lemma prefix_name_replaces_other_block:
  "remove_yaml_mcp_server_entry (''mcp_servers:'' @ [LF] @ build_yaml_mcp_servers_entry_block ''MCPace'' ''u'' [LF]) ''MCP'' ''p'' =
     Inr (config_update (''mcp_servers:'' @ [LF] @ ''ace'' @ [LF]) True)"
  by code_simp

text \<open>In a JSON file, installing keeps every other member of the file and every other server.\<close>

lemma json_install_keeps:
  assumes "apply_json_mcp_server_entry parse pretty existing adapter servers_object_key server_config path = Inr u"
    and "trim existing \<noteq> []" "parse existing = Inr (JObject root)"
  defines "servers \<equiv> servers_key_of servers_object_key"
  shows "\<exists>root'. cu_contents u = pretty (JObject root') \<and> (\<forall>k. k \<noteq> servers \<longrightarrow> map_of root' k = map_of root k) \<and>
    value_at_path (JObject root') [servers, adapter] = Some server_config \<and>
    (\<forall>k. k \<noteq> adapter \<longrightarrow> value_at_path (JObject root') [servers, k] = value_at_path (JObject root) [servers, k])"
proof -
  obtain ss where ss: "unwrap_or (map_of root servers) empty_object = JObject ss"
      "cu_contents u = pretty (JObject (bt_insert servers (JObject (bt_insert adapter server_config ss)) root))"
    using assms(1-3) by (auto simp: apply_json_mcp_server_entry_def Let_def servers_def split: json.splits)
  have "map_of ss k = (case map_of root servers of Some (JObject m) \<Rightarrow> map_of m k | _ \<Rightarrow> None)" for k
    using ss(1) by (auto simp: unwrap_or_def empty_object_def split: option.splits)
  then have "value_at_path (JObject root) [servers, k] = map_of ss k" for k
    using ss(1) by (auto simp: unwrap_or_def empty_object_def split: option.splits)
  then show ?thesis using ss(2) by (intro exI conjI) (assumption | simp)+
qed

end
