(* ===== verification/Policy_Audit.thy ===== *)
theory Policy_Audit
  imports Tool_Policy
begin

text \<open>
  The advisory audit of upstream tools (\<^verbatim>\<open>src/upstream/policy_audit.rs\<close>): risk classes and signals read off the annotations, the name,
  the description and the schemas of a tool, the policies that cover it, and the recommendation. A set of strings is the sorted list
  of its elements.
\<close>

section \<open>Words\<close>

definition tool_name_tokens :: "string \<Rightarrow> string list" where
  "tool_name_tokens lower_name =
     sorted_unique (filter (\<lambda>w. w \<noteq> []) (split_char CHR '' '' (map (\<lambda>c. if is_alnum c then c else CHR '' '') lower_name)))"

definition METADATA_PATTERNS :: "string list" where
  "METADATA_PATTERNS =
    [''ignore previous'', ''ignore all previous'', ''ignore the user'', ''system prompt'', ''developer message'', 
     ''hidden instruction'', ''do not tell the user'', ''don'' @ [CHR 0x27] @ ''t tell the user'', ''secretly'', 
     ''exfiltrate'', ''send secrets'', ''steal'', ''api key'', ''apikey'', ''credential'', ''credentials'', 
     ''private key'', ''ssh key'', ''access token'', ''refresh token'', ''password'']"

definition SCHEMA_MUTATION :: "string list" where
  "SCHEMA_MUTATION =
    [''write'', ''delete'', ''remove'', ''update'', ''create'', ''insert'', ''upsert'', ''patch'', ''deploy'', 
     ''publish'', ''send'']"

definition SCHEMA_FILES :: "string list" where
  "SCHEMA_FILES =
    [''path'', ''file'', ''filename'', ''directory'', ''dir'', ''cwd'', ''workspace'', ''root'']"

definition SCHEMA_DATABASE :: "string list" where
  "SCHEMA_DATABASE =
    [''sql'', ''query'', ''statement'', ''table'', ''database'', ''schema'']"

definition SCHEMA_NETWORK :: "string list" where
  "SCHEMA_NETWORK =
    [''url'', ''uri'', ''endpoint'', ''host'', ''domain'', ''webhook'', ''request'']"

definition SCHEMA_CREDENTIALS :: "string list" where
  "SCHEMA_CREDENTIALS =
    [''token'', ''apikey'', ''api_key'', ''authorization'', ''secret'', ''password'', ''credential'']"

definition SCHEMA_SYSTEM :: "string list" where
  "SCHEMA_SYSTEM =
    [''command'', ''shell'', ''script'', ''args'', ''argv'', ''executable'', ''process'']"

definition NAME_MUTATION :: "string list" where
  "NAME_MUTATION =
    [''write'', ''create'', ''delete'', ''remove'', ''update'', ''edit'', ''move'', ''rename'', ''patch'', 
     ''insert'', ''upsert'', ''append'', ''add'', ''commit'', ''checkout'', ''reset'', ''publish'', ''deploy'', 
     ''install'']"

definition NAME_SYSTEM :: "string list" where
  "NAME_SYSTEM =
    [''powershell'', ''shell'', ''command'', ''exec'', ''execute'', ''process'', ''registry'', ''clipboard'']"

definition NAME_CONTROL :: "string list" where
  "NAME_CONTROL =
    [''click'', ''type'', ''press'', ''shortcut'', ''scroll'', ''drag'', ''hover'', ''select'', ''navigate'', 
     ''resize'', ''tab'', ''tabs'', ''upload'', ''dialog'', ''evaluate'', ''fill'', ''close'']"

definition NAME_INTERACTION :: "string list" where
  "NAME_INTERACTION =
    [''javascript'', ''cdp'', ''permission'', ''permissions'', ''downloads'', ''files'', ''action'', ''clear'', 
     ''slider'']"

definition NAME_OBSERVATION :: "string list" where
  "NAME_OBSERVATION =
    [''screenshot'', ''snapshot'', ''scrape'', ''screen'']"

definition NAME_NETWORK :: "string list" where
  "NAME_NETWORK =
    [''fetch'', ''search'', ''http'', ''url'', ''web'', ''request'']"

section \<open>Signals\<close>

type_synonym advisory = "string list \<times> string list"

definition add_advisory_signal :: "string \<Rightarrow> string \<Rightarrow> advisory \<Rightarrow> advisory" where
  "add_advisory_signal risk_class signal acc = (insort_insert risk_class (fst acc), snd acc @ [signal])"

text \<open>One of the loops over a table of words: a signal for each word that is present, in the order of the table.\<close>

definition add_signals :: "(string \<Rightarrow> bool) \<Rightarrow> string \<Rightarrow> string \<Rightarrow> string list \<Rightarrow> advisory \<Rightarrow> advisory" where
  "add_signals present risk_class label table acc =
     fold (\<lambda>w acc. if present w then add_advisory_signal risk_class (label @ w) acc else acc) table acc"

definition add_metadata_based_advisory_signals :: "json \<Rightarrow> advisory \<Rightarrow> advisory" where
  "add_metadata_based_advisory_signals tool acc =
     (let line = (\<lambda>v. case v of Some s \<Rightarrow> s @ [LF] | None \<Rightarrow> []);
          lower = to_ascii_lowercase (line (string_at_path tool [''title'']) @ line (string_at_path tool [''description'']))
      in if trim lower = [] then acc
         else add_signals (contains lower) ''metadata-injection'' ''metadata-pattern:'' METADATA_PATTERNS acc)"

fun schema_words :: "json \<Rightarrow> string list" where
  "schema_words (JString v) = [v]"
| "schema_words (JArray items) = concat (map schema_words items)"
| "schema_words (JObject m) = concat (map (\<lambda>e. fst e # schema_words (snd e)) m)"
| "schema_words _ = []"

definition collect_schema_words :: "json option \<Rightarrow> string list \<Rightarrow> string list" where
  "collect_schema_words v output = output @ (case v of Some v \<Rightarrow> schema_words v | None \<Rightarrow> [])"

definition add_schema_based_advisory_signals :: "json \<Rightarrow> advisory \<Rightarrow> advisory" where
  "add_schema_based_advisory_signals tool acc =
     (let words = collect_schema_words (value_at_path tool [''outputSchema'']) (collect_schema_words (value_at_path tool [''inputSchema'']) []);
          tokens = tool_name_tokens (to_ascii_lowercase (join '' '' words));
          present = (\<lambda>w. w \<in> set tokens)
      in if words = [] then acc
         else add_signals present ''system-control'' ''schema-token:'' SCHEMA_SYSTEM
               (add_signals present ''credential-input'' ''schema-token:'' SCHEMA_CREDENTIALS
                 (add_signals present ''open-world'' ''schema-token:'' SCHEMA_NETWORK
                   (add_signals present ''database-access'' ''schema-token:'' SCHEMA_DATABASE
                     (add_signals present ''filesystem-access'' ''schema-token:'' SCHEMA_FILES
                       (add_signals present ''mutation'' ''schema-token:'' SCHEMA_MUTATION acc))))))"

definition add_name_based_advisory_signals :: "string \<Rightarrow> advisory \<Rightarrow> advisory" where
  "add_name_based_advisory_signals name acc =
     (let lower = to_ascii_lowercase (trim name);
          tokens = tool_name_tokens lower;
          present = (\<lambda>w. w \<in> set tokens);
          reads = list_ex present [''read'', ''list'', ''describe''];
          page = contains lower ''page'' \<or> contains lower ''web'';
          acc = add_signals present ''mutation'' ''name-token:'' NAME_MUTATION acc;
          acc = add_signals (\<lambda>w. present w \<and> \<not> reads) ''system-control'' ''name-token:'' NAME_SYSTEM acc;
          acc = (if contains lower ''run_code'' \<or> contains lower ''run-code''
                 then add_advisory_signal ''system-control'' ''name-pattern:run_code'' acc else acc);
          acc = add_signals present (if page then ''interaction-control'' else ''desktop-control'') ''name-token:'' NAME_CONTROL acc;
          acc = add_signals present ''interaction-control'' ''name-token:'' NAME_INTERACTION acc;
          acc = add_signals present (if page then ''interaction-observation'' else ''desktop-observation'') ''name-token:'' NAME_OBSERVATION acc
      in add_signals present ''open-world'' ''name-token:'' NAME_NETWORK acc)"

definition classify_tool_advisory :: "json \<Rightarrow> advisory" where
  "classify_tool_advisory tool =
     (let hint = (\<lambda>key b. bool_at_path tool [''annotations'', key] = Some b);
          acc = ([], []);
          acc = (if hint ''destructiveHint'' True then add_advisory_signal ''mutation'' ''mcp.destructiveHint=true'' acc else acc);
          acc = (if hint ''readOnlyHint'' False then add_advisory_signal ''not-readonly'' ''mcp.readOnlyHint=false'' acc else acc);
          acc = (if hint ''openWorldHint'' True then add_advisory_signal ''open-world'' ''mcp.openWorldHint=true'' acc else acc);
          acc = (case string_at_path tool [''name''] of Some name \<Rightarrow> add_name_based_advisory_signals name acc | None \<Rightarrow> acc)
      in add_schema_based_advisory_signals tool (add_metadata_based_advisory_signals tool acc))"

definition risk_class_recommends_policy :: "string \<Rightarrow> bool" where
  "risk_class_recommends_policy risk_class \<longleftrightarrow>
     risk_class \<in> {''mutation'', ''not-readonly'', ''interaction-control'', ''interaction-observation'', ''desktop-control'',
       ''desktop-observation'', ''system-control'', ''metadata-injection'', ''filesystem-access'', ''database-access'', ''credential-input''}"

section \<open>The audit of a tool\<close>

definition audit_recommendation :: "string \<Rightarrow> bool \<Rightarrow> bool \<Rightarrow> bool \<Rightarrow> string" where
  "audit_recommendation policy_status guard_recommended policy_covered unknown_semantics =
     (if guard_recommended \<and> \<not> policy_covered
      then ''Add an explicit mcpace.config.json toolPolicies entry before using this tool routinely; keep runtime enforcement declarative instead of hardcoding this tool in Rust.''
      else if policy_status = ''unprotected-advisory-risk''
      then ''Review the upstream tool semantics and add a toolPolicies guard if it can mutate local, remote, interactive, or host state.''
      else if unknown_semantics
      then ''No MCP annotations or MCPace policy describe this tool; inspect the upstream server documentation before relying on parallel or unattended calls.''
      else if policy_covered
      then ''Covered by declarative MCPace policy; callers must use the configured allow argument or risk-class opt-in for guarded calls.''
      else ''No guard is currently recommended from annotations or generic name heuristics.'')"

definition tool_annotation_keys :: "json \<Rightarrow> string list" where
  "tool_annotation_keys tool = (case object_at_path tool [''annotations''] of Some m \<Rightarrow> map fst m | None \<Rightarrow> [])"

definition tool_policy_summary :: "tool_risk_policy \<Rightarrow> json" where
  "tool_policy_summary policy =
     json_object [(''tools'', json_strings (rp_tools policy)), (''riskClass'', json_string_or_null (rp_risk_class policy)),
       (''allowArgument'', json_string_or_null (rp_allow_argument policy)), (''description'', json_string_or_null (rp_description policy))]"

definition tool_policy_summaries :: "tool_risk_policy list \<Rightarrow> json list" where
  "tool_policy_summaries policies = map tool_policy_summary policies"

record tool_policy_audit =
  ta_value :: json
  ta_has_annotations :: bool
  ta_has_advisory_risk :: bool
  ta_guard_recommended :: bool
  ta_policy_covered :: bool
  ta_unknown_semantics :: bool
  ta_review_recommended :: bool

definition policy_status_of :: "json \<Rightarrow> bool \<Rightarrow> bool \<Rightarrow> bool \<Rightarrow> bool \<Rightarrow> string" where
  "policy_status_of tool guard_recommended has_advisory_risk policy_covered unknown_semantics =
     (if guard_recommended \<and> \<not> policy_covered then ''unprotected-guard-recommended''
      else if has_advisory_risk \<and> \<not> policy_covered then ''unprotected-advisory-risk''
      else if has_advisory_risk \<and> policy_covered then ''covered-advisory-risk''
      else if unknown_semantics then ''review-unknown-semantics''
      else if bool_at_path tool [''annotations'', ''readOnlyHint''] = Some True then ''read-only-annotated''
      else if policy_covered then ''policy-covered''
      else ''no-risk-detected'')"

definition audit_tool :: "upstream_server_config \<Rightarrow> json \<Rightarrow> tool_policy_audit" where
  "audit_tool server tool =
     (let name = unwrap_or (string_at_path tool [''name'']) ''<unnamed>'';
          title = string_at_path tool [''title''];
          description = unwrap_or (or_else (string_at_path tool [''description'']) title) [];
          annotation_keys = tool_annotation_keys tool;
          has_annotations = annotation_keys \<noteq> [];
          classification = classify_tool_advisory tool;
          matching_policies = map tool_policy_summary (filter (\<lambda>p. matches_tool p name) (sv_tool_policies server));
          policy_covered = matching_policies \<noteq> [];
          has_advisory_risk = fst classification \<noteq> [];
          guard_recommended = list_ex risk_class_recommends_policy (fst classification);
          unknown_semantics = (\<not> has_annotations \<and> \<not> has_advisory_risk \<and> \<not> policy_covered);
          review_recommended = ((has_advisory_risk \<or> guard_recommended) \<and> \<not> policy_covered \<or> unknown_semantics);
          policy_status = policy_status_of tool guard_recommended has_advisory_risk policy_covered unknown_semantics
      in \<lparr>ta_value = json_object
            [(''name'', JString name), (''title'', json_string_or_null title), (''description'', JString description),
             (''policyStatus'', JString policy_status), (''policyCovered'', JBool policy_covered),
             (''guardRecommended'', JBool guard_recommended), (''reviewRecommended'', JBool review_recommended),
             (''hasAnnotations'', JBool has_annotations), (''annotationKeys'', json_strings annotation_keys),
             (''annotations'', unwrap_or (value_at_path tool [''annotations'']) empty_object),
             (''advisoryRiskClasses'', json_strings (fst classification)), (''advisorySignals'', json_strings (snd classification)),
             (''matchingPolicies'', JArray matching_policies),
             (''recommendation'', JString (audit_recommendation policy_status guard_recommended policy_covered unknown_semantics))],
          ta_has_annotations = has_annotations, ta_has_advisory_risk = has_advisory_risk, ta_guard_recommended = guard_recommended,
          ta_policy_covered = policy_covered, ta_unknown_semantics = unknown_semantics, ta_review_recommended = review_recommended\<rparr>)"

section \<open>What the audit says\<close>

lemma audit_members:
  "value_at_path (ta_value (audit_tool server tool)) [''policyCovered''] = Some (JBool (ta_policy_covered (audit_tool server tool)))"
  "value_at_path (ta_value (audit_tool server tool)) [''guardRecommended''] = Some (JBool (ta_guard_recommended (audit_tool server tool)))"
  "value_at_path (ta_value (audit_tool server tool)) [''unknownSemantics''] = None"
  by (simp_all add: audit_tool_def Let_def json_path)

text \<open>The word \<open>api_key\<close> of the table of credential words is never found: the text is cut at underscores.\<close>

lemma split_char_parts: "w \<in> set (split_char c s) \<Longrightarrow> set w \<subseteq> set s - {c}"
proof (induction s arbitrary: w)
  case (Cons x s)
  show ?case
  proof (cases "x = c \<or> split_char c s = []")
    case False
    then obtain v vs where "split_char c s = v # vs" by (cases "split_char c s") auto
    then show ?thesis using Cons.prems Cons.IH [of v] Cons.IH [of w] False by auto
  qed (use Cons in \<open>auto split: if_splits\<close>)
qed simp

lemma tool_name_tokens_alnum: "w \<in> set (tool_name_tokens s) \<Longrightarrow> list_all is_alnum w"
  using split_char_parts [of w "CHR '' ''" "map (\<lambda>c. if is_alnum c then c else CHR '' '') s"]
  by (auto simp: tool_name_tokens_def sorted_unique_spec list_all_iff)

lemma api_key_never_found: "''api_key'' \<notin> set (tool_name_tokens s)"
  using tool_name_tokens_alnum [of "''api_key''" s] by (auto simp: is_alnum_def is_digit_def is_upper_def is_lower_def code_def)

end
