(* ===== verification/Projection.thy ===== *)
theory Projection
  imports Policy_Audit
begin

text \<open>
  The tools of upstream servers projected under names of their own (\<^verbatim>\<open>src/upstream/projection.rs\<close>): the code of a name, its decoding and
  the catalogue. Loading the servers, testing them and listing their tools are arguments. A Rust panic of the decoder, which slices the name
  by bytes, is the outcome \<open>Inl ()\<close>.
\<close>

section \<open>Names\<close>

definition nibble_char :: "nat \<Rightarrow> char" where
  "nibble_char n = ''0123456789abcdef'' ! n"

definition encode_projected_component :: "string \<Rightarrow> string" where
  "encode_projected_component v = concat (map (\<lambda>c. [nibble_char (code c div 16), nibble_char (code c mod 16)]) v)"

text \<open>\<open>u8::from_str_radix\<close> on two bytes, which accepts a plus sign.\<close>

definition parse_hex_byte :: "char \<Rightarrow> char \<Rightarrow> nat option" where
  "parse_hex_byte a b =
     (if a = CHR ''+'' then hex_digit b
      else case (hex_digit a, hex_digit b) of (Some x, Some y) \<Rightarrow> Some (16 * x + y) | _ \<Rightarrow> None)"

fun decode_bytes :: "string \<Rightarrow> unit + string option" where
  "decode_bytes (a # b # rest) =
     (if rest \<noteq> [] \<and> utf8_cont (hd rest) then Inl ()
      else case parse_hex_byte a b of
             None \<Rightarrow> Inr None
           | Some n \<Rightarrow> map_sum id (map_option ((#) (char_of n))) (decode_bytes rest))"
| "decode_bytes _ = Inr (Some [])"

definition decode_projected_component :: "string \<Rightarrow> unit + string option" where
  "decode_projected_component v =
     (if v = [] \<or> odd (length v) then Inr None
      else map_sum id (\<lambda>r. case r of Some bytes \<Rightarrow> if utf8_ok bytes then Some bytes else None | None \<Rightarrow> None) (decode_bytes v))"

definition projected_tool_name_is_recommended_shape :: "string \<Rightarrow> bool" where
  "projected_tool_name_is_recommended_shape name \<longleftrightarrow>
     name \<noteq> [] \<and> length name \<le> 64 \<and> \<not> contains name ''__'' \<and>
     list_all (\<lambda>c. is_alnum c \<or> c = CHR ''_'' \<or> c = CHR ''-'') name"

definition encode_projected_tool_name :: "string \<Rightarrow> string \<Rightarrow> string option" where
  "encode_projected_tool_name server tool =
     (let server = encode_projected_component (trim server); tool = encode_projected_component (trim tool)
      in if server = [] \<or> tool = [] then None
         else let name = ''u_'' @ server @ ''_'' @ tool
              in if projected_tool_name_is_recommended_shape name then Some name else None)"

definition decode_projected_tool_name :: "string \<Rightarrow> unit + (string \<times> string) option" where
  "decode_projected_tool_name name =
     (case strip_prefix ''u_'' name of
        None \<Rightarrow> Inr None
      | Some rest \<Rightarrow>
          (case split_once CHR ''_'' rest of
             None \<Rightarrow> Inr None
           | Some (server, tool) \<Rightarrow>
               (case decode_projected_component server of
                  Inl p \<Rightarrow> Inl p
                | Inr None \<Rightarrow> Inr None
                | Inr (Some server) \<Rightarrow>
                    (case decode_projected_component tool of
                       Inl p \<Rightarrow> Inl p
                     | Inr None \<Rightarrow> Inr None
                     | Inr (Some tool) \<Rightarrow> if trim server = [] \<or> trim tool = [] then Inr None else Inr (Some (server, tool))))))"

section \<open>The catalogue\<close>

datatype projection_safety = SafeProjection | ReviewProjection | AllProjection

definition parse_projection_safety :: "string \<Rightarrow> projection_safety" where
  "parse_projection_safety v =
     (let v = map (\<lambda>c. if c = CHR ''_'' then CHR ''-'' else c) (to_ascii_lowercase (trim v))
      in if v \<in> {''all'', ''unsafe'', ''maximum'', ''max''} then AllProjection
         else if v \<in> {''review'', ''unknown'', ''balanced''} then ReviewProjection
         else SafeProjection)"

definition projected_description :: "string \<Rightarrow> string \<Rightarrow> string \<Rightarrow> string" where
  "projected_description server_name original_tool_name description =
     ''Upstream MCP tool '' @ [CHR 0x60] @ original_tool_name @ [CHR 0x60] @ '' on server '' @ [CHR 0x60] @ server_name @ [CHR 0x60]
     @ '' routed through MCPace. '' @ description"

definition default_tool_input_schema :: json where
  "default_tool_input_schema = json_object [(''type'', JString ''object'')]"

definition project_tool_definition :: "string \<Rightarrow> string \<Rightarrow> string \<Rightarrow> json \<Rightarrow> json \<Rightarrow> json" where
  "project_tool_definition server_name original_tool_name projected_name tool audit =
     (let m = unwrap_or (as_object tool) [];
          title = unwrap_or (or_else (string_at_path tool [''title'']) (string_at_path tool [''name''])) original_tool_name;
          description = trim (unwrap_or (string_at_path tool [''description'']) []);
          m = bt_insert ''name'' (JString projected_name) m;
          m = bt_insert ''title'' (JString (server_name @ [CHR '' '', CHR 0xC2, CHR 0xB7, CHR '' ''] @ title)) m;
          m = bt_insert ''description'' (JString (projected_description server_name original_tool_name description)) m;
          m = (if map_of m ''inputSchema'' = None then bt_insert ''inputSchema'' default_tool_input_schema m else m);
          meta = unwrap_or (object_at_path tool [''_meta'']) [];
          meta = bt_insert ''mcpace/upstreamServer'' (JString server_name) meta;
          meta = bt_insert ''mcpace/upstreamTool'' (JString original_tool_name) meta;
          meta = bt_insert ''mcpace/projected'' (JBool True) meta;
          meta = bt_insert ''mcpace/policyStatus'' (json_string_or_null (string_at_path audit [''policyStatus''])) meta
      in JObject (bt_insert ''_meta'' (JObject meta) m))"

record projection_state =
  pj_projected :: "json list"
  pj_server_count :: nat
  pj_ok_server_count :: nat
  pj_skipped_server_count :: nat
  pj_raw_tool_count :: nat
  pj_projected_tool_count :: nat
  pj_skipped_guarded_count :: nat
  pj_skipped_unknown_count :: nat
  pj_skipped_name_count :: nat
  pj_truncated :: bool

definition projection_start :: projection_state where
  "projection_start = \<lparr>pj_projected = [], pj_server_count = 0, pj_ok_server_count = 0, pj_skipped_server_count = 0, pj_raw_tool_count = 0,
     pj_projected_tool_count = 0, pj_skipped_guarded_count = 0, pj_skipped_unknown_count = 0, pj_skipped_name_count = 0, pj_truncated = False\<rparr>"

definition skipped_by_safety :: "projection_safety \<Rightarrow> bool \<Rightarrow> bool \<Rightarrow> bool \<Rightarrow> bool" where
  "skipped_by_safety safety policy_covered guard_recommended unknown_semantics =
     (case safety of
        AllProjection \<Rightarrow> False
      | ReviewProjection \<Rightarrow> policy_covered \<or> guard_recommended
      | SafeProjection \<Rightarrow> policy_covered \<or> guard_recommended \<or> unknown_semantics)"

definition bump :: "nat \<Rightarrow> nat" where
  "bump n = sat_add 64 n 1"

definition project_tool ::
  "projection_safety \<Rightarrow> nat option \<Rightarrow> upstream_server_config \<Rightarrow> json \<Rightarrow> projection_state \<Rightarrow> projection_state" where
  "project_tool safety max_tools server tool s =
     (let s = s\<lparr>pj_raw_tool_count := bump (pj_raw_tool_count s)\<rparr>;
          skip_name = s\<lparr>pj_skipped_name_count := bump (pj_skipped_name_count s)\<rparr>
      in case map_option trim (string_at_path tool [''name'']) of
           None \<Rightarrow> skip_name
         | Some original_tool_name \<Rightarrow>
             if original_tool_name = [] then skip_name
             else
               (let audit = ta_value (audit_tool server tool);
                    flag = (\<lambda>key. unwrap_or (bool_at_path audit [key]) False);
                    unknown_semantics = flag ''unknownSemantics''
                in if skipped_by_safety safety (flag ''policyCovered'') (flag ''guardRecommended'') unknown_semantics
                   then (if unknown_semantics then s\<lparr>pj_skipped_unknown_count := bump (pj_skipped_unknown_count s)\<rparr>
                         else s\<lparr>pj_skipped_guarded_count := bump (pj_skipped_guarded_count s)\<rparr>)
                   else
                     (case encode_projected_tool_name (sv_name server) original_tool_name of
                        None \<Rightarrow> skip_name
                      | Some projected_name \<Rightarrow>
                          if (case max_tools of Some n \<Rightarrow> n \<le> pj_projected_tool_count s | None \<Rightarrow> False)
                          then s\<lparr>pj_truncated := True\<rparr>
                          else s\<lparr>pj_projected := pj_projected s @
                                   [project_tool_definition (sv_name server) original_tool_name projected_name tool audit],
                                 pj_projected_tool_count := bump (pj_projected_tool_count s)\<rparr>)))"

definition project_server ::
  "(upstream_server_config \<Rightarrow> bool) \<Rightarrow> (upstream_server_config \<Rightarrow> nat \<Rightarrow> string + json) \<Rightarrow> nat option \<Rightarrow> projection_safety \<Rightarrow> nat option
   \<Rightarrow> upstream_server_config \<Rightarrow> projection_state \<Rightarrow> projection_state" where
  "project_server callable listed timeout_ms safety max_tools server s =
     (let s = s\<lparr>pj_server_count := bump (pj_server_count s)\<rparr>;
          skipped = s\<lparr>pj_skipped_server_count := bump (pj_skipped_server_count s)\<rparr>
      in if \<not> callable server then skipped
         else case listed server (probe_timeout_for server timeout_ms) of
                Inl _ \<Rightarrow> skipped
              | Inr tools \<Rightarrow>
                  fold (project_tool safety max_tools server) (unwrap_or (as_array tools) [])
                    (s\<lparr>pj_ok_server_count := bump (pj_ok_server_count s)\<rparr>))"

fun safety_label :: "projection_safety \<Rightarrow> string" where
  "safety_label SafeProjection = ''safe''"
| "safety_label ReviewProjection = ''review''"
| "safety_label AllProjection = ''all''"

definition projection_report :: "projection_safety \<Rightarrow> nat option \<Rightarrow> nat \<Rightarrow> projection_state \<Rightarrow> json" where
  "projection_report safety max_tools elapsed_ms s = json_object
     [(''ok'', JBool True), (''mode'', JString ''projected-upstream-tools''), (''serverCount'', json_number (pj_server_count s)),
      (''okServerCount'', json_number (pj_ok_server_count s)), (''skippedServerCount'', json_number (pj_skipped_server_count s)),
      (''rawToolCount'', json_number (pj_raw_tool_count s)), (''projectedToolCount'', json_number (pj_projected_tool_count s)),
      (''skippedGuardedToolCount'', json_number (pj_skipped_guarded_count s)),
      (''skippedUnknownToolCount'', json_number (pj_skipped_unknown_count s)),
      (''skippedNameToolCount'', json_number (pj_skipped_name_count s)), (''truncated'', JBool (pj_truncated s)),
      (''safety'', JString (safety_label safety)), (''maxTools'', optional_number max_tools), (''elapsedMs'', json_number elapsed_ms),
      (''tools'', JArray (pj_projected s))]"

definition projected_tool_catalog ::
  "string + (string \<times> upstream_server_config) list \<Rightarrow> (upstream_server_config \<Rightarrow> bool) \<Rightarrow> (upstream_server_config \<Rightarrow> nat \<Rightarrow> string + json)
   \<Rightarrow> nat \<Rightarrow> nat option \<Rightarrow> projection_safety \<Rightarrow> nat option \<Rightarrow> string + json" where
  "projected_tool_catalog loaded callable listed elapsed_ms timeout_ms safety max_tools =
     (case loaded of
        Inl e \<Rightarrow> Inl e
      | Inr servers \<Rightarrow>
          Inr (projection_report safety max_tools elapsed_ms
            (fold (project_server callable listed timeout_ms safety max_tools) (map snd servers) projection_start)))"

end
