(* ===== verification/Projection_Properties.thy ===== *)
theory Projection_Properties
  imports Projection
begin

text \<open>
  Projected names decode to the server and the tool they stand for, and a catalogue made with a guard in place offers no tool that a
  policy covers or the audit wants guarded.
\<close>

section \<open>Names\<close>

lemma nibble_char_facts:
  "n < 16 \<Longrightarrow> hex_digit (nibble_char n) = Some n \<and> is_alnum (nibble_char n) \<and> nibble_char n \<noteq> CHR ''_'' \<and> nibble_char n \<noteq> CHR ''+'' \<and> \<not> utf8_cont (nibble_char n)"
proof -
  have "\<forall>n \<in> set [0..<16]. hex_digit (nibble_char n) = Some n \<and> is_alnum (nibble_char n) \<and> nibble_char n \<noteq> CHR ''_'' \<and> nibble_char n \<noteq> CHR ''+'' \<and> \<not> utf8_cont (nibble_char n)"
    by code_simp
  then show "n < 16 \<Longrightarrow> ?thesis" by simp
qed

lemma code_less: "code c < 256"
  by (simp add: code_def)

lemma encode_component_Cons:
  "encode_projected_component (c # v) = nibble_char (code c div 16) # nibble_char (code c mod 16) # encode_projected_component v"
  by (simp add: encode_projected_component_def)

lemma encode_component_Nil [simp]: "encode_projected_component [] = []"
  by (simp add: encode_projected_component_def)

lemma code_nibbles: "code c div 16 < 16" "code c mod 16 < 16"
  using code_less [of c] by simp_all

lemma encode_component_chars:
  "x \<in> set (encode_projected_component v) \<Longrightarrow> is_alnum x \<and> x \<noteq> CHR ''_'' \<and> \<not> utf8_cont x"
  by (induction v) (auto simp: encode_component_Cons nibble_char_facts code_nibbles)

lemma encode_component_length: "length (encode_projected_component v) = 2 * length v"
  by (induction v) (simp_all add: encode_component_Cons)

lemma decode_encode_bytes: "decode_bytes (encode_projected_component v) = Inr (Some v)"
proof (induction v)
  case (Cons c v)
  have "encode_projected_component v = [] \<or> \<not> utf8_cont (hd (encode_projected_component v))"
    using encode_component_chars [of "hd (encode_projected_component v)" v] hd_in_set by blast
  moreover have "parse_hex_byte (nibble_char (code c div 16)) (nibble_char (code c mod 16)) = Some (code c)"
    using code_nibbles [of c] by (simp add: parse_hex_byte_def nibble_char_facts)
  moreover have "char_of (code c) = c" by (simp add: code_def)
  ultimately show ?case using Cons by (simp add: encode_component_Cons)
qed simp

lemma decode_encode_component: "utf8_ok v \<Longrightarrow> v \<noteq> [] \<Longrightarrow> decode_projected_component (encode_projected_component v) = Inr (Some v)"
proof -
  assume "utf8_ok v" "v \<noteq> []"
  moreover have "encode_projected_component v \<noteq> []" using \<open>v \<noteq> []\<close> by (cases v) (simp_all add: encode_component_Cons)
  ultimately show ?thesis by (simp add: decode_projected_component_def decode_encode_bytes encode_component_length)
qed

section \<open>The catalogue\<close>

lemma skipped_flags:
  "unwrap_or (bool_at_path (ta_value (audit_tool server tool)) [''policyCovered'']) False = ta_policy_covered (audit_tool server tool)"
  "unwrap_or (bool_at_path (ta_value (audit_tool server tool)) [''guardRecommended'']) False = ta_guard_recommended (audit_tool server tool)"
  "unwrap_or (bool_at_path (ta_value (audit_tool server tool)) [''unknownSemantics'']) False = False"
  unfolding bool_at_path_def audit_members by (simp_all add: unwrap_or_def)

definition unguarded :: "upstream_server_config \<Rightarrow> json \<Rightarrow> bool" where
  "unguarded server tool \<longleftrightarrow>
     (\<forall>p \<in> set (sv_tool_policies server). \<not> matches_tool p (unwrap_or (string_at_path tool [''name'']) ''<unnamed>'')) \<and>
     (\<forall>k \<in> set (fst (classify_tool_advisory tool)). \<not> risk_class_recommends_policy k)"

lemma unguarded_audit:
  "unguarded server tool \<longleftrightarrow> \<not> ta_policy_covered (audit_tool server tool) \<and> \<not> ta_guard_recommended (audit_tool server tool)"
  by (auto simp: unguarded_def audit_tool_def Let_def filter_empty_conv list_ex_iff)

lemma add_signals_mono: "set (fst acc) \<subseteq> set (fst (add_signals present k label table acc))"
  unfolding add_signals_def
  by (induction table arbitrary: acc) (auto simp: add_advisory_signal_def set_insort_insert subset_iff)

lemma name_signals_mono: "set (fst acc) \<subseteq> set (fst (add_name_based_advisory_signals name acc))"
proof -
  have "set (fst acc) \<subseteq> set (fst (add_advisory_signal k s acc))" for k s acc
    by (auto simp: add_advisory_signal_def set_insort_insert)
  then show ?thesis
    unfolding add_name_based_advisory_signals_def Let_def
    by (smt (verit, best) add_signals_mono order_trans)
qed

lemma rest_signals_mono:
  "set (fst acc) \<subseteq> set (fst (add_schema_based_advisory_signals tool (add_metadata_based_advisory_signals tool acc)))"
proof -
  have "set (fst acc) \<subseteq> set (fst (add_metadata_based_advisory_signals tool acc))" for acc
    by (simp add: add_metadata_based_advisory_signals_def Let_def add_signals_mono)
  moreover have "set (fst acc) \<subseteq> set (fst (add_schema_based_advisory_signals tool acc))" for acc
    unfolding add_schema_based_advisory_signals_def Let_def by (smt (verit, best) add_signals_mono order_trans order_refl)
  ultimately show ?thesis by blast
qed

text \<open>A tool that says it is destructive, or that it is not read-only, always gets a class that wants a guard.\<close>

lemma hinted_guarded:
  assumes "bool_at_path tool [''annotations'', ''destructiveHint''] = Some True \<or> bool_at_path tool [''annotations'', ''readOnlyHint''] = Some False"
  shows "\<not> unguarded server tool"
proof -
  let ?k = "if bool_at_path tool [''annotations'', ''destructiveHint''] = Some True then ''mutation'' else ''not-readonly''"
  have "?k \<in> set (fst (classify_tool_advisory tool))"
    unfolding classify_tool_advisory_def Let_def
    by (rule subsetD [OF rest_signals_mono])
      (use assms name_signals_mono in \<open>auto simp: add_advisory_signal_def set_insort_insert subset_iff split: option.split\<close>)
  moreover have "risk_class_recommends_policy ?k" by (simp add: risk_class_recommends_policy_def)
  ultimately show ?thesis unfolding unguarded_def by blast
qed

text \<open>What may stand in the catalogue: a tool of a callable server, listed by it, under its projected name.\<close>

definition offered ::
  "upstream_server_config set \<Rightarrow> (upstream_server_config \<Rightarrow> bool) \<Rightarrow> (upstream_server_config \<Rightarrow> nat \<Rightarrow> string + json) \<Rightarrow> nat option
   \<Rightarrow> projection_safety \<Rightarrow> json \<Rightarrow> bool" where
  "offered servers callable listed timeout_ms safety t \<longleftrightarrow>
     (\<exists>server tools tool name. server \<in> servers \<and> callable server \<and> listed server (probe_timeout_for server timeout_ms) = Inr (JArray tools) \<and>
        tool \<in> set tools \<and> string_at_path tool [''name''] = Some name \<and>
        string_at_path t [''name''] = encode_projected_tool_name (sv_name server) name \<and> string_at_path t [''name''] \<noteq> None \<and>
        (safety \<noteq> AllProjection \<longrightarrow> unguarded server tool))"

lemma projected_name: "string_at_path (project_tool_definition server_name original projected tool audit) [''name''] = Some projected"
  by (simp add: project_tool_definition_def Let_def string_at_path_def)

lemma encode_trimmed: "encode_projected_tool_name server (trim name) = encode_projected_tool_name server name"
  by (simp add: encode_projected_tool_name_def)

text \<open>One tool adds nothing, or one entry that may stand in the catalogue while there is room.\<close>

lemma project_tool_step:
  assumes "pj_projected (project_tool safety max_tools server tool s) \<noteq> pj_projected s"
  shows "\<exists>t name. pj_projected (project_tool safety max_tools server tool s) = pj_projected s @ [t] \<and>
    string_at_path tool [''name''] = Some name \<and> string_at_path t [''name''] = encode_projected_tool_name (sv_name server) name \<and>
    string_at_path t [''name''] \<noteq> None \<and> (safety \<noteq> AllProjection \<longrightarrow> unguarded server tool)"
  using assms
  by (auto simp: project_tool_def Let_def skipped_flags unguarded_audit skipped_by_safety_def projected_name encode_trimmed
      split: option.splits if_splits projection_safety.splits)

definition catalogue_inv :: "(json \<Rightarrow> bool) \<Rightarrow> nat option \<Rightarrow> projection_state \<Rightarrow> bool" where
  "catalogue_inv ok max_tools s \<longleftrightarrow>
     list_all ok (pj_projected s) \<and>
     (case max_tools of Some n \<Rightarrow> n < 2 ^ 64 \<longrightarrow> length (pj_projected s) \<le> n \<and> pj_projected_tool_count s = length (pj_projected s) | None \<Rightarrow> True)"

lemma project_tool_inv:
  assumes "catalogue_inv ok max_tools s"
    and "\<And>t. pj_projected (project_tool safety max_tools server tool s) = pj_projected s @ [t] \<Longrightarrow> ok t"
  shows "catalogue_inv ok max_tools (project_tool safety max_tools server tool s)"
proof (cases "pj_projected (project_tool safety max_tools server tool s) = pj_projected s")
  case True
  then show ?thesis
    using assms(1) by (auto simp: catalogue_inv_def project_tool_def Let_def split: option.splits if_splits)
next
  case False
  then have "ok t" if "pj_projected (project_tool safety max_tools server tool s) = pj_projected s @ [t]" for t
    using assms(2) that by blast
  moreover have "\<forall>n. max_tools = Some n \<and> n < 2 ^ 64 \<and> length (pj_projected s) \<le> n \<and> n \<noteq> length (pj_projected s) \<longrightarrow>
      sat_add 64 (length (pj_projected s)) (Suc 0) = Suc (length (pj_projected s))"
    by (auto simp: sat_add_def uint_max_def)
  ultimately show ?thesis
    using assms(1) False
    by (auto simp: catalogue_inv_def project_tool_def Let_def bump_def split: option.splits if_splits)
qed

lemma fold_inv: "I s \<Longrightarrow> (\<And>x s. x \<in> set xs \<Longrightarrow> I s \<Longrightarrow> I (f x s)) \<Longrightarrow> I (fold f xs s)"
  by (induction xs arbitrary: s) auto

lemma project_server_inv:
  assumes "catalogue_inv (offered servers callable listed timeout_ms safety) max_tools s" "server \<in> servers"
  shows "catalogue_inv (offered servers callable listed timeout_ms safety) max_tools
    (project_server callable listed timeout_ms safety max_tools server s)"
proof -
  let ?I = "catalogue_inv (offered servers callable listed timeout_ms safety) max_tools"
  have "?I (fold (project_tool safety max_tools server) tools s')"
    if "callable server" "listed server (probe_timeout_for server timeout_ms) = Inr (JArray tools)" "?I s'" for tools s'
  proof (rule fold_inv [where I = ?I])
    show "?I s'" by (rule that(3))
    fix tool s assume tool: "tool \<in> set tools" and s: "?I s"
    show "?I (project_tool safety max_tools server tool s)"
    proof (rule project_tool_inv [OF s])
      fix t assume "pj_projected (project_tool safety max_tools server tool s) = pj_projected s @ [t]"
      then show "offered servers callable listed timeout_ms safety t"
        using project_tool_step [of safety max_tools server tool s] that(1,2) tool assms(2) unfolding offered_def by fastforce
    qed
  qed
  moreover have "?I (s\<lparr>pj_server_count := a, pj_skipped_server_count := b\<rparr>)" "?I (s\<lparr>pj_server_count := a, pj_ok_server_count := b\<rparr>)" for a b
    using assms(1) by (auto simp: catalogue_inv_def split: option.splits)
  ultimately show ?thesis
    by (auto simp: project_server_def Let_def unwrap_or_def split: sum.split option.split elim: as_array.elims)
qed

section \<open>Properties\<close>

text \<open>Projected names are faithful. A projected name is decoded to the server and the tool it was made for, without the white space
  around them, so two tools never share a name; and it is an identifier of at most 64 characters.\<close>

lemma projected_name_round_trip:
  assumes "encode_projected_tool_name server tool = Some name" "utf8_ok (trim server)" "utf8_ok (trim tool)"
  shows "decode_projected_tool_name name = Inr (Some (trim server, trim tool)) \<and> length name \<le> 64 \<and>
    list_all (\<lambda>c. is_alnum c \<or> c = CHR ''_'' \<or> c = CHR ''-'') name"
proof -
  let ?s = "encode_projected_component (trim server)" and ?t = "encode_projected_component (trim tool)"
  have n: "name = ''u_'' @ ?s @ CHR ''_'' # ?t" "projected_tool_name_is_recommended_shape name" "trim server \<noteq> []" "trim tool \<noteq> []"
    using assms(1) by (auto simp: encode_projected_tool_name_def Let_def split: if_splits)
  have "split_once CHR ''_'' (?s @ CHR ''_'' # ?t) = Some (?s, ?t)" using encode_component_chars by (auto simp: split_once_Some)
  moreover have "strip_prefix ''u_'' name = Some (?s @ CHR ''_'' # ?t)" using n(1) by simp
  ultimately have "decode_projected_tool_name name = Inr (Some (trim server, trim tool))"
    using n(3,4) assms(2,3)
    by (simp add: decode_projected_tool_name_def decode_encode_component del: strip_prefix_Some)
  then show ?thesis using n(2) by (simp add: projected_tool_name_is_recommended_shape_def)
qed

text \<open>C36: a guarded catalogue offers no guarded tool. Unless all tools are asked for, every tool of the catalogue comes from a callable server
  that lists it, no policy of that server matches it, and no risk class that wants a guard was found for it; in particular it
  declares itself neither destructive nor not read-only. The catalogue has at most the given number of tools.\<close>

theorem projected_tools_unguarded:
  assumes "projected_tool_catalog (Inr servers) callable listed elapsed_ms timeout_ms safety max_tools = Inr report" "safety \<noteq> AllProjection"
  shows "\<exists>ts. array_at_path report [''tools''] = Some ts \<and> (\<forall>n. max_tools = Some n \<and> n < 2 ^ 64 \<longrightarrow> length ts \<le> n) \<and>
    (\<forall>t \<in> set ts. \<exists>server tools tool. server \<in> snd ` set servers \<and> callable server \<and>
       listed server (probe_timeout_for server timeout_ms) = Inr (JArray tools) \<and> tool \<in> set tools \<and> unguarded server tool \<and>
       bool_at_path tool [''annotations'', ''destructiveHint''] \<noteq> Some True \<and> bool_at_path tool [''annotations'', ''readOnlyHint''] \<noteq> Some False \<and>
       string_at_path t [''name''] = encode_projected_tool_name (sv_name server) (unwrap_or (string_at_path tool [''name'']) []))"
proof -
  let ?s = "fold (project_server callable listed timeout_ms safety max_tools) (map snd servers) projection_start"
  let ?ok = "offered (snd ` set servers) callable listed timeout_ms safety"
  have "catalogue_inv ?ok max_tools ?s"
  proof (rule fold_inv [where I = "catalogue_inv ?ok max_tools"])
    show "catalogue_inv ?ok max_tools projection_start" by (simp add: catalogue_inv_def projection_start_def split: option.split)
  qed (auto intro: project_server_inv)
  then have ok: "\<forall>t \<in> set (pj_projected ?s). ?ok t" and len: "\<forall>n. max_tools = Some n \<and> n < 2 ^ 64 \<longrightarrow> length (pj_projected ?s) \<le> n"
    by (auto simp: catalogue_inv_def list_all_iff)
  have tools: "array_at_path report [''tools''] = Some (pj_projected ?s)"
    using assms(1) by (auto simp: projected_tool_catalog_def projection_report_def array_at_path_def json_path)
  show ?thesis
  proof (intro exI conjI, rule tools, rule len, rule ballI)
    fix t assume "t \<in> set (pj_projected ?s)"
    with ok have "?ok t" by blast
    then obtain server tools tool name where o: "server \<in> snd ` set servers" "callable server"
        "listed server (probe_timeout_for server timeout_ms) = Inr (JArray tools)" "tool \<in> set tools" "string_at_path tool [''name''] = Some name"
        "string_at_path t [''name''] = encode_projected_tool_name (sv_name server) name" "unguarded server tool"
      unfolding offered_def using assms(2) by blast
    moreover have "bool_at_path tool [''annotations'', ''destructiveHint''] \<noteq> Some True" "bool_at_path tool [''annotations'', ''readOnlyHint''] \<noteq> Some False"
      using hinted_guarded [of tool server] o(7) by blast+
    moreover have "unwrap_or (string_at_path tool [''name'']) [] = name" by (simp only: o(5)) (simp add: unwrap_or_def)
    ultimately show "\<exists>server tools tool. server \<in> snd ` set servers \<and> callable server \<and>
       listed server (probe_timeout_for server timeout_ms) = Inr (JArray tools) \<and> tool \<in> set tools \<and> unguarded server tool \<and>
       bool_at_path tool [''annotations'', ''destructiveHint''] \<noteq> Some True \<and> bool_at_path tool [''annotations'', ''readOnlyHint''] \<noteq> Some False \<and>
       string_at_path t [''name''] = encode_projected_tool_name (sv_name server) (unwrap_or (string_at_path tool [''name'']) [])" by metis
  qed
qed

text \<open>A server that lists two tools, one of them destructive.\<close>

definition two_tools :: json where
  "two_tools = JArray [JObject [(''annotations'', JObject [(''destructiveHint'', JBool True)]), (''name'', JString ''drop'')],
     JObject [(''annotations'', JObject [(''readOnlyHint'', JBool True)]), (''name'', JString ''status'')]]"

definition offered_names :: "string + json \<Rightarrow> string option list" where
  "offered_names r = (case r of Inl _ \<Rightarrow> [] | Inr report \<Rightarrow> map (\<lambda>t. string_at_path t [''name'']) (unwrap_or (array_at_path report [''tools'']) []))"

abbreviation two_tools_catalog :: "projection_safety \<Rightarrow> string + json" where
  "two_tools_catalog safety \<equiv>
     projected_tool_catalog (Inr [(''git'', guarded_server ''git'')]) (\<lambda>_. True) (\<lambda>_ _. Inr two_tools) 0 None safety (Some 5)"

theorem projected_tools_unguarded_witness:
  "\<exists>report ts. two_tools_catalog SafeProjection = Inr report \<and> array_at_path report [''tools''] = Some ts \<and> length ts \<le> 5"
proof -
  obtain report where r: "two_tools_catalog SafeProjection = Inr report" by (simp add: projected_tool_catalog_def)
  from projected_tools_unguarded [OF r] show ?thesis using r by auto
qed

section \<open>What modelling showed\<close>

text \<open>The audit record has no member \<open>unknownSemantics\<close>, so the catalogue for \<open>safe\<close> offers the tools of unknown semantics that only
  \<open>review\<close> is meant to offer: both modes offer the same.\<close>

lemma safe_offers_as_review: "project_tool SafeProjection max_tools server tool s = project_tool ReviewProjection max_tools server tool s"
  unfolding project_tool_def Let_def skipped_flags skipped_by_safety_def by (simp only: projection_safety.case simp_thms)

text \<open>A name with a two-byte character at an odd offset makes the decoder panic.\<close>

lemma decode_panics: "decode_projected_tool_name (''u_a'' @ [CHR 0xC3, CHR 0xA9] @ ''1_61'') = Inl ()"
  by code_simp

end
