(* ===== verification/Spec2Isabelle.thy ===== *)
theory Spec2Isabelle
  imports Lease_Lock Lease_Queue Http_Session_Properties Rate_Limit Admission Restart_Guard Tool_Cache_Properties
    Session_Pool_Properties Http_Upstream_Properties Http_Probe_Properties Lease_Runtime_Properties
    Server_Loader_Properties Settings_Effects Proxy_Uri Mcp_Http_Properties
    Config_Edit_Tables Projection_Properties
begin

text \<open>
  A verification library for MCPace, a local hub that multiplexes MCP clients onto MCP servers. This theory is the root:
  it imports every other one and explains the whole.

  \<^bold>\<open>The program.\<close> A client (an editor, an agent) talks JSON-RPC to the hub over HTTP or standard input. The HTTP
  boundary decides whether a request comes from the local machine (\<^verbatim>\<open>src/dashboard/http_boundary.rs\<close>), the
  rate limiter, the admission controller and the resource governor decide whether it may go on
  (\<^verbatim>\<open>rate_limit.rs\<close>, \<^verbatim>\<open>admission.rs\<close>, \<^verbatim>\<open>governor.rs\<close>), and the session store gives it an MCP session and refuses replayed
  request ids (\<^verbatim>\<open>http_session.rs\<close>). A tool call is then bound to an upstream server: the execution policy of that
  server says which calls may share a process (\<^verbatim>\<open>src/execution.rs\<close>), the call waits in a first-in-first-out lane
  (\<^verbatim>\<open>src/upstream/lease_queue.rs\<close>) and takes a lease in a document shared by all hub processes on the
  machine (\<^verbatim>\<open>src/hub/leases.rs\<close>). Before that the server is looked up among the configured ones
  (\<^verbatim>\<open>src/upstream/server_config.rs\<close>) and the tool is checked against the risk policies and the advertised tools
  (\<^verbatim>\<open>src/upstream/lease_runtime.rs\<close>). Tool lists come through a cache (\<^verbatim>\<open>src/upstream/tool_cache.rs\<close>);
  the server processes are kept in a pool of workers (\<^verbatim>\<open>src/upstream/session_pool.rs\<close>), and servers with a URL are reached over HTTP
  (\<^verbatim>\<open>src/upstream/http_runtime.rs\<close>, \<^verbatim>\<open>src/http_probe.rs\<close>). Launches are limited by
  the restart guard (\<^verbatim>\<open>src/restart_guard.rs\<close>).

  \<^bold>\<open>Conventions.\<close> A Rust string is the list of its UTF-8 bytes; character classes are the ASCII ones the code
  asks for. Unsigned integers are natural numbers with the saturating, wrapping or checked operation of the source written
  out (\<open>sat_add\<close>, \<open>checked_sub\<close>, 64-bit words for hashes). A \<open>BTreeMap\<close> is an ordered association list (\<open>bt_*\<close>), a \<open>HashMap\<close>
  an association list up to order (\<open>hm_*\<close>; runs contain reordering steps, so nothing depends on iteration order). Errors are
  the left summand. What the operating system, clocks, random numbers, \<open>DefaultHasher\<close> and \<open>serde_json\<close> answer is an argument of
  the definition that asks. A mutex makes its critical section one step; atomics are separate steps.

  \<^bold>\<open>Foundations.\<close>
  \<^item> \<open>Prelude\<close>: saturating arithmetic, ordered maps, the collections \<open>map_laws\<close> and \<open>text_defs\<close>.
  \<^item> \<open>Rust_Text\<close>, \<open>Net_Text\<close>: \<^verbatim>\<open>text_utils.rs\<close>, trimming, decimal numbers, splitting, IP addresses.
  \<^item> \<open>Text_Search\<close>: the substring search, splitting, lines and UTF-8 checks of the standard library.
  \<^item> \<open>Json\<close>: \<^verbatim>\<open>json.rs\<close>, \<^verbatim>\<open>json_helpers.rs\<close>.
  \<^item> \<open>Hash_Map\<close>: hash maps, eviction of the oldest entry, and the locale \<open>op_system\<close> of components with an invariant.

  \<^bold>\<open>Hub leases\<close> (\<^verbatim>\<open>hub/leases.rs\<close>).
  \<^item> \<open>Lease_Route\<close>, \<open>Lease_Store\<close>: routes, the document, conflicts, the closures of \<open>mutate_store\<close>.
  \<^item> \<open>Lease_Spec\<close>, \<open>Lease_Refinement\<close>: an abstract lease table and the simulation of it by the JSON document.
  \<^item> \<open>Lease_Properties\<close>, \<open>Lease_Sessions\<close>: exclusion, capacity, truthful answers, expiry, the session index.
  \<^item> \<open>Lease_Commands\<close>, \<open>Lease_Lock\<close>: the lock file with its 100 attempts, the commands, and the interleavings of processes.

  \<^bold>\<open>Serving.\<close> \<open>Http_Boundary\<close>, \<open>Http_Session\<close>, \<open>Http_Session_Properties\<close>, \<open>Rate_Limit\<close>, \<open>Admission\<close> (with the
  governor), \<open>Restart_Guard\<close>, \<open>Mcp_Protocol\<close> (\<^verbatim>\<open>mcp_protocol.rs\<close>); \<open>Tool_Result\<close> (\<^verbatim>\<open>tool_result.rs\<close>: the shape of
  results); \<open>Mcp_Http\<close>, \<open>Mcp_Http_Properties\<close> (the MCP endpoint, \<^verbatim>\<open>dashboard/mcp_http.rs\<close>: what must hold before anything
  behind it is called, and that no request runs twice).

  \<^bold>\<open>Calling upstream servers.\<close> \<open>Execution_Policy\<close>, \<open>Execution_Affinity\<close>, \<open>Lease_Queue\<close>, \<open>Tool_Cache\<close>,
  \<open>Tool_Cache_Properties\<close>; \<open>Tool_Pagination\<close> (the answers of upstream servers, \<^verbatim>\<open>upstream.rs\<close>); \<open>Session_Pool\<close> and
  \<open>Session_Pool_Properties\<close> (the pool of server processes as a step relation over threads: exclusive use, bounds).
  \<^item> \<open>Http_Probe\<close>, \<open>Http_Probe_Properties\<close>: responses, chunked bodies, event streams, the read loop.
  \<^item> \<open>Diagnostics\<close>: redaction of what servers print (\<^verbatim>\<open>upstream/diagnostics.rs\<close>).
  \<^item> \<open>Http_Upstream\<close>, \<open>Http_Upstream_Properties\<close>: URLs, requests, the session handshake and its end; framing, locality of
    plain connections, deletion of sessions. A Rust panic is the error value \<open>ProbePanic\<close>.
  \<^item> \<open>Server_Config\<close>: configured servers, their policies, commands and callability (\<^verbatim>\<open>upstream/server_config.rs\<close>,
    \<^verbatim>\<open>process_config.rs\<close>, \<^verbatim>\<open>source_type.rs\<close>, \<^verbatim>\<open>upstream.rs\<close>). Paths follow the Unix conventions.
  \<^item> \<open>Tool_Policy\<close>: risk policies, grants, wildcard patterns against a reference glob, advertised tools.
  \<^item> \<open>Policy_Audit\<close>, \<open>Projection\<close>, \<open>Projection_Properties\<close>: the advisory audit of tools (\<^verbatim>\<open>upstream/policy_audit.rs\<close>) and the
    catalogue of projected tools (\<^verbatim>\<open>upstream/projection.rs\<close>): names that decode, no guarded tool offered.
  \<^item> \<open>Tool_Audit\<close>: token usage, classification and audit records of calls.
  \<^item> \<open>Lease_Runtime\<close>, \<open>Lease_Runtime_Example\<close>, \<open>Lease_Runtime_Properties\<close>: the whole of a tool call
    (\<^verbatim>\<open>upstream/lease_runtime.rs\<close>): lane, lease, heartbeat, checks, exchange, release, audit. Other threads and processes change
    the lease file and the lanes between any two steps. The trace of a call is compared with an automaton of its phases.

  \<^bold>\<open>Planning\<close> (\<^verbatim>\<open>src/client\<close>, \<^verbatim>\<open>src/client_catalog.rs\<close>, \<^verbatim>\<open>src/server/model.rs\<close>). The hub takes its routes from a plan
  that is made afresh for each request.
  \<^item> \<open>Client_Path\<close>, \<open>Client_Context\<close>: path keys and lexical containment; who asks, from which session and project.
  \<^item> \<open>Client_Catalog\<close>: the known clients and the merging of extension catalogues.
  \<^item> \<open>Server_Record\<close>, \<open>Client_Plan\<close>, \<open>Client_Plan_Properties\<close>: the plan of each server, its JSON form as \<open>Lease_Route\<close> reads
    it, which servers can be routed and which requests share a lease key.

  \<^bold>\<open>The inventory\<close> (\<^verbatim>\<open>src/server/loader.rs\<close>). The records the plan starts from.
  \<^item> \<open>Server_Signals\<close>, \<open>Server_Inference\<close>: words and signals of a command line, and the policy, classes and lock domains inferred.
  \<^item> \<open>Server_Evidence\<close>: confidence scores in binary64 arithmetic, decisions and their JSON.
  \<^item> \<open>Server_Loader\<close>, \<open>Server_Loader_Lemmas\<close>, \<open>Server_Loader_Example\<close>, \<open>Server_Loader_Properties\<close>: the records of declared and
    undeclared servers; one record per server, no route without the consent of source, profile and platform, agreement with
    the upstream runtime of \<open>Server_Config\<close>, and what may be shared by inference.

  \<^bold>\<open>Files and settings\<close> (\<^verbatim>\<open>src/runtimepaths.rs\<close>, \<^verbatim>\<open>src/mcp_sources.rs\<close> and its modules). A file system maps paths to contents; the
  environment says which operation fails.
  \<^item> \<open>File_System\<close>: atomic replacement with all states in between, lock files, bounded reads.
  \<^item> \<open>Serve_Endpoint\<close>: the endpoint and its URLs, the paths of the state.
  \<^item> \<open>Settings_Sources\<close>: the settings files in their order, the registry of servers, the fingerprint.
  \<^item> \<open>Settings_Write\<close>, \<open>Settings_Write_Properties\<close>, \<open>Settings_Example\<close>, \<open>Settings_Effects\<close>: adding, removing and switching
    servers under both locks; which URLs are accepted, that an edit changes its file only and that the next load shows it.
  \<^item> \<open>Config_Edit\<close>, \<open>Config_Edit_Properties\<close>, \<open>Config_Edit_Tables\<close>: the entry of the hub in the files of clients
    (\<^verbatim>\<open>config_edit.rs\<close>, \<^verbatim>\<open>codex_config.rs\<close>): installing and removing is a round trip, and no edit loses another server's table.
  \<^item> \<open>Proxy_Uri\<close>: the URIs of proxied resources (\<^verbatim>\<open>adapter/proxy_uri.rs\<close>) and their round trip.

  \<^bold>\<open>Bounds.\<close> Loops of the source are structural recursions or have a proved measure. The lock loop takes its 100
  attempts from the source, eviction loops shrink the map, the waits of a lane take the sequence of clock readings as an
  argument and are proved to end once a reading passes the deadline; so are the attempts to get a lease, whose number of
  rounds is a field of the environment.

  \<^bold>\<open>Not modelled.\<close> Sockets, child processes, the browser front end, operating system services and the printing of
  reports.
\<close>

end
